(* ===== verification/Odbc_Prelude.thy ===== *)
theory Odbc_Prelude
  imports Main "HOL-Library.Word" "HOL-Library.AList"
begin

text \<open>
  Shared ground of the development: the C character classes and the string helpers of
  \<^verbatim>\<open>include/timestream/odbc/utils.h\<close> and \<^verbatim>\<open>src/utility.cpp\<close> that several components call,
  the fixed width conversions of the language, the nullable out-pointers of the ODBC calls, and
  the collections of rewrite rules the component theories add to.
\<close>

named_theorems conf_simps \<open>configuration records and settable values\<close>
named_theorems diag_simps \<open>diagnostic storage\<close>
named_theorems stmt_simps \<open>statement and query operations\<close>

type_synonym i32 = int
type_synonym i64 = int

section \<open>Conversions between integer types\<close>

text \<open>A conversion to a signed integer type of the given width keeps the low bits, as the
  two's complement targets of the driver do.\<close>

definition to_int8 :: "int \<Rightarrow> int" where
  "to_int8 x = signed_take_bit 7 x"

definition to_int16 :: "int \<Rightarrow> int" where
  "to_int16 x = signed_take_bit 15 x"

definition to_int32 :: "int \<Rightarrow> int" where
  "to_int32 x = signed_take_bit 31 x"

definition to_int64 :: "int \<Rightarrow> int" where
  "to_int64 x = signed_take_bit 63 x"

definition to_uint32 :: "int \<Rightarrow> int" where
  "to_uint32 x = x mod 2 ^ 32"

lemma to_int32_id: "- (2 ^ 31) \<le> x \<Longrightarrow> x < 2 ^ 31 \<Longrightarrow> to_int32 x = x"
  by (simp add: to_int32_def signed_take_bit_int_eq_self)

lemma to_int64_id: "- (2 ^ 63) \<le> x \<Longrightarrow> x < 2 ^ 63 \<Longrightarrow> to_int64 x = x"
  by (simp add: to_int64_def signed_take_bit_int_eq_self)

lemma to_int32_range: "- (2 ^ 31) \<le> to_int32 x \<and> to_int32 x < 2 ^ 31"
  using signed_take_bit_int_greater_eq_minus_exp [of 31 x] signed_take_bit_int_less_exp [of 31 x]
  by (simp add: to_int32_def)

lemma to_int64_range: "- (2 ^ 63) \<le> to_int64 x \<and> to_int64 x < 2 ^ 63"
  using signed_take_bit_int_greater_eq_minus_exp [of 63 x] signed_take_bit_int_less_exp [of 63 x]
  by (simp add: to_int64_def)

text \<open>Integer division and remainder of the language truncate towards zero.\<close>

definition c_div :: "int \<Rightarrow> int \<Rightarrow> int" where
  "c_div a b = sgn a * sgn b * (\<bar>a\<bar> div \<bar>b\<bar>)"

definition c_mod :: "int \<Rightarrow> int \<Rightarrow> int" where
  "c_mod a b = a - b * c_div a b"

lemma c_div_nonneg: "0 \<le> a \<Longrightarrow> 0 < b \<Longrightarrow> c_div a b = a div b"
  by (cases "a = 0") (simp_all add: c_div_def)

lemma c_mod_nonneg: "0 \<le> a \<Longrightarrow> 0 < b \<Longrightarrow> c_mod a b = a mod b"
  by (simp add: c_mod_def c_div_nonneg minus_mult_div_eq_mod)

lemma c_div_mod: "c_div a b * b + c_mod a b = a"
  by (simp add: c_mod_def algebra_simps)

section \<open>Characters and strings\<close>

definition char_code :: "char \<Rightarrow> nat" where
  "char_code c = of_char c"

definition isdigit :: "char \<Rightarrow> bool" where
  "isdigit c \<longleftrightarrow> 48 \<le> char_code c \<and> char_code c \<le> 57"

definition isspace :: "char \<Rightarrow> bool" where
  "isspace c \<longleftrightarrow> char_code c = 32 \<or> 9 \<le> char_code c \<and> char_code c \<le> 13"

definition isupper :: "char \<Rightarrow> bool" where
  "isupper c \<longleftrightarrow> 65 \<le> char_code c \<and> char_code c \<le> 90"

definition islower :: "char \<Rightarrow> bool" where
  "islower c \<longleftrightarrow> 97 \<le> char_code c \<and> char_code c \<le> 122"

definition isalnum :: "char \<Rightarrow> bool" where
  "isalnum c \<longleftrightarrow> isdigit c \<or> isupper c \<or> islower c"

definition tolower :: "char \<Rightarrow> char" where
  "tolower c = (if isupper c then char_of (char_code c + 32) else c)"

definition toupper :: "char \<Rightarrow> char" where
  "toupper c = (if islower c then char_of (char_code c - 32) else c)"

definition NUL :: char where
  "NUL = char_of (0::nat)"

text \<open>\<^verbatim>\<open>common::ToLower\<close>: every byte of the copy goes through \<^verbatim>\<open>tolower\<close>.\<close>

definition ToLower :: "string \<Rightarrow> string" where
  "ToLower s = map tolower s"

definition ToUpper :: "string \<Rightarrow> string" where
  "ToUpper s = map toupper s"

text \<open>\<^verbatim>\<open>common::AllDigits\<close>: advance while the character is a digit, then compare with the end.\<close>

definition AllDigits :: "string \<Rightarrow> bool" where
  "AllDigits s = (dropWhile isdigit s = [])"

text \<open>\<^verbatim>\<open>utility::Ltrim\<close>, \<^verbatim>\<open>Rtrim\<close>, \<^verbatim>\<open>Trim\<close>: the regular expressions replace the
  longest run of space characters at the beginning and at the end of the string.\<close>

definition Ltrim :: "string \<Rightarrow> string" where
  "Ltrim s = dropWhile isspace s"

definition Rtrim :: "string \<Rightarrow> string" where
  "Rtrim s = rev (dropWhile isspace (rev s))"

definition Trim :: "string \<Rightarrow> string" where
  "Trim s = Ltrim (Rtrim s)"

definition trimmed :: "string \<Rightarrow> bool" where
  "trimmed s \<longleftrightarrow> s = [] \<or> \<not> isspace (hd s) \<and> \<not> isspace (last s)"

lemma AllDigits_iff: "AllDigits s \<longleftrightarrow> (\<forall>c \<in> set s. isdigit c)"
  by (simp add: AllDigits_def dropWhile_eq_Nil_conv)

lemma Ltrim_id: "s = [] \<or> \<not> isspace (hd s) \<Longrightarrow> Ltrim s = s"
  by (cases s) (auto simp: Ltrim_def)

lemma Rtrim_id: "s = [] \<or> \<not> isspace (last s) \<Longrightarrow> Rtrim s = s"
  by (cases s rule: rev_cases) (auto simp: Rtrim_def)

lemma Trim_id: "trimmed s \<Longrightarrow> Trim s = s"
  by (auto simp: Trim_def trimmed_def Ltrim_id Rtrim_id)

lemma Ltrim_hd: "Ltrim s = [] \<or> \<not> isspace (hd (Ltrim s))"
  using hd_dropWhile [of isspace s] by (auto simp: Ltrim_def)

lemma Rtrim_last: "Rtrim s = [] \<or> \<not> isspace (last (Rtrim s))"
  using hd_dropWhile [of isspace "rev s"] by (auto simp: Rtrim_def last_rev)

lemma last_dropWhile: "dropWhile P xs \<noteq> [] \<Longrightarrow> last (dropWhile P xs) = last xs"
  by (induction xs) auto

lemma trimmed_Trim: "trimmed (Trim s)"
proof (cases "Trim s = []")
  case True
  then show ?thesis by (simp add: trimmed_def)
next
  case False
  then have ne: "Rtrim s \<noteq> []" by (auto simp: Trim_def Ltrim_def)
  have "last (Trim s) = last (Rtrim s)"
    using False by (simp add: Trim_def Ltrim_def last_dropWhile)
  with False ne show ?thesis
    using Ltrim_hd [of "Rtrim s"] Rtrim_last [of s] by (auto simp: trimmed_def Trim_def)
qed

lemma Trim_idem [simp]: "Trim (Trim s) = Trim s"
  by (rule Trim_id) (rule trimmed_Trim)

lemma char_code_lt: "char_code c < 256"
  by (simp add: char_code_def)

lemma char_code_char_of: "n < 256 \<Longrightarrow> char_code (char_of n) = n"
  by (simp add: char_code_def of_char_of)

lemma NUL_neq: "char_code c \<noteq> 0 \<Longrightarrow> NUL \<noteq> c"
  by (auto simp: NUL_def char_code_char_of)

lemma tolower_idem [simp]: "tolower (tolower c) = tolower c"
proof (cases "isupper c")
  case True
  then have "char_code (tolower c) = char_code c + 32"
    by (simp add: tolower_def isupper_def char_code_char_of)
  with True show ?thesis by (simp add: isupper_def tolower_def)
qed (simp add: tolower_def)

lemma ToLower_idem [simp]: "ToLower (ToLower s) = ToLower s"
  by (simp add: ToLower_def)

lemma length_ToLower [simp]: "length (ToLower s) = length s"
  by (simp add: ToLower_def)

section \<open>Decimal numbers in strings\<close>

definition digit_val :: "char \<Rightarrow> int" where
  "digit_val c = int (char_code c) - 48"

text \<open>Value of a run of decimal digits, most significant first.\<close>

definition dec_val :: "string \<Rightarrow> int" where
  "dec_val s = foldl (\<lambda>a c. 10 * a + digit_val c) 0 s"

lemma foldl_dec_nonneg:
  "0 \<le> a \<Longrightarrow> \<forall>c \<in> set s. isdigit c \<Longrightarrow> 0 \<le> foldl (\<lambda>a c. 10 * a + digit_val c) a s"
  by (induction s arbitrary: a) (auto simp: digit_val_def isdigit_def)

lemma dec_val_nonneg: "AllDigits s \<Longrightarrow> 0 \<le> dec_val s"
  by (simp add: dec_val_def AllDigits_iff foldl_dec_nonneg)

text \<open>Decimal rendering of an integer, as stream insertion writes it.\<close>

fun nat_digits :: "nat \<Rightarrow> string" where
  "nat_digits n =
     (if n < 10 then [char_of (48 + n)] else nat_digits (n div 10) @ [char_of (48 + n mod 10)])"

declare nat_digits.simps [simp del]

definition int_str :: "int \<Rightarrow> string" where
  "int_str i = (if i < 0 then CHR ''-'' # nat_digits (nat (- i)) else nat_digits (nat i))"

lemma digit_char: "n < 10 \<Longrightarrow> isdigit (char_of (48 + n)) \<and> digit_val (char_of (48 + n)) = int n"
  by (simp add: isdigit_def digit_val_def char_code_char_of)

lemma nat_digits_AllDigits: "AllDigits (nat_digits n)"
proof (induction n rule: nat_digits.induct)
  case (1 n)
  show ?case
  proof (cases "n < 10")
    case True
    then show ?thesis
      using digit_char [of n] by (subst nat_digits.simps) (simp add: AllDigits_iff)
  next
    case False
    with 1 have "AllDigits (nat_digits (n div 10))" by simp
    with False show ?thesis
      using digit_char [of "n mod 10"] by (subst nat_digits.simps) (simp add: AllDigits_iff)
  qed
qed

lemma nat_digits_ne [simp]: "nat_digits n \<noteq> []"
  by (subst nat_digits.simps) simp

lemma dec_val_snoc: "dec_val (s @ [c]) = 10 * dec_val s + digit_val c"
  by (simp add: dec_val_def)

lemma dec_val_nat_digits: "dec_val (nat_digits n) = int n"
proof (induction n rule: nat_digits.induct)
  case (1 n)
  show ?case
  proof (cases "n < 10")
    case True
    then show ?thesis
      using digit_char [of n] by (subst nat_digits.simps) (simp add: dec_val_def)
  next
    case False
    with 1 have "dec_val (nat_digits (n div 10)) = int (n div 10)" by simp
    with False show ?thesis
      using digit_char [of "n mod 10"]
      by (subst nat_digits.simps) (simp add: dec_val_snoc, presburger)
  qed
qed

section \<open>Out-parameters\<close>

text \<open>A C out-pointer that may be null: absent, or present with the value last stored. Storing
  through a null pointer is guarded in the source by a test, which is the \<^verbatim>\<open>None\<close> case.\<close>

definition store_if :: "'a option \<Rightarrow> 'a \<Rightarrow> 'a option" where
  "store_if p v = (case p of None \<Rightarrow> None | Some _ \<Rightarrow> Some v)"

lemma store_if_simps [simp]: "store_if None v = None" "store_if (Some x) v = Some v"
  by (simp_all add: store_if_def)

end
