(* ===== verification/Odbc_Constants.thy ===== *)
theory Odbc_Constants
  imports Odbc_Prelude
begin

text \<open>
  The numeric constants of the ODBC 3 application programming interface (\<^verbatim>\<open>sql.h\<close> and
  \<^verbatim>\<open>sqlext.h\<close>) that the driver's switch statements range over. They are fixed by the
  interface, so they are abbreviations for numerals: distinctness and aliasing (for instance
  \<^verbatim>\<open>SQL_C_DATE\<close> = \<^verbatim>\<open>SQL_DATETIME\<close> = 9) are decided by the simplifier.
\<close>

section \<open>Return codes\<close>

abbreviation (input) SQL_SUCCESS :: int where "SQL_SUCCESS \<equiv> 0"
abbreviation (input) SQL_SUCCESS_WITH_INFO :: int where "SQL_SUCCESS_WITH_INFO \<equiv> 1"
abbreviation (input) SQL_NEED_DATA :: int where "SQL_NEED_DATA \<equiv> 99"
abbreviation (input) SQL_NO_DATA :: int where "SQL_NO_DATA \<equiv> 100"
abbreviation (input) SQL_ERROR :: int where "SQL_ERROR \<equiv> -1"
abbreviation (input) SQL_NULL_DATA :: int where "SQL_NULL_DATA \<equiv> -1"
abbreviation (input) SQL_NTS :: int where "SQL_NTS \<equiv> -3"
abbreviation (input) SQL_IS_POINTER :: int where "SQL_IS_POINTER \<equiv> -4"
abbreviation (input) SQL_IS_UINTEGER :: int where "SQL_IS_UINTEGER \<equiv> -5"
abbreviation (input) SQL_IS_INTEGER :: int where "SQL_IS_INTEGER \<equiv> -6"
abbreviation (input) SQL_TRUE :: int where "SQL_TRUE \<equiv> 1"
abbreviation (input) SQL_FALSE :: int where "SQL_FALSE \<equiv> 0"

section \<open>SQL data types\<close>

abbreviation (input) SQL_CHAR :: int where "SQL_CHAR \<equiv> 1"
abbreviation (input) SQL_NUMERIC :: int where "SQL_NUMERIC \<equiv> 2"
abbreviation (input) SQL_DECIMAL :: int where "SQL_DECIMAL \<equiv> 3"
abbreviation (input) SQL_INTEGER :: int where "SQL_INTEGER \<equiv> 4"
abbreviation (input) SQL_SMALLINT :: int where "SQL_SMALLINT \<equiv> 5"
abbreviation (input) SQL_FLOAT :: int where "SQL_FLOAT \<equiv> 6"
abbreviation (input) SQL_REAL :: int where "SQL_REAL \<equiv> 7"
abbreviation (input) SQL_DOUBLE :: int where "SQL_DOUBLE \<equiv> 8"
abbreviation (input) SQL_DATETIME :: int where "SQL_DATETIME \<equiv> 9"
abbreviation (input) SQL_INTERVAL :: int where "SQL_INTERVAL \<equiv> 10"
abbreviation (input) SQL_VARCHAR :: int where "SQL_VARCHAR \<equiv> 12"
abbreviation (input) SQL_TYPE_DATE :: int where "SQL_TYPE_DATE \<equiv> 91"
abbreviation (input) SQL_TYPE_TIME :: int where "SQL_TYPE_TIME \<equiv> 92"
abbreviation (input) SQL_TYPE_TIMESTAMP :: int where "SQL_TYPE_TIMESTAMP \<equiv> 93"
abbreviation (input) SQL_TYPE_NULL :: int where "SQL_TYPE_NULL \<equiv> 0"
abbreviation (input) SQL_ALL_TYPES :: int where "SQL_ALL_TYPES \<equiv> 0"
abbreviation (input) SQL_LONGVARCHAR :: int where "SQL_LONGVARCHAR \<equiv> -1"
abbreviation (input) SQL_BINARY :: int where "SQL_BINARY \<equiv> -2"
abbreviation (input) SQL_VARBINARY :: int where "SQL_VARBINARY \<equiv> -3"
abbreviation (input) SQL_LONGVARBINARY :: int where "SQL_LONGVARBINARY \<equiv> -4"
abbreviation (input) SQL_BIGINT :: int where "SQL_BIGINT \<equiv> -5"
abbreviation (input) SQL_TINYINT :: int where "SQL_TINYINT \<equiv> -6"
abbreviation (input) SQL_BIT :: int where "SQL_BIT \<equiv> -7"
abbreviation (input) SQL_WCHAR :: int where "SQL_WCHAR \<equiv> -8"
abbreviation (input) SQL_WVARCHAR :: int where "SQL_WVARCHAR \<equiv> -9"
abbreviation (input) SQL_WLONGVARCHAR :: int where "SQL_WLONGVARCHAR \<equiv> -10"
abbreviation (input) SQL_GUID :: int where "SQL_GUID \<equiv> -11"

abbreviation (input) SQL_CODE_DATE :: int where "SQL_CODE_DATE \<equiv> 1"
abbreviation (input) SQL_CODE_TIME :: int where "SQL_CODE_TIME \<equiv> 2"
abbreviation (input) SQL_CODE_TIMESTAMP :: int where "SQL_CODE_TIMESTAMP \<equiv> 3"
abbreviation (input) SQL_CODE_YEAR_TO_MONTH :: int where "SQL_CODE_YEAR_TO_MONTH \<equiv> 7"
abbreviation (input) SQL_CODE_DAY_TO_SECOND :: int where "SQL_CODE_DAY_TO_SECOND \<equiv> 10"

abbreviation (input) SQL_INTERVAL_YEAR :: int where "SQL_INTERVAL_YEAR \<equiv> 101"
abbreviation (input) SQL_INTERVAL_MONTH :: int where "SQL_INTERVAL_MONTH \<equiv> 102"
abbreviation (input) SQL_INTERVAL_DAY :: int where "SQL_INTERVAL_DAY \<equiv> 103"
abbreviation (input) SQL_INTERVAL_HOUR :: int where "SQL_INTERVAL_HOUR \<equiv> 104"
abbreviation (input) SQL_INTERVAL_MINUTE :: int where "SQL_INTERVAL_MINUTE \<equiv> 105"
abbreviation (input) SQL_INTERVAL_SECOND :: int where "SQL_INTERVAL_SECOND \<equiv> 106"
abbreviation (input) SQL_INTERVAL_YEAR_TO_MONTH :: int where "SQL_INTERVAL_YEAR_TO_MONTH \<equiv> 107"
abbreviation (input) SQL_INTERVAL_DAY_TO_HOUR :: int where "SQL_INTERVAL_DAY_TO_HOUR \<equiv> 108"
abbreviation (input) SQL_INTERVAL_DAY_TO_MINUTE :: int where "SQL_INTERVAL_DAY_TO_MINUTE \<equiv> 109"
abbreviation (input) SQL_INTERVAL_DAY_TO_SECOND :: int where "SQL_INTERVAL_DAY_TO_SECOND \<equiv> 110"
abbreviation (input) SQL_INTERVAL_HOUR_TO_MINUTE :: int where "SQL_INTERVAL_HOUR_TO_MINUTE \<equiv> 111"
abbreviation (input) SQL_INTERVAL_HOUR_TO_SECOND :: int where "SQL_INTERVAL_HOUR_TO_SECOND \<equiv> 112"
abbreviation (input) SQL_INTERVAL_MINUTE_TO_SECOND :: int where "SQL_INTERVAL_MINUTE_TO_SECOND \<equiv> 113"

section \<open>C data types (those that differ from the SQL constant of the same name)\<close>

abbreviation (input) SQL_C_SSHORT :: int where "SQL_C_SSHORT \<equiv> -15"
abbreviation (input) SQL_C_SHORT :: int where "SQL_C_SHORT \<equiv> 5"
abbreviation (input) SQL_C_USHORT :: int where "SQL_C_USHORT \<equiv> -17"
abbreviation (input) SQL_C_SLONG :: int where "SQL_C_SLONG \<equiv> -16"
abbreviation (input) SQL_C_LONG :: int where "SQL_C_LONG \<equiv> 4"
abbreviation (input) SQL_C_ULONG :: int where "SQL_C_ULONG \<equiv> -18"
abbreviation (input) SQL_C_FLOAT :: int where "SQL_C_FLOAT \<equiv> 7"
abbreviation (input) SQL_C_STINYINT :: int where "SQL_C_STINYINT \<equiv> -26"
abbreviation (input) SQL_C_UTINYINT :: int where "SQL_C_UTINYINT \<equiv> -28"
abbreviation (input) SQL_C_SBIGINT :: int where "SQL_C_SBIGINT \<equiv> -25"
abbreviation (input) SQL_C_UBIGINT :: int where "SQL_C_UBIGINT \<equiv> -27"
abbreviation (input) SQL_C_DATE :: int where "SQL_C_DATE \<equiv> 9"
abbreviation (input) SQL_C_TIME :: int where "SQL_C_TIME \<equiv> 10"
abbreviation (input) SQL_C_TIMESTAMP :: int where "SQL_C_TIMESTAMP \<equiv> 11"
abbreviation (input) SQL_C_DEFAULT :: int where "SQL_C_DEFAULT \<equiv> 99"

section \<open>Diagnostic fields\<close>

abbreviation (input) SQL_DIAG_CURSOR_ROW_COUNT :: int where "SQL_DIAG_CURSOR_ROW_COUNT \<equiv> -1249"
abbreviation (input) SQL_DIAG_ROW_NUMBER :: int where "SQL_DIAG_ROW_NUMBER \<equiv> -1248"
abbreviation (input) SQL_DIAG_COLUMN_NUMBER :: int where "SQL_DIAG_COLUMN_NUMBER \<equiv> -1247"
abbreviation (input) SQL_DIAG_RETURNCODE :: int where "SQL_DIAG_RETURNCODE \<equiv> 1"
abbreviation (input) SQL_DIAG_NUMBER :: int where "SQL_DIAG_NUMBER \<equiv> 2"
abbreviation (input) SQL_DIAG_ROW_COUNT :: int where "SQL_DIAG_ROW_COUNT \<equiv> 3"
abbreviation (input) SQL_DIAG_SQLSTATE :: int where "SQL_DIAG_SQLSTATE \<equiv> 4"
abbreviation (input) SQL_DIAG_NATIVE :: int where "SQL_DIAG_NATIVE \<equiv> 5"
abbreviation (input) SQL_DIAG_MESSAGE_TEXT :: int where "SQL_DIAG_MESSAGE_TEXT \<equiv> 6"
abbreviation (input) SQL_DIAG_DYNAMIC_FUNCTION :: int where "SQL_DIAG_DYNAMIC_FUNCTION \<equiv> 7"
abbreviation (input) SQL_DIAG_CLASS_ORIGIN :: int where "SQL_DIAG_CLASS_ORIGIN \<equiv> 8"
abbreviation (input) SQL_DIAG_SUBCLASS_ORIGIN :: int where "SQL_DIAG_SUBCLASS_ORIGIN \<equiv> 9"
abbreviation (input) SQL_DIAG_CONNECTION_NAME :: int where "SQL_DIAG_CONNECTION_NAME \<equiv> 10"
abbreviation (input) SQL_DIAG_SERVER_NAME :: int where "SQL_DIAG_SERVER_NAME \<equiv> 11"
abbreviation (input) SQL_DIAG_DYNAMIC_FUNCTION_CODE :: int where "SQL_DIAG_DYNAMIC_FUNCTION_CODE \<equiv> 12"

section \<open>Attributes\<close>

abbreviation (input) SQL_ATTR_ODBC_VERSION :: int where "SQL_ATTR_ODBC_VERSION \<equiv> 200"
abbreviation (input) SQL_ATTR_OUTPUT_NTS :: int where "SQL_ATTR_OUTPUT_NTS \<equiv> 10001"
abbreviation (input) SQL_OV_ODBC2 :: int where "SQL_OV_ODBC2 \<equiv> 2"
abbreviation (input) SQL_OV_ODBC3 :: int where "SQL_OV_ODBC3 \<equiv> 3"
abbreviation (input) SQL_ATTR_CONNECTION_DEAD :: int where "SQL_ATTR_CONNECTION_DEAD \<equiv> 1209"
abbreviation (input) SQL_ATTR_CONNECTION_TIMEOUT :: int where "SQL_ATTR_CONNECTION_TIMEOUT \<equiv> 113"
abbreviation (input) SQL_ATTR_AUTOCOMMIT :: int where "SQL_ATTR_AUTOCOMMIT \<equiv> 102"
abbreviation (input) SQL_ATTR_METADATA_ID :: int where "SQL_ATTR_METADATA_ID \<equiv> 10014"
abbreviation (input) SQL_ATTR_AUTO_IPD :: int where "SQL_ATTR_AUTO_IPD \<equiv> 10001"
abbreviation (input) SQL_ATTR_ASYNC_ENABLE :: int where "SQL_ATTR_ASYNC_ENABLE \<equiv> 4"
abbreviation (input) SQL_ATTR_ANSI_APP :: int where "SQL_ATTR_ANSI_APP \<equiv> 115"
abbreviation (input) SQL_ATTR_TSLOG_DEBUG :: int where "SQL_ATTR_TSLOG_DEBUG \<equiv> 65536"
abbreviation (input) SQL_LOGIN_TIMEOUT :: int where "SQL_LOGIN_TIMEOUT \<equiv> 103"
abbreviation (input) SQL_CD_TRUE :: int where "SQL_CD_TRUE \<equiv> 1"
abbreviation (input) SQL_CD_FALSE :: int where "SQL_CD_FALSE \<equiv> 0"
abbreviation (input) SQL_AUTOCOMMIT_OFF :: int where "SQL_AUTOCOMMIT_OFF \<equiv> 0"
abbreviation (input) SQL_AUTOCOMMIT_ON :: int where "SQL_AUTOCOMMIT_ON \<equiv> 1"
abbreviation (input) SQL_ASYNC_ENABLE_OFF :: int where "SQL_ASYNC_ENABLE_OFF \<equiv> 0"

section \<open>Fetching and freeing\<close>

abbreviation (input) SQL_FETCH_NEXT :: int where "SQL_FETCH_NEXT \<equiv> 1"
abbreviation (input) SQL_CLOSE :: int where "SQL_CLOSE \<equiv> 0"
abbreviation (input) SQL_DROP :: int where "SQL_DROP \<equiv> 1"
abbreviation (input) SQL_UNBIND :: int where "SQL_UNBIND \<equiv> 2"
abbreviation (input) SQL_ROW_SUCCESS :: int where "SQL_ROW_SUCCESS \<equiv> 0"
abbreviation (input) SQL_ROW_NOROW :: int where "SQL_ROW_NOROW \<equiv> 3"
abbreviation (input) SQL_ROW_ERROR :: int where "SQL_ROW_ERROR \<equiv> 5"
abbreviation (input) SQL_ROW_SUCCESS_WITH_INFO :: int where "SQL_ROW_SUCCESS_WITH_INFO \<equiv> 6"

section \<open>Nullability\<close>

abbreviation (input) SQL_NO_NULLS :: int where "SQL_NO_NULLS \<equiv> 0"
abbreviation (input) SQL_NULLABLE :: int where "SQL_NULLABLE \<equiv> 1"
abbreviation (input) SQL_NULLABLE_UNKNOWN :: int where "SQL_NULLABLE_UNKNOWN \<equiv> 2"

section \<open>Descriptor fields\<close>

abbreviation (input) SQL_DESC_COUNT :: int where "SQL_DESC_COUNT \<equiv> 1001"
abbreviation (input) SQL_DESC_TYPE :: int where "SQL_DESC_TYPE \<equiv> 1002"
abbreviation (input) SQL_DESC_LENGTH :: int where "SQL_DESC_LENGTH \<equiv> 1003"
abbreviation (input) SQL_DESC_OCTET_LENGTH_PTR :: int where "SQL_DESC_OCTET_LENGTH_PTR \<equiv> 1004"
abbreviation (input) SQL_DESC_PRECISION :: int where "SQL_DESC_PRECISION \<equiv> 1005"
abbreviation (input) SQL_DESC_SCALE :: int where "SQL_DESC_SCALE \<equiv> 1006"
abbreviation (input) SQL_DESC_DATETIME_INTERVAL_CODE :: int where "SQL_DESC_DATETIME_INTERVAL_CODE \<equiv> 1007"
abbreviation (input) SQL_DESC_NULLABLE :: int where "SQL_DESC_NULLABLE \<equiv> 1008"
abbreviation (input) SQL_DESC_INDICATOR_PTR :: int where "SQL_DESC_INDICATOR_PTR \<equiv> 1009"
abbreviation (input) SQL_DESC_DATA_PTR :: int where "SQL_DESC_DATA_PTR \<equiv> 1010"
abbreviation (input) SQL_DESC_NAME :: int where "SQL_DESC_NAME \<equiv> 1011"
abbreviation (input) SQL_DESC_UNNAMED :: int where "SQL_DESC_UNNAMED \<equiv> 1012"
abbreviation (input) SQL_DESC_OCTET_LENGTH :: int where "SQL_DESC_OCTET_LENGTH \<equiv> 1013"
abbreviation (input) SQL_DESC_ALLOC_TYPE :: int where "SQL_DESC_ALLOC_TYPE \<equiv> 1099"
abbreviation (input) SQL_DESC_ARRAY_SIZE :: int where "SQL_DESC_ARRAY_SIZE \<equiv> 20"
abbreviation (input) SQL_DESC_ARRAY_STATUS_PTR :: int where "SQL_DESC_ARRAY_STATUS_PTR \<equiv> 21"
abbreviation (input) SQL_DESC_AUTO_UNIQUE_VALUE :: int where "SQL_DESC_AUTO_UNIQUE_VALUE \<equiv> 11"
abbreviation (input) SQL_DESC_BASE_COLUMN_NAME :: int where "SQL_DESC_BASE_COLUMN_NAME \<equiv> 22"
abbreviation (input) SQL_DESC_BASE_TABLE_NAME :: int where "SQL_DESC_BASE_TABLE_NAME \<equiv> 23"
abbreviation (input) SQL_DESC_BIND_OFFSET_PTR :: int where "SQL_DESC_BIND_OFFSET_PTR \<equiv> 24"
abbreviation (input) SQL_DESC_BIND_TYPE :: int where "SQL_DESC_BIND_TYPE \<equiv> 25"
abbreviation (input) SQL_DESC_CASE_SENSITIVE :: int where "SQL_DESC_CASE_SENSITIVE \<equiv> 12"
abbreviation (input) SQL_DESC_CATALOG_NAME :: int where "SQL_DESC_CATALOG_NAME \<equiv> 17"
abbreviation (input) SQL_DESC_CONCISE_TYPE :: int where "SQL_DESC_CONCISE_TYPE \<equiv> 2"
abbreviation (input) SQL_DESC_DATETIME_INTERVAL_PRECISION :: int where "SQL_DESC_DATETIME_INTERVAL_PRECISION \<equiv> 26"
abbreviation (input) SQL_DESC_DISPLAY_SIZE :: int where "SQL_DESC_DISPLAY_SIZE \<equiv> 6"
abbreviation (input) SQL_DESC_FIXED_PREC_SCALE :: int where "SQL_DESC_FIXED_PREC_SCALE \<equiv> 9"
abbreviation (input) SQL_DESC_LABEL :: int where "SQL_DESC_LABEL \<equiv> 18"
abbreviation (input) SQL_DESC_LITERAL_PREFIX :: int where "SQL_DESC_LITERAL_PREFIX \<equiv> 27"
abbreviation (input) SQL_DESC_LITERAL_SUFFIX :: int where "SQL_DESC_LITERAL_SUFFIX \<equiv> 28"
abbreviation (input) SQL_DESC_LOCAL_TYPE_NAME :: int where "SQL_DESC_LOCAL_TYPE_NAME \<equiv> 29"
abbreviation (input) SQL_DESC_NUM_PREC_RADIX :: int where "SQL_DESC_NUM_PREC_RADIX \<equiv> 32"
abbreviation (input) SQL_DESC_PARAMETER_TYPE :: int where "SQL_DESC_PARAMETER_TYPE \<equiv> 33"
abbreviation (input) SQL_DESC_ROWS_PROCESSED_PTR :: int where "SQL_DESC_ROWS_PROCESSED_PTR \<equiv> 34"
abbreviation (input) SQL_DESC_ROWVER :: int where "SQL_DESC_ROWVER \<equiv> 35"
abbreviation (input) SQL_DESC_SCHEMA_NAME :: int where "SQL_DESC_SCHEMA_NAME \<equiv> 16"
abbreviation (input) SQL_DESC_SEARCHABLE :: int where "SQL_DESC_SEARCHABLE \<equiv> 13"
abbreviation (input) SQL_DESC_TYPE_NAME :: int where "SQL_DESC_TYPE_NAME \<equiv> 14"
abbreviation (input) SQL_DESC_TABLE_NAME :: int where "SQL_DESC_TABLE_NAME \<equiv> 15"
abbreviation (input) SQL_DESC_UNSIGNED :: int where "SQL_DESC_UNSIGNED \<equiv> 8"
abbreviation (input) SQL_DESC_UPDATABLE :: int where "SQL_DESC_UPDATABLE \<equiv> 10"
abbreviation (input) SQL_DESC_ALLOC_AUTO :: int where "SQL_DESC_ALLOC_AUTO \<equiv> 1"
abbreviation (input) SQL_DESC_ALLOC_USER :: int where "SQL_DESC_ALLOC_USER \<equiv> 2"
abbreviation (input) SQL_BIND_BY_COLUMN :: int where "SQL_BIND_BY_COLUMN \<equiv> 0"
abbreviation (input) SQL_CODE_DAY_TO_HOUR :: int where "SQL_CODE_DAY_TO_HOUR \<equiv> 8"
abbreviation (input) SQL_CODE_DAY_TO_MINUTE :: int where "SQL_CODE_DAY_TO_MINUTE \<equiv> 9"
abbreviation (input) SQL_CODE_HOUR :: int where "SQL_CODE_HOUR \<equiv> 4"
abbreviation (input) SQL_CODE_HOUR_TO_MINUTE :: int where "SQL_CODE_HOUR_TO_MINUTE \<equiv> 11"
abbreviation (input) SQL_CODE_HOUR_TO_SECOND :: int where "SQL_CODE_HOUR_TO_SECOND \<equiv> 12"
abbreviation (input) SQL_CODE_MINUTE :: int where "SQL_CODE_MINUTE \<equiv> 5"
abbreviation (input) SQL_CODE_MINUTE_TO_SECOND :: int where "SQL_CODE_MINUTE_TO_SECOND \<equiv> 13"
abbreviation (input) SQL_CODE_SECOND :: int where "SQL_CODE_SECOND \<equiv> 6"

section \<open>Column attributes\<close>

abbreviation (input) SQL_COLUMN_LENGTH :: int where "SQL_COLUMN_LENGTH \<equiv> 3"
abbreviation (input) SQL_COLUMN_PRECISION :: int where "SQL_COLUMN_PRECISION \<equiv> 4"
abbreviation (input) SQL_COLUMN_SCALE :: int where "SQL_COLUMN_SCALE \<equiv> 5"
abbreviation (input) SQL_PRED_BASIC :: int where "SQL_PRED_BASIC \<equiv> 2"
abbreviation (input) SQL_SEARCHABLE :: int where "SQL_SEARCHABLE \<equiv> 3"
abbreviation (input) SQL_NAMED :: int where "SQL_NAMED \<equiv> 0"
abbreviation (input) SQL_UNNAMED :: int where "SQL_UNNAMED \<equiv> 1"
abbreviation (input) SQL_ATTR_READWRITE_UNKNOWN :: int where "SQL_ATTR_READWRITE_UNKNOWN \<equiv> 2"

section \<open>Statement attributes\<close>

abbreviation (input) SQL_ATTR_CURSOR_SENSITIVITY :: int where "SQL_ATTR_CURSOR_SENSITIVITY \<equiv> - 2"
abbreviation (input) SQL_ATTR_CURSOR_SCROLLABLE :: int where "SQL_ATTR_CURSOR_SCROLLABLE \<equiv> - 1"
abbreviation (input) SQL_ATTR_ROW_BIND_TYPE :: int where "SQL_ATTR_ROW_BIND_TYPE \<equiv> 5"
abbreviation (input) SQL_ATTR_CURSOR_TYPE :: int where "SQL_ATTR_CURSOR_TYPE \<equiv> 6"
abbreviation (input) SQL_ATTR_CONCURRENCY :: int where "SQL_ATTR_CONCURRENCY \<equiv> 7"
abbreviation (input) SQL_ROWSET_SIZE :: int where "SQL_ROWSET_SIZE \<equiv> 9"
abbreviation (input) SQL_ATTR_RETRIEVE_DATA :: int where "SQL_ATTR_RETRIEVE_DATA \<equiv> 11"
abbreviation (input) SQL_ATTR_ROW_NUMBER :: int where "SQL_ATTR_ROW_NUMBER \<equiv> 14"
abbreviation (input) SQL_ATTR_ENABLE_AUTO_IPD :: int where "SQL_ATTR_ENABLE_AUTO_IPD \<equiv> 15"
abbreviation (input) SQL_ATTR_PARAM_BIND_OFFSET_PTR :: int where "SQL_ATTR_PARAM_BIND_OFFSET_PTR \<equiv> 17"
abbreviation (input) SQL_ATTR_PARAM_BIND_TYPE :: int where "SQL_ATTR_PARAM_BIND_TYPE \<equiv> 18"
abbreviation (input) SQL_ATTR_ROW_BIND_OFFSET_PTR :: int where "SQL_ATTR_ROW_BIND_OFFSET_PTR \<equiv> 23"
abbreviation (input) SQL_ATTR_ROW_OPERATION_PTR :: int where "SQL_ATTR_ROW_OPERATION_PTR \<equiv> 24"
abbreviation (input) SQL_ATTR_ROW_STATUS_PTR :: int where "SQL_ATTR_ROW_STATUS_PTR \<equiv> 25"
abbreviation (input) SQL_ATTR_ROWS_FETCHED_PTR :: int where "SQL_ATTR_ROWS_FETCHED_PTR \<equiv> 26"
abbreviation (input) SQL_ATTR_ROW_ARRAY_SIZE :: int where "SQL_ATTR_ROW_ARRAY_SIZE \<equiv> 27"
abbreviation (input) SQL_ATTR_APP_ROW_DESC :: int where "SQL_ATTR_APP_ROW_DESC \<equiv> 10010"
abbreviation (input) SQL_ATTR_APP_PARAM_DESC :: int where "SQL_ATTR_APP_PARAM_DESC \<equiv> 10011"
abbreviation (input) SQL_ATTR_IMP_ROW_DESC :: int where "SQL_ATTR_IMP_ROW_DESC \<equiv> 10012"
abbreviation (input) SQL_ATTR_IMP_PARAM_DESC :: int where "SQL_ATTR_IMP_PARAM_DESC \<equiv> 10013"
abbreviation (input) SQL_CONCUR_READ_ONLY :: int where "SQL_CONCUR_READ_ONLY \<equiv> 1"
abbreviation (input) SQL_CURSOR_FORWARD_ONLY :: int where "SQL_CURSOR_FORWARD_ONLY \<equiv> 0"
abbreviation (input) SQL_RD_ON :: int where "SQL_RD_ON \<equiv> 1"
abbreviation (input) SQL_PARAM_BIND_BY_COLUMN :: int where "SQL_PARAM_BIND_BY_COLUMN \<equiv> 0"
abbreviation (input) SQL_NONSCROLLABLE :: int where "SQL_NONSCROLLABLE \<equiv> 0"
abbreviation (input) SQL_INSENSITIVE :: int where "SQL_INSENSITIVE \<equiv> 1"

section \<open>Connection options\<close>

abbreviation (input) SQL_QUERY_TIMEOUT :: int where "SQL_QUERY_TIMEOUT \<equiv> 0"
abbreviation (input) SQL_MAX_ROWS :: int where "SQL_MAX_ROWS \<equiv> 1"
abbreviation (input) SQL_NOSCAN :: int where "SQL_NOSCAN \<equiv> 2"
abbreviation (input) SQL_MAX_LENGTH :: int where "SQL_MAX_LENGTH \<equiv> 3"
abbreviation (input) SQL_ASYNC_ENABLE :: int where "SQL_ASYNC_ENABLE \<equiv> 4"
abbreviation (input) SQL_BIND_TYPE :: int where "SQL_BIND_TYPE \<equiv> 5"
abbreviation (input) SQL_CURSOR_TYPE :: int where "SQL_CURSOR_TYPE \<equiv> 6"
abbreviation (input) SQL_CONCURRENCY :: int where "SQL_CONCURRENCY \<equiv> 7"
abbreviation (input) SQL_KEYSET_SIZE :: int where "SQL_KEYSET_SIZE \<equiv> 8"
abbreviation (input) SQL_SIMULATE_CURSOR :: int where "SQL_SIMULATE_CURSOR \<equiv> 10"
abbreviation (input) SQL_RETRIEVE_DATA :: int where "SQL_RETRIEVE_DATA \<equiv> 11"
abbreviation (input) SQL_USE_BOOKMARKS :: int where "SQL_USE_BOOKMARKS \<equiv> 12"
abbreviation (input) SQL_RD_OFF :: int where "SQL_RD_OFF \<equiv> 0"
abbreviation (input) SQL_ACCESS_MODE :: int where "SQL_ACCESS_MODE \<equiv> 101"
abbreviation (input) SQL_TRANSLATE_DLL :: int where "SQL_TRANSLATE_DLL \<equiv> 106"
abbreviation (input) SQL_TRANSLATE_OPTION :: int where "SQL_TRANSLATE_OPTION \<equiv> 107"
abbreviation (input) SQL_TXN_ISOLATION :: int where "SQL_TXN_ISOLATION \<equiv> 108"
abbreviation (input) SQL_CURRENT_QUALIFIER :: int where "SQL_CURRENT_QUALIFIER \<equiv> 109"
abbreviation (input) SQL_QUIET_MODE :: int where "SQL_QUIET_MODE \<equiv> 111"
abbreviation (input) SQL_PACKET_SIZE :: int where "SQL_PACKET_SIZE \<equiv> 112"

text \<open>Input parameters at execution, and the kinds of an interval.\<close>

abbreviation (input) SQL_DATA_AT_EXEC :: int where "SQL_DATA_AT_EXEC \<equiv> -2"
abbreviation (input) SQL_LEN_DATA_AT_EXEC_OFFSET :: int where "SQL_LEN_DATA_AT_EXEC_OFFSET \<equiv> -100"
abbreviation (input) SQL_IS_YEAR :: int where "SQL_IS_YEAR \<equiv> 1"
abbreviation (input) SQL_IS_MONTH :: int where "SQL_IS_MONTH \<equiv> 2"
abbreviation (input) SQL_IS_DAY :: int where "SQL_IS_DAY \<equiv> 3"
abbreviation (input) SQL_IS_HOUR :: int where "SQL_IS_HOUR \<equiv> 4"
abbreviation (input) SQL_IS_MINUTE :: int where "SQL_IS_MINUTE \<equiv> 5"
abbreviation (input) SQL_IS_SECOND :: int where "SQL_IS_SECOND \<equiv> 6"
abbreviation (input) SQL_IS_YEAR_TO_MONTH :: int where "SQL_IS_YEAR_TO_MONTH \<equiv> 7"
abbreviation (input) SQL_IS_DAY_TO_HOUR :: int where "SQL_IS_DAY_TO_HOUR \<equiv> 8"
abbreviation (input) SQL_IS_DAY_TO_MINUTE :: int where "SQL_IS_DAY_TO_MINUTE \<equiv> 9"
abbreviation (input) SQL_IS_DAY_TO_SECOND :: int where "SQL_IS_DAY_TO_SECOND \<equiv> 10"
abbreviation (input) SQL_IS_HOUR_TO_MINUTE :: int where "SQL_IS_HOUR_TO_MINUTE \<equiv> 11"
abbreviation (input) SQL_IS_HOUR_TO_SECOND :: int where "SQL_IS_HOUR_TO_SECOND \<equiv> 12"
abbreviation (input) SQL_IS_MINUTE_TO_SECOND :: int where "SQL_IS_MINUTE_TO_SECOND \<equiv> 13"

end
