(* ===== verification/Common_Types.thy ===== *)
theory Common_Types
  imports Odbc_Constants
begin

text \<open>
  The enumerations every component shares (\<^verbatim>\<open>include/timestream/odbc/common_types.h\<close>) and the
  conversions between them and the numeric codes of the ODBC interface
  (\<^verbatim>\<open>src/common_types.cpp\<close>).
\<close>

datatype sql_result =
  AI_SUCCESS | AI_SUCCESS_WITH_INFO | AI_ERROR | AI_NO_DATA | AI_NEED_DATA

datatype sql_state =
    SqlState_UNKNOWN | S01000_GENERAL_WARNING | S01004_DATA_TRUNCATED
    | S01S00_INVALID_CONNECTION_STRING_ATTRIBUTE | S01S01_ERROR_IN_ROW
    | S01S02_OPTION_VALUE_CHANGED | S01S07_FRACTIONAL_TRUNCATION | S07006_RESTRICTION_VIOLATION
    | S22002_INDICATOR_NEEDED | S22026_DATA_LENGTH_MISMATCH
    | S23000_INTEGRITY_CONSTRAINT_VIOLATION | S24000_INVALID_CURSOR_STATE
    | S25000_INVALID_TRANSACTION_STATE | S34000_INVALID_CURSOR_NAME
    | S3C000_DUPLICATE_CURSOR_NAME | S3F000_INVALID_SCHEMA_NAME | S40001_SERIALIZATION_FAILURE
    | S42000_SYNTAX_ERROR_OR_ACCESS_VIOLATION | S42S01_TABLE_OR_VIEW_ALREADY_EXISTS
    | S42S02_TABLE_OR_VIEW_NOT_FOUND | S42S11_INDEX_ALREADY_EXISTS | S42S12_INDEX_NOT_FOUND
    | S42S21_COLUMN_ALREADY_EXISTS | S42S22_COLUMN_NOT_FOUND | S07009_INVALID_DESCRIPTOR_INDEX
    | S08001_CANNOT_CONNECT | S08002_ALREADY_CONNECTED | S08003_NOT_CONNECTED
    | S08004_CONNECTION_REJECTED | S08S01_LINK_FAILURE | SHY000_GENERAL_ERROR
    | SHY001_MEMORY_ALLOCATION | SHY003_INVALID_APPLICATION_BUFFER_TYPE
    | SHY004_INVALID_SQL_DATA_TYPE | SHY008_OPERATION_CANCELED
    | SHY009_INVALID_USE_OF_NULL_POINTER | SHY010_SEQUENCE_ERROR | SHY016_MODIFY_IRD
    | SHY024_INVALID_ATTRIBUTE_VALUE | SHY090_INVALID_STRING_OR_BUFFER_LENGTH
    | SHY091_INVALID_DESCR_FIELD_ID | SHY092_OPTION_TYPE_OUT_OF_RANGE
    | SHY097_COLUMN_TYPE_OUT_OF_RANGE | SHY105_INVALID_PARAMETER_TYPE
    | SHY106_FETCH_TYPE_OUT_OF_RANGE | SHYC00_OPTIONAL_FEATURE_NOT_IMPLEMENTED
    | SHYT00_TIMEOUT_EXPIRED | SHYT01_CONNECTION_TIMEOUT | SIM001_FUNCTION_NOT_SUPPORTED

datatype diag_field =
    DiagnosticField_UNKNOWN | HEADER_CURSOR_ROW_COUNT | HEADER_DYNAMIC_FUNCTION
    | HEADER_DYNAMIC_FUNCTION_CODE | HEADER_NUMBER | HEADER_RETURNCODE | HEADER_ROW_COUNT
    | STATUS_CLASS_ORIGIN | STATUS_COLUMN_NUMBER | STATUS_CONNECTION_NAME | STATUS_MESSAGE_TEXT
    | STATUS_NATIVE | STATUS_ROW_NUMBER | STATUS_SERVER_NAME | STATUS_SQLSTATE
    | STATUS_SUBCLASS_ORIGIN

datatype env_attribute = EnvironmentAttribute_UNKNOWN | ODBC_VERSION | OUTPUT_NTS

text \<open>A value handed to the application buffer by one of the \<^verbatim>\<open>Put\<close> operations.\<close>

datatype buffer_put = PutInt64V int | PutInt32V int | PutStringV string

definition SqlResultToReturnCode :: "sql_result \<Rightarrow> int" where
  "SqlResultToReturnCode r =
     (case r of
        AI_SUCCESS \<Rightarrow> SQL_SUCCESS
      | AI_SUCCESS_WITH_INFO \<Rightarrow> SQL_SUCCESS_WITH_INFO
      | AI_NO_DATA \<Rightarrow> SQL_NO_DATA
      | AI_NEED_DATA \<Rightarrow> SQL_NEED_DATA
      | AI_ERROR \<Rightarrow> SQL_ERROR)"

definition ReturnCodeToSqlResult :: "int \<Rightarrow> sql_result" where
  "ReturnCodeToSqlResult c =
     (if c = SQL_SUCCESS then AI_SUCCESS
      else if c = SQL_SUCCESS_WITH_INFO then AI_SUCCESS_WITH_INFO
      else if c = SQL_NO_DATA then AI_NO_DATA
      else if c = SQL_NEED_DATA then AI_NEED_DATA
      else AI_ERROR)"

definition DiagnosticFieldToInternal :: "int \<Rightarrow> diag_field" where
  "DiagnosticFieldToInternal f =
     (if f = SQL_DIAG_CURSOR_ROW_COUNT then HEADER_CURSOR_ROW_COUNT
      else if f = SQL_DIAG_DYNAMIC_FUNCTION then HEADER_DYNAMIC_FUNCTION
      else if f = SQL_DIAG_DYNAMIC_FUNCTION_CODE then HEADER_DYNAMIC_FUNCTION_CODE
      else if f = SQL_DIAG_NUMBER then HEADER_NUMBER
      else if f = SQL_DIAG_RETURNCODE then HEADER_RETURNCODE
      else if f = SQL_DIAG_ROW_COUNT then HEADER_ROW_COUNT
      else if f = SQL_DIAG_CLASS_ORIGIN then STATUS_CLASS_ORIGIN
      else if f = SQL_DIAG_COLUMN_NUMBER then STATUS_COLUMN_NUMBER
      else if f = SQL_DIAG_CONNECTION_NAME then STATUS_CONNECTION_NAME
      else if f = SQL_DIAG_MESSAGE_TEXT then STATUS_MESSAGE_TEXT
      else if f = SQL_DIAG_NATIVE then STATUS_NATIVE
      else if f = SQL_DIAG_ROW_NUMBER then STATUS_ROW_NUMBER
      else if f = SQL_DIAG_SERVER_NAME then STATUS_SERVER_NAME
      else if f = SQL_DIAG_SQLSTATE then STATUS_SQLSTATE
      else if f = SQL_DIAG_SUBCLASS_ORIGIN then STATUS_SUBCLASS_ORIGIN
      else DiagnosticField_UNKNOWN)"

definition EnvironmentAttributeToInternal :: "int \<Rightarrow> env_attribute" where
  "EnvironmentAttributeToInternal a =
     (if a = SQL_ATTR_ODBC_VERSION then ODBC_VERSION
      else if a = SQL_ATTR_OUTPUT_NTS then OUTPUT_NTS
      else EnvironmentAttribute_UNKNOWN)"

text \<open>The response status of the query engine, by its number.\<close>

definition ResponseStatusToSqlState :: "int \<Rightarrow> sql_state" where
  "ResponseStatusToSqlState s =
     (if s \<in> {1001, 2003, 2001} then S42000_SYNTAX_ERROR_OR_ACCESS_VIOLATION
      else if s = 1002 then SHYC00_OPTIONAL_FEATURE_NOT_IMPLEMENTED
      else if s = 2002 then SHY004_INVALID_SQL_DATA_TYPE
      else if s \<in> {4001, 4003, 4004} then S23000_INTEGRITY_CONSTRAINT_VIOLATION
      else if s = 3001 then S42S02_TABLE_OR_VIEW_NOT_FOUND
      else if s = 3005 then S42S11_INDEX_ALREADY_EXISTS
      else if s = 3006 then S42S12_INDEX_NOT_FOUND
      else if s = 3007 then S42S01_TABLE_OR_VIEW_ALREADY_EXISTS
      else if s = 3008 then S42S22_COLUMN_NOT_FOUND
      else if s = 3009 then S42S21_COLUMN_ALREADY_EXISTS
      else if s = 5004 then S25000_INVALID_TRANSACTION_STATE
      else if s = 5005 then S40001_SERIALIZATION_FAILURE
      else SHY000_GENERAL_ERROR)"

text \<open>\<^verbatim>\<open>SqlResult\<close> survives the trip through the numeric return code.\<close>

lemma ReturnCode_roundtrip [simp]: "ReturnCodeToSqlResult (SqlResultToReturnCode r) = r"
  by (cases r) (simp_all add: SqlResultToReturnCode_def ReturnCodeToSqlResult_def)

end
