(* ===== verification/Diagnostics.thy ===== *)
theory Diagnostics
  imports Common_Types
begin

text \<open>
  Diagnostic records and their storage (\<^verbatim>\<open>src/diagnostic/diagnostic_record.cpp\<close>,
  \<^verbatim>\<open>src/diagnostic/diagnostic_record_storage.cpp\<close>) and the protocol every ODBC entry of a
  handle follows, the macro \<^verbatim>\<open>IGNITE_ODBC_API_CALL\<close> of \<^verbatim>\<open>diagnosable_adapter.h\<close>: reset the
  storage, run the operation, store its result in the header. The locale \<open>diagnosable\<close> is the
  interface between that protocol and the handles that keep a storage.
\<close>

section \<open>One record\<close>

record diag_record =
  sqlState :: sql_state
  message :: string
  connectionName :: string
  serverName :: string
  rowNum :: int
  columnNum :: int
  retrieved :: bool

definition DiagnosticRecord :: "sql_state \<Rightarrow> string \<Rightarrow> string \<Rightarrow> string \<Rightarrow> int \<Rightarrow> int \<Rightarrow> diag_record" where
  "DiagnosticRecord st msg conn srv row col =
     \<lparr>sqlState = st, message = msg, connectionName = conn, serverName = srv,
      rowNum = row, columnNum = col, retrieved = False\<rparr>"

definition ORIGIN_ISO_9075 :: string where "ORIGIN_ISO_9075 = ''ISO 9075''"
definition ORIGIN_ODBC_3_0 :: string where "ORIGIN_ODBC_3_0 = ''ODBC 3.0''"

text \<open>The five character state of a record; states without a case of the switch have the empty
  string.\<close>

fun SqlStateText :: "sql_state \<Rightarrow> string" where
  "SqlStateText S01000_GENERAL_WARNING = ''01000''"
| "SqlStateText S01004_DATA_TRUNCATED = ''01004''"
| "SqlStateText S01S00_INVALID_CONNECTION_STRING_ATTRIBUTE = ''01S00''"
| "SqlStateText S01S01_ERROR_IN_ROW = ''01S01''"
| "SqlStateText S01S02_OPTION_VALUE_CHANGED = ''01S02''"
| "SqlStateText S01S07_FRACTIONAL_TRUNCATION = ''01S07''"
| "SqlStateText S07006_RESTRICTION_VIOLATION = ''07006''"
| "SqlStateText S22002_INDICATOR_NEEDED = ''22002''"
| "SqlStateText S22026_DATA_LENGTH_MISMATCH = ''22026''"
| "SqlStateText S23000_INTEGRITY_CONSTRAINT_VIOLATION = ''23000''"
| "SqlStateText S24000_INVALID_CURSOR_STATE = ''24000''"
| "SqlStateText S25000_INVALID_TRANSACTION_STATE = ''25000''"
| "SqlStateText S34000_INVALID_CURSOR_NAME = ''34000''"
| "SqlStateText S3C000_DUPLICATE_CURSOR_NAME = ''3C000''"
| "SqlStateText S3F000_INVALID_SCHEMA_NAME = ''3F000''"
| "SqlStateText S40001_SERIALIZATION_FAILURE = ''40001''"
| "SqlStateText S42000_SYNTAX_ERROR_OR_ACCESS_VIOLATION = ''42000''"
| "SqlStateText S42S01_TABLE_OR_VIEW_ALREADY_EXISTS = ''42S01''"
| "SqlStateText S42S02_TABLE_OR_VIEW_NOT_FOUND = ''42S02''"
| "SqlStateText S42S11_INDEX_ALREADY_EXISTS = ''42S11''"
| "SqlStateText S42S12_INDEX_NOT_FOUND = ''42S12''"
| "SqlStateText S42S21_COLUMN_ALREADY_EXISTS = ''42S21''"
| "SqlStateText S42S22_COLUMN_NOT_FOUND = ''42S22''"
| "SqlStateText S07009_INVALID_DESCRIPTOR_INDEX = ''07009''"
| "SqlStateText S08001_CANNOT_CONNECT = ''08001''"
| "SqlStateText S08002_ALREADY_CONNECTED = ''08002''"
| "SqlStateText S08003_NOT_CONNECTED = ''08003''"
| "SqlStateText S08004_CONNECTION_REJECTED = ''08004''"
| "SqlStateText S08S01_LINK_FAILURE = ''08S01''"
| "SqlStateText SHY000_GENERAL_ERROR = ''HY000''"
| "SqlStateText SHY001_MEMORY_ALLOCATION = ''HY001''"
| "SqlStateText SHY003_INVALID_APPLICATION_BUFFER_TYPE = ''HY003''"
| "SqlStateText SHY009_INVALID_USE_OF_NULL_POINTER = ''HY009''"
| "SqlStateText SHY010_SEQUENCE_ERROR = ''HY010''"
| "SqlStateText SHY016_MODIFY_IRD = ''HY016''"
| "SqlStateText SHY024_INVALID_ATTRIBUTE_VALUE = ''HY024''"
| "SqlStateText SHY090_INVALID_STRING_OR_BUFFER_LENGTH = ''HY090''"
| "SqlStateText SHY091_INVALID_DESCR_FIELD_ID = ''HY091''"
| "SqlStateText SHY092_OPTION_TYPE_OUT_OF_RANGE = ''HY092''"
| "SqlStateText SHY097_COLUMN_TYPE_OUT_OF_RANGE = ''HY097''"
| "SqlStateText SHY105_INVALID_PARAMETER_TYPE = ''HY105''"
| "SqlStateText SHY106_FETCH_TYPE_OUT_OF_RANGE = ''HY106''"
| "SqlStateText SHYC00_OPTIONAL_FEATURE_NOT_IMPLEMENTED = ''HYC00''"
| "SqlStateText SHYT00_TIMEOUT_EXPIRED = ''HYT00''"
| "SqlStateText SHYT01_CONNECTION_TIMEOUT = ''HYT01''"
| "SqlStateText SIM001_FUNCTION_NOT_SUPPORTED = ''IM001''"
| "SqlStateText _ = []"

definition GetSqlState :: "diag_record \<Rightarrow> string" where
  "GetSqlState r = SqlStateText (sqlState r)"

text \<open>Class and subclass origin. The first test fails on the terminator of an empty state, so
  the second character is only read where there is one.\<close>

definition GetClassOrigin :: "diag_record \<Rightarrow> string" where
  "GetClassOrigin r =
     (case GetSqlState r of
        a # b # _ \<Rightarrow> (if a = CHR ''I'' \<and> b = CHR ''M'' then ORIGIN_ODBC_3_0 else ORIGIN_ISO_9075)
      | _ \<Rightarrow> ORIGIN_ISO_9075)"

definition odbcSubclasses :: "string list" where
  "odbcSubclasses =
    [''01S00'', ''01S01'', ''01S02'', ''01S06'', ''01S07'', ''07S01'', ''08S01'', ''21S01'',
     ''21S02'', ''25S01'', ''25S02'', ''25S03'', ''42S01'', ''42S02'', ''42S11'', ''42S12'',
     ''42S21'', ''42S22'', ''HY024'', ''HY095'', ''HY097'', ''HY098'', ''HY099'', ''HY100'',
     ''HY101'', ''HY105'', ''HY107'', ''HY109'', ''HY110'', ''HY111'', ''HYT00'', ''HYT01'',
     ''IM001'', ''IM002'', ''IM003'', ''IM004'', ''IM005'', ''IM006'', ''IM007'', ''IM008'',
     ''IM010'', ''IM011'', ''IM012'']"

definition GetSubclassOrigin :: "diag_record \<Rightarrow> string" where
  "GetSubclassOrigin r =
     (if GetSqlState r \<in> set odbcSubclasses then ORIGIN_ODBC_3_0 else ORIGIN_ISO_9075)"

definition MarkRetrieved :: "diag_record \<Rightarrow> diag_record" where
  "MarkRetrieved r = r\<lparr>retrieved := True\<rparr>"

section \<open>The storage\<close>

record diag_storage =
  ds_rowCount :: int
  dynamicFunction :: string
  dynamicFunctionCode :: int
  ds_result :: sql_result
  rowsAffected :: int
  statusRecords :: "diag_record list"

definition DiagnosticRecordStorage :: diag_storage where
  "DiagnosticRecordStorage =
     \<lparr>ds_rowCount = 0, dynamicFunction = [], dynamicFunctionCode = 0, ds_result = AI_SUCCESS,
      rowsAffected = 0, statusRecords = []\<rparr>"

definition SetHeaderRecord :: "sql_result \<Rightarrow> diag_storage \<Rightarrow> diag_storage" where
  "SetHeaderRecord r d =
     d\<lparr>ds_rowCount := 0, dynamicFunction := [], dynamicFunctionCode := 0, ds_result := r,
       rowsAffected := 0\<rparr>"

definition AddRecord :: "diag_record \<Rightarrow> diag_storage \<Rightarrow> diag_storage" where
  "AddRecord r d = d\<lparr>statusRecords := statusRecords d @ [r]\<rparr>"

definition AddStatusRecord :: "sql_state \<Rightarrow> string \<Rightarrow> diag_storage \<Rightarrow> diag_storage" where
  "AddStatusRecord st msg d = AddRecord (DiagnosticRecord st msg [] [] 0 0) d"

definition AddStatusRecordAt ::
  "sql_state \<Rightarrow> string \<Rightarrow> int \<Rightarrow> int \<Rightarrow> diag_storage \<Rightarrow> diag_storage" where
  "AddStatusRecordAt st msg row col d = AddRecord (DiagnosticRecord st msg [] [] row col) d"

definition ResetStorage :: "diag_storage \<Rightarrow> diag_storage" where
  "ResetStorage d = (SetHeaderRecord AI_ERROR d)\<lparr>statusRecords := []\<rparr>"

definition GetReturnCode :: "diag_storage \<Rightarrow> int" where
  "GetReturnCode d = SqlResultToReturnCode (ds_result d)"

definition GetStatusRecordsNumber :: "diag_storage \<Rightarrow> int" where
  "GetStatusRecordsNumber d = to_int32 (int (length (statusRecords d)))"

text \<open>One-based access; an index outside the vector is undefined in the source, \<open>None\<close> here.\<close>

definition GetStatusRecord :: "int \<Rightarrow> diag_storage \<Rightarrow> diag_record option" where
  "GetStatusRecord i d =
     (if 1 \<le> i \<and> i \<le> int (length (statusRecords d)) then Some (statusRecords d ! nat (i - 1))
      else None)"

text \<open>The loop of \<^verbatim>\<open>GetLastNonRetrieved\<close>: one-based position of the first record not retrieved
  yet, 0 when there is none.\<close>

fun lnr_loop :: "diag_record list \<Rightarrow> int \<Rightarrow> int" where
  "lnr_loop [] i = 0"
| "lnr_loop (r # rs) i = (if \<not> retrieved r then i + 1 else lnr_loop rs (i + 1))"

definition GetLastNonRetrieved :: "diag_storage \<Rightarrow> int" where
  "GetLastNonRetrieved d = lnr_loop (statusRecords d) 0"

definition IsSuccessful :: "diag_storage \<Rightarrow> bool" where
  "IsSuccessful d \<longleftrightarrow> ds_result d = AI_SUCCESS \<or> ds_result d = AI_SUCCESS_WITH_INFO"

definition GetHeaderField :: "diag_field \<Rightarrow> diag_storage \<Rightarrow> buffer_put option" where
  "GetHeaderField f d =
     (case f of
        HEADER_CURSOR_ROW_COUNT \<Rightarrow> Some (PutInt64V (ds_rowCount d))
      | HEADER_DYNAMIC_FUNCTION \<Rightarrow> Some (PutStringV (dynamicFunction d))
      | HEADER_DYNAMIC_FUNCTION_CODE \<Rightarrow> Some (PutInt32V (dynamicFunctionCode d))
      | HEADER_NUMBER \<Rightarrow> Some (PutInt32V (GetStatusRecordsNumber d))
      | HEADER_RETURNCODE \<Rightarrow> Some (PutInt32V (GetReturnCode d))
      | HEADER_ROW_COUNT \<Rightarrow> Some (PutInt64V (rowsAffected d))
      | _ \<Rightarrow> None)"

definition GetRecordField :: "diag_field \<Rightarrow> diag_record \<Rightarrow> buffer_put option" where
  "GetRecordField f r =
     (case f of
        STATUS_CLASS_ORIGIN \<Rightarrow> Some (PutStringV (GetClassOrigin r))
      | STATUS_COLUMN_NUMBER \<Rightarrow> Some (PutInt32V (columnNum r))
      | STATUS_CONNECTION_NAME \<Rightarrow> Some (PutStringV (connectionName r))
      | STATUS_MESSAGE_TEXT \<Rightarrow> Some (PutStringV (message r))
      | STATUS_NATIVE \<Rightarrow> Some (PutInt32V 0)
      | STATUS_ROW_NUMBER \<Rightarrow> Some (PutInt64V (rowNum r))
      | STATUS_SERVER_NAME \<Rightarrow> Some (PutStringV (serverName r))
      | STATUS_SQLSTATE \<Rightarrow> Some (PutStringV (GetSqlState r))
      | STATUS_SUBCLASS_ORIGIN \<Rightarrow> Some (PutStringV (GetSubclassOrigin r))
      | _ \<Rightarrow> None)"

text \<open>\<^verbatim>\<open>GetField\<close>: the result and the value put into the application's buffer, if any. Header
  fields come first and ignore the record number.\<close>

definition GetField :: "int \<Rightarrow> diag_field \<Rightarrow> diag_storage \<Rightarrow> sql_result \<times> buffer_put option" where
  "GetField n f d =
     (case GetHeaderField f d of
        Some v \<Rightarrow> (AI_SUCCESS, Some v)
      | None \<Rightarrow>
          if n < 1 \<or> int (length (statusRecords d)) < n then (AI_NO_DATA, None)
          else
            (case GetRecordField f (statusRecords d ! nat (n - 1)) of
               Some v \<Rightarrow> (AI_SUCCESS, Some v)
             | None \<Rightarrow> (AI_ERROR, None)))"

text \<open>\<^verbatim>\<open>SQLError\<close>: the state and the message handed to the application, and the storage with
  that record marked.\<close>

definition SQLError :: "diag_storage \<Rightarrow> int \<times> (string \<times> string) option \<times> diag_storage" where
  "SQLError d =
     (let n = GetLastNonRetrieved d in
      if n < 1 \<or> GetStatusRecordsNumber d < n then (SQL_NO_DATA, None, d)
      else
        let r = MarkRetrieved (statusRecords d ! nat (n - 1)) in
        (SQL_SUCCESS, Some (GetSqlState r, message r),
         d\<lparr>statusRecords := (statusRecords d)[nat (n - 1) := r]\<rparr>))"

section \<open>The protocol of an API call\<close>

text \<open>\<^verbatim>\<open>IGNITE_ODBC_API_CALL(op)\<close> on a handle whose storage is changed by \<open>upd\<close>.\<close>

definition api_call ::
  "((diag_storage \<Rightarrow> diag_storage) \<Rightarrow> 's \<Rightarrow> 's) \<Rightarrow> ('s \<Rightarrow> sql_result \<times> 's) \<Rightarrow> 's \<Rightarrow> 's" where
  "api_call upd op s = (let (r, s') = op (upd ResetStorage s) in upd (SetHeaderRecord r) s')"

locale diagnosable =
  fixes get :: "'s \<Rightarrow> diag_storage"
    and upd :: "(diag_storage \<Rightarrow> diag_storage) \<Rightarrow> 's \<Rightarrow> 's"
  assumes get_upd: "get (upd f s) = f (get s)"
begin

lemma header_result:
  "ds_result (get (api_call upd op s)) = fst (op (upd ResetStorage s))"
  by (simp add: api_call_def get_upd SetHeaderRecord_def split: prod.split)

lemma records_of_op:
  "statusRecords (get (api_call upd op s)) = statusRecords (get (snd (op (upd ResetStorage s))))"
  by (simp add: api_call_def get_upd SetHeaderRecord_def split: prod.split)

lemma reset_clears: "statusRecords (get (upd ResetStorage s)) = []"
  by (simp add: get_upd ResetStorage_def)

lemma return_code:
  "GetReturnCode (get (api_call upd op s)) = SqlResultToReturnCode (fst (op (upd ResetStorage s)))"
  by (simp add: GetReturnCode_def header_result)

end

interpretation bare_storage: diagnosable "\<lambda>d. d" "\<lambda>f. f"
  by unfold_locales simp

section \<open>Facts about the storage\<close>

lemma add_record_simps [diag_simps]:
  "statusRecords (AddRecord r d) = statusRecords d @ [r]"
  "ds_result (AddRecord r d) = ds_result d"
  "statusRecords (AddStatusRecord st msg d) = statusRecords d @ [DiagnosticRecord st msg [] [] 0 0]"
  "statusRecords (AddStatusRecordAt st msg i j d) =
     statusRecords d @ [DiagnosticRecord st msg [] [] i j]"
  "statusRecords (ResetStorage d) = []"
  "statusRecords (SetHeaderRecord x d) = statusRecords d"
  by (simp_all add: AddRecord_def AddStatusRecord_def AddStatusRecordAt_def ResetStorage_def
      SetHeaderRecord_def)

text \<open>Position of the first pending record in closed form.\<close>

lemma lnr_loop_all: "\<forall>r \<in> set rs. retrieved r \<Longrightarrow> lnr_loop rs i = 0"
  by (induction rs arbitrary: i) auto

lemma lnr_loop_prefix:
  "\<forall>r \<in> set rs. retrieved r \<Longrightarrow> \<not> retrieved x \<Longrightarrow>
   lnr_loop (rs @ x # ys) i = i + int (length rs) + 1"
  by (induction rs arbitrary: i) auto

lemma SQLError_none:
  "\<forall>r \<in> set (statusRecords d). retrieved r \<Longrightarrow> SQLError d = (SQL_NO_DATA, None, d)"
  by (simp add: SQLError_def GetLastNonRetrieved_def lnr_loop_all)

lemma SQLError_some:
  assumes "statusRecords d = rs @ x # ys" and "\<forall>r \<in> set rs. retrieved r" and "\<not> retrieved x"
    and "length (statusRecords d) < 2 ^ 31"
  shows "SQLError d =
    (SQL_SUCCESS, Some (GetSqlState x, message x),
     d\<lparr>statusRecords := rs @ MarkRetrieved x # ys\<rparr>)"
proof -
  have n: "GetLastNonRetrieved d = int (length rs) + 1"
    using assms(1-3) by (simp add: GetLastNonRetrieved_def lnr_loop_prefix)
  have m: "GetStatusRecordsNumber d = int (length (statusRecords d))"
    using assms(4) by (simp add: GetStatusRecordsNumber_def to_int32_id)
  show ?thesis
    using assms(1) by (simp add: SQLError_def n m Let_def MarkRetrieved_def GetSqlState_def)
qed

text \<open>Draining a storage: what repeated calls of \<^verbatim>\<open>SQLError\<close> hand out.\<close>

fun drain :: "nat \<Rightarrow> diag_storage \<Rightarrow> (string \<times> string) list" where
  "drain 0 d = []"
| "drain (Suc n) d =
     (case SQLError d of
        (_, None, _) \<Rightarrow> []
      | (_, Some m, d') \<Rightarrow> m # drain n d')"

lemma drain_take:
  assumes "statusRecords d = rs @ ys" and "\<forall>r \<in> set rs. retrieved r"
    and "\<forall>r \<in> set ys. \<not> retrieved r" and "length (statusRecords d) < 2 ^ 31"
  shows "drain n d = map (\<lambda>r. (GetSqlState r, message r)) (take n ys)"
  using assms
proof (induction ys arbitrary: rs d n)
  case Nil
  then show ?case by (cases n) (simp_all add: SQLError_none)
next
  case (Cons y ys)
  show ?case
  proof (cases n)
    case (Suc m)
    let ?d = "d\<lparr>statusRecords := rs @ MarkRetrieved y # ys\<rparr>"
    have "SQLError d = (SQL_SUCCESS, Some (GetSqlState y, message y), ?d)"
      using Cons.prems by (intro SQLError_some) auto
    moreover have "drain m ?d = map (\<lambda>r. (GetSqlState r, message r)) (take m ys)"
      using Cons.prems
      by (intro Cons.IH [of _ "rs @ [MarkRetrieved y]"]) (auto simp: MarkRetrieved_def)
    ultimately show ?thesis by (simp add: Suc)
  qed simp
qed

section \<open>Properties\<close>

text \<open> C23. Draining with \<^verbatim>\<open>SQLError\<close>: when no record of a storage has been retrieved yet, \<open>n\<close> calls
  hand out the first \<open>n\<close> records, each once and in the order they were added, and no more than
  there are.\<close>

theorem SQLError_hands_out_records_in_order:
  assumes "\<forall>r \<in> set (statusRecords d). \<not> retrieved r" and "length (statusRecords d) < 2 ^ 31"
  shows "drain n d = map (\<lambda>r. (GetSqlState r, message r)) (take n (statusRecords d))"
  using assms by (intro drain_take [of _ "[]"]) simp_all

theorem SQLError_hands_out_records_in_order_witness:
  "drain 3 (AddStatusRecord SHY010_SEQUENCE_ERROR ''b''
      (AddStatusRecord S08003_NOT_CONNECTED ''a'' DiagnosticRecordStorage)) =
    [(''08003'', ''a''), (''HY010'', ''b'')]"
  by (subst SQLError_hands_out_records_in_order)
    (simp_all add: diag_simps DiagnosticRecordStorage_def DiagnosticRecord_def GetSqlState_def)

text \<open> An API call on a diagnosable handle: whatever records and header the storage held
  before, after the call it holds the return code of the operation and exactly the records the
  operation added, and every header counter is zero.\<close>

theorem api_call_protocol:
  "(case op (ResetStorage d) of (r, d1) \<Rightarrow>
      let d' = api_call (\<lambda>f. f) op d in
      GetReturnCode d' = SqlResultToReturnCode r \<and> statusRecords d' = statusRecords d1
      \<and> IsSuccessful d' = (r = AI_SUCCESS \<or> r = AI_SUCCESS_WITH_INFO)
      \<and> GetField 0 HEADER_RETURNCODE d' = (AI_SUCCESS, Some (PutInt32V (SqlResultToReturnCode r)))
      \<and> GetField 0 HEADER_ROW_COUNT d' = (AI_SUCCESS, Some (PutInt64V 0)))"
proof (cases "op (ResetStorage d)")
  case (Pair r d1)
  then have "ds_result (api_call (\<lambda>f. f) op d) = r"
    and "GetReturnCode (api_call (\<lambda>f. f) op d) = SqlResultToReturnCode r"
    and "statusRecords (api_call (\<lambda>f. f) op d) = statusRecords d1"
    using bare_storage.header_result [of op d] bare_storage.return_code [of op d]
      bare_storage.records_of_op [of op d] by simp_all
  with Pair show ?thesis
    by (simp add: Let_def IsSuccessful_def GetField_def GetHeaderField_def api_call_def
        SetHeaderRecord_def)
qed

definition is_header_field :: "diag_field \<Rightarrow> bool" where
  "is_header_field f \<longleftrightarrow>
     f \<in> {HEADER_CURSOR_ROW_COUNT, HEADER_DYNAMIC_FUNCTION, HEADER_DYNAMIC_FUNCTION_CODE,
          HEADER_NUMBER, HEADER_RETURNCODE, HEADER_ROW_COUNT}"

text \<open> \<^verbatim>\<open>GetField\<close> distinguishes three outcomes: a header field always succeeds whatever the
  record number; a status field of a record number outside \<open>1..count\<close> gives no data; an unknown
  field of an existing record is an error; a value is delivered exactly on success.\<close>

theorem GetField_outcome:
  "(let (r, v) = GetField n f d; present = (1 \<le> n \<and> n \<le> int (length (statusRecords d))) in
      (is_header_field f \<longrightarrow> r = AI_SUCCESS)
      \<and> (\<not> is_header_field f \<and> \<not> present \<longrightarrow> r = AI_NO_DATA)
      \<and> (\<not> is_header_field f \<and> present \<longrightarrow>
           r = (if f = DiagnosticField_UNKNOWN then AI_ERROR else AI_SUCCESS))
      \<and> (v \<noteq> None \<longleftrightarrow> r = AI_SUCCESS))"
  by (cases f) (auto simp: GetField_def GetHeaderField_def GetRecordField_def is_header_field_def)

theorem GetField_outcome_witness:
  "GetField 2 STATUS_SQLSTATE (AddStatusRecord SHY010_SEQUENCE_ERROR ''b'' DiagnosticRecordStorage) =
     (AI_NO_DATA, None)"
  using GetField_outcome [of 2 STATUS_SQLSTATE
      "AddStatusRecord SHY010_SEQUENCE_ERROR ''b'' DiagnosticRecordStorage"]
  by (simp add: diag_simps DiagnosticRecordStorage_def is_header_field_def split: prod.splits)

text \<open> The SQLSTATE of a record has the five characters the interface fixes exactly for the
  states the driver gives a text; the unknown state, HY004 and HY008 have none and yield the
  empty string. Two states with a text never share it.\<close>

theorem GetSqlState_five_chars:
  "length (GetSqlState r) =
     (if sqlState r \<in> {SqlState_UNKNOWN, SHY004_INVALID_SQL_DATA_TYPE, SHY008_OPERATION_CANCELED}
      then 0 else 5)
   \<and> (GetSqlState r \<noteq> [] \<and> GetSqlState r = GetSqlState q \<longrightarrow> sqlState r = sqlState q)"
proof -
  have inj: "SqlStateText s \<noteq> [] \<Longrightarrow> SqlStateText s = SqlStateText t \<Longrightarrow> s = t" for s t
    by (cases s; cases t) simp_all
  have "length (SqlStateText s) =
     (if s \<in> {SqlState_UNKNOWN, SHY004_INVALID_SQL_DATA_TYPE, SHY008_OPERATION_CANCELED}
      then 0 else 5)" for s
    by (cases s) simp_all
  then show ?thesis
    using inj by (auto simp: GetSqlState_def)
qed

theorem GetSqlState_five_chars_witness:
  "length (GetSqlState (DiagnosticRecord S08003_NOT_CONNECTED [] [] [] 0 0)) = 5
   \<and> sqlState (DiagnosticRecord S08003_NOT_CONNECTED [] [] [] 0 0) =
     sqlState (DiagnosticRecord S08003_NOT_CONNECTED ''m'' [] [] 1 2)"
  using GetSqlState_five_chars [of "DiagnosticRecord S08003_NOT_CONNECTED [] [] [] 0 0"
      "DiagnosticRecord S08003_NOT_CONNECTED ''m'' [] [] 1 2"]
  by (simp add: DiagnosticRecord_def GetSqlState_def)

end
