(* ===== verification/Configuration.thy ===== *)
theory Configuration
  imports Diagnostics
begin

text \<open>
  The connection configuration (\<^verbatim>\<open>src/config/configuration.cpp\<close>, \<^verbatim>\<open>include/timestream/odbc/config/configuration.h\<close>):
  settable values with defaults, the authentication and log level enumerations
  (\<^verbatim>\<open>src/authentication/auth_type.cpp\<close>, \<^verbatim>\<open>src/log_level.cpp\<close>), validation, and the argument map
  and connection string a configuration is rendered to. The locale \<open>dict\<close> is the contract of
  the associative containers (\<^verbatim>\<open>std::map\<close>) of the driver.
\<close>

section \<open>Associative containers\<close>

locale dict =
  fixes lookup :: "'m \<Rightarrow> 'k \<Rightarrow> 'v option"
    and put :: "'k \<Rightarrow> 'v \<Rightarrow> 'm \<Rightarrow> 'm"
  assumes lookup_put: "lookup (put k v m) = (lookup m)(k \<mapsto> v)"
begin

lemma lookup_fold_put:
  "lookup (fold (\<lambda>(k, v). put k v) kvs m) = lookup m ++ map_of (rev kvs)"
proof (induction kvs arbitrary: m)
  case (Cons kv kvs)
  then show ?case by (cases kv) (simp add: lookup_put fun_eq_iff map_add_def split: option.split)
qed simp

lemma put_same: "lookup (put k v m) k = Some v"
  by (simp add: lookup_put)

lemma put_other: "j \<noteq> k \<Longrightarrow> lookup (put k v m) j = lookup m j"
  by (simp add: lookup_put)

end

locale erasable_dict = dict +
  fixes erase :: "'k \<Rightarrow> 'm \<Rightarrow> 'm"
  assumes lookup_erase: "lookup (erase k m) = (lookup m)(k := None)"
begin

lemma erase_put: "lookup (erase k (put k v m)) = lookup (erase k m)"
  by (simp add: lookup_erase lookup_put)

lemma put_erase: "lookup (put k v (erase k m)) = lookup (put k v m)"
  by (simp add: lookup_erase lookup_put)

lemma lookup_erase_other: "j \<noteq> k \<Longrightarrow> lookup (erase k m) j = lookup m j"
  by (simp add: lookup_erase)

end

text \<open>\<^verbatim>\<open>std::map<std::string, std::string>\<close>: an association list in key order, keys compared byte by
  byte.\<close>

type_synonym argument_map = "(string \<times> string) list"

fun str_less :: "string \<Rightarrow> string \<Rightarrow> bool" where
  "str_less _ [] = False"
| "str_less [] (y # ys) = True"
| "str_less (x # xs) (y # ys) =
     (char_code x < char_code y \<or> x = y \<and> str_less xs ys)"

fun amap_put :: "string \<Rightarrow> 'v \<Rightarrow> (string \<times> 'v) list \<Rightarrow> (string \<times> 'v) list" where
  "amap_put k v [] = [(k, v)]"
| "amap_put k v ((k', v') # m) =
     (if k = k' then (k, v) # m
      else if str_less k k' then (k, v) # (k', v') # m
      else (k', v') # amap_put k v m)"

fun amap_erase :: "string \<Rightarrow> (string \<times> 'v) list \<Rightarrow> (string \<times> 'v) list" where
  "amap_erase k [] = []"
| "amap_erase k ((k', v') # m) = (if k = k' then amap_erase k m else (k', v') # amap_erase k m)"

lemma map_of_amap_put: "map_of (amap_put k v m) = (map_of m)(k \<mapsto> v)"
  by (induction k v m rule: amap_put.induct) (auto simp: fun_eq_iff)

lemma map_of_amap_erase: "map_of (amap_erase k m) = (map_of m)(k := None)"
  by (induction k m rule: amap_erase.induct) (auto simp: fun_eq_iff)

interpretation amap: erasable_dict map_of amap_put amap_erase
  by unfold_locales (rule map_of_amap_put, rule map_of_amap_erase)

section \<open>Settable values\<close>

record 'a settable =
  sv_val :: 'a
  sv_set :: bool

definition SettableValue :: "'a \<Rightarrow> 'a settable" where
  "SettableValue dflt = \<lparr>sv_val = dflt, sv_set = False\<rparr>"

definition SetValue :: "'a \<Rightarrow> bool \<Rightarrow> 'a settable \<Rightarrow> 'a settable" where
  "SetValue v dflt s = s\<lparr>sv_val := v, sv_set := \<not> dflt\<rparr>"

definition GetValue :: "'a settable \<Rightarrow> 'a" where
  "GetValue s = sv_val s"

definition IsSet :: "'a settable \<Rightarrow> bool" where
  "IsSet s \<longleftrightarrow> sv_set s"

lemma settable_simps [conf_simps, simp]:
  "GetValue (SetValue v d s) = v"
  "IsSet (SetValue v d s) = (\<not> d)"
  "GetValue (SettableValue v) = v"
  "IsSet (SettableValue v) = False"
  by (simp_all add: GetValue_def IsSet_def SetValue_def SettableValue_def)

section \<open>Authentication type and log level\<close>

datatype auth_type = AWS_PROFILE | IAM | AAD | OKTA

definition AuthType_FromString :: "string \<Rightarrow> auth_type \<Rightarrow> auth_type" where
  "AuthType_FromString val dflt =
     (let s = Trim (ToLower val) in
      if s = ''aws_profile'' then AWS_PROFILE
      else if s = ''iam'' then IAM
      else if s = ''aad'' then AAD
      else if s = ''okta'' then OKTA
      else dflt)"

definition AuthType_ToString :: "auth_type \<Rightarrow> string" where
  "AuthType_ToString t =
     (case t of AWS_PROFILE \<Rightarrow> ''aws_profile'' | IAM \<Rightarrow> ''iam'' | AAD \<Rightarrow> ''aad'' | OKTA \<Rightarrow> ''okta'')"

datatype log_level =
  LOG_OFF | ERROR_LEVEL | WARNING_LEVEL | INFO_LEVEL | DEBUG_LEVEL | LogLevel_UNKNOWN

definition LogLevel_FromString :: "string \<Rightarrow> log_level \<Rightarrow> log_level" where
  "LogLevel_FromString val dflt =
     (let s = Trim val in
      if s = ''4'' then DEBUG_LEVEL
      else if s = ''3'' then INFO_LEVEL
      else if s = ''2'' then WARNING_LEVEL
      else if s = ''1'' then ERROR_LEVEL
      else if s = ''0'' then LOG_OFF
      else dflt)"

definition LogLevel_ToString :: "log_level \<Rightarrow> string" where
  "LogLevel_ToString l =
     (case l of
        DEBUG_LEVEL \<Rightarrow> ''4'' | INFO_LEVEL \<Rightarrow> ''3'' | WARNING_LEVEL \<Rightarrow> ''2'' | ERROR_LEVEL \<Rightarrow> ''1''
      | LOG_OFF \<Rightarrow> ''0'' | LogLevel_UNKNOWN \<Rightarrow> ''unknown'')"

lemma AuthType_roundtrip [simp]: "AuthType_FromString (AuthType_ToString t) d = t"
  by (cases t) (simp_all add: AuthType_FromString_def AuthType_ToString_def Trim_id trimmed_def
      ToLower_def tolower_def isupper_def isspace_def char_code_def)

lemma LogLevel_roundtrip [simp]:
  "l \<noteq> LogLevel_UNKNOWN \<Longrightarrow> LogLevel_FromString (LogLevel_ToString l) d = l"
  by (cases l) (simp_all add: LogLevel_FromString_def LogLevel_ToString_def Trim_id trimmed_def
      isspace_def char_code_def)

section \<open>The configuration\<close>

record configuration =
  cf_dsn :: "string settable"
  cf_driver :: "string settable"
  cf_uid :: "string settable"
  cf_pwd :: "string settable"
  cf_accessKeyId :: "string settable"
  cf_secretKey :: "string settable"
  cf_sessionToken :: "string settable"
  cf_profileName :: "string settable"
  cf_reqTimeout :: "int settable"
  cf_connectionTimeout :: "int settable"
  cf_maxRetryCountClient :: "int settable"
  cf_maxConnections :: "int settable"
  cf_endpoint :: "string settable"
  cf_region :: "string settable"
  cf_authType :: "auth_type settable"
  cf_idPHost :: "string settable"
  cf_idPUserName :: "string settable"
  cf_idPPassword :: "string settable"
  cf_idPArn :: "string settable"
  cf_oktaAppId :: "string settable"
  cf_roleArn :: "string settable"
  cf_aadAppId :: "string settable"
  cf_aadClientSecret :: "string settable"
  cf_aadTenant :: "string settable"
  cf_logLevel :: "log_level settable"
  cf_logPath :: "string settable"
  cf_maxRowPerPage :: "int settable"

text \<open>Initial configuration: every member at its default. The default log directory is chosen per
  platform outside this file, so it is an argument.\<close>

definition DefaultConfiguration :: "string \<Rightarrow> configuration" where
  "DefaultConfiguration log_path0 =
     \<lparr>cf_dsn = SettableValue ''Timestream DSN'',
      cf_driver = SettableValue ''Amazon Timestream ODBC Driver'',
      cf_uid = SettableValue [],
      cf_pwd = SettableValue [],
      cf_accessKeyId = SettableValue [],
      cf_secretKey = SettableValue [],
      cf_sessionToken = SettableValue [],
      cf_profileName = SettableValue [],
      cf_reqTimeout = SettableValue 3000,
      cf_connectionTimeout = SettableValue 1000,
      cf_maxRetryCountClient = SettableValue 0,
      cf_maxConnections = SettableValue 25,
      cf_endpoint = SettableValue [],
      cf_region = SettableValue ''us-east-1'',
      cf_authType = SettableValue AWS_PROFILE,
      cf_idPHost = SettableValue [],
      cf_idPUserName = SettableValue [],
      cf_idPPassword = SettableValue [],
      cf_idPArn = SettableValue [],
      cf_oktaAppId = SettableValue [],
      cf_roleArn = SettableValue [],
      cf_aadAppId = SettableValue [],
      cf_aadClientSecret = SettableValue [],
      cf_aadTenant = SettableValue [],
      cf_logLevel = SettableValue WARNING_LEVEL,
      cf_logPath = SettableValue log_path0,
      cf_maxRowPerPage = SettableValue (-1)\<rparr>"

text \<open>Keywords of the attributes (\<^verbatim>\<open>ConnectionStringParser::Key\<close>), in lower case.\<close>

abbreviation K_dsn :: string where "K_dsn \<equiv> ''dsn''"
abbreviation K_driver :: string where "K_driver \<equiv> ''driver''"
abbreviation K_uid :: string where "K_uid \<equiv> ''uid''"
abbreviation K_pwd :: string where "K_pwd \<equiv> ''pwd''"
abbreviation K_accessKeyId :: string where "K_accessKeyId \<equiv> ''accesskeyid''"
abbreviation K_secretKey :: string where "K_secretKey \<equiv> ''secretkey''"
abbreviation K_sessionToken :: string where "K_sessionToken \<equiv> ''sessiontoken''"
abbreviation K_profileName :: string where "K_profileName \<equiv> ''profilename''"
abbreviation K_reqTimeout :: string where "K_reqTimeout \<equiv> ''requesttimeout''"
abbreviation K_connectionTimeout :: string where "K_connectionTimeout \<equiv> ''connectiontimeout''"
abbreviation K_maxRetryCountClient :: string where "K_maxRetryCountClient \<equiv> ''maxretrycountclient''"
abbreviation K_maxConnections :: string where "K_maxConnections \<equiv> ''maxconnections''"
abbreviation K_endpoint :: string where "K_endpoint \<equiv> ''endpointoverride''"
abbreviation K_region :: string where "K_region \<equiv> ''region''"
abbreviation K_authType :: string where "K_authType \<equiv> ''auth''"
abbreviation K_idPHost :: string where "K_idPHost \<equiv> ''idphost''"
abbreviation K_idPUserName :: string where "K_idPUserName \<equiv> ''idpusername''"
abbreviation K_idPPassword :: string where "K_idPPassword \<equiv> ''idppassword''"
abbreviation K_idPArn :: string where "K_idPArn \<equiv> ''idparn''"
abbreviation K_oktaAppId :: string where "K_oktaAppId \<equiv> ''oktaapplicationid''"
abbreviation K_roleArn :: string where "K_roleArn \<equiv> ''rolearn''"
abbreviation K_aadAppId :: string where "K_aadAppId \<equiv> ''aadapplicationid''"
abbreviation K_aadClientSecret :: string where "K_aadClientSecret \<equiv> ''aadclientsecret''"
abbreviation K_aadTenant :: string where "K_aadTenant \<equiv> ''aadtenant''"
abbreviation K_logLevel :: string where "K_logLevel \<equiv> ''loglevel''"
abbreviation K_logPath :: string where "K_logPath \<equiv> ''logoutput''"
abbreviation K_maxRowPerPage :: string where "K_maxRowPerPage \<equiv> ''maxrowperpage''"

section \<open>Setters\<close>

definition SetDsn :: "string \<Rightarrow> configuration \<Rightarrow> configuration" where
  "SetDsn v c = c\<lparr>cf_dsn := SetValue v False (cf_dsn c)\<rparr>"

definition SetDriver :: "string \<Rightarrow> configuration \<Rightarrow> configuration" where
  "SetDriver v c = c\<lparr>cf_driver := SetValue v False (cf_driver c)\<rparr>"

definition SetUid :: "string \<Rightarrow> configuration \<Rightarrow> configuration" where
  "SetUid v c = c\<lparr>cf_uid := SetValue v False (cf_uid c)\<rparr>"

definition SetPwd :: "string \<Rightarrow> configuration \<Rightarrow> configuration" where
  "SetPwd v c = c\<lparr>cf_pwd := SetValue v False (cf_pwd c)\<rparr>"

definition SetAccessKeyId :: "string \<Rightarrow> configuration \<Rightarrow> configuration" where
  "SetAccessKeyId v c = c\<lparr>cf_accessKeyId := SetValue v False (cf_accessKeyId c)\<rparr>"

definition SetSecretKey :: "string \<Rightarrow> configuration \<Rightarrow> configuration" where
  "SetSecretKey v c = c\<lparr>cf_secretKey := SetValue v False (cf_secretKey c)\<rparr>"

definition SetSessionToken :: "string \<Rightarrow> configuration \<Rightarrow> configuration" where
  "SetSessionToken v c = c\<lparr>cf_sessionToken := SetValue v False (cf_sessionToken c)\<rparr>"

definition SetProfileName :: "string \<Rightarrow> configuration \<Rightarrow> configuration" where
  "SetProfileName v c = c\<lparr>cf_profileName := SetValue v False (cf_profileName c)\<rparr>"

definition SetReqTimeout :: "int \<Rightarrow> configuration \<Rightarrow> configuration" where
  "SetReqTimeout v c = c\<lparr>cf_reqTimeout := SetValue v False (cf_reqTimeout c)\<rparr>"

definition SetConnectionTimeout :: "int \<Rightarrow> configuration \<Rightarrow> configuration" where
  "SetConnectionTimeout v c = c\<lparr>cf_connectionTimeout := SetValue v False (cf_connectionTimeout c)\<rparr>"

definition SetMaxRetryCountClient :: "int \<Rightarrow> configuration \<Rightarrow> configuration" where
  "SetMaxRetryCountClient v c = c\<lparr>cf_maxRetryCountClient := SetValue v False (cf_maxRetryCountClient c)\<rparr>"

definition SetMaxConnections :: "int \<Rightarrow> configuration \<Rightarrow> configuration" where
  "SetMaxConnections v c = c\<lparr>cf_maxConnections := SetValue v False (cf_maxConnections c)\<rparr>"

definition SetEndpoint :: "string \<Rightarrow> configuration \<Rightarrow> configuration" where
  "SetEndpoint v c = c\<lparr>cf_endpoint := SetValue v False (cf_endpoint c)\<rparr>"

definition SetRegion :: "string \<Rightarrow> configuration \<Rightarrow> configuration" where
  "SetRegion v c = c\<lparr>cf_region := SetValue v False (cf_region c)\<rparr>"

definition SetAuthType :: "auth_type \<Rightarrow> configuration \<Rightarrow> configuration" where
  "SetAuthType v c = c\<lparr>cf_authType := SetValue v False (cf_authType c)\<rparr>"

definition SetIdPHost :: "string \<Rightarrow> configuration \<Rightarrow> configuration" where
  "SetIdPHost v c = c\<lparr>cf_idPHost := SetValue v False (cf_idPHost c)\<rparr>"

definition SetIdPUserName :: "string \<Rightarrow> configuration \<Rightarrow> configuration" where
  "SetIdPUserName v c = c\<lparr>cf_idPUserName := SetValue v False (cf_idPUserName c)\<rparr>"

definition SetIdPPassword :: "string \<Rightarrow> configuration \<Rightarrow> configuration" where
  "SetIdPPassword v c = c\<lparr>cf_idPPassword := SetValue v False (cf_idPPassword c)\<rparr>"

definition SetIdPArn :: "string \<Rightarrow> configuration \<Rightarrow> configuration" where
  "SetIdPArn v c = c\<lparr>cf_idPArn := SetValue v False (cf_idPArn c)\<rparr>"

definition SetOktaAppId :: "string \<Rightarrow> configuration \<Rightarrow> configuration" where
  "SetOktaAppId v c = c\<lparr>cf_oktaAppId := SetValue v False (cf_oktaAppId c)\<rparr>"

definition SetRoleArn :: "string \<Rightarrow> configuration \<Rightarrow> configuration" where
  "SetRoleArn v c = c\<lparr>cf_roleArn := SetValue v False (cf_roleArn c)\<rparr>"

definition SetAADAppId :: "string \<Rightarrow> configuration \<Rightarrow> configuration" where
  "SetAADAppId v c = c\<lparr>cf_aadAppId := SetValue v False (cf_aadAppId c)\<rparr>"

definition SetAADClientSecret :: "string \<Rightarrow> configuration \<Rightarrow> configuration" where
  "SetAADClientSecret v c = c\<lparr>cf_aadClientSecret := SetValue v False (cf_aadClientSecret c)\<rparr>"

definition SetAADTenant :: "string \<Rightarrow> configuration \<Rightarrow> configuration" where
  "SetAADTenant v c = c\<lparr>cf_aadTenant := SetValue v False (cf_aadTenant c)\<rparr>"

definition SetMaxRowPerPage :: "int \<Rightarrow> configuration \<Rightarrow> configuration" where
  "SetMaxRowPerPage v c = c\<lparr>cf_maxRowPerPage := SetValue v False (cf_maxRowPerPage c)\<rparr>"

text \<open>The two setters that also reach the process-wide logger. The file system test of the log
  directory is an argument.\<close>

record logger =
  lg_level :: log_level
  lg_path :: string

definition SetLogLevel :: "log_level \<Rightarrow> configuration \<times> logger \<Rightarrow> configuration \<times> logger" where
  "SetLogLevel v = (\<lambda>(c, l).
     if v \<noteq> LogLevel_UNKNOWN then
       (c\<lparr>cf_logLevel := SetValue v False (cf_logLevel c)\<rparr>, l\<lparr>lg_level := v\<rparr>)
     else (c, l))"

definition SetLogPath ::
  "(string \<Rightarrow> bool) \<Rightarrow> string \<Rightarrow> configuration \<times> logger \<Rightarrow> configuration \<times> logger" where
  "SetLogPath valid_dir p = (\<lambda>(c, l).
     if valid_dir p then
       (c\<lparr>cf_logPath := SetValue p False (cf_logPath c)\<rparr>, l\<lparr>lg_path := p\<rparr>)
     else (c, l))"

lemmas setter_defs [conf_simps] =
  SetDsn_def SetDriver_def 
  SetUid_def SetPwd_def SetAccessKeyId_def SetSecretKey_def SetSessionToken_def SetProfileName_def 
  SetReqTimeout_def SetConnectionTimeout_def SetMaxRetryCountClient_def SetMaxConnections_def SetEndpoint_def 
  SetRegion_def SetAuthType_def SetIdPHost_def SetIdPUserName_def SetIdPPassword_def SetIdPArn_def SetOktaAppId_def 
  SetRoleArn_def SetAADAppId_def SetAADClientSecret_def SetAADTenant_def SetMaxRowPerPage_def
  SetLogLevel_def SetLogPath_def

section \<open>Derived readings and validation\<close>

definition IsProfileNameSet :: "configuration \<Rightarrow> bool" where
  "IsProfileNameSet c \<longleftrightarrow> IsSet (cf_profileName c) \<and> GetValue (cf_profileName c) \<noteq> []"

definition GetDsn :: "string \<Rightarrow> configuration \<Rightarrow> string" where
  "GetDsn dflt c = (if \<not> IsSet (cf_dsn c) then dflt else GetValue (cf_dsn c))"

definition GetDSNUserName :: "configuration \<Rightarrow> string" where
  "GetDSNUserName c =
     (if GetValue (cf_uid c) \<noteq> [] then GetValue (cf_uid c)
      else
        (case GetValue (cf_authType c) of
           IAM \<Rightarrow> GetValue (cf_accessKeyId c)
         | OKTA \<Rightarrow> GetValue (cf_idPUserName c)
         | AAD \<Rightarrow> GetValue (cf_idPUserName c)
         | AWS_PROFILE \<Rightarrow> GetValue (cf_uid c)))"

definition GetDSNPassword :: "configuration \<Rightarrow> string" where
  "GetDSNPassword c =
     (if GetValue (cf_pwd c) \<noteq> [] then GetValue (cf_pwd c)
      else
        (case GetValue (cf_authType c) of
           IAM \<Rightarrow> GetValue (cf_secretKey c)
         | OKTA \<Rightarrow> GetValue (cf_idPPassword c)
         | AAD \<Rightarrow> GetValue (cf_idPPassword c)
         | AWS_PROFILE \<Rightarrow> GetValue (cf_pwd c)))"

definition nl :: char where "nl = char_of (10::nat)"
definition dq :: char where "dq = char_of (34::nat)"

definition msg_okta :: string where
  "msg_okta = ''The following is required to connect:'' @ [nl] @ ''AUTH is '' @ [dq] @ ''OKTA'' @ [dq]
     @ '' and IdpHost, UID or IdpUserName, PWD or IdpPassword, OktaAppId, RoleArn and IdpArn''"

definition msg_aad :: string where
  "msg_aad = ''The following is required to connect:'' @ [nl] @ ''AUTH is '' @ [dq] @ ''AAD'' @ [dq]
     @ '' and UID or IdpUserName, PWD or IdpPassword, and AADAppId, RoleArn, IdpArn, AADTenant''
     @ '' and AADClientSecret''"

definition msg_iam :: string where
  "msg_iam = ''The following is required to connect:'' @ [nl] @ ''AUTH is '' @ [dq] @ ''IAM'' @ [dq]
     @ '' and UID and PWD or AccessKeyId and Secretkey''"

text \<open>\<^verbatim>\<open>Validate\<close> throws an \<^verbatim>\<open>OdbcError\<close>: the \<open>Some\<close> case is what is thrown.\<close>

definition Validate :: "configuration \<Rightarrow> (sql_state \<times> string) option" where
  "Validate c =
     (if GetValue (cf_authType c) = OKTA
         \<and> (GetValue (cf_idPHost c) = [] \<or> GetDSNUserName c = [] \<or> GetDSNPassword c = []
            \<or> GetValue (cf_idPArn c) = [] \<or> GetValue (cf_roleArn c) = []
            \<or> GetValue (cf_oktaAppId c) = [])
      then Some (S01S00_INVALID_CONNECTION_STRING_ATTRIBUTE, msg_okta)
      else if GetValue (cf_authType c) = AAD
         \<and> (GetDSNUserName c = [] \<or> GetDSNPassword c = [] \<or> GetValue (cf_idPArn c) = []
            \<or> GetValue (cf_roleArn c) = [] \<or> GetValue (cf_aadAppId c) = []
            \<or> GetValue (cf_aadTenant c) = [] \<or> GetValue (cf_aadClientSecret c) = [])
      then Some (S01S00_INVALID_CONNECTION_STRING_ATTRIBUTE, msg_aad)
      else if GetValue (cf_authType c) = IAM
         \<and> (GetDSNUserName c = [] \<or> GetDSNPassword c = [])
      then Some (S01S00_INVALID_CONNECTION_STRING_ATTRIBUTE, msg_iam)
      else None)"

section \<open>Rendering\<close>

definition AddToMapStr :: "string \<Rightarrow> string settable \<Rightarrow> argument_map \<Rightarrow> argument_map" where
  "AddToMapStr k s m = (if IsSet s then amap_put k (GetValue s) m else m)"

definition AddToMapInt :: "string \<Rightarrow> int settable \<Rightarrow> argument_map \<Rightarrow> argument_map" where
  "AddToMapInt k s m = (if IsSet s then amap_put k (int_str (GetValue s)) m else m)"

definition AddToMapAuth :: "string \<Rightarrow> auth_type settable \<Rightarrow> argument_map \<Rightarrow> argument_map" where
  "AddToMapAuth k s m = (if IsSet s then amap_put k (AuthType_ToString (GetValue s)) m else m)"

definition AddToMapLog :: "string \<Rightarrow> log_level settable \<Rightarrow> argument_map \<Rightarrow> argument_map" where
  "AddToMapLog k s m = (if IsSet s then amap_put k (LogLevel_ToString (GetValue s)) m else m)"

text \<open>The calls of \<^verbatim>\<open>ToMap\<close>, in the order of the source.\<close>

definition ToMap :: "configuration \<Rightarrow> argument_map \<Rightarrow> argument_map" where
  "ToMap c m = fold (\<lambda>f. f)
     [AddToMapStr K_dsn (cf_dsn c),
      AddToMapStr K_driver (cf_driver c),
      AddToMapStr K_uid (cf_uid c),
      AddToMapStr K_pwd (cf_pwd c),
      AddToMapStr K_accessKeyId (cf_accessKeyId c),
      AddToMapStr K_secretKey (cf_secretKey c),
      AddToMapStr K_sessionToken (cf_sessionToken c),
      AddToMapStr K_profileName (cf_profileName c),
      AddToMapInt K_reqTimeout (cf_reqTimeout c),
      AddToMapInt K_connectionTimeout (cf_connectionTimeout c),
      AddToMapInt K_maxRetryCountClient (cf_maxRetryCountClient c),
      AddToMapInt K_maxConnections (cf_maxConnections c),
      AddToMapStr K_endpoint (cf_endpoint c),
      AddToMapStr K_region (cf_region c),
      AddToMapAuth K_authType (cf_authType c),
      AddToMapStr K_idPHost (cf_idPHost c),
      AddToMapStr K_idPUserName (cf_idPUserName c),
      AddToMapStr K_idPPassword (cf_idPPassword c),
      AddToMapStr K_idPArn (cf_idPArn c),
      AddToMapStr K_oktaAppId (cf_oktaAppId c),
      AddToMapStr K_roleArn (cf_roleArn c),
      AddToMapStr K_aadAppId (cf_aadAppId c),
      AddToMapStr K_aadClientSecret (cf_aadClientSecret c),
      AddToMapStr K_aadTenant (cf_aadTenant c),
      AddToMapLog K_logLevel (cf_logLevel c),
      AddToMapStr K_logPath (cf_logPath c),
      AddToMapInt K_maxRowPerPage (cf_maxRowPerPage c)] m"

definition conn_segment :: "string \<times> string \<Rightarrow> string" where
  "conn_segment kv =
     (if snd kv = [] then []
      else if CHR '' '' \<notin> set (snd kv) then fst kv @ ''='' @ snd kv @ '';''
      else fst kv @ ''={'' @ snd kv @ ''};'')"

definition ToConnectString :: "configuration \<Rightarrow> string" where
  "ToConnectString c = concat (map conn_segment (ToMap c []))"

end
