(* ===== verification/Conn_String.thy ===== *)
theory Conn_String
  imports Configuration
begin

text \<open>
  The connection string parser (\<^verbatim>\<open>src/config/connection_string_parser.cpp\<close>): attributes are cut
  off the end of the string one by one, and each key and value pair updates the configuration,
  the logger or the diagnostics.
\<close>

section \<open>State and environment\<close>

record parse_state =
  ps_cfg :: configuration
  ps_logger :: logger
  ps_diag :: "diag_storage option"

text \<open>What the parser takes from its platform: the directory test of the log path, and the size
  in bytes of a \<^verbatim>\<open>std::string\<close> object, which the source compares lengths with.\<close>

record platform =
  valid_dir :: "string \<Rightarrow> bool"
  sizeof_string :: nat

definition set_cfg :: "(configuration \<Rightarrow> configuration) \<Rightarrow> parse_state \<Rightarrow> parse_state" where
  "set_cfg f ps = ps\<lparr>ps_cfg := f (ps_cfg ps)\<rparr>"

definition set_logged ::
  "(configuration \<times> logger \<Rightarrow> configuration \<times> logger) \<Rightarrow> parse_state \<Rightarrow> parse_state" where
  "set_logged f ps = (let (c, l) = f (ps_cfg ps, ps_logger ps) in ps\<lparr>ps_cfg := c, ps_logger := l\<rparr>)"

definition warn :: "string \<Rightarrow> parse_state \<Rightarrow> parse_state" where
  "warn msg ps =
     ps\<lparr>ps_diag := map_option (AddStatusRecord S01S02_OPTION_VALUE_CHANGED msg) (ps_diag ps)\<rparr>"

section \<open>One attribute\<close>

definition quote :: char where "quote = char_of (39::nat)"

definition MakeErrorMessage :: "string \<Rightarrow> string \<Rightarrow> string \<Rightarrow> string" where
  "MakeErrorMessage msg key val =
     msg @ '' [key='' @ [quote] @ key @ [quote] @ '', value='' @ [quote] @ val @ [quote] @ '']''"

text \<open>Stream extraction of a non-negative decimal number into an \<^verbatim>\<open>int64_t\<close>: a value that does not
  fit leaves the largest one.\<close>

definition stream_int64 :: "string \<Rightarrow> int" where
  "stream_int64 s = min (dec_val s) (2 ^ 63 - 1)"

text \<open>The checks the numeric attributes share. \<open>zero_ok\<close> tells the two attributes whose range
  starts at 0 from the others.\<close>

definition handle_number ::
  "platform \<Rightarrow> string \<Rightarrow> bool \<Rightarrow> (int \<Rightarrow> configuration \<Rightarrow> configuration) \<Rightarrow> string \<Rightarrow> string \<Rightarrow>
   parse_state \<Rightarrow> parse_state" where
  "handle_number p name zero_ok setter key val ps =
     (if val = [] then
        warn (MakeErrorMessage (name @ '' attribute value is empty. Using default value.'') key val) ps
      else if \<not> AllDigits val then
        warn (MakeErrorMessage
          (name @ '' attribute value contains unexpected characters. Using default value.'') key val) ps
      else if sizeof_string p \<le> length val then
        warn (MakeErrorMessage (name @ '' attribute value is too large. Using default value.'') key val) ps
      else
        let n = stream_int64 val in
        if (if zero_ok then n < 0 else n \<le> 0) \<or> 4294967295 < n then
          warn (MakeErrorMessage (name @ '' attribute value is out of range. Using default value.'')
            key val) ps
        else set_cfg (setter (to_int32 (to_uint32 n))) ps)"

definition Handle_reqTimeout :: "platform \<Rightarrow> string \<Rightarrow> string \<Rightarrow> parse_state \<Rightarrow> parse_state" where
  "Handle_reqTimeout p = handle_number p ''Request Timeout'' False SetReqTimeout"

definition Handle_connectionTimeout :: "platform \<Rightarrow> string \<Rightarrow> string \<Rightarrow> parse_state \<Rightarrow> parse_state" where
  "Handle_connectionTimeout p = handle_number p ''Connection Timeout'' False SetConnectionTimeout"

definition Handle_maxRetryCountClient :: "platform \<Rightarrow> string \<Rightarrow> string \<Rightarrow> parse_state \<Rightarrow> parse_state" where
  "Handle_maxRetryCountClient p = handle_number p ''Max Retry Count Client'' True SetMaxRetryCountClient"

definition Handle_maxConnections :: "platform \<Rightarrow> string \<Rightarrow> string \<Rightarrow> parse_state \<Rightarrow> parse_state" where
  "Handle_maxConnections p = handle_number p ''Max Connections'' False SetMaxConnections"

definition Handle_maxRowPerPage :: "platform \<Rightarrow> string \<Rightarrow> string \<Rightarrow> parse_state \<Rightarrow> parse_state" where
  "Handle_maxRowPerPage p = handle_number p ''Max Row Per Page'' True SetMaxRowPerPage"

definition Handle_authType :: "string \<Rightarrow> string \<Rightarrow> parse_state \<Rightarrow> parse_state" where
  "Handle_authType key val ps =
     (let authType = AuthType_FromString val AWS_PROFILE;
          v = Trim (ToLower val)
      in if v \<noteq> ''aws_profile'' \<and> authType = AWS_PROFILE then
           warn (''Specified AUTH is not supported. Default value used ('' @ [quote] @ ''AWS_PROFILE''
             @ [quote] @ '').'') ps
         else set_cfg (SetAuthType authType) ps)"

definition Handle_logLevel :: "string \<Rightarrow> string \<Rightarrow> parse_state \<Rightarrow> parse_state" where
  "Handle_logLevel key val ps =
     (let level = LogLevel_FromString val LogLevel_UNKNOWN in
      if level = LogLevel_UNKNOWN then
        warn (''Specified Log Level is not supported. Default value used ('' @ [quote] @ ''2''
          @ [quote] @ '').'') ps
      else set_logged (SetLogLevel level) ps)"

text \<open>Attributes that report a second value for the same member before they overwrite it.\<close>

definition rewriting ::
  "string \<Rightarrow> (configuration \<Rightarrow> string settable) \<Rightarrow> (string \<Rightarrow> configuration \<Rightarrow> configuration) \<Rightarrow>
   string \<Rightarrow> parse_state \<Rightarrow> parse_state" where
  "rewriting name get setter val ps =
     set_cfg (setter val)
       (if GetValue (get (ps_cfg ps)) \<noteq> [] then
          warn (''Re-writing '' @ name @ '' (have you specified it several times?'') ps
        else ps)"

definition HandleAttributePair ::
  "platform \<Rightarrow> string \<Rightarrow> string \<Rightarrow> parse_state \<Rightarrow> parse_state" where
  "HandleAttributePair p key val ps =
     (let lKey = ToLower key in
      if lKey = K_dsn then set_cfg (SetDsn val) ps
      else if lKey = K_profileName then set_cfg (SetProfileName val) ps
      else if lKey = K_reqTimeout then Handle_reqTimeout p key val ps
      else if lKey = K_connectionTimeout then Handle_connectionTimeout p key val ps
      else if lKey = K_maxRetryCountClient then Handle_maxRetryCountClient p key val ps
      else if lKey = K_maxConnections then Handle_maxConnections p key val ps
      else if lKey = K_endpoint then set_cfg (SetEndpoint val) ps
      else if lKey = K_region then set_cfg (SetRegion val) ps
      else if lKey = K_authType then Handle_authType key val ps
      else if lKey = K_idPHost then set_cfg (SetIdPHost val) ps
      else if lKey = K_idPUserName then rewriting ''IdPUserName'' cf_idPUserName SetIdPUserName val ps
      else if lKey = K_idPPassword then rewriting ''IdPPassword'' cf_idPPassword SetIdPPassword val ps
      else if lKey = K_idPArn then set_cfg (SetIdPArn val) ps
      else if lKey = K_oktaAppId then set_cfg (SetOktaAppId val) ps
      else if lKey = K_roleArn then set_cfg (SetRoleArn val) ps
      else if lKey = K_aadAppId then set_cfg (SetAADAppId val) ps
      else if lKey = K_aadClientSecret then rewriting ''AADClientSecret'' cf_aadClientSecret SetAADClientSecret val ps
      else if lKey = K_aadTenant then set_cfg (SetAADTenant val) ps
      else if lKey = K_logLevel then Handle_logLevel key val ps
      else if lKey = K_logPath then set_logged (SetLogPath (valid_dir p) val) ps
      else if lKey = K_driver then set_cfg (SetDriver val) ps
      else if lKey = K_uid then rewriting ''UID'' cf_uid SetUid val ps
      else if lKey = K_pwd then rewriting ''PWD'' cf_pwd SetPwd val ps
      else if lKey = K_accessKeyId then rewriting ''AccessKeyId'' cf_accessKeyId SetAccessKeyId val ps
      else if lKey = K_secretKey then rewriting ''SecretKey'' cf_secretKey SetSecretKey val ps
      else if lKey = K_sessionToken then rewriting ''SessionToken'' cf_sessionToken SetSessionToken val ps
      else if lKey = K_maxRowPerPage then Handle_maxRowPerPage p key val ps
      else warn (''Unknown attribute: '' @ [quote] @ key @ [quote] @ ''. Ignoring.'') ps)"

section \<open>The loop over the string\<close>

fun rfind :: "char \<Rightarrow> string \<Rightarrow> nat option" where
  "rfind c [] = None"
| "rfind c (x # xs) =
     (case rfind c xs of
        Some i \<Rightarrow> Some (Suc i)
      | None \<Rightarrow> if x = c then Some 0 else None)"

definition substr :: "string \<Rightarrow> nat \<Rightarrow> nat \<Rightarrow> string" where
  "substr s pos n = take n (drop pos s)"

definition unbrace :: "string \<Rightarrow> string" where
  "unbrace v = (if v \<noteq> [] \<and> hd v = CHR ''{'' \<and> last v = CHR ''}'' then substr v 1 (length v - 2) else v)"

lemma rfind_lt: "rfind c s = Some i \<Longrightarrow> i < length s"
  by (induction s arbitrary: i) (auto split: option.splits if_splits)

function parse_loop ::
  "(string \<Rightarrow> string \<Rightarrow> 's \<Rightarrow> 's) \<Rightarrow> char \<Rightarrow> string \<Rightarrow> 's \<Rightarrow> 's" where
  "parse_loop handle delim s st =
     (if s = [] then st
      else
        let attr_begin = (case rfind delim s of None \<Rightarrow> 0 | Some i \<Rightarrow> i + 1);
            attr_eq_pos = (case rfind CHR ''='' s of None \<Rightarrow> 0 | Some i \<Rightarrow> i);
            st' =
              (if attr_begin < attr_eq_pos then
                 handle (Trim (substr s attr_begin (attr_eq_pos - attr_begin)))
                   (unbrace (Trim (substr s (attr_eq_pos + 1) (length s - attr_eq_pos)))) st
               else st)
        in if attr_begin = 0 then st' else parse_loop handle delim (take (attr_begin - 1) s) st')"
  by pat_completeness auto
termination
  by (relation "measure (\<lambda>(_, _, s, _). length s)") (auto split: option.splits dest: rfind_lt)

declare parse_loop.simps [simp del]

definition ParseConnectionStringDelim ::
  "platform \<Rightarrow> string \<Rightarrow> char \<Rightarrow> parse_state \<Rightarrow> parse_state" where
  "ParseConnectionStringDelim p str delim =
     parse_loop (HandleAttributePair p) delim (rev (dropWhile (\<lambda>c. c = NUL) (rev str)))"

definition ParseConnectionString :: "platform \<Rightarrow> string \<Rightarrow> parse_state \<Rightarrow> parse_state" where
  "ParseConnectionString p str = ParseConnectionStringDelim p str CHR '';''"

text \<open>\<^verbatim>\<open>ParseConfigAttributes\<close>: the attribute list is terminated by two zero bytes; scanning memory
  that has none is undefined, \<open>None\<close> here.\<close>

fun attr_list_len :: "string \<Rightarrow> nat option" where
  "attr_list_len (a # b # s) =
     (if a \<noteq> NUL \<or> b \<noteq> NUL then map_option Suc (attr_list_len (b # s)) else Some 0)"
| "attr_list_len _ = None"

definition ParseConfigAttributes :: "platform \<Rightarrow> string \<Rightarrow> parse_state \<Rightarrow> parse_state option" where
  "ParseConfigAttributes p mem ps =
     map_option (\<lambda>len. ParseConnectionStringDelim p (take (Suc len) mem) NUL ps) (attr_list_len mem)"

end
