(* ===== verification/Conn_Round_Trip.thy ===== *)
theory Conn_Round_Trip
  imports Conn_String
begin

text \<open>
  What the connection string parser does to a string of segments \<open>key=value;\<close>, the effect of the
  whole string on one member of the configuration, and the round trip of a configuration through
  the string it is rendered to.
\<close>

section \<open>The search from the right\<close>

lemma rfind_none: "c \<notin> set s \<Longrightarrow> rfind c s = None"
  by (induction s) auto

lemma rfind_last: "c \<notin> set ys \<Longrightarrow> rfind c (xs @ c # ys) = Some (length xs)"
  by (induction xs) (simp_all add: rfind_none)

section \<open>The loop on segments\<close>

lemma parse_loop_empty [simp]: "parse_loop h d [] st = st"
  by (simp add: parse_loop.simps)

lemma parse_loop_trailing: "parse_loop h d (s @ [d]) st = parse_loop h d s st"
proof -
  have "rfind d (s @ [d]) = Some (length s)"
    using rfind_last [of d "[]" s] by simp
  moreover have "rfind CHR ''='' (s @ [d]) = Some i \<Longrightarrow> i < Suc (length s)" for i
    using rfind_lt [of "CHR ''=''" "s @ [d]" i] by simp
  ultimately show ?thesis
    by (subst parse_loop.simps) (auto simp: Let_def split: option.split)
qed

definition good_key :: "string \<Rightarrow> bool" where
  "good_key k \<longleftrightarrow> k \<noteq> [] \<and> trimmed k \<and> CHR '';'' \<notin> set k \<and> CHR ''='' \<notin> set k"

definition plain_text :: "string \<Rightarrow> bool" where
  "plain_text w \<longleftrightarrow> CHR '';'' \<notin> set w \<and> CHR ''='' \<notin> set w"

lemma parse_loop_body:
  assumes "a = [] \<or> last a = CHR '';''" and "k \<noteq> []" and "CHR '';'' \<notin> set k"
    and "CHR '';'' \<notin> set w" and "CHR ''='' \<notin> set w"
  shows "parse_loop h CHR '';'' (a @ k @ CHR ''='' # w) st =
    parse_loop h CHR '';'' a (h (Trim k) (unbrace (Trim w)) st)"
proof -
  let ?s = "a @ k @ CHR ''='' # w"
  have eq: "rfind CHR ''='' ?s = Some (length a + length k)"
    using assms rfind_last [of "CHR ''=''" w "a @ k"] by simp
  show ?thesis
  proof (cases "a = []")
    case True
    have "rfind CHR '';'' ?s = None"
      using assms True by (intro rfind_none) auto
    with True eq assms(2) show ?thesis
      by (subst parse_loop.simps) (simp add: Let_def substr_def)
  next
    case False
    with assms(1) obtain b where a: "a = b @ [CHR '';'']"
      by (metis append_butlast_last_id)
    have "rfind CHR '';'' ?s = Some (length b)"
      using rfind_last [of "CHR '';''" "k @ CHR ''='' # w" b] assms a by auto
    with a eq assms(2) show ?thesis
      by (subst parse_loop.simps) (simp add: Let_def substr_def parse_loop_trailing)
  qed
qed

definition segment :: "string \<times> string \<Rightarrow> string" where
  "segment kw = fst kw @ ''='' @ snd kw @ '';''"

lemma parse_loop_segments:
  assumes "\<forall>(k, w) \<in> set kws. good_key k \<and> plain_text w"
  shows "parse_loop h CHR '';'' (concat (map segment kws)) st =
    foldr (\<lambda>(k, w). h k (unbrace (Trim w))) kws st"
  using assms
proof (induction kws arbitrary: st rule: rev_induct)
  case (snoc kw kws)
  obtain k w where kw: "kw = (k, w)" by (cases kw)
  let ?a = "concat (map segment kws)"
  have a: "?a = [] \<or> last ?a = CHR '';''"
    by (cases kws rule: rev_cases) (simp_all add: segment_def)
  have "parse_loop h CHR '';'' (concat (map segment (kws @ [kw]))) st =
      parse_loop h CHR '';'' (?a @ k @ CHR ''='' # w) st"
    using parse_loop_trailing [of h "CHR '';''" "?a @ k @ CHR ''='' # w"]
    by (simp add: segment_def kw)
  also have "\<dots> = parse_loop h CHR '';'' ?a (h k (unbrace (Trim w)) st)"
    using snoc.prems kw
    by (subst parse_loop_body [OF a]) (auto simp: good_key_def plain_text_def Trim_id)
  finally show ?case
    using snoc kw by simp
qed simp

lemma segments_end: "concat (map segment kws) = [] \<or> last (concat (map segment kws)) = CHR '';''"
  by (cases kws rule: rev_cases) (simp_all add: segment_def)

lemma strip_zeros_id: "s = [] \<or> last s \<noteq> NUL \<Longrightarrow> rev (dropWhile (\<lambda>c. c = NUL) (rev s)) = s"
  by (cases s rule: rev_cases) auto

lemma ParseConnectionString_segments:
  assumes "\<forall>(k, w) \<in> set kws. good_key k \<and> plain_text w"
  shows "ParseConnectionString p (concat (map segment kws)) st =
    foldr (\<lambda>(k, w). HandleAttributePair p k (unbrace (Trim w))) kws st"
proof -
  have "NUL \<noteq> CHR '';''" by (rule NUL_neq) (simp add: char_code_def)
  then show ?thesis
    using parse_loop_segments [OF assms] segments_end [of kws]
    by (auto simp: ParseConnectionString_def ParseConnectionStringDelim_def strip_zeros_id)
qed

section \<open>The effect on one member\<close>

text \<open>A slot is a reading of the parser state that only one keyword writes: the leftmost pair with
  that keyword decides it, because the parser works from the right.\<close>

locale slot =
  fixes handle :: "string \<Rightarrow> string \<Rightarrow> 's \<Rightarrow> 's"
    and key :: string
    and get :: "'s \<Rightarrow> 'a"
    and written :: "string \<Rightarrow> 'a"
    and ok :: "string \<Rightarrow> bool"
  assumes other: "ToLower k \<noteq> key \<Longrightarrow> get (handle k v s) = get s"
    and own: "ToLower k = key \<Longrightarrow> ok v \<Longrightarrow> get (handle k v s) = written v"
begin

lemma leftmost:
  "\<forall>(k, v) \<in> set kvs. ToLower k = key \<longrightarrow> ok v \<Longrightarrow>
   get (foldr (\<lambda>(k, v). handle k v) kvs s) =
     (case map_of (map (\<lambda>(k, v). (ToLower k, v)) kvs) key of None \<Rightarrow> get s | Some v \<Rightarrow> written v)"
proof (induction kvs)
  case (Cons kv kvs)
  then show ?case
    by (cases kv) (auto simp: other own)
qed simp

lemma distinct_keys:
  assumes "distinct (map fst kvs)" and "\<forall>(k, v) \<in> set kvs. ToLower k = k"
    and "map_of kvs key = r" and "\<And>v. r = Some v \<Longrightarrow> ok v"
  shows "get (foldr (\<lambda>(k, v). handle k v) kvs s) = (case r of None \<Rightarrow> get s | Some v \<Rightarrow> written v)"
proof -
  have low: "map (\<lambda>(k, v). (ToLower k, v)) kvs = kvs"
    using assms(2) by (intro map_idI) auto
  have "ok v" if "(k, v) \<in> set kvs" and "ToLower k = key" for k v
  proof -
    have "k = key" using assms(2) that by auto
    then have "map_of kvs key = Some v" using assms(1) that by simp
    then show ?thesis using assms(3,4) by simp
  qed
  then show ?thesis
    using leftmost [of kvs s, unfolded low assms(3)] by blast
qed

end

section \<open>The configuration after one pair\<close>

definition number_ok :: "platform \<Rightarrow> bool \<Rightarrow> string \<Rightarrow> bool" where
  "number_ok p zero_ok v \<longleftrightarrow> v \<noteq> [] \<and> AllDigits v \<and> length v < sizeof_string p
     \<and> (if zero_ok then 0 else 1) \<le> dec_val v \<and> dec_val v < 2 ^ 32"

definition auth_ok :: "string \<Rightarrow> bool" where
  "auth_ok v \<longleftrightarrow> \<not> (Trim (ToLower v) \<noteq> ''aws_profile'' \<and> AuthType_FromString v AWS_PROFILE = AWS_PROFILE)"

definition level_ok :: "string \<Rightarrow> bool" where
  "level_ok v \<longleftrightarrow> LogLevel_FromString v LogLevel_UNKNOWN \<noteq> LogLevel_UNKNOWN"

lemma handle_number_ok:
  "number_ok p z v \<Longrightarrow> handle_number p name z setter k v s = set_cfg (setter (to_int32 (dec_val v))) s"
  by (auto simp: number_ok_def handle_number_def stream_int64_def to_uint32_def min_def Let_def
      split: if_splits)

lemma handle_number_bad:
  "\<not> number_ok p z v \<Longrightarrow> \<exists>m. handle_number p name z setter k v s = warn m s"
  using dec_val_nonneg [of v]
  by (auto simp: number_ok_def handle_number_def stream_int64_def Let_def min_def split: if_splits)

definition effects ::
  "platform \<Rightarrow> (string \<times> (string \<Rightarrow> configuration \<Rightarrow> configuration)) list" where
  "effects p =
    [(K_dsn, SetDsn),
     (K_profileName, SetProfileName),
     (K_reqTimeout, \<lambda>v c. if number_ok p False v then SetReqTimeout (to_int32 (dec_val v)) c else c),
     (K_connectionTimeout, \<lambda>v c. if number_ok p False v then SetConnectionTimeout (to_int32 (dec_val v)) c else c),
     (K_maxRetryCountClient, \<lambda>v c. if number_ok p True v then SetMaxRetryCountClient (to_int32 (dec_val v)) c else c),
     (K_maxConnections, \<lambda>v c. if number_ok p False v then SetMaxConnections (to_int32 (dec_val v)) c else c),
     (K_endpoint, SetEndpoint),
     (K_region, SetRegion),
     (K_authType, \<lambda>v c. if auth_ok v then SetAuthType (AuthType_FromString v AWS_PROFILE) c else c),
     (K_idPHost, SetIdPHost),
     (K_idPUserName, SetIdPUserName),
     (K_idPPassword, SetIdPPassword),
     (K_idPArn, SetIdPArn),
     (K_oktaAppId, SetOktaAppId),
     (K_roleArn, SetRoleArn),
     (K_aadAppId, SetAADAppId),
     (K_aadClientSecret, SetAADClientSecret),
     (K_aadTenant, SetAADTenant),
     (K_logLevel, \<lambda>v c. if level_ok v then c\<lparr>cf_logLevel := SetValue (LogLevel_FromString v LogLevel_UNKNOWN) False (cf_logLevel c)\<rparr> else c),
     (K_logPath, \<lambda>v c. if valid_dir p v then c\<lparr>cf_logPath := SetValue v False (cf_logPath c)\<rparr> else c),
     (K_driver, SetDriver),
     (K_uid, SetUid),
     (K_pwd, SetPwd),
     (K_accessKeyId, SetAccessKeyId),
     (K_secretKey, SetSecretKey),
     (K_sessionToken, SetSessionToken),
     (K_maxRowPerPage, \<lambda>v c. if number_ok p True v then SetMaxRowPerPage (to_int32 (dec_val v)) c else c)]"

definition pair_effect :: "platform \<Rightarrow> string \<Rightarrow> string \<Rightarrow> configuration \<Rightarrow> configuration" where
  "pair_effect p k v c = (case map_of (effects p) k of None \<Rightarrow> c | Some f \<Rightarrow> f v c)"

lemma pair_effect_frame:
  assumes "list_all (\<lambda>(k, f). k \<noteq> key \<longrightarrow> (\<forall>v c. get (f v c) = get c)) (effects p)" and "k \<noteq> key"
  shows "get (pair_effect p k v c) = get c"
  using assms
  by (auto simp: pair_effect_def list_all_iff split: option.split dest!: map_of_SomeD)

lemma ps_cfg_steps:
  "ps_cfg (set_cfg f s) = f (ps_cfg s)"
  "ps_cfg (warn m s) = ps_cfg s"
  "ps_cfg (rewriting n g st v s) = st v (ps_cfg s)"
  "ps_cfg (set_logged (SetLogLevel l) s) =
     (if l \<noteq> LogLevel_UNKNOWN then (ps_cfg s)\<lparr>cf_logLevel := SetValue l False (cf_logLevel (ps_cfg s))\<rparr>
      else ps_cfg s)"
  "ps_cfg (set_logged (SetLogPath vd q) s) =
     (if vd q then (ps_cfg s)\<lparr>cf_logPath := SetValue q False (cf_logPath (ps_cfg s))\<rparr> else ps_cfg s)"
  by (simp_all add: set_cfg_def warn_def rewriting_def set_logged_def SetLogLevel_def SetLogPath_def)

lemma ps_cfg_number:
  "ps_cfg (handle_number p name z setter k v s) =
     (if number_ok p z v then setter (to_int32 (dec_val v)) (ps_cfg s) else ps_cfg s)"
  using handle_number_bad [of p z v name setter k s]
  by (auto simp: handle_number_ok ps_cfg_steps)

lemma ps_cfg_auth:
  "ps_cfg (Handle_authType k v s) =
     (if auth_ok v then SetAuthType (AuthType_FromString v AWS_PROFILE) (ps_cfg s) else ps_cfg s)"
  by (simp add: Handle_authType_def auth_ok_def Let_def ps_cfg_steps)

lemma ps_cfg_level:
  "ps_cfg (Handle_logLevel k v s) =
     (if level_ok v then (ps_cfg s)\<lparr>cf_logLevel :=
        SetValue (LogLevel_FromString v LogLevel_UNKNOWN) False (cf_logLevel (ps_cfg s))\<rparr>
      else ps_cfg s)"
  by (simp add: Handle_logLevel_def level_ok_def Let_def ps_cfg_steps)

lemma ps_cfg_pair:
  "ps_cfg (HandleAttributePair p k v s) = pair_effect p (ToLower k) v (ps_cfg s)"
  by (simp add: HandleAttributePair_def pair_effect_def effects_def Let_def ps_cfg_steps ps_cfg_number ps_cfg_auth
      ps_cfg_level Handle_reqTimeout_def Handle_connectionTimeout_def Handle_maxRetryCountClient_def
      Handle_maxConnections_def Handle_maxRowPerPage_def if_distrib [of ps_cfg]
      if_distrib [where f = "case_option (ps_cfg s) (\<lambda>f. f v (ps_cfg s))"] split del: if_split cong: if_cong)

section \<open>The slots\<close>

definition given :: "'a \<Rightarrow> 'a settable" where
  "given v = \<lparr>sv_val = v, sv_set = True\<rparr>"

lemma SetValue_given [simp]: "SetValue v False s = given v"
  by (simp add: SetValue_def given_def)

lemma given_simps [simp]: "IsSet (given v)" "GetValue (given v) = v"
  by (simp_all add: given_def IsSet_def GetValue_def)

lemma slot_of_effects:
  assumes "list_all (\<lambda>(k, f). k \<noteq> key \<longrightarrow> (\<forall>v c. get (f v c) = get c)) (effects p)"
    and "map_of (effects p) key = Some f" and "\<And>v c. ok v \<Longrightarrow> get (f v c) = written v"
  shows "slot (HandleAttributePair p) key (\<lambda>s. get (ps_cfg s)) written ok"
proof
  show "ToLower k \<noteq> key \<Longrightarrow> get (ps_cfg (HandleAttributePair p k v s)) = get (ps_cfg s)" for k v s
    by (simp add: ps_cfg_pair pair_effect_frame [OF assms(1)])
  show "ToLower k = key \<Longrightarrow> ok v \<Longrightarrow> get (ps_cfg (HandleAttributePair p k v s)) = written v" for k v s
    using assms(2,3) by (simp add: ps_cfg_pair pair_effect_def)
qed

interpretation slot_dsn: slot "HandleAttributePair p" K_dsn "\<lambda>s. cf_dsn (ps_cfg s)" "given" "\<lambda>_. True" for p
  by (rule slot_of_effects, simp add: effects_def setter_defs, simp add: effects_def, simp add: setter_defs)

interpretation slot_driver: slot "HandleAttributePair p" K_driver "\<lambda>s. cf_driver (ps_cfg s)" "given" "\<lambda>_. True" for p
  by (rule slot_of_effects, simp add: effects_def setter_defs, simp add: effects_def, simp add: setter_defs)

interpretation slot_uid: slot "HandleAttributePair p" K_uid "\<lambda>s. cf_uid (ps_cfg s)" "given" "\<lambda>_. True" for p
  by (rule slot_of_effects, simp add: effects_def setter_defs, simp add: effects_def, simp add: setter_defs)

interpretation slot_pwd: slot "HandleAttributePair p" K_pwd "\<lambda>s. cf_pwd (ps_cfg s)" "given" "\<lambda>_. True" for p
  by (rule slot_of_effects, simp add: effects_def setter_defs, simp add: effects_def, simp add: setter_defs)

interpretation slot_accessKeyId: slot "HandleAttributePair p" K_accessKeyId "\<lambda>s. cf_accessKeyId (ps_cfg s)" "given" "\<lambda>_. True" for p
  by (rule slot_of_effects, simp add: effects_def setter_defs, simp add: effects_def, simp add: setter_defs)

interpretation slot_secretKey: slot "HandleAttributePair p" K_secretKey "\<lambda>s. cf_secretKey (ps_cfg s)" "given" "\<lambda>_. True" for p
  by (rule slot_of_effects, simp add: effects_def setter_defs, simp add: effects_def, simp add: setter_defs)

interpretation slot_sessionToken: slot "HandleAttributePair p" K_sessionToken "\<lambda>s. cf_sessionToken (ps_cfg s)" "given" "\<lambda>_. True" for p
  by (rule slot_of_effects, simp add: effects_def setter_defs, simp add: effects_def, simp add: setter_defs)

interpretation slot_profileName: slot "HandleAttributePair p" K_profileName "\<lambda>s. cf_profileName (ps_cfg s)" "given" "\<lambda>_. True" for p
  by (rule slot_of_effects, simp add: effects_def setter_defs, simp add: effects_def, simp add: setter_defs)

interpretation slot_reqTimeout: slot "HandleAttributePair p" K_reqTimeout "\<lambda>s. cf_reqTimeout (ps_cfg s)" "\<lambda>v. given (to_int32 (dec_val v))" "number_ok p False" for p
  by (rule slot_of_effects, simp add: effects_def setter_defs, simp add: effects_def, simp add: setter_defs)

interpretation slot_connectionTimeout: slot "HandleAttributePair p" K_connectionTimeout "\<lambda>s. cf_connectionTimeout (ps_cfg s)" "\<lambda>v. given (to_int32 (dec_val v))" "number_ok p False" for p
  by (rule slot_of_effects, simp add: effects_def setter_defs, simp add: effects_def, simp add: setter_defs)

interpretation slot_maxRetryCountClient: slot "HandleAttributePair p" K_maxRetryCountClient "\<lambda>s. cf_maxRetryCountClient (ps_cfg s)" "\<lambda>v. given (to_int32 (dec_val v))" "number_ok p True" for p
  by (rule slot_of_effects, simp add: effects_def setter_defs, simp add: effects_def, simp add: setter_defs)

interpretation slot_maxConnections: slot "HandleAttributePair p" K_maxConnections "\<lambda>s. cf_maxConnections (ps_cfg s)" "\<lambda>v. given (to_int32 (dec_val v))" "number_ok p False" for p
  by (rule slot_of_effects, simp add: effects_def setter_defs, simp add: effects_def, simp add: setter_defs)

interpretation slot_endpoint: slot "HandleAttributePair p" K_endpoint "\<lambda>s. cf_endpoint (ps_cfg s)" "given" "\<lambda>_. True" for p
  by (rule slot_of_effects, simp add: effects_def setter_defs, simp add: effects_def, simp add: setter_defs)

interpretation slot_region: slot "HandleAttributePair p" K_region "\<lambda>s. cf_region (ps_cfg s)" "given" "\<lambda>_. True" for p
  by (rule slot_of_effects, simp add: effects_def setter_defs, simp add: effects_def, simp add: setter_defs)

interpretation slot_authType: slot "HandleAttributePair p" K_authType "\<lambda>s. cf_authType (ps_cfg s)" "\<lambda>v. given (AuthType_FromString v AWS_PROFILE)" "auth_ok" for p
  by (rule slot_of_effects, simp add: effects_def setter_defs, simp add: effects_def, simp add: setter_defs)

interpretation slot_idPHost: slot "HandleAttributePair p" K_idPHost "\<lambda>s. cf_idPHost (ps_cfg s)" "given" "\<lambda>_. True" for p
  by (rule slot_of_effects, simp add: effects_def setter_defs, simp add: effects_def, simp add: setter_defs)

interpretation slot_idPUserName: slot "HandleAttributePair p" K_idPUserName "\<lambda>s. cf_idPUserName (ps_cfg s)" "given" "\<lambda>_. True" for p
  by (rule slot_of_effects, simp add: effects_def setter_defs, simp add: effects_def, simp add: setter_defs)

interpretation slot_idPPassword: slot "HandleAttributePair p" K_idPPassword "\<lambda>s. cf_idPPassword (ps_cfg s)" "given" "\<lambda>_. True" for p
  by (rule slot_of_effects, simp add: effects_def setter_defs, simp add: effects_def, simp add: setter_defs)

interpretation slot_idPArn: slot "HandleAttributePair p" K_idPArn "\<lambda>s. cf_idPArn (ps_cfg s)" "given" "\<lambda>_. True" for p
  by (rule slot_of_effects, simp add: effects_def setter_defs, simp add: effects_def, simp add: setter_defs)

interpretation slot_oktaAppId: slot "HandleAttributePair p" K_oktaAppId "\<lambda>s. cf_oktaAppId (ps_cfg s)" "given" "\<lambda>_. True" for p
  by (rule slot_of_effects, simp add: effects_def setter_defs, simp add: effects_def, simp add: setter_defs)

interpretation slot_roleArn: slot "HandleAttributePair p" K_roleArn "\<lambda>s. cf_roleArn (ps_cfg s)" "given" "\<lambda>_. True" for p
  by (rule slot_of_effects, simp add: effects_def setter_defs, simp add: effects_def, simp add: setter_defs)

interpretation slot_aadAppId: slot "HandleAttributePair p" K_aadAppId "\<lambda>s. cf_aadAppId (ps_cfg s)" "given" "\<lambda>_. True" for p
  by (rule slot_of_effects, simp add: effects_def setter_defs, simp add: effects_def, simp add: setter_defs)

interpretation slot_aadClientSecret: slot "HandleAttributePair p" K_aadClientSecret "\<lambda>s. cf_aadClientSecret (ps_cfg s)" "given" "\<lambda>_. True" for p
  by (rule slot_of_effects, simp add: effects_def setter_defs, simp add: effects_def, simp add: setter_defs)

interpretation slot_aadTenant: slot "HandleAttributePair p" K_aadTenant "\<lambda>s. cf_aadTenant (ps_cfg s)" "given" "\<lambda>_. True" for p
  by (rule slot_of_effects, simp add: effects_def setter_defs, simp add: effects_def, simp add: setter_defs)

interpretation slot_logLevel: slot "HandleAttributePair p" K_logLevel "\<lambda>s. cf_logLevel (ps_cfg s)" "\<lambda>v. given (LogLevel_FromString v LogLevel_UNKNOWN)" "level_ok" for p
  by (rule slot_of_effects, simp add: effects_def setter_defs, simp add: effects_def, simp add: setter_defs)

interpretation slot_logPath: slot "HandleAttributePair p" K_logPath "\<lambda>s. cf_logPath (ps_cfg s)" "given" "valid_dir p" for p
  by (rule slot_of_effects, simp add: effects_def setter_defs, simp add: effects_def, simp add: setter_defs)

interpretation slot_maxRowPerPage: slot "HandleAttributePair p" K_maxRowPerPage "\<lambda>s. cf_maxRowPerPage (ps_cfg s)" "\<lambda>v. given (to_int32 (dec_val v))" "number_ok p True" for p
  by (rule slot_of_effects, simp add: effects_def setter_defs, simp add: effects_def, simp add: setter_defs)

end
