(* ===== verification/Conn_Render.thy ===== *)
theory Conn_Render
  imports Conn_Round_Trip
begin

text \<open>The map a configuration is rendered to.\<close>

section \<open>Keys of the rendered map\<close>

lemma str_less_irrefl: "\<not> str_less s s"
  by (induction s) simp_all

lemma str_less_trans: "str_less a b \<Longrightarrow> str_less b c \<Longrightarrow> str_less a c"
proof (induction a b arbitrary: c rule: str_less.induct)
  case (2 y ys)
  then show ?case by (cases c) simp_all
next
  case (3 x xs y ys)
  then show ?case by (cases c) auto
qed simp

lemma char_code_inj: "char_code x = char_code y \<longleftrightarrow> x = y"
  by (simp add: char_code_def)

lemma str_less_total: "a \<noteq> b \<Longrightarrow> str_less a b \<or> str_less b a"
proof (induction a b rule: str_less.induct)
  case (1 a)
  then show ?case by (cases a) simp_all
next
  case (3 x xs y ys)
  then show ?case by (auto simp: char_code_inj [symmetric])
qed simp

definition sorted_map :: "(string \<times> 'v) list \<Rightarrow> bool" where
  "sorted_map m \<longleftrightarrow> sorted_wrt str_less (map fst m)"

lemma set_amap_put: "set (map fst (amap_put k v m)) = insert k (set (map fst m))"
  by (induction k v m rule: amap_put.induct) auto

lemma sorted_amap_put: "sorted_map m \<Longrightarrow> sorted_map (amap_put k v m)"
proof (induction k v m rule: amap_put.induct)
  case (2 k v k' v' m)
  then show ?case
    using set_amap_put [of k v m] str_less_total [of k k']
    by (auto simp: sorted_map_def dest: str_less_trans)
qed (simp add: sorted_map_def)

lemma sorted_map_distinct: "sorted_map m \<Longrightarrow> distinct (map fst m)"
  unfolding sorted_map_def
  by (induction m) (auto simp: str_less_irrefl image_iff)

lemmas add_to_map_defs = AddToMapStr_def AddToMapInt_def AddToMapAuth_def AddToMapLog_def

lemma sorted_add:
  "sorted_map m \<Longrightarrow> sorted_map (AddToMapStr k a m)"
  "sorted_map m \<Longrightarrow> sorted_map (AddToMapInt k i m)"
  "sorted_map m \<Longrightarrow> sorted_map (AddToMapAuth k x m)"
  "sorted_map m \<Longrightarrow> sorted_map (AddToMapLog k y m)"
  by (simp_all add: add_to_map_defs sorted_amap_put)

lemma sorted_ToMap: "sorted_map (ToMap c [])"
proof -
  have "sorted_map []" by (simp add: sorted_map_def)
  then show ?thesis
    by (simp add: ToMap_def) (intro sorted_add)
qed

definition rendered :: "('a \<Rightarrow> string) \<Rightarrow> 'a settable \<Rightarrow> string option" where
  "rendered f s = (if IsSet s then Some (f (GetValue s)) else None)"

definition put_opt :: "string \<Rightarrow> string option \<Rightarrow> (string \<Rightarrow> string option) \<Rightarrow> string \<Rightarrow> string option" where
  "put_opt k r f = (case r of None \<Rightarrow> f | Some v \<Rightarrow> f(k \<mapsto> v))"

lemma map_of_add:
  "map_of (AddToMapStr k s m) = put_opt k (rendered (\<lambda>v. v) s) (map_of m)"
  "map_of (AddToMapInt k i m) = put_opt k (rendered int_str i) (map_of m)"
  "map_of (AddToMapAuth k a m) = put_opt k (rendered AuthType_ToString a) (map_of m)"
  "map_of (AddToMapLog k l m) = put_opt k (rendered LogLevel_ToString l) (map_of m)"
  by (simp_all add: put_opt_def add_to_map_defs rendered_def amap.lookup_put)

lemma put_opt_other: "j \<noteq> k \<Longrightarrow> put_opt k r f j = f j"
  by (simp add: put_opt_def split: option.split)

lemma put_opt_same: "f k = None \<Longrightarrow> put_opt k r f k = r"
  by (simp add: put_opt_def split: option.split)

lemma map_of_ToMap:
  "map_of (ToMap c []) = fold (\<lambda>(k, r). put_opt k r)
     [
(K_dsn, rendered (\<lambda>v. v) (cf_dsn c)),
      (K_driver, rendered (\<lambda>v. v) (cf_driver c)),
      (K_uid, rendered (\<lambda>v. v) (cf_uid c)),
      (K_pwd, rendered (\<lambda>v. v) (cf_pwd c)),
      (K_accessKeyId, rendered (\<lambda>v. v) (cf_accessKeyId c)),
      (K_secretKey, rendered (\<lambda>v. v) (cf_secretKey c)),
      (K_sessionToken, rendered (\<lambda>v. v) (cf_sessionToken c)),
      (K_profileName, rendered (\<lambda>v. v) (cf_profileName c)),
      (K_reqTimeout, rendered int_str (cf_reqTimeout c)),
      (K_connectionTimeout, rendered int_str (cf_connectionTimeout c)),
      (K_maxRetryCountClient, rendered int_str (cf_maxRetryCountClient c)),
      (K_maxConnections, rendered int_str (cf_maxConnections c)),
      (K_endpoint, rendered (\<lambda>v. v) (cf_endpoint c)),
      (K_region, rendered (\<lambda>v. v) (cf_region c)),
      (K_authType, rendered AuthType_ToString (cf_authType c)),
      (K_idPHost, rendered (\<lambda>v. v) (cf_idPHost c)),
      (K_idPUserName, rendered (\<lambda>v. v) (cf_idPUserName c)),
      (K_idPPassword, rendered (\<lambda>v. v) (cf_idPPassword c)),
      (K_idPArn, rendered (\<lambda>v. v) (cf_idPArn c)),
      (K_oktaAppId, rendered (\<lambda>v. v) (cf_oktaAppId c)),
      (K_roleArn, rendered (\<lambda>v. v) (cf_roleArn c)),
      (K_aadAppId, rendered (\<lambda>v. v) (cf_aadAppId c)),
      (K_aadClientSecret, rendered (\<lambda>v. v) (cf_aadClientSecret c)),
      (K_aadTenant, rendered (\<lambda>v. v) (cf_aadTenant c)),
      (K_logLevel, rendered LogLevel_ToString (cf_logLevel c)),
      (K_logPath, rendered (\<lambda>v. v) (cf_logPath c)),
      (K_maxRowPerPage, rendered int_str (cf_maxRowPerPage c))] Map.empty"
  by (simp add: ToMap_def map_of_add)

lemma rendered_lookup:
  "map_of (ToMap c []) K_dsn = rendered (\<lambda>v. v) (cf_dsn c)"
  "map_of (ToMap c []) K_driver = rendered (\<lambda>v. v) (cf_driver c)"
  "map_of (ToMap c []) K_uid = rendered (\<lambda>v. v) (cf_uid c)"
  "map_of (ToMap c []) K_pwd = rendered (\<lambda>v. v) (cf_pwd c)"
  "map_of (ToMap c []) K_accessKeyId = rendered (\<lambda>v. v) (cf_accessKeyId c)"
  "map_of (ToMap c []) K_secretKey = rendered (\<lambda>v. v) (cf_secretKey c)"
  "map_of (ToMap c []) K_sessionToken = rendered (\<lambda>v. v) (cf_sessionToken c)"
  "map_of (ToMap c []) K_profileName = rendered (\<lambda>v. v) (cf_profileName c)"
  "map_of (ToMap c []) K_reqTimeout = rendered int_str (cf_reqTimeout c)"
  "map_of (ToMap c []) K_connectionTimeout = rendered int_str (cf_connectionTimeout c)"
  "map_of (ToMap c []) K_maxRetryCountClient = rendered int_str (cf_maxRetryCountClient c)"
  "map_of (ToMap c []) K_maxConnections = rendered int_str (cf_maxConnections c)"
  "map_of (ToMap c []) K_endpoint = rendered (\<lambda>v. v) (cf_endpoint c)"
  "map_of (ToMap c []) K_region = rendered (\<lambda>v. v) (cf_region c)"
  "map_of (ToMap c []) K_authType = rendered AuthType_ToString (cf_authType c)"
  "map_of (ToMap c []) K_idPHost = rendered (\<lambda>v. v) (cf_idPHost c)"
  "map_of (ToMap c []) K_idPUserName = rendered (\<lambda>v. v) (cf_idPUserName c)"
  "map_of (ToMap c []) K_idPPassword = rendered (\<lambda>v. v) (cf_idPPassword c)"
  "map_of (ToMap c []) K_idPArn = rendered (\<lambda>v. v) (cf_idPArn c)"
  "map_of (ToMap c []) K_oktaAppId = rendered (\<lambda>v. v) (cf_oktaAppId c)"
  "map_of (ToMap c []) K_roleArn = rendered (\<lambda>v. v) (cf_roleArn c)"
  "map_of (ToMap c []) K_aadAppId = rendered (\<lambda>v. v) (cf_aadAppId c)"
  "map_of (ToMap c []) K_aadClientSecret = rendered (\<lambda>v. v) (cf_aadClientSecret c)"
  "map_of (ToMap c []) K_aadTenant = rendered (\<lambda>v. v) (cf_aadTenant c)"
  "map_of (ToMap c []) K_logLevel = rendered LogLevel_ToString (cf_logLevel c)"
  "map_of (ToMap c []) K_logPath = rendered (\<lambda>v. v) (cf_logPath c)"
  "map_of (ToMap c []) K_maxRowPerPage = rendered int_str (cf_maxRowPerPage c)"
  by (simp_all add: map_of_ToMap put_opt_other put_opt_same)

definition all_keys :: "string list" where
  "all_keys = [K_dsn, K_driver, K_uid, K_pwd, K_accessKeyId, K_secretKey, K_sessionToken, K_profileName, K_reqTimeout, K_connectionTimeout, K_maxRetryCountClient, K_maxConnections, K_endpoint, K_region, K_authType, K_idPHost, K_idPUserName, K_idPPassword, K_idPArn, K_oktaAppId, K_roleArn, K_aadAppId, K_aadClientSecret, K_aadTenant, K_logLevel, K_logPath, K_maxRowPerPage]"

lemma ToMap_keys: "map_of (ToMap c []) k \<noteq> None \<Longrightarrow> k \<in> set all_keys"
proof (rule ccontr)
  assume "k \<notin> set all_keys"
  then have "map_of (ToMap c []) k = None"
    by (simp add: map_of_ToMap put_opt_other all_keys_def)
  then show "map_of (ToMap c []) k \<noteq> None \<Longrightarrow> False" by simp
qed

lemma all_keys_good: "k \<in> set all_keys \<Longrightarrow> good_key k \<and> ToLower k = k"
proof -
  have "list_all (\<lambda>k. good_key k \<and> ToLower k = k) all_keys"
    by (simp add: all_keys_def good_key_def trimmed_def isspace_def char_code_def ToLower_def
        tolower_def isupper_def)
  then show "k \<in> set all_keys \<Longrightarrow> good_key k \<and> ToLower k = k"
    by (simp add: list_all_iff)
qed

section \<open>Portable values\<close>

definition quoted :: "string \<Rightarrow> string" where
  "quoted v = (if CHR '' '' \<notin> set v then v else CHR ''{'' # v @ ''}'')"

definition portable_str :: "string \<Rightarrow> bool" where
  "portable_str v \<longleftrightarrow> v \<noteq> [] \<and> plain_text v
     \<and> (CHR '' '' \<in> set v \<or> trimmed v \<and> \<not> (hd v = CHR ''{'' \<and> last v = CHR ''}''))"

lemma unbrace_quoted: "portable_str v \<Longrightarrow> unbrace (Trim (quoted v)) = v"
proof (cases "CHR '' '' \<in> set v")
  case True
  have "trimmed (CHR ''{'' # v @ ''}'')"
    by (simp add: trimmed_def isspace_def char_code_def)
  with True show ?thesis
    by (simp add: quoted_def Trim_id unbrace_def substr_def)
next
  case False
  then show "portable_str v \<Longrightarrow> ?thesis"
    by (auto simp: quoted_def portable_str_def Trim_id unbrace_def)
qed

lemma plain_quoted: "portable_str v \<Longrightarrow> plain_text (quoted v)"
  by (auto simp: portable_str_def plain_text_def quoted_def)

lemma digits_portable:
  assumes "AllDigits v" and "v \<noteq> []"
  shows "portable_str v"
proof -
  have not_in: "\<not> isdigit c \<Longrightarrow> c \<notin> set v" for c
    using assms(1) by (auto simp: AllDigits_iff)
  have sp: "isdigit c \<Longrightarrow> \<not> isspace c" for c
    by (auto simp: isdigit_def isspace_def)
  have "hd v \<in> set v" "last v \<in> set v"
    using assms(2) by simp_all
  then have "isdigit (hd v)" "isdigit (last v)"
    using assms(1) by (auto simp: AllDigits_iff)
  moreover have "\<not> isdigit CHR ''{''" "\<not> isdigit CHR '';''" "\<not> isdigit CHR ''=''"
    by (simp_all add: isdigit_def char_code_def)
  ultimately show ?thesis
    using assms(2) not_in sp by (auto simp: portable_str_def plain_text_def trimmed_def)
qed

lemma int_str_nonneg: "0 \<le> n \<Longrightarrow> int_str n = nat_digits (nat n)"
  by (simp add: int_str_def)

lemma length_nat_digits: "n < 10 ^ Suc k \<Longrightarrow> length (nat_digits n) \<le> Suc k"
proof (induction k arbitrary: n)
  case (Suc k)
  then have "n div 10 < 10 ^ Suc k" by (simp add: less_mult_imp_div_less)
  with Suc.IH [of "n div 10"] show ?case
    by (subst nat_digits.simps) simp
qed (subst nat_digits.simps, simp)

lemma AuthType_portable: "portable_str (AuthType_ToString t) \<and> auth_ok (AuthType_ToString t)"
proof -
  have "auth_ok (AuthType_ToString t)"
    by (cases t) (simp_all add: auth_ok_def AuthType_ToString_def Trim_id trimmed_def
        ToLower_def tolower_def isupper_def isspace_def char_code_def AuthType_FromString_def)
  then show ?thesis
    by (cases t) (simp_all add: portable_str_def plain_text_def trimmed_def AuthType_ToString_def
        isspace_def char_code_def)
qed

lemma LogLevel_portable: "portable_str (LogLevel_ToString l)"
  by (cases l) (simp_all add: portable_str_def plain_text_def trimmed_def LogLevel_ToString_def
      isspace_def char_code_def)

section \<open>Portable configurations\<close>

text \<open>A configuration the string can carry: a member that is set has a value that survives the
  quoting and that the parser accepts, and a member that is not set has the value the receiving
  configuration \<open>b\<close> already has.\<close>

definition member :: "('a \<Rightarrow> bool) \<Rightarrow> 'a settable \<Rightarrow> 'a settable \<Rightarrow> bool" where
  "member ok s b \<longleftrightarrow> (if IsSet s then ok (GetValue s) else s = b)"

definition int_member :: "int \<Rightarrow> int \<Rightarrow> bool" where
  "int_member lo n \<longleftrightarrow> lo \<le> n \<and> n < 2 ^ 31"

definition portable :: "platform \<Rightarrow> configuration \<Rightarrow> configuration \<Rightarrow> bool" where
  "portable p b c \<longleftrightarrow>
     member portable_str (cf_dsn c) (cf_dsn b)
     \<and> member portable_str (cf_driver c) (cf_driver b)
     \<and> member portable_str (cf_uid c) (cf_uid b)
     \<and> member portable_str (cf_pwd c) (cf_pwd b)
     \<and> member portable_str (cf_accessKeyId c) (cf_accessKeyId b)
     \<and> member portable_str (cf_secretKey c) (cf_secretKey b)
     \<and> member portable_str (cf_sessionToken c) (cf_sessionToken b)
     \<and> member portable_str (cf_profileName c) (cf_profileName b)
     \<and> member (int_member 1) (cf_reqTimeout c) (cf_reqTimeout b)
     \<and> member (int_member 1) (cf_connectionTimeout c) (cf_connectionTimeout b)
     \<and> member (int_member 0) (cf_maxRetryCountClient c) (cf_maxRetryCountClient b)
     \<and> member (int_member 1) (cf_maxConnections c) (cf_maxConnections b)
     \<and> member portable_str (cf_endpoint c) (cf_endpoint b)
     \<and> member portable_str (cf_region c) (cf_region b)
     \<and> member (\<lambda>_. True) (cf_authType c) (cf_authType b)
     \<and> member portable_str (cf_idPHost c) (cf_idPHost b)
     \<and> member portable_str (cf_idPUserName c) (cf_idPUserName b)
     \<and> member portable_str (cf_idPPassword c) (cf_idPPassword b)
     \<and> member portable_str (cf_idPArn c) (cf_idPArn b)
     \<and> member portable_str (cf_oktaAppId c) (cf_oktaAppId b)
     \<and> member portable_str (cf_roleArn c) (cf_roleArn b)
     \<and> member portable_str (cf_aadAppId c) (cf_aadAppId b)
     \<and> member portable_str (cf_aadClientSecret c) (cf_aadClientSecret b)
     \<and> member portable_str (cf_aadTenant c) (cf_aadTenant b)
     \<and> member (\<lambda>v. v \<noteq> LogLevel_UNKNOWN) (cf_logLevel c) (cf_logLevel b)
     \<and> member (\<lambda>v. portable_str v \<and> valid_dir p v) (cf_logPath c) (cf_logPath b)
     \<and> member (int_member 0) (cf_maxRowPerPage c) (cf_maxRowPerPage b)"

lemma member_given: "member ok s b \<Longrightarrow> s = (if IsSet s then given (GetValue s) else b)"
  by (cases s) (auto simp: member_def IsSet_def given_def GetValue_def)

definition portable_opt :: "string option \<Rightarrow> bool" where
  "portable_opt r \<longleftrightarrow> (case r of None \<Rightarrow> True | Some v \<Rightarrow> portable_str v)"

lemma member_portable:
  "member portable_str s b \<Longrightarrow> portable_opt (rendered (\<lambda>v. v) s)"
  "member (\<lambda>v. portable_str v \<and> Q v) s b \<Longrightarrow> portable_opt (rendered (\<lambda>v. v) s)"
  "member (int_member 1) i ib \<Longrightarrow> portable_opt (rendered int_str i)"
  "member (int_member 0) i ib \<Longrightarrow> portable_opt (rendered int_str i)"
  "portable_opt (rendered AuthType_ToString a)"
  "portable_opt (rendered LogLevel_ToString l)"
  by (auto simp: member_def portable_opt_def rendered_def int_member_def int_str_nonneg
      digits_portable nat_digits_AllDigits AuthType_portable LogLevel_portable)

lemma set_amap_put_subset: "set (amap_put k v m) \<subseteq> insert (k, v) (set m)"
  by (induction k v m rule: amap_put.induct) auto

definition all_portable :: "argument_map \<Rightarrow> bool" where
  "all_portable m \<longleftrightarrow> (\<forall>(k, v) \<in> set m. portable_str v)"

lemma all_portable_put: "all_portable m \<Longrightarrow> portable_str v \<Longrightarrow> all_portable (amap_put k v m)"
  using set_amap_put_subset [of k v m] by (auto simp: all_portable_def)

lemma all_portable_add:
  "portable_opt (rendered (\<lambda>v. v) s) \<Longrightarrow> all_portable m \<Longrightarrow> all_portable (AddToMapStr k s m)"
  "portable_opt (rendered int_str i) \<Longrightarrow> all_portable m \<Longrightarrow> all_portable (AddToMapInt k i m)"
  "portable_opt (rendered AuthType_ToString a) \<Longrightarrow> all_portable m \<Longrightarrow> all_portable (AddToMapAuth k a m)"
  "portable_opt (rendered LogLevel_ToString l) \<Longrightarrow> all_portable m \<Longrightarrow> all_portable (AddToMapLog k l m)"
  by (auto simp: add_to_map_defs rendered_def portable_opt_def all_portable_put)

lemma portable_entries:
  assumes "portable p b c"
  shows "all_portable (ToMap c [])"
proof -
  have "all_portable []" by (simp add: all_portable_def)
  then show ?thesis
    using assms unfolding portable_def ToMap_def fold.simps comp_def id_def
    by (elim conjE) (intro all_portable_add member_portable; assumption)
qed

section \<open>The rendered string is a list of segments\<close>

lemma ToConnectString_segments:
  assumes "all_portable m"
  shows "concat (map conn_segment m) = concat (map segment (map (\<lambda>(k, v). (k, quoted v)) m))"
  using assms
  by (induction m) (auto simp: conn_segment_def segment_def quoted_def all_portable_def portable_str_def)

lemma parse_rendered:
  assumes "all_portable m" and "fst ` set m \<subseteq> set all_keys"
  shows "ParseConnectionString p (concat (map conn_segment m)) s =
    foldr (\<lambda>(k, v). HandleAttributePair p k v) m s"
proof -
  have ok: "\<forall>(k, w) \<in> set (map (\<lambda>(k, v). (k, quoted v)) m). good_key k \<and> plain_text w"
    using assms all_keys_good by (auto simp: all_portable_def plain_quoted)
  have "foldr (\<lambda>(k, w). HandleAttributePair p k (unbrace (Trim w)))
      (map (\<lambda>(k, v). (k, quoted v)) m) s = foldr (\<lambda>(k, v). HandleAttributePair p k v) m s"
    using assms(1)
    by (induction m) (auto simp: all_portable_def unbrace_quoted split: prod.splits)
  then show ?thesis
    using ParseConnectionString_segments [OF ok] by (simp add: ToConnectString_segments [OF assms(1)])
qed

lemma ToMap_keys_subset: "fst ` set (ToMap c []) \<subseteq> set all_keys"
proof
  fix k
  assume "k \<in> fst ` set (ToMap c [])"
  then have "map_of (ToMap c []) k \<noteq> None" by (simp add: map_of_eq_None_iff)
  then show "k \<in> set all_keys" by (rule ToMap_keys)
qed

end
