(* ===== verification/Conn_Properties.thy ===== *)
theory Conn_Properties
  imports Conn_Render
begin

text \<open>
  The properties of the connection string component: the round trip of a configuration through
  \<^verbatim>\<open>ToConnectString\<close> and \<^verbatim>\<open>ParseConnectionString\<close>, the values the numeric attributes accept, which
  of two pairs with one key wins, and how a pair is cut at its last equals sign.
\<close>

section \<open>Warnings\<close>

definition rewritten :: "(string \<times> (configuration \<Rightarrow> string settable)) list" where
  "rewritten =
    [(K_uid, cf_uid), (K_pwd, cf_pwd), (K_accessKeyId, cf_accessKeyId), (K_secretKey, cf_secretKey), (K_sessionToken, cf_sessionToken), (K_idPUserName, cf_idPUserName), (K_idPPassword, cf_idPPassword), (K_aadClientSecret, cf_aadClientSecret)]"

definition pending :: "string \<Rightarrow> configuration \<Rightarrow> string" where
  "pending k c = (case map_of rewritten k of None \<Rightarrow> [] | Some get \<Rightarrow> GetValue (get c))"

definition accepts :: "platform \<Rightarrow> string \<Rightarrow> string \<Rightarrow> bool" where
  "accepts p k v \<longleftrightarrow> k \<in> set all_keys
     \<and> (k \<in> {K_reqTimeout, K_connectionTimeout, K_maxConnections} \<longrightarrow> number_ok p False v)
     \<and> (k \<in> {K_maxRetryCountClient, K_maxRowPerPage} \<longrightarrow> number_ok p True v)
     \<and> (k = K_authType \<longrightarrow> auth_ok v) \<and> (k = K_logLevel \<longrightarrow> level_ok v)"

lemma ps_diag_steps:
  "ps_diag (set_cfg f s) = ps_diag s"
  "ps_diag (set_logged g s) = ps_diag s"
  "GetValue (gt (ps_cfg s)) = [] \<Longrightarrow> ps_diag (rewriting n gt st v s) = ps_diag s"
  "number_ok p z v \<Longrightarrow> ps_diag (handle_number p name z setter k v s) = ps_diag s"
  "auth_ok v \<Longrightarrow> ps_diag (Handle_authType k v s) = ps_diag s"
  "level_ok v \<Longrightarrow> ps_diag (Handle_logLevel k v s) = ps_diag s"
proof -
  show a: "ps_diag (set_cfg f s) = ps_diag s" for f :: "configuration \<Rightarrow> configuration" and s
    by (simp add: set_cfg_def)
  show b: "ps_diag (set_logged g s) = ps_diag s" for g s
    by (simp add: set_logged_def split: prod.split)
  show "GetValue (gt (ps_cfg s)) = [] \<Longrightarrow> ps_diag (rewriting n gt st v s) = ps_diag s"
    by (simp add: rewriting_def a)
  show "number_ok p z v \<Longrightarrow> ps_diag (handle_number p name z setter k v s) = ps_diag s"
    by (simp add: handle_number_ok a)
  show "auth_ok v \<Longrightarrow> ps_diag (Handle_authType k v s) = ps_diag s"
    by (auto simp: Handle_authType_def auth_ok_def Let_def a)
  show "level_ok v \<Longrightarrow> ps_diag (Handle_logLevel k v s) = ps_diag s"
    by (simp add: Handle_logLevel_def level_ok_def Let_def b)
qed

lemma in_all_keys: "k \<in> set all_keys \<longleftrightarrow>
  k = K_dsn \<or> k = K_driver \<or> k = K_uid \<or> k = K_pwd \<or> k = K_accessKeyId \<or> k = K_secretKey \<or> k = K_sessionToken \<or> k = K_profileName \<or> k = K_reqTimeout \<or> k = K_connectionTimeout \<or> k = K_maxRetryCountClient \<or> k = K_maxConnections \<or> k = K_endpoint \<or> k = K_region \<or> k = K_authType \<or> k = K_idPHost \<or> k = K_idPUserName \<or> k = K_idPPassword \<or> k = K_idPArn \<or> k = K_oktaAppId \<or> k = K_roleArn \<or> k = K_aadAppId \<or> k = K_aadClientSecret \<or> k = K_aadTenant \<or> k = K_logLevel \<or> k = K_logPath \<or> k = K_maxRowPerPage"
  by (simp add: all_keys_def)

lemma quiet_pair:
  assumes "accepts p (ToLower k) v" and "pending (ToLower k) (ps_cfg s) = []"
  shows "ps_diag (HandleAttributePair p k v s) = ps_diag s"
proof -
  have "ToLower k \<in> set all_keys" using assms(1) by (simp add: accepts_def)
  then show ?thesis
    using assms unfolding in_all_keys
    by (elim disjE) (simp_all add: HandleAttributePair_def Let_def accepts_def pending_def
        rewritten_def ps_diag_steps Handle_reqTimeout_def Handle_connectionTimeout_def
        Handle_maxRetryCountClient_def Handle_maxConnections_def Handle_maxRowPerPage_def)
qed

lemma pending_frame:
  assumes "ToLower k \<noteq> j"
  shows "pending j (ps_cfg (HandleAttributePair p k v s)) = pending j (ps_cfg s)"
proof -
  have "list_all (\<lambda>(j, get). list_all
      (\<lambda>(k, f). k \<noteq> j \<longrightarrow> (\<forall>v c. get (f v c) = get c)) (effects p)) rewritten"
    by (simp add: effects_def rewritten_def setter_defs)
  then have frame: "get (pair_effect p (ToLower k) v c) = get c" if "map_of rewritten j = Some get" for get c
    using map_of_SomeD [OF that] pair_effect_frame [of j get p "ToLower k"] assms
    by (auto simp: list_all_iff)
  show ?thesis
  proof (cases "map_of rewritten j")
    case (Some get)
    then show ?thesis using frame [OF Some] by (simp add: pending_def ps_cfg_pair)
  qed (simp add: pending_def)
qed

lemma quiet_pairs:
  assumes "distinct (map fst kvs)" and "\<forall>(k, v) \<in> set kvs. ToLower k = k \<and> accepts p k v"
    and "\<forall>(k, v) \<in> set kvs. pending k (ps_cfg s) = []"
  shows "ps_diag (foldr (\<lambda>(k, v). HandleAttributePair p k v) kvs s) = ps_diag s
    \<and> (\<forall>j. j \<notin> fst ` set kvs \<longrightarrow>
        pending j (ps_cfg (foldr (\<lambda>(k, v). HandleAttributePair p k v) kvs s)) = pending j (ps_cfg s))"
  using assms
proof (induction kvs)
  case (Cons kv kvs)
  obtain k v where kv: "kv = (k, v)" by (cases kv)
  let ?t = "foldr (\<lambda>(k, v). HandleAttributePair p k v) kvs s"
  have IH: "ps_diag ?t = ps_diag s"
    "j \<notin> fst ` set kvs \<Longrightarrow> pending j (ps_cfg ?t) = pending j (ps_cfg s)" for j
    using Cons by auto
  have low: "ToLower k = k" and acc: "accepts p k v" and nin: "k \<notin> fst ` set kvs"
    and pend: "pending k (ps_cfg s) = []"
    using Cons.prems kv by auto
  have "ps_diag (HandleAttributePair p k v ?t) = ps_diag s"
    using quiet_pair [of p k v ?t] low acc IH(1) IH(2) [OF nin] pend by simp
  moreover have "j \<notin> fst ` set (kv # kvs) \<Longrightarrow>
      pending j (ps_cfg (HandleAttributePair p k v ?t)) = pending j (ps_cfg s)" for j
    using pending_frame [of k j p v ?t] low IH(2) [of j] kv by auto
  ultimately show ?case by (simp add: kv)
qed simp

section \<open>Values that are accepted\<close>

lemma number_ok_int_str:
  assumes "int_member (if z then 0 else 1) n" and "10 < sizeof_string p"
  shows "number_ok p z (int_str n) \<and> to_int32 (dec_val (int_str n)) = n"
proof -
  have n: "0 \<le> n" "n < 2 ^ 31" "(if z then 0 else 1) \<le> n"
    using assms(1) by (auto simp: int_member_def split: if_splits)
  then have "length (nat_digits (nat n)) \<le> Suc 9"
    by (intro length_nat_digits) simp
  then show ?thesis
    using n assms(2)
    by (simp add: number_ok_def int_str_nonneg nat_digits_AllDigits dec_val_nat_digits to_int32_id)
qed

lemma level_ok_ToString:
  "l \<noteq> LogLevel_UNKNOWN \<Longrightarrow> level_ok (LogLevel_ToString l)"
  by (simp add: level_ok_def)

lemma member_number:
  assumes "member (int_member (if z then 0 else 1)) s b" and "rendered int_str s = Some v"
    and "10 < sizeof_string p"
  shows "number_ok p z v"
  using assms number_ok_int_str [of z "GetValue s" p]
  by (auto simp: member_def rendered_def split: if_splits)

lemma ToMap_accepts:
  assumes "portable p b c" and "10 < sizeof_string p" and "(k, v) \<in> set (ToMap c [])"
  shows "accepts p k v"
proof -
  have v: "map_of (ToMap c []) k = Some v"
    using assms(3) sorted_map_distinct [OF sorted_ToMap] by simp
  have low: "member (int_member (if False then 0 else 1)) (cf_reqTimeout c) (cf_reqTimeout b)"
    "member (int_member (if False then 0 else 1)) (cf_connectionTimeout c) (cf_connectionTimeout b)"
    "member (int_member (if False then 0 else 1)) (cf_maxConnections c) (cf_maxConnections b)"
    and zero: "member (int_member (if True then 0 else 1)) (cf_maxRetryCountClient c) (cf_maxRetryCountClient b)"
    "member (int_member (if True then 0 else 1)) (cf_maxRowPerPage c) (cf_maxRowPerPage b)"
    and level: "member (\<lambda>v. v \<noteq> LogLevel_UNKNOWN) (cf_logLevel c) (cf_logLevel b)"
    using assms(1) by (simp_all add: portable_def)
  have "k \<in> set all_keys" using assms(3) ToMap_keys_subset by force
  moreover have "number_ok p False v" if "k = K_reqTimeout \<or> k = K_connectionTimeout \<or> k = K_maxConnections"
    using that v member_number [OF low(1) _ assms(2)] member_number [OF low(2) _ assms(2)]
      member_number [OF low(3) _ assms(2)] by (elim disjE) (simp_all add: rendered_lookup)
  moreover have "number_ok p True v" if "k = K_maxRetryCountClient \<or> k = K_maxRowPerPage"
    using that v member_number [OF zero(1) _ assms(2)] member_number [OF zero(2) _ assms(2)]
    by (elim disjE) (simp_all add: rendered_lookup)
  moreover have "auth_ok v" if "k = K_authType"
    using that v AuthType_portable
    by (auto simp: rendered_lookup rendered_def split: if_splits)
  moreover have "level_ok v" if "k = K_logLevel"
    using that v level
    by (auto simp: rendered_lookup rendered_def member_def level_ok_ToString split: if_splits)
  ultimately show ?thesis by (simp add: accepts_def)
qed

lemma ToMap_quiet:
  assumes "portable p b c" and "10 < sizeof_string p" and "\<And>k. pending k b = []"
    and "ps_cfg s = b"
  shows "ps_diag (foldr (\<lambda>(k, v). HandleAttributePair p k v) (ToMap c []) s) = ps_diag s"
proof -
  have "\<forall>(k, v) \<in> set (ToMap c []). ToLower k = k \<and> accepts p k v"
    using ToMap_keys_subset all_keys_good ToMap_accepts [OF assms(1,2)] by force
  then show ?thesis
    using quiet_pairs [OF sorted_map_distinct [OF sorted_ToMap], of c p s] assms(3,4) by simp
qed

section \<open>Members after the whole string\<close>

lemma ToMap_lower: "\<forall>(k, v) \<in> set (ToMap c []). ToLower k = k"
  using ToMap_keys_subset all_keys_good by force

lemmas ToMap_distinct = sorted_map_distinct [OF sorted_ToMap]


lemma whole_dsn:
  assumes "member portable_str (cf_dsn c) (cf_dsn (ps_cfg s))"
  shows "cf_dsn (ps_cfg (foldr (\<lambda>(k, v). HandleAttributePair p k v) (ToMap c []) s)) = cf_dsn c"
proof -
  have "rendered (\<lambda>v. v) (cf_dsn c) = Some v \<Longrightarrow> True" for v
    using assms by (auto simp: rendered_def member_def AuthType_portable level_ok_ToString
        number_ok_int_str [where z = False] split: if_splits)
  note eq = slot_dsn.distinct_keys [OF ToMap_distinct ToMap_lower rendered_lookup(1) this]
  show ?thesis
    using assms member_given [OF assms(1)]
    by (subst eq) (auto simp: rendered_def member_def number_ok_int_str [where z = False] split: if_splits)
qed

lemma whole_driver:
  assumes "member portable_str (cf_driver c) (cf_driver (ps_cfg s))"
  shows "cf_driver (ps_cfg (foldr (\<lambda>(k, v). HandleAttributePair p k v) (ToMap c []) s)) = cf_driver c"
proof -
  have "rendered (\<lambda>v. v) (cf_driver c) = Some v \<Longrightarrow> True" for v
    using assms by (auto simp: rendered_def member_def AuthType_portable level_ok_ToString
        number_ok_int_str [where z = False] split: if_splits)
  note eq = slot_driver.distinct_keys [OF ToMap_distinct ToMap_lower rendered_lookup(2) this]
  show ?thesis
    using assms member_given [OF assms(1)]
    by (subst eq) (auto simp: rendered_def member_def number_ok_int_str [where z = False] split: if_splits)
qed

lemma whole_uid:
  assumes "member portable_str (cf_uid c) (cf_uid (ps_cfg s))"
  shows "cf_uid (ps_cfg (foldr (\<lambda>(k, v). HandleAttributePair p k v) (ToMap c []) s)) = cf_uid c"
proof -
  have "rendered (\<lambda>v. v) (cf_uid c) = Some v \<Longrightarrow> True" for v
    using assms by (auto simp: rendered_def member_def AuthType_portable level_ok_ToString
        number_ok_int_str [where z = False] split: if_splits)
  note eq = slot_uid.distinct_keys [OF ToMap_distinct ToMap_lower rendered_lookup(3) this]
  show ?thesis
    using assms member_given [OF assms(1)]
    by (subst eq) (auto simp: rendered_def member_def number_ok_int_str [where z = False] split: if_splits)
qed

lemma whole_pwd:
  assumes "member portable_str (cf_pwd c) (cf_pwd (ps_cfg s))"
  shows "cf_pwd (ps_cfg (foldr (\<lambda>(k, v). HandleAttributePair p k v) (ToMap c []) s)) = cf_pwd c"
proof -
  have "rendered (\<lambda>v. v) (cf_pwd c) = Some v \<Longrightarrow> True" for v
    using assms by (auto simp: rendered_def member_def AuthType_portable level_ok_ToString
        number_ok_int_str [where z = False] split: if_splits)
  note eq = slot_pwd.distinct_keys [OF ToMap_distinct ToMap_lower rendered_lookup(4) this]
  show ?thesis
    using assms member_given [OF assms(1)]
    by (subst eq) (auto simp: rendered_def member_def number_ok_int_str [where z = False] split: if_splits)
qed

lemma whole_accessKeyId:
  assumes "member portable_str (cf_accessKeyId c) (cf_accessKeyId (ps_cfg s))"
  shows "cf_accessKeyId (ps_cfg (foldr (\<lambda>(k, v). HandleAttributePair p k v) (ToMap c []) s)) = cf_accessKeyId c"
proof -
  have "rendered (\<lambda>v. v) (cf_accessKeyId c) = Some v \<Longrightarrow> True" for v
    using assms by (auto simp: rendered_def member_def AuthType_portable level_ok_ToString
        number_ok_int_str [where z = False] split: if_splits)
  note eq = slot_accessKeyId.distinct_keys [OF ToMap_distinct ToMap_lower rendered_lookup(5) this]
  show ?thesis
    using assms member_given [OF assms(1)]
    by (subst eq) (auto simp: rendered_def member_def number_ok_int_str [where z = False] split: if_splits)
qed

lemma whole_secretKey:
  assumes "member portable_str (cf_secretKey c) (cf_secretKey (ps_cfg s))"
  shows "cf_secretKey (ps_cfg (foldr (\<lambda>(k, v). HandleAttributePair p k v) (ToMap c []) s)) = cf_secretKey c"
proof -
  have "rendered (\<lambda>v. v) (cf_secretKey c) = Some v \<Longrightarrow> True" for v
    using assms by (auto simp: rendered_def member_def AuthType_portable level_ok_ToString
        number_ok_int_str [where z = False] split: if_splits)
  note eq = slot_secretKey.distinct_keys [OF ToMap_distinct ToMap_lower rendered_lookup(6) this]
  show ?thesis
    using assms member_given [OF assms(1)]
    by (subst eq) (auto simp: rendered_def member_def number_ok_int_str [where z = False] split: if_splits)
qed

lemma whole_sessionToken:
  assumes "member portable_str (cf_sessionToken c) (cf_sessionToken (ps_cfg s))"
  shows "cf_sessionToken (ps_cfg (foldr (\<lambda>(k, v). HandleAttributePair p k v) (ToMap c []) s)) = cf_sessionToken c"
proof -
  have "rendered (\<lambda>v. v) (cf_sessionToken c) = Some v \<Longrightarrow> True" for v
    using assms by (auto simp: rendered_def member_def AuthType_portable level_ok_ToString
        number_ok_int_str [where z = False] split: if_splits)
  note eq = slot_sessionToken.distinct_keys [OF ToMap_distinct ToMap_lower rendered_lookup(7) this]
  show ?thesis
    using assms member_given [OF assms(1)]
    by (subst eq) (auto simp: rendered_def member_def number_ok_int_str [where z = False] split: if_splits)
qed

lemma whole_profileName:
  assumes "member portable_str (cf_profileName c) (cf_profileName (ps_cfg s))"
  shows "cf_profileName (ps_cfg (foldr (\<lambda>(k, v). HandleAttributePair p k v) (ToMap c []) s)) = cf_profileName c"
proof -
  have "rendered (\<lambda>v. v) (cf_profileName c) = Some v \<Longrightarrow> True" for v
    using assms by (auto simp: rendered_def member_def AuthType_portable level_ok_ToString
        number_ok_int_str [where z = False] split: if_splits)
  note eq = slot_profileName.distinct_keys [OF ToMap_distinct ToMap_lower rendered_lookup(8) this]
  show ?thesis
    using assms member_given [OF assms(1)]
    by (subst eq) (auto simp: rendered_def member_def number_ok_int_str [where z = False] split: if_splits)
qed

lemma whole_reqTimeout:
  assumes "member (int_member 1) (cf_reqTimeout c) (cf_reqTimeout (ps_cfg s))" and "10 < sizeof_string p"
  shows "cf_reqTimeout (ps_cfg (foldr (\<lambda>(k, v). HandleAttributePair p k v) (ToMap c []) s)) = cf_reqTimeout c"
proof -
  have "rendered int_str (cf_reqTimeout c) = Some v \<Longrightarrow> number_ok p False v" for v
    using assms by (auto simp: rendered_def member_def AuthType_portable level_ok_ToString
        number_ok_int_str [where z = False] split: if_splits)
  note eq = slot_reqTimeout.distinct_keys [OF ToMap_distinct ToMap_lower rendered_lookup(9) this]
  show ?thesis
    using assms member_given [OF assms(1)]
    by (subst eq) (auto simp: rendered_def member_def number_ok_int_str [where z = False] split: if_splits)
qed

lemma whole_connectionTimeout:
  assumes "member (int_member 1) (cf_connectionTimeout c) (cf_connectionTimeout (ps_cfg s))" and "10 < sizeof_string p"
  shows "cf_connectionTimeout (ps_cfg (foldr (\<lambda>(k, v). HandleAttributePair p k v) (ToMap c []) s)) = cf_connectionTimeout c"
proof -
  have "rendered int_str (cf_connectionTimeout c) = Some v \<Longrightarrow> number_ok p False v" for v
    using assms by (auto simp: rendered_def member_def AuthType_portable level_ok_ToString
        number_ok_int_str [where z = False] split: if_splits)
  note eq = slot_connectionTimeout.distinct_keys [OF ToMap_distinct ToMap_lower rendered_lookup(10) this]
  show ?thesis
    using assms member_given [OF assms(1)]
    by (subst eq) (auto simp: rendered_def member_def number_ok_int_str [where z = False] split: if_splits)
qed

lemma whole_maxRetryCountClient:
  assumes "member (int_member 0) (cf_maxRetryCountClient c) (cf_maxRetryCountClient (ps_cfg s))" and "10 < sizeof_string p"
  shows "cf_maxRetryCountClient (ps_cfg (foldr (\<lambda>(k, v). HandleAttributePair p k v) (ToMap c []) s)) = cf_maxRetryCountClient c"
proof -
  have "rendered int_str (cf_maxRetryCountClient c) = Some v \<Longrightarrow> number_ok p True v" for v
    using assms by (auto simp: rendered_def member_def AuthType_portable level_ok_ToString
        number_ok_int_str [where z = True] split: if_splits)
  note eq = slot_maxRetryCountClient.distinct_keys [OF ToMap_distinct ToMap_lower rendered_lookup(11) this]
  show ?thesis
    using assms member_given [OF assms(1)]
    by (subst eq) (auto simp: rendered_def member_def number_ok_int_str [where z = True] split: if_splits)
qed

lemma whole_maxConnections:
  assumes "member (int_member 1) (cf_maxConnections c) (cf_maxConnections (ps_cfg s))" and "10 < sizeof_string p"
  shows "cf_maxConnections (ps_cfg (foldr (\<lambda>(k, v). HandleAttributePair p k v) (ToMap c []) s)) = cf_maxConnections c"
proof -
  have "rendered int_str (cf_maxConnections c) = Some v \<Longrightarrow> number_ok p False v" for v
    using assms by (auto simp: rendered_def member_def AuthType_portable level_ok_ToString
        number_ok_int_str [where z = False] split: if_splits)
  note eq = slot_maxConnections.distinct_keys [OF ToMap_distinct ToMap_lower rendered_lookup(12) this]
  show ?thesis
    using assms member_given [OF assms(1)]
    by (subst eq) (auto simp: rendered_def member_def number_ok_int_str [where z = False] split: if_splits)
qed

lemma whole_endpoint:
  assumes "member portable_str (cf_endpoint c) (cf_endpoint (ps_cfg s))"
  shows "cf_endpoint (ps_cfg (foldr (\<lambda>(k, v). HandleAttributePair p k v) (ToMap c []) s)) = cf_endpoint c"
proof -
  have "rendered (\<lambda>v. v) (cf_endpoint c) = Some v \<Longrightarrow> True" for v
    using assms by (auto simp: rendered_def member_def AuthType_portable level_ok_ToString
        number_ok_int_str [where z = False] split: if_splits)
  note eq = slot_endpoint.distinct_keys [OF ToMap_distinct ToMap_lower rendered_lookup(13) this]
  show ?thesis
    using assms member_given [OF assms(1)]
    by (subst eq) (auto simp: rendered_def member_def number_ok_int_str [where z = False] split: if_splits)
qed

lemma whole_region:
  assumes "member portable_str (cf_region c) (cf_region (ps_cfg s))"
  shows "cf_region (ps_cfg (foldr (\<lambda>(k, v). HandleAttributePair p k v) (ToMap c []) s)) = cf_region c"
proof -
  have "rendered (\<lambda>v. v) (cf_region c) = Some v \<Longrightarrow> True" for v
    using assms by (auto simp: rendered_def member_def AuthType_portable level_ok_ToString
        number_ok_int_str [where z = False] split: if_splits)
  note eq = slot_region.distinct_keys [OF ToMap_distinct ToMap_lower rendered_lookup(14) this]
  show ?thesis
    using assms member_given [OF assms(1)]
    by (subst eq) (auto simp: rendered_def member_def number_ok_int_str [where z = False] split: if_splits)
qed

lemma whole_authType:
  assumes "member (\<lambda>_. True) (cf_authType c) (cf_authType (ps_cfg s))"
  shows "cf_authType (ps_cfg (foldr (\<lambda>(k, v). HandleAttributePair p k v) (ToMap c []) s)) = cf_authType c"
proof -
  have "rendered AuthType_ToString (cf_authType c) = Some v \<Longrightarrow> auth_ok v" for v
    using assms by (auto simp: rendered_def member_def AuthType_portable level_ok_ToString
        number_ok_int_str [where z = False] split: if_splits)
  note eq = slot_authType.distinct_keys [OF ToMap_distinct ToMap_lower rendered_lookup(15) this]
  show ?thesis
    using assms member_given [OF assms(1)]
    by (subst eq) (auto simp: rendered_def member_def number_ok_int_str [where z = False] split: if_splits)
qed

lemma whole_idPHost:
  assumes "member portable_str (cf_idPHost c) (cf_idPHost (ps_cfg s))"
  shows "cf_idPHost (ps_cfg (foldr (\<lambda>(k, v). HandleAttributePair p k v) (ToMap c []) s)) = cf_idPHost c"
proof -
  have "rendered (\<lambda>v. v) (cf_idPHost c) = Some v \<Longrightarrow> True" for v
    using assms by (auto simp: rendered_def member_def AuthType_portable level_ok_ToString
        number_ok_int_str [where z = False] split: if_splits)
  note eq = slot_idPHost.distinct_keys [OF ToMap_distinct ToMap_lower rendered_lookup(16) this]
  show ?thesis
    using assms member_given [OF assms(1)]
    by (subst eq) (auto simp: rendered_def member_def number_ok_int_str [where z = False] split: if_splits)
qed

lemma whole_idPUserName:
  assumes "member portable_str (cf_idPUserName c) (cf_idPUserName (ps_cfg s))"
  shows "cf_idPUserName (ps_cfg (foldr (\<lambda>(k, v). HandleAttributePair p k v) (ToMap c []) s)) = cf_idPUserName c"
proof -
  have "rendered (\<lambda>v. v) (cf_idPUserName c) = Some v \<Longrightarrow> True" for v
    using assms by (auto simp: rendered_def member_def AuthType_portable level_ok_ToString
        number_ok_int_str [where z = False] split: if_splits)
  note eq = slot_idPUserName.distinct_keys [OF ToMap_distinct ToMap_lower rendered_lookup(17) this]
  show ?thesis
    using assms member_given [OF assms(1)]
    by (subst eq) (auto simp: rendered_def member_def number_ok_int_str [where z = False] split: if_splits)
qed

lemma whole_idPPassword:
  assumes "member portable_str (cf_idPPassword c) (cf_idPPassword (ps_cfg s))"
  shows "cf_idPPassword (ps_cfg (foldr (\<lambda>(k, v). HandleAttributePair p k v) (ToMap c []) s)) = cf_idPPassword c"
proof -
  have "rendered (\<lambda>v. v) (cf_idPPassword c) = Some v \<Longrightarrow> True" for v
    using assms by (auto simp: rendered_def member_def AuthType_portable level_ok_ToString
        number_ok_int_str [where z = False] split: if_splits)
  note eq = slot_idPPassword.distinct_keys [OF ToMap_distinct ToMap_lower rendered_lookup(18) this]
  show ?thesis
    using assms member_given [OF assms(1)]
    by (subst eq) (auto simp: rendered_def member_def number_ok_int_str [where z = False] split: if_splits)
qed

lemma whole_idPArn:
  assumes "member portable_str (cf_idPArn c) (cf_idPArn (ps_cfg s))"
  shows "cf_idPArn (ps_cfg (foldr (\<lambda>(k, v). HandleAttributePair p k v) (ToMap c []) s)) = cf_idPArn c"
proof -
  have "rendered (\<lambda>v. v) (cf_idPArn c) = Some v \<Longrightarrow> True" for v
    using assms by (auto simp: rendered_def member_def AuthType_portable level_ok_ToString
        number_ok_int_str [where z = False] split: if_splits)
  note eq = slot_idPArn.distinct_keys [OF ToMap_distinct ToMap_lower rendered_lookup(19) this]
  show ?thesis
    using assms member_given [OF assms(1)]
    by (subst eq) (auto simp: rendered_def member_def number_ok_int_str [where z = False] split: if_splits)
qed

lemma whole_oktaAppId:
  assumes "member portable_str (cf_oktaAppId c) (cf_oktaAppId (ps_cfg s))"
  shows "cf_oktaAppId (ps_cfg (foldr (\<lambda>(k, v). HandleAttributePair p k v) (ToMap c []) s)) = cf_oktaAppId c"
proof -
  have "rendered (\<lambda>v. v) (cf_oktaAppId c) = Some v \<Longrightarrow> True" for v
    using assms by (auto simp: rendered_def member_def AuthType_portable level_ok_ToString
        number_ok_int_str [where z = False] split: if_splits)
  note eq = slot_oktaAppId.distinct_keys [OF ToMap_distinct ToMap_lower rendered_lookup(20) this]
  show ?thesis
    using assms member_given [OF assms(1)]
    by (subst eq) (auto simp: rendered_def member_def number_ok_int_str [where z = False] split: if_splits)
qed

lemma whole_roleArn:
  assumes "member portable_str (cf_roleArn c) (cf_roleArn (ps_cfg s))"
  shows "cf_roleArn (ps_cfg (foldr (\<lambda>(k, v). HandleAttributePair p k v) (ToMap c []) s)) = cf_roleArn c"
proof -
  have "rendered (\<lambda>v. v) (cf_roleArn c) = Some v \<Longrightarrow> True" for v
    using assms by (auto simp: rendered_def member_def AuthType_portable level_ok_ToString
        number_ok_int_str [where z = False] split: if_splits)
  note eq = slot_roleArn.distinct_keys [OF ToMap_distinct ToMap_lower rendered_lookup(21) this]
  show ?thesis
    using assms member_given [OF assms(1)]
    by (subst eq) (auto simp: rendered_def member_def number_ok_int_str [where z = False] split: if_splits)
qed

lemma whole_aadAppId:
  assumes "member portable_str (cf_aadAppId c) (cf_aadAppId (ps_cfg s))"
  shows "cf_aadAppId (ps_cfg (foldr (\<lambda>(k, v). HandleAttributePair p k v) (ToMap c []) s)) = cf_aadAppId c"
proof -
  have "rendered (\<lambda>v. v) (cf_aadAppId c) = Some v \<Longrightarrow> True" for v
    using assms by (auto simp: rendered_def member_def AuthType_portable level_ok_ToString
        number_ok_int_str [where z = False] split: if_splits)
  note eq = slot_aadAppId.distinct_keys [OF ToMap_distinct ToMap_lower rendered_lookup(22) this]
  show ?thesis
    using assms member_given [OF assms(1)]
    by (subst eq) (auto simp: rendered_def member_def number_ok_int_str [where z = False] split: if_splits)
qed

lemma whole_aadClientSecret:
  assumes "member portable_str (cf_aadClientSecret c) (cf_aadClientSecret (ps_cfg s))"
  shows "cf_aadClientSecret (ps_cfg (foldr (\<lambda>(k, v). HandleAttributePair p k v) (ToMap c []) s)) = cf_aadClientSecret c"
proof -
  have "rendered (\<lambda>v. v) (cf_aadClientSecret c) = Some v \<Longrightarrow> True" for v
    using assms by (auto simp: rendered_def member_def AuthType_portable level_ok_ToString
        number_ok_int_str [where z = False] split: if_splits)
  note eq = slot_aadClientSecret.distinct_keys [OF ToMap_distinct ToMap_lower rendered_lookup(23) this]
  show ?thesis
    using assms member_given [OF assms(1)]
    by (subst eq) (auto simp: rendered_def member_def number_ok_int_str [where z = False] split: if_splits)
qed

lemma whole_aadTenant:
  assumes "member portable_str (cf_aadTenant c) (cf_aadTenant (ps_cfg s))"
  shows "cf_aadTenant (ps_cfg (foldr (\<lambda>(k, v). HandleAttributePair p k v) (ToMap c []) s)) = cf_aadTenant c"
proof -
  have "rendered (\<lambda>v. v) (cf_aadTenant c) = Some v \<Longrightarrow> True" for v
    using assms by (auto simp: rendered_def member_def AuthType_portable level_ok_ToString
        number_ok_int_str [where z = False] split: if_splits)
  note eq = slot_aadTenant.distinct_keys [OF ToMap_distinct ToMap_lower rendered_lookup(24) this]
  show ?thesis
    using assms member_given [OF assms(1)]
    by (subst eq) (auto simp: rendered_def member_def number_ok_int_str [where z = False] split: if_splits)
qed

lemma whole_logLevel:
  assumes "member (\<lambda>v. v \<noteq> LogLevel_UNKNOWN) (cf_logLevel c) (cf_logLevel (ps_cfg s))"
  shows "cf_logLevel (ps_cfg (foldr (\<lambda>(k, v). HandleAttributePair p k v) (ToMap c []) s)) = cf_logLevel c"
proof -
  have "rendered LogLevel_ToString (cf_logLevel c) = Some v \<Longrightarrow> level_ok v" for v
    using assms by (auto simp: rendered_def member_def AuthType_portable level_ok_ToString
        number_ok_int_str [where z = False] split: if_splits)
  note eq = slot_logLevel.distinct_keys [OF ToMap_distinct ToMap_lower rendered_lookup(25) this]
  show ?thesis
    using assms member_given [OF assms(1)]
    by (subst eq) (auto simp: rendered_def member_def number_ok_int_str [where z = False] split: if_splits)
qed

lemma whole_logPath:
  assumes "member (\<lambda>v. portable_str v \<and> valid_dir p v) (cf_logPath c) (cf_logPath (ps_cfg s))"
  shows "cf_logPath (ps_cfg (foldr (\<lambda>(k, v). HandleAttributePair p k v) (ToMap c []) s)) = cf_logPath c"
proof -
  have "rendered (\<lambda>v. v) (cf_logPath c) = Some v \<Longrightarrow> valid_dir p v" for v
    using assms by (auto simp: rendered_def member_def AuthType_portable level_ok_ToString
        number_ok_int_str [where z = False] split: if_splits)
  note eq = slot_logPath.distinct_keys [OF ToMap_distinct ToMap_lower rendered_lookup(26) this]
  show ?thesis
    using assms member_given [OF assms(1)]
    by (subst eq) (auto simp: rendered_def member_def number_ok_int_str [where z = False] split: if_splits)
qed

lemma whole_maxRowPerPage:
  assumes "member (int_member 0) (cf_maxRowPerPage c) (cf_maxRowPerPage (ps_cfg s))" and "10 < sizeof_string p"
  shows "cf_maxRowPerPage (ps_cfg (foldr (\<lambda>(k, v). HandleAttributePair p k v) (ToMap c []) s)) = cf_maxRowPerPage c"
proof -
  have "rendered int_str (cf_maxRowPerPage c) = Some v \<Longrightarrow> number_ok p True v" for v
    using assms by (auto simp: rendered_def member_def AuthType_portable level_ok_ToString
        number_ok_int_str [where z = True] split: if_splits)
  note eq = slot_maxRowPerPage.distinct_keys [OF ToMap_distinct ToMap_lower rendered_lookup(27) this]
  show ?thesis
    using assms member_given [OF assms(1)]
    by (subst eq) (auto simp: rendered_def member_def number_ok_int_str [where z = True] split: if_splits)
qed

lemmas whole_members =
  whole_dsn whole_driver whole_uid whole_pwd whole_accessKeyId whole_secretKey whole_sessionToken whole_profileName whole_reqTimeout whole_connectionTimeout whole_maxRetryCountClient whole_maxConnections whole_endpoint whole_region whole_authType whole_idPHost whole_idPUserName whole_idPPassword whole_idPArn whole_oktaAppId whole_roleArn whole_aadAppId whole_aadClientSecret whole_aadTenant whole_logLevel whole_logPath whole_maxRowPerPage

section \<open>Properties\<close>

lemma Default_pending: "pending k (DefaultConfiguration lp) = []"
proof -
  have "list_all (\<lambda>(k, get). GetValue (get (DefaultConfiguration lp)) = []) rewritten"
    by (simp add: rewritten_def DefaultConfiguration_def)
  then show ?thesis
    by (auto simp: pending_def list_all_iff split: option.split dest!: map_of_SomeD)
qed

text \<open> C6. Round trip of a configuration: a configuration all of whose set members are portable
  (text without semicolons, equals signs and unprotected braces or blanks at the ends, numbers of
  the \<^verbatim>\<open>int32_t\<close> range, a known log level, an existing log directory) is restored exactly when the
  string it is rendered to is parsed into a fresh configuration, and no warning is recorded.\<close>

theorem connection_string_roundtrip:
  assumes "portable p (DefaultConfiguration lp) c" and "10 < sizeof_string p"
    and "ps_cfg s = DefaultConfiguration lp"
  shows "ps_cfg (ParseConnectionString p (ToConnectString c) s) = c
    \<and> ps_diag (ParseConnectionString p (ToConnectString c) s) = ps_diag s"
proof -
  let ?r = "foldr (\<lambda>(k, v). HandleAttributePair p k v) (ToMap c []) s"
  have r: "ParseConnectionString p (ToConnectString c) s = ?r"
    unfolding ToConnectString_def
    by (rule parse_rendered [OF portable_entries [OF assms(1)] ToMap_keys_subset])
  have m: "portable p (ps_cfg s) c" using assms(1,3) by simp
  have "ps_cfg ?r = c"
    using m assms(2) unfolding portable_def
    by (elim conjE, intro configuration.equality)
      (simp_all only: whole_members, simp)
  moreover have "ps_diag ?r = ps_diag s"
    by (rule ToMap_quiet [OF assms(1,2) Default_pending assms(3)])
  ultimately show ?thesis by (simp only: r)
qed

definition sample_platform :: platform where
  "sample_platform = \<lparr>valid_dir = (\<lambda>d. d = ''/tmp''), sizeof_string = 32\<rparr>"

definition sample_cfg :: configuration where
  "sample_cfg = SetDsn ''my dsn'' (SetReqTimeout 5 (SetAuthType IAM (SetUid ''u'' (DefaultConfiguration ''/''))))"

theorem connection_string_roundtrip_witness:
  "ps_cfg (ParseConnectionString sample_platform (ToConnectString sample_cfg)
      \<lparr>ps_cfg = DefaultConfiguration ''/'', ps_logger = \<lparr>lg_level = LOG_OFF, lg_path = []\<rparr>,
       ps_diag = None\<rparr>) = sample_cfg"
proof -
  have "portable sample_platform (DefaultConfiguration ''/'') sample_cfg"
    by (simp add: portable_def sample_cfg_def setter_defs DefaultConfiguration_def member_def
        portable_str_def plain_text_def int_member_def given_def IsSet_def GetValue_def
        SettableValue_def trimmed_def isspace_def char_code_def)
  then show ?thesis
    using connection_string_roundtrip [of sample_platform "''/''" sample_cfg
      "\<lparr>ps_cfg = DefaultConfiguration ''/'', ps_logger = \<lparr>lg_level = LOG_OFF, lg_path = []\<rparr>,
        ps_diag = None\<rparr>"] by (simp add: sample_platform_def)
qed

text \<open> What a numeric attribute accepts (here the request timeout): exactly a string of decimal
  digits shorter than the platform bound whose value lies in 1..4294967295; it is stored as a
  32-bit signed number, so it is the value itself below 2147483648 and negative above. Anything
  else changes nothing but adds one warning.\<close>

theorem request_timeout_accepts:
  "(number_ok p False v \<longrightarrow>
      Handle_reqTimeout p k v s = set_cfg (SetReqTimeout (to_int32 (dec_val v))) s
      \<and> (dec_val v < 2 ^ 31 \<longrightarrow> to_int32 (dec_val v) = dec_val v)
      \<and> (2 ^ 31 \<le> dec_val v \<longrightarrow> to_int32 (dec_val v) = dec_val v - 2 ^ 32))
   \<and> (\<not> number_ok p False v \<longrightarrow> (\<exists>m. Handle_reqTimeout p k v s = warn m s))"
proof -
  have "to_int32 x = x - 2 ^ 32" if "2 ^ 31 \<le> x" "x < 2 ^ 32" for x
  proof -
    have "to_int32 x = to_int32 (x - 2 ^ 32)"
      by (simp add: to_int32_def signed_take_bit_eq_iff_take_bit_eq take_bit_eq_mod)
    with that show ?thesis by (simp add: to_int32_id)
  qed
  then show ?thesis
    using handle_number_bad [of p False v "''Request Timeout''" SetReqTimeout k s]
    by (auto simp: Handle_reqTimeout_def handle_number_ok number_ok_def to_int32_id)
qed

theorem request_timeout_accepts_witness:
  "cf_reqTimeout (ps_cfg (Handle_reqTimeout sample_platform K_reqTimeout ''4294967295''
      \<lparr>ps_cfg = sample_cfg, ps_logger = \<lparr>lg_level = LOG_OFF, lg_path = []\<rparr>, ps_diag = None\<rparr>)) = given (- 1)"
proof -
  have "number_ok sample_platform False ''4294967295'' \<and> dec_val ''4294967295'' = 4294967295"
    by (simp add: number_ok_def AllDigits_iff isdigit_def char_code_def dec_val_def digit_val_def
        sample_platform_def)
  then show ?thesis
    using request_timeout_accepts [of sample_platform "''4294967295''" K_reqTimeout
      "\<lparr>ps_cfg = sample_cfg, ps_logger = \<lparr>lg_level = LOG_OFF, lg_path = []\<rparr>, ps_diag = None\<rparr>"]
    by (simp add: ps_cfg_steps setter_defs)
qed

text \<open> Of several pairs with the same keyword the leftmost wins, in any spelling of the key: for
  the region, the value after the whole string is the value of the first pair whose key is
  \<^verbatim>\<open>region\<close> up to case, and the previous one when there is none.\<close>

theorem leftmost_region_wins:
  assumes "\<forall>(k, w) \<in> set kws. good_key k \<and> plain_text w"
  shows "cf_region (ps_cfg (ParseConnectionString p (concat (map segment kws)) s)) =
    (case map_of (map (\<lambda>(k, w). (ToLower k, unbrace (Trim w))) kws) K_region of
       None \<Rightarrow> cf_region (ps_cfg s) | Some v \<Rightarrow> given v)"
proof -
  let ?kvs = "map (\<lambda>(k, w). (k, unbrace (Trim w))) kws"
  have "foldr (\<lambda>(k, w). HandleAttributePair p k (unbrace (Trim w))) kws s =
      foldr (\<lambda>(k, v). HandleAttributePair p k v) ?kvs s"
    by (induction kws) auto
  then show ?thesis
    using slot_region.leftmost [of ?kvs p s]
    by (simp add: ParseConnectionString_segments [OF assms] comp_def case_prod_unfold)
qed

theorem leftmost_region_wins_witness:
  "cf_region (ps_cfg (ParseConnectionString sample_platform ''REGION=eu;Region=us;''
     \<lparr>ps_cfg = sample_cfg, ps_logger = \<lparr>lg_level = LOG_OFF, lg_path = []\<rparr>, ps_diag = None\<rparr>)) = given ''eu''"
proof -
  have "ToLower ''REGION'' = K_region \<and> ToLower ''Region'' = K_region" by code_simp
  then show ?thesis
    using leftmost_region_wins [of "[(''REGION'', ''eu''), (''Region'', ''us'')]" sample_platform
        "\<lparr>ps_cfg = sample_cfg, ps_logger = \<lparr>lg_level = LOG_OFF, lg_path = []\<rparr>, ps_diag = None\<rparr>"]
    by (simp add: good_key_def plain_text_def trimmed_def isspace_def char_code_def segment_def
      unbrace_def Trim_id)
qed

text \<open> A pair is cut at its last equals sign: a value that itself holds one loses its front part
  to the key.\<close>

theorem pair_cut_at_last_equals:
  assumes "k \<noteq> []" and "CHR '';'' \<notin> set k" and "CHR '';'' \<notin> set w" and "CHR ''='' \<notin> set w"
    and "w = [] \<or> last w \<noteq> NUL"
  shows "ParseConnectionString p (k @ CHR ''='' # w) s =
    HandleAttributePair p (Trim k) (unbrace (Trim w)) s"
proof -
  have "NUL \<noteq> CHR ''=''" by (rule NUL_neq) (simp add: char_code_def)
  then have "k @ CHR ''='' # w = [] \<or> last (k @ CHR ''='' # w) \<noteq> NUL"
    using assms(5) by auto
  note strip = strip_zeros_id [OF this]
  show ?thesis
    using parse_loop_body [of "[]" k w "HandleAttributePair p" s] assms
    unfolding ParseConnectionString_def ParseConnectionStringDelim_def strip by simp
qed

theorem pair_cut_at_last_equals_witness:
  "\<forall>s. ParseConnectionString sample_platform ''PWD=ab=cd'' s =
     HandleAttributePair sample_platform ''PWD=ab'' ''cd'' s"
proof
  fix s
  have "NUL \<noteq> CHR ''d''" by (rule NUL_neq) (simp add: char_code_def)
  then show "ParseConnectionString sample_platform ''PWD=ab=cd'' s =
      HandleAttributePair sample_platform ''PWD=ab'' ''cd'' s"
    using pair_cut_at_last_equals [of "''PWD=ab''" "''cd''" sample_platform s]
    by (auto simp: Trim_id trimmed_def isspace_def char_code_def unbrace_def)
qed

end
