(* ===== verification/Dsn_Config.thy ===== *)
theory Dsn_Config
  imports Conn_Render
begin

text \<open>
  Data source names (\<^verbatim>\<open>src/dsn_config.cpp\<close>): reading the members a connection string left open from
  the profile of a data source, registering and removing a data source. The profile store itself
  is the ODBC installer library, which is an argument of these definitions.
\<close>

section \<open>Reading a value\<close>

text \<open>\<^verbatim>\<open>LexicalCast<int, std::string>\<close>: extraction of an \<^verbatim>\<open>int\<close> from a stream that holds the text. No
  character left after the leading blanks leaves the result variable as it was (\<open>junk\<close>); text that
  is no number stores 0, and a number outside the type its nearest bound.\<close>

definition clamp_int32 :: "int \<Rightarrow> int" where
  "clamp_int32 n = max (- (2 ^ 31)) (min n (2 ^ 31 - 1))"

definition LexicalCast_int :: "int \<Rightarrow> string \<Rightarrow> int" where
  "LexicalCast_int junk s =
     (case dropWhile isspace s of
        [] \<Rightarrow> junk
      | c # cs \<Rightarrow>
          (if c = CHR ''-'' then clamp_int32 (- dec_val (takeWhile isdigit cs))
           else if c = CHR ''+'' then clamp_int32 (dec_val (takeWhile isdigit cs))
           else clamp_int32 (dec_val (takeWhile isdigit (c # cs)))))"

text \<open>\<^verbatim>\<open>SQLGetPrivateProfileString\<close> as the source calls it: data source, key and default text to the
  text read.\<close>

type_synonym profile_reader = "string \<Rightarrow> string \<Rightarrow> string \<Rightarrow> string"

definition unique_mark :: string where
  "unique_mark = ''35a920dd-8837-43d2-a846-e01a2e7b5f84''"

definition ReadDsnString :: "profile_reader \<Rightarrow> string \<Rightarrow> string \<Rightarrow> string \<Rightarrow> string settable" where
  "ReadDsnString rd dsn key dflt =
     (let res = rd dsn key unique_mark in
      if res \<noteq> unique_mark then SetValue res False (SettableValue dflt) else SettableValue dflt)"

definition ReadDsnInt :: "profile_reader \<Rightarrow> int \<Rightarrow> string \<Rightarrow> string \<Rightarrow> int \<Rightarrow> int settable" where
  "ReadDsnInt rd junk dsn key dflt =
     (let str = ReadDsnString rd dsn key [] in
      if IsSet str then SetValue (LexicalCast_int junk (GetValue str)) False (SettableValue dflt)
      else SettableValue dflt)"

definition ReadDsnBool :: "profile_reader \<Rightarrow> string \<Rightarrow> string \<Rightarrow> bool \<Rightarrow> bool settable" where
  "ReadDsnBool rd dsn key dflt =
     (let str = ReadDsnString rd dsn key [] in
      if IsSet str then SetValue (GetValue str = ''true'') False (SettableValue dflt)
      else SettableValue dflt)"

section \<open>Filling a configuration\<close>

text \<open>One paragraph of the source: read the value, and set the member when the value is present and
  the configuration has none.\<close>

definition fill :: "bool \<Rightarrow> bool \<Rightarrow> ('c \<Rightarrow> 'c) \<Rightarrow> 'c \<Rightarrow> 'c" where
  "fill present is_set setter c = (if present \<and> \<not> is_set then setter c else c)"

type_synonym logged_cfg = "configuration \<times> logger"

definition fill_str ::
  "profile_reader \<Rightarrow> string \<Rightarrow> string \<Rightarrow> (configuration \<Rightarrow> bool) \<Rightarrow>
   (string \<Rightarrow> configuration \<Rightarrow> configuration) \<Rightarrow> logged_cfg \<Rightarrow> logged_cfg" where
  "fill_str rd dsn key is_set setter cl =
     (let s = ReadDsnString rd dsn key [] in
      fill (IsSet s) (is_set (fst cl)) (\<lambda>(c, l). (setter (GetValue s) c, l)) cl)"

definition fill_int ::
  "profile_reader \<Rightarrow> int \<Rightarrow> string \<Rightarrow> string \<Rightarrow> string \<Rightarrow> (configuration \<Rightarrow> bool) \<Rightarrow>
   (int \<Rightarrow> configuration \<Rightarrow> configuration) \<Rightarrow> logged_cfg \<Rightarrow> logged_cfg" where
  "fill_int rd junk dsn guard_key key is_set setter cl =
     (let g = ReadDsnInt rd junk dsn guard_key 0; s = ReadDsnInt rd junk dsn key 0 in
      fill (IsSet g) (is_set (fst cl)) (\<lambda>(c, l). (setter (GetValue s) c, l)) cl)"

definition fill_auth :: "profile_reader \<Rightarrow> string \<Rightarrow> logged_cfg \<Rightarrow> logged_cfg" where
  "fill_auth rd dsn cl =
     (let s = ReadDsnString rd dsn K_authType [] in
      fill (IsSet s) (IsSet (cf_authType (fst cl)))
        (\<lambda>(c, l). (SetAuthType (AuthType_FromString (GetValue s) AWS_PROFILE) c, l)) cl)"

definition fill_level :: "profile_reader \<Rightarrow> string \<Rightarrow> logged_cfg \<Rightarrow> logged_cfg" where
  "fill_level rd dsn cl =
     (let s = ReadDsnString rd dsn K_logLevel [] in
      fill (IsSet s) (IsSet (cf_logLevel (fst cl)))
        (SetLogLevel (LogLevel_FromString (GetValue s) WARNING_LEVEL)) cl)"

definition fill_path ::
  "profile_reader \<Rightarrow> (string \<Rightarrow> bool) \<Rightarrow> string \<Rightarrow> logged_cfg \<Rightarrow> logged_cfg" where
  "fill_path rd vd dsn cl =
     (let s = ReadDsnString rd dsn K_logPath [] in
      fill (IsSet s) (IsSet (cf_logPath (fst cl))) (SetLogPath vd (GetValue s)) cl)"

text \<open>The paragraphs of \<^verbatim>\<open>ReadDsnConfiguration\<close> in their order. The connection timeout is guarded by
  the presence of the request timeout, as in the source.\<close>

definition ReadDsnConfiguration ::
  "profile_reader \<Rightarrow> int \<Rightarrow> (string \<Rightarrow> bool) \<Rightarrow> string \<Rightarrow> logged_cfg \<Rightarrow> logged_cfg" where
  "ReadDsnConfiguration rd junk vd dsn cl0 = fold (\<lambda>f. f)
     [fill_str rd dsn K_uid (\<lambda>c. IsSet (cf_uid c)) SetUid,
      fill_str rd dsn K_pwd (\<lambda>c. IsSet (cf_pwd c)) SetPwd,
      fill_str rd dsn K_accessKeyId (\<lambda>c. IsSet (cf_accessKeyId c)) SetAccessKeyId,
      fill_str rd dsn K_secretKey (\<lambda>c. IsSet (cf_secretKey c)) SetSecretKey,
      fill_str rd dsn K_sessionToken (\<lambda>c. IsSet (cf_sessionToken c)) SetSessionToken,
      fill_str rd dsn K_profileName IsProfileNameSet SetProfileName,
      fill_int rd junk dsn K_reqTimeout K_reqTimeout (\<lambda>c. IsSet (cf_reqTimeout c)) SetReqTimeout,
      fill_int rd junk dsn K_reqTimeout K_connectionTimeout (\<lambda>c. IsSet (cf_connectionTimeout c)) SetConnectionTimeout,
      fill_int rd junk dsn K_maxRetryCountClient K_maxRetryCountClient (\<lambda>c. IsSet (cf_maxRetryCountClient c)) SetMaxRetryCountClient,
      fill_int rd junk dsn K_maxConnections K_maxConnections (\<lambda>c. IsSet (cf_maxConnections c)) SetMaxConnections,
      fill_str rd dsn K_endpoint (\<lambda>c. IsSet (cf_endpoint c)) SetEndpoint,
      fill_str rd dsn K_region (\<lambda>c. IsSet (cf_region c)) SetRegion,
      fill_auth rd dsn,
      fill_str rd dsn K_idPHost (\<lambda>c. IsSet (cf_idPHost c)) SetIdPHost,
      fill_str rd dsn K_idPUserName (\<lambda>c. IsSet (cf_idPUserName c)) SetIdPUserName,
      fill_str rd dsn K_idPPassword (\<lambda>c. IsSet (cf_idPPassword c)) SetIdPPassword,
      fill_str rd dsn K_idPArn (\<lambda>c. IsSet (cf_idPArn c)) SetIdPArn,
      fill_str rd dsn K_oktaAppId (\<lambda>c. IsSet (cf_oktaAppId c)) SetOktaAppId,
      fill_str rd dsn K_roleArn (\<lambda>c. IsSet (cf_roleArn c)) SetRoleArn,
      fill_str rd dsn K_aadAppId (\<lambda>c. IsSet (cf_aadAppId c)) SetAADAppId,
      fill_str rd dsn K_aadClientSecret (\<lambda>c. IsSet (cf_aadClientSecret c)) SetAADClientSecret,
      fill_str rd dsn K_aadTenant (\<lambda>c. IsSet (cf_aadTenant c)) SetAADTenant,
      fill_level rd dsn,
      fill_path rd vd dsn,
      fill_int rd junk dsn K_maxRowPerPage K_maxRowPerPage (\<lambda>c. IsSet (cf_maxRowPerPage c)) SetMaxRowPerPage] cl0"

section \<open>Registering and removing\<close>

text \<open>The writing side of the installer library over its own state: create the section of a data
  source, write one value, remove the section; each reports success.\<close>

record 'w installer =
  SQLWriteDSNToIni :: "string \<Rightarrow> string \<Rightarrow> 'w \<Rightarrow> bool \<times> 'w"
  SQLWritePrivateProfileString :: "string \<Rightarrow> string \<Rightarrow> string \<Rightarrow> 'w \<Rightarrow> bool \<times> 'w"
  SQLRemoveDSNFromIni :: "string \<Rightarrow> 'w \<Rightarrow> bool \<times> 'w"

definition WriteDsnString ::
  "'w installer \<Rightarrow> string \<Rightarrow> string \<Rightarrow> string \<Rightarrow> 'w \<Rightarrow> bool \<times> 'w" where
  "WriteDsnString i dsn key val ini = SQLWritePrivateProfileString i dsn key val ini"

fun write_all :: "'w installer \<Rightarrow> string \<Rightarrow> argument_map \<Rightarrow> 'w \<Rightarrow> bool \<times> 'w" where
  "write_all i dsn [] ini = (True, ini)"
| "write_all i dsn ((k, v) # m) ini =
     (case WriteDsnString i dsn k v ini of
        (False, ini') \<Rightarrow> (False, ini')
      | (True, ini') \<Rightarrow> write_all i dsn m ini')"

definition RegisterDsn :: "'w installer \<Rightarrow> configuration \<Rightarrow> string \<Rightarrow> 'w \<Rightarrow> bool \<times> 'w" where
  "RegisterDsn i c driver ini =
     (let dsn = GetDsn ''Timestream DSN'' c in
      case SQLWriteDSNToIni i dsn driver ini of
        (False, ini') \<Rightarrow> (False, ini')
      | (True, ini') \<Rightarrow>
          write_all i dsn (amap_erase K_driver (amap_erase K_dsn (ToMap c []))) ini')"

definition UnregisterDsn :: "'w installer \<Rightarrow> string \<Rightarrow> 'w \<Rightarrow> bool \<times> 'w" where
  "UnregisterDsn i dsn ini = SQLRemoveDSNFromIni i dsn ini"

definition WriteDsnConfiguration :: "'w installer \<Rightarrow> configuration \<Rightarrow> 'w \<Rightarrow> bool \<times> 'w" where
  "WriteDsnConfiguration i c ini =
     (if GetDsn [] c = [] \<or> GetValue (cf_driver c) = [] then (False, ini)
      else RegisterDsn i c (GetValue (cf_driver c)) ini)"

definition DeleteDsnConfiguration :: "'w installer \<Rightarrow> string \<Rightarrow> 'w \<Rightarrow> bool \<times> 'w" where
  "DeleteDsnConfiguration i dsn ini = UnregisterDsn i dsn ini"

section \<open>What filling does to one member\<close>

lemma fst_fill_str:
  "fst (fill_str rd dsn key is_set setter cl) =
     (if IsSet (ReadDsnString rd dsn key []) \<and> \<not> is_set (fst cl)
      then setter (GetValue (ReadDsnString rd dsn key [])) (fst cl) else fst cl)"
  by (cases cl) (simp add: fill_str_def fill_def Let_def)

lemma fst_fill_int:
  "fst (fill_int rd junk dsn g key is_set setter cl) =
     (if IsSet (ReadDsnInt rd junk dsn g 0) \<and> \<not> is_set (fst cl)
      then setter (GetValue (ReadDsnInt rd junk dsn key 0)) (fst cl) else fst cl)"
  by (cases cl) (simp add: fill_int_def fill_def Let_def)

lemma fst_fill_auth:
  "fst (fill_auth rd dsn cl) =
     (if IsSet (ReadDsnString rd dsn K_authType []) \<and> \<not> IsSet (cf_authType (fst cl))
      then SetAuthType (AuthType_FromString (GetValue (ReadDsnString rd dsn K_authType [])) AWS_PROFILE) (fst cl)
      else fst cl)"
  by (cases cl) (simp add: fill_auth_def fill_def Let_def)

lemma known_level: "d \<noteq> LogLevel_UNKNOWN \<Longrightarrow> LogLevel_FromString v d \<noteq> LogLevel_UNKNOWN"
  by (simp add: LogLevel_FromString_def Let_def)

lemma fst_fill_level:
  "fst (fill_level rd dsn cl) =
     (if IsSet (ReadDsnString rd dsn K_logLevel []) \<and> \<not> IsSet (cf_logLevel (fst cl))
      then (fst cl)\<lparr>cf_logLevel := SetValue
        (LogLevel_FromString (GetValue (ReadDsnString rd dsn K_logLevel [])) WARNING_LEVEL) False
        (cf_logLevel (fst cl))\<rparr>
      else fst cl)"
  by (cases cl) (simp add: fill_level_def fill_def Let_def SetLogLevel_def known_level)

lemma fst_fill_path:
  "fst (fill_path rd vd dsn cl) =
     (if IsSet (ReadDsnString rd dsn K_logPath []) \<and> \<not> IsSet (cf_logPath (fst cl))
         \<and> vd (GetValue (ReadDsnString rd dsn K_logPath []))
      then (fst cl)\<lparr>cf_logPath := SetValue (GetValue (ReadDsnString rd dsn K_logPath [])) False
        (cf_logPath (fst cl))\<rparr>
      else fst cl)"
  by (cases cl) (simp add: fill_path_def fill_def Let_def SetLogPath_def)

lemmas fst_fill = fst_fill_str fst_fill_int fst_fill_auth fst_fill_level fst_fill_path

lemma IsSet_ReadDsnInt: "IsSet (ReadDsnInt rd junk dsn k 0) = IsSet (ReadDsnString rd dsn k [])"
  by (simp add: ReadDsnInt_def Let_def)

text \<open>A member after filling: the old one when it was set or the profile has no value, otherwise the
  decoded text of the profile.\<close>

definition filled :: "'a settable \<Rightarrow> bool \<Rightarrow> 'a \<Rightarrow> 'a settable" where
  "filled old present v = (if present \<and> \<not> IsSet old then SetValue v False old else old)"

lemma fill_frame:
  "(\<And>v c. get (setter v c) = get c) \<Longrightarrow>
     get (fst (fill_str rd dsn key is_set setter cl)) = get (fst cl)"
  "(\<And>v c. get (isetter v c) = get c) \<Longrightarrow>
     get (fst (fill_int rd junk dsn g key is_set isetter cl)) = get (fst cl)"
  "(\<And>v c. get (c\<lparr>cf_authType := v\<rparr>) = get c) \<Longrightarrow> get (fst (fill_auth rd dsn cl)) = get (fst cl)"
  "(\<And>v c. get (c\<lparr>cf_logLevel := v\<rparr>) = get c) \<Longrightarrow> get (fst (fill_level rd dsn cl)) = get (fst cl)"
  "(\<And>v c. get (c\<lparr>cf_logPath := v\<rparr>) = get c) \<Longrightarrow> get (fst (fill_path rd vd dsn cl)) = get (fst cl)"
  by (simp_all add: fst_fill SetAuthType_def)

lemma read_uid:
  "cf_uid (fst (ReadDsnConfiguration rd junk vd dsn cl)) =
     filled (cf_uid (fst cl)) (IsSet (ReadDsnString rd dsn K_uid [])) (GetValue (ReadDsnString rd dsn K_uid []))"
  by (simp add: ReadDsnConfiguration_def setter_defs fill_frame [where get = cf_uid] filled_def
      fst_fill_str [where key = K_uid] IsSet_ReadDsnInt)

lemma read_pwd:
  "cf_pwd (fst (ReadDsnConfiguration rd junk vd dsn cl)) =
     filled (cf_pwd (fst cl)) (IsSet (ReadDsnString rd dsn K_pwd [])) (GetValue (ReadDsnString rd dsn K_pwd []))"
  by (simp add: ReadDsnConfiguration_def setter_defs fill_frame [where get = cf_pwd] filled_def
      fst_fill_str [where key = K_pwd] IsSet_ReadDsnInt)

lemma read_accessKeyId:
  "cf_accessKeyId (fst (ReadDsnConfiguration rd junk vd dsn cl)) =
     filled (cf_accessKeyId (fst cl)) (IsSet (ReadDsnString rd dsn K_accessKeyId [])) (GetValue (ReadDsnString rd dsn K_accessKeyId []))"
  by (simp add: ReadDsnConfiguration_def setter_defs fill_frame [where get = cf_accessKeyId] filled_def
      fst_fill_str [where key = K_accessKeyId] IsSet_ReadDsnInt)

lemma read_secretKey:
  "cf_secretKey (fst (ReadDsnConfiguration rd junk vd dsn cl)) =
     filled (cf_secretKey (fst cl)) (IsSet (ReadDsnString rd dsn K_secretKey [])) (GetValue (ReadDsnString rd dsn K_secretKey []))"
  by (simp add: ReadDsnConfiguration_def setter_defs fill_frame [where get = cf_secretKey] filled_def
      fst_fill_str [where key = K_secretKey] IsSet_ReadDsnInt)

lemma read_sessionToken:
  "cf_sessionToken (fst (ReadDsnConfiguration rd junk vd dsn cl)) =
     filled (cf_sessionToken (fst cl)) (IsSet (ReadDsnString rd dsn K_sessionToken [])) (GetValue (ReadDsnString rd dsn K_sessionToken []))"
  by (simp add: ReadDsnConfiguration_def setter_defs fill_frame [where get = cf_sessionToken] filled_def
      fst_fill_str [where key = K_sessionToken] IsSet_ReadDsnInt)

lemma read_profileName:
  "cf_profileName (fst (ReadDsnConfiguration rd junk vd dsn cl)) =
     (if IsSet (ReadDsnString rd dsn K_profileName []) \<and> \<not> IsProfileNameSet (fst cl) then SetValue (GetValue (ReadDsnString rd dsn K_profileName [])) False (cf_profileName (fst cl)) else cf_profileName (fst cl))"
  by (auto simp: ReadDsnConfiguration_def setter_defs fill_frame [where get = cf_profileName] filled_def
      fst_fill_str [where key = K_profileName] IsSet_ReadDsnInt IsProfileNameSet_def)

lemma read_reqTimeout:
  "cf_reqTimeout (fst (ReadDsnConfiguration rd junk vd dsn cl)) =
     filled (cf_reqTimeout (fst cl)) (IsSet (ReadDsnString rd dsn K_reqTimeout [])) (GetValue (ReadDsnInt rd junk dsn K_reqTimeout 0))"
  by (simp add: ReadDsnConfiguration_def setter_defs fill_frame [where get = cf_reqTimeout] filled_def
      fst_fill_int [where key = K_reqTimeout] IsSet_ReadDsnInt)

lemma read_connectionTimeout:
  "cf_connectionTimeout (fst (ReadDsnConfiguration rd junk vd dsn cl)) =
     filled (cf_connectionTimeout (fst cl)) (IsSet (ReadDsnString rd dsn K_reqTimeout [])) (GetValue (ReadDsnInt rd junk dsn K_connectionTimeout 0))"
  by (simp add: ReadDsnConfiguration_def setter_defs fill_frame [where get = cf_connectionTimeout] filled_def
      fst_fill_int [where key = K_connectionTimeout] IsSet_ReadDsnInt)

lemma read_maxRetryCountClient:
  "cf_maxRetryCountClient (fst (ReadDsnConfiguration rd junk vd dsn cl)) =
     filled (cf_maxRetryCountClient (fst cl)) (IsSet (ReadDsnString rd dsn K_maxRetryCountClient [])) (GetValue (ReadDsnInt rd junk dsn K_maxRetryCountClient 0))"
  by (simp add: ReadDsnConfiguration_def setter_defs fill_frame [where get = cf_maxRetryCountClient] filled_def
      fst_fill_int [where key = K_maxRetryCountClient] IsSet_ReadDsnInt)

lemma read_maxConnections:
  "cf_maxConnections (fst (ReadDsnConfiguration rd junk vd dsn cl)) =
     filled (cf_maxConnections (fst cl)) (IsSet (ReadDsnString rd dsn K_maxConnections [])) (GetValue (ReadDsnInt rd junk dsn K_maxConnections 0))"
  by (simp add: ReadDsnConfiguration_def setter_defs fill_frame [where get = cf_maxConnections] filled_def
      fst_fill_int [where key = K_maxConnections] IsSet_ReadDsnInt)

lemma read_endpoint:
  "cf_endpoint (fst (ReadDsnConfiguration rd junk vd dsn cl)) =
     filled (cf_endpoint (fst cl)) (IsSet (ReadDsnString rd dsn K_endpoint [])) (GetValue (ReadDsnString rd dsn K_endpoint []))"
  by (simp add: ReadDsnConfiguration_def setter_defs fill_frame [where get = cf_endpoint] filled_def
      fst_fill_str [where key = K_endpoint] IsSet_ReadDsnInt)

lemma read_region:
  "cf_region (fst (ReadDsnConfiguration rd junk vd dsn cl)) =
     filled (cf_region (fst cl)) (IsSet (ReadDsnString rd dsn K_region [])) (GetValue (ReadDsnString rd dsn K_region []))"
  by (simp add: ReadDsnConfiguration_def setter_defs fill_frame [where get = cf_region] filled_def
      fst_fill_str [where key = K_region] IsSet_ReadDsnInt)

lemma read_authType:
  "cf_authType (fst (ReadDsnConfiguration rd junk vd dsn cl)) =
     filled (cf_authType (fst cl)) (IsSet (ReadDsnString rd dsn K_authType [])) (AuthType_FromString (GetValue (ReadDsnString rd dsn K_authType [])) AWS_PROFILE)"
  by (simp add: ReadDsnConfiguration_def setter_defs fill_frame [where get = cf_authType] filled_def
      fst_fill_auth IsSet_ReadDsnInt)

lemma read_idPHost:
  "cf_idPHost (fst (ReadDsnConfiguration rd junk vd dsn cl)) =
     filled (cf_idPHost (fst cl)) (IsSet (ReadDsnString rd dsn K_idPHost [])) (GetValue (ReadDsnString rd dsn K_idPHost []))"
  by (simp add: ReadDsnConfiguration_def setter_defs fill_frame [where get = cf_idPHost] filled_def
      fst_fill_str [where key = K_idPHost] IsSet_ReadDsnInt)

lemma read_idPUserName:
  "cf_idPUserName (fst (ReadDsnConfiguration rd junk vd dsn cl)) =
     filled (cf_idPUserName (fst cl)) (IsSet (ReadDsnString rd dsn K_idPUserName [])) (GetValue (ReadDsnString rd dsn K_idPUserName []))"
  by (simp add: ReadDsnConfiguration_def setter_defs fill_frame [where get = cf_idPUserName] filled_def
      fst_fill_str [where key = K_idPUserName] IsSet_ReadDsnInt)

lemma read_idPPassword:
  "cf_idPPassword (fst (ReadDsnConfiguration rd junk vd dsn cl)) =
     filled (cf_idPPassword (fst cl)) (IsSet (ReadDsnString rd dsn K_idPPassword [])) (GetValue (ReadDsnString rd dsn K_idPPassword []))"
  by (simp add: ReadDsnConfiguration_def setter_defs fill_frame [where get = cf_idPPassword] filled_def
      fst_fill_str [where key = K_idPPassword] IsSet_ReadDsnInt)

lemma read_idPArn:
  "cf_idPArn (fst (ReadDsnConfiguration rd junk vd dsn cl)) =
     filled (cf_idPArn (fst cl)) (IsSet (ReadDsnString rd dsn K_idPArn [])) (GetValue (ReadDsnString rd dsn K_idPArn []))"
  by (simp add: ReadDsnConfiguration_def setter_defs fill_frame [where get = cf_idPArn] filled_def
      fst_fill_str [where key = K_idPArn] IsSet_ReadDsnInt)

lemma read_oktaAppId:
  "cf_oktaAppId (fst (ReadDsnConfiguration rd junk vd dsn cl)) =
     filled (cf_oktaAppId (fst cl)) (IsSet (ReadDsnString rd dsn K_oktaAppId [])) (GetValue (ReadDsnString rd dsn K_oktaAppId []))"
  by (simp add: ReadDsnConfiguration_def setter_defs fill_frame [where get = cf_oktaAppId] filled_def
      fst_fill_str [where key = K_oktaAppId] IsSet_ReadDsnInt)

lemma read_roleArn:
  "cf_roleArn (fst (ReadDsnConfiguration rd junk vd dsn cl)) =
     filled (cf_roleArn (fst cl)) (IsSet (ReadDsnString rd dsn K_roleArn [])) (GetValue (ReadDsnString rd dsn K_roleArn []))"
  by (simp add: ReadDsnConfiguration_def setter_defs fill_frame [where get = cf_roleArn] filled_def
      fst_fill_str [where key = K_roleArn] IsSet_ReadDsnInt)

lemma read_aadAppId:
  "cf_aadAppId (fst (ReadDsnConfiguration rd junk vd dsn cl)) =
     filled (cf_aadAppId (fst cl)) (IsSet (ReadDsnString rd dsn K_aadAppId [])) (GetValue (ReadDsnString rd dsn K_aadAppId []))"
  by (simp add: ReadDsnConfiguration_def setter_defs fill_frame [where get = cf_aadAppId] filled_def
      fst_fill_str [where key = K_aadAppId] IsSet_ReadDsnInt)

lemma read_aadClientSecret:
  "cf_aadClientSecret (fst (ReadDsnConfiguration rd junk vd dsn cl)) =
     filled (cf_aadClientSecret (fst cl)) (IsSet (ReadDsnString rd dsn K_aadClientSecret [])) (GetValue (ReadDsnString rd dsn K_aadClientSecret []))"
  by (simp add: ReadDsnConfiguration_def setter_defs fill_frame [where get = cf_aadClientSecret] filled_def
      fst_fill_str [where key = K_aadClientSecret] IsSet_ReadDsnInt)

lemma read_aadTenant:
  "cf_aadTenant (fst (ReadDsnConfiguration rd junk vd dsn cl)) =
     filled (cf_aadTenant (fst cl)) (IsSet (ReadDsnString rd dsn K_aadTenant [])) (GetValue (ReadDsnString rd dsn K_aadTenant []))"
  by (simp add: ReadDsnConfiguration_def setter_defs fill_frame [where get = cf_aadTenant] filled_def
      fst_fill_str [where key = K_aadTenant] IsSet_ReadDsnInt)

lemma read_logLevel:
  "cf_logLevel (fst (ReadDsnConfiguration rd junk vd dsn cl)) =
     filled (cf_logLevel (fst cl)) (IsSet (ReadDsnString rd dsn K_logLevel [])) (LogLevel_FromString (GetValue (ReadDsnString rd dsn K_logLevel [])) WARNING_LEVEL)"
  by (simp add: ReadDsnConfiguration_def setter_defs fill_frame [where get = cf_logLevel] filled_def
      fst_fill_level IsSet_ReadDsnInt)

lemma read_logPath:
  "cf_logPath (fst (ReadDsnConfiguration rd junk vd dsn cl)) =
     filled (cf_logPath (fst cl)) (IsSet (ReadDsnString rd dsn K_logPath []) \<and> vd (GetValue (ReadDsnString rd dsn K_logPath []))) (GetValue (ReadDsnString rd dsn K_logPath []))"
  by (simp add: ReadDsnConfiguration_def setter_defs fill_frame [where get = cf_logPath] filled_def
      fst_fill_path IsSet_ReadDsnInt)

lemma read_maxRowPerPage:
  "cf_maxRowPerPage (fst (ReadDsnConfiguration rd junk vd dsn cl)) =
     filled (cf_maxRowPerPage (fst cl)) (IsSet (ReadDsnString rd dsn K_maxRowPerPage [])) (GetValue (ReadDsnInt rd junk dsn K_maxRowPerPage 0))"
  by (simp add: ReadDsnConfiguration_def setter_defs fill_frame [where get = cf_maxRowPerPage] filled_def
      fst_fill_int [where key = K_maxRowPerPage] IsSet_ReadDsnInt)

section \<open>Properties\<close>

text \<open>The configuration the profile \<open>dsn\<close> makes of \<open>c\<close>, member by member.\<close>

definition filled_from ::
  "profile_reader \<Rightarrow> int \<Rightarrow> (string \<Rightarrow> bool) \<Rightarrow> string \<Rightarrow> configuration \<Rightarrow> configuration \<Rightarrow> bool" where
  "filled_from rd junk vd dsn c c' \<longleftrightarrow>
     cf_dsn c' = cf_dsn c \<and> cf_driver c' = cf_driver c
     \<and> cf_uid c' = filled (cf_uid c) (IsSet (ReadDsnString rd dsn K_uid [])) (GetValue (ReadDsnString rd dsn K_uid []))
     \<and> cf_pwd c' = filled (cf_pwd c) (IsSet (ReadDsnString rd dsn K_pwd [])) (GetValue (ReadDsnString rd dsn K_pwd []))
     \<and> cf_accessKeyId c' = filled (cf_accessKeyId c) (IsSet (ReadDsnString rd dsn K_accessKeyId [])) (GetValue (ReadDsnString rd dsn K_accessKeyId []))
     \<and> cf_secretKey c' = filled (cf_secretKey c) (IsSet (ReadDsnString rd dsn K_secretKey [])) (GetValue (ReadDsnString rd dsn K_secretKey []))
     \<and> cf_sessionToken c' = filled (cf_sessionToken c) (IsSet (ReadDsnString rd dsn K_sessionToken [])) (GetValue (ReadDsnString rd dsn K_sessionToken []))
     \<and> cf_profileName c' = (if IsSet (ReadDsnString rd dsn K_profileName []) \<and> \<not> IsProfileNameSet c then SetValue (GetValue (ReadDsnString rd dsn K_profileName [])) False (cf_profileName c) else cf_profileName c)
     \<and> cf_reqTimeout c' = filled (cf_reqTimeout c) (IsSet (ReadDsnString rd dsn K_reqTimeout [])) (GetValue (ReadDsnInt rd junk dsn K_reqTimeout 0))
     \<and> cf_connectionTimeout c' = filled (cf_connectionTimeout c) (IsSet (ReadDsnString rd dsn K_reqTimeout [])) (GetValue (ReadDsnInt rd junk dsn K_connectionTimeout 0))
     \<and> cf_maxRetryCountClient c' = filled (cf_maxRetryCountClient c) (IsSet (ReadDsnString rd dsn K_maxRetryCountClient [])) (GetValue (ReadDsnInt rd junk dsn K_maxRetryCountClient 0))
     \<and> cf_maxConnections c' = filled (cf_maxConnections c) (IsSet (ReadDsnString rd dsn K_maxConnections [])) (GetValue (ReadDsnInt rd junk dsn K_maxConnections 0))
     \<and> cf_endpoint c' = filled (cf_endpoint c) (IsSet (ReadDsnString rd dsn K_endpoint [])) (GetValue (ReadDsnString rd dsn K_endpoint []))
     \<and> cf_region c' = filled (cf_region c) (IsSet (ReadDsnString rd dsn K_region [])) (GetValue (ReadDsnString rd dsn K_region []))
     \<and> cf_authType c' = filled (cf_authType c) (IsSet (ReadDsnString rd dsn K_authType [])) (AuthType_FromString (GetValue (ReadDsnString rd dsn K_authType [])) AWS_PROFILE)
     \<and> cf_idPHost c' = filled (cf_idPHost c) (IsSet (ReadDsnString rd dsn K_idPHost [])) (GetValue (ReadDsnString rd dsn K_idPHost []))
     \<and> cf_idPUserName c' = filled (cf_idPUserName c) (IsSet (ReadDsnString rd dsn K_idPUserName [])) (GetValue (ReadDsnString rd dsn K_idPUserName []))
     \<and> cf_idPPassword c' = filled (cf_idPPassword c) (IsSet (ReadDsnString rd dsn K_idPPassword [])) (GetValue (ReadDsnString rd dsn K_idPPassword []))
     \<and> cf_idPArn c' = filled (cf_idPArn c) (IsSet (ReadDsnString rd dsn K_idPArn [])) (GetValue (ReadDsnString rd dsn K_idPArn []))
     \<and> cf_oktaAppId c' = filled (cf_oktaAppId c) (IsSet (ReadDsnString rd dsn K_oktaAppId [])) (GetValue (ReadDsnString rd dsn K_oktaAppId []))
     \<and> cf_roleArn c' = filled (cf_roleArn c) (IsSet (ReadDsnString rd dsn K_roleArn [])) (GetValue (ReadDsnString rd dsn K_roleArn []))
     \<and> cf_aadAppId c' = filled (cf_aadAppId c) (IsSet (ReadDsnString rd dsn K_aadAppId [])) (GetValue (ReadDsnString rd dsn K_aadAppId []))
     \<and> cf_aadClientSecret c' = filled (cf_aadClientSecret c) (IsSet (ReadDsnString rd dsn K_aadClientSecret [])) (GetValue (ReadDsnString rd dsn K_aadClientSecret []))
     \<and> cf_aadTenant c' = filled (cf_aadTenant c) (IsSet (ReadDsnString rd dsn K_aadTenant [])) (GetValue (ReadDsnString rd dsn K_aadTenant []))
     \<and> cf_logLevel c' = filled (cf_logLevel c) (IsSet (ReadDsnString rd dsn K_logLevel [])) (LogLevel_FromString (GetValue (ReadDsnString rd dsn K_logLevel [])) WARNING_LEVEL)
     \<and> cf_logPath c' = filled (cf_logPath c) (IsSet (ReadDsnString rd dsn K_logPath []) \<and> vd (GetValue (ReadDsnString rd dsn K_logPath []))) (GetValue (ReadDsnString rd dsn K_logPath []))
     \<and> cf_maxRowPerPage c' = filled (cf_maxRowPerPage c) (IsSet (ReadDsnString rd dsn K_maxRowPerPage [])) (GetValue (ReadDsnInt rd junk dsn K_maxRowPerPage 0))
     "

text \<open> The connection timeout of a profile is lost unless the profile also has a request timeout;
  and a profile with only a request timeout stores a connection timeout of 0.\<close>

theorem connection_timeout_needs_request_timeout:
  "(rd dsn K_reqTimeout unique_mark = unique_mark \<longrightarrow>
      cf_connectionTimeout (fst (ReadDsnConfiguration rd junk vd dsn (c, l))) = cf_connectionTimeout c)
   \<and> (rd dsn K_reqTimeout unique_mark \<noteq> unique_mark
      \<and> rd dsn K_connectionTimeout unique_mark = unique_mark \<and> \<not> IsSet (cf_connectionTimeout c) \<longrightarrow>
      cf_connectionTimeout (fst (ReadDsnConfiguration rd junk vd dsn (c, l))) =
        SetValue 0 False (cf_connectionTimeout c))"
  by (simp add: read_connectionTimeout filled_def ReadDsnInt_def ReadDsnString_def Let_def)

definition ini_get :: "(string \<times> string \<Rightarrow> string option) \<Rightarrow> profile_reader" where
  "ini_get ini dsn key dflt = (case ini (dsn, key) of None \<Rightarrow> dflt | Some v \<Rightarrow> v)"

theorem connection_timeout_needs_request_timeout_witness:
  "cf_connectionTimeout (fst (ReadDsnConfiguration (ini_get [(''d'', ''connectiontimeout'') \<mapsto> ''7''])
     0 (\<lambda>_. True) ''d'' (DefaultConfiguration [], \<lparr>lg_level = LOG_OFF, lg_path = []\<rparr>))) =
   SettableValue 1000"
  using connection_timeout_needs_request_timeout [of "ini_get [(''d'', ''connectiontimeout'') \<mapsto> ''7'']"
      "''d''" 0 "\<lambda>_. True" "DefaultConfiguration []" "\<lparr>lg_level = LOG_OFF, lg_path = []\<rparr>"]
  by (simp add: ini_get_def DefaultConfiguration_def)

text \<open>What the source relies on of the installer library: after a successful write the value is
  read back and every other value is read as before.\<close>

definition installer_writes :: "'w installer \<Rightarrow> ('w \<Rightarrow> profile_reader) \<Rightarrow> bool" where
  "installer_writes i rd \<longleftrightarrow>
     (\<forall>d k v w w'. SQLWritePrivateProfileString i d k v w = (True, w') \<longrightarrow>
        (\<forall>d' k' x. rd w' d' k' x = (if d' = d \<and> k' = k then v else rd w d' k' x)))"

lemma write_all_reads:
  assumes "installer_writes i rd" and "write_all i dsn m w = (True, w')" and "distinct (map fst m)"
  shows "rd w' dsn k x = (case map_of m k of None \<Rightarrow> rd w dsn k x | Some v \<Rightarrow> v)"
  using assms(2,3)
proof (induction m arbitrary: w)
  case (Cons kv m)
  obtain k1 v1 where kv: "kv = (k1, v1)" by (cases kv)
  with Cons.prems(1) obtain w1 where w1: "SQLWritePrivateProfileString i dsn k1 v1 w = (True, w1)"
    and rest: "write_all i dsn m w1 = (True, w')"
    by (auto simp: WriteDsnString_def split: prod.splits bool.splits)
  have step: "rd w1 dsn k x = (if k = k1 then v1 else rd w dsn k x)"
    using assms(1) w1 unfolding installer_writes_def by simp
  have "map_of m k1 = None"
    using Cons.prems(2) kv by (auto simp: map_of_eq_None_iff)
  with Cons.IH [OF rest] Cons.prems(2) step show ?case
    by (auto simp: kv split: option.split)
qed simp

lemma distinct_amap_erase: "distinct (map fst m) \<Longrightarrow> distinct (map fst (amap_erase k m))"
proof (induction m)
  case (Cons kv m)
  have "set (map fst (amap_erase k m)) \<subseteq> set (map fst m)"
    by (induction k m rule: amap_erase.induct) auto
  with Cons show ?case by (cases kv) auto
qed simp

text \<open> Registering a data source writes its rendering: when every write succeeds, the profile of
  the data source has under every key but \<^verbatim>\<open>dsn\<close> and \<^verbatim>\<open>driver\<close> exactly the text the
  configuration is rendered with, and nothing changes for members that are not set.\<close>

theorem RegisterDsn_writes_rendering:
  assumes "installer_writes i rd"
    and "SQLWriteDSNToIni i (GetDsn ''Timestream DSN'' c) driver w = (True, w1)"
    and "RegisterDsn i c driver w = (True, w2)" and "k \<noteq> K_dsn" and "k \<noteq> K_driver"
  shows "rd w2 (GetDsn ''Timestream DSN'' c) k x =
    (case map_of (ToMap c []) k of
       None \<Rightarrow> rd w1 (GetDsn ''Timestream DSN'' c) k x | Some v \<Rightarrow> v)"
proof -
  let ?m = "amap_erase K_driver (amap_erase K_dsn (ToMap c []))"
  have "write_all i (GetDsn ''Timestream DSN'' c) ?m w1 = (True, w2)"
    using assms(2,3) by (simp add: RegisterDsn_def Let_def)
  moreover have "distinct (map fst ?m)"
    by (intro distinct_amap_erase sorted_map_distinct sorted_ToMap)
  moreover have "map_of ?m k = map_of (ToMap c []) k"
    using assms(4,5) by (simp add: amap.lookup_erase)
  ultimately show ?thesis
    using write_all_reads [OF assms(1)] by metis
qed

definition mem_installer :: "(string \<times> string \<Rightarrow> string option) installer" where
  "mem_installer =
     \<lparr>SQLWriteDSNToIni = (\<lambda>d drv w. (True, w((d, ''Driver'') \<mapsto> drv))),
      SQLWritePrivateProfileString = (\<lambda>d k v w. (True, w((d, k) \<mapsto> v))),
      SQLRemoveDSNFromIni = (\<lambda>d w. (True, \<lambda>(d', k). if d' = d then None else w (d', k)))\<rparr>"

theorem RegisterDsn_writes_rendering_witness:
  "ini_get (snd (RegisterDsn mem_installer (SetUid ''bob'' (DefaultConfiguration []))
     ''drv'' Map.empty)) ''Timestream DSN'' K_uid ''none'' = ''bob''"
proof -
  let ?c = "SetUid ''bob'' (DefaultConfiguration [])"
  have laws: "installer_writes mem_installer ini_get"
    by (auto simp: installer_writes_def mem_installer_def ini_get_def)
  have dsn: "GetDsn ''Timestream DSN'' ?c = ''Timestream DSN''"
    by (simp add: GetDsn_def setter_defs DefaultConfiguration_def)
  have map: "ToMap ?c [] = [(K_uid, ''bob'')]"
    by (simp add: ToMap_def add_to_map_defs setter_defs DefaultConfiguration_def)
  have "\<exists>w2. RegisterDsn mem_installer ?c ''drv'' Map.empty = (True, w2)"
    by (simp add: RegisterDsn_def dsn map mem_installer_def WriteDsnString_def Let_def)
  then obtain w2 where "RegisterDsn mem_installer ?c ''drv'' Map.empty = (True, w2)" by blast
  then show ?thesis
    using RegisterDsn_writes_rendering [OF laws, of ?c "''drv''" Map.empty _ w2 K_uid "''none''"]
    by (simp add: dsn map mem_installer_def)
qed

end
