(* ===== verification/Data_Query.thy ===== *)
theory Data_Query
  imports Diagnostics
begin

text \<open>
  The data query (\<^verbatim>\<open>src/query/data_query.cpp\<close>) and the cursor over one page of rows
  (\<^verbatim>\<open>src/timestream_cursor.cpp\<close>). A query is executed page by page: the first page is requested
  by the calling thread, every further page by a worker thread of its own, which hands its page
  over through a queue that holds one element at most. The web service is a function from
  requests to outcomes; the conversion of one column of a row into a bound buffer, which writes to
  the application's memory, is an argument.
  An operation that waits for a worker yields \<open>None\<close> while it cannot proceed.
\<close>

section \<open>Service data\<close>

record aws_error =
  GetExceptionName :: string
  GetMessage :: string

record request =
  rq_sql :: string
  rq_token :: string
  rq_maxRows :: "int option"

record ('row, 'ci) page =
  pg_rows :: "'row list"
  pg_token :: string
  pg_queryId :: string
  pg_columns :: "'ci list"

datatype ('row, 'ci) outcome = Failed aws_error | Page "('row, 'ci) page"

type_synonym ('row, 'ci) service = "request \<Rightarrow> ('row, 'ci) outcome"

datatype conv_result =
    Conv_SUCCESS | Conv_FRACTIONAL_TRUNCATED | Conv_VARLEN_DATA_TRUNCATED
  | Conv_UNSUPPORTED_CONVERSION | Conv_INDICATOR_NEEDED | Conv_NO_DATA | Conv_FAILURE

section \<open>The cursor\<close>

record 'row cursor =
  rowVec :: "'row list"
  iterator :: nat
  curPos :: nat

definition TimestreamCursor :: "'row list \<Rightarrow> 'row cursor" where
  "TimestreamCursor rows = \<lparr>rowVec = rows, iterator = 0, curPos = 0\<rparr>"

definition Increment :: "'row cursor \<Rightarrow> bool \<times> 'row cursor" where
  "Increment c =
     (let c1 = (if 0 < curPos c \<and> iterator c < length (rowVec c)
                then c\<lparr>iterator := iterator c + 1\<rparr> else c);
          c2 = c1\<lparr>curPos := curPos c1 + 1\<rparr>
      in (curPos c2 \<le> length (rowVec c2), c2))"

definition HasData :: "'row cursor \<Rightarrow> bool" where
  "HasData c \<longleftrightarrow> curPos c \<le> length (rowVec c)"

text \<open>The reading of one column of the current row. \<open>rd\<close> converts a column of a row into a buffer; an
  index outside the metadata is a failure, and a cursor behind its last row has no row to read. A
  conversion that throws is \<open>None\<close>.\<close>

type_synonym ('row, 'col, 'buf, 'mem) column_reader =
  "'col \<Rightarrow> nat \<Rightarrow> 'row \<Rightarrow> 'buf \<Rightarrow> 'mem \<Rightarrow> (conv_result \<times> 'buf \<times> 'mem) option"

definition ReadColumnToBuffer ::
  "('row, 'col, 'buf, 'mem) column_reader \<Rightarrow> 'col list \<Rightarrow> 'row cursor \<Rightarrow> nat \<Rightarrow> 'buf \<Rightarrow>
   'mem \<Rightarrow> (conv_result \<times> 'buf \<times> 'mem) option" where
  "ReadColumnToBuffer rd meta c idx buf m =
     (if length meta < idx \<or> idx < 1 then Some (Conv_FAILURE, buf, m)
      else if iterator c < length (rowVec c)
      then rd (meta ! (idx - 1)) idx (rowVec c ! iterator c) buf m
      else None)"

section \<open>The query\<close>

text \<open>A worker reads the request of the query through a reference when it runs, then waits with its
  outcome for the queue.\<close>

datatype ('row, 'ci) thread = Running | Waiting "('row, 'ci) outcome" | Finished

record ('row, 'ci, 'col) data_query =
  dq_sql :: string
  resultMetaAvailable :: bool
  resultMeta :: "'col list"
  dq_request :: request
  dq_result :: "('row, 'ci) page option"
  dq_cursor :: "'row cursor option"
  dq_queue :: "('row, 'ci) outcome list"
  isClosing :: bool
  dq_threads :: "('row, 'ci) thread list"
  hasAsyncFetch :: bool
  rowCounter :: int

text \<open>What a query takes from its connection: the client's \<^verbatim>\<open>Query\<close> and \<^verbatim>\<open>CancelQuery\<close>, the page size
  of the configuration when it is set, and the reading of a column description.\<close>

record ('row, 'ci, 'col) query_env =
  ev_query :: "('row, 'ci) service"
  ev_cancel :: "string \<Rightarrow> aws_error option"
  ev_maxRows :: "int option"
  ev_readMeta :: "'ci \<Rightarrow> 'col"

definition DataQuery :: "string \<Rightarrow> ('row, 'ci, 'col) data_query" where
  "DataQuery sql =
     \<lparr>dq_sql = sql, resultMetaAvailable = False, resultMeta = [],
      dq_request = \<lparr>rq_sql = [], rq_token = [], rq_maxRows = None\<rparr>, dq_result = None,
      dq_cursor = None, dq_queue = [], isClosing = False, dq_threads = [],
      hasAsyncFetch = False, rowCounter = 0\<rparr>"

section \<open>Workers\<close>

text \<open>The two actions of \<^verbatim>\<open>AsyncFetchOnePage\<close>: the request, and, once the queue is empty or the query
  is closing, the handing over.\<close>

definition thread_step ::
  "('row, 'ci) service \<Rightarrow> nat \<Rightarrow> ('row, 'ci, 'col) data_query \<Rightarrow> ('row, 'ci, 'col) data_query option"
  where
  "thread_step svc i q =
     (if length (dq_threads q) \<le> i then None
      else
        (case dq_threads q ! i of
           Running \<Rightarrow> Some (q\<lparr>dq_threads := (dq_threads q)[i := Waiting (svc (dq_request q))]\<rparr>)
         | Waiting r \<Rightarrow>
             if dq_queue q = []
             then Some (q\<lparr>dq_queue := [r], dq_threads := (dq_threads q)[i := Finished]\<rparr>)
             else if isClosing q then Some (q\<lparr>dq_threads := (dq_threads q)[i := Finished]\<rparr>)
             else None
         | Finished \<Rightarrow> None))"

text \<open>Joining the oldest worker: it runs to its end, or the join blocks.\<close>

definition run_front ::
  "('row, 'ci) service \<Rightarrow> ('row, 'ci, 'col) data_query \<Rightarrow> ('row, 'ci, 'col) data_query option" where
  "run_front svc q =
     (case dq_threads q of
        Running # _ \<Rightarrow> Option.bind (thread_step svc 0 q) (thread_step svc 0)
      | Waiting _ # _ \<Rightarrow> thread_step svc 0 q
      | _ \<Rightarrow> Some q)"

definition join_front ::
  "('row, 'ci) service \<Rightarrow> ('row, 'ci, 'col) data_query \<Rightarrow> ('row, 'ci, 'col) data_query option" where
  "join_front svc q = map_option (\<lambda>q. q\<lparr>dq_threads := tl (dq_threads q)\<rparr>) (run_front svc q)"

fun join_all ::
  "('row, 'ci) service \<Rightarrow> nat \<Rightarrow> ('row, 'ci, 'col) data_query \<Rightarrow> ('row, 'ci, 'col) data_query option"
  where
  "join_all svc 0 q = Some q"
| "join_all svc (Suc n) q = Option.bind (join_front svc q) (join_all svc n)"

definition InternalClose ::
  "('row, 'ci) service \<Rightarrow> ('row, 'ci, 'col) data_query \<Rightarrow> ('row, 'ci, 'col) data_query option" where
  "InternalClose svc q =
     map_option (\<lambda>q. q\<lparr>dq_result := None, dq_cursor := None\<rparr>)
       (join_all svc (length (dq_threads q)) (q\<lparr>isClosing := True\<rparr>))"

definition addThreads :: "('row, 'ci, 'col) data_query \<Rightarrow> ('row, 'ci, 'col) data_query" where
  "addThreads q = q\<lparr>dq_threads := dq_threads q @ [Running]\<rparr>"

definition SetNextToken :: "string \<Rightarrow> ('row, 'ci, 'col) data_query \<Rightarrow> ('row, 'ci, 'col) data_query" where
  "SetNextToken t q = q\<lparr>dq_request := (dq_request q)\<lparr>rq_token := t\<rparr>\<rparr>"

section \<open>Execution\<close>

definition ReadColumnMetadataVector ::
  "('ci \<Rightarrow> 'col) \<Rightarrow> 'ci list \<Rightarrow> ('row, 'ci, 'col) data_query \<Rightarrow> ('row, 'ci, 'col) data_query" where
  "ReadColumnMetadataVector rm cs q =
     (if cs = [] then q\<lparr>resultMeta := []\<rparr>
      else q\<lparr>resultMeta := map rm cs, resultMetaAvailable := True\<rparr>)"

definition MakeRequestFetch ::
  "('ci \<Rightarrow> 'col) \<Rightarrow> ('row, 'ci, 'col) data_query \<Rightarrow> diag_storage \<Rightarrow>
   sql_result \<times> ('row, 'ci, 'col) data_query \<times> diag_storage" where
  "MakeRequestFetch rm q d =
     (case dq_result q of
        None \<Rightarrow> (AI_ERROR, q, AddStatusRecord SHY010_SEQUENCE_ERROR ''result_ is a null pointer'' d)
      | Some p \<Rightarrow>
          let q1 = (if \<not> resultMetaAvailable q then ReadColumnMetadataVector rm (pg_columns p) q else q)
          in if pg_rows p = [] then (AI_NO_DATA, q1, d)
             else (AI_SUCCESS, q1\<lparr>dq_cursor := Some (TimestreamCursor (pg_rows p))\<rparr>, d))"

text \<open>The loop of \<^verbatim>\<open>MakeRequestExecute\<close> follows empty pages as long as they carry a token.\<close>

partial_function (option) request_loop ::
  "('row, 'ci) service \<Rightarrow> request \<Rightarrow> (request \<times> ('row, 'ci) outcome) option" where
  "request_loop svc rq =
     (case svc rq of
        Failed e \<Rightarrow> Some (rq, Failed e)
      | Page p \<Rightarrow>
          if pg_rows p = [] \<and> pg_token p \<noteq> [] then request_loop svc (rq\<lparr>rq_token := pg_token p\<rparr>)
          else Some (rq, Page p))"

definition dquote :: string where "dquote = [char_of (34::nat)]"

definition MakeRequestExecute ::
  "('row, 'ci, 'col) query_env \<Rightarrow> ('row, 'ci, 'col) data_query \<Rightarrow> diag_storage \<Rightarrow>
   (sql_result \<times> ('row, 'ci, 'col) data_query \<times> diag_storage) option" where
  "MakeRequestExecute e q d =
     (let rq0 = (dq_request q)\<lparr>rq_sql := dq_sql q\<rparr>;
          rq1 = (case ev_maxRows e of None \<Rightarrow> rq0 | Some n \<Rightarrow> rq0\<lparr>rq_maxRows := Some n\<rparr>)
      in Option.bind (request_loop (ev_query e) rq1) (\<lambda>(rq2, r).
        (case r of
           Failed _ \<Rightarrow>
             map_option (\<lambda>q'. (AI_ERROR, q',
               AddStatusRecord SHY000_GENERAL_ERROR
                 (''AWS API Failure: Failed to execute query '' @ dquote @ dq_sql q @ dquote) d))
               (InternalClose (ev_query e) (q\<lparr>dq_request := rq2\<rparr>))
         | Page p \<Rightarrow>
             let q1 = q\<lparr>dq_request := rq2, dq_result := Some p\<rparr> in
             if pg_rows p = [] then Some (AI_NO_DATA, q1, d)
             else
               let q2 = q1\<lparr>dq_cursor := Some (TimestreamCursor (pg_rows p))\<rparr>;
                   q3 = (if pg_token p \<noteq> []
                         then (addThreads (SetNextToken (pg_token p) q2))\<lparr>hasAsyncFetch := True\<rparr>
                         else q2)
               in Some (MakeRequestFetch (ev_readMeta e) q3 d))))"

definition Execute ::
  "('row, 'ci, 'col) query_env \<Rightarrow> ('row, 'ci, 'col) data_query \<Rightarrow> diag_storage \<Rightarrow>
   (sql_result \<times> ('row, 'ci, 'col) data_query \<times> diag_storage) option" where
  "Execute e q d =
     Option.bind (if dq_result q \<noteq> None then InternalClose (ev_query e) q else Some q)
       (\<lambda>q1. MakeRequestExecute e q1 d)"

text \<open>Cancelling the running request at the service; a validation error only says that the query has
  finished already.\<close>

definition Cancel ::
  "('row, 'ci, 'col) query_env \<Rightarrow> ('row, 'ci, 'col) data_query \<Rightarrow> diag_storage \<Rightarrow>
   (sql_result \<times> ('row, 'ci, 'col) data_query \<times> diag_storage) option" where
  "Cancel e q d =
     (let close = map_option (\<lambda>q'. (AI_SUCCESS, q', d)) (InternalClose (ev_query e) q) in
      if hasAsyncFetch q then
        (case dq_result q of
           None \<Rightarrow> Some (AI_ERROR, q, AddStatusRecord SHY000_GENERAL_ERROR ''query is not executed'' d)
         | Some p \<Rightarrow>
             (case ev_cancel e (pg_queryId p) of
                None \<Rightarrow> close
              | Some err \<Rightarrow>
                  if GetExceptionName err \<noteq> ''ValidationException''
                  then Some (AI_ERROR, q, AddStatusRecord SHY000_GENERAL_ERROR
                    (''Query ID: '' @ pg_queryId p @ '' can'' @ [char_of (39::nat)] @ ''t cancel.''
                      @ GetMessage err) d)
                  else close))
      else close)"

definition Close ::
  "('row, 'ci, 'col) query_env \<Rightarrow> ('row, 'ci, 'col) data_query \<Rightarrow>
   (sql_result \<times> ('row, 'ci, 'col) data_query) option" where
  "Close e q = map_option (\<lambda>q'. (AI_SUCCESS, q')) (InternalClose (ev_query e) q)"

definition MakeRequestResultsetMeta ::
  "('row, 'ci, 'col) query_env \<Rightarrow> ('row, 'ci, 'col) data_query \<Rightarrow> diag_storage \<Rightarrow>
   (sql_result \<times> ('row, 'ci, 'col) data_query \<times> diag_storage) option" where
  "MakeRequestResultsetMeta e q d =
     (case ev_query e \<lparr>rq_sql = dq_sql q, rq_token = [], rq_maxRows = None\<rparr> of
        Failed err \<Rightarrow>
          map_option (\<lambda>q'. (AI_ERROR, q', AddStatusRecord SHY000_GENERAL_ERROR
            (''AWS API ERROR: '' @ GetExceptionName err @ '': '' @ GetMessage err @ '' for query ''
              @ dq_sql q) d)) (InternalClose (ev_query e) q)
      | Page p \<Rightarrow> Some (AI_SUCCESS, ReadColumnMetadataVector (ev_readMeta e) (pg_columns p) q, d))"

definition GetMeta ::
  "('row, 'ci, 'col) query_env \<Rightarrow> ('row, 'ci, 'col) data_query \<Rightarrow> diag_storage \<Rightarrow>
   ('col list option \<times> ('row, 'ci, 'col) data_query \<times> diag_storage) option" where
  "GetMeta e q d =
     (if resultMetaAvailable q then Some (Some (resultMeta q), q, d)
      else map_option (\<lambda>(_, q', d').
        (if resultMetaAvailable q' then Some (resultMeta q') else None, q', d'))
        (MakeRequestResultsetMeta e q d))"

section \<open>Fetching\<close>

definition SwitchCursor ::
  "('row, 'ci) service \<Rightarrow> ('row, 'ci, 'col) data_query \<Rightarrow> (sql_result \<times> ('row, 'ci, 'col) data_query) option"
  where
  "SwitchCursor svc q =
     (case dq_queue q of
        [] \<Rightarrow> None
      | r # rest \<Rightarrow>
          let q1 = q\<lparr>dq_queue := rest\<rparr> in
          (case r of
             Failed _ \<Rightarrow> Some (AI_ERROR, q1\<lparr>dq_cursor := None, hasAsyncFetch := False\<rparr>)
           | Page p \<Rightarrow>
               let q2 = q1\<lparr>dq_result := Some p\<rparr> in
               if pg_rows p = [] then Some (AI_NO_DATA, q2)
               else
                 let q3 = q2\<lparr>dq_cursor := Some (snd (Increment (TimestreamCursor (pg_rows p))))\<rparr> in
                 if pg_token p = [] then Some (AI_SUCCESS, q3\<lparr>hasAsyncFetch := False\<rparr>)
                 else map_option (\<lambda>q4. (AI_SUCCESS, addThreads (SetNextToken (pg_token p) q4)))
                   (if dq_threads q3 \<noteq> [] then join_front svc q3 else Some q3)))"

definition ProcessConversionResult ::
  "conv_result \<Rightarrow> int \<Rightarrow> int \<Rightarrow> diag_storage \<Rightarrow> sql_result \<times> diag_storage" where
  "ProcessConversionResult r rowIdx columnIdx d =
     (case r of
        Conv_SUCCESS \<Rightarrow> (AI_SUCCESS, d)
      | Conv_NO_DATA \<Rightarrow> (AI_NO_DATA, d)
      | Conv_VARLEN_DATA_TRUNCATED \<Rightarrow>
          (AI_SUCCESS_WITH_INFO, AddStatusRecordAt S01004_DATA_TRUNCATED
            ''Buffer is too small for the column data. Truncated from the right.'' rowIdx columnIdx d)
      | Conv_FRACTIONAL_TRUNCATED \<Rightarrow>
          (AI_SUCCESS_WITH_INFO, AddStatusRecordAt S01S07_FRACTIONAL_TRUNCATION
            ''Buffer is too small for the column data. Fraction truncated.'' rowIdx columnIdx d)
      | Conv_INDICATOR_NEEDED \<Rightarrow>
          (AI_SUCCESS_WITH_INFO, AddStatusRecordAt S22002_INDICATOR_NEEDED
            ''Indicator is needed but not suplied for the column buffer.'' rowIdx columnIdx d)
      | Conv_UNSUPPORTED_CONVERSION \<Rightarrow>
          (AI_SUCCESS_WITH_INFO, AddStatusRecordAt SHYC00_OPTIONAL_FEATURE_NOT_IMPLEMENTED
            ''Data conversion is not supported.'' rowIdx columnIdx d)
      | Conv_FAILURE \<Rightarrow>
          (AI_ERROR, AddStatusRecordAt S01S01_ERROR_IN_ROW
            ''Can not retrieve row column.'' rowIdx columnIdx d))"

text \<open>The loop over the columns of the current row, from column \<open>i\<close> on with \<open>n\<close> to go, on the bound
  buffers and the memory they point into. Only an error stops it, and only an error is reported.\<close>

type_synonym ('buf, 'mem) bindings = "(nat \<Rightarrow> 'buf option) \<times> 'mem"

fun read_columns ::
  "('row, 'col, 'buf, 'mem) column_reader \<Rightarrow> 'col list \<Rightarrow> 'row cursor \<Rightarrow> nat \<Rightarrow> nat \<Rightarrow> ('buf, 'mem) bindings \<Rightarrow>
   diag_storage \<Rightarrow> (bool \<times> ('buf, 'mem) bindings \<times> diag_storage) option" where
  "read_columns rd meta c i 0 b d = Some (True, b, d)"
| "read_columns rd meta c i (Suc n) b d =
     (case fst b i of
        None \<Rightarrow> read_columns rd meta c (i + 1) n b d
      | Some buf \<Rightarrow>
          Option.bind (ReadColumnToBuffer rd meta c i buf (snd b)) (\<lambda>(r, buf', m').
            let b' = ((fst b)(i \<mapsto> buf'), m'); (res, d') = ProcessConversionResult r 0 (int i) d in
            if res = AI_ERROR then Some (False, b', d')
            else read_columns rd meta c (i + 1) n b' d'))"

definition FetchNextRow ::
  "('row, 'ci) service \<Rightarrow> ('row, 'col, 'buf, 'mem) column_reader \<Rightarrow> ('buf, 'mem) bindings \<Rightarrow>
   ('row, 'ci, 'col) data_query \<Rightarrow> diag_storage \<Rightarrow>
   (sql_result \<times> ('buf, 'mem) bindings \<times> ('row, 'ci, 'col) data_query \<times> diag_storage) option" where
  "FetchNextRow svc rd b q d =
     (case dq_cursor q of
        None \<Rightarrow>
          Some (AI_NO_DATA, b, q,
            AddStatusRecord S01000_GENERAL_WARNING ''Cursor does not point to any data.'' d)
      | Some c \<Rightarrow>
          let (more, c1) = Increment c; q1 = q\<lparr>dq_cursor := Some c1\<rparr> in
          Option.bind
            (if more then Some (AI_SUCCESS, q1)
             else if hasAsyncFetch q1 then SwitchCursor svc q1
             else Some (AI_NO_DATA, q1))
            (\<lambda>(r, q2).
               if r \<noteq> AI_SUCCESS then
                 Some (r, b, q2,
                   if hasAsyncFetch q1
                   then AddStatusRecord S24000_INVALID_CURSOR_STATE ''Invalid cursor state.'' d else d)
               else
                 (case dq_cursor q2 of
                    None \<Rightarrow> None
                  | Some c2 \<Rightarrow>
                      map_option (\<lambda>(ok, b', d').
                        if ok then (AI_SUCCESS, b', q2\<lparr>rowCounter := rowCounter q2 + 1\<rparr>, d')
                        else (AI_ERROR, b', q2, d'))
                      (read_columns rd (resultMeta q2) c2 1 (length (resultMeta q2)) b d))))"

definition GetColumn ::
  "('row, 'col, 'buf, 'mem) column_reader \<Rightarrow> nat \<Rightarrow> 'buf \<Rightarrow> 'mem \<Rightarrow> ('row, 'ci, 'col) data_query \<Rightarrow>
   diag_storage \<Rightarrow> (sql_result \<times> 'buf \<times> 'mem \<times> diag_storage) option" where
  "GetColumn rd idx buf m q d =
     (case dq_cursor q of
        None \<Rightarrow>
          Some (AI_NO_DATA, buf, m,
            AddStatusRecord S01000_GENERAL_WARNING ''Cursor does not point to any data.'' d)
      | Some c \<Rightarrow>
          if \<not> HasData c then
            Some (AI_ERROR, buf, m, AddStatusRecord S24000_INVALID_CURSOR_STATE
              ''Cursor has reached end of the result set.'' d)
          else
            map_option (\<lambda>(r, buf', m'). let (res, d') = ProcessConversionResult r 0 (int idx) d in (res, buf', m', d'))
              (ReadColumnToBuffer rd (resultMeta q) c idx buf m))"

definition DataAvailable :: "('row, 'ci, 'col) data_query \<Rightarrow> bool" where
  "DataAvailable q \<longleftrightarrow> dq_cursor q \<noteq> None"

definition RowNumber ::
  "('row, 'ci, 'col) data_query \<Rightarrow> diag_storage \<Rightarrow> int \<times> diag_storage" where
  "RowNumber q d =
     (if (case dq_cursor q of None \<Rightarrow> True | Some c \<Rightarrow> \<not> HasData c)
      then (0, AddStatusRecord S01000_GENERAL_WARNING ''Cursor does not point to any data.'' d)
      else (rowCounter q, d))"

end
