(* ===== verification/Data_Query_Paging.thy ===== *)
theory Data_Query_Paging
  imports Data_Query
begin

text \<open>
  Paging of a data query under every interleaving of the application thread with the worker: the
  transition system of fetches and worker steps, the invariant of its reachable states, and the
  theorems on the rows delivered, on progress, on closing and on running a query again.
\<close>

section \<open>The pages of a request\<close>

text \<open>\<open>chain svc rq rows\<close>: following the tokens from the request \<open>rq\<close> meets finitely many pages, none
  empty and none failed, whose rows are \<open>rows\<close>. \<open>produces svc rq r rows\<close>: the same when the outcome
  of \<open>rq\<close> itself is \<open>r\<close>.\<close>

inductive chain :: "('row, 'ci) service \<Rightarrow> request \<Rightarrow> 'row list \<Rightarrow> bool"
  and produces :: "('row, 'ci) service \<Rightarrow> request \<Rightarrow> ('row, 'ci) outcome \<Rightarrow> 'row list \<Rightarrow> bool"
  for svc :: "('row, 'ci) service" where
  chain_ask: "produces svc rq (svc rq) rows \<Longrightarrow> chain svc rq rows"
| last_page: "pg_rows p \<noteq> [] \<Longrightarrow> pg_token p = [] \<Longrightarrow> produces svc rq (Page p) (pg_rows p)"
| more_pages: "pg_rows p \<noteq> [] \<Longrightarrow> pg_token p \<noteq> [] \<Longrightarrow> chain svc (rq\<lparr>rq_token := pg_token p\<rparr>) rest \<Longrightarrow>
    produces svc rq (Page p) (pg_rows p @ rest)"

inductive_cases chainE: "chain svc rq rows"
inductive_cases produces_pageE: "produces svc rq (Page p) rows"
inductive_cases produces_failedE: "produces svc rq (Failed x) rows"
inductive_simps produces_page: "produces svc rq (Page p) rows"

lemma chain_iff: "chain svc rq rows \<longleftrightarrow> produces svc rq (svc rq) rows"
  by (auto intro: chain_ask elim: chainE)

lemma produces_cases:
  assumes "produces svc rq r rows"
  obtains p where "r = Page p" and "pg_rows p \<noteq> []" and "pg_token p = []" and "rows = pg_rows p"
  | p rest where "r = Page p" and "pg_rows p \<noteq> []" and "pg_token p \<noteq> []"
      and "chain svc (rq\<lparr>rq_token := pg_token p\<rparr>) rest" and "rows = pg_rows p @ rest"
  using assms by (cases r) (auto elim: produces_pageE produces_failedE)

section \<open>The transition system\<close>

definition current_row :: "('row, 'ci, 'col) data_query \<Rightarrow> 'row option" where
  "current_row q =
     (case dq_cursor q of
        None \<Rightarrow> None
      | Some c \<Rightarrow> if 0 < curPos c \<and> curPos c \<le> length (rowVec c) then Some (rowVec c ! iterator c) else None)"

definition delivered :: "sql_result \<Rightarrow> ('row, 'ci, 'col) data_query \<Rightarrow> 'row option" where
  "delivered r q = (if r = AI_NO_DATA then None else current_row q)"

text \<open>A run of the system lists what the fetches delivered; worker steps happen at any time. Buffers and
  diagnostics of a fetch are those of the application, hence arbitrary.\<close>

inductive fetch_run ::
  "('row, 'ci) service \<Rightarrow> ('row, 'col, 'buf, 'mem) column_reader \<Rightarrow> ('row, 'ci, 'col) data_query \<Rightarrow>
   'row option list \<Rightarrow> ('row, 'ci, 'col) data_query \<Rightarrow> bool"
  for svc :: "('row, 'ci) service" and rd :: "('row, 'col, 'buf, 'mem) column_reader" where
  run_stop: "fetch_run svc rd q [] q"
| run_worker: "thread_step svc i q = Some q' \<Longrightarrow> fetch_run svc rd q' ls q'' \<Longrightarrow> fetch_run svc rd q ls q''"
| run_fetch: "FetchNextRow svc rd b q d = Some (r, b', q', d') \<Longrightarrow> fetch_run svc rd q' ls q'' \<Longrightarrow>
    fetch_run svc rd q (delivered r q' # ls) q''"

section \<open>The invariant\<close>

definition good_cursor :: "'row cursor \<Rightarrow> bool" where
  "good_cursor c \<longleftrightarrow> iterator c = (if curPos c = 0 then 0 else min (curPos c - 1) (length (rowVec c)))"

text \<open>What is still to come behind the current page, by the state of the worker and of the queue.\<close>

definition pending_rows ::
  "('row, 'ci) service \<Rightarrow> ('row, 'ci, 'col) data_query \<Rightarrow> 'row list \<Rightarrow> bool" where
  "pending_rows svc q rows \<longleftrightarrow>
     (if \<not> hasAsyncFetch q then rows = []
      else (dq_threads q = [Running] \<and> dq_queue q = [] \<and> chain svc (dq_request q) rows)
        \<or> (\<exists>r. dq_threads q = [Waiting r] \<and> dq_queue q = [] \<and> produces svc (dq_request q) r rows)
        \<or> (\<exists>r. dq_threads q = [Finished] \<and> dq_queue q = [r] \<and> produces svc (dq_request q) r rows))"

definition remaining ::
  "('row, 'ci) service \<Rightarrow> ('row, 'ci, 'col) data_query \<Rightarrow> 'row list \<Rightarrow> bool" where
  "remaining svc q rows \<longleftrightarrow>
     (\<exists>c rest. dq_cursor q = Some c \<and> good_cursor c \<and> pending_rows svc q rest
        \<and> rows = drop (curPos c) (rowVec c) @ rest)"

lemma Increment_good:
  assumes "good_cursor c"
  shows "good_cursor (snd (Increment c)) \<and> fst (Increment c) = (curPos c < length (rowVec c))
    \<and> curPos (snd (Increment c)) = curPos c + 1 \<and> rowVec (snd (Increment c)) = rowVec c
    \<and> (curPos c < length (rowVec c) \<longrightarrow> iterator (snd (Increment c)) = curPos c)"
  using assms by (auto simp: good_cursor_def Increment_def Let_def min_def Suc_le_eq)

lemma Increment_end:
  "length (rowVec c) \<le> curPos c \<Longrightarrow> \<exists>c'. Increment c = (False, c') \<and> length (rowVec c') \<le> curPos c'"
  by (simp add: Increment_def Let_def)

lemma pending_cursor [simp]:
  "pending_rows svc (q\<lparr>dq_cursor := c\<rparr>) rows = pending_rows svc q rows"
  "pending_rows svc (q\<lparr>rowCounter := n\<rparr>) rows = pending_rows svc q rows"
  "pending_rows svc (q\<lparr>dq_result := p\<rparr>) rows = pending_rows svc q rows"
  by (simp_all add: pending_rows_def)

text \<open>A worker step keeps the rows to come.\<close>

lemma worker_keeps:
  assumes "remaining svc q rows" and "thread_step svc i q = Some q'"
  shows "remaining svc q' rows"
proof -
  obtain c rest where c: "dq_cursor q = Some c" "good_cursor c" "pending_rows svc q rest"
    "rows = drop (curPos c) (rowVec c) @ rest"
    using assms(1) by (auto simp: remaining_def)
  have cur: "dq_cursor q' = dq_cursor q" and has: "hasAsyncFetch q' = hasAsyncFetch q"
    using assms(2) by (auto simp: thread_step_def split: if_splits thread.splits)
  have "pending_rows svc q' rest"
  proof (cases "hasAsyncFetch q")
    case True
    then have "length (dq_threads q) = 1" using c(3) by (auto simp: pending_rows_def)
    then have i: "i = 0" using assms(2) by (simp add: thread_step_def split: if_splits)
    from True c(3) consider "dq_threads q = [Running]" | r where "dq_threads q = [Waiting r]"
      | "dq_threads q = [Finished]"
      by (auto simp: pending_rows_def)
    then show ?thesis
      using True c(3) assms(2) by cases (auto simp: i pending_rows_def thread_step_def chain_iff)
  qed (use c(3) has in \<open>simp add: pending_rows_def\<close>)
  with c cur show ?thesis by (auto simp: remaining_def)
qed

text \<open>Taking over the next page.\<close>

lemma switch_page:
  assumes "pending_rows svc q rest" and "hasAsyncFetch q" and "SwitchCursor svc q = Some (r, q')"
  obtains c rest' where "r = AI_SUCCESS" and "dq_cursor q' = Some c" and "good_cursor c" and "curPos c = 1"
    and "rowVec c \<noteq> []" and "rest = rowVec c @ rest'" and "pending_rows svc q' rest'"
    and "resultMeta q' = resultMeta q"
proof -
  obtain o1 where q: "dq_threads q = [Finished]" "dq_queue q = [o1]" "produces svc (dq_request q) o1 rest"
    using assms by (auto simp: pending_rows_def SwitchCursor_def)
  have good: "good_cursor (snd (Increment (TimestreamCursor rs)))"
    "curPos (snd (Increment (TimestreamCursor rs))) = 1"
    "rowVec (snd (Increment (TimestreamCursor rs))) = rs" for rs :: "'a list"
    using Increment_good [of "TimestreamCursor rs"] by (simp_all add: TimestreamCursor_def good_cursor_def)
  from q(3) show ?thesis
  proof (cases rule: produces_cases)
    case (1 p)
    with assms(3) q good [of "pg_rows p"] that [of "snd (Increment (TimestreamCursor (pg_rows p)))" "[]"] show ?thesis
      by (auto simp: SwitchCursor_def Let_def pending_rows_def)
  next
    case (2 p rest')
    with assms(2,3) q good [of "pg_rows p"] that [of "snd (Increment (TimestreamCursor (pg_rows p)))" rest'] show ?thesis
      by (auto simp: SwitchCursor_def Let_def pending_rows_def join_front_def run_front_def addThreads_def
          SetNextToken_def)
  qed
qed

lemma fetch_after_row:
  assumes "map_option (\<lambda>(ok, b', d'). if ok then (AI_SUCCESS, b', q2\<lparr>rowCounter := rowCounter q2 + 1\<rparr>, d')
      else (AI_ERROR, b', q2, d')) x = Some (r, b', q', d')"
  shows "(r = AI_SUCCESS \<or> r = AI_ERROR) \<and> (q' = q2 \<or> q' = q2\<lparr>rowCounter := rowCounter q2 + 1\<rparr>)"
  using assms by (auto split: if_splits prod.splits)

text \<open>One fetch delivers the next row to come, or reports the end exactly when there is none.\<close>

lemma fetch_delivers:
  assumes "remaining svc q rows" and "FetchNextRow svc rd b q d = Some (r, b', q', d')"
  shows "(rows = [] \<longrightarrow> r = AI_NO_DATA \<and> remaining svc q' [])
    \<and> (rows \<noteq> [] \<longrightarrow> (r = AI_SUCCESS \<or> r = AI_ERROR) \<and> current_row q' = Some (hd rows)
        \<and> remaining svc q' (tl rows))"
proof -
  obtain c rest where c: "dq_cursor q = Some c" "good_cursor c" "pending_rows svc q rest"
    "rows = drop (curPos c) (rowVec c) @ rest"
    using assms(1) by (auto simp: remaining_def)
  obtain more c1 where inc: "Increment c = (more, c1)" by (cases "Increment c")
  let ?q1 = "q\<lparr>dq_cursor := Some c1\<rparr>"
  note I = Increment_good [OF c(2), unfolded inc, simplified]
  note F = assms(2) [unfolded FetchNextRow_def, simplified c(1) inc option.case Let_def prod.case]
  consider (row) "more" | (switch) "\<not> more" "hasAsyncFetch q" | (over) "\<not> more" "\<not> hasAsyncFetch q" by blast
  then show ?thesis
  proof cases
    case row
    have "(r = AI_SUCCESS \<or> r = AI_ERROR) \<and> (q' = ?q1 \<or> q' = ?q1\<lparr>rowCounter := rowCounter ?q1 + 1\<rparr>)"
      by (rule fetch_after_row [where x = "read_columns rd (resultMeta q) c1 1 (length (resultMeta q)) b d"])
        (use F row in simp)
    moreover have "drop (curPos c) (rowVec c) = rowVec c ! curPos c # drop (curPos c + 1) (rowVec c)"
      using I row by (simp add: Cons_nth_drop_Suc)
    ultimately show ?thesis
      using I row c by (auto simp: remaining_def current_row_def)
  next
    case switch
    obtain r2 q2 where sw: "SwitchCursor svc ?q1 = Some (r2, q2)"
      using F switch by (cases "SwitchCursor svc ?q1") auto
    have pend: "pending_rows svc ?q1 rest" and has: "hasAsyncFetch ?q1" using c(3) switch by simp_all
    obtain c2 rest' where S: "r2 = AI_SUCCESS" "dq_cursor q2 = Some c2" "good_cursor c2" "curPos c2 = 1"
      "rowVec c2 \<noteq> []" "rest = rowVec c2 @ rest'" "pending_rows svc q2 rest'"
      using switch_page [OF pend has sw] by metis
    have "(r = AI_SUCCESS \<or> r = AI_ERROR) \<and> (q' = q2 \<or> q' = q2\<lparr>rowCounter := rowCounter q2 + 1\<rparr>)"
      by (rule fetch_after_row [where x = "read_columns rd (resultMeta q2) c2 1 (length (resultMeta q2)) b d"])
        (use F switch sw S in simp)
    moreover have "rows = rest" using I switch c(4) by simp
    moreover have "rowVec c2 = rowVec c2 ! 0 # drop 1 (rowVec c2)"
      using S(5) by (cases "rowVec c2") simp_all
    moreover have "iterator c2 = 0" using S(3,4) by (simp add: good_cursor_def)
    moreover have "0 < length (rowVec c2)" using S(5) by simp
    ultimately show ?thesis
      using S by (cases "rowVec c2") (auto simp: remaining_def current_row_def)
  next
    case over
    then show ?thesis
      using F I c by (auto simp: remaining_def pending_rows_def)
  qed
qed

section \<open>Runs\<close>

lemma delivered_row: "r \<noteq> AI_NO_DATA \<Longrightarrow> delivered r q = current_row q"
  by (simp add: delivered_def)

lemma run_delivers:
  assumes "fetch_run svc rd q ls q'" and "remaining svc q rows"
  shows "ls = take (length ls) (map Some rows @ replicate (length ls) None)
    \<and> remaining svc q' (drop (length ls) rows)"
  using assms
proof (induction arbitrary: rows rule: fetch_run.induct)
  case (run_worker i q q' ls q'')
  then show ?case using worker_keeps by blast
next
  case (run_fetch b q d r b' q' d' ls q'')
  note F = fetch_delivers [OF run_fetch.prems run_fetch.hyps(1)]
  show ?case
  proof (cases rows)
    case Nil
    with F have "delivered r q' = None" and rem: "remaining svc q' []" by (auto simp: delivered_def)
    with Nil run_fetch.IH [OF rem] show ?thesis by simp
  next
    case (Cons x xs)
    with F have row: "delivered r q' = Some x" and rem: "remaining svc q' xs"
      by (auto simp: delivered_def)
    have "take (length ls) (map Some xs @ replicate (Suc (length ls)) None) =
        take (length ls) (map Some xs @ replicate (length ls) None)"
      unfolding take_append take_replicate by (simp add: min_def)
    with Cons row run_fetch.IH [OF rem] show ?thesis by simp
  qed
qed simp

text \<open>No fetch is stuck for good: a blocked fetch becomes possible after at most two worker steps.\<close>

text \<open>A reader whose conversions return and do not throw.\<close>

definition reader_returns :: "('row, 'col, 'buf, 'mem) column_reader \<Rightarrow> bool" where
  "reader_returns rd \<longleftrightarrow> (\<forall>c i row buf m. rd c i row buf m \<noteq> None)"

lemma read_columns_total:
  assumes "iterator c < length (rowVec c)" and "reader_returns rd"
  shows "read_columns rd meta c i n b d \<noteq> None"
proof (induction n arbitrary: i b d)
  case (Suc n)
  show ?case
  proof (cases "fst b i")
    case None
    with Suc.IH show ?thesis by simp
  next
    case (Some buf)
    have "ReadColumnToBuffer rd meta c i buf (snd b) \<noteq> None"
      using assms unfolding ReadColumnToBuffer_def reader_returns_def by simp
    then obtain r buf' m' where "ReadColumnToBuffer rd meta c i buf (snd b) = Some (r, buf', m')"
      by auto
    with Some Suc.IH show ?thesis
      by (simp add: Let_def del: not_None_eq split: prod.split)
  qed
qed simp

lemma fetch_ready:
  assumes "remaining svc q rows" and "\<not> hasAsyncFetch q \<or> dq_queue q \<noteq> []" and "reader_returns rd"
  shows "FetchNextRow svc rd b q d \<noteq> None"
proof -
  obtain c rest where c: "dq_cursor q = Some c" "good_cursor c" "pending_rows svc q rest"
    using assms(1) by (auto simp: remaining_def)
  obtain more c1 where inc: "Increment c = (more, c1)" by (cases "Increment c")
  let ?q1 = "q\<lparr>dq_cursor := Some c1\<rparr>"
  note I = Increment_good [OF c(2), unfolded inc, simplified]
  have total: "read_columns rd m c' (Suc 0) n b d \<noteq> None" if "iterator c' < length (rowVec c')" for c' m n
    by (rule read_columns_total [OF that assms(3)])
  consider (row) "more" | (switch) "\<not> more" "hasAsyncFetch q" | (over) "\<not> more" "\<not> hasAsyncFetch q" by blast
  then show ?thesis
  proof cases
    case row
    then show ?thesis using I total [of c1] by (simp add: FetchNextRow_def c(1) inc Let_def)
  next
    case switch
    have pend: "pending_rows svc ?q1 rest" and has: "hasAsyncFetch ?q1" using c(3) switch by simp_all
    obtain r where q: "dq_threads q = [Finished]" "dq_queue q = [r]" "produces svc (dq_request q) r rest"
      using assms(2) switch c(3) by (auto simp: pending_rows_def)
    have "\<exists>r2 q2. SwitchCursor svc ?q1 = Some (r2, q2)"
      using q(3) by (cases rule: produces_cases)
        (auto simp: SwitchCursor_def q(1,2) Let_def join_front_def run_front_def)
    then obtain r2 q2 where sw: "SwitchCursor svc ?q1 = Some (r2, q2)" by blast
    obtain c2 where S: "r2 = AI_SUCCESS" "dq_cursor q2 = Some c2" "good_cursor c2" "curPos c2 = 1"
      "rowVec c2 \<noteq> []"
      using switch_page [OF pend has sw] by metis
    then have "iterator c2 < length (rowVec c2)" by (simp add: good_cursor_def)
    with S sw switch total [of c2] show ?thesis by (simp add: FetchNextRow_def c(1) inc Let_def)
  next
    case over
    then show ?thesis by (simp add: FetchNextRow_def c(1) inc Let_def)
  qed
qed

lemma worker_progress:
  assumes "remaining svc q rows" and "hasAsyncFetch q" and "dq_queue q = []"
  shows "\<exists>q1 q2. thread_step svc 0 q = Some q1 \<and> (q2 = q1 \<or> thread_step svc 0 q1 = Some q2)
    \<and> remaining svc q2 rows \<and> dq_queue q2 \<noteq> []"
proof -
  have "(dq_threads q = [Running]) \<or> (\<exists>r. dq_threads q = [Waiting r])"
    using assms by (auto simp: remaining_def pending_rows_def)
  then show ?thesis
  proof
    assume r: "dq_threads q = [Running]"
    let ?q1 = "q\<lparr>dq_threads := [Waiting (svc (dq_request q))]\<rparr>"
    let ?q2 = "?q1\<lparr>dq_queue := [svc (dq_request q)], dq_threads := [Finished]\<rparr>"
    have a: "thread_step svc 0 q = Some ?q1" using r by (simp add: thread_step_def)
    have b: "thread_step svc 0 ?q1 = Some ?q2" using assms(3) by (simp add: thread_step_def)
    show ?thesis
      using a b worker_keeps [OF worker_keeps [OF assms(1) a] b] by fastforce
  next
    assume "\<exists>r. dq_threads q = [Waiting r]"
    then obtain r where r: "dq_threads q = [Waiting r]" by blast
    let ?q1 = "q\<lparr>dq_queue := [r], dq_threads := [Finished]\<rparr>"
    have a: "thread_step svc 0 q = Some ?q1" using r assms(3) by (simp add: thread_step_def)
    show ?thesis
      using a worker_keeps [OF assms(1) a] by fastforce
  qed
qed

section \<open>Execution\<close>

text \<open>The first request may meet empty pages with tokens before the first row.\<close>

inductive lead_chain :: "('row, 'ci) service \<Rightarrow> request \<Rightarrow> 'row list \<Rightarrow> bool"
  for svc :: "('row, 'ci) service" where
  lead_here: "chain svc rq rows \<Longrightarrow> lead_chain svc rq rows"
| lead_empty: "svc rq = Page p \<Longrightarrow> pg_rows p = [] \<Longrightarrow> pg_token p \<noteq> [] \<Longrightarrow>
    lead_chain svc (rq\<lparr>rq_token := pg_token p\<rparr>) rows \<Longrightarrow> lead_chain svc rq rows"

lemma request_loop_lead:
  assumes "lead_chain svc rq rows"
  shows "\<exists>rq' p. request_loop svc rq = Some (rq', Page p) \<and> produces svc rq' (Page p) rows"
  using assms
proof (induction rule: lead_chain.induct)
  case (lead_here rq rows)
  then have "produces svc rq (svc rq) rows" by (simp add: chain_iff)
  then show ?case
  proof (cases rule: produces_cases)
    case (1 p)
    with \<open>produces svc rq (svc rq) rows\<close> show ?thesis
      by (subst request_loop.simps) auto
  next
    case (2 p rest)
    with \<open>produces svc rq (svc rq) rows\<close> show ?thesis
      by (subst request_loop.simps) auto
  qed
next
  case (lead_empty rq p rows)
  then show ?case by (subst request_loop.simps) simp
qed

definition first_request :: "('row, 'ci, 'col) query_env \<Rightarrow> string \<Rightarrow> request" where
  "first_request e sql = \<lparr>rq_sql = sql, rq_token = [], rq_maxRows = ev_maxRows e\<rparr>"

lemma Execute_fresh:
  assumes "lead_chain (ev_query e) (first_request e sql) rows"
  shows "\<exists>q. Execute e (DataQuery sql) d = Some (AI_SUCCESS, q, d) \<and> remaining (ev_query e) q rows"
proof -
  obtain rq p where loop: "request_loop (ev_query e) (first_request e sql) = Some (rq, Page p)"
    and prod: "produces (ev_query e) rq (Page p) rows"
    using request_loop_lead [OF assms] by blast
  have rq1: "(case ev_maxRows e of None \<Rightarrow> (dq_request (DataQuery sql))\<lparr>rq_sql := dq_sql (DataQuery sql)\<rparr>
      | Some n \<Rightarrow> (dq_request (DataQuery sql))\<lparr>rq_sql := dq_sql (DataQuery sql), rq_maxRows := Some n\<rparr>) =
      first_request e sql"
    by (simp add: first_request_def DataQuery_def split: option.split)
  have ex: "Execute e (DataQuery sql) d = MakeRequestExecute e (DataQuery sql) d"
    by (simp add: Execute_def DataQuery_def)
  note exec = ex [unfolded MakeRequestExecute_def Let_def rq1 loop]
  have ne: "pg_rows p \<noteq> []" using prod by (auto elim: produces_pageE)
  from prod show ?thesis
  proof (cases rule: produces_cases)
    case (1 p')
    with ne show ?thesis unfolding exec
      by (auto simp: DataQuery_def MakeRequestFetch_def ReadColumnMetadataVector_def remaining_def
          good_cursor_def TimestreamCursor_def pending_rows_def)
  next
    case (2 p' rest)
    with ne show ?thesis unfolding exec
      by (auto simp: DataQuery_def MakeRequestFetch_def ReadColumnMetadataVector_def remaining_def
          good_cursor_def TimestreamCursor_def pending_rows_def addThreads_def SetNextToken_def)
  qed
qed

section \<open>The queue and closing\<close>

definition queue_ok :: "('row, 'ci, 'col) data_query \<Rightarrow> bool" where
  "queue_ok q \<longleftrightarrow> length (dq_queue q) \<le> 1"

lemma queue_thread_step: "thread_step svc i q = Some q' \<Longrightarrow> queue_ok q \<Longrightarrow> queue_ok q'"
  by (auto simp: thread_step_def queue_ok_def split: if_splits thread.splits)

lemma queue_run_front: "run_front svc q = Some q' \<Longrightarrow> queue_ok q \<Longrightarrow> queue_ok q'"
  by (auto simp: run_front_def bind_eq_Some_conv split: list.splits thread.splits
      dest: queue_thread_step)

lemma queue_join_front: "join_front svc q = Some q' \<Longrightarrow> queue_ok q \<Longrightarrow> queue_ok q'"
  using queue_run_front by (fastforce simp: join_front_def queue_ok_def)

lemma queue_join_all: "join_all svc n q = Some q' \<Longrightarrow> queue_ok q \<Longrightarrow> queue_ok q'"
  by (induction n arbitrary: q) (auto simp: bind_eq_Some_conv dest: queue_join_front)

lemma queue_InternalClose: "InternalClose svc q = Some q' \<Longrightarrow> queue_ok q \<Longrightarrow> queue_ok q'"
  using queue_join_all [of svc "length (dq_threads q)" "q\<lparr>isClosing := True\<rparr>"]
  by (auto simp: InternalClose_def queue_ok_def)

lemma queue_SwitchCursor: "SwitchCursor svc q = Some (r, q') \<Longrightarrow> queue_ok q \<Longrightarrow> queue_ok q'"
proof -
  assume sw: "SwitchCursor svc q = Some (r, q')" and ok: "queue_ok q"
  then obtain o1 rest where q: "dq_queue q = o1 # rest" and rest: "rest = []"
    by (auto simp: SwitchCursor_def queue_ok_def split: list.splits)
  show "queue_ok q'"
    using sw rest
    by (auto simp: SwitchCursor_def q Let_def queue_ok_def addThreads_def SetNextToken_def
        split: outcome.splits if_splits
        dest!: queue_join_front)
qed

lemma queue_FetchNextRow:
  assumes "FetchNextRow svc rd b q d = Some (r, b', q', d')" and "queue_ok q"
  shows "queue_ok q'"
proof (cases "dq_cursor q")
  case None
  with assms show ?thesis by (auto simp: FetchNextRow_def)
next
  case (Some c)
  obtain more c1 where inc: "Increment c = (more, c1)" by (cases "Increment c")
  let ?q1 = "q\<lparr>dq_cursor := Some c1\<rparr>"
  have ok1: "queue_ok ?q1" using assms(2) by (simp add: queue_ok_def)
  obtain r2 q2 where q2: "(if more then Some (AI_SUCCESS, ?q1)
      else if hasAsyncFetch ?q1 then SwitchCursor svc ?q1 else Some (AI_NO_DATA, ?q1)) = Some (r2, q2)"
    and q': "q' = q2 \<or> q' = q2\<lparr>rowCounter := rowCounter q2 + 1\<rparr>"
    using assms(1) by (auto simp: FetchNextRow_def Some inc Let_def bind_eq_Some_conv split: if_splits option.splits
        prod.splits)
  have "queue_ok q2"
    using q2 ok1 queue_SwitchCursor [of svc ?q1] by (auto split: if_splits)
  with q' show ?thesis by (auto simp: queue_ok_def)
qed

lemma thread_step_closing:
  assumes "isClosing q" and "i < length (dq_threads q)" and "dq_threads q ! i \<noteq> Finished"
  shows "\<exists>q'. thread_step svc i q = Some q' \<and> isClosing q' \<and> length (dq_threads q') = length (dq_threads q)
    \<and> (\<forall>x. dq_threads q ! i = Waiting x \<longrightarrow> dq_threads q' ! i = Finished)
    \<and> (dq_threads q ! i = Running \<longrightarrow> (\<exists>x. dq_threads q' ! i = Waiting x))"
  using assms by (cases "dq_threads q ! i") (auto simp: thread_step_def)

lemma join_front_closing:
  assumes "isClosing q" and "dq_threads q \<noteq> []"
  shows "\<exists>q'. join_front svc q = Some q' \<and> isClosing q' \<and> length (dq_threads q') = length (dq_threads q) - 1"
proof -
  obtain t ts where ts: "dq_threads q = t # ts" using assms(2) by (cases "dq_threads q") auto
  show ?thesis
  proof (cases t)
    case Running
    then obtain q1 x where q1: "thread_step svc 0 q = Some q1" "isClosing q1"
      "length (dq_threads q1) = length (dq_threads q)" "dq_threads q1 ! 0 = Waiting x"
      using thread_step_closing [of q 0 svc] assms(1) ts by auto
    then obtain q2 where "thread_step svc 0 q1 = Some q2" "isClosing q2"
      "length (dq_threads q2) = length (dq_threads q1)"
      using thread_step_closing [of q1 0 svc] ts by auto
    with q1 ts Running show ?thesis by (auto simp: join_front_def run_front_def)
  next
    case (Waiting x)
    then obtain q1 where "thread_step svc 0 q = Some q1" "isClosing q1"
      "length (dq_threads q1) = length (dq_threads q)"
      using thread_step_closing [of q 0 svc] assms(1) ts by auto
    with ts Waiting show ?thesis by (auto simp: join_front_def run_front_def)
  next
    case Finished
    with ts assms(1) show ?thesis by (auto simp: join_front_def run_front_def)
  qed
qed

lemma join_all_closing:
  assumes "isClosing q" and "length (dq_threads q) = n"
  shows "\<exists>q'. join_all svc n q = Some q' \<and> dq_threads q' = []"
  using assms
proof (induction n arbitrary: q)
  case (Suc n)
  then have "dq_threads q \<noteq> []" by auto
  with Suc.prems obtain q1 where "join_front svc q = Some q1" "isClosing q1" "length (dq_threads q1) = n"
    using join_front_closing [of q svc] by auto
  with Suc.IH [of q1] show ?case by auto
qed simp

lemma InternalClose_total:
  "\<exists>q'. InternalClose svc q = Some q' \<and> dq_threads q' = [] \<and> dq_result q' = None \<and> dq_cursor q' = None"
  using join_all_closing [of "q\<lparr>isClosing := True\<rparr>" "length (dq_threads q)" svc]
  by (auto simp: InternalClose_def)

section \<open>Properties\<close>

text \<open> C1. Paging: executing a query whose pages are reached through finitely many tokens (empty pages
  may precede the first row) succeeds, and in every interleaving of fetches with the worker the
  fetches deliver exactly the rows of all pages, in order and each once, and the end of data
  afterwards.\<close>

theorem paging_delivers_all_rows:
  assumes "lead_chain (ev_query e) (first_request e sql) rows"
  shows "\<exists>q. Execute e (DataQuery sql) d = Some (AI_SUCCESS, q, d)
    \<and> (\<forall>ls q'. fetch_run (ev_query e) rd q ls q' \<longrightarrow>
         ls = take (length ls) (map Some rows @ replicate (length ls) None))"
  using Execute_fresh [OF assms] run_delivers by metis


text \<open>A service with two pages, used by the examples.\<close>

definition two_pages :: "(nat, unit) service" where
  "two_pages rq =
     (if rq_token rq = [] then Page \<lparr>pg_rows = [1, 2], pg_token = ''t'', pg_queryId = ''id'', pg_columns = [()]\<rparr>
      else Page \<lparr>pg_rows = [3], pg_token = [], pg_queryId = ''id'', pg_columns = [()]\<rparr>)"

definition example_env :: "(nat, unit) service \<Rightarrow> (nat, unit, unit) query_env" where
  "example_env svc = \<lparr>ev_query = svc, ev_cancel = (\<lambda>_. None), ev_maxRows = None, ev_readMeta = (\<lambda>c. c)\<rparr>"

definition example_reader :: "(nat, unit, nat, unit) column_reader" where
  "example_reader c i row buf m = Some (Conv_SUCCESS, row, m)"

lemma two_pages_chain:
  "lead_chain (ev_query (example_env two_pages)) (first_request (example_env two_pages) sql) [1, 2, 3]"
proof -
  have "chain two_pages \<lparr>rq_sql = sql, rq_token = ''t'', rq_maxRows = None\<rparr> [3]"
    using last_page [of "\<lparr>pg_rows = [3], pg_token = [], pg_queryId = ''id'', pg_columns = [()]\<rparr>" two_pages]
    by (simp add: chain_iff two_pages_def)
  then have "chain two_pages (first_request (example_env two_pages) sql) ([1, 2] @ [3])"
    using more_pages [of "\<lparr>pg_rows = [1, 2], pg_token = ''t'', pg_queryId = ''id'', pg_columns = [()]\<rparr>"
        two_pages "first_request (example_env two_pages) sql" "[3]"]
    by (simp add: chain_iff first_request_def example_env_def two_pages_def)
  then show ?thesis by (simp add: example_env_def lead_here)
qed

theorem paging_delivers_all_rows_witness:
  "\<exists>q. Execute (example_env two_pages) (DataQuery ''s'') DiagnosticRecordStorage =
      Some (AI_SUCCESS, q, DiagnosticRecordStorage)
    \<and> (\<forall>ls q'. fetch_run two_pages example_reader q ls q' \<longrightarrow>
         ls = take (length ls) (map Some [1, 2, 3] @ replicate (length ls) None))"
  using paging_delivers_all_rows [OF two_pages_chain [of "''s''"], of DiagnosticRecordStorage example_reader]
  by (simp add: example_env_def)


text \<open> The hand-over queue holds one element at most: worker steps, fetches and closing keep it so,
  whatever the service answers and however the steps interleave.\<close>

theorem queue_holds_one_at_most:
  "length (dq_queue q) \<le> 1 \<Longrightarrow>
     (thread_step svc i q = Some q1 \<longrightarrow> length (dq_queue q1) \<le> 1)
   \<and> (FetchNextRow svc rd b q d = Some (r, b', q2, d') \<longrightarrow> length (dq_queue q2) \<le> 1)
   \<and> (InternalClose svc q = Some q3 \<longrightarrow> length (dq_queue q3) \<le> 1)"
  using queue_thread_step [of svc i q q1] queue_FetchNextRow [of svc rd b q d r b' q2 d']
    queue_InternalClose [of svc q q3]
  by (simp add: queue_ok_def)

theorem queue_holds_one_at_most_witness:
  "\<exists>q. InternalClose two_pages (DataQuery ''s'' :: (nat, unit, unit) data_query) = Some q
     \<and> length (dq_queue q) \<le> 1"
proof -
  obtain q where q: "InternalClose two_pages (DataQuery ''s'' :: (nat, unit, unit) data_query) = Some q"
    by (simp add: InternalClose_def DataQuery_def)
  have "length (dq_queue (DataQuery ''s'' :: (nat, unit, unit) data_query)) \<le> 1"
    by (simp add: DataQuery_def)
  from queue_holds_one_at_most [OF this, of two_pages 0 _ example_reader "(Map.empty, ())" DiagnosticRecordStorage
      AI_ERROR _ _ _ q] q
  show ?thesis by blast
qed


text \<open> A failed page ends the result set: the fetch that meets it reports an error with state 24000,
  drops the cursor, and every later fetch reports the end of data with a warning.\<close>

theorem failed_page_ends_fetching:
  assumes "dq_cursor q = Some c" and "length (rowVec c) \<le> curPos c" and "hasAsyncFetch q"
    and "dq_queue q = [Failed x]"
  shows "\<exists>q'. FetchNextRow svc rd b q d =
      Some (AI_ERROR, b, q', AddStatusRecord S24000_INVALID_CURSOR_STATE ''Invalid cursor state.'' d)
    \<and> (\<forall>b2 d2. FetchNextRow svc rd b2 q' d2 =
        Some (AI_NO_DATA, b2, q',
          AddStatusRecord S01000_GENERAL_WARNING ''Cursor does not point to any data.'' d2))"
  using assms by (auto simp: FetchNextRow_def Increment_def SwitchCursor_def Let_def)

theorem failed_page_ends_fetching_witness:
  "\<exists>q'. FetchNextRow two_pages example_reader (Map.empty, ())
      ((DataQuery ''s'')\<lparr>dq_cursor := Some \<lparr>rowVec = [1], iterator = 0, curPos = 1\<rparr>,
         hasAsyncFetch := True, dq_queue := [Failed \<lparr>GetExceptionName = ''E'', GetMessage = ''m''\<rparr>]\<rparr>)
      DiagnosticRecordStorage =
    Some (AI_ERROR, (Map.empty, ()), q',
      AddStatusRecord S24000_INVALID_CURSOR_STATE ''Invalid cursor state.'' DiagnosticRecordStorage)"
  using failed_page_ends_fetching [of "(DataQuery ''s'')\<lparr>dq_cursor := Some \<lparr>rowVec = [1], iterator = 0, curPos = 1\<rparr>,
      hasAsyncFetch := True, dq_queue := [Failed \<lparr>GetExceptionName = ''E'', GetMessage = ''m''\<rparr>]\<rparr>"
      "\<lparr>rowVec = [1], iterator = 0, curPos = 1\<rparr>" "\<lparr>GetExceptionName = ''E'', GetMessage = ''m''\<rparr>"
      two_pages example_reader "(Map.empty, ())" DiagnosticRecordStorage]
  by auto

text \<open> An empty page with a token in the middle of the result set: the fetch reports the end of data
  although pages are left, no request for them is made, and the next fetch waits for a page no
  worker will ever hand over.\<close>

theorem empty_page_stalls:
  assumes "dq_cursor q = Some c" and "length (rowVec c) \<le> curPos c" and "hasAsyncFetch q"
    and "dq_queue q = [Page p]" and "pg_rows p = []" and "dq_threads q = [Finished]"
  shows "\<exists>q' d'. FetchNextRow svc rd b q d = Some (AI_NO_DATA, b, q', d')
    \<and> (\<forall>i. thread_step svc i q' = None) \<and> (\<forall>b2 d2. FetchNextRow svc rd b2 q' d2 = None)"
proof -
  obtain c1 where c1: "Increment c = (False, c1)" "length (rowVec c1) \<le> curPos c1"
    using Increment_end [OF assms(2)] by blast
  obtain c2 where c2: "Increment c1 = (False, c2)"
    using Increment_end [OF c1(2)] by blast
  let ?q = "q\<lparr>dq_cursor := Some c1, dq_queue := [], dq_result := Some p\<rparr>"
  have "FetchNextRow svc rd b q d =
      Some (AI_NO_DATA, b, ?q, AddStatusRecord S24000_INVALID_CURSOR_STATE ''Invalid cursor state.'' d)"
    using assms c1 by (simp add: FetchNextRow_def SwitchCursor_def Let_def)
  moreover have "thread_step svc i ?q = None" for i
    using assms(6) by (cases i) (simp_all add: thread_step_def)
  moreover have "\<forall>b2 d2. FetchNextRow svc rd b2 ?q d2 = None"
    using assms(3) c2 by (simp add: FetchNextRow_def SwitchCursor_def Let_def)
  ultimately show ?thesis by blast
qed

definition empty_second_page :: "(nat, unit) page" where
  "empty_second_page = \<lparr>pg_rows = [], pg_token = ''u'', pg_queryId = ''id'', pg_columns = [()]\<rparr>"

theorem empty_page_stalls_witness:
  "\<exists>q' d'. FetchNextRow two_pages example_reader (Map.empty, ())
      ((DataQuery ''s'')\<lparr>dq_cursor := Some \<lparr>rowVec = [1], iterator = 0, curPos = 1\<rparr>,
         hasAsyncFetch := True, dq_queue := [Page empty_second_page], dq_threads := [Finished]\<rparr>)
      DiagnosticRecordStorage = Some (AI_NO_DATA, (Map.empty, ()), q', d')
    \<and> FetchNextRow two_pages example_reader (Map.empty, ()) q' DiagnosticRecordStorage = None"
  using empty_page_stalls [of "(DataQuery ''s'')\<lparr>dq_cursor := Some \<lparr>rowVec = [1], iterator = 0, curPos = 1\<rparr>,
      hasAsyncFetch := True, dq_queue := [Page empty_second_page], dq_threads := [Finished]\<rparr>"
      "\<lparr>rowVec = [1], iterator = 0, curPos = 1\<rparr>" empty_second_page
      two_pages example_reader "(Map.empty, ())" DiagnosticRecordStorage]
  by (auto simp: empty_second_page_def)

text \<open> Running a paged query a second time does not start over: the request keeps the continuation
  token of the first run, so the new execution shows the page after the first one.\<close>

theorem second_execution_continues:
  assumes "ev_query e (first_request e sql) = Page p" and "pg_rows p \<noteq> []" and "pg_token p \<noteq> []"
    and "ev_query e ((first_request e sql)\<lparr>rq_token := pg_token p\<rparr>) = Page p2" and "pg_rows p2 \<noteq> []"
  shows "\<exists>q1 q2 q3. Execute e (DataQuery sql) d = Some (AI_SUCCESS, q1, d)
    \<and> dq_cursor q1 = Some (TimestreamCursor (pg_rows p))
    \<and> Close e q1 = Some (AI_SUCCESS, q2)
    \<and> Execute e q2 d = Some (AI_SUCCESS, q3, d)
    \<and> dq_cursor q3 = Some (TimestreamCursor (pg_rows p2))"
proof -
  let ?svc = "ev_query e"
  have rq1: "(case ev_maxRows e of None \<Rightarrow> (dq_request (DataQuery sql))\<lparr>rq_sql := dq_sql (DataQuery sql)\<rparr>
      | Some n \<Rightarrow> (dq_request (DataQuery sql))\<lparr>rq_sql := dq_sql (DataQuery sql), rq_maxRows := Some n\<rparr>) =
      first_request e sql"
    by (simp add: first_request_def DataQuery_def split: option.split)
  have loop: "request_loop ?svc (first_request e sql) = Some (first_request e sql, Page p)"
    using assms(1,2) by (subst request_loop.simps) simp
  let ?rq = "(first_request e sql)\<lparr>rq_token := pg_token p\<rparr>"
  have loop2: "request_loop ?svc ?rq = Some (?rq, Page p2)"
    using assms(4,5) by (subst request_loop.simps) simp
  have "Execute e (DataQuery sql) d = MakeRequestExecute e (DataQuery sql) d"
    by (simp add: Execute_def DataQuery_def)
  note ex = this [unfolded MakeRequestExecute_def Let_def rq1 loop]
  obtain q1 where q1: "Execute e (DataQuery sql) d = Some (AI_SUCCESS, q1, d)"
    "dq_cursor q1 = Some (TimestreamCursor (pg_rows p))" "dq_request q1 = ?rq" "dq_sql q1 = sql"
    "dq_threads q1 = [Running]" "dq_queue q1 = []"
    unfolding ex using assms(2,3)
    by (auto simp: DataQuery_def MakeRequestFetch_def ReadColumnMetadataVector_def addThreads_def SetNextToken_def)
  let ?q2 = "q1\<lparr>isClosing := True, dq_queue := [Page p2], dq_threads := [], dq_result := None, dq_cursor := None\<rparr>"
  have q2: "Close e q1 = Some (AI_SUCCESS, ?q2)"
    using q1 assms(4)
    by (simp add: Close_def InternalClose_def join_front_def run_front_def thread_step_def)
  have rq2: "(case ev_maxRows e of None \<Rightarrow> (dq_request ?q2)\<lparr>rq_sql := dq_sql ?q2\<rparr>
      | Some n \<Rightarrow> (dq_request ?q2)\<lparr>rq_sql := dq_sql ?q2, rq_maxRows := Some n\<rparr>) = ?rq"
    using q1 by (simp add: first_request_def split: option.split)
  have "Execute e ?q2 d = MakeRequestExecute e ?q2 d" by (simp add: Execute_def)
  note ex2 = this [unfolded MakeRequestExecute_def Let_def rq2 loop2]
  have "\<exists>q3. Execute e ?q2 d = Some (AI_SUCCESS, q3, d) \<and> dq_cursor q3 = Some (TimestreamCursor (pg_rows p2))"
    unfolding ex2 using assms(5)
    by (auto simp: MakeRequestFetch_def ReadColumnMetadataVector_def addThreads_def SetNextToken_def)
  with q1 q2 show ?thesis by blast
qed

theorem second_execution_continues_witness:
  "\<exists>q1 q2 q3. Execute (example_env two_pages) (DataQuery ''s'') DiagnosticRecordStorage =
      Some (AI_SUCCESS, q1, DiagnosticRecordStorage)
    \<and> dq_cursor q1 = Some (TimestreamCursor [1, 2])
    \<and> Close (example_env two_pages) q1 = Some (AI_SUCCESS, q2)
    \<and> Execute (example_env two_pages) q2 DiagnosticRecordStorage =
        Some (AI_SUCCESS, q3, DiagnosticRecordStorage)
    \<and> dq_cursor q3 = Some (TimestreamCursor [3])"
  using second_execution_continues [of "example_env two_pages" "''s''"
      "\<lparr>pg_rows = [1, 2], pg_token = ''t'', pg_queryId = ''id'', pg_columns = [()]\<rparr>"
      "\<lparr>pg_rows = [3], pg_token = [], pg_queryId = ''id'', pg_columns = [()]\<rparr>" DiagnosticRecordStorage]
  by (simp add: example_env_def two_pages_def first_request_def)

end
