(* ===== verification/Type_Traits.thy ===== *)
theory Type_Traits
  imports Common_Types
begin

text \<open>
  Type traits (\<^verbatim>\<open>src/type_traits.cpp\<close>): the correspondence of the scalar types of the service, the
  SQL types of the interface and the native types of the driver, and the sizes that belong to a
  SQL type. An absent \<^verbatim>\<open>boost::optional\<close> is \<open>None\<close>.
\<close>

section \<open>Types\<close>

datatype odbc_native_type =
    AI_CHAR | AI_WCHAR | AI_SIGNED_SHORT | AI_UNSIGNED_SHORT | AI_SIGNED_LONG | AI_UNSIGNED_LONG
    | AI_FLOAT | AI_DOUBLE | AI_BIT | AI_SIGNED_TINYINT | AI_UNSIGNED_TINYINT | AI_SIGNED_BIGINT
    | AI_UNSIGNED_BIGINT | AI_BINARY | AI_TDATE | AI_TTIME | AI_TTIMESTAMP | AI_NUMERIC
    | AI_INTERVAL_YEAR | AI_INTERVAL_MONTH | AI_INTERVAL_DAY | AI_INTERVAL_HOUR
    | AI_INTERVAL_MINUTE | AI_INTERVAL_SECOND | AI_INTERVAL_DAY_TO_HOUR
    | AI_INTERVAL_DAY_TO_MINUTE | AI_INTERVAL_HOUR_TO_MINUTE | AI_INTERVAL_HOUR_TO_SECOND
    | AI_INTERVAL_MINUTE_TO_SECOND | AI_INTERVAL_YEAR_TO_MONTH | AI_INTERVAL_DAY_TO_SECOND
    | AI_DEFAULT | AI_UNSUPPORTED

text \<open>The scalar types of the service, with one value for a code outside the enumeration.\<close>

datatype scalar_type =
    Scalar_NOT_SET | Scalar_VARCHAR | Scalar_BOOLEAN | Scalar_BIGINT | Scalar_DOUBLE
  | Scalar_TIMESTAMP | Scalar_DATE | Scalar_TIME | Scalar_INTERVAL_DAY_TO_SECOND
  | Scalar_INTERVAL_YEAR_TO_MONTH | Scalar_UNKNOWN | Scalar_INTEGER | Scalar_OTHER

abbreviation (input) TIMESTREAM_SQL_MAX_LENGTH :: int where "TIMESTREAM_SQL_MAX_LENGTH \<equiv> 65532"

section \<open>Native types of the driver\<close>

definition ToDriverType :: "int \<Rightarrow> odbc_native_type" where
  "ToDriverType t =
     (if t = SQL_CHAR then AI_CHAR
      else if t = SQL_WCHAR then AI_WCHAR
      else if t \<in> {SQL_C_SSHORT, SQL_C_SHORT} then AI_SIGNED_SHORT
      else if t = SQL_C_USHORT then AI_UNSIGNED_SHORT
      else if t \<in> {SQL_C_SLONG, SQL_C_LONG} then AI_SIGNED_LONG
      else if t = SQL_C_ULONG then AI_UNSIGNED_LONG
      else if t = SQL_C_FLOAT then AI_FLOAT
      else if t = SQL_DOUBLE then AI_DOUBLE
      else if t = SQL_BIT then AI_BIT
      else if t \<in> {SQL_C_STINYINT, SQL_TINYINT} then AI_SIGNED_TINYINT
      else if t = SQL_C_UTINYINT then AI_UNSIGNED_TINYINT
      else if t = SQL_C_SBIGINT then AI_SIGNED_BIGINT
      else if t = SQL_C_UBIGINT then AI_UNSIGNED_BIGINT
      else if t = SQL_BINARY then AI_BINARY
      else if t \<in> {SQL_C_DATE, SQL_TYPE_DATE} then AI_TDATE
      else if t \<in> {SQL_C_TIME, SQL_TYPE_TIME} then AI_TTIME
      else if t \<in> {SQL_C_TIMESTAMP, SQL_TYPE_TIMESTAMP} then AI_TTIMESTAMP
      else if t = SQL_NUMERIC then AI_NUMERIC
      else if t = SQL_C_DEFAULT then AI_DEFAULT
      else if t = SQL_INTERVAL_YEAR then AI_INTERVAL_YEAR
      else if t = SQL_INTERVAL_MONTH then AI_INTERVAL_MONTH
      else if t = SQL_INTERVAL_DAY then AI_INTERVAL_DAY
      else if t = SQL_INTERVAL_HOUR then AI_INTERVAL_HOUR
      else if t = SQL_INTERVAL_MINUTE then AI_INTERVAL_MINUTE
      else if t = SQL_INTERVAL_SECOND then AI_INTERVAL_SECOND
      else if t = SQL_INTERVAL_DAY_TO_HOUR then AI_INTERVAL_DAY_TO_HOUR
      else if t = SQL_INTERVAL_DAY_TO_MINUTE then AI_INTERVAL_DAY_TO_MINUTE
      else if t = SQL_INTERVAL_HOUR_TO_MINUTE then AI_INTERVAL_HOUR_TO_MINUTE
      else if t = SQL_INTERVAL_HOUR_TO_SECOND then AI_INTERVAL_HOUR_TO_SECOND
      else if t = SQL_INTERVAL_MINUTE_TO_SECOND then AI_INTERVAL_MINUTE_TO_SECOND
      else if t = SQL_INTERVAL_YEAR_TO_MONTH then AI_INTERVAL_YEAR_TO_MONTH
      else if t = SQL_INTERVAL_DAY_TO_SECOND then AI_INTERVAL_DAY_TO_SECOND
      else AI_UNSUPPORTED)"

definition IsApplicationTypeSupported :: "int option \<Rightarrow> bool" where
  "IsApplicationTypeSupported type =
     (case type of None \<Rightarrow> False | Some t \<Rightarrow> ToDriverType t \<noteq> AI_UNSUPPORTED)"

section \<open>SQL types and scalar types\<close>

definition IsSqlTypeSupported :: "int option \<Rightarrow> bool" where
  "IsSqlTypeSupported type =
     (case type of None \<Rightarrow> False
      | Some t \<Rightarrow> t \<in> {SQL_BIT, SQL_TINYINT, SQL_SMALLINT, SQL_BIGINT, SQL_INTEGER, SQL_FLOAT, SQL_REAL,
            SQL_DOUBLE, SQL_NUMERIC, SQL_DECIMAL, SQL_CHAR, SQL_VARCHAR, SQL_LONGVARCHAR,
            SQL_WCHAR, SQL_WVARCHAR, SQL_WLONGVARCHAR, SQL_TYPE_DATE, SQL_TYPE_TIMESTAMP,
            SQL_TYPE_TIME, SQL_TYPE_NULL, SQL_INTERVAL_YEAR_TO_MONTH, SQL_INTERVAL_DAY_TO_SECOND})"

definition SqlTypeToBinary :: "int option \<Rightarrow> scalar_type" where
  "SqlTypeToBinary type =
     (case type of None \<Rightarrow> Scalar_UNKNOWN
      | Some t \<Rightarrow>
          (if t = SQL_BIT then Scalar_BOOLEAN
           else if t = SQL_INTEGER then Scalar_INTEGER
           else if t = SQL_BIGINT then Scalar_BIGINT
           else if t = SQL_DOUBLE then Scalar_DOUBLE
           else if t = SQL_TYPE_DATE then Scalar_DATE
           else if t = SQL_TYPE_TIME then Scalar_TIME
           else if t = SQL_TYPE_TIMESTAMP then Scalar_TIMESTAMP
           else if t = SQL_INTERVAL_DAY_TO_SECOND then Scalar_INTERVAL_DAY_TO_SECOND
           else if t = SQL_INTERVAL_YEAR_TO_MONTH then Scalar_INTERVAL_YEAR_TO_MONTH
           else if t = SQL_VARCHAR then Scalar_VARCHAR
           else Scalar_UNKNOWN))"

fun BinaryToSqlType_of :: "scalar_type \<Rightarrow> int" where
  "BinaryToSqlType_of Scalar_BOOLEAN = SQL_BIT"
| "BinaryToSqlType_of Scalar_INTEGER = SQL_INTEGER"
| "BinaryToSqlType_of Scalar_BIGINT = SQL_BIGINT"
| "BinaryToSqlType_of Scalar_DOUBLE = SQL_DOUBLE"
| "BinaryToSqlType_of Scalar_DATE = SQL_TYPE_DATE"
| "BinaryToSqlType_of Scalar_TIME = SQL_TYPE_TIME"
| "BinaryToSqlType_of Scalar_TIMESTAMP = SQL_TYPE_TIMESTAMP"
| "BinaryToSqlType_of Scalar_INTERVAL_DAY_TO_SECOND = SQL_INTERVAL_DAY_TO_SECOND"
| "BinaryToSqlType_of Scalar_INTERVAL_YEAR_TO_MONTH = SQL_INTERVAL_YEAR_TO_MONTH"
| "BinaryToSqlType_of Scalar_VARCHAR = SQL_VARCHAR"
| "BinaryToSqlType_of Scalar_NOT_SET = SQL_VARCHAR"
| "BinaryToSqlType_of Scalar_UNKNOWN = SQL_VARCHAR"
| "BinaryToSqlType_of Scalar_OTHER = SQL_VARCHAR"

definition BinaryToSqlType :: "scalar_type option \<Rightarrow> int option" where
  "BinaryToSqlType = map_option BinaryToSqlType_of"

fun SqlTypeName_of :: "scalar_type \<Rightarrow> string" where
  "SqlTypeName_of Scalar_BOOLEAN = ''BIT''"
| "SqlTypeName_of Scalar_INTEGER = ''INTEGER''"
| "SqlTypeName_of Scalar_BIGINT = ''BIGINT''"
| "SqlTypeName_of Scalar_DOUBLE = ''DOUBLE''"
| "SqlTypeName_of Scalar_DATE = ''DATE''"
| "SqlTypeName_of Scalar_TIME = ''TIME''"
| "SqlTypeName_of Scalar_TIMESTAMP = ''TIMESTAMP''"
| "SqlTypeName_of Scalar_INTERVAL_DAY_TO_SECOND = ''INTERVAL_DAY_TO_SECOND''"
| "SqlTypeName_of Scalar_INTERVAL_YEAR_TO_MONTH = ''INTERVAL_YEAR_TO_MONTH''"
| "SqlTypeName_of Scalar_VARCHAR = ''VARCHAR''"
| "SqlTypeName_of Scalar_NOT_SET = ''NOT_SET''"
| "SqlTypeName_of Scalar_UNKNOWN = ''UNKNOWN''"
| "SqlTypeName_of Scalar_OTHER = ''VARCHAR''"

definition BinaryTypeToSqlTypeName :: "scalar_type option \<Rightarrow> string option" where
  "BinaryTypeToSqlTypeName = map_option SqlTypeName_of"

definition BinaryTypeNullability :: "int \<Rightarrow> int" where
  "BinaryTypeNullability _ = SQL_NULLABLE_UNKNOWN"

definition NullabilityToIsNullable :: "int option \<Rightarrow> string option" where
  "NullabilityToIsNullable n =
     (case n of None \<Rightarrow> None
      | Some t \<Rightarrow> if t = SQL_NO_NULLS then Some ''NO'' else if t = SQL_NULLABLE then Some ''YES'' else None)"

section \<open>Sizes of a SQL type\<close>

definition SqlTypeDisplaySize_of :: "int \<Rightarrow> int" where
  "SqlTypeDisplaySize_of t =
     (if t \<in> {SQL_VARCHAR, SQL_WVARCHAR, SQL_CHAR, SQL_WCHAR, SQL_LONGVARCHAR, SQL_WLONGVARCHAR,
          SQL_DECIMAL, SQL_NUMERIC} then TIMESTREAM_SQL_MAX_LENGTH
      else if t \<in> {SQL_BIT, SQL_TYPE_NULL} then 1
      else if t = SQL_TINYINT then 4
      else if t = SQL_SMALLINT then 6
      else if t = SQL_INTEGER then 11
      else if t = SQL_BIGINT then 20
      else if t = SQL_REAL then 14
      else if t \<in> {SQL_FLOAT, SQL_DOUBLE} then 24
      else if t = SQL_TYPE_DATE then 10
      else if t = SQL_TYPE_TIME then 8
      else if t = SQL_TYPE_TIMESTAMP then 20
      else if t = SQL_INTERVAL_DAY_TO_SECOND then 25
      else if t = SQL_INTERVAL_YEAR_TO_MONTH then 12
      else if t = SQL_GUID then 36
      else 0)"

definition SqlTypeDisplaySize :: "int option \<Rightarrow> int option" where
  "SqlTypeDisplaySize = map_option SqlTypeDisplaySize_of"

definition SqlTypeColumnSize_of :: "int \<Rightarrow> int" where
  "SqlTypeColumnSize_of t =
     (if t \<in> {SQL_VARCHAR, SQL_WVARCHAR, SQL_CHAR, SQL_WCHAR, SQL_LONGVARCHAR, SQL_WLONGVARCHAR,
          SQL_DECIMAL, SQL_NUMERIC} then TIMESTREAM_SQL_MAX_LENGTH
      else if t \<in> {SQL_BIT, SQL_TYPE_NULL} then 1
      else if t = SQL_TINYINT then 3
      else if t = SQL_SMALLINT then 5
      else if t = SQL_INTEGER then 10
      else if t = SQL_BIGINT then 19
      else if t = SQL_REAL then 7
      else if t \<in> {SQL_FLOAT, SQL_DOUBLE} then 15
      else if t = SQL_TYPE_DATE then 10
      else if t = SQL_TYPE_TIME then 8
      else if t = SQL_TYPE_TIMESTAMP then 19
      else if t = SQL_GUID then 36
      else if t = SQL_INTERVAL_DAY_TO_SECOND then 25
      else if t = SQL_INTERVAL_YEAR_TO_MONTH then 12
      else 0)"

definition SqlTypeColumnSize :: "int option \<Rightarrow> int option" where
  "SqlTypeColumnSize = map_option SqlTypeColumnSize_of"

definition SqlTypeTransferLength_of :: "int \<Rightarrow> int" where
  "SqlTypeTransferLength_of t =
     (if t \<in> {SQL_VARCHAR, SQL_WVARCHAR, SQL_CHAR, SQL_WCHAR, SQL_LONGVARCHAR, SQL_WLONGVARCHAR,
          SQL_DECIMAL, SQL_NUMERIC} then TIMESTREAM_SQL_MAX_LENGTH
      else if t \<in> {SQL_BIT, SQL_TINYINT, SQL_TYPE_NULL} then 1
      else if t = SQL_SMALLINT then 2
      else if t = SQL_INTEGER then 4
      else if t = SQL_BIGINT then 8
      else if t \<in> {SQL_FLOAT, SQL_REAL} then 4
      else if t = SQL_DOUBLE then 8
      else if t \<in> {SQL_TYPE_DATE, SQL_TYPE_TIME} then 6
      else if t = SQL_TYPE_TIMESTAMP then 16
      else if t = SQL_GUID then 16
      else if t \<in> {SQL_INTERVAL_DAY_TO_SECOND, SQL_INTERVAL_YEAR_TO_MONTH} then 34
      else 0)"

definition SqlTypeTransferLength :: "int option \<Rightarrow> int option" where
  "SqlTypeTransferLength = map_option SqlTypeTransferLength_of"

definition SqlTypePrecision_of :: "int \<Rightarrow> int" where
  "SqlTypePrecision_of t =
     (if t \<in> {SQL_DECIMAL, SQL_NUMERIC} then 15
      else if t = SQL_TINYINT then 3
      else if t = SQL_SMALLINT then 5
      else if t = SQL_INTEGER then 10
      else if t = SQL_BIGINT then 19
      else if t \<in> {SQL_FLOAT, SQL_REAL, SQL_DOUBLE} then 15
      else if t = SQL_TYPE_TIME then 6
      else if t = SQL_INTERVAL_DAY_TO_SECOND then 11
      else if t = SQL_INTERVAL_YEAR_TO_MONTH then 9
      else 0)"

definition SqlTypePrecision :: "int option \<Rightarrow> int option" where
  "SqlTypePrecision = map_option SqlTypePrecision_of"

definition SqlTypeScale_of :: "int \<Rightarrow> int" where
  "SqlTypeScale_of t =
     (if t \<in> {SQL_DECIMAL, SQL_NUMERIC, SQL_FLOAT, SQL_REAL, SQL_DOUBLE} then 15
      else 0)"

definition SqlTypeScale :: "int option \<Rightarrow> int option" where
  "SqlTypeScale = map_option SqlTypeScale_of"

definition SqlTypeNumPrecRadix_of :: "int \<Rightarrow> int" where
  "SqlTypeNumPrecRadix_of t =
     (if t \<in> {SQL_REAL, SQL_FLOAT, SQL_DOUBLE} then 2
      else if t \<in> {SQL_BIT, SQL_TINYINT, SQL_SMALLINT, SQL_INTEGER, SQL_BIGINT} then 10
      else 0)"

definition SqlTypeNumPrecRadix :: "int option \<Rightarrow> int option" where
  "SqlTypeNumPrecRadix = map_option SqlTypeNumPrecRadix_of"

definition SqlTypeDecimalDigits_of :: "int \<Rightarrow> int" where
  "SqlTypeDecimalDigits_of t =
     (if t \<in> {SQL_TINYINT, SQL_SMALLINT, SQL_INTEGER, SQL_BIGINT} then 0
      else if t = SQL_DOUBLE then 15
      else - 1)"

definition SqlTypeDecimalDigits :: "int option \<Rightarrow> int option" where
  "SqlTypeDecimalDigits = map_option SqlTypeDecimalDigits_of"

text \<open>The size of a wide character is that of the driver manager's \<^verbatim>\<open>SQLWCHAR\<close>.\<close>

definition SqlTypeCharOctetLength_of :: "int \<Rightarrow> int \<Rightarrow> int" where
  "SqlTypeCharOctetLength_of sizeof_SQLWCHAR t =
     (if t \<in> {SQL_CHAR, SQL_VARCHAR, SQL_LONGVARCHAR} then TIMESTREAM_SQL_MAX_LENGTH
      else if t \<in> {SQL_WCHAR, SQL_WVARCHAR, SQL_WLONGVARCHAR} then sizeof_SQLWCHAR * TIMESTREAM_SQL_MAX_LENGTH
      else 0)"

definition SqlTypeCharOctetLength :: "int \<Rightarrow> int option \<Rightarrow> int option" where
  "SqlTypeCharOctetLength sizeof_SQLWCHAR = map_option (SqlTypeCharOctetLength_of sizeof_SQLWCHAR)"

definition SqlTypeUnsigned :: "int option \<Rightarrow> bool" where
  "SqlTypeUnsigned type =
     (case type of None \<Rightarrow> False
      | Some t \<Rightarrow> t \<notin> {SQL_BIT, SQL_TINYINT, SQL_SMALLINT, SQL_INTEGER, SQL_BIGINT, SQL_REAL, SQL_FLOAT,
            SQL_DOUBLE})"

definition BinaryTypeDisplaySize :: "scalar_type option \<Rightarrow> int option" where
  "BinaryTypeDisplaySize type = SqlTypeDisplaySize (BinaryToSqlType type)"

definition BinaryTypeColumnSize :: "scalar_type option \<Rightarrow> int option" where
  "BinaryTypeColumnSize type = SqlTypeColumnSize (BinaryToSqlType type)"

definition BinaryTypeTransferLength :: "scalar_type option \<Rightarrow> int option" where
  "BinaryTypeTransferLength type = SqlTypeTransferLength (BinaryToSqlType type)"

definition BinaryTypeNumPrecRadix :: "scalar_type option \<Rightarrow> int option" where
  "BinaryTypeNumPrecRadix type = SqlTypeNumPrecRadix (BinaryToSqlType type)"

definition BinaryTypeDecimalDigits :: "scalar_type option \<Rightarrow> int option" where
  "BinaryTypeDecimalDigits type = SqlTypeDecimalDigits (BinaryToSqlType type)"

definition BinaryTypeCharOctetLength :: "int \<Rightarrow> scalar_type option \<Rightarrow> int option" where
  "BinaryTypeCharOctetLength sizeof_SQLWCHAR type =
     SqlTypeCharOctetLength sizeof_SQLWCHAR (BinaryToSqlType type)"

definition BinaryTypeUnsigned :: "scalar_type option \<Rightarrow> bool" where
  "BinaryTypeUnsigned type = SqlTypeUnsigned (BinaryToSqlType type)"

section \<open>Properties\<close>

text \<open> Scalar types survive the way through SQL types: the SQL type of a scalar type is supported
  and converts back to the scalar type, except that a type that is not set, not known or not in
  the enumeration becomes a character type.\<close>

theorem scalar_type_roundtrip:
  "IsSqlTypeSupported (BinaryToSqlType (Some s))
   \<and> SqlTypeToBinary (BinaryToSqlType (Some s)) =
       (if s \<in> {Scalar_NOT_SET, Scalar_UNKNOWN, Scalar_OTHER} then Scalar_VARCHAR else s)
   \<and> (BinaryTypeUnsigned (Some s) \<longleftrightarrow>
       s \<notin> {Scalar_BOOLEAN, Scalar_INTEGER, Scalar_BIGINT, Scalar_DOUBLE})"
  by (cases s) (simp_all add: BinaryToSqlType_def IsSqlTypeSupported_def SqlTypeToBinary_def
      BinaryTypeUnsigned_def SqlTypeUnsigned_def)

text \<open> Sizes agree with each other for every SQL type code: a value never needs more characters to
  be counted than to be displayed, every supported type has a positive display size, and a code
  outside the supported types (but GUID) has size zero everywhere.\<close>

theorem sizes_agree:
  "\<exists>c d l. SqlTypeColumnSize (Some t) = Some c \<and> SqlTypeDisplaySize (Some t) = Some d
     \<and> SqlTypeTransferLength (Some t) = Some l \<and> 0 \<le> c \<and> c \<le> d
     \<and> (IsSqlTypeSupported (Some t) \<or> t = SQL_GUID \<longleftrightarrow> 0 < d)
     \<and> (0 < d \<longleftrightarrow> 0 < l) \<and> (0 < d \<longleftrightarrow> 0 < c)"
  by (simp add: SqlTypeColumnSize_def SqlTypeDisplaySize_def SqlTypeTransferLength_def
      SqlTypeColumnSize_of_def SqlTypeDisplaySize_of_def SqlTypeTransferLength_of_def IsSqlTypeSupported_def)

end
