(* ===== verification/Descriptor.thy ===== *)
theory Descriptor
  imports Type_Traits Diagnostics
begin

text \<open>
  Descriptors (\<^verbatim>\<open>src/descriptor.cpp\<close>): the header and the records of an application or
  implementation descriptor, setting and getting fields with their checks, and copying. Pointers
  are integers, 0 the null pointer; a pointer argument that carries a number is that number.
\<close>

section \<open>Header and records\<close>

record desc_header =
  allocType :: int
  arraySize :: int
  arrayStatusPtr :: int
  bindOffsetPtr :: int
  bindType :: int
  dh_count :: int
  dh_rowsetSize :: int
  rowsProcessedPtr :: int

record desc_record =

  dr_autoUniqueValue :: int
  dr_baseColumnName :: int
  dr_baseTableName :: int
  dr_caseSensitive :: int
  dr_catalogName :: int
  dr_conciseType :: int
  dr_dataPtr :: int
  dr_datetimeIntervalCode :: int
  dr_datetimeIntervalPrecision :: int
  dr_displaySize :: int
  dr_fixedPrecScale :: int
  dr_indicatorPtr :: int
  dr_label :: int
  dr_length :: int
  dr_literalPrefix :: int
  dr_literalSuffix :: int
  dr_localTypeName :: int
  dr_name :: int
  dr_nullable :: int
  dr_numPrecRadix :: int
  dr_octetLength :: int
  dr_octetLengthPtr :: int
  dr_parameterType :: int
  dr_precision :: int
  dr_rowver :: int
  dr_scale :: int
  dr_schemaName :: int
  dr_searchable :: int
  dr_tableName :: int
  dr_type :: int
  dr_typeName :: int
  dr_unnamed :: int
  dr_descUnsigned :: int
  dr_updatable :: int

datatype desc_type = ARD | APD | IRD | IPD | DescType_UNKNOWN

text \<open>A record the map creates on first access has all its members zero.\<close>

definition zero_record :: desc_record where
  "zero_record =
     \<lparr>dr_autoUniqueValue = 0, dr_baseColumnName = 0, dr_baseTableName = 0, dr_caseSensitive = 0, dr_catalogName = 0, dr_conciseType = 0, dr_dataPtr = 0,
      dr_datetimeIntervalCode = 0, dr_datetimeIntervalPrecision = 0, dr_displaySize = 0, dr_fixedPrecScale = 0, dr_indicatorPtr = 0, dr_label = 0,
      dr_length = 0, dr_literalPrefix = 0, dr_literalSuffix = 0, dr_localTypeName = 0, dr_name = 0, dr_nullable = 0, dr_numPrecRadix = 0,
      dr_octetLength = 0, dr_octetLengthPtr = 0, dr_parameterType = 0, dr_precision = 0, dr_rowver = 0, dr_scale = 0,
      dr_schemaName = 0, dr_searchable = 0, dr_tableName = 0, dr_type = 0, dr_typeName = 0, dr_unnamed = 0, dr_descUnsigned = 0, dr_updatable = 0\<rparr>"

record descriptor =
  desc_kind :: desc_type
  desc_conn :: "nat option"
  desc_stmt :: "nat option"
  desc_head :: desc_header
  desc_records :: "int \<Rightarrow> desc_record option"
  desc_diag :: diag_storage

text \<open>A new descriptor; its header is not initialised by the constructor.\<close>

definition NewDescriptor :: "desc_header \<Rightarrow> descriptor" where
  "NewDescriptor h =
     \<lparr>desc_kind = DescType_UNKNOWN, desc_conn = None, desc_stmt = None, desc_head = h,
      desc_records = Map.empty, desc_diag = DiagnosticRecordStorage\<rparr>"

definition InitAppHead :: "bool \<Rightarrow> descriptor \<Rightarrow> descriptor" where
  "InitAppHead implicit d =
     d\<lparr>desc_head := (desc_head d)
         \<lparr>allocType := if implicit then SQL_DESC_ALLOC_AUTO else SQL_DESC_ALLOC_USER, arraySize := 1,
          arrayStatusPtr := 0, bindOffsetPtr := 0, bindType := SQL_BIND_BY_COLUMN, dh_count := 0\<rparr>\<rparr>"

definition InitImpHead :: "descriptor \<Rightarrow> descriptor" where
  "InitImpHead d =
     d\<lparr>desc_head := (desc_head d)
         \<lparr>allocType := SQL_DESC_ALLOC_AUTO, arrayStatusPtr := 0, dh_count := 0, rowsProcessedPtr := 0\<rparr>\<rparr>"

definition get_record :: "int \<Rightarrow> descriptor \<Rightarrow> desc_record" where
  "get_record n d = (case desc_records d n of None \<Rightarrow> zero_record | Some r \<Rightarrow> r)"

definition put_record :: "int \<Rightarrow> desc_record \<Rightarrow> descriptor \<Rightarrow> descriptor" where
  "put_record n r d = d\<lparr>desc_records := (desc_records d)(n \<mapsto> r)\<rparr>"

definition desc_warn :: "sql_state \<Rightarrow> string \<Rightarrow> descriptor \<Rightarrow> descriptor" where
  "desc_warn st msg d = d\<lparr>desc_diag := AddStatusRecord st msg (desc_diag d)\<rparr>"

section \<open>Names\<close>

definition DescTypeToString :: "desc_type \<Rightarrow> string" where
  "DescTypeToString t =
     (case t of ARD \<Rightarrow> ''ARD'' | APD \<Rightarrow> ''APD'' | IRD \<Rightarrow> ''IRD'' | IPD \<Rightarrow> ''IPD'' | DescType_UNKNOWN \<Rightarrow> ''UNKNOWN'')"

definition field_names :: "(int \<times> string) list" where
  "field_names =
    [(SQL_DESC_ALLOC_TYPE, ''SQL_DESC_ALLOC_TYPE''),
     (SQL_DESC_ARRAY_SIZE, ''SQL_DESC_ARRAY_SIZE''),
     (SQL_DESC_ARRAY_STATUS_PTR, ''SQL_DESC_ARRAY_STATUS_PTR''),
     (SQL_DESC_BIND_OFFSET_PTR, ''SQL_DESC_BIND_OFFSET_PTR''),
     (SQL_DESC_BIND_TYPE, ''SQL_DESC_BIND_TYPE''),
     (SQL_DESC_COUNT, ''SQL_DESC_COUNT''),
     (SQL_DESC_ROWS_PROCESSED_PTR, ''SQL_DESC_ROWS_PROCESSED_PTR''),
     (SQL_DESC_AUTO_UNIQUE_VALUE, ''SQL_DESC_AUTO_UNIQUE_VALUE''),
     (SQL_DESC_BASE_COLUMN_NAME, ''SQL_DESC_BASE_COLUMN_NAME''),
     (SQL_DESC_BASE_TABLE_NAME, ''SQL_DESC_BASE_TABLE_NAME''),
     (SQL_DESC_CASE_SENSITIVE, ''SQL_DESC_CASE_SENSITIVE''),
     (SQL_DESC_CATALOG_NAME, ''SQL_DESC_CATALOG_NAME''),
     (SQL_DESC_CONCISE_TYPE, ''SQL_DESC_CONCISE_TYPE''),
     (SQL_DESC_DATA_PTR, ''SQL_DESC_DATA_PTR''),
     (SQL_DESC_DATETIME_INTERVAL_CODE, ''SQL_DESC_DATETIME_INTERVAL_CODE''),
     (SQL_DESC_DATETIME_INTERVAL_PRECISION, ''SQL_DESC_DATETIME_INTERVAL_PRECISION''),
     (SQL_DESC_DISPLAY_SIZE, ''SQL_DESC_DISPLAY_SIZE''),
     (SQL_DESC_FIXED_PREC_SCALE, ''SQL_DESC_FIXED_PREC_SCALE''),
     (SQL_DESC_INDICATOR_PTR, ''SQL_DESC_INDICATOR_PTR''),
     (SQL_DESC_LABEL, ''SQL_DESC_LABEL''),
     (SQL_DESC_LENGTH, ''SQL_DESC_LENGTH''),
     (SQL_DESC_LITERAL_PREFIX, ''SQL_DESC_LITERAL_PREFIX''),
     (SQL_DESC_LITERAL_SUFFIX, ''SQL_DESC_LITERAL_SUFFIX''),
     (SQL_DESC_LOCAL_TYPE_NAME, ''SQL_DESC_LOCAL_TYPE_NAME''),
     (SQL_DESC_NAME, ''SQL_DESC_NAME''),
     (SQL_DESC_NULLABLE, ''SQL_DESC_NULLABLE''),
     (SQL_DESC_NUM_PREC_RADIX, ''SQL_DESC_NUM_PREC_RADIX''),
     (SQL_DESC_OCTET_LENGTH, ''SQL_DESC_OCTET_LENGTH''),
     (SQL_DESC_OCTET_LENGTH_PTR, ''SQL_DESC_OCTET_LENGTH_PTR''),
     (SQL_DESC_PARAMETER_TYPE, ''SQL_DESC_PARAMETER_TYPE''),
     (SQL_DESC_PRECISION, ''SQL_DESC_PRECISION''),
     (SQL_DESC_ROWVER, ''SQL_DESC_ROWVER''),
     (SQL_DESC_SCALE, ''SQL_DESC_SCALE''),
     (SQL_DESC_SCHEMA_NAME, ''SQL_DESC_SCHEMA_NAME''),
     (SQL_DESC_SEARCHABLE, ''SQL_DESC_SEARCHABLE''),
     (SQL_DESC_TABLE_NAME, ''SQL_DESC_TABLE_NAME''),
     (SQL_DESC_TYPE, ''SQL_DESC_TYPE''),
     (SQL_DESC_TYPE_NAME, ''SQL_DESC_TYPE_NAME''),
     (SQL_DESC_UNNAMED, ''SQL_DESC_UNNAMED''),
     (SQL_DESC_UNSIGNED, ''SQL_DESC_UNSIGNED''),
     (SQL_DESC_UPDATABLE, ''SQL_DESC_UPDATABLE'')]"

definition FieldIdToString :: "int \<Rightarrow> string" where
  "FieldIdToString f = (case map_of field_names f of None \<Rightarrow> ''UNKNOWN_FIELD_ID'' | Some s \<Rightarrow> s)"

definition type_names :: "(int \<times> string) list" where
  "type_names =
    [(SQL_CHAR, ''SQL_CHAR''),
     (SQL_VARCHAR, ''SQL_VARCHAR''),
     (SQL_LONGVARCHAR, ''SQL_LONGVARCHAR''),
     (SQL_WCHAR, ''SQL_WCHAR''),
     (SQL_WVARCHAR, ''SQL_WVARCHAR''),
     (SQL_WLONGVARCHAR, ''SQL_WLONGVARCHAR''),
     (SQL_DECIMAL, ''SQL_DECIMAL''),
     (SQL_NUMERIC, ''SQL_NUMERIC''),
     (SQL_SMALLINT, ''SQL_SMALLINT''),
     (SQL_INTEGER, ''SQL_INTEGER''),
     (SQL_REAL, ''SQL_REAL''),
     (SQL_FLOAT, ''SQL_FLOAT''),
     (SQL_DOUBLE, ''SQL_DOUBLE''),
     (SQL_BIT, ''SQL_BIT''),
     (SQL_TINYINT, ''SQL_TINYINT''),
     (SQL_BIGINT, ''SQL_BIGINT''),
     (SQL_TYPE_DATE, ''SQL_TYPE_DATE''),
     (SQL_TYPE_TIME, ''SQL_TYPE_TIME''),
     (SQL_TYPE_TIMESTAMP, ''SQL_TYPE_TIMESTAMP''),
     (SQL_INTERVAL_YEAR, ''SQL_INTERVAL_YEAR''),
     (SQL_INTERVAL_MONTH, ''SQL_INTERVAL_MONTH''),
     (SQL_INTERVAL_DAY, ''SQL_INTERVAL_DAY''),
     (SQL_INTERVAL_HOUR, ''SQL_INTERVAL_HOUR''),
     (SQL_INTERVAL_MINUTE, ''SQL_INTERVAL_MINUTE''),
     (SQL_INTERVAL_SECOND, ''SQL_INTERVAL_SECOND''),
     (SQL_INTERVAL_YEAR_TO_MONTH, ''SQL_INTERVAL_YEAR_TO_MONTH''),
     (SQL_INTERVAL_DAY_TO_HOUR, ''SQL_INTERVAL_DAY_TO_HOUR''),
     (SQL_INTERVAL_DAY_TO_MINUTE, ''SQL_INTERVAL_DAY_TO_MINUTE''),
     (SQL_INTERVAL_DAY_TO_SECOND, ''SQL_INTERVAL_DAY_TO_SECOND''),
     (SQL_INTERVAL_HOUR_TO_MINUTE, ''SQL_INTERVAL_HOUR_TO_MINUTE''),
     (SQL_INTERVAL_HOUR_TO_SECOND, ''SQL_INTERVAL_HOUR_TO_SECOND''),
     (SQL_INTERVAL_MINUTE_TO_SECOND, ''SQL_INTERVAL_MINUTE_TO_SECOND''),
     (SQL_DATETIME, ''SQL_DATETIME''),
     (SQL_INTERVAL, ''SQL_INTERVAL''),
     (SQL_GUID, ''SQL_GUID'')]"

definition SQLTypeToString :: "int \<Rightarrow> string" where
  "SQLTypeToString t = (case map_of type_names t of None \<Rightarrow> int_str t | Some s \<Rightarrow> s)"

definition code_names :: "(int \<times> string) list" where
  "code_names =
    [(SQL_CODE_DATE, ''SQL_CODE_DATE''),
     (SQL_CODE_TIME, ''SQL_CODE_TIME''),
     (SQL_CODE_TIMESTAMP, ''SQL_CODE_TIMESTAMP''),
     (SQL_CODE_DAY_TO_HOUR, ''SQL_CODE_DAY_TO_HOUR''),
     (SQL_CODE_DAY_TO_MINUTE, ''SQL_CODE_DAY_TO_MINUTE''),
     (SQL_CODE_DAY_TO_SECOND, ''SQL_CODE_DAY_TO_SECOND''),
     (SQL_CODE_HOUR, ''SQL_CODE_HOUR''),
     (SQL_CODE_HOUR_TO_MINUTE, ''SQL_CODE_HOUR_TO_MINUTE''),
     (SQL_CODE_HOUR_TO_SECOND, ''SQL_CODE_HOUR_TO_SECOND''),
     (SQL_CODE_MINUTE, ''SQL_CODE_MINUTE''),
     (SQL_CODE_MINUTE_TO_SECOND, ''SQL_CODE_MINUTE_TO_SECOND''),
     (SQL_CODE_SECOND, ''SQL_CODE_SECOND''),
     (SQL_CODE_YEAR_TO_MONTH, ''SQL_CODE_YEAR_TO_MONTH'')]"

definition IntervalCodeToString :: "int \<Rightarrow> string" where
  "IntervalCodeToString c = (case map_of code_names c of None \<Rightarrow> int_str c | Some s \<Rightarrow> s)"

section \<open>Checks and derived members\<close>

definition IsValidConciseType :: "int \<Rightarrow> bool" where
  "IsValidConciseType v \<longleftrightarrow>
     v \<in> {SQL_CHAR, SQL_VARCHAR, SQL_LONGVARCHAR, SQL_WCHAR, SQL_WVARCHAR, SQL_WLONGVARCHAR,
           SQL_DECIMAL, SQL_NUMERIC, SQL_SMALLINT, SQL_INTEGER, SQL_REAL, SQL_FLOAT, SQL_DOUBLE,
           SQL_BIT, SQL_TINYINT, SQL_BIGINT, SQL_TYPE_DATE, SQL_TYPE_TIME, SQL_TYPE_TIMESTAMP,
           SQL_INTERVAL_YEAR_TO_MONTH, SQL_INTERVAL_DAY_TO_SECOND}"

definition IsValidType :: "int \<Rightarrow> bool" where
  "IsValidType v \<longleftrightarrow>
     v \<in> {SQL_CHAR, SQL_VARCHAR, SQL_LONGVARCHAR, SQL_WCHAR, SQL_WVARCHAR, SQL_WLONGVARCHAR,
           SQL_DECIMAL, SQL_NUMERIC, SQL_SMALLINT, SQL_INTEGER, SQL_REAL, SQL_FLOAT, SQL_DOUBLE,
           SQL_BIT, SQL_TINYINT, SQL_BIGINT, SQL_DATETIME, SQL_INTERVAL}"

definition IsValidIntervalCode :: "desc_record \<Rightarrow> int \<Rightarrow> bool" where
  "IsValidIntervalCode r v \<longleftrightarrow>
     (if dr_type r = SQL_DATETIME then v \<in> {SQL_CODE_DATE, SQL_CODE_TIME, SQL_CODE_TIMESTAMP}
      else if dr_type r = SQL_INTERVAL then v \<in> {SQL_CODE_YEAR_TO_MONTH, SQL_CODE_DAY_TO_SECOND}
      else False)"

definition SetConciseType :: "int \<Rightarrow> desc_record \<Rightarrow> desc_record" where
  "SetConciseType v r0 =
     (let r = r0\<lparr>dr_conciseType := v\<rparr> in
      if v \<in> {SQL_TYPE_DATE, SQL_TYPE_TIME, SQL_TYPE_TIMESTAMP} then
        r\<lparr>dr_type := SQL_DATETIME,
          dr_datetimeIntervalCode :=
            (if v = SQL_TYPE_DATE then SQL_CODE_DATE
             else if v = SQL_TYPE_TIME then SQL_CODE_TIME else SQL_CODE_TIMESTAMP)\<rparr>
      else if v \<in> {SQL_INTERVAL_YEAR_TO_MONTH, SQL_INTERVAL_DAY_TO_SECOND} then
        r\<lparr>dr_type := SQL_INTERVAL,
          dr_datetimeIntervalCode :=
            (if v = SQL_INTERVAL_YEAR_TO_MONTH then SQL_CODE_YEAR_TO_MONTH else SQL_CODE_DAY_TO_SECOND)\<rparr>
      else r\<lparr>dr_type := v, dr_datetimeIntervalCode := 0\<rparr>)"

definition SetDescType :: "int \<Rightarrow> desc_record \<Rightarrow> desc_record" where
  "SetDescType v r0 =
     (let r1 = r0\<lparr>dr_type := v\<rparr>;
          r2 = (if v \<noteq> SQL_DATETIME \<and> v \<noteq> SQL_INTERVAL
                then r1\<lparr>dr_conciseType := v, dr_datetimeIntervalCode := 0\<rparr> else r1);
          r3 = (if v = SQL_CHAR \<or> v = SQL_VARCHAR then r2\<lparr>dr_length := 1, dr_precision := 0\<rparr> else r2);
          r4 = (if v = SQL_DATETIME then
                  (if dr_datetimeIntervalCode r3 = SQL_CODE_DATE \<or> dr_datetimeIntervalCode r3 = SQL_CODE_TIME
                   then r3\<lparr>dr_precision := 0\<rparr>
                   else if dr_datetimeIntervalCode r3 = SQL_CODE_TIMESTAMP then r3\<lparr>dr_precision := 6\<rparr>
                   else r3)
                else r3);
          r5 = (if v = SQL_DECIMAL \<or> v = SQL_NUMERIC then r4\<lparr>dr_scale := 0, dr_precision := 15\<rparr> else r4);
          r6 = (if v = SQL_FLOAT then r5\<lparr>dr_precision := 6\<rparr> else r5);
          r7 = (if v = SQL_INTERVAL \<and> dr_datetimeIntervalCode r6 = SQL_CODE_YEAR_TO_MONTH
                then r6\<lparr>dr_precision := 2\<rparr> else r6)
      in if v = SQL_INTERVAL \<and> dr_datetimeIntervalCode r7 = SQL_CODE_DAY_TO_SECOND
         then r7\<lparr>dr_precision := 6\<rparr> else r7)"

section \<open>Setting a field\<close>

definition to_uint64 :: "int \<Rightarrow> int" where
  "to_uint64 x = x mod 2 ^ 64"

definition char_types :: "int set" where
  "char_types = {SQL_CHAR, SQL_VARCHAR, SQL_LONGVARCHAR, SQL_WCHAR, SQL_WVARCHAR, SQL_WLONGVARCHAR}"

definition header_fields :: "int set" where
  "header_fields =
     {SQL_DESC_ALLOC_TYPE, SQL_DESC_ARRAY_SIZE, SQL_DESC_ARRAY_STATUS_PTR, SQL_DESC_BIND_OFFSET_PTR,
      SQL_DESC_BIND_TYPE, SQL_DESC_COUNT, SQL_DESC_ROWS_PROCESSED_PTR}"

text \<open>The third component names the column the owning statement unbinds. A null data pointer on a
  descriptor without a statement dereferences a null pointer: \<open>None\<close>.\<close>

definition desc_error :: "sql_state \<Rightarrow> string \<Rightarrow> descriptor \<Rightarrow> (sql_result \<times> descriptor \<times> int option) option"
  where
  "desc_error st msg d = Some (AI_ERROR, desc_warn st msg d, None)"

definition desc_ok :: "int \<Rightarrow> desc_record \<Rightarrow> descriptor \<Rightarrow> (sql_result \<times> descriptor \<times> int option) option"
  where
  "desc_ok n r d = Some (AI_SUCCESS, put_record n r d, None)"

definition InternalSetField ::
  "int \<Rightarrow> int \<Rightarrow> int \<Rightarrow> int \<Rightarrow> descriptor \<Rightarrow> (sql_result \<times> descriptor \<times> int option) option" where
  "InternalSetField recNum fieldId buffer bufferLen d0 =
     (if bufferLen < 0 \<and> bufferLen \<noteq> SQL_NTS \<and> bufferLen \<noteq> SQL_IS_POINTER then
        desc_error SHY000_GENERAL_ERROR (''Invalid buffer length '' @ int_str bufferLen) d0
      else
        let r = get_record recNum d0; d = put_record recNum r d0 in
        if fieldId \<in> header_fields then
          desc_error SHY091_INVALID_DESCR_FIELD_ID ''Invalid descriptor field id'' d
        else if fieldId = SQL_DESC_CONCISE_TYPE then
          (let v = to_int16 buffer in
           if \<not> IsValidConciseType v then
             desc_error SHY000_GENERAL_ERROR (''Invalid concise type '' @ SQLTypeToString v) d
           else desc_ok recNum (SetConciseType v r) d)
        else if fieldId = SQL_DESC_DATA_PTR then
          (if buffer = 0 then
             (case desc_stmt d of
                None \<Rightarrow> None
              | Some _ \<Rightarrow>
                  Some (AI_SUCCESS, put_record recNum (r\<lparr>dr_length := 0, dr_octetLength := 0\<rparr>) d, Some recNum))
           else desc_ok recNum
             (r\<lparr>dr_dataPtr := buffer, dr_length := to_uint64 bufferLen, dr_octetLength := bufferLen\<rparr>) d)
        else if fieldId = SQL_DESC_DATETIME_INTERVAL_CODE then
          (let code = to_int16 buffer in
           if \<not> IsValidIntervalCode r code then
             desc_error SHY000_GENERAL_ERROR
               (''Invalid interval code '' @ IntervalCodeToString code @ '' for type '' @ SQLTypeToString (dr_type r)) d
           else desc_ok recNum (r\<lparr>dr_datetimeIntervalCode := code\<rparr>) d)
        else if fieldId = SQL_DESC_DATETIME_INTERVAL_PRECISION then
          (if dr_type r \<noteq> SQL_INTERVAL then
             desc_error SHY000_GENERAL_ERROR
               ''Interval precision could only be set when SQL_DESC_TYPE is set to SQL_INTERVAL'' d
           else desc_ok recNum (r\<lparr>dr_datetimeIntervalPrecision := to_int32 buffer\<rparr>) d)
        else if fieldId = SQL_DESC_INDICATOR_PTR then desc_ok recNum (r\<lparr>dr_indicatorPtr := buffer\<rparr>) d
        else if fieldId = SQL_DESC_OCTET_LENGTH_PTR then desc_ok recNum (r\<lparr>dr_octetLengthPtr := buffer\<rparr>) d
        else if fieldId \<in> {SQL_DESC_OCTET_LENGTH, SQL_DESC_LENGTH} then
          (if dr_conciseType r \<in> char_types then
             desc_ok recNum
               (r\<lparr>dr_length := to_uint64 buffer, dr_octetLength := to_int64 (to_uint64 buffer)\<rparr>) d
           else desc_error SHY000_GENERAL_ERROR
             (''SQL_DESC_LENGTH could not be set for fixed length type ''
               @ SQLTypeToString (dr_conciseType r)) d)
        else if fieldId = SQL_DESC_TYPE then
          (let v = to_int16 buffer in
           if \<not> IsValidType v then
             desc_error SHY000_GENERAL_ERROR (''Invalid type '' @ SQLTypeToString v) d
           else desc_ok recNum (SetDescType v r) d)
        else desc_error SHY000_GENERAL_ERROR (''Unsupported fieldId '' @ int_str fieldId) d)"

section \<open>Getting a field\<close>

text \<open>The cases of the switch: the descriptor types that may read the field (none listed: all of them)
  and the member it reads.\<close>

definition desc_fields :: "(int \<times> desc_type list \<times> (desc_header \<Rightarrow> desc_record \<Rightarrow> int)) list" where
  "desc_fields =
    [
     (SQL_DESC_ALLOC_TYPE, [], \<lambda>h r. allocType h),
     (SQL_DESC_ARRAY_SIZE, [ARD, APD], \<lambda>h r. arraySize h),
     (SQL_DESC_ARRAY_STATUS_PTR, [], \<lambda>h r. arrayStatusPtr h),
     (SQL_DESC_BIND_OFFSET_PTR, [ARD, APD], \<lambda>h r. bindOffsetPtr h),
     (SQL_DESC_BIND_TYPE, [ARD, APD], \<lambda>h r. bindType h),
     (SQL_DESC_COUNT, [], \<lambda>h r. dh_count h),
     (SQL_DESC_ROWS_PROCESSED_PTR, [IRD, IPD], \<lambda>h r. rowsProcessedPtr h),
     (SQL_DESC_AUTO_UNIQUE_VALUE, [IRD], \<lambda>h r. dr_autoUniqueValue r),
     (SQL_DESC_BASE_COLUMN_NAME, [IRD], \<lambda>h r. dr_baseColumnName r),
     (SQL_DESC_BASE_TABLE_NAME, [IRD], \<lambda>h r. dr_baseTableName r),
     (SQL_DESC_CASE_SENSITIVE, [IRD, IPD], \<lambda>h r. dr_caseSensitive r),
     (SQL_DESC_CATALOG_NAME, [IRD], \<lambda>h r. dr_catalogName r),
     (SQL_DESC_CONCISE_TYPE, [], \<lambda>h r. dr_conciseType r),
     (SQL_DESC_DATA_PTR, [ARD, APD], \<lambda>h r. dr_dataPtr r),
     (SQL_DESC_DATETIME_INTERVAL_CODE, [], \<lambda>h r. dr_datetimeIntervalCode r),
     (SQL_DESC_DATETIME_INTERVAL_PRECISION, [], \<lambda>h r. dr_datetimeIntervalPrecision r),
     (SQL_DESC_DISPLAY_SIZE, [IRD], \<lambda>h r. dr_displaySize r),
     (SQL_DESC_FIXED_PREC_SCALE, [IRD, IPD], \<lambda>h r. dr_fixedPrecScale r),
     (SQL_DESC_INDICATOR_PTR, [ARD, APD], \<lambda>h r. dr_indicatorPtr r),
     (SQL_DESC_LABEL, [IRD], \<lambda>h r. dr_label r),
     (SQL_DESC_LENGTH, [], \<lambda>h r. dr_length r),
     (SQL_DESC_LITERAL_PREFIX, [IRD], \<lambda>h r. dr_literalPrefix r),
     (SQL_DESC_LITERAL_SUFFIX, [IRD], \<lambda>h r. dr_literalSuffix r),
     (SQL_DESC_LOCAL_TYPE_NAME, [IRD, IPD], \<lambda>h r. dr_localTypeName r),
     (SQL_DESC_NAME, [IRD, IPD], \<lambda>h r. dr_name r),
     (SQL_DESC_NULLABLE, [IRD, IPD], \<lambda>h r. dr_nullable r),
     (SQL_DESC_NUM_PREC_RADIX, [], \<lambda>h r. dr_numPrecRadix r),
     (SQL_DESC_OCTET_LENGTH, [], \<lambda>h r. dr_octetLength r),
     (SQL_DESC_OCTET_LENGTH_PTR, [ARD, APD], \<lambda>h r. dr_octetLengthPtr r),
     (SQL_DESC_PARAMETER_TYPE, [IPD], \<lambda>h r. dr_parameterType r),
     (SQL_DESC_PRECISION, [], \<lambda>h r. dr_precision r),
     (SQL_DESC_ROWVER, [IRD, IPD], \<lambda>h r. dr_rowver r),
     (SQL_DESC_SCALE, [], \<lambda>h r. dr_scale r),
     (SQL_DESC_SCHEMA_NAME, [IRD], \<lambda>h r. dr_schemaName r),
     (SQL_DESC_SEARCHABLE, [IRD], \<lambda>h r. dr_searchable r),
     (SQL_DESC_TABLE_NAME, [IRD], \<lambda>h r. dr_tableName r),
     (SQL_DESC_TYPE, [], \<lambda>h r. dr_type r),
     (SQL_DESC_TYPE_NAME, [IRD, IPD], \<lambda>h r. dr_typeName r),
     (SQL_DESC_UNNAMED, [IRD, IPD], \<lambda>h r. dr_unnamed r),
     (SQL_DESC_UNSIGNED, [IRD, IPD], \<lambda>h r. dr_descUnsigned r),
     (SQL_DESC_UPDATABLE, [IRD], \<lambda>h r. dr_updatable r)]"

definition InternalGetField :: "int \<Rightarrow> int \<Rightarrow> descriptor \<Rightarrow> sql_result \<times> int option \<times> descriptor" where
  "InternalGetField recNum fieldId d0 =
     (let r = get_record recNum d0; d = put_record recNum r d0 in
      case map_of desc_fields fieldId of
        None \<Rightarrow>
          (AI_ERROR, None, desc_warn SHY000_GENERAL_ERROR (''Unsupported fieldId '' @ int_str fieldId) d)
      | Some (allowed, get) \<Rightarrow>
          if allowed \<noteq> [] \<and> desc_kind d \<notin> set allowed then
            (AI_ERROR, None, desc_warn SHY000_GENERAL_ERROR
              (''Current descriptor type '' @ DescTypeToString (desc_kind d)
                @ '' is not allowed to get field '' @ FieldIdToString fieldId) d)
          else (AI_SUCCESS, Some (get (desc_head d) r), d))"

section \<open>Copying\<close>

text \<open>The header a copy starts from: all members zero.\<close>

definition zero_header :: desc_header where
  "zero_header =
     \<lparr>allocType = 0, arraySize = 0, arrayStatusPtr = 0, bindOffsetPtr = 0, bindType = 0, dh_count = 0,
      dh_rowsetSize = 0, rowsProcessedPtr = 0\<rparr>"

text \<open>\<^verbatim>\<open>src.CopyDesc(dst)\<close>: the result, the source (whose diagnostics report an error) and the copy.\<close>

definition InternalCopyDesc :: "descriptor \<Rightarrow> descriptor \<Rightarrow> sql_result \<times> descriptor \<times> descriptor" where
  "InternalCopyDesc s dst =
     (if desc_kind dst = IRD then
        (AI_ERROR, desc_warn SHY016_MODIFY_IRD ''Cannot modify an implementation row descriptor'' s, dst)
      else
        let d1 = dst\<lparr>desc_head := zero_header, desc_records := Map.empty\<rparr>;
            d2 = (if desc_kind s = ARD \<or> desc_kind s = APD then InitAppHead True d1 else InitImpHead d1)
        in (AI_SUCCESS, s,
            d2\<lparr>desc_kind := desc_kind s, desc_conn := desc_conn s, desc_stmt := desc_stmt s,
               desc_records := desc_records s\<rparr>))"

section \<open>Facts\<close>

lemma record_simps [simp]:
  "get_record n (put_record m r d) = (if n = m then r else get_record n d)"
  "desc_kind (put_record n r d) = desc_kind d"
  "desc_head (put_record n r d) = desc_head d"
  "get_record n (desc_warn st msg d) = get_record n d"
  "desc_stmt (put_record n r d) = desc_stmt d"
  by (simp_all add: get_record_def put_record_def desc_warn_def)

interpretation desc_diagnosable: diagnosable desc_diag "\<lambda>f d. d\<lparr>desc_diag := f (desc_diag d)\<rparr>"
  by unfold_locales simp

text \<open>The verbose type and the subcode that belong to a concise type.\<close>

definition verbose_of :: "int \<Rightarrow> int \<times> int" where
  "verbose_of v =
     (if v \<in> {SQL_TYPE_DATE, SQL_TYPE_TIME, SQL_TYPE_TIMESTAMP} then (SQL_DATETIME, v - 90)
      else if v \<in> {SQL_INTERVAL_YEAR_TO_MONTH, SQL_INTERVAL_DAY_TO_SECOND} then (SQL_INTERVAL, v - 100)
      else (v, 0))"

definition type_consistent :: "desc_record \<Rightarrow> bool" where
  "type_consistent r \<longleftrightarrow> (dr_type r, dr_datetimeIntervalCode r) = verbose_of (dr_conciseType r)"

lemma SetConciseType_consistent: "type_consistent (SetConciseType v r)"
  by (simp add: type_consistent_def verbose_of_def SetConciseType_def Let_def)

section \<open>Properties\<close>


text \<open> The verbose route is not consistent: setting the type to datetime and then the subcode to date
  succeeds twice but leaves the concise type as it was.\<close>

theorem verbose_type_keeps_stale_concise_type:
  "\<exists>d1 d2. InternalSetField n SQL_DESC_TYPE SQL_DATETIME 0 d = Some (AI_SUCCESS, d1, None)
    \<and> InternalSetField n SQL_DESC_DATETIME_INTERVAL_CODE SQL_CODE_DATE 0 d1 = Some (AI_SUCCESS, d2, None)
    \<and> dr_type (get_record n d2) = SQL_DATETIME \<and> dr_datetimeIntervalCode (get_record n d2) = SQL_CODE_DATE
    \<and> dr_conciseType (get_record n d2) = dr_conciseType (get_record n d)"
proof -
  have t: "to_int16 9 = 9" "to_int16 1 = 1" by (simp_all add: to_int16_def signed_take_bit_int_eq_self)
  have s: "dr_type (SetDescType 9 r) = 9" "dr_conciseType (SetDescType 9 r) = dr_conciseType r" for r
    by (simp_all add: SetDescType_def Let_def)
  show ?thesis
    by (simp add: InternalSetField_def header_fields_def Let_def desc_ok_def t IsValidType_def
        IsValidIntervalCode_def s)
qed

text \<open> Setting one record never touches another, and a refused setting changes no record: only the
  diagnostics tell.\<close>

theorem SetField_frame:
  assumes "InternalSetField n f v len d = Some (r, d', u)"
  shows "(m \<noteq> n \<longrightarrow> get_record m d' = get_record m d) \<and> (r \<noteq> AI_SUCCESS \<longrightarrow> get_record m d' = get_record m d)
    \<and> desc_head d' = desc_head d \<and> desc_kind d' = desc_kind d \<and> (u \<noteq> None \<longrightarrow> u = Some n)"
proof -
  have w: "desc_head (desc_warn st msg x) = desc_head x" "desc_kind (desc_warn st msg x) = desc_kind x"
    for st msg x by (simp_all add: desc_warn_def)
  show ?thesis
    using assms
    by (auto simp: InternalSetField_def Let_def desc_error_def desc_ok_def w split: if_splits option.splits)
qed

definition blank :: descriptor where
  "blank = (InitAppHead False (NewDescriptor zero_header))\<lparr>desc_kind := ARD\<rparr>"

theorem SetField_frame_witness:
  "\<exists>d'. InternalSetField 1 SQL_DESC_INDICATOR_PTR 4096 0 blank = Some (AI_SUCCESS, d', None)
     \<and> get_record 2 d' = get_record 2 blank"
proof -
  have s: "InternalSetField 1 SQL_DESC_INDICATOR_PTR 4096 0 blank =
      Some (AI_SUCCESS, put_record 1 ((get_record 1 blank)\<lparr>dr_indicatorPtr := 4096\<rparr>)
        (put_record 1 (get_record 1 blank) blank), None)"
    by (simp add: InternalSetField_def header_fields_def Let_def desc_ok_def)
  show ?thesis
    using SetField_frame [OF s, of 2] s by simp
qed

text \<open> Copying a descriptor: an implementation row descriptor is refused and left alone; otherwise the
  copy has the records, the type and the owners of the source, but the header of a new descriptor,
  so that its record count is zero whatever the source counted.\<close>

theorem CopyDesc_copies_records_not_count:
  "InternalCopyDesc s dst =
     (if desc_kind dst = IRD
      then (AI_ERROR, desc_warn SHY016_MODIFY_IRD ''Cannot modify an implementation row descriptor'' s, dst)
      else (AI_SUCCESS, s, snd (snd (InternalCopyDesc s dst))))
   \<and> (desc_kind dst \<noteq> IRD \<longrightarrow>
       (let c = snd (snd (InternalCopyDesc s dst)) in
        desc_records c = desc_records s \<and> desc_kind c = desc_kind s \<and> desc_stmt c = desc_stmt s
        \<and> dh_count (desc_head c) = 0 \<and> allocType (desc_head c) = SQL_DESC_ALLOC_AUTO))"
  by (simp add: InternalCopyDesc_def Let_def InitAppHead_def InitImpHead_def)

theorem CopyDesc_copies_records_not_count_witness:
  "dh_count (desc_head (snd (snd (InternalCopyDesc
      (blank\<lparr>desc_head := (desc_head blank)\<lparr>dh_count := 3\<rparr>\<rparr>) blank)))) = 0"
proof -
  have "desc_kind blank \<noteq> IRD" by (simp add: blank_def)
  with CopyDesc_copies_records_not_count [of "blank\<lparr>desc_head := (desc_head blank)\<lparr>dh_count := 3\<rparr>\<rparr>" blank]
  show ?thesis by (simp add: Let_def)
qed

end
