(* ===== verification/App_Buffer.thy ===== *)
theory App_Buffer
  imports Type_Traits Data_Query
begin

text \<open>
  Application data buffers (\<^verbatim>\<open>src/app/application_data_buffer.cpp\<close>): the buffer and the indicator an
  application binds to a column, with their offsets, and the operations that write a value into
  the application's memory. Memory is a function from addresses to bytes, so that buffers may
  overlap; the targets are 64-bit and little-endian. Character output is that of the mode for ANSI
  strings (\<^verbatim>\<open>ANSI_STRING_ONLY\<close>), in which bytes are copied without conversion.
\<close>

section \<open>Memory\<close>

type_synonym memory = "int \<Rightarrow> 8 word"

fun write_bytes :: "int \<Rightarrow> 8 word list \<Rightarrow> memory \<Rightarrow> memory" where
  "write_bytes a [] m = m"
| "write_bytes a (b # bs) m = write_bytes (a + 1) bs (m(a := b))"

definition read_bytes :: "int \<Rightarrow> nat \<Rightarrow> memory \<Rightarrow> 8 word list" where
  "read_bytes a n m = map (\<lambda>i. m (a + int i)) [0..<n]"

text \<open>The bytes of an integer of the given width, least significant first, and their reading.\<close>

fun le_bytes :: "nat \<Rightarrow> int \<Rightarrow> 8 word list" where
  "le_bytes 0 v = []"
| "le_bytes (Suc n) v = word_of_int v # le_bytes n (v div 256)"

fun le_val :: "8 word list \<Rightarrow> int" where
  "le_val [] = 0"
| "le_val (b # bs) = uint b + 256 * le_val bs"

definition str_bytes :: "string \<Rightarrow> 8 word list" where
  "str_bytes s = map (\<lambda>c. word_of_nat (char_code c)) s"

lemma length_le_bytes [simp]: "length (le_bytes n v) = n"
  by (induction n arbitrary: v) simp_all

lemma write_bytes_outside: "x < a \<or> a + int (length bs) \<le> x \<Longrightarrow> write_bytes a bs m x = m x"
  by (induction bs arbitrary: a m) auto

lemma write_bytes_inside: "i < length bs \<Longrightarrow> write_bytes a bs m (a + int i) = bs ! i"
proof (induction bs arbitrary: a m i)
  case (Cons b bs)
  show ?case
  proof (cases i)
    case 0
    then show ?thesis by (simp add: write_bytes_outside)
  next
    case (Suc j)
    with Cons have "write_bytes (a + 1) bs (m(a := b)) (a + 1 + int j) = bs ! j" by simp
    with Suc show ?thesis by (simp add: algebra_simps)
  qed
qed simp

lemma read_write_bytes: "read_bytes a (length bs) (write_bytes a bs m) = bs"
  by (rule nth_equalityI) (simp_all add: read_bytes_def write_bytes_inside)

lemma read_bytes_outside:
  "a + int n \<le> b \<or> b + int (length bs) \<le> a \<Longrightarrow> read_bytes a n (write_bytes b bs m) = read_bytes a n m"
  by (auto simp: read_bytes_def write_bytes_outside)

lemma le_val_le_bytes: "le_val (le_bytes n v) = v mod 256 ^ n"
proof (induction n arbitrary: v)
  case (Suc n)
  have "v mod (256 * 256 ^ n) = 256 * (v div 256 mod 256 ^ n) + v mod 256"
    by (rule zmod_zmult2_eq) simp
  with Suc show ?case
    by (simp add: uint_word_of_int_eq take_bit_eq_mod algebra_simps)
qed simp

section \<open>Buffers\<close>

record app_buffer =
  ab_type :: odbc_native_type
  ab_buffer :: int
  ab_buflen :: int
  ab_reslen :: int
  byteOffset :: int
  ab_cellOffset :: int
  elementOffset :: int

definition ApplicationDataBuffer :: "odbc_native_type \<Rightarrow> int \<Rightarrow> int \<Rightarrow> int \<Rightarrow> app_buffer" where
  "ApplicationDataBuffer ty buf len ind =
     \<lparr>ab_type = ty, ab_buffer = buf, ab_buflen = len, ab_reslen = ind, byteOffset = 0,
      ab_cellOffset = - 1, elementOffset = 0\<rparr>"

definition SetByteOffset :: "int \<Rightarrow> app_buffer \<Rightarrow> app_buffer" where
  "SetByteOffset off b = b\<lparr>byteOffset := off\<rparr>"

definition SetElementOffset :: "int \<Rightarrow> app_buffer \<Rightarrow> app_buffer" where
  "SetElementOffset i b = b\<lparr>elementOffset := i\<rparr>"

definition SetCellOffset :: "int \<Rightarrow> app_buffer \<Rightarrow> app_buffer" where
  "SetCellOffset off b = b\<lparr>ab_cellOffset := off\<rparr>"

definition GetElementSize :: "app_buffer \<Rightarrow> int" where
  "GetElementSize b =
     (case ab_type b of
        AI_WCHAR \<Rightarrow> ab_buflen b | AI_CHAR \<Rightarrow> ab_buflen b | AI_BINARY \<Rightarrow> ab_buflen b
      | AI_SIGNED_SHORT \<Rightarrow> 2 | AI_UNSIGNED_SHORT \<Rightarrow> 2
      | AI_SIGNED_LONG \<Rightarrow> 4 | AI_UNSIGNED_LONG \<Rightarrow> 4
      | AI_FLOAT \<Rightarrow> 4 | AI_DOUBLE \<Rightarrow> 8
      | AI_SIGNED_TINYINT \<Rightarrow> 1 | AI_BIT \<Rightarrow> 1 | AI_UNSIGNED_TINYINT \<Rightarrow> 1
      | AI_SIGNED_BIGINT \<Rightarrow> 8 | AI_UNSIGNED_BIGINT \<Rightarrow> 8
      | AI_TDATE \<Rightarrow> 6 | AI_TTIME \<Rightarrow> 6 | AI_TTIMESTAMP \<Rightarrow> 16 | AI_NUMERIC \<Rightarrow> 19
      | _ \<Rightarrow> 0)"

text \<open>A null pointer stays null whatever the offsets.\<close>

definition ApplyOffset :: "app_buffer \<Rightarrow> int \<Rightarrow> int \<Rightarrow> int" where
  "ApplyOffset b ptr elemSize = (if ptr = 0 then 0 else ptr + (byteOffset b + elemSize * elementOffset b))"

definition GetData :: "app_buffer \<Rightarrow> int" where
  "GetData b = ApplyOffset b (ab_buffer b) (GetElementSize b)"

definition GetResLen :: "app_buffer \<Rightarrow> int" where
  "GetResLen b = ApplyOffset b (ab_reslen b) 8"

definition store_len :: "int \<Rightarrow> int \<Rightarrow> memory \<Rightarrow> memory" where
  "store_len ptr v m = (if ptr = 0 then m else write_bytes ptr (le_bytes 8 v) m)"

section \<open>Writing values\<close>

definition PutNull :: "app_buffer \<Rightarrow> memory \<Rightarrow> conv_result \<times> memory" where
  "PutNull b m =
     (if GetResLen b = 0 then (Conv_INDICATOR_NEEDED, m)
      else (Conv_SUCCESS, store_len (GetResLen b) SQL_NULL_DATA m))"

text \<open>\<^verbatim>\<open>PutNumToNumBuffer<Tbuf>\<close> for an integer type of \<open>w\<close> bytes: the value is converted to the type, which
  keeps its low bytes.\<close>

definition PutNumToNumBuffer :: "nat \<Rightarrow> int \<Rightarrow> app_buffer \<Rightarrow> memory \<Rightarrow> conv_result \<times> memory" where
  "PutNumToNumBuffer w v b m =
     (let m1 = (if GetData b = 0 then m else write_bytes (GetData b) (le_bytes w v) m)
      in (Conv_SUCCESS, store_len (GetResLen b) (int w) m1))"

definition PutRawDataToBuffer :: "8 word list \<Rightarrow> app_buffer \<Rightarrow> memory \<Rightarrow> conv_result \<times> int \<times> memory" where
  "PutRawDataToBuffer bytes b m =
     (let iLen = int (length bytes);
          m1 = store_len (GetResLen b) iLen m;
          toCopy = min (ab_buflen b) iLen;
          m2 = (if GetData b \<noteq> 0 \<and> 0 < toCopy then write_bytes (GetData b) (take (nat toCopy) bytes) m1 else m1)
      in (if toCopy < iLen then Conv_VARLEN_DATA_TRUNCATED else Conv_SUCCESS, toCopy, m2))"

text \<open>\<^verbatim>\<open>CopyUtf8StringToSqlCharString\<close> in the mode for ANSI strings, on a text without zero bytes: bytes
  written, truncation, memory.\<close>

definition CopyUtf8StringToSqlCharString :: "string \<Rightarrow> int \<Rightarrow> nat \<Rightarrow> memory \<Rightarrow> nat \<times> bool \<times> memory" where
  "CopyUtf8StringToSqlCharString s out outLen m =
     (if outLen \<le> length s then
        (if 0 < outLen then min (length s) (outLen - 1) else 0, True,
         if 0 < outLen then write_bytes out (str_bytes (take (outLen - 1) s) @ [0]) m else m)
      else (min (length s) (outLen - 1), False, write_bytes out (str_bytes s @ [0]) m))"

text \<open>\<^verbatim>\<open>PutStrToStrBuffer<char>\<close>: the result, the bytes written, the buffer with its new cell offset and
  the memory. The cell offset of a buffer that is read in parts is the number of characters handed
  out so far. The buffer length is not negative.\<close>

definition PutStrToStrBuffer :: "string \<Rightarrow> app_buffer \<Rightarrow> memory \<Rightarrow> conv_result \<times> int \<times> app_buffer \<times> memory"
  where
  "PutStrToStrBuffer value b m =
     (let required = length value in
      if GetData b = 0 then (Conv_SUCCESS, 0, b, store_len (GetResLen b) (int required) m)
      else
        let current = (if 0 \<le> ab_cellOffset b then nat (ab_cellOffset b) else 0) in
        if required \<le> current then (Conv_NO_DATA, 0, b, m)
        else
          let (written, truncated, m1) =
                CopyUtf8StringToSqlCharString (drop current value) (GetData b) (nat (ab_buflen b)) m;
              total = current + written;
              remaining = (if total < required then required - total else required);
              m2 = store_len (GetResLen b) (int remaining) m1
          in if truncated
             then (Conv_VARLEN_DATA_TRUNCATED, int written, SetCellOffset (int current + (ab_buflen b - 1)) b, m2)
             else (Conv_SUCCESS, int written,
                   if 0 \<le> ab_cellOffset b then SetCellOffset (int total) b else b, m2))"

section \<open>Facts\<close>

lemma store_len_other:
  "ptr = 0 \<or> a + int n \<le> ptr \<or> ptr + 8 \<le> a \<Longrightarrow> read_bytes a n (store_len ptr v m) = read_bytes a n m"
  by (auto simp: store_len_def read_bytes_outside)

lemma store_len_read: "ptr \<noteq> 0 \<Longrightarrow> read_bytes ptr 8 (store_len ptr v m) = le_bytes 8 v"
  using read_write_bytes [of ptr "le_bytes 8 v" m] by (simp add: store_len_def)

lemma length_str_bytes [simp]: "length (str_bytes s) = length s"
  by (simp add: str_bytes_def)

lemma str_bytes_append: "str_bytes (s @ t) = str_bytes s @ str_bytes t"
  by (simp add: str_bytes_def)

text \<open>A copy stays inside the output buffer and leaves the text followed by a zero byte.\<close>

lemma copy_inside:
  assumes "CopyUtf8StringToSqlCharString s out n m = (w, tr, m')" and "x < out \<or> out + int n \<le> x"
  shows "m' x = m x"
  using assms
  by (auto simp: CopyUtf8StringToSqlCharString_def write_bytes_outside split: if_splits)

lemma copy_reads:
  assumes "CopyUtf8StringToSqlCharString s out n m = (w, tr, m')" and "0 < n"
  shows "w = min (length s) (n - 1) \<and> tr = (n \<le> length s) \<and> read_bytes out w m' = str_bytes (take w s)
    \<and> m' (out + int w) = 0"
proof -
  have w: "w = min (length s) (n - 1)" and tr: "tr = (n \<le> length s)"
    and m': "m' = write_bytes out (str_bytes (take w s) @ [0]) m"
    using assms by (auto simp: CopyUtf8StringToSqlCharString_def min_def split: if_splits)
  let ?bs = "str_bytes (take w s) @ [0 :: 8 word]"
  have len: "length ?bs = Suc w" using w by simp
  have "read_bytes out (Suc w) m' = ?bs"
    using read_write_bytes [of out ?bs m] by (simp only: m' len)
  then have "read_bytes out w m' @ [m' (out + int w)] = ?bs"
    by (simp add: read_bytes_def)
  then show ?thesis using w tr by simp
qed

section \<open>Properties\<close>


definition sample_buffer :: app_buffer where
  "sample_buffer = SetCellOffset 0 (ApplicationDataBuffer AI_CHAR 100 4 200)"


text \<open>The chunks \<open>n\<close> successive calls on one cell leave in the data buffer, each read back from memory.\<close>

fun read_parts :: "nat \<Rightarrow> string \<Rightarrow> app_buffer \<Rightarrow> memory \<Rightarrow> 8 word list list" where
  "read_parts 0 value b m = []"
| "read_parts (Suc n) value b m =
     (case PutStrToStrBuffer value b m of
        (Conv_NO_DATA, _, _, _) \<Rightarrow> []
      | (_, w, b', m') \<Rightarrow> read_bytes (GetData b) (nat w) m' # read_parts n value b' m')"

text \<open>Buffer and indicator do not overlap.\<close>

definition apart :: "app_buffer \<Rightarrow> bool" where
  "apart b \<longleftrightarrow> GetData b \<noteq> 0 \<and> (GetResLen b = 0 \<or> GetData b + ab_buflen b \<le> GetResLen b
     \<or> GetResLen b + 8 \<le> GetData b)"

lemma element_size_cell_offset: "GetElementSize (SetCellOffset k b) = GetElementSize b"
  by (cases "ab_type b") (simp_all add: SetCellOffset_def GetElementSize_def)

lemma cell_offset_frame:
  "GetData (SetCellOffset k b) = GetData b" "GetResLen (SetCellOffset k b) = GetResLen b"
  "ab_buflen (SetCellOffset k b) = ab_buflen b" "apart (SetCellOffset k b) = apart b"
  "ab_cellOffset (SetCellOffset k b) = k"
  using element_size_cell_offset [of k b]
  by (simp_all add: SetCellOffset_def GetData_def GetResLen_def ApplyOffset_def apart_def)

lemma one_part:
  assumes "apart b" and "ab_cellOffset b = int k" and "1 < ab_buflen b" and "k < length value"
  shows "\<exists>r w b' m'. PutStrToStrBuffer value b m = (r, int w, b', m')
    \<and> r = (if nat (ab_buflen b) \<le> length value - k then Conv_VARLEN_DATA_TRUNCATED else Conv_SUCCESS)
    \<and> w = min (length value - k) (nat (ab_buflen b) - 1)
    \<and> read_bytes (GetData b) w m' = str_bytes (take w (drop k value))
    \<and> b' = SetCellOffset (int (k + w)) b"
proof -
  let ?n = "nat (ab_buflen b)"
  obtain w tr m1 where c: "CopyUtf8StringToSqlCharString (drop k value) (GetData b) ?n m = (w, tr, m1)"
    by (metis prod_cases3)
  have n: "0 < ?n" using assms(3) by simp
  have C: "w = min (length value - k) (?n - 1)" "tr = (?n \<le> length value - k)"
    "read_bytes (GetData b) w m1 = str_bytes (take w (drop k value))"
    using copy_reads [OF c n] by auto
  have "int w < ab_buflen b" using C(1) assms(3) by auto
  then have keep: "read_bytes (GetData b) w (store_len (GetResLen b) v m1) = read_bytes (GetData b) w m1" for v
    using assms(1) by (intro store_len_other) (auto simp: apart_def)
  have tw: "int k + (ab_buflen b - 1) = int (k + w)" if tr using that C assms(3) by auto
  show ?thesis
    using assms c C keep tw
    by (cases tr) (simp_all add: PutStrToStrBuffer_def Let_def apart_def)
qed

lemma parts_of_value:
  assumes "apart b" and "ab_cellOffset b = int k" and "1 < ab_buflen b" and "k \<le> length value"
  shows "concat (read_parts n value b m) =
    str_bytes (take (n * (nat (ab_buflen b) - 1)) (drop k value))"
  using assms
proof (induction n arbitrary: b m k)
  case 0
  then show ?case by (simp add: str_bytes_def)
next
  case (Suc n)
  show ?case
  proof (cases "k < length value")
    case True
    let ?c = "nat (ab_buflen b) - 1"
    obtain r w b' m' where p: "PutStrToStrBuffer value b m = (r, int w, b', m')"
      and r: "r \<noteq> Conv_NO_DATA" and w: "w = min (length value - k) ?c"
      and rd: "read_bytes (GetData b) w m' = str_bytes (take w (drop k value))"
      and b': "b' = SetCellOffset (int (k + w)) b"
      using one_part [OF Suc.prems(1-3) True, of m] by (auto split: if_splits)
    have "k + w \<le> length value" using w True by simp
    then have "concat (read_parts n value b' m') = str_bytes (take (n * ?c) (drop (k + w) value))"
      using Suc.IH [of b' "k + w" m'] Suc.prems(1,3) by (simp only: b' cell_offset_frame)
    moreover have "take w (drop k value) @ take (n * ?c) (drop (k + w) value) =
        take (Suc n * ?c) (drop k value)"
    proof (cases "length value - k \<le> ?c")
      case True
      then show ?thesis using w by simp
    next
      case False
      then have "w = ?c" using w by simp
      then show ?thesis by (simp add: take_add add.commute)
    qed
    moreover have "read_parts (Suc n) value b m = read_bytes (GetData b) w m' # read_parts n value b' m'"
      using p r by (cases r) simp_all
    ultimately show ?thesis
      using rd by (metis concat.simps(2) str_bytes_append)
  next
    case False
    then have "k = length value" using Suc.prems by simp
    with Suc.prems show ?thesis
      by (simp add: PutStrToStrBuffer_def Let_def apart_def str_bytes_def)
  qed
qed



text \<open> An empty string is not delivered: the call reports no data and leaves the data buffer and the
  indicator as they were, so a bound buffer keeps the previous row's value.\<close>

theorem empty_string_leaves_buffer_stale:
  "GetData b \<noteq> 0 \<Longrightarrow> PutStrToStrBuffer [] b m = (Conv_NO_DATA, 0, b, m)"
  by (simp add: PutStrToStrBuffer_def Let_def)

theorem empty_string_leaves_buffer_stale_witness:
  "PutStrToStrBuffer [] sample_buffer (\<lambda>_. 7) = (Conv_NO_DATA, 0, sample_buffer, \<lambda>_. 7)"
  by (rule empty_string_leaves_buffer_stale)
    (simp add: sample_buffer_def SetCellOffset_def ApplicationDataBuffer_def GetData_def ApplyOffset_def
      GetElementSize_def)

text \<open> An integer written to a numeric buffer of \<open>w\<close> bytes is read back modulo \<open>256 ^ w\<close>, the indicator
  receives the width, and no byte outside both is touched.\<close>

theorem PutNumToNumBuffer_reads_back:
  assumes "GetData b \<noteq> 0" and "GetResLen b \<noteq> 0"
    and "GetData b + int w \<le> GetResLen b \<or> GetResLen b + 8 \<le> GetData b"
    and "PutNumToNumBuffer w v b m = (r, m')"
  shows "r = Conv_SUCCESS \<and> le_val (read_bytes (GetData b) w m') = v mod 256 ^ w
    \<and> le_val (read_bytes (GetResLen b) 8 m') = int w mod 256 ^ 8
    \<and> (x < GetData b \<or> GetData b + int w \<le> x \<longrightarrow> x < GetResLen b \<or> GetResLen b + 8 \<le> x \<longrightarrow> m' x = m x)"
proof -
  let ?m1 = "write_bytes (GetData b) (le_bytes w v) m"
  have m': "r = Conv_SUCCESS" "m' = store_len (GetResLen b) (int w) ?m1"
    using assms(1,4) by (simp_all add: PutNumToNumBuffer_def Let_def)
  have "read_bytes (GetData b) w m' = le_bytes w v"
    using assms(3) read_write_bytes [of "GetData b" "le_bytes w v" m]
    by (simp add: m' store_len_other)
  moreover have "read_bytes (GetResLen b) 8 m' = le_bytes 8 (int w)"
    using assms(2) by (simp add: m' store_len_read)
  ultimately show ?thesis
    using m'(1) assms(2) by (auto simp: m'(2) le_val_le_bytes store_len_def write_bytes_outside)
qed

theorem PutNumToNumBuffer_reads_back_witness:
  "le_val (read_bytes 100 2 (snd (PutNumToNumBuffer 2 70000
      (ApplicationDataBuffer AI_SIGNED_SHORT 100 2 200) (\<lambda>_. 0)))) = 4464"
proof -
  let ?b = "ApplicationDataBuffer AI_SIGNED_SHORT 100 2 200"
  have g: "GetData ?b = 100" "GetResLen ?b = 200"
    by (simp_all add: ApplicationDataBuffer_def GetData_def GetResLen_def ApplyOffset_def GetElementSize_def)
  obtain r m' where p: "PutNumToNumBuffer 2 70000 ?b (\<lambda>_. 0) = (r, m')" by (metis prod.exhaust)
  show ?thesis
    using PutNumToNumBuffer_reads_back [of ?b 2 70000 "\<lambda>_. 0" r m' 0] p g by simp
qed

end
