(* ===== verification/Column_Meta.thy ===== *)
theory Column_Meta
  imports Type_Traits
begin

text \<open>
  Column metadata (\<^verbatim>\<open>src/meta/column_meta.cpp\<close>): the description of one result column and the
  answers to \<^verbatim>\<open>SQLColAttribute\<close>, as text or as a number. The data type is the scalar type of the
  service. \<^verbatim>\<open>DATABASE_AS_SCHEMA\<close>, a setting of the process, is the argument \<open>asSchema\<close>.
\<close>

section \<open>Columns\<close>

datatype nullability_type = NO_NULL | NULLABLE | NULLABILITY_UNKNOWN

definition Nullability_ToSql :: "nullability_type option \<Rightarrow> int" where
  "Nullability_ToSql n =
     (case n of
        None \<Rightarrow> SQL_NULLABLE_UNKNOWN
      | Some NO_NULL \<Rightarrow> SQL_NO_NULLS
      | Some NULLABLE \<Rightarrow> SQL_NULLABLE
      | Some NULLABILITY_UNKNOWN \<Rightarrow> SQL_NULLABLE_UNKNOWN)"

record column_meta =
  catalogName :: "string option"
  schemaName :: "string option"
  tableName :: "string option"
  columnName :: "string option"
  remarks :: "string option"
  isAutoIncrement :: string
  cm_dataType :: "scalar_type option"
  cm_precision :: "int option"
  cm_decimalDigits :: "int option"
  cm_scale :: "int option"
  cm_nullability :: "nullability_type option"
  ordinalPosition :: "int option"

definition EmptyColumnMeta :: column_meta where
  "EmptyColumnMeta =
     \<lparr>catalogName = None, schemaName = None, tableName = None, columnName = None, remarks = None,
      isAutoIncrement = ''NO'', cm_dataType = None, cm_precision = Some (- 1), cm_decimalDigits = None,
      cm_scale = Some (- 1), cm_nullability = Some NULLABILITY_UNKNOWN, ordinalPosition = Some (- 1)\<rparr>"

definition ColumnMeta ::
  "bool \<Rightarrow> string \<Rightarrow> string \<Rightarrow> string \<Rightarrow> scalar_type \<Rightarrow> nullability_type \<Rightarrow> column_meta" where
  "ColumnMeta asSchema db tbl col ty nl =
     \<lparr>catalogName = (if asSchema then None else Some db),
      schemaName = (if asSchema then Some db else None),
      tableName = Some tbl, columnName = Some col, remarks = None, isAutoIncrement = ''NO'',
      cm_dataType = Some ty, cm_precision = Some (- 1), cm_decimalDigits = Some (- 1),
      cm_scale = Some (- 1), cm_nullability = Some nl, ordinalPosition = Some (- 1)\<rparr>"

definition GetScalarType :: "column_meta \<Rightarrow> scalar_type" where
  "GetScalarType c = (case cm_dataType c of None \<Rightarrow> Scalar_NOT_SET | Some t \<Rightarrow> t)"

definition GetScalarDataType :: "string \<Rightarrow> scalar_type" where
  "GetScalarDataType s =
     (if s = ''varchar'' then Scalar_VARCHAR
      else if s = ''bigint'' then Scalar_BIGINT
      else if s = ''double'' then Scalar_DOUBLE
      else if s = ''boolean'' then Scalar_BOOLEAN
      else if s = ''timestamp'' then Scalar_TIMESTAMP
      else if s = ''date'' then Scalar_DATE
      else if s = ''time'' then Scalar_TIME
      else if s = ''integer'' then Scalar_INTEGER
      else if s = ''interval day to second'' then Scalar_INTERVAL_DAY_TO_SECOND
      else if s = ''interval year to month'' then Scalar_INTERVAL_YEAR_TO_MONTH
      else Scalar_UNKNOWN)"

text \<open>\<^verbatim>\<open>Read\<close> fills a column from the three text cells of a row of \<^verbatim>\<open>DESCRIBE\<close>; it stops at the first
  cell that is not bound.\<close>

definition ReadColumn :: "(nat \<Rightarrow> string option) \<Rightarrow> int \<Rightarrow> column_meta \<Rightarrow> column_meta" where
  "ReadColumn cell pos c =
     (case cell 1 of None \<Rightarrow> c | Some n \<Rightarrow>
        let c1 = c\<lparr>columnName := Some n\<rparr> in
        (case cell 2 of None \<Rightarrow> c1 | Some t \<Rightarrow>
           let c2 = c1\<lparr>cm_dataType := Some (GetScalarDataType t)\<rparr> in
           (case cell 3 of None \<Rightarrow> c2 | Some r \<Rightarrow>
              c2\<lparr>remarks := Some r,
                cm_nullability := Some (if r = ''MEASURE_VALUE'' \<or> r = ''MULTI'' then NULLABLE else NO_NULL),
                ordinalPosition := Some pos\<rparr>)))"

text \<open>\<^verbatim>\<open>ReadMetadata\<close> takes name and scalar type from the column description of the service.\<close>

definition ReadMetadata :: "string \<Rightarrow> scalar_type option \<Rightarrow> column_meta \<Rightarrow> column_meta" where
  "ReadMetadata n t c =
     c\<lparr>columnName := Some n,
       cm_dataType := Some (case t of None \<Rightarrow> Scalar_VARCHAR | Some s \<Rightarrow> s)\<rparr>"

section \<open>Attributes\<close>

definition text_of :: "string option \<Rightarrow> string" where
  "text_of s = (case s of None \<Rightarrow> [] | Some t \<Rightarrow> t)"

definition unset :: "int option \<Rightarrow> bool" where
  "unset x \<longleftrightarrow> x = None \<or> x = Some (- 1)"

text \<open>The text attribute, if the column has it..\<close>

definition GetAttributeText :: "int \<Rightarrow> column_meta \<Rightarrow> string option" where
  "GetAttributeText f c =
     (if f \<in> {SQL_DESC_LABEL, SQL_DESC_BASE_COLUMN_NAME, SQL_DESC_NAME} then Some (text_of (columnName c))
      else if f \<in> {SQL_DESC_TABLE_NAME, SQL_DESC_BASE_TABLE_NAME} then Some (text_of (tableName c))
      else if f = SQL_DESC_SCHEMA_NAME then Some (text_of (schemaName c))
      else if f = SQL_DESC_CATALOG_NAME then Some (text_of (catalogName c))
      else if f \<in> {SQL_DESC_LITERAL_PREFIX, SQL_DESC_LITERAL_SUFFIX} then
        Some (if GetScalarType c = Scalar_VARCHAR then [char_of (39::nat)] else [])
      else if f \<in> {SQL_DESC_TYPE_NAME, SQL_DESC_LOCAL_TYPE_NAME} then
        Some (text_of (BinaryTypeToSqlTypeName (cm_dataType c)))
      else if f \<in> {SQL_DESC_PRECISION, SQL_COLUMN_LENGTH, SQL_COLUMN_PRECISION} then
        (if unset (cm_precision c) then None else map_option int_str (cm_precision c))
      else if f \<in> {SQL_DESC_SCALE, SQL_COLUMN_SCALE} then
        (if unset (cm_scale c) then None else map_option int_str (cm_scale c))
      else None)"

definition num_of :: "int option \<Rightarrow> int" where
  "num_of x = (case x of None \<Rightarrow> - 1 | Some v \<Rightarrow> v)"

text \<open>The numeric attribute: \<open>None\<close> for a field that is not numeric.\<close>

definition GetAttributeNum :: "int \<Rightarrow> column_meta \<Rightarrow> int option" where
  "GetAttributeNum f c =
     (if f = SQL_DESC_FIXED_PREC_SCALE then
        Some (if unset (cm_precision c) \<or> unset (cm_scale c) \<or> cm_scale c = Some 0 then SQL_FALSE else SQL_TRUE)
      else if f = SQL_DESC_AUTO_UNIQUE_VALUE then
        Some (if isAutoIncrement c = ''YES'' then SQL_TRUE else SQL_FALSE)
      else if f = SQL_DESC_CASE_SENSITIVE then
        Some (if GetScalarType c = Scalar_VARCHAR then SQL_TRUE else SQL_FALSE)
      else if f \<in> {SQL_DESC_CONCISE_TYPE, SQL_DESC_TYPE} then Some (num_of (BinaryToSqlType (cm_dataType c)))
      else if f \<in> {SQL_DESC_LENGTH, SQL_COLUMN_LENGTH, SQL_DESC_DISPLAY_SIZE} then
        Some (num_of (BinaryTypeDisplaySize (cm_dataType c)))
      else if f = SQL_DESC_OCTET_LENGTH then Some (num_of (BinaryTypeTransferLength (cm_dataType c)))
      else if f = SQL_DESC_NULLABLE then Some (Nullability_ToSql (cm_nullability c))
      else if f = SQL_DESC_NUM_PREC_RADIX then Some (num_of (BinaryTypeNumPrecRadix (cm_dataType c)))
      else if f \<in> {SQL_DESC_PRECISION, SQL_COLUMN_PRECISION} then
        Some (if cm_dataType c \<noteq> None \<and> unset (cm_precision c)
              then num_of (BinaryTypeColumnSize (cm_dataType c)) else num_of (cm_precision c))
      else if f \<in> {SQL_DESC_SCALE, SQL_COLUMN_SCALE} then
        Some (if cm_dataType c \<noteq> None \<and> unset (cm_scale c)
              then num_of (BinaryTypeDecimalDigits (cm_dataType c)) else num_of (cm_scale c))
      else if f = SQL_DESC_SEARCHABLE then Some SQL_PRED_BASIC
      else if f = SQL_DESC_UNNAMED then
        Some (if columnName c \<noteq> None \<and> columnName c \<noteq> Some [] then SQL_NAMED else SQL_UNNAMED)
      else if f = SQL_DESC_UNSIGNED then
        Some (if BinaryTypeUnsigned (cm_dataType c) then SQL_TRUE else SQL_FALSE)
      else if f = SQL_DESC_UPDATABLE then Some SQL_ATTR_READWRITE_UNKNOWN
      else None)"

section \<open>Facts\<close>

text \<open>The fields each route answers for a column whose precision and scale are not set.\<close>

definition text_fields :: "int set" where
  "text_fields = {SQL_DESC_LABEL, SQL_DESC_BASE_COLUMN_NAME, SQL_DESC_NAME, SQL_DESC_TABLE_NAME,
     SQL_DESC_BASE_TABLE_NAME, SQL_DESC_SCHEMA_NAME, SQL_DESC_CATALOG_NAME, SQL_DESC_LITERAL_PREFIX,
     SQL_DESC_LITERAL_SUFFIX, SQL_DESC_TYPE_NAME, SQL_DESC_LOCAL_TYPE_NAME}"

definition numeric_fields :: "int set" where
  "numeric_fields = {SQL_DESC_FIXED_PREC_SCALE, SQL_DESC_AUTO_UNIQUE_VALUE, SQL_DESC_CASE_SENSITIVE,
     SQL_DESC_CONCISE_TYPE, SQL_DESC_TYPE, SQL_DESC_LENGTH, SQL_COLUMN_LENGTH, SQL_DESC_DISPLAY_SIZE,
     SQL_DESC_OCTET_LENGTH, SQL_DESC_NULLABLE, SQL_DESC_NUM_PREC_RADIX, SQL_DESC_PRECISION,
     SQL_COLUMN_PRECISION, SQL_DESC_SCALE, SQL_COLUMN_SCALE, SQL_DESC_SEARCHABLE, SQL_DESC_UNNAMED,
     SQL_DESC_UNSIGNED, SQL_DESC_UPDATABLE}"

lemma GetAttributeNum_answers: "GetAttributeNum f c \<noteq> None \<longleftrightarrow> f \<in> numeric_fields"
  by (simp add: GetAttributeNum_def numeric_fields_def)

lemma GetAttributeText_answers:
  "unset (cm_precision c) \<Longrightarrow> unset (cm_scale c) \<Longrightarrow> GetAttributeText f c \<noteq> None \<longleftrightarrow> f \<in> text_fields"
  by (simp add: GetAttributeText_def text_fields_def)

end
