(* ===== verification/Catalog_Queries.thy ===== *)
theory Catalog_Queries
  imports Column_Meta Data_Query
begin

text \<open>
  Queries as the statement sees them (\<^verbatim>\<open>query/query.h\<close>) and the catalog queries that need no
  service: the eight with an empty result (\<^verbatim>\<open>src/query/foreign_keys_query.cpp\<close>,
  \<^verbatim>\<open>primary_keys_query.cpp\<close>, \<^verbatim>\<open>special_columns_query.cpp\<close>, \<^verbatim>\<open>statistics_query.cpp\<close>,
  \<^verbatim>\<open>procedure_columns_query.cpp\<close>, \<^verbatim>\<open>procedures_query.cpp\<close>, \<^verbatim>\<open>column_privileges_query.cpp\<close>,
  \<^verbatim>\<open>table_privileges_query.cpp\<close>) and the table of data types (\<^verbatim>\<open>type_info_query.cpp\<close>).
\<close>

section \<open>The interface of a query\<close>

text \<open>The virtual functions of \<^verbatim>\<open>Query\<close> as a record: \<open>'q\<close> is the state of the object, \<open>None\<close> an operation
  that does not return.\<close>

record ('q, 'col, 'buf, 'mem) query_class =
  vt_Execute :: "'q \<Rightarrow> diag_storage \<Rightarrow> (sql_result \<times> 'q \<times> diag_storage) option"
  vt_Cancel :: "'q \<Rightarrow> diag_storage \<Rightarrow> (sql_result \<times> 'q \<times> diag_storage) option"
  vt_FetchNextRow :: "('buf, 'mem) bindings \<Rightarrow> 'q \<Rightarrow> diag_storage \<Rightarrow>
    (sql_result \<times> ('buf, 'mem) bindings \<times> 'q \<times> diag_storage) option"
  vt_GetColumn :: "nat \<Rightarrow> 'buf \<Rightarrow> 'mem \<Rightarrow> 'q \<Rightarrow> diag_storage \<Rightarrow>
    (sql_result \<times> 'buf \<times> 'mem \<times> diag_storage) option"
  vt_Close :: "'q \<Rightarrow> (sql_result \<times> 'q) option"
  vt_GetMeta :: "'q \<Rightarrow> diag_storage \<Rightarrow> ('col list option \<times> 'q \<times> diag_storage) option"
  vt_DataAvailable :: "'q \<Rightarrow> bool"
  vt_AffectedRows :: "'q \<Rightarrow> int"
  vt_RowNumber :: "'q \<Rightarrow> diag_storage \<Rightarrow> int \<times> diag_storage"
  vt_NextResultSet :: "'q \<Rightarrow> sql_result"

definition data_query_class ::
  "('row, 'ci, 'col) query_env \<Rightarrow> ('row, 'col, 'buf, 'mem) column_reader \<Rightarrow>
   (('row, 'ci, 'col) data_query, 'col, 'buf, 'mem) query_class" where
  "data_query_class e rd =
     \<lparr>vt_Execute = Execute e, vt_Cancel = Cancel e, vt_FetchNextRow = FetchNextRow (ev_query e) rd,
      vt_GetColumn = GetColumn rd, vt_Close = Close e, vt_GetMeta = GetMeta e,
      vt_DataAvailable = DataAvailable, vt_AffectedRows = (\<lambda>_. 0), vt_RowNumber = RowNumber,
      vt_NextResultSet = (\<lambda>_. AI_NO_DATA)\<rparr>"

text \<open>What a statement relies on when it fetches rows: a query has a list of rows to come; a fetch
  consumes the first of them, successfully or with an error, and once there is none reports the
  end, for good.\<close>

locale row_source =
  fixes fetch :: "('buf, 'mem) bindings \<Rightarrow> 'q \<Rightarrow> diag_storage \<Rightarrow>
      (sql_result \<times> ('buf, 'mem) bindings \<times> 'q \<times> diag_storage) option"
    and upcoming :: "'q \<Rightarrow> 'row list \<Rightarrow> bool"
  assumes fetch_end: "upcoming q [] \<Longrightarrow> fetch b q d = Some (r, b', q', d') \<Longrightarrow>
      r = AI_NO_DATA \<and> upcoming q' []"
    and fetch_row: "upcoming q (x # xs) \<Longrightarrow> fetch b q d = Some (r, b', q', d') \<Longrightarrow>
      r \<in> {AI_SUCCESS, AI_SUCCESS_WITH_INFO, AI_ERROR} \<and> upcoming q' xs"

section \<open>Queries with an empty result\<close>

datatype empty_query = ForeignKeysQuery | PrimaryKeysQuery | SpecialColumnsQuery | StatisticsQuery int | ProcedureColumnsQuery | ProceduresQuery | ColumnPrivilegesQuery | TablePrivilegesQuery

text \<open>The name the warnings carry. A statistics query knows the ODBC version of its environment.\<close>

fun empty_function :: "empty_query \<Rightarrow> string" where
  "empty_function ForeignKeysQuery = ''SQLForeignKeys''"
| "empty_function PrimaryKeysQuery = ''SQLPrimaryKeys''"
| "empty_function SpecialColumnsQuery = ''SQLSpecialColumns''"
| "empty_function (StatisticsQuery ver) = ''SQLStatistics''"
| "empty_function ProcedureColumnsQuery = ''SQLProcedureColumns''"
| "empty_function ProceduresQuery = ''SQLProcedures''"
| "empty_function ColumnPrivilegesQuery = ''SQLColumnPrivileges''"
| "empty_function TablePrivilegesQuery = ''SQLTablePrivileges''"

text \<open>The columns the constructors of the queries declare.\<close>

definition foreign_keys_columns :: "(string \<times> scalar_type \<times> nullability_type) list" where
  "foreign_keys_columns =
     [(''PKTABLE_CAT'', Scalar_VARCHAR, NULLABLE), (''PKTABLE_SCHEM'', Scalar_VARCHAR, NULLABLE),
      (''PKTABLE_NAME'', Scalar_VARCHAR, NO_NULL), (''PKCOLUMN_NAME'', Scalar_VARCHAR, NO_NULL),
      (''FKTABLE_CAT'', Scalar_VARCHAR, NULLABLE), (''FKTABLE_SCHEM'', Scalar_VARCHAR, NULLABLE),
      (''FKTABLE_NAME'', Scalar_VARCHAR, NO_NULL), (''FKCOLUMN_NAME'', Scalar_VARCHAR, NO_NULL),
      (''KEY_SEQ'', Scalar_INTEGER, NO_NULL), (''UPDATE_RULE'', Scalar_INTEGER, NULLABLE),
      (''DELETE_RULE'', Scalar_INTEGER, NULLABLE), (''FK_NAME'', Scalar_VARCHAR, NULLABLE),
      (''PK_NAME'', Scalar_VARCHAR, NULLABLE), (''DEFERRABILITY'', Scalar_INTEGER, NULLABLE)]"

definition primary_keys_columns :: "(string \<times> scalar_type \<times> nullability_type) list" where
  "primary_keys_columns =
     [(''TABLE_CAT'', Scalar_VARCHAR, NULLABLE), (''TABLE_SCHEM'', Scalar_VARCHAR, NULLABLE),
      (''TABLE_NAME'', Scalar_VARCHAR, NO_NULL), (''COLUMN_NAME'', Scalar_VARCHAR, NO_NULL),
      (''KEY_SEQ'', Scalar_INTEGER, NO_NULL), (''PK_NAME'', Scalar_VARCHAR, NULLABLE)]"

definition special_columns_columns :: "(string \<times> scalar_type \<times> nullability_type) list" where
  "special_columns_columns =
     [(''SCOPE'', Scalar_INTEGER, NULLABLE), (''COLUMN_NAME'', Scalar_VARCHAR, NO_NULL),
      (''DATA_TYPE'', Scalar_INTEGER, NO_NULL), (''TYPE_NAME'', Scalar_VARCHAR, NO_NULL),
      (''COLUMN_SIZE'', Scalar_INTEGER, NULLABLE), (''BUFFER_LENGTH'', Scalar_INTEGER, NULLABLE),
      (''DECIMAL_DIGITS'', Scalar_INTEGER, NULLABLE), (''PSEUDO_COLUMN'', Scalar_INTEGER, NULLABLE)]"

definition statistics_columns :: "int \<Rightarrow> (string \<times> scalar_type \<times> nullability_type) list" where
  "statistics_columns ver =
     [((if ver = SQL_OV_ODBC2 then ''TABLE_QUALIFIER'' else ''TABLE_CAT''), Scalar_VARCHAR, NULLABLE),
      ((if ver = SQL_OV_ODBC2 then ''TABLE_OWNER'' else ''TABLE_SCHEM''), Scalar_VARCHAR, NULLABLE),
      (''TABLE_NAME'', Scalar_VARCHAR, NO_NULL), (''NON_UNIQUE'', Scalar_INTEGER, NULLABLE),
      (''INDEX_QUALIFIER'', Scalar_VARCHAR, NULLABLE), (''INDEX_NAME'', Scalar_VARCHAR, NULLABLE),
      (''TYPE'', Scalar_INTEGER, NO_NULL),
      ((if ver = SQL_OV_ODBC2 then ''SEQ_IN_INDEX'' else ''ORDINAL_POSITION''), Scalar_INTEGER, NULLABLE),
      (''COLUMN_NAME'', Scalar_VARCHAR, NULLABLE),
      ((if ver = SQL_OV_ODBC2 then ''COLLATION'' else ''ASC_OR_DESC''), Scalar_VARCHAR, NULLABLE),
      (''CARDINALITY'', Scalar_INTEGER, NULLABLE), (''PAGES'', Scalar_INTEGER, NULLABLE),
      (''FILTER_CONDITION'', Scalar_VARCHAR, NULLABLE)]"

definition procedure_columns_columns :: "(string \<times> scalar_type \<times> nullability_type) list" where
  "procedure_columns_columns =
     [(''PROCEDURE_CAT'', Scalar_VARCHAR, NULLABLE), (''PROCEDURE_SCHEM'', Scalar_VARCHAR, NULLABLE),
      (''PROCEDURE_NAME'', Scalar_VARCHAR, NO_NULL), (''COLUMN_NAME'', Scalar_VARCHAR, NO_NULL),
      (''COLUMN_TYPE'', Scalar_INTEGER, NO_NULL), (''DATA_TYPE'', Scalar_INTEGER, NO_NULL),
      (''TYPE_NAME'', Scalar_VARCHAR, NO_NULL), (''COLUMN_SIZE'', Scalar_INTEGER, NULLABLE),
      (''BUFFER_LENGTH'', Scalar_INTEGER, NULLABLE), (''DECIMAL_DIGITS'', Scalar_INTEGER, NULLABLE),
      (''NUM_PREC_RADIX'', Scalar_INTEGER, NULLABLE), (''NULLABLE'', Scalar_INTEGER, NO_NULL),
      (''REMARKS'', Scalar_VARCHAR, NULLABLE), (''COLUMN_DEF'', Scalar_VARCHAR, NULLABLE),
      (''SQL_DATA_TYPE'', Scalar_INTEGER, NO_NULL), (''SQL_DATETIME_SUB'', Scalar_INTEGER, NULLABLE),
      (''CHAR_OCTET_LENGTH'', Scalar_INTEGER, NULLABLE),
      (''ORDINAL_POSITION'', Scalar_INTEGER, NO_NULL), (''IS_NULLABLE'', Scalar_VARCHAR, NULLABLE)]"

definition procedures_columns :: "(string \<times> scalar_type \<times> nullability_type) list" where
  "procedures_columns =
     [(''PROCEDURE_CAT'', Scalar_VARCHAR, NULLABLE), (''PROCEDURE_SCHEM'', Scalar_VARCHAR, NULLABLE),
      (''PROCEDURE_NAME'', Scalar_VARCHAR, NO_NULL), (''NUM_INPUT_PARAMS'', Scalar_NOT_SET, NULLABLE),
      (''NUM_OUTPUT_PARAMS'', Scalar_NOT_SET, NULLABLE),
      (''NUM_RESULT_SETS'', Scalar_NOT_SET, NULLABLE), (''REMARKS'', Scalar_VARCHAR, NULLABLE),
      (''PROCEDURE_TYPE'', Scalar_INTEGER, NULLABLE)]"

definition column_privileges_columns :: "(string \<times> scalar_type \<times> nullability_type) list" where
  "column_privileges_columns =
     [(''TABLE_CAT'', Scalar_VARCHAR, NULLABLE), (''TABLE_SCHEM'', Scalar_VARCHAR, NULLABLE),
      (''TABLE_NAME'', Scalar_VARCHAR, NO_NULL), (''COLUMN_NAME'', Scalar_VARCHAR, NO_NULL),
      (''GRANTOR'', Scalar_VARCHAR, NULLABLE), (''GRANTEE'', Scalar_VARCHAR, NO_NULL),
      (''PRIVILEGE'', Scalar_VARCHAR, NO_NULL), (''IS_GRANTABLE'', Scalar_VARCHAR, NULLABLE)]"

definition table_privileges_columns :: "(string \<times> scalar_type \<times> nullability_type) list" where
  "table_privileges_columns =
     [(''TABLE_CAT'', Scalar_VARCHAR, NULLABLE), (''TABLE_SCHEM'', Scalar_VARCHAR, NULLABLE),
      (''TABLE_NAME'', Scalar_VARCHAR, NO_NULL), (''GRANTOR'', Scalar_VARCHAR, NULLABLE),
      (''GRANTEE'', Scalar_VARCHAR, NO_NULL), (''PRIVILEGE'', Scalar_VARCHAR, NO_NULL),
      (''IS_GRANTABLE'', Scalar_VARCHAR, NULLABLE)]"

fun empty_columns :: "empty_query \<Rightarrow> (string \<times> scalar_type \<times> nullability_type) list" where
  "empty_columns ForeignKeysQuery = foreign_keys_columns"
| "empty_columns PrimaryKeysQuery = primary_keys_columns"
| "empty_columns SpecialColumnsQuery = special_columns_columns"
| "empty_columns (StatisticsQuery ver) = statistics_columns ver"
| "empty_columns ProcedureColumnsQuery = procedure_columns_columns"
| "empty_columns ProceduresQuery = procedures_columns"
| "empty_columns ColumnPrivilegesQuery = column_privileges_columns"
| "empty_columns TablePrivilegesQuery = table_privileges_columns"

definition result_columns :: "bool \<Rightarrow> (string \<times> scalar_type \<times> nullability_type) list \<Rightarrow> column_meta list" where
  "result_columns asSchema cs = map (\<lambda>(n, t, nl). ColumnMeta asSchema [] [] n t nl) cs"

definition empty_no_data :: "empty_query \<Rightarrow> diag_storage \<Rightarrow> diag_storage" where
  "empty_no_data k d =
     AddStatusRecord S01000_GENERAL_WARNING (empty_function k @ '' is not supported. No data is returned.'') d"

definition Empty_Execute :: "empty_query \<Rightarrow> diag_storage \<Rightarrow> sql_result \<times> empty_query \<times> diag_storage" where
  "Empty_Execute k d =
     (AI_SUCCESS_WITH_INFO, k, AddStatusRecord S01000_GENERAL_WARNING
        (empty_function k @ '' is not supported. Return empty result set.'') d)"

definition Empty_FetchNextRow ::
  "('buf, 'mem) bindings \<Rightarrow> empty_query \<Rightarrow> diag_storage \<Rightarrow>
   sql_result \<times> ('buf, 'mem) bindings \<times> empty_query \<times> diag_storage" where
  "Empty_FetchNextRow b k d = (AI_NO_DATA, b, k, empty_no_data k d)"

definition Empty_GetColumn ::
  "nat \<Rightarrow> 'buf \<Rightarrow> 'mem \<Rightarrow> empty_query \<Rightarrow> diag_storage \<Rightarrow> sql_result \<times> 'buf \<times> 'mem \<times> diag_storage" where
  "Empty_GetColumn i buf m k d = (AI_NO_DATA, buf, m, empty_no_data k d)"

definition empty_query_class :: "bool \<Rightarrow> (empty_query, column_meta, 'buf, 'mem) query_class" where
  "empty_query_class asSchema =
     \<lparr>vt_Execute = (\<lambda>k d. Some (Empty_Execute k d)), vt_Cancel = (\<lambda>k d. Some (AI_SUCCESS, k, d)),
      vt_FetchNextRow = (\<lambda>b k d. Some (Empty_FetchNextRow b k d)),
      vt_GetColumn = (\<lambda>i buf m k d. Some (Empty_GetColumn i buf m k d)),
      vt_Close = (\<lambda>k. Some (AI_SUCCESS, k)),
      vt_GetMeta = (\<lambda>k d. Some (Some (result_columns asSchema (empty_columns k)), k, d)),
      vt_DataAvailable = (\<lambda>_. False), vt_AffectedRows = (\<lambda>_. 0), vt_RowNumber = (\<lambda>_ d. (0, d)),
      vt_NextResultSet = (\<lambda>_. AI_NO_DATA)\<rparr>"

interpretation empty_rows: row_source "\<lambda>b k d. Some (Empty_FetchNextRow b k d)" "\<lambda>k rows. rows = []"
  by unfold_locales (auto simp: Empty_FetchNextRow_def)

section \<open>The table of data types\<close>

record type_info_query =
  ti_executed :: bool
  ti_fetched :: bool
  ti_types :: "scalar_type list"
  ti_cursor :: nat

definition type_info_columns :: "(string \<times> scalar_type \<times> nullability_type) list" where
  "type_info_columns =
     [(''TYPE_NAME'', Scalar_VARCHAR, NO_NULL), (''DATA_TYPE'', Scalar_INTEGER, NO_NULL),
      (''COLUMN_SIZE'', Scalar_INTEGER, NULLABLE), (''LITERAL_PREFIX'', Scalar_VARCHAR, NULLABLE),
      (''LITERAL_SUFFIX'', Scalar_VARCHAR, NULLABLE), (''CREATE_PARAMS'', Scalar_VARCHAR, NULLABLE),
      (''NULLABLE'', Scalar_INTEGER, NO_NULL), (''CASE_SENSITIVE'', Scalar_INTEGER, NO_NULL),
      (''SEARCHABLE'', Scalar_INTEGER, NO_NULL), (''UNSIGNED_ATTRIBUTE'', Scalar_INTEGER, NULLABLE),
      (''FIXED_PREC_SCALE'', Scalar_INTEGER, NO_NULL),
      (''AUTO_UNIQUE_VALUE'', Scalar_INTEGER, NULLABLE),
      (''LOCAL_TYPE_NAME'', Scalar_VARCHAR, NULLABLE), (''MINIMUM_SCALE'', Scalar_INTEGER, NULLABLE),
      (''MAXIMUM_SCALE'', Scalar_INTEGER, NULLABLE), (''SQL_DATA_TYPE'', Scalar_INTEGER, NO_NULL),
      (''SQL_DATETIME_SUB'', Scalar_INTEGER, NULLABLE), (''NUM_PREC_RADIX'', Scalar_INTEGER, NULLABLE),
      (''INTERVAL_PRECISION'', Scalar_INTEGER, NULLABLE)]"

definition TypeInfoQuery :: "int \<Rightarrow> type_info_query" where
  "TypeInfoQuery sqlType =
     (let tys = (if sqlType = SQL_ALL_TYPES then
          [Scalar_VARCHAR, Scalar_BOOLEAN, Scalar_BIGINT, Scalar_DOUBLE, Scalar_TIMESTAMP,
           Scalar_DATE, Scalar_TIME, Scalar_INTERVAL_DAY_TO_SECOND, Scalar_INTERVAL_YEAR_TO_MONTH,
           Scalar_INTEGER, Scalar_NOT_SET, Scalar_UNKNOWN]
        else [SqlTypeToBinary (Some sqlType)])
      in \<lparr>ti_executed = False, ti_fetched = False, ti_types = tys, ti_cursor = length tys\<rparr>)"

definition TypeInfo_Execute :: "type_info_query \<Rightarrow> type_info_query" where
  "TypeInfo_Execute q = q\<lparr>ti_cursor := 0, ti_executed := True, ti_fetched := False\<rparr>"

definition TypeInfo_Close :: "type_info_query \<Rightarrow> type_info_query" where
  "TypeInfo_Close q = q\<lparr>ti_cursor := length (ti_types q), ti_executed := False\<rparr>"

text \<open>The value of a column: what the buffer is asked to hold.\<close>

datatype cell = Cell_Null | Cell_String string | Cell_Int16 int | Cell_Int32 int

definition cell_of :: "('a \<Rightarrow> cell) \<Rightarrow> 'a option \<Rightarrow> cell" where
  "cell_of f x = (case x of None \<Rightarrow> Cell_Null | Some v \<Rightarrow> f v)"

definition type_info_cell :: "nat \<Rightarrow> scalar_type \<Rightarrow> cell option" where
  "type_info_cell i t =
     (if i = 1 then Some (cell_of Cell_String (BinaryTypeToSqlTypeName (Some t)))
      else if i = 2 \<or> i = 16 then Some (cell_of Cell_Int16 (BinaryToSqlType (Some t)))
      else if i = 3 then Some (cell_of Cell_Int32 (BinaryTypeColumnSize (Some t)))
      else if i = 4 \<or> i = 5 then
        Some (if t = Scalar_VARCHAR then Cell_String [char_of (39::nat)] else Cell_Null)
      else if i = 6 then Some Cell_Null
      else if i = 7 then Some (Cell_Int32 (BinaryTypeNullability 0))
      else if i = 8 then Some (Cell_Int16 (if t = Scalar_VARCHAR then SQL_TRUE else SQL_FALSE))
      else if i = 9 then Some (Cell_Int16 SQL_SEARCHABLE)
      else if i = 10 then Some (Cell_Int16 (if BinaryTypeUnsigned (Some t) then 1 else 0))
      else if i = 11 \<or> i = 12 then Some (Cell_Int16 SQL_FALSE)
      else if i = 13 then Some Cell_Null
      else if i = 14 \<or> i = 15 then Some (cell_of Cell_Int16 (BinaryTypeDecimalDigits (Some t)))
      else if i = 17 then Some Cell_Null
      else if i = 18 then Some (cell_of Cell_Int32 (BinaryTypeNumPrecRadix (Some t)))
      else if i = 19 then Some Cell_Null
      else None)"

text \<open>\<open>put\<close> is the operation of the buffer that the cell names. Its result is not looked at.\<close>

definition TypeInfo_GetColumn ::
  "(cell \<Rightarrow> 'buf \<Rightarrow> 'mem \<Rightarrow> 'buf \<times> 'mem) \<Rightarrow> nat \<Rightarrow> 'buf \<Rightarrow> 'mem \<Rightarrow> type_info_query \<Rightarrow> diag_storage \<Rightarrow>
   sql_result \<times> 'buf \<times> 'mem \<times> diag_storage" where
  "TypeInfo_GetColumn put i buf m q d =
     (if \<not> ti_executed q then
        (AI_ERROR, buf, m, AddStatusRecord SHY010_SEQUENCE_ERROR ''Query was not executed.'' d)
      else if length (ti_types q) \<le> ti_cursor q then
        (AI_ERROR, buf, m, AddStatusRecord S24000_INVALID_CURSOR_STATE
           ''Cursor has reached end of the result set.'' d)
      else
        (case type_info_cell i (ti_types q ! ti_cursor q) of
           None \<Rightarrow> (AI_SUCCESS, buf, m, d)
         | Some c \<Rightarrow> (let (buf', m') = put c buf m in (AI_SUCCESS, buf', m', d))))"

text \<open>The loop over the bound columns, in ascending order; columns above 19 leave their buffer alone.\<close>

fun type_info_row ::
  "(cell \<Rightarrow> 'buf \<Rightarrow> 'mem \<Rightarrow> 'buf \<times> 'mem) \<Rightarrow> type_info_query \<Rightarrow> nat list \<Rightarrow> ('buf, 'mem) bindings \<Rightarrow> diag_storage \<Rightarrow>
   ('buf, 'mem) bindings \<times> diag_storage" where
  "type_info_row put q [] b d = (b, d)"
| "type_info_row put q (i # is) b d =
     (case fst b i of
        None \<Rightarrow> type_info_row put q is b d
      | Some buf \<Rightarrow>
          (let (_, buf', m', d') = TypeInfo_GetColumn put i buf (snd b) q d
           in type_info_row put q is ((fst b)(i \<mapsto> buf'), m') d'))"

definition TypeInfo_FetchNextRow ::
  "(cell \<Rightarrow> 'buf \<Rightarrow> 'mem \<Rightarrow> 'buf \<times> 'mem) \<Rightarrow> ('buf, 'mem) bindings \<Rightarrow> type_info_query \<Rightarrow> diag_storage \<Rightarrow>
   sql_result \<times> ('buf, 'mem) bindings \<times> type_info_query \<times> diag_storage" where
  "TypeInfo_FetchNextRow put b q d =
     (if \<not> ti_executed q then
        (AI_ERROR, b, q, AddStatusRecord SHY010_SEQUENCE_ERROR ''Query was not executed.'' d)
      else
        let q1 = (if \<not> ti_fetched q then q\<lparr>ti_fetched := True\<rparr>
                  else if ti_cursor q \<noteq> length (ti_types q) then q\<lparr>ti_cursor := ti_cursor q + 1\<rparr> else q)
        in if ti_cursor q1 = length (ti_types q1) then (AI_NO_DATA, b, q1, d)
           else (let (b', d') = type_info_row put q1 [1..<20] b d in (AI_SUCCESS, b', q1, d')))"

definition TypeInfo_RowNumber :: "type_info_query \<Rightarrow> diag_storage \<Rightarrow> int \<times> diag_storage" where
  "TypeInfo_RowNumber q d =
     (if \<not> ti_executed q \<or> ti_cursor q = length (ti_types q)
      then (0, AddStatusRecord S01000_GENERAL_WARNING ''Cursor does not point to any data.'' d)
      else (int (ti_cursor q) + 1, d))"

definition type_info_class ::
  "bool \<Rightarrow> (cell \<Rightarrow> 'buf \<Rightarrow> 'mem \<Rightarrow> 'buf \<times> 'mem) \<Rightarrow> (type_info_query, column_meta, 'buf, 'mem) query_class"
  where
  "type_info_class asSchema put =
     \<lparr>vt_Execute = (\<lambda>q d. Some (AI_SUCCESS, TypeInfo_Execute q, d)),
      vt_Cancel = (\<lambda>q d. Some (AI_SUCCESS, TypeInfo_Close q, d)),
      vt_FetchNextRow = (\<lambda>b q d. Some (TypeInfo_FetchNextRow put b q d)),
      vt_GetColumn = (\<lambda>i buf m q d. Some (TypeInfo_GetColumn put i buf m q d)),
      vt_Close = (\<lambda>q. Some (AI_SUCCESS, TypeInfo_Close q)),
      vt_GetMeta = (\<lambda>q d. Some (Some (result_columns asSchema type_info_columns), q, d)),
      vt_DataAvailable = (\<lambda>q. ti_executed q \<and> ti_cursor q \<noteq> length (ti_types q)),
      vt_AffectedRows = (\<lambda>_. 0), vt_RowNumber = TypeInfo_RowNumber,
      vt_NextResultSet = (\<lambda>_. AI_NO_DATA)\<rparr>"

text \<open>The types still to be fetched.\<close>

definition type_info_rows :: "type_info_query \<Rightarrow> scalar_type list \<Rightarrow> bool" where
  "type_info_rows q rows \<longleftrightarrow> ti_executed q \<and> ti_cursor q \<le> length (ti_types q)
     \<and> rows = drop (if ti_fetched q then ti_cursor q + 1 else ti_cursor q) (ti_types q)"

lemma type_info_fetch:
  assumes "type_info_rows q rows" and "TypeInfo_FetchNextRow put b q d = (r, b', q', d')"
  shows "r = (if rows = [] then AI_NO_DATA else AI_SUCCESS) \<and> type_info_rows q' (tl rows)"
  using assms
  by (auto simp: type_info_rows_def TypeInfo_FetchNextRow_def Let_def drop_Suc tl_drop
      split: if_splits prod.splits)

interpretation type_info: row_source "\<lambda>b q d. Some (TypeInfo_FetchNextRow put b q d)" type_info_rows
  by unfold_locales (auto dest: type_info_fetch)

end
