(* ===== verification/Connection.thy ===== *)
theory Connection
  imports Dsn_Config Descriptor Data_Query
begin

text \<open>
  Connections and environments (\<^verbatim>\<open>src/connection.cpp\<close>, \<^verbatim>\<open>src/environment.cpp\<close>): establishing and
  releasing a connection, connection attributes and options, the names of cursors, and the
  attributes of an environment. The identity providers, the credential files, the service client
  and the process environment are outside the driver or are network exchanges; they are the record
  \<open>services\<close> that the operations take as an argument.
\<close>

section \<open>Services\<close>

record credentials =
  AWSAccessKeyId :: string
  AWSSecretKey :: string
  SessionToken :: string

record client_config =
  cc_region :: string
  cc_connectTimeoutMs :: int
  cc_requestTimeoutMs :: int
  cc_maxConnections :: int
  cc_userAgent :: string
  cc_retries :: "int option"
  cc_proxyHost :: string
  cc_proxyPort :: int
  cc_proxyHttps :: bool
  cc_proxyUserName :: string
  cc_proxyPassword :: string
  cc_proxySSLCertPath :: string
  cc_proxySSLCertType :: string
  cc_proxySSLKeyPath :: string
  cc_proxySSLKeyType :: string
  cc_proxySSLKeyPassword :: string

text \<open>\<open>se_saml\<close>: the Okta and Azure AD credential providers, which answer with credentials and an error
  text; \<open>se_profile\<close>: the profile provider; \<open>se_expired\<close>: \<^verbatim>\<open>IsExpiredOrEmpty\<close>; \<open>se_try\<close>: the query
  \<^verbatim>\<open>SELECT 1\<close> sent by a client with these credentials, this configuration and this endpoint;
  \<open>se_env\<close>: environment variables.\<close>

record services =
  se_saml :: "auth_type \<Rightarrow> configuration \<Rightarrow> credentials \<times> string"
  se_profile :: "string \<Rightarrow> credentials"
  se_expired :: "credentials \<Rightarrow> bool"
  se_default :: client_config
  se_try :: "credentials \<Rightarrow> client_config \<Rightarrow> string \<Rightarrow> aws_error option"
  se_env :: "string \<Rightarrow> string"
  se_agent :: string

section \<open>State\<close>

record stmt_attributes =
  sa_bindType :: int
  sa_concurrency :: int
  sa_cursorType :: int
  sa_retrieveData :: int
  sa_rowsetSize :: int
  sa_rowArraySize :: int

record connection =
  cn_id :: nat
  cn_diag :: diag_storage
  cn_config :: configuration
  queryClient :: bool
  samlCredProvider :: bool
  autoCommit :: bool
  metadataID :: bool
  cn_userName :: string
  cn_dataSource :: string
  cursorNames :: "string set"
  cursorNameMap :: "nat \<Rightarrow> string option"
  stmtAttr :: stmt_attributes

text \<open>A new connection; the two texts are those its information table starts with.\<close>

definition NewConnection :: "nat \<Rightarrow> configuration \<Rightarrow> string \<Rightarrow> string \<Rightarrow> connection" where
  "NewConnection i cfg user dsn =
     \<lparr>cn_id = i, cn_diag = DiagnosticRecordStorage, cn_config = cfg, queryClient = False,
      samlCredProvider = False, autoCommit = True, metadataID = False, cn_userName = user,
      cn_dataSource = dsn, cursorNames = {}, cursorNameMap = Map.empty,
      stmtAttr = \<lparr>sa_bindType = SQL_PARAM_BIND_BY_COLUMN, sa_concurrency = SQL_CONCUR_READ_ONLY,
        sa_cursorType = SQL_CURSOR_FORWARD_ONLY, sa_retrieveData = SQL_RD_OFF, sa_rowsetSize = 1,
        sa_rowArraySize = 1\<rparr>\<rparr>"

definition cn_record :: "sql_state \<Rightarrow> string \<Rightarrow> connection \<Rightarrow> connection" where
  "cn_record st msg cn = cn\<lparr>cn_diag := AddStatusRecord st msg (cn_diag cn)\<rparr>"

section \<open>The client\<close>

text \<open>\<^verbatim>\<open>StringToInt\<close>: \<^verbatim>\<open>std::stoi\<close>, where a text that is no number and a number outside the type give 0.\<close>

definition stoi_digits :: "int \<Rightarrow> string \<Rightarrow> int" where
  "stoi_digits sg s =
     (let v = sg * dec_val (takeWhile isdigit s)
      in if takeWhile isdigit s = [] \<or> v < - (2 ^ 31) \<or> 2 ^ 31 \<le> v then 0 else v)"

definition StringToInt :: "string \<Rightarrow> int" where
  "StringToInt s =
     (case dropWhile isspace s of
        [] \<Rightarrow> 0
      | c # cs \<Rightarrow>
          if c = CHR ''-'' then stoi_digits (- 1) cs
          else if c = CHR ''+'' then stoi_digits 1 cs else stoi_digits 1 (c # cs))"

text \<open>One paragraph of \<^verbatim>\<open>SetClientProxy\<close>: the trimmed variable, when it is not empty.\<close>

definition from_env ::
  "(string \<Rightarrow> string) \<Rightarrow> string \<Rightarrow> (string \<Rightarrow> client_config \<Rightarrow> client_config) \<Rightarrow> client_config \<Rightarrow> client_config"
  where
  "from_env env var setter c = (let v = Trim (env var) in if v = [] then c else setter v c)"

definition set_port :: "string \<Rightarrow> client_config \<Rightarrow> client_config" where
  "set_port v c = (let p = StringToInt v in if 0 < p then c\<lparr>cc_proxyPort := p\<rparr> else c)"

definition SetClientProxy :: "(string \<Rightarrow> string) \<Rightarrow> client_config \<Rightarrow> client_config" where
  "SetClientProxy env c0 = fold (\<lambda>f. f)
     [from_env env ''TS_PROXY_HOST'' (\<lambda>v c. c\<lparr>cc_proxyHost := v\<rparr>),
      from_env env ''TS_PROXY_PORT'' set_port,
      from_env env ''TS_PROXY_SCHEME'' (\<lambda>v c. c\<lparr>cc_proxyHttps := (ToUpper v = ''HTTPS'')\<rparr>),
      from_env env ''TS_PROXY_USER'' (\<lambda>v c. c\<lparr>cc_proxyUserName := v\<rparr>),
      from_env env ''TS_PROXY_PASSWORD'' (\<lambda>v c. c\<lparr>cc_proxyPassword := v\<rparr>),
      from_env env ''TS_PROXY_SSL_CERT_PATH'' (\<lambda>v c. c\<lparr>cc_proxySSLCertPath := v\<rparr>),
      from_env env ''TS_PROXY_SSL_CERT_TYPE'' (\<lambda>v c. c\<lparr>cc_proxySSLCertType := v\<rparr>),
      from_env env ''TS_PROXY_SSL_KEY_PATH'' (\<lambda>v c. c\<lparr>cc_proxySSLKeyPath := v\<rparr>),
      from_env env ''TS_PROXY_SSL_KEY_TYPE'' (\<lambda>v c. c\<lparr>cc_proxySSLCertType := v\<rparr>),
      from_env env ''TS_PROXY_SSL_KEY_PASSWORD'' (\<lambda>v c. c\<lparr>cc_proxySSLKeyPassword := v\<rparr>)] c0"

definition CloseConnection :: "connection \<Rightarrow> connection" where
  "CloseConnection cn = cn\<lparr>queryClient := False, samlCredProvider := False\<rparr>"

definition UpdateConnectionRuntimeInfo :: "connection \<Rightarrow> connection" where
  "UpdateConnectionRuntimeInfo cn =
     cn\<lparr>cn_userName := GetDSNUserName (cn_config cn), cn_dataSource := GetDsn ''Timestream DSN'' (cn_config cn)\<rparr>"

text \<open>The credentials of an authentication type and the error text of their provider. The branch of the
  source for a type that is none of the four is never taken.\<close>

definition get_credentials :: "services \<Rightarrow> configuration \<Rightarrow> credentials \<times> string" where
  "get_credentials se cfg =
     (case GetValue (cf_authType cfg) of
        OKTA \<Rightarrow> se_saml se OKTA cfg
      | AAD \<Rightarrow> se_saml se AAD cfg
      | AWS_PROFILE \<Rightarrow> (se_profile se (GetValue (cf_profileName cfg)), [])
      | IAM \<Rightarrow> (\<lparr>AWSAccessKeyId = GetDSNUserName cfg, AWSSecretKey = GetDSNPassword cfg,
              SessionToken = GetValue (cf_sessionToken cfg)\<rparr>, []))"

definition client_configuration :: "services \<Rightarrow> configuration \<Rightarrow> client_config" where
  "client_configuration se cfg =
     (let c = SetClientProxy (se_env se)
           ((se_default se)\<lparr>cc_region := GetValue (cf_region cfg),
             cc_connectTimeoutMs := GetValue (cf_connectionTimeout cfg),
             cc_requestTimeoutMs := GetValue (cf_reqTimeout cfg),
             cc_maxConnections := GetValue (cf_maxConnections cfg),
             cc_userAgent := se_agent se\<rparr>);
          n = GetValue (cf_maxRetryCountClient cfg)
      in if 0 < n then c\<lparr>cc_retries := Some n\<rparr> else c)"

text \<open>The error text of the attempt, \<open>None\<close> when it succeeds.\<close>

definition TryRestoreConnection ::
  "services \<Rightarrow> configuration \<Rightarrow> connection \<Rightarrow> string option \<times> connection" where
  "TryRestoreConnection se cfg cn =
     (let cn1 = (if GetValue (cf_authType cfg) \<in> {OKTA, AAD} then cn\<lparr>samlCredProvider := True\<rparr> else cn) in
      case get_credentials se cfg of
        (cr, info) \<Rightarrow>
          if se_expired se cr then
            (Some (if info = [] then ''Empty or expired credentials'' else info), CloseConnection cn1)
          else
            let cn2 = cn1\<lparr>queryClient := True\<rparr> in
            (case se_try se cr (client_configuration se cfg) (GetValue (cf_endpoint cfg)) of
               Some e \<Rightarrow> (Some (GetExceptionName e @ '': '' @ GetMessage e), CloseConnection cn2)
             | None \<Rightarrow> (None, UpdateConnectionRuntimeInfo cn2)))"

section \<open>Establishing and releasing\<close>

definition newline :: char where "newline = char_of (10::nat)"

definition EstablishWith :: "services \<Rightarrow> configuration \<Rightarrow> connection \<Rightarrow> sql_result \<times> connection" where
  "EstablishWith se cfg cn0 =
     (let cn = cn0\<lparr>cn_config := cfg\<rparr> in
      if queryClient cn then (AI_ERROR, cn_record S08002_ALREADY_CONNECTED ''Already connected.'' cn)
      else
        (case Validate (cn_config cn) of
           Some (st, msg) \<Rightarrow> (AI_ERROR, cn_record st msg cn)
         | None \<Rightarrow>
             (case TryRestoreConnection se cfg cn of
                (Some err, cn1) \<Rightarrow>
                  (AI_ERROR, cn_record S08001_CANNOT_CONNECT
                    (''Failed to establish connection to Timestream.'' @ [newline] @ err) cn1)
              | (None, cn1) \<Rightarrow>
                  (if 0 < GetStatusRecordsNumber (cn_diag cn1) then AI_SUCCESS_WITH_INFO else AI_SUCCESS,
                   cn1))))"

text \<open>From a connection string, as on the platforms without a configuration window. The process-wide
  logger is part of the state.\<close>

definition InternalEstablish ::
  "services \<Rightarrow> platform \<Rightarrow> profile_reader \<Rightarrow> int \<Rightarrow> string \<Rightarrow> connection \<times> logger \<Rightarrow>
   sql_result \<times> connection \<times> logger" where
  "InternalEstablish se pl rd junk str = (\<lambda>(cn, lg).
     let ps = ParseConnectionString pl str
           \<lparr>ps_cfg = cn_config cn, ps_logger = lg, ps_diag = Some (cn_diag cn)\<rparr>;
         d = (case ps_diag ps of Some d \<Rightarrow> d | None \<Rightarrow> cn_diag cn);
         (cfg, lg') =
           (if IsSet (cf_dsn (ps_cfg ps))
            then ReadDsnConfiguration rd junk (valid_dir pl) (GetDsn ''Timestream DSN'' (ps_cfg ps)) (ps_cfg ps, ps_logger ps)
            else (ps_cfg ps, ps_logger ps));
         (r, cn') = EstablishWith se cfg (cn\<lparr>cn_config := cfg, cn_diag := d\<rparr>)
     in (r, cn', lg'))"

definition InternalRelease :: "connection \<Rightarrow> sql_result \<times> connection" where
  "InternalRelease cn =
     (if \<not> queryClient cn then
        (AI_SUCCESS_WITH_INFO,
         CloseConnection (cn_record S08003_NOT_CONNECTED ''Connection is not open.'' cn))
      else (AI_SUCCESS, CloseConnection cn))"

text \<open>\<^verbatim>\<open>CreateDescriptor\<close>: the header the constructor leaves uninitialised is \<open>h\<close>.\<close>

definition InternalCreateDescriptor :: "desc_header \<Rightarrow> connection \<Rightarrow> sql_result \<times> descriptor" where
  "InternalCreateDescriptor h cn =
     (AI_SUCCESS, InitAppHead False ((NewDescriptor h)\<lparr>desc_conn := Some (cn_id cn)\<rparr>))"

section \<open>Cursor names\<close>

definition GetCursorName :: "nat \<Rightarrow> connection \<Rightarrow> string" where
  "GetCursorName stmt cn = (case cursorNameMap cn stmt of None \<Rightarrow> [] | Some n \<Rightarrow> n)"

definition CursorNameExists :: "string \<Rightarrow> connection \<Rightarrow> bool" where
  "CursorNameExists n cn \<longleftrightarrow> n \<in> cursorNames cn"

definition AddCursorName :: "nat \<Rightarrow> string \<Rightarrow> connection \<Rightarrow> sql_result \<times> connection" where
  "AddCursorName stmt n cn =
     (let names = (case cursorNameMap cn stmt of None \<Rightarrow> cursorNames cn | Some old \<Rightarrow> cursorNames cn - {old})
      in (AI_SUCCESS, cn\<lparr>cursorNameMap := (cursorNameMap cn)(stmt \<mapsto> n), cursorNames := insert n names\<rparr>))"

definition RemoveCursorName :: "nat \<Rightarrow> connection \<Rightarrow> connection" where
  "RemoveCursorName stmt cn =
     (case cursorNameMap cn stmt of
        None \<Rightarrow> cn
      | Some old \<Rightarrow>
          cn\<lparr>cursorNames := cursorNames cn - {old}, cursorNameMap := (cursorNameMap cn)(stmt := None)\<rparr>)"

section \<open>Attributes\<close>

fun log_code :: "log_level \<Rightarrow> int" where
  "log_code LOG_OFF = 0"
| "log_code ERROR_LEVEL = 1"
| "log_code WARNING_LEVEL = 2"
| "log_code INFO_LEVEL = 3"
| "log_code DEBUG_LEVEL = 4"
| "log_code LogLevel_UNKNOWN = 5"

text \<open>The level a number is cast to. The logger distinguishes the six levels only, so a number outside
  the enumeration counts as unknown.\<close>

definition level_of :: "int \<Rightarrow> log_level" where
  "level_of v = (if v = 0 then LOG_OFF else if v = 1 then ERROR_LEVEL else if v = 2 then WARNING_LEVEL
     else if v = 3 then INFO_LEVEL else if v = 4 then DEBUG_LEVEL else LogLevel_UNKNOWN)"

definition cn_bool :: "bool \<Rightarrow> int" where "cn_bool b = (if b then 1 else 0)"

text \<open>The value written to the buffer and the one written to the length, both when the call succeeds; a
  null buffer is \<open>False\<close>. The case of the dead connection falls through to that of the timeout, which
  writes the same buffer.\<close>

definition Connection_GetAttribute ::
  "int \<Rightarrow> bool \<Rightarrow> connection \<times> logger \<Rightarrow> sql_result \<times> (int \<times> int) option \<times> connection" where
  "Connection_GetAttribute attr buf = (\<lambda>(cn, lg).
     if \<not> buf then
       (AI_ERROR, None, cn_record SHY009_INVALID_USE_OF_NULL_POINTER ''Data buffer is null.'' cn)
     else if attr \<in> {SQL_ATTR_CONNECTION_DEAD, SQL_ATTR_CONNECTION_TIMEOUT} then
       (AI_SUCCESS, Some (0, SQL_IS_INTEGER), cn)
     else if attr = SQL_ATTR_AUTOCOMMIT then
       (AI_SUCCESS, Some (if autoCommit cn then SQL_AUTOCOMMIT_ON else SQL_AUTOCOMMIT_OFF, SQL_IS_INTEGER), cn)
     else if attr = SQL_ATTR_METADATA_ID then
       (AI_SUCCESS, Some (if metadataID cn then SQL_TRUE else SQL_FALSE, SQL_IS_INTEGER), cn)
     else if attr = SQL_ATTR_AUTO_IPD then (AI_SUCCESS, Some (0, SQL_IS_INTEGER), cn)
     else if attr = SQL_ATTR_ASYNC_ENABLE then (AI_SUCCESS, Some (SQL_ASYNC_ENABLE_OFF, SQL_IS_INTEGER), cn)
     else if attr = SQL_ATTR_TSLOG_DEBUG then
       (AI_SUCCESS, Some (log_code (lg_level lg), SQL_IS_INTEGER), cn)
     else
       (AI_ERROR, None, cn_record SHYC00_OPTIONAL_FEATURE_NOT_IMPLEMENTED
          ''Specified attribute is not supported.'' cn))"

definition Connection_SetAttribute ::
  "int \<Rightarrow> int \<Rightarrow> connection \<times> logger \<Rightarrow> sql_result \<times> connection \<times> logger" where
  "Connection_SetAttribute attr val = (\<lambda>(cn, lg).
     let v = to_uint32 val;
         refuse = (\<lambda>st msg. (AI_ERROR, cn_record st msg cn, lg))
     in if attr = SQL_ATTR_CONNECTION_DEAD then
          refuse SHY092_OPTION_TYPE_OUT_OF_RANGE ''Attribute is read only.''
        else if attr = SQL_ATTR_AUTOCOMMIT then
          (if v \<noteq> SQL_AUTOCOMMIT_ON \<and> v \<noteq> SQL_AUTOCOMMIT_OFF
           then refuse SHYC00_OPTIONAL_FEATURE_NOT_IMPLEMENTED ''Specified attribute is not supported.''
           else (AI_SUCCESS, cn\<lparr>autoCommit := (v = SQL_AUTOCOMMIT_ON)\<rparr>, lg))
        else if attr = SQL_ATTR_METADATA_ID then
          (if v \<noteq> SQL_TRUE \<and> v \<noteq> SQL_FALSE
           then refuse SHY024_INVALID_ATTRIBUTE_VALUE ''Invalid argument value''
           else (AI_SUCCESS, cn\<lparr>metadataID := (v \<noteq> 0)\<rparr>, lg))
        else if attr = SQL_ATTR_ANSI_APP then
          refuse SHY000_GENERAL_ERROR ''Same behavior for ANSI and Unicode applications.''
        else if attr = SQL_ATTR_TSLOG_DEBUG then (AI_SUCCESS, cn, lg\<lparr>lg_level := level_of val\<rparr>)
        else if attr = SQL_LOGIN_TIMEOUT then (AI_SUCCESS, cn, lg)
        else refuse SHYC00_OPTIONAL_FEATURE_NOT_IMPLEMENTED ''Specified attribute is not supported.'')"

definition InternalSetStmtAttribute :: "int \<Rightarrow> int \<Rightarrow> connection \<Rightarrow> sql_result \<times> connection" where
  "InternalSetStmtAttribute opt v cn =
     (let keep = (\<lambda>f. (AI_SUCCESS, cn\<lparr>stmtAttr := f (stmtAttr cn)\<rparr>));
          refuse = (\<lambda>msg. (AI_ERROR, cn_record SHYC00_OPTIONAL_FEATURE_NOT_IMPLEMENTED msg cn))
      in if opt = SQL_BIND_TYPE then
           (if v \<noteq> SQL_BIND_BY_COLUMN then refuse ''Only binding by column is currently supported''
            else keep (\<lambda>a. a\<lparr>sa_bindType := v\<rparr>))
         else if opt = SQL_CONCURRENCY then
           (if v \<noteq> SQL_CONCUR_READ_ONLY then refuse ''Only read-only cursors are supported''
            else keep (\<lambda>a. a\<lparr>sa_concurrency := v\<rparr>))
         else if opt = SQL_CURSOR_TYPE then
           (if v \<noteq> SQL_CURSOR_FORWARD_ONLY then refuse ''Only forward cursors are currently supported''
            else keep (\<lambda>a. a\<lparr>sa_cursorType := v\<rparr>))
         else if opt = SQL_RETRIEVE_DATA then
           (if v \<noteq> SQL_RD_ON then refuse ''SQLFetch can only retrieve data after it positions the cursor''
            else keep (\<lambda>a. a\<lparr>sa_retrieveData := v\<rparr>))
         else if opt = SQL_ROWSET_SIZE then keep (\<lambda>a. a\<lparr>sa_rowsetSize := v\<rparr>)
         else if opt \<in> {SQL_NOSCAN, SQL_QUERY_TIMEOUT, SQL_MAX_ROWS, SQL_MAX_LENGTH, SQL_KEYSET_SIZE,
             SQL_ASYNC_ENABLE} then
           (AI_SUCCESS_WITH_INFO, cn_record S01000_GENERAL_WARNING ''Specified attribute is ignored.'' cn)
         else refuse ''Specified attribute is not supported'')"

definition stmt_options :: "int set" where
  "stmt_options = {SQL_ASYNC_ENABLE, SQL_BIND_TYPE, SQL_CONCURRENCY, SQL_CURSOR_TYPE, SQL_KEYSET_SIZE,
     SQL_MAX_LENGTH, SQL_MAX_ROWS, SQL_NOSCAN, SQL_QUERY_TIMEOUT, SQL_RETRIEVE_DATA, SQL_ROWSET_SIZE,
     SQL_SIMULATE_CURSOR, SQL_USE_BOOKMARKS}"

definition ignored_options :: "int set" where
  "ignored_options = {SQL_TRANSLATE_DLL, SQL_TRANSLATE_OPTION, SQL_TXN_ISOLATION, SQL_ACCESS_MODE,
     SQL_CURRENT_QUALIFIER, SQL_PACKET_SIZE, SQL_QUIET_MODE, SQL_LOGIN_TIMEOUT}"

definition InternalSetConnectOption ::
  "int \<Rightarrow> int \<Rightarrow> connection \<times> logger \<Rightarrow> sql_result \<times> connection \<times> logger" where
  "InternalSetConnectOption opt v = (\<lambda>(cn, lg).
     if opt \<in> stmt_options then (let (r, cn') = InternalSetStmtAttribute opt v cn in (r, cn', lg))
     else if opt \<in> ignored_options then
       (AI_SUCCESS_WITH_INFO, cn_record S01000_GENERAL_WARNING ''Specified attribute is ignored.'' cn, lg)
     else Connection_SetAttribute opt v (cn, lg))"

definition InternalGetConnectOption ::
  "int \<Rightarrow> bool \<Rightarrow> connection \<times> logger \<Rightarrow> sql_result \<times> (int \<times> int) option \<times> connection" where
  "InternalGetConnectOption opt buf = (\<lambda>(cn, lg).
     if opt \<in> insert SQL_QUERY_TIMEOUT ignored_options then
       (AI_SUCCESS_WITH_INFO, None, cn_record S01000_GENERAL_WARNING ''Specified attribute is ignored.'' cn)
     else Connection_GetAttribute opt buf (cn, lg))"

section \<open>The environment\<close>

record environment =
  en_diag :: diag_storage
  en_connections :: "nat set"
  odbcVersion :: int
  odbcNts :: int

definition NewEnvironment :: environment where
  "NewEnvironment =
     \<lparr>en_diag = DiagnosticRecordStorage, en_connections = {}, odbcVersion = SQL_OV_ODBC3, odbcNts = SQL_TRUE\<rparr>"

definition en_record :: "sql_state \<Rightarrow> string \<Rightarrow> environment \<Rightarrow> environment" where
  "en_record st msg en = en\<lparr>en_diag := AddStatusRecord st msg (en_diag en)\<rparr>"

text \<open>\<open>cn\<close> is the address of the connection that is allocated.\<close>

definition InternalCreateConnection :: "nat \<Rightarrow> environment \<Rightarrow> sql_result \<times> environment" where
  "InternalCreateConnection cn en = (AI_SUCCESS, en\<lparr>en_connections := insert cn (en_connections en)\<rparr>)"

definition DeregisterConnection :: "nat \<Rightarrow> environment \<Rightarrow> environment" where
  "DeregisterConnection cn en = en\<lparr>en_connections := en_connections en - {cn}\<rparr>"

definition Environment_SetAttribute :: "int \<Rightarrow> int \<Rightarrow> environment \<Rightarrow> sql_result \<times> environment" where
  "Environment_SetAttribute attr val en =
     (case EnvironmentAttributeToInternal attr of
        ODBC_VERSION \<Rightarrow>
          (let v = to_int32 val in
           if v = SQL_OV_ODBC2 \<or> v = SQL_OV_ODBC3 then (AI_SUCCESS, en\<lparr>odbcVersion := v\<rparr>)
           else (AI_SUCCESS_WITH_INFO, en_record S01S02_OPTION_VALUE_CHANGED
             (''The value of ODBC version('' @ int_str v @ '') is not supported and the default value(''
               @ int_str (odbcVersion en) @ '') will be used.'') en))
      | OUTPUT_NTS \<Rightarrow>
          (if to_int32 val \<noteq> odbcNts en
           then (AI_SUCCESS_WITH_INFO, en_record S01S02_OPTION_VALUE_CHANGED
             ''Only null-termination of strings is supported.'' en)
           else (AI_SUCCESS, en))
      | _ \<Rightarrow>
          (AI_ERROR, en_record SHYC00_OPTIONAL_FEATURE_NOT_IMPLEMENTED ''Attribute is not supported.'' en))"

text \<open>The number the buffer is asked to hold.\<close>

definition Environment_GetAttribute :: "int \<Rightarrow> environment \<Rightarrow> sql_result \<times> int option \<times> environment" where
  "Environment_GetAttribute attr en =
     (case EnvironmentAttributeToInternal attr of
        ODBC_VERSION \<Rightarrow> (AI_SUCCESS, Some (odbcVersion en), en)
      | OUTPUT_NTS \<Rightarrow> (AI_SUCCESS, Some (odbcNts en), en)
      | _ \<Rightarrow>
          (AI_ERROR, None, en_record SHYC00_OPTIONAL_FEATURE_NOT_IMPLEMENTED ''Attribute is not supported.'' en))"

section \<open>Facts\<close>

interpretation cn_diagnosable: diagnosable cn_diag "\<lambda>f cn. cn\<lparr>cn_diag := f (cn_diag cn)\<rparr>"
  by unfold_locales simp

interpretation en_diagnosable: diagnosable en_diag "\<lambda>f en. en\<lparr>en_diag := f (en_diag en)\<rparr>"
  by unfold_locales simp

lemma cn_record_frame [simp]:
  "queryClient (cn_record st msg cn) = queryClient cn" "cn_config (cn_record st msg cn) = cn_config cn"
  "samlCredProvider (cn_record st msg cn) = samlCredProvider cn"
  "autoCommit (cn_record st msg cn) = autoCommit cn" "metadataID (cn_record st msg cn) = metadataID cn"
  by (simp_all add: cn_record_def)

lemma CloseConnection_simps [simp]:
  "queryClient (CloseConnection cn) = False" "samlCredProvider (CloseConnection cn) = False"
  "cn_config (CloseConnection cn) = cn_config cn" "cn_diag (CloseConnection cn) = cn_diag cn"
  by (simp_all add: CloseConnection_def)

text \<open>The conditions under which the service accepts a configuration.\<close>

definition reachable_service :: "services \<Rightarrow> configuration \<Rightarrow> bool" where
  "reachable_service se cfg \<longleftrightarrow>
     \<not> se_expired se (fst (get_credentials se cfg))
     \<and> se_try se (fst (get_credentials se cfg)) (client_configuration se cfg) (GetValue (cf_endpoint cfg)) = None"

lemma TryRestoreConnection_outcome:
  assumes "TryRestoreConnection se cfg cn = (e, cn')"
  shows "(e = None) = reachable_service se cfg" and "queryClient cn' = (e = None)"
    and "cn_config cn' = cn_config cn" and "e \<noteq> None \<Longrightarrow> \<not> samlCredProvider cn'"
    and "cn_diag cn' = cn_diag cn"
  using assms
  by (auto simp: TryRestoreConnection_def reachable_service_def UpdateConnectionRuntimeInfo_def Let_def
      split: prod.splits if_splits option.splits)

text \<open>A paragraph of the proxy settings keeps the members it does not set, and gives its own member the
  variable.\<close>

lemma from_env_other: "(\<And>v c. f (s v c) = f c) \<Longrightarrow> f (from_env env var s c) = f c"
  by (simp add: from_env_def Let_def)

lemma from_env_own:
  "(\<And>v c. f (s v c) = v) \<Longrightarrow> f (from_env env var s c) = (if Trim (env var) = [] then f c else Trim (env var))"
  by (simp add: from_env_def Let_def)

lemma from_env_port:
  "cc_proxyPort (from_env env var set_port c) =
     (let p = StringToInt (Trim (env var)) in if 0 < p then p else cc_proxyPort c)"
  by (simp add: from_env_def set_port_def Let_def StringToInt_def)

lemma set_port_frame: "f (c\<lparr>cc_proxyPort := p\<rparr>) = f c \<Longrightarrow> p = StringToInt v \<Longrightarrow> f (set_port v c) = f c"
  by (simp add: set_port_def Let_def)

section \<open>Properties\<close>

text \<open> C11. Establishing a connection succeeds exactly when none is open, the configuration is valid and the
  service accepts it; afterwards a client exists if one existed or the call succeeded. The
  configuration is replaced in every case, also by a call that is refused because a connection is
  open already. Releasing always leaves no client, and warns when there was none.\<close>

theorem connection_lifecycle:
  "(fst (EstablishWith se cfg cn) \<in> {AI_SUCCESS, AI_SUCCESS_WITH_INFO} \<longleftrightarrow>
      \<not> queryClient cn \<and> Validate cfg = None \<and> reachable_service se cfg)
   \<and> (queryClient (snd (EstablishWith se cfg cn)) \<longleftrightarrow>
      queryClient cn \<or> fst (EstablishWith se cfg cn) \<in> {AI_SUCCESS, AI_SUCCESS_WITH_INFO})
   \<and> cn_config (snd (EstablishWith se cfg cn)) = cfg
   \<and> \<not> queryClient (snd (InternalRelease cn))
   \<and> fst (InternalRelease cn) = (if queryClient cn then AI_SUCCESS else AI_SUCCESS_WITH_INFO)"
proof -
  obtain e cn1 where T: "TryRestoreConnection se cfg (cn\<lparr>cn_config := cfg\<rparr>) = (e, cn1)" by fastforce
  have E: "EstablishWith se cfg cn =
      (if queryClient cn then
         (AI_ERROR, cn_record S08002_ALREADY_CONNECTED ''Already connected.'' (cn\<lparr>cn_config := cfg\<rparr>))
       else case Validate cfg of
         Some (st, msg) \<Rightarrow> (AI_ERROR, cn_record st msg (cn\<lparr>cn_config := cfg\<rparr>))
       | None \<Rightarrow> (case e of
           Some err \<Rightarrow> (AI_ERROR, cn_record S08001_CANNOT_CONNECT
             (''Failed to establish connection to Timestream.'' @ [newline] @ err) cn1)
         | None \<Rightarrow> (if 0 < GetStatusRecordsNumber (cn_diag cn1) then AI_SUCCESS_WITH_INFO else AI_SUCCESS, cn1)))"
    by (simp add: EstablishWith_def Let_def T split: option.split)
  show ?thesis
    using TryRestoreConnection_outcome(1-3) [OF T]
    by (auto simp: E InternalRelease_def split: option.split)
qed

text \<open> Connection attributes: a value that was set successfully is read back, for the attributes that
  can be read; a refused setting changes only the diagnostics; and a disconnected connection is
  reported alive, since the dead-connection attribute always reads 0.\<close>

theorem connection_attributes:
  assumes "Connection_SetAttribute attr v (cn, lg) = (r, cn', lg')"
  shows "(r = AI_SUCCESS \<and> attr \<in> {SQL_ATTR_AUTOCOMMIT, SQL_ATTR_METADATA_ID} \<longrightarrow>
        fst (snd (Connection_GetAttribute attr True (cn', lg'))) = Some (to_uint32 v, SQL_IS_INTEGER))
    \<and> (r = AI_SUCCESS \<and> attr = SQL_ATTR_TSLOG_DEBUG \<and> v \<in> {0..5} \<longrightarrow>
        fst (snd (Connection_GetAttribute attr True (cn', lg'))) = Some (v, SQL_IS_INTEGER))
    \<and> (r \<noteq> AI_SUCCESS \<longrightarrow> cn' = cn\<lparr>cn_diag := cn_diag cn'\<rparr> \<and> lg' = lg)
    \<and> fst (snd (Connection_GetAttribute SQL_ATTR_CONNECTION_DEAD True (cn', lg'))) = Some (SQL_CD_FALSE, SQL_IS_INTEGER)"
proof -
  have "log_code (level_of v) = v" if "v \<in> {0..5}"
  proof -
    have "v \<in> {0, 1, 2, 3, 4, 5}" using that by auto
    then show ?thesis by (auto simp: level_of_def)
  qed
  then show ?thesis
    using assms
    by (auto simp: Connection_SetAttribute_def Connection_GetAttribute_def Let_def cn_record_def split: if_splits)
qed

theorem connection_attributes_witness:
  "fst (snd (Connection_GetAttribute SQL_ATTR_METADATA_ID True
     (fst (snd (Connection_SetAttribute SQL_ATTR_METADATA_ID SQL_TRUE
        (NewConnection 0 (DefaultConfiguration []) [] [], \<lparr>lg_level = LOG_OFF, lg_path = []\<rparr>))),
      \<lparr>lg_level = LOG_OFF, lg_path = []\<rparr>))) = Some (SQL_TRUE, SQL_IS_INTEGER)"
proof -
  let ?cn = "NewConnection 0 (DefaultConfiguration []) [] []" and ?lg = "\<lparr>lg_level = LOG_OFF, lg_path = []\<rparr>"
  have "to_uint32 1 = 1" by (simp add: to_uint32_def)
  moreover from this have "Connection_SetAttribute SQL_ATTR_METADATA_ID SQL_TRUE (?cn, ?lg) =
      (AI_SUCCESS, ?cn\<lparr>metadataID := True\<rparr>, ?lg)"
    by (simp add: Connection_SetAttribute_def Let_def)
  ultimately show ?thesis using connection_attributes by fastforce
qed

text \<open> Every proxy variable of the environment that is not blank sets its own member of the client
  configuration, and a blank one keeps the default; but the type of the key is stored as the type of
  the certificate, which it replaces, and never as the type of the key.\<close>

theorem proxy_settings:
  "let c' = SetClientProxy env c;
       pick = (\<lambda>var old. if Trim (env var) = [] then old else Trim (env var))
   in cc_proxyHost c' = pick ''TS_PROXY_HOST'' (cc_proxyHost c)
    \<and> cc_proxyPort c' = (let p = StringToInt (Trim (env ''TS_PROXY_PORT'')) in if 0 < p then p else cc_proxyPort c)
    \<and> cc_proxyUserName c' = pick ''TS_PROXY_USER'' (cc_proxyUserName c)
    \<and> cc_proxyPassword c' = pick ''TS_PROXY_PASSWORD'' (cc_proxyPassword c)
    \<and> cc_proxySSLCertPath c' = pick ''TS_PROXY_SSL_CERT_PATH'' (cc_proxySSLCertPath c)
    \<and> cc_proxySSLKeyPath c' = pick ''TS_PROXY_SSL_KEY_PATH'' (cc_proxySSLKeyPath c)
    \<and> cc_proxySSLKeyPassword c' = pick ''TS_PROXY_SSL_KEY_PASSWORD'' (cc_proxySSLKeyPassword c)
    \<and> cc_proxySSLCertType c' =
        pick ''TS_PROXY_SSL_KEY_TYPE'' (pick ''TS_PROXY_SSL_CERT_TYPE'' (cc_proxySSLCertType c))
    \<and> cc_proxySSLKeyType c' = cc_proxySSLKeyType c"
  by (simp add: SetClientProxy_def Let_def from_env_port
      from_env_other [of cc_proxyHost] from_env_own [of cc_proxyHost]
      from_env_other [of cc_proxyUserName] from_env_own [of cc_proxyUserName]
      from_env_other [of cc_proxyPassword] from_env_own [of cc_proxyPassword]
      from_env_other [of cc_proxySSLCertPath] from_env_own [of cc_proxySSLCertPath]
      from_env_other [of cc_proxySSLCertType] from_env_own [of cc_proxySSLCertType]
      from_env_other [of cc_proxySSLKeyPath] from_env_own [of cc_proxySSLKeyPath]
      from_env_other [of cc_proxySSLKeyPassword] from_env_own [of cc_proxySSLKeyPassword]
      from_env_other [of cc_proxySSLKeyType] from_env_other [of cc_proxyPort] set_port_frame)

end
