(* ===== verification/Statement.thy ===== *)
theory Statement
  imports Catalog_Queries App_Buffer Connection
begin

text \<open>
  Statements (\<^verbatim>\<open>src/statement.cpp\<close>): column bindings and their descriptor records, attributes, the
  life of the current query, fetching rowsets, and cursor names. The current query is an object of
  any class of queries, given by the record of its virtual functions. Descriptors live in a store,
  since a statement and the application share them; addresses are integers, 0 the null pointer.
  Operations that fetch read and write the application's memory.
\<close>

section \<open>State\<close>

type_synonym desc_store = "int \<Rightarrow> descriptor"

record 'q statement =
  st_id :: nat
  st_diag :: diag_storage
  columnBindings :: "nat \<Rightarrow> app_buffer option"
  currentQuery :: "'q option"
  rowsFetched :: int
  rowStatuses :: int
  columnBindOffset :: int
  st_cellOffset :: int
  currentColNum :: int
  rowArraySize :: int
  rowsetSize :: int
  ardi :: int
  apdi :: int
  irdi :: int
  ipdi :: int
  ard :: int
  ird :: int

definition st_record :: "sql_state \<Rightarrow> string \<Rightarrow> 'q statement \<Rightarrow> 'q statement" where
  "st_record state msg st = st\<lparr>st_diag := AddStatusRecord state msg (st_diag st)\<rparr>"

definition set_head :: "int \<Rightarrow> (desc_header \<Rightarrow> desc_header) \<Rightarrow> desc_store \<Rightarrow> desc_store" where
  "set_head p f h = h(p := (h p)\<lparr>desc_head := f (desc_head (h p))\<rparr>)"

text \<open>The four implicit descriptors are allocated at the given addresses; \<open>junk\<close> is the header the
  constructor of a descriptor leaves uninitialised.\<close>

definition implicit_desc :: "nat \<Rightarrow> desc_type \<Rightarrow> desc_header \<Rightarrow> descriptor" where
  "implicit_desc i k junk =
     (let d = (NewDescriptor junk)\<lparr>desc_kind := k, desc_stmt := Some i\<rparr>
      in if k = ARD \<or> k = APD then InitAppHead True d else InitImpHead d)"

definition NewStatement ::
  "nat \<Rightarrow> int \<Rightarrow> int \<Rightarrow> int \<Rightarrow> int \<Rightarrow> desc_header \<Rightarrow> desc_store \<Rightarrow> 'q statement \<times> desc_store" where
  "NewStatement i a b c d junk h =
     (\<lparr>st_id = i, st_diag = DiagnosticRecordStorage, columnBindings = Map.empty, currentQuery = None,
       rowsFetched = 0, rowStatuses = 0, columnBindOffset = 0, st_cellOffset = 0, currentColNum = 0,
       rowArraySize = 1, rowsetSize = 1, ardi = a, apdi = b, irdi = c, ipdi = d, ard = a, ird = c\<rparr>,
      h(a := implicit_desc i ARD junk, b := implicit_desc i APD junk, c := implicit_desc i IRD junk,
        d := implicit_desc i IPD junk))"

definition RestoreDescriptor :: "desc_type \<Rightarrow> 'q statement \<Rightarrow> 'q statement" where
  "RestoreDescriptor k st =
     (if k = ARD then st\<lparr>ard := ardi st\<rparr> else if k = IRD then st\<lparr>ird := irdi st\<rparr> else st)"

section \<open>Bindings\<close>

definition SafeBindColumn :: "nat \<Rightarrow> app_buffer \<Rightarrow> 'q statement \<Rightarrow> 'q statement" where
  "SafeBindColumn i b st = st\<lparr>columnBindings := (columnBindings st)(i \<mapsto> b)\<rparr>"

definition SafeUnbindColumn :: "nat \<Rightarrow> 'q statement \<Rightarrow> 'q statement" where
  "SafeUnbindColumn i st = st\<lparr>columnBindings := (columnBindings st)(i := None)\<rparr>"

definition SafeUnbindAllColumns :: "'q statement \<Rightarrow> 'q statement" where
  "SafeUnbindAllColumns st = st\<lparr>columnBindings := Map.empty\<rparr>"

definition bound_type :: "int \<Rightarrow> desc_record \<Rightarrow> desc_record" where
  "bound_type t r =
     (if t = SQL_TYPE_DATE then
        r\<lparr>dr_type := SQL_DATETIME, dr_conciseType := SQL_TYPE_DATE, dr_datetimeIntervalCode := SQL_CODE_DATE\<rparr>
      else if t = SQL_TYPE_TIME then
        r\<lparr>dr_type := SQL_DATETIME, dr_conciseType := SQL_TYPE_TIME, dr_datetimeIntervalCode := SQL_CODE_TIME\<rparr>
      else if t = SQL_TYPE_TIMESTAMP then
        r\<lparr>dr_type := SQL_DATETIME, dr_conciseType := SQL_TYPE_TIMESTAMP,
          dr_datetimeIntervalCode := SQL_CODE_TIMESTAMP\<rparr>
      else if t = SQL_INTERVAL_YEAR_TO_MONTH then
        r\<lparr>dr_type := SQL_INTERVAL, dr_conciseType := SQL_INTERVAL_YEAR_TO_MONTH,
          dr_datetimeIntervalCode := SQL_CODE_YEAR_TO_MONTH\<rparr>
      else if t = SQL_INTERVAL_DAY_TO_SECOND then
        r\<lparr>dr_type := SQL_INTERVAL, dr_conciseType := SQL_INTERVAL_DAY_TO_SECOND,
          dr_datetimeIntervalCode := SQL_CODE_DAY_TO_SECOND\<rparr>
      else r\<lparr>dr_type := t, dr_conciseType := t\<rparr>)"

definition SetDescriptorFields ::
  "nat \<Rightarrow> int \<Rightarrow> int \<Rightarrow> int \<Rightarrow> int \<Rightarrow> descriptor \<Rightarrow> descriptor" where
  "SetDescriptorFields i t val len ind d0 =
     (let d = (if dh_count (desc_head d0) < int i
               then d0\<lparr>desc_head := (desc_head d0)\<lparr>dh_count := to_int16 (int i)\<rparr>\<rparr> else d0);
          r = bound_type t (get_record (int i) d)
      in put_record (int i)
           (r\<lparr>dr_length := (if t \<in> char_types then to_uint64 len else to_uint64 (SqlTypeTransferLength_of t)),
             dr_precision := SqlTypePrecision_of t, dr_scale := SqlTypeScale_of t,
             dr_octetLength := len, dr_dataPtr := val, dr_indicatorPtr := ind, dr_octetLengthPtr := ind\<rparr>) d)"

definition InternalBindColumn ::
  "nat \<Rightarrow> int \<Rightarrow> int \<Rightarrow> int \<Rightarrow> int \<Rightarrow> 'q statement \<times> desc_store \<Rightarrow> sql_result \<times> 'q statement \<times> desc_store" where
  "InternalBindColumn i t val len ind = (\<lambda>(st, h).
     let ty = ToDriverType t in
     if ty = AI_UNSUPPORTED then
       (AI_ERROR, st_record SHY003_INVALID_APPLICATION_BUFFER_TYPE
          ''The argument TargetType was not a valid data type.'' st, h)
     else if len < 0 \<or> len = 0 \<and> (ty = AI_CHAR \<or> ty = AI_WCHAR) then
       (AI_ERROR, st_record SHY090_INVALID_STRING_OR_BUFFER_LENGTH
          ''The value specified for the argument BufferLength was less than 0 or 0 for string types.'' st, h)
     else if val \<noteq> 0 \<or> ind \<noteq> 0 then
       (AI_SUCCESS, SafeBindColumn i (ApplicationDataBuffer ty val len ind) st,
        h(ard st := SetDescriptorFields i t val len ind (h (ard st))))
     else (AI_SUCCESS, SafeUnbindColumn i st, h))"

section \<open>Attributes\<close>

definition SetARDDesc :: "int \<Rightarrow> 'q statement \<times> desc_store \<Rightarrow> 'q statement \<times> desc_store" where
  "SetARDDesc p = (\<lambda>(st, h).
     if p = 0 then (st\<lparr>ard := ardi st\<rparr>, h)
     else (st\<lparr>ard := p\<rparr>, h(p := (h p)\<lparr>desc_kind := ARD, desc_stmt := Some (st_id st)\<rparr>)))"

text \<open>The value argument is a number or an address. The metadata attribute belongs to the connection,
  whose own call protocol runs.\<close>

type_synonym 'q stmt_state = "'q statement \<times> desc_store \<times> connection \<times> logger"

definition stmt_refuse ::
  "sql_state \<Rightarrow> string \<Rightarrow> 'q stmt_state \<Rightarrow> sql_result \<times> 'q stmt_state" where
  "stmt_refuse state msg = (\<lambda>(st, w). (AI_ERROR, st_record state msg st, w))"

definition cn_SetAttribute :: "int \<Rightarrow> int \<Rightarrow> connection \<times> logger \<Rightarrow> connection \<times> logger" where
  "cn_SetAttribute attr v =
     api_call (\<lambda>f (cn, lg). (cn\<lparr>cn_diag := f (cn_diag cn)\<rparr>, lg)) (Connection_SetAttribute attr v)"

definition InternalSetAttribute :: "int \<Rightarrow> int \<Rightarrow> 'q stmt_state \<Rightarrow> sql_result \<times> 'q stmt_state" where
  "InternalSetAttribute attr v = (\<lambda>(st, h, cn, lg).
     let s = (st, h, cn, lg);
         optional = SHYC00_OPTIONAL_FEATURE_NOT_IMPLEMENTED
     in if attr = SQL_ATTR_CONCURRENCY then
          (if v \<noteq> SQL_CONCUR_READ_ONLY then stmt_refuse optional ''Only read-only cursors are supported'' s
           else (AI_SUCCESS, s))
        else if attr = SQL_ATTR_CURSOR_TYPE then
          (if v \<noteq> SQL_CURSOR_FORWARD_ONLY
           then stmt_refuse optional ''Only forward cursors are currently supported'' s else (AI_SUCCESS, s))
        else if attr = SQL_ATTR_METADATA_ID then
          (if v \<noteq> SQL_TRUE \<and> v \<noteq> SQL_FALSE
           then stmt_refuse SHY024_INVALID_ATTRIBUTE_VALUE ''Invalid argument value'' s
           else (AI_SUCCESS, st, h, cn_SetAttribute SQL_ATTR_METADATA_ID v (cn, lg)))
        else if attr = SQL_ATTR_RETRIEVE_DATA then
          (if v \<noteq> SQL_RD_ON
           then stmt_refuse optional ''SQLFetch can only retrieve data after it positions the cursor'' s
           else (AI_SUCCESS, s))
        else if attr = SQL_ATTR_PARAM_BIND_TYPE then
          (if v \<noteq> SQL_PARAM_BIND_BY_COLUMN
           then stmt_refuse optional ''Only binding by column is currently supported'' s else (AI_SUCCESS, s))
        else if attr = SQL_ATTR_APP_ROW_DESC then
          (if v \<noteq> 0 \<and> desc_conn (h v) \<noteq> Some (cn_id cn)
           then stmt_refuse SHY024_INVALID_ATTRIBUTE_VALUE
             ''Descriptor does not belong to the statement connection.'' s
           else if v \<noteq> 0 \<and> desc_stmt (h v) \<noteq> None \<and> desc_stmt (h v) \<noteq> Some (st_id st)
           then stmt_refuse SHY000_GENERAL_ERROR ''Descriptor has been set to another statement.'' s
           else (let (st', h') = SetARDDesc v (st, h) in (AI_SUCCESS, st', h', cn, lg)))
        else if attr = SQL_ROWSET_SIZE then
          (AI_SUCCESS, st\<lparr>rowsetSize := v\<rparr>, set_head (ard st) (\<lambda>d. d\<lparr>dh_rowsetSize := v\<rparr>) h, cn, lg)
        else if attr = SQL_ATTR_ROW_ARRAY_SIZE then
          (AI_SUCCESS, st\<lparr>rowArraySize := v\<rparr>, set_head (ard st) (\<lambda>d. d\<lparr>arraySize := v\<rparr>) h, cn, lg)
        else if attr = SQL_ATTR_PARAM_BIND_OFFSET_PTR then
          (AI_SUCCESS, st, set_head (apdi st) (\<lambda>d. d\<lparr>bindOffsetPtr := v\<rparr>) h, cn, lg)
        else if attr = SQL_ATTR_ROW_BIND_OFFSET_PTR then
          (AI_SUCCESS, st\<lparr>columnBindOffset := v\<rparr>, set_head (ard st) (\<lambda>d. d\<lparr>bindOffsetPtr := v\<rparr>) h, cn, lg)
        else if attr = SQL_ATTR_ROW_BIND_TYPE then
          (if v \<noteq> SQL_BIND_BY_COLUMN
           then stmt_refuse optional ''Only binding by column is currently supported'' s
           else (AI_SUCCESS, st, set_head (ard st) (\<lambda>d. d\<lparr>bindType := v\<rparr>) h, cn, lg))
        else if attr = SQL_ATTR_ROW_OPERATION_PTR then
          (AI_SUCCESS, st, set_head (ard st) (\<lambda>d. d\<lparr>arrayStatusPtr := v\<rparr>) h, cn, lg)
        else if attr = SQL_ATTR_ROW_STATUS_PTR then
          (AI_SUCCESS, st\<lparr>rowStatuses := v\<rparr>, set_head (ird st) (\<lambda>d. d\<lparr>arrayStatusPtr := v\<rparr>) h, cn, lg)
        else if attr = SQL_ATTR_ROWS_FETCHED_PTR then
          (AI_SUCCESS, st\<lparr>rowsFetched := v\<rparr>, set_head (ird st) (\<lambda>d. d\<lparr>rowsProcessedPtr := v\<rparr>) h, cn, lg)
        else stmt_refuse optional ''Specified attribute is not supported.'' s)"

text \<open>One call of \<^verbatim>\<open>SetAttribute\<close> with its protocol, and the calls a new statement makes for the attributes
  of its connection.\<close>

definition st_upd :: "(diag_storage \<Rightarrow> diag_storage) \<Rightarrow> 'q stmt_state \<Rightarrow> 'q stmt_state" where
  "st_upd f = (\<lambda>(st, w). (st\<lparr>st_diag := f (st_diag st)\<rparr>, w))"

definition Statement_SetAttribute :: "int \<Rightarrow> int \<Rightarrow> 'q stmt_state \<Rightarrow> 'q stmt_state" where
  "Statement_SetAttribute attr v = api_call st_upd (InternalSetAttribute attr v)"

definition SetStatementAttributes :: "stmt_attributes \<Rightarrow> 'q stmt_state \<Rightarrow> 'q stmt_state" where
  "SetStatementAttributes a s0 = fold (\<lambda>f. f)
     [Statement_SetAttribute SQL_ATTR_ROW_BIND_TYPE (sa_bindType a),
      Statement_SetAttribute SQL_ATTR_CONCURRENCY (sa_concurrency a),
      Statement_SetAttribute SQL_ATTR_CURSOR_TYPE (sa_cursorType a),
      Statement_SetAttribute SQL_ATTR_RETRIEVE_DATA (sa_retrieveData a),
      Statement_SetAttribute SQL_ATTR_ROW_ARRAY_SIZE (sa_rowArraySize a),
      Statement_SetAttribute SQL_ROWSET_SIZE (sa_rowsetSize a)] s0"

definition InternalCreateStatement ::
  "nat \<Rightarrow> int \<Rightarrow> int \<Rightarrow> int \<Rightarrow> int \<Rightarrow> desc_header \<Rightarrow> desc_store \<times> connection \<times> logger \<Rightarrow>
   sql_result \<times> 'q stmt_state" where
  "InternalCreateStatement i a b c d junk = (\<lambda>(h, cn, lg).
     let (st, h') = NewStatement i a b c d junk h
     in (AI_SUCCESS, SetStatementAttributes (stmtAttr cn) (st, h', cn, lg)))"

text \<open>The value written to the buffer and the length written, where the attribute writes one. A null
  buffer is \<open>False\<close>.\<close>

definition InternalGetAttribute ::
  "('q, 'col, app_buffer, memory) query_class \<Rightarrow> int \<Rightarrow> bool \<Rightarrow> connection \<Rightarrow> 'q statement \<Rightarrow>
   sql_result \<times> (int \<times> int option) option \<times> 'q statement" where
  "InternalGetAttribute vt attr buf cn st =
     (let value = (\<lambda>v. (AI_SUCCESS, Some (v, None), st));
          sized = (\<lambda>v n. (AI_SUCCESS, Some (v, Some n), st))
      in if \<not> buf then (AI_ERROR, None, st_record SHY000_GENERAL_ERROR ''Data buffer is NULL.'' st)
         else if attr = SQL_ATTR_APP_ROW_DESC then sized (ard st) SQL_IS_POINTER
         else if attr = SQL_ATTR_IMP_ROW_DESC then sized (ird st) SQL_IS_POINTER
         else if attr = SQL_ATTR_APP_PARAM_DESC then sized (apdi st) SQL_IS_POINTER
         else if attr = SQL_ATTR_IMP_PARAM_DESC then sized (ipdi st) SQL_IS_POINTER
         else if attr = SQL_ATTR_CONCURRENCY then value SQL_CONCUR_READ_ONLY
         else if attr = SQL_ATTR_CURSOR_SCROLLABLE then value SQL_NONSCROLLABLE
         else if attr = SQL_ATTR_CURSOR_SENSITIVITY then value SQL_INSENSITIVE
         else if attr = SQL_ATTR_CURSOR_TYPE then value SQL_CURSOR_FORWARD_ONLY
         else if attr = SQL_ATTR_ENABLE_AUTO_IPD then value SQL_FALSE
         else if attr = SQL_ATTR_METADATA_ID then value (if metadataID cn then SQL_TRUE else SQL_FALSE)
         else if attr = SQL_ATTR_RETRIEVE_DATA then value SQL_RD_ON
         else if attr = SQL_ROWSET_SIZE then sized (rowsetSize st) SQL_IS_UINTEGER
         else if attr = SQL_ATTR_ROW_ARRAY_SIZE then sized (rowArraySize st) SQL_IS_UINTEGER
         else if attr = SQL_ATTR_ROW_BIND_TYPE then value SQL_BIND_BY_COLUMN
         else if attr = SQL_ATTR_ROWS_FETCHED_PTR then sized (rowsFetched st) SQL_IS_POINTER
         else if attr = SQL_ATTR_ROW_NUMBER then
           (case currentQuery st of
              None \<Rightarrow> (AI_SUCCESS, Some (0, None), st_record S24000_INVALID_CURSOR_STATE
                ''Cursor is not in the open state, cannot determine row number'' st)
            | Some q \<Rightarrow> (let (n, d) = vt_RowNumber vt q (st_diag st)
                in (AI_SUCCESS, Some (n, None), st\<lparr>st_diag := d\<rparr>)))
         else if attr = SQL_ATTR_ROW_STATUS_PTR then sized (rowStatuses st) SQL_IS_POINTER
         else if attr = SQL_ATTR_PARAM_BIND_TYPE then value SQL_PARAM_BIND_BY_COLUMN
         else if attr = SQL_ATTR_ROW_BIND_OFFSET_PTR then sized (columnBindOffset st) SQL_IS_POINTER
         else (AI_ERROR, None, st_record SHYC00_OPTIONAL_FEATURE_NOT_IMPLEMENTED
                 ''Specified attribute is not supported.'' st))"

text \<open>The options of ODBC 2 read the attribute of the same number.\<close>

definition InternalGetStmtOption ::
  "('q, 'col, app_buffer, memory) query_class \<Rightarrow> int \<Rightarrow> bool \<Rightarrow> connection \<Rightarrow> 'q statement \<Rightarrow>
   sql_result \<times> (int \<times> int option) option \<times> 'q statement" where
  "InternalGetStmtOption vt opt buf cn st =
     (if \<not> buf then (AI_ERROR, None, st_record SHY000_GENERAL_ERROR ''Data buffer is NULL.'' st)
      else InternalGetAttribute vt opt buf cn st)"

end
