(* ===== verification/Wide_Strings.thy ===== *)
theory Wide_Strings
  imports App_Buffer
begin

text \<open>
  Wide strings (\<^verbatim>\<open>src/utility.cpp\<close>): text is UTF-8 inside the driver and an array of \<^verbatim>\<open>SQLWCHAR\<close>
  units, of 2 or 4 bytes each, at the interface. The conversions rest on the conversion facet of
  the standard library for UTF-8, which is modelled here: it converts as many characters as the
  output has room for and reports success, a partial conversion, or an error.
\<close>

section \<open>UTF-8\<close>

datatype utf8_item = Code nat string | Incomplete | Invalid

definition continuation :: "char \<Rightarrow> bool" where
  "continuation c \<longleftrightarrow> 128 \<le> char_code c \<and> char_code c < 192"

text \<open>The first character of a text. \<open>lo\<close> and \<open>hi\<close> bound the second byte, which excludes overlong forms,
  surrogates and codes above \<^verbatim>\<open>U+10FFFF\<close>.\<close>

fun utf8_tail :: "nat \<Rightarrow> nat \<Rightarrow> nat \<Rightarrow> nat \<Rightarrow> string \<Rightarrow> utf8_item" where
  "utf8_tail 0 lo hi acc s = Code acc s"
| "utf8_tail (Suc n) lo hi acc [] = Incomplete"
| "utf8_tail (Suc n) lo hi acc (c # s) =
     (if char_code c < lo \<or> hi < char_code c then Invalid
      else utf8_tail n 128 191 (acc * 64 + (char_code c - 128)) s)"

fun utf8_next :: "string \<Rightarrow> utf8_item" where
  "utf8_next [] = Incomplete"
| "utf8_next (c # s) =
     (let b = char_code c in
      if b < 128 then Code b s
      else if b < 194 then Invalid
      else if b < 224 then utf8_tail 1 128 191 (b - 192) s
      else if b < 240 then
        utf8_tail 2 (if b = 224 then 160 else 128) (if b = 237 then 159 else 191) (b - 224) s
      else if b < 245 then
        utf8_tail 3 (if b = 240 then 144 else 128) (if b = 244 then 143 else 191) (b - 240) s
      else Invalid)"

definition byte_char :: "nat \<Rightarrow> char" where "byte_char n = char_of n"

definition utf8_encode1 :: "nat \<Rightarrow> string" where
  "utf8_encode1 u =
     (if u < 128 then [byte_char u]
      else if u < 2048 then [byte_char (192 + u div 64), byte_char (128 + u mod 64)]
      else if u < 65536 then
        [byte_char (224 + u div 4096), byte_char (128 + u div 64 mod 64), byte_char (128 + u mod 64)]
      else
        [byte_char (240 + u div 262144), byte_char (128 + u div 4096 mod 64),
         byte_char (128 + u div 64 mod 64), byte_char (128 + u mod 64)])"

definition utf8_encode :: "nat list \<Rightarrow> string" where
  "utf8_encode us = concat (map utf8_encode1 us)"

text \<open>Unicode scalar values.\<close>

definition scalar_value :: "nat \<Rightarrow> bool" where
  "scalar_value u \<longleftrightarrow> u < 55296 \<or> 57344 \<le> u \<and> u < 1114112"

section \<open>The conversion facet\<close>

datatype cvt_result = Cvt_ok | Cvt_partial | Cvt_error

text \<open>\<^verbatim>\<open>codecvt_utf8::in\<close>: the result, the units produced and the input left. \<open>mx\<close> is the largest code a
  unit holds.\<close>

fun cvt_in :: "nat \<Rightarrow> nat \<Rightarrow> string \<Rightarrow> cvt_result \<times> nat list \<times> string" where
  "cvt_in mx n [] = (Cvt_ok, [], [])"
| "cvt_in mx 0 (c # s) = (Cvt_partial, [], c # s)"
| "cvt_in mx (Suc n) (c # s) =
     (case utf8_next (c # s) of
        Incomplete \<Rightarrow> (Cvt_partial, [], c # s)
      | Invalid \<Rightarrow> (Cvt_error, [], c # s)
      | Code u s' \<Rightarrow>
          if mx < u then (Cvt_error, [], c # s)
          else (let (r, us, rest) = cvt_in mx n s' in (r, u # us, rest)))"

definition max_code :: "nat \<Rightarrow> nat" where
  "max_code w = (if w = 2 then 65535 else 1114111)"

definition wide_bytes :: "nat \<Rightarrow> nat list \<Rightarrow> 8 word list" where
  "wide_bytes w us = concat (map (\<lambda>u. le_bytes w (int u)) us)"

section \<open>Copying out\<close>

text \<open>\<^verbatim>\<open>CopyUtf8StringToWcharString\<close> for units of \<open>w\<close> bytes and a text without zero bytes: the bytes of the
  converted text, the truncation flag (\<open>tr0\<close> before the call) and the memory. A buffer without room
  for a character and its terminator is not written; the length then is that of the whole text.\<close>

definition CopyUtf8StringToWcharString ::
  "nat \<Rightarrow> string \<Rightarrow> int \<Rightarrow> nat \<Rightarrow> bool \<Rightarrow> memory \<Rightarrow> nat \<times> bool \<times> memory" where
  "CopyUtf8StringToWcharString w s out len tr0 m =
     (if out \<noteq> 0 \<and> len = 0 then (0, tr0, m)
      else
        let inplace = (out \<noteq> 0 \<and> w < len);
            room = (if inplace then len div w - 1 else length s);
            (r, us, rest) = cvt_in (max_code w) room s;
            tr = (case r of Cvt_error \<Rightarrow> True | Cvt_partial \<Rightarrow> True | Cvt_ok \<Rightarrow> rest \<noteq> [])
        in (length us * w, tr, if inplace then write_bytes out (wide_bytes w (us @ [0])) m else m))"

definition CopyStringToBuffer ::
  "nat \<Rightarrow> string \<Rightarrow> int \<Rightarrow> nat \<Rightarrow> bool \<Rightarrow> memory \<Rightarrow> nat \<times> bool \<times> memory" where
  "CopyStringToBuffer w s out len inBytes m =
     (let (n, tr, m') = CopyUtf8StringToWcharString w s out (if inBytes then len else len * w) False m
      in (if inBytes then n else n div w, tr, m'))"

section \<open>Reading in\<close>

text \<open>\<^verbatim>\<open>SqlWcharToString\<close> on the units found at the pointer; \<open>None\<close> is the null pointer. A negative length
  other than \<^verbatim>\<open>SQL_NTS\<close> reads nothing. The units are scalar values.\<close>

definition SqlWcharToString :: "nat \<Rightarrow> nat list option \<Rightarrow> int \<Rightarrow> bool \<Rightarrow> string" where
  "SqlWcharToString w str len inBytes =
     (case str of
        None \<Rightarrow> []
      | Some us \<Rightarrow>
          utf8_encode
            (if len = SQL_NTS then takeWhile (\<lambda>u. u \<noteq> 0) us
             else if 0 < len then
               takeWhile (\<lambda>u. u \<noteq> 0) (take (if inBytes then nat len div w else nat len) us)
             else []))"

definition SqlWcharToOptString :: "nat \<Rightarrow> nat list option \<Rightarrow> int \<Rightarrow> bool \<Rightarrow> string option" where
  "SqlWcharToOptString w str len inBytes =
     (case str of None \<Rightarrow> None | Some _ \<Rightarrow> Some (SqlWcharToString w str len inBytes))"

definition SqlCharToString :: "string option \<Rightarrow> int \<Rightarrow> string" where
  "SqlCharToString str len =
     (case str of
        None \<Rightarrow> []
      | Some s \<Rightarrow>
          if len = SQL_NTS then takeWhile (\<lambda>c. c \<noteq> NUL) s
          else if 0 < len then take (nat len) s else [])"

text \<open>The units at an address, for \<open>n\<close> units of \<open>w\<close> bytes.\<close>

definition read_wide :: "nat \<Rightarrow> int \<Rightarrow> nat \<Rightarrow> memory \<Rightarrow> nat list" where
  "read_wide w a n m = map (\<lambda>i. nat (le_val (read_bytes (a + int (i * w)) w m))) [0..<n]"

section \<open>Facts\<close>

lemma char_code_byte [simp]: "n < 256 \<Longrightarrow> char_code (byte_char n) = n"
  by (simp add: char_code_def byte_char_def)

lemma utf8_encode1_nonempty [simp]: "utf8_encode1 u \<noteq> []"
  by (simp add: utf8_encode1_def)

lemma div_64_again:
  fixes u :: nat
  shows "u div 4096 = u div 64 div 64" "u div 262144 = u div 64 div 64 div 64"
  by (simp_all add: div_mult2_eq [symmetric])

lemma digits_64:
  fixes u :: nat
  shows "u div 64 * 64 + u mod 64 = u" "(u div 4096 * 64 + u div 64 mod 64) * 64 + u mod 64 = u"
    "((u div 262144 * 64 + u div 4096 mod 64) * 64 + u div 64 mod 64) * 64 + u mod 64 = u"
  by (simp_all only: div_64_again div_mult_mod_eq)

lemma utf8_tail_numeral:
  "utf8_tail (Suc 0) lo hi acc (c # s) = (if char_code c < lo \<or> hi < char_code c then Invalid
     else Code (acc * 64 + (char_code c - 128)) s)"
  "utf8_tail 2 lo hi acc (c # s) = (if char_code c < lo \<or> hi < char_code c then Invalid
     else utf8_tail (Suc 0) 128 191 (acc * 64 + (char_code c - 128)) s)"
  "utf8_tail 3 lo hi acc (c # s) = (if char_code c < lo \<or> hi < char_code c then Invalid
     else utf8_tail 2 128 191 (acc * 64 + (char_code c - 128)) s)"
  using utf8_tail.simps(3) [of 0] utf8_tail.simps(3) [of 1] utf8_tail.simps(3) [of 2]
  by (simp_all del: utf8_tail.simps(3) add: numeral_2_eq_2 numeral_3_eq_3)

lemma utf8_next_sequences:
  "2 \<le> a \<Longrightarrow> a < 32 \<Longrightarrow> d < 64 \<Longrightarrow>
    utf8_next (byte_char (192 + a) # byte_char (128 + d) # s) = Code (a * 64 + d) s"
  "a < 16 \<Longrightarrow> b < 64 \<Longrightarrow> d < 64 \<Longrightarrow> (a = 0 \<longrightarrow> 32 \<le> b) \<Longrightarrow> (a = 13 \<longrightarrow> b < 32) \<Longrightarrow>
    utf8_next (byte_char (224 + a) # byte_char (128 + b) # byte_char (128 + d) # s) =
      Code ((a * 64 + b) * 64 + d) s"
  "a < 5 \<Longrightarrow> b < 64 \<Longrightarrow> e < 64 \<Longrightarrow> d < 64 \<Longrightarrow> (a = 0 \<longrightarrow> 16 \<le> b) \<Longrightarrow> (a = 4 \<longrightarrow> b < 16) \<Longrightarrow>
    utf8_next (byte_char (240 + a) # byte_char (128 + b) # byte_char (128 + e) # byte_char (128 + d) # s) =
      Code (((a * 64 + b) * 64 + e) * 64 + d) s"
  by (auto simp add: Let_def utf8_tail_numeral simp del: utf8_tail.simps)

lemma scalar_digits:
  fixes a b d e u :: nat
  shows "u = (a * 64 + b) * 64 + d \<Longrightarrow> b < 64 \<Longrightarrow> d < 64 \<Longrightarrow> 2048 \<le> u \<Longrightarrow> u < 65536 \<Longrightarrow> scalar_value u \<Longrightarrow>
      a < 16 \<and> (a = 0 \<longrightarrow> 32 \<le> b) \<and> (a = 13 \<longrightarrow> b < 32)"
    and "u = ((a * 64 + b) * 64 + e) * 64 + d \<Longrightarrow> b < 64 \<Longrightarrow> e < 64 \<Longrightarrow> d < 64 \<Longrightarrow> 65536 \<le> u \<Longrightarrow> u < 1114112 \<Longrightarrow>
      a < 5 \<and> (a = 0 \<longrightarrow> 16 \<le> b) \<and> (a = 4 \<longrightarrow> b < 16)"
  by (auto simp: scalar_value_def)

lemma utf8_next_encode:
  assumes "scalar_value u"
  shows "utf8_next (utf8_encode1 u @ s) = Code u s"
proof -
  consider (one) "u < 128" | (two) "128 \<le> u" "u < 2048" | (three) "2048 \<le> u" "u < 65536"
    | (four) "65536 \<le> u" "u < 1114112"
    using assms unfolding scalar_value_def by linarith
  then show ?thesis
  proof cases
    case one
    then show ?thesis by (simp add: utf8_encode1_def Let_def)
  next
    case two
    then have "2 \<le> u div 64" "u div 64 < 32" by linarith+
    from utf8_next_sequences(1) [OF this, of "u mod 64" s, unfolded digits_64] two show ?thesis
      by (simp add: utf8_encode1_def del: utf8_next.simps)
  next
    case three
    have d: "u mod 64 < 64" "u div 64 mod 64 < 64" by simp_all
    note scalar_digits(1) [OF digits_64(2) [of u, symmetric] d(2,1) three assms]
    then show ?thesis
      using utf8_next_sequences(2) [of "u div 4096" "u div 64 mod 64" "u mod 64" s, unfolded digits_64] three d
      by (simp add: utf8_encode1_def del: utf8_next.simps)
  next
    case four
    have d: "u mod 64 < 64" "u div 64 mod 64 < 64" "u div 4096 mod 64 < 64" by simp_all
    note scalar_digits(2) [OF digits_64(3) [of u, symmetric] d(3,2,1) four]
    then show ?thesis
      using utf8_next_sequences(3) [of "u div 262144" "u div 4096 mod 64" "u div 64 mod 64" "u mod 64" s, unfolded digits_64] four d
      by (simp add: utf8_encode1_def del: utf8_next.simps)
  qed
qed

text \<open>The facet converts an encoded text character by character, up to the room there is.\<close>

lemma cvt_in_encode:
  assumes "\<forall>u\<in>set us. scalar_value u \<and> u \<le> mx"
  shows "cvt_in mx n (utf8_encode us) =
    (if length us \<le> n then Cvt_ok else Cvt_partial, take n us, utf8_encode (drop n us))"
  using assms
proof (induction us arbitrary: n)
  case Nil
  then show ?case by (simp add: utf8_encode_def)
next
  case (Cons u us)
  obtain c s where e: "utf8_encode (u # us) = c # s"
    by (metis append_is_Nil_conv concat.simps(2) list.exhaust list.simps(9) utf8_encode1_nonempty utf8_encode_def)
  have next_u: "utf8_next (c # s) = Code u (utf8_encode us)"
    using Cons.prems utf8_next_encode [of u "utf8_encode us"] e by (simp add: utf8_encode_def)
  show ?case
  proof (cases n)
    case 0
    then show ?thesis using e by simp
  next
    case (Suc k)
    then show ?thesis
      using Cons e next_u by (simp del: utf8_next.simps)
  qed
qed

lemma length_wide_bytes [simp]: "length (wide_bytes w us) = length us * w"
  by (induction us) (simp_all add: wide_bytes_def)

lemma read_wide_write:
  assumes "\<forall>u\<in>set us. u < 256 ^ w"
  shows "read_wide w a (length us) (write_bytes a (wide_bytes w us) m) = us"
  using assms
proof (induction us arbitrary: a m)
  case Nil
  then show ?case by (simp add: read_wide_def)
next
  case (Cons u us)
  let ?b = "le_bytes w (int u)"
  have app: "write_bytes a (bs @ cs) m = write_bytes (a + int (length bs)) cs (write_bytes a bs m)" for bs cs a m
    by (induction bs arbitrary: a m) (simp_all add: algebra_simps)
  let ?m = "write_bytes (a + int w) (wide_bytes w us) (write_bytes a ?b m)"
  have m: "write_bytes a (wide_bytes w (u # us)) m = ?m" by (simp add: wide_bytes_def app)
  have "read_bytes a w ?m = ?b"
    using read_write_bytes [of a ?b m] by (simp add: read_bytes_outside)
  then have hd: "nat (le_val (read_bytes a w ?m)) = u"
    using Cons.prems by (simp add: le_val_le_bytes)
  have "read_wide w a (Suc (length us)) ?m = nat (le_val (read_bytes a w ?m)) # read_wide w (a + int w) (length us) ?m"
    by (simp add: read_wide_def upt_conv_Cons map_Suc_upt [symmetric] algebra_simps del: upt_Suc)
  then show ?case using Cons hd by (simp add: m)
qed

text \<open>The codes a unit of the given width holds.\<close>

definition wide_text :: "nat \<Rightarrow> nat list \<Rightarrow> bool" where
  "wide_text w us \<longleftrightarrow> (w = 2 \<or> w = 4) \<and> (\<forall>u\<in>set us. scalar_value u \<and> u \<le> max_code w \<and> u \<noteq> 0)"

lemma wide_text_units:
  assumes "wide_text w us"
  shows "\<forall>u\<in>set us. u < 256 ^ w"
  using assms by (auto simp: wide_text_def max_code_def)

lemma wide_copy_in_place:
  assumes "wide_text w us" and "out \<noteq> 0" and "2 * w \<le> len"
    and "CopyUtf8StringToWcharString w (utf8_encode us) out len tr0 m = (n, tr, m')"
  shows "n = min (length us) (len div w - 1) * w" and "tr = (len div w - 1 < length us)"
    and "m' = write_bytes out (wide_bytes w (take (len div w - 1) us @ [0])) m"
proof -
  have w: "0 < w" "w < len" using assms(1,3) by (auto simp: wide_text_def)
  have "cvt_in (max_code w) (len div w - 1) (utf8_encode us) =
      (if length us \<le> len div w - 1 then Cvt_ok else Cvt_partial, take (len div w - 1) us,
       utf8_encode (drop (len div w - 1) us))"
    by (rule cvt_in_encode) (use assms(1) in \<open>auto simp: wide_text_def\<close>)
  then show "n = min (length us) (len div w - 1) * w" "tr = (len div w - 1 < length us)"
    "m' = write_bytes out (wide_bytes w (take (len div w - 1) us @ [0])) m"
    using assms(2,4) w by (auto simp: CopyUtf8StringToWcharString_def Let_def utf8_encode_def split: if_splits)
qed

section \<open>Properties\<close>

text \<open> Copying text to a wide buffer with room for a character and its terminator: the buffer holds as
  many characters as fit and a terminating zero, the length is that of the characters copied, the
  call tells exactly whether some are missing, and no byte outside the buffer changes.\<close>

theorem wide_copy_prefix:
  assumes "wide_text w us" and "out \<noteq> 0" and "2 * w \<le> len"
    and "CopyStringToBuffer w (utf8_encode us) out len True m = (n, tr, m')"
  shows "let k = min (length us) (len div w - 1) in
    n = k * w \<and> tr = (k < length us) \<and> read_wide w out (k + 1) m' = take k us @ [0]
    \<and> (x < out \<or> out + int len \<le> x \<longrightarrow> m' x = m x)"
proof -
  let ?r = "len div w - 1"
  let ?k = "min (length us) ?r" and ?vs = "take ?r us @ [0]"
  have "CopyUtf8StringToWcharString w (utf8_encode us) out len False m = (n, tr, m')"
    using assms(4) by (simp add: CopyStringToBuffer_def split: prod.splits)
  note C = wide_copy_in_place [OF assms(1-3) this]
  have lim: "\<forall>u\<in>set ?vs. u < 256 ^ w"
    using wide_text_units [OF assms(1)] by (auto dest: in_set_takeD)
  have len: "length ?vs = ?k + 1" by simp
  have rd: "read_wide w out (?k + 1) m' = ?vs"
    using read_wide_write [OF lim, of out m] by (simp only: C(3) len)
  have w: "0 < w" using assms(1) by (auto simp: wide_text_def)
  have "1 \<le> len div w" using w assms(3) by (simp add: div_greater_zero_iff less_eq_div_iff_mult_less_eq)
  then have "?k + 1 \<le> len div w" by simp
  then have "(?k + 1) * w \<le> len"
    using mult_le_mono1 [of "?k + 1" "len div w" w] div_times_less_eq_dividend [of len w] by linarith
  then have bound: "int (length (wide_bytes w ?vs)) \<le> int len"
    by (simp only: length_wide_bytes len of_nat_le_iff)
  have "m' x = m x" if "x < out \<or> out + int len \<le> x"
    unfolding C(3) by (rule write_bytes_outside) (use that bound in linarith)
  then show ?thesis
    using C(1,2) rd by (auto simp: Let_def min_def)
qed

theorem wide_copy_prefix_witness:
  "fst (snd (CopyStringToBuffer 2 (utf8_encode [72, 233, 108]) 100 6 True (\<lambda>_. 7))) = True"
proof -
  obtain n tr m' where p: "CopyStringToBuffer 2 (utf8_encode [72, 233, 108]) 100 6 True (\<lambda>_. 7) = (n, tr, m')"
    by (metis prod_cases3)
  have "wide_text 2 [72, 233, 108]" by (simp add: wide_text_def scalar_value_def max_code_def)
  from wide_copy_prefix [OF this _ _ p] show ?thesis by (simp add: p Let_def)
qed

text \<open> Text survives the way to the application and back: copied to a buffer that holds it and read up
  to its terminator, the UTF-8 text is the same.\<close>

theorem wide_text_roundtrip:
  assumes "wide_text w us" and "out \<noteq> 0" and "us \<noteq> []" and "(length us + 1) * w \<le> len"
    and "CopyStringToBuffer w (utf8_encode us) out len True m = (n, tr, m')"
  shows "\<not> tr \<and> SqlWcharToString w (Some (read_wide w out (length us + 1) m')) SQL_NTS inBytes = utf8_encode us"
proof -
  have w: "0 < w" using assms(1) by (auto simp: wide_text_def)
  have "1 \<le> length us" using assms(3) by (cases us) auto
  then have "2 * w \<le> (length us + 1) * w" by simp
  then have l: "2 * w \<le> len" using assms(4) by linarith
  have "length us + 1 \<le> len div w" using assms(4) w by (simp add: less_eq_div_iff_mult_less_eq)
  then have k: "min (length us) (len div w - 1) = length us" by simp
  have "takeWhile (\<lambda>u. u \<noteq> 0) (us @ [0]) = us"
    using assms(1) by (simp add: wide_text_def takeWhile_tail)
  moreover have "CopyUtf8StringToWcharString w (utf8_encode us) out len False m = (n, tr, m')"
    using assms(5) by (simp add: CopyStringToBuffer_def split: prod.splits)
  note C = wide_copy_in_place [OF assms(1,2) l this]
  have "read_wide w out (length us + 1) m' = us @ [0]"
    using read_wide_write [of "us @ [0]" w out m] wide_text_units [OF assms(1)] w C(3) k
    by (simp add: min_def split: if_splits)
  ultimately show ?thesis using C(2) k by (simp add: SqlWcharToString_def)
qed

theorem wide_text_roundtrip_witness:
  "\<not> fst (snd (CopyStringToBuffer 4 (utf8_encode [8364, 128512]) 100 12 True (\<lambda>_. 7)))"
proof -
  obtain n tr m' where p: "CopyStringToBuffer 4 (utf8_encode [8364, 128512]) 100 12 True (\<lambda>_. 7) = (n, tr, m')"
    by (metis prod_cases3)
  have "wide_text 4 [8364, 128512]" by (simp add: wide_text_def scalar_value_def max_code_def)
  from wide_text_roundtrip [OF this _ _ _ p] show ?thesis by (simp add: p)
qed

text \<open> A buffer of exactly one unit is not written at all, not even its terminator, although the call
  reports the full length and no truncation.\<close>

theorem wide_one_unit_buffer:
  assumes "wide_text w us"
  shows "CopyStringToBuffer w (utf8_encode us) out w True m = (length us * w, False, m)"
proof -
  have "length us \<le> length (utf8_encode us)"
  proof (induction us)
    case (Cons u us)
    have "1 \<le> length (utf8_encode1 u)" by (simp add: Suc_leI)
    with Cons show ?case by (simp add: utf8_encode_def)
  qed simp
  moreover have "cvt_in (max_code w) (length (utf8_encode us)) (utf8_encode us) =
      (if length us \<le> length (utf8_encode us) then Cvt_ok else Cvt_partial,
       take (length (utf8_encode us)) us, utf8_encode (drop (length (utf8_encode us)) us))"
    by (rule cvt_in_encode) (use assms in \<open>auto simp: wide_text_def\<close>)
  ultimately show ?thesis
    using assms by (auto simp: CopyStringToBuffer_def CopyUtf8StringToWcharString_def Let_def
        wide_text_def utf8_encode_def)
qed

theorem wide_one_unit_buffer_witness:
  "CopyStringToBuffer 2 (utf8_encode [72, 105]) 100 2 True (\<lambda>_. 7) = (4, False, \<lambda>_. 7)"
  using wide_one_unit_buffer [of 2 "[72, 105]" 100 "\<lambda>_. 7"]
  by (simp add: wide_text_def scalar_value_def max_code_def)

end
