(* ===== verification/Statement_Query.thy ===== *)
theory Statement_Query
  imports Statement Wide_Strings Data_Query_Paging
begin

text \<open>
  The life of a statement's query (\<^verbatim>\<open>src/statement.cpp\<close>): preparing, executing, cancelling and
  closing, fetching rowsets into bound arrays, reading single columns, metadata, and cursor names.
  \<open>vt\<close> is the class of the current query, \<open>w\<close> the size of a wide character; an operation that waits
  for a worker thread for ever is \<open>None\<close>.
\<close>

section \<open>Starting a query\<close>

text \<open>Every operation that starts a query closes the current one, whatever closing reports, and puts a new
  object in its place.\<close>

definition replace_query ::
  "('q, 'col, app_buffer, memory) query_class \<Rightarrow> 'q \<Rightarrow> 'q statement \<Rightarrow> 'q statement option" where
  "replace_query vt q st =
     (case currentQuery st of
        None \<Rightarrow> Some (st\<lparr>currentQuery := Some q\<rparr>)
      | Some old \<Rightarrow> map_option (\<lambda>_. st\<lparr>currentQuery := Some q\<rparr>) (vt_Close vt old))"

definition InternalPrepareSqlQuery ::
  "('q, 'col, app_buffer, memory) query_class \<Rightarrow> (string \<Rightarrow> 'q) \<Rightarrow> string \<Rightarrow> 'q statement \<Rightarrow>
   (sql_result \<times> 'q statement) option" where
  "InternalPrepareSqlQuery vt mk sql st = map_option (\<lambda>st'. (AI_SUCCESS, st')) (replace_query vt (mk sql) st)"

definition execute_current ::
  "('q, 'col, app_buffer, memory) query_class \<Rightarrow> 'q \<Rightarrow> 'q statement \<Rightarrow> (sql_result \<times> 'q statement) option" where
  "execute_current vt q st =
     map_option (\<lambda>(r, q', d). (r, st\<lparr>currentQuery := Some q', st_diag := d\<rparr>)) (vt_Execute vt q (st_diag st))"

definition InternalExecutePrepared ::
  "('q, 'col, app_buffer, memory) query_class \<Rightarrow> 'q statement \<Rightarrow> (sql_result \<times> 'q statement) option" where
  "InternalExecutePrepared vt st =
     (case currentQuery st of
        None \<Rightarrow> Some (AI_ERROR, st_record SHY010_SEQUENCE_ERROR ''Query is not prepared.'' st)
      | Some q \<Rightarrow>
          map_option (\<lambda>(r, st').
            if r = AI_NO_DATA
            then (AI_SUCCESS_WITH_INFO, st_record S01000_GENERAL_WARNING ''Query result is empty'' st')
            else (r, st')) (execute_current vt q st))"

definition InternalExecuteSqlQuery ::
  "('q, 'col, app_buffer, memory) query_class \<Rightarrow> (string \<Rightarrow> 'q) \<Rightarrow> string \<Rightarrow> 'q statement \<Rightarrow>
   (sql_result \<times> 'q statement) option" where
  "InternalExecuteSqlQuery vt mk sql st =
     Option.bind (InternalPrepareSqlQuery vt mk sql st) (\<lambda>(r, st').
       if r \<noteq> AI_SUCCESS then Some (r, st') else InternalExecutePrepared vt st')"

text \<open>The catalog functions, for the object they create.\<close>

definition InternalExecuteCatalogQuery ::
  "('q, 'col, app_buffer, memory) query_class \<Rightarrow> 'q \<Rightarrow> 'q statement \<Rightarrow> (sql_result \<times> 'q statement) option" where
  "InternalExecuteCatalogQuery vt q st = Option.bind (replace_query vt q st) (execute_current vt q)"

definition InternalExecuteGetTypeInfoQuery ::
  "('q, 'col, app_buffer, memory) query_class \<Rightarrow> (type_info_query \<Rightarrow> 'q) \<Rightarrow> int \<Rightarrow> 'q statement \<Rightarrow>
   (sql_result \<times> 'q statement) option" where
  "InternalExecuteGetTypeInfoQuery vt mk sqlType st =
     (if sqlType \<noteq> SQL_ALL_TYPES \<and> \<not> IsSqlTypeSupported (Some sqlType) then
        Some (AI_ERROR, st_record SHYC00_OPTIONAL_FEATURE_NOT_IMPLEMENTED
          (''Data type is not supported. [typeId='' @ int_str sqlType @ '']'') st)
      else InternalExecuteCatalogQuery vt (mk (TypeInfoQuery sqlType)) st)"

section \<open>Ending a query\<close>

definition InternalCancelSqlQuery ::
  "('q, 'col, app_buffer, memory) query_class \<Rightarrow> 'q statement \<Rightarrow> (sql_result \<times> 'q statement) option" where
  "InternalCancelSqlQuery vt st =
     (case currentQuery st of
        None \<Rightarrow> Some (AI_ERROR, st_record SHY010_SEQUENCE_ERROR ''Query does not exist.'' st)
      | Some q \<Rightarrow>
          map_option (\<lambda>(r, q', d). (r, st\<lparr>currentQuery := Some q', st_diag := d\<rparr>)) (vt_Cancel vt q (st_diag st)))"

definition Statement_InternalClose ::
  "('q, 'col, app_buffer, memory) query_class \<Rightarrow> bool \<Rightarrow> 'q statement \<Rightarrow> (sql_result \<times> 'q statement) option"
  where
  "Statement_InternalClose vt ignoreErrors st =
     (case currentQuery st of
        None \<Rightarrow> Some (AI_SUCCESS, st)
      | Some q \<Rightarrow>
          if \<not> vt_DataAvailable vt q then
            Some (if ignoreErrors then AI_SUCCESS else AI_ERROR,
              st_record S24000_INVALID_CURSOR_STATE ''No cursor was open'' st)
          else
            map_option (\<lambda>(r, q'). (if ignoreErrors then AI_SUCCESS else r, st\<lparr>currentQuery := Some q'\<rparr>))
              (vt_Close vt q))"

definition InternalFreeResources ::
  "('q, 'col, app_buffer, memory) query_class \<Rightarrow> int \<Rightarrow> 'q statement \<Rightarrow> (sql_result \<times> 'q statement) option" where
  "InternalFreeResources vt opt st =
     (if opt = SQL_DROP then
        Some (AI_ERROR, st_record SHY000_GENERAL_ERROR ''Deprecated, call SQLFreeHandle instead'' st)
      else if opt = SQL_CLOSE then Statement_InternalClose vt True st
      else if opt = SQL_UNBIND then Some (AI_SUCCESS, SafeUnbindAllColumns st)
      else Some (AI_ERROR, st_record SHY092_OPTION_TYPE_OUT_OF_RANGE
        ''The value specified for the argument Option was invalid'' st))"

section \<open>Fetching\<close>

fun SqlResultToRowResult :: "sql_result \<Rightarrow> int" where
  "SqlResultToRowResult AI_NO_DATA = SQL_ROW_NOROW"
| "SqlResultToRowResult AI_SUCCESS = SQL_ROW_SUCCESS"
| "SqlResultToRowResult AI_SUCCESS_WITH_INFO = SQL_ROW_SUCCESS_WITH_INFO"
| "SqlResultToRowResult AI_NEED_DATA = SQL_ROW_ERROR"
| "SqlResultToRowResult AI_ERROR = SQL_ROW_ERROR"

definition row_ok :: "sql_result \<Rightarrow> bool" where
  "row_ok r \<longleftrightarrow> r = AI_SUCCESS \<or> r = AI_SUCCESS_WITH_INFO"

definition row_bad :: "sql_result \<Rightarrow> bool" where
  "row_bad r \<longleftrightarrow> \<not> row_ok r \<and> r \<noteq> AI_NO_DATA"

text \<open>The loop over a rowset of \<open>n\<close> more rows from row \<open>i\<close> on: every bound buffer is moved to its element
  \<open>i\<close>, a row is fetched and counted, and its status is stored. \<open>sts\<close> is the array of statuses, two
  bytes each, or null.\<close>

fun fetch_rows ::
  "((app_buffer, memory) bindings \<Rightarrow> 'q \<Rightarrow> diag_storage \<Rightarrow>
     (sql_result \<times> (app_buffer, memory) bindings \<times> 'q \<times> diag_storage) option) \<Rightarrow>
   int \<Rightarrow> nat \<Rightarrow> nat \<Rightarrow> (app_buffer, memory) bindings \<Rightarrow> 'q \<Rightarrow> diag_storage \<Rightarrow> nat \<Rightarrow> nat \<Rightarrow>
   (nat \<times> nat \<times> (app_buffer, memory) bindings \<times> 'q \<times> diag_storage) option" where
  "fetch_rows fetch sts i 0 b q d fetched errors = Some (fetched, errors, b, q, d)"
| "fetch_rows fetch sts i (Suc n) b q d fetched errors =
     Option.bind (fetch (map_option (SetElementOffset (int i)) \<circ> fst b, snd b) q d) (\<lambda>(r, b', q', d').
       fetch_rows fetch sts (i + 1) n
         (fst b', if sts = 0 then snd b'
                  else write_bytes (sts + 2 * int i) (le_bytes 2 (SqlResultToRowResult r)) (snd b'))
         q' d' (if row_ok r then fetched + 1 else fetched) (if row_bad r then errors + 1 else errors))"

definition fetch_result :: "nat \<Rightarrow> nat \<Rightarrow> sql_result" where
  "fetch_result fetched errors =
     (if 0 < fetched then (if errors = 0 then AI_SUCCESS else AI_SUCCESS_WITH_INFO)
      else if errors = 0 then AI_NO_DATA else AI_ERROR)"

text \<open>A count stored through a pointer that may be null.\<close>

definition store_count :: "int \<Rightarrow> nat \<Rightarrow> memory \<Rightarrow> memory" where
  "store_count p n m = store_len p (int n) m"

definition fetch_into ::
  "('q, 'col, app_buffer, memory) query_class \<Rightarrow> int \<Rightarrow> int \<Rightarrow> int \<Rightarrow> int \<Rightarrow> 'q \<Rightarrow> 'q statement \<Rightarrow> memory \<Rightarrow>
   (sql_result \<times> 'q statement \<times> memory) option" where
  "fetch_into vt offset rows sts cnt q st m =
     map_option (\<lambda>(f, e, b, q', d).
       (fetch_result f e, st\<lparr>columnBindings := fst b, currentQuery := Some q', st_diag := d\<rparr>,
        store_count cnt f (snd b)))
     (fetch_rows (vt_FetchNextRow vt) sts 0 (nat rows)
       (map_option (SetByteOffset offset) \<circ> columnBindings st, m) q (st_diag st) 0 0)"

definition InternalFetchRow ::
  "('q, 'col, app_buffer, memory) query_class \<Rightarrow> 'q statement \<Rightarrow> memory \<Rightarrow>
   (sql_result \<times> 'q statement \<times> memory) option" where
  "InternalFetchRow vt st m0 =
     (let m = store_count (rowsFetched st) 0 m0 in
      case currentQuery st of
        None \<Rightarrow> Some (AI_ERROR,
          st_record S24000_INVALID_CURSOR_STATE ''Cursor is not in the open state.'' st, m)
      | Some q \<Rightarrow>
          let offset = (if columnBindOffset st = 0 then 0 else le_val (read_bytes (columnBindOffset st) 8 m))
          in fetch_into vt offset (rowArraySize st) (rowStatuses st) (rowsFetched st) q
               (st\<lparr>st_cellOffset := 0\<rparr>) m)"

definition InternalFetchScroll ::
  "('q, 'col, app_buffer, memory) query_class \<Rightarrow> int \<Rightarrow> 'q statement \<Rightarrow> memory \<Rightarrow>
   (sql_result \<times> 'q statement \<times> memory) option" where
  "InternalFetchScroll vt orientation st m =
     (if orientation \<noteq> SQL_FETCH_NEXT then
        Some (AI_ERROR, st_record SHYC00_OPTIONAL_FEATURE_NOT_IMPLEMENTED
          ''Only SQL_FETCH_NEXT FetchOrientation type is supported'' st, m)
      else InternalFetchRow vt st m)"

text \<open>The extended fetch of ODBC 2 takes its counter and statuses as arguments, ignores the bind offset and
  leaves the cell offset as it is.\<close>

definition InternalExtendedFetch ::
  "('q, 'col, app_buffer, memory) query_class \<Rightarrow> int \<Rightarrow> int \<Rightarrow> int \<Rightarrow> 'q statement \<Rightarrow> memory \<Rightarrow>
   (sql_result \<times> 'q statement \<times> memory) option" where
  "InternalExtendedFetch vt orientation cnt sts st m =
     (if orientation \<noteq> SQL_FETCH_NEXT then
        Some (AI_ERROR, st_record SHYC00_OPTIONAL_FEATURE_NOT_IMPLEMENTED
          ''Only SQL_FETCH_NEXT FetchOrientation type is supported'' st, m)
      else
        (case currentQuery st of
           None \<Rightarrow> Some (AI_ERROR,
             st_record S24000_INVALID_CURSOR_STATE ''Cursor is not in the open state.'' st, m)
         | Some q \<Rightarrow> fetch_into vt 0 (rowsetSize st) sts cnt q st (store_count cnt 0 m)))"

section \<open>Columns\<close>

definition InternalGetColumnData ::
  "('q, 'col, app_buffer, memory) query_class \<Rightarrow> nat \<Rightarrow> app_buffer \<Rightarrow> 'q statement \<Rightarrow> memory \<Rightarrow>
   (sql_result \<times> app_buffer \<times> 'q statement \<times> memory) option" where
  "InternalGetColumnData vt i buf st m =
     (case currentQuery st of
        None \<Rightarrow> Some (AI_ERROR, buf,
          st_record S24000_INVALID_CURSOR_STATE ''Cursor is not in the open state.'' st, m)
      | Some q \<Rightarrow>
          map_option (\<lambda>(r, buf', m', d). (r, buf', st\<lparr>st_diag := d\<rparr>, m'))
            (vt_GetColumn vt i buf m q (st_diag st)))"

definition Statement_GetMeta ::
  "('q, 'col, app_buffer, memory) query_class \<Rightarrow> 'q statement \<Rightarrow> ('col list option \<times> 'q statement) option" where
  "Statement_GetMeta vt st =
     (case currentQuery st of
        None \<Rightarrow> Some (None, st_record SHY010_SEQUENCE_ERROR ''Query is not executed.'' st)
      | Some q \<Rightarrow>
          map_option (\<lambda>(cs, q', d). (cs, st\<lparr>currentQuery := Some q', st_diag := d\<rparr>))
            (vt_GetMeta vt q (st_diag st)))"

definition InternalGetColumnNumber ::
  "('q, 'col, app_buffer, memory) query_class \<Rightarrow> 'q statement \<Rightarrow> (sql_result \<times> int \<times> 'q statement) option" where
  "InternalGetColumnNumber vt st =
     map_option (\<lambda>(cs, st'). case cs of None \<Rightarrow> (AI_ERROR, 0, st') | Some l \<Rightarrow> (AI_SUCCESS, int (length l), st'))
       (Statement_GetMeta vt st)"

definition Statement_DataAvailable ::
  "('q, 'col, app_buffer, memory) query_class \<Rightarrow> 'q statement \<Rightarrow> bool" where
  "Statement_DataAvailable vt st =
     (case currentQuery st of None \<Rightarrow> False | Some q \<Rightarrow> vt_DataAvailable vt q)"

definition InternalMoreResults ::
  "('q, 'col, app_buffer, memory) query_class \<Rightarrow> 'q statement \<Rightarrow> sql_result \<times> 'q statement" where
  "InternalMoreResults vt st =
     (case currentQuery st of
        None \<Rightarrow> (AI_ERROR, st_record SHY010_SEQUENCE_ERROR ''Query is not executed.'' st)
      | Some q \<Rightarrow> (vt_NextResultSet vt q, st))"

definition InternalAffectedRows ::
  "('q, 'col, app_buffer, memory) query_class \<Rightarrow> int \<Rightarrow> 'q statement \<Rightarrow> sql_result \<times> int \<times> 'q statement" where
  "InternalAffectedRows vt n0 st =
     (case currentQuery st of
        None \<Rightarrow> (AI_ERROR, n0, st_record SHY010_SEQUENCE_ERROR ''Query is not executed.'' st)
      | Some q \<Rightarrow> (AI_SUCCESS, vt_AffectedRows vt q, st))"

definition store_int16 :: "int \<Rightarrow> int \<Rightarrow> memory \<Rightarrow> memory" where
  "store_int16 p v m = (if p = 0 then m else write_bytes p (le_bytes 2 v) m)"

text \<open>A column attribute: the number first when there is a place for it, which receives -1 if the field is
  not numeric; otherwise the text.\<close>

definition column_attribute ::
  "nat \<Rightarrow> int \<Rightarrow> int \<Rightarrow> nat \<Rightarrow> int \<Rightarrow> int \<Rightarrow> column_meta \<Rightarrow> 'q statement \<Rightarrow> memory \<Rightarrow>
   sql_result \<times> 'q statement \<times> memory" where
  "column_attribute w attr strbuf buflen reslen numbuf c st m0 =
     (let n = GetAttributeNum attr c;
          m = store_len numbuf (num_of n) m0
      in if numbuf \<noteq> 0 \<and> n \<noteq> None then (AI_SUCCESS, st, m)
         else
           (case GetAttributeText attr c of
              None \<Rightarrow> (AI_ERROR,
                st_record SHYC00_OPTIONAL_FEATURE_NOT_IMPLEMENTED ''Unknown attribute.'' st, m)
            | Some s \<Rightarrow>
                let (k, tr, m') = (if strbuf = 0 then (length s, False, m)
                                   else CopyStringToBuffer w s strbuf buflen True m)
                in (if tr then AI_SUCCESS_WITH_INFO else AI_SUCCESS, st, store_int16 reslen (int k) m')))"

definition InternalGetColumnAttribute ::
  "('q, column_meta, app_buffer, memory) query_class \<Rightarrow> nat \<Rightarrow> nat \<Rightarrow> int \<Rightarrow> int \<Rightarrow> nat \<Rightarrow> int \<Rightarrow> int \<Rightarrow>
   'q statement \<Rightarrow> memory \<Rightarrow> (sql_result \<times> 'q statement \<times> memory) option" where
  "InternalGetColumnAttribute vt w i attr strbuf buflen reslen numbuf st m =
     map_option (\<lambda>(cs, st').
       case cs of
         None \<Rightarrow> (AI_ERROR, st', m)
       | Some l \<Rightarrow>
           if length l < i \<or> i < 1 then
             (AI_ERROR, st'\<lparr>st_diag := AddStatusRecordAt SHY000_GENERAL_ERROR
                ''Column index is out of range.'' 0 (int i) (st_diag st')\<rparr>, m)
           else column_attribute w attr strbuf buflen reslen numbuf (l ! (i - 1)) st' m)
     (Statement_GetMeta vt st)"

section \<open>Cursor names\<close>

text \<open>\<open>len\<close> counts the characters of the buffer without its terminator; \<open>junk\<close> is the uninitialised flag.\<close>

definition InternalGetCursorName ::
  "nat \<Rightarrow> bool \<Rightarrow> int \<Rightarrow> int \<Rightarrow> int \<Rightarrow> connection \<Rightarrow> 'q statement \<Rightarrow> memory \<Rightarrow> sql_result \<times> 'q statement \<times> memory"
  where
  "InternalGetCursorName w junk buf len reslen cn st m =
     (let (n, tr, m') = CopyUtf8StringToWcharString w (GetCursorName (st_id st) cn) buf (nat (len + 1) * w) junk m;
          m'' = store_int16 reslen (int (n div w)) m'
      in if tr then (AI_SUCCESS_WITH_INFO,
           st_record S01000_GENERAL_WARNING ''Buffer is too small for the cursor name.'' st, m'')
         else (AI_SUCCESS, st, m''))"

definition InternalSetCursorName ::
  "nat \<Rightarrow> nat list option \<Rightarrow> int \<Rightarrow> 'q statement \<times> connection \<Rightarrow> sql_result \<times> 'q statement \<times> connection" where
  "InternalSetCursorName w name len = (\<lambda>(st, cn).
     let n = SqlWcharToString w name len False in
     if 18 < len then
       (AI_ERROR, st_record S3C000_DUPLICATE_CURSOR_NAME
          (''The number of characters in cursor name ('' @ int_str len
            @ '') exceeds the maximum allowed number (18)'') st, cn)
     else if ToUpper (take 7 n) = ''SQL_CUR'' then
       (AI_ERROR, st_record S34000_INVALID_CURSOR_NAME ''Cursor name should not start with SQL_CUR'' st, cn)
     else if CursorNameExists n cn then
       (AI_ERROR, st_record S3C000_DUPLICATE_CURSOR_NAME
          (''Cursor name '' @ dquote @ n @ dquote @ '' has already been used.'') st, cn)
     else (let (r, cn') = AddCursorName (st_id st) n cn in (r, st, cn')))"

end
