(* ===== verification/Statement_Props.thy ===== *)
theory Statement_Props
  imports Statement_Query
begin

text \<open>
  Properties of statements. The fetch loop is analysed once, inside the interface \<open>row_source\<close>, and
  applied to data queries through its interpretation; the life of the current query, bindings,
  attributes and cursor names follow.
\<close>

section \<open>The loop over a rowset\<close>

interpretation data_rows: row_source "FetchNextRow svc rd" "remaining svc"
proof unfold_locales
  fix q b d r b' q' d'
  assume "remaining svc q []" and "FetchNextRow svc rd b q d = Some (r, b', q', d')"
  from fetch_delivers [OF this] show "r = AI_NO_DATA \<and> remaining svc q' []" by simp
next
  fix q x xs b d r b' q' d'
  assume "remaining svc q (x # xs)" and "FetchNextRow svc rd b q d = Some (r, b', q', d')"
  from fetch_delivers [OF this] show "r \<in> {AI_SUCCESS, AI_SUCCESS_WITH_INFO, AI_ERROR} \<and> remaining svc q' xs"
    by auto
qed

text \<open>A fetch that leaves the bytes of a region alone: no bound buffer and no indicator overlaps it.\<close>

definition spares ::
  "((app_buffer, memory) bindings \<Rightarrow> 'q \<Rightarrow> diag_storage \<Rightarrow>
     (sql_result \<times> (app_buffer, memory) bindings \<times> 'q \<times> diag_storage) option) \<Rightarrow> int set \<Rightarrow> bool" where
  "spares fetch A \<longleftrightarrow>
     (\<forall>b q d r b' q' d'. fetch b q d = Some (r, b', q', d') \<longrightarrow> (\<forall>x\<in>A. snd b' x = snd b x))"

text \<open>The statuses already stored are kept by the rest of the loop.\<close>

lemma fetch_rows_frame:
  assumes "spares fetch A" and "fetch_rows fetch sts i n b q d f e = Some (f', e', b', q', d')"
    and "x \<in> A" and "x < sts + 2 * int i \<or> sts = 0"
  shows "snd b' x = snd b x"
  using assms(2,4)
proof (induction n arbitrary: i b q d f e)
  case (Suc n)
  obtain r b1 q1 d1 where F: "fetch (map_option (SetElementOffset (int i)) \<circ> fst b, snd b) q d = Some (r, b1, q1, d1)"
    using Suc.prems(1) by (auto split: bind_splits)
  have "snd b1 x = snd b x" using assms(1,3) F unfolding spares_def by fastforce
  moreover have "snd b' x = (if sts = 0 then snd b1
      else write_bytes (sts + 2 * int i) (le_bytes 2 (SqlResultToRowResult r)) (snd b1)) x"
    by (rule Suc.IH [of "i + 1", THEN trans]) (use Suc.prems F in \<open>auto\<close>)
  moreover have "write_bytes (sts + 2 * int i) bs m x = m x" if "sts \<noteq> 0" for bs m
    by (rule write_bytes_outside) (use Suc.prems(2) that in auto)
  ultimately show ?case by auto
qed simp

text \<open>The results of the rows of a rowset when \<open>k\<close> rows are to come: so many rows, then the end.\<close>

definition rowset_results :: "nat \<Rightarrow> sql_result list \<Rightarrow> bool" where
  "rowset_results k rs \<longleftrightarrow>
     (\<forall>i<length rs. rs ! i \<in> {AI_SUCCESS, AI_SUCCESS_WITH_INFO, AI_ERROR, AI_NO_DATA}
        \<and> (rs ! i = AI_NO_DATA \<longleftrightarrow> k \<le> i))"

definition status_at :: "int \<Rightarrow> nat \<Rightarrow> memory \<Rightarrow> int" where
  "status_at sts i m = le_val (read_bytes (sts + 2 * int i) 2 m)"

lemma row_code_bounds: "0 \<le> SqlResultToRowResult r" "SqlResultToRowResult r < 65536"
  by (cases r; simp)+

lemma rowset_results_Cons:
  assumes "rowset_results (k - 1) rs" and "r \<in> {AI_SUCCESS, AI_SUCCESS_WITH_INFO, AI_ERROR, AI_NO_DATA}"
    and "r = AI_NO_DATA \<longleftrightarrow> k = 0"
  shows "rowset_results k (r # rs)"
proof -
  have "(r # rs) ! i \<in> {AI_SUCCESS, AI_SUCCESS_WITH_INFO, AI_ERROR, AI_NO_DATA}
      \<and> ((r # rs) ! i = AI_NO_DATA \<longleftrightarrow> k \<le> i)" if "i < length (r # rs)" for i
  proof (cases i)
    case 0
    then show ?thesis using assms(2,3) by simp
  next
    case (Suc j)
    then show ?thesis using assms(1) that by (auto simp: rowset_results_def)
  qed
  then show ?thesis unfolding rowset_results_def by blast
qed

lemma status_stored:
  "status_at sts i (write_bytes (sts + 2 * int i) (le_bytes 2 (SqlResultToRowResult r)) m) = SqlResultToRowResult r"
  using read_write_bytes [of "sts + 2 * int i" "le_bytes 2 (SqlResultToRowResult r)" m] row_code_bounds [of r]
  by (simp add: status_at_def le_val_le_bytes)

locale rowset_source = row_source fetch upcoming
  for fetch :: "(app_buffer, memory) bindings \<Rightarrow> 'q \<Rightarrow> diag_storage \<Rightarrow>
      (sql_result \<times> (app_buffer, memory) bindings \<times> 'q \<times> diag_storage) option"
    and upcoming :: "'q \<Rightarrow> 'row list \<Rightarrow> bool"
begin

text \<open>One row: its result and what is left.\<close>

lemma fetch_one:
  assumes "upcoming q rows" and "fetch b q d = Some (r, b', q', d')"
  shows "r \<in> {AI_SUCCESS, AI_SUCCESS_WITH_INFO, AI_ERROR, AI_NO_DATA}" and "r = AI_NO_DATA \<longleftrightarrow> length rows = 0"
    and "upcoming q' (drop 1 rows)"
  using assms fetch_end [of q b d r b' q' d'] fetch_row [of q "hd rows" "tl rows" b d r b' q' d']
  by (cases rows; auto)+

text \<open>The loop: there is a list of row results such that the counters, the statuses in memory and the rows
  left agree with it.\<close>

lemma fetch_rows_results:
  assumes "upcoming q rows" and "fetch_rows fetch sts i n b q d f e = Some (f', e', b', q', d')"
    and "spares fetch {sts..<sts + 2 * int (i + n)}"
  shows "\<exists>rs. length rs = n \<and> rowset_results (length rows) rs \<and> f' = f + length (filter row_ok rs)
    \<and> e' = e + length (filter row_bad rs) \<and> upcoming q' (drop n rows)
    \<and> (0 < sts \<longrightarrow> (\<forall>k<n. status_at sts (i + k) (snd b') = SqlResultToRowResult (rs ! k)))"
  using assms
proof (induction n arbitrary: i b q d f e rows)
  case 0
  then show ?case by (auto simp: rowset_results_def)
next
  case (Suc n)
  obtain r b1 q1 d1 where F: "fetch (map_option (SetElementOffset (int i)) \<circ> fst b, snd b) q d = Some (r, b1, q1, d1)"
    using Suc.prems(2) by (auto split: bind_splits)
  note one = fetch_one [OF Suc.prems(1) F]
  let ?m = "if sts = 0 then snd b1
    else write_bytes (sts + 2 * int i) (le_bytes 2 (SqlResultToRowResult r)) (snd b1)"
  have rest: "fetch_rows fetch sts (i + 1) n (fst b1, ?m) q1 d1 (if row_ok r then f + 1 else f)
      (if row_bad r then e + 1 else e) = Some (f', e', b', q', d')"
    using Suc.prems(2) F by simp
  have sp: "spares fetch {sts..<sts + 2 * int (i + 1 + n)}" using Suc.prems(3) by simp
  obtain rs where R: "length rs = n" "rowset_results (length (drop 1 rows)) rs"
    "f' = (if row_ok r then f + 1 else f) + length (filter row_ok rs)"
    "e' = (if row_bad r then e + 1 else e) + length (filter row_bad rs)" "upcoming q' (drop n (drop 1 rows))"
    "0 < sts \<longrightarrow> (\<forall>k<n. status_at sts (i + 1 + k) (snd b') = SqlResultToRowResult (rs ! k))"
    using Suc.IH [OF one(3) rest sp] by blast
  have "snd b' x = ?m x" if "sts + 2 * int i \<le> x" "x < sts + 2 * int (i + 1)" for x
    using fetch_rows_frame [OF sp rest, of x] that by auto
  then have "read_bytes (sts + 2 * int i) 2 (snd b') = read_bytes (sts + 2 * int i) 2 ?m"
    unfolding read_bytes_def by (intro map_cong) auto
  then have "status_at sts i (snd b') = status_at sts i ?m"
    by (simp only: status_at_def)
  then have "0 < sts \<Longrightarrow> status_at sts i (snd b') = SqlResultToRowResult r"
    using status_stored [of sts i r "snd b1"] by simp
  then have "status_at sts (i + k) (snd b') = SqlResultToRowResult ((r # rs) ! k)" if "0 < sts" "k < Suc n" for k
    using R(6) that by (cases k) auto
  moreover have "rowset_results (length rows) (r # rs)"
    using R(2) one(1,2) by (intro rowset_results_Cons) auto
  ultimately show ?case
    using R by (intro exI [of _ "r # rs"]) auto
qed

end

interpretation data_rowsets: rowset_source "FetchNextRow svc rd" "remaining svc"
  by unfold_locales

interpretation type_info_rowsets: rowset_source "\<lambda>b q d. Some (TypeInfo_FetchNextRow put b q d)" type_info_rows
  by unfold_locales

section \<open>Fetching a rowset\<close>

text \<open>A column reader that never writes to a region.\<close>

definition reader_spares :: "('row, 'col, app_buffer, memory) column_reader \<Rightarrow> int set \<Rightarrow> bool" where
  "reader_spares rd A \<longleftrightarrow>
     (\<forall>c i row buf m r buf' m'. rd c i row buf m = Some (r, buf', m') \<longrightarrow> (\<forall>x\<in>A. m' x = m x))"

lemma read_columns_spares:
  assumes "reader_spares rd A" and "x \<in> A" and "read_columns rd meta c i n b d = Some (ok, b', d')"
  shows "snd b' x = snd b x"
  using assms(3)
proof (induction n arbitrary: i b d)
  case (Suc n)
  show ?case
  proof (cases "fst b i")
    case None
    then show ?thesis using Suc by simp
  next
    case (Some buf)
    obtain r buf' m' where R: "ReadColumnToBuffer rd meta c i buf (snd b) = Some (r, buf', m')"
      using Suc.prems Some by (auto split: bind_splits)
    have keep: "m' x = snd b x"
      using R assms(1,2) by (auto simp: ReadColumnToBuffer_def reader_spares_def split: if_splits)
    obtain res d1 where P: "ProcessConversionResult r 0 (int i) d = (res, d1)" by fastforce
    show ?thesis
      using Suc.prems Some R P keep Suc.IH [of "i + 1" "((fst b)(i \<mapsto> buf'), m')" d1]
      by (auto simp: Let_def split: if_splits)
  qed
qed simp

lemma FetchNextRow_spares:
  assumes "reader_spares rd A"
  shows "spares (FetchNextRow svc rd) A"
  unfolding spares_def
proof (intro allI impI ballI)
  fix b q d r b' q' d' x
  assume F: "FetchNextRow svc rd b q d = Some (r, b', q', d')" and x: "x \<in> A"
  have "b' = b \<or> (\<exists>meta c i n ok d1. read_columns rd meta c i n b d = Some (ok, b', d1))"
    using F
    by (fastforce simp: FetchNextRow_def Let_def split: option.splits bind_splits prod.splits if_splits)
  then show "snd b' x = snd b x"
    by (elim disjE exE) (simp, rule read_columns_spares [OF assms x])
qed

text \<open> C3. Fetching a rowset from a paged query, as the composition of statement, query, worker and buffers:
  when a fetch of \<open>n\<close> rows returns, the next \<open>n\<close> rows of the result set have been consumed; row
  results, statuses in memory, the fetched counter and the return code agree; rows behind the end
  are marked as absent; and the call says no data exactly when nothing was left.\<close>

theorem rowset_fetch:
  assumes "currentQuery st = Some q" and "remaining (ev_query e) q rows"
    and "InternalFetchRow (data_query_class e rd) st m = Some (r, st', m')"
    and "n = nat (rowArraySize st)" and "0 < n" and "rowArraySize st < 2 ^ 64"
    and "reader_spares rd {rowStatuses st..<rowStatuses st + 2 * int n}"
    and "rowsFetched st = 0 \<or> rowsFetched st + 8 \<le> rowStatuses st
      \<or> rowStatuses st + 2 * int n \<le> rowsFetched st"
  shows "\<exists>q' rs. currentQuery st' = Some q' \<and> remaining (ev_query e) q' (drop n rows)
    \<and> length rs = n \<and> rowset_results (length rows) rs
    \<and> r = fetch_result (length (filter row_ok rs)) (length (filter row_bad rs))
    \<and> (r = AI_NO_DATA \<longleftrightarrow> rows = [])
    \<and> (rowsFetched st \<noteq> 0 \<longrightarrow> le_val (read_bytes (rowsFetched st) 8 m') = int (length (filter row_ok rs)))
    \<and> (0 < rowStatuses st \<longrightarrow> (\<forall>k<n. status_at (rowStatuses st) k m' = SqlResultToRowResult (rs ! k)))"
proof -
  let ?m0 = "store_count (rowsFetched st) 0 m"
  let ?off = "if columnBindOffset st = 0 then 0 else le_val (read_bytes (columnBindOffset st) 8 ?m0)"
  let ?b = "(map_option (SetByteOffset ?off) \<circ> columnBindings st, ?m0)"
  obtain f er b1 q1 d1 where L: "fetch_rows (FetchNextRow (ev_query e) rd) (rowStatuses st) 0 n ?b q (st_diag st) 0 0 =
      Some (f, er, b1, q1, d1)"
    and res: "r = fetch_result f er" "currentQuery st' = Some q1" "m' = store_count (rowsFetched st) f (snd b1)"
    using assms(1,3,4) by (auto simp: InternalFetchRow_def fetch_into_def Let_def data_query_class_def)
  have sp: "spares (FetchNextRow (ev_query e) rd) {rowStatuses st..<rowStatuses st + 2 * int (0 + n)}"
    using FetchNextRow_spares [OF assms(7)] by simp
  obtain rs where R: "length rs = n" "rowset_results (length rows) rs" "f = length (filter row_ok rs)"
    "er = length (filter row_bad rs)" "remaining (ev_query e) q1 (drop n rows)"
    "0 < rowStatuses st \<longrightarrow> (\<forall>k<n. status_at (rowStatuses st) k (snd b1) = SqlResultToRowResult (rs ! k))"
    using data_rowsets.fetch_rows_results [OF assms(2) L sp] by auto
  have "int f \<le> int n" using R(1,3) length_filter_le [of row_ok rs] by simp
  then have "int f < 256 ^ 8" using assms(4-6) by simp
  then have cnt: "rowsFetched st \<noteq> 0 \<Longrightarrow> le_val (read_bytes (rowsFetched st) 8 m') = int f"
    by (simp add: res(3) store_count_def store_len_read le_val_le_bytes)
  have "read_bytes (rowStatuses st + 2 * int k) 2 m' = read_bytes (rowStatuses st + 2 * int k) 2 (snd b1)"
    if "k < n" for k
    unfolding res(3) store_count_def by (rule store_len_other) (use assms(8) that in auto)
  then have st: "status_at (rowStatuses st) k m' = status_at (rowStatuses st) k (snd b1)" if "k < n" for k
    using that by (simp add: status_at_def)
  have "r = AI_NO_DATA \<longleftrightarrow> (\<forall>x\<in>set rs. x = AI_NO_DATA)"
    unfolding res(1) R(3,4) fetch_result_def
    by (auto simp: filter_empty_conv row_ok_def row_bad_def)
  also have "\<dots> \<longleftrightarrow> rows = []"
    using R(1,2) assms(5) unfolding rowset_results_def all_set_conv_all_nth
    by (metis le_zero_eq length_0_conv le0)
  finally have nd: "r = AI_NO_DATA \<longleftrightarrow> rows = []" .
  show ?thesis
    using R nd cnt st res(1,2) by (intro exI [of _ q1] exI [of _ rs]) simp
qed

definition quiet_reader :: "(nat, unit, app_buffer, memory) column_reader" where
  "quiet_reader c i row buf m = Some (Conv_SUCCESS, buf, m)"

definition open_query :: "(nat, unit, unit) data_query" where
  "open_query = (DataQuery ''s'')\<lparr>dq_cursor := Some (TimestreamCursor [7, 8, 9])\<rparr>"

definition example_statement :: "'q \<Rightarrow> 'q statement" where
  "example_statement q = (fst (NewStatement 1 10 20 30 40 zero_header (\<lambda>_. NewDescriptor zero_header)))
     \<lparr>currentQuery := Some q, rowArraySize := 4, rowsFetched := 1000, rowStatuses := 2000\<rparr>"

lemma open_query_remaining: "remaining svc open_query [7, 8, 9]"
  by (simp add: remaining_def open_query_def DataQuery_def pending_rows_def good_cursor_def TimestreamCursor_def)

lemma open_query_fetch:
  "InternalFetchRow (data_query_class (example_env two_pages) quiet_reader) (example_statement open_query) (\<lambda>_. 0) \<noteq> None"
  by (simp add: InternalFetchRow_def fetch_into_def Let_def data_query_class_def example_statement_def
      NewStatement_def eval_nat_numeral FetchNextRow_def open_query_def DataQuery_def TimestreamCursor_def
      Increment_def)

theorem rowset_fetch_witness:
  "\<exists>r st' m'. InternalFetchRow (data_query_class (example_env two_pages) quiet_reader)
      (example_statement open_query) (\<lambda>_. 0) = Some (r, st', m')
    \<and> r \<noteq> AI_NO_DATA \<and> status_at 2000 3 m' = SQL_ROW_NOROW"
proof -
  let ?st = "example_statement open_query"
  obtain r st' m' where F: "InternalFetchRow (data_query_class (example_env two_pages) quiet_reader)
      ?st (\<lambda>_. 0) = Some (r, st', m')"
    using open_query_fetch by fastforce
  have st: "currentQuery ?st = Some open_query" "rowArraySize ?st = 4" "rowsFetched ?st = 1000" "rowStatuses ?st = 2000"
    by (simp_all add: example_statement_def)
  have "reader_spares quiet_reader A" for A by (simp add: reader_spares_def quiet_reader_def)
  then obtain rs where R: "length rs = 4" "rowset_results (Suc (Suc (Suc 0))) rs" "r \<noteq> AI_NO_DATA"
    "\<forall>k<4. status_at 2000 k m' = SqlResultToRowResult (rs ! k)"
    using rowset_fetch [OF st(1) open_query_remaining F, of 4] by (auto simp: st)
  have "rs ! 3 = AI_NO_DATA" using R(1,2) by (simp add: rowset_results_def)
  with R(3,4) F show ?thesis by force
qed

section \<open>The life of the current query\<close>

text \<open> Without a query every operation that needs one is refused with its state and changes nothing but
  the diagnostics; only closing is a success, and leaves the statement as it is.\<close>

theorem statement_without_query:
  assumes "currentQuery st = None"
  shows "InternalExecutePrepared vt st =
      Some (AI_ERROR, st_record SHY010_SEQUENCE_ERROR ''Query is not prepared.'' st)
    \<and> InternalCancelSqlQuery vt st =
      Some (AI_ERROR, st_record SHY010_SEQUENCE_ERROR ''Query does not exist.'' st)
    \<and> InternalMoreResults vt st = (AI_ERROR, st_record SHY010_SEQUENCE_ERROR ''Query is not executed.'' st)
    \<and> InternalGetColumnNumber vt st =
      Some (AI_ERROR, 0, st_record SHY010_SEQUENCE_ERROR ''Query is not executed.'' st)
    \<and> InternalGetColumnData vt i buf st m =
      Some (AI_ERROR, buf, st_record S24000_INVALID_CURSOR_STATE ''Cursor is not in the open state.'' st, m)
    \<and> InternalFetchScroll vt SQL_FETCH_NEXT st m =
      Some (AI_ERROR, st_record S24000_INVALID_CURSOR_STATE ''Cursor is not in the open state.'' st,
        store_count (rowsFetched st) 0 m)
    \<and> InternalExtendedFetch vt SQL_FETCH_NEXT cnt sts st m =
      Some (AI_ERROR, st_record S24000_INVALID_CURSOR_STATE ''Cursor is not in the open state.'' st, m)
    \<and> Statement_InternalClose vt ign st = Some (AI_SUCCESS, st) \<and> \<not> Statement_DataAvailable vt st"
  using assms
  by (simp add: InternalExecutePrepared_def InternalCancelSqlQuery_def InternalMoreResults_def
      InternalGetColumnNumber_def Statement_GetMeta_def InternalGetColumnData_def InternalFetchScroll_def
      InternalFetchRow_def InternalExtendedFetch_def Statement_InternalClose_def
      Statement_DataAvailable_def Let_def)

theorem statement_without_query_witness:
  "Statement_InternalClose (data_query_class (example_env two_pages) quiet_reader) False
     ((example_statement open_query)\<lparr>currentQuery := None\<rparr>) =
   Some (AI_SUCCESS, (example_statement open_query)\<lparr>currentQuery := None\<rparr>)"
proof -
  have "currentQuery ((example_statement open_query)\<lparr>currentQuery := None\<rparr>) = None" by simp
  from statement_without_query [OF this] show ?thesis by blast
qed



section \<open>Bindings and attributes\<close>

lemma bound_type_members:
  "dr_conciseType (bound_type t r) = t" "dr_type (bound_type t r) = fst (verbose_of t)"
  "dr_datetimeIntervalCode (bound_type t r) =
     (if fst (verbose_of t) = t then dr_datetimeIntervalCode r else snd (verbose_of t))"
  by (simp_all add: bound_type_def verbose_of_def)

lemma SetDescriptorFields_members:
  "desc_records (SetDescriptorFields i t val len ind d) k =
     (if k = int i then Some (get_record (int i) (SetDescriptorFields i t val len ind d)) else desc_records d k)"
  "dr_dataPtr (get_record (int i) (SetDescriptorFields i t val len ind d)) = val"
  "dr_indicatorPtr (get_record (int i) (SetDescriptorFields i t val len ind d)) = ind"
  "dr_octetLength (get_record (int i) (SetDescriptorFields i t val len ind d)) = len"
  "dr_conciseType (get_record (int i) (SetDescriptorFields i t val len ind d)) = t"
  "dr_type (get_record (int i) (SetDescriptorFields i t val len ind d)) = fst (verbose_of t)"
  "dr_datetimeIntervalCode (get_record (int i) (SetDescriptorFields i t val len ind d)) =
     (if fst (verbose_of t) = t then dr_datetimeIntervalCode (get_record (int i) d) else snd (verbose_of t))"
  by (simp_all add: SetDescriptorFields_def Let_def put_record_def get_record_def bound_type_members)

text \<open> Binding a column succeeds exactly for a supported type and an admissible length. A refused call
  changes no binding and no descriptor. A successful one binds exactly this column and fills exactly
  its record in the active row descriptor, with verbose and concise type in agreement; but the
  subcode of a plain type is whatever an earlier binding left there. Without buffer and indicator the
  column is unbound, and the descriptor still describes it.\<close>

theorem bind_column_outcome:
  assumes "InternalBindColumn i t val len ind (st, h) = (r, st', h')"
  shows "(r = AI_SUCCESS \<longleftrightarrow> ToDriverType t \<noteq> AI_UNSUPPORTED \<and> 0 \<le> len
        \<and> (len = 0 \<longrightarrow> ToDriverType t \<notin> {AI_CHAR, AI_WCHAR}))
    \<and> (r \<noteq> AI_SUCCESS \<longrightarrow> columnBindings st' = columnBindings st \<and> h' = h)
    \<and> (r = AI_SUCCESS \<and> val = 0 \<and> ind = 0 \<longrightarrow> columnBindings st' = (columnBindings st)(i := None) \<and> h' = h)
    \<and> (r = AI_SUCCESS \<and> (val \<noteq> 0 \<or> ind \<noteq> 0) \<longrightarrow>
        columnBindings st' = (columnBindings st)(i \<mapsto> ApplicationDataBuffer (ToDriverType t) val len ind)
        \<and> (\<forall>p. p \<noteq> ard st \<longrightarrow> h' p = h p)
        \<and> (\<forall>k. k \<noteq> int i \<longrightarrow> desc_records (h' (ard st)) k = desc_records (h (ard st)) k)
        \<and> (let rec = get_record (int i) (h' (ard st)) in
            dr_dataPtr rec = val \<and> dr_indicatorPtr rec = ind \<and> dr_octetLength rec = len
            \<and> dr_conciseType rec = t \<and> dr_type rec = fst (verbose_of t)
            \<and> dr_datetimeIntervalCode rec =
                (if fst (verbose_of t) = t then dr_datetimeIntervalCode (get_record (int i) (h (ard st)))
                 else snd (verbose_of t))))"
  using assms
  by (auto simp: InternalBindColumn_def Let_def SafeBindColumn_def SafeUnbindColumn_def st_record_def
      SetDescriptorFields_members split: if_splits)

theorem bind_column_outcome_witness:
  "\<exists>st' h'. InternalBindColumn 1 SQL_TYPE_DATE 500 6 600 (example_statement open_query, \<lambda>_. NewDescriptor zero_header)
      = (AI_SUCCESS, st', h') \<and> dr_type (get_record 1 (h' 10)) = SQL_DATETIME"
proof -
  let ?x = "InternalBindColumn 1 SQL_TYPE_DATE 500 6 600 (example_statement open_query, \<lambda>_. NewDescriptor zero_header)"
  obtain r st' h' where B: "?x = (r, st', h')" by (metis prod_cases3)
  have ty: "ToDriverType SQL_TYPE_DATE = AI_TDATE" by (simp add: ToDriverType_def)
  have "ard (example_statement open_query) = 10" by (simp add: example_statement_def NewStatement_def)
  with bind_column_outcome [OF B] ty have "r = AI_SUCCESS" "dr_type (get_record 1 (h' 10)) = SQL_DATETIME"
    by (simp_all add: Let_def verbose_of_def)
  with B show ?thesis by blast
qed

definition settable_attributes :: "int set" where
  "settable_attributes = {SQL_ATTR_CONCURRENCY, SQL_ATTR_CURSOR_TYPE, SQL_ATTR_METADATA_ID,
     SQL_ATTR_RETRIEVE_DATA, SQL_ATTR_PARAM_BIND_TYPE, SQL_ATTR_APP_ROW_DESC, SQL_ROWSET_SIZE,
     SQL_ATTR_ROW_ARRAY_SIZE, SQL_ATTR_PARAM_BIND_OFFSET_PTR, SQL_ATTR_ROW_BIND_OFFSET_PTR,
     SQL_ATTR_ROW_BIND_TYPE, SQL_ATTR_ROW_OPERATION_PTR, SQL_ATTR_ROW_STATUS_PTR, SQL_ATTR_ROWS_FETCHED_PTR}"

lemma cn_SetAttribute_metadata:
  "v = SQL_TRUE \<or> v = SQL_FALSE \<Longrightarrow> metadataID (fst (cn_SetAttribute SQL_ATTR_METADATA_ID v (cn, lg))) = (v \<noteq> 0)"
  by (auto simp: cn_SetAttribute_def api_call_def Connection_SetAttribute_def Let_def to_uint32_def)

text \<open> Statement attributes: what was set successfully is what is read, for every attribute that can be
  both set and read (the null row descriptor stands for the implicit one); and a refused setting
  changes nothing but the diagnostics of the statement.\<close>

theorem statement_attributes:
  assumes "InternalSetAttribute attr v (st, h, cn, lg) = (r, st', h', cn', lg')"
  shows "(r = AI_SUCCESS \<and> attr \<notin> {SQL_ATTR_PARAM_BIND_OFFSET_PTR, SQL_ATTR_ROW_OPERATION_PTR} \<longrightarrow>
        map_option fst (fst (snd (InternalGetAttribute vt attr True cn' st'))) =
          Some (if attr = SQL_ATTR_APP_ROW_DESC \<and> v = 0 then ardi st else v))
    \<and> (r \<noteq> AI_SUCCESS \<longrightarrow> r = AI_ERROR \<and> st' = st\<lparr>st_diag := st_diag st'\<rparr> \<and> h' = h \<and> cn' = cn \<and> lg' = lg)"
proof -
  have m: "metadataID cn' = (v \<noteq> 0)"
    if "attr = SQL_ATTR_METADATA_ID" "v = SQL_TRUE \<or> v = SQL_FALSE"
  proof -
    have "(cn', lg') = cn_SetAttribute SQL_ATTR_METADATA_ID v (cn, lg)"
      using assms that by (auto simp: InternalSetAttribute_def Let_def)
    with cn_SetAttribute_metadata [OF that(2), of cn lg] show ?thesis by (metis fst_conv)
  qed
  show ?thesis
  proof (cases "attr \<in> settable_attributes")
    case True
    then show ?thesis
      using assms m unfolding settable_attributes_def
      by (elim insertE emptyE)
        (auto simp: InternalSetAttribute_def stmt_refuse_def st_record_def SetARDDesc_def
          InternalGetAttribute_def Let_def split: if_splits)
  next
    case False
    then show ?thesis
      using assms by (auto simp: InternalSetAttribute_def settable_attributes_def Let_def stmt_refuse_def st_record_def)
  qed
qed

definition example_connection :: connection where
  "example_connection = NewConnection 0 (DefaultConfiguration []) [] []"

theorem statement_attributes_witness:
  "\<exists>st' h' cn' lg'. InternalSetAttribute SQL_ATTR_ROW_ARRAY_SIZE 50
      (example_statement open_query, \<lambda>_. NewDescriptor zero_header, example_connection, \<lparr>lg_level = LOG_OFF, lg_path = []\<rparr>)
      = (AI_SUCCESS, st', h', cn', lg')
    \<and> map_option fst (fst (snd (InternalGetAttribute (data_query_class (example_env two_pages) quiet_reader)
        SQL_ATTR_ROW_ARRAY_SIZE True cn' st'))) = Some 50"
proof -
  obtain r st' h' cn' lg' where S: "InternalSetAttribute SQL_ATTR_ROW_ARRAY_SIZE 50
      (example_statement open_query, \<lambda>_. NewDescriptor zero_header, example_connection, \<lparr>lg_level = LOG_OFF, lg_path = []\<rparr>)
      = (r, st', h', cn', lg')" by (metis prod_cases5)
  then have r: "r = AI_SUCCESS" by (auto simp: InternalSetAttribute_def Let_def)
  have "map_option fst (fst (snd (InternalGetAttribute (data_query_class (example_env two_pages) quiet_reader)
      SQL_ATTR_ROW_ARRAY_SIZE True cn' st'))) = Some 50"
    using statement_attributes [OF S, of "data_query_class (example_env two_pages) quiet_reader"] r by simp
  with S r show ?thesis by blast
qed

section \<open>Cursor names\<close>

text \<open>What the statements of a connection do to its names: set one, or go away.\<close>

inductive name_run :: "nat \<Rightarrow> connection \<Rightarrow> bool" for w :: nat where
  name_start: "name_run w (NewConnection c cfg user dsn)"
| name_set: "name_run w cn \<Longrightarrow>
    InternalSetCursorName w name len (st :: unit statement, cn) = (r, st', cn') \<Longrightarrow> name_run w cn'"
| name_remove: "name_run w cn \<Longrightarrow> name_run w (RemoveCursorName i cn)"

definition names_ok :: "connection \<Rightarrow> bool" where
  "names_ok cn \<longleftrightarrow> cursorNames cn = ran (cursorNameMap cn) \<and> inj_on (cursorNameMap cn) (dom (cursorNameMap cn))
     \<and> (\<forall>n\<in>cursorNames cn. ToUpper (take 7 n) \<noteq> ''SQL_CUR'')"

lemma ran_update_inj:
  assumes "inj_on m (dom m)"
  shows "ran (m(i := None)) = ran m - (case m i of None \<Rightarrow> {} | Some old \<Rightarrow> {old})"
proof (cases "m i")
  case None
  then show ?thesis by (simp add: fun_upd_idem)
next
  case (Some old)
  have only: "j = i" if "m j = Some old" for j
    using inj_onD [OF assms, of j i] Some that by (simp add: dom_def)
  have "n \<in> ran (m(i := None)) \<longleftrightarrow> n \<in> ran m \<and> n \<noteq> old" for n
    unfolding ran_def mem_Collect_eq fun_upd_apply using only Some by (metis option.distinct(1) option.inject)
  with Some show ?thesis by (simp add: set_eq_iff)
qed

lemma names_ok_add:
  assumes "names_ok cn" and "n \<notin> cursorNames cn" and "ToUpper (take 7 n) \<noteq> ''SQL_CUR''"
  shows "names_ok (snd (AddCursorName i n cn))"
proof -
  let ?m = "cursorNameMap cn"
  have ok: "cursorNames cn = ran ?m" "inj_on ?m (dom ?m)" using assms(1) by (simp_all add: names_ok_def)
  have "ran (?m(i \<mapsto> n)) = insert n (ran (?m(i := None)))" by (auto simp: ran_def)
  then have "ran (?m(i \<mapsto> n)) = insert n (cursorNames cn - (case ?m i of None \<Rightarrow> {} | Some old \<Rightarrow> {old}))"
    using ran_update_inj [OF ok(2)] ok(1) by simp
  moreover have "inj_on (?m(i \<mapsto> n)) (dom (?m(i \<mapsto> n)))"
    using ok assms(2) by (auto simp: inj_on_def ran_def)
  ultimately show ?thesis
    using assms(1,3) by (auto simp: AddCursorName_def Let_def names_ok_def split: option.splits)
qed

lemma names_ok_remove:
  assumes "names_ok cn"
  shows "names_ok (RemoveCursorName i cn)"
proof (cases "cursorNameMap cn i")
  case None
  with assms show ?thesis by (simp add: RemoveCursorName_def)
next
  case (Some old)
  let ?m = "cursorNameMap cn"
  have ok: "cursorNames cn = ran ?m" "inj_on ?m (dom ?m)" "\<forall>n\<in>cursorNames cn. ToUpper (take 7 n) \<noteq> ''SQL_CUR''"
    using assms by (simp_all add: names_ok_def)
  have "inj_on (?m(i := None)) (dom (?m(i := None)))"
    using ok(2) by (rule inj_on_subset [THEN inj_on_cong [THEN iffD1, rotated]]) auto
  with Some ok ran_update_inj [OF ok(2), of i] show ?thesis
    by (simp add: RemoveCursorName_def names_ok_def)
qed

lemma SetCursorName_cases:
  assumes "InternalSetCursorName w name len (st, cn) = (r, st', cn')"
  obtains (refused) "r = AI_ERROR" "cn' = cn"
  | (named) n where "r = AI_SUCCESS" "n = SqlWcharToString w name len False"
    "n \<notin> cursorNames cn" "ToUpper (take 7 n) \<noteq> ''SQL_CUR''" "cn' = snd (AddCursorName (st_id st) n cn)"
proof -
  let ?n = "SqlWcharToString w name len False"
  show thesis
  proof (cases "18 < len \<or> ToUpper (take 7 ?n) = ''SQL_CUR'' \<or> CursorNameExists ?n cn")
    case True
    then have "r = AI_ERROR \<and> cn' = cn"
      using assms by (simp add: InternalSetCursorName_def Let_def split: if_splits)
    with refused show thesis by simp
  next
    case False
    then have "r = AI_SUCCESS \<and> cn' = snd (AddCursorName (st_id st) ?n cn)"
      using assms by (auto simp: InternalSetCursorName_def Let_def AddCursorName_def)
    with False named show thesis by (simp add: CursorNameExists_def)
  qed
qed

text \<open> C24. Names of cursors stay unique: whatever the statements of a connection do, no two of them have the
  same name, the set of names in use is exactly the names the statements have, and none begins with
  the reserved prefix. A name that was set is the one that is read.\<close>

theorem cursor_names_unique:
  assumes "name_run w cn"
  shows "names_ok cn
    \<and> (InternalSetCursorName w name len (st :: unit statement, cn) = (AI_SUCCESS, st', cn') \<longrightarrow>
        GetCursorName (st_id st) cn' = SqlWcharToString w name len False
        \<and> (\<forall>j. j \<noteq> st_id st \<longrightarrow> GetCursorName j cn' = GetCursorName j cn))"
proof
  show "names_ok cn"
    using assms
  proof (induction rule: name_run.induct)
    case (name_start c cfg user dsn)
    then show ?case by (simp add: names_ok_def NewConnection_def)
  next
    case (name_set cn name len st r st' cn')
    from name_set.hyps(2) show ?case
      by (cases rule: SetCursorName_cases) (simp_all add: name_set.IH names_ok_add)
  next
    case (name_remove cn i)
    then show ?case by (simp add: names_ok_remove)
  qed
next
  show "InternalSetCursorName w name len (st, cn) = (AI_SUCCESS, st', cn') \<longrightarrow>
        GetCursorName (st_id st) cn' = SqlWcharToString w name len False
        \<and> (\<forall>j. j \<noteq> st_id st \<longrightarrow> GetCursorName j cn' = GetCursorName j cn)"
  proof (rule impI)
    assume "InternalSetCursorName w name len (st, cn) = (AI_SUCCESS, st', cn')"
    then show "GetCursorName (st_id st) cn' = SqlWcharToString w name len False
        \<and> (\<forall>j. j \<noteq> st_id st \<longrightarrow> GetCursorName j cn' = GetCursorName j cn)"
      by (cases rule: SetCursorName_cases) (simp_all add: AddCursorName_def GetCursorName_def Let_def)
  qed
qed

theorem cursor_names_unique_witness:
  "names_ok (snd (snd (InternalSetCursorName 2 (Some [99, 49]) 2 (example_statement (), example_connection))))"
proof -
  obtain r st' cn' where S: "InternalSetCursorName 2 (Some [99, 49]) 2 (example_statement (), example_connection) = (r, st', cn')"
    by (metis prod_cases3)
  have "name_run 2 example_connection" unfolding example_connection_def by (rule name_start)
  then have "name_run 2 cn'" using S by (rule name_set)
  with cursor_names_unique [of 2 cn'] S show ?thesis by simp
qed

end
