(* ===== verification/Text_Buffer.thy ===== *)
theory Text_Buffer
  imports Wide_Strings
begin

text \<open>
  Text in application buffers (\<^verbatim>\<open>PutStrToStrBuffer\<close> and \<^verbatim>\<open>PutValToStrBuffer\<close> of
  \<^verbatim>\<open>src/app/application_data_buffer.cpp\<close>, \<^verbatim>\<open>CopyUtf8StringToSqlCharString\<close> of \<^verbatim>\<open>src/utility.cpp\<close>) in both
  modes of the driver: by default text is decoded and narrowed to the character set of the locale,
  and when the variable \<^verbatim>\<open>ANSI_STRING_ONLY\<close> is set bytes are copied without looking at them. The mode
  for ANSI strings and narrow buffers is the one of \<open>App_Buffer\<close>.
\<close>

section \<open>The two modes\<close>

text \<open>\<open>Unicode nr\<close> is the default mode; \<open>nr\<close> is the narrowing of the locale, which maps what it cannot
  represent to a question mark.\<close>

datatype text_mode = Ansi | Unicode "nat \<Rightarrow> char"

text \<open>\<^verbatim>\<open>wstring_convert::from_bytes\<close> for units of 4 bytes; \<open>None\<close> is the exception it throws on a text that
  is not UTF-8.\<close>

definition from_bytes :: "string \<Rightarrow> nat list option" where
  "from_bytes s =
     (case cvt_in (max_code 4) (length s) s of (Cvt_ok, us, _) \<Rightarrow> Some us | _ \<Rightarrow> None)"

definition bytes_required :: "text_mode \<Rightarrow> nat \<Rightarrow> string \<Rightarrow> nat option" where
  "bytes_required md w value =
     (case md of
        Ansi \<Rightarrow> Some (length value * w)
      | Unicode _ \<Rightarrow> map_option (\<lambda>us. length us * w) (from_bytes value))"

definition CopyText :: "text_mode \<Rightarrow> string \<Rightarrow> int \<Rightarrow> nat \<Rightarrow> memory \<Rightarrow> (nat \<times> bool \<times> memory) option" where
  "CopyText md s out len m =
     (case md of
        Ansi \<Rightarrow> Some (CopyUtf8StringToSqlCharString s out len m)
      | Unicode nr \<Rightarrow>
          map_option (\<lambda>us.
            let n = (if 0 < len then min (length us) (len - 1) else 0)
            in (n, n < length us,
                if 0 < n then write_bytes out (str_bytes (map nr (take n us)) @ [0]) m else m))
          (from_bytes s))"

text \<open>\<^verbatim>\<open>PutStrToStrBuffer\<close> for characters of \<open>w\<close> bytes, \<open>None\<close> being the exception of the decoding. The
  number of bytes that remain is computed without sign, so that it is the full length only when
  nothing remains. The offset counts characters of the output, but is added to the address of the
  UTF-8 text.\<close>

definition PutText ::
  "text_mode \<Rightarrow> nat \<Rightarrow> string \<Rightarrow> app_buffer \<Rightarrow> memory \<Rightarrow> (conv_result \<times> int \<times> app_buffer \<times> memory) option" where
  "PutText md w value b m =
     Option.bind (bytes_required md w value) (\<lambda>required.
       if GetData b = 0 then Some (Conv_SUCCESS, 0, b, store_len (GetResLen b) (int required) m)
       else
         let current = (if 0 \<le> ab_cellOffset b then nat (ab_cellOffset b) else 0) in
         if required \<le> current * w then Some (Conv_NO_DATA, 0, b, m)
         else
           map_option (\<lambda>(written, truncated, m1).
             let total = int (current * w + written);
                 remaining = (if int required = total then int required else to_int64 (int required - total));
                 m2 = store_len (GetResLen b) remaining m1
             in if truncated
                then (Conv_VARLEN_DATA_TRUNCATED, int written,
                      SetCellOffset (int current + (ab_buflen b div int w - 1)) b, m2)
                else (Conv_SUCCESS, int written,
                      if 0 \<le> ab_cellOffset b then SetCellOffset total b else b, m2))
           (if w = 1 then CopyText md (drop current value) (GetData b) (nat (ab_buflen b)) m
            else Some (CopyUtf8StringToWcharString w (drop current value) (GetData b) (nat (ab_buflen b)) False m)))"

text \<open>\<^verbatim>\<open>PutValToStrBuffer\<close> for an integer.\<close>

definition PutValToStrBuffer ::
  "text_mode \<Rightarrow> nat \<Rightarrow> int \<Rightarrow> app_buffer \<Rightarrow> memory \<Rightarrow> (conv_result \<times> int \<times> app_buffer \<times> memory) option" where
  "PutValToStrBuffer md w v b m = PutText md w (int_str v) b m"

section \<open>Facts\<close>

definition ascii :: "string \<Rightarrow> bool" where
  "ascii s \<longleftrightarrow> (\<forall>c\<in>set s. 0 < char_code c \<and> char_code c < 128)"

lemma ascii_simps [simp]:
  "ascii []" "ascii (c # s) \<longleftrightarrow> 0 < char_code c \<and> char_code c < 128 \<and> ascii s"
  "ascii (s @ t) \<longleftrightarrow> ascii s \<and> ascii t"
  by (auto simp: ascii_def)

lemma ascii_drop: "ascii s \<Longrightarrow> ascii (drop n s)"
  by (auto simp: ascii_def dest: in_set_dropD)

lemma ascii_take: "ascii s \<Longrightarrow> ascii (take n s)"
  by (auto simp: ascii_def dest: in_set_takeD)

lemma cvt_in_ascii:
  "ascii s \<Longrightarrow> 127 \<le> mx \<Longrightarrow> cvt_in mx n s =
     (if length s \<le> n then Cvt_ok else Cvt_partial, map char_code (take n s), drop n s)"
  by (induction mx n s rule: cvt_in.induct) auto

lemma from_bytes_ascii: "ascii s \<Longrightarrow> from_bytes s = Some (map char_code s)"
  by (simp add: from_bytes_def cvt_in_ascii max_code_def)

lemma narrow_ascii:
  assumes "\<And>c. char_code c < 128 \<Longrightarrow> nr (char_code c) = c" and "ascii s"
  shows "map nr (map char_code s) = s"
  using assms(2) by (induction s) (auto simp: assms(1))

text \<open>The mode for ANSI strings is what \<open>App_Buffer\<close> describes.\<close>

lemma copy_written_le:
  "CopyUtf8StringToSqlCharString s out n m = (w, tr, m') \<Longrightarrow> w \<le> length s"
  by (auto simp: CopyUtf8StringToSqlCharString_def split: if_splits)

lemma PutText_Ansi:
  assumes "int (length value) < 2 ^ 63"
  shows "PutText Ansi 1 value b m = Some (PutStrToStrBuffer value b m)"
proof -
  obtain w tr m1 where c: "CopyUtf8StringToSqlCharString
      (drop (if 0 \<le> ab_cellOffset b then nat (ab_cellOffset b) else 0) value) (GetData b) (nat (ab_buflen b)) m
      = (w, tr, m1)" by (metis prod_cases3)
  have "to_int64 (int (length value) - x) = int (length value) - x" if "0 \<le> x" "x \<le> int (length value)" for x
    using that assms by (intro to_int64_id) simp_all
  then show ?thesis
    using copy_written_le [OF c]
    by (auto simp: PutText_def PutStrToStrBuffer_def bytes_required_def CopyText_def Let_def c of_nat_diff)
qed

lemma CopyText_modes_agree:
  assumes "\<And>c. char_code c < 128 \<Longrightarrow> nr (char_code c) = c" and "ascii s" and "s \<noteq> []" and "len \<noteq> 1"
  shows "CopyText (Unicode nr) s out len m = CopyText Ansi s out len m"
proof -
  have "map nr (take n (map char_code s)) = take n s" for n
    using narrow_ascii [of nr "take n s"] assms by (simp add: ascii_take take_map)
  moreover have "map (nr \<circ> char_code) s = s" using narrow_ascii [of nr s] assms(1,2) by simp
  ultimately show ?thesis
    using assms(2-4)
    by (auto simp: CopyText_def from_bytes_ascii CopyUtf8StringToSqlCharString_def Let_def min_def)
qed

lemma from_bytes_encode:
  assumes "\<forall>u\<in>set us. scalar_value u"
  shows "from_bytes (utf8_encode us) = Some us"
proof -
  have "length us \<le> length (utf8_encode us)"
    by (induction us) (auto simp: utf8_encode_def utf8_encode1_def)
  moreover have "\<forall>u\<in>set us. scalar_value u \<and> u \<le> max_code 4"
    using assms by (auto simp: scalar_value_def max_code_def)
  ultimately show ?thesis by (simp add: from_bytes_def cvt_in_encode)
qed

text \<open>Behind the first byte of a character of several bytes there is no character.\<close>

lemma utf8_next_second_byte:
  assumes "scalar_value u" and "128 \<le> u"
  shows "utf8_next (drop 1 (utf8_encode1 u) @ s) = Invalid"
proof -
  have "u mod 64 < 64" "u div 64 mod 64 < 64" "u div 4096 mod 64 < 64" by simp_all
  then show ?thesis
    using assms(2) by (auto simp: utf8_encode1_def Let_def)
qed

lemma from_bytes_second_byte:
  assumes "scalar_value u" and "128 \<le> u"
  shows "from_bytes (drop 1 (utf8_encode1 u) @ s) = None"
proof -
  obtain c cs where c: "drop 1 (utf8_encode1 u) @ s = c # cs"
    using assms(2) by (cases "drop 1 (utf8_encode1 u) @ s") (auto simp: utf8_encode1_def split: if_splits)
  have "utf8_next (c # cs) = Invalid" using utf8_next_second_byte [OF assms, of s] c by metis
  then show ?thesis unfolding c by (simp add: from_bytes_def)
qed

section \<open>Properties\<close>

text \<open> The shortcut for ANSI strings is sound: on a text of ASCII characters, and for a locale that keeps
  them, it leaves the same result, offset and memory as decoding and narrowing, in narrow and in
  wide buffers, for every buffer length but one. A narrow buffer of a single byte is terminated by
  the shortcut only.\<close>

theorem ansi_mode_equivalent:
  assumes "\<And>c. char_code c < 128 \<Longrightarrow> nr (char_code c) = c" and "ascii value" and "w \<noteq> 1 \<or> ab_buflen b \<noteq> 1"
  shows "PutText (Unicode nr) w value b m = PutText Ansi w value b m"
proof -
  have req: "bytes_required (Unicode nr) w value = Some (length value * w)"
    "bytes_required Ansi w value = Some (length value * w)"
    using assms(2) by (simp_all add: bytes_required_def from_bytes_ascii)
  define k where "k = (if 0 \<le> ab_cellOffset b then nat (ab_cellOffset b) else 0)"
  have "CopyText (Unicode nr) (drop k value) (GetData b) (nat (ab_buflen b)) m =
      CopyText Ansi (drop k value) (GetData b) (nat (ab_buflen b)) m" if "w = 1" "\<not> length value * w \<le> k * w"
    using that assms by (intro CopyText_modes_agree) (auto simp: ascii_drop nat_eq_iff)
  then show ?thesis
    unfolding PutText_def req Let_def k_def [symmetric] by (cases "w = 1") simp_all
qed

theorem ansi_mode_equivalent_witness:
  "PutText (Unicode char_of) 1 ''hello'' sample_buffer (\<lambda>_. 7) = PutText Ansi 1 ''hello'' sample_buffer (\<lambda>_. 7)"
  by (rule ansi_mode_equivalent) (simp_all add: char_code_def sample_buffer_def SetCellOffset_def ApplicationDataBuffer_def)

text \<open> Reading text in parts loses its place when characters take several bytes: after one such
  character has been delivered, which moves the offset by one, the next call starts inside it and
  the decoding throws.\<close>

theorem multibyte_parts_throw:
  assumes "scalar_value u" and "128 \<le> u" and "us \<noteq> []" and "\<forall>x\<in>set us. scalar_value x"
    and "GetData b \<noteq> 0" and "ab_cellOffset b = 0" and "ab_buflen b = 2"
  shows "\<exists>m'. PutText (Unicode nr) 1 (utf8_encode (u # us)) b m =
        Some (Conv_VARLEN_DATA_TRUNCATED, 1, SetCellOffset 1 b, m')
      \<and> PutText (Unicode nr) 1 (utf8_encode (u # us)) (SetCellOffset 1 b) m' = None"
proof -
  have dec: "from_bytes (utf8_encode (u # us)) = Some (u # us)"
    using assms(1,4) by (intro from_bytes_encode) simp
  have enc: "utf8_encode (u # us) = utf8_encode1 u @ utf8_encode us" by (simp add: utf8_encode_def)
  have "drop 1 (utf8_encode (u # us)) = drop 1 (utf8_encode1 u) @ utf8_encode us"
    unfolding enc by (cases "utf8_encode1 u") simp_all
  then have none: "from_bytes (drop 1 (utf8_encode (u # us))) = None"
    using from_bytes_second_byte [OF assms(1,2)] by simp
  have "0 < length us" using assms(3) by simp
  then show ?thesis
    using assms(5-7) none
    by (simp add: PutText_def bytes_required_def dec CopyText_def Let_def cell_offset_frame)
qed

theorem multibyte_parts_throw_witness:
  "\<exists>m'. PutText (Unicode char_of) 1 (utf8_encode [233, 116]) (sample_buffer\<lparr>ab_buflen := 2\<rparr>) (\<lambda>_. 0) =
        Some (Conv_VARLEN_DATA_TRUNCATED, 1, SetCellOffset 1 (sample_buffer\<lparr>ab_buflen := 2\<rparr>), m')
      \<and> PutText (Unicode char_of) 1 (utf8_encode [233, 116]) (SetCellOffset 1 (sample_buffer\<lparr>ab_buflen := 2\<rparr>)) m' = None"
  by (rule multibyte_parts_throw)
    (simp_all add: scalar_value_def sample_buffer_def SetCellOffset_def ApplicationDataBuffer_def GetData_def
      ApplyOffset_def GetElementSize_def)

end
