(* ===== verification/Date_Time.thy ===== *)
theory Date_Time
  imports Odbc_Prelude
begin

text \<open>
  Points in time and intervals (\<^verbatim>\<open>date.cpp\<close>, \<^verbatim>\<open>time.cpp\<close>, \<^verbatim>\<open>timestamp.cpp\<close>, \<^verbatim>\<open>interval_day_second.cpp\<close>,
  \<^verbatim>\<open>interval_year_month.cpp\<close>) and their conversions to and from the broken-down time of the C library
  (\<^verbatim>\<open>utils.h\<close>, \<^verbatim>\<open>utils.cpp\<close>). The C library functions \<^verbatim>\<open>gmtime_r\<close> and \<^verbatim>\<open>timegm\<close> are modelled by the
  Gregorian calendar, for every year.
\<close>

section \<open>The calendar\<close>

record tm =
  tm_year :: int
  tm_mon :: int
  tm_mday :: int
  tm_hour :: int
  tm_min :: int
  tm_sec :: int

definition zero_tm :: tm where
  "zero_tm = \<lparr>tm_year = 0, tm_mon = 0, tm_mday = 0, tm_hour = 0, tm_min = 0, tm_sec = 0\<rparr>"

definition leap :: "int \<Rightarrow> bool" where
  "leap y \<longleftrightarrow> y mod 4 = 0 \<and> y mod 100 \<noteq> 0 \<or> y mod 400 = 0"

text \<open>Days between the first of January of year 1 and that of year \<open>y\<close>.\<close>

definition year_start :: "int \<Rightarrow> int" where
  "year_start y = 365 * (y - 1) + (y - 1) div 4 - (y - 1) div 100 + (y - 1) div 400"

definition month_table :: "bool \<Rightarrow> int list" where
  "month_table l = (if l then [0, 31, 60, 91, 121, 152, 182, 213, 244, 274, 305, 335, 366]
                    else [0, 31, 59, 90, 120, 151, 181, 212, 243, 273, 304, 334, 365])"

definition month_start :: "bool \<Rightarrow> int \<Rightarrow> int" where
  "month_start l m = month_table l ! nat m"

definition epoch_days :: int where "epoch_days = 719162"

text \<open>The year a day belongs to: an estimate from the mean length of a year, off by one at most.\<close>

definition year_of_day :: "int \<Rightarrow> int" where
  "year_of_day d =
     (let y = (400 * d) div 146097 + 1
      in if d < year_start y then y - 1 else if year_start (y + 1) \<le> d then y + 1 else y)"

fun month_from :: "nat \<Rightarrow> bool \<Rightarrow> int \<Rightarrow> int" where
  "month_from 0 l d = 0"
| "month_from (Suc m) l d = (if month_start l (int (Suc m)) \<le> d then int (Suc m) else month_from m l d)"

definition gmtime :: "int \<Rightarrow> tm" where
  "gmtime t =
     (let d = t div 86400 + epoch_days; s = t mod 86400;
          y = year_of_day d; r = d - year_start y; m = month_from 11 (leap y) r
      in \<lparr>tm_year = y - 1900, tm_mon = m, tm_mday = r - month_start (leap y) m + 1,
          tm_hour = s div 3600, tm_min = s div 60 mod 60, tm_sec = s mod 60\<rparr>)"

text \<open>The fields may lie outside their ranges; they are added up.\<close>

definition timegm :: "tm \<Rightarrow> int" where
  "timegm x =
     (let y = tm_year x + 1900 + tm_mon x div 12; m = tm_mon x mod 12;
          d = year_start y + month_start (leap y) m + tm_mday x - 1
      in ((d - epoch_days) * 24 + tm_hour x) * 3600 + tm_min x * 60 + tm_sec x)"

definition valid_tm :: "tm \<Rightarrow> bool" where
  "valid_tm x \<longleftrightarrow> 0 \<le> tm_mon x \<and> tm_mon x \<le> 11
     \<and> 1 \<le> tm_mday x
     \<and> tm_mday x \<le> month_start (leap (tm_year x + 1900)) (tm_mon x + 1) - month_start (leap (tm_year x + 1900)) (tm_mon x)
     \<and> 0 \<le> tm_hour x \<and> tm_hour x < 24 \<and> 0 \<le> tm_min x \<and> tm_min x < 60 \<and> 0 \<le> tm_sec x \<and> tm_sec x < 60"

section \<open>Facts on the calendar\<close>

lemma div_step:
  fixes k n :: int
  assumes "0 < n"
  shows "(k + 1) div n = k div n + (if (k + 1) mod n = 0 then 1 else 0)"
proof -
  let ?q = "(k + 1) div n" and ?r = "(k + 1) mod n"
  have k: "k + 1 = n * ?q + ?r" and r: "0 \<le> ?r" "?r < n"
    using assms by simp_all
  show ?thesis
  proof (cases "?r = 0")
    case True
    then have "k = n * (?q - 1) + (n - 1)" using k by (simp add: algebra_simps)
    then have "k div n = ?q - 1" using assms by (intro int_div_pos_eq [of k n "?q - 1" "n - 1"]) simp_all
    with True show ?thesis by simp
  next
    case False
    have "k = n * ?q + (?r - 1)" using k by linarith
    then have "k div n = ?q" using False r by (intro int_div_pos_eq [of k n ?q "?r - 1"]) simp_all
    with False show ?thesis by simp
  qed
qed

lemma year_sum:
  fixes a b c i j k :: int
  shows "a' = a + i \<Longrightarrow> b' = b + j \<Longrightarrow> c' = c + k \<Longrightarrow>
    365 * y + a' - b' + c' = (365 * y - 365 + a - b + c) + (365 + (i - j + k))"
  by simp

lemma year_length: "year_start (y + 1) = year_start y + (if leap y then 366 else 365)"
proof -
  have "y mod 400 = 0 \<Longrightarrow> y mod 100 = 0" "y mod 100 = 0 \<Longrightarrow> y mod 4 = 0"
    by (simp_all add: mod_eq_0_iff_dvd dvd_trans [of 100 400] dvd_trans [of 4 100])
  then have l: "(if leap y then 366 else 365) = 365 + ((if y mod 4 = 0 then 1 else 0)
      - (if y mod 100 = 0 then 1 else 0) + (if y mod 400 = 0 then 1 else (0::int)))"
    by (simp add: leap_def)
  have d: "y div n = (y - 1) div n + (if y mod n = 0 then 1 else 0)" if "0 < n" for n
    using div_step [OF that, of "y - 1"] by (simp only: diff_add_cancel)
  have "year_start (y + 1) = 365 * y + y div 4 - y div 100 + y div 400"
    "year_start y = 365 * y - 365 + (y - 1) div 4 - (y - 1) div 100 + (y - 1) div 400"
    by (simp_all add: year_start_def)
  then show ?thesis
    using year_sum [OF d [of 4] d [of 100] d [of 400], of y] l by simp
qed

lemma year_start_grows: "y \<le> y' \<Longrightarrow> year_start y + 365 * (y' - y) \<le> year_start y'"
proof (induction y' rule: int_ge_induct)
  case (step i)
  then show ?case using year_length [of i] by (simp split: if_splits)
qed simp

text \<open>A day lies in one year only.\<close>

lemma year_unique:
  assumes "year_start y \<le> d" "d < year_start (y + 1)" "year_start y' \<le> d" "d < year_start (y' + 1)"
  shows "y = y'"
proof (rule ccontr)
  assume "y \<noteq> y'"
  then consider "y + 1 \<le> y'" | "y' + 1 \<le> y" by linarith
  then show False
  proof cases
    case 1
    then show False using assms(2,3) year_start_grows [OF 1] by (simp add: algebra_simps)
  next
    case 2
    then show False using assms(1,4) year_start_grows [OF 2] by (simp add: algebra_simps)
  qed
qed

lemma year_start_bounds:
  "146097 * y - 146796 \<le> 400 * year_start y" "400 * year_start y \<le> 146097 * y - 145701"
proof -
  let ?k = "y - 1"
  have "?k = 4 * (?k div 4) + ?k mod 4" "?k = 100 * (?k div 100) + ?k mod 100"
    "?k = 400 * (?k div 400) + ?k mod 400" by simp_all
  moreover have "0 \<le> ?k mod 4" "?k mod 4 \<le> 3" "0 \<le> ?k mod 100" "?k mod 100 \<le> 99"
    "0 \<le> ?k mod 400" "?k mod 400 \<le> 399" by simp_all
  moreover have "year_start y = 365 * y - 365 + ?k div 4 - ?k div 100 + ?k div 400"
    by (simp add: year_start_def)
  ultimately show "146097 * y - 146796 \<le> 400 * year_start y" "400 * year_start y \<le> 146097 * y - 145701"
    by linarith+
qed

lemma year_of_day: "year_start (year_of_day d) \<le> d \<and> d < year_start (year_of_day d + 1)"
proof -
  define y where "y = (400 * d) div 146097 + 1"
  have q: "400 * d = 146097 * y - 146097 + (400 * d) mod 146097" by (simp add: y_def)
  have r: "0 \<le> (400 * d) mod 146097" "(400 * d) mod 146097 < 146097" by simp_all
  have "year_start (y - 1) \<le> d"
    using q r year_start_bounds(2) [of "y - 1"] unfolding right_diff_distrib by linarith
  moreover have "d < year_start (y + 2)"
    using q r year_start_bounds(1) [of "y + 2"] unfolding distrib_left by linarith
  ultimately show ?thesis
    unfolding year_of_day_def Let_def y_def [symmetric] by (auto simp: add.commute)
qed

lemma month_start_simps [simp]:
  "month_start l 0 = 0" "month_start l 12 = (if l then 366 else 365)"
  by (simp_all add: month_start_def month_table_def)

lemma months: "(0::int) \<le> m \<Longrightarrow> m \<le> 11 \<Longrightarrow> m \<in> {0, 1, 2, 3, 4, 5, 6, 7, 8, 9, 10, 11}"
  by (simp, presburger)

text \<open>The search ends in the month that contains the day, and no other month contains it.\<close>

lemma month_from_range:
  assumes "0 \<le> d" "d < (if l then 366 else 365)"
  shows "0 \<le> month_from 11 l d \<and> month_from 11 l d \<le> 11
    \<and> month_start l (month_from 11 l d) \<le> d \<and> d < month_start l (month_from 11 l d + 1)"
  using assms by (cases l) (simp_all add: eval_nat_numeral month_start_def month_table_def)

lemma month_unique:
  assumes "0 \<le> m" "m \<le> 11" "month_start l m \<le> d" "d < month_start l (m + 1)"
  shows "month_from 11 l d = m"
  using months [OF assms(1,2)] assms(3,4)
  by (cases l) (auto simp: eval_nat_numeral month_start_def month_table_def)

lemma gmtime_valid: "valid_tm (gmtime t)"
proof -
  define d where "d = t div 86400 + epoch_days"
  define y where "y = year_of_day d"
  define r where "r = d - year_start y"
  have "0 \<le> r" "r < (if leap y then 366 else 365)"
    using year_of_day [of d] year_length [of y] by (simp_all add: y_def r_def)
  from month_from_range [OF this] have M: "0 \<le> month_from 11 (leap y) r" "month_from 11 (leap y) r \<le> 11"
    "month_start (leap y) (month_from 11 (leap y) r) \<le> r" "r < month_start (leap y) (month_from 11 (leap y) r + 1)"
    by simp_all
  have S: "0 \<le> t mod 86400" "t mod 86400 < 86400" by simp_all
  then have "t mod 86400 div 3600 < 24" by linarith
  with M S show ?thesis
    by (simp add: valid_tm_def gmtime_def Let_def d_def [symmetric] y_def [symmetric] r_def [symmetric] pos_imp_zdiv_nonneg_iff)
qed

lemma clock_split: "(s::int) div 3600 * 3600 + s div 60 mod 60 * 60 + s mod 60 = s"
proof -
  have "s div 60 div 60 = s div 3600" using zdiv_zmult2_eq [of 60 s 60] by simp
  then have "s div 60 = 60 * (s div 3600) + s div 60 mod 60" using mult_div_mod_eq [of 60 "s div 60"] by simp
  moreover have "s = 60 * (s div 60) + s mod 60" by simp
  ultimately show ?thesis by linarith
qed

lemma timegm_gmtime: "timegm (gmtime t) = t"
proof -
  define d where "d = t div 86400 + epoch_days"
  define y where "y = year_of_day d"
  define r where "r = d - year_start y"
  define m where "m = month_from 11 (leap y) r"
  have v: "0 \<le> m" "m \<le> 11"
    using gmtime_valid [of t]
    by (simp_all add: valid_tm_def gmtime_def Let_def d_def [symmetric] y_def [symmetric] r_def [symmetric] m_def [symmetric])
  have "timegm (gmtime t) = ((year_start y + r - epoch_days) * 24 + t mod 86400 div 3600) * 3600
      + t mod 86400 div 60 mod 60 * 60 + t mod 86400 mod 60"
    using v by (simp add: timegm_def gmtime_def Let_def d_def [symmetric] y_def [symmetric] r_def [symmetric] m_def [symmetric])
  also have "year_start y + r - epoch_days = t div 86400" by (simp add: r_def d_def)
  also have "(t div 86400 * 24 + t mod 86400 div 3600) * 3600 + t mod 86400 div 60 mod 60 * 60 + t mod 86400 mod 60
      = t div 86400 * 86400 + t mod 86400"
    using clock_split [of "t mod 86400"] by (simp only: distrib_right)
  finally show ?thesis by simp
qed

lemma month_end: "0 \<le> m \<Longrightarrow> m \<le> 11 \<Longrightarrow> 0 \<le> month_start l m \<and> month_start l (m + 1) \<le> (if l then 366 else 365)"
  using months [of m] by (auto simp: month_start_def month_table_def)

lemma gmtime_timegm:
  assumes "valid_tm x"
  shows "gmtime (timegm x) = x"
proof -
  define y where "y = tm_year x + 1900"
  define d where "d = year_start y + month_start (leap y) (tm_mon x) + tm_mday x - 1"
  define s where "s = tm_hour x * 3600 + tm_min x * 60 + tm_sec x"
  have V: "0 \<le> tm_mon x" "tm_mon x \<le> 11" "1 \<le> tm_mday x"
    "tm_mday x \<le> month_start (leap y) (tm_mon x + 1) - month_start (leap y) (tm_mon x)"
    "0 \<le> tm_hour x" "tm_hour x < 24" "0 \<le> tm_min x" "tm_min x < 60" "0 \<le> tm_sec x" "tm_sec x < 60"
    using assms by (simp_all add: valid_tm_def y_def)
  have T: "timegm x = (d - epoch_days) * 86400 + s"
    using V by (simp add: timegm_def Let_def y_def d_def s_def algebra_simps)
  have s: "0 \<le> s" "s < 86400" using V by (simp_all add: s_def)
  have dm: "timegm x div 86400 + epoch_days = d" "timegm x mod 86400 = s"
    using int_div_pos_eq [of "timegm x" 86400 "d - epoch_days" s] int_mod_pos_eq [of "timegm x" 86400 "d - epoch_days" s] s
    by (simp_all add: T)
  have D: "year_start y \<le> d" "d < year_start (y + 1)"
    using V month_end [OF V(1,2), of "leap y"] year_length [of y] by (simp_all add: d_def)
  have y: "year_of_day d = y" using year_unique [OF _ _ D] year_of_day [of d] by blast
  have m: "month_from 11 (leap y) (d - year_start y) = tm_mon x"
    using V by (intro month_unique) (simp_all add: d_def)
  have c: "s div 3600 = tm_hour x" "s div 60 = tm_hour x * 60 + tm_min x" "s mod 60 = tm_sec x"
    using V int_div_pos_eq [of s 3600 "tm_hour x" "tm_min x * 60 + tm_sec x"]
      int_div_pos_eq [of s 60 "tm_hour x * 60 + tm_min x" "tm_sec x"]
      int_mod_pos_eq [of s 60 "tm_hour x * 60 + tm_min x" "tm_sec x"]
    by (simp_all add: s_def)
  have "gmtime (timegm x) = \<lparr>tm_year = y - 1900, tm_mon = tm_mon x,
      tm_mday = d - year_start y - month_start (leap y) (tm_mon x) + 1,
      tm_hour = s div 3600, tm_min = s div 60 mod 60, tm_sec = s mod 60\<rparr>"
    by (simp add: gmtime_def Let_def dm y m)
  also have "\<dots> = x" using V by (simp add: c d_def y_def)
  finally show ?thesis .
qed

text \<open>What the driver relies on: the two functions of the C library are inverse to each other on valid
  broken-down times.\<close>

locale clock =
  fixes brk :: "int \<Rightarrow> 'tm" and mk :: "'tm \<Rightarrow> int" and ok :: "'tm \<Rightarrow> bool"
  assumes brk_ok: "ok (brk t)" and mk_brk: "mk (brk t) = t" and brk_mk: "ok x \<Longrightarrow> brk (mk x) = x"
begin

lemma brk_inj: "brk t = brk u \<Longrightarrow> t = u"
  by (metis mk_brk)

lemma mk_inj: "ok x \<Longrightarrow> ok y \<Longrightarrow> mk x = mk y \<Longrightarrow> x = y"
  by (metis brk_mk)

end

interpretation utc: clock gmtime timegm valid_tm
  by unfold_locales (simp_all add: gmtime_valid timegm_gmtime gmtime_timegm)

section \<open>Points in time\<close>

text \<open>A date counts milliseconds, a time of day and a timestamp count seconds and nanoseconds. The number
  of seconds of a time of day has 32 bits.\<close>

datatype date = Date (date_ms: int)
datatype time = Time (time_seconds: int) (time_fraction: int)
datatype timestamp = Timestamp (ts_seconds: int) (ts_fraction: int)

definition Date_GetSeconds :: "date \<Rightarrow> int" where
  "Date_GetSeconds d = c_div (date_ms d) 1000"

definition Time_of_ms :: "int \<Rightarrow> time" where
  "Time_of_ms ms = Time (to_int32 (c_div ms 1000)) (to_int32 (c_mod ms 1000 * 100000))"

definition Time_GetMilliseconds :: "time \<Rightarrow> int" where
  "Time_GetMilliseconds x = to_int32 (to_int32 (time_seconds x * 1000) + c_div (time_fraction x) 1000)"

definition Timestamp_of_ms :: "int \<Rightarrow> timestamp" where
  "Timestamp_of_ms ms = Timestamp (c_div ms 1000) (to_int32 (c_mod ms 1000 * 1000000))"

definition Timestamp_GetMilliseconds :: "timestamp \<Rightarrow> int" where
  "Timestamp_GetMilliseconds x = to_int64 (ts_seconds x * 1000 + c_div (ts_fraction x) 1000000)"

definition Timestamp_GetDate :: "timestamp \<Rightarrow> date" where
  "Timestamp_GetDate x = Date (Timestamp_GetMilliseconds x)"

section \<open>Conversions\<close>

definition DateToCTm :: "date \<Rightarrow> tm" where
  "DateToCTm d = gmtime (Date_GetSeconds d)"

definition TimestampToCTm :: "timestamp \<Rightarrow> tm" where
  "TimestampToCTm x = gmtime (ts_seconds x)"

definition TimeToCTm :: "time \<Rightarrow> tm" where
  "TimeToCTm x = gmtime (time_seconds x)"

definition CTimeToDate :: "int \<Rightarrow> date" where
  "CTimeToDate c = Date (c * 1000)"

definition CTimeToTime :: "int \<Rightarrow> int \<Rightarrow> time" where
  "CTimeToTime c ns = Time (to_int32 c) ns"

definition CTimeToTimestamp :: "int \<Rightarrow> int \<Rightarrow> timestamp" where
  "CTimeToTimestamp c ns = Timestamp c ns"

definition CTmToDate :: "tm \<Rightarrow> date" where
  "CTmToDate x = CTimeToDate (timegm x)"

definition CTmToTime :: "tm \<Rightarrow> int \<Rightarrow> time" where
  "CTmToTime x ns = CTimeToTime (timegm x) ns"

definition CTmToTimestamp :: "tm \<Rightarrow> int \<Rightarrow> timestamp" where
  "CTmToTimestamp x ns = CTimeToTimestamp (timegm x) ns"

definition make_tm :: "int \<Rightarrow> int \<Rightarrow> int \<Rightarrow> int \<Rightarrow> int \<Rightarrow> int \<Rightarrow> tm" where
  "make_tm year month day hour minute sec =
     \<lparr>tm_year = year - 1900, tm_mon = month - 1, tm_mday = day, tm_hour = hour, tm_min = minute, tm_sec = sec\<rparr>"

definition MakeDateGmt :: "int \<Rightarrow> int \<Rightarrow> int \<Rightarrow> int \<Rightarrow> int \<Rightarrow> int \<Rightarrow> date" where
  "MakeDateGmt year month day hour minute sec = CTmToDate (make_tm year month day hour minute sec)"

definition MakeTimeGmt :: "int \<Rightarrow> int \<Rightarrow> int \<Rightarrow> int \<Rightarrow> time" where
  "MakeTimeGmt hour minute sec ns = CTmToTime (make_tm 1970 1 1 hour minute sec) ns"

definition MakeTimestampGmt :: "int \<Rightarrow> int \<Rightarrow> int \<Rightarrow> int \<Rightarrow> int \<Rightarrow> int \<Rightarrow> int \<Rightarrow> timestamp" where
  "MakeTimestampGmt year month day hour minute sec ns = CTmToTimestamp (make_tm year month day hour minute sec) ns"

section \<open>Order\<close>

definition Time_less :: "time \<Rightarrow> time \<Rightarrow> bool" where
  "Time_less a b \<longleftrightarrow> time_seconds a < time_seconds b
     \<or> time_seconds a = time_seconds b \<and> time_fraction a < time_fraction b"

definition Time_less_eq :: "time \<Rightarrow> time \<Rightarrow> bool" where
  "Time_less_eq a b \<longleftrightarrow> time_seconds a < time_seconds b
     \<or> time_seconds a = time_seconds b \<and> time_fraction a \<le> time_fraction b"

definition Timestamp_less :: "timestamp \<Rightarrow> timestamp \<Rightarrow> bool" where
  "Timestamp_less a b \<longleftrightarrow> ts_seconds a < ts_seconds b
     \<or> ts_seconds a = ts_seconds b \<and> ts_fraction a < ts_fraction b"

definition Timestamp_less_eq :: "timestamp \<Rightarrow> timestamp \<Rightarrow> bool" where
  "Timestamp_less_eq a b \<longleftrightarrow> ts_seconds a < ts_seconds b
     \<or> ts_seconds a = ts_seconds b \<and> ts_fraction a \<le> ts_fraction b"

instantiation time :: linorder
begin

definition less_time :: "time \<Rightarrow> time \<Rightarrow> bool" where "less_time = Time_less"

definition less_eq_time :: "time \<Rightarrow> time \<Rightarrow> bool" where "less_eq_time = Time_less_eq"

instance
  by standard (auto simp: less_time_def less_eq_time_def Time_less_def Time_less_eq_def intro: time.expand)

end

instantiation timestamp :: linorder
begin

definition less_timestamp :: "timestamp \<Rightarrow> timestamp \<Rightarrow> bool" where "less_timestamp = Timestamp_less"

definition less_eq_timestamp :: "timestamp \<Rightarrow> timestamp \<Rightarrow> bool" where "less_eq_timestamp = Timestamp_less_eq"

instance
  by standard
    (auto simp: less_timestamp_def less_eq_timestamp_def Timestamp_less_def Timestamp_less_eq_def intro: timestamp.expand)

end

section \<open>Intervals\<close>

datatype interval_year_month = IntervalYearMonth (ym_year: int) (ym_month: int)
datatype interval_day_second =
  IntervalDaySecond (ds_day: int) (ds_hour: int) (ds_minute: int) (ds_second: int) (ds_fraction: int)

definition YearMonth_less :: "interval_year_month \<Rightarrow> interval_year_month \<Rightarrow> bool" where
  "YearMonth_less a b \<longleftrightarrow> ym_year a < ym_year b \<or> ym_year a = ym_year b \<and> ym_month a < ym_month b"

definition YearMonth_less_eq :: "interval_year_month \<Rightarrow> interval_year_month \<Rightarrow> bool" where
  "YearMonth_less_eq a b \<longleftrightarrow> YearMonth_less a b \<or> a = b"

instantiation interval_year_month :: linorder
begin

definition less_interval_year_month :: "interval_year_month \<Rightarrow> interval_year_month \<Rightarrow> bool" where
  "less_interval_year_month = YearMonth_less"

definition less_eq_interval_year_month :: "interval_year_month \<Rightarrow> interval_year_month \<Rightarrow> bool" where
  "less_eq_interval_year_month = YearMonth_less_eq"

instance
  by standard
    (auto simp: less_interval_year_month_def less_eq_interval_year_month_def YearMonth_less_def
      YearMonth_less_eq_def intro: interval_year_month.expand)

end

definition InSeconds :: "interval_day_second \<Rightarrow> int" where
  "InSeconds x = ((ds_day x * 24 + ds_hour x) * 60 + ds_minute x) * 60 + ds_second x"

text \<open>Two intervals of days are equal when they have the same length, whatever their fields.\<close>

definition DaySecond_eq :: "interval_day_second \<Rightarrow> interval_day_second \<Rightarrow> bool" where
  "DaySecond_eq a b \<longleftrightarrow> ds_fraction a = ds_fraction b \<and> InSeconds a = InSeconds b"

definition DaySecond_less :: "interval_day_second \<Rightarrow> interval_day_second \<Rightarrow> bool" where
  "DaySecond_less a b \<longleftrightarrow> InSeconds a < InSeconds b
     \<or> InSeconds a = InSeconds b \<and> ds_fraction a < ds_fraction b"

definition DaySecond_less_eq :: "interval_day_second \<Rightarrow> interval_day_second \<Rightarrow> bool" where
  "DaySecond_less_eq a b \<longleftrightarrow> DaySecond_less a b \<or> DaySecond_eq a b"

definition DaySecond_greater :: "interval_day_second \<Rightarrow> interval_day_second \<Rightarrow> bool" where
  "DaySecond_greater a b \<longleftrightarrow> \<not> DaySecond_less_eq a b"

section \<open>Facts\<close>

lemma c_div_mod_eq: "c_div a b * b + c_mod a b = a"
  by (simp add: c_mod_def)

lemma c_mod_bound: "0 < b \<Longrightarrow> \<bar>c_mod a b\<bar> < b"
proof -
  assume b: "0 < b"
  have "c_mod a b = sgn a * (\<bar>a\<bar> mod b)"
    using b by (simp add: c_mod_def c_div_def sgn_if minus_mult_div_eq_mod [symmetric] algebra_simps)
  moreover have "0 \<le> \<bar>a\<bar> mod b" "\<bar>a\<bar> mod b < b" using b by simp_all
  ultimately show ?thesis by (simp add: sgn_if)
qed

lemma c_div_exact: "0 < b \<Longrightarrow> c_div (a * b) b = a"
  by (simp add: c_div_def abs_mult sgn_mult sgn_mult_abs)

section \<open>Properties\<close>



text \<open> A timestamp made from milliseconds gives them back, and orders like them. A time of day does not:
  its fraction is too small by a factor of ten when it is made, and too large by a factor of a
  thousand when it is read, so the milliseconds below a second come back a hundredfold.\<close>

theorem milliseconds_of_times:
  assumes "0 \<le> ms" and "ms < 86400000"
  shows "Timestamp_GetMilliseconds (Timestamp_of_ms ms) = ms
    \<and> Time_GetMilliseconds (Time_of_ms ms) = ms div 1000 * 1000 + 100 * (ms mod 1000)"
proof -
  have d: "c_div ms 1000 = ms div 1000" using assms by (simp add: c_div_def sgn_if)
  have m: "c_mod ms 1000 = ms mod 1000" by (simp add: c_mod_def d minus_mult_div_eq_mod)
  have b: "0 \<le> ms mod 1000" "ms mod 1000 \<le> 999" "0 \<le> ms div 1000" "ms div 1000 < 86400" using assms by auto
  have e: "c_div (ms mod 1000 * 1000000) 1000000 = ms mod 1000" "c_div (ms mod 1000 * 100000) 1000 = ms mod 1000 * 100"
    using b(1) by (simp_all add: c_div_def sgn_if)
  show ?thesis
    using b assms
    by (simp add: Timestamp_GetMilliseconds_def Timestamp_of_ms_def Time_GetMilliseconds_def Time_of_ms_def
        d m e to_int32_id to_int64_id)
qed

theorem milliseconds_of_times_witness: "Time_GetMilliseconds (Time_of_ms 1500) = 51000"
  using milliseconds_of_times [of 1500] by simp

end
