(* ===== verification/Bits.thy ===== *)
theory Bits
  imports Odbc_Prelude
begin

text \<open>
  Bit tricks (\<^verbatim>\<open>src/ignite/common/src/common/bits.cpp\<close>): leading zeros by halving, bit lengths, the
  capacity of an array, and the number of decimal digits by multiplication with an approximated
  logarithm. Numbers are machine words of their width.
\<close>

section \<open>Operations\<close>

text \<open>One step of the search for the leading zeros: when the upper part of a word is empty, count it and
  shift it out.\<close>

definition nlz_step :: "nat \<Rightarrow> nat \<Rightarrow> nat \<times> 32 word \<Rightarrow> nat \<times> 32 word" where
  "nlz_step s k = (\<lambda>(n, x). if drop_bit s x = 0 then (n + k, push_bit k x) else (n, x))"

definition nlz_search :: "nat \<times> 32 word \<Rightarrow> nat" where
  "nlz_search st =
     (let (n, x) = nlz_step 30 2 (nlz_step 28 4 (nlz_step 24 8 (nlz_step 16 16 st)))
      in n - unat (drop_bit 31 x))"

definition NumberOfLeadingZerosU32 :: "32 word \<Rightarrow> nat" where
  "NumberOfLeadingZerosU32 i = (if i = 0 then 32 else nlz_search (1, i))"

definition NumberOfLeadingZerosI32 :: "32 word \<Rightarrow> nat" where
  "NumberOfLeadingZerosI32 i = NumberOfLeadingZerosU32 i"

definition NumberOfLeadingZerosU64 :: "64 word \<Rightarrow> nat" where
  "NumberOfLeadingZerosU64 i =
     (if i = 0 then 64
      else
        let x = (ucast (drop_bit 32 i) :: 32 word)
        in if x = 0 then nlz_search (33, ucast i) else nlz_search (1, x))"

definition BitLengthU32 :: "32 word \<Rightarrow> nat" where
  "BitLengthU32 i = 32 - NumberOfLeadingZerosU32 i"

definition BitLengthI32 :: "32 word \<Rightarrow> nat" where
  "BitLengthI32 i = 32 - NumberOfLeadingZerosI32 i"

text \<open>For a positive size.\<close>

definition GetCapasityForSize :: "int \<Rightarrow> int" where
  "GetCapasityForSize sz =
     (if sz \<le> 8 then 8
      else
        let bl = BitLengthI32 (word_of_int sz)
        in if 30 < bl then 2 ^ 31 - 1
           else let res = 2 ^ bl in if res < sz then to_int32 (2 * res) else res)"

definition TenPowerU64 :: "nat \<Rightarrow> nat" where
  "TenPowerU64 n =
     [1, 10, 100, 1000, 10000, 100000, 1000000, 10000000, 100000000, 1000000000, 10000000000,
      100000000000, 1000000000000, 10000000000000, 100000000000000, 1000000000000000,
      10000000000000000, 100000000000000000, 1000000000000000000, 10000000000000000000] ! n"

definition UINT64_MAX_PRECISION :: nat where "UINT64_MAX_PRECISION = 20"

definition DigitLength :: "64 word \<Rightarrow> nat" where
  "DigitLength x =
     (if unat x < 10 then 1
      else
        let r = (64 - NumberOfLeadingZerosU64 x + 1) * 1233 div 4096
        in if r = UINT64_MAX_PRECISION \<or> unat x < TenPowerU64 r then r else r + 1)"

section \<open>Leading zeros\<close>

text \<open>The state of the search: the word is the number \<open>v\<close> shifted by the zeros counted so far, less the one
  the count starts with, and has a one in its upper bits.\<close>

definition nlz_inv :: "nat \<Rightarrow> nat \<Rightarrow> nat \<Rightarrow> nat \<times> 32 word \<Rightarrow> bool" where
  "nlz_inv v c s st \<longleftrightarrow> c \<le> fst st \<and> unat (snd st) = v * 2 ^ (fst st - c) \<and> 2 ^ s \<le> unat (snd st)"

lemma len32: "LENGTH(32) = 32"
  by simp

lemma unat_lt_word: "unat (x :: 32 word) < 4294967296"
  using unsigned_less [of x, where ?'a = nat] by simp

lemma drop_bit_eq_0: "drop_bit s (x :: 32 word) = 0 \<longleftrightarrow> unat x < 2 ^ s"
proof -
  have "drop_bit s x = 0 \<longleftrightarrow> unat (drop_bit s x) = 0" by (simp add: unat_0_iff)
  also have "\<dots> \<longleftrightarrow> unat x div 2 ^ s = 0" by (simp only: unat_drop_bit_eq drop_bit_eq_div [of s "unat x"])
  also have "\<dots> \<longleftrightarrow> unat x < 2 ^ s" by (simp add: div_eq_0_iff)
  finally show ?thesis .
qed

lemma nlz_step_inv:
  assumes "nlz_inv v c s st" and "t + k = 32" and "s + k \<ge> t" and "k \<le> s + k"
  shows "nlz_inv v c (min t (s + k)) (nlz_step t k st)"
proof -
  obtain n x where st: "st = (n, x)" by fastforce
  have I: "c \<le> n" "unat x = v * 2 ^ (n - c)" "2 ^ s \<le> unat x"
    using assms(1) by (simp_all add: nlz_inv_def st)
  show ?thesis
  proof (cases "unat x < 2 ^ t")
    case True
    have "unat x * 2 ^ k < 2 ^ t * 2 ^ k" using True by simp
    also have "(2::nat) ^ t * 2 ^ k = 2 ^ 32" using assms(2) by (metis power_add)
    finally have lt: "unat x * 2 ^ k < 2 ^ 32" .
    have "unat (push_bit k x) = unat x * 2 ^ k mod 2 ^ 32"
      by (simp only: unsigned_push_bit_eq push_bit_eq_mult [of k "unat x"] take_bit_eq_mod len32)
    with lt have u: "unat (push_bit k x) = unat x * 2 ^ k" by simp
    have "2 ^ min t (s + k) \<le> (2::nat) ^ (s + k)" by (rule power_increasing) simp_all
    also have "\<dots> \<le> unat x * 2 ^ k" using I(3) by (simp add: power_add)
    finally show ?thesis
      using True I u by (simp add: nlz_inv_def nlz_step_def st drop_bit_eq_0 power_add [symmetric])
  next
    case False
    have "2 ^ min t (s + k) \<le> (2::nat) ^ t" by (rule power_increasing) simp_all
    also have "\<dots> \<le> unat x" using False by simp
    finally show ?thesis using False I by (simp add: nlz_inv_def nlz_step_def st drop_bit_eq_0)
  qed
qed

lemma nlz_search_spec:
  assumes "0 < unat x" and "unat x = v" and "0 < c"
  shows "2 ^ 31 \<le> v * 2 ^ (nlz_search (c, x) - (c - 1)) \<and> v * 2 ^ (nlz_search (c, x) - (c - 1)) < 2 ^ 32
    \<and> c - 1 \<le> nlz_search (c, x)"
proof -
  have "nlz_inv v c 0 (c, x)" using assms by (simp add: nlz_inv_def)
  from nlz_step_inv [OF this, of 16 16] have "nlz_inv v c 16 (nlz_step 16 16 (c, x))" by simp
  from nlz_step_inv [OF this, of 24 8] have "nlz_inv v c 24 (nlz_step 24 8 (nlz_step 16 16 (c, x)))" by simp
  from nlz_step_inv [OF this, of 28 4] have "nlz_inv v c 28 (nlz_step 28 4 (nlz_step 24 8 (nlz_step 16 16 (c, x))))"
    by simp
  from nlz_step_inv [OF this, of 30 2]
  have J: "nlz_inv v c 30 (nlz_step 30 2 (nlz_step 28 4 (nlz_step 24 8 (nlz_step 16 16 (c, x)))))" by simp
  obtain n y where st: "nlz_step 30 2 (nlz_step 28 4 (nlz_step 24 8 (nlz_step 16 16 (c, x)))) = (n, y)"
    by fastforce
  have I: "c \<le> n" "unat y = v * 2 ^ (n - c)" "2 ^ 30 \<le> unat y"
    using J by (simp_all add: nlz_inv_def st)
  have r: "nlz_search (c, x) = n - unat (drop_bit 31 y)" by (simp add: nlz_search_def st)
  show ?thesis
  proof (cases "unat y < 2 ^ 31")
    case True
    then have s: "nlz_search (c, x) = n" using r drop_bit_eq_0 [of 31 y] by simp
    have "n - (c - 1) = Suc (n - c)" using I(1) assms(3) by simp
    then have e: "v * 2 ^ (n - (c - 1)) = 2 * unat y" using I(2) by simp
    show ?thesis unfolding s e using True I(1,3) by simp
  next
    case False
    then have "unat (drop_bit 31 y) = 1"
      using unat_lt_word [of y] by (simp only: unat_drop_bit_eq drop_bit_eq_div [of 31 "unat y"]) auto
    then have s: "nlz_search (c, x) - (c - 1) = n - c" "c - 1 \<le> nlz_search (c, x)" using r I(1) assms(3) by simp_all
    show ?thesis unfolding s(1) I(2) [symmetric] using False s(2) unat_lt_word [of y] by simp
  qed
qed

lemma unat_ucast32: "unat (ucast (i :: 64 word) :: 32 word) = unat i mod 2 ^ 32"
  by (simp add: unsigned_ucast_eq take_bit_eq_mod)

lemma shifted_successor:
  fixes x N :: nat
  assumes "x * 2 ^ N < 2 ^ 32" and "0 < x"
  shows "Suc x * 2 ^ N \<le> 2 ^ 32"
proof -
  have "1 * 2 ^ N \<le> x * 2 ^ N" using assms(2) by (intro mult_le_mono) simp_all
  then have "(2::nat) ^ N < 2 ^ 32" using assms(1) by linarith
  then have "N < 32" by (rule power_less_imp_less_exp [rotated]) simp
  then have p: "(2::nat) ^ 32 = 2 ^ (32 - N) * 2 ^ N" by (simp flip: power_add)
  then have "x < 2 ^ (32 - N)" using assms(1) by (metis mult_less_cancel2)
  then have "Suc x * 2 ^ N \<le> 2 ^ (32 - N) * 2 ^ N" by (intro mult_le_mono) simp_all
  with p show ?thesis by simp
qed

lemma NumberOfLeadingZerosU32_spec:
  assumes "i \<noteq> 0"
  shows "2 ^ 31 \<le> unat i * 2 ^ NumberOfLeadingZerosU32 i \<and> unat i * 2 ^ NumberOfLeadingZerosU32 i < 2 ^ 32"
  using nlz_search_spec [of i "unat i" 1] assms by (simp add: NumberOfLeadingZerosU32_def unat_gt_0)

lemma NumberOfLeadingZerosU64_spec:
  assumes "i \<noteq> 0"
  shows "2 ^ 63 \<le> unat i * 2 ^ NumberOfLeadingZerosU64 i \<and> unat i * 2 ^ NumberOfLeadingZerosU64 i < 2 ^ 64"
proof -
  define x :: "32 word" where "x = ucast (drop_bit 32 i)"
  have i: "unat i < 2 ^ 64" using unsigned_less [of i, where ?'a = nat] by simp
  have "unat (drop_bit 32 i) = unat i div 2 ^ 32"
    by (simp only: unat_drop_bit_eq drop_bit_eq_div [of 32 "unat i"])
  moreover have "unat x = unat (drop_bit 32 i) mod 2 ^ 32" by (simp add: x_def unat_ucast32)
  ultimately have x: "unat x = unat i div 2 ^ 32" using i by simp
  show ?thesis
  proof (cases "x = 0")
    case True
    then have "unat i < 2 ^ 32" using x by (simp add: div_eq_0_iff)
    then have u: "unat (ucast i :: 32 word) = unat i" by (simp add: unat_ucast32)
    define N where "N = nlz_search (33, ucast i :: 32 word)"
    have "2 ^ 31 \<le> unat i * 2 ^ (N - 32)" "unat i * 2 ^ (N - 32) < 2 ^ 32" "32 \<le> N"
      using nlz_search_spec [of "ucast i :: 32 word" "unat i" 33] assms u by (simp_all add: N_def unat_gt_0)
    moreover from this(3) have "(2::nat) ^ N = 2 ^ (N - 32) * 2 ^ 32"
      using power_add [of "2::nat" "N - 32" 32] by simp
    ultimately show ?thesis
      using assms True by (simp add: NumberOfLeadingZerosU64_def x_def [symmetric] N_def [symmetric])
  next
    case False
    define N where "N = nlz_search (1, x)"
    have b: "2 ^ 31 \<le> unat x * 2 ^ N" "unat x * 2 ^ N < 2 ^ 32"
      using nlz_search_spec [of x "unat x" 1] False by (simp_all add: N_def unat_gt_0)
    then have lo: "2 ^ 63 \<le> unat x * 2 ^ 32 * 2 ^ N" by simp
    have "Suc (unat x) * 2 ^ N \<le> 2 ^ 32" using b(2) False by (intro shifted_successor) (simp_all add: unat_gt_0)
    then have "Suc (unat x) * 2 ^ N * 2 ^ 32 \<le> 2 ^ 32 * 2 ^ 32" by (rule mult_le_mono1)
    then have hi: "Suc (unat x) * 2 ^ 32 * 2 ^ N \<le> 2 ^ 64" by (simp add: algebra_simps)
    have "unat x * 2 ^ 32 \<le> unat i" "unat i < Suc (unat x) * 2 ^ 32" using x by (simp_all add: dividend_less_div_times)
    then have "unat x * 2 ^ 32 * 2 ^ N \<le> unat i * 2 ^ N" "unat i * 2 ^ N < Suc (unat x) * 2 ^ 32 * 2 ^ N" by simp_all
    with lo hi have "2 ^ 63 \<le> unat i * 2 ^ N \<and> unat i * 2 ^ N < 2 ^ 64" by linarith
    moreover have "NumberOfLeadingZerosU64 i = N"
      using assms False by (simp add: NumberOfLeadingZerosU64_def x_def [symmetric] N_def Let_def)
    ultimately show ?thesis by simp
  qed
qed

lemma bit_length_bounds:
  fixes x n L :: nat
  assumes "2 ^ L \<le> x * 2 ^ n" "x * 2 ^ n < 2 ^ Suc L" "0 < x"
  shows "n \<le> L \<and> 2 ^ (L - n) \<le> x \<and> x < 2 ^ Suc (L - n)"
proof -
  have "1 * 2 ^ n \<le> x * 2 ^ n" using assms(3) by (intro mult_le_mono) simp_all
  then have "(2::nat) ^ n < 2 ^ Suc L" using assms(2) by linarith
  then have n: "n \<le> L" by (metis less_Suc_eq_le one_less_numeral_iff power_less_imp_less_exp semiring_norm(76))
  have p: "(2::nat) ^ L = 2 ^ (L - n) * 2 ^ n" "(2::nat) ^ Suc L = 2 ^ Suc (L - n) * 2 ^ n"
    using n by (simp_all flip: power_add)
  have "2 ^ (L - n) * 2 ^ n \<le> x * 2 ^ n" "x * 2 ^ n < 2 ^ Suc (L - n) * 2 ^ n" using assms(1,2) p by simp_all
  then show ?thesis using n by simp
qed

section \<open>Decimal digits\<close>

text \<open>What the multiplication by 1233 and the shift by 12 have to achieve, for each of the bit lengths
  of the numbers that are not handled separately.\<close>

definition log_estimate :: "nat \<Rightarrow> nat" where
  "log_estimate bl = (bl + 1) * 1233 div 4096"

lemma log_estimate_good:
  "\<forall>bl\<in>set [4..<65]. 0 < log_estimate bl \<and> log_estimate bl < 20 \<and> 10 ^ (log_estimate bl - 1) \<le> (2::nat) ^ (bl - 1)
     \<and> (2::nat) ^ bl \<le> 10 ^ (log_estimate bl + 1) \<and> TenPowerU64 (log_estimate bl) = 10 ^ log_estimate bl"
  by (simp add: upt_rec_numeral log_estimate_def TenPowerU64_def)

lemma nat_digits_bounds:
  "(0 < n \<longrightarrow> 10 ^ (length (nat_digits n) - 1) \<le> n) \<and> n < 10 ^ length (nat_digits n) \<and> 0 < length (nat_digits n)"
proof (induction n rule: nat_digits.induct)
  case (1 n)
  show ?case
  proof (cases "n < 10")
    case True
    then show ?thesis by (subst (1 2 3) nat_digits.simps) simp
  next
    case False
    let ?k = "length (nat_digits (n div 10))"
    have L: "length (nat_digits n) = Suc ?k" using False by (subst nat_digits.simps) simp
    have IH: "10 ^ (?k - 1) \<le> n div 10" "n div 10 < 10 ^ ?k" "0 < ?k" using 1 [OF False] False by simp_all
    then have "10 * 10 ^ (?k - 1) \<le> n" "n < 10 * 10 ^ ?k" by linarith+
    moreover have "10 * 10 ^ (?k - 1) = (10::nat) ^ ?k" using IH(3) by (cases ?k) simp_all
    ultimately show ?thesis by (simp add: L)
  qed
qed

text \<open>A number of digits is determined by the two powers of ten around the number.\<close>

lemma digits_unique:
  assumes "0 < n" "10 ^ (d - 1) \<le> n" "n < 10 ^ d" "0 < d"
  shows "d = length (nat_digits n)"
proof -
  let ?k = "length (nat_digits n)"
  have k: "10 ^ (?k - 1) \<le> n" "n < 10 ^ ?k" "0 < ?k" using nat_digits_bounds [of n] assms(1) by simp_all
  have "(10::nat) ^ (d - 1) < 10 ^ ?k" "(10::nat) ^ (?k - 1) < 10 ^ d" using assms k by linarith+
  then have "d - 1 < ?k" "?k - 1 < d" by (simp_all add: power_strict_increasing_iff)
  with k(3) assms(4) show ?thesis by linarith
qed

section \<open>Properties\<close>

text \<open> C35. The number of decimal digits, found by bit tricks, is right for every 64-bit number: it is the length
  of the decimal representation.\<close>

theorem DigitLength_counts_digits: "DigitLength x = length (nat_digits (unat x))"
proof (cases "unat x < 10")
  case True
  then show ?thesis by (subst nat_digits.simps) (simp add: DigitLength_def)
next
  case False
  define n where "n = NumberOfLeadingZerosU64 x"
  define bl where "bl = 64 - n"
  have "x \<noteq> 0" using False by auto
  from NumberOfLeadingZerosU64_spec [OF this] have B: "n \<le> 63 \<and> 2 ^ (63 - n) \<le> unat x \<and> unat x < 2 ^ Suc (63 - n)"
    using False by (intro bit_length_bounds) (simp_all add: n_def)
  moreover have "bl = Suc (63 - n)" using conjunct1 [OF B] unfolding bl_def by arith
  ultimately have b: "2 ^ (bl - 1) \<le> unat x" "unat x < 2 ^ bl" "bl \<le> 64" by simp_all
  have "\<not> bl \<le> 3"
  proof
    assume "bl \<le> 3"
    then have "(2::nat) ^ bl \<le> 2 ^ 3" by (intro power_increasing) simp_all
    with b(2) False show False by simp
  qed
  then have "bl \<in> set [4..<65]" using b(3) by (simp only: set_upt atLeastLessThan_iff) arith
  from bspec [OF log_estimate_good this] have E: "0 < log_estimate bl" "log_estimate bl < 20"
    "10 ^ (log_estimate bl - 1) \<le> (2::nat) ^ (bl - 1)" "(2::nat) ^ bl \<le> 10 ^ (log_estimate bl + 1)"
    "TenPowerU64 (log_estimate bl) = 10 ^ log_estimate bl" by blast+
  define d where "d = (if unat x < 10 ^ log_estimate bl then log_estimate bl else log_estimate bl + 1)"
  have "10 ^ (d - 1) \<le> unat x" "unat x < 10 ^ d" "0 < d"
    using b E by (auto simp: d_def)
  with False have "d = length (nat_digits (unat x))" by (intro digits_unique) simp_all
  moreover have "DigitLength x = d"
    unfolding DigitLength_def n_def [symmetric] bl_def [symmetric] log_estimate_def [symmetric] Let_def
      UINT64_MAX_PRECISION_def d_def E(5)
    using False E(2) by simp
  ultimately show ?thesis by simp
qed

text \<open> The capacity for an array of positive size is at least the size, and for sizes above eight and below
  \<open>2\<^sup>3\<^sup>0\<close> a power of two that is strictly larger: a size that is a power of two itself is doubled.\<close>

theorem capacity_for_size:
  assumes "0 < sz" and "sz < 2 ^ 31"
  shows "sz \<le> GetCapasityForSize sz
    \<and> (8 < sz \<and> sz < 2 ^ 30 \<longrightarrow> (\<exists>k. GetCapasityForSize sz = 2 ^ k) \<and> sz < GetCapasityForSize sz \<and> GetCapasityForSize sz \<le> 2 * sz)"
proof -
  define i :: "32 word" where "i = word_of_int sz"
  have u: "unat i = nat sz"
    using assms by (simp add: i_def unsigned_of_int take_bit_int_eq_self nat_take_bit_eq)
  define n where "n = NumberOfLeadingZerosU32 i"
  have "i \<noteq> 0" using u assms(1) by auto
  from NumberOfLeadingZerosU32_spec [OF this] have B: "n \<le> 31 \<and> 2 ^ (31 - n) \<le> unat i \<and> unat i < 2 ^ Suc (31 - n)"
    using u assms(1) by (intro bit_length_bounds) (simp_all add: n_def)
  define bl where "bl = BitLengthI32 i"
  have bl: "bl = Suc (31 - n)"
    using conjunct1 [OF B]
    by (simp only: bl_def BitLengthI32_def NumberOfLeadingZerosI32_def n_def [symmetric])
  have "2 ^ (bl - 1) \<le> nat sz" "nat sz < 2 ^ bl" using B u by (simp_all add: bl)
  then have b: "2 ^ (bl - 1) \<le> sz" "sz < 2 ^ bl" using assms(1) by (simp_all add: le_nat_iff nat_less_iff)
  have "(2::int) ^ bl = 2 * 2 ^ (bl - 1)" by (simp add: bl)
  have cap: "GetCapasityForSize sz = (if sz \<le> 8 then 8 else if 30 < bl then 2 ^ 31 - 1 else 2 ^ bl)"
    using b(2) by (simp add: GetCapasityForSize_def i_def [symmetric] bl_def [symmetric] Let_def)
  have "bl \<le> 30" if "sz < 2 ^ 30"
  proof (rule ccontr)
    assume "\<not> bl \<le> 30"
    then have "(2::int) ^ 30 \<le> 2 ^ (bl - 1)" by (intro power_increasing) simp_all
    with b(1) that show False by simp
  qed
  then show ?thesis
    using assms b \<open>2 ^ bl = 2 * 2 ^ (bl - 1)\<close> unfolding cap by (cases "sz \<le> 8"; cases "30 < bl") (auto intro: exI [of _ bl])
qed

theorem capacity_for_size_witness: "16 < GetCapasityForSize 16 \<and> GetCapasityForSize 16 \<le> 32"
  using capacity_for_size [of 16] by simp

end
