(* ===== verification/Buffer_Values.thy ===== *)
theory Buffer_Values
  imports Text_Buffer Date_Time Bits
begin

text \<open>
  Values in application buffers (\<^verbatim>\<open>src/app/application_data_buffer.cpp\<close>): numbers, text, dates, times,
  timestamps and intervals, converted to the C type of the buffer and written to the memory of the
  application, and dates and times read back from it. The structures of the interface have the
  layout of 64-bit little-endian targets.
\<close>

section \<open>Surroundings\<close>

text \<open>Floating point numbers are the bit patterns of doubles; the operations on them that the driver uses
  are parameters: conversion from text by \<^verbatim>\<open>std::stod\<close> (\<open>None\<close> when it throws) and by a stream, to text by
  a stream, to and from integers, and to single precision.\<close>

record float_ops =
  fp_stod :: "string \<Rightarrow> 64 word option"
  fp_read :: "string \<Rightarrow> 64 word"
  fp_str :: "64 word \<Rightarrow> string"
  fp_int :: "64 word \<Rightarrow> int"
  fp_neg :: "64 word \<Rightarrow> bool"
  fp_single :: "64 word \<Rightarrow> 32 word"
  fp_of_int :: "int \<Rightarrow> 64 word"
  fp_single_of_int :: "int \<Rightarrow> 32 word"

text \<open>The mode of narrow text, the size of a wide character and the floating point operations.\<close>

record conv_env =
  ce_mode :: text_mode
  ce_wide :: nat
  ce_fp :: float_ops

text \<open>A conversion leaves its result, the buffer with its offset and the memory; \<open>None\<close> is an exception or a
  write through a null pointer.\<close>

type_synonym put_result = "(conv_result \<times> app_buffer \<times> memory) option"

definition text_result :: "(conv_result \<times> int \<times> app_buffer \<times> memory) option \<Rightarrow> put_result" where
  "text_result p = map_option (\<lambda>(r, _, b, m). (r, b, m)) p"

section \<open>Formats\<close>

definition fmt_zero :: "nat \<Rightarrow> int \<Rightarrow> string" where
  "fmt_zero n v =
     (if v < 0
      then CHR ''-'' # (let s = nat_digits (nat (- v)) in replicate (n - 1 - length s) (CHR ''0'') @ s)
      else (let s = nat_digits (nat v) in replicate (n - length s) (CHR ''0'') @ s))"

definition fmt_space :: "nat \<Rightarrow> int \<Rightarrow> string" where
  "fmt_space n v = (let s = int_str v in replicate (n - length s) (CHR '' '') @ s)"

definition snprintf :: "nat \<Rightarrow> string \<Rightarrow> string" where
  "snprintf n s = take (n - 1) s"

text \<open>The bytes \<^verbatim>\<open>strncpy\<close> writes: the text, filled up with zeros.\<close>

definition strncpy_bytes :: "nat \<Rightarrow> string \<Rightarrow> 8 word list" where
  "strncpy_bytes n s = take n (str_bytes s @ replicate n 0)"

definition date_text :: "tm \<Rightarrow> string" where
  "date_text x = snprintf 32 (fmt_space 4 (tm_year x + 1900) @ ''-'' @ fmt_zero 2 (tm_mon x + 1) @ ''-'' @ fmt_zero 2 (tm_mday x))"

text \<open>The two patterns for \<^verbatim>\<open>strftime\<close>; years are written without padding.\<close>

definition strftime_date_time :: "tm \<Rightarrow> string" where
  "strftime_date_time x =
     int_str (tm_year x + 1900) @ ''-'' @ fmt_zero 2 (tm_mon x + 1) @ ''-'' @ fmt_zero 2 (tm_mday x) @ '' ''
     @ fmt_zero 2 (tm_hour x) @ '':'' @ fmt_zero 2 (tm_min x) @ '':'' @ fmt_zero 2 (tm_sec x) @ ''.''"

definition strftime_time :: "tm \<Rightarrow> string" where
  "strftime_time x = fmt_zero 2 (tm_hour x) @ '':'' @ fmt_zero 2 (tm_min x) @ '':'' @ fmt_zero 2 (tm_sec x) @ ''.''"

definition GetTimestampString :: "(tm \<Rightarrow> string) \<Rightarrow> tm \<Rightarrow> int \<Rightarrow> string" where
  "GetTimestampString pattern x fraction = pattern x @ snprintf 16 (fmt_zero 9 fraction)"

section \<open>Pieces the conversions share\<close>

text \<open>Text of a known length \<open>n\<close>, terminator included, in a narrow buffer: the indicator is set, the text is
  copied as far as it fits, and a buffer that is too short gets its terminator in its last byte.\<close>

definition put_chars :: "string \<Rightarrow> nat \<Rightarrow> app_buffer \<Rightarrow> memory \<Rightarrow> put_result" where
  "put_chars s n b m =
     (let m1 = store_len (GetResLen b) (int n - 1) m in
      if GetData b = 0 then Some (Conv_SUCCESS, b, m1)
      else
        let m2 = write_bytes (GetData b) (strncpy_bytes (min (nat (ab_buflen b)) n) s) m1
        in if ab_buflen b < int n then Some (Conv_VARLEN_DATA_TRUNCATED, b, m2(GetData b + (ab_buflen b - 1) := 0))
           else Some (Conv_SUCCESS, b, m2))"

definition put_wide :: "nat \<Rightarrow> string \<Rightarrow> nat \<Rightarrow> app_buffer \<Rightarrow> memory \<Rightarrow> put_result" where
  "put_wide w s n b m =
     (let m1 = store_len (GetResLen b) (int n - 1) m in
      if GetData b = 0 then Some (Conv_SUCCESS, b, m1)
      else
        let (_, tr, m2) = CopyStringToBuffer w s (GetData b) (nat (ab_buflen b)) True m1
        in Some (if tr then Conv_VARLEN_DATA_TRUNCATED else Conv_SUCCESS, b, m2))"

definition put_struct :: "conv_result \<Rightarrow> 8 word list \<Rightarrow> app_buffer \<Rightarrow> memory \<Rightarrow> put_result" where
  "put_struct r bytes b m =
     (if GetData b = 0 then None
      else Some (r, b, store_len (GetResLen b) (int (length bytes)) (write_bytes (GetData b) bytes m)))"

definition date_bytes :: "tm \<Rightarrow> 8 word list" where
  "date_bytes x = le_bytes 2 (tm_year x + 1900) @ le_bytes 2 (tm_mon x + 1) @ le_bytes 2 (tm_mday x)"

definition time_bytes :: "tm \<Rightarrow> 8 word list" where
  "time_bytes x = le_bytes 2 (tm_hour x) @ le_bytes 2 (tm_min x) @ le_bytes 2 (tm_sec x)"

definition timestamp_bytes :: "tm \<Rightarrow> int \<Rightarrow> 8 word list" where
  "timestamp_bytes x fraction = date_bytes x @ time_bytes x @ le_bytes 4 fraction"

section \<open>Dates and times\<close>

definition PutDate :: "conv_env \<Rightarrow> date \<Rightarrow> app_buffer \<Rightarrow> memory \<Rightarrow> put_result" where
  "PutDate e v b m =
     (let x = DateToCTm v in
      case ab_type b of
        AI_CHAR \<Rightarrow> put_chars (date_text x) 11 b m
      | AI_WCHAR \<Rightarrow>
          let m1 = store_len (GetResLen b) 10 m;
              m2 = (if GetData b = 0 then m1
                    else snd (snd (CopyStringToBuffer (ce_wide e) (date_text x) (GetData b) (nat (ab_buflen b)) True m1)))
          in Some (if ab_buflen b < 11 then Conv_VARLEN_DATA_TRUNCATED else Conv_SUCCESS, b, m2)
      | AI_TDATE \<Rightarrow> put_struct Conv_SUCCESS (date_bytes x) b m
      | AI_TTIMESTAMP \<Rightarrow> put_struct Conv_SUCCESS (timestamp_bytes x 0) b m
      | _ \<Rightarrow> Some (Conv_UNSUPPORTED_CONVERSION, b, m))"

definition PutTimestamp :: "conv_env \<Rightarrow> timestamp \<Rightarrow> app_buffer \<Rightarrow> memory \<Rightarrow> put_result" where
  "PutTimestamp e v b m =
     (let x = TimestampToCTm v; s = GetTimestampString strftime_date_time x (ts_fraction v) in
      case ab_type b of
        AI_CHAR \<Rightarrow> put_chars s 30 b m
      | AI_WCHAR \<Rightarrow> put_wide (ce_wide e) s 30 b m
      | AI_TDATE \<Rightarrow> put_struct Conv_FRACTIONAL_TRUNCATED (date_bytes x) b m
      | AI_TTIME \<Rightarrow> put_struct Conv_FRACTIONAL_TRUNCATED (time_bytes x) b m
      | AI_TTIMESTAMP \<Rightarrow> put_struct Conv_SUCCESS (timestamp_bytes x (ts_fraction v)) b m
      | _ \<Rightarrow> Some (Conv_UNSUPPORTED_CONVERSION, b, m))"

definition PutTime :: "conv_env \<Rightarrow> time \<Rightarrow> app_buffer \<Rightarrow> memory \<Rightarrow> put_result" where
  "PutTime e v b m =
     (let x = TimeToCTm v; s = GetTimestampString strftime_time x (time_fraction v) in
      case ab_type b of
        AI_CHAR \<Rightarrow> put_chars s 19 b m
      | AI_WCHAR \<Rightarrow> put_wide (ce_wide e) s 19 b m
      | AI_TTIME \<Rightarrow> put_struct Conv_VARLEN_DATA_TRUNCATED (time_bytes x) b m
      | AI_TTIMESTAMP \<Rightarrow> put_struct Conv_SUCCESS (timestamp_bytes x (time_fraction v)) b m
      | _ \<Rightarrow> Some (Conv_UNSUPPORTED_CONVERSION, b, m))"

section \<open>Numbers\<close>

text \<open>A number of one of the types the conversions are instantiated with: an integer of \<open>k\<close> bytes, or a
  double.\<close>

datatype num = Num_Int nat int | Num_Double "64 word"

fun num_int :: "float_ops \<Rightarrow> num \<Rightarrow> int" where
  "num_int f (Num_Int k v) = v"
| "num_int f (Num_Double x) = fp_int f x"

fun num_size :: "num \<Rightarrow> nat" where
  "num_size (Num_Int k v) = k"
| "num_size (Num_Double x) = 8"

fun num_bytes :: "num \<Rightarrow> 8 word list" where
  "num_bytes (Num_Int k v) = le_bytes k v"
| "num_bytes (Num_Double x) = le_bytes 8 (uint x)"

fun num_negative :: "float_ops \<Rightarrow> num \<Rightarrow> bool" where
  "num_negative f (Num_Int k v) = (v < 0)"
| "num_negative f (Num_Double x) = fp_neg f x"

fun num_float_bytes :: "float_ops \<Rightarrow> nat \<Rightarrow> num \<Rightarrow> 8 word list" where
  "num_float_bytes f k (Num_Int _ v) =
     (if k = 4 then le_bytes 4 (uint (fp_single_of_int f v)) else le_bytes 8 (uint (fp_of_int f v)))"
| "num_float_bytes f k (Num_Double x) =
     (if k = 4 then le_bytes 4 (uint (fp_single f x)) else le_bytes 8 (uint x))"

fun num_text :: "float_ops \<Rightarrow> num \<Rightarrow> string" where
  "num_text f (Num_Int k v) = int_str v"
| "num_text f (Num_Double x) = fp_str f x"

text \<open>\<^verbatim>\<open>SQL_NUMERIC_STRUCT\<close>: precision, scale, sign and the magnitude in 16 bytes.\<close>

definition numeric_bytes :: "float_ops \<Rightarrow> num \<Rightarrow> 8 word list" where
  "numeric_bytes f n =
     (let uval = word_of_int \<bar>num_int f n\<bar> :: 64 word
      in [word_of_nat (DigitLength uval), 0, if num_negative f n then 0 else 1]
         @ le_bytes 8 (uint uval) @ replicate 8 0)"

definition put_number :: "8 word list \<Rightarrow> app_buffer \<Rightarrow> memory \<Rightarrow> put_result" where
  "put_number bytes b m =
     (let m1 = (if GetData b = 0 then m else write_bytes (GetData b) bytes m)
      in Some (Conv_SUCCESS, b, store_len (GetResLen b) (int (length bytes)) m1))"

definition put_raw :: "8 word list \<Rightarrow> app_buffer \<Rightarrow> memory \<Rightarrow> put_result" where
  "put_raw bytes b m =
     (let m1 = (if GetData b = 0 then m
                else write_bytes (GetData b) (take (nat (ab_buflen b)) bytes) m)
      in Some (if nat (ab_buflen b) < length bytes then Conv_VARLEN_DATA_TRUNCATED else Conv_SUCCESS, b,
               store_len (GetResLen b) (int (length bytes)) m1))"

definition PutNum :: "conv_env \<Rightarrow> num \<Rightarrow> app_buffer \<Rightarrow> memory \<Rightarrow> put_result" where
  "PutNum e n b m =
     (let f = ce_fp e; v = num_int f n in
      case ab_type b of
        AI_SIGNED_TINYINT \<Rightarrow> put_number (le_bytes 1 v) b m
      | AI_BIT \<Rightarrow> put_number (le_bytes 1 v) b m
      | AI_UNSIGNED_TINYINT \<Rightarrow> put_number (le_bytes 1 v) b m
      | AI_SIGNED_SHORT \<Rightarrow> put_number (le_bytes 2 v) b m
      | AI_UNSIGNED_SHORT \<Rightarrow> put_number (le_bytes 2 v) b m
      | AI_SIGNED_LONG \<Rightarrow> put_number (le_bytes 4 v) b m
      | AI_UNSIGNED_LONG \<Rightarrow> put_number (le_bytes 4 v) b m
      | AI_SIGNED_BIGINT \<Rightarrow> put_number (le_bytes 8 v) b m
      | AI_UNSIGNED_BIGINT \<Rightarrow> put_number (le_bytes 8 v) b m
      | AI_FLOAT \<Rightarrow> put_number (num_float_bytes f 4 n) b m
      | AI_DOUBLE \<Rightarrow> put_number (num_float_bytes f 8 n) b m
      | AI_CHAR \<Rightarrow> text_result (PutText (ce_mode e) 1 (num_text f n) b m)
      | AI_WCHAR \<Rightarrow> text_result (PutText (ce_mode e) (ce_wide e) (num_text f n) b m)
      | AI_NUMERIC \<Rightarrow> put_number (numeric_bytes f n) b m
      | AI_BINARY \<Rightarrow> put_raw (num_bytes n) b m
      | AI_DEFAULT \<Rightarrow> put_raw (num_bytes n) b m
      | AI_TDATE \<Rightarrow> PutDate e (Date v) b m
      | AI_TTIMESTAMP \<Rightarrow> PutTimestamp e (Timestamp_of_ms v) b m
      | AI_TTIME \<Rightarrow> PutTime e (Time_of_ms v) b m
      | _ \<Rightarrow> Some (Conv_UNSUPPORTED_CONVERSION, b, m))"

definition PutNullAs :: "app_buffer \<Rightarrow> memory \<Rightarrow> put_result" where
  "PutNullAs b m = (let (r, m') = PutNull b m in Some (r, b, m'))"

definition PutInt8 :: "conv_env \<Rightarrow> int option \<Rightarrow> app_buffer \<Rightarrow> memory \<Rightarrow> put_result" where
  "PutInt8 e v b m = (case v of None \<Rightarrow> PutNullAs b m | Some x \<Rightarrow> PutNum e (Num_Int 1 x) b m)"

definition PutInt16 :: "conv_env \<Rightarrow> int option \<Rightarrow> app_buffer \<Rightarrow> memory \<Rightarrow> put_result" where
  "PutInt16 e v b m = (case v of None \<Rightarrow> PutNullAs b m | Some x \<Rightarrow> PutNum e (Num_Int 2 x) b m)"

definition PutInt32 :: "conv_env \<Rightarrow> int option \<Rightarrow> app_buffer \<Rightarrow> memory \<Rightarrow> put_result" where
  "PutInt32 e v b m = (case v of None \<Rightarrow> PutNullAs b m | Some x \<Rightarrow> PutNum e (Num_Int 4 x) b m)"

definition PutInt64 :: "conv_env \<Rightarrow> int option \<Rightarrow> app_buffer \<Rightarrow> memory \<Rightarrow> put_result" where
  "PutInt64 e v b m = (case v of None \<Rightarrow> PutNullAs b m | Some x \<Rightarrow> PutNum e (Num_Int 8 x) b m)"

definition PutDouble :: "conv_env \<Rightarrow> 64 word option \<Rightarrow> app_buffer \<Rightarrow> memory \<Rightarrow> put_result" where
  "PutDouble e v b m = (case v of None \<Rightarrow> PutNullAs b m | Some x \<Rightarrow> PutNum e (Num_Double x) b m)"

section \<open>Text\<close>

text \<open>Extraction of an \<^verbatim>\<open>int64_t\<close> from a stream: leading space and a sign are skipped, digits are read as far
  as they go; without digits the value is 0, and outside the type it is the nearest one.\<close>

definition stream_digits :: "int \<Rightarrow> string \<Rightarrow> int" where
  "stream_digits sg s = max (- (2 ^ 63)) (min (2 ^ 63 - 1) (sg * dec_val (takeWhile isdigit s)))"

definition stream_read_int64 :: "string \<Rightarrow> int" where
  "stream_read_int64 s =
     (case dropWhile isspace s of
        [] \<Rightarrow> 0
      | c # cs \<Rightarrow>
          if c = CHR ''-'' then stream_digits (- 1) cs
          else if c = CHR ''+'' then stream_digits 1 cs else stream_digits 1 (c # cs))"

definition PutString :: "conv_env \<Rightarrow> string \<Rightarrow> app_buffer \<Rightarrow> memory \<Rightarrow> put_result" where
  "PutString e s b m =
     (case ab_type b of
        AI_FLOAT \<Rightarrow> PutNum e (Num_Double (fp_read (ce_fp e) s)) b m
      | AI_DOUBLE \<Rightarrow> PutNum e (Num_Double (fp_read (ce_fp e) s)) b m
      | AI_CHAR \<Rightarrow> text_result (PutText (ce_mode e) 1 s b m)
      | AI_BINARY \<Rightarrow> text_result (PutText (ce_mode e) 1 s b m)
      | AI_DEFAULT \<Rightarrow> text_result (PutText (ce_mode e) 1 s b m)
      | AI_WCHAR \<Rightarrow> text_result (PutText (ce_mode e) (ce_wide e) s b m)
      | t \<Rightarrow>
          if t \<in> {AI_SIGNED_TINYINT, AI_BIT, AI_UNSIGNED_TINYINT, AI_SIGNED_SHORT, AI_UNSIGNED_SHORT,
              AI_SIGNED_LONG, AI_UNSIGNED_LONG, AI_SIGNED_BIGINT, AI_UNSIGNED_BIGINT, AI_NUMERIC}
          then PutNum e (Num_Int 8 (stream_read_int64 s)) b m
          else Some (Conv_UNSUPPORTED_CONVERSION, b, m))"

definition PutOptString :: "conv_env \<Rightarrow> string option \<Rightarrow> app_buffer \<Rightarrow> memory \<Rightarrow> put_result" where
  "PutOptString e v b m = (case v of None \<Rightarrow> PutNullAs b m | Some s \<Rightarrow> PutString e s b m)"

section \<open>Intervals\<close>

text \<open>\<^verbatim>\<open>SQL_INTERVAL_STRUCT\<close>: the kind at offset 0, the sign at 4, and from 8 on either year and month or day,
  hour, minute, second and fraction. Only the members a kind has are written.\<close>

fun interval_code :: "odbc_native_type \<Rightarrow> int option" where
  "interval_code AI_INTERVAL_YEAR = Some SQL_IS_YEAR"
| "interval_code AI_INTERVAL_MONTH = Some SQL_IS_MONTH"
| "interval_code AI_INTERVAL_DAY = Some SQL_IS_DAY"
| "interval_code AI_INTERVAL_HOUR = Some SQL_IS_HOUR"
| "interval_code AI_INTERVAL_MINUTE = Some SQL_IS_MINUTE"
| "interval_code AI_INTERVAL_SECOND = Some SQL_IS_SECOND"
| "interval_code AI_INTERVAL_DAY_TO_HOUR = Some SQL_IS_DAY_TO_HOUR"
| "interval_code AI_INTERVAL_DAY_TO_MINUTE = Some SQL_IS_DAY_TO_MINUTE"
| "interval_code AI_INTERVAL_HOUR_TO_MINUTE = Some SQL_IS_HOUR_TO_MINUTE"
| "interval_code AI_INTERVAL_HOUR_TO_SECOND = Some SQL_IS_HOUR_TO_SECOND"
| "interval_code AI_INTERVAL_MINUTE_TO_SECOND = Some SQL_IS_MINUTE_TO_SECOND"
| "interval_code AI_INTERVAL_YEAR_TO_MONTH = Some SQL_IS_YEAR_TO_MONTH"
| "interval_code AI_INTERVAL_DAY_TO_SECOND = Some SQL_IS_DAY_TO_SECOND"
| "interval_code _ = None"

text \<open>The members of a kind: which of year, month, day, hour, minute and second with fraction.\<close>

fun interval_members :: "odbc_native_type \<Rightarrow> nat list" where
  "interval_members AI_INTERVAL_YEAR = [0]"
| "interval_members AI_INTERVAL_MONTH = [1]"
| "interval_members AI_INTERVAL_YEAR_TO_MONTH = [0, 1]"
| "interval_members AI_INTERVAL_DAY = [2]"
| "interval_members AI_INTERVAL_HOUR = [3]"
| "interval_members AI_INTERVAL_MINUTE = [4]"
| "interval_members AI_INTERVAL_SECOND = [5, 6]"
| "interval_members AI_INTERVAL_DAY_TO_HOUR = [2, 3]"
| "interval_members AI_INTERVAL_DAY_TO_MINUTE = [2, 3, 4]"
| "interval_members AI_INTERVAL_HOUR_TO_MINUTE = [3, 4]"
| "interval_members AI_INTERVAL_HOUR_TO_SECOND = [3, 4, 5, 6]"
| "interval_members AI_INTERVAL_MINUTE_TO_SECOND = [4, 5, 6]"
| "interval_members AI_INTERVAL_DAY_TO_SECOND = [2, 3, 4, 5, 6]"
| "interval_members _ = []"

definition member_offset :: "nat \<Rightarrow> int" where
  "member_offset k = [8, 12, 8, 12, 16, 20, 24] ! k"

definition ym_members :: "interval_year_month \<Rightarrow> int list" where
  "ym_members v = [ym_year v, ym_month v, 0, 0, 0, 0, 0]"

definition ds_members :: "interval_day_second \<Rightarrow> int list" where
  "ds_members v = [0, 0, ds_day v, ds_hour v, ds_minute v, ds_second v, ds_fraction v]"

definition ym_negative :: "interval_year_month \<Rightarrow> bool" where
  "ym_negative v \<longleftrightarrow> ym_year v < 0 \<or> ym_year v = 0 \<and> ym_month v < 0"

definition ds_negative :: "interval_day_second \<Rightarrow> bool" where
  "ds_negative v \<longleftrightarrow> ds_day v < 0 \<or> ds_day v = 0 \<and> ds_hour v < 0
     \<or> ds_day v = 0 \<and> ds_hour v = 0 \<and> ds_minute v < 0
     \<or> ds_day v = 0 \<and> ds_hour v = 0 \<and> ds_minute v = 0 \<and> ds_second v < 0
     \<or> ds_day v = 0 \<and> ds_hour v = 0 \<and> ds_minute v = 0 \<and> ds_second v = 0 \<and> ds_fraction v < 0"

definition SetIntervalType :: "odbc_native_type \<Rightarrow> int \<Rightarrow> memory \<Rightarrow> memory" where
  "SetIntervalType t a m = (case interval_code t of None \<Rightarrow> m | Some c \<Rightarrow> write_bytes a (le_bytes 4 c) m)"

definition SetIntervalBufferValue :: "odbc_native_type \<Rightarrow> bool \<Rightarrow> int list \<Rightarrow> int \<Rightarrow> memory \<Rightarrow> memory" where
  "SetIntervalBufferValue t negative vs a m =
     fold (\<lambda>k. write_bytes (a + member_offset k) (le_bytes 4 \<bar>vs ! k\<bar>)) (interval_members t)
       (write_bytes (a + 4) (le_bytes 2 (if negative then SQL_FALSE else SQL_TRUE)) (SetIntervalType t a m))"

definition put_interval :: "conv_env \<Rightarrow> string \<Rightarrow> bool \<Rightarrow> int list \<Rightarrow> app_buffer \<Rightarrow> memory \<Rightarrow> put_result" where
  "put_interval e s negative vs b m =
     (case ab_type b of
        AI_CHAR \<Rightarrow> put_chars s (length s + 1) b m
      | AI_WCHAR \<Rightarrow> put_wide (ce_wide e) s (length s + 1) b m
      | t \<Rightarrow>
          if interval_code t = None then Some (Conv_UNSUPPORTED_CONVERSION, b, m)
          else if GetData b = 0 then None
          else Some (Conv_SUCCESS, b, store_len (GetResLen b) 28 (SetIntervalBufferValue t negative vs (GetData b) m)))"

definition PutIntervalYearMonth :: "conv_env \<Rightarrow> interval_year_month \<Rightarrow> app_buffer \<Rightarrow> memory \<Rightarrow> put_result" where
  "PutIntervalYearMonth e v b m =
     put_interval e (snprintf 32 (int_str (ym_year v) @ ''-'' @ int_str (ym_month v))) (ym_negative v) (ym_members v) b m"

definition PutIntervalDaySecond :: "conv_env \<Rightarrow> interval_day_second \<Rightarrow> app_buffer \<Rightarrow> memory \<Rightarrow> put_result" where
  "PutIntervalDaySecond e v b m =
     put_interval e (snprintf 32 (int_str (ds_day v) @ '' '' @ fmt_zero 2 (ds_hour v) @ '':'' @ fmt_zero 2 (ds_minute v)
         @ '':'' @ fmt_zero 2 (ds_second v) @ ''.'' @ fmt_zero 9 (ds_fraction v)))
       (ds_negative v) (ds_members v) b m"

section \<open>Reading\<close>

text \<open>Text that ends with a zero, from an address on; \<open>None\<close> when no zero follows.\<close>

partial_function (option) cstr :: "int \<Rightarrow> memory \<Rightarrow> string option" where
  "cstr a m = (if m a = 0 then Some []
               else Option.bind (cstr (a + 1) m) (\<lambda>s. Some (char_of (unat (m a)) # s)))"

partial_function (option) cwstr :: "nat \<Rightarrow> int \<Rightarrow> memory \<Rightarrow> nat list option" where
  "cwstr w a m =
     (let u = nat (le_val (read_bytes a w m)) in
      if u = 0 then Some [] else Option.bind (cwstr w (a + int w) m) (\<lambda>us. Some (u # us)))"

text \<open>The formats of \<^verbatim>\<open>sscanf\<close> that the driver uses: a number with at most so many characters, a space, a
  literal. The numbers converted before the first mismatch are assigned.\<close>

datatype scan = Scan_Int nat | Scan_Space | Scan_Lit char

definition scan_int :: "nat \<Rightarrow> string \<Rightarrow> (int \<times> string) option" where
  "scan_int w s =
     (let neg = (s \<noteq> [] \<and> hd s = CHR ''-''); sg = (neg \<or> s \<noteq> [] \<and> hd s = CHR ''+'');
          ds = takeWhile isdigit (take (if sg then w - 1 else w) (if sg then tl s else s))
      in if ds = [] then None
         else Some (to_int32 (if neg then - dec_val ds else dec_val ds), drop (length ds) (if sg then tl s else s)))"

fun sscanf :: "scan list \<Rightarrow> string \<Rightarrow> int list" where
  "sscanf [] s = []"
| "sscanf (Scan_Int w # f) s =
     (case scan_int w (dropWhile isspace s) of None \<Rightarrow> [] | Some (v, r) \<Rightarrow> v # sscanf f r)"
| "sscanf (Scan_Space # f) s = sscanf f (dropWhile isspace s)"
| "sscanf (Scan_Lit c # f) s = (case s of [] \<Rightarrow> [] | d # r \<Rightarrow> if d = c then sscanf f r else [])"

definition IsDataAtExec :: "app_buffer \<Rightarrow> memory \<Rightarrow> bool" where
  "IsDataAtExec b m \<longleftrightarrow> GetResLen b \<noteq> 0 \<and>
     (let ilen = to_int32 (le_val (read_bytes (GetResLen b) 8 m))
      in ilen \<le> SQL_LEN_DATA_AT_EXEC_OFFSET \<or> ilen = SQL_DATA_AT_EXEC)"

definition GetDataAtExecSize :: "app_buffer \<Rightarrow> memory \<Rightarrow> int" where
  "GetDataAtExecSize b m =
     (if ab_type b \<in> {AI_WCHAR, AI_CHAR, AI_BINARY} then
        (if GetResLen b = 0 then 0
         else
           let ilen = to_int32 (le_val (read_bytes (GetResLen b) 8 m));
               n = (if ilen \<le> SQL_LEN_DATA_AT_EXEC_OFFSET then to_int32 (- ilen + SQL_LEN_DATA_AT_EXEC_OFFSET) else 0)
           in if ab_type b = AI_WCHAR then to_int32 (n * 2) else n)
      else
        (case ab_type b of
           AI_SIGNED_LONG \<Rightarrow> 8 | AI_UNSIGNED_LONG \<Rightarrow> 8
         | AI_SIGNED_SHORT \<Rightarrow> 2 | AI_UNSIGNED_SHORT \<Rightarrow> 2
         | AI_FLOAT \<Rightarrow> 4 | AI_DOUBLE \<Rightarrow> 8 | AI_BIT \<Rightarrow> 1 | AI_SIGNED_TINYINT \<Rightarrow> 1 | AI_UNSIGNED_TINYINT \<Rightarrow> 1
         | AI_SIGNED_BIGINT \<Rightarrow> 8 | AI_UNSIGNED_BIGINT \<Rightarrow> 8
         | AI_TDATE \<Rightarrow> 6 | AI_TTIME \<Rightarrow> 6 | AI_TTIMESTAMP \<Rightarrow> 16 | AI_NUMERIC \<Rightarrow> 19
         | _ \<Rightarrow> 0))"

definition GetInputSize :: "app_buffer \<Rightarrow> memory \<Rightarrow> int" where
  "GetInputSize b m =
     (if \<not> IsDataAtExec b m
      then (if GetResLen b = 0 then SQL_NTS else to_int64 (le_val (read_bytes (GetResLen b) 8 m)))
      else GetDataAtExecSize b m)"

text \<open>The text of a narrow or wide buffer of the given length.\<close>

definition input_text :: "conv_env \<Rightarrow> int \<Rightarrow> app_buffer \<Rightarrow> memory \<Rightarrow> string option" where
  "input_text e n b m =
     (if GetData b = 0 then Some []
      else if ab_type b = AI_WCHAR then
        map_option (\<lambda>us. SqlWcharToString (ce_wide e) (Some us) n True)
          (if n = SQL_NTS then cwstr (ce_wide e) (GetData b) m
           else Some (read_wide (ce_wide e) (GetData b) (nat n div ce_wide e) m))
      else
        map_option (\<lambda>s. SqlCharToString (Some s) n)
          (if n = SQL_NTS then cstr (GetData b) m
           else Some (map (\<lambda>x. char_of (unat x)) (read_bytes (GetData b) (nat n) m))))"

text \<open>Fields of the structures at an address: a signed and an unsigned short, and the unsigned fraction.\<close>

definition int16_at :: "int \<Rightarrow> memory \<Rightarrow> int" where
  "int16_at a m = to_int16 (le_val (read_bytes a 2 m))"

definition uint16_at :: "int \<Rightarrow> memory \<Rightarrow> int" where
  "uint16_at a m = le_val (read_bytes a 2 m)"

definition uint32_at :: "int \<Rightarrow> memory \<Rightarrow> int" where
  "uint32_at a m = le_val (read_bytes a 4 m)"

definition read_date :: "int \<Rightarrow> memory \<Rightarrow> tm \<Rightarrow> tm" where
  "read_date a m x = x\<lparr>tm_year := int16_at a m - 1900, tm_mon := uint16_at (a + 2) m - 1, tm_mday := uint16_at (a + 4) m\<rparr>"

definition read_time :: "int \<Rightarrow> memory \<Rightarrow> tm \<Rightarrow> tm" where
  "read_time a m x = x\<lparr>tm_hour := uint16_at a m, tm_min := uint16_at (a + 2) m, tm_sec := uint16_at (a + 4) m\<rparr>"

text \<open>Numbers that were scanned fill the leading fields.\<close>

definition scan_fields :: "int list \<Rightarrow> int list \<Rightarrow> int list" where
  "scan_fields vs old = vs @ drop (length vs) old"

definition scan_date_time :: "string \<Rightarrow> tm" where
  "scan_date_time s =
     (let n = length s;
          f = scan_fields (sscanf [Scan_Int n, Scan_Lit CHR ''-'', Scan_Int n, Scan_Lit CHR ''-'', Scan_Int n, Scan_Space,
            Scan_Int n, Scan_Lit CHR '':'', Scan_Int n, Scan_Lit CHR '':'', Scan_Int n] s) [0, 0, 0, 0, 0, 0]
      in \<lparr>tm_year = f ! 0 - 1900, tm_mon = f ! 1 - 1, tm_mday = f ! 2, tm_hour = f ! 3, tm_min = f ! 4, tm_sec = f ! 5\<rparr>)"

definition scan_time :: "string \<Rightarrow> tm \<Rightarrow> tm" where
  "scan_time s x =
     (let n = length s;
          f = scan_fields (sscanf [Scan_Int n, Scan_Lit CHR '':'', Scan_Int n, Scan_Lit CHR '':'', Scan_Int n] s)
            [tm_hour x, tm_min x, tm_sec x]
      in x\<lparr>tm_hour := f ! 0, tm_min := f ! 1, tm_sec := f ! 2\<rparr>)"

text \<open>The broken-down time and the fraction of a buffer; \<open>None\<close> when a pointer is null or text does not end.\<close>

definition read_tm :: "conv_env \<Rightarrow> app_buffer \<Rightarrow> memory \<Rightarrow> (tm \<times> int) option" where
  "read_tm e b m =
     (let a = GetData b; x1970 = zero_tm\<lparr>tm_year := 70, tm_mday := 1\<rparr> in
      if ab_type b \<in> {AI_TDATE, AI_TTIME, AI_TTIMESTAMP} \<and> a = 0 then None
      else if ab_type b = AI_TDATE then Some (read_date a m zero_tm, 0)
      else if ab_type b = AI_TTIME then Some (read_time a m x1970, 0)
      else if ab_type b = AI_TTIMESTAMP then
        Some (read_time (a + 6) m (read_date a m zero_tm), to_int32 (uint32_at (a + 12) m))
      else if ab_type b \<in> {AI_CHAR, AI_WCHAR} then
        (if GetInputSize b m = 0 then Some (zero_tm, 0)
         else map_option (\<lambda>s. (scan_date_time s, 0)) (input_text e (to_int32 (GetInputSize b m)) b m))
      else Some (zero_tm, 0))"

definition GetDate :: "conv_env \<Rightarrow> app_buffer \<Rightarrow> memory \<Rightarrow> date option" where
  "GetDate e b m = map_option (\<lambda>(x, _). CTmToDate x) (read_tm e b m)"

definition GetTimestamp :: "conv_env \<Rightarrow> app_buffer \<Rightarrow> memory \<Rightarrow> timestamp option" where
  "GetTimestamp e b m = map_option (\<lambda>(x, ns). CTmToTimestamp x ns) (read_tm e b m)"

definition GetTime :: "conv_env \<Rightarrow> app_buffer \<Rightarrow> memory \<Rightarrow> time option" where
  "GetTime e b m =
     (let a = GetData b; x = zero_tm\<lparr>tm_year := 70, tm_mday := 1\<rparr> in
      map_option (\<lambda>x. CTmToTime x 0)
       (if ab_type b \<in> {AI_TTIME, AI_TTIMESTAMP} \<and> a = 0 then None
        else if ab_type b = AI_TTIME then Some (read_time a m x)
        else if ab_type b = AI_TTIMESTAMP then Some (read_time (a + 6) m x)
        else if ab_type b \<in> {AI_CHAR, AI_WCHAR} \<and> GetInputSize b m \<noteq> 0 then
          map_option (\<lambda>s. scan_time s x) (input_text e (to_int32 (GetInputSize b m)) b m)
        else Some x))"

section \<open>Facts on memory\<close>

text \<open>A byte that belongs neither to the element of the buffer nor to its indicator.\<close>

definition outside :: "app_buffer \<Rightarrow> int \<Rightarrow> bool" where
  "outside b x \<longleftrightarrow> (x < GetData b \<or> GetData b + GetElementSize b \<le> x)
     \<and> (GetResLen b = 0 \<or> x < GetResLen b \<or> GetResLen b + 8 \<le> x)"

lemma store_len_outside: "outside b x \<Longrightarrow> store_len (GetResLen b) v m x = m x"
  by (auto simp: outside_def store_len_def write_bytes_outside)

lemma write_outside:
  "outside b x \<Longrightarrow> int (length bs) \<le> GetElementSize b \<Longrightarrow> write_bytes (GetData b) bs m x = m x"
  by (auto simp: outside_def write_bytes_outside)

lemma length_strncpy_bytes [simp]: "length (strncpy_bytes n s) = n"
  by (simp add: strncpy_bytes_def)

lemma cvt_in_length: "cvt_in mx n s = (r, us, rest) \<Longrightarrow> length us \<le> n"
  by (induction mx n s arbitrary: r us rest rule: cvt_in.induct)
    (auto split: utf8_item.splits if_splits prod.splits)

lemma wide_copy_outside:
  assumes "0 < w" and "x < out \<or> out + int len \<le> x"
  shows "snd (snd (CopyStringToBuffer w s out len True m)) x = m x"
proof -
  obtain r us rest where c: "cvt_in (max_code w) (len div w - 1) s = (r, us, rest)" by (metis prod_cases3)
  have "(length us + 1) * w \<le> len" if "w < len"
  proof -
    have "1 \<le> len div w" using that assms(1) by (simp add: div_greater_zero_iff Suc_le_eq)
    then have "length us + 1 \<le> len div w" using cvt_in_length [OF c] by linarith
    then have "(length us + 1) * w \<le> len div w * w" by (rule mult_le_mono1)
    also have "\<dots> \<le> len" by simp
    finally show ?thesis .
  qed
  then have "length (wide_bytes w (us @ [0])) \<le> len" if "w < len" using that by simp
  then have "write_bytes out (wide_bytes w (us @ [0])) m x = m x" if "w < len"
    using that assms(2) by (intro write_bytes_outside) linarith
  then show ?thesis
    by (auto simp: CopyStringToBuffer_def CopyUtf8StringToWcharString_def Let_def c [unfolded One_nat_def] split: prod.splits)
qed

lemma put_chars_outside:
  assumes "outside b x" and "GetElementSize b = ab_buflen b" and "0 < ab_buflen b"
    and "put_chars s n b m = Some (r, b', m')"
  shows "b' = b \<and> m' x = m x"
proof -
  have "x \<noteq> GetData b + (ab_buflen b - 1)" using assms(1-3) by (auto simp: outside_def)
  moreover have "write_bytes (GetData b) (strncpy_bytes (min (nat (ab_buflen b)) n) s) k x = k x" for k
    using assms(1-3) by (intro write_outside) auto
  ultimately show ?thesis
    using assms(4) store_len_outside [OF assms(1)] by (auto simp: put_chars_def Let_def split: if_splits)
qed

lemma put_wide_outside:
  assumes "outside b x" and "GetElementSize b = ab_buflen b" and "0 \<le> ab_buflen b" and "0 < w"
    and "put_wide w s n b m = Some (r, b', m')"
  shows "b' = b \<and> m' x = m x"
proof -
  have "snd (snd (CopyStringToBuffer w s (GetData b) (nat (ab_buflen b)) True k)) x = k x" for k
    using assms(1-4) by (intro wide_copy_outside) (auto simp: outside_def)
  then show ?thesis
    using assms(5) store_len_outside [OF assms(1)]
    by (auto simp: put_wide_def Let_def split: if_splits prod.splits) (metis snd_conv)+
qed

lemma put_struct_outside:
  assumes "outside b x" and "int (length bytes) \<le> GetElementSize b" and "put_struct r0 bytes b m = Some (r, b', m')"
  shows "b' = b \<and> r = r0 \<and> m' x = m x"
  using assms store_len_outside [OF assms(1)] write_outside [OF assms(1,2)]
  by (auto simp: put_struct_def split: if_splits)

lemma length_struct_bytes [simp]:
  "length (date_bytes x) = 6" "length (time_bytes x) = 6" "length (timestamp_bytes x ns) = 16"
  by (simp_all add: date_bytes_def time_bytes_def timestamp_bytes_def)

lemmas struct_outside =
  put_struct_outside [of _ _ "date_bytes z" for z, simplified]
  put_struct_outside [of _ _ "time_bytes z" for z, simplified]
  put_struct_outside [of _ _ "timestamp_bytes z ns" for z ns, simplified]

lemma read_write_part:
  assumes "i + n \<le> length bs"
  shows "read_bytes (a + int i) n (write_bytes a bs m) = take n (drop i bs)"
proof (rule nth_equalityI)
  fix j assume "j < length (read_bytes (a + int i) n (write_bytes a bs m))"
  then have "j < n" by (simp add: read_bytes_def)
  then show "read_bytes (a + int i) n (write_bytes a bs m) ! j = take n (drop i bs) ! j"
    using assms write_bytes_inside [of "i + j" bs a m] by (simp add: read_bytes_def add.assoc)
qed (use assms in \<open>simp add: read_bytes_def\<close>)

lemma short_fields:
  "read_bytes a 2 (write_bytes a bs m) = take 2 bs" if "2 \<le> length bs" for a bs m
  using read_write_part [of 0 2 bs a m] that by simp

text \<open>What a structure that was written reads back.\<close>

lemma read_timestamp_struct:
  assumes "- (2 ^ 15) \<le> tm_year x + 1900" "tm_year x + 1900 < 2 ^ 15" "valid_tm x" "0 \<le> ns" "ns < 2 ^ 31"
  shows "read_time (a + 6) (write_bytes a (timestamp_bytes x ns) m) (read_date a (write_bytes a (timestamp_bytes x ns) m) y) = x"
    and "to_int32 (uint32_at (a + 12) (write_bytes a (timestamp_bytes x ns) m)) = ns"
proof -
  let ?bs = "timestamp_bytes x ns" and ?m = "write_bytes a (timestamp_bytes x ns) m"
  have R: "read_bytes (a + int i) n ?m = take n (drop i ?bs)" if "i + n \<le> 16" for i n
    using that by (intro read_write_part) simp
  have f: "read_bytes a 2 ?m = le_bytes 2 (tm_year x + 1900)" "read_bytes (a + 2) 2 ?m = le_bytes 2 (tm_mon x + 1)"
    "read_bytes (a + 4) 2 ?m = le_bytes 2 (tm_mday x)" "read_bytes (a + 6) 2 ?m = le_bytes 2 (tm_hour x)"
    "read_bytes (a + 8) 2 ?m = le_bytes 2 (tm_min x)" "read_bytes (a + 10) 2 ?m = le_bytes 2 (tm_sec x)"
    "read_bytes (a + 12) 4 ?m = le_bytes 4 ns"
    using R [of 0 2] R [of 2 2] R [of 4 2] R [of 6 2] R [of 8 2] R [of 10 2] R [of 12 4]
    by (simp_all add: timestamp_bytes_def date_bytes_def time_bytes_def)
  have v: "0 \<le> tm_mon x" "tm_mon x \<le> 11" "1 \<le> tm_mday x" "tm_mday x \<le> 31"
    "0 \<le> tm_hour x" "tm_hour x < 24" "0 \<le> tm_min x" "tm_min x < 60" "0 \<le> tm_sec x" "tm_sec x < 60"
    using assms(3) months [of "tm_mon x"] by (auto simp: valid_tm_def month_start_def month_table_def split: if_splits)
  have "to_int16 ((tm_year x + 1900) mod 65536) = to_int16 (tm_year x + 1900)"
    by (simp add: to_int16_def signed_take_bit_eq_iff_take_bit_eq take_bit_eq_mod)
  then have y: "to_int16 ((tm_year x + 1900) mod 65536) = tm_year x + 1900"
    using assms(1,2) by (simp add: to_int16_def signed_take_bit_int_eq_self)
  show "read_time (a + 6) ?m (read_date a ?m y) = x"
    using v y by (simp add: read_time_def read_date_def int16_at_def uint16_at_def f le_val_le_bytes add.assoc)
  show "to_int32 (uint32_at (a + 12) ?m) = ns"
    using assms(4,5) by (simp add: uint32_at_def f le_val_le_bytes to_int32_id)
qed

lemma ascii_nat_digits [simp]: "ascii (nat_digits n)"
  using nat_digits_AllDigits [of n] by (auto simp: ascii_def AllDigits_iff isdigit_def)

lemma ascii_replicate [simp]: "0 < char_code c \<Longrightarrow> char_code c < 128 \<Longrightarrow> ascii (replicate n c)"
  by (simp add: ascii_def)

lemma char_code_literals [simp]:
  "char_code (CHR ''-'') = 45" "char_code (CHR ''0'') = 48" "char_code (CHR '' '') = 32"
  "char_code (CHR '':'') = 58" "char_code (CHR ''.'') = 46"
  by (simp_all add: char_code_def)

lemma ascii_formats [simp]: "ascii (fmt_zero n v)" "ascii (int_str v)" "ascii (fmt_space n v)"
  by (simp_all add: fmt_zero_def int_str_def fmt_space_def Let_def)

lemma ascii_date_text [simp]: "ascii (date_text x)"
  by (simp add: date_text_def snprintf_def ascii_take)

lemma length_formats: "n \<le> length (fmt_space n v)" "0 < n \<Longrightarrow> n \<le> length (fmt_zero n v)"
proof -
  show "n \<le> length (fmt_space n v)" by (simp add: fmt_space_def Let_def)
  show "0 < n \<Longrightarrow> n \<le> length (fmt_zero n v)" unfolding fmt_zero_def Let_def by (cases "v < 0") (simp; linarith)+
qed

lemma length_date_text: "10 \<le> length (date_text x)"
proof -
  have "10 \<le> length (fmt_space 4 (tm_year x + 1900) @ ''-'' @ fmt_zero 2 (tm_mon x + 1) @ ''-'' @ fmt_zero 2 (tm_mday x))"
    using length_formats(1) [of 4 "tm_year x + 1900"] length_formats(2) [of 2 "tm_mon x + 1"]
      length_formats(2) [of 2 "tm_mday x"] by simp
  then show ?thesis by (simp only: date_text_def snprintf_def length_take)
qed

section \<open>Properties\<close>

text \<open> C29. Dates, timestamps and times of day stay inside the element they are written to, for every C type of the
  buffer, so that the rows of a rowset do not disturb each other and nothing else changes. A narrow buffer
  needs at least one byte for this.\<close>

theorem datetime_stays_in_element:
  assumes "put \<in> {PutDate e d, PutTimestamp e ts, PutTime e tt}" and "put b m = Some (r, b', m')"
    and "0 \<le> ab_buflen b" and "ab_type b = AI_CHAR \<longrightarrow> 0 < ab_buflen b" and "0 < ce_wide e" and "outside b x"
  shows "b' = b \<and> m' x = m x"
proof -
  have E: "GetElementSize b = (case ab_type b of AI_CHAR \<Rightarrow> ab_buflen b | AI_WCHAR \<Rightarrow> ab_buflen b
      | AI_TDATE \<Rightarrow> 6 | AI_TTIME \<Rightarrow> 6 | AI_TTIMESTAMP \<Rightarrow> 16 | _ \<Rightarrow> GetElementSize b)"
    by (simp add: GetElementSize_def split: odbc_native_type.split)
  have W: "snd (snd (CopyStringToBuffer (ce_wide e) s (GetData b) (nat (ab_buflen b)) True k)) x = k x"
    if "ab_type b = AI_WCHAR" for s k
    using that assms(3,5,6) E by (intro wide_copy_outside) (auto simp: outside_def)
  note facts = put_chars_outside [OF assms(6)] put_wide_outside [OF assms(6) _ assms(3,5)] struct_outside [OF assms(6)]
  have D: "b' = b \<and> m' x = m x" if P: "PutDate e d b m = Some (r, b', m')"
  proof (cases "ab_type b = AI_WCHAR")
    case True
    then show ?thesis
      using P W store_len_outside [OF assms(6)] by (auto simp: PutDate_def Let_def split: if_splits)
  next
    case False
    then show ?thesis
      using P assms(4) E facts by (simp add: PutDate_def Let_def split: odbc_native_type.splits)
  qed
  have S: "b' = b \<and> m' x = m x" if "PutTimestamp e ts b m = Some (r, b', m')"
    using that assms(4) E facts
    by (simp add: PutTimestamp_def Let_def split: odbc_native_type.splits)
  have T: "b' = b \<and> m' x = m x" if "PutTime e tt b m = Some (r, b', m')"
    using that assms(4) E facts
    by (simp add: PutTime_def Let_def split: odbc_native_type.splits)
  show ?thesis using assms(1,2) D S T by auto
qed

definition example_fp :: float_ops where
  "example_fp = \<lparr>fp_stod = (\<lambda>_. None), fp_read = (\<lambda>_. 0), fp_str = (\<lambda>_. ''0''), fp_int = (\<lambda>_. 0), fp_neg = (\<lambda>_. False),
     fp_single = (\<lambda>_. 0), fp_of_int = (\<lambda>_. 0), fp_single_of_int = (\<lambda>_. 0)\<rparr>"

definition example_conv :: conv_env where
  "example_conv = \<lparr>ce_mode = Ansi, ce_wide = 2, ce_fp = example_fp\<rparr>"

definition timestamp_buffer :: app_buffer where
  "timestamp_buffer = ApplicationDataBuffer AI_TTIMESTAMP 100 0 200"

lemma buffer_simps:
  "GetData (ApplicationDataBuffer AI_TTIMESTAMP a 0 r) = a" "GetResLen (ApplicationDataBuffer ty a n r) = r"
  "GetElementSize (ApplicationDataBuffer AI_TTIMESTAMP a 0 r) = 16" "ab_type (ApplicationDataBuffer ty a n r) = ty"
  "ab_buflen (ApplicationDataBuffer ty a n r) = n" "GetData (ApplicationDataBuffer AI_CHAR a n r) = a"
  "GetData (ApplicationDataBuffer AI_WCHAR a n r) = a"
  by (simp_all add: ApplicationDataBuffer_def GetData_def GetResLen_def ApplyOffset_def GetElementSize_def)

theorem datetime_stays_in_element_witness:
  "\<exists>r b' m'. PutTimestamp example_conv (Timestamp 0 5) timestamp_buffer (\<lambda>_. 7) = Some (r, b', m') \<and> m' 116 = 7"
proof -
  obtain r b' m' where P: "PutTimestamp example_conv (Timestamp 0 5) timestamp_buffer (\<lambda>_. 7) = Some (r, b', m')"
    by (simp add: PutTimestamp_def timestamp_buffer_def buffer_simps put_struct_def Let_def)
  have "b' = timestamp_buffer \<and> m' 116 = (7 :: 8 word)"
    by (rule datetime_stays_in_element [where put = "PutTimestamp example_conv (Timestamp 0 5)" and ts = "Timestamp 0 5"
          and e = example_conv, OF _ P])
      (simp_all add: timestamp_buffer_def buffer_simps example_conv_def outside_def)
  with P show ?thesis by blast
qed

text \<open> A narrow buffer of length zero is not safe: the terminator of a date, a time or a timestamp that does not
  fit is written to the byte before the buffer.\<close>

theorem zero_length_buffer_underflow:
  assumes "put \<in> {PutDate e d, PutTimestamp e ts, PutTime e tt}" and "ab_type b = AI_CHAR" and "ab_buflen b = 0"
    and "GetData b \<noteq> 0"
  shows "\<exists>m'. put b m = Some (Conv_VARLEN_DATA_TRUNCATED, b, m') \<and> m' (GetData b - 1) = 0"
  using assms
  by (auto simp: PutDate_def PutTimestamp_def PutTime_def Let_def put_chars_def strncpy_bytes_def)

theorem zero_length_buffer_underflow_witness:
  "\<exists>m'. PutDate example_conv (Date 0) (ApplicationDataBuffer AI_CHAR 100 0 0) (\<lambda>_. 7) =
      Some (Conv_VARLEN_DATA_TRUNCATED, ApplicationDataBuffer AI_CHAR 100 0 0, m') \<and> m' 99 = 0"
  using zero_length_buffer_underflow [where put = "PutDate example_conv (Date 0)" and e = example_conv and d = "Date 0"
      and b = "ApplicationDataBuffer AI_CHAR 100 0 0" and m = "\<lambda>_. 7"]
  by (simp add: buffer_simps)

text \<open> A timestamp written to a timestamp structure is read back from it, field by field and with its
  nanoseconds.\<close>

theorem timestamp_struct_roundtrip:
  assumes "ab_type b = AI_TTIMESTAMP" and "GetData b \<noteq> 0"
    and "GetResLen b = 0 \<or> GetData b + 16 \<le> GetResLen b \<or> GetResLen b + 8 \<le> GetData b"
    and "- (2 ^ 15) \<le> tm_year (TimestampToCTm ts) + 1900" "tm_year (TimestampToCTm ts) + 1900 < 2 ^ 15"
    and "0 \<le> ts_fraction ts" "ts_fraction ts < 2 ^ 31"
  shows "\<exists>m'. PutTimestamp e ts b m = Some (Conv_SUCCESS, b, m') \<and> GetTimestamp e b m' = Some ts"
proof -
  define x where "x = TimestampToCTm ts"
  have v: "valid_tm x" by (simp add: x_def TimestampToCTm_def utc.brk_ok)
  let ?w = "write_bytes (GetData b) (timestamp_bytes x (ts_fraction ts)) m"
  let ?m = "store_len (GetResLen b) 16 ?w"
  have keep: "read_bytes (GetData b + int i) n ?m = read_bytes (GetData b + int i) n ?w" if "i + n \<le> 16" for i n
    using assms(3) that by (intro store_len_other) auto
  have "read_time (GetData b + 6) ?m (read_date (GetData b) ?m zero_tm) =
      read_time (GetData b + 6) ?w (read_date (GetData b) ?w zero_tm)"
    using keep [of 0 2] keep [of 2 2] keep [of 4 2] keep [of 6 2] keep [of 8 2] keep [of 10 2]
    by (simp add: read_time_def read_date_def int16_at_def uint16_at_def add.assoc)
  moreover have "uint32_at (GetData b + 12) ?m = uint32_at (GetData b + 12) ?w"
    using keep [of 12 4] by (simp add: uint32_at_def)
  moreover note read_timestamp_struct(1) [of x "ts_fraction ts" "GetData b" m zero_tm]
    read_timestamp_struct(2) [of x "ts_fraction ts" "GetData b" m]
  ultimately have "GetTimestamp e b ?m = Some (CTmToTimestamp x (ts_fraction ts))"
    using assms v by (simp add: GetTimestamp_def read_tm_def x_def)
  moreover have "CTmToTimestamp x (ts_fraction ts) = ts"
    by (simp add: x_def TimestampToCTm_def CTmToTimestamp_def CTimeToTimestamp_def utc.mk_brk)
  moreover have "PutTimestamp e ts b m = Some (Conv_SUCCESS, b, ?m)"
    using assms(1,2) by (simp add: PutTimestamp_def Let_def put_struct_def x_def)
  ultimately show ?thesis by simp
qed

theorem timestamp_struct_roundtrip_witness:
  "\<exists>m'. PutTimestamp example_conv (Timestamp 0 5) timestamp_buffer (\<lambda>_. 7) = Some (Conv_SUCCESS, timestamp_buffer, m')
     \<and> GetTimestamp example_conv timestamp_buffer m' = Some (Timestamp 0 5)"
proof -
  have "TimestampToCTm (Timestamp 0 5) = make_tm 1970 1 1 0 0 0"
    using utc.brk_mk [of "make_tm 1970 1 1 0 0 0"]
    by (simp add: TimestampToCTm_def make_tm_def valid_tm_def month_start_def month_table_def timegm_def
        leap_def year_start_def epoch_days_def)
  then show ?thesis
    by (intro timestamp_struct_roundtrip) (simp_all add: timestamp_buffer_def buffer_simps make_tm_def)
qed

text \<open> A date in a wide buffer is cut off silently: the code compares the number of characters with the number
  of bytes, so a buffer for at least eleven bytes but for fewer than eleven characters reports success and holds
  only the characters that fit.\<close>

theorem wide_date_cut_silently:
  assumes "ab_type b = AI_WCHAR" and "GetData b \<noteq> 0" and "ce_wide e \<in> {2, 4}"
    and "11 \<le> ab_buflen b" and "ab_buflen b < 11 * int (ce_wide e)" and "k = nat (ab_buflen b) div ce_wide e - 1"
  shows "\<exists>m'. PutDate e d b m = Some (Conv_SUCCESS, b, m') \<and> k < 10
    \<and> read_wide (ce_wide e) (GetData b) (k + 1) m' = map char_code (take k (date_text (DateToCTm d))) @ [0]"
proof -
  let ?w = "ce_wide e" and ?n = "nat (ab_buflen b)" and ?s = "date_text (DateToCTm d)"
  let ?us = "map char_code (take k ?s) @ [0]"
  have k: "k < 10" using assms(3-6) by (auto simp: nat_less_iff div_less_iff_less_mult)
  have wn: "?w < ?n" using assms(3,4) by auto
  have "length ?us = k + 1" using k length_date_text [of "DateToCTm d"] by simp
  moreover have "\<forall>u\<in>set ?us. u < 256 ^ ?w"
  proof -
    have "\<forall>c\<in>set (take k ?s). char_code c < 128"
      using ascii_date_text [of "DateToCTm d"] by (auto simp: ascii_def dest: in_set_takeD)
    moreover have "(128::nat) < 256 ^ ?w" using assms(3) by auto
    ultimately show ?thesis by fastforce
  qed
  ultimately have R: "read_wide ?w a (k + 1) (write_bytes a (wide_bytes ?w ?us) m1) = ?us" for a m1
    using read_wide_write [of ?us ?w a m1] by metis
  have C: "snd (snd (CopyStringToBuffer ?w ?s (GetData b) ?n True m1)) = write_bytes (GetData b) (wide_bytes ?w ?us) m1" for m1
    using wn assms(2,4,6)
    by (simp add: CopyStringToBuffer_def CopyUtf8StringToWcharString_def Let_def cvt_in_ascii ascii_date_text max_code_def)
  show ?thesis
    using assms(1,2,4) k R [unfolded Suc_eq_plus1 [symmetric]] by (simp add: PutDate_def Let_def C)
qed

theorem wide_date_cut_silently_witness:
  "\<exists>m'. PutDate example_conv (Date 0) (ApplicationDataBuffer AI_WCHAR 100 12 0) (\<lambda>_. 7) =
      Some (Conv_SUCCESS, ApplicationDataBuffer AI_WCHAR 100 12 0, m')
    \<and> read_wide 2 100 6 m' = map char_code (take 5 (date_text (DateToCTm (Date 0)))) @ [0]"
  using wide_date_cut_silently [of "ApplicationDataBuffer AI_WCHAR 100 12 0" example_conv 5 "Date 0" "\<lambda>_. 7"]
  by (simp add: buffer_simps example_conv_def)

end
