(* ===== verification/Timestream_Column.thy ===== *)
theory Timestream_Column
  imports Buffer_Values Column_Meta Connection
begin

text \<open>
  Columns of a result (\<^verbatim>\<open>src/timestream_column.cpp\<close>): a value of the service, which is text, is parsed
  according to the type of its column and put into the buffer of the application. Time series,
  arrays and rows are rendered as text from their elements, each of which is converted into a
  local buffer of 1024 bytes first.
\<close>

section \<open>Values of the service\<close>

datatype datum =
    Scalar_Value string
  | TimeSeries_Value "(string option \<times> datum option) list"
  | Array_Value "datum list"
  | Row_Value "datum list option"
  | Null_Value
  | Unset_Value

text \<open>\<^verbatim>\<open>StringToLong\<close>: a text that is no number and a number outside the type give 0.\<close>

definition stol_digits :: "int \<Rightarrow> string \<Rightarrow> int" where
  "stol_digits sg s =
     (let v = sg * dec_val (takeWhile isdigit s)
      in if takeWhile isdigit s = [] \<or> v < - (2 ^ 63) \<or> 2 ^ 63 \<le> v then 0 else v)"

definition StringToLong :: "string \<Rightarrow> int" where
  "StringToLong s =
     (case dropWhile isspace s of
        [] \<Rightarrow> 0
      | c # cs \<Rightarrow>
          if c = CHR ''-'' then stol_digits (- 1) cs
          else if c = CHR ''+'' then stol_digits 1 cs else stol_digits 1 (c # cs))"

section \<open>Scalars\<close>

text \<open>The variables that are not assigned before the text is scanned keep the contents \<open>junk\<close> of their
  memory.\<close>

definition date_format :: "scan list" where
  "date_format = [Scan_Int 4, Scan_Lit CHR ''-'', Scan_Int 2, Scan_Lit CHR ''-'', Scan_Int 2]"

definition time_format :: "scan list" where
  "time_format = [Scan_Int 2, Scan_Lit CHR '':'', Scan_Int 2, Scan_Lit CHR '':'', Scan_Int 2, Scan_Lit CHR ''.'', Scan_Int 9]"

definition parse_timestamp :: "(nat \<Rightarrow> int) \<Rightarrow> string \<Rightarrow> timestamp" where
  "parse_timestamp junk s =
     (let f = scan_fields (sscanf (date_format @ [Scan_Space] @ time_format) s) [0, 0, 0, 0, 0, 0, junk 0];
          x = \<lparr>tm_year = f ! 0 - 1900, tm_mon = f ! 1 - 1, tm_mday = f ! 2, tm_hour = f ! 3, tm_min = f ! 4, tm_sec = f ! 5\<rparr>
      in Timestamp (timegm x) (f ! 6))"

definition parse_date :: "string \<Rightarrow> date" where
  "parse_date s =
     (let f = scan_fields (sscanf date_format s) [0, 0, 0];
          x = zero_tm\<lparr>tm_year := f ! 0 - 1900, tm_mon := f ! 1 - 1, tm_mday := f ! 2\<rparr>
      in Date (timegm x * 1000))"

definition parse_time :: "(nat \<Rightarrow> int) \<Rightarrow> string \<Rightarrow> time" where
  "parse_time junk s =
     (let f = scan_fields (sscanf time_format s) [junk 0, junk 1, junk 2, junk 3]
      in Time (to_int32 ((f ! 0 * 60 + f ! 1) * 60 + f ! 2)) (f ! 3))"

definition parse_year_month :: "(nat \<Rightarrow> int) \<Rightarrow> string \<Rightarrow> interval_year_month" where
  "parse_year_month junk s =
     (let n = length s;
          f = scan_fields (sscanf [Scan_Int n, Scan_Lit CHR ''-'', Scan_Int n] s) [junk 0, junk 1]
      in IntervalYearMonth (f ! 0) (f ! 1))"

definition parse_day_second :: "(nat \<Rightarrow> int) \<Rightarrow> string \<Rightarrow> interval_day_second" where
  "parse_day_second junk s =
     (let f = scan_fields (sscanf ([Scan_Int (length s), Scan_Space] @ time_format) s)
            [junk 0, junk 1, junk 2, junk 3, junk 4]
      in IntervalDaySecond (f ! 0) (f ! 1) (f ! 2) (f ! 3) (f ! 4))"

definition ParseScalarType ::
  "conv_env \<Rightarrow> (nat \<Rightarrow> int) \<Rightarrow> scalar_type \<Rightarrow> string \<Rightarrow> app_buffer \<Rightarrow> memory \<Rightarrow> put_result" where
  "ParseScalarType e junk t s b m =
     (case t of
        Scalar_VARCHAR \<Rightarrow> PutString e s b m
      | Scalar_DOUBLE \<Rightarrow> Option.bind (fp_stod (ce_fp e) s) (\<lambda>x. PutDouble e (Some x) b m)
      | Scalar_BOOLEAN \<Rightarrow> PutInt8 e (Some (if s = ''true'' then 1 else 0)) b m
      | Scalar_INTEGER \<Rightarrow> PutInt32 e (Some (StringToInt s)) b m
      | Scalar_BIGINT \<Rightarrow> PutInt64 e (Some (StringToLong s)) b m
      | Scalar_NOT_SET \<Rightarrow> PutNullAs b m
      | Scalar_UNKNOWN \<Rightarrow> PutNullAs b m
      | Scalar_TIMESTAMP \<Rightarrow> PutTimestamp e (parse_timestamp junk s) b m
      | Scalar_DATE \<Rightarrow> PutDate e (parse_date s) b m
      | Scalar_TIME \<Rightarrow> PutTime e (parse_time junk s) b m
      | Scalar_INTERVAL_YEAR_TO_MONTH \<Rightarrow> PutIntervalYearMonth e (parse_year_month junk s) b m
      | Scalar_INTERVAL_DAY_TO_SECOND \<Rightarrow> PutIntervalDaySecond e (parse_day_second junk s) b m
      | Scalar_OTHER \<Rightarrow> Some (Conv_UNSUPPORTED_CONVERSION, b, m))"

section \<open>Composite values\<close>

text \<open>The local buffer of an element: 1024 zeroed bytes and an indicator, in memory of their own; and the
  text it holds after the conversion.\<close>

definition local_buffer :: app_buffer where
  "local_buffer = ApplicationDataBuffer AI_CHAR 4096 1024 8192"

definition local_text :: "memory \<Rightarrow> string" where
  "local_text m = takeWhile (\<lambda>c. c \<noteq> NUL) (map (\<lambda>x. char_of (unat x)) (read_bytes 4096 1024 m))"

definition element_text :: "put_result \<Rightarrow> string option" where
  "element_text p = map_option (\<lambda>(_, _, m). local_text m) p"

definition commas :: "string list \<Rightarrow> string" where
  "commas ss = concat (map (\<lambda>s. s @ '','') (butlast ss)) @ (if ss = [] then [] else last ss)"

definition point_text :: "string option \<Rightarrow> string \<Rightarrow> string" where
  "point_text t v = ''{time: '' @ (case t of None \<Rightarrow> [] | Some s \<Rightarrow> s) @ '', value: '' @ v @ ''}''"

fun ParseDatum :: "conv_env \<Rightarrow> (nat \<Rightarrow> int) \<Rightarrow> scalar_type \<Rightarrow> datum \<Rightarrow> app_buffer \<Rightarrow> memory \<Rightarrow> put_result" where
  "ParseDatum e junk t (Scalar_Value s) b m = ParseScalarType e junk t s b m"
| "ParseDatum e junk t (TimeSeries_Value ps) b m =
     Option.bind
       (those (map (\<lambda>(tm, v). case v of
            None \<Rightarrow> Some (point_text tm [])
          | Some d \<Rightarrow> map_option (point_text tm) (element_text (ParseDatum e junk t d local_buffer (\<lambda>_. 0)))) ps))
       (\<lambda>ss. PutString e (''['' @ commas ss @ '']'') b m)"
| "ParseDatum e junk t (Array_Value ds) b m =
     Option.bind (those (map (\<lambda>d. element_text (ParseDatum e junk t d local_buffer (\<lambda>_. 0))) ds))
       (\<lambda>ss. PutString e (if ds = [] then [] else ''['' @ commas ss @ '']'') b m)"
| "ParseDatum e junk t (Row_Value None) b m = Some (Conv_NO_DATA, b, m)"
| "ParseDatum e junk t (Row_Value (Some ds)) b m =
     Option.bind (those (map (\<lambda>d. element_text (ParseDatum e junk t d local_buffer (\<lambda>_. 0))) ds))
       (\<lambda>ss. PutString e (''('' @ commas ss @ '')'') b m)"
| "ParseDatum e junk t Null_Value b m = map_option (\<lambda>(_, b, m). (Conv_SUCCESS, b, m)) (PutNullAs b m)"
| "ParseDatum e junk t Unset_Value b m = Some (Conv_FAILURE, b, m)"

text \<open>\<^verbatim>\<open>ReadToBuffer\<close>; \<open>typed\<close> tells whether the service described the column.\<close>

definition ReadToBuffer ::
  "conv_env \<Rightarrow> (nat \<Rightarrow> int) \<Rightarrow> bool \<Rightarrow> column_meta \<Rightarrow> datum \<Rightarrow> app_buffer \<Rightarrow> memory \<Rightarrow> put_result" where
  "ReadToBuffer e junk typed c d b m =
     (if \<not> typed then Some (Conv_FAILURE, b, m) else ParseDatum e junk (GetScalarType c) d b m)"

text \<open>A character value of the service, or its absence.\<close>

definition optional_text :: "string option \<Rightarrow> datum" where
  "optional_text v = (case v of None \<Rightarrow> Null_Value | Some s \<Rightarrow> Scalar_Value s)"

section \<open>Facts on scanning\<close>

text \<open>Digits at the front of a text that end where the number ends: at the width, or before a character
  that is no digit.\<close>

definition number_at :: "nat \<Rightarrow> string \<Rightarrow> string \<Rightarrow> bool" where
  "number_at w ds r \<longleftrightarrow> ds \<noteq> [] \<and> AllDigits ds \<and> length ds \<le> w \<and> (length ds = w \<or> r = [] \<or> \<not> isdigit (hd r))"

lemma isdigit_no_sign: "isdigit c \<Longrightarrow> c \<noteq> CHR ''-'' \<and> c \<noteq> CHR ''+'' \<and> \<not> isspace c"
  by (auto simp: isdigit_def isspace_def char_code_def)

lemma takeWhile_number:
  "number_at w ds r \<Longrightarrow> takeWhile isdigit (take w (ds @ r)) = ds"
proof -
  assume n: "number_at w ds r"
  then have d: "takeWhile isdigit ds = ds" "\<forall>c\<in>set ds. isdigit c"
    by (simp_all add: number_at_def AllDigits_iff takeWhile_eq_all_conv)
  have "take w (ds @ r) = ds @ take (w - length ds) r" using n by (simp add: number_at_def)
  moreover have "takeWhile isdigit (take (w - length ds) r) = []"
    using n by (cases r; cases "w - length ds") (auto simp: number_at_def)
  ultimately show ?thesis using d by (simp add: takeWhile_append2)
qed

lemma sscanf_number:
  assumes "number_at w ds r"
  shows "sscanf (Scan_Int w # f) (ds @ r) = to_int32 (dec_val ds) # sscanf f r"
proof -
  obtain c cs where c: "ds = c # cs" "isdigit c"
    using assms by (cases ds) (auto simp: number_at_def AllDigits_iff)
  have "dropWhile isspace (ds @ r) = ds @ r" using isdigit_no_sign [OF c(2)] by (simp add: c(1))
  moreover have "scan_int w (ds @ r) = Some (to_int32 (dec_val ds), r)"
    using takeWhile_number [OF assms] isdigit_no_sign [OF c(2)] c(1) by (auto simp: scan_int_def Let_def)
  ultimately show ?thesis by simp
qed

lemma sscanf_literal: "sscanf (Scan_Lit c # f) (c # r) = sscanf f r"
  by simp

lemma sscanf_space: "number_at w ds r \<Longrightarrow> sscanf (Scan_Space # f) (CHR '' '' # ds @ r) = sscanf f (ds @ r)"
proof -
  assume n: "number_at w ds r"
  obtain c cs where c: "ds = c # cs" "isdigit c"
    using n by (cases ds) (auto simp: number_at_def AllDigits_iff)
  then show ?thesis using isdigit_no_sign [OF c(2)] by (auto simp: isspace_def)
qed

lemma dec_val_zeros: "dec_val (replicate k (CHR ''0'') @ s) = dec_val s"
  by (induction k) (simp_all add: dec_val_def digit_val_def)

lemma digits_of_fmt:
  assumes "0 \<le> v" "v < 10 ^ n" "0 < n"
  shows "AllDigits (fmt_zero n v)" "dec_val (fmt_zero n v) = v" "length (fmt_zero n v) = n" "fmt_zero n v \<noteq> []"
proof -
  let ?d = "nat_digits (nat v)"
  have f: "fmt_zero n v = replicate (n - length ?d) (CHR ''0'') @ ?d" using assms(1) by (simp add: fmt_zero_def Let_def)
  have "length ?d \<le> n"
  proof (cases "v = 0")
    case True
    then show ?thesis using assms(3) by (subst nat_digits.simps) simp
  next
    case False
    then have "10 ^ (length ?d - 1) \<le> nat v" using nat_digits_bounds [of "nat v"] assms(1) by simp
    also have "nat v < 10 ^ n" using assms(1,2) by (simp add: nat_less_iff)
    finally have "length ?d - 1 < n" by (simp add: power_strict_increasing_iff)
    then show ?thesis by simp
  qed
  then show "length (fmt_zero n v) = n" by (simp add: f)
  then show "fmt_zero n v \<noteq> []" using assms(3) by auto
  show "AllDigits (fmt_zero n v)"
    using nat_digits_AllDigits [of "nat v"] by (auto simp: f AllDigits_iff isdigit_def)
  show "dec_val (fmt_zero n v) = v" using assms(1) by (simp add: f dec_val_zeros dec_val_nat_digits)
qed

lemma number_at_fmt: "0 \<le> v \<Longrightarrow> v < 10 ^ n \<Longrightarrow> 0 < n \<Longrightarrow> number_at n (fmt_zero n v) r"
  using digits_of_fmt [of v n] by (simp add: number_at_def)

lemma fmt_value: "0 \<le> v \<Longrightarrow> v < 10 ^ n \<Longrightarrow> 0 < n \<Longrightarrow> n \<le> 9 \<Longrightarrow> to_int32 (dec_val (fmt_zero n v)) = v"
proof -
  assume v: "0 \<le> v" "v < 10 ^ n" "0 < n" "n \<le> 9"
  have "(10::int) ^ n \<le> 10 ^ 9" using v(4) by (intro power_increasing) simp_all
  with v show ?thesis using digits_of_fmt(2) [of v n] by (simp add: to_int32_id)
qed

lemma year_is_fmt: "1000 \<le> y \<Longrightarrow> y \<le> 9999 \<Longrightarrow> int_str y = fmt_zero 4 y"
proof -
  assume y: "1000 \<le> y" "y \<le> 9999"
  have "4 = length (nat_digits (nat y))" using y by (intro digits_unique) simp_all
  then show ?thesis using y by (simp add: int_str_def fmt_zero_def Let_def)
qed

text \<open>Each number of a formatted text is scanned to its value; the facts chain through the format.\<close>

lemma sscanf_fmt:
  assumes "0 \<le> v" "v < 10 ^ n" "0 < n" "n \<le> 9"
  shows "sscanf (Scan_Int n # f) (fmt_zero n v @ r) = v # sscanf f r"
    and "sscanf (Scan_Space # f) (CHR '' '' # fmt_zero n v @ r) = sscanf f (fmt_zero n v @ r)"
  using sscanf_number [OF number_at_fmt [OF assms(1-3)]] fmt_value [OF assms] sscanf_space [OF number_at_fmt [OF assms(1-3)]]
  by auto

lemma scan_clock:
  assumes "0 \<le> h" "h < 100" "0 \<le> mi" "mi < 100" "0 \<le> s" "s < 100" "0 \<le> ns" "ns < 10 ^ 9"
  shows "sscanf time_format (fmt_zero 2 h @ '':'' @ fmt_zero 2 mi @ '':'' @ fmt_zero 2 s @ ''.'' @ fmt_zero 9 ns) = [h, mi, s, ns]"
  using assms sscanf_fmt(1) [of ns 9 "[]" "[]"]
  by (simp add: time_format_def sscanf_fmt(1) del: sscanf.simps(2))

lemma valid_tm_ranges:
  assumes "valid_tm x"
  shows "0 \<le> tm_mon x" "tm_mon x < 12" "0 < tm_mday x" "tm_mday x < 100" "0 \<le> tm_hour x" "tm_hour x < 100"
    "0 \<le> tm_min x" "tm_min x < 100" "0 \<le> tm_sec x" "tm_sec x < 100"
  using assms months [of "tm_mon x"] by (auto simp: valid_tm_def month_start_def month_table_def split: if_splits)

lemma scan_timestamp:
  assumes "valid_tm x" "1000 \<le> tm_year x + 1900" "tm_year x + 1900 \<le> 9999" "0 \<le> ns" "ns < 10 ^ 9"
  shows "sscanf (date_format @ [Scan_Space] @ time_format) (strftime_date_time x @ fmt_zero 9 ns) =
    [tm_year x + 1900, tm_mon x + 1, tm_mday x, tm_hour x, tm_min x, tm_sec x, ns]"
  using assms(2-5) valid_tm_ranges [OF assms(1)]
  by (simp add: date_format_def strftime_date_time_def year_is_fmt sscanf_fmt scan_clock [simplified]
      del: sscanf.simps(2,3))

lemma parse_timestamp_text:
  assumes "valid_tm x" "1000 \<le> tm_year x + 1900" "tm_year x + 1900 \<le> 9999" "0 \<le> ns" "ns < 10 ^ 9"
  shows "parse_timestamp junk (strftime_date_time x @ fmt_zero 9 ns) = Timestamp (timegm x) ns"
  unfolding parse_timestamp_def scan_timestamp [OF assms] by (cases x) (simp add: scan_fields_def)

lemma timestamp_text_length:
  assumes "valid_tm x" "1000 \<le> tm_year x + 1900" "tm_year x + 1900 \<le> 9999" "0 \<le> ns" "ns < 10 ^ 9"
  shows "GetTimestampString strftime_date_time x ns = strftime_date_time x @ fmt_zero 9 ns"
    and "length (strftime_date_time x @ fmt_zero 9 ns) = 29"
  using assms(2-5) valid_tm_ranges [OF assms(1)] digits_of_fmt(3) [of ns 9]
  by (simp_all add: GetTimestampString_def snprintf_def strftime_date_time_def year_is_fmt digits_of_fmt(3))

lemma put_chars_fits:
  assumes "GetData b \<noteq> 0" "length s < n" "int n \<le> ab_buflen b"
  shows "\<exists>m'. put_chars s n b m = Some (Conv_SUCCESS, b, m')
    \<and> read_bytes (GetData b) (length s + 1) m' = str_bytes s @ [0]"
proof -
  let ?bs = "strncpy_bytes n s"
  let ?m = "write_bytes (GetData b) ?bs (store_len (GetResLen b) (int n - 1) m)"
  have "take (length s + 1) ?bs = str_bytes s @ [0]"
    using assms(2) by (cases n) (simp_all add: strncpy_bytes_def min_def take_Cons')
  then have "read_bytes (GetData b) (length s + 1) ?m = str_bytes s @ [0]"
    using read_write_part [of 0 "length s + 1" ?bs "GetData b"] assms(2) by simp
  moreover have "min (nat (ab_buflen b)) n = n" using assms(3) by simp
  ultimately show ?thesis using assms(1,3) by (simp add: put_chars_def Let_def)
qed

lemma nat_digits_eval:
  "n < 10 \<Longrightarrow> nat_digits n = [char_of (48 + n)]"
  "\<not> n < 10 \<Longrightarrow> nat_digits n = nat_digits (n div 10) @ [char_of (48 + n mod 10)]"
  by (simp_all add: nat_digits.simps [of n])

lemma those_map: "(\<And>x. x \<in> set xs \<Longrightarrow> f x = Some (g x)) \<Longrightarrow> those (map f xs) = Some (map g xs)"
  by (induction xs) simp_all

lemma read_bytes_split: "read_bytes a (i + n) m = read_bytes a i m @ read_bytes (a + int i) n m"
  by (rule nth_equalityI) (auto simp: read_bytes_def nth_append add.assoc)

lemma bytes_chars: "map (\<lambda>x. char_of (unat x)) (str_bytes s) = s"
proof -
  have "char_of (unat (word_of_nat (char_code c) :: 8 word)) = c" for c
    by (simp add: char_code_def unat_of_nat)
  then show ?thesis by (simp add: str_bytes_def comp_def)
qed

lemma char_of_0: "char_of (0 :: nat) = NUL"
  by (simp add: NUL_def)

lemma local_text_zero: "local_text (store_len 8192 v (\<lambda>_. 0)) = []" "local_text (\<lambda>_. 0) = []"
proof -
  have "read_bytes 4096 1024 (store_len 8192 v (\<lambda>_. 0)) = read_bytes 4096 1024 (\<lambda>_. 0)" by (rule store_len_other) simp
  moreover have "read_bytes 4096 1024 (\<lambda>_. 0 :: 8 word) = 0 # read_bytes 4097 1023 (\<lambda>_. 0)"
    using read_bytes_split [of 4096 1 1023 "\<lambda>_. 0"] by (simp add: read_bytes_def)
  ultimately show "local_text (store_len 8192 v (\<lambda>_. 0)) = []" "local_text (\<lambda>_. 0) = []"
    by (simp_all add: local_text_def char_of_0)
qed

lemma local_buffer_simps [simp]:
  "GetData local_buffer = 4096" "GetResLen local_buffer = 8192" "ab_type local_buffer = AI_CHAR"
  "ab_buflen local_buffer = 1024" "ab_cellOffset local_buffer = - 1"
  by (simp_all add: local_buffer_def buffer_simps) (simp add: ApplicationDataBuffer_def)

text \<open>The text of an element is what was copied to its buffer, up to the terminator.\<close>

lemma local_text_copied:
  assumes "NUL \<notin> set s" "length s \<le> 1023"
  shows "local_text (store_len 8192 v (write_bytes 4096 (str_bytes s @ [0]) (\<lambda>_. 0))) = s"
proof -
  let ?m = "write_bytes 4096 (str_bytes s @ [0 :: 8 word]) (\<lambda>_. 0)"
  have "read_bytes 4096 1024 (store_len 8192 v ?m) = read_bytes 4096 1024 ?m"
    by (rule store_len_other) simp
  also have "\<dots> = read_bytes 4096 (length s + 1) ?m @ read_bytes (4096 + int (length s + 1)) (1023 - length s) ?m"
    using assms(2) read_bytes_split [of 4096 "length s + 1" "1023 - length s" ?m] by simp
  also have "read_bytes 4096 (length s + 1) ?m = str_bytes s @ [0]"
    using read_write_bytes [of 4096 "str_bytes s @ [0]" "\<lambda>_. 0"] by simp
  finally have "map (\<lambda>x. char_of (unat x)) (read_bytes 4096 1024 (store_len 8192 v ?m)) =
      map (\<lambda>x. char_of (unat x)) (str_bytes s) @ NUL # map (\<lambda>x. char_of (unat x)) (read_bytes (4096 + int (length s + 1)) (1023 - length s) ?m)"
    by (simp add: char_of_0)
  moreover have "map (\<lambda>x. char_of (unat x)) (str_bytes s) = s" by (simp add: bytes_chars)
  ultimately have "local_text (store_len 8192 v ?m) =
      takeWhile (\<lambda>c. c \<noteq> NUL) (s @ NUL # map (\<lambda>x. char_of (unat x)) (read_bytes (4096 + int (length s + 1)) (1023 - length s) ?m))"
    by (simp only: local_text_def)
  also have "\<dots> = s" using assms(1) by (subst takeWhile_append2) auto
  finally show ?thesis .
qed

lemma element_of_text:
  assumes "ce_mode e = Ansi" "NUL \<notin> set s" "int (length s) < 2 ^ 63"
  shows "element_text (ParseDatum e junk Scalar_VARCHAR (Scalar_Value s) local_buffer (\<lambda>_. 0)) = Some (take 1023 s)"
proof (cases "s = []")
  case True
  with assms show ?thesis
    by (simp add: ParseScalarType_def PutString_def PutText_def bytes_required_def text_result_def element_text_def
        local_text_zero)
next
  case False
  have c: "CopyUtf8StringToSqlCharString s 4096 1024 (\<lambda>_. 0) =
      (min (length s) 1023, 1024 \<le> length s, write_bytes 4096 (str_bytes (take 1023 s) @ [0]) (\<lambda>_. 0))"
    by (auto simp: CopyUtf8StringToSqlCharString_def min_def)
  have "NUL \<notin> set (take 1023 s)" using assms(2) by (auto dest: in_set_takeD)
  then have "local_text (store_len 8192 v (write_bytes 4096 (str_bytes (take 1023 s) @ [0]) (\<lambda>_. 0))) = take 1023 s" for v
    by (rule local_text_copied) simp
  moreover have "length s < 1024 \<Longrightarrow> local_text (store_len 8192 v (write_bytes 4096 (str_bytes s @ [0]) (\<lambda>_. 0))) = s" for v
    using assms(2) by (intro local_text_copied) simp_all
  ultimately show ?thesis
    using False assms c
    by (simp add: ParseScalarType_def PutString_def PutText_Ansi [unfolded One_nat_def] PutStrToStrBuffer_def text_result_def
        element_text_def Let_def)
qed

lemma element_of_null:
  "element_text (ParseDatum e junk t Null_Value local_buffer (\<lambda>_. 0)) = Some []"
  by (simp add: PutNullAs_def PutNull_def element_text_def local_text_zero)

section \<open>Properties\<close>

text \<open> C27. A timestamp of the service reaches the application unchanged: text in the format of the service, for
  any valid date from the year 1000 on, is delivered to a character buffer letter by letter, and to a
  timestamp structure field by field.\<close>

theorem timestamp_delivered:
  assumes "valid_tm x" and "1000 \<le> tm_year x + 1900" and "tm_year x + 1900 \<le> 9999" and "0 \<le> ns" and "ns < 10 ^ 9"
    and "value = strftime_date_time x @ fmt_zero 9 ns" and "GetData b \<noteq> 0"
  shows "(ab_type b = AI_CHAR \<and> 30 \<le> ab_buflen b \<longrightarrow>
      (\<exists>m'. ParseScalarType e junk Scalar_TIMESTAMP value b m = Some (Conv_SUCCESS, b, m')
        \<and> read_bytes (GetData b) 30 m' = str_bytes value @ [0]))
    \<and> (ab_type b = AI_TTIMESTAMP \<longrightarrow>
        ParseScalarType e junk Scalar_TIMESTAMP value b m =
          Some (Conv_SUCCESS, b, store_len (GetResLen b) 16 (write_bytes (GetData b) (timestamp_bytes x ns) m)))"
proof -
  have v: "parse_timestamp junk value = Timestamp (timegm x) ns"
    using parse_timestamp_text [OF assms(1-5)] assms(6) by simp
  have x: "TimestampToCTm (Timestamp (timegm x) ns) = x"
    by (simp add: TimestampToCTm_def utc.brk_mk [OF assms(1)])
  note L = timestamp_text_length [OF assms(1-5), folded assms(6)]
  have "\<exists>m'. put_chars value 30 b m = Some (Conv_SUCCESS, b, m') \<and> read_bytes (GetData b) 30 m' = str_bytes value @ [0]"
    if "30 \<le> ab_buflen b"
    using put_chars_fits [OF assms(7), of "value" 30 m] L(2) that by simp
  then show ?thesis
    using assms(7) by (simp add: ParseScalarType_def v PutTimestamp_def x L(1) Let_def put_struct_def)
qed

theorem timestamp_delivered_witness:
  "ParseScalarType example_conv (\<lambda>_. 0) Scalar_TIMESTAMP ''2024-02-29 23:59:58.000000007'' timestamp_buffer (\<lambda>_. 0) =
     Some (Conv_SUCCESS, timestamp_buffer, store_len 200 16 (write_bytes 100 (timestamp_bytes (make_tm 2024 2 29 23 59 58) 7) (\<lambda>_. 0)))"
proof -
  have "replicate 8 c = [c, c, c, c, c, c, c, c]" for c :: char by (simp add: eval_nat_numeral)
  then have "strftime_date_time (make_tm 2024 2 29 23 59 58) @ fmt_zero 9 7 = ''2024-02-29 23:59:58.000000007''"
    by (simp add: strftime_date_time_def make_tm_def fmt_zero_def int_str_def nat_digits_eval Let_def
        char_of_def bit_iff_odd drop_bit_eq_div)
  then show ?thesis
    using timestamp_delivered [of "make_tm 2024 2 29 23 59 58" 7 "''2024-02-29 23:59:58.000000007''" timestamp_buffer
        example_conv "\<lambda>_. 0" "\<lambda>_. 0"]
    by (simp add: make_tm_def valid_tm_def leap_def month_start_def month_table_def timestamp_buffer_def buffer_simps)
qed

text \<open> An array or a row of character values is rendered as the list of its elements, separated by commas, in
  order. An element longer than 1023 bytes is cut off there without a warning, and a null element looks like an
  empty text.\<close>

theorem composite_text:
  assumes "ce_mode e = Ansi" and "\<forall>s. Some s \<in> set vs \<longrightarrow> NUL \<notin> set s \<and> int (length s) < 2 ^ 63" and "vs \<noteq> []"
    and "texts = map (\<lambda>v. case v of None \<Rightarrow> [] | Some s \<Rightarrow> take 1023 s) vs"
  shows "ParseDatum e junk Scalar_VARCHAR (Array_Value (map optional_text vs)) b m =
      PutString e (''['' @ commas texts @ '']'') b m
    \<and> ParseDatum e junk Scalar_VARCHAR (Row_Value (Some (map optional_text vs))) b m =
      PutString e (''('' @ commas texts @ '')'') b m"
proof -
  have "element_text (ParseDatum e junk Scalar_VARCHAR (optional_text v) local_buffer (\<lambda>_. 0)) =
      Some (case v of None \<Rightarrow> [] | Some s \<Rightarrow> take 1023 s)" if "v \<in> set vs" for v
  proof (cases v)
    case None
    then show ?thesis by (simp add: optional_text_def element_of_null del: ParseDatum.simps)
  next
    case (Some s)
    then show ?thesis
      using that assms(1,2) by (simp add: optional_text_def element_of_text del: ParseDatum.simps)
  qed
  then have "those (map (\<lambda>v. element_text (ParseDatum e junk Scalar_VARCHAR (optional_text v) local_buffer (\<lambda>_. 0))) vs) = Some texts"
    unfolding assms(4) by (rule those_map)
  with assms(3) show ?thesis by (simp add: comp_def)
qed

theorem composite_text_witness:
  "ParseDatum example_conv (\<lambda>_. 0) Scalar_VARCHAR (Array_Value [Scalar_Value ''a'', Null_Value, Scalar_Value ''bc'']) local_buffer (\<lambda>_. 0) =
     PutString example_conv ''[a,,bc]'' local_buffer (\<lambda>_. 0)"
proof -
  have "\<forall>s. Some s \<in> set [Some ''a'', None, Some ''bc''] \<longrightarrow> NUL \<notin> set s \<and> int (length s) < 2 ^ 63"
    by (auto simp: NUL_def char_of_def)
  from composite_text [OF _ this _ refl, of example_conv "\<lambda>_. 0" local_buffer "\<lambda>_. 0"] show ?thesis
    by (simp add: optional_text_def commas_def example_conv_def del: ParseDatum.simps)
qed

text \<open>A bound character column that was too short for one row loses text of the next one: the cut moves the
  offset of the buffer, no fetch sets it back, and the next value is delivered from that offset on,
  or not at all when it is not longer than that.\<close>

theorem cut_column_shifts_next_row:
  assumes "ce_mode e = Ansi" and "ab_type b = AI_CHAR" and "apart b" and "ab_cellOffset b = - 1" and "1 < ab_buflen b"
    and "ab_buflen b \<le> int (length v1)" and "k = nat (ab_buflen b) - 1"
    and "int (length v1) < 2 ^ 63" and "int (length v2) < 2 ^ 63"
  shows "\<exists>b1 m1. PutString e v1 b m = Some (Conv_VARLEN_DATA_TRUNCATED, b1, m1)
    \<and> (length v2 \<le> k \<longrightarrow> PutString e v2 b1 m1 = Some (Conv_NO_DATA, b1, m1))
    \<and> (k < length v2 \<longrightarrow> (\<exists>r b2 m2. PutString e v2 b1 m1 = Some (r, b2, m2)
        \<and> (\<exists>w>0. read_bytes (GetData b) w m2 = str_bytes (take w (drop k v2)))))"
proof -
  have len: "nat (ab_buflen b) \<le> length v1" "int k = ab_buflen b - 1" using assms(5-7) by linarith+
  have ty: "ab_type (SetCellOffset (int k) b) = AI_CHAR" by (simp add: SetCellOffset_def assms(2))
  have "GetData b \<noteq> 0" using assms(3) by (simp add: apart_def)
  then have "\<exists>w m1. PutStrToStrBuffer v1 b m = (Conv_VARLEN_DATA_TRUNCATED, w, SetCellOffset (int k) b, m1)"
    using assms(4,5) len by (auto simp: PutStrToStrBuffer_def CopyUtf8StringToSqlCharString_def Let_def)
  then obtain w m1 where "PutStrToStrBuffer v1 b m = (Conv_VARLEN_DATA_TRUNCATED, w, SetCellOffset (int k) b, m1)"
    by blast
  then have one: "PutString e v1 b m = Some (Conv_VARLEN_DATA_TRUNCATED, SetCellOffset (int k) b, m1)"
    using assms(1,2,8) by (simp add: PutString_def PutText_Ansi [unfolded One_nat_def] text_result_def)
  have two: "PutString e v2 (SetCellOffset (int k) b) m1 =
      Some (case PutStrToStrBuffer v2 (SetCellOffset (int k) b) m1 of (r, _, b2, m2) \<Rightarrow> (r, b2, m2))"
    using assms(1,9) ty
    by (simp add: PutString_def PutText_Ansi [unfolded One_nat_def] text_result_def split: prod.split)
  have a: "apart (SetCellOffset (int k) b)" "ab_cellOffset (SetCellOffset (int k) b) = int k"
    "1 < ab_buflen (SetCellOffset (int k) b)"
    using assms(3,5) by (simp_all add: cell_offset_frame)
  show ?thesis
  proof (cases "k < length v2")
    case True
    obtain r w b2 m2 where P: "PutStrToStrBuffer v2 (SetCellOffset (int k) b) m1 = (r, int w, b2, m2)"
      "w = min (length v2 - k) (nat (ab_buflen b) - 1)" "read_bytes (GetData b) w m2 = str_bytes (take w (drop k v2))"
      using one_part [OF a True, of m1] by (auto simp: cell_offset_frame)
    have "0 < w" using P(2) True assms(5) by simp
    then have "\<exists>w>0. read_bytes (GetData b) w m2 = str_bytes (take w (drop k v2))" using P(3) by blast
    with one two P(1) True show ?thesis by auto
  next
    case False
    then have "PutStrToStrBuffer v2 (SetCellOffset (int k) b) m1 = (Conv_NO_DATA, 0, SetCellOffset (int k) b, m1)"
      using \<open>GetData b \<noteq> 0\<close> by (simp add: PutStrToStrBuffer_def cell_offset_frame Let_def)
    with one two False show ?thesis by simp
  qed
qed

theorem cut_column_shifts_next_row_witness:
  "\<exists>b1 m1. PutString example_conv ''abcdef'' (ApplicationDataBuffer AI_CHAR 100 4 0) (\<lambda>_. 0) =
      Some (Conv_VARLEN_DATA_TRUNCATED, b1, m1)
    \<and> PutString example_conv ''ghi'' b1 m1 = Some (Conv_NO_DATA, b1, m1)"
proof -
  let ?b = "ApplicationDataBuffer AI_CHAR 100 4 0"
  have "apart ?b" "ab_type ?b = AI_CHAR" "ab_cellOffset ?b = - 1" "ab_buflen ?b = 4"
    by (simp_all add: apart_def buffer_simps) (simp_all add: ApplicationDataBuffer_def)
  from cut_column_shifts_next_row [of example_conv ?b "''abcdef''" 3 "''ghi''" "\<lambda>_. 0"] this show ?thesis
    by (auto simp: example_conv_def)
qed

end
