(* ===== verification/Table_Metadata.thy ===== *)
theory Table_Metadata
  imports Timestream_Column Catalog_Queries Data_Query_Paging
begin

text \<open>
  The table catalog (\<^verbatim>\<open>src/query/table_metadata_query.cpp\<close>, \<^verbatim>\<open>src/meta/table_meta.cpp\<close>): databases and tables
  are found with data queries of the driver's own (\<^verbatim>\<open>SHOW DATABASES\<close>, \<^verbatim>\<open>SHOW TABLES\<close>), whose rows are read
  through a local buffer into a vector, over which the application then fetches.
\<close>

section \<open>The surroundings of a catalog query\<close>

text \<open>What a catalog query takes from its connection: the service, the conversion of values, the attribute
  \<^verbatim>\<open>SQL_ATTR_METADATA_ID\<close>, the ODBC version of the environment and the setting \<^verbatim>\<open>DATABASE_AS_SCHEMA\<close>.\<close>

record 'ci catalog_env =
  ct_query :: "(datum list, 'ci, column_meta) query_env"
  ct_conv :: conv_env
  ct_junk :: "nat \<Rightarrow> int"
  ct_metadataId :: bool
  ct_odbcVer :: int
  ct_asSchema :: bool

text \<open>The conversion of a cell of a row of the service; a row shorter than its description has no such cell.\<close>

definition service_reader ::
  "conv_env \<Rightarrow> (nat \<Rightarrow> int) \<Rightarrow> (datum list, column_meta, app_buffer, memory) column_reader" where
  "service_reader e junk c i row b m =
     (if i \<le> length row then ReadToBuffer e junk True c (row ! (i - 1)) b m else None)"

abbreviation ct_reader :: "'ci catalog_env \<Rightarrow> (datum list, column_meta, app_buffer, memory) column_reader" where
  "ct_reader E \<equiv> service_reader (ct_conv E) (ct_junk E)"

text \<open>A fetch of an internal query lets the worker, of which there is one at most, do what it can first; by
  the theorem on paging every other schedule delivers the same rows.\<close>

definition run_worker_now :: "('row, 'ci) service \<Rightarrow> ('row, 'ci, 'col) data_query \<Rightarrow> ('row, 'ci, 'col) data_query" where
  "run_worker_now svc q =
     (case thread_step svc 0 q of
        None \<Rightarrow> q
      | Some q1 \<Rightarrow> (case thread_step svc 0 q1 of None \<Rightarrow> q1 | Some q2 \<Rightarrow> q2))"

text \<open>The local buffer for a name, \<^verbatim>\<open>STRING_BUFFER_SIZE\<close> zeroed bytes without an indicator, and its text.\<close>

definition STRING_BUFFER_SIZE :: nat where "STRING_BUFFER_SIZE = 2048"

definition text_buffer :: "int \<Rightarrow> app_buffer" where
  "text_buffer a = ApplicationDataBuffer AI_CHAR a (int STRING_BUFFER_SIZE) 0"

definition c_string :: "string \<Rightarrow> string" where
  "c_string s = takeWhile (\<lambda>c. c \<noteq> NUL) s"

definition text_at :: "int \<Rightarrow> memory \<Rightarrow> string" where
  "text_at a m = c_string (map (\<lambda>x. char_of (unat x)) (read_bytes a STRING_BUFFER_SIZE m))"

abbreviation name_buffer :: app_buffer where "name_buffer \<equiv> text_buffer 4096"

text \<open>The loop that reads the names of a result: it ends with the first fetch that is not a success.\<close>

partial_function (option) fetch_names ::
  "(datum list, 'ci) service \<Rightarrow> (datum list, column_meta, app_buffer, memory) column_reader \<Rightarrow>
   (app_buffer, memory) bindings \<Rightarrow> (datum list, 'ci, column_meta) data_query \<Rightarrow> diag_storage \<Rightarrow>
   (string list \<times> (datum list, 'ci, column_meta) data_query \<times> diag_storage) option" where
  "fetch_names svc rd b q d =
     Option.bind (FetchNextRow svc rd b (run_worker_now svc q) d) (\<lambda>(r, b', q', d').
       if r = AI_SUCCESS then
         Option.bind (fetch_names svc rd b' q' d') (\<lambda>(ns, q'', d''). Some (text_at 4096 (snd b') # ns, q'', d''))
       else Some ([], q', d'))"

text \<open>The common part of \<^verbatim>\<open>getMatchedDatabases\<close> and \<^verbatim>\<open>getMatchedTables\<close>.\<close>

definition matched_names ::
  "'ci catalog_env \<Rightarrow> string \<Rightarrow> string \<Rightarrow> diag_storage \<Rightarrow>
   (sql_result \<times> string list \<times> (datum list, 'ci, column_meta) data_query \<times> diag_storage) option" where
  "matched_names E sql msg d =
     Option.bind (Execute (ct_query E) (DataQuery sql) d) (\<lambda>(r, q, d1).
       if r = AI_NO_DATA then
         Some (AI_SUCCESS_WITH_INFO, [], q, AddStatusRecord S01000_GENERAL_WARNING msg d1)
       else if r \<noteq> AI_SUCCESS then Some (r, [], q, d1)
       else
         Option.bind (fetch_names (ev_query (ct_query E)) (ct_reader E) ([1 \<mapsto> name_buffer], \<lambda>_. 0) q d1)
           (\<lambda>(ns, q', d2). Some (AI_SUCCESS, ns, q', d2)))"

section \<open>The query\<close>

record table_meta =
  tb_catalog :: "string option"
  tb_schema :: "string option"
  tb_name :: "string option"
  tb_type :: "string option"
  tb_remarks :: "string option"

definition TableMeta :: "string \<Rightarrow> string \<Rightarrow> string \<Rightarrow> string \<Rightarrow> table_meta" where
  "TableMeta c s t ty =
     \<lparr>tb_catalog = Some c, tb_schema = Some s, tb_name = Some t, tb_type = Some ty, tb_remarks = None\<rparr>"

text \<open>\<^verbatim>\<open>TableMeta::Read\<close> on an empty record.\<close>

definition table_type_meta :: "string \<Rightarrow> table_meta" where
  "table_type_meta ty =
     \<lparr>tb_catalog = None, tb_schema = None, tb_name = None, tb_type = Some ty, tb_remarks = None\<rparr>"

text \<open>A table of a database, which is reported as a schema or as a catalog.\<close>

definition table_row :: "bool \<Rightarrow> string \<Rightarrow> string \<Rightarrow> table_meta" where
  "table_row asSchema db t = (if asSchema then TableMeta [] db t ''TABLE'' else TableMeta db [] t ''TABLE'')"

text \<open>The cursor is an index into the vector, the end being its length.\<close>

record 'ci table_query =
  tq_catalog :: "string option"
  tq_schema :: "string option"
  tq_table :: "string option"
  tq_tableType :: "string option"
  tq_executed :: bool
  tq_fetched :: bool
  all_schemas :: bool
  all_catalogs :: bool
  all_table_types :: bool
  tq_meta :: "table_meta list"
  tq_cursor :: nat
  tq_columns :: "column_meta list"
  tq_dataQuery :: "(datum list, 'ci, column_meta) data_query option"

definition table_columns ::
  "bool \<Rightarrow> int \<Rightarrow> bool \<Rightarrow> bool \<Rightarrow> bool \<Rightarrow> (string \<times> scalar_type \<times> nullability_type) list" where
  "table_columns asSchema ver catalogs schemas types =
     (let cat = (if ver = SQL_OV_ODBC2 then ''TABLE_QUALIFIER'' else ''TABLE_CAT'');
          sch = (if ver = SQL_OV_ODBC2 then ''TABLE_OWNER'' else ''TABLE_SCHEM'')
      in if catalogs then
           [(cat, Scalar_VARCHAR, if asSchema then NULLABLE else NO_NULL), (sch, Scalar_VARCHAR, NULLABLE),
            (''TABLE_NAME'', Scalar_VARCHAR, NULLABLE), (''TABLE_TYPE'', Scalar_VARCHAR, NULLABLE),
            (''REMARKS'', Scalar_VARCHAR, NULLABLE)]
         else if schemas then
           [(cat, Scalar_VARCHAR, NULLABLE), (sch, Scalar_VARCHAR, if asSchema then NO_NULL else NULLABLE),
            (''TABLE_NAME'', Scalar_VARCHAR, NULLABLE), (''TABLE_TYPE'', Scalar_VARCHAR, NULLABLE),
            (''REMARKS'', Scalar_VARCHAR, NULLABLE)]
         else if types then
           [(cat, Scalar_VARCHAR, NULLABLE), (sch, Scalar_VARCHAR, NULLABLE),
            (''TABLE_NAME'', Scalar_VARCHAR, NULLABLE), (''TABLE_TYPE'', Scalar_VARCHAR, NO_NULL),
            (''REMARKS'', Scalar_VARCHAR, NULLABLE)]
         else
           [(cat, Scalar_VARCHAR, NULLABLE), (sch, Scalar_VARCHAR, NULLABLE),
            (''TABLE_NAME'', Scalar_VARCHAR, NO_NULL), (''TABLE_TYPE'', Scalar_VARCHAR, NO_NULL),
            (''REMARKS'', Scalar_VARCHAR, NULLABLE)])"

definition TableMetadataQuery ::
  "'ci catalog_env \<Rightarrow> string option \<Rightarrow> string option \<Rightarrow> string option \<Rightarrow> string option \<Rightarrow> 'ci table_query" where
  "TableMetadataQuery E cat sch tbl ty =
     (let catalogs = (\<not> ct_metadataId E \<and> cat = Some ''%'' \<and> sch = Some [] \<and> tbl = Some []);
          schemas = (\<not> ct_metadataId E \<and> sch = Some ''%'' \<and> cat = Some [] \<and> tbl = Some []);
          types = (ty = Some ''%'' \<and> cat = Some [] \<and> sch = Some [] \<and> tbl = Some [])
      in \<lparr>tq_catalog = cat, tq_schema = sch, tq_table = tbl, tq_tableType = ty, tq_executed = False,
          tq_fetched = False, all_schemas = schemas, all_catalogs = catalogs, all_table_types = types,
          tq_meta = [], tq_cursor = 0,
          tq_columns = result_columns (ct_asSchema E)
            (table_columns (ct_asSchema E) (ct_odbcVer E) catalogs schemas types),
          tq_dataQuery = None\<rparr>)"

section \<open>Searching\<close>

definition squote :: string where "squote = [char_of (39::nat)]"

definition getMatchedDatabases ::
  "'ci catalog_env \<Rightarrow> string \<Rightarrow> 'ci table_query \<Rightarrow> diag_storage \<Rightarrow>
   (sql_result \<times> string list \<times> 'ci table_query \<times> diag_storage) option" where
  "getMatchedDatabases E pat t d =
     map_option (\<lambda>(r, ns, q, d'). (r, ns, t\<lparr>tq_dataQuery := Some q\<rparr>, d'))
       (matched_names E (''SHOW DATABASES LIKE '' @ squote @ pat @ squote)
         (''No database is found with pattern '' @ squote @ pat @ squote) d)"

definition show_tables :: "string \<Rightarrow> string \<Rightarrow> string" where
  "show_tables db pat = ''SHOW TABLES FROM '' @ dquote @ db @ dquote @ '' LIKE '' @ squote @ pat @ squote"

definition getMatchedTables ::
  "'ci catalog_env \<Rightarrow> string \<Rightarrow> string \<Rightarrow> 'ci table_query \<Rightarrow> diag_storage \<Rightarrow>
   (sql_result \<times> string list \<times> 'ci table_query \<times> diag_storage) option" where
  "getMatchedTables E db pat t d =
     map_option (\<lambda>(r, ns, q, d'). (r, ns, t\<lparr>tq_dataQuery := Some q\<rparr>, d'))
       (matched_names E (show_tables db pat)
         (''No table is found with pattern '' @ squote @ pat @ squote @ '' from database ('' @ db @ '')'') d)"

definition warn_empty :: "string \<Rightarrow> diag_storage \<Rightarrow> diag_storage" where
  "warn_empty msg d = AddStatusRecord S01000_GENERAL_WARNING msg d"

definition getAllDatabases ::
  "'ci catalog_env \<Rightarrow> 'ci table_query \<Rightarrow> diag_storage \<Rightarrow> (sql_result \<times> 'ci table_query \<times> diag_storage) option" where
  "getAllDatabases E t d =
     map_option (\<lambda>(r, ns, t', d').
       if r \<noteq> AI_SUCCESS then (r, t', d')
       else (AI_SUCCESS, t'\<lparr>tq_meta := tq_meta t' @ map (\<lambda>db. table_row (ct_asSchema E) db []) ns\<rparr>, d'))
     (getMatchedDatabases E ''%'' t d)"

text \<open>Identifiers are compared without case, as C strings.\<close>

definition same_identifier :: "string \<Rightarrow> string \<Rightarrow> bool" where
  "same_identifier a b \<longleftrightarrow> ToUpper (c_string a) = ToUpper (c_string b)"

definition getTablesWithIdentifier ::
  "'ci catalog_env \<Rightarrow> string \<Rightarrow> 'ci table_query \<Rightarrow> diag_storage \<Rightarrow>
   (sql_result \<times> 'ci table_query \<times> diag_storage) option" where
  "getTablesWithIdentifier E ident t d =
     Option.bind (getMatchedDatabases E ''%'' t d) (\<lambda>(r, dbs, t1, d1).
       if r \<noteq> AI_SUCCESS then Some (r, t1, d1)
       else
         (case List.find (same_identifier ident) dbs of
            None \<Rightarrow> Some (AI_SUCCESS_WITH_INFO, t1, warn_empty (''No matched database for '' @ ident) d1)
          | Some db \<Rightarrow>
              map_option (\<lambda>(r2, ts, t2, d2).
                if r2 \<noteq> AI_SUCCESS \<and> r2 \<noteq> AI_SUCCESS_WITH_INFO then (r2, t2, d2)
                else
                  let t3 = t2\<lparr>tq_meta := tq_meta t2 @ map (table_row (ct_asSchema E) db)
                        (filter (same_identifier (text_of (tq_table t2))) ts)\<rparr>
                  in if tq_meta t3 = [] then
                       (AI_SUCCESS_WITH_INFO, t3, warn_empty
                          (''Empty result set is returned as we could not find tables with '' @ db @ ''.''
                            @ text_of (tq_table t2)) d2)
                     else (AI_SUCCESS, t3, d2))
              (getMatchedTables E db ''%'' t1 d1)))"

definition or_all :: "string option \<Rightarrow> string" where
  "or_all p = (case p of None \<Rightarrow> ''%'' | Some s \<Rightarrow> s)"

text \<open>The loop over the databases found; a query that fails ends it.\<close>

fun tables_of ::
  "'ci catalog_env \<Rightarrow> string list \<Rightarrow> 'ci table_query \<Rightarrow> diag_storage \<Rightarrow>
   (sql_result \<times> 'ci table_query \<times> diag_storage) option" where
  "tables_of E [] t d = Some (AI_SUCCESS, t, d)"
| "tables_of E (db # dbs) t d =
     Option.bind (getMatchedTables E db (or_all (tq_table t)) t d) (\<lambda>(r, ts, t1, d1).
       if r \<noteq> AI_SUCCESS \<and> r \<noteq> AI_SUCCESS_WITH_INFO then Some (r, t1, d1)
       else tables_of E dbs (t1\<lparr>tq_meta := tq_meta t1 @ map (table_row (ct_asSchema E) db) ts\<rparr>) d1)"

definition getTablesWithSearchPattern ::
  "'ci catalog_env \<Rightarrow> string option \<Rightarrow> 'ci table_query \<Rightarrow> diag_storage \<Rightarrow>
   (sql_result \<times> 'ci table_query \<times> diag_storage) option" where
  "getTablesWithSearchPattern E pat t d =
     Option.bind (getMatchedDatabases E (or_all pat) t d) (\<lambda>(r, dbs, t1, d1).
       if r \<noteq> AI_SUCCESS then Some (r, t1, d1)
       else
         map_option (\<lambda>(r2, t2, d2).
           if r2 \<noteq> AI_SUCCESS then (r2, t2, d2)
           else if tq_meta t2 = [] then
             (AI_SUCCESS_WITH_INFO, t2, warn_empty
                (''Empty result set is returned as we could not find tables for database pattern '' @ or_all pat) d2)
           else (AI_SUCCESS, t2, d2))
         (tables_of E dbs t1 d1))"

section \<open>Requests\<close>

definition null_argument :: "string \<Rightarrow> diag_storage \<Rightarrow> diag_storage" where
  "null_argument which d = AddStatusRecord SHY009_INVALID_USE_OF_NULL_POINTER
     (''The SQL_ATTR_METADATA_ID statement attribute is set to SQL_TRUE, and '' @ which
       @ '' or the TableName argument was a null pointer.'') d"

definition given_name :: "string option \<Rightarrow> bool" where
  "given_name p \<longleftrightarrow> p \<noteq> None \<and> p \<noteq> Some [] \<and> p \<noteq> Some ''%''"

definition getTables ::
  "'ci catalog_env \<Rightarrow> 'ci table_query \<Rightarrow> diag_storage \<Rightarrow> (sql_result \<times> 'ci table_query \<times> diag_storage) option" where
  "getTables E t d =
     (let db = (if ct_asSchema E then tq_schema t else tq_catalog t);
          other = (if ct_asSchema E then tq_catalog t else tq_schema t);
          info = (\<lambda>msg. Some (AI_SUCCESS_WITH_INFO, t, warn_empty msg d))
      in if ct_metadataId E then
           (if db = None \<or> tq_table t = None then
              Some (AI_ERROR, t, null_argument (if ct_asSchema E then ''SchemaName'' else ''CatalogName'') d)
            else getTablesWithIdentifier E (text_of db) t d)
         else if (if ct_asSchema E then all_schemas t else all_catalogs t) then getAllDatabases E t d
         else if given_name other then
           info (if ct_asSchema E
             then ''Empty result set is returned as catalog is set to '' @ dquote @ text_of other @ dquote
               @ '' and Timestream does not have catalogs''
             else ''Empty result set is returned as schema is set to '' @ dquote @ text_of other @ dquote
               @ '' and Timestream does not have schemas'')
         else if (if ct_asSchema E then all_catalogs t else all_schemas t) then
           info (if ct_asSchema E
             then ''Empty result set is returned for a list of catalogs because Timestream does not have catalogs''
             else ''Empty result set is returned for a list of schemas because Timestream does not have schemas'')
         else if db = Some [] \<or> tq_table t = Some [] then
           info (if ct_asSchema E then ''Schema and table name should not be empty''
             else ''Catalog and table name should not be empty'')
         else getTablesWithSearchPattern E db t d)"

definition dequote :: "string \<Rightarrow> string" where
  "dequote s =
     (if 2 \<le> length s \<and> (hd s = char_of (39::nat) \<and> last s = char_of (39::nat)
          \<or> hd s = char_of (34::nat) \<and> last s = char_of (34::nat))
      then butlast (tl s) else s)"

text \<open>\<^verbatim>\<open>std::getline\<close> up to the end of the text.\<close>

fun getlines :: "char \<Rightarrow> string \<Rightarrow> string list" where
  "getlines c [] = []"
| "getlines c (x # s) =
     (let p = takeWhile (\<lambda>y. y \<noteq> c) (x # s) in p # getlines c (drop (length p) s))"

definition accepts_tables :: "string \<Rightarrow> bool" where
  "accepts_tables ty \<longleftrightarrow> ty = [] \<or> ty = ''%''
     \<or> list_ex (\<lambda>p. dequote (Trim p) = ''TABLE'') (getlines (CHR '','') ty)"

definition MakeRequestGetTablesMeta ::
  "'ci catalog_env \<Rightarrow> 'ci table_query \<Rightarrow> diag_storage \<Rightarrow> (sql_result \<times> 'ci table_query \<times> diag_storage) option" where
  "MakeRequestGetTablesMeta E t0 d =
     (let t = t0\<lparr>tq_meta := []\<rparr> in
      if all_table_types t then Some (AI_SUCCESS, t\<lparr>tq_meta := [table_type_meta ''TABLE'']\<rparr>, d)
      else
        (case tq_tableType t of
           None \<Rightarrow> getTables E t d
         | Some ty \<Rightarrow>
             if \<not> accepts_tables ty then
               Some (AI_SUCCESS_WITH_INFO, t, warn_empty
                 (''Empty result set is returned as tableType is set to '' @ dquote @ ty @ dquote
                   @ '' and Timestream only supports '' @ dquote @ ''TABLE'' @ dquote @ '' table type'') d)
             else getTables E t d))"

section \<open>The operations of the query\<close>

definition Table_Close :: "'ci table_query \<Rightarrow> 'ci table_query" where
  "Table_Close t = t\<lparr>tq_meta := [], tq_cursor := 0, tq_executed := False\<rparr>"

definition Table_Execute ::
  "'ci catalog_env \<Rightarrow> 'ci table_query \<Rightarrow> diag_storage \<Rightarrow> (sql_result \<times> 'ci table_query \<times> diag_storage) option" where
  "Table_Execute E t d =
     map_option (\<lambda>(r, t1, d1).
       if r = AI_SUCCESS \<or> r = AI_SUCCESS_WITH_INFO
       then (r, t1\<lparr>tq_executed := True, tq_fetched := False,
               tq_cursor := (if tq_meta t1 \<noteq> [] then 0 else tq_cursor t1)\<rparr>, d1)
       else (r, t1, d1))
     (MakeRequestGetTablesMeta E (if tq_executed t then Table_Close t else t) d)"

definition Table_Cancel ::
  "'ci catalog_env \<Rightarrow> 'ci table_query \<Rightarrow> diag_storage \<Rightarrow> (sql_result \<times> 'ci table_query \<times> diag_storage) option" where
  "Table_Cancel E t d =
     map_option (\<lambda>(q, d'). (AI_SUCCESS, Table_Close (t\<lparr>tq_dataQuery := q\<rparr>), d'))
       (case tq_dataQuery t of
          None \<Rightarrow> Some (None, d)
        | Some q \<Rightarrow> map_option (\<lambda>(_, q', d'). (Some q', d')) (Cancel (ct_query E) q d))"

definition table_cell :: "nat \<Rightarrow> table_meta \<Rightarrow> string option option" where
  "table_cell i x =
     (if i = 1 then Some (tb_catalog x) else if i = 2 then Some (tb_schema x)
      else if i = 3 then Some (tb_name x) else if i = 4 then Some (tb_type x)
      else if i = 5 then Some (tb_remarks x) else None)"

definition Table_GetColumn ::
  "conv_env \<Rightarrow> nat \<Rightarrow> app_buffer \<Rightarrow> memory \<Rightarrow> 'ci table_query \<Rightarrow> diag_storage \<Rightarrow>
   (sql_result \<times> app_buffer \<times> memory \<times> diag_storage) option" where
  "Table_GetColumn e i buf m t d =
     (if \<not> tq_executed t then
        Some (AI_ERROR, buf, m, AddStatusRecord SHY010_SEQUENCE_ERROR ''Query was not executed.'' d)
      else if tq_meta t = [] then Some (AI_NO_DATA, buf, m, d)
      else if length (tq_meta t) \<le> tq_cursor t then
        Some (AI_ERROR, buf, m, AddStatusRecord S24000_INVALID_CURSOR_STATE
          ''Cursor has reached end of the result set.'' d)
      else
        (case table_cell i (tq_meta t ! tq_cursor t) of
           None \<Rightarrow> Some (AI_SUCCESS, buf, m, d)
         | Some v \<Rightarrow> map_option (\<lambda>(_, buf', m'). (AI_SUCCESS, buf', m', d)) (PutOptString e v buf m)))"

text \<open>The loop over the bound columns in ascending order, for the columns the query has; other columns leave
  their buffer alone.\<close>

fun table_cells ::
  "conv_env \<Rightarrow> 'ci table_query \<Rightarrow> nat list \<Rightarrow> (app_buffer, memory) bindings \<Rightarrow> diag_storage \<Rightarrow>
   ((app_buffer, memory) bindings \<times> diag_storage) option" where
  "table_cells e t [] b d = Some (b, d)"
| "table_cells e t (i # is) b d =
     (case fst b i of
        None \<Rightarrow> table_cells e t is b d
      | Some buf \<Rightarrow>
          Option.bind (Table_GetColumn e i buf (snd b) t d) (\<lambda>(_, buf', m', d').
            table_cells e t is ((fst b)(i \<mapsto> buf'), m') d'))"

definition Table_FetchNextRow ::
  "conv_env \<Rightarrow> (app_buffer, memory) bindings \<Rightarrow> 'ci table_query \<Rightarrow> diag_storage \<Rightarrow>
   (sql_result \<times> (app_buffer, memory) bindings \<times> 'ci table_query \<times> diag_storage) option" where
  "Table_FetchNextRow e b t d =
     (if \<not> tq_executed t then
        Some (AI_ERROR, b, t, AddStatusRecord SHY010_SEQUENCE_ERROR ''Query was not executed.'' d)
      else if tq_meta t = [] then Some (AI_NO_DATA, b, t, d)
      else
        let t1 = (if \<not> tq_fetched t then t\<lparr>tq_fetched := True\<rparr>
                  else if tq_cursor t \<noteq> length (tq_meta t) then t\<lparr>tq_cursor := tq_cursor t + 1\<rparr> else t)
        in if tq_cursor t1 = length (tq_meta t1) then Some (AI_NO_DATA, b, t1, d)
           else map_option (\<lambda>(b', d'). (AI_SUCCESS, b', t1, d')) (table_cells e t1 [1..<6] b d))"

definition Table_RowNumber :: "'ci table_query \<Rightarrow> diag_storage \<Rightarrow> int \<times> diag_storage" where
  "Table_RowNumber t d =
     (if \<not> tq_executed t \<or> tq_cursor t = length (tq_meta t)
      then (0, AddStatusRecord S01000_GENERAL_WARNING ''Cursor does not point to any data.'' d)
      else (int (tq_cursor t) + 1, d))"

definition table_query_class :: "'ci catalog_env \<Rightarrow> ('ci table_query, column_meta, app_buffer, memory) query_class" where
  "table_query_class E =
     \<lparr>vt_Execute = Table_Execute E, vt_Cancel = Table_Cancel E, vt_FetchNextRow = Table_FetchNextRow (ct_conv E),
      vt_GetColumn = Table_GetColumn (ct_conv E), vt_Close = (\<lambda>t. Some (AI_SUCCESS, Table_Close t)),
      vt_GetMeta = (\<lambda>t d. Some (Some (tq_columns t), t, d)),
      vt_DataAvailable = (\<lambda>t. tq_executed t \<and> tq_meta t \<noteq> [] \<and> tq_cursor t \<noteq> length (tq_meta t)),
      vt_AffectedRows = (\<lambda>_. 0), vt_RowNumber = Table_RowNumber, vt_NextResultSet = (\<lambda>_. AI_NO_DATA)\<rparr>"

text \<open>The rows still to be fetched.\<close>

definition table_rows :: "'ci table_query \<Rightarrow> table_meta list \<Rightarrow> bool" where
  "table_rows t rows \<longleftrightarrow> tq_executed t \<and> tq_cursor t \<le> length (tq_meta t)
     \<and> rows = drop (if tq_fetched t then tq_cursor t + 1 else tq_cursor t) (tq_meta t)"

lemma table_fetch:
  assumes "table_rows t rows" and "Table_FetchNextRow e b t d = Some (r, b', t', d')"
  shows "r = (if rows = [] then AI_NO_DATA else AI_SUCCESS) \<and> table_rows t' (tl rows)"
  using assms
  by (auto simp: table_rows_def Table_FetchNextRow_def Let_def drop_Suc tl_drop split: if_splits prod.splits)

interpretation table_source: row_source "Table_FetchNextRow e" table_rows
  by unfold_locales (auto dest: table_fetch)

end
