(* ===== verification/Table_Props.thy ===== *)
theory Table_Props
  imports Table_Metadata
begin

text \<open>
  What the table catalog finds: names read through the local buffer are the names of the service, on any
  number of pages; and a search by patterns or by identifiers lists the tables of the databases found.
\<close>

section \<open>Fetching with known rows\<close>

lemma fetch_known_row:
  assumes "remaining svc q (x # xs)" and "\<not> hasAsyncFetch q \<or> dq_queue q \<noteq> []"
  shows "\<exists>c q'. iterator c < length (rowVec c) \<and> rowVec c ! iterator c = x \<and> remaining svc q' xs
    \<and> resultMeta q' = resultMeta q
    \<and> FetchNextRow svc rd b q d =
        map_option (\<lambda>(ok, b', d'). if ok then (AI_SUCCESS, b', q'\<lparr>rowCounter := rowCounter q' + 1\<rparr>, d')
          else (AI_ERROR, b', q', d'))
        (read_columns rd (resultMeta q) c 1 (length (resultMeta q)) b d)"
proof -
  obtain c rest where c: "dq_cursor q = Some c" "good_cursor c" "pending_rows svc q rest"
    "x # xs = drop (curPos c) (rowVec c) @ rest"
    using assms(1) by (auto simp: remaining_def)
  obtain more c1 where inc: "Increment c = (more, c1)" by (cases "Increment c")
  let ?q1 = "q\<lparr>dq_cursor := Some c1\<rparr>"
  note I = Increment_good [OF c(2), unfolded inc, simplified]
  show ?thesis
  proof (cases more)
    case True
    then have d: "drop (curPos c) (rowVec c) = rowVec c ! curPos c # drop (curPos c + 1) (rowVec c)"
      using I by (simp add: Cons_nth_drop_Suc)
    then have "remaining svc ?q1 xs" "rowVec c1 ! iterator c1 = x" "iterator c1 < length (rowVec c1)"
      using I True c by (auto simp: remaining_def)
    then show ?thesis
      using c(1) True by (intro exI [of _ c1] exI [of _ ?q1]) (simp add: FetchNextRow_def inc Let_def)
  next
    case False
    then have rest: "rest = x # xs" using I c(4) by simp
    have has: "hasAsyncFetch q" using c(3) rest by (auto simp: pending_rows_def split: if_splits)
    then obtain r where q: "dq_threads q = [Finished]" "dq_queue q = [r]" "produces svc (dq_request q) r rest"
      using assms(2) c(3) by (auto simp: pending_rows_def)
    have "\<exists>r2 q2. SwitchCursor svc ?q1 = Some (r2, q2)"
      using q(3) by (cases rule: produces_cases)
        (auto simp: SwitchCursor_def q(1,2) Let_def join_front_def run_front_def)
    then obtain r2 q2 where sw: "SwitchCursor svc ?q1 = Some (r2, q2)" by blast
    have pend: "pending_rows svc ?q1 rest" and has1: "hasAsyncFetch ?q1" using c(3) has by simp_all
    obtain c2 rest' where S: "r2 = AI_SUCCESS" "dq_cursor q2 = Some c2" "good_cursor c2" "curPos c2 = 1"
      "rowVec c2 \<noteq> []" "rest = rowVec c2 @ rest'" "pending_rows svc q2 rest'" "resultMeta q2 = resultMeta ?q1"
      by (rule switch_page [OF pend has1 sw])
    have it: "iterator c2 = 0" using S(3,4) by (simp add: good_cursor_def)
    obtain y ys where ys: "rowVec c2 = y # ys" using S(5) by (cases "rowVec c2") simp_all
    have "remaining svc q2 xs" using S rest ys by (auto simp: remaining_def)
    moreover have "rowVec c2 ! iterator c2 = x" "iterator c2 < length (rowVec c2)" using S rest ys it by auto
    ultimately show ?thesis
      using c(1) False has sw S(1,2,8)
      by (intro exI [of _ c2] exI [of _ q2]) (simp add: FetchNextRow_def inc Let_def)
  qed
qed

lemma produces_rows: "produces svc rq r rows \<Longrightarrow> rows \<noteq> []"
  by (erule produces_cases) simp_all

lemma fetch_known_end:
  assumes "remaining svc q []"
  shows "\<exists>q'. FetchNextRow svc rd b q d = Some (AI_NO_DATA, b, q', d) \<and> remaining svc q' []"
proof -
  obtain c where c: "dq_cursor q = Some c" "good_cursor c" "pending_rows svc q []" "drop (curPos c) (rowVec c) = []"
    by (use assms in \<open>auto simp: remaining_def\<close>)
  have no: "\<not> hasAsyncFetch q"
    using c(3) produces_rows by (fastforce simp: pending_rows_def chain_iff)
  obtain c1 where inc: "Increment c = (False, c1)" "good_cursor c1" "length (rowVec c1) \<le> curPos c1"
    using Increment_good [OF c(2)] c(4) by (cases "Increment c") auto
  with c no show ?thesis
    by (intro exI [of _ "q\<lparr>dq_cursor := Some c1\<rparr>"]) (simp add: FetchNextRow_def Let_def remaining_def)
qed

lemma thread_step_meta:
  "thread_step svc i q = Some q' \<Longrightarrow> resultMeta q' = resultMeta q \<and> hasAsyncFetch q' = hasAsyncFetch q"
  by (auto simp: thread_step_def split: if_splits thread.splits)

lemma run_worker_now_meta:
  "resultMeta (run_worker_now svc q) = resultMeta q \<and> hasAsyncFetch (run_worker_now svc q) = hasAsyncFetch q"
proof (cases "thread_step svc 0 q")
  case (Some q1)
  then show ?thesis
    using thread_step_meta [OF Some] thread_step_meta [of svc 0 q1]
    by (cases "thread_step svc 0 q1") (simp_all add: run_worker_now_def)
qed (simp add: run_worker_now_def)

lemma worker_now:
  assumes "remaining svc q rows"
  shows "remaining svc (run_worker_now svc q) rows"
    and "resultMeta (run_worker_now svc q) = resultMeta q"
    and "\<not> hasAsyncFetch (run_worker_now svc q) \<or> dq_queue (run_worker_now svc q) \<noteq> []"
proof -
  show "remaining svc (run_worker_now svc q) rows"
    using assms worker_keeps [OF assms] worker_keeps [OF worker_keeps [OF assms]]
    unfolding run_worker_now_def by (simp split: option.split)
  show "resultMeta (run_worker_now svc q) = resultMeta q"
    by (simp add: run_worker_now_meta)
  obtain rest where "pending_rows svc q rest" using assms by (auto simp: remaining_def)
  then consider "\<not> hasAsyncFetch q" | "hasAsyncFetch q" "dq_threads q = [Running]" "dq_queue q = []"
    | r where "hasAsyncFetch q" "dq_threads q = [Waiting r]" "dq_queue q = []"
    | r where "hasAsyncFetch q" "dq_threads q = [Finished]" "dq_queue q = [r]"
    by (auto simp: pending_rows_def split: if_splits)
  then show "\<not> hasAsyncFetch (run_worker_now svc q) \<or> dq_queue (run_worker_now svc q) \<noteq> []"
  proof cases
    case 1
    then show ?thesis by (simp add: run_worker_now_meta)
  qed (simp_all add: run_worker_now_def thread_step_def)
qed

section \<open>Names\<close>

text \<open>The names databases and tables can have are short texts of ASCII characters.\<close>

definition service_name :: "string \<Rightarrow> bool" where
  "service_name n \<longleftrightarrow> n \<noteq> [] \<and> ascii n \<and> length n < STRING_BUFFER_SIZE"

definition narrow_ok :: "text_mode \<Rightarrow> bool" where
  "narrow_ok md \<longleftrightarrow> (case md of Ansi \<Rightarrow> True | Unicode nr \<Rightarrow> (\<forall>c. char_code c < 128 \<longrightarrow> nr (char_code c) = c))"

lemma text_buffer_simps [simp]:
  "GetData (text_buffer a) = a" "GetResLen (text_buffer a) = 0" "ab_type (text_buffer a) = AI_CHAR"
  "ab_buflen (text_buffer a) = 2048" "ab_cellOffset (text_buffer a) = - 1"
  by (simp_all add: text_buffer_def buffer_simps STRING_BUFFER_SIZE_def) (simp_all add: ApplicationDataBuffer_def)

lemma text_put:
  assumes "narrow_ok (ce_mode e)" and "service_name n" and "a \<noteq> 0"
  shows "PutString e n (text_buffer a) m = Some (Conv_SUCCESS, text_buffer a, write_bytes a (str_bytes n @ [0]) m)"
proof -
  have n: "n \<noteq> []" "ascii n" "length n < 2048" using assms(2) by (auto simp: service_name_def STRING_BUFFER_SIZE_def)
  have copy: "CopyText (ce_mode e) n a 2048 m = CopyText Ansi n a 2048 m"
    using assms(1) n CopyText_modes_agree [of _ n 2048 a m]
    by (auto simp: narrow_ok_def split: text_mode.splits)
  have c: "CopyText (ce_mode e) n a 2048 m = Some (length n, False, write_bytes a (str_bytes n @ [0]) m)"
    unfolding copy using n(3) by (simp add: CopyText_def CopyUtf8StringToSqlCharString_def)
  have req: "bytes_required (ce_mode e) 1 n = Some (length n)"
    using n by (auto simp: bytes_required_def from_bytes_ascii split: text_mode.split)
  show ?thesis
    using n assms(3) by (simp add: PutString_def PutText_def req [simplified] c Let_def text_result_def store_len_def)
qed

lemma ascii_no_NUL: "ascii s \<Longrightarrow> NUL \<notin> set s"
  by (auto simp: ascii_def NUL_def char_code_def)

lemma c_string_stops: "NUL \<notin> set s \<Longrightarrow> c_string (s @ NUL # r) = s"
  unfolding c_string_def by (subst takeWhile_append2) auto

lemma text_read:
  assumes "service_name n" and "read_bytes a (length n + 1) m = str_bytes n @ [0]"
  shows "text_at a m = n"
proof -
  have n: "length n < 2048" "NUL \<notin> set n"
    using assms(1) ascii_no_NUL by (auto simp: service_name_def STRING_BUFFER_SIZE_def)
  have "read_bytes a 2048 m = read_bytes a (length n + 1) m @ read_bytes (a + int (length n + 1)) (2047 - length n) m"
    using n(1) read_bytes_split [of a "length n + 1" "2047 - length n" m] by simp
  then have "map (\<lambda>x. char_of (unat x)) (read_bytes a 2048 m) =
      n @ NUL # map (\<lambda>x. char_of (unat x)) (read_bytes (a + int (length n + 1)) (2047 - length n) m)"
    unfolding assms(2) by (simp add: char_of_0 bytes_chars [unfolded comp_def])
  then show ?thesis by (simp add: text_at_def STRING_BUFFER_SIZE_def c_string_stops [OF n(2)])
qed

lemma text_written: "read_bytes a (length n + 1) (write_bytes a (str_bytes n @ [0]) m) = str_bytes n @ [0]"
  using read_write_bytes [of a "str_bytes n @ [0]" m] by simp

section \<open>Reading a list of names\<close>

lemma read_columns_unbound:
  "(\<And>j. i \<le> j \<Longrightarrow> fst b j = None) \<Longrightarrow> read_columns rd meta c i n b d = Some (True, b, d)"
  by (induction n arbitrary: i) simp_all

lemma read_name_column:
  assumes "narrow_ok (ce_mode e)" and "service_name n" and "iterator c < length (rowVec c)"
    and "rowVec c ! iterator c = [Scalar_Value n]" and "meta \<noteq> []" and "GetScalarType (hd meta) = Scalar_VARCHAR"
  shows "read_columns (service_reader e junk) meta c 1 (length meta) ([1 \<mapsto> name_buffer], m) d =
    Some (True, ([1 \<mapsto> name_buffer], write_bytes 4096 (str_bytes n @ [0]) m), d)"
proof -
  obtain c0 cs where meta: "meta = c0 # cs" using assms(5) by (cases meta) simp_all
  have "ReadColumnToBuffer (service_reader e junk) meta c 1 name_buffer m =
      Some (Conv_SUCCESS, name_buffer, write_bytes 4096 (str_bytes n @ [0]) m)"
    using assms(3,4,6) text_put [OF assms(1,2), of 4096 m]
    by (simp add: ReadColumnToBuffer_def meta service_reader_def ReadToBuffer_def ParseScalarType_def)
  moreover have "read_columns (service_reader e junk) meta c 2 (length cs) ([1 \<mapsto> name_buffer], m') d =
      Some (True, ([1 \<mapsto> name_buffer], m'), d)" for m'
    by (rule read_columns_unbound) simp
  ultimately show ?thesis
    by (simp add: meta ProcessConversionResult_def numeral_2_eq_2)
qed

lemma fetch_names_all:
  assumes "narrow_ok (ce_mode e)" and "\<forall>n\<in>set ns. service_name n"
    and "remaining svc q (map (\<lambda>n. [Scalar_Value n]) ns)"
    and "resultMeta q \<noteq> []" and "GetScalarType (hd (resultMeta q)) = Scalar_VARCHAR"
  shows "\<exists>q'. fetch_names svc (service_reader e junk) ([1 \<mapsto> name_buffer], m) q d = Some (ns, q', d)"
  using assms(2-5)
proof (induction ns arbitrary: q m)
  case Nil
  then obtain q' where "FetchNextRow svc (service_reader e junk) ([1 \<mapsto> name_buffer], m) (run_worker_now svc q) d =
      Some (AI_NO_DATA, ([1 \<mapsto> name_buffer], m), q', d)"
    using fetch_known_end [of svc "run_worker_now svc q"] worker_now(1) [of svc q] by fastforce
  then show ?case by (subst fetch_names.simps) simp
next
  case (Cons n ns)
  let ?b = "([1 \<mapsto> name_buffer], m)" and ?m = "write_bytes 4096 (str_bytes n @ [0]) m"
  have rem: "remaining svc (run_worker_now svc q) ([Scalar_Value n] # map (\<lambda>n. [Scalar_Value n]) ns)"
    using worker_now(1) [OF Cons.prems(2)] by simp
  have ready: "\<not> hasAsyncFetch (run_worker_now svc q) \<or> dq_queue (run_worker_now svc q) \<noteq> []"
    by (rule worker_now(3) [OF Cons.prems(2)])
  note meta = worker_now(2) [OF Cons.prems(2)]
  obtain c q1 where F: "iterator c < length (rowVec c)" "rowVec c ! iterator c = [Scalar_Value n]"
    "remaining svc q1 (map (\<lambda>n. [Scalar_Value n]) ns)" "resultMeta q1 = resultMeta q"
    "FetchNextRow svc (service_reader e junk) ?b (run_worker_now svc q) d =
        map_option (\<lambda>(ok, b', d'). if ok then (AI_SUCCESS, b', q1\<lparr>rowCounter := rowCounter q1 + 1\<rparr>, d')
          else (AI_ERROR, b', q1, d'))
        (read_columns (service_reader e junk) (resultMeta q) c 1 (length (resultMeta q)) ?b d)"
    using fetch_known_row [OF rem ready, of "service_reader e junk" ?b d] unfolding meta by blast
  have name: "service_name n" using Cons.prems(1) by simp
  have fetch: "FetchNextRow svc (service_reader e junk) ?b (run_worker_now svc q) d =
      Some (AI_SUCCESS, ([1 \<mapsto> name_buffer], ?m), q1\<lparr>rowCounter := rowCounter q1 + 1\<rparr>, d)"
    unfolding F(5) read_name_column [OF assms(1) name F(1,2) Cons.prems(3,4)] by simp
  let ?q2 = "q1\<lparr>rowCounter := rowCounter q1 + 1\<rparr>"
  have meta2: "resultMeta ?q2 \<noteq> []" "GetScalarType (hd (resultMeta ?q2)) = Scalar_VARCHAR"
    using Cons.prems(3,4) F(4) by simp_all
  have "remaining svc ?q2 (map (\<lambda>n. [Scalar_Value n]) ns)"
    using F(3) by (simp add: remaining_def)
  moreover have "\<forall>n\<in>set ns. service_name n" using Cons.prems(1) by simp
  ultimately obtain q' where
    "fetch_names svc (service_reader e junk) ([1 \<mapsto> name_buffer], ?m) ?q2 d = Some (ns, q', d)"
    using Cons.IH [of ?q2 ?m] meta2 by blast
  then show ?case
    by (subst fetch_names.simps) (simp add: fetch [unfolded One_nat_def] text_read [OF name text_written])
qed

text \<open>\<open>answers\<close>: the service answers a text with a column of character values, namely these names, on any
  number of pages.\<close>

definition answers :: "(datum list, 'ci, column_meta) query_env \<Rightarrow> string \<Rightarrow> string list \<Rightarrow> bool" where
  "answers e sql ns \<longleftrightarrow> (\<forall>n\<in>set ns. service_name n)
     \<and> (\<forall>rq p. rq_sql rq = sql \<and> ev_query e rq = Page p \<longrightarrow>
          pg_columns p \<noteq> [] \<and> GetScalarType (ev_readMeta e (hd (pg_columns p))) = Scalar_VARCHAR)
     \<and> (if ns = [] then \<exists>rq p. request_loop (ev_query e) (first_request e sql) = Some (rq, Page p) \<and> pg_rows p = []
        else lead_chain (ev_query e) (first_request e sql) (map (\<lambda>n. [Scalar_Value n]) ns))"

lemma request_loop_keeps:
  assumes "request_loop svc rq = Some y"
  shows "rq_sql (fst y) = rq_sql rq \<and> snd y = svc (fst y)"
  using assms
  by (rule request_loop.raw_induct [rotated]) (fastforce split: outcome.splits if_splits)

lemma Execute_first_page:
  "Execute e (DataQuery sql) d =
     (case request_loop (ev_query e) (first_request e sql) of
        None \<Rightarrow> None
      | Some (rq, Failed _) \<Rightarrow> MakeRequestExecute e (DataQuery sql) d
      | Some (rq, Page p) \<Rightarrow>
          let q1 = (DataQuery sql)\<lparr>dq_request := rq, dq_result := Some p\<rparr> in
          if pg_rows p = [] then Some (AI_NO_DATA, q1, d)
          else
            let q2 = q1\<lparr>dq_cursor := Some (TimestreamCursor (pg_rows p))\<rparr>;
                q3 = (if pg_token p \<noteq> []
                      then (addThreads (SetNextToken (pg_token p) q2))\<lparr>hasAsyncFetch := True\<rparr> else q2)
            in Some (MakeRequestFetch (ev_readMeta e) q3 d))"
proof -
  have rq1: "(case ev_maxRows e of None \<Rightarrow> (dq_request (DataQuery sql))\<lparr>rq_sql := dq_sql (DataQuery sql)\<rparr>
      | Some n \<Rightarrow> (dq_request (DataQuery sql))\<lparr>rq_sql := dq_sql (DataQuery sql), rq_maxRows := Some n\<rparr>) =
      first_request e sql"
    by (simp add: first_request_def DataQuery_def split: option.split)
  have ex: "Execute e (DataQuery sql) d = MakeRequestExecute e (DataQuery sql) d"
    by (simp add: Execute_def DataQuery_def)
  show ?thesis
    unfolding ex MakeRequestExecute_def Let_def rq1 by (auto split: option.split outcome.split prod.split)
qed

lemma matched_names_answers:
  assumes "answers (ct_query E) sql ns" and "narrow_ok (ce_mode (ct_conv E))"
  shows "\<exists>q d'. matched_names E sql msg d = Some (if ns = [] then AI_SUCCESS_WITH_INFO else AI_SUCCESS, ns, q, d')"
proof (cases "ns = []")
  case True
  then obtain rq p where "request_loop (ev_query (ct_query E)) (first_request (ct_query E) sql) = Some (rq, Page p)"
    "pg_rows p = []"
    using assms(1) by (auto simp: answers_def)
  then show ?thesis using True by (simp add: matched_names_def Execute_first_page)
next
  case False
  let ?e = "ct_query E" and ?rows = "map (\<lambda>n. [Scalar_Value n]) ns"
  have lead: "lead_chain (ev_query ?e) (first_request ?e sql) ?rows"
    and cols: "\<forall>rq p. rq_sql rq = sql \<and> ev_query ?e rq = Page p \<longrightarrow>
          pg_columns p \<noteq> [] \<and> GetScalarType (ev_readMeta ?e (hd (pg_columns p))) = Scalar_VARCHAR"
    and names: "\<forall>n\<in>set ns. service_name n"
    using assms(1) False by (simp_all add: answers_def)
  obtain q where q: "Execute ?e (DataQuery sql) d = Some (AI_SUCCESS, q, d)" "remaining (ev_query ?e) q ?rows"
    using Execute_fresh [OF lead] by blast
  obtain rq p where loop: "request_loop (ev_query ?e) (first_request ?e sql) = Some (rq, Page p)"
    using request_loop_lead [OF lead] by blast
  have "rq_sql rq = sql" "ev_query ?e rq = Page p"
    using request_loop_keeps [OF loop] by (auto simp: first_request_def)
  with cols have "pg_columns p \<noteq> []" "GetScalarType (ev_readMeta ?e (hd (pg_columns p))) = Scalar_VARCHAR" by auto
  moreover have "resultMeta q = map (ev_readMeta ?e) (pg_columns p)" if "pg_columns p \<noteq> []"
    using q(1) that unfolding Execute_first_page loop
    by (auto simp: Let_def MakeRequestFetch_def ReadColumnMetadataVector_def DataQuery_def addThreads_def
        SetNextToken_def split: if_splits)
  ultimately have "resultMeta q \<noteq> []" "GetScalarType (hd (resultMeta q)) = Scalar_VARCHAR" by (simp_all add: hd_map)
  then obtain q' where "fetch_names (ev_query ?e) (ct_reader E) ([1 \<mapsto> name_buffer], \<lambda>_. 0) q d = Some (ns, q', d)"
    using fetch_names_all [OF assms(2) names q(2)] by blast
  with q(1) False show ?thesis by (simp add: matched_names_def)
qed

section \<open>Searches\<close>

definition show_databases :: "string \<Rightarrow> string" where
  "show_databases pat = ''SHOW DATABASES LIKE '' @ squote @ pat @ squote"

lemma databases_found:
  assumes "answers (ct_query E) (show_databases pat) dbs" and "narrow_ok (ce_mode (ct_conv E))"
  shows "\<exists>q d'. getMatchedDatabases E pat t d =
    Some (if dbs = [] then AI_SUCCESS_WITH_INFO else AI_SUCCESS, dbs, t\<lparr>tq_dataQuery := Some q\<rparr>, d')"
  using matched_names_answers [OF assms [unfolded show_databases_def]]
  unfolding getMatchedDatabases_def by fastforce

lemma tables_found:
  assumes "answers (ct_query E) (show_tables db pat) ts" and "narrow_ok (ce_mode (ct_conv E))"
  shows "\<exists>q d'. getMatchedTables E db pat t d =
    Some (if ts = [] then AI_SUCCESS_WITH_INFO else AI_SUCCESS, ts, t\<lparr>tq_dataQuery := Some q\<rparr>, d')"
  using matched_names_answers [OF assms] unfolding getMatchedTables_def by fastforce

definition add_tables ::
  "(datum list, 'ci, column_meta) data_query option \<Rightarrow> table_meta list \<Rightarrow> 'ci table_query \<Rightarrow> 'ci table_query" where
  "add_tables q rows t = t\<lparr>tq_dataQuery := q, tq_meta := tq_meta t @ rows\<rparr>"

lemma add_tables_simps:
  "tq_table (add_tables q rows t) = tq_table t" "add_tables q2 rows2 (add_tables q rows t) = add_tables q2 (rows @ rows2) t"
  "add_tables (tq_dataQuery t) [] t = t"
  by (simp_all add: add_tables_def)

lemma tables_of_databases:
  assumes "\<forall>db\<in>set dbs. answers (ct_query E) (show_tables db (or_all (tq_table t))) (tabs db)"
    and "narrow_ok (ce_mode (ct_conv E))"
  shows "\<exists>q d'. tables_of E dbs t d =
    Some (AI_SUCCESS, add_tables q (concat (map (\<lambda>db. map (table_row (ct_asSchema E) db) (tabs db)) dbs)) t, d')"
  using assms(1)
proof (induction dbs arbitrary: t d)
  case Nil
  show ?case by (rule exI [of _ "tq_dataQuery t"]) (simp add: add_tables_simps)
next
  case (Cons db dbs)
  have db: "answers (ct_query E) (show_tables db (or_all (tq_table t))) (tabs db)" using Cons.prems by simp
  obtain q d1 where "getMatchedTables E db (or_all (tq_table t)) t d =
      Some (if tabs db = [] then AI_SUCCESS_WITH_INFO else AI_SUCCESS, tabs db, t\<lparr>tq_dataQuery := Some q\<rparr>, d1)"
    using tables_found [OF db assms(2)] by blast
  then have one: "tables_of E (db # dbs) t d =
      tables_of E dbs (add_tables (Some q) (map (table_row (ct_asSchema E) db) (tabs db)) t) d1"
    by (simp add: add_tables_def)
  have rest: "\<forall>x\<in>set dbs. answers (ct_query E)
      (show_tables x (or_all (tq_table (add_tables (Some q) (map (table_row (ct_asSchema E) db) (tabs db)) t)))) (tabs x)"
    using Cons.prems by (simp add: add_tables_simps)
  show ?case
    unfolding one using Cons.IH [OF rest, of d1] by (simp add: add_tables_simps)
qed

text \<open>What a fresh query asks for in the search by patterns.\<close>

definition pattern_search ::
  "'ci catalog_env \<Rightarrow> string option \<Rightarrow> string option \<Rightarrow> string option \<Rightarrow> string option \<Rightarrow> bool" where
  "pattern_search E cat sch tbl ty \<longleftrightarrow> \<not> ct_metadataId E
     \<and> (if ct_asSchema E then \<not> given_name cat \<and> sch \<noteq> Some [] else \<not> given_name sch \<and> cat \<noteq> Some [])
     \<and> tbl \<noteq> Some [] \<and> (case ty of None \<Rightarrow> True | Some s \<Rightarrow> accepts_tables s)"

lemma getTables_pattern:
  assumes "pattern_search E cat sch tbl ty" and "t = (TableMetadataQuery E cat sch tbl ty)\<lparr>tq_meta := []\<rparr>"
  shows "MakeRequestGetTablesMeta E (TableMetadataQuery E cat sch tbl ty) d =
    getTablesWithSearchPattern E (if ct_asSchema E then sch else cat) t d"
proof -
  have ty: "ty = None \<or> (\<exists>s. ty = Some s \<and> accepts_tables s)"
    using assms(1) by (cases ty) (simp_all add: pattern_search_def)
  have "MakeRequestGetTablesMeta E (TableMetadataQuery E cat sch tbl ty) d = getTables E t d"
    using ty assms by (auto simp: MakeRequestGetTablesMeta_def TableMetadataQuery_def pattern_search_def)
  also have "\<dots> = getTablesWithSearchPattern E (if ct_asSchema E then sch else cat) t d"
    using assms by (auto simp: getTables_def TableMetadataQuery_def pattern_search_def Let_def)
  finally show ?thesis .
qed

lemma Execute_after_request:
  assumes "MakeRequestGetTablesMeta E t d = Some (r, t1, d1)" and "r = AI_SUCCESS \<or> r = AI_SUCCESS_WITH_INFO"
    and "\<not> tq_executed t" and "tq_cursor t1 = 0"
  shows "\<exists>t'. Table_Execute E t d = Some (r, t', d1) \<and> tq_meta t' = tq_meta t1 \<and> table_rows t' (tq_meta t1)"
  using assms by (auto simp: Table_Execute_def table_rows_def)

lemma tables_found_by_pattern:
  assumes "pattern_search E cat sch tbl ty" and "narrow_ok (ce_mode (ct_conv E))"
    and "answers (ct_query E) (show_databases (or_all (if ct_asSchema E then sch else cat))) dbs"
    and "\<forall>db\<in>set dbs. answers (ct_query E) (show_tables db (or_all tbl)) (tabs db)"
    and "rows = concat (map (\<lambda>db. map (table_row (ct_asSchema E) db) (tabs db)) dbs)"
  shows "\<exists>t d'. Table_Execute E (TableMetadataQuery E cat sch tbl ty) d =
      Some (if rows = [] then AI_SUCCESS_WITH_INFO else AI_SUCCESS, t, d') \<and> tq_meta t = rows \<and> table_rows t rows"
proof -
  let ?t = "(TableMetadataQuery E cat sch tbl ty)\<lparr>tq_meta := []\<rparr>"
  let ?pat = "if ct_asSchema E then sch else cat"
  have t: "tq_table ?t = tbl" "tq_meta ?t = []" "tq_cursor ?t = 0" "\<not> tq_executed (TableMetadataQuery E cat sch tbl ty)"
    by (simp_all add: TableMetadataQuery_def Let_def)
  obtain q d1 where D: "getMatchedDatabases E (or_all ?pat) ?t d =
      Some (if dbs = [] then AI_SUCCESS_WITH_INFO else AI_SUCCESS, dbs, ?t\<lparr>tq_dataQuery := Some q\<rparr>, d1)"
    using databases_found [OF assms(3,2)] by blast
  have T: "\<forall>db\<in>set dbs. answers (ct_query E) (show_tables db (or_all (tq_table (?t\<lparr>tq_dataQuery := Some q\<rparr>)))) (tabs db)"
    using assms(4) t(1) by simp
  obtain q2 d2 where L: "tables_of E dbs (?t\<lparr>tq_dataQuery := Some q\<rparr>) d1 =
      Some (AI_SUCCESS, ?t\<lparr>tq_dataQuery := q2, tq_meta := rows\<rparr>, d2)"
    using tables_of_databases [OF T assms(2), of d1] assms(5) t(2) by (auto simp: add_tables_def)
  have "\<exists>q d'. getTablesWithSearchPattern E ?pat ?t d =
      Some (if rows = [] then AI_SUCCESS_WITH_INFO else AI_SUCCESS, ?t\<lparr>tq_dataQuery := q, tq_meta := rows\<rparr>, d')"
  proof (cases "dbs = []")
    case True
    then show ?thesis using D assms(5) t(2)
      by (intro exI [of _ "Some q"] exI [of _ d1]) (simp add: getTablesWithSearchPattern_def)
  next
    case False
    then show ?thesis using D L by (auto simp: getTablesWithSearchPattern_def)
  qed
  then obtain q d' where R: "MakeRequestGetTablesMeta E (TableMetadataQuery E cat sch tbl ty) d =
      Some (if rows = [] then AI_SUCCESS_WITH_INFO else AI_SUCCESS, ?t\<lparr>tq_dataQuery := q, tq_meta := rows\<rparr>, d')"
    unfolding getTables_pattern [OF assms(1) refl] by blast
  show ?thesis
    using Execute_after_request [OF R _ t(4)] t(3) by auto
qed

text \<open> C7. The table catalog by patterns: when the service answers the search for databases with \<open>dbs\<close> and the
  search in each of them with its tables, executing \<^verbatim>\<open>SQLTables\<close> succeeds and the result has exactly these
  tables, database by database in the order of the service, under the schema or the catalog; an
  empty result is a success with a warning.\<close>

theorem tables_by_pattern:
  assumes "pattern_search E cat sch tbl ty" and "narrow_ok (ce_mode (ct_conv E))"
    and "answers (ct_query E) (show_databases (or_all (if ct_asSchema E then sch else cat))) dbs"
    and "\<forall>db\<in>set dbs. answers (ct_query E) (show_tables db (or_all tbl)) (tabs db)"
    and "rows = concat (map (\<lambda>db. map (table_row (ct_asSchema E) db) (tabs db)) dbs)"
  shows "\<exists>t d'. Table_Execute E (TableMetadataQuery E cat sch tbl ty) d =
      Some (if rows = [] then AI_SUCCESS_WITH_INFO else AI_SUCCESS, t, d') \<and> tq_meta t = rows \<and> table_rows t rows"
  by (rule tables_found_by_pattern [where E = E, OF assms(1-5)])

text \<open>The table catalog by identifiers, the attribute \<^verbatim>\<open>SQL_ATTR_METADATA_ID\<close> being set: the first database
  whose name agrees without case, and all its tables whose names agree without case.\<close>

definition identified_rows :: "bool \<Rightarrow> string \<Rightarrow> string \<Rightarrow> string list \<Rightarrow> (string \<Rightarrow> string list) \<Rightarrow> table_meta list" where
  "identified_rows asSchema ident tbl dbs tabs =
     (case List.find (same_identifier ident) dbs of
        None \<Rightarrow> []
      | Some db \<Rightarrow> map (table_row asSchema db) (filter (same_identifier tbl) (tabs db)))"

lemma tables_with_identifier:
  assumes "narrow_ok (ce_mode (ct_conv E))" and "answers (ct_query E) (show_databases ''%'') dbs"
    and "\<forall>db\<in>set dbs. answers (ct_query E) (show_tables db ''%'') (tabs db)"
    and "tq_meta t = []" and "rows = identified_rows (ct_asSchema E) ident (text_of (tq_table t)) dbs tabs"
  shows "\<exists>q d'. getTablesWithIdentifier E ident t d =
      Some (if rows = [] then AI_SUCCESS_WITH_INFO else AI_SUCCESS, t\<lparr>tq_dataQuery := q, tq_meta := rows\<rparr>, d')"
proof -
  obtain q d1 where D: "getMatchedDatabases E ''%'' t d =
      Some (if dbs = [] then AI_SUCCESS_WITH_INFO else AI_SUCCESS, dbs, t\<lparr>tq_dataQuery := Some q\<rparr>, d1)"
    using databases_found [OF assms(2,1)] by blast
  have none: "t\<lparr>tq_dataQuery := Some q\<rparr> = t\<lparr>tq_dataQuery := Some q, tq_meta := []\<rparr>"
    using assms(4) by simp
  show ?thesis
  proof (cases "List.find (same_identifier ident) dbs")
    case None
    then show ?thesis
      using D none assms(5)
      by (intro exI [of _ "Some q"]) (auto simp: getTablesWithIdentifier_def identified_rows_def)
  next
    case (Some db)
    then have "db \<in> set dbs" by (auto simp: find_Some_iff)
    then have ans: "answers (ct_query E) (show_tables db ''%'') (tabs db)" using assms(3) by blast
    obtain q2 d2 where T: "getMatchedTables E db ''%'' (t\<lparr>tq_dataQuery := Some q\<rparr>) d1 =
        Some (if tabs db = [] then AI_SUCCESS_WITH_INFO else AI_SUCCESS, tabs db,
          t\<lparr>tq_dataQuery := Some q\<rparr>\<lparr>tq_dataQuery := Some q2\<rparr>, d2)"
      using tables_found [OF ans assms(1)] by blast
    have "dbs \<noteq> []" using Some by auto
    then show ?thesis
      using D T Some assms(4,5)
      by (intro exI [of _ "Some q2"]) (simp add: getTablesWithIdentifier_def identified_rows_def Let_def)
  qed
qed

text \<open> C9. The table catalog by identifiers: both names are required, else the query is refused with
  \<^verbatim>\<open>HY009\<close>; otherwise the result has the tables of the first database whose name agrees without case that
  agree themselves, and a search without a result is a success with a warning.\<close>

theorem tables_by_identifier:
  assumes "ct_metadataId E" and "narrow_ok (ce_mode (ct_conv E))" and "ty = None"
    and "answers (ct_query E) (show_databases ''%'') dbs"
    and "\<forall>db\<in>set dbs. answers (ct_query E) (show_tables db ''%'') (tabs db)"
    and "db = (if ct_asSchema E then sch else cat)"
    and "rows = identified_rows (ct_asSchema E) (text_of db) (text_of tbl) dbs tabs"
  shows "if db = None \<or> tbl = None
    then \<exists>t d'. Table_Execute E (TableMetadataQuery E cat sch tbl ty) d = Some (AI_ERROR, t, d') \<and> \<not> tq_executed t
    else \<exists>t d'. Table_Execute E (TableMetadataQuery E cat sch tbl ty) d =
      Some (if rows = [] then AI_SUCCESS_WITH_INFO else AI_SUCCESS, t, d') \<and> tq_meta t = rows \<and> table_rows t rows"
proof -
  let ?t = "(TableMetadataQuery E cat sch tbl ty)\<lparr>tq_meta := []\<rparr>"
  have t: "tq_table ?t = tbl" "tq_meta ?t = []" "tq_cursor ?t = 0" "\<not> tq_executed (TableMetadataQuery E cat sch tbl ty)"
    "tq_schema ?t = sch" "tq_catalog ?t = cat"
    by (simp_all add: TableMetadataQuery_def Let_def)
  have R: "MakeRequestGetTablesMeta E (TableMetadataQuery E cat sch tbl ty) d = getTables E ?t d"
    using assms(3) by (simp add: MakeRequestGetTablesMeta_def TableMetadataQuery_def Let_def)
  show ?thesis
  proof (cases "db = None \<or> tbl = None")
    case True
    then have "\<exists>d'. getTables E ?t d = Some (AI_ERROR, ?t, d')"
      using assms(1,6) t by (auto simp: getTables_def Let_def)
    then obtain d' where "MakeRequestGetTablesMeta E (TableMetadataQuery E cat sch tbl ty) d = Some (AI_ERROR, ?t, d')"
      using R by auto
    then have "Table_Execute E (TableMetadataQuery E cat sch tbl ty) d = Some (AI_ERROR, ?t, d')"
      using t(4) by (simp add: Table_Execute_def)
    with True t(4) show ?thesis by auto
  next
    case False
    have "getTables E ?t d = getTablesWithIdentifier E (text_of db) ?t d"
      using False assms(1,6) t by (auto simp: getTables_def Let_def)
    then obtain q d' where "MakeRequestGetTablesMeta E (TableMetadataQuery E cat sch tbl ty) d =
        Some (if rows = [] then AI_SUCCESS_WITH_INFO else AI_SUCCESS, ?t\<lparr>tq_dataQuery := q, tq_meta := rows\<rparr>, d')"
      using R tables_with_identifier [OF assms(2,4,5) t(2), of rows "text_of db" d] assms(7) t(1) by auto
    from Execute_after_request [OF this _ t(4)] t(3) False show ?thesis by auto
  qed
qed

text \<open>A service with one database of two tables on two pages, which describes each of them by the same two
  columns, and the surroundings that ask it.\<close>

definition catalog_page :: "string \<Rightarrow> string \<Rightarrow> (datum list, unit) page" where
  "catalog_page n token = \<lparr>pg_rows = [[Scalar_Value n]], pg_token = token, pg_queryId = ''id'', pg_columns = [()]\<rparr>"

definition column_page :: "(datum list, unit) page" where
  "column_page =
     \<lparr>pg_rows = [map Scalar_Value [''id'', ''varchar'', ''DIMENSION''],
        map Scalar_Value [''x'', ''bigint'', ''MEASURE_VALUE'']],
      pg_token = [], pg_queryId = ''id'', pg_columns = [(), (), ()]\<rparr>"

definition catalog_service :: "(datum list, unit) service" where
  "catalog_service rq =
     (if rq_sql rq = show_databases ''%'' then Page (catalog_page ''db'' [])
      else if rq_sql rq \<noteq> show_tables ''db'' ''%'' then Page column_page
      else if rq_token rq = [] then Page (catalog_page ''t1'' ''next'') else Page (catalog_page ''t2'' []))"

definition example_catalog :: "bool \<Rightarrow> unit catalog_env" where
  "example_catalog ident =
     \<lparr>ct_query = \<lparr>ev_query = catalog_service, ev_cancel = (\<lambda>_. None), ev_maxRows = None,
        ev_readMeta = (\<lambda>_. ColumnMeta True [] [] ''n'' Scalar_VARCHAR NULLABLE)\<rparr>,
      ct_conv = example_conv, ct_junk = (\<lambda>_. 0), ct_metadataId = ident, ct_odbcVer = SQL_OV_ODBC3,
      ct_asSchema = True\<rparr>"

lemma example_names: "service_name ''db''" "service_name ''t1''" "service_name ''t2''"
  by (simp_all add: service_name_def STRING_BUFFER_SIZE_def char_code_def)

lemma example_columns:
  "ev_query (ct_query (example_catalog i)) rq = Page p \<Longrightarrow> pg_columns p \<noteq> []
    \<and> GetScalarType (ev_readMeta (ct_query (example_catalog i)) (hd (pg_columns p))) = Scalar_VARCHAR"
  by (auto simp: example_catalog_def catalog_service_def catalog_page_def column_page_def ColumnMeta_def GetScalarType_def split: if_splits)

lemma example_databases: "answers (ct_query (example_catalog i)) (show_databases ''%'') [''db'']"
proof -
  have "chain catalog_service (first_request (ct_query (example_catalog i)) (show_databases ''%'')) [[Scalar_Value ''db'']]"
    using last_page [of "catalog_page ''db'' []" catalog_service]
    by (simp add: chain_iff catalog_service_def first_request_def catalog_page_def)
  then show ?thesis
    using example_columns [of i] example_names by (auto simp: answers_def example_catalog_def intro: lead_here)
qed

lemma example_tables: "answers (ct_query (example_catalog i)) (show_tables ''db'' ''%'') [''t1'', ''t2'']"
proof -
  let ?rq = "first_request (ct_query (example_catalog i)) (show_tables ''db'' ''%'')"
  have ne: "show_tables ''db'' ''%'' \<noteq> show_databases ''%''" by (simp add: show_tables_def show_databases_def)
  have "chain catalog_service (?rq\<lparr>rq_token := ''next''\<rparr>) [[Scalar_Value ''t2'']]"
    using last_page [of "catalog_page ''t2'' []" catalog_service] ne
    by (simp add: chain_iff catalog_service_def first_request_def catalog_page_def)
  then have "produces catalog_service ?rq (Page (catalog_page ''t1'' ''next'')) ([[Scalar_Value ''t1'']] @ [[Scalar_Value ''t2'']])"
    using more_pages [of "catalog_page ''t1'' ''next''" catalog_service ?rq "[[Scalar_Value ''t2'']]"]
    by (simp add: catalog_page_def)
  moreover have "catalog_service ?rq = Page (catalog_page ''t1'' ''next'')"
    using ne by (simp add: catalog_service_def first_request_def)
  ultimately have "chain catalog_service ?rq [[Scalar_Value ''t1''], [Scalar_Value ''t2'']]"
    by (simp add: chain_iff)
  then show ?thesis
    using example_columns [of i] example_names by (auto simp: answers_def example_catalog_def intro: lead_here)
qed

theorem tables_by_pattern_witness:
  "\<exists>t d'. Table_Execute (example_catalog False)
      (TableMetadataQuery (example_catalog False) None None None (Some ''VIEW, TABLE'')) DiagnosticRecordStorage =
      Some (AI_SUCCESS, t, d')
    \<and> tq_meta t = [TableMeta [] ''db'' ''t1'' ''TABLE'', TableMeta [] ''db'' ''t2'' ''TABLE'']"
proof -
  have s: "pattern_search (example_catalog False) None None None (Some ''VIEW, TABLE'')"
    by (simp add: pattern_search_def example_catalog_def given_name_def accepts_tables_def dequote_def Trim_def
        Ltrim_def Rtrim_def isspace_def char_code_def char_of_def bit_iff_odd)
  have n: "narrow_ok (ce_mode (ct_conv (example_catalog False)))"
    by (simp add: example_catalog_def example_conv_def narrow_ok_def)
  have d: "answers (ct_query (example_catalog False))
      (show_databases (or_all (if ct_asSchema (example_catalog False) then None else None))) [''db'']"
    using example_databases by (simp add: or_all_def)
  have t: "\<forall>db\<in>set [''db'']. answers (ct_query (example_catalog False)) (show_tables db (or_all None)) ((\<lambda>_. [''t1'', ''t2'']) db)"
    using example_tables by (simp add: or_all_def)
  from tables_by_pattern [OF s n d t refl, of DiagnosticRecordStorage] show ?thesis
    by (auto simp: table_row_def example_catalog_def)
qed

theorem tables_by_identifier_witness:
  "\<exists>t d'. Table_Execute (example_catalog True)
      (TableMetadataQuery (example_catalog True) None (Some ''DB'') (Some ''T2'') None) DiagnosticRecordStorage =
      Some (AI_SUCCESS, t, d') \<and> tq_meta t = [TableMeta [] ''db'' ''t2'' ''TABLE'']"
proof -
  have i: "ct_metadataId (example_catalog True)" by (simp add: example_catalog_def)
  have n: "narrow_ok (ce_mode (ct_conv (example_catalog True)))"
    by (simp add: example_catalog_def example_conv_def narrow_ok_def)
  have t: "\<forall>db\<in>set [''db'']. answers (ct_query (example_catalog True)) (show_tables db ''%'') ((\<lambda>_. [''t1'', ''t2'']) db)"
    using example_tables by simp
  have r: "identified_rows True ''DB'' ''T2'' [''db''] (\<lambda>_. [''t1'', ''t2'']) = [TableMeta [] ''db'' ''t2'' ''TABLE'']"
    by (simp add: identified_rows_def same_identifier_def c_string_def ToUpper_def toupper_def islower_def NUL_def
        char_code_def table_row_def char_of_def bit_iff_odd)
  from tables_by_identifier [OF i n refl example_databases t refl refl, of "Some ''DB''" None "Some ''T2''"
      DiagnosticRecordStorage] show ?thesis
    using r by (auto simp: example_catalog_def text_of_def)
qed

end
