(* ===== verification/Column_Metadata.thy ===== *)
theory Column_Metadata
  imports Table_Metadata
begin

text \<open>
  The column catalog (\<^verbatim>\<open>src/query/column_metadata_query.cpp\<close>): the tables are found by a table query of its own,
  each is described by a data query (\<^verbatim>\<open>DESCRIBE\<close>), and the rows of the description become the rows of the
  result. The reading of text from a buffer (\<^verbatim>\<open>ApplicationDataBuffer::GetString\<close>) is modelled for
  character buffers, the only ones it is applied to here.
\<close>

section \<open>Buffers\<close>

definition GetString :: "conv_env \<Rightarrow> nat \<Rightarrow> app_buffer \<Rightarrow> memory \<Rightarrow> string option" where
  "GetString e maxLen b m =
     (if ab_type b \<in> {AI_CHAR, AI_WCHAR} then
        (if GetInputSize b m = 0 then Some []
         else map_option (take maxLen) (input_text e (to_int32 (GetInputSize b m)) b m))
      else Some [])"

text \<open>The local buffers of a description: the name as wide characters, type and remarks. The last two are
  arrays of 64 bytes that are announced with 2048 bytes; the model gives them the room. None of them is
  initialised.\<close>

definition column_name_buffer :: app_buffer where
  "column_name_buffer = ApplicationDataBuffer AI_WCHAR 4096 (int STRING_BUFFER_SIZE) 0"

definition description_bindings :: "nat \<Rightarrow> app_buffer option" where
  "description_bindings = [1 \<mapsto> column_name_buffer, 2 \<mapsto> text_buffer 16384, 3 \<mapsto> text_buffer 32768]"

definition stack_memory :: "(nat \<Rightarrow> int) \<Rightarrow> memory" where
  "stack_memory junk a = word_of_int (junk (nat a))"

section \<open>The query\<close>

record 'ci column_query =
  cq_catalog :: "string option"
  cq_schema :: "string option"
  cq_table :: "string option"
  cq_column :: "string option"
  cq_executed :: bool
  cq_fetched :: bool
  cq_meta :: "column_meta list"
  cq_cursor :: nat
  cq_columns :: "column_meta list"
  cq_tables :: "'ci table_query"
  cq_dataQuery :: "(datum list, 'ci, column_meta) data_query option"

definition column_columns :: "(string \<times> scalar_type \<times> nullability_type) list" where
  "column_columns =
     [(''TABLE_CAT'', Scalar_VARCHAR, NULLABLE), (''TABLE_SCHEM'', Scalar_VARCHAR, NULLABLE),
      (''TABLE_NAME'', Scalar_VARCHAR, NO_NULL), (''COLUMN_NAME'', Scalar_VARCHAR, NO_NULL),
      (''DATA_TYPE'', Scalar_INTEGER, NO_NULL), (''TYPE_NAME'', Scalar_VARCHAR, NO_NULL),
      (''COLUMN_SIZE'', Scalar_INTEGER, NULLABLE), (''BUFFER_LENGTH'', Scalar_INTEGER, NULLABLE),
      (''DECIMAL_DIGITS'', Scalar_INTEGER, NULLABLE), (''NUM_PREC_RADIX'', Scalar_INTEGER, NULLABLE),
      (''NULLABLE'', Scalar_INTEGER, NO_NULL), (''REMARKS'', Scalar_VARCHAR, NULLABLE),
      (''COLUMN_DEF'', Scalar_VARCHAR, NULLABLE), (''SQL_DATA_TYPE'', Scalar_INTEGER, NO_NULL),
      (''SQL_DATETIME_SUB'', Scalar_INTEGER, NULLABLE), (''CHAR_OCTET_LENGTH'', Scalar_INTEGER, NULLABLE),
      (''ORDINAL_POSITION'', Scalar_INTEGER, NO_NULL), (''IS_NULLABLE'', Scalar_VARCHAR, NULLABLE)]"

definition ColumnMetadataQuery ::
  "'ci catalog_env \<Rightarrow> string option \<Rightarrow> string option \<Rightarrow> string option \<Rightarrow> string option \<Rightarrow> 'ci column_query" where
  "ColumnMetadataQuery E cat sch tbl col =
     \<lparr>cq_catalog = cat, cq_schema = sch, cq_table = tbl, cq_column = col, cq_executed = False,
      cq_fetched = False, cq_meta = [], cq_cursor = 0,
      cq_columns = result_columns (ct_asSchema E) column_columns,
      cq_tables = TableMetadataQuery E cat sch tbl None, cq_dataQuery = None\<rparr>"

text \<open>A column of a table before its description is read.\<close>

definition ColumnMetaFor :: "bool \<Rightarrow> string \<Rightarrow> string \<Rightarrow> column_meta" where
  "ColumnMetaFor asSchema db tbl =
     \<lparr>catalogName = (if asSchema then None else Some db),
      schemaName = (if asSchema then Some db else None),
      tableName = Some tbl, columnName = Some [], remarks = None, isAutoIncrement = ''NO'',
      cm_dataType = Some Scalar_NOT_SET, cm_precision = Some (- 1), cm_decimalDigits = Some (- 1),
      cm_scale = Some (- 1), cm_nullability = Some NULLABILITY_UNKNOWN, ordinalPosition = Some (- 1)\<rparr>"

section \<open>Describing a table\<close>

text \<open>A row of a description is kept when all columns are asked for or its name is the one asked for; its
  position counts the rows kept.\<close>

definition wanted_column :: "conv_env \<Rightarrow> string \<Rightarrow> memory \<Rightarrow> bool" where
  "wanted_column e col m \<longleftrightarrow> col = ''%'' \<or>
     col = SqlWcharToString (ce_wide e) (Some (read_wide (ce_wide e) 4096 STRING_BUFFER_SIZE m)) (int STRING_BUFFER_SIZE) False"

definition read_description ::
  "conv_env \<Rightarrow> (nat \<Rightarrow> app_buffer option) \<Rightarrow> memory \<Rightarrow> int \<Rightarrow> column_meta \<Rightarrow> column_meta option" where
  "read_description e bs m pos c =
     (let cell = (\<lambda>i. case bs i of None \<Rightarrow> Some None | Some b \<Rightarrow> map_option Some (GetString e STRING_BUFFER_SIZE b m))
      in case (cell 1, cell 2, cell 3) of
           (Some a, Some t, Some r) \<Rightarrow>
             Some (ReadColumn (\<lambda>i. if i = 1 then a else if i = 2 then t else if i = 3 then r else None) pos c)
         | _ \<Rightarrow> None)"

partial_function (option) fetch_columns ::
  "'ci catalog_env \<Rightarrow> string \<Rightarrow> column_meta \<Rightarrow> (app_buffer, memory) bindings \<Rightarrow>
   (datum list, 'ci, column_meta) data_query \<Rightarrow> diag_storage \<Rightarrow> int \<Rightarrow>
   (column_meta list \<times> (datum list, 'ci, column_meta) data_query \<times> diag_storage) option" where
  "fetch_columns E col c0 b q d pos =
     Option.bind (FetchNextRow (ev_query (ct_query E)) (ct_reader E) b (run_worker_now (ev_query (ct_query E)) q) d)
       (\<lambda>(r, b', q', d').
          if r \<noteq> AI_SUCCESS then Some ([], q', d')
          else if \<not> wanted_column (ct_conv E) col (snd b') then fetch_columns E col c0 b' q' d' pos
          else
            Option.bind (read_description (ct_conv E) (fst b') (snd b') (pos + 1) c0) (\<lambda>c.
              Option.bind (fetch_columns E col c0 b' q' d' (pos + 1)) (\<lambda>(cs, q'', d''). Some (c # cs, q'', d''))))"

definition describe_table :: "string \<Rightarrow> string \<Rightarrow> string" where
  "describe_table db tbl = ''describe '' @ dquote @ db @ dquote @ ''.'' @ dquote @ tbl @ dquote"

definition MakeRequestGetColumnsMetaPerTable ::
  "'ci catalog_env \<Rightarrow> string \<Rightarrow> string \<Rightarrow> 'ci column_query \<Rightarrow> diag_storage \<Rightarrow>
   (sql_result \<times> 'ci column_query \<times> diag_storage) option" where
  "MakeRequestGetColumnsMetaPerTable E db tbl c d =
     Option.bind (Execute (ct_query E) (DataQuery (describe_table db tbl)) d) (\<lambda>(r, q, d1).
       let c1 = c\<lparr>cq_dataQuery := Some q\<rparr> in
       if r \<noteq> AI_SUCCESS then Some (AI_NO_DATA, c1, d1)
       else
         Option.bind (fetch_columns E (text_of (cq_column c)) (ColumnMetaFor (ct_asSchema E) db tbl)
             (description_bindings, stack_memory (ct_junk E)) q d1 0)
           (\<lambda>(cs, q2, d2).
              let c2 = c1\<lparr>cq_dataQuery := Some q2, cq_meta := cq_meta c1 @ cs\<rparr> in
              Some (if cq_meta c2 = [] then
                (AI_SUCCESS_WITH_INFO, c2, AddStatusRecord S01000_GENERAL_WARNING
                   (''No columns with name '' @ squote @ text_of (cq_column c) @ squote @ '' found'') d2)
              else (AI_SUCCESS, c2, d2))))"

text \<open>The loop over the tables found, with the result of the last table described; it ends with the first
  description that fails. The names come through two local buffers.\<close>

definition table_name_buffers :: "nat \<Rightarrow> nat \<Rightarrow> app_buffer option" where
  "table_name_buffers dbIdx =
     [dbIdx \<mapsto> text_buffer 4096, 3 \<mapsto> text_buffer 16384]"

partial_function (option) describe_tables ::
  "'ci catalog_env \<Rightarrow> (app_buffer, memory) bindings \<Rightarrow> sql_result \<Rightarrow> 'ci column_query \<Rightarrow> diag_storage \<Rightarrow>
   (sql_result \<times> 'ci column_query \<times> diag_storage) option" where
  "describe_tables E b res c d =
     Option.bind (Table_FetchNextRow (ct_conv E) b (cq_tables c) d) (\<lambda>(r, b', t', d').
       let c1 = c\<lparr>cq_tables := t'\<rparr> in
       if r \<noteq> AI_SUCCESS then Some (res, c1, d')
       else
         Option.bind (MakeRequestGetColumnsMetaPerTable E (text_at 4096 (snd b')) (text_at 16384 (snd b')) c1 d')
           (\<lambda>(res', c2, d2).
              if res' \<noteq> AI_SUCCESS \<and> res' \<noteq> AI_SUCCESS_WITH_INFO then Some (res', c2, d2)
              else describe_tables E b' res' c2 d2))"

definition GetColumnsWithDatabaseSearchPattern ::
  "'ci catalog_env \<Rightarrow> string option \<Rightarrow> nat \<Rightarrow> 'ci column_query \<Rightarrow> diag_storage \<Rightarrow>
   (sql_result \<times> 'ci column_query \<times> diag_storage) option" where
  "GetColumnsWithDatabaseSearchPattern E db dbIdx c d =
     (if ct_metadataId E then MakeRequestGetColumnsMetaPerTable E (text_of db) (text_of (cq_table c)) c d
      else
        Option.bind (Table_Execute E (cq_tables c) d) (\<lambda>(r, t, d1).
          let c1 = c\<lparr>cq_tables := t\<rparr> in
          if r \<noteq> AI_SUCCESS then
            Some (AI_SUCCESS_WITH_INFO, c1, AddStatusRecord S01000_GENERAL_WARNING
              (''Failed to get table metadata for '' @ text_of db @ ''.'' @ text_of (cq_table c)) d1)
          else describe_tables E (table_name_buffers dbIdx, \<lambda>_. 0) r c1 d1))"

definition MakeRequestGetColumnsMeta ::
  "'ci catalog_env \<Rightarrow> 'ci column_query \<Rightarrow> diag_storage \<Rightarrow> (sql_result \<times> 'ci column_query \<times> diag_storage) option" where
  "MakeRequestGetColumnsMeta E c0 d =
     (let c = c0\<lparr>cq_meta := []\<rparr> in
      if ct_asSchema E then GetColumnsWithDatabaseSearchPattern E (cq_schema c) 2 c d
      else GetColumnsWithDatabaseSearchPattern E (cq_catalog c) 1 c d)"

section \<open>The operations of the query\<close>

definition Column_Close :: "'ci column_query \<Rightarrow> 'ci column_query" where
  "Column_Close c = c\<lparr>cq_meta := [], cq_cursor := 0, cq_executed := False\<rparr>"

definition default_pattern :: "string option \<Rightarrow> string option" where
  "default_pattern p = Some (or_all p)"

definition Column_Execute ::
  "'ci catalog_env \<Rightarrow> 'ci column_query \<Rightarrow> diag_storage \<Rightarrow> (sql_result \<times> 'ci column_query \<times> diag_storage) option" where
  "Column_Execute E c0 d =
     (let c = (if cq_executed c0 then Column_Close c0 else c0);
          asS = ct_asSchema E;
          other = (if asS then cq_catalog c else cq_schema c)
      in if given_name other then
           Some (AI_SUCCESS_WITH_INFO, c, AddStatusRecord S01000_GENERAL_WARNING
             (if asS then ''Empty result set is returned as catalog is set to '' @ dquote @ text_of other @ dquote
                @ '' and Timestream does not have catalogs''
              else ''Empty result set is returned as schema is set to '' @ dquote @ text_of other @ dquote
                @ '' and Timestream does not have schemas'') d)
         else if ct_metadataId E
           \<and> ((if asS then cq_schema c else cq_catalog c) = None \<or> cq_table c = None \<or> cq_column c = None) then
           Some (AI_ERROR, c, AddStatusRecord SHY009_INVALID_USE_OF_NULL_POINTER
             (''SQL_ATTR_METADATA_ID statement attribute was set to SQL_TRUE, and the ''
               @ (if asS then ''SchemaName'' else ''CatalogName'')
               @ '', TableName, or ColumnName argument was a null pointer.'') d)
         else
           let c1 = (if ct_metadataId E then c
                else c\<lparr>cq_catalog := default_pattern (cq_catalog c), cq_schema := default_pattern (cq_schema c),
                  cq_table := default_pattern (cq_table c), cq_column := default_pattern (cq_column c)\<rparr>)
           in if (if asS then cq_schema c1 else cq_catalog c1) = Some [] \<or> cq_table c1 = Some [] then
                Some (AI_SUCCESS_WITH_INFO, c1, AddStatusRecord S01000_GENERAL_WARNING
                  (if asS then ''Schema and table name should not be empty.''
                   else ''Catalog and table name should not be empty.'') d)
              else
                map_option (\<lambda>(r, c2, d').
                  (r, if r = AI_SUCCESS then c2\<lparr>cq_executed := True, cq_fetched := False, cq_cursor := 0\<rparr> else c2, d'))
                (MakeRequestGetColumnsMeta E c1 d))"

definition Column_Cancel ::
  "'ci catalog_env \<Rightarrow> 'ci column_query \<Rightarrow> diag_storage \<Rightarrow> (sql_result \<times> 'ci column_query \<times> diag_storage) option" where
  "Column_Cancel E c d =
     map_option (\<lambda>(q, d'). (AI_SUCCESS, Column_Close (c\<lparr>cq_dataQuery := q\<rparr>), d'))
       (case cq_dataQuery c of
          None \<Rightarrow> Some (None, d)
        | Some q \<Rightarrow> map_option (\<lambda>(_, q', d'). (Some q', d')) (Cancel (ct_query E) q d))"

text \<open>The value of a column of the result, for wide characters of \<open>w\<close> bytes.\<close>

definition column_cell :: "nat \<Rightarrow> nat \<Rightarrow> column_meta \<Rightarrow> cell option" where
  "column_cell w i c =
     (let ty = cm_dataType c; nul = map_option (\<lambda>n. Nullability_ToSql (Some n)) (cm_nullability c) in
      if i = 1 then Some (cell_of Cell_String (catalogName c))
      else if i = 2 then Some (cell_of Cell_String (schemaName c))
      else if i = 3 then Some (cell_of Cell_String (tableName c))
      else if i = 4 then Some (cell_of Cell_String (columnName c))
      else if i = 5 \<or> i = 14 then Some (cell_of Cell_Int16 (BinaryToSqlType ty))
      else if i = 6 then Some (cell_of Cell_String (BinaryTypeToSqlTypeName ty))
      else if i = 7 then Some (cell_of Cell_Int32 (BinaryTypeColumnSize ty))
      else if i = 8 then Some (cell_of Cell_Int32 (BinaryTypeTransferLength ty))
      else if i = 9 then
        Some (case BinaryTypeDecimalDigits ty of None \<Rightarrow> Cell_Null | Some n \<Rightarrow> if n < 0 then Cell_Null else Cell_Int16 n)
      else if i = 10 then
        Some (case BinaryTypeNumPrecRadix ty of None \<Rightarrow> Cell_Null
              | Some n \<Rightarrow> if n < 0 then Cell_Null else Cell_Int16 (to_int16 n))
      else if i = 11 then Some (cell_of Cell_Int32 nul)
      else if i = 12 then Some (cell_of Cell_String (remarks c))
      else if i = 13 \<or> i = 15 then Some Cell_Null
      else if i = 16 then Some (cell_of Cell_Int32 (BinaryTypeCharOctetLength (int w) ty))
      else if i = 17 then Some (cell_of Cell_Int32 (ordinalPosition c))
      else if i = 18 then Some (cell_of Cell_String (NullabilityToIsNullable nul))
      else None)"

definition put_cell :: "conv_env \<Rightarrow> cell \<Rightarrow> app_buffer \<Rightarrow> memory \<Rightarrow> put_result" where
  "put_cell e v b m =
     (case v of
        Cell_Null \<Rightarrow> PutNullAs b m
      | Cell_String s \<Rightarrow> PutString e s b m
      | Cell_Int16 n \<Rightarrow> PutInt16 e (Some n) b m
      | Cell_Int32 n \<Rightarrow> PutInt32 e (Some n) b m)"

definition Column_GetColumn ::
  "conv_env \<Rightarrow> nat \<Rightarrow> app_buffer \<Rightarrow> memory \<Rightarrow> 'ci column_query \<Rightarrow> diag_storage \<Rightarrow>
   (sql_result \<times> app_buffer \<times> memory \<times> diag_storage) option" where
  "Column_GetColumn e i buf m c d =
     (if \<not> cq_executed c then
        Some (AI_ERROR, buf, m, AddStatusRecord SHY010_SEQUENCE_ERROR ''Query was not executed.'' d)
      else if length (cq_meta c) \<le> cq_cursor c then
        Some (AI_ERROR, buf, m, AddStatusRecord S24000_INVALID_CURSOR_STATE
          ''Cursor has reached end of the result set.'' d)
      else
        (case column_cell (ce_wide e) i (cq_meta c ! cq_cursor c) of
           None \<Rightarrow> Some (AI_ERROR, buf, m, AddStatusRecord S07009_INVALID_DESCRIPTOR_INDEX ''Invalid index.'' d)
         | Some v \<Rightarrow> map_option (\<lambda>(_, buf', m'). (AI_SUCCESS, buf', m', d)) (put_cell e v buf m)))"

text \<open>The loop over the bound columns, whose numbers have 16 bits. A bound column the result does not have
  leaves a record each time, and nothing else.\<close>

definition bound_columns :: "(nat \<Rightarrow> app_buffer option) \<Rightarrow> nat list" where
  "bound_columns bs = filter (\<lambda>i. bs i \<noteq> None) [0..<65536]"

fun column_cells ::
  "conv_env \<Rightarrow> 'ci column_query \<Rightarrow> nat list \<Rightarrow> (app_buffer, memory) bindings \<Rightarrow> diag_storage \<Rightarrow>
   ((app_buffer, memory) bindings \<times> diag_storage) option" where
  "column_cells e c [] b d = Some (b, d)"
| "column_cells e c (i # is) b d =
     (case fst b i of
        None \<Rightarrow> column_cells e c is b d
      | Some buf \<Rightarrow>
          Option.bind (Column_GetColumn e i buf (snd b) c d) (\<lambda>(_, buf', m', d').
            column_cells e c is ((fst b)(i \<mapsto> buf'), m') d'))"

definition Column_FetchNextRow ::
  "conv_env \<Rightarrow> (app_buffer, memory) bindings \<Rightarrow> 'ci column_query \<Rightarrow> diag_storage \<Rightarrow>
   (sql_result \<times> (app_buffer, memory) bindings \<times> 'ci column_query \<times> diag_storage) option" where
  "Column_FetchNextRow e b c d =
     (if \<not> cq_executed c then
        Some (AI_ERROR, b, c, AddStatusRecord SHY010_SEQUENCE_ERROR ''Query was not executed.'' d)
      else
        let c1 = (if \<not> cq_fetched c then c\<lparr>cq_fetched := True\<rparr>
                  else if cq_cursor c \<noteq> length (cq_meta c) then c\<lparr>cq_cursor := cq_cursor c + 1\<rparr> else c)
        in if cq_cursor c1 = length (cq_meta c1) then Some (AI_NO_DATA, b, c1, d)
           else map_option (\<lambda>(b', d'). (AI_SUCCESS, b', c1, d')) (column_cells e c1 (bound_columns (fst b)) b d))"

definition Column_RowNumber :: "'ci column_query \<Rightarrow> diag_storage \<Rightarrow> int \<times> diag_storage" where
  "Column_RowNumber c d =
     (if \<not> cq_executed c \<or> cq_cursor c = length (cq_meta c)
      then (0, AddStatusRecord S01000_GENERAL_WARNING ''Cursor does not point to any data.'' d)
      else (int (cq_cursor c) + 1, d))"

definition column_query_class :: "'ci catalog_env \<Rightarrow> ('ci column_query, column_meta, app_buffer, memory) query_class" where
  "column_query_class E =
     \<lparr>vt_Execute = Column_Execute E, vt_Cancel = Column_Cancel E, vt_FetchNextRow = Column_FetchNextRow (ct_conv E),
      vt_GetColumn = Column_GetColumn (ct_conv E), vt_Close = (\<lambda>c. Some (AI_SUCCESS, Column_Close c)),
      vt_GetMeta = (\<lambda>c d. Some (Some (cq_columns c), c, d)),
      vt_DataAvailable = (\<lambda>c. cq_executed c \<and> cq_meta c \<noteq> [] \<and> cq_cursor c \<noteq> length (cq_meta c)),
      vt_AffectedRows = (\<lambda>_. 0), vt_RowNumber = Column_RowNumber, vt_NextResultSet = (\<lambda>_. AI_NO_DATA)\<rparr>"

text \<open>The rows still to be fetched.\<close>

definition column_rows :: "'ci column_query \<Rightarrow> column_meta list \<Rightarrow> bool" where
  "column_rows c rows \<longleftrightarrow> cq_executed c \<and> cq_cursor c \<le> length (cq_meta c)
     \<and> rows = drop (if cq_fetched c then cq_cursor c + 1 else cq_cursor c) (cq_meta c)"

lemma column_fetch:
  assumes "column_rows c rows" and "Column_FetchNextRow e b c d = Some (r, b', c', d')"
  shows "r = (if rows = [] then AI_NO_DATA else AI_SUCCESS) \<and> column_rows c' (tl rows)"
  using assms
  by (auto simp: column_rows_def Column_FetchNextRow_def Let_def drop_Suc tl_drop split: if_splits prod.splits)

interpretation column_source: row_source "Column_FetchNextRow e" column_rows
  by unfold_locales (auto dest: column_fetch)

end
