(* ===== verification/Column_Props.thy ===== *)
theory Column_Props
  imports Table_Props Column_Metadata
begin

text \<open>
  What the column catalog finds: the rows of a description, with names in any script, come through the local
  buffers unchanged; and a search lists, table by table, the columns described that it asks for.
\<close>

section \<open>Reading text back\<close>

lemma read_wide_Suc:
  "read_wide w a (Suc n) m = nat (le_val (read_bytes a w m)) # read_wide w (a + int w) n m"
  by (simp add: read_wide_def upt_conv_Cons map_Suc_upt [symmetric] algebra_simps del: upt_Suc)

lemma cwstr_text:
  "read_wide w a (length us + 1) m = us @ [0] \<Longrightarrow> 0 \<notin> set us \<Longrightarrow> cwstr w a m = Some us"
proof (induction us arbitrary: a)
  case Nil
  then show ?case by (subst cwstr.simps) (simp add: read_wide_Suc Let_def)
next
  case (Cons u us)
  then show ?case by (subst cwstr.simps) (simp add: read_wide_Suc Let_def)
qed

lemma char_of_byte: "char_of (unat (word_of_nat (char_code c) :: 8 word)) = c"
  by (simp add: char_code_def unat_of_nat)

lemma byte_zero: "(word_of_nat (char_code c) :: 8 word) = 0 \<Longrightarrow> c = NUL"
  using char_of_byte [of c] by (simp add: char_of_0)

lemma cstr_text:
  "read_bytes a (length s + 1) m = str_bytes s @ [0] \<Longrightarrow> NUL \<notin> set s \<Longrightarrow> cstr a m = Some s"
proof (induction s arbitrary: a)
  case Nil
  then show ?case by (subst cstr.simps) (simp add: read_bytes_def str_bytes_def)
next
  case (Cons c s)
  have "read_bytes a (length (c # s) + 1) m = m a # read_bytes (a + 1) (length s + 1) m"
    using read_bytes_split [of a 1 "length s + 1" m] by (simp add: read_bytes_def)
  then have m: "m a = word_of_nat (char_code c)" "read_bytes (a + 1) (length s + 1) m = str_bytes s @ [0]"
    using Cons.prems(1) by (simp_all add: str_bytes_def)
  have "m a \<noteq> 0" using byte_zero [of c] Cons.prems(2) by (auto simp: m(1))
  then show ?case
    using Cons.IH [OF m(2)] Cons.prems(2) by (subst cstr.simps) (simp add: m(1) char_of_byte)
qed

lemma GetInputSize_text: "GetResLen b = 0 \<Longrightarrow> GetInputSize b m = SQL_NTS"
  by (simp add: GetInputSize_def IsDataAtExec_def)

lemma GetString_text:
  assumes "service_name s" and "read_bytes a (length s + 1) m = str_bytes s @ [0]" and "a \<noteq> 0"
  shows "GetString e STRING_BUFFER_SIZE (text_buffer a) m = Some s"
proof -
  have s: "NUL \<notin> set s" "length s < STRING_BUFFER_SIZE" using assms(1) ascii_no_NUL by (auto simp: service_name_def)
  then have tw: "takeWhile (\<lambda>c. c \<noteq> NUL) s = s" by (auto simp: takeWhile_eq_all_conv)
  show ?thesis
    using s assms(3) cstr_text [OF assms(2) s(1)]
    by (simp add: GetString_def GetInputSize_text input_text_def SqlCharToString_def to_int32_id tw)
qed

section \<open>The rows of a description\<close>

text \<open>The name of a column as the codes of its characters, with the text of its type and its remark.\<close>

type_synonym column_row = "nat list \<times> string \<times> string"

definition column_cells_of :: "column_row \<Rightarrow> datum list" where
  "column_cells_of x = (case x of (us, ty, rk) \<Rightarrow> [Scalar_Value (utf8_encode us), Scalar_Value ty, Scalar_Value rk])"

definition service_column :: "nat \<Rightarrow> column_row \<Rightarrow> bool" where
  "service_column w x = (case x of (us, ty, rk) \<Rightarrow>
     us \<noteq> [] \<and> wide_text w us \<and> (length us + 1) * w \<le> STRING_BUFFER_SIZE
     \<and> length (utf8_encode us) \<le> STRING_BUFFER_SIZE \<and> service_name ty \<and> service_name rk)"

lemma column_name_buffer_simps [simp]:
  "GetData column_name_buffer = 4096" "GetResLen column_name_buffer = 0" "ab_type column_name_buffer = AI_WCHAR"
  "ab_buflen column_name_buffer = 2048" "ab_cellOffset column_name_buffer = - 1"
  by (simp_all add: column_name_buffer_def buffer_simps STRING_BUFFER_SIZE_def) (simp_all add: ApplicationDataBuffer_def)

lemma wide_put:
  assumes "service_column (ce_wide e) (us, ty, rk)"
  shows "PutString e (utf8_encode us) column_name_buffer m =
    Some (Conv_SUCCESS, column_name_buffer, write_bytes 4096 (wide_bytes (ce_wide e) (us @ [0])) m)"
proof -
  let ?w = "ce_wide e"
  have us: "us \<noteq> []" "wide_text ?w us" "(length us + 1) * ?w \<le> 2048"
    using assms by (simp_all add: service_column_def STRING_BUFFER_SIZE_def)
  have w: "?w = 2 \<or> ?w = 4" using us(2) by (simp add: wide_text_def)
  obtain n tr m1 where C: "CopyUtf8StringToWcharString ?w (utf8_encode us) 4096 2048 False m = (n, tr, m1)"
    by (metis prod_cases3)
  have "2 * ?w \<le> 2048" using w by auto
  note W = wide_copy_in_place [OF us(2) _ this C]
  have room: "length us \<le> 2048 div ?w - 1" using w us(3) by auto
  have tr: "tr = False" "m1 = write_bytes 4096 (wide_bytes ?w (us @ [0])) m" using W(2,3) room by simp_all
  have "\<forall>u\<in>set us. scalar_value u" using us(2) by (simp add: wide_text_def)
  then have fb: "from_bytes (utf8_encode us) = Some us" by (rule from_bytes_encode)
  have ne: "utf8_encode us \<noteq> []" using us(1) by (cases us) (simp_all add: utf8_encode_def utf8_encode1_nonempty)
  obtain k where k: "bytes_required (ce_mode e) ?w (utf8_encode us) = Some k" "0 < k"
    using fb ne us(1) w by (cases "ce_mode e") (auto simp: bytes_required_def)
  show ?thesis
    using w k tr by (auto simp: PutString_def PutText_def C Let_def text_result_def store_len_def)
qed

lemma wide_written:
  assumes "service_column w (us, ty, rk)"
  shows "read_wide w 4096 (length us + 1) (write_bytes 4096 (wide_bytes w (us @ [0])) m) = us @ [0]"
proof -
  have "wide_text w us" using assms by (simp add: service_column_def)
  then have "\<forall>u\<in>set (us @ [0]). u < 256 ^ w" using wide_text_units by auto
  from read_wide_write [OF this, of 4096 m] show ?thesis by simp
qed

text \<open>The memory after the three cells of a row have been put, and what is read from it.\<close>

definition row_written :: "nat \<Rightarrow> column_row \<Rightarrow> memory \<Rightarrow> memory" where
  "row_written w x m = (case x of (us, ty, rk) \<Rightarrow>
     write_bytes 32768 (str_bytes rk @ [0]) (write_bytes 16384 (str_bytes ty @ [0])
       (write_bytes 4096 (wide_bytes w (us @ [0])) m)))"

lemma read_wide_outside:
  "a + int (n * w) \<le> b \<Longrightarrow> read_wide w a n (write_bytes b bs m) = read_wide w a n m"
proof -
  assume "a + int (n * w) \<le> b"
  moreover have "i < n \<Longrightarrow> int (i * w) + int w \<le> int (n * w)" for i
    using mult_le_mono1 [of "Suc i" n w] by (simp add: of_nat_mult [symmetric] del: of_nat_mult)
  ultimately have "i < n \<Longrightarrow> read_bytes (a + int (i * w)) w (write_bytes b bs m) = read_bytes (a + int (i * w)) w m" for i
    by (intro read_bytes_outside) fastforce
  then show ?thesis by (simp add: read_wide_def)
qed

lemma row_reads:
  assumes "service_column w x" and "x = (us, ty, rk)"
  shows "read_wide w 4096 (length us + 1) (row_written w x m) = us @ [0]"
    and "read_bytes 16384 (length ty + 1) (row_written w x m) = str_bytes ty @ [0]"
    and "read_bytes 32768 (length rk + 1) (row_written w x m) = str_bytes rk @ [0]"
proof -
  have b: "(length us + 1) * w \<le> 2048" "length ty < 2048"
    using assms by (simp_all add: service_column_def service_name_def STRING_BUFFER_SIZE_def)
  then have out: "read_wide w 4096 (length us + 1) (write_bytes p bs m') = read_wide w 4096 (length us + 1) m'"
    if "16384 \<le> p" for p bs m'
    using that of_nat_mono [OF b(1), where 'a = int] by (intro read_wide_outside) linarith
  then show "read_wide w 4096 (length us + 1) (row_written w x m) = us @ [0]"
    using wide_written [OF assms(1) [unfolded assms(2)], of m] assms(2)
    by (simp add: row_written_def out del: add_Suc_right Suc_eq_plus1)
  show "read_bytes 16384 (length ty + 1) (row_written w x m) = str_bytes ty @ [0]"
    using b(2) text_written [of 16384 ty] assms(2) by (simp add: row_written_def read_bytes_outside)
  show "read_bytes 32768 (length rk + 1) (row_written w x m) = str_bytes rk @ [0]"
    using text_written [of 32768 rk] assms(2) by (simp add: row_written_def)
qed

lemma wanted_read:
  assumes "service_column (ce_wide e) x" and "x = (us, ty, rk)"
  shows "wanted_column e col (row_written (ce_wide e) x m) \<longleftrightarrow> col = ''%'' \<or> col = utf8_encode us"
proof -
  let ?w = "ce_wide e" and ?m = "row_written (ce_wide e) x m"
  have us: "wide_text ?w us" "(length us + 1) * ?w \<le> 2048"
    using assms by (simp_all add: service_column_def STRING_BUFFER_SIZE_def)
  have w: "?w = 2 \<or> ?w = 4" using us(1) by (simp add: wide_text_def)
  have len: "length us + 1 \<le> 2048" using us(2) w by auto
  have split: "read_wide ?w a (i + j) ?m = read_wide ?w a i ?m @ read_wide ?w (a + int (i * ?w)) j ?m" for a i j
    by (induction i arbitrary: a) (simp_all add: read_wide_Suc algebra_simps, simp add: read_wide_def)
  have "read_wide ?w 4096 2048 ?m =
      us @ 0 # read_wide ?w (4096 + int ((length us + 1) * ?w)) (2048 - (length us + 1)) ?m"
    using split [of 4096 "length us + 1" "2048 - (length us + 1)"] row_reads(1) [OF assms, of m] len by simp
  moreover have "\<forall>u\<in>set us. u \<noteq> 0" using us(1) by (simp add: wide_text_def)
  ultimately have "takeWhile (\<lambda>u. u \<noteq> 0) (read_wide ?w 4096 2048 ?m) = us" by simp
  moreover have "length (read_wide ?w 4096 2048 ?m) = 2048" by (simp add: read_wide_def)
  ultimately show ?thesis
    by (simp add: wanted_column_def SqlWcharToString_def STRING_BUFFER_SIZE_def)
qed

definition described_column :: "column_meta \<Rightarrow> int \<Rightarrow> column_row \<Rightarrow> column_meta" where
  "described_column c0 pos x = (case x of (us, ty, rk) \<Rightarrow>
     c0\<lparr>columnName := Some (utf8_encode us), cm_dataType := Some (GetScalarDataType ty), remarks := Some rk,
       cm_nullability := Some (if rk = ''MEASURE_VALUE'' \<or> rk = ''MULTI'' then NULLABLE else NO_NULL),
       ordinalPosition := Some pos\<rparr>)"

lemma GetString_wide:
  assumes "service_column (ce_wide e) (us, ty, rk)" and "read_wide (ce_wide e) 4096 (length us + 1) m = us @ [0]"
  shows "GetString e STRING_BUFFER_SIZE column_name_buffer m = Some (utf8_encode us)"
proof -
  have "wide_text (ce_wide e) us" "length (utf8_encode us) \<le> STRING_BUFFER_SIZE"
    using assms(1) by (simp_all add: service_column_def)
  then have "\<forall>u\<in>set us. u \<noteq> 0" "length (utf8_encode us) \<le> STRING_BUFFER_SIZE" by (simp_all add: wide_text_def)
  moreover from this have "cwstr (ce_wide e) 4096 m = Some us" by (intro cwstr_text [OF assms(2)]) auto
  moreover have "takeWhile (\<lambda>u. u \<noteq> 0) us = us" using calculation(1) by (simp add: takeWhile_eq_all_conv)
  ultimately show ?thesis
    by (simp add: GetString_def GetInputSize_text input_text_def SqlWcharToString_def to_int32_id del: takeWhile_eq_all_conv)
qed

lemma read_description_row:
  assumes "service_column (ce_wide e) x"
  shows "read_description e description_bindings (row_written (ce_wide e) x m) pos c0 = Some (described_column c0 pos x)"
proof -
  obtain us ty rk where x: "x = (us, ty, rk)" by (cases x)
  note R = row_reads [OF assms x, of m]
  have n: "service_name ty" "service_name rk" using assms by (simp_all add: x service_column_def)
  show ?thesis
    using GetString_wide [OF assms [unfolded x] R(1)] GetString_text [OF n(1) R(2)] GetString_text [OF n(2) R(3)]
    by (simp add: read_description_def description_bindings_def Let_def ReadColumn_def described_column_def x)
qed

definition text_columns :: "nat \<Rightarrow> column_meta list \<Rightarrow> bool" where
  "text_columns n cs \<longleftrightarrow> n \<le> length cs \<and> (\<forall>i<n. GetScalarType (cs ! i) = Scalar_VARCHAR)"

lemma text_cell:
  assumes "PutString e s buf m = Some (Conv_SUCCESS, buf, m')" and "row ! (i - 1) = Scalar_Value s"
    and "1 \<le> i" and "i \<le> length row" and "i \<le> length meta" and "GetScalarType (meta ! (i - 1)) = Scalar_VARCHAR"
    and "iterator c < length (rowVec c)" and "rowVec c ! iterator c = row"
  shows "ReadColumnToBuffer (service_reader e junk) meta c i buf m = Some (Conv_SUCCESS, buf, m')"
  using assms by (simp add: ReadColumnToBuffer_def service_reader_def ReadToBuffer_def ParseScalarType_def)

lemma read_columns_step:
  assumes "ReadColumnToBuffer rd meta c i buf m = Some (Conv_SUCCESS, buf, m')" and "bs i = Some buf" and "0 < n"
  shows "read_columns rd meta c i n (bs, m) d = read_columns rd meta c (i + 1) (n - 1) (bs, m') d"
proof -
  have "bs(i \<mapsto> buf) = bs" using assms(2) by auto
  then show ?thesis using assms by (cases n) (simp_all add: ProcessConversionResult_def)
qed

lemma read_description_columns:
  assumes "narrow_ok (ce_mode e)" and "service_column (ce_wide e) x" and "text_columns 3 meta"
    and "iterator c < length (rowVec c)" and "rowVec c ! iterator c = column_cells_of x"
  shows "read_columns (service_reader e junk) meta c 1 (length meta) (description_bindings, m) d =
    Some (True, (description_bindings, row_written (ce_wide e) x m), d)"
proof -
  obtain us ty rk where x: "x = (us, ty, rk)" by (cases x)
  have n: "service_name ty" "service_name rk" using assms(2) by (simp_all add: x service_column_def)
  have bs: "description_bindings 1 = Some column_name_buffer" "description_bindings 2 = Some (text_buffer 16384)"
    "description_bindings 3 = Some (text_buffer 32768)" "\<And>j. 4 \<le> j \<Longrightarrow> description_bindings j = None"
    by (simp_all add: description_bindings_def)
  have row: "rowVec c ! iterator c = [Scalar_Value (utf8_encode us), Scalar_Value ty, Scalar_Value rk]"
    using assms(5) by (simp add: x column_cells_of_def)
  have meta: "3 \<le> length meta" "GetScalarType (meta ! 0) = Scalar_VARCHAR" "GetScalarType (meta ! 1) = Scalar_VARCHAR"
    "GetScalarType (meta ! 2) = Scalar_VARCHAR"
    using assms(3) by (simp_all add: text_columns_def)
  then have pos: "0 < length meta" "0 < length meta - 1" "0 < length meta - 2" by linarith+
  let ?rd = "service_reader e junk" and ?m1 = "write_bytes 4096 (wide_bytes (ce_wide e) (us @ [0])) m"
  let ?m2 = "write_bytes 16384 (str_bytes ty @ [0]) ?m1"
  let ?m3 = "write_bytes 32768 (str_bytes rk @ [0]) ?m2"
  have r1: "ReadColumnToBuffer ?rd meta c 1 column_name_buffer m = Some (Conv_SUCCESS, column_name_buffer, ?m1)"
    using wide_put [OF assms(2) [unfolded x]] row meta assms(4) by (intro text_cell) simp_all
  have r2: "ReadColumnToBuffer ?rd meta c 2 (text_buffer 16384) ?m1 = Some (Conv_SUCCESS, text_buffer 16384, ?m2)"
    using text_put [OF assms(1) n(1), of 16384 ?m1] row meta assms(4) by (intro text_cell) simp_all
  have r3: "ReadColumnToBuffer ?rd meta c 3 (text_buffer 32768) ?m2 = Some (Conv_SUCCESS, text_buffer 32768, ?m3)"
    using text_put [OF assms(1) n(2), of 32768 ?m2] row meta assms(4) by (intro text_cell) simp_all
  have "read_columns ?rd meta c 1 (length meta) (description_bindings, m) d =
      read_columns ?rd meta c 2 (length meta - 1) (description_bindings, ?m1) d"
    using read_columns_step [where bs = description_bindings and n = "length meta" and d = d, OF r1 bs(1) pos(1)] by (simp add: numeral_2_eq_2)
  also have "\<dots> = read_columns ?rd meta c 3 (length meta - 2) (description_bindings, ?m2) d"
    using read_columns_step [where bs = description_bindings and n = "length meta - 1" and d = d, OF r2 bs(2) pos(2)] by (simp add: numeral_2_eq_2 numeral_3_eq_3)
  also have "\<dots> = read_columns ?rd meta c 4 (length meta - 3) (description_bindings, ?m3) d"
    using read_columns_step [where bs = description_bindings and n = "length meta - 2" and d = d, OF r3 bs(3) pos(3)] by (simp add: eval_nat_numeral)
  also have "\<dots> = Some (True, (description_bindings, ?m3), d)"
    by (rule read_columns_unbound) (simp add: bs(4))
  finally show ?thesis by (simp add: row_written_def x)
qed

text \<open>The columns kept, numbered from the position on.\<close>

fun number_columns :: "column_meta \<Rightarrow> int \<Rightarrow> column_row list \<Rightarrow> column_meta list" where
  "number_columns c0 pos [] = []"
| "number_columns c0 pos (x # xs) = described_column c0 (pos + 1) x # number_columns c0 (pos + 1) xs"

definition wanted_row :: "string \<Rightarrow> column_row \<Rightarrow> bool" where
  "wanted_row col x \<longleftrightarrow> col = ''%'' \<or> col = utf8_encode (fst x)"

lemma fetch_columns_all:
  assumes "narrow_ok (ce_mode (ct_conv E))" and "\<forall>x\<in>set xs. service_column (ce_wide (ct_conv E)) x"
    and "remaining (ev_query (ct_query E)) q (map column_cells_of xs)" and "text_columns 3 (resultMeta q)"
  shows "\<exists>q'. fetch_columns E col c0 (description_bindings, m) q d pos =
    Some (number_columns c0 pos (filter (wanted_row col) xs), q', d)"
  using assms(2-4)
proof (induction xs arbitrary: q m pos)
  case Nil
  let ?svc = "ev_query (ct_query E)"
  obtain q' where "FetchNextRow ?svc (ct_reader E) (description_bindings, m) (run_worker_now ?svc q) d =
      Some (AI_NO_DATA, (description_bindings, m), q', d)"
    using Nil fetch_known_end [of ?svc "run_worker_now ?svc q"] worker_now(1) [of ?svc q] by fastforce
  then show ?case by (subst fetch_columns.simps) simp
next
  case (Cons x xs)
  let ?svc = "ev_query (ct_query E)" and ?b = "(description_bindings, m)"
  let ?m = "row_written (ce_wide (ct_conv E)) x m"
  have x: "service_column (ce_wide (ct_conv E)) x" and xs: "\<forall>x\<in>set xs. service_column (ce_wide (ct_conv E)) x"
    using Cons.prems(1) by simp_all
  have rem: "remaining ?svc (run_worker_now ?svc q) (column_cells_of x # map column_cells_of xs)"
    using worker_now(1) [OF Cons.prems(2)] by simp
  note ready = worker_now(3) [OF Cons.prems(2)] and meta = worker_now(2) [OF Cons.prems(2)]
  obtain c q1 where F: "iterator c < length (rowVec c)" "rowVec c ! iterator c = column_cells_of x"
    "remaining ?svc q1 (map column_cells_of xs)" "resultMeta q1 = resultMeta q"
    "FetchNextRow ?svc (ct_reader E) ?b (run_worker_now ?svc q) d =
        map_option (\<lambda>(ok, b', d'). if ok then (AI_SUCCESS, b', q1\<lparr>rowCounter := rowCounter q1 + 1\<rparr>, d')
          else (AI_ERROR, b', q1, d'))
        (read_columns (ct_reader E) (resultMeta q) c 1 (length (resultMeta q)) ?b d)"
    using fetch_known_row [OF rem ready, of "ct_reader E" ?b d] unfolding meta by blast
  let ?q2 = "q1\<lparr>rowCounter := rowCounter q1 + 1\<rparr>"
  have fetch: "FetchNextRow ?svc (ct_reader E) ?b (run_worker_now ?svc q) d =
      Some (AI_SUCCESS, (description_bindings, ?m), ?q2, d)"
    unfolding F(5) read_description_columns [OF assms(1) x Cons.prems(3) F(1,2)] by simp
  have q2: "remaining ?svc ?q2 (map column_cells_of xs)" "text_columns 3 (resultMeta ?q2)"
    using F(3,4) Cons.prems(3) by (simp_all add: remaining_def)
  have IH: "\<exists>q'. fetch_columns E col c0 (description_bindings, ?m) ?q2 d p =
      Some (number_columns c0 p (filter (wanted_row col) xs), q', d)" for p
    by (rule Cons.IH [OF xs q2])
  obtain us ty rk where xt: "x = (us, ty, rk)" by (cases x)
  have want: "wanted_column (ct_conv E) col ?m \<longleftrightarrow> wanted_row col x"
    using wanted_read [OF x xt] by (simp add: wanted_row_def xt)
  show ?case
  proof (cases "wanted_row col x")
    case True
    then show ?thesis
      using IH [of "pos + 1"] want read_description_row [OF x]
      by (subst fetch_columns.simps) (auto simp: fetch)
  next
    case False
    then show ?thesis
      using IH [of pos] want by (subst fetch_columns.simps) (auto simp: fetch)
  qed
qed

section \<open>Describing the tables of a search\<close>

text \<open>\<open>describes\<close>: the service describes a table by these columns, on any number of pages.\<close>

definition describes ::
  "'ci catalog_env \<Rightarrow> string \<Rightarrow> string \<Rightarrow> column_row list \<Rightarrow> bool" where
  "describes E db tbl xs \<longleftrightarrow> xs \<noteq> [] \<and> (\<forall>x\<in>set xs. service_column (ce_wide (ct_conv E)) x)
     \<and> (\<forall>rq p. rq_sql rq = describe_table db tbl \<and> ev_query (ct_query E) rq = Page p \<longrightarrow>
          text_columns 3 (map (ev_readMeta (ct_query E)) (pg_columns p)))
     \<and> lead_chain (ev_query (ct_query E)) (first_request (ct_query E) (describe_table db tbl)) (map column_cells_of xs)"

definition table_column_rows :: "bool \<Rightarrow> string \<Rightarrow> string \<Rightarrow> string \<Rightarrow> column_row list \<Rightarrow> column_meta list" where
  "table_column_rows asS col db tbl xs = number_columns (ColumnMetaFor asS db tbl) 0 (filter (wanted_row col) xs)"

lemma Execute_columns:
  assumes "describes E db tbl xs"
  shows "\<exists>q. Execute (ct_query E) (DataQuery (describe_table db tbl)) d = Some (AI_SUCCESS, q, d)
    \<and> remaining (ev_query (ct_query E)) q (map column_cells_of xs) \<and> text_columns 3 (resultMeta q)"
proof -
  let ?e = "ct_query E" and ?sql = "describe_table db tbl"
  have lead: "lead_chain (ev_query ?e) (first_request ?e ?sql) (map column_cells_of xs)"
    using assms by (simp add: describes_def)
  obtain q where q: "Execute ?e (DataQuery ?sql) d = Some (AI_SUCCESS, q, d)"
    "remaining (ev_query ?e) q (map column_cells_of xs)"
    using Execute_fresh [OF lead] by blast
  obtain rq p where loop: "request_loop (ev_query ?e) (first_request ?e ?sql) = Some (rq, Page p)"
    using request_loop_lead [OF lead] by blast
  have "rq_sql rq = ?sql" "ev_query ?e rq = Page p"
    using request_loop_keeps [OF loop] by (auto simp: first_request_def)
  then have cols: "text_columns 3 (map (ev_readMeta ?e) (pg_columns p))"
    using assms by (simp add: describes_def)
  moreover from cols have "pg_columns p \<noteq> []" by (auto simp: text_columns_def)
  then have "resultMeta q = map (ev_readMeta ?e) (pg_columns p)"
    using q(1) unfolding Execute_first_page loop
    by (auto simp: Let_def MakeRequestFetch_def ReadColumnMetadataVector_def DataQuery_def addThreads_def
        SetNextToken_def split: if_splits)
  ultimately show ?thesis using q by auto
qed

lemma columns_of_table:
  assumes "describes E db tbl xs" and "narrow_ok (ce_mode (ct_conv E))"
    and "ms = cq_meta c @ table_column_rows (ct_asSchema E) (text_of (cq_column c)) db tbl xs"
  shows "\<exists>q d'. MakeRequestGetColumnsMetaPerTable E db tbl c d =
    Some (if ms = [] then AI_SUCCESS_WITH_INFO else AI_SUCCESS, c\<lparr>cq_dataQuery := Some q, cq_meta := ms\<rparr>, d')"
proof -
  obtain q where q: "Execute (ct_query E) (DataQuery (describe_table db tbl)) d = Some (AI_SUCCESS, q, d)"
    "remaining (ev_query (ct_query E)) q (map column_cells_of xs)" "text_columns 3 (resultMeta q)"
    using Execute_columns [OF assms(1)] by blast
  have xs: "\<forall>x\<in>set xs. service_column (ce_wide (ct_conv E)) x" using assms(1) by (simp add: describes_def)
  obtain q' where "fetch_columns E (text_of (cq_column c)) (ColumnMetaFor (ct_asSchema E) db tbl)
      (description_bindings, stack_memory (ct_junk E)) q d 0 =
      Some (table_column_rows (ct_asSchema E) (text_of (cq_column c)) db tbl xs, q', d)"
    using fetch_columns_all [OF assms(2) xs q(2,3)] unfolding table_column_rows_def by blast
  then show ?thesis
    using q(1) assms(3) by (auto simp: MakeRequestGetColumnsMetaPerTable_def Let_def)
qed

text \<open>A row of the table search read into the two local buffers.\<close>

definition table_index :: "bool \<Rightarrow> nat" where "table_index asS = (if asS then 2 else 1)"

lemma table_row_put:
  assumes "narrow_ok (ce_mode e)" and "service_name db" and "service_name tbl"
    and "tq_executed t" and "tq_cursor t < length (tq_meta t)" and "tq_meta t ! tq_cursor t = table_row asS db tbl"
  shows "table_cells e t [1..<6] (table_name_buffers (table_index asS), m) d =
    Some ((table_name_buffers (table_index asS),
      write_bytes 16384 (str_bytes tbl @ [0]) (write_bytes 4096 (str_bytes db @ [0]) m)), d)"
proof -
  have ne: "tq_meta t \<noteq> []" "\<not> length (tq_meta t) \<le> tq_cursor t" using assms(5) by auto
  have cell: "Table_GetColumn e i (text_buffer a) m' t d =
      Some (AI_SUCCESS, text_buffer a, write_bytes a (str_bytes n @ [0]) m', d)"
    if "table_cell i (table_row asS db tbl) = Some (Some n)" "service_name n" "a \<noteq> 0" for i n a m'
    using that text_put [OF assms(1) that(2,3), of m'] assms(4,6) ne
    by (simp add: Table_GetColumn_def PutOptString_def)
  have cols: "[1..<6] = [1, 2, 3, 4, 5::nat]" by (simp add: upt_conv_Cons)
  have upd: "i \<noteq> j \<Longrightarrow> [i \<mapsto> a, j \<mapsto> b, i \<mapsto> a] = [i \<mapsto> a, j \<mapsto> b]" "[i \<mapsto> a, j \<mapsto> b, j \<mapsto> b] = [i \<mapsto> a, j \<mapsto> b]"
    for i j :: nat and a b :: app_buffer by (auto simp: fun_eq_iff)
  show ?thesis
  proof (cases asS)
    case True
    then show ?thesis
      unfolding cols using cell [of 2 db 4096] cell [of 3 tbl 16384] assms(2,3)
      by (simp add: table_index_def table_name_buffers_def table_row_def TableMeta_def table_cell_def upd)
  next
    case False
    then show ?thesis
      unfolding cols using cell [of 1 db 4096] cell [of 3 tbl 16384] assms(2,3)
      by (simp add: table_index_def table_name_buffers_def table_row_def TableMeta_def table_cell_def upd)
  qed
qed

lemma table_texts:
  assumes "service_name db" and "service_name tbl"
  shows "text_at 4096 (write_bytes 16384 (str_bytes tbl @ [0]) (write_bytes 4096 (str_bytes db @ [0]) m)) = db"
    and "text_at 16384 (write_bytes 16384 (str_bytes tbl @ [0]) (write_bytes 4096 (str_bytes db @ [0]) m)) = tbl"
proof -
  have "length db < 2048" using assms(1) by (simp add: service_name_def STRING_BUFFER_SIZE_def)
  then show "text_at 4096 (write_bytes 16384 (str_bytes tbl @ [0]) (write_bytes 4096 (str_bytes db @ [0]) m)) = db"
    using text_written [of 4096 db m] by (intro text_read [OF assms(1)]) (simp add: read_bytes_outside)
  show "text_at 16384 (write_bytes 16384 (str_bytes tbl @ [0]) (write_bytes 4096 (str_bytes db @ [0]) m)) = tbl"
    by (rule text_read [OF assms(2) text_written])
qed

lemma next_table:
  assumes "narrow_ok (ce_mode e)" and "service_name db" and "service_name tbl"
    and "table_rows t (table_row asS db tbl # rows)"
  shows "\<exists>t' m'. Table_FetchNextRow e (table_name_buffers (table_index asS), m) t d =
      Some (AI_SUCCESS, (table_name_buffers (table_index asS), m'), t', d)
    \<and> text_at 4096 m' = db \<and> text_at 16384 m' = tbl \<and> table_rows t' rows"
proof -
  define t' where "t' = (if \<not> tq_fetched t then t\<lparr>tq_fetched := True\<rparr>
                  else if tq_cursor t \<noteq> length (tq_meta t) then t\<lparr>tq_cursor := tq_cursor t + 1\<rparr> else t)"
  define k where "k = (if tq_fetched t then tq_cursor t + 1 else tq_cursor t)"
  have ex: "tq_executed t" and d: "drop k (tq_meta t) = table_row asS db tbl # rows"
    using assms(4) by (simp_all add: table_rows_def k_def)
  have lt: "k < length (tq_meta t)" using d by (cases "k < length (tq_meta t)") simp_all
  have nth: "tq_meta t ! k = table_row asS db tbl" by (rule nth_via_drop [OF d])
  have rest: "drop (Suc k) (tq_meta t) = rows" using d by (simp add: drop_Suc tl_drop [symmetric])
  have "tq_executed t'" "tq_cursor t' = k" "tq_fetched t'" "tq_meta t' = tq_meta t"
    using ex lt by (auto simp: t'_def k_def)
  then have t': "tq_executed t'" "tq_cursor t' < length (tq_meta t')" "tq_meta t' ! tq_cursor t' = table_row asS db tbl"
    "tq_meta t' \<noteq> []" "tq_cursor t' \<noteq> length (tq_meta t')" "table_rows t' rows"
    using lt nth rest by (auto simp: table_rows_def)
  have F: "Table_FetchNextRow e b t d = map_option (\<lambda>(b', d'). (AI_SUCCESS, b', t', d')) (table_cells e t' [1..<6] b d)" for b
    using ex t'(4,5) unfolding Table_FetchNextRow_def t'_def Let_def by (auto split: if_splits)
  show ?thesis
    unfolding F table_row_put [OF assms(1-3) t'(1-3)] using table_texts [OF assms(2,3)] t'(6) by simp
qed

lemma no_table_left:
  assumes "table_rows t []"
  shows "\<exists>t'. Table_FetchNextRow e b t d = Some (AI_NO_DATA, b, t', d)"
proof -
  define k where "k = (if tq_fetched t then tq_cursor t + 1 else tq_cursor t)"
  have "tq_executed t" "tq_cursor t \<le> length (tq_meta t)" "length (tq_meta t) \<le> k"
    using assms by (auto simp: table_rows_def k_def)
  then show ?thesis by (auto simp: Table_FetchNextRow_def Let_def k_def split: if_splits)
qed

definition found_columns ::
  "bool \<Rightarrow> string \<Rightarrow> (string \<Rightarrow> string \<Rightarrow> column_row list) \<Rightarrow> (string \<times> string) list \<Rightarrow> column_meta list" where
  "found_columns asS col cols ps = concat (map (\<lambda>(db, tbl). table_column_rows asS col db tbl (cols db tbl)) ps)"

lemma describe_all_tables:
  assumes "narrow_ok (ce_mode (ct_conv E))"
    and "\<forall>(db, tbl)\<in>set ps. service_name db \<and> service_name tbl \<and> describes E db tbl (cols db tbl)"
    and "table_rows (cq_tables c) (map (\<lambda>(db, tbl). table_row (ct_asSchema E) db tbl) ps)"
    and "ms = cq_meta c @ found_columns (ct_asSchema E) (text_of (cq_column c)) cols ps"
  shows "\<exists>c' d'. describe_tables E (table_name_buffers (table_index (ct_asSchema E)), m) res c d =
      Some (if ps = [] then res else if ms = [] then AI_SUCCESS_WITH_INFO else AI_SUCCESS, c', d') \<and> cq_meta c' = ms"
  using assms(2-4)
proof (induction ps arbitrary: m res c d)
  case Nil
  then obtain t' where "Table_FetchNextRow (ct_conv E) (table_name_buffers (table_index (ct_asSchema E)), m) (cq_tables c) d =
      Some (AI_NO_DATA, (table_name_buffers (table_index (ct_asSchema E)), m), t', d)"
    using no_table_left [of "cq_tables c"] by fastforce
  then show ?case using Nil.prems(3) by (subst describe_tables.simps) (simp add: found_columns_def)
next
  case (Cons p ps)
  let ?tb = "table_name_buffers (table_index (ct_asSchema E))"
  obtain db tbl where p: "p = (db, tbl)" by (cases p)
  have n: "service_name db" "service_name tbl" and D: "describes E db tbl (cols db tbl)"
    using Cons.prems(1) p by auto
  have "table_rows (cq_tables c) (table_row (ct_asSchema E) db tbl # map (\<lambda>(db, tbl). table_row (ct_asSchema E) db tbl) ps)"
    using Cons.prems(2) p by simp
  from next_table [OF assms(1) n this] obtain t' m' where
    F: "Table_FetchNextRow (ct_conv E) (?tb, m) (cq_tables c) d = Some (AI_SUCCESS, (?tb, m'), t', d)"
    and t': "text_at 4096 m' = db" "text_at 16384 m' = tbl"
      "table_rows t' (map (\<lambda>(db, tbl). table_row (ct_asSchema E) db tbl) ps)"
    by blast
  let ?c1 = "c\<lparr>cq_tables := t'\<rparr>"
  define ms1 where "ms1 = cq_meta ?c1 @ table_column_rows (ct_asSchema E) (text_of (cq_column ?c1)) db tbl (cols db tbl)"
  obtain q d1 where R: "MakeRequestGetColumnsMetaPerTable E db tbl ?c1 d =
      Some (if ms1 = [] then AI_SUCCESS_WITH_INFO else AI_SUCCESS, ?c1\<lparr>cq_dataQuery := Some q, cq_meta := ms1\<rparr>, d1)"
    using columns_of_table [OF D assms(1) ms1_def] by blast
  define c2 where "c2 = ?c1\<lparr>cq_dataQuery := Some q, cq_meta := ms1\<rparr>"
  have c2: "table_rows (cq_tables c2) (map (\<lambda>(db, tbl). table_row (ct_asSchema E) db tbl) ps)"
    "ms = cq_meta c2 @ found_columns (ct_asSchema E) (text_of (cq_column c2)) cols ps" "cq_meta c2 = ms1"
    using t'(3) Cons.prems(3) by (simp_all add: c2_def ms1_def found_columns_def p)
  have ps: "\<forall>(db, tbl)\<in>set ps. service_name db \<and> service_name tbl \<and> describes E db tbl (cols db tbl)"
    using Cons.prems(1) by simp
  let ?r1 = "if ms1 = [] then AI_SUCCESS_WITH_INFO else AI_SUCCESS"
  have step: "describe_tables E (?tb, m) res c d = describe_tables E (?tb, m') ?r1 c2 d1"
    by (subst describe_tables.simps) (simp add: F t' R c2_def [symmetric])
  have "ps = [] \<Longrightarrow> ms = ms1" using c2(2,3) by (simp add: found_columns_def)
  then show ?case
    unfolding step using Cons.IH [OF ps c2(1,2), of m' ?r1 d1] by auto
qed

section \<open>The column catalog by patterns\<close>


definition example_rows :: "column_row list" where
  "example_rows = [([105, 100], ''varchar'', ''DIMENSION''), ([120], ''bigint'', ''MEASURE_VALUE'')]"

lemma example_encoded: "utf8_encode [105, 100] = ''id''" "utf8_encode [120] = ''x''"
  by (simp_all add: utf8_encode_def utf8_encode1_def byte_char_def char_of_def bit_iff_odd)

lemma example_description: "describes (example_catalog False) ''db'' t example_rows"
proof -
  let ?E = "example_catalog False" and ?sql = "describe_table ''db'' t"
  have ne: "?sql \<noteq> show_databases ''%''" "?sql \<noteq> show_tables ''db'' ''%''"
    by (simp_all add: show_tables_def show_databases_def describe_table_def)
  have cells: "map column_cells_of example_rows = pg_rows column_page"
    by (simp add: example_rows_def column_cells_of_def column_page_def example_encoded)
  have "chain catalog_service (first_request (ct_query ?E) ?sql) (pg_rows column_page)"
    using last_page [of column_page catalog_service] ne
    by (simp add: chain_iff catalog_service_def first_request_def column_page_def)
  then have "lead_chain (ev_query (ct_query ?E)) (first_request (ct_query ?E) ?sql) (map column_cells_of example_rows)"
    unfolding cells by (auto simp: example_catalog_def intro: lead_here)
  moreover have "service_column (ce_wide (ct_conv ?E)) x" if "x \<in> set example_rows" for x
    using that by (auto simp: example_rows_def example_catalog_def example_conv_def service_column_def wide_text_def
        scalar_value_def max_code_def example_encoded service_name_def STRING_BUFFER_SIZE_def char_code_def)
  moreover have "text_columns 3 (map (ev_readMeta (ct_query ?E)) (pg_columns p))"
    if "rq_sql rq = ?sql" "ev_query (ct_query ?E) rq = Page p" for rq p
    using that ne by (auto simp: example_catalog_def catalog_service_def column_page_def text_columns_def ColumnMeta_def
        GetScalarType_def nth_Cons split: nat.split if_splits)
  moreover have "example_rows \<noteq> []" by (simp add: example_rows_def)
  ultimately show ?thesis unfolding describes_def by blast
qed


section \<open>The types of the cells\<close>

text \<open>A cell fits a column that is declared with its type; a null fits when the column is not declared to have none.\<close>

definition cell_fits :: "string \<times> scalar_type \<times> nullability_type \<Rightarrow> cell option \<Rightarrow> bool" where
  "cell_fits col v =
     (case (col, v) of
        ((n, ty, nul), Some Cell_Null) \<Rightarrow> nul \<noteq> NO_NULL
      | ((n, ty, nul), Some (Cell_String _)) \<Rightarrow> ty = Scalar_VARCHAR
      | ((n, ty, nul), Some (Cell_Int16 _)) \<Rightarrow> ty = Scalar_INTEGER
      | ((n, ty, nul), Some (Cell_Int32 _)) \<Rightarrow> ty = Scalar_INTEGER
      | (_, None) \<Rightarrow> False)"

lemma cell_fits_simps [simp]:
  "cell_fits (n, ty, nul) (Some (cell_of Cell_String x)) \<longleftrightarrow> (if x = None then nul \<noteq> NO_NULL else ty = Scalar_VARCHAR)"
  "cell_fits (n, ty, nul) (Some (cell_of Cell_Int16 y)) \<longleftrightarrow> (if y = None then nul \<noteq> NO_NULL else ty = Scalar_INTEGER)"
  "cell_fits (n, ty, nul) (Some (cell_of Cell_Int32 y)) \<longleftrightarrow> (if y = None then nul \<noteq> NO_NULL else ty = Scalar_INTEGER)"
  "cell_fits (n, ty, nul) (Some Cell_Null) \<longleftrightarrow> nul \<noteq> NO_NULL"
  "cell_fits (n, ty, nul) (Some (Cell_String s)) \<longleftrightarrow> ty = Scalar_VARCHAR"
  "cell_fits (n, ty, nul) (Some (Cell_Int16 k)) \<longleftrightarrow> ty = Scalar_INTEGER"
  "cell_fits (n, ty, nul) (Some (Cell_Int32 k)) \<longleftrightarrow> ty = Scalar_INTEGER"
  by (simp_all add: cell_fits_def cell_of_def split: option.split)

text \<open> C40. The rows of the column catalog and of the type catalog are well typed: every column the result declares
  has a cell, of the declared type, and a null only where nulls are declared possible. This holds for every column
  described, whatever its name, type and remark, and for every type.\<close>

theorem catalog_cells_well_typed:
  "list_all2 (\<lambda>col i. cell_fits col (column_cell w i (described_column (ColumnMetaFor asS db tbl) pos x)))
     column_columns [1..<19]
   \<and> list_all2 (\<lambda>col i. cell_fits col (type_info_cell i t)) type_info_columns [1..<20]"
proof
  have idx: "[1..<19] = [1,2,3,4,5,6,7,8,9,10,11,12,13,14,15,16,17,18::nat]"
    "[1..<20] = [1,2,3,4,5,6,7,8,9,10,11,12,13,14,15,16,17,18,19::nat]"
    by (simp_all add: upt_conv_Cons)
  obtain us ty rk where x: "x = (us, ty, rk)" by (cases x)
  show "list_all2 (\<lambda>col i. cell_fits col (column_cell w i (described_column (ColumnMetaFor asS db tbl) pos x)))
     column_columns [1..<19]"
    unfolding idx column_columns_def
    by (simp add: column_cell_def described_column_def ColumnMetaFor_def x Let_def BinaryToSqlType_def
        BinaryTypeToSqlTypeName_def split: option.split)
  show "list_all2 (\<lambda>col i. cell_fits col (type_info_cell i t)) type_info_columns [1..<20]"
    unfolding idx type_info_columns_def
    by (simp add: type_info_cell_def BinaryToSqlType_def BinaryTypeToSqlTypeName_def)
qed

end
