(* ===== verification/Info_Constants.thy ===== *)
theory Info_Constants
  imports Odbc_Constants
begin

text \<open>
  The information types of \<^verbatim>\<open>SQLGetInfo\<close> and the values of their answers, as the ODBC interface fixes them.
\<close>

section \<open>Information types\<close>

abbreviation (input) SQL_MAX_DRIVER_CONNECTIONS :: int where "SQL_MAX_DRIVER_CONNECTIONS \<equiv> 0"
abbreviation (input) SQL_MAX_CONCURRENT_ACTIVITIES :: int where "SQL_MAX_CONCURRENT_ACTIVITIES \<equiv> 1"
abbreviation (input) SQL_DATA_SOURCE_NAME :: int where "SQL_DATA_SOURCE_NAME \<equiv> 2"
abbreviation (input) SQL_DRIVER_NAME :: int where "SQL_DRIVER_NAME \<equiv> 6"
abbreviation (input) SQL_DRIVER_VER :: int where "SQL_DRIVER_VER \<equiv> 7"
abbreviation (input) SQL_FETCH_DIRECTION :: int where "SQL_FETCH_DIRECTION \<equiv> 8"
abbreviation (input) SQL_ODBC_API_CONFORMANCE :: int where "SQL_ODBC_API_CONFORMANCE \<equiv> 9"
abbreviation (input) SQL_ROW_UPDATES :: int where "SQL_ROW_UPDATES \<equiv> 11"
abbreviation (input) SQL_SERVER_NAME :: int where "SQL_SERVER_NAME \<equiv> 13"
abbreviation (input) SQL_SEARCH_PATTERN_ESCAPE :: int where "SQL_SEARCH_PATTERN_ESCAPE \<equiv> 14"
abbreviation (input) SQL_ODBC_SQL_CONFORMANCE :: int where "SQL_ODBC_SQL_CONFORMANCE \<equiv> 15"
abbreviation (input) SQL_DATABASE_NAME :: int where "SQL_DATABASE_NAME \<equiv> 16"
abbreviation (input) SQL_DBMS_NAME :: int where "SQL_DBMS_NAME \<equiv> 17"
abbreviation (input) SQL_DBMS_VER :: int where "SQL_DBMS_VER \<equiv> 18"
abbreviation (input) SQL_ACCESSIBLE_TABLES :: int where "SQL_ACCESSIBLE_TABLES \<equiv> 19"
abbreviation (input) SQL_ACCESSIBLE_PROCEDURES :: int where "SQL_ACCESSIBLE_PROCEDURES \<equiv> 20"
abbreviation (input) SQL_PROCEDURES :: int where "SQL_PROCEDURES \<equiv> 21"
abbreviation (input) SQL_CONCAT_NULL_BEHAVIOR :: int where "SQL_CONCAT_NULL_BEHAVIOR \<equiv> 22"
abbreviation (input) SQL_CURSOR_COMMIT_BEHAVIOR :: int where "SQL_CURSOR_COMMIT_BEHAVIOR \<equiv> 23"
abbreviation (input) SQL_CURSOR_ROLLBACK_BEHAVIOR :: int where "SQL_CURSOR_ROLLBACK_BEHAVIOR \<equiv> 24"
abbreviation (input) SQL_DATA_SOURCE_READ_ONLY :: int where "SQL_DATA_SOURCE_READ_ONLY \<equiv> 25"
abbreviation (input) SQL_DEFAULT_TXN_ISOLATION :: int where "SQL_DEFAULT_TXN_ISOLATION \<equiv> 26"
abbreviation (input) SQL_EXPRESSIONS_IN_ORDERBY :: int where "SQL_EXPRESSIONS_IN_ORDERBY \<equiv> 27"
abbreviation (input) SQL_IDENTIFIER_CASE :: int where "SQL_IDENTIFIER_CASE \<equiv> 28"
abbreviation (input) SQL_IDENTIFIER_QUOTE_CHAR :: int where "SQL_IDENTIFIER_QUOTE_CHAR \<equiv> 29"
abbreviation (input) SQL_MAX_COLUMN_NAME_LEN :: int where "SQL_MAX_COLUMN_NAME_LEN \<equiv> 30"
abbreviation (input) SQL_MAX_CURSOR_NAME_LEN :: int where "SQL_MAX_CURSOR_NAME_LEN \<equiv> 31"
abbreviation (input) SQL_MAX_SCHEMA_NAME_LEN :: int where "SQL_MAX_SCHEMA_NAME_LEN \<equiv> 32"
abbreviation (input) SQL_MAX_PROCEDURE_NAME_LEN :: int where "SQL_MAX_PROCEDURE_NAME_LEN \<equiv> 33"
abbreviation (input) SQL_MAX_CATALOG_NAME_LEN :: int where "SQL_MAX_CATALOG_NAME_LEN \<equiv> 34"
abbreviation (input) SQL_MAX_TABLE_NAME_LEN :: int where "SQL_MAX_TABLE_NAME_LEN \<equiv> 35"
abbreviation (input) SQL_MULT_RESULT_SETS :: int where "SQL_MULT_RESULT_SETS \<equiv> 36"
abbreviation (input) SQL_MULTIPLE_ACTIVE_TXN :: int where "SQL_MULTIPLE_ACTIVE_TXN \<equiv> 37"
abbreviation (input) SQL_SCHEMA_TERM :: int where "SQL_SCHEMA_TERM \<equiv> 39"
abbreviation (input) SQL_PROCEDURE_TERM :: int where "SQL_PROCEDURE_TERM \<equiv> 40"
abbreviation (input) SQL_CATALOG_NAME_SEPARATOR :: int where "SQL_CATALOG_NAME_SEPARATOR \<equiv> 41"
abbreviation (input) SQL_CATALOG_TERM :: int where "SQL_CATALOG_TERM \<equiv> 42"
abbreviation (input) SQL_SCROLL_CONCURRENCY :: int where "SQL_SCROLL_CONCURRENCY \<equiv> 43"
abbreviation (input) SQL_SCROLL_OPTIONS :: int where "SQL_SCROLL_OPTIONS \<equiv> 44"
abbreviation (input) SQL_TABLE_TERM :: int where "SQL_TABLE_TERM \<equiv> 45"
abbreviation (input) SQL_TXN_CAPABLE :: int where "SQL_TXN_CAPABLE \<equiv> 46"
abbreviation (input) SQL_USER_NAME :: int where "SQL_USER_NAME \<equiv> 47"
abbreviation (input) SQL_CONVERT_FUNCTIONS :: int where "SQL_CONVERT_FUNCTIONS \<equiv> 48"
abbreviation (input) SQL_NUMERIC_FUNCTIONS :: int where "SQL_NUMERIC_FUNCTIONS \<equiv> 49"
abbreviation (input) SQL_STRING_FUNCTIONS :: int where "SQL_STRING_FUNCTIONS \<equiv> 50"
abbreviation (input) SQL_SYSTEM_FUNCTIONS :: int where "SQL_SYSTEM_FUNCTIONS \<equiv> 51"
abbreviation (input) SQL_TIMEDATE_FUNCTIONS :: int where "SQL_TIMEDATE_FUNCTIONS \<equiv> 52"
abbreviation (input) SQL_CONVERT_BIGINT :: int where "SQL_CONVERT_BIGINT \<equiv> 53"
abbreviation (input) SQL_CONVERT_BINARY :: int where "SQL_CONVERT_BINARY \<equiv> 54"
abbreviation (input) SQL_CONVERT_BIT :: int where "SQL_CONVERT_BIT \<equiv> 55"
abbreviation (input) SQL_CONVERT_CHAR :: int where "SQL_CONVERT_CHAR \<equiv> 56"
abbreviation (input) SQL_CONVERT_DATE :: int where "SQL_CONVERT_DATE \<equiv> 57"
abbreviation (input) SQL_CONVERT_DECIMAL :: int where "SQL_CONVERT_DECIMAL \<equiv> 58"
abbreviation (input) SQL_CONVERT_DOUBLE :: int where "SQL_CONVERT_DOUBLE \<equiv> 59"
abbreviation (input) SQL_CONVERT_FLOAT :: int where "SQL_CONVERT_FLOAT \<equiv> 60"
abbreviation (input) SQL_CONVERT_INTEGER :: int where "SQL_CONVERT_INTEGER \<equiv> 61"
abbreviation (input) SQL_CONVERT_LONGVARCHAR :: int where "SQL_CONVERT_LONGVARCHAR \<equiv> 62"
abbreviation (input) SQL_CONVERT_NUMERIC :: int where "SQL_CONVERT_NUMERIC \<equiv> 63"
abbreviation (input) SQL_CONVERT_REAL :: int where "SQL_CONVERT_REAL \<equiv> 64"
abbreviation (input) SQL_CONVERT_SMALLINT :: int where "SQL_CONVERT_SMALLINT \<equiv> 65"
abbreviation (input) SQL_CONVERT_TIME :: int where "SQL_CONVERT_TIME \<equiv> 66"
abbreviation (input) SQL_CONVERT_TIMESTAMP :: int where "SQL_CONVERT_TIMESTAMP \<equiv> 67"
abbreviation (input) SQL_CONVERT_TINYINT :: int where "SQL_CONVERT_TINYINT \<equiv> 68"
abbreviation (input) SQL_CONVERT_VARBINARY :: int where "SQL_CONVERT_VARBINARY \<equiv> 69"
abbreviation (input) SQL_CONVERT_VARCHAR :: int where "SQL_CONVERT_VARCHAR \<equiv> 70"
abbreviation (input) SQL_CONVERT_LONGVARBINARY :: int where "SQL_CONVERT_LONGVARBINARY \<equiv> 71"
abbreviation (input) SQL_TXN_ISOLATION_OPTION :: int where "SQL_TXN_ISOLATION_OPTION \<equiv> 72"
abbreviation (input) SQL_INTEGRITY :: int where "SQL_INTEGRITY \<equiv> 73"
abbreviation (input) SQL_CORRELATION_NAME :: int where "SQL_CORRELATION_NAME \<equiv> 74"
abbreviation (input) SQL_NON_NULLABLE_COLUMNS :: int where "SQL_NON_NULLABLE_COLUMNS \<equiv> 75"
abbreviation (input) SQL_DRIVER_ODBC_VER :: int where "SQL_DRIVER_ODBC_VER \<equiv> 77"
abbreviation (input) SQL_LOCK_TYPES :: int where "SQL_LOCK_TYPES \<equiv> 78"
abbreviation (input) SQL_POS_OPERATIONS :: int where "SQL_POS_OPERATIONS \<equiv> 79"
abbreviation (input) SQL_POSITIONED_STATEMENTS :: int where "SQL_POSITIONED_STATEMENTS \<equiv> 80"
abbreviation (input) SQL_GETDATA_EXTENSIONS :: int where "SQL_GETDATA_EXTENSIONS \<equiv> 81"
abbreviation (input) SQL_BOOKMARK_PERSISTENCE :: int where "SQL_BOOKMARK_PERSISTENCE \<equiv> 82"
abbreviation (input) SQL_STATIC_SENSITIVITY :: int where "SQL_STATIC_SENSITIVITY \<equiv> 83"
abbreviation (input) SQL_FILE_USAGE :: int where "SQL_FILE_USAGE \<equiv> 84"
abbreviation (input) SQL_NULL_COLLATION :: int where "SQL_NULL_COLLATION \<equiv> 85"
abbreviation (input) SQL_ALTER_TABLE :: int where "SQL_ALTER_TABLE \<equiv> 86"
abbreviation (input) SQL_COLUMN_ALIAS :: int where "SQL_COLUMN_ALIAS \<equiv> 87"
abbreviation (input) SQL_GROUP_BY :: int where "SQL_GROUP_BY \<equiv> 88"
abbreviation (input) SQL_KEYWORDS :: int where "SQL_KEYWORDS \<equiv> 89"
abbreviation (input) SQL_ORDER_BY_COLUMNS_IN_SELECT :: int where "SQL_ORDER_BY_COLUMNS_IN_SELECT \<equiv> 90"
abbreviation (input) SQL_SCHEMA_USAGE :: int where "SQL_SCHEMA_USAGE \<equiv> 91"
abbreviation (input) SQL_CATALOG_USAGE :: int where "SQL_CATALOG_USAGE \<equiv> 92"
abbreviation (input) SQL_QUOTED_IDENTIFIER_CASE :: int where "SQL_QUOTED_IDENTIFIER_CASE \<equiv> 93"
abbreviation (input) SQL_SPECIAL_CHARACTERS :: int where "SQL_SPECIAL_CHARACTERS \<equiv> 94"
abbreviation (input) SQL_SUBQUERIES :: int where "SQL_SUBQUERIES \<equiv> 95"
abbreviation (input) SQL_UNION :: int where "SQL_UNION \<equiv> 96"
abbreviation (input) SQL_MAX_COLUMNS_IN_GROUP_BY :: int where "SQL_MAX_COLUMNS_IN_GROUP_BY \<equiv> 97"
abbreviation (input) SQL_MAX_COLUMNS_IN_INDEX :: int where "SQL_MAX_COLUMNS_IN_INDEX \<equiv> 98"
abbreviation (input) SQL_MAX_COLUMNS_IN_ORDER_BY :: int where "SQL_MAX_COLUMNS_IN_ORDER_BY \<equiv> 99"
abbreviation (input) SQL_MAX_COLUMNS_IN_SELECT :: int where "SQL_MAX_COLUMNS_IN_SELECT \<equiv> 100"
abbreviation (input) SQL_MAX_COLUMNS_IN_TABLE :: int where "SQL_MAX_COLUMNS_IN_TABLE \<equiv> 101"
abbreviation (input) SQL_MAX_INDEX_SIZE :: int where "SQL_MAX_INDEX_SIZE \<equiv> 102"
abbreviation (input) SQL_MAX_ROW_SIZE_INCLUDES_LONG :: int where "SQL_MAX_ROW_SIZE_INCLUDES_LONG \<equiv> 103"
abbreviation (input) SQL_MAX_ROW_SIZE :: int where "SQL_MAX_ROW_SIZE \<equiv> 104"
abbreviation (input) SQL_MAX_STATEMENT_LEN :: int where "SQL_MAX_STATEMENT_LEN \<equiv> 105"
abbreviation (input) SQL_MAX_TABLES_IN_SELECT :: int where "SQL_MAX_TABLES_IN_SELECT \<equiv> 106"
abbreviation (input) SQL_MAX_USER_NAME_LEN :: int where "SQL_MAX_USER_NAME_LEN \<equiv> 107"
abbreviation (input) SQL_MAX_CHAR_LITERAL_LEN :: int where "SQL_MAX_CHAR_LITERAL_LEN \<equiv> 108"
abbreviation (input) SQL_TIMEDATE_ADD_INTERVALS :: int where "SQL_TIMEDATE_ADD_INTERVALS \<equiv> 109"
abbreviation (input) SQL_TIMEDATE_DIFF_INTERVALS :: int where "SQL_TIMEDATE_DIFF_INTERVALS \<equiv> 110"
abbreviation (input) SQL_NEED_LONG_DATA_LEN :: int where "SQL_NEED_LONG_DATA_LEN \<equiv> 111"
abbreviation (input) SQL_MAX_BINARY_LITERAL_LEN :: int where "SQL_MAX_BINARY_LITERAL_LEN \<equiv> 112"
abbreviation (input) SQL_LIKE_ESCAPE_CLAUSE :: int where "SQL_LIKE_ESCAPE_CLAUSE \<equiv> 113"
abbreviation (input) SQL_CATALOG_LOCATION :: int where "SQL_CATALOG_LOCATION \<equiv> 114"
abbreviation (input) SQL_OJ_CAPABILITIES :: int where "SQL_OJ_CAPABILITIES \<equiv> 115"
abbreviation (input) SQL_ACTIVE_ENVIRONMENTS :: int where "SQL_ACTIVE_ENVIRONMENTS \<equiv> 116"
abbreviation (input) SQL_ALTER_DOMAIN :: int where "SQL_ALTER_DOMAIN \<equiv> 117"
abbreviation (input) SQL_SQL_CONFORMANCE :: int where "SQL_SQL_CONFORMANCE \<equiv> 118"
abbreviation (input) SQL_DATETIME_LITERALS :: int where "SQL_DATETIME_LITERALS \<equiv> 119"
abbreviation (input) SQL_BATCH_ROW_COUNT :: int where "SQL_BATCH_ROW_COUNT \<equiv> 120"
abbreviation (input) SQL_BATCH_SUPPORT :: int where "SQL_BATCH_SUPPORT \<equiv> 121"
abbreviation (input) SQL_CONVERT_WCHAR :: int where "SQL_CONVERT_WCHAR \<equiv> 122"
abbreviation (input) SQL_CONVERT_INTERVAL_DAY_TIME :: int where "SQL_CONVERT_INTERVAL_DAY_TIME \<equiv> 123"
abbreviation (input) SQL_CONVERT_INTERVAL_YEAR_MONTH :: int where "SQL_CONVERT_INTERVAL_YEAR_MONTH \<equiv> 124"
abbreviation (input) SQL_CONVERT_WLONGVARCHAR :: int where "SQL_CONVERT_WLONGVARCHAR \<equiv> 125"
abbreviation (input) SQL_CONVERT_WVARCHAR :: int where "SQL_CONVERT_WVARCHAR \<equiv> 126"
abbreviation (input) SQL_CREATE_ASSERTION :: int where "SQL_CREATE_ASSERTION \<equiv> 127"
abbreviation (input) SQL_CREATE_CHARACTER_SET :: int where "SQL_CREATE_CHARACTER_SET \<equiv> 128"
abbreviation (input) SQL_CREATE_COLLATION :: int where "SQL_CREATE_COLLATION \<equiv> 129"
abbreviation (input) SQL_CREATE_DOMAIN :: int where "SQL_CREATE_DOMAIN \<equiv> 130"
abbreviation (input) SQL_CREATE_SCHEMA :: int where "SQL_CREATE_SCHEMA \<equiv> 131"
abbreviation (input) SQL_CREATE_TABLE :: int where "SQL_CREATE_TABLE \<equiv> 132"
abbreviation (input) SQL_CREATE_TRANSLATION :: int where "SQL_CREATE_TRANSLATION \<equiv> 133"
abbreviation (input) SQL_CREATE_VIEW :: int where "SQL_CREATE_VIEW \<equiv> 134"
abbreviation (input) SQL_DROP_ASSERTION :: int where "SQL_DROP_ASSERTION \<equiv> 136"
abbreviation (input) SQL_DROP_CHARACTER_SET :: int where "SQL_DROP_CHARACTER_SET \<equiv> 137"
abbreviation (input) SQL_DROP_COLLATION :: int where "SQL_DROP_COLLATION \<equiv> 138"
abbreviation (input) SQL_DROP_DOMAIN :: int where "SQL_DROP_DOMAIN \<equiv> 139"
abbreviation (input) SQL_DROP_SCHEMA :: int where "SQL_DROP_SCHEMA \<equiv> 140"
abbreviation (input) SQL_DROP_TABLE :: int where "SQL_DROP_TABLE \<equiv> 141"
abbreviation (input) SQL_DROP_TRANSLATION :: int where "SQL_DROP_TRANSLATION \<equiv> 142"
abbreviation (input) SQL_DROP_VIEW :: int where "SQL_DROP_VIEW \<equiv> 143"
abbreviation (input) SQL_DYNAMIC_CURSOR_ATTRIBUTES1 :: int where "SQL_DYNAMIC_CURSOR_ATTRIBUTES1 \<equiv> 144"
abbreviation (input) SQL_DYNAMIC_CURSOR_ATTRIBUTES2 :: int where "SQL_DYNAMIC_CURSOR_ATTRIBUTES2 \<equiv> 145"
abbreviation (input) SQL_FORWARD_ONLY_CURSOR_ATTRIBUTES1 :: int where "SQL_FORWARD_ONLY_CURSOR_ATTRIBUTES1 \<equiv> 146"
abbreviation (input) SQL_FORWARD_ONLY_CURSOR_ATTRIBUTES2 :: int where "SQL_FORWARD_ONLY_CURSOR_ATTRIBUTES2 \<equiv> 147"
abbreviation (input) SQL_INDEX_KEYWORDS :: int where "SQL_INDEX_KEYWORDS \<equiv> 148"
abbreviation (input) SQL_INFO_SCHEMA_VIEWS :: int where "SQL_INFO_SCHEMA_VIEWS \<equiv> 149"
abbreviation (input) SQL_KEYSET_CURSOR_ATTRIBUTES1 :: int where "SQL_KEYSET_CURSOR_ATTRIBUTES1 \<equiv> 150"
abbreviation (input) SQL_KEYSET_CURSOR_ATTRIBUTES2 :: int where "SQL_KEYSET_CURSOR_ATTRIBUTES2 \<equiv> 151"
abbreviation (input) SQL_ODBC_INTERFACE_CONFORMANCE :: int where "SQL_ODBC_INTERFACE_CONFORMANCE \<equiv> 152"
abbreviation (input) SQL_PARAM_ARRAY_ROW_COUNTS :: int where "SQL_PARAM_ARRAY_ROW_COUNTS \<equiv> 153"
abbreviation (input) SQL_PARAM_ARRAY_SELECTS :: int where "SQL_PARAM_ARRAY_SELECTS \<equiv> 154"
abbreviation (input) SQL_SQL92_DATETIME_FUNCTIONS :: int where "SQL_SQL92_DATETIME_FUNCTIONS \<equiv> 155"
abbreviation (input) SQL_SQL92_FOREIGN_KEY_DELETE_RULE :: int where "SQL_SQL92_FOREIGN_KEY_DELETE_RULE \<equiv> 156"
abbreviation (input) SQL_SQL92_FOREIGN_KEY_UPDATE_RULE :: int where "SQL_SQL92_FOREIGN_KEY_UPDATE_RULE \<equiv> 157"
abbreviation (input) SQL_SQL92_GRANT :: int where "SQL_SQL92_GRANT \<equiv> 158"
abbreviation (input) SQL_SQL92_NUMERIC_VALUE_FUNCTIONS :: int where "SQL_SQL92_NUMERIC_VALUE_FUNCTIONS \<equiv> 159"
abbreviation (input) SQL_SQL92_PREDICATES :: int where "SQL_SQL92_PREDICATES \<equiv> 160"
abbreviation (input) SQL_SQL92_RELATIONAL_JOIN_OPERATORS :: int where "SQL_SQL92_RELATIONAL_JOIN_OPERATORS \<equiv> 161"
abbreviation (input) SQL_SQL92_REVOKE :: int where "SQL_SQL92_REVOKE \<equiv> 162"
abbreviation (input) SQL_SQL92_ROW_VALUE_CONSTRUCTOR :: int where "SQL_SQL92_ROW_VALUE_CONSTRUCTOR \<equiv> 163"
abbreviation (input) SQL_SQL92_STRING_FUNCTIONS :: int where "SQL_SQL92_STRING_FUNCTIONS \<equiv> 164"
abbreviation (input) SQL_SQL92_VALUE_EXPRESSIONS :: int where "SQL_SQL92_VALUE_EXPRESSIONS \<equiv> 165"
abbreviation (input) SQL_STANDARD_CLI_CONFORMANCE :: int where "SQL_STANDARD_CLI_CONFORMANCE \<equiv> 166"
abbreviation (input) SQL_STATIC_CURSOR_ATTRIBUTES1 :: int where "SQL_STATIC_CURSOR_ATTRIBUTES1 \<equiv> 167"
abbreviation (input) SQL_STATIC_CURSOR_ATTRIBUTES2 :: int where "SQL_STATIC_CURSOR_ATTRIBUTES2 \<equiv> 168"
abbreviation (input) SQL_AGGREGATE_FUNCTIONS :: int where "SQL_AGGREGATE_FUNCTIONS \<equiv> 169"
abbreviation (input) SQL_DDL_INDEX :: int where "SQL_DDL_INDEX \<equiv> 170"
abbreviation (input) SQL_DM_VER :: int where "SQL_DM_VER \<equiv> 171"
abbreviation (input) SQL_INSERT_STATEMENT :: int where "SQL_INSERT_STATEMENT \<equiv> 172"
abbreviation (input) SQL_CONVERT_GUID :: int where "SQL_CONVERT_GUID \<equiv> 173"
abbreviation (input) SQL_XOPEN_CLI_YEAR :: int where "SQL_XOPEN_CLI_YEAR \<equiv> 10000"
abbreviation (input) SQL_CURSOR_SENSITIVITY :: int where "SQL_CURSOR_SENSITIVITY \<equiv> 10001"
abbreviation (input) SQL_DESCRIBE_PARAMETER :: int where "SQL_DESCRIBE_PARAMETER \<equiv> 10002"
abbreviation (input) SQL_CATALOG_NAME :: int where "SQL_CATALOG_NAME \<equiv> 10003"
abbreviation (input) SQL_COLLATION_SEQ :: int where "SQL_COLLATION_SEQ \<equiv> 10004"
abbreviation (input) SQL_MAX_IDENTIFIER_LEN :: int where "SQL_MAX_IDENTIFIER_LEN \<equiv> 10005"
abbreviation (input) SQL_ASYNC_MODE :: int where "SQL_ASYNC_MODE \<equiv> 10021"
abbreviation (input) SQL_MAX_ASYNC_CONCURRENT_STATEMENTS :: int where "SQL_MAX_ASYNC_CONCURRENT_STATEMENTS \<equiv> 10022"
abbreviation (input) SQL_ASYNC_DBC_FUNCTIONS :: int where "SQL_ASYNC_DBC_FUNCTIONS \<equiv> 10023"
abbreviation (input) SQL_ASYNC_NOTIFICATION :: int where "SQL_ASYNC_NOTIFICATION \<equiv> 10025"

section \<open>Values\<close>

abbreviation (input) SQL_ASYNC_DBC_NOT_CAPABLE :: int where "SQL_ASYNC_DBC_NOT_CAPABLE \<equiv> 0"
abbreviation (input) SQL_AM_NONE :: int where "SQL_AM_NONE \<equiv> 0"
abbreviation (input) SQL_ASYNC_NOTIFICATION_NOT_CAPABLE :: int where "SQL_ASYNC_NOTIFICATION_NOT_CAPABLE \<equiv> 0"
abbreviation (input) SQL_CL_START :: int where "SQL_CL_START \<equiv> 1"
abbreviation (input) SQL_GD_ANY_COLUMN :: int where "SQL_GD_ANY_COLUMN \<equiv> 1"
abbreviation (input) SQL_GD_ANY_ORDER :: int where "SQL_GD_ANY_ORDER \<equiv> 2"
abbreviation (input) SQL_GD_BOUND :: int where "SQL_GD_BOUND \<equiv> 8"
abbreviation (input) SQL_GD_BLOCK :: int where "SQL_GD_BLOCK \<equiv> 4"
abbreviation (input) SQL_OIC_CORE :: int where "SQL_OIC_CORE \<equiv> 1"
abbreviation (input) SQL_SC_SQL92_ENTRY :: int where "SQL_SC_SQL92_ENTRY \<equiv> 1"
abbreviation (input) SQL_CU_DML_STATEMENTS :: int where "SQL_CU_DML_STATEMENTS \<equiv> 1"
abbreviation (input) SQL_SU_DML_STATEMENTS :: int where "SQL_SU_DML_STATEMENTS \<equiv> 1"
abbreviation (input) SQL_SU_TABLE_DEFINITION :: int where "SQL_SU_TABLE_DEFINITION \<equiv> 4"
abbreviation (input) SQL_SU_PRIVILEGE_DEFINITION :: int where "SQL_SU_PRIVILEGE_DEFINITION \<equiv> 16"
abbreviation (input) SQL_SU_INDEX_DEFINITION :: int where "SQL_SU_INDEX_DEFINITION \<equiv> 8"
abbreviation (input) SQL_AF_ALL :: int where "SQL_AF_ALL \<equiv> 64"
abbreviation (input) SQL_FN_NUM_ABS :: int where "SQL_FN_NUM_ABS \<equiv> 1"
abbreviation (input) SQL_FN_NUM_ATAN :: int where "SQL_FN_NUM_ATAN \<equiv> 8"
abbreviation (input) SQL_FN_NUM_ATAN2 :: int where "SQL_FN_NUM_ATAN2 \<equiv> 16"
abbreviation (input) SQL_FN_NUM_COS :: int where "SQL_FN_NUM_COS \<equiv> 64"
abbreviation (input) SQL_FN_NUM_COT :: int where "SQL_FN_NUM_COT \<equiv> 128"
abbreviation (input) SQL_FN_NUM_DEGREES :: int where "SQL_FN_NUM_DEGREES \<equiv> 262144"
abbreviation (input) SQL_FN_NUM_FLOOR :: int where "SQL_FN_NUM_FLOOR \<equiv> 512"
abbreviation (input) SQL_FN_NUM_LOG :: int where "SQL_FN_NUM_LOG \<equiv> 1024"
abbreviation (input) SQL_FN_NUM_LOG10 :: int where "SQL_FN_NUM_LOG10 \<equiv> 524288"
abbreviation (input) SQL_FN_NUM_PI :: int where "SQL_FN_NUM_PI \<equiv> 65536"
abbreviation (input) SQL_FN_NUM_POWER :: int where "SQL_FN_NUM_POWER \<equiv> 1048576"
abbreviation (input) SQL_FN_NUM_RADIANS :: int where "SQL_FN_NUM_RADIANS \<equiv> 2097152"
abbreviation (input) SQL_FN_NUM_ROUND :: int where "SQL_FN_NUM_ROUND \<equiv> 4194304"
abbreviation (input) SQL_FN_NUM_SIGN :: int where "SQL_FN_NUM_SIGN \<equiv> 4096"
abbreviation (input) SQL_FN_NUM_SIN :: int where "SQL_FN_NUM_SIN \<equiv> 8192"
abbreviation (input) SQL_FN_NUM_SQRT :: int where "SQL_FN_NUM_SQRT \<equiv> 16384"
abbreviation (input) SQL_FN_NUM_TAN :: int where "SQL_FN_NUM_TAN \<equiv> 32768"
abbreviation (input) SQL_FN_STR_ASCII :: int where "SQL_FN_STR_ASCII \<equiv> 8192"
abbreviation (input) SQL_FN_STR_LENGTH :: int where "SQL_FN_STR_LENGTH \<equiv> 16"
abbreviation (input) SQL_FN_STR_LTRIM :: int where "SQL_FN_STR_LTRIM \<equiv> 8"
abbreviation (input) SQL_FN_STR_REPLACE :: int where "SQL_FN_STR_REPLACE \<equiv> 256"
abbreviation (input) SQL_FN_STR_RTRIM :: int where "SQL_FN_STR_RTRIM \<equiv> 1024"
abbreviation (input) SQL_FN_STR_SUBSTRING :: int where "SQL_FN_STR_SUBSTRING \<equiv> 2048"
abbreviation (input) SQL_FN_TD_CURDATE :: int where "SQL_FN_TD_CURDATE \<equiv> 2"
abbreviation (input) SQL_FN_TD_DAYOFMONTH :: int where "SQL_FN_TD_DAYOFMONTH \<equiv> 4"
abbreviation (input) SQL_FN_TD_MONTH :: int where "SQL_FN_TD_MONTH \<equiv> 32"
abbreviation (input) SQL_FN_TD_MONTHNAME :: int where "SQL_FN_TD_MONTHNAME \<equiv> 65536"
abbreviation (input) SQL_FN_TD_NOW :: int where "SQL_FN_TD_NOW \<equiv> 1"
abbreviation (input) SQL_FN_TD_YEAR :: int where "SQL_FN_TD_YEAR \<equiv> 256"
abbreviation (input) SQL_FN_TSI_FRAC_SECOND :: int where "SQL_FN_TSI_FRAC_SECOND \<equiv> 1"
abbreviation (input) SQL_FN_TSI_SECOND :: int where "SQL_FN_TSI_SECOND \<equiv> 2"
abbreviation (input) SQL_FN_TSI_MINUTE :: int where "SQL_FN_TSI_MINUTE \<equiv> 4"
abbreviation (input) SQL_FN_TSI_HOUR :: int where "SQL_FN_TSI_HOUR \<equiv> 8"
abbreviation (input) SQL_FN_TSI_DAY :: int where "SQL_FN_TSI_DAY \<equiv> 16"
abbreviation (input) SQL_FN_TSI_WEEK :: int where "SQL_FN_TSI_WEEK \<equiv> 32"
abbreviation (input) SQL_FN_TSI_MONTH :: int where "SQL_FN_TSI_MONTH \<equiv> 64"
abbreviation (input) SQL_FN_TSI_QUARTER :: int where "SQL_FN_TSI_QUARTER \<equiv> 128"
abbreviation (input) SQL_FN_TSI_YEAR :: int where "SQL_FN_TSI_YEAR \<equiv> 256"
abbreviation (input) SQL_FN_SYS_IFNULL :: int where "SQL_FN_SYS_IFNULL \<equiv> 4"
abbreviation (input) SQL_FN_CVT_CAST :: int where "SQL_FN_CVT_CAST \<equiv> 2"
abbreviation (input) SQL_OJ_LEFT :: int where "SQL_OJ_LEFT \<equiv> 1"
abbreviation (input) SQL_OJ_RIGHT :: int where "SQL_OJ_RIGHT \<equiv> 2"
abbreviation (input) SQL_OJ_NOT_ORDERED :: int where "SQL_OJ_NOT_ORDERED \<equiv> 16"
abbreviation (input) SQL_OJ_ALL_COMPARISON_OPS :: int where "SQL_OJ_ALL_COMPARISON_OPS \<equiv> 64"
abbreviation (input) SQL_SSF_CONVERT :: int where "SQL_SSF_CONVERT \<equiv> 1"
abbreviation (input) SQL_SSF_LOWER :: int where "SQL_SSF_LOWER \<equiv> 2"
abbreviation (input) SQL_SSF_UPPER :: int where "SQL_SSF_UPPER \<equiv> 4"
abbreviation (input) SQL_SSF_SUBSTRING :: int where "SQL_SSF_SUBSTRING \<equiv> 8"
abbreviation (input) SQL_SSF_TRANSLATE :: int where "SQL_SSF_TRANSLATE \<equiv> 16"
abbreviation (input) SQL_SSF_TRIM_BOTH :: int where "SQL_SSF_TRIM_BOTH \<equiv> 32"
abbreviation (input) SQL_SSF_TRIM_LEADING :: int where "SQL_SSF_TRIM_LEADING \<equiv> 64"
abbreviation (input) SQL_SSF_TRIM_TRAILING :: int where "SQL_SSF_TRIM_TRAILING \<equiv> 128"
abbreviation (input) SQL_SDF_CURRENT_DATE :: int where "SQL_SDF_CURRENT_DATE \<equiv> 1"
abbreviation (input) SQL_SDF_CURRENT_TIME :: int where "SQL_SDF_CURRENT_TIME \<equiv> 2"
abbreviation (input) SQL_SDF_CURRENT_TIMESTAMP :: int where "SQL_SDF_CURRENT_TIMESTAMP \<equiv> 4"
abbreviation (input) SQL_SVE_CASE :: int where "SQL_SVE_CASE \<equiv> 1"
abbreviation (input) SQL_SVE_CAST :: int where "SQL_SVE_CAST \<equiv> 2"
abbreviation (input) SQL_SP_BETWEEN :: int where "SQL_SP_BETWEEN \<equiv> 2048"
abbreviation (input) SQL_SP_COMPARISON :: int where "SQL_SP_COMPARISON \<equiv> 4096"
abbreviation (input) SQL_SP_IN :: int where "SQL_SP_IN \<equiv> 1024"
abbreviation (input) SQL_SP_ISNULL :: int where "SQL_SP_ISNULL \<equiv> 4"
abbreviation (input) SQL_SP_LIKE :: int where "SQL_SP_LIKE \<equiv> 512"
abbreviation (input) SQL_SRJO_CROSS_JOIN :: int where "SQL_SRJO_CROSS_JOIN \<equiv> 2"
abbreviation (input) SQL_SRJO_INNER_JOIN :: int where "SQL_SRJO_INNER_JOIN \<equiv> 16"
abbreviation (input) SQL_SRJO_LEFT_OUTER_JOIN :: int where "SQL_SRJO_LEFT_OUTER_JOIN \<equiv> 64"
abbreviation (input) SQL_SRJO_RIGHT_OUTER_JOIN :: int where "SQL_SRJO_RIGHT_OUTER_JOIN \<equiv> 256"
abbreviation (input) SQL_CA1_NEXT :: int where "SQL_CA1_NEXT \<equiv> 1"
abbreviation (input) SQL_CA1_ABSOLUTE :: int where "SQL_CA1_ABSOLUTE \<equiv> 2"
abbreviation (input) SQL_CA1_RELATIVE :: int where "SQL_CA1_RELATIVE \<equiv> 4"
abbreviation (input) SQL_CA1_BOOKMARK :: int where "SQL_CA1_BOOKMARK \<equiv> 8"
abbreviation (input) SQL_CA1_LOCK_NO_CHANGE :: int where "SQL_CA1_LOCK_NO_CHANGE \<equiv> 64"
abbreviation (input) SQL_CA1_POS_POSITION :: int where "SQL_CA1_POS_POSITION \<equiv> 512"
abbreviation (input) SQL_CA1_POS_REFRESH :: int where "SQL_CA1_POS_REFRESH \<equiv> 4096"
abbreviation (input) SQL_CA2_READ_ONLY_CONCURRENCY :: int where "SQL_CA2_READ_ONLY_CONCURRENCY \<equiv> 1"
abbreviation (input) SQL_CA2_CRC_EXACT :: int where "SQL_CA2_CRC_EXACT \<equiv> 4096"
abbreviation (input) SQL_CVT_BIGINT :: int where "SQL_CVT_BIGINT \<equiv> 16384"
abbreviation (input) SQL_CVT_DOUBLE :: int where "SQL_CVT_DOUBLE \<equiv> 128"
abbreviation (input) SQL_CVT_VARCHAR :: int where "SQL_CVT_VARCHAR \<equiv> 256"
abbreviation (input) SQL_CVT_DATE :: int where "SQL_CVT_DATE \<equiv> 32768"
abbreviation (input) SQL_CVT_INTEGER :: int where "SQL_CVT_INTEGER \<equiv> 8"
abbreviation (input) SQL_CVT_TIME :: int where "SQL_CVT_TIME \<equiv> 65536"
abbreviation (input) SQL_CVT_TIMESTAMP :: int where "SQL_CVT_TIMESTAMP \<equiv> 131072"
abbreviation (input) SQL_PARC_BATCH :: int where "SQL_PARC_BATCH \<equiv> 1"
abbreviation (input) SQL_PAS_NO_BATCH :: int where "SQL_PAS_NO_BATCH \<equiv> 2"
abbreviation (input) SQL_SO_FORWARD_ONLY :: int where "SQL_SO_FORWARD_ONLY \<equiv> 1"
abbreviation (input) SQL_SO_STATIC :: int where "SQL_SO_STATIC \<equiv> 16"
abbreviation (input) SQL_CB_CLOSE :: int where "SQL_CB_CLOSE \<equiv> 1"
abbreviation (input) SQL_CB_PRESERVE :: int where "SQL_CB_PRESERVE \<equiv> 2"
abbreviation (input) SQL_DI_CREATE_INDEX :: int where "SQL_DI_CREATE_INDEX \<equiv> 1"
abbreviation (input) SQL_DI_DROP_INDEX :: int where "SQL_DI_DROP_INDEX \<equiv> 2"
abbreviation (input) SQL_IK_NONE :: int where "SQL_IK_NONE \<equiv> 0"
abbreviation (input) SQL_SRVC_VALUE_EXPRESSION :: int where "SQL_SRVC_VALUE_EXPRESSION \<equiv> 1"
abbreviation (input) SQL_SRVC_NULL :: int where "SQL_SRVC_NULL \<equiv> 2"
abbreviation (input) SQL_SQ_QUANTIFIED :: int where "SQL_SQ_QUANTIFIED \<equiv> 8"
abbreviation (input) SQL_SQ_IN :: int where "SQL_SQ_IN \<equiv> 4"
abbreviation (input) SQL_SQ_EXISTS :: int where "SQL_SQ_EXISTS \<equiv> 2"
abbreviation (input) SQL_SQ_COMPARISON :: int where "SQL_SQ_COMPARISON \<equiv> 1"
abbreviation (input) SQL_U_UNION :: int where "SQL_U_UNION \<equiv> 1"
abbreviation (input) SQL_U_UNION_ALL :: int where "SQL_U_UNION_ALL \<equiv> 2"
abbreviation (input) SQL_FD_FETCH_NEXT :: int where "SQL_FD_FETCH_NEXT \<equiv> 1"
abbreviation (input) SQL_FD_FETCH_FIRST :: int where "SQL_FD_FETCH_FIRST \<equiv> 2"
abbreviation (input) SQL_FD_FETCH_LAST :: int where "SQL_FD_FETCH_LAST \<equiv> 4"
abbreviation (input) SQL_FD_FETCH_PRIOR :: int where "SQL_FD_FETCH_PRIOR \<equiv> 8"
abbreviation (input) SQL_FD_FETCH_ABSOLUTE :: int where "SQL_FD_FETCH_ABSOLUTE \<equiv> 16"
abbreviation (input) SQL_FD_FETCH_RELATIVE :: int where "SQL_FD_FETCH_RELATIVE \<equiv> 32"
abbreviation (input) SQL_FD_FETCH_BOOKMARK :: int where "SQL_FD_FETCH_BOOKMARK \<equiv> 128"
abbreviation (input) SQL_LCK_NO_CHANGE :: int where "SQL_LCK_NO_CHANGE \<equiv> 1"
abbreviation (input) SQL_OAC_LEVEL1 :: int where "SQL_OAC_LEVEL1 \<equiv> 1"
abbreviation (input) SQL_OSC_CORE :: int where "SQL_OSC_CORE \<equiv> 1"
abbreviation (input) SQL_SCCO_READ_ONLY :: int where "SQL_SCCO_READ_ONLY \<equiv> 1"
abbreviation (input) SQL_TC_NONE :: int where "SQL_TC_NONE \<equiv> 0"
abbreviation (input) SQL_IC_SENSITIVE :: int where "SQL_IC_SENSITIVE \<equiv> 3"
abbreviation (input) SQL_CB_NULL :: int where "SQL_CB_NULL \<equiv> 0"
abbreviation (input) SQL_CN_ANY :: int where "SQL_CN_ANY \<equiv> 2"
abbreviation (input) SQL_FILE_NOT_SUPPORTED :: int where "SQL_FILE_NOT_SUPPORTED \<equiv> 0"
abbreviation (input) SQL_GB_GROUP_BY_CONTAINS_SELECT :: int where "SQL_GB_GROUP_BY_CONTAINS_SELECT \<equiv> 2"
abbreviation (input) NAMEDATALEN :: int where "NAMEDATALEN \<equiv> 64"
abbreviation (input) MAX_CURSOR_LEN :: int where "MAX_CURSOR_LEN \<equiv> 32"
abbreviation (input) SQL_NNC_NON_NULL :: int where "SQL_NNC_NON_NULL \<equiv> 1"
abbreviation (input) SQL_NC_HIGH :: int where "SQL_NC_HIGH \<equiv> 0"
abbreviation (input) SQL_FETCH_PRIOR :: int where "SQL_FETCH_PRIOR \<equiv> 4"

end
