(* ===== verification/Connection_Info.thy ===== *)
theory Connection_Info
  imports Info_Constants Statement_Query Table_Metadata
begin

text \<open>
  The information a connection answers (\<^verbatim>\<open>src/config/connection_info.cpp\<close>): three tables of texts, 32-bit and
  16-bit numbers, which the constructor fills in the order of the definitions below, and the operations that read and
  change them. The entries that depend on the platform are those of Linux; the version of the driver comes from
  the build.
\<close>

unbundle bit_operations_syntax

section \<open>The tables\<close>

text \<open>\<^verbatim>\<open>GetFormatedDriverVersion\<close>: the parts of the version with two, two and four digits at least.\<close>

definition pad_left :: "nat \<Rightarrow> string \<Rightarrow> string" where
  "pad_left n s = replicate (n - length s) (CHR ''0'') @ s"

definition GetFormatedDriverVersion :: "nat \<Rightarrow> nat \<Rightarrow> nat \<Rightarrow> string" where
  "GetFormatedDriverVersion major minor patch =
     pad_left 2 (nat_digits major) @ ''.'' @ pad_left 2 (nat_digits minor) @ ''.'' @ pad_left 4 (nat_digits patch)"

definition product_texts :: "bool \<Rightarrow> string \<Rightarrow> (int \<times> string) list" where
  "product_texts asSchema version =
     [(SQL_DRIVER_NAME, ''libtimestream-odbc.so''), (SQL_DBMS_NAME, ''Amazon Timestream''),
      (SQL_DRIVER_ODBC_VER, ''03.00''), (SQL_DRIVER_VER, version), (SQL_DBMS_VER, []),
      (SQL_COLUMN_ALIAS, ''Y''), (SQL_IDENTIFIER_QUOTE_CHAR, dquote), (SQL_CATALOG_NAME_SEPARATOR, ''.''),
      (SQL_SPECIAL_CHARACTERS, ''_''), (SQL_CATALOG_TERM, if asSchema then [] else ''database''),
      (SQL_TABLE_TERM, ''table''), (SQL_SCHEMA_TERM, if asSchema then ''schema'' else []),
      (SQL_NEED_LONG_DATA_LEN, ''N''), (SQL_ACCESSIBLE_PROCEDURES, ''N''), (SQL_ACCESSIBLE_TABLES, ''N''),
      (SQL_CATALOG_NAME, if asSchema then ''N'' else ''Y''), (SQL_COLLATION_SEQ, []),
      (SQL_DATA_SOURCE_NAME, []), (SQL_DATA_SOURCE_READ_ONLY, ''Y'')]"

definition feature_texts :: "(int \<times> string) list" where
  "feature_texts =
     [(SQL_DATABASE_NAME, []), (SQL_DESCRIBE_PARAMETER, ''N''), (SQL_EXPRESSIONS_IN_ORDERBY, ''Y''),
      (SQL_INTEGRITY, ''N''), (SQL_KEYWORDS, []), (SQL_LIKE_ESCAPE_CLAUSE, ''Y''),
      (SQL_MAX_ROW_SIZE_INCLUDES_LONG, ''Y''), (SQL_MULT_RESULT_SETS, ''N''), (SQL_MULTIPLE_ACTIVE_TXN, ''Y''),
      (SQL_ORDER_BY_COLUMNS_IN_SELECT, ''Y''), (SQL_PROCEDURE_TERM, []), (SQL_PROCEDURES, ''N''),
      (SQL_ROW_UPDATES, ''N''), (SQL_SEARCH_PATTERN_ESCAPE, []), (SQL_SERVER_NAME, ''AWS Timestream''),
      (SQL_USER_NAME, [])]"

definition mode_info :: "bool \<Rightarrow> (int \<times> int) list" where
  "mode_info asSchema =
     [(SQL_ASYNC_DBC_FUNCTIONS, SQL_ASYNC_DBC_NOT_CAPABLE), (SQL_ASYNC_MODE, SQL_AM_NONE),
      (SQL_ASYNC_NOTIFICATION, SQL_ASYNC_NOTIFICATION_NOT_CAPABLE), (SQL_BATCH_ROW_COUNT, 0),
      (SQL_BATCH_SUPPORT, 0), (SQL_BOOKMARK_PERSISTENCE, 0),
      (SQL_CATALOG_LOCATION, if asSchema then 0 else SQL_CL_START),
      (SQL_GETDATA_EXTENSIONS, SQL_GD_ANY_COLUMN OR SQL_GD_ANY_ORDER OR SQL_GD_BOUND OR SQL_GD_BLOCK),
      (SQL_ODBC_INTERFACE_CONFORMANCE, SQL_OIC_CORE), (SQL_SQL_CONFORMANCE, SQL_SC_SQL92_ENTRY)]"

definition function_info :: "bool \<Rightarrow> (int \<times> int) list" where
  "function_info asSchema =
     [(SQL_CATALOG_USAGE, if asSchema then 0 else SQL_CU_DML_STATEMENTS),
      (SQL_SCHEMA_USAGE, if asSchema then SQL_SU_DML_STATEMENTS OR SQL_SU_TABLE_DEFINITION OR
        SQL_SU_PRIVILEGE_DEFINITION OR SQL_SU_INDEX_DEFINITION else 0),
      (SQL_AGGREGATE_FUNCTIONS, SQL_AF_ALL),
      (SQL_NUMERIC_FUNCTIONS, SQL_FN_NUM_ABS OR SQL_FN_NUM_ATAN OR SQL_FN_NUM_ATAN2 OR SQL_FN_NUM_COS OR
        SQL_FN_NUM_COT OR SQL_FN_NUM_DEGREES OR SQL_FN_NUM_FLOOR OR SQL_FN_NUM_LOG OR SQL_FN_NUM_LOG10 OR
        SQL_FN_NUM_PI OR SQL_FN_NUM_POWER OR SQL_FN_NUM_RADIANS OR SQL_FN_NUM_ROUND OR SQL_FN_NUM_SIGN OR
        SQL_FN_NUM_SIN OR SQL_FN_NUM_SQRT OR SQL_FN_NUM_TAN),
      (SQL_STRING_FUNCTIONS, SQL_FN_STR_ASCII OR SQL_FN_STR_LENGTH OR SQL_FN_STR_LTRIM OR SQL_FN_STR_REPLACE OR
        SQL_FN_STR_RTRIM OR SQL_FN_STR_SUBSTRING),
      (SQL_TIMEDATE_FUNCTIONS, SQL_FN_TD_CURDATE OR SQL_FN_TD_DAYOFMONTH OR SQL_FN_TD_MONTH OR
        SQL_FN_TD_MONTHNAME OR SQL_FN_TD_NOW OR SQL_FN_TD_YEAR),
      (SQL_TIMEDATE_ADD_INTERVALS, SQL_FN_TSI_FRAC_SECOND OR SQL_FN_TSI_SECOND OR SQL_FN_TSI_MINUTE OR
        SQL_FN_TSI_HOUR OR SQL_FN_TSI_DAY OR SQL_FN_TSI_WEEK OR SQL_FN_TSI_MONTH OR SQL_FN_TSI_QUARTER OR
        SQL_FN_TSI_YEAR),
      (SQL_TIMEDATE_DIFF_INTERVALS, SQL_FN_TSI_FRAC_SECOND OR SQL_FN_TSI_SECOND OR SQL_FN_TSI_MINUTE OR
        SQL_FN_TSI_HOUR OR SQL_FN_TSI_DAY OR SQL_FN_TSI_WEEK OR SQL_FN_TSI_MONTH OR SQL_FN_TSI_QUARTER OR
        SQL_FN_TSI_YEAR),
      (SQL_DATETIME_LITERALS, 0), (SQL_SYSTEM_FUNCTIONS, SQL_FN_SYS_IFNULL),
      (SQL_CONVERT_FUNCTIONS, SQL_FN_CVT_CAST),
      (SQL_OJ_CAPABILITIES, SQL_OJ_LEFT OR SQL_OJ_RIGHT OR SQL_OJ_NOT_ORDERED OR SQL_OJ_ALL_COMPARISON_OPS),
      (SQL_POS_OPERATIONS, 0), (SQL_SQL92_NUMERIC_VALUE_FUNCTIONS, 0),
      (SQL_SQL92_STRING_FUNCTIONS, SQL_SSF_CONVERT OR SQL_SSF_LOWER OR SQL_SSF_UPPER OR SQL_SSF_SUBSTRING OR
        SQL_SSF_TRANSLATE OR SQL_SSF_TRIM_BOTH OR SQL_SSF_TRIM_LEADING OR SQL_SSF_TRIM_TRAILING)]"

definition join_conversion_info :: "(int \<times> int) list" where
  "join_conversion_info =
     [(SQL_SQL92_DATETIME_FUNCTIONS, SQL_SDF_CURRENT_DATE OR SQL_SDF_CURRENT_TIME OR SQL_SDF_CURRENT_TIMESTAMP),
      (SQL_SQL92_VALUE_EXPRESSIONS, SQL_SVE_CASE OR SQL_SVE_CAST),
      (SQL_SQL92_PREDICATES, SQL_SP_BETWEEN OR SQL_SP_COMPARISON OR SQL_SP_IN OR SQL_SP_ISNULL OR SQL_SP_LIKE),
      (SQL_SQL92_RELATIONAL_JOIN_OPERATORS, SQL_SRJO_CROSS_JOIN OR SQL_SRJO_INNER_JOIN OR
        SQL_SRJO_LEFT_OUTER_JOIN OR SQL_SRJO_RIGHT_OUTER_JOIN),
      (SQL_STATIC_CURSOR_ATTRIBUTES1, SQL_CA1_NEXT OR SQL_CA1_ABSOLUTE OR SQL_CA1_RELATIVE OR SQL_CA1_BOOKMARK
        OR SQL_CA1_LOCK_NO_CHANGE OR SQL_CA1_POS_POSITION OR SQL_CA1_POS_REFRESH),
      (SQL_STATIC_CURSOR_ATTRIBUTES2, SQL_CA2_READ_ONLY_CONCURRENCY OR SQL_CA2_CRC_EXACT),
      (SQL_CONVERT_BIGINT, SQL_CVT_BIGINT OR SQL_CVT_DOUBLE), (SQL_CONVERT_BINARY, 0), (SQL_CONVERT_BIT, 0),
      (SQL_CONVERT_CHAR, 0), (SQL_CONVERT_VARCHAR, SQL_CVT_VARCHAR), (SQL_CONVERT_LONGVARCHAR, 0),
      (SQL_CONVERT_WCHAR, 0), (SQL_CONVERT_WVARCHAR, 0), (SQL_CONVERT_WLONGVARCHAR, 0), (SQL_CONVERT_GUID, 0),
      (SQL_CONVERT_DATE, SQL_CVT_DATE), (SQL_CONVERT_DECIMAL, 0),
      (SQL_CONVERT_DOUBLE, SQL_CVT_INTEGER OR SQL_CVT_BIGINT OR SQL_CVT_DOUBLE), (SQL_CONVERT_FLOAT, 0),
      (SQL_CONVERT_REAL, 0), (SQL_CONVERT_INTEGER, SQL_CVT_INTEGER OR SQL_CVT_BIGINT OR SQL_CVT_DOUBLE),
      (SQL_CONVERT_NUMERIC, 0)]"

definition conversion_batch_info :: "(int \<times> int) list" where
  "conversion_batch_info =
     [(SQL_CONVERT_SMALLINT, 0), (SQL_CONVERT_TINYINT, 0), (SQL_CONVERT_TIME, SQL_CVT_TIME),
      (SQL_CONVERT_TIMESTAMP, SQL_CVT_TIMESTAMP), (SQL_CONVERT_INTERVAL_DAY_TIME, 0),
      (SQL_CONVERT_INTERVAL_YEAR_MONTH, 0), (SQL_CONVERT_VARBINARY, 0), (SQL_CONVERT_LONGVARBINARY, 0),
      (SQL_PARAM_ARRAY_ROW_COUNTS, SQL_PARC_BATCH), (SQL_PARAM_ARRAY_SELECTS, SQL_PAS_NO_BATCH),
      (SQL_SCROLL_OPTIONS, SQL_SO_FORWARD_ONLY OR SQL_SO_STATIC), (SQL_ALTER_DOMAIN, 0)]"

definition alter_create_info :: "(int \<times> int) list" where
  "alter_create_info =
     [(SQL_ALTER_TABLE, 0), (SQL_CREATE_ASSERTION, 0), (SQL_CREATE_CHARACTER_SET, 0), (SQL_CREATE_COLLATION, 0),
      (SQL_CREATE_DOMAIN, 0), (SQL_CREATE_SCHEMA, 0)]"

definition create_info :: "(int \<times> int) list" where
  "create_info =
     [(SQL_CREATE_TABLE, 0), (SQL_CREATE_TRANSLATION, 0), (SQL_CREATE_VIEW, 0),
      (SQL_CURSOR_COMMIT_BEHAVIOR, SQL_CB_CLOSE), (SQL_CURSOR_ROLLBACK_BEHAVIOR, SQL_CB_PRESERVE),
      (SQL_CURSOR_SENSITIVITY, SQL_INSENSITIVE), (SQL_DDL_INDEX, SQL_DI_CREATE_INDEX OR SQL_DI_DROP_INDEX)]"

definition drop_info :: "(int \<times> int) list" where
  "drop_info =
     [(SQL_DEFAULT_TXN_ISOLATION, 0), (SQL_DROP_ASSERTION, 0), (SQL_DROP_CHARACTER_SET, 0),
      (SQL_DROP_COLLATION, 0), (SQL_DROP_DOMAIN, 0), (SQL_DROP_SCHEMA, 0), (SQL_DROP_TABLE, 0),
      (SQL_DROP_TRANSLATION, 0), (SQL_DROP_VIEW, 0)]"

definition dynamic_cursor_info :: "(int \<times> int) list" where
  "dynamic_cursor_info =
     [(SQL_DYNAMIC_CURSOR_ATTRIBUTES1, 0)]"

definition static_cursor_info :: "(int \<times> int) list" where
  "static_cursor_info =
     [(SQL_DYNAMIC_CURSOR_ATTRIBUTES2, 0), (SQL_FORWARD_ONLY_CURSOR_ATTRIBUTES1, SQL_CA1_NEXT),
      (SQL_FORWARD_ONLY_CURSOR_ATTRIBUTES2, SQL_CA2_READ_ONLY_CONCURRENCY OR SQL_CA2_CRC_EXACT)]"

definition view_info :: "(int \<times> int) list" where
  "view_info =
     [(SQL_INDEX_KEYWORDS, SQL_IK_NONE), (SQL_INFO_SCHEMA_VIEWS, 0), (SQL_INSERT_STATEMENT, 0),
      (SQL_KEYSET_CURSOR_ATTRIBUTES1, 0)]"

definition limit_info :: "(int \<times> int) list" where
  "limit_info =
     [(SQL_KEYSET_CURSOR_ATTRIBUTES2, 0), (SQL_MAX_ASYNC_CONCURRENT_STATEMENTS, 0),
      (SQL_MAX_BINARY_LITERAL_LEN, 0), (SQL_MAX_CATALOG_NAME_LEN, 0), (SQL_MAX_CHAR_LITERAL_LEN, 0),
      (SQL_MAX_INDEX_SIZE, 0), (SQL_MAX_ROW_SIZE, 0), (SQL_MAX_STATEMENT_LEN, 0),
      (SQL_SQL92_FOREIGN_KEY_DELETE_RULE, 0), (SQL_SQL92_FOREIGN_KEY_UPDATE_RULE, 0), (SQL_SQL92_GRANT, 0)]"

definition sql_conformance_info :: "(int \<times> int) list" where
  "sql_conformance_info =
     [(SQL_SQL92_REVOKE, 0), (SQL_SQL92_ROW_VALUE_CONSTRUCTOR, SQL_SRVC_VALUE_EXPRESSION OR SQL_SRVC_NULL),
      (SQL_STANDARD_CLI_CONFORMANCE, 0),
      (SQL_SUBQUERIES, SQL_SQ_QUANTIFIED OR SQL_SQ_IN OR SQL_SQ_EXISTS OR SQL_SQ_COMPARISON),
      (SQL_TXN_ISOLATION_OPTION, 0), (SQL_UNION, SQL_U_UNION OR SQL_U_UNION_ALL),
      (SQL_FETCH_DIRECTION, SQL_FD_FETCH_NEXT OR SQL_FD_FETCH_FIRST OR SQL_FD_FETCH_LAST OR SQL_FD_FETCH_PRIOR
        OR SQL_FD_FETCH_ABSOLUTE OR SQL_FD_FETCH_RELATIVE OR SQL_FD_FETCH_BOOKMARK),
      (SQL_LOCK_TYPES, SQL_LCK_NO_CHANGE), (SQL_ODBC_API_CONFORMANCE, SQL_OAC_LEVEL1),
      (SQL_ODBC_SQL_CONFORMANCE, SQL_OSC_CORE), (SQL_POSITIONED_STATEMENTS, 0)]"

definition scroll_info :: "(int \<times> int) list" where
  "scroll_info =
     [(SQL_SCROLL_CONCURRENCY, SQL_SCCO_READ_ONLY), (SQL_STATIC_SENSITIVITY, 0)]"

definition manager_texts :: "(int \<times> string) list" where
  "manager_texts =
     [(SQL_DM_VER, []), (SQL_XOPEN_CLI_YEAR, [])]"

definition name_limits :: "(int \<times> int) list" where
  "name_limits =
     [(SQL_MAX_CONCURRENT_ACTIVITIES, 0), (SQL_TXN_CAPABLE, SQL_TC_NONE),
      (SQL_QUOTED_IDENTIFIER_CASE, SQL_IC_SENSITIVE), (SQL_ACTIVE_ENVIRONMENTS, 0),
      (SQL_CONCAT_NULL_BEHAVIOR, SQL_CB_NULL), (SQL_CORRELATION_NAME, SQL_CN_ANY),
      (SQL_FILE_USAGE, SQL_FILE_NOT_SUPPORTED), (SQL_GROUP_BY, SQL_GB_GROUP_BY_CONTAINS_SELECT),
      (SQL_IDENTIFIER_CASE, SQL_IC_SENSITIVE), (SQL_MAX_COLUMN_NAME_LEN, NAMEDATALEN),
      (SQL_MAX_COLUMNS_IN_GROUP_BY, 0), (SQL_MAX_COLUMNS_IN_INDEX, 0)]"

definition table_limits :: "(int \<times> int) list" where
  "table_limits =
     [(SQL_MAX_COLUMNS_IN_ORDER_BY, 0), (SQL_MAX_COLUMNS_IN_SELECT, 0), (SQL_MAX_COLUMNS_IN_TABLE, 0),
      (SQL_MAX_CURSOR_NAME_LEN, MAX_CURSOR_LEN), (SQL_MAX_DRIVER_CONNECTIONS, 0),
      (SQL_MAX_IDENTIFIER_LEN, NAMEDATALEN), (SQL_MAX_PROCEDURE_NAME_LEN, 0),
      (SQL_MAX_SCHEMA_NAME_LEN, NAMEDATALEN), (SQL_MAX_TABLE_NAME_LEN, NAMEDATALEN),
      (SQL_MAX_TABLES_IN_SELECT, 0), (SQL_MAX_USER_NAME_LEN, 0), (SQL_NON_NULLABLE_COLUMNS, SQL_NNC_NON_NULL),
      (SQL_NULL_COLLATION, SQL_NC_HIGH)]"

record connection_info =
  strParams :: "int \<Rightarrow> string option"
  intParams :: "int \<Rightarrow> 32 word option"
  shortParams :: "int \<Rightarrow> 16 word option"

text \<open>The assignments of the constructor, in their order.\<close>

definition assign_all :: "(int \<times> 'v) list \<Rightarrow> int \<Rightarrow> 'v option" where
  "assign_all kvs = foldl (\<lambda>m (k, v). m(k \<mapsto> v)) Map.empty kvs"

definition text_entries :: "bool \<Rightarrow> string \<Rightarrow> (int \<times> string) list" where
  "text_entries asSchema version = product_texts asSchema version @ feature_texts @ manager_texts"

definition int_entries :: "bool \<Rightarrow> (int \<times> int) list" where
  "int_entries asSchema =
     mode_info asSchema @ function_info asSchema @ join_conversion_info @ conversion_batch_info @ alter_create_info
     @ create_info @ drop_info @ dynamic_cursor_info @ static_cursor_info @ view_info @ limit_info
     @ sql_conformance_info @ scroll_info"

definition short_entries :: "(int \<times> int) list" where
  "short_entries = name_limits @ table_limits"

definition ConnectionInfo :: "bool \<Rightarrow> string \<Rightarrow> connection_info" where
  "ConnectionInfo asSchema version =
     \<lparr>strParams = assign_all (text_entries asSchema version),
      intParams = assign_all (map (\<lambda>(k, v). (k, word_of_int v)) (int_entries asSchema)),
      shortParams = assign_all (map (\<lambda>(k, v). (k, word_of_int v)) short_entries)\<rparr>"

section \<open>Asking and setting\<close>

text \<open>Lengths of 16 bits are converted to \<^verbatim>\<open>size_t\<close>, so that a negative one becomes very long. The length of a
  text goes through 16 bits back to the application. \<open>w\<close> is the number of bytes of a wide character.\<close>

definition to_size :: "int \<Rightarrow> nat" where
  "to_size n = nat (n mod 2 ^ 64)"

definition GetInfo ::
  "nat \<Rightarrow> connection_info \<Rightarrow> int \<Rightarrow> int \<Rightarrow> int \<Rightarrow> int \<Rightarrow> memory \<Rightarrow> sql_result \<times> memory" where
  "GetInfo w info ty buf buflen reslen m =
     (case strParams info ty of
        Some s \<Rightarrow>
          if buf \<noteq> 0 \<and> buflen = 0 then (AI_ERROR, m)
          else
            let (n, _, m1) = CopyStringToBuffer w s buf (to_size buflen) True m
            in (AI_SUCCESS, if reslen = 0 then m1 else write_bytes reslen (le_bytes 2 (int n)) m1)
      | None \<Rightarrow>
          if buf = 0 then (AI_ERROR, m)
          else
            (case intParams info ty of
               Some v \<Rightarrow> (AI_SUCCESS, write_bytes buf (le_bytes 4 (uint v)) m)
             | None \<Rightarrow>
                 (case shortParams info ty of
                    Some v \<Rightarrow> (AI_SUCCESS, write_bytes buf (le_bytes 2 (uint v)) m)
                  | None \<Rightarrow> (AI_ERROR, m))))"

definition SetInfo :: "int \<Rightarrow> string \<Rightarrow> connection_info \<Rightarrow> sql_result \<times> connection_info" where
  "SetInfo ty v info =
     (if strParams info ty \<noteq> None then (AI_SUCCESS, info\<lparr>strParams := (strParams info)(ty \<mapsto> v)\<rparr>)
      else (AI_ERROR, info))"

text \<open>What a connection changes of its table when it has been established.\<close>

definition SetRuntimeInfo :: "configuration \<Rightarrow> connection_info \<Rightarrow> connection_info" where
  "SetRuntimeInfo cfg info =
     snd (SetInfo SQL_DATA_SOURCE_NAME (GetDsn ''Timestream DSN'' cfg) (snd (SetInfo SQL_USER_NAME (GetDSNUserName cfg) info)))"

definition InternalGetInfo ::
  "nat \<Rightarrow> connection_info \<Rightarrow> int \<Rightarrow> int \<Rightarrow> int \<Rightarrow> int \<Rightarrow> memory \<Rightarrow> diag_storage \<Rightarrow> sql_result \<times> memory \<times> diag_storage" where
  "InternalGetInfo w info ty buf buflen reslen m d =
     (let (r, m') = GetInfo w info ty buf buflen reslen m
      in (r, m', if r \<noteq> AI_SUCCESS
           then AddStatusRecord SHYC00_OPTIONAL_FEATURE_NOT_IMPLEMENTED
                  (''SQLGetInfo input '' @ int_str ty @ '' is not implemented.'') d
           else d))"

section \<open>Properties of the tables\<close>

lemma assign_all_distinct:
  assumes "distinct (map fst kvs)"
  shows "assign_all kvs = map_of kvs"
proof -
  have "distinct (map fst (kvs @ acc)) \<Longrightarrow> foldl (\<lambda>m (k, v). m(k \<mapsto> v)) (map_of acc) kvs = map_of (kvs @ acc)"
    for acc :: "(int \<times> 'a) list"
    using assms
  proof (induction kvs arbitrary: acc)
    case (Cons x kvs)
    obtain k v where x: "x = (k, v)" by (cases x)
    have "k \<notin> set (map fst kvs)" using Cons.prems x by simp
    then have "map_of (kvs @ (k, v) # acc) = map_of ((k, v) # kvs @ acc)"
      by (auto simp: fun_eq_iff map_add_def image_iff dest!: map_of_SomeD split: option.split)
    moreover have "distinct (map fst (kvs @ (k, v) # acc))" using Cons.prems x by auto
    ultimately show ?case using Cons.IH [of "(k, v) # acc"] Cons.prems x by simp
  qed simp
  from this [of "[]"] assms show ?thesis by (simp add: assign_all_def)
qed

lemmas entry_defs =
  text_entries_def product_texts_def feature_texts_def manager_texts_def int_entries_def mode_info_def function_info_def
  join_conversion_info_def conversion_batch_info_def alter_create_info_def create_info_def drop_info_def
  dynamic_cursor_info_def static_cursor_info_def view_info_def limit_info_def sql_conformance_info_def scroll_info_def
  short_entries_def name_limits_def table_limits_def

lemma info_keys_distinct:
  "distinct (map fst (text_entries asSchema version) @ map fst (int_entries asSchema) @ map fst short_entries)"
  unfolding entry_defs by simp

lemma info_values_fit:
  "list_all (\<lambda>(k, n). 0 \<le> n \<and> n < 2 ^ 32) (int_entries asSchema)" "list_all (\<lambda>(k, n). 0 \<le> n \<and> n < 2 ^ 16) short_entries"
  unfolding entry_defs by simp_all

lemma map_of_word:
  assumes "list_all (\<lambda>(k, n). 0 \<le> n \<and> n < 2 ^ LENGTH('a::len)) kvs"
  shows "map_option uint (map_of (map (\<lambda>(k, v). (k, word_of_int v :: 'a word)) kvs) k) = map_of kvs k"
  using assms by (induction kvs) (auto simp: uint_word_of_int_eq take_bit_int_eq_self_iff)

lemma info_fields:
  "strParams (ConnectionInfo asSchema version) = map_of (text_entries asSchema version)"
  "map_option uint (intParams (ConnectionInfo asSchema version) k) = map_of (int_entries asSchema) k"
  "map_option uint (shortParams (ConnectionInfo asSchema version) k) = map_of short_entries k"
proof -
  have d: "distinct (map fst (text_entries asSchema version))" "distinct (map fst (int_entries asSchema))"
    "distinct (map fst short_entries)"
    using info_keys_distinct [of asSchema version] by simp_all
  have words: "distinct (map fst kvs) \<Longrightarrow>
      assign_all (map (\<lambda>(k, v). (k, f v)) kvs) = map_of (map (\<lambda>(k, v). (k, f v)) kvs)"
    for f :: "int \<Rightarrow> 'b" and kvs :: "(int \<times> int) list"
    by (rule assign_all_distinct) (simp add: comp_def case_prod_unfold)
  show "strParams (ConnectionInfo asSchema version) = map_of (text_entries asSchema version)"
    by (simp add: ConnectionInfo_def assign_all_distinct [OF d(1)])
  have "intParams (ConnectionInfo asSchema version) = map_of (map (\<lambda>(k, v). (k, word_of_int v)) (int_entries asSchema))"
    unfolding ConnectionInfo_def by (simp only: connection_info.simps words [OF d(2)])
  then show "map_option uint (intParams (ConnectionInfo asSchema version) k) = map_of (int_entries asSchema) k"
    using map_of_word [where 'a = 32, of "int_entries asSchema" k] info_values_fit(1) by simp
  have "shortParams (ConnectionInfo asSchema version) = map_of (map (\<lambda>(k, v). (k, word_of_int v)) short_entries)"
    unfolding ConnectionInfo_def by (simp only: connection_info.simps words [OF d(3)])
  then show "map_option uint (shortParams (ConnectionInfo asSchema version) k) = map_of short_entries k"
    using map_of_word [where 'a = 16, of short_entries k] info_values_fit(2) by simp
qed

lemma dom_map_option_comp: "(\<And>k. map_option f (g k) = h k) \<Longrightarrow> dom g = dom h"
proof -
  assume "\<And>k. map_option f (g k) = h k"
  then have "h = (\<lambda>k. map_option f (g k))" by (simp add: fun_eq_iff)
  then show ?thesis by (simp add: dom_def)
qed

section \<open>Properties\<close>

text \<open> The three tables together are a function: each of the 176 information types the constructor assigns is
  in exactly one of them, with exactly the text or number assigned to it, which fits the width of its table.\<close>

theorem info_tables:
  "strParams (ConnectionInfo asS v) = map_of (text_entries asS v)
   \<and> (\<lambda>k. map_option uint (intParams (ConnectionInfo asS v) k)) = map_of (int_entries asS)
   \<and> (\<lambda>k. map_option uint (shortParams (ConnectionInfo asS v) k)) = map_of short_entries
   \<and> dom (strParams (ConnectionInfo asS v)) \<inter> dom (intParams (ConnectionInfo asS v)) = {}
   \<and> dom (strParams (ConnectionInfo asS v)) \<inter> dom (shortParams (ConnectionInfo asS v)) = {}
   \<and> dom (intParams (ConnectionInfo asS v)) \<inter> dom (shortParams (ConnectionInfo asS v)) = {}
   \<and> card (dom (strParams (ConnectionInfo asS v)) \<union> dom (intParams (ConnectionInfo asS v))
        \<union> dom (shortParams (ConnectionInfo asS v))) = 176"
proof -
  let ?I = "ConnectionInfo asS v"
  note D = info_keys_distinct [of asS v]
  have doms: "dom (strParams ?I) = set (map fst (text_entries asS v))" "dom (intParams ?I) = set (map fst (int_entries asS))"
    "dom (shortParams ?I) = set (map fst short_entries)"
    using dom_map_option_comp [where g = "intParams ?I" and h = "map_of (int_entries asS)", OF info_fields(2)]
      dom_map_option_comp [where g = "shortParams ?I" and h = "map_of short_entries", OF info_fields(3)]
    by (simp_all add: info_fields(1) dom_map_of_conv_image_fst)
  have "card (set (map fst (text_entries asS v) @ map fst (int_entries asS) @ map fst short_entries)) = 176"
    unfolding distinct_card [OF D] unfolding entry_defs by simp
  then have "card (dom (strParams ?I) \<union> dom (intParams ?I) \<union> dom (shortParams ?I)) = 176"
    unfolding doms by (simp add: Un_assoc)
  moreover have "dom (strParams ?I) \<inter> dom (intParams ?I) = {} \<and> dom (strParams ?I) \<inter> dom (shortParams ?I) = {}
      \<and> dom (intParams ?I) \<inter> dom (shortParams ?I) = {}"
    using D unfolding doms by auto
  ultimately show ?thesis by (simp add: info_fields fun_eq_iff)
qed

lemma cvt_in_room: "length (fst (snd (cvt_in mx n s))) \<le> n"
  by (induction mx n s rule: cvt_in.induct) (auto split: utf8_item.splits prod.splits)

lemma wide_copy_inside:
  assumes "CopyUtf8StringToWcharString w s out len tr m = (n, tr', m')" and "0 < w"
    and "x < out \<or> out + int len \<le> x"
  shows "m' x = m x"
proof -
  obtain r us rest where C: "cvt_in (max_code w) (len div w - 1) s = (r, us, rest)" by (metis prod_cases3)
  have len: "length us \<le> len div w - 1" using cvt_in_room [of "max_code w" "len div w - 1" s] C by simp
  have fits: "int w + int (length us) * int w \<le> int len" if "w < len"
  proof -
    have "1 \<le> len div w" using that assms(2) by (simp add: div_greater_zero_iff Suc_leI)
    then have "(length us + 1) * w \<le> len div w * w" using len by (intro mult_le_mono1) linarith
    also have "len div w * w \<le> len" by simp
    finally have "int ((length us + 1) * w) \<le> int len" by (rule of_nat_mono)
    then show ?thesis by (simp add: algebra_simps)
  qed
  show ?thesis
    using assms C fits
    by (fastforce simp: CopyUtf8StringToWcharString_def Let_def split: if_splits prod.splits intro!: write_bytes_outside)
qed

lemma write_bytes_changes: "write_bytes a bs m x \<noteq> m x \<Longrightarrow> a \<le> x \<and> x < a + int (length bs)"
  by (meson not_le write_bytes_outside)

text \<open>The bytes of the buffer an answer may fill.\<close>

definition answer_size :: "connection_info \<Rightarrow> int \<Rightarrow> int \<Rightarrow> int" where
  "answer_size info ty buflen =
     (if strParams info ty \<noteq> None then int (to_size buflen) else if intParams info ty \<noteq> None then 4 else 2)"



text \<open>What the answers say of catalogs and of schemas.\<close>

definition reports_catalogs :: "connection_info \<Rightarrow> bool list" where
  "reports_catalogs info =
     [strParams info SQL_CATALOG_NAME = Some ''Y'', strParams info SQL_CATALOG_TERM \<noteq> Some [],
      map_option uint (intParams info SQL_CATALOG_USAGE) \<noteq> Some 0,
      map_option uint (intParams info SQL_CATALOG_LOCATION) \<noteq> Some 0]"

definition reports_schemas :: "connection_info \<Rightarrow> bool list" where
  "reports_schemas info =
     [strParams info SQL_SCHEMA_TERM \<noteq> Some [], map_option uint (intParams info SQL_SCHEMA_USAGE) \<noteq> Some 0]"

text \<open> The answers agree with the catalog functions on where databases are reported: everything said about
  catalogs, and nothing said about schemas, is positive exactly when a table found is listed with its
  database as catalog, and conversely for schemas.\<close>

theorem reporting_agrees_with_catalog:
  "reports_catalogs (ConnectionInfo asS v) = replicate 4 (tb_catalog (table_row asS (c # db) t) = Some (c # db))
   \<and> reports_schemas (ConnectionInfo asS v) = replicate 2 (tb_schema (table_row asS (c # db) t) = Some (c # db))"
  unfolding reports_catalogs_def reports_schemas_def info_fields entry_defs
  by (cases asS) (simp_all add: table_row_def TableMeta_def eval_nat_numeral)

text \<open> The limits advertised are not those enforced: cursor names may have 32 characters and rows may be
  fetched in seven directions by the answers, but every name of more than 18 characters is refused as a duplicate,
  and every direction but the next row as not implemented.\<close>

theorem advertised_limits_refused:
  "map_option uint (shortParams (ConnectionInfo asS v) SQL_MAX_CURSOR_NAME_LEN) = Some 32
   \<and> map_option uint (intParams (ConnectionInfo asS v) SQL_FETCH_DIRECTION) = Some 191
   \<and> fst (InternalSetCursorName w name 19 (st, cn)) = AI_ERROR
   \<and> map_option fst (InternalFetchScroll vt SQL_FETCH_PRIOR st' m) = Some AI_ERROR"
  unfolding info_fields entry_defs
  by (simp add: InternalSetCursorName_def InternalFetchScroll_def)

text \<open> Connecting changes exactly two answers of a new table, the user and the data source; in
  particular the version and the name of the database stay empty.\<close>

theorem runtime_info_frame:
  "strParams (SetRuntimeInfo cfg (ConnectionInfo asS v)) =
     (strParams (ConnectionInfo asS v))(SQL_USER_NAME \<mapsto> GetDSNUserName cfg,
        SQL_DATA_SOURCE_NAME \<mapsto> GetDsn ''Timestream DSN'' cfg)
   \<and> intParams (SetRuntimeInfo cfg (ConnectionInfo asS v)) = intParams (ConnectionInfo asS v)
   \<and> shortParams (SetRuntimeInfo cfg (ConnectionInfo asS v)) = shortParams (ConnectionInfo asS v)
   \<and> strParams (SetRuntimeInfo cfg (ConnectionInfo asS v)) SQL_DBMS_VER = Some []
   \<and> strParams (SetRuntimeInfo cfg (ConnectionInfo asS v)) SQL_DATABASE_NAME = Some []"
proof -
  have "strParams (ConnectionInfo asS v) SQL_USER_NAME = Some []" "strParams (ConnectionInfo asS v) SQL_DATA_SOURCE_NAME = Some []"
    "strParams (ConnectionInfo asS v) SQL_DBMS_VER = Some []" "strParams (ConnectionInfo asS v) SQL_DATABASE_NAME = Some []"
    unfolding info_fields(1) entry_defs by simp_all
  then show ?thesis by (simp add: SetRuntimeInfo_def SetInfo_def)
qed

end
