(* ===== verification/Driver_State.thy ===== *)
theory Driver_State
  imports Connection_Info Column_Metadata
begin

text \<open>
  The state behind the API of the driver: the environments, connections, statements and descriptors an
  application has handles of (\<^verbatim>\<open>src/odbc.cpp\<close>), the process-wide logger and the state of the service's
  SDK, and the application's memory. A handle is an address, 0 the null handle. The current query of a
  statement is an object of one of the classes of queries, chosen by the function that made it.

  A call that uses a handle which is not null and not live is undefined and has no result, like a call
  that never returns: \<open>None\<close>. A connection is used only while its environment is live and a statement
  only while its connection is, as the driver manager sees to.
\<close>

section \<open>Constants\<close>

abbreviation (input) SQL_INVALID_HANDLE :: int where "SQL_INVALID_HANDLE \<equiv> -2"
abbreviation (input) SQL_HANDLE_ENV :: int where "SQL_HANDLE_ENV \<equiv> 1"
abbreviation (input) SQL_HANDLE_DBC :: int where "SQL_HANDLE_DBC \<equiv> 2"
abbreviation (input) SQL_HANDLE_STMT :: int where "SQL_HANDLE_STMT \<equiv> 3"
abbreviation (input) SQL_HANDLE_DESC :: int where "SQL_HANDLE_DESC \<equiv> 4"
abbreviation (input) SQL_DATE :: int where "SQL_DATE \<equiv> 9"
abbreviation (input) SQL_TIME :: int where "SQL_TIME \<equiv> 10"
abbreviation (input) SQL_TIMESTAMP :: int where "SQL_TIMESTAMP \<equiv> 11"
abbreviation (input) SQL_COLUMN_COUNT :: int where "SQL_COLUMN_COUNT \<equiv> 0"
abbreviation (input) SQL_COLUMN_NAME :: int where "SQL_COLUMN_NAME \<equiv> 1"
abbreviation (input) SQL_COLUMN_TYPE :: int where "SQL_COLUMN_TYPE \<equiv> 2"
abbreviation (input) SQL_COLUMN_NULLABLE :: int where "SQL_COLUMN_NULLABLE \<equiv> 7"

section \<open>Queries of every class\<close>

datatype 'ci any_query =
  Data_Query "(datum list, 'ci, column_meta) data_query"
| Table_Query "'ci table_query"
| Column_Query "'ci column_query"
| Type_Query type_info_query
| Empty_Query empty_query

text \<open>The result of a virtual function, with the object back in its class.\<close>

definition as_query :: "('x \<Rightarrow> 'q) \<Rightarrow> ('r \<times> 'x \<times> 'd) option \<Rightarrow> ('r \<times> 'q \<times> 'd) option" where
  "as_query mk res = map_option (\<lambda>(r, x, d). (r, mk x, d)) res"

definition as_fetched ::
  "('x \<Rightarrow> 'q) \<Rightarrow> (sql_result \<times> 'b \<times> 'x \<times> 'd) option \<Rightarrow> (sql_result \<times> 'b \<times> 'q \<times> 'd) option" where
  "as_fetched mk res = map_option (\<lambda>(r, b, x, d). (r, b, mk x, d)) res"

text \<open>A type query puts cells into buffers. A conversion without a result spoils the memory, and then the
  whole operation has no result.\<close>

definition put_checked :: "conv_env \<Rightarrow> cell \<Rightarrow> app_buffer \<Rightarrow> memory option \<Rightarrow> app_buffer \<times> memory option" where
  "put_checked e c b m =
     (case m of
        None \<Rightarrow> (b, None)
      | Some m0 \<Rightarrow> (case put_cell e c b m0 of None \<Rightarrow> (b, None) | Some (_, b', m') \<Rightarrow> (b', Some m')))"

definition type_fetch ::
  "conv_env \<Rightarrow> (app_buffer, memory) bindings \<Rightarrow> type_info_query \<Rightarrow> diag_storage \<Rightarrow>
   (sql_result \<times> (app_buffer, memory) bindings \<times> type_info_query \<times> diag_storage) option" where
  "type_fetch e b q d =
     (case TypeInfo_FetchNextRow (put_checked e) (fst b, Some (snd b)) q d of
        (r, (bs, m), q', d') \<Rightarrow> map_option (\<lambda>m'. (r, (bs, m'), q', d')) m)"

definition type_column ::
  "conv_env \<Rightarrow> nat \<Rightarrow> app_buffer \<Rightarrow> memory \<Rightarrow> type_info_query \<Rightarrow> diag_storage \<Rightarrow>
   (sql_result \<times> app_buffer \<times> memory \<times> diag_storage) option" where
  "type_column e i buf m q d =
     (case TypeInfo_GetColumn (put_checked e) i buf (Some m) q d of
        (r, buf', m', d') \<Rightarrow> map_option (\<lambda>m1. (r, buf', m1, d')) m')"

text \<open>The virtual functions by the class of the object. \<open>live\<close>: the connection has a client. Without one a
  data query that turns to the service dereferences a null pointer; of a catalog query this is assumed
  of every execution.\<close>

definition data_class :: "'ci catalog_env \<Rightarrow> ((datum list, 'ci, column_meta) data_query, column_meta, app_buffer, memory) query_class" where
  "data_class E = data_query_class (ct_query E) (ct_reader E)"

definition Any_Execute ::
  "bool \<Rightarrow> 'ci catalog_env \<Rightarrow> 'ci any_query \<Rightarrow> diag_storage \<Rightarrow> (sql_result \<times> 'ci any_query \<times> diag_storage) option" where
  "Any_Execute live E q d =
     (case q of
        Data_Query x \<Rightarrow> if live then as_query Data_Query (vt_Execute (data_class E) x d) else None
      | Table_Query x \<Rightarrow> if live then as_query Table_Query (vt_Execute (table_query_class E) x d) else None
      | Column_Query x \<Rightarrow> if live then as_query Column_Query (vt_Execute (column_query_class E) x d) else None
      | Type_Query x \<Rightarrow> Some (AI_SUCCESS, Type_Query (TypeInfo_Execute x), d)
      | Empty_Query x \<Rightarrow> as_query Empty_Query (Some (Empty_Execute x d)))"

definition Any_Cancel ::
  "bool \<Rightarrow> 'ci catalog_env \<Rightarrow> 'ci any_query \<Rightarrow> diag_storage \<Rightarrow> (sql_result \<times> 'ci any_query \<times> diag_storage) option" where
  "Any_Cancel live E q d =
     (case q of
        Data_Query x \<Rightarrow>
          if hasAsyncFetch x \<and> dq_result x \<noteq> None \<and> \<not> live then None
          else as_query Data_Query (vt_Cancel (data_class E) x d)
      | Table_Query x \<Rightarrow> as_query Table_Query (vt_Cancel (table_query_class E) x d)
      | Column_Query x \<Rightarrow> as_query Column_Query (vt_Cancel (column_query_class E) x d)
      | Type_Query x \<Rightarrow> Some (AI_SUCCESS, Type_Query (TypeInfo_Close x), d)
      | Empty_Query x \<Rightarrow> Some (AI_SUCCESS, Empty_Query x, d))"

definition Any_FetchNextRow ::
  "'ci catalog_env \<Rightarrow> (app_buffer, memory) bindings \<Rightarrow> 'ci any_query \<Rightarrow> diag_storage \<Rightarrow>
   (sql_result \<times> (app_buffer, memory) bindings \<times> 'ci any_query \<times> diag_storage) option" where
  "Any_FetchNextRow E b q d =
     (case q of
        Data_Query x \<Rightarrow> as_fetched Data_Query (vt_FetchNextRow (data_class E) b x d)
      | Table_Query x \<Rightarrow> as_fetched Table_Query (vt_FetchNextRow (table_query_class E) b x d)
      | Column_Query x \<Rightarrow> as_fetched Column_Query (vt_FetchNextRow (column_query_class E) b x d)
      | Type_Query x \<Rightarrow> as_fetched Type_Query (type_fetch (ct_conv E) b x d)
      | Empty_Query x \<Rightarrow> as_fetched Empty_Query (Some (Empty_FetchNextRow b x d)))"

definition Any_GetColumn ::
  "'ci catalog_env \<Rightarrow> nat \<Rightarrow> app_buffer \<Rightarrow> memory \<Rightarrow> 'ci any_query \<Rightarrow> diag_storage \<Rightarrow>
   (sql_result \<times> app_buffer \<times> memory \<times> diag_storage) option" where
  "Any_GetColumn E i buf m q d =
     (case q of
        Data_Query x \<Rightarrow> vt_GetColumn (data_class E) i buf m x d
      | Table_Query x \<Rightarrow> vt_GetColumn (table_query_class E) i buf m x d
      | Column_Query x \<Rightarrow> vt_GetColumn (column_query_class E) i buf m x d
      | Type_Query x \<Rightarrow> type_column (ct_conv E) i buf m x d
      | Empty_Query x \<Rightarrow> Some (Empty_GetColumn i buf m x d))"

definition Any_Close :: "'ci catalog_env \<Rightarrow> 'ci any_query \<Rightarrow> (sql_result \<times> 'ci any_query) option" where
  "Any_Close E q =
     (case q of
        Data_Query x \<Rightarrow> map_option (\<lambda>(r, y). (r, Data_Query y)) (vt_Close (data_class E) x)
      | Table_Query x \<Rightarrow> Some (AI_SUCCESS, Table_Query (Table_Close x))
      | Column_Query x \<Rightarrow> Some (AI_SUCCESS, Column_Query (Column_Close x))
      | Type_Query x \<Rightarrow> Some (AI_SUCCESS, Type_Query (TypeInfo_Close x))
      | Empty_Query x \<Rightarrow> Some (AI_SUCCESS, Empty_Query x))"

definition Any_GetMeta ::
  "bool \<Rightarrow> 'ci catalog_env \<Rightarrow> 'ci any_query \<Rightarrow> diag_storage \<Rightarrow>
   (column_meta list option \<times> 'ci any_query \<times> diag_storage) option" where
  "Any_GetMeta live E q d =
     (case q of
        Data_Query x \<Rightarrow>
          if live \<or> resultMetaAvailable x then as_query Data_Query (vt_GetMeta (data_class E) x d) else None
      | Table_Query x \<Rightarrow> Some (Some (tq_columns x), Table_Query x, d)
      | Column_Query x \<Rightarrow> Some (Some (cq_columns x), Column_Query x, d)
      | Type_Query x \<Rightarrow> Some (Some (result_columns (ct_asSchema E) type_info_columns), Type_Query x, d)
      | Empty_Query x \<Rightarrow> Some (Some (result_columns (ct_asSchema E) (empty_columns x)), Empty_Query x, d))"

definition Any_DataAvailable :: "'ci catalog_env \<Rightarrow> 'ci any_query \<Rightarrow> bool" where
  "Any_DataAvailable E q =
     (case q of
        Data_Query x \<Rightarrow> vt_DataAvailable (data_class E) x
      | Table_Query x \<Rightarrow> vt_DataAvailable (table_query_class E) x
      | Column_Query x \<Rightarrow> vt_DataAvailable (column_query_class E) x
      | Type_Query x \<Rightarrow> ti_executed x \<and> ti_cursor x \<noteq> length (ti_types x)
      | Empty_Query x \<Rightarrow> False)"

definition Any_RowNumber :: "'ci catalog_env \<Rightarrow> 'ci any_query \<Rightarrow> diag_storage \<Rightarrow> int \<times> diag_storage" where
  "Any_RowNumber E q d =
     (case q of
        Data_Query x \<Rightarrow> vt_RowNumber (data_class E) x d
      | Table_Query x \<Rightarrow> vt_RowNumber (table_query_class E) x d
      | Column_Query x \<Rightarrow> vt_RowNumber (column_query_class E) x d
      | Type_Query x \<Rightarrow> TypeInfo_RowNumber x d
      | Empty_Query x \<Rightarrow> (0, d))"

text \<open>No class counts affected rows or has a further result set.\<close>

definition any_query_class ::
  "bool \<Rightarrow> 'ci catalog_env \<Rightarrow> ('ci any_query, column_meta, app_buffer, memory) query_class" where
  "any_query_class live E =
     \<lparr>vt_Execute = Any_Execute live E, vt_Cancel = Any_Cancel live E, vt_FetchNextRow = Any_FetchNextRow E,
      vt_GetColumn = Any_GetColumn E, vt_Close = Any_Close E, vt_GetMeta = Any_GetMeta live E,
      vt_DataAvailable = Any_DataAvailable E, vt_AffectedRows = (\<lambda>_. 0), vt_RowNumber = Any_RowNumber E,
      vt_NextResultSet = (\<lambda>_. AI_NO_DATA)\<rparr>"

text \<open>Deleting a query: the destructor of a data query waits for its workers when it has a page.\<close>

definition delete_query :: "'ci catalog_env \<Rightarrow> 'ci any_query \<Rightarrow> unit option" where
  "delete_query E q =
     (case q of
        Data_Query x \<Rightarrow>
          if dq_result x = None then Some () else map_option (\<lambda>_. ()) (InternalClose (ev_query (ct_query E)) x)
      | _ \<Rightarrow> Some ())"

lemma any_class_simps [simp]:
  "vt_Execute (any_query_class live E) = Any_Execute live E"
  "vt_Cancel (any_query_class live E) = Any_Cancel live E"
  "vt_FetchNextRow (any_query_class live E) = Any_FetchNextRow E"
  "vt_GetColumn (any_query_class live E) = Any_GetColumn E"
  "vt_Close (any_query_class live E) = Any_Close E"
  "vt_GetMeta (any_query_class live E) = Any_GetMeta live E"
  "vt_DataAvailable (any_query_class live E) = Any_DataAvailable E"
  "vt_AffectedRows (any_query_class live E) = (\<lambda>_. 0)"
  "vt_RowNumber (any_query_class live E) = Any_RowNumber E"
  "vt_NextResultSet (any_query_class live E) = (\<lambda>_. AI_NO_DATA)"
  by (simp_all add: any_query_class_def)

section \<open>What the driver finds around it\<close>

text \<open>The service as a connection with a configuration reaches it, the conversions of values, the providers
  and files a connection reads, the version of the driver, and the values the compiler leaves in objects
  that are not initialised; \<open>wd_stack\<close> is the address of the local variables of a call.\<close>

record 'ci world =
  wd_query :: "configuration \<Rightarrow> (datum list, 'ci, column_meta) query_env"
  wd_conv :: conv_env
  wd_junk :: "nat \<Rightarrow> int"
  wd_asSchema :: bool
  wd_version :: string
  wd_logPath :: string
  wd_services :: services
  wd_platform :: platform
  wd_profile :: profile_reader
  wd_int :: int
  wd_head :: desc_header
  wd_flag :: bool
  wd_stack :: int

abbreviation wd_wide :: "'ci world \<Rightarrow> nat" where
  "wd_wide W \<equiv> ce_wide (wd_conv W)"

text \<open>What a query takes from its connection. The version of ODBC matters to constructors only.\<close>

definition query_surroundings :: "'ci world \<Rightarrow> connection \<Rightarrow> int \<Rightarrow> 'ci catalog_env" where
  "query_surroundings W cn ver =
     \<lparr>ct_query = wd_query W (cn_config cn), ct_conv = wd_conv W, ct_junk = wd_junk W, ct_metadataId = metadataID cn,
      ct_odbcVer = ver, ct_asSchema = wd_asSchema W\<rparr>"

definition query_class_of ::
  "'ci world \<Rightarrow> connection \<Rightarrow> ('ci any_query, column_meta, app_buffer, memory) query_class" where
  "query_class_of W cn = any_query_class (queryClient cn) (query_surroundings W cn SQL_OV_ODBC3)"

section \<open>The state\<close>

record conn_obj =
  co_env :: nat
  co_conn :: connection

record 'ci stmt_obj =
  so_conn :: nat
  so_stmt :: "'ci any_query statement"

text \<open>\<open>dv_live\<close>: the addresses of the descriptors that exist; \<open>dv_refs\<close> and \<open>dv_sdk\<close>: the counter of
  connections and whether the SDK is initialised.\<close>

record 'ci driver =
  dv_envs :: "nat \<Rightarrow> environment option"
  dv_conns :: "nat \<Rightarrow> conn_obj option"
  dv_stmts :: "nat \<Rightarrow> 'ci stmt_obj option"
  dv_descs :: desc_store
  dv_live :: "int set"
  dv_log :: logger
  dv_mem :: memory
  dv_refs :: int
  dv_sdk :: bool

definition fresh_driver :: "desc_header \<Rightarrow> logger \<Rightarrow> memory \<Rightarrow> 'ci driver" where
  "fresh_driver junk lg m =
     \<lparr>dv_envs = Map.empty, dv_conns = Map.empty, dv_stmts = Map.empty, dv_descs = (\<lambda>_. NewDescriptor junk),
      dv_live = {}, dv_log = lg, dv_mem = m, dv_refs = 0, dv_sdk = False\<rparr>"

type_synonym 'ci api = "'ci driver \<Rightarrow> (int \<times> 'ci driver) option"

text \<open>A call on a handle: the null handle is refused, a handle that is not live is undefined.\<close>

definition on_handle :: "'h \<Rightarrow> 'h \<Rightarrow> ('ci driver \<Rightarrow> 'o option) \<Rightarrow> ('o \<Rightarrow> 'ci api) \<Rightarrow> 'ci api" where
  "on_handle null h get f D =
     (if h = null then Some (SQL_INVALID_HANDLE, D) else Option.bind (get D) (\<lambda>x. f x D))"

section \<open>Calls on an environment\<close>

definition env_upd :: "(diag_storage \<Rightarrow> diag_storage) \<Rightarrow> environment \<Rightarrow> environment" where
  "env_upd f e = e\<lparr>en_diag := f (en_diag e)\<rparr>"

definition env_call :: "nat \<Rightarrow> (environment \<Rightarrow> sql_result \<times> environment) \<Rightarrow> 'ci api" where
  "env_call h op = on_handle 0 h (\<lambda>D. dv_envs D h) (\<lambda>e D.
     let e' = api_call env_upd op e
     in Some (GetReturnCode (en_diag e'), D\<lparr>dv_envs := (dv_envs D)(h \<mapsto> e')\<rparr>))"

text \<open>A connection asks its environment for the version of ODBC through the API call of the environment,
  whose diagnostics it thereby clears.\<close>

definition GetEnvODBCVer :: "environment \<Rightarrow> int \<times> environment" where
  "GetEnvODBCVer e =
     (odbcVersion e,
      api_call env_upd (\<lambda>e. case Environment_GetAttribute SQL_ATTR_ODBC_VERSION e of (r, _, e') \<Rightarrow> (r, e')) e)"

section \<open>Calls on a connection\<close>

text \<open>The part of the state a call on a connection works on.\<close>

type_synonym conn_state = "connection \<times> logger \<times> memory"

definition conn_upd :: "(diag_storage \<Rightarrow> diag_storage) \<Rightarrow> conn_state \<Rightarrow> conn_state" where
  "conn_upd f = (\<lambda>(cn, w). (cn\<lparr>cn_diag := f (cn_diag cn)\<rparr>, w))"

definition open_conn :: "nat \<Rightarrow> 'ci driver \<Rightarrow> (conn_obj \<times> conn_state) option" where
  "open_conn h D = Option.bind (dv_conns D h) (\<lambda>c.
     if dv_envs D (co_env c) = None then None else Some (c, co_conn c, dv_log D, dv_mem D))"

definition put_conn :: "nat \<Rightarrow> conn_obj \<Rightarrow> conn_state \<Rightarrow> 'ci driver \<Rightarrow> 'ci driver" where
  "put_conn h c = (\<lambda>(cn, lg, m) D.
     D\<lparr>dv_conns := (dv_conns D)(h \<mapsto> c\<lparr>co_conn := cn\<rparr>), dv_log := lg, dv_mem := m\<rparr>)"

definition conn_run :: "nat \<Rightarrow> (conn_state \<Rightarrow> int \<times> conn_state) \<Rightarrow> 'ci api" where
  "conn_run h f = on_handle 0 h (open_conn h) (\<lambda>(c, s) D.
     let (rc, s') = f s in Some (rc, put_conn h c s' D))"

definition conn_protocol :: "(conn_state \<Rightarrow> sql_result \<times> conn_state) \<Rightarrow> conn_state \<Rightarrow> int \<times> conn_state" where
  "conn_protocol op s = (let s' = api_call conn_upd op s in (GetReturnCode (cn_diag (fst s')), s'))"

definition conn_call :: "nat \<Rightarrow> (conn_state \<Rightarrow> sql_result \<times> conn_state) \<Rightarrow> 'ci api" where
  "conn_call h op = conn_run h (conn_protocol op)"

section \<open>Calls on a statement\<close>

record 'ci ctx =
  cx_stmt :: "'ci any_query statement"
  cx_descs :: desc_store
  cx_conn :: connection
  cx_env :: environment
  cx_log :: logger
  cx_mem :: memory

definition ctx_upd :: "(diag_storage \<Rightarrow> diag_storage) \<Rightarrow> 'ci ctx \<Rightarrow> 'ci ctx" where
  "ctx_upd f x = x\<lparr>cx_stmt := (cx_stmt x)\<lparr>st_diag := f (st_diag (cx_stmt x))\<rparr>\<rparr>"

definition open_stmt :: "nat \<Rightarrow> 'ci driver \<Rightarrow> ('ci stmt_obj \<times> conn_obj \<times> 'ci ctx) option" where
  "open_stmt h D = Option.bind (dv_stmts D h) (\<lambda>s. Option.bind (dv_conns D (so_conn s)) (\<lambda>c.
     map_option (\<lambda>e. (s, c, \<lparr>cx_stmt = so_stmt s, cx_descs = dv_descs D, cx_conn = co_conn c, cx_env = e,
       cx_log = dv_log D, cx_mem = dv_mem D\<rparr>)) (dv_envs D (co_env c))))"

definition put_stmt :: "nat \<Rightarrow> 'ci stmt_obj \<Rightarrow> conn_obj \<Rightarrow> 'ci ctx \<Rightarrow> 'ci driver \<Rightarrow> 'ci driver" where
  "put_stmt h s c x D =
     D\<lparr>dv_stmts := (dv_stmts D)(h \<mapsto> s\<lparr>so_stmt := cx_stmt x\<rparr>),
       dv_conns := (dv_conns D)(so_conn s \<mapsto> c\<lparr>co_conn := cx_conn x\<rparr>),
       dv_envs := (dv_envs D)(co_env c \<mapsto> cx_env x),
       dv_descs := cx_descs x, dv_log := cx_log x, dv_mem := cx_mem x\<rparr>"

definition stmt_run :: "nat \<Rightarrow> ('ci ctx \<Rightarrow> (int \<times> 'ci ctx) option) \<Rightarrow> 'ci api" where
  "stmt_run h f = on_handle 0 h (open_stmt h) (\<lambda>(s, c, x) D.
     map_option (\<lambda>(rc, x'). (rc, put_stmt h s c x' D)) (f x))"

text \<open>One operation under the protocol of API calls, and the code the API function returns: the one in
  the diagnostics of the statement.\<close>

definition ctx_code :: "'ci ctx \<Rightarrow> int" where
  "ctx_code x = GetReturnCode (st_diag (cx_stmt x))"

definition stmt_protocol :: "('ci ctx \<Rightarrow> (sql_result \<times> 'ci ctx) option) \<Rightarrow> 'ci ctx \<Rightarrow> (int \<times> 'ci ctx) option" where
  "stmt_protocol op x =
     map_option (\<lambda>(r, x'). let x'' = ctx_upd (SetHeaderRecord r) x' in (ctx_code x'', x'')) (op (ctx_upd ResetStorage x))"

definition stmt_call :: "nat \<Rightarrow> ('ci ctx \<Rightarrow> (sql_result \<times> 'ci ctx) option) \<Rightarrow> 'ci api" where
  "stmt_call h op = stmt_run h (stmt_protocol op)"

text \<open>Operations on parts of the context.\<close>

definition in_stmt ::
  "('ci any_query statement \<Rightarrow> (sql_result \<times> 'ci any_query statement) option) \<Rightarrow> 'ci ctx \<Rightarrow> (sql_result \<times> 'ci ctx) option"
  where
  "in_stmt f x = map_option (\<lambda>(r, st). (r, x\<lparr>cx_stmt := st\<rparr>)) (f (cx_stmt x))"

definition in_memory ::
  "('ci any_query statement \<Rightarrow> memory \<Rightarrow> (sql_result \<times> 'ci any_query statement \<times> memory) option) \<Rightarrow>
   'ci ctx \<Rightarrow> (sql_result \<times> 'ci ctx) option" where
  "in_memory f x =
     map_option (\<lambda>(r, st, m). (r, x\<lparr>cx_stmt := st, cx_mem := m\<rparr>)) (f (cx_stmt x) (cx_mem x))"

definition in_descs ::
  "('ci any_query statement \<times> desc_store \<Rightarrow> sql_result \<times> 'ci any_query statement \<times> desc_store) \<Rightarrow>
   'ci ctx \<Rightarrow> (sql_result \<times> 'ci ctx) option" where
  "in_descs f x =
     (case f (cx_stmt x, cx_descs x) of (r, st, h) \<Rightarrow> Some (r, x\<lparr>cx_stmt := st, cx_descs := h\<rparr>))"

definition in_state ::
  "('ci any_query stmt_state \<Rightarrow> sql_result \<times> 'ci any_query stmt_state) \<Rightarrow> 'ci ctx \<Rightarrow> (sql_result \<times> 'ci ctx) option" where
  "in_state f x =
     (case f (cx_stmt x, cx_descs x, cx_conn x, cx_log x) of
        (r, st, h, cn, lg) \<Rightarrow> Some (r, x\<lparr>cx_stmt := st, cx_descs := h, cx_conn := cn, cx_log := lg\<rparr>))"

definition in_conn ::
  "('ci any_query statement \<times> connection \<Rightarrow> sql_result \<times> 'ci any_query statement \<times> connection) \<Rightarrow>
   'ci ctx \<Rightarrow> (sql_result \<times> 'ci ctx) option" where
  "in_conn f x = (case f (cx_stmt x, cx_conn x) of (r, st, cn) \<Rightarrow> Some (r, x\<lparr>cx_stmt := st, cx_conn := cn\<rparr>))"

text \<open>An operation that first asks for the version of ODBC.\<close>

definition with_version :: "(int \<Rightarrow> 'ci ctx \<Rightarrow> (sql_result \<times> 'ci ctx) option) \<Rightarrow> 'ci ctx \<Rightarrow> (sql_result \<times> 'ci ctx) option" where
  "with_version f x = (let (v, e) = GetEnvODBCVer (cx_env x) in f v (x\<lparr>cx_env := e\<rparr>))"

abbreviation cx_class :: "'ci world \<Rightarrow> 'ci ctx \<Rightarrow> ('ci any_query, column_meta, app_buffer, memory) query_class" where
  "cx_class W x \<equiv> query_class_of W (cx_conn x)"

section \<open>Facts\<close>

interpretation stmt_ctx: diagnosable "\<lambda>x. st_diag (cx_stmt x)" ctx_upd
  by unfold_locales (simp add: ctx_upd_def)

interpretation conn_ctx: diagnosable "\<lambda>s. cn_diag (fst s)" conn_upd
  by unfold_locales (auto simp: conn_upd_def)

interpretation env_ctx: diagnosable en_diag env_upd
  by unfold_locales (simp add: env_upd_def)

lemma on_handle_null [simp]: "on_handle null null get f D = Some (SQL_INVALID_HANDLE, D)"
  by (simp add: on_handle_def)

lemma null_calls [simp]:
  "env_call 0 eop D = Some (SQL_INVALID_HANDLE, D)"
  "conn_run 0 cf D = Some (SQL_INVALID_HANDLE, D)" "conn_call 0 cop D = Some (SQL_INVALID_HANDLE, D)"
  "stmt_run 0 f D = Some (SQL_INVALID_HANDLE, D)" "stmt_call 0 op D = Some (SQL_INVALID_HANDLE, D)"
  by (simp_all add: env_call_def conn_run_def conn_call_def stmt_run_def stmt_call_def)

text \<open>The code of a call is the one its diagnostics carry.\<close>

lemma stmt_call_code:
  assumes "stmt_call h op D = Some (rc, D')" and "h \<noteq> 0"
  shows "\<exists>s. dv_stmts D' h = Some s \<and> rc = GetReturnCode (st_diag (so_stmt s))"
  using assms
  by (auto simp: stmt_call_def stmt_run_def on_handle_def stmt_protocol_def put_stmt_def ctx_code_def Let_def
      split: bind_splits prod.splits)

lemma conn_call_code:
  assumes "conn_call h op D = Some (rc, D')" and "h \<noteq> 0"
  shows "\<exists>c. dv_conns D' h = Some c \<and> rc = GetReturnCode (cn_diag (co_conn c))"
  using assms
  by (auto simp: conn_call_def conn_run_def on_handle_def conn_protocol_def put_conn_def Let_def
      split: bind_splits prod.splits)

lemma env_call_code:
  assumes "env_call h op D = Some (rc, D')" and "h \<noteq> 0"
  shows "\<exists>e. dv_envs D' h = Some e \<and> rc = GetReturnCode (en_diag e)"
  using assms by (auto simp: env_call_def on_handle_def Let_def split: bind_splits)

end
