(* ===== verification/Driver_Api.thy ===== *)
theory Driver_Api
  imports Driver_State
begin

text \<open>
  The functions of the API (\<^verbatim>\<open>src/odbc.cpp\<close>), one definition each, over the state of the driver: allocating
  and freeing handles, connecting, preparing and executing, catalog functions, fetching, metadata,
  attributes, diagnostics and descriptors. A text argument is the list of units at its address, a null
  pointer being \<open>None\<close>; an output argument is an address, 0 the null pointer.
\<close>

section \<open>Output arguments\<close>

definition store_int32 :: "int \<Rightarrow> int \<Rightarrow> memory \<Rightarrow> memory" where
  "store_int32 p v m = (if p = 0 then m else write_bytes p (le_bytes 4 v) m)"

definition put_stmt_attr :: "int \<Rightarrow> int \<Rightarrow> (int \<times> int option) option \<Rightarrow> memory \<Rightarrow> memory" where
  "put_stmt_attr buf reslen out m =
     (case out of
        None \<Rightarrow> m
      | Some (v, n) \<Rightarrow>
          (let m' = store_len buf v m in case n of None \<Rightarrow> m' | Some k \<Rightarrow> store_int32 reslen k m'))"

definition put_conn_attr :: "int \<Rightarrow> int \<Rightarrow> (int \<times> int) option \<Rightarrow> memory \<Rightarrow> memory" where
  "put_conn_attr buf reslen out m =
     (case out of None \<Rightarrow> m | Some (v, n) \<Rightarrow> store_int32 reslen n (store_int32 buf v m))"

section \<open>Allocating handles\<close>

text \<open>The address of the new object is \<open>a\<close>; the result is the code, the handle when it is stored, and the
  state.\<close>

type_synonym 'ci alloc = "'ci driver \<Rightarrow> (int \<times> int option \<times> 'ci driver) option"

definition SQLAllocEnv :: "nat \<Rightarrow> 'ci alloc" where
  "SQLAllocEnv a D = Some (SQL_SUCCESS, Some (int a), D\<lparr>dv_envs := (dv_envs D)(a \<mapsto> NewEnvironment)\<rparr>)"

text \<open>The constructor of a connection initialises the SDK unless it is, and counts the connection.\<close>

definition construct_connection :: "'ci world \<Rightarrow> nat \<Rightarrow> nat \<Rightarrow> 'ci driver \<Rightarrow> 'ci driver" where
  "construct_connection W env a D =
     D\<lparr>dv_conns := (dv_conns D)(a \<mapsto>
         \<lparr>co_env = env, co_conn = NewConnection a (DefaultConfiguration (wd_logPath W)) [] []\<rparr>),
       dv_sdk := True, dv_refs := dv_refs D + 1\<rparr>"

definition SQLAllocConnect :: "'ci world \<Rightarrow> nat \<Rightarrow> nat \<Rightarrow> 'ci alloc" where
  "SQLAllocConnect W env a D =
     (if env = 0 then Some (SQL_INVALID_HANDLE, Some 0, D)
      else map_option (\<lambda>e.
        (SQL_SUCCESS, Some (int a),
         construct_connection W env a
           (D\<lparr>dv_envs := (dv_envs D)(env \<mapsto> api_call env_upd (InternalCreateConnection a) e)\<rparr>)))
        (dv_envs D env))"

text \<open>The four implicit descriptors of a statement lie at \<open>ps\<close>.\<close>

definition SQLAllocStmt :: "'ci world \<Rightarrow> nat \<Rightarrow> nat \<Rightarrow> int \<times> int \<times> int \<times> int \<Rightarrow> 'ci alloc" where
  "SQLAllocStmt W conn a ps D =
     (if conn = 0 then Some (SQL_INVALID_HANDLE, Some 0, D)
      else case ps of (p, q, r, s) \<Rightarrow>
        map_option (\<lambda>(c, cn, lg, m).
          case InternalCreateStatement a p q r s (wd_head W) (dv_descs D, fst (conn_upd ResetStorage (cn, lg, m)), lg) of
            (res, st, h, cn', lg') \<Rightarrow>
              let cn2 = fst (conn_upd (SetHeaderRecord res) (cn', lg', m))
              in (GetReturnCode (cn_diag cn2), Some (int a),
                  put_conn conn c (cn2, lg', m)
                    (D\<lparr>dv_stmts := (dv_stmts D)(a \<mapsto> \<lparr>so_conn = conn, so_stmt = st\<rparr>), dv_descs := h,
                       dv_live := dv_live D \<union> {p, q, r, s}\<rparr>)))
        (open_conn conn D))"

text \<open>With a null connection the handle is not stored.\<close>

definition SQLAllocDesc :: "'ci world \<Rightarrow> nat \<Rightarrow> int \<Rightarrow> 'ci alloc" where
  "SQLAllocDesc W conn p D =
     (if conn = 0 then Some (SQL_INVALID_HANDLE, None, D)
      else map_option (\<lambda>(c, cn, lg, m).
        let cn1 = fst (conn_upd ResetStorage (cn, lg, m));
            (res, d) = InternalCreateDescriptor (wd_head W) cn1;
            cn2 = fst (conn_upd (SetHeaderRecord res) (cn1, lg, m))
        in (GetReturnCode (cn_diag cn2), Some p,
            put_conn conn c (cn2, lg, m) (D\<lparr>dv_descs := (dv_descs D)(p := d), dv_live := insert p (dv_live D)\<rparr>)))
        (open_conn conn D))"

text \<open>The addresses of what is allocated: of an environment, connection or statement, of a descriptor and of
  the implicit descriptors.\<close>

definition SQLAllocHandle ::
  "'ci world \<Rightarrow> int \<Rightarrow> nat \<Rightarrow> nat \<times> int \<times> (int \<times> int \<times> int \<times> int) \<Rightarrow> 'ci alloc" where
  "SQLAllocHandle W type parent addr D =
     (case addr of (a, p, ps) \<Rightarrow>
        if type = SQL_HANDLE_ENV then SQLAllocEnv a D
        else if type = SQL_HANDLE_DBC then SQLAllocConnect W parent a D
        else if type = SQL_HANDLE_STMT then SQLAllocStmt W parent a ps D
        else if type = SQL_HANDLE_DESC then SQLAllocDesc W parent p D
        else Some (SQL_ERROR, Some 0, D))"

section \<open>Freeing handles\<close>

definition SQLFreeEnv :: "nat \<Rightarrow> 'ci api" where
  "SQLFreeEnv h = on_handle 0 h (\<lambda>D. dv_envs D h) (\<lambda>_ D. Some (SQL_SUCCESS, D\<lparr>dv_envs := (dv_envs D)(h := None)\<rparr>))"

text \<open>The destructor of the last connection shuts the SDK down.\<close>

definition destroy_connection :: "nat \<Rightarrow> 'ci driver \<Rightarrow> 'ci driver" where
  "destroy_connection h D =
     (let n = dv_refs D - 1 in
      D\<lparr>dv_conns := (dv_conns D)(h := None), dv_refs := n, dv_sdk := (if n = 0 then False else dv_sdk D)\<rparr>)"

definition SQLFreeConnect :: "nat \<Rightarrow> 'ci api" where
  "SQLFreeConnect h = on_handle 0 h (\<lambda>D. dv_conns D h) (\<lambda>c D.
     map_option (\<lambda>e. (SQL_SUCCESS,
       destroy_connection h (D\<lparr>dv_envs := (dv_envs D)(co_env c \<mapsto> DeregisterConnection h e)\<rparr>)))
       (dv_envs D (co_env c)))"

definition destroy_statement :: "nat \<Rightarrow> 'ci any_query statement \<Rightarrow> 'ci driver \<Rightarrow> 'ci driver" where
  "destroy_statement h st D =
     D\<lparr>dv_stmts := (dv_stmts D)(h := None), dv_live := dv_live D - {ardi st, apdi st, irdi st, ipdi st}\<rparr>"

definition drop_statement :: "'ci world \<Rightarrow> nat \<Rightarrow> 'ci stmt_obj \<times> conn_obj \<times> 'ci ctx \<Rightarrow> 'ci api" where
  "drop_statement W h = (\<lambda>(s, c, x) D.
     map_option (\<lambda>_. (SQL_SUCCESS,
       destroy_statement h (cx_stmt x)
         (D\<lparr>dv_conns := (dv_conns D)(so_conn s \<mapsto> c\<lparr>co_conn := RemoveCursorName h (cx_conn x)\<rparr>)\<rparr>)))
     (case currentQuery (cx_stmt x) of
        None \<Rightarrow> Some () | Some q \<Rightarrow> delete_query (query_surroundings W (cx_conn x) SQL_OV_ODBC3) q))"

definition SQLFreeStmt :: "'ci world \<Rightarrow> nat \<Rightarrow> int \<Rightarrow> 'ci api" where
  "SQLFreeStmt W h option =
     (if option = SQL_DROP then on_handle 0 h (open_stmt h) (drop_statement W h)
      else stmt_call h (\<lambda>x. in_stmt (InternalFreeResources (cx_class W x) option) x))"

text \<open>\<^verbatim>\<open>Deregister\<close> tells the statement of the descriptor, live or not, to use its implicit descriptor. That
  reaches into the statement for a row descriptor only.\<close>

definition Deregister :: "descriptor \<Rightarrow> 'ci driver \<Rightarrow> 'ci driver option" where
  "Deregister d D =
     (if desc_kind d \<noteq> ARD \<and> desc_kind d \<noteq> IRD then Some D
      else Option.bind (desc_stmt d) (\<lambda>h. map_option (\<lambda>s.
        D\<lparr>dv_stmts := (dv_stmts D)(h \<mapsto> s\<lparr>so_stmt := RestoreDescriptor (desc_kind d) (so_stmt s)\<rparr>)\<rparr>) (dv_stmts D h)))"

definition live_desc :: "int \<Rightarrow> 'ci driver \<Rightarrow> descriptor option" where
  "live_desc p D = (if p \<in> dv_live D then Some (dv_descs D p) else None)"

definition SQLFreeDescriptor :: "int \<Rightarrow> 'ci api" where
  "SQLFreeDescriptor p = on_handle 0 p (live_desc p) (\<lambda>d D.
     map_option (\<lambda>D'. (SQL_SUCCESS, D'\<lparr>dv_live := dv_live D' - {p}\<rparr>)) (Deregister d D))"

definition SQLFreeHandle :: "'ci world \<Rightarrow> int \<Rightarrow> int \<Rightarrow> 'ci api" where
  "SQLFreeHandle W type h D =
     (if type = SQL_HANDLE_ENV then SQLFreeEnv (nat h) D
      else if type = SQL_HANDLE_DBC then SQLFreeConnect (nat h) D
      else if type = SQL_HANDLE_STMT then SQLFreeStmt W (nat h) SQL_DROP D
      else if type = SQL_HANDLE_DESC then SQLFreeDescriptor h D
      else Some (SQL_ERROR, D))"

text \<open>There is no check for the null handle here.\<close>

definition SQLCloseCursor :: "'ci world \<Rightarrow> nat \<Rightarrow> 'ci api" where
  "SQLCloseCursor W h D =
     (if h = 0 then None else stmt_call h (\<lambda>x. in_stmt (Statement_InternalClose (cx_class W x) False) x) D)"

section \<open>Connecting\<close>

text \<open>The output string is the input string, cut to the buffer without a warning.\<close>

definition copy_connection_string :: "nat \<Rightarrow> string \<Rightarrow> int \<Rightarrow> int \<Rightarrow> int \<Rightarrow> memory \<Rightarrow> memory" where
  "copy_connection_string w str out outlen reslen m =
     (let (n, _, m') = CopyStringToBuffer w str out (to_size outlen) False m in store_int16 reslen (int n) m')"

definition SQLDriverConnect ::
  "'ci world \<Rightarrow> nat \<Rightarrow> nat list option \<Rightarrow> int \<Rightarrow> int \<Rightarrow> int \<Rightarrow> int \<Rightarrow> 'ci api" where
  "SQLDriverConnect W h str len out outlen reslen = conn_run h (\<lambda>s0.
     let text = SqlWcharToString (wd_wide W) str len False;
         (rc, cn, lg, m) = conn_protocol (\<lambda>(cn, lg, m).
           case InternalEstablish (wd_services W) (wd_platform W) (wd_profile W) (wd_int W) text (cn, lg) of
             (r, cn', lg') \<Rightarrow> (r, cn', lg', m)) s0
     in if \<not> IsSuccessful (cn_diag cn) then (rc, cn, lg, m)
        else (rc, cn, lg, copy_connection_string (wd_wide W) text out outlen reslen m))"

definition SQLConnect ::
  "'ci world \<Rightarrow> nat \<Rightarrow> nat list option \<Rightarrow> int \<Rightarrow> nat list option \<Rightarrow> int \<Rightarrow> nat list option \<Rightarrow> int \<Rightarrow> 'ci api" where
  "SQLConnect W h server serverlen user userlen auth authlen = conn_run h (\<lambda>(cn, lg, m).
     let w = wd_wide W;
         dsn = SqlWcharToString w server serverlen False;
         (cfg, lg') = ReadDsnConfiguration (wd_profile W) (wd_int W) (valid_dir (wd_platform W)) dsn
           (DefaultConfiguration (wd_logPath W), lg);
         cfg1 = (case user of None \<Rightarrow> cfg | Some _ \<Rightarrow> SetUid (SqlWcharToString w user userlen False) cfg);
         cfg2 = (case auth of None \<Rightarrow> cfg1 | Some _ \<Rightarrow> SetPwd (SqlWcharToString w auth authlen False) cfg1)
     in conn_protocol (\<lambda>(cn, w). case EstablishWith (wd_services W) cfg2 cn of (r, cn') \<Rightarrow> (r, cn', w)) (cn, lg', m))"

definition SQLDisconnect :: "nat \<Rightarrow> 'ci api" where
  "SQLDisconnect h = conn_call h (\<lambda>(cn, w). case InternalRelease cn of (r, cn') \<Rightarrow> (r, cn', w))"

text \<open>The information table of a connection is the one of the driver with the two texts the connection has
  set.\<close>

definition info_table :: "'ci world \<Rightarrow> connection \<Rightarrow> connection_info" where
  "info_table W cn =
     snd (SetInfo SQL_DATA_SOURCE_NAME (cn_dataSource cn)
       (snd (SetInfo SQL_USER_NAME (cn_userName cn) (ConnectionInfo (wd_asSchema W) (wd_version W)))))"

definition SQLGetInfo :: "'ci world \<Rightarrow> nat \<Rightarrow> int \<Rightarrow> int \<Rightarrow> int \<Rightarrow> int \<Rightarrow> 'ci api" where
  "SQLGetInfo W h type buf buflen reslen = conn_call h (\<lambda>(cn, lg, m).
     case InternalGetInfo (wd_wide W) (info_table W cn) type buf buflen reslen m (cn_diag cn) of
       (r, m', d) \<Rightarrow> (r, cn\<lparr>cn_diag := d\<rparr>, lg, m'))"

section \<open>Executing\<close>

definition SQLPrepare :: "'ci world \<Rightarrow> nat \<Rightarrow> nat list option \<Rightarrow> int \<Rightarrow> 'ci api" where
  "SQLPrepare W h query len = stmt_call h (\<lambda>x. in_stmt
     (InternalPrepareSqlQuery (cx_class W x) (\<lambda>sql. Data_Query (DataQuery sql))
       (SqlWcharToString (wd_wide W) query len False)) x)"

definition SQLExecute :: "'ci world \<Rightarrow> nat \<Rightarrow> 'ci api" where
  "SQLExecute W h = stmt_call h (\<lambda>x. in_stmt (InternalExecutePrepared (cx_class W x)) x)"

definition SQLExecDirect :: "'ci world \<Rightarrow> nat \<Rightarrow> nat list option \<Rightarrow> int \<Rightarrow> 'ci api" where
  "SQLExecDirect W h query len = stmt_call h (\<lambda>x. in_stmt
     (InternalExecuteSqlQuery (cx_class W x) (\<lambda>sql. Data_Query (DataQuery sql))
       (SqlWcharToString (wd_wide W) query len False)) x)"

definition SQLCancel :: "'ci world \<Rightarrow> nat \<Rightarrow> 'ci api" where
  "SQLCancel W h = stmt_call h (\<lambda>x. in_stmt (InternalCancelSqlQuery (cx_class W x)) x)"

definition SQLMoreResults :: "'ci world \<Rightarrow> nat \<Rightarrow> 'ci api" where
  "SQLMoreResults W h = stmt_call h (\<lambda>x. in_stmt (\<lambda>st. Some (InternalMoreResults (cx_class W x) st)) x)"

definition SQLRowCount :: "'ci world \<Rightarrow> nat \<Rightarrow> int \<Rightarrow> 'ci api" where
  "SQLRowCount W h cnt = stmt_call h (\<lambda>x. in_memory (\<lambda>st m.
     case InternalAffectedRows (cx_class W x) 0 st of
       (r, n, st') \<Rightarrow> Some (r, st', store_len cnt (if 0 < n then n else -1) m)) x)"

section \<open>Catalog functions\<close>

text \<open>The function creates the query and executes it. The query on tables and the one on columns, which
  contains one on tables, ask for the version of ODBC when they are constructed.\<close>

definition catalog_call :: "'ci world \<Rightarrow> nat \<Rightarrow> (connection \<Rightarrow> 'ci any_query) \<Rightarrow> 'ci api" where
  "catalog_call W h mk = stmt_call h (\<lambda>x. in_stmt (InternalExecuteCatalogQuery (cx_class W x) (mk (cx_conn x))) x)"

definition versioned_catalog :: "'ci world \<Rightarrow> ('ci catalog_env \<Rightarrow> 'ci any_query) \<Rightarrow> 'ci ctx \<Rightarrow> (sql_result \<times> 'ci ctx) option" where
  "versioned_catalog W mk = with_version (\<lambda>v x. in_stmt
     (InternalExecuteCatalogQuery (cx_class W x) (mk (query_surroundings W (cx_conn x) v))) x)"

definition SQLTables ::
  "'ci world \<Rightarrow> nat \<Rightarrow> nat list option \<times> int \<Rightarrow> nat list option \<times> int \<Rightarrow> nat list option \<times> int \<Rightarrow>
   nat list option \<times> int \<Rightarrow> 'ci api" where
  "SQLTables W h catalog schema table type =
     (let text = (\<lambda>(us, n). SqlWcharToOptString (wd_wide W) us n False)
      in stmt_call h (versioned_catalog W
           (\<lambda>E. Table_Query (TableMetadataQuery E (text catalog) (text schema) (text table) (text type)))))"

text \<open>An empty catalog with an empty schema only adds a record to those of the call before.\<close>

definition SQLColumns ::
  "'ci world \<Rightarrow> nat \<Rightarrow> nat list option \<times> int \<Rightarrow> nat list option \<times> int \<Rightarrow> nat list option \<times> int \<Rightarrow>
   nat list option \<times> int \<Rightarrow> 'ci api" where
  "SQLColumns W h catalog schema table column =
     (let text = (\<lambda>(us, n). SqlWcharToOptString (wd_wide W) us n False)
      in if text catalog = Some [] \<and> text schema = Some [] then
           stmt_run h (\<lambda>x. Some (SQL_SUCCESS_WITH_INFO,
             ctx_upd (AddStatusRecord S01000_GENERAL_WARNING ''catalogName and schemaName are empty strings.'') x))
         else
           stmt_call h (versioned_catalog W
             (\<lambda>E. Column_Query (ColumnMetadataQuery E (text catalog) (text schema) (text table) (text column)))))"

definition SQLColumnPrivileges :: "'ci world \<Rightarrow> nat \<Rightarrow> 'ci api" where
  "SQLColumnPrivileges W h = catalog_call W h (\<lambda>_. Empty_Query ColumnPrivilegesQuery)"

definition SQLTablePrivileges :: "'ci world \<Rightarrow> nat \<Rightarrow> 'ci api" where
  "SQLTablePrivileges W h = catalog_call W h (\<lambda>_. Empty_Query TablePrivilegesQuery)"

definition SQLForeignKeys :: "'ci world \<Rightarrow> nat \<Rightarrow> 'ci api" where
  "SQLForeignKeys W h = catalog_call W h (\<lambda>_. Empty_Query ForeignKeysQuery)"

definition SQLPrimaryKeys :: "'ci world \<Rightarrow> nat \<Rightarrow> 'ci api" where
  "SQLPrimaryKeys W h = catalog_call W h (\<lambda>_. Empty_Query PrimaryKeysQuery)"

definition SQLSpecialColumns :: "'ci world \<Rightarrow> nat \<Rightarrow> 'ci api" where
  "SQLSpecialColumns W h = catalog_call W h (\<lambda>_. Empty_Query SpecialColumnsQuery)"

definition SQLProcedureColumns :: "'ci world \<Rightarrow> nat \<Rightarrow> 'ci api" where
  "SQLProcedureColumns W h = catalog_call W h (\<lambda>_. Empty_Query ProcedureColumnsQuery)"

definition SQLProcedures :: "'ci world \<Rightarrow> nat \<Rightarrow> 'ci api" where
  "SQLProcedures W h = catalog_call W h (\<lambda>_. Empty_Query ProceduresQuery)"

definition SQLStatistics :: "'ci world \<Rightarrow> nat \<Rightarrow> 'ci api" where
  "SQLStatistics W h = stmt_call h (versioned_catalog W (\<lambda>E. Empty_Query (StatisticsQuery (ct_odbcVer E))))"

definition SQLGetTypeInfo :: "'ci world \<Rightarrow> nat \<Rightarrow> int \<Rightarrow> 'ci api" where
  "SQLGetTypeInfo W h type = stmt_call h (\<lambda>x. in_stmt (InternalExecuteGetTypeInfoQuery (cx_class W x) Type_Query type) x)"

section \<open>Fetching\<close>

definition SQLBindCol :: "nat \<Rightarrow> nat \<Rightarrow> int \<Rightarrow> int \<Rightarrow> int \<Rightarrow> int \<Rightarrow> 'ci api" where
  "SQLBindCol h col type val len ind = stmt_call h (in_descs (InternalBindColumn col type val len ind))"

definition SQLFetch :: "'ci world \<Rightarrow> nat \<Rightarrow> 'ci api" where
  "SQLFetch W h = stmt_call h (\<lambda>x. in_memory (InternalFetchRow (cx_class W x)) x)"

definition SQLFetchScroll :: "'ci world \<Rightarrow> nat \<Rightarrow> int \<Rightarrow> 'ci api" where
  "SQLFetchScroll W h orientation = stmt_call h (\<lambda>x. in_memory (InternalFetchScroll (cx_class W x) orientation) x)"

definition SQLExtendedFetch :: "'ci world \<Rightarrow> nat \<Rightarrow> int \<Rightarrow> int \<Rightarrow> int \<Rightarrow> 'ci api" where
  "SQLExtendedFetch W h orientation cnt sts = stmt_run h (\<lambda>x0.
     map_option (\<lambda>(rc, x). (rc, if rc = SQL_NO_DATA then x\<lparr>cx_mem := store_len cnt 0 (cx_mem x)\<rparr> else x))
       (stmt_protocol (\<lambda>x. in_memory (InternalExtendedFetch (cx_class W x) orientation cnt sts) x) x0))"

text \<open>The statement keeps the column read last and how much of it has been handed out. The buffer starts there,
  and the statement takes over where it ends. The statement's assignments before and after the operation
  do not touch the diagnostics, so they are part of it here.\<close>

definition SQLGetData :: "'ci world \<Rightarrow> nat \<Rightarrow> nat \<Rightarrow> int \<Rightarrow> int \<Rightarrow> int \<Rightarrow> int \<Rightarrow> 'ci api" where
  "SQLGetData W h col type val len ind = stmt_call h (\<lambda>x.
     let st0 = cx_stmt x;
         st1 = (if int col \<noteq> currentColNum st0 then st0\<lparr>currentColNum := int col, st_cellOffset := 0\<rparr> else st0);
         b = SetCellOffset (st_cellOffset st1) (ApplicationDataBuffer (ToDriverType type) val len ind)
     in map_option (\<lambda>(r, b', st, m). (r, x\<lparr>cx_stmt := st\<lparr>st_cellOffset := ab_cellOffset b'\<rparr>, cx_mem := m\<rparr>))
       (InternalGetColumnData (cx_class W x) col b st1 (cx_mem x)))"

section \<open>Metadata\<close>

definition num_result_cols :: "'ci world \<Rightarrow> int \<Rightarrow> 'ci ctx \<Rightarrow> (int \<times> 'ci ctx) option" where
  "num_result_cols W out = stmt_protocol (\<lambda>x. in_memory (\<lambda>st m.
     map_option (\<lambda>(r, n, st'). (r, st', store_int16 out n m)) (InternalGetColumnNumber (cx_class W x) st)) x)"

definition SQLNumResultCols :: "'ci world \<Rightarrow> nat \<Rightarrow> int \<Rightarrow> 'ci api" where
  "SQLNumResultCols W h out = stmt_run h (num_result_cols W out)"

definition get_column_attribute ::
  "'ci world \<Rightarrow> nat \<Rightarrow> int \<Rightarrow> int \<Rightarrow> int \<Rightarrow> int \<Rightarrow> int \<Rightarrow> 'ci ctx \<Rightarrow> (int \<times> 'ci ctx) option" where
  "get_column_attribute W col field buf buflen reslen num = stmt_protocol (\<lambda>x. in_memory
     (InternalGetColumnAttribute (cx_class W x) (wd_wide W) col field buf (to_size (to_int16 buflen)) reslen num) x)"

text \<open>The number of columns is counted in a local variable.\<close>

definition col_attribute ::
  "'ci world \<Rightarrow> nat \<Rightarrow> int \<Rightarrow> int \<Rightarrow> int \<Rightarrow> int \<Rightarrow> int \<Rightarrow> 'ci ctx \<Rightarrow> (int \<times> 'ci ctx) option" where
  "col_attribute W col field buf buflen reslen num x0 =
     (if field = SQL_DESC_COUNT then
        map_option (\<lambda>(rc, x). (rc,
            if rc = SQL_SUCCESS
            then x\<lparr>cx_mem := store_len num (to_int16 (le_val (read_bytes (wd_stack W) 2 (cx_mem x)))) (cx_mem x)\<rparr>
            else x))
          (num_result_cols W (wd_stack W) (x0\<lparr>cx_mem := store_int16 (wd_stack W) 0 (cx_mem x0)\<rparr>))
      else get_column_attribute W col field buf buflen reslen num x0)"

definition SQLColAttribute :: "'ci world \<Rightarrow> nat \<Rightarrow> nat \<Rightarrow> int \<Rightarrow> int \<Rightarrow> int \<Rightarrow> int \<Rightarrow> int \<Rightarrow> 'ci api" where
  "SQLColAttribute W h col field buf buflen reslen num = stmt_run h (col_attribute W col field buf buflen reslen num)"

definition odbc2_field :: "int \<Rightarrow> int" where
  "odbc2_field f =
     (if f = SQL_COLUMN_NAME then SQL_DESC_NAME else if f = SQL_COLUMN_NULLABLE then SQL_DESC_NULLABLE
      else if f = SQL_COLUMN_COUNT then SQL_DESC_COUNT else f)"

definition odbc2_date_type :: "int \<Rightarrow> int" where
  "odbc2_date_type t =
     (if t = SQL_TYPE_DATE then SQL_DATE else if t = SQL_TYPE_TIME then SQL_TIME
      else if t = SQL_TYPE_TIMESTAMP then SQL_TIMESTAMP else t)"

text \<open>For an application of ODBC 2 the number is read back, also when there is no place for it.\<close>

definition SQLColAttributes :: "'ci world \<Rightarrow> nat \<Rightarrow> nat \<Rightarrow> int \<Rightarrow> int \<Rightarrow> int \<Rightarrow> int \<Rightarrow> int \<Rightarrow> 'ci api" where
  "SQLColAttributes W h col field0 buf buflen reslen num = stmt_run h (\<lambda>x0.
     let field = odbc2_field field0 in
     Option.bind (col_attribute W col field buf buflen reslen num x0) (\<lambda>(rc, x).
       let (v, e) = GetEnvODBCVer (cx_env x); x' = x\<lparr>cx_env := e\<rparr> in
       if v = SQL_OV_ODBC2 \<and> field = SQL_COLUMN_TYPE then
         (if num = 0 then None
          else Some (rc, x'\<lparr>cx_mem :=
            (let t = to_int64 (le_val (read_bytes num 8 (cx_mem x')))
             in if odbc2_date_type t = t then cx_mem x' else store_len num (odbc2_date_type t) (cx_mem x'))\<rparr>))
       else Some (rc, x')))"

text \<open>\<^verbatim>\<open>SQLDescribeCol\<close> makes five calls, of which the first that failed gives the code, or else the first
  that was no plain success. Its local variables lie on the stack: the length of the name in bytes, and
  four numbers that are read also when a call has not stored them.\<close>

definition local_num :: "'ci world \<Rightarrow> int \<Rightarrow> int" where "local_num W i = wd_stack W + 8 * (i + 1)"

definition first_code :: "int list \<Rightarrow> int" where
  "first_code rcs =
     (case filter (\<lambda>rc. rc \<noteq> SQL_SUCCESS \<and> rc \<noteq> SQL_SUCCESS_WITH_INFO) rcs of
        rc # _ \<Rightarrow> rc
      | [] \<Rightarrow> (case filter (\<lambda>rc. rc \<noteq> SQL_SUCCESS) rcs of rc # _ \<Rightarrow> rc | [] \<Rightarrow> SQL_SUCCESS))"

fun describe_calls ::
  "'ci world \<Rightarrow> nat \<Rightarrow> (int \<times> int) list \<Rightarrow> 'ci ctx \<Rightarrow> (int list \<times> 'ci ctx) option" where
  "describe_calls W col [] x = Some ([], x)"
| "describe_calls W col ((field, place) # fs) x =
     Option.bind (get_column_attribute W col field 0 0 0 place x) (\<lambda>(rc, x').
       map_option (\<lambda>(rcs, x''). (rc # rcs, x'')) (describe_calls W col fs x'))"

definition SQLDescribeCol ::
  "'ci world \<Rightarrow> nat \<Rightarrow> nat \<Rightarrow> int \<Rightarrow> int \<Rightarrow> int \<Rightarrow> int \<Rightarrow> int \<Rightarrow> int \<Rightarrow> int \<Rightarrow> 'ci api" where
  "SQLDescribeCol W h col buf buflen namelen dtype csize digits nullable = stmt_run h (\<lambda>x0.
     let w = int (wd_wide W); name = wd_stack W;
         x1 = x0\<lparr>cx_mem := store_int16 name 0 (cx_mem x0)\<rparr>
     in Option.bind (get_column_attribute W col SQL_DESC_NAME buf (buflen * w) name 0 x1) (\<lambda>(rc, x2).
       let len = to_int16 (le_val (read_bytes name 2 (cx_mem x2))) mod 2 ^ 64 div w;
           x3 = x2\<lparr>cx_mem := store_int16 namelen len (cx_mem x2)\<rparr>
       in map_option (\<lambda>(rcs, x4).
            let loc = (\<lambda>i. le_val (read_bytes (local_num W i) 8 (cx_mem x4)));
                m = cx_mem x4
            in (first_code (rc # rcs),
                x4\<lparr>cx_mem := store_int16 nullable (loc 3) (store_int16 digits (loc 2)
                  (store_len csize (loc 1) (store_int16 dtype (loc 0) m)))\<rparr>))
          (describe_calls W col
             [(SQL_DESC_TYPE, local_num W 0), (SQL_DESC_PRECISION, local_num W 1),
              (SQL_DESC_SCALE, local_num W 2), (SQL_DESC_NULLABLE, local_num W 3)] x3)))"

section \<open>Native SQL\<close>

text \<open>The copying loop: \<open>room\<close> more units fit before the terminator; the flag says that the text was cut.\<close>

fun native_copy :: "nat list \<Rightarrow> nat \<Rightarrow> nat list \<times> bool" where
  "native_copy [] room = ([], False)"
| "native_copy (u # us) 0 = ([], True)"
| "native_copy (u # us) (Suc room) = (let (cs, cut) = native_copy us room in (u # cs, cut))"

text \<open>\<^verbatim>\<open>InternalNativeSql\<close> (\<^verbatim>\<open>connection.h\<close>) for the units \<open>us\<close> found at the input, of which a text that ends
  with zero has a zero and another has its length at least. The length is that of the copy, or of the
  text when there is no output buffer.\<close>

definition native_input :: "nat list \<Rightarrow> int \<Rightarrow> nat list" where
  "native_input us len = (if len = SQL_NTS then takeWhile (\<lambda>u. u \<noteq> 0) us else take (nat len) us)"

definition InternalNativeSql ::
  "nat \<Rightarrow> nat list option \<Rightarrow> int \<Rightarrow> int \<Rightarrow> int \<Rightarrow> connection \<times> memory \<Rightarrow> sql_result \<times> int option \<times> connection \<times> memory"
  where
  "InternalNativeSql w input len out outlen = (\<lambda>(cn, m).
     case input of
       None \<Rightarrow> (AI_ERROR, None,
         cn_record SHY009_INVALID_USE_OF_NULL_POINTER ''The InStatementText argument must not NULL'' cn, m)
     | Some us \<Rightarrow>
         if out \<noteq> 0 then
           (if outlen \<le> 0 then
              (AI_ERROR, None, cn_record SHY090_INVALID_STRING_OR_BUFFER_LENGTH
                 ''The BufferLength argument must be greater than zero'' cn, m)
            else if len < 0 \<and> len \<noteq> SQL_NTS then
              (AI_ERROR, None, cn_record SHY090_INVALID_STRING_OR_BUFFER_LENGTH
                 ''The argument TextLength1 was less than 0, but not equal to SQL_NTS'' cn, m)
            else
              let (cs, cut) = native_copy (native_input us len) (nat (outlen - 1));
                  m' = write_bytes out (wide_bytes w (cs @ [0])) m
              in if cut then
                   (AI_SUCCESS_WITH_INFO, Some (int (length cs)), cn_record S01004_DATA_TRUNCATED
                      ''Buffer is too small for the data. Truncated from the right.'' cn, m')
                 else (AI_SUCCESS, Some (int (length cs)), cn, m'))
         else (AI_SUCCESS, Some (int (length (native_input us len))), cn, m))"

definition SQLNativeSql :: "'ci world \<Rightarrow> nat \<Rightarrow> nat list option \<Rightarrow> int \<Rightarrow> int \<Rightarrow> int \<Rightarrow> int \<Rightarrow> 'ci api" where
  "SQLNativeSql W h input len out outlen reslen = conn_call h (\<lambda>(cn, lg, m).
     case InternalNativeSql (wd_wide W) input len out outlen (cn, m) of
       (r, n, cn', m') \<Rightarrow> (r, cn', lg, store_int32 reslen (case n of None \<Rightarrow> 0 | Some k \<Rightarrow> k) m'))"

section \<open>Attributes and options\<close>

definition SQLSetEnvAttr :: "nat \<Rightarrow> int \<Rightarrow> int \<Rightarrow> 'ci api" where
  "SQLSetEnvAttr h attr v = env_call h (Environment_SetAttribute attr v)"

text \<open>The number goes through a buffer for a signed long of the length given, whose indicator is a local
  variable; the length the application gets is that indicator, also when nothing was stored there.\<close>

definition SQLGetEnvAttr :: "'ci world \<Rightarrow> nat \<Rightarrow> int \<Rightarrow> int \<Rightarrow> int \<Rightarrow> int \<Rightarrow> 'ci api" where
  "SQLGetEnvAttr W h attr buf buflen reslen = on_handle 0 h (\<lambda>D. dv_envs D h) (\<lambda>e D.
     case Environment_GetAttribute attr (env_upd ResetStorage e) of
       (r, v, e1) \<Rightarrow>
         let e2 = env_upd (SetHeaderRecord r) e1;
             b = ApplicationDataBuffer AI_SIGNED_LONG buf (to_int32 buflen) (wd_stack W)
         in map_option (\<lambda>m.
              (GetReturnCode (en_diag e2),
               D\<lparr>dv_envs := (dv_envs D)(h \<mapsto> e2),
                 dv_mem := store_int32 reslen (to_int16 (le_val (read_bytes (wd_stack W) 8 m))) m\<rparr>))
            (case v of
               None \<Rightarrow> Some (dv_mem D)
             | Some n \<Rightarrow> map_option (\<lambda>(_, _, m). m) (PutInt32 (wd_conv W) (Some n) b (dv_mem D))))"

definition SQLGetConnectAttr :: "nat \<Rightarrow> int \<Rightarrow> int \<Rightarrow> int \<Rightarrow> 'ci api" where
  "SQLGetConnectAttr h attr buf reslen = conn_call h (\<lambda>(cn, lg, m).
     case Connection_GetAttribute attr (buf \<noteq> 0) (cn, lg) of
       (r, out, cn') \<Rightarrow> (r, cn', lg, put_conn_attr buf reslen out m))"

definition SQLSetConnectAttr :: "nat \<Rightarrow> int \<Rightarrow> int \<Rightarrow> 'ci api" where
  "SQLSetConnectAttr h attr v = conn_call h (\<lambda>(cn, lg, m).
     case Connection_SetAttribute attr v (cn, lg) of (r, cn', lg') \<Rightarrow> (r, cn', lg', m))"

definition SQLGetConnectOption :: "nat \<Rightarrow> int \<Rightarrow> int \<Rightarrow> 'ci api" where
  "SQLGetConnectOption h opt buf = conn_call h (\<lambda>(cn, lg, m).
     case InternalGetConnectOption opt (buf \<noteq> 0) (cn, lg) of
       (r, out, cn') \<Rightarrow> (r, cn', lg, put_conn_attr buf 0 out m))"

definition SQLSetConnectOption :: "nat \<Rightarrow> int \<Rightarrow> int \<Rightarrow> 'ci api" where
  "SQLSetConnectOption h opt v = conn_call h (\<lambda>(cn, lg, m).
     case InternalSetConnectOption opt v (cn, lg) of (r, cn', lg') \<Rightarrow> (r, cn', lg', m))"

definition SQLGetStmtAttr :: "'ci world \<Rightarrow> nat \<Rightarrow> int \<Rightarrow> int \<Rightarrow> int \<Rightarrow> 'ci api" where
  "SQLGetStmtAttr W h attr buf reslen = stmt_call h (\<lambda>x. in_memory (\<lambda>st m.
     case InternalGetAttribute (cx_class W x) attr (buf \<noteq> 0) (cx_conn x) st of
       (r, out, st') \<Rightarrow> Some (r, st', put_stmt_attr buf reslen out m)) x)"

definition SQLSetStmtAttr :: "nat \<Rightarrow> int \<Rightarrow> int \<Rightarrow> 'ci api" where
  "SQLSetStmtAttr h attr v = stmt_call h (in_state (InternalSetAttribute attr v))"

definition SQLGetStmtOption :: "'ci world \<Rightarrow> nat \<Rightarrow> int \<Rightarrow> int \<Rightarrow> 'ci api" where
  "SQLGetStmtOption W h opt buf = stmt_call h (\<lambda>x. in_memory (\<lambda>st m.
     case InternalGetStmtOption (cx_class W x) opt (buf \<noteq> 0) (cx_conn x) st of
       (r, out, st') \<Rightarrow> Some (r, st', put_stmt_attr buf 0 out m)) x)"

definition SQLGetCursorName :: "'ci world \<Rightarrow> nat \<Rightarrow> int \<Rightarrow> int \<Rightarrow> int \<Rightarrow> 'ci api" where
  "SQLGetCursorName W h buf len reslen = stmt_call h (\<lambda>x. in_memory (\<lambda>st m.
     Some (InternalGetCursorName (wd_wide W) (wd_flag W) buf len reslen (cx_conn x) st m)) x)"

definition SQLSetCursorName :: "'ci world \<Rightarrow> nat \<Rightarrow> nat list option \<Rightarrow> int \<Rightarrow> 'ci api" where
  "SQLSetCursorName W h name len = stmt_call h (in_conn (InternalSetCursorName (wd_wide W) name len))"

section \<open>Diagnostics\<close>

text \<open>The records of a handle, given by its type.\<close>

definition diag_of :: "int \<Rightarrow> int \<Rightarrow> 'ci driver \<Rightarrow> diag_storage option" where
  "diag_of type h D =
     (if type = SQL_HANDLE_ENV then map_option en_diag (dv_envs D (nat h))
      else if type = SQL_HANDLE_DBC then map_option (\<lambda>c. cn_diag (co_conn c)) (dv_conns D (nat h))
      else if type = SQL_HANDLE_STMT then map_option (\<lambda>s. st_diag (so_stmt s)) (dv_stmts D (nat h))
      else map_option desc_diag (live_desc h D))"

definition set_diag :: "int \<Rightarrow> int \<Rightarrow> diag_storage \<Rightarrow> 'ci driver \<Rightarrow> 'ci driver" where
  "set_diag type h d D =
     (if type = SQL_HANDLE_ENV then
        D\<lparr>dv_envs := (dv_envs D)(nat h := map_option (\<lambda>e. e\<lparr>en_diag := d\<rparr>) (dv_envs D (nat h)))\<rparr>
      else if type = SQL_HANDLE_DBC then
        D\<lparr>dv_conns := (dv_conns D)(nat h := map_option (\<lambda>c. c\<lparr>co_conn := (co_conn c)\<lparr>cn_diag := d\<rparr>\<rparr>) (dv_conns D (nat h)))\<rparr>
      else if type = SQL_HANDLE_STMT then
        D\<lparr>dv_stmts := (dv_stmts D)(nat h := map_option (\<lambda>s. s\<lparr>so_stmt := (so_stmt s)\<lparr>st_diag := d\<rparr>\<rparr>) (dv_stmts D (nat h)))\<rparr>
      else D\<lparr>dv_descs := (dv_descs D)(h := (dv_descs D h)\<lparr>desc_diag := d\<rparr>)\<rparr>)"

definition put_diag :: "conv_env \<Rightarrow> buffer_put \<Rightarrow> app_buffer \<Rightarrow> memory \<Rightarrow> put_result" where
  "put_diag e v b m =
     (case v of
        PutInt64V n \<Rightarrow> PutInt64 e (Some n) b m
      | PutInt32V n \<Rightarrow> PutInt32 e (Some n) b m
      | PutStringV s \<Rightarrow> PutString e s b m)"

text \<open>The null handle is not refused here but dereferenced, which is undefined.\<close>

definition SQLGetDiagField :: "'ci world \<Rightarrow> int \<Rightarrow> int \<Rightarrow> int \<Rightarrow> int \<Rightarrow> int \<Rightarrow> int \<Rightarrow> int \<Rightarrow> 'ci api" where
  "SQLGetDiagField W type h rec field buf buflen reslen D =
     (if type \<in> {SQL_HANDLE_ENV, SQL_HANDLE_DBC, SQL_HANDLE_STMT} then
        Option.bind (diag_of type h D) (\<lambda>d.
          let (r, v) = GetField rec (DiagnosticFieldToInternal field) d;
              b = ApplicationDataBuffer AI_DEFAULT buf buflen (wd_stack W)
          in map_option (\<lambda>m. (SqlResultToReturnCode r,
               D\<lparr>dv_mem := (if r = AI_SUCCESS
                  then store_int16 reslen (to_int16 (le_val (read_bytes (wd_stack W) 8 m))) m else m)\<rparr>))
             (case v of None \<Rightarrow> Some (dv_mem D) | Some p \<Rightarrow> map_option (\<lambda>(_, _, m). m) (put_diag (wd_conv W) p b (dv_mem D))))
      else Some (SqlResultToReturnCode AI_NO_DATA, D))"

text \<open>The state has a buffer of six characters. The length of the message goes through 16 bits before it is
  compared.\<close>

definition deliver_record ::
  "nat \<Rightarrow> diag_record \<Rightarrow> int \<Rightarrow> int \<Rightarrow> int \<Rightarrow> int \<Rightarrow> int \<Rightarrow> memory \<Rightarrow> int \<times> memory" where
  "deliver_record w r state native msg msglen reslen m =
     (let m1 = (if state = 0 then m else snd (snd (CopyStringToBuffer w (GetSqlState r) state 6 False m)));
          m2 = store_int32 native 0 m1;
          short = (msg = 0 \<or> msglen < to_int16 (int (length (message r)) + 1))
      in if short \<and> reslen = 0 then (SQL_ERROR, m2)
         else
           let (n, _, m3) = CopyStringToBuffer w (message r) msg (to_size msglen) False m2
           in (if short then SQL_SUCCESS_WITH_INFO else SQL_SUCCESS, store_int16 reslen (int n) m3))"

definition SQLGetDiagRec ::
  "'ci world \<Rightarrow> int \<Rightarrow> int \<Rightarrow> int \<Rightarrow> int \<Rightarrow> int \<Rightarrow> int \<Rightarrow> int \<Rightarrow> int \<Rightarrow> 'ci api" where
  "SQLGetDiagRec W type h rec state native msg msglen reslen D =
     (if type \<notin> {SQL_HANDLE_ENV, SQL_HANDLE_DBC, SQL_HANDLE_STMT, SQL_HANDLE_DESC} \<or> h = 0 then
        Some (SQL_INVALID_HANDLE, D)
      else
        Option.bind (diag_of type h D) (\<lambda>d.
          if rec < 1 \<or> msglen < 0 then Some (SQL_ERROR, D)
          else if GetStatusRecordsNumber d < rec then Some (SQL_NO_DATA, D)
          else
            map_option (\<lambda>r.
              let (rc, m) = deliver_record (wd_wide W) r state native msg msglen reslen (dv_mem D)
              in (rc, D\<lparr>dv_mem := m\<rparr>)) (GetStatusRecord rec d)))"

text \<open>The first handle that is not null counts.\<close>

definition error_handle :: "int \<Rightarrow> int \<Rightarrow> int \<Rightarrow> (int \<times> int) option" where
  "error_handle env conn stmt =
     (if env \<noteq> 0 then Some (SQL_HANDLE_ENV, env) else if conn \<noteq> 0 then Some (SQL_HANDLE_DBC, conn)
      else if stmt \<noteq> 0 then Some (SQL_HANDLE_STMT, stmt) else None)"

definition deliver_error :: "nat \<Rightarrow> string \<times> string \<Rightarrow> int \<Rightarrow> int \<Rightarrow> int \<Rightarrow> int \<Rightarrow> int \<Rightarrow> memory \<Rightarrow> memory" where
  "deliver_error w = (\<lambda>(code, text) state native msg msglen reslen m.
     let m1 = (if state = 0 then m else snd (snd (CopyStringToBuffer w code state 6 False m)));
         (n, _, m2) = CopyStringToBuffer w text msg (to_size msglen) False (store_int32 native 0 m1)
     in store_int16 reslen (int n) m2)"

definition SQLError_call ::
  "'ci world \<Rightarrow> int \<Rightarrow> int \<Rightarrow> int \<Rightarrow> int \<Rightarrow> int \<Rightarrow> int \<Rightarrow> int \<Rightarrow> int \<Rightarrow> 'ci api" where
  "SQLError_call W env conn stmt state native msg msglen reslen D =
     (case error_handle env conn stmt of
        None \<Rightarrow> Some (SQL_INVALID_HANDLE, D)
      | Some (type, h) \<Rightarrow>
          map_option (\<lambda>d.
            case SQLError d of
              (rc, None, d') \<Rightarrow> (rc, D)
            | (rc, Some e, d') \<Rightarrow>
                (rc, (set_diag type h d' D)\<lparr>dv_mem := deliver_error (wd_wide W) e state native msg msglen reslen (dv_mem D)\<rparr>))
          (diag_of type h D))"

section \<open>Descriptors\<close>

definition desc_upd :: "(diag_storage \<Rightarrow> diag_storage) \<Rightarrow> descriptor \<Rightarrow> descriptor" where
  "desc_upd f d = d\<lparr>desc_diag := f (desc_diag d)\<rparr>"

text \<open>A null data pointer makes the statement of the descriptor unbind the column.\<close>

definition SQLSetDescField :: "int \<Rightarrow> int \<Rightarrow> int \<Rightarrow> int \<Rightarrow> int \<Rightarrow> 'ci api" where
  "SQLSetDescField p rec field buf buflen = on_handle 0 p (live_desc p) (\<lambda>d D.
     Option.bind (InternalSetField rec field buf buflen (desc_upd ResetStorage d)) (\<lambda>(r, d1, unbind).
       let d2 = desc_upd (SetHeaderRecord r) d1;
           D1 = D\<lparr>dv_descs := (dv_descs D)(p := d2)\<rparr>;
           rc = GetReturnCode (desc_diag d2)
       in case unbind of
            None \<Rightarrow> Some (rc, D1)
          | Some col \<Rightarrow>
              Option.bind (desc_stmt d2) (\<lambda>h. map_option (\<lambda>s. (rc, D1\<lparr>dv_stmts := (dv_stmts D1)(h \<mapsto>
                  s\<lparr>so_stmt := SafeUnbindColumn (nat (col mod 65536)) (so_stmt s)\<rparr>)\<rparr>)) (dv_stmts D1 h))))"

text \<open>The number of bytes of the type a field is stored with.\<close>

definition desc_field_size :: "int \<Rightarrow> nat" where
  "desc_field_size f =
     (if f \<in> {SQL_DESC_ALLOC_TYPE, SQL_DESC_COUNT, SQL_DESC_CONCISE_TYPE, SQL_DESC_DATETIME_INTERVAL_CODE,
        SQL_DESC_FIXED_PREC_SCALE, SQL_DESC_NULLABLE, SQL_DESC_PARAMETER_TYPE, SQL_DESC_PRECISION, SQL_DESC_ROWVER,
        SQL_DESC_SCALE, SQL_DESC_SEARCHABLE, SQL_DESC_TYPE, SQL_DESC_UNNAMED, SQL_DESC_UNSIGNED, SQL_DESC_UPDATABLE}
      then 2
      else if f \<in> {SQL_DESC_BIND_TYPE, SQL_DESC_AUTO_UNIQUE_VALUE, SQL_DESC_CASE_SENSITIVE,
        SQL_DESC_DATETIME_INTERVAL_PRECISION, SQL_DESC_NUM_PREC_RADIX} then 4 else 8)"

definition SQLGetDescField :: "int \<Rightarrow> int \<Rightarrow> int \<Rightarrow> int \<Rightarrow> 'ci api" where
  "SQLGetDescField p rec field buf = on_handle 0 p (live_desc p) (\<lambda>d D.
     case InternalGetField rec field (desc_upd ResetStorage d) of
       (r, v, d1) \<Rightarrow>
         let d2 = desc_upd (SetHeaderRecord r) d1;
             D1 = D\<lparr>dv_descs := (dv_descs D)(p := d2)\<rparr>;
             rc = GetReturnCode (desc_diag d2)
         in case v of
              None \<Rightarrow> Some (rc, D1)
            | Some n \<Rightarrow>
                if buf = 0 then None
                else Some (rc, D1\<lparr>dv_mem := write_bytes buf (le_bytes (desc_field_size field) n) (dv_mem D1)\<rparr>))"

text \<open>The code is the one of the source descriptor. A descriptor copied onto itself is first emptied.\<close>

definition SQLCopyDesc :: "int \<Rightarrow> int \<Rightarrow> 'ci api" where
  "SQLCopyDesc src dst = on_handle 0 src (live_desc src) (\<lambda>s D.
     on_handle 0 dst (live_desc dst) (\<lambda>d D.
       if src = dst then
         (let s1 = desc_upd ResetStorage s; (r, s2, d2) = InternalCopyDesc s1 s1;
              n = desc_upd (SetHeaderRecord r) (if r = AI_SUCCESS then d2\<lparr>desc_records := Map.empty\<rparr> else s2)
          in Some (GetReturnCode (desc_diag n), D\<lparr>dv_descs := (dv_descs D)(src := n)\<rparr>))
       else case InternalCopyDesc (desc_upd ResetStorage s) d of
         (r, s1, d1) \<Rightarrow>
           let s2 = desc_upd (SetHeaderRecord r) s1
           in Some (GetReturnCode (desc_diag s2), D\<lparr>dv_descs := (dv_descs D)(dst := d1, src := s2)\<rparr>)) D)"

end
