(* ===== verification/Function_Table.thy ===== *)
theory Function_Table
  imports Driver_Api
begin

text \<open>
  Which functions the driver says it has (\<^verbatim>\<open>InternalGetFunctions\<close> of \<^verbatim>\<open>src/connection.cpp\<close>, compiled for
  macOS) and which of them its entry points refuse (the last part of \<^verbatim>\<open>src/entry_points.cpp\<close>). The answer
  is a single flag, a bit set of 250 words of 16 bits, or an array of 100 flags.
\<close>

section \<open>Numbers of the functions\<close>

abbreviation (input) SQL_API_SQLALLOCCONNECT :: nat where "SQL_API_SQLALLOCCONNECT \<equiv> 1"
abbreviation (input) SQL_API_SQLALLOCENV :: nat where "SQL_API_SQLALLOCENV \<equiv> 2"
abbreviation (input) SQL_API_SQLALLOCHANDLE :: nat where "SQL_API_SQLALLOCHANDLE \<equiv> 1001"
abbreviation (input) SQL_API_SQLALLOCSTMT :: nat where "SQL_API_SQLALLOCSTMT \<equiv> 3"
abbreviation (input) SQL_API_SQLBINDCOL :: nat where "SQL_API_SQLBINDCOL \<equiv> 4"
abbreviation (input) SQL_API_SQLBINDPARAMETER :: nat where "SQL_API_SQLBINDPARAMETER \<equiv> 72"
abbreviation (input) SQL_API_SQLBROWSECONNECT :: nat where "SQL_API_SQLBROWSECONNECT \<equiv> 55"
abbreviation (input) SQL_API_SQLBULKOPERATIONS :: nat where "SQL_API_SQLBULKOPERATIONS \<equiv> 24"
abbreviation (input) SQL_API_SQLCANCEL :: nat where "SQL_API_SQLCANCEL \<equiv> 5"
abbreviation (input) SQL_API_SQLCLOSECURSOR :: nat where "SQL_API_SQLCLOSECURSOR \<equiv> 1003"
abbreviation (input) SQL_API_SQLCOLATTRIBUTE :: nat where "SQL_API_SQLCOLATTRIBUTE \<equiv> 6"
abbreviation (input) SQL_API_SQLCOLATTRIBUTES :: nat where "SQL_API_SQLCOLATTRIBUTES \<equiv> 6"
abbreviation (input) SQL_API_SQLCOLUMNPRIVILEGES :: nat where "SQL_API_SQLCOLUMNPRIVILEGES \<equiv> 56"
abbreviation (input) SQL_API_SQLCOLUMNS :: nat where "SQL_API_SQLCOLUMNS \<equiv> 40"
abbreviation (input) SQL_API_SQLCONNECT :: nat where "SQL_API_SQLCONNECT \<equiv> 7"
abbreviation (input) SQL_API_SQLCOPYDESC :: nat where "SQL_API_SQLCOPYDESC \<equiv> 1004"
abbreviation (input) SQL_API_SQLDATASOURCES :: nat where "SQL_API_SQLDATASOURCES \<equiv> 57"
abbreviation (input) SQL_API_SQLDESCRIBECOL :: nat where "SQL_API_SQLDESCRIBECOL \<equiv> 8"
abbreviation (input) SQL_API_SQLDESCRIBEPARAM :: nat where "SQL_API_SQLDESCRIBEPARAM \<equiv> 58"
abbreviation (input) SQL_API_SQLDISCONNECT :: nat where "SQL_API_SQLDISCONNECT \<equiv> 9"
abbreviation (input) SQL_API_SQLDRIVERCONNECT :: nat where "SQL_API_SQLDRIVERCONNECT \<equiv> 41"
abbreviation (input) SQL_API_SQLDRIVERS :: nat where "SQL_API_SQLDRIVERS \<equiv> 71"
abbreviation (input) SQL_API_SQLENDTRAN :: nat where "SQL_API_SQLENDTRAN \<equiv> 1005"
abbreviation (input) SQL_API_SQLERROR :: nat where "SQL_API_SQLERROR \<equiv> 10"
abbreviation (input) SQL_API_SQLEXECDIRECT :: nat where "SQL_API_SQLEXECDIRECT \<equiv> 11"
abbreviation (input) SQL_API_SQLEXECUTE :: nat where "SQL_API_SQLEXECUTE \<equiv> 12"
abbreviation (input) SQL_API_SQLEXTENDEDFETCH :: nat where "SQL_API_SQLEXTENDEDFETCH \<equiv> 59"
abbreviation (input) SQL_API_SQLFETCH :: nat where "SQL_API_SQLFETCH \<equiv> 13"
abbreviation (input) SQL_API_SQLFETCHSCROLL :: nat where "SQL_API_SQLFETCHSCROLL \<equiv> 1021"
abbreviation (input) SQL_API_SQLFOREIGNKEYS :: nat where "SQL_API_SQLFOREIGNKEYS \<equiv> 60"
abbreviation (input) SQL_API_SQLFREECONNECT :: nat where "SQL_API_SQLFREECONNECT \<equiv> 14"
abbreviation (input) SQL_API_SQLFREEENV :: nat where "SQL_API_SQLFREEENV \<equiv> 15"
abbreviation (input) SQL_API_SQLFREEHANDLE :: nat where "SQL_API_SQLFREEHANDLE \<equiv> 1006"
abbreviation (input) SQL_API_SQLFREESTMT :: nat where "SQL_API_SQLFREESTMT \<equiv> 16"
abbreviation (input) SQL_API_SQLGETCONNECTATTR :: nat where "SQL_API_SQLGETCONNECTATTR \<equiv> 1007"
abbreviation (input) SQL_API_SQLGETCONNECTOPTION :: nat where "SQL_API_SQLGETCONNECTOPTION \<equiv> 42"
abbreviation (input) SQL_API_SQLGETCURSORNAME :: nat where "SQL_API_SQLGETCURSORNAME \<equiv> 17"
abbreviation (input) SQL_API_SQLGETDATA :: nat where "SQL_API_SQLGETDATA \<equiv> 43"
abbreviation (input) SQL_API_SQLGETDESCFIELD :: nat where "SQL_API_SQLGETDESCFIELD \<equiv> 1008"
abbreviation (input) SQL_API_SQLGETDESCREC :: nat where "SQL_API_SQLGETDESCREC \<equiv> 1009"
abbreviation (input) SQL_API_SQLGETDIAGFIELD :: nat where "SQL_API_SQLGETDIAGFIELD \<equiv> 1010"
abbreviation (input) SQL_API_SQLGETDIAGREC :: nat where "SQL_API_SQLGETDIAGREC \<equiv> 1011"
abbreviation (input) SQL_API_SQLGETENVATTR :: nat where "SQL_API_SQLGETENVATTR \<equiv> 1012"
abbreviation (input) SQL_API_SQLGETFUNCTIONS :: nat where "SQL_API_SQLGETFUNCTIONS \<equiv> 44"
abbreviation (input) SQL_API_SQLGETINFO :: nat where "SQL_API_SQLGETINFO \<equiv> 45"
abbreviation (input) SQL_API_SQLGETSTMTATTR :: nat where "SQL_API_SQLGETSTMTATTR \<equiv> 1014"
abbreviation (input) SQL_API_SQLGETSTMTOPTION :: nat where "SQL_API_SQLGETSTMTOPTION \<equiv> 46"
abbreviation (input) SQL_API_SQLGETTYPEINFO :: nat where "SQL_API_SQLGETTYPEINFO \<equiv> 47"
abbreviation (input) SQL_API_SQLMORERESULTS :: nat where "SQL_API_SQLMORERESULTS \<equiv> 61"
abbreviation (input) SQL_API_SQLNATIVESQL :: nat where "SQL_API_SQLNATIVESQL \<equiv> 62"
abbreviation (input) SQL_API_SQLNUMPARAMS :: nat where "SQL_API_SQLNUMPARAMS \<equiv> 63"
abbreviation (input) SQL_API_SQLNUMRESULTCOLS :: nat where "SQL_API_SQLNUMRESULTCOLS \<equiv> 18"
abbreviation (input) SQL_API_SQLPARAMDATA :: nat where "SQL_API_SQLPARAMDATA \<equiv> 48"
abbreviation (input) SQL_API_SQLPARAMOPTIONS :: nat where "SQL_API_SQLPARAMOPTIONS \<equiv> 64"
abbreviation (input) SQL_API_SQLPREPARE :: nat where "SQL_API_SQLPREPARE \<equiv> 19"
abbreviation (input) SQL_API_SQLPRIMARYKEYS :: nat where "SQL_API_SQLPRIMARYKEYS \<equiv> 65"
abbreviation (input) SQL_API_SQLPROCEDURECOLUMNS :: nat where "SQL_API_SQLPROCEDURECOLUMNS \<equiv> 66"
abbreviation (input) SQL_API_SQLPROCEDURES :: nat where "SQL_API_SQLPROCEDURES \<equiv> 67"
abbreviation (input) SQL_API_SQLPUTDATA :: nat where "SQL_API_SQLPUTDATA \<equiv> 49"
abbreviation (input) SQL_API_SQLROWCOUNT :: nat where "SQL_API_SQLROWCOUNT \<equiv> 20"
abbreviation (input) SQL_API_SQLSETCONNECTATTR :: nat where "SQL_API_SQLSETCONNECTATTR \<equiv> 1016"
abbreviation (input) SQL_API_SQLSETCONNECTOPTION :: nat where "SQL_API_SQLSETCONNECTOPTION \<equiv> 50"
abbreviation (input) SQL_API_SQLSETCURSORNAME :: nat where "SQL_API_SQLSETCURSORNAME \<equiv> 21"
abbreviation (input) SQL_API_SQLSETDESCFIELD :: nat where "SQL_API_SQLSETDESCFIELD \<equiv> 1017"
abbreviation (input) SQL_API_SQLSETDESCREC :: nat where "SQL_API_SQLSETDESCREC \<equiv> 1018"
abbreviation (input) SQL_API_SQLSETENVATTR :: nat where "SQL_API_SQLSETENVATTR \<equiv> 1019"
abbreviation (input) SQL_API_SQLSETPARAM :: nat where "SQL_API_SQLSETPARAM \<equiv> 22"
abbreviation (input) SQL_API_SQLSETPOS :: nat where "SQL_API_SQLSETPOS \<equiv> 68"
abbreviation (input) SQL_API_SQLSETSCROLLOPTIONS :: nat where "SQL_API_SQLSETSCROLLOPTIONS \<equiv> 69"
abbreviation (input) SQL_API_SQLSETSTMTATTR :: nat where "SQL_API_SQLSETSTMTATTR \<equiv> 1020"
abbreviation (input) SQL_API_SQLSETSTMTOPTION :: nat where "SQL_API_SQLSETSTMTOPTION \<equiv> 51"
abbreviation (input) SQL_API_SQLSPECIALCOLUMNS :: nat where "SQL_API_SQLSPECIALCOLUMNS \<equiv> 52"
abbreviation (input) SQL_API_SQLSTATISTICS :: nat where "SQL_API_SQLSTATISTICS \<equiv> 53"
abbreviation (input) SQL_API_SQLTABLEPRIVILEGES :: nat where "SQL_API_SQLTABLEPRIVILEGES \<equiv> 70"
abbreviation (input) SQL_API_SQLTABLES :: nat where "SQL_API_SQLTABLES \<equiv> 54"
abbreviation (input) SQL_API_SQLTRANSACT :: nat where "SQL_API_SQLTRANSACT \<equiv> 23"
abbreviation (input) SQL_API_ALL_FUNCTIONS :: nat where "SQL_API_ALL_FUNCTIONS \<equiv> 0"
abbreviation (input) SQL_API_ODBC3_ALL_FUNCTIONS :: nat where "SQL_API_ODBC3_ALL_FUNCTIONS \<equiv> 999"

section \<open>The three answers\<close>

definition single_functions :: "nat list" where
  "single_functions =
     [SQL_API_SQLALLOCHANDLE, SQL_API_SQLGETDESCFIELD, SQL_API_SQLBINDCOL, SQL_API_SQLGETDESCREC,
      SQL_API_SQLCANCEL, SQL_API_SQLGETDIAGFIELD, SQL_API_SQLCLOSECURSOR, SQL_API_SQLGETDIAGREC,
      SQL_API_SQLCOLATTRIBUTE, SQL_API_SQLGETENVATTR, SQL_API_SQLCONNECT, SQL_API_SQLGETFUNCTIONS,
      SQL_API_SQLCOPYDESC, SQL_API_SQLGETINFO, SQL_API_SQLDATASOURCES, SQL_API_SQLGETSTMTATTR,
      SQL_API_SQLDESCRIBECOL, SQL_API_SQLGETTYPEINFO, SQL_API_SQLDISCONNECT, SQL_API_SQLNUMRESULTCOLS,
      SQL_API_SQLDRIVERS, SQL_API_SQLPARAMDATA, SQL_API_SQLENDTRAN, SQL_API_SQLPREPARE,
      SQL_API_SQLEXECDIRECT, SQL_API_SQLPUTDATA, SQL_API_SQLEXECUTE, SQL_API_SQLROWCOUNT,
      SQL_API_SQLFETCH, SQL_API_SQLSETCONNECTATTR, SQL_API_SQLFETCHSCROLL, SQL_API_SQLSETCURSORNAME,
      SQL_API_SQLFREEHANDLE, SQL_API_SQLSETDESCFIELD, SQL_API_SQLFREESTMT, SQL_API_SQLSETDESCREC,
      SQL_API_SQLGETCONNECTATTR, SQL_API_SQLSETENVATTR, SQL_API_SQLGETCURSORNAME, SQL_API_SQLSETSTMTATTR,
      SQL_API_SQLGETDATA, SQL_API_SQLCOLUMNS, SQL_API_SQLSTATISTICS, SQL_API_SQLSPECIALCOLUMNS,
      SQL_API_SQLTABLES, SQL_API_SQLNATIVESQL, SQL_API_SQLBROWSECONNECT, SQL_API_SQLNUMPARAMS,
      SQL_API_SQLBULKOPERATIONS, SQL_API_SQLPRIMARYKEYS, SQL_API_SQLCOLUMNPRIVILEGES,
      SQL_API_SQLPROCEDURECOLUMNS, SQL_API_SQLDESCRIBEPARAM, SQL_API_SQLPROCEDURES,
      SQL_API_SQLDRIVERCONNECT, SQL_API_SQLSETPOS, SQL_API_SQLFOREIGNKEYS, SQL_API_SQLTABLEPRIVILEGES,
      SQL_API_SQLMORERESULTS, SQL_API_SQLALLOCCONNECT, SQL_API_SQLALLOCENV, SQL_API_SQLALLOCSTMT,
      SQL_API_SQLBINDPARAMETER, SQL_API_SQLERROR, SQL_API_SQLEXTENDEDFETCH, SQL_API_SQLFREECONNECT,
      SQL_API_SQLFREEENV, SQL_API_SQLGETCONNECTOPTION, SQL_API_SQLGETSTMTOPTION, SQL_API_SQLPARAMOPTIONS,
      SQL_API_SQLSETCONNECTOPTION, SQL_API_SQLSETPARAM, SQL_API_SQLSETSCROLLOPTIONS,
      SQL_API_SQLSETSTMTOPTION, SQL_API_SQLTRANSACT]"

definition odbc3_functions :: "nat list" where
  "odbc3_functions =
     [SQL_API_SQLALLOCHANDLE, SQL_API_SQLGETDESCFIELD, SQL_API_SQLBINDCOL, SQL_API_SQLGETDESCREC,
      SQL_API_SQLCANCEL, SQL_API_SQLGETDIAGFIELD, SQL_API_SQLCLOSECURSOR, SQL_API_SQLGETDIAGREC,
      SQL_API_SQLCOLATTRIBUTE, SQL_API_SQLGETENVATTR, SQL_API_SQLCONNECT, SQL_API_SQLGETFUNCTIONS,
      SQL_API_SQLCOPYDESC, SQL_API_SQLGETINFO, SQL_API_SQLDATASOURCES, SQL_API_SQLGETSTMTATTR,
      SQL_API_SQLDESCRIBECOL, SQL_API_SQLGETTYPEINFO, SQL_API_SQLDISCONNECT, SQL_API_SQLNUMRESULTCOLS,
      SQL_API_SQLDRIVERS, SQL_API_SQLPARAMDATA, SQL_API_SQLENDTRAN, SQL_API_SQLPREPARE,
      SQL_API_SQLEXECDIRECT, SQL_API_SQLPUTDATA, SQL_API_SQLEXECUTE, SQL_API_SQLROWCOUNT,
      SQL_API_SQLFETCH, SQL_API_SQLSETCONNECTATTR, SQL_API_SQLFETCHSCROLL, SQL_API_SQLSETCURSORNAME,
      SQL_API_SQLFREEHANDLE, SQL_API_SQLSETDESCFIELD, SQL_API_SQLFREESTMT, SQL_API_SQLSETDESCREC,
      SQL_API_SQLGETCONNECTATTR, SQL_API_SQLSETENVATTR, SQL_API_SQLGETCURSORNAME, SQL_API_SQLSETSTMTATTR,
      SQL_API_SQLGETDATA, SQL_API_SQLCOLUMNS, SQL_API_SQLSTATISTICS, SQL_API_SQLSPECIALCOLUMNS,
      SQL_API_SQLTABLES, SQL_API_SQLBINDPARAMETER, SQL_API_SQLNATIVESQL, SQL_API_SQLBROWSECONNECT,
      SQL_API_SQLNUMPARAMS, SQL_API_SQLBULKOPERATIONS, SQL_API_SQLPRIMARYKEYS,
      SQL_API_SQLCOLUMNPRIVILEGES, SQL_API_SQLPROCEDURECOLUMNS, SQL_API_SQLDESCRIBEPARAM,
      SQL_API_SQLPROCEDURES, SQL_API_SQLDRIVERCONNECT, SQL_API_SQLSETPOS, SQL_API_SQLFOREIGNKEYS,
      SQL_API_SQLTABLEPRIVILEGES, SQL_API_SQLMORERESULTS]"

definition odbc2_functions :: "nat list" where
  "odbc2_functions =
     [SQL_API_SQLALLOCCONNECT, SQL_API_SQLALLOCENV, SQL_API_SQLALLOCSTMT, SQL_API_SQLBINDCOL,
      SQL_API_SQLBINDPARAMETER, SQL_API_SQLBROWSECONNECT, SQL_API_SQLCANCEL, SQL_API_SQLCOLATTRIBUTES,
      SQL_API_SQLCOLUMNPRIVILEGES, SQL_API_SQLCOLUMNS, SQL_API_SQLCONNECT, SQL_API_SQLDATASOURCES,
      SQL_API_SQLDESCRIBECOL, SQL_API_SQLDESCRIBEPARAM, SQL_API_SQLDISCONNECT, SQL_API_SQLDRIVERCONNECT,
      SQL_API_SQLDRIVERS, SQL_API_SQLERROR, SQL_API_SQLEXECDIRECT, SQL_API_SQLEXECUTE,
      SQL_API_SQLEXTENDEDFETCH, SQL_API_SQLFETCH, SQL_API_SQLFOREIGNKEYS, SQL_API_SQLFREECONNECT,
      SQL_API_SQLFREEENV, SQL_API_SQLFREESTMT, SQL_API_SQLGETCONNECTOPTION, SQL_API_SQLGETCURSORNAME,
      SQL_API_SQLGETDATA, SQL_API_SQLGETFUNCTIONS, SQL_API_SQLGETINFO, SQL_API_SQLGETSTMTOPTION,
      SQL_API_SQLGETTYPEINFO, SQL_API_SQLMORERESULTS, SQL_API_SQLNATIVESQL, SQL_API_SQLNUMPARAMS,
      SQL_API_SQLNUMRESULTCOLS, SQL_API_SQLPARAMDATA, SQL_API_SQLPARAMOPTIONS, SQL_API_SQLPREPARE,
      SQL_API_SQLPRIMARYKEYS, SQL_API_SQLPROCEDURECOLUMNS, SQL_API_SQLPROCEDURES, SQL_API_SQLPUTDATA,
      SQL_API_SQLROWCOUNT, SQL_API_SQLSETCONNECTOPTION, SQL_API_SQLSETCURSORNAME, SQL_API_SQLSETPARAM,
      SQL_API_SQLSETPOS, SQL_API_SQLSETSCROLLOPTIONS, SQL_API_SQLSETSTMTOPTION,
      SQL_API_SQLSPECIALCOLUMNS, SQL_API_SQLSTATISTICS, SQL_API_SQLTABLEPRIVILEGES, SQL_API_SQLTABLES,
      SQL_API_SQLTRANSACT]"

text \<open>\<^verbatim>\<open>SQL_FUNC_SET\<close>: the bit of a function in the words at \<open>a\<close>.\<close>

definition func_set :: "int \<Rightarrow> nat \<Rightarrow> memory \<Rightarrow> memory" where
  "func_set a f m =
     (let p = a + 2 * int (f div 16)
      in write_bytes p (le_bytes 2 (set_bit (f mod 16) (le_val (read_bytes p 2 m)))) m)"

definition SetODBC3FunctionsValue :: "int \<Rightarrow> memory \<Rightarrow> memory" where
  "SetODBC3FunctionsValue a m = fold (func_set a) odbc3_functions m"

definition flag_set :: "int \<Rightarrow> nat \<Rightarrow> memory \<Rightarrow> memory" where
  "flag_set a f m = write_bytes (a + 2 * int f) (le_bytes 2 1) m"

definition SetODBC2FunctionsValue :: "int \<Rightarrow> memory \<Rightarrow> memory" where
  "SetODBC2FunctionsValue a m = fold (flag_set a) odbc2_functions m"

definition SQL_API_ODBC3_ALL_FUNCTIONS_SIZE :: nat where "SQL_API_ODBC3_ALL_FUNCTIONS_SIZE = 250"

definition zero_bytes :: "nat \<Rightarrow> 8 word list" where "zero_bytes n = replicate n 0"

text \<open>A function that is not in the switch leaves the flag of the application as it is.\<close>

definition InternalGetFunctions :: "nat \<Rightarrow> int \<Rightarrow> memory \<Rightarrow> sql_result \<times> memory" where
  "InternalGetFunctions f a m =
     (AI_SUCCESS,
      if f = SQL_API_ODBC3_ALL_FUNCTIONS then
        SetODBC3FunctionsValue a (write_bytes a (zero_bytes (2 * SQL_API_ODBC3_ALL_FUNCTIONS_SIZE)) m)
      else if f = SQL_API_ALL_FUNCTIONS then
        SetODBC2FunctionsValue a (write_bytes a (zero_bytes (2 * 100)) m)
      else if f \<in> set single_functions then flag_set a 0 m
      else m)"

definition SQLGetFunctions :: "nat \<Rightarrow> nat \<Rightarrow> int \<Rightarrow> 'ci api" where
  "SQLGetFunctions h f a = conn_call h (\<lambda>(cn, lg, m).
     case InternalGetFunctions f a m of (r, m') \<Rightarrow> (r, cn, lg, m'))"

section \<open>Functions that are refused\<close>

text \<open>The entry point adds a record to those of the handle, without the protocol of a call and without a
  check for the null handle.\<close>

definition unsupported :: "string \<Rightarrow> int \<Rightarrow> int \<Rightarrow> 'ci api" where
  "unsupported name type h D =
     (if h = 0 then None
      else map_option (\<lambda>d.
        (SQL_ERROR, set_diag type h
           (AddStatusRecord SHYC00_OPTIONAL_FEATURE_NOT_IMPLEMENTED (name @ '' is not supported.'') d) D))
        (diag_of type h D))"

definition SQLSetStmtOption :: "int \<Rightarrow> 'ci api" where
  "SQLSetStmtOption h = unsupported ''SQLSetStmtOption'' SQL_HANDLE_STMT h"

definition SQLBrowseConnect :: "int \<Rightarrow> 'ci api" where
  "SQLBrowseConnect h = unsupported ''SQLBrowseConnect'' SQL_HANDLE_DBC h"

definition SQLSetPos :: "int \<Rightarrow> 'ci api" where
  "SQLSetPos h = unsupported ''SQLSetPos'' SQL_HANDLE_STMT h"

definition SQLSetScrollOptions :: "int \<Rightarrow> 'ci api" where
  "SQLSetScrollOptions h = unsupported ''SQLSetScrollOptions'' SQL_HANDLE_STMT h"

definition SQLBulkOperations :: "int \<Rightarrow> 'ci api" where
  "SQLBulkOperations h = unsupported ''SQLBulkOperations'' SQL_HANDLE_STMT h"

definition SQLEndTran :: "int \<Rightarrow> int \<Rightarrow> 'ci api" where
  "SQLEndTran type h D =
     (if type = SQL_HANDLE_ENV \<or> type = SQL_HANDLE_DBC then unsupported ''SQLEndTran'' type h D
      else Some (SQL_ERROR, D))"

definition SQLGetDescRec :: "int \<Rightarrow> 'ci api" where
  "SQLGetDescRec h = unsupported ''SQLGetDescRec'' SQL_HANDLE_DESC h"

definition SQLSetDescRec :: "int \<Rightarrow> 'ci api" where
  "SQLSetDescRec h = unsupported ''SQLSetDescRec'' SQL_HANDLE_DESC h"

definition SQLBindParameter :: "int \<Rightarrow> 'ci api" where
  "SQLBindParameter h = unsupported ''SQLBindParameter'' SQL_HANDLE_STMT h"

definition SQLDescribeParam :: "int \<Rightarrow> 'ci api" where
  "SQLDescribeParam h = unsupported ''SQLDescribeParam'' SQL_HANDLE_STMT h"

definition SQLParamData :: "int \<Rightarrow> 'ci api" where
  "SQLParamData h = unsupported ''SQLParamData'' SQL_HANDLE_STMT h"

definition SQLParamOptions :: "int \<Rightarrow> 'ci api" where
  "SQLParamOptions h = unsupported ''SQLParamOptions'' SQL_HANDLE_STMT h"

definition SQLNumParams :: "int \<Rightarrow> 'ci api" where
  "SQLNumParams h = unsupported ''SQLNumParams'' SQL_HANDLE_STMT h"

definition SQLPutData :: "int \<Rightarrow> 'ci api" where
  "SQLPutData h = unsupported ''SQLPutData'' SQL_HANDLE_STMT h"

lemmas refused_defs =
  SQLSetStmtOption_def SQLBrowseConnect_def SQLSetPos_def SQLSetScrollOptions_def SQLBulkOperations_def SQLEndTran_def
  SQLGetDescRec_def SQLSetDescRec_def SQLBindParameter_def SQLDescribeParam_def SQLParamData_def SQLParamOptions_def
  SQLNumParams_def SQLPutData_def

section \<open>The bit set\<close>

text \<open>\<^verbatim>\<open>SQL_FUNC_EXISTS\<close>, as an application reads the answer.\<close>

definition func_exists :: "int \<Rightarrow> nat \<Rightarrow> memory \<Rightarrow> bool" where
  "func_exists a f m \<longleftrightarrow> bit (le_val (read_bytes (a + 2 * int (f div 16)) 2 m)) (f mod 16)"

definition flag_at :: "int \<Rightarrow> nat \<Rightarrow> memory \<Rightarrow> bool" where
  "flag_at a f m \<longleftrightarrow> le_val (read_bytes (a + 2 * int f) 2 m) \<noteq> 0"

lemma read_word: "le_val (read_bytes p 2 (write_bytes p (le_bytes 2 v) m)) = v mod 65536"
  using read_write_bytes [of p "le_bytes 2 v" m] by (simp add: le_val_le_bytes)

lemma bit_mod_word: "i < 16 \<Longrightarrow> bit ((v::int) mod 65536) i = bit v i"
  using bit_take_bit_iff [of 16 v i] by (simp add: take_bit_eq_mod)

lemma func_set_exists:
  "func_exists a g (func_set a f m) \<longleftrightarrow> g = f \<or> func_exists a g m"
proof (cases "g div 16 = f div 16")
  case True
  have "g mod 16 = f mod 16 \<longleftrightarrow> g = f" using True by (metis div_mod_decomp)
  then show ?thesis
    using True by (auto simp: func_exists_def func_set_def Let_def read_word bit_mod_word bit_set_bit_iff)
next
  case False
  let ?p = "\<lambda>k::nat. a + 2 * int k"
  have "read_bytes (?p (g div 16)) 2 (func_set a f m) = read_bytes (?p (g div 16)) 2 m"
    unfolding func_set_def Let_def using False by (intro read_bytes_outside) auto
  with False show ?thesis by (auto simp: func_exists_def)
qed

lemma fold_func_set: "func_exists a g (fold (func_set a) fs m) \<longleftrightarrow> g \<in> set fs \<or> func_exists a g m"
  by (induction fs arbitrary: m) (auto simp: func_set_exists)

lemma read_word_plain:
  assumes "p = q \<or> p + 2 \<le> q \<or> q + 2 \<le> p"
  shows "le_val (read_bytes p 2 (write_bytes q (le_bytes 2 1) m)) = (if p = q then 1 else le_val (read_bytes p 2 m))"
  using assms by (auto simp: read_word read_bytes_outside)

lemma fold_flag_set: "flag_at a g (fold (flag_set a) fs m) \<longleftrightarrow> g \<in> set fs \<or> flag_at a g m"
proof (induction fs arbitrary: m)
  case (Cons f fs)
  have "flag_at a g (flag_set a f m) \<longleftrightarrow> g = f \<or> flag_at a g m"
    unfolding flag_at_def flag_set_def by (subst read_word_plain) auto
  with Cons show ?case by auto
qed simp

lemma read_zero_bytes:
  assumes "i + k \<le> n"
  shows "le_val (read_bytes (a + int i) k (write_bytes a (zero_bytes n) m)) = 0"
proof -
  have "read_bytes (a + int i) k (write_bytes a (zero_bytes n) m) = replicate k 0"
  proof (rule nth_equalityI)
    fix j assume "j < length (read_bytes (a + int i) k (write_bytes a (zero_bytes n) m))"
    then have j: "j < k" by (simp add: read_bytes_def)
    have "write_bytes a (zero_bytes n) m (a + int (i + j)) = zero_bytes n ! (i + j)"
      using j assms by (intro write_bytes_inside) (simp add: zero_bytes_def)
    with j assms show "read_bytes (a + int i) k (write_bytes a (zero_bytes n) m) ! j = replicate k 0 ! j"
      by (simp add: read_bytes_def zero_bytes_def algebra_simps)
  qed (simp add: read_bytes_def)
  moreover have "le_val (replicate k 0) = 0" by (induction k) auto
  ultimately show ?thesis by simp
qed

section \<open>Properties\<close>

lemma word_index_below: "f < 4000 \<Longrightarrow> 2 * (f div 16) + 2 \<le> 2 * SQL_API_ODBC3_ALL_FUNCTIONS_SIZE"
  by (simp add: SQL_API_ODBC3_ALL_FUNCTIONS_SIZE_def)

lemma odbc3_answer:
  assumes "f < 4000"
  shows "func_exists a f (snd (InternalGetFunctions SQL_API_ODBC3_ALL_FUNCTIONS a m)) \<longleftrightarrow> f \<in> set odbc3_functions"
proof -
  have "le_val (read_bytes (a + int (2 * (f div 16))) 2
      (write_bytes a (zero_bytes (2 * SQL_API_ODBC3_ALL_FUNCTIONS_SIZE)) m)) = 0"
    by (rule read_zero_bytes [OF word_index_below [OF assms]])
  then have "\<not> func_exists a f (write_bytes a (zero_bytes (2 * SQL_API_ODBC3_ALL_FUNCTIONS_SIZE)) m)"
    by (simp add: func_exists_def)
  then show ?thesis by (simp add: InternalGetFunctions_def SetODBC3FunctionsValue_def fold_func_set)
qed

lemma odbc2_answer:
  assumes "f < 100"
  shows "flag_at a f (snd (InternalGetFunctions SQL_API_ALL_FUNCTIONS a m)) \<longleftrightarrow> f \<in> set odbc2_functions"
proof -
  have "le_val (read_bytes (a + int (2 * f)) 2 (write_bytes a (zero_bytes (2 * 100)) m)) = 0"
    by (rule read_zero_bytes) (use assms in simp)
  then have "\<not> flag_at a f (write_bytes a (zero_bytes (2 * 100)) m)" by (simp add: flag_at_def)
  then show ?thesis by (simp add: InternalGetFunctions_def SetODBC2FunctionsValue_def fold_flag_set)
qed

lemma single_answer:
  assumes "f \<noteq> SQL_API_ODBC3_ALL_FUNCTIONS" and "f \<noteq> SQL_API_ALL_FUNCTIONS"
  shows "flag_at a 0 (snd (InternalGetFunctions f a m)) \<longleftrightarrow> f \<in> set single_functions \<or> flag_at a 0 m"
  using assms by (auto simp: InternalGetFunctions_def flag_at_def flag_set_def read_word)

lemma tables_agree: "set single_functions = set odbc3_functions \<union> set odbc2_functions"
  by (simp add: single_functions_def odbc3_functions_def odbc2_functions_def insert_commute)

lemma func_set_outside:
  assumes "f < 4000" and "x < a \<or> a + 500 \<le> x"
  shows "func_set a f m x = m x"
proof -
  have "f div 16 < 250" using assms(1) by (simp add: less_mult_imp_div_less)
  then have "2 * int (f div 16) + 2 \<le> 500" by linarith
  with assms(2) show ?thesis unfolding func_set_def Let_def by (intro write_bytes_outside) auto
qed

lemma lists_in_range: "\<forall>f \<in> set odbc3_functions. f < 4000" "\<forall>f \<in> set odbc2_functions. f < 100"
  by (simp_all add: odbc3_functions_def odbc2_functions_def)

text \<open> C26. The three ways to ask which functions the driver has agree: after the bit set and the array have been
  asked for, a function is answered with true exactly when its bit or its flag is set. Both answers stay
  within the buffers the interface prescribes.\<close>

theorem function_answers_agree:
  "(\<forall>f. f < 4000 \<and> f \<noteq> SQL_API_ODBC3_ALL_FUNCTIONS \<and> f \<noteq> SQL_API_ALL_FUNCTIONS \<longrightarrow>
      flag_at a 0 (snd (InternalGetFunctions f a (\<lambda>_. 0))) =
        (func_exists b f (snd (InternalGetFunctions SQL_API_ODBC3_ALL_FUNCTIONS b m))
         \<or> f < 100 \<and> flag_at c f (snd (InternalGetFunctions SQL_API_ALL_FUNCTIONS c m))))
   \<and> (x < b \<or> b + 500 \<le> x \<longrightarrow> snd (InternalGetFunctions SQL_API_ODBC3_ALL_FUNCTIONS b m) x = m x)
   \<and> (x < c \<or> c + 200 \<le> x \<longrightarrow> snd (InternalGetFunctions SQL_API_ALL_FUNCTIONS c m) x = m x)"
proof (intro conjI allI impI)
  fix f :: nat
  assume f: "f < 4000 \<and> f \<noteq> SQL_API_ODBC3_ALL_FUNCTIONS \<and> f \<noteq> SQL_API_ALL_FUNCTIONS"
  have "\<not> flag_at a 0 (\<lambda>_. 0)" by (simp add: flag_at_def read_bytes_def numeral_2_eq_2)
  with f show "flag_at a 0 (snd (InternalGetFunctions f a (\<lambda>_. 0))) =
        (func_exists b f (snd (InternalGetFunctions SQL_API_ODBC3_ALL_FUNCTIONS b m))
         \<or> f < 100 \<and> flag_at c f (snd (InternalGetFunctions SQL_API_ALL_FUNCTIONS c m)))"
    using single_answer [of f a] odbc3_answer [of f b m] odbc2_answer [of f c m] tables_agree lists_in_range by auto
next
  assume x: "x < b \<or> b + 500 \<le> x"
  have "fold (func_set b) fs m' x = m' x" if "\<forall>f \<in> set fs. f < 4000" for fs m'
    using that x
    by (induction fs arbitrary: m') (auto simp: func_set_outside)
  with lists_in_range(1) x show "snd (InternalGetFunctions SQL_API_ODBC3_ALL_FUNCTIONS b m) x = m x"
    by (simp add: InternalGetFunctions_def SetODBC3FunctionsValue_def SQL_API_ODBC3_ALL_FUNCTIONS_SIZE_def
        zero_bytes_def write_bytes_outside)
next
  assume x: "x < c \<or> c + 200 \<le> x"
  have "fold (flag_set c) fs m' x = m' x" if "\<forall>f \<in> set fs. f < 100" for fs m'
    using that x
    by (induction fs arbitrary: m') (auto simp: flag_set_def write_bytes_outside)
  with lists_in_range(2) x show "snd (InternalGetFunctions SQL_API_ALL_FUNCTIONS c m) x = m x"
    by (simp add: InternalGetFunctions_def SetODBC2FunctionsValue_def zero_bytes_def write_bytes_outside)
qed

theorem function_answers_agree_witness:
  "flag_at 1000 0 (snd (InternalGetFunctions SQL_API_SQLFETCH 1000 (\<lambda>_. 0)))
   \<and> snd (InternalGetFunctions SQL_API_ODBC3_ALL_FUNCTIONS 2000 (\<lambda>_. 7)) 2500 = 7"
proof -
  have "func_exists 2000 SQL_API_SQLFETCH (snd (InternalGetFunctions SQL_API_ODBC3_ALL_FUNCTIONS 2000 (\<lambda>_. 7)))"
    using odbc3_answer [of SQL_API_SQLFETCH 2000 "\<lambda>_. 7"] by (simp add: odbc3_functions_def)
  with function_answers_agree [of 1000 2000 "\<lambda>_. 7" 3000 2500] show ?thesis by auto
qed

definition refused_functions :: "nat list" where
  "refused_functions =
     [SQL_API_SQLSETSTMTOPTION, SQL_API_SQLBROWSECONNECT, SQL_API_SQLSETPOS, SQL_API_SQLSETSCROLLOPTIONS,
      SQL_API_SQLBULKOPERATIONS, SQL_API_SQLENDTRAN, SQL_API_SQLGETDESCREC, SQL_API_SQLSETDESCREC,
      SQL_API_SQLBINDPARAMETER, SQL_API_SQLDESCRIBEPARAM, SQL_API_SQLPARAMDATA, SQL_API_SQLPARAMOPTIONS,
      SQL_API_SQLNUMPARAMS, SQL_API_SQLPUTDATA]"

text \<open>What an application would do with the answer: call the function on a statement, a connection or a
  descriptor.\<close>

definition refused_call :: "nat \<Rightarrow> int \<Rightarrow> int \<Rightarrow> int \<Rightarrow> 'ci api" where
  "refused_call f conn stmt desc =
     (if f = SQL_API_SQLSETSTMTOPTION then SQLSetStmtOption stmt
      else if f = SQL_API_SQLBROWSECONNECT then SQLBrowseConnect conn
      else if f = SQL_API_SQLSETPOS then SQLSetPos stmt
      else if f = SQL_API_SQLSETSCROLLOPTIONS then SQLSetScrollOptions stmt
      else if f = SQL_API_SQLBULKOPERATIONS then SQLBulkOperations stmt
      else if f = SQL_API_SQLENDTRAN then SQLEndTran SQL_HANDLE_DBC conn
      else if f = SQL_API_SQLGETDESCREC then SQLGetDescRec desc
      else if f = SQL_API_SQLSETDESCREC then SQLSetDescRec desc
      else if f = SQL_API_SQLBINDPARAMETER then SQLBindParameter stmt
      else if f = SQL_API_SQLDESCRIBEPARAM then SQLDescribeParam stmt
      else if f = SQL_API_SQLPARAMDATA then SQLParamData stmt
      else if f = SQL_API_SQLPARAMOPTIONS then SQLParamOptions stmt
      else if f = SQL_API_SQLNUMPARAMS then SQLNumParams stmt
      else SQLPutData stmt)"

lemma unsupported_error: "unsupported name type h D = Some (rc, D') \<Longrightarrow> rc = SQL_ERROR"
  by (auto simp: unsupported_def split: if_splits)

text \<open> Fourteen functions are reported as available whose entry points always refuse: the single answer of
  each of them is true, and a call of it that returns returns an error.\<close>

theorem reported_but_refused:
  assumes "f \<in> set refused_functions"
  shows "flag_at a 0 (snd (InternalGetFunctions f a m))
    \<and> (\<forall>rc D'. refused_call f conn stmt desc D = Some (rc, D') \<longrightarrow> rc = SQL_ERROR)"
proof -
  have f: "f \<noteq> SQL_API_ODBC3_ALL_FUNCTIONS" "f \<noteq> SQL_API_ALL_FUNCTIONS" "f \<in> set single_functions"
    using assms by (auto simp: refused_functions_def single_functions_def)
  show ?thesis
    using single_answer [OF f(1,2)] f(3) assms
    by (auto simp: refused_call_def refused_defs dest!: unsupported_error split: if_splits)
qed

theorem reported_but_refused_witness:
  "flag_at 1000 0 (snd (InternalGetFunctions SQL_API_SQLSETPOS 1000 (\<lambda>_. 0)))"
proof -
  have "SQL_API_SQLSETPOS \<in> set refused_functions" by (simp add: refused_functions_def)
  from reported_but_refused [OF this, of 1000 "\<lambda>_. 0"] show ?thesis by blast
qed

end
