(* ===== verification/Driver_Handles.thy ===== *)
theory Driver_Handles
  imports Function_Table Statement_Props
begin

text \<open>
  The handles of the driver stay consistent whatever an application calls. A call changes what hangs
  together the handles, their skeleton, only when it allocates, frees or names a cursor; this is shown
  for every function, and an invariant over all runs follows.
\<close>

section \<open>The skeleton\<close>

definition conn_skeleton :: "connection \<Rightarrow> nat \<times> (nat \<Rightarrow> string option) \<times> string set" where
  "conn_skeleton cn = (cn_id cn, cursorNameMap cn, cursorNames cn)"

record skeleton =
  sk_envs :: "nat \<Rightarrow> nat set option"
  sk_conns :: "nat \<Rightarrow> (nat \<times> nat \<times> (nat \<Rightarrow> string option) \<times> string set) option"
  sk_stmts :: "nat \<Rightarrow> (nat \<times> nat) option"
  sk_refs :: int
  sk_sdk :: bool

definition skeleton_of :: "'ci driver \<Rightarrow> skeleton" where
  "skeleton_of D =
     \<lparr>sk_envs = (\<lambda>h. map_option en_connections (dv_envs D h)),
      sk_conns = (\<lambda>h. map_option (\<lambda>c. (co_env c, conn_skeleton (co_conn c))) (dv_conns D h)),
      sk_stmts = (\<lambda>h. map_option (\<lambda>s. (so_conn s, st_id (so_stmt s))) (dv_stmts D h)),
      sk_refs = dv_refs D, sk_sdk = dv_sdk D\<rparr>"

definition ctx_skeleton :: "'ci ctx \<Rightarrow> nat \<times> (nat \<times> (nat \<Rightarrow> string option) \<times> string set) \<times> nat set" where
  "ctx_skeleton x = (st_id (cx_stmt x), conn_skeleton (cx_conn x), en_connections (cx_env x))"

named_theorems keeps_id \<open>operations keep the identity of the statement\<close>
named_theorems keeps_skeleton \<open>calls keep the skeleton of the driver\<close>

section \<open>Statements keep their identity\<close>

lemma st_record_id [simp]: "st_id (st_record s m st) = st_id st"
  by (simp add: st_record_def)

lemma replace_query_id [keeps_id]: "replace_query vt q st = Some st' \<Longrightarrow> st_id st' = st_id st"
  by (auto simp: replace_query_def split: option.splits)

lemma execute_current_id [keeps_id]: "execute_current vt q st = Some (r, st') \<Longrightarrow> st_id st' = st_id st"
  by (auto simp: execute_current_def)

lemma prepare_id [keeps_id]: "InternalPrepareSqlQuery vt mk sql st = Some (r, st') \<Longrightarrow> st_id st' = st_id st"
  by (auto simp: InternalPrepareSqlQuery_def dest: replace_query_id)

lemma execute_prepared_id [keeps_id]: "InternalExecutePrepared vt st = Some (r, st') \<Longrightarrow> st_id st' = st_id st"
  by (auto simp: InternalExecutePrepared_def dest!: execute_current_id split: option.splits if_splits)

lemma execute_sql_id [keeps_id]: "InternalExecuteSqlQuery vt mk sql st = Some (r, st') \<Longrightarrow> st_id st' = st_id st"
  by (auto simp: InternalExecuteSqlQuery_def dest!: prepare_id execute_prepared_id split: bind_splits if_splits)

lemma execute_catalog_id [keeps_id]: "InternalExecuteCatalogQuery vt q st = Some (r, st') \<Longrightarrow> st_id st' = st_id st"
  by (auto simp: InternalExecuteCatalogQuery_def dest!: replace_query_id execute_current_id split: bind_splits)

lemma type_info_id [keeps_id]: "InternalExecuteGetTypeInfoQuery vt mk ty st = Some (r, st') \<Longrightarrow> st_id st' = st_id st"
  by (auto simp: InternalExecuteGetTypeInfoQuery_def dest: execute_catalog_id split: if_splits)

lemma cancel_id [keeps_id]: "InternalCancelSqlQuery vt st = Some (r, st') \<Longrightarrow> st_id st' = st_id st"
  by (auto simp: InternalCancelSqlQuery_def split: option.splits)

lemma close_id [keeps_id]: "Statement_InternalClose vt ign st = Some (r, st') \<Longrightarrow> st_id st' = st_id st"
  by (auto simp: Statement_InternalClose_def split: option.splits if_splits)

lemma free_resources_id [keeps_id]: "InternalFreeResources vt opt st = Some (r, st') \<Longrightarrow> st_id st' = st_id st"
  by (auto simp: InternalFreeResources_def SafeUnbindAllColumns_def dest: close_id split: if_splits)

lemma more_results_id [keeps_id]: "InternalMoreResults vt st = (r, st') \<Longrightarrow> st_id st' = st_id st"
  by (auto simp: InternalMoreResults_def split: option.splits)

lemma affected_rows_id [keeps_id]: "InternalAffectedRows vt n st = (r, k, st') \<Longrightarrow> st_id st' = st_id st"
  by (auto simp: InternalAffectedRows_def split: option.splits)

lemma bind_column_id [keeps_id]: "InternalBindColumn i t val len ind (st, h) = (r, st', h') \<Longrightarrow> st_id st' = st_id st"
  by (auto simp: InternalBindColumn_def Let_def SafeBindColumn_def SafeUnbindColumn_def split: if_splits)

lemma fetch_into_id [keeps_id]: "fetch_into vt off n sts cnt q st m = Some (r, st', m') \<Longrightarrow> st_id st' = st_id st"
  by (auto simp: fetch_into_def)

lemma fetch_row_id [keeps_id]: "InternalFetchRow vt st m = Some (r, st', m') \<Longrightarrow> st_id st' = st_id st"
  by (auto simp: InternalFetchRow_def Let_def dest!: fetch_into_id split: option.splits)

lemma fetch_scroll_id [keeps_id]: "InternalFetchScroll vt ori st m = Some (r, st', m') \<Longrightarrow> st_id st' = st_id st"
  by (auto simp: InternalFetchScroll_def dest: fetch_row_id split: if_splits)

lemma extended_fetch_id [keeps_id]:
  "InternalExtendedFetch vt ori cnt sts st m = Some (r, st', m') \<Longrightarrow> st_id st' = st_id st"
  by (auto simp: InternalExtendedFetch_def dest!: fetch_into_id split: if_splits option.splits)

lemma column_data_id [keeps_id]:
  "InternalGetColumnData vt i buf st m = Some (r, buf', st', m') \<Longrightarrow> st_id st' = st_id st"
  by (auto simp: InternalGetColumnData_def split: option.splits)

lemma get_meta_id [keeps_id]: "Statement_GetMeta vt st = Some (cs, st') \<Longrightarrow> st_id st' = st_id st"
  by (auto simp: Statement_GetMeta_def split: option.splits)

lemma column_number_id [keeps_id]: "InternalGetColumnNumber vt st = Some (r, n, st') \<Longrightarrow> st_id st' = st_id st"
  by (auto simp: InternalGetColumnNumber_def dest!: get_meta_id split: option.splits)

lemma column_attribute_id:
  "column_attribute w attr buf len res num c st m = (r, st', m') \<Longrightarrow> st_id st' = st_id st"
  by (auto simp: column_attribute_def Let_def split: if_splits option.splits prod.splits)

lemma get_column_attribute_id [keeps_id]:
  "InternalGetColumnAttribute vt w i attr buf len res num st m = Some (r, st', m') \<Longrightarrow> st_id st' = st_id st"
  by (auto simp: InternalGetColumnAttribute_def dest!: get_meta_id column_attribute_id split: option.splits if_splits)

lemma get_attribute_id [keeps_id]: "InternalGetAttribute vt attr buf cn st = (r, out, st') \<Longrightarrow> st_id st' = st_id st"
  by (auto simp: InternalGetAttribute_def Let_def split: if_splits option.splits prod.splits)

lemma stmt_option_id [keeps_id]: "InternalGetStmtOption vt opt buf cn st = (r, out, st') \<Longrightarrow> st_id st' = st_id st"
  by (auto simp: InternalGetStmtOption_def dest: get_attribute_id split: if_splits)

lemma cursor_name_id [keeps_id]:
  "InternalGetCursorName w j buf len res cn st m = (r, st', m') \<Longrightarrow> st_id st' = st_id st"
  by (auto simp: InternalGetCursorName_def Let_def split: if_splits prod.splits)

lemma set_cursor_name_id [keeps_id]: "InternalSetCursorName w name len (st, cn) = (r, st', cn') \<Longrightarrow> st_id st' = st_id st"
  by (auto simp: InternalSetCursorName_def Let_def split: if_splits prod.splits)

section \<open>Connections and environments keep theirs\<close>

lemma conn_skeleton_diag [simp]: "conn_skeleton (cn\<lparr>cn_diag := d\<rparr>) = conn_skeleton cn"
  by (simp add: conn_skeleton_def)

lemma conn_skeleton_record [simp]: "conn_skeleton (cn_record s m cn) = conn_skeleton cn"
  by (simp add: cn_record_def)

lemma conn_skeleton_updates [simp]:
  "conn_skeleton (cn\<lparr>cn_config := a\<rparr>) = conn_skeleton cn" "conn_skeleton (cn\<lparr>queryClient := b\<rparr>) = conn_skeleton cn"
  "conn_skeleton (cn\<lparr>samlCredProvider := b\<rparr>) = conn_skeleton cn" "conn_skeleton (cn\<lparr>autoCommit := b\<rparr>) = conn_skeleton cn"
  "conn_skeleton (cn\<lparr>metadataID := b\<rparr>) = conn_skeleton cn" "conn_skeleton (cn\<lparr>stmtAttr := t\<rparr>) = conn_skeleton cn"
  "conn_skeleton (CloseConnection cn) = conn_skeleton cn"
  "conn_skeleton (UpdateConnectionRuntimeInfo cn) = conn_skeleton cn"
  by (simp_all add: conn_skeleton_def CloseConnection_def UpdateConnectionRuntimeInfo_def)

lemma try_restore_skeleton: "TryRestoreConnection se cfg cn = (e, cn') \<Longrightarrow> conn_skeleton cn' = conn_skeleton cn"
  by (auto simp: TryRestoreConnection_def Let_def split: if_splits prod.splits option.splits)

lemma establish_with_skeleton: "EstablishWith se cfg cn = (r, cn') \<Longrightarrow> conn_skeleton cn' = conn_skeleton cn"
  by (auto simp: EstablishWith_def Let_def dest!: try_restore_skeleton split: if_splits option.splits prod.splits)

lemma establish_skeleton:
  "InternalEstablish se pl rd j str (cn, lg) = (r, cn', lg') \<Longrightarrow> conn_skeleton cn' = conn_skeleton cn"
  by (auto simp: InternalEstablish_def Let_def dest!: establish_with_skeleton split: prod.splits if_splits)

lemma release_skeleton: "InternalRelease cn = (r, cn') \<Longrightarrow> conn_skeleton cn' = conn_skeleton cn"
  by (auto simp: InternalRelease_def split: if_splits)

lemma conn_get_attribute_skeleton:
  "Connection_GetAttribute attr b (cn, lg) = (r, out, cn') \<Longrightarrow> conn_skeleton cn' = conn_skeleton cn"
  by (auto simp: Connection_GetAttribute_def split: if_splits)

lemma conn_set_attribute_skeleton:
  "Connection_SetAttribute attr v (cn, lg) = (r, cn', lg') \<Longrightarrow> conn_skeleton cn' = conn_skeleton cn"
  by (auto simp: Connection_SetAttribute_def Let_def split: if_splits)

lemma conn_get_option_skeleton:
  "InternalGetConnectOption opt b (cn, lg) = (r, out, cn') \<Longrightarrow> conn_skeleton cn' = conn_skeleton cn"
  by (auto simp: InternalGetConnectOption_def dest: conn_get_attribute_skeleton split: if_splits)

lemma set_stmt_attribute_skeleton:
  "InternalSetStmtAttribute opt v cn = (r, cn') \<Longrightarrow> conn_skeleton cn' = conn_skeleton cn"
  by (auto simp: InternalSetStmtAttribute_def Let_def split: if_splits)

lemma conn_set_option_skeleton:
  "InternalSetConnectOption opt v (cn, lg) = (r, cn', lg') \<Longrightarrow> conn_skeleton cn' = conn_skeleton cn"
  by (auto simp: InternalSetConnectOption_def dest: conn_set_attribute_skeleton set_stmt_attribute_skeleton
      split: if_splits prod.splits)

lemma native_sql_skeleton:
  "InternalNativeSql w i len out olen (cn, m) = (r, n, cn', m') \<Longrightarrow> conn_skeleton cn' = conn_skeleton cn"
  by (auto simp: InternalNativeSql_def Let_def split: option.splits if_splits prod.splits)

lemma cn_SetAttribute_skeleton: "cn_SetAttribute attr v (cn, lg) = (cn', lg') \<Longrightarrow> conn_skeleton cn' = conn_skeleton cn"
  by (auto simp: cn_SetAttribute_def api_call_def dest!: conn_set_attribute_skeleton split: prod.splits)

lemma set_attribute_keeps:
  "InternalSetAttribute attr v (st, h, cn, lg) = (r, st', h', cn', lg') \<Longrightarrow>
   st_id st' = st_id st \<and> conn_skeleton cn' = conn_skeleton cn"
  by (auto simp: InternalSetAttribute_def Let_def stmt_refuse_def SetARDDesc_def
      dest!: cn_SetAttribute_skeleton split: if_splits prod.splits)

lemma env_attribute_keeps:
  "en_connections (snd (Environment_SetAttribute attr v e)) = en_connections e"
  "Environment_GetAttribute attr e = (r, n, e') \<Longrightarrow> en_connections e' = en_connections e"
  by (auto simp: Environment_SetAttribute_def Environment_GetAttribute_def en_record_def Let_def
      split: env_attribute.splits)

lemma version_keeps: "GetEnvODBCVer e = (v, e') \<Longrightarrow> en_connections e' = en_connections e"
  by (auto simp: GetEnvODBCVer_def api_call_def env_upd_def dest!: env_attribute_keeps(2) split: prod.splits)

section \<open>Calls\<close>

lemma in_stmt_keeps:
  assumes "in_stmt f x = Some (r, x')" and "\<And>q st. f (cx_stmt x) = Some (q, st) \<Longrightarrow> st_id st = st_id (cx_stmt x)"
  shows "ctx_skeleton x' = ctx_skeleton x"
  using assms by (auto simp: in_stmt_def ctx_skeleton_def)

lemma in_memory_keeps:
  assumes "in_memory f x = Some (r, x')"
    and "\<And>q st m. f (cx_stmt x) (cx_mem x) = Some (q, st, m) \<Longrightarrow> st_id st = st_id (cx_stmt x)"
  shows "ctx_skeleton x' = ctx_skeleton x"
  using assms by (auto simp: in_memory_def ctx_skeleton_def)

lemma in_descs_keeps:
  assumes "in_descs f x = Some (r, x')"
    and "\<And>q st h. f (cx_stmt x, cx_descs x) = (q, st, h) \<Longrightarrow> st_id st = st_id (cx_stmt x)"
  shows "ctx_skeleton x' = ctx_skeleton x"
  using assms by (auto simp: in_descs_def ctx_skeleton_def split: prod.splits)

lemma in_state_keeps:
  assumes "in_state f x = Some (r, x')"
    and "\<And>q st h cn lg. f (cx_stmt x, cx_descs x, cx_conn x, cx_log x) = (q, st, h, cn, lg) \<Longrightarrow>
      st_id st = st_id (cx_stmt x) \<and> conn_skeleton cn = conn_skeleton (cx_conn x)"
  shows "ctx_skeleton x' = ctx_skeleton x"
  using assms by (auto simp: in_state_def ctx_skeleton_def split: prod.splits)

lemma with_version_keeps:
  assumes "with_version f x = Some (r, x')" and "\<And>v y q y'. f v y = Some (q, y') \<Longrightarrow> ctx_skeleton y' = ctx_skeleton y"
  shows "ctx_skeleton x' = ctx_skeleton x"
proof -
  obtain v e where v: "GetEnvODBCVer (cx_env x) = (v, e)" by fastforce
  from assms(1) v have "f v (x\<lparr>cx_env := e\<rparr>) = Some (r, x')" by (simp add: with_version_def)
  with assms(2) version_keeps [OF v] show ?thesis by (fastforce simp: ctx_skeleton_def)
qed

lemma ctx_upd_skeleton [simp]: "ctx_skeleton (ctx_upd f x) = ctx_skeleton x"
  by (simp add: ctx_upd_def ctx_skeleton_def)

lemma ctx_mem_skeleton [simp]: "ctx_skeleton (x\<lparr>cx_mem := m\<rparr>) = ctx_skeleton x"
  by (simp add: ctx_skeleton_def)

lemma protocol_keeps:
  assumes "stmt_protocol op x = Some (rc, x')" and "\<And>y r y'. op y = Some (r, y') \<Longrightarrow> ctx_skeleton y' = ctx_skeleton y"
  shows "ctx_skeleton x' = ctx_skeleton x"
  using assms by (fastforce simp: stmt_protocol_def Let_def)

lemma stmt_run_keeps:
  assumes "stmt_run h f D = Some (rc, D')" and "\<And>y r y'. f y = Some (r, y') \<Longrightarrow> ctx_skeleton y' = ctx_skeleton y"
  shows "skeleton_of D' = skeleton_of D"
proof (cases "h = 0")
  case False
  then obtain s c x x' where o: "open_stmt h D = Some (s, c, x)" "f x = Some (rc, x')" "D' = put_stmt h s c x' D"
    using assms(1) by (auto simp: stmt_run_def on_handle_def split: bind_splits)
  obtain e where e: "dv_stmts D h = Some s" "dv_conns D (so_conn s) = Some c" "dv_envs D (co_env c) = Some e"
    "cx_stmt x = so_stmt s" "cx_conn x = co_conn c" "cx_env x = e"
    using o(1) by (auto simp: open_stmt_def split: bind_splits)
  from assms(2) [OF o(2)] e
  have "st_id (cx_stmt x') = st_id (so_stmt s)" "conn_skeleton (cx_conn x') = conn_skeleton (co_conn c)"
    "en_connections (cx_env x') = en_connections e"
    by (simp_all add: ctx_skeleton_def)
  with o(3) e(1-3) show ?thesis by (simp add: put_stmt_def skeleton_of_def fun_eq_iff)
qed (use assms(1) in simp)

lemma stmt_call_keeps:
  assumes "stmt_call h op D = Some (rc, D')" and "\<And>y r y'. op y = Some (r, y') \<Longrightarrow> ctx_skeleton y' = ctx_skeleton y"
  shows "skeleton_of D' = skeleton_of D"
  using assms(1) unfolding stmt_call_def by (rule stmt_run_keeps) (erule protocol_keeps, rule assms(2))

lemma conn_run_keeps:
  assumes "conn_run h f D = Some (rc, D')" and "\<And>s q s'. f s = (q, s') \<Longrightarrow> conn_skeleton (fst s') = conn_skeleton (fst s)"
  shows "skeleton_of D' = skeleton_of D"
proof (cases "h = 0")
  case False
  then obtain c s s' where o: "open_conn h D = Some (c, s)" "f s = (rc, s')" "D' = put_conn h c s' D"
    using assms(1) by (auto simp: conn_run_def on_handle_def split: bind_splits prod.splits)
  then have "dv_conns D h = Some c" "fst s = co_conn c" by (auto simp: open_conn_def split: bind_splits if_splits)
  with assms(2) [OF o(2)] o(3) show ?thesis
    by (cases s') (simp add: put_conn_def skeleton_of_def fun_eq_iff)
qed (use assms(1) in simp)

lemma conn_upd_skeleton [simp]: "conn_skeleton (fst (conn_upd g u)) = conn_skeleton (fst u)"
  by (cases u) (simp add: conn_upd_def)

lemma conn_protocol_keeps:
  assumes "conn_protocol op s = (rc, s')" and "\<And>t q t'. op t = (q, t') \<Longrightarrow> conn_skeleton (fst t') = conn_skeleton (fst t)"
  shows "conn_skeleton (fst s') = conn_skeleton (fst s)"
proof -
  obtain q t where t: "op (conn_upd ResetStorage s) = (q, t)" by (cases "op (conn_upd ResetStorage s)")
  with assms(2) [OF t] assms(1) t show ?thesis
    by (auto simp: conn_protocol_def api_call_def Let_def)
qed

lemma conn_call_keeps:
  assumes "conn_call h op D = Some (rc, D')" and "\<And>t q t'. op t = (q, t') \<Longrightarrow> conn_skeleton (fst t') = conn_skeleton (fst t)"
  shows "skeleton_of D' = skeleton_of D"
  using assms(1) unfolding conn_call_def by (rule conn_run_keeps) (erule conn_protocol_keeps, rule assms(2))

lemma env_call_keeps:
  assumes "env_call h op D = Some (rc, D')" and "\<And>e. en_connections (snd (op e)) = en_connections e"
  shows "skeleton_of D' = skeleton_of D"
proof (cases "h = 0")
  case False
  have keep: "en_connections (api_call env_upd op e) = en_connections e" for e
  proof -
    obtain q t where t: "op (env_upd ResetStorage e) = (q, t)" by (cases "op (env_upd ResetStorage e)")
    from assms(2) [of "env_upd ResetStorage e"] t show ?thesis by (simp add: api_call_def env_upd_def)
  qed
  obtain e where e: "dv_envs D h = Some e" "D' = D\<lparr>dv_envs := (dv_envs D)(h \<mapsto> api_call env_upd op e)\<rparr>"
    using False assms(1) by (auto simp: env_call_def on_handle_def Let_def split: bind_splits)
  then show ?thesis by (simp add: skeleton_of_def fun_eq_iff keep)
qed (use assms(1) in simp)

section \<open>Every function\<close>

text \<open>Calls on a statement that work on the statement alone.\<close>

lemma SQLPrepare_keeps [keeps_skeleton]: "SQLPrepare W h q n D = Some (rc, D') \<Longrightarrow> skeleton_of D' = skeleton_of D"
  unfolding SQLPrepare_def by (elim stmt_call_keeps in_stmt_keeps) (auto dest: keeps_id split: prod.splits)

lemma SQLExecute_keeps [keeps_skeleton]: "SQLExecute W h D = Some (rc, D') \<Longrightarrow> skeleton_of D' = skeleton_of D"
  unfolding SQLExecute_def by (elim stmt_call_keeps in_stmt_keeps) (auto dest: keeps_id split: prod.splits)

lemma SQLExecDirect_keeps [keeps_skeleton]: "SQLExecDirect W h q n D = Some (rc, D') \<Longrightarrow> skeleton_of D' = skeleton_of D"
  unfolding SQLExecDirect_def by (elim stmt_call_keeps in_stmt_keeps) (auto dest: keeps_id split: prod.splits)

lemma SQLCancel_keeps [keeps_skeleton]: "SQLCancel W h D = Some (rc, D') \<Longrightarrow> skeleton_of D' = skeleton_of D"
  unfolding SQLCancel_def by (elim stmt_call_keeps in_stmt_keeps) (auto dest: keeps_id split: prod.splits)

lemma SQLMoreResults_keeps [keeps_skeleton]: "SQLMoreResults W h D = Some (rc, D') \<Longrightarrow> skeleton_of D' = skeleton_of D"
  unfolding SQLMoreResults_def by (elim stmt_call_keeps in_stmt_keeps) (auto dest: keeps_id split: prod.splits)

lemma catalog_call_keeps [keeps_skeleton]: "catalog_call W h mk D = Some (rc, D') \<Longrightarrow> skeleton_of D' = skeleton_of D"
  unfolding catalog_call_def by (elim stmt_call_keeps in_stmt_keeps) (auto dest: keeps_id split: prod.splits)

lemma SQLGetTypeInfo_keeps [keeps_skeleton]: "SQLGetTypeInfo W h ty D = Some (rc, D') \<Longrightarrow> skeleton_of D' = skeleton_of D"
  unfolding SQLGetTypeInfo_def by (elim stmt_call_keeps in_stmt_keeps) (auto dest: keeps_id split: prod.splits)

text \<open>Calls that also write into the memory of the application.\<close>

lemma SQLRowCount_keeps [keeps_skeleton]: "SQLRowCount W h p D = Some (rc, D') \<Longrightarrow> skeleton_of D' = skeleton_of D"
  unfolding SQLRowCount_def by (elim stmt_call_keeps in_memory_keeps) (auto dest: keeps_id split: prod.splits)

lemma SQLFetch_keeps [keeps_skeleton]: "SQLFetch W h D = Some (rc, D') \<Longrightarrow> skeleton_of D' = skeleton_of D"
  unfolding SQLFetch_def by (elim stmt_call_keeps in_memory_keeps) (auto dest: keeps_id split: prod.splits)

lemma SQLFetchScroll_keeps [keeps_skeleton]: "SQLFetchScroll W h ori D = Some (rc, D') \<Longrightarrow> skeleton_of D' = skeleton_of D"
  unfolding SQLFetchScroll_def by (elim stmt_call_keeps in_memory_keeps) (auto dest: keeps_id split: prod.splits)

lemma SQLGetStmtAttr_keeps [keeps_skeleton]: "SQLGetStmtAttr W h attr buf res D = Some (rc, D') \<Longrightarrow> skeleton_of D' = skeleton_of D"
  unfolding SQLGetStmtAttr_def by (elim stmt_call_keeps in_memory_keeps) (auto dest: keeps_id split: prod.splits)

lemma SQLGetStmtOption_keeps [keeps_skeleton]: "SQLGetStmtOption W h opt buf D = Some (rc, D') \<Longrightarrow> skeleton_of D' = skeleton_of D"
  unfolding SQLGetStmtOption_def by (elim stmt_call_keeps in_memory_keeps) (auto dest: keeps_id split: prod.splits)

lemma SQLGetCursorName_keeps [keeps_skeleton]: "SQLGetCursorName W h buf len res D = Some (rc, D') \<Longrightarrow> skeleton_of D' = skeleton_of D"
  unfolding SQLGetCursorName_def by (elim stmt_call_keeps in_memory_keeps) (auto dest: keeps_id split: prod.splits)

text \<open>Functions that ask for the version, that bind, and those made of several calls.\<close>

lemma versioned_catalog_keeps: "versioned_catalog W mk x = Some (r, x') \<Longrightarrow> ctx_skeleton x' = ctx_skeleton x"
  unfolding versioned_catalog_def by (elim with_version_keeps in_stmt_keeps) (auto dest: keeps_id)

lemma SQLTables_keeps [keeps_skeleton]: "SQLTables W h c s t k D = Some (rc, D') \<Longrightarrow> skeleton_of D' = skeleton_of D"
  unfolding SQLTables_def Let_def by (elim stmt_call_keeps versioned_catalog_keeps)

lemma SQLStatistics_keeps [keeps_skeleton]: "SQLStatistics W h D = Some (rc, D') \<Longrightarrow> skeleton_of D' = skeleton_of D"
  unfolding SQLStatistics_def Let_def by (elim stmt_call_keeps versioned_catalog_keeps)

lemma SQLColumns_keeps [keeps_skeleton]: "SQLColumns W h c s t k D = Some (rc, D') \<Longrightarrow> skeleton_of D' = skeleton_of D"
  unfolding SQLColumns_def Let_def
  by (split if_split_asm) (auto elim!: stmt_run_keeps stmt_call_keeps versioned_catalog_keeps)

lemma SQLBindCol_keeps [keeps_skeleton]: "SQLBindCol h i t v n p D = Some (rc, D') \<Longrightarrow> skeleton_of D' = skeleton_of D"
  unfolding SQLBindCol_def by (elim stmt_call_keeps in_descs_keeps) (auto dest: keeps_id)

lemma SQLSetStmtAttr_keeps [keeps_skeleton]: "SQLSetStmtAttr h attr v D = Some (rc, D') \<Longrightarrow> skeleton_of D' = skeleton_of D"
  unfolding SQLSetStmtAttr_def by (elim stmt_call_keeps in_state_keeps) (auto dest: set_attribute_keeps)

lemma env_keeps: "GetEnvODBCVer (cx_env x) = (v, e) \<Longrightarrow> ctx_skeleton (x\<lparr>cx_env := e\<rparr>) = ctx_skeleton x"
  by (auto simp: ctx_skeleton_def dest: version_keeps)

lemma fetch_protocol_keeps:
  "stmt_protocol (\<lambda>x. in_memory (InternalExtendedFetch (cx_class W x) ori cnt sts) x) x = Some (rc, x') \<Longrightarrow>
   ctx_skeleton x' = ctx_skeleton x"
  by (elim protocol_keeps in_memory_keeps) (auto dest: keeps_id)

lemma SQLExtendedFetch_keeps [keeps_skeleton]: "SQLExtendedFetch W h ori cnt sts D = Some (rc, D') \<Longrightarrow> skeleton_of D' = skeleton_of D"
  unfolding SQLExtendedFetch_def
  by (elim stmt_run_keeps) (auto dest!: fetch_protocol_keeps split: if_splits)

lemma SQLGetData_keeps [keeps_skeleton]: "SQLGetData W h i t v n p D = Some (rc, D') \<Longrightarrow> skeleton_of D' = skeleton_of D"
  unfolding SQLGetData_def Let_def
  by (elim stmt_call_keeps) (auto simp: ctx_skeleton_def dest!: column_data_id split: if_splits)

lemma num_result_cols_keeps: "num_result_cols W out x = Some (rc, x') \<Longrightarrow> ctx_skeleton x' = ctx_skeleton x"
  unfolding num_result_cols_def by (elim protocol_keeps in_memory_keeps) (auto dest: keeps_id)

lemma column_call_keeps: "get_column_attribute W i f b n r k x = Some (rc, x') \<Longrightarrow> ctx_skeleton x' = ctx_skeleton x"
  unfolding get_column_attribute_def by (elim protocol_keeps in_memory_keeps) (auto dest: keeps_id)

lemma col_attribute_keeps: "col_attribute W i f b n r k x = Some (rc, x') \<Longrightarrow> ctx_skeleton x' = ctx_skeleton x"
  unfolding col_attribute_def
  by (auto dest!: num_result_cols_keeps dest: column_call_keeps split: if_splits)

lemma describe_calls_keeps: "describe_calls W i fs x = Some (rcs, x') \<Longrightarrow> ctx_skeleton x' = ctx_skeleton x"
  by (induction fs arbitrary: x rcs) (fastforce dest: column_call_keeps split: bind_splits)+

lemma SQLNumResultCols_keeps [keeps_skeleton]: "SQLNumResultCols W h out D = Some (rc, D') \<Longrightarrow> skeleton_of D' = skeleton_of D"
  unfolding SQLNumResultCols_def by (elim stmt_run_keeps num_result_cols_keeps)

lemma SQLColAttribute_keeps [keeps_skeleton]: "SQLColAttribute W h i f b n r k D = Some (rc, D') \<Longrightarrow> skeleton_of D' = skeleton_of D"
  unfolding SQLColAttribute_def by (elim stmt_run_keeps col_attribute_keeps)

lemma SQLColAttributes_keeps [keeps_skeleton]: "SQLColAttributes W h i f b n r k D = Some (rc, D') \<Longrightarrow> skeleton_of D' = skeleton_of D"
  unfolding SQLColAttributes_def Let_def
  by (elim stmt_run_keeps)
    (auto dest!: col_attribute_keeps env_keeps split: bind_splits prod.splits if_splits)

lemma SQLDescribeCol_keeps [keeps_skeleton]: "SQLDescribeCol W h i b n k d c g u D = Some (rc, D') \<Longrightarrow> skeleton_of D' = skeleton_of D"
  unfolding SQLDescribeCol_def Let_def
  by (elim stmt_run_keeps) (fastforce dest!: column_call_keeps describe_calls_keeps split: bind_splits)

text \<open>Calls on a connection or an environment.\<close>

lemma SQLGetInfo_keeps [keeps_skeleton]: "SQLGetInfo W h ty b n r D = Some (rc, D') \<Longrightarrow> skeleton_of D' = skeleton_of D"
  unfolding SQLGetInfo_def by (elim conn_call_keeps) (auto simp: InternalGetInfo_def split: prod.splits)

lemma SQLDisconnect_keeps [keeps_skeleton]: "SQLDisconnect h D = Some (rc, D') \<Longrightarrow> skeleton_of D' = skeleton_of D"
  unfolding SQLDisconnect_def by (elim conn_call_keeps) (auto dest: release_skeleton split: prod.splits)

lemma SQLNativeSql_keeps [keeps_skeleton]: "SQLNativeSql W h i n b m r D = Some (rc, D') \<Longrightarrow> skeleton_of D' = skeleton_of D"
  unfolding SQLNativeSql_def by (elim conn_call_keeps) (auto dest: native_sql_skeleton split: prod.splits)

lemma SQLGetConnectAttr_keeps [keeps_skeleton]: "SQLGetConnectAttr h a b r D = Some (rc, D') \<Longrightarrow> skeleton_of D' = skeleton_of D"
  unfolding SQLGetConnectAttr_def by (elim conn_call_keeps) (auto dest: conn_get_attribute_skeleton split: prod.splits)

lemma SQLSetConnectAttr_keeps [keeps_skeleton]: "SQLSetConnectAttr h a v D = Some (rc, D') \<Longrightarrow> skeleton_of D' = skeleton_of D"
  unfolding SQLSetConnectAttr_def by (elim conn_call_keeps) (auto dest: conn_set_attribute_skeleton split: prod.splits)

lemma SQLGetConnectOption_keeps [keeps_skeleton]: "SQLGetConnectOption h a b D = Some (rc, D') \<Longrightarrow> skeleton_of D' = skeleton_of D"
  unfolding SQLGetConnectOption_def by (elim conn_call_keeps) (auto dest: conn_get_option_skeleton split: prod.splits)

lemma SQLSetConnectOption_keeps [keeps_skeleton]: "SQLSetConnectOption h a v D = Some (rc, D') \<Longrightarrow> skeleton_of D' = skeleton_of D"
  unfolding SQLSetConnectOption_def by (elim conn_call_keeps) (auto dest: conn_set_option_skeleton split: prod.splits)

lemma SQLGetFunctions_keeps [keeps_skeleton]: "SQLGetFunctions h f a D = Some (rc, D') \<Longrightarrow> skeleton_of D' = skeleton_of D"
  unfolding SQLGetFunctions_def by (elim conn_call_keeps) (auto split: prod.splits)

lemma SQLDriverConnect_keeps [keeps_skeleton]: "SQLDriverConnect W h t n b m r D = Some (rc, D') \<Longrightarrow> skeleton_of D' = skeleton_of D"
  unfolding SQLDriverConnect_def Let_def
  by (elim conn_run_keeps)
    (auto dest!: conn_protocol_keeps dest: establish_skeleton split: prod.splits if_splits)

lemma SQLConnect_keeps [keeps_skeleton]: "SQLConnect W h t n b m r k D = Some (rc, D') \<Longrightarrow> skeleton_of D' = skeleton_of D"
  unfolding SQLConnect_def Let_def
  by (elim conn_run_keeps)
    (auto dest!: conn_protocol_keeps dest: establish_with_skeleton split: prod.splits if_splits)

lemma SQLSetEnvAttr_keeps [keeps_skeleton]: "SQLSetEnvAttr h a v D = Some (rc, D') \<Longrightarrow> skeleton_of D' = skeleton_of D"
  unfolding SQLSetEnvAttr_def by (elim env_call_keeps) (rule env_attribute_keeps)

text \<open>Diagnostics and descriptors.\<close>

lemma skeleton_irrelevant [simp]:
  "skeleton_of (D\<lparr>dv_mem := m\<rparr>) = skeleton_of D" "skeleton_of (D\<lparr>dv_descs := h\<rparr>) = skeleton_of D"
  "skeleton_of (D\<lparr>dv_live := l\<rparr>) = skeleton_of D" "skeleton_of (D\<lparr>dv_log := g\<rparr>) = skeleton_of D"
  by (simp_all add: skeleton_of_def)

lemma skeleton_env:
  "dv_envs D h = Some e \<Longrightarrow> en_connections e' = en_connections e \<Longrightarrow>
   skeleton_of (D\<lparr>dv_envs := (dv_envs D)(h \<mapsto> e')\<rparr>) = skeleton_of D"
  by (simp add: skeleton_of_def fun_eq_iff)

lemma skeleton_stmt:
  "dv_stmts D h = Some s \<Longrightarrow> so_conn s' = so_conn s \<Longrightarrow> st_id (so_stmt s') = st_id (so_stmt s) \<Longrightarrow>
   skeleton_of (D\<lparr>dv_stmts := (dv_stmts D)(h \<mapsto> s')\<rparr>) = skeleton_of D"
  by (simp add: skeleton_of_def fun_eq_iff)

lemma set_diag_skeleton [simp]: "skeleton_of (set_diag ty h d D) = skeleton_of D"
  by (auto simp: set_diag_def skeleton_of_def fun_eq_iff option.map_comp o_def)

lemma SQLGetEnvAttr_keeps [keeps_skeleton]: "SQLGetEnvAttr W h a b n r D = Some (rc, D') \<Longrightarrow> skeleton_of D' = skeleton_of D"
proof (cases "h = 0")
  case False
  assume "SQLGetEnvAttr W h a b n r D = Some (rc, D')"
  with False obtain e q v e1 m where e: "dv_envs D h = Some e"
    "Environment_GetAttribute a (env_upd ResetStorage e) = (q, v, e1)"
    "D' = D\<lparr>dv_envs := (dv_envs D)(h \<mapsto> env_upd (SetHeaderRecord q) e1), dv_mem := m\<rparr>"
    by (auto simp: SQLGetEnvAttr_def on_handle_def Let_def split: bind_splits prod.splits)
  from env_attribute_keeps(2) [OF e(2)] have "en_connections (env_upd (SetHeaderRecord q) e1) = en_connections e"
    by (simp add: env_upd_def)
  with e(1,3) show "skeleton_of D' = skeleton_of D" by (simp add: skeleton_env)
qed (simp add: SQLGetEnvAttr_def)

lemma SQLGetDiagField_keeps [keeps_skeleton]: "SQLGetDiagField W ty h n f b l r D = Some (rc, D') \<Longrightarrow> skeleton_of D' = skeleton_of D"
  by (auto simp: SQLGetDiagField_def Let_def split: if_splits bind_splits prod.splits)

lemma SQLGetDiagRec_keeps [keeps_skeleton]: "SQLGetDiagRec W ty h n st na b l r D = Some (rc, D') \<Longrightarrow> skeleton_of D' = skeleton_of D"
  by (auto simp: SQLGetDiagRec_def Let_def split: if_splits bind_splits) (auto split: prod.split_asm)

lemma SQLError_call_keeps [keeps_skeleton]: "SQLError_call W e c st x na b l r D = Some (rc, D') \<Longrightarrow> skeleton_of D' = skeleton_of D"
  by (auto simp: SQLError_call_def split: option.split_asm) (auto split: option.split_asm prod.split_asm)

lemma unsupported_keeps [keeps_skeleton]: "unsupported name ty h D = Some (rc, D') \<Longrightarrow> skeleton_of D' = skeleton_of D"
  by (auto simp: unsupported_def split: if_splits)

lemma refused_keeps [keeps_skeleton]: "refused_call f conn stmt desc D = Some (rc, D') \<Longrightarrow> skeleton_of D' = skeleton_of D"
  by (auto simp: refused_call_def refused_defs dest: unsupported_keeps split: if_splits)

lemma SQLSetDescField_keeps [keeps_skeleton]: "SQLSetDescField q n f b l D = Some (rc, D') \<Longrightarrow> skeleton_of D' = skeleton_of D"
  by (auto simp: SQLSetDescField_def on_handle_def Let_def SafeUnbindColumn_def skeleton_of_def fun_eq_iff
      split: if_splits bind_splits prod.splits option.splits)

lemma SQLGetDescField_keeps [keeps_skeleton]: "SQLGetDescField q n f b D = Some (rc, D') \<Longrightarrow> skeleton_of D' = skeleton_of D"
  by (auto simp: SQLGetDescField_def on_handle_def Let_def split: if_splits bind_splits prod.splits option.splits)

lemma SQLCopyDesc_keeps [keeps_skeleton]: "SQLCopyDesc q t D = Some (rc, D') \<Longrightarrow> skeleton_of D' = skeleton_of D"
  by (auto simp: SQLCopyDesc_def on_handle_def Let_def split: if_splits bind_splits prod.splits)

lemma RestoreDescriptor_id [simp]: "st_id (RestoreDescriptor k st) = st_id st"
  by (simp add: RestoreDescriptor_def)

lemma Deregister_keeps: "Deregister d D = Some D' \<Longrightarrow> skeleton_of D' = skeleton_of D"
  by (auto simp: Deregister_def skeleton_stmt split: if_splits bind_splits)

lemma SQLFreeDescriptor_keeps [keeps_skeleton]: "SQLFreeDescriptor q D = Some (rc, D') \<Longrightarrow> skeleton_of D' = skeleton_of D"
  by (auto simp: SQLFreeDescriptor_def on_handle_def dest: Deregister_keeps split: if_splits bind_splits)

end
