(* ===== verification/Driver_Runs.thy ===== *)
theory Driver_Runs
  imports Driver_Handles
begin

text \<open>
  Runs of the driver: an application allocates handles, calls functions and frees handles, children before
  their parents, while workers fetch pages. The invariant over all runs: handles, registrations, cursor
  names and the counter of connections agree with each other.
\<close>

section \<open>The invariant of the skeleton\<close>

definition envs_ok :: "skeleton \<Rightarrow> bool" where
  "envs_ok S \<longleftrightarrow>
     (\<forall>h e a. sk_envs S h = Some e \<longrightarrow> a \<in> e \<longrightarrow> (\<exists>c. sk_conns S a = Some (h, c))) \<and> sk_envs S 0 = None"

definition conns_ok :: "skeleton \<Rightarrow> bool" where
  "conns_ok S \<longleftrightarrow>
     (\<forall>a h c. sk_conns S a = Some (h, c) \<longrightarrow> (\<exists>e. sk_envs S h = Some e \<and> a \<in> e)) \<and> sk_conns S 0 = None"

definition cursors_ok :: "skeleton \<Rightarrow> bool" where
  "cursors_ok S \<longleftrightarrow>
     (\<forall>a h i m n. sk_conns S a = Some (h, i, m, n) \<longrightarrow>
        i = a \<and> n = ran m \<and> inj_on m (dom m) \<and> (\<forall>k\<in>dom m. \<exists>j. sk_stmts S k = Some (a, j)))"

definition stmts_ok :: "skeleton \<Rightarrow> bool" where
  "stmts_ok S \<longleftrightarrow>
     (\<forall>k a j. sk_stmts S k = Some (a, j) \<longrightarrow> j = k \<and> sk_conns S a \<noteq> None) \<and> sk_stmts S 0 = None"

definition count_ok :: "skeleton \<Rightarrow> bool" where
  "count_ok S \<longleftrightarrow>
     finite (dom (sk_conns S)) \<and> sk_refs S = int (card (dom (sk_conns S)))
     \<and> (sk_sdk S \<longleftrightarrow> dom (sk_conns S) \<noteq> {})"

definition skeleton_ok :: "skeleton \<Rightarrow> bool" where
  "skeleton_ok S \<longleftrightarrow> envs_ok S \<and> conns_ok S \<and> cursors_ok S \<and> stmts_ok S \<and> count_ok S"

lemmas ok_defs = envs_ok_def conns_ok_def cursors_ok_def stmts_ok_def

lemma ok_fresh: "skeleton_ok (skeleton_of (fresh_driver junk lg m))"
  by (simp add: skeleton_ok_def ok_defs count_ok_def skeleton_of_def fresh_driver_def)

lemma envs_okD: "envs_ok S \<Longrightarrow> sk_envs S h = Some e \<Longrightarrow> a \<in> e \<Longrightarrow> \<exists>c. sk_conns S a = Some (h, c)"
  by (simp add: envs_ok_def)

lemma envs_okI:
  assumes "\<And>h e a. sk_envs S h = Some e \<Longrightarrow> a \<in> e \<Longrightarrow> \<exists>c. sk_conns S a = Some (h, c)" and "sk_envs S 0 = None"
  shows "envs_ok S"
  using assms by (simp add: envs_ok_def)

lemma conns_okD: "conns_ok S \<Longrightarrow> sk_conns S a = Some (h, c) \<Longrightarrow> \<exists>e. sk_envs S h = Some e \<and> a \<in> e"
  unfolding conns_ok_def by blast

lemma conns_okI:
  assumes "\<And>a h c. sk_conns S a = Some (h, c) \<Longrightarrow> \<exists>e. sk_envs S h = Some e \<and> a \<in> e" and "sk_conns S 0 = None"
  shows "conns_ok S"
  using assms unfolding conns_ok_def by blast

lemma cursors_okD:
  assumes "cursors_ok S" and "sk_conns S a = Some (h, i, m, n)"
  shows "i = a" "n = ran m" "inj_on m (dom m)" "k \<in> dom m \<Longrightarrow> \<exists>j. sk_stmts S k = Some (a, j)"
  using assms unfolding cursors_ok_def by blast+

lemma cursors_okI:
  assumes "\<And>a h i m n. sk_conns S a = Some (h, i, m, n) \<Longrightarrow>
      i = a \<and> n = ran m \<and> inj_on m (dom m) \<and> (\<forall>k\<in>dom m. \<exists>j. sk_stmts S k = Some (a, j))"
  shows "cursors_ok S"
  using assms unfolding cursors_ok_def by blast

lemma stmts_okD: "stmts_ok S \<Longrightarrow> sk_stmts S k = Some (a, j) \<Longrightarrow> j = k \<and> sk_conns S a \<noteq> None"
  unfolding stmts_ok_def by blast

lemma stmts_okI:
  assumes "\<And>k a j. sk_stmts S k = Some (a, j) \<Longrightarrow> j = k \<and> sk_conns S a \<noteq> None" and "sk_stmts S 0 = None"
  shows "stmts_ok S"
  using assms unfolding stmts_ok_def by blast

lemma ok_parts:
  assumes "skeleton_ok S"
  shows "envs_ok S" "conns_ok S" "cursors_ok S" "stmts_ok S" "count_ok S"
    and "sk_envs S 0 = None" "sk_conns S 0 = None" "sk_stmts S 0 = None"
  using assms by (simp_all add: skeleton_ok_def ok_defs)

lemma live_not_null: "skeleton_ok S \<Longrightarrow> sk_envs S h = Some e \<Longrightarrow> h \<noteq> 0"
  using ok_parts(6) [of S] by (cases "h = 0") auto

lemma ok_new_env:
  assumes ok: "skeleton_ok S" and new: "sk_envs S a = None" "a \<noteq> 0"
  shows "skeleton_ok (S\<lparr>sk_envs := (sk_envs S)(a \<mapsto> {})\<rparr>)" (is "skeleton_ok ?S")
proof -
  note P = ok_parts [OF ok]
  have "envs_ok ?S" using envs_okD [OF P(1)] P(6) new by (intro envs_okI) (auto split: if_splits)
  moreover have "conns_ok ?S" using conns_okD [OF P(2)] P(7) new by (intro conns_okI) force+
  ultimately show ?thesis using ok by (simp add: skeleton_ok_def stmts_ok_def cursors_ok_def count_ok_def)
qed

lemma ok_del_env:
  assumes ok: "skeleton_ok S" and e: "sk_envs S h = Some {}"
  shows "skeleton_ok (S\<lparr>sk_envs := (sk_envs S)(h := None)\<rparr>)" (is "skeleton_ok ?S")
proof -
  note P = ok_parts [OF ok]
  have "envs_ok ?S" using envs_okD [OF P(1)] P(6) by (intro envs_okI) (auto split: if_splits)
  moreover have "conns_ok ?S" using conns_okD [OF P(2)] P(7) e by (intro conns_okI) force+
  ultimately show ?thesis using ok by (simp add: skeleton_ok_def stmts_ok_def cursors_ok_def count_ok_def)
qed

lemma ok_new_conn:
  assumes ok: "skeleton_ok S" and e: "sk_envs S h = Some e" and new: "sk_conns S a = None" "a \<noteq> 0"
  shows "skeleton_ok (S\<lparr>sk_envs := (sk_envs S)(h \<mapsto> insert a e), sk_conns := (sk_conns S)(a \<mapsto> (h, a, Map.empty, {})),
    sk_refs := sk_refs S + 1, sk_sdk := True\<rparr>)" (is "skeleton_ok ?S")
proof -
  note P = ok_parts [OF ok]
  have "a \<notin> dom (sk_conns S)" using new by auto
  then have "count_ok ?S" using P(5) by (simp add: count_ok_def)
  moreover have "envs_ok ?S"
  proof (rule envs_okI)
    fix k d b assume k: "sk_envs ?S k = Some d" "b \<in> d"
    show "\<exists>c. sk_conns ?S b = Some (k, c)"
    proof (cases "b = a")
      case True
      with k new envs_okD [OF P(1)] show ?thesis by (cases "k = h") fastforce+
    next
      case False
      with k e envs_okD [OF P(1), of k _ b] show ?thesis by (auto split: if_splits)
    qed
  qed (use P(6) live_not_null [OF ok e] in simp)
  moreover have "conns_ok ?S"
  proof (rule conns_okI)
    fix b k c assume "sk_conns ?S b = Some (k, c)"
    then show "\<exists>d. sk_envs ?S k = Some d \<and> b \<in> d"
      using e conns_okD [OF P(2), of b k c] by (auto split: if_splits)
  qed (use P(7) new in simp)
  moreover have "cursors_ok ?S"
    using P(3) unfolding cursors_ok_def by simp
  moreover have "stmts_ok ?S" using stmts_okD [OF P(4)] P(8) by (intro stmts_okI) auto
  ultimately show ?thesis by (simp add: skeleton_ok_def)
qed

lemma ok_new_stmt:
  assumes ok: "skeleton_ok S" and c: "sk_conns S c \<noteq> None" and new: "sk_stmts S a = None" "a \<noteq> 0"
  shows "skeleton_ok (S\<lparr>sk_stmts := (sk_stmts S)(a \<mapsto> (c, a))\<rparr>)" (is "skeleton_ok ?S")
proof -
  note P = ok_parts [OF ok]
  have "cursors_ok ?S"
  proof (rule cursors_okI)
    fix b h i m n assume b: "sk_conns ?S b = Some (h, i, m, n)"
    then have b': "sk_conns S b = Some (h, i, m, n)" by simp
    have "\<exists>j. sk_stmts ?S k = Some (b, j)" if "k \<in> dom m" for k
      using cursors_okD(4) [OF P(3) b' that] new by auto
    with cursors_okD(1-3) [OF P(3) b']
    show "i = b \<and> n = ran m \<and> inj_on m (dom m) \<and> (\<forall>k\<in>dom m. \<exists>j. sk_stmts ?S k = Some (b, j))" by blast
  qed
  moreover have "stmts_ok ?S" using stmts_okD [OF P(4)] P(8) c new by (intro stmts_okI) (auto split: if_splits)
  ultimately show ?thesis using ok by (simp add: skeleton_ok_def envs_ok_def conns_ok_def count_ok_def)
qed

lemma card_less_one:
  assumes "finite A" and "a \<in> A"
  shows "(int (card A) - 1 = 0) = (A - {a} = {})" and "int (card (A - {a})) = int (card A) - 1"
proof -
  have "0 < card A" using assms by (auto simp: card_gt_0_iff)
  moreover have "card (A - {a}) = card A - 1" using assms by simp
  ultimately show c: "int (card (A - {a})) = int (card A) - 1" by simp
  show "(int (card A) - 1 = 0) = (A - {a} = {})" using assms(1) c [symmetric] by simp
qed

lemma ok_del_conn:
  assumes ok: "skeleton_ok S" and c: "sk_conns S a = Some (h, c)" and e: "sk_envs S h = Some e"
    and alone: "\<And>k b j. sk_stmts S k = Some (b, j) \<Longrightarrow> b \<noteq> a"
  shows "skeleton_ok (S\<lparr>sk_envs := (sk_envs S)(h \<mapsto> e - {a}), sk_conns := (sk_conns S)(a := None),
    sk_refs := sk_refs S - 1, sk_sdk := (if sk_refs S - 1 = 0 then False else sk_sdk S)\<rparr>)" (is "skeleton_ok ?S")
proof -
  note P = ok_parts [OF ok]
  have a: "a \<in> dom (sk_conns S)" using c by auto
  have "count_ok ?S"
    using P(5) card_less_one [OF _ a] a by (auto simp: count_ok_def simp del: Diff_eq_empty_iff)
  moreover have "envs_ok ?S"
  proof (rule envs_okI)
    fix k d b assume k: "sk_envs ?S k = Some d" "b \<in> d"
    then obtain d' where d: "sk_envs S k = Some d'" "b \<in> d'" using e by (auto split: if_splits)
    from envs_okD [OF P(1) d] obtain c' where c': "sk_conns S b = Some (k, c')" by blast
    moreover have "b \<noteq> a" using k c c' by auto
    ultimately show "\<exists>c. sk_conns ?S b = Some (k, c)" by (cases c') simp
  qed (use P(6) live_not_null [OF ok e] in simp)
  moreover have "conns_ok ?S"
  proof (rule conns_okI)
    fix b k c assume "sk_conns ?S b = Some (k, c)"
    then show "\<exists>d. sk_envs ?S k = Some d \<and> b \<in> d"
      using e conns_okD [OF P(2), of b k c] by (auto split: if_splits)
  qed (use P(7) in simp)
  moreover have "cursors_ok ?S"
    using P(3) unfolding cursors_ok_def by simp
  moreover have "stmts_ok ?S" using stmts_okD [OF P(4)] P(8) alone by (intro stmts_okI) (auto split: if_splits)
  ultimately show ?thesis by (simp add: skeleton_ok_def)
qed

text \<open>Naming a cursor, and dropping a statement with its name.\<close>

lemma ok_rename:
  assumes ok: "skeleton_ok S" and c: "sk_conns S a = Some (h, i, m, n)"
    and new: "n' = ran m'" "inj_on m' (dom m')" "\<And>k. k \<in> dom m' \<Longrightarrow> \<exists>j. sk_stmts S k = Some (a, j)"
  shows "skeleton_ok (S\<lparr>sk_conns := (sk_conns S)(a \<mapsto> (h, i, m', n'))\<rparr>)" (is "skeleton_ok ?S")
proof -
  note P = ok_parts [OF ok]
  have "dom (sk_conns ?S) = dom (sk_conns S)" using c by auto
  then have "count_ok ?S" using P(5) by (simp add: count_ok_def)
  moreover have "envs_ok ?S"
  proof (rule envs_okI)
    fix k d b assume "sk_envs ?S k = Some d" "b \<in> d"
    then show "\<exists>c. sk_conns ?S b = Some (k, c)" using envs_okD [OF P(1), of k d b] c by auto
  qed (use P(6) in simp)
  moreover have "conns_ok ?S"
  proof (rule conns_okI)
    fix b k d assume "sk_conns ?S b = Some (k, d)"
    then show "\<exists>e. sk_envs ?S k = Some e \<and> b \<in> e"
      using conns_okD [OF P(2), of b k] c by (auto split: if_splits)
  next
    show "sk_conns ?S 0 = None" using P(7) c by (cases "a = 0") auto
  qed
  moreover have "cursors_ok ?S"
  proof (rule cursors_okI)
    fix b h2 i2 m2 n2 assume b: "sk_conns ?S b = Some (h2, i2, m2, n2)"
    show "i2 = b \<and> n2 = ran m2 \<and> inj_on m2 (dom m2) \<and> (\<forall>k\<in>dom m2. \<exists>j. sk_stmts ?S k = Some (b, j))"
    proof (cases "b = a")
      case True
      with b new cursors_okD(1) [OF P(3) c] show ?thesis by auto
    next
      case False
      then have "sk_conns S b = Some (h2, i2, m2, n2)" using b by simp
      from cursors_okD [OF P(3) this] show ?thesis by simp
    qed
  qed
  moreover have "stmts_ok ?S" using stmts_okD [OF P(4)] P(8) by (intro stmts_okI) (auto split: if_splits)
  ultimately show ?thesis by (simp add: skeleton_ok_def)
qed

lemma ok_del_stmt:
  assumes ok: "skeleton_ok S" and unnamed: "\<And>a h i m n. sk_conns S a = Some (h, i, m, n) \<Longrightarrow> k \<notin> dom m"
  shows "skeleton_ok (S\<lparr>sk_stmts := (sk_stmts S)(k := None)\<rparr>)" (is "skeleton_ok ?S")
proof -
  note P = ok_parts [OF ok]
  have "cursors_ok ?S"
  proof (rule cursors_okI)
    fix b h i m n assume "sk_conns ?S b = Some (h, i, m, n)"
    then have b: "sk_conns S b = Some (h, i, m, n)" by simp
    have "\<exists>j. sk_stmts ?S l = Some (b, j)" if "l \<in> dom m" for l
      using cursors_okD(4) [OF P(3) b that] unnamed [OF b] that by auto
    with cursors_okD(1-3) [OF P(3) b]
    show "i = b \<and> n = ran m \<and> inj_on m (dom m) \<and> (\<forall>l\<in>dom m. \<exists>j. sk_stmts ?S l = Some (b, j))" by blast
  qed
  moreover have "stmts_ok ?S" using stmts_okD [OF P(4)] P(8) by (intro stmts_okI) (auto split: if_splits)
  ultimately show ?thesis using ok by (simp add: skeleton_ok_def envs_ok_def conns_ok_def count_ok_def)
qed

section \<open>Runs\<close>

text \<open>The calls that allocate nothing, free no more than a descriptor and name no cursor.\<close>

inductive plain_call :: "'ci world \<Rightarrow> 'ci api \<Rightarrow> bool" for W :: "'ci world" where
  call_Prepare: "plain_call W (SQLPrepare W h q n)"
| call_Execute: "plain_call W (SQLExecute W h)"
| call_ExecDirect: "plain_call W (SQLExecDirect W h q n)"
| call_Cancel: "plain_call W (SQLCancel W h)"
| call_MoreResults: "plain_call W (SQLMoreResults W h)"
| call_RowCount: "plain_call W (SQLRowCount W h p)"
| call_CloseCursor: "plain_call W (SQLCloseCursor W h)"
| call_Tables: "plain_call W (SQLTables W h c s t k)"
| call_Columns: "plain_call W (SQLColumns W h c s t k)"
| call_Statistics: "plain_call W (SQLStatistics W h)"
| call_GetTypeInfo: "plain_call W (SQLGetTypeInfo W h ty)"
| call_ColumnPrivileges: "plain_call W (SQLColumnPrivileges W h)"
| call_TablePrivileges: "plain_call W (SQLTablePrivileges W h)"
| call_ForeignKeys: "plain_call W (SQLForeignKeys W h)"
| call_PrimaryKeys: "plain_call W (SQLPrimaryKeys W h)"
| call_SpecialColumns: "plain_call W (SQLSpecialColumns W h)"
| call_ProcedureColumns: "plain_call W (SQLProcedureColumns W h)"
| call_Procedures: "plain_call W (SQLProcedures W h)"
| call_BindCol: "plain_call W (SQLBindCol h i t v n p)"
| call_Fetch: "plain_call W (SQLFetch W h)"
| call_FetchScroll: "plain_call W (SQLFetchScroll W h ori)"
| call_ExtendedFetch: "plain_call W (SQLExtendedFetch W h ori cnt sts)"
| call_GetData: "plain_call W (SQLGetData W h i t v n p)"
| call_NumResultCols: "plain_call W (SQLNumResultCols W h out)"
| call_ColAttribute: "plain_call W (SQLColAttribute W h i f b n r k)"
| call_ColAttributes: "plain_call W (SQLColAttributes W h i f b n r k)"
| call_DescribeCol: "plain_call W (SQLDescribeCol W h i b n k d c g u)"
| call_GetStmtAttr: "plain_call W (SQLGetStmtAttr W h attr buf res)"
| call_SetStmtAttr: "plain_call W (SQLSetStmtAttr h attr v)"
| call_GetStmtOption: "plain_call W (SQLGetStmtOption W h opt buf)"
| call_GetCursorName: "plain_call W (SQLGetCursorName W h buf len res)"
| call_DriverConnect: "plain_call W (SQLDriverConnect W h t n b m r)"
| call_Connect: "plain_call W (SQLConnect W h t n b m r k)"
| call_Disconnect: "plain_call W (SQLDisconnect h)"
| call_GetInfo: "plain_call W (SQLGetInfo W h ty b n r)"
| call_NativeSql: "plain_call W (SQLNativeSql W h i n b m r)"
| call_GetFunctions: "plain_call W (SQLGetFunctions h f a)"
| call_GetConnectAttr: "plain_call W (SQLGetConnectAttr h a b r)"
| call_SetConnectAttr: "plain_call W (SQLSetConnectAttr h a v)"
| call_GetConnectOption: "plain_call W (SQLGetConnectOption h a b)"
| call_SetConnectOption: "plain_call W (SQLSetConnectOption h a v)"
| call_SetEnvAttr: "plain_call W (SQLSetEnvAttr h a v)"
| call_GetEnvAttr: "plain_call W (SQLGetEnvAttr W h a b n r)"
| call_GetDiagField: "plain_call W (SQLGetDiagField W ty h n f b l r)"
| call_GetDiagRec: "plain_call W (SQLGetDiagRec W ty h n st na b l r)"
| call_Error: "plain_call W (SQLError_call W e c st x na b l r)"
| call_SetDescField: "plain_call W (SQLSetDescField q n f b l)"
| call_GetDescField: "plain_call W (SQLGetDescField q n f b)"
| call_CopyDesc: "plain_call W (SQLCopyDesc q t)"
| call_FreeDescriptor: "plain_call W (SQLFreeDescriptor q)"
| call_refused: "plain_call W (refused_call f c st q)"
| call_FreeStmt: "opt \<noteq> SQL_DROP \<Longrightarrow> plain_call W (SQLFreeStmt W h opt)"

lemma empty_catalog_keeps:
  "SQLColumnPrivileges W h D = Some (rc, D') \<Longrightarrow> skeleton_of D' = skeleton_of D"
  "SQLTablePrivileges W h D = Some (rc, D') \<Longrightarrow> skeleton_of D' = skeleton_of D"
  "SQLForeignKeys W h D = Some (rc, D') \<Longrightarrow> skeleton_of D' = skeleton_of D"
  "SQLPrimaryKeys W h D = Some (rc, D') \<Longrightarrow> skeleton_of D' = skeleton_of D"
  "SQLSpecialColumns W h D = Some (rc, D') \<Longrightarrow> skeleton_of D' = skeleton_of D"
  "SQLProcedureColumns W h D = Some (rc, D') \<Longrightarrow> skeleton_of D' = skeleton_of D"
  "SQLProcedures W h D = Some (rc, D') \<Longrightarrow> skeleton_of D' = skeleton_of D"
  unfolding SQLColumnPrivileges_def SQLTablePrivileges_def SQLForeignKeys_def SQLPrimaryKeys_def
    SQLSpecialColumns_def SQLProcedureColumns_def SQLProcedures_def
  by (erule catalog_call_keeps)+

lemma SQLCloseCursor_keeps: "SQLCloseCursor W h D = Some (rc, D') \<Longrightarrow> skeleton_of D' = skeleton_of D"
  unfolding SQLCloseCursor_def
  by (split if_split_asm, simp) (elim stmt_call_keeps in_stmt_keeps, auto dest: keeps_id)

lemma SQLFreeStmt_keeps:
  "opt \<noteq> SQL_DROP \<Longrightarrow> SQLFreeStmt W h opt D = Some (rc, D') \<Longrightarrow> skeleton_of D' = skeleton_of D"
  unfolding SQLFreeStmt_def
  by (simp del: One_nat_def) (elim stmt_call_keeps in_stmt_keeps, auto dest: keeps_id)

lemma plain_call_keeps:
  assumes "plain_call W f" and "f D = Some (rc, D')"
  shows "skeleton_of D' = skeleton_of D"
  using assms
  by (induction rule: plain_call.induct)
    (blast dest: keeps_skeleton empty_catalog_keeps SQLCloseCursor_keeps SQLFreeStmt_keeps)+

text \<open>Naming a cursor.\<close>

lemma cursors_ok_names:
  assumes "cursors_ok S" and "sk_conns S a = Some (h, conn_skeleton cn)"
  shows "cn_id cn = a" "cursorNames cn = ran (cursorNameMap cn)" "inj_on (cursorNameMap cn) (dom (cursorNameMap cn))"
    "\<And>k. k \<in> dom (cursorNameMap cn) \<Longrightarrow> \<exists>j. sk_stmts S k = Some (a, j)"
  using cursors_okD [OF assms(1), of a h] assms(2) by (simp_all add: conn_skeleton_def)

lemma add_cursor_name:
  assumes "cursorNames cn = ran (cursorNameMap cn)" and "inj_on (cursorNameMap cn) (dom (cursorNameMap cn))"
    and "n \<notin> cursorNames cn" and "cn' = snd (AddCursorName i n cn)"
  shows "cursorNames cn' = ran (cursorNameMap cn')" "inj_on (cursorNameMap cn') (dom (cursorNameMap cn'))"
    "dom (cursorNameMap cn') = insert i (dom (cursorNameMap cn))" "cn_id cn' = cn_id cn"
proof -
  let ?m = "cursorNameMap cn"
  have "ran (?m(i \<mapsto> n)) = insert n (ran (?m(i := None)))" by (auto simp: ran_def)
  then have r: "ran (?m(i \<mapsto> n)) = insert n (cursorNames cn - (case ?m i of None \<Rightarrow> {} | Some old \<Rightarrow> {old}))"
    using ran_update_inj [OF assms(2)] assms(1) by simp
  have i: "inj_on (?m(i \<mapsto> n)) (insert i (dom ?m))"
    using assms(1-3) by (auto simp: inj_on_def ran_def)
  have c: "cursorNameMap cn' = ?m(i \<mapsto> n)" "cn_id cn' = cn_id cn"
    "cursorNames cn' = insert n (cursorNames cn - (case ?m i of None \<Rightarrow> {} | Some old \<Rightarrow> {old}))"
    using assms(3) by (auto simp: assms(4) AddCursorName_def Let_def split: option.splits)
  show "cursorNames cn' = ran (cursorNameMap cn')" "cn_id cn' = cn_id cn" using r c by simp_all
  show "inj_on (cursorNameMap cn') (dom (cursorNameMap cn'))" using i c by simp
  show "dom (cursorNameMap cn') = insert i (dom (cursorNameMap cn))" using c by simp
qed

lemma skeleton_conn:
  "dv_conns D a = Some c \<Longrightarrow> sk_conns (skeleton_of D) a = Some (co_env c, conn_skeleton (co_conn c))"
  by (simp add: skeleton_of_def)

lemma skeleton_stmts:
  "dv_stmts D k = Some s \<Longrightarrow> sk_stmts (skeleton_of D) k = Some (so_conn s, st_id (so_stmt s))"
  by (simp add: skeleton_of_def)

text \<open>A call on a statement that changes the skeleton of its connection only.\<close>

lemma skeleton_put_stmt:
  assumes o: "open_stmt h D = Some (s, c, x)" and "st_id (cx_stmt x') = st_id (cx_stmt x)" and "cx_env x' = cx_env x"
  shows "skeleton_of (put_stmt h s c x' D) =
    (skeleton_of D)\<lparr>sk_conns := (sk_conns (skeleton_of D))(so_conn s \<mapsto> (co_env c, conn_skeleton (cx_conn x')))\<rparr>"
  using assms by (auto simp: open_stmt_def put_stmt_def skeleton_of_def fun_eq_iff split: bind_splits)

lemma open_stmt_parts:
  assumes "open_stmt h D = Some (s, c, x)"
  shows "dv_stmts D h = Some s" "dv_conns D (so_conn s) = Some c" "cx_stmt x = so_stmt s" "cx_conn x = co_conn c"
    "dv_envs D (co_env c) = Some (cx_env x)"
  using assms by (auto simp: open_stmt_def split: bind_splits)

lemma ok_SetCursorName:
  assumes ok: "skeleton_ok (skeleton_of D)" and call: "SQLSetCursorName W h name len D = Some (rc, D')"
  shows "skeleton_ok (skeleton_of D')"
proof (cases "h = 0")
  case True
  with ok call show ?thesis by (simp add: SQLSetCursorName_def)
next
  case False
  let ?f = "InternalSetCursorName (wd_wide W) name len"
  obtain s c x r st cn where o: "open_stmt h D = Some (s, c, x)"
    and f: "?f (cx_stmt (ctx_upd ResetStorage x), cx_conn x) = (r, st, cn)"
    and D': "D' = put_stmt h s c (ctx_upd (SetHeaderRecord r) ((ctx_upd ResetStorage x)\<lparr>cx_stmt := st, cx_conn := cn\<rparr>)) D"
    using call False
    by (auto simp: SQLSetCursorName_def stmt_call_def stmt_run_def on_handle_def stmt_protocol_def in_conn_def
        ctx_upd_def Let_def split: bind_splits prod.splits)
  note o' = open_stmt_parts [OF o] and P = ok_parts [OF ok]
  have id: "st_id st = st_id (so_stmt s)" using set_cursor_name_id [OF f] o'(3) by (simp add: ctx_upd_def)
  have sk: "skeleton_of D' =
    (skeleton_of D)\<lparr>sk_conns := (sk_conns (skeleton_of D))(so_conn s \<mapsto> (co_env c, conn_skeleton cn))\<rparr>"
    unfolding D' using id o'(3) by (subst skeleton_put_stmt [OF o]) (simp_all add: ctx_upd_def)
  note K = skeleton_conn [OF o'(2)]
  from f show ?thesis
  proof (cases rule: SetCursorName_cases)
    case refused
    then have "skeleton_of D' = skeleton_of D" using sk K o'(4) by (simp add: fun_upd_idem)
    with ok show ?thesis by simp
  next
    case (named n)
    note N = cursors_ok_names [OF P(3) K]
    have h: "st_id (so_stmt s) = h" using stmts_okD [OF P(4) skeleton_stmts [OF o'(1)]] by simp
    have new: "n \<notin> cursorNames (co_conn c)" "cn = snd (AddCursorName h n (co_conn c))"
      using named o'(3,4) h by (simp_all add: ctx_upd_def)
    note A = add_cursor_name [OF N(2,3) new]
    show ?thesis unfolding sk conn_skeleton_def
    proof (rule ok_rename [OF ok])
      show "sk_conns (skeleton_of D) (so_conn s) =
        Some (co_env c, cn_id cn, cursorNameMap (co_conn c), cursorNames (co_conn c))"
        using K A(4) by (simp add: conn_skeleton_def)
      show "\<exists>j. sk_stmts (skeleton_of D) k = Some (so_conn s, j)" if "k \<in> dom (cursorNameMap cn)" for k
        using that A(3) N(4) skeleton_stmts [OF o'(1)] by (cases "k = h") simp_all
    qed (use A in simp_all)
  qed
qed

text \<open>Allocating a handle at an address that is not in use.\<close>

definition unused :: "nat \<Rightarrow> 'ci driver \<Rightarrow> bool" where
  "unused a D \<longleftrightarrow> a \<noteq> 0 \<and> dv_envs D a = None \<and> dv_conns D a = None \<and> dv_stmts D a = None"

lemma unused_skeleton:
  assumes "unused a D"
  shows "a \<noteq> 0" "sk_envs (skeleton_of D) a = None" "sk_conns (skeleton_of D) a = None" "sk_stmts (skeleton_of D) a = None"
  using assms by (simp_all add: unused_def skeleton_of_def)

lemma statement_attribute_keeps:
  "Statement_SetAttribute attr v (st, h, cn, lg) = (st', h', cn', lg') \<Longrightarrow>
   st_id st' = st_id st \<and> conn_skeleton cn' = conn_skeleton cn"
  by (auto simp: Statement_SetAttribute_def api_call_def st_upd_def dest!: set_attribute_keeps split: prod.splits)

lemma statement_attributes_keep:
  "SetStatementAttributes t (st, h, cn, lg) = (st', h', cn', lg') \<Longrightarrow>
   st_id st' = st_id st \<and> conn_skeleton cn' = conn_skeleton cn"
proof -
  let ?P = "\<lambda>(y :: 'q stmt_state). st_id (fst y) = st_id st \<and> conn_skeleton (fst (snd (snd y))) = conn_skeleton cn"
  have step: "?P y \<Longrightarrow> ?P (Statement_SetAttribute attr v y)" for attr v y
    using statement_attribute_keeps by (cases y, cases "Statement_SetAttribute attr v y") fastforce
  assume "SetStatementAttributes t (st, h, cn, lg) = (st', h', cn', lg')"
  then have "?P (st', h', cn', lg')"
    unfolding SetStatementAttributes_def by (simp only: fold_simps o_def id_apply) (metis (lifting) step fst_conv snd_conv)
  then show ?thesis by simp
qed

lemma create_statement_keeps:
  "InternalCreateStatement a p q r s junk (h, cn, lg) = (res, st, h', cn', lg') \<Longrightarrow>
   st_id st = a \<and> conn_skeleton cn' = conn_skeleton cn"
  by (auto simp: InternalCreateStatement_def NewStatement_def dest: statement_attributes_keep)

lemma ok_AllocEnv:
  assumes ok: "skeleton_ok (skeleton_of D)" and new: "unused a D"
  shows "skeleton_ok (skeleton_of (D\<lparr>dv_envs := (dv_envs D)(a \<mapsto> NewEnvironment)\<rparr>))"
proof -
  have "skeleton_of (D\<lparr>dv_envs := (dv_envs D)(a \<mapsto> NewEnvironment)\<rparr>) =
    (skeleton_of D)\<lparr>sk_envs := (sk_envs (skeleton_of D))(a \<mapsto> {})\<rparr>"
    by (simp add: skeleton_of_def NewEnvironment_def fun_eq_iff)
  with ok_new_env [OF ok] unused_skeleton [OF new] show ?thesis by simp
qed

lemma ok_AllocConnect:
  assumes ok: "skeleton_ok (skeleton_of D)" and new: "unused a D" and e: "dv_envs D env = Some e"
  shows "skeleton_ok (skeleton_of (construct_connection W env a
    (D\<lparr>dv_envs := (dv_envs D)(env \<mapsto> api_call env_upd (InternalCreateConnection a) e)\<rparr>)))" (is "skeleton_ok ?S")
proof -
  have "?S = (skeleton_of D)\<lparr>sk_envs := (sk_envs (skeleton_of D))(env \<mapsto> insert a (en_connections e)),
      sk_conns := (sk_conns (skeleton_of D))(a \<mapsto> (env, a, Map.empty, {})),
      sk_refs := sk_refs (skeleton_of D) + 1, sk_sdk := True\<rparr>"
    by (simp add: skeleton_of_def construct_connection_def conn_skeleton_def NewConnection_def api_call_def
        InternalCreateConnection_def env_upd_def fun_eq_iff)
  moreover have "sk_envs (skeleton_of D) env = Some (en_connections e)" using e by (simp add: skeleton_of_def)
  ultimately show ?thesis using ok_new_conn [OF ok] unused_skeleton [OF new] by simp
qed

lemma ok_AllocStmt:
  assumes ok: "skeleton_ok (skeleton_of D)" and new: "unused a D" and al: "SQLAllocStmt W conn a ps D = Some (rc, out, D')"
  shows "skeleton_ok (skeleton_of D')"
proof (cases "conn = 0")
  case True
  with ok al show ?thesis by (simp add: SQLAllocStmt_def)
next
  case False
  obtain p q r s where ps: "ps = (p, q, r, s)" by (metis prod_cases4)
  obtain c cn lg m where o: "open_conn conn D = Some (c, cn, lg, m)"
    using al False by (auto simp: SQLAllocStmt_def ps)
  obtain res and st :: "'a any_query statement" and h cn' lg' where f: "InternalCreateStatement a p q r s (wd_head W)
      (dv_descs D, fst (conn_upd ResetStorage (cn, lg, m)), lg) = (res, st, h, cn', lg')"
    by (metis prod_cases5)
  have D': "D' = put_conn conn c (fst (conn_upd (SetHeaderRecord res) (cn', lg', m)), lg', m)
      (D\<lparr>dv_stmts := (dv_stmts D)(a \<mapsto> \<lparr>so_conn = conn, so_stmt = st\<rparr>), dv_descs := h, dv_live := dv_live D \<union> {p, q, r, s}\<rparr>)"
    using al False by (simp add: SQLAllocStmt_def ps Let_def o f)
  have c: "dv_conns D conn = Some c" "cn = co_conn c"
    using o by (auto simp: open_conn_def split: bind_splits if_splits)
  from create_statement_keeps [OF f] have "st_id st = a" "conn_skeleton cn' = conn_skeleton (co_conn c)"
    using c(2) by simp_all
  with c(1) have "skeleton_of D' = (skeleton_of D)\<lparr>sk_stmts := (sk_stmts (skeleton_of D))(a \<mapsto> (conn, a))\<rparr>"
    by (simp add: D' put_conn_def skeleton_of_def fun_eq_iff)
  with ok_new_stmt [OF ok, of conn a] unused_skeleton [OF new] skeleton_conn [OF c(1)] show ?thesis by simp
qed

lemma SQLAllocDesc_keeps: "SQLAllocDesc W conn p D = Some (rc, out, D') \<Longrightarrow> skeleton_of D' = skeleton_of D"
  by (auto simp: SQLAllocDesc_def InternalCreateDescriptor_def open_conn_def put_conn_def skeleton_of_def fun_eq_iff Let_def
      split: if_splits bind_splits prod.splits)

lemma ok_AllocHandle:
  assumes ok: "skeleton_ok (skeleton_of D)" and new: "unused a D"
    and al: "SQLAllocHandle W type parent (a, p, ps) D = Some (rc, out, D')"
  shows "skeleton_ok (skeleton_of D')"
proof -
  have conn: "skeleton_ok (skeleton_of D')" if "SQLAllocConnect W parent a D = Some (rc, out, D')"
  proof (cases "parent = 0")
    case False
    with that obtain e where "dv_envs D parent = Some e" "D' = construct_connection W parent a
      (D\<lparr>dv_envs := (dv_envs D)(parent \<mapsto> api_call env_upd (InternalCreateConnection a) e)\<rparr>)"
      by (auto simp: SQLAllocConnect_def)
    with ok_AllocConnect [OF ok new] show ?thesis by simp
  qed (use ok that in \<open>simp add: SQLAllocConnect_def\<close>)
  show ?thesis
    using al ok ok_AllocEnv [OF ok new] conn ok_AllocStmt [OF ok new] SQLAllocDesc_keeps [of W parent p D rc out D']
    by (auto simp: SQLAllocHandle_def SQLAllocEnv_def split: if_splits)
qed

text \<open>Freeing a handle, children before their parents.\<close>

definition childless :: "int \<Rightarrow> nat \<Rightarrow> 'ci driver \<Rightarrow> bool" where
  "childless type h D \<longleftrightarrow>
     (if type = SQL_HANDLE_ENV then \<forall>e. dv_envs D h = Some e \<longrightarrow> en_connections e = {}
      else if type = SQL_HANDLE_DBC then \<forall>k s. dv_stmts D k = Some s \<longrightarrow> so_conn s \<noteq> h
      else True)"

lemma ok_FreeEnv:
  assumes ok: "skeleton_ok (skeleton_of D)" and fr: "SQLFreeEnv h D = Some (rc, D')" and "childless SQL_HANDLE_ENV h D"
  shows "skeleton_ok (skeleton_of D')"
proof (cases "h = 0")
  case True
  with ok fr show ?thesis by (simp add: SQLFreeEnv_def)
next
  case False
  then obtain e where e: "dv_envs D h = Some e" "D' = D\<lparr>dv_envs := (dv_envs D)(h := None)\<rparr>"
    using fr by (auto simp: SQLFreeEnv_def on_handle_def split: bind_splits)
  then have "skeleton_of D' = (skeleton_of D)\<lparr>sk_envs := (sk_envs (skeleton_of D))(h := None)\<rparr>"
    by (simp add: skeleton_of_def fun_eq_iff)
  moreover have "sk_envs (skeleton_of D) h = Some {}" using assms(3) e by (simp add: childless_def skeleton_of_def)
  ultimately show ?thesis using ok_del_env [OF ok] by simp
qed

lemma ok_FreeConnect:
  assumes ok: "skeleton_ok (skeleton_of D)" and fr: "SQLFreeConnect h D = Some (rc, D')" and alone: "childless SQL_HANDLE_DBC h D"
  shows "skeleton_ok (skeleton_of D')"
proof (cases "h = 0")
  case True
  with ok fr show ?thesis by (simp add: SQLFreeConnect_def)
next
  case False
  then obtain c e where e: "dv_conns D h = Some c" "dv_envs D (co_env c) = Some e"
    "D' = destroy_connection h (D\<lparr>dv_envs := (dv_envs D)(co_env c \<mapsto> DeregisterConnection h e)\<rparr>)"
    using fr by (auto simp: SQLFreeConnect_def on_handle_def split: bind_splits)
  let ?S = "skeleton_of D"
  have "skeleton_of D' = ?S\<lparr>sk_envs := (sk_envs ?S)(co_env c \<mapsto> en_connections e - {h}),
      sk_conns := (sk_conns ?S)(h := None), sk_refs := sk_refs ?S - 1,
      sk_sdk := (if sk_refs ?S - 1 = 0 then False else sk_sdk ?S)\<rparr>"
    by (simp add: e(3) skeleton_of_def destroy_connection_def DeregisterConnection_def Let_def fun_eq_iff)
  moreover have "b \<noteq> h" if "sk_stmts ?S k = Some (b, j)" for k b j
    using that alone by (auto simp: skeleton_of_def childless_def)
  ultimately show ?thesis
    using ok_del_conn [OF ok skeleton_conn [OF e(1)], of "en_connections e"] e(2) by (simp add: skeleton_of_def)
qed

lemma remove_cursor_name:
  assumes "cursorNames cn = ran (cursorNameMap cn)" and "inj_on (cursorNameMap cn) (dom (cursorNameMap cn))"
  shows "cursorNameMap (RemoveCursorName i cn) = (cursorNameMap cn)(i := None)" "cn_id (RemoveCursorName i cn) = cn_id cn"
    "cursorNames (RemoveCursorName i cn) = ran ((cursorNameMap cn)(i := None))"
    "inj_on ((cursorNameMap cn)(i := None)) (dom ((cursorNameMap cn)(i := None)))"
proof -
  show "inj_on ((cursorNameMap cn)(i := None)) (dom ((cursorNameMap cn)(i := None)))"
    using assms(2) by (rule inj_on_subset [THEN inj_on_cong [THEN iffD1, rotated]]) auto
  show "cursorNameMap (RemoveCursorName i cn) = (cursorNameMap cn)(i := None)" "cn_id (RemoveCursorName i cn) = cn_id cn"
    "cursorNames (RemoveCursorName i cn) = ran ((cursorNameMap cn)(i := None))"
    using ran_update_inj [OF assms(2), of i] assms(1)
    by (auto simp: RemoveCursorName_def fun_upd_idem split: option.splits)
qed

lemma ok_drop:
  assumes ok: "skeleton_ok (skeleton_of D)" and fr: "SQLFreeStmt W h SQL_DROP D = Some (rc, D')"
  shows "skeleton_ok (skeleton_of D')"
proof (cases "h = 0")
  case True
  with ok fr show ?thesis by (simp add: SQLFreeStmt_def)
next
  case False
  then obtain s c x where o: "open_stmt h D = Some (s, c, x)"
    and D': "D' = destroy_statement h (cx_stmt x)
      (D\<lparr>dv_conns := (dv_conns D)(so_conn s \<mapsto> c\<lparr>co_conn := RemoveCursorName h (cx_conn x)\<rparr>)\<rparr>)"
    using fr by (auto simp: SQLFreeStmt_def on_handle_def drop_statement_def split: bind_splits)
  note o' = open_stmt_parts [OF o] and P = ok_parts [OF ok]
  note K = skeleton_conn [OF o'(2)]
  note N = cursors_ok_names [OF P(3) K]
  note R = remove_cursor_name [OF N(2,3)]
  let ?S = "skeleton_of D" and ?m = "(cursorNameMap (co_conn c))(h := None)"
  let ?T = "?S\<lparr>sk_conns := (sk_conns ?S)(so_conn s \<mapsto> (co_env c, cn_id (co_conn c), ?m, ran ?m))\<rparr>"
  have T: "skeleton_ok ?T"
    using K N R(4) by (intro ok_rename [OF ok, of _ _ _ "cursorNameMap (co_conn c)" "cursorNames (co_conn c)"])
      (auto simp: conn_skeleton_def)
  have "h \<notin> dom m" if "sk_conns ?T a = Some (e, i, m, n)" for a e i m n
  proof (cases "a = so_conn s")
    case False
    then have a: "sk_conns ?S a = Some (e, i, m, n)" using that by simp
    from cursors_okD(4) [OF P(3) a, of h] skeleton_stmts [OF o'(1)] False show ?thesis by auto
  qed (use that in auto)
  then have "skeleton_ok (?T\<lparr>sk_stmts := (sk_stmts ?T)(h := None)\<rparr>)" by (rule ok_del_stmt [OF T])
  also have "?T\<lparr>sk_stmts := (sk_stmts ?T)(h := None)\<rparr> = skeleton_of D'"
    using R o'(2,4) by (simp add: D' destroy_statement_def skeleton_of_def conn_skeleton_def fun_eq_iff)
  finally show ?thesis .
qed

lemma ok_FreeHandle:
  assumes "skeleton_ok (skeleton_of D)" and "SQLFreeHandle W type h D = Some (rc, D')" and "childless type (nat h) D"
  shows "skeleton_ok (skeleton_of D')"
  using assms ok_FreeEnv [OF assms(1)] ok_FreeConnect [OF assms(1)] ok_drop [OF assms(1)] SQLFreeDescriptor_keeps [of h D rc D']
  by (auto simp: SQLFreeHandle_def split: if_splits)

text \<open>A worker of the data query of a statement takes a step while the application is outside the driver.\<close>

definition worker_step :: "'ci world \<Rightarrow> nat \<Rightarrow> nat \<Rightarrow> 'ci driver \<Rightarrow> 'ci driver option" where
  "worker_step W h i D =
     Option.bind (dv_stmts D h) (\<lambda>s. Option.bind (dv_conns D (so_conn s)) (\<lambda>c.
       case currentQuery (so_stmt s) of
         Some (Data_Query q) \<Rightarrow>
           map_option (\<lambda>q'. D\<lparr>dv_stmts := (dv_stmts D)(h \<mapsto>
               s\<lparr>so_stmt := (so_stmt s)\<lparr>currentQuery := Some (Data_Query q')\<rparr>\<rparr>)\<rparr>)
             (thread_step (ev_query (wd_query W (cn_config (co_conn c)))) i q)
       | _ \<Rightarrow> None))"

lemma worker_step_keeps: "worker_step W h i D = Some D' \<Longrightarrow> skeleton_of D' = skeleton_of D"
  by (auto simp: worker_step_def skeleton_stmt split: bind_splits option.splits any_query.splits)

text \<open>What an application and the workers can do with the driver.\<close>

inductive reachable :: "'ci world \<Rightarrow> 'ci driver \<Rightarrow> bool" for W :: "'ci world" where
  reach_start: "reachable W (fresh_driver junk lg m)"
| reach_call: "reachable W D \<Longrightarrow> plain_call W f \<Longrightarrow> f D = Some (rc, D') \<Longrightarrow> reachable W D'"
| reach_name: "reachable W D \<Longrightarrow> SQLSetCursorName W h name len D = Some (rc, D') \<Longrightarrow> reachable W D'"
| reach_alloc: "reachable W D \<Longrightarrow> unused a D \<Longrightarrow>
    SQLAllocHandle W type parent (a, p, ps) D = Some (rc, out, D') \<Longrightarrow> reachable W D'"
| reach_free: "reachable W D \<Longrightarrow> childless type (nat h) D \<Longrightarrow> SQLFreeHandle W type h D = Some (rc, D') \<Longrightarrow> reachable W D'"
| reach_worker: "reachable W D \<Longrightarrow> worker_step W h i D = Some D' \<Longrightarrow> reachable W D'"
| reach_memory: "reachable W D \<Longrightarrow> reachable W (D\<lparr>dv_mem := m\<rparr>)"

lemma reachable_ok: "reachable W D \<Longrightarrow> skeleton_ok (skeleton_of D)"
proof (induction rule: reachable.induct)
  case (reach_start junk lg m)
  show ?case by (rule ok_fresh)
next
  case (reach_call D f rc D')
  with plain_call_keeps [of W f D rc D'] show ?case by simp
next
  case (reach_name D h name len rc D')
  then show ?case by (blast intro: ok_SetCursorName)
next
  case (reach_alloc D a type parent p ps rc out D')
  then show ?case by (blast intro: ok_AllocHandle)
next
  case (reach_free D type h rc D')
  then show ?case by (blast intro: ok_FreeHandle)
next
  case (reach_worker D h i D')
  with worker_step_keeps [of W h i D D'] show ?case by simp
next
  case (reach_memory D m)
  then show ?case by simp
qed

section \<open>Consistent handles\<close>

definition consistent :: "'ci driver \<Rightarrow> bool" where
  "consistent D \<longleftrightarrow>
     (\<forall>h e. dv_envs D h = Some e \<longrightarrow> en_connections e = {a. \<exists>c. dv_conns D a = Some c \<and> co_env c = h})
   \<and> (\<forall>a c. dv_conns D a = Some c \<longrightarrow> cn_id (co_conn c) = a \<and> dv_envs D (co_env c) \<noteq> None)
   \<and> (\<forall>a c. dv_conns D a = Some c \<longrightarrow>
        cursorNames (co_conn c) = ran (cursorNameMap (co_conn c))
        \<and> inj_on (cursorNameMap (co_conn c)) (dom (cursorNameMap (co_conn c)))
        \<and> (\<forall>k\<in>dom (cursorNameMap (co_conn c)). \<exists>s. dv_stmts D k = Some s \<and> so_conn s = a))
   \<and> (\<forall>k s. dv_stmts D k = Some s \<longrightarrow> st_id (so_stmt s) = k \<and> dv_conns D (so_conn s) \<noteq> None)
   \<and> dv_envs D 0 = None \<and> dv_conns D 0 = None \<and> dv_stmts D 0 = None
   \<and> finite (dom (dv_conns D)) \<and> dv_refs D = int (card (dom (dv_conns D)))
   \<and> (dv_sdk D \<longleftrightarrow> (\<exists>a. dv_conns D a \<noteq> None))"

lemma skeleton_dom: "dom (sk_conns (skeleton_of D)) = dom (dv_conns D)"
  by (auto simp: skeleton_of_def)

lemma skeleton_consistent: "skeleton_ok (skeleton_of D) \<Longrightarrow> consistent D"
proof -
  assume ok: "skeleton_ok (skeleton_of D)"
  note P = ok_parts [OF ok]
  have envs: "en_connections e = {a. \<exists>c. dv_conns D a = Some c \<and> co_env c = h}" if e: "dv_envs D h = Some e" for h e
  proof -
    have e': "sk_envs (skeleton_of D) h = Some (en_connections e)" using e by (simp add: skeleton_of_def)
    have "\<exists>c. dv_conns D a = Some c \<and> co_env c = h" if "a \<in> en_connections e" for a
      using envs_okD [OF P(1) e' that] by (auto simp: skeleton_of_def)
    moreover have "a \<in> en_connections e" if "dv_conns D a = Some c" "co_env c = h" for a c
      using conns_okD [OF P(2) skeleton_conn [OF that(1)]] that(2) e' by simp
    ultimately show ?thesis by blast
  qed
  have conns: "cn_id (co_conn c) = a \<and> dv_envs D (co_env c) \<noteq> None" if "dv_conns D a = Some c" for a c
    using conns_okD [OF P(2) skeleton_conn [OF that]] cursors_ok_names(1) [OF P(3) skeleton_conn [OF that]]
    by (auto simp: skeleton_of_def)
  have names: "cursorNames (co_conn c) = ran (cursorNameMap (co_conn c))
        \<and> inj_on (cursorNameMap (co_conn c)) (dom (cursorNameMap (co_conn c)))
        \<and> (\<forall>k\<in>dom (cursorNameMap (co_conn c)). \<exists>s. dv_stmts D k = Some s \<and> so_conn s = a)"
    if "dv_conns D a = Some c" for a c
    using cursors_ok_names(2-4) [OF P(3) skeleton_conn [OF that]] by (fastforce simp: skeleton_of_def)
  have stmts: "st_id (so_stmt s) = k \<and> dv_conns D (so_conn s) \<noteq> None" if "dv_stmts D k = Some s" for k s
    using stmts_okD [OF P(4) skeleton_stmts [OF that]] by (auto simp: skeleton_of_def)
  have "sk_refs (skeleton_of D) = dv_refs D" "sk_sdk (skeleton_of D) = dv_sdk D" by (simp_all add: skeleton_of_def)
  then have "finite (dom (dv_conns D)) \<and> dv_refs D = int (card (dom (dv_conns D))) \<and> (dv_sdk D \<longleftrightarrow> dom (dv_conns D) \<noteq> {})"
    using P(5) by (simp add: count_ok_def skeleton_dom del: dom_eq_empty_conv)
  then have "finite (dom (dv_conns D)) \<and> dv_refs D = int (card (dom (dv_conns D)))
      \<and> (dv_sdk D \<longleftrightarrow> (\<exists>a. dv_conns D a \<noteq> None))"
    by (simp add: fun_eq_iff)
  moreover have "dv_envs D 0 = None \<and> dv_conns D 0 = None \<and> dv_stmts D 0 = None"
    using P(6-8) by (simp add: skeleton_of_def)
  ultimately show ?thesis unfolding consistent_def using envs conns names stmts by blast
qed

end
