(* ===== verification/Driver_Fetch.thy ===== *)
theory Driver_Fetch
  imports Driver_Runs
begin

text \<open>
  Fetching through the API. A query of any class is a source of rows, so the loop of a statement over a
  rowset applies to all of them; the codes \<^verbatim>\<open>SQLFetch\<close> returns over a whole result set follow, whatever
  workers and other calls do in between.
\<close>

section \<open>Queries of every class as sources of rows\<close>

datatype any_row = Data_Row "datum list" | Table_Row table_meta | Column_Row column_meta | Type_Row scalar_type

definition any_rows :: "(datum list, 'ci) service \<Rightarrow> 'ci any_query \<Rightarrow> any_row list \<Rightarrow> bool" where
  "any_rows svc q rs \<longleftrightarrow>
     (case q of
        Data_Query x \<Rightarrow> \<exists>rows. remaining svc x rows \<and> rs = map Data_Row rows
      | Table_Query x \<Rightarrow> \<exists>rows. table_rows x rows \<and> rs = map Table_Row rows
      | Column_Query x \<Rightarrow> \<exists>rows. column_rows x rows \<and> rs = map Column_Row rows
      | Type_Query x \<Rightarrow> \<exists>rows. type_info_rows x rows \<and> rs = map Type_Row rows
      | Empty_Query x \<Rightarrow> rs = [])"

lemma as_fetched_cases:
  assumes "as_fetched mk res = Some (r, b, q, d)"
  obtains x where "res = Some (r, b, x, d)" and "q = mk x"
  using assms by (auto simp: as_fetched_def)

text \<open>What a fetch does to the rows to come.\<close>

lemma any_fetch:
  assumes "any_rows (ev_query (ct_query E)) q rs" and "Any_FetchNextRow E b q d = Some (r, b', q', d')"
  shows "(r = AI_NO_DATA \<longleftrightarrow> rs = []) \<and> r \<in> {AI_SUCCESS, AI_SUCCESS_WITH_INFO, AI_ERROR, AI_NO_DATA}
    \<and> any_rows (ev_query (ct_query E)) q' (tl rs)"
proof (cases q)
  case (Data_Query x)
  then obtain x' rows where x': "FetchNextRow (ev_query (ct_query E)) (ct_reader E) b x d = Some (r, b', x', d')"
    "q' = Data_Query x'" "remaining (ev_query (ct_query E)) x rows" "rs = map Data_Row rows"
    using assms by (auto simp: Any_FetchNextRow_def any_rows_def data_class_def data_query_class_def elim!: as_fetched_cases)
  with fetch_delivers [OF x'(3,1)] show ?thesis by (cases rows) (auto simp: any_rows_def)
next
  case (Table_Query x)
  then obtain x' rows where x': "Table_FetchNextRow (ct_conv E) b x d = Some (r, b', x', d')" "q' = Table_Query x'"
    "table_rows x rows" "rs = map Table_Row rows"
    using assms by (auto simp: Any_FetchNextRow_def any_rows_def table_query_class_def elim!: as_fetched_cases)
  with table_fetch [OF x'(3,1)] show ?thesis by (auto simp: any_rows_def map_tl)
next
  case (Column_Query x)
  then obtain x' rows where x': "Column_FetchNextRow (ct_conv E) b x d = Some (r, b', x', d')" "q' = Column_Query x'"
    "column_rows x rows" "rs = map Column_Row rows"
    using assms by (auto simp: Any_FetchNextRow_def any_rows_def column_query_class_def elim!: as_fetched_cases)
  with column_fetch [OF x'(3,1)] show ?thesis by (auto simp: any_rows_def map_tl)
next
  case (Type_Query x)
  then obtain x' rows c where x': "TypeInfo_FetchNextRow (put_checked (ct_conv E)) (fst b, Some (snd b)) x d = (r, c, x', d')"
    "q' = Type_Query x'" "type_info_rows x rows" "rs = map Type_Row rows"
    using assms by (auto simp: Any_FetchNextRow_def any_rows_def type_fetch_def split: prod.splits elim!: as_fetched_cases)
  with type_info_fetch [OF x'(3,1)] show ?thesis by (auto simp: any_rows_def map_tl)
next
  case (Empty_Query x)
  with assms show ?thesis
    by (auto simp: Any_FetchNextRow_def any_rows_def Empty_FetchNextRow_def elim!: as_fetched_cases)
qed

interpretation any_rowsets: rowset_source "Any_FetchNextRow E" "any_rows (ev_query (ct_query E))"
proof unfold_locales
  fix q b d r b' q' d'
  assume "any_rows (ev_query (ct_query E)) q []" and "Any_FetchNextRow E b q d = Some (r, b', q', d')"
  from any_fetch [OF this] show "r = AI_NO_DATA \<and> any_rows (ev_query (ct_query E)) q' []" by simp
next
  fix q x xs b d r b' q' d'
  assume "any_rows (ev_query (ct_query E)) q (x # xs)" and "Any_FetchNextRow E b q d = Some (r, b', q', d')"
  from any_fetch [OF this]
  show "r \<in> {AI_SUCCESS, AI_SUCCESS_WITH_INFO, AI_ERROR} \<and> any_rows (ev_query (ct_query E)) q' xs" by auto
qed

section \<open>The codes of fetches\<close>

text \<open>The counters of the loop over a rowset add up to the rows it consumed. This holds in every class and
  wherever the statuses are stored.\<close>

context rowset_source
begin

lemma fetch_rows_counts:
  assumes "upcoming q rows" and "fetch_rows fetch sts i n b q d f e = Some (f', e', b', q', d')"
  shows "f' + e' = f + e + min n (length rows)" and "upcoming q' (drop n rows)"
  using assms
proof (induction n arbitrary: i b q d f e rows)
  case (Suc n)
  {
    case 1
    obtain r b1 q1 d1 where F: "fetch (map_option (SetElementOffset (int i)) \<circ> fst b, snd b) q d = Some (r, b1, q1, d1)"
      using 1(2) by (auto split: bind_splits)
    note one = fetch_one [OF 1(1) F]
    have "f' + e' = (if row_ok r then f + 1 else f) + (if row_bad r then e + 1 else e) + min n (length (drop 1 rows))"
      using Suc.IH(1) [OF one(3)] 1(2) F by simp
    with one(1,2) show ?case by (cases rows) (auto simp: row_ok_def row_bad_def)
  next
    case 2
    obtain r b1 q1 d1 where F: "fetch (map_option (SetElementOffset (int i)) \<circ> fst b, snd b) q d = Some (r, b1, q1, d1)"
      using 2(2) by (auto split: bind_splits)
    show ?case using Suc.IH(2) [OF fetch_one(3) [OF 2(1) F]] 2(2) F by simp
  }
qed auto

end

text \<open>What fetches on a statement depend on: its query with the rows to come, the size of a rowset and the
  service its connection reaches.\<close>

definition fetching :: "'ci world \<Rightarrow> nat \<Rightarrow> configuration \<Rightarrow> nat \<Rightarrow> any_row list \<Rightarrow> 'ci driver \<Rightarrow> bool" where
  "fetching W h cfg n rs D \<longleftrightarrow>
     (\<exists>s c q. dv_stmts D h = Some s \<and> dv_conns D (so_conn s) = Some c \<and> cn_config (co_conn c) = cfg
        \<and> currentQuery (so_stmt s) = Some q \<and> nat (rowArraySize (so_stmt s)) = n
        \<and> any_rows (ev_query (wd_query W cfg)) q rs)"

definition fetch_code :: "int \<Rightarrow> bool" where
  "fetch_code rc \<longleftrightarrow> rc \<in> {SQL_SUCCESS, SQL_SUCCESS_WITH_INFO, SQL_ERROR, SQL_NO_DATA}"

lemma fetch_result_code:
  "fetch_code (SqlResultToReturnCode (fetch_result f e))"
  "SqlResultToReturnCode (fetch_result f e) = SQL_NO_DATA \<longleftrightarrow> f + e = 0"
  by (auto simp: fetch_code_def fetch_result_def SqlResultToReturnCode_def)

lemma InternalFetchRow_step:
  assumes q: "currentQuery st = Some q" and up: "any_rows (ev_query (ct_query E)) q rs"
    and F: "InternalFetchRow (any_query_class live E) st m = Some (r, st', m')"
  shows "\<exists>f e q'. r = fetch_result f e \<and> f + e = min (nat (rowArraySize st)) (length rs)
    \<and> currentQuery st' = Some q' \<and> rowArraySize st' = rowArraySize st
    \<and> any_rows (ev_query (ct_query E)) q' (drop (nat (rowArraySize st)) rs)"
proof -
  obtain off b d f e b1 q1 d1 where
    L: "fetch_rows (Any_FetchNextRow E) (rowStatuses st) 0 (nat (rowArraySize st)) b q d 0 0 = Some (f, e, b1, q1, d1)"
    and r: "r = fetch_result f e" "currentQuery st' = Some q1" "rowArraySize st' = rowArraySize st"
    using F q by (auto simp: InternalFetchRow_def fetch_into_def Let_def)
  from any_rowsets.fetch_rows_counts [OF up L] r show ?thesis by auto
qed

lemma fetch_step:
  assumes "fetching W h cfg n rs D" and "h \<noteq> 0" and "0 < n" and call: "SQLFetch W h D = Some (rc, D')"
  shows "fetch_code rc \<and> (rc = SQL_NO_DATA \<longleftrightarrow> rs = []) \<and> fetching W h cfg n (drop n rs) D'"
proof -
  obtain s c q where s: "dv_stmts D h = Some s" "dv_conns D (so_conn s) = Some c" "cn_config (co_conn c) = cfg"
    "currentQuery (so_stmt s) = Some q" "nat (rowArraySize (so_stmt s)) = n" "any_rows (ev_query (wd_query W cfg)) q rs"
    using assms(1) by (auto simp: fetching_def)
  let ?E = "query_surroundings W (co_conn c) SQL_OV_ODBC3"
  have E: "ct_query ?E = wd_query W cfg" by (simp add: query_surroundings_def s(3))
  obtain x r st m where o: "open_stmt h D = Some (s, c, x)" "cx_stmt x = so_stmt s" "cx_conn x = co_conn c"
    and f: "InternalFetchRow (any_query_class (queryClient (co_conn c)) ?E) (cx_stmt (ctx_upd ResetStorage x)) (cx_mem x) = Some (r, st, m)"
    and rc: "rc = SqlResultToReturnCode r"
    and D': "D' = put_stmt h s c (ctx_upd (SetHeaderRecord r) ((ctx_upd ResetStorage x)\<lparr>cx_stmt := st, cx_mem := m\<rparr>)) D"
    using call assms(2) s(1,2)
    by (auto simp: SQLFetch_def stmt_call_def stmt_run_def on_handle_def stmt_protocol_def in_memory_def open_stmt_def
        query_class_of_def ctx_upd_def ctx_code_def GetReturnCode_def SetHeaderRecord_def Let_def split: bind_splits prod.splits)
  have st: "currentQuery (cx_stmt (ctx_upd ResetStorage x)) = Some q" "rowArraySize (cx_stmt (ctx_upd ResetStorage x)) = rowArraySize (so_stmt s)"
    using s(4) o(2) by (simp_all add: ctx_upd_def)
  obtain k e q' where K: "r = fetch_result k e" "k + e = min n (length rs)" "currentQuery st = Some q'"
    "rowArraySize st = rowArraySize (so_stmt s)" "any_rows (ev_query (wd_query W cfg)) q' (drop n rs)"
    using InternalFetchRow_step [OF st(1) _ f, of rs] s(5,6) st(2) E by auto
  have "rc = SQL_NO_DATA \<longleftrightarrow> rs = []"
    using rc K(1,2) fetch_result_code(2) [of k e] assms(3) by (auto simp: min_def split: if_splits)
  moreover have "fetching W h cfg n (drop n rs) D'"
    using s K o by (auto simp: D' fetching_def put_stmt_def ctx_upd_def)
  ultimately show ?thesis using rc K(1) fetch_result_code(1) by simp
qed

section \<open>Sessions\<close>

text \<open>Between two fetches workers of the query step, and anything else may happen that leaves the statement
  and the configuration of its connection as they are.\<close>

definition undisturbed :: "nat \<Rightarrow> 'ci driver \<Rightarrow> 'ci driver \<Rightarrow> bool" where
  "undisturbed h D D' \<longleftrightarrow>
     dv_stmts D' h = dv_stmts D h
   \<and> (\<forall>s. dv_stmts D h = Some s \<longrightarrow>
        map_option (\<lambda>c. cn_config (co_conn c)) (dv_conns D' (so_conn s)) =
        map_option (\<lambda>c. cn_config (co_conn c)) (dv_conns D (so_conn s)))"

inductive fetch_session :: "'ci world \<Rightarrow> nat \<Rightarrow> 'ci driver \<Rightarrow> int list \<Rightarrow> 'ci driver \<Rightarrow> bool"
  for W :: "'ci world" and h :: nat where
  session_end: "fetch_session W h D [] D"
| session_fetch: "SQLFetch W h D = Some (rc, D1) \<Longrightarrow> fetch_session W h D1 rcs D2 \<Longrightarrow> fetch_session W h D (rc # rcs) D2"
| session_worker: "worker_step W h i D = Some D1 \<Longrightarrow> fetch_session W h D1 rcs D2 \<Longrightarrow> fetch_session W h D rcs D2"
| session_other: "undisturbed h D D1 \<Longrightarrow> fetch_session W h D1 rcs D2 \<Longrightarrow> fetch_session W h D rcs D2"

lemma worker_fetching:
  assumes "fetching W h cfg n rs D" and "worker_step W h i D = Some D'"
  shows "fetching W h cfg n rs D'"
proof -
  obtain s c q where s: "dv_stmts D h = Some s" "dv_conns D (so_conn s) = Some c" "cn_config (co_conn c) = cfg"
    "currentQuery (so_stmt s) = Some q" "nat (rowArraySize (so_stmt s)) = n" "any_rows (ev_query (wd_query W cfg)) q rs"
    using assms(1) by (auto simp: fetching_def)
  obtain x x' where x: "q = Data_Query x" "thread_step (ev_query (wd_query W cfg)) i x = Some x'"
    "D' = D\<lparr>dv_stmts := (dv_stmts D)(h \<mapsto> s\<lparr>so_stmt := (so_stmt s)\<lparr>currentQuery := Some (Data_Query x')\<rparr>\<rparr>)\<rparr>"
    using assms(2) s(1-4) by (auto simp: worker_step_def split: any_query.splits)
  obtain rows where "remaining (ev_query (wd_query W cfg)) x rows" "rs = map Data_Row rows"
    using s(6) x(1) by (auto simp: any_rows_def)
  then have "any_rows (ev_query (wd_query W cfg)) (Data_Query x') rs"
    using worker_keeps [OF _ x(2)] by (auto simp: any_rows_def)
  with s x(3) show ?thesis by (auto simp: fetching_def)
qed

lemma undisturbed_fetching:
  assumes "fetching W h cfg n rs D" and "undisturbed h D D'"
  shows "fetching W h cfg n rs D'"
  using assms by (auto simp: fetching_def undisturbed_def)

lemma session_delivers:
  assumes "fetch_session W h D rcs D'" and "h \<noteq> 0" and "0 < n" and "fetching W h cfg n rs D"
  shows "(\<forall>i<length rcs. fetch_code (rcs ! i) \<and> (rcs ! i = SQL_NO_DATA \<longleftrightarrow> length rs \<le> i * n))
    \<and> fetching W h cfg n (drop (n * length rcs) rs) D'"
  using assms(1,4)
proof (induction arbitrary: rs rule: fetch_session.induct)
  case (session_fetch D rc D1 rcs D2)
  note step = fetch_step [OF session_fetch.prems assms(2,3) session_fetch.hyps(1)]
  note rest = session_fetch.IH [OF step [THEN conjunct2, THEN conjunct2]]
  have "fetch_code ((rc # rcs) ! i) \<and> ((rc # rcs) ! i = SQL_NO_DATA \<longleftrightarrow> length rs \<le> i * n)"
    if "i < length (rc # rcs)" for i
  proof (cases i)
    case 0
    then show ?thesis using step by simp
  next
    case (Suc j)
    then show ?thesis using rest that by auto
  qed
  moreover have "fetching W h cfg n (drop (n * length (rc # rcs)) rs) D2" using rest by (simp add: add.commute)
  ultimately show ?case by blast
qed (auto dest: worker_fetching undisturbed_fetching)

lemma direct_execution:
  assumes call: "SQLExecDirect W h text len D = Some (rc, D1)" and "h \<noteq> 0"
    and s: "dv_stmts D h = Some s" "dv_conns D (so_conn s) = Some c"
    and pages: "lead_chain (ev_query (wd_query W (cn_config (co_conn c))))
      (first_request (wd_query W (cn_config (co_conn c))) (SqlWcharToString (wd_wide W) text len False)) rows"
  shows "rc = SQL_SUCCESS
    \<and> fetching W h (cn_config (co_conn c)) (nat (rowArraySize (so_stmt s))) (map Data_Row rows) D1"
proof -
  let ?sql = "SqlWcharToString (wd_wide W) text len False"
  let ?E = "query_surroundings W (co_conn c) SQL_OV_ODBC3"
  let ?vt = "any_query_class (queryClient (co_conn c)) ?E"
  have E: "ct_query ?E = wd_query W (cn_config (co_conn c))" by (simp add: query_surroundings_def)
  obtain x r st where o: "open_stmt h D = Some (s, c, x)" "cx_stmt x = so_stmt s" "cx_conn x = co_conn c"
    and f: "InternalExecuteSqlQuery ?vt (\<lambda>sql. Data_Query (DataQuery sql)) ?sql (cx_stmt (ctx_upd ResetStorage x)) = Some (r, st)"
    and rc: "rc = SqlResultToReturnCode r"
    and D1: "D1 = put_stmt h s c (ctx_upd (SetHeaderRecord r) ((ctx_upd ResetStorage x)\<lparr>cx_stmt := st\<rparr>)) D"
    using call assms(2) s
    by (auto simp: SQLExecDirect_def stmt_call_def stmt_run_def on_handle_def stmt_protocol_def in_stmt_def open_stmt_def
        query_class_of_def ctx_upd_def ctx_code_def GetReturnCode_def SetHeaderRecord_def Let_def split: bind_splits prod.splits)
  obtain st1 where p: "replace_query ?vt (Data_Query (DataQuery ?sql)) (cx_stmt (ctx_upd ResetStorage x)) = Some st1"
    and e: "InternalExecutePrepared ?vt st1 = Some (r, st)"
    using f by (auto simp: InternalExecuteSqlQuery_def InternalPrepareSqlQuery_def split: bind_splits)
  have st1: "currentQuery st1 = Some (Data_Query (DataQuery ?sql))" "rowArraySize st1 = rowArraySize (so_stmt s)"
    using p o(2) by (auto simp: replace_query_def ctx_upd_def split: option.splits)
  obtain q where q: "Execute (ct_query ?E) (DataQuery ?sql) (st_diag st1) = Some (AI_SUCCESS, q, st_diag st1)"
    "remaining (ev_query (ct_query ?E)) q rows"
    using Execute_fresh [of "ct_query ?E" ?sql rows "st_diag st1"] pages E by auto
  have "r = AI_SUCCESS \<and> currentQuery st = Some (Data_Query q) \<and> rowArraySize st = rowArraySize (so_stmt s)"
    using e st1 q(1)
    by (auto simp: InternalExecutePrepared_def execute_current_def Any_Execute_def as_query_def data_class_def
        data_query_class_def split: if_splits)
  with q(2) s o rc E show ?thesis
    by (auto simp: D1 fetching_def put_stmt_def ctx_upd_def any_rows_def SqlResultToReturnCode_def)
qed

lemma data_rows_only:
  "any_rows svc q (map Data_Row rows) \<Longrightarrow> rows \<noteq> [] \<Longrightarrow> \<exists>x. q = Data_Query x \<and> remaining svc x rows"
  by (cases rows; cases q) (auto simp: any_rows_def Cons_eq_map_conv inj_map_eq_map inj_def)

text \<open> C2. A query from its execution to the end of its rows, through the API and whatever workers and other
  calls do in between: when the pages of its text are reached through finitely many tokens, the direct
  execution succeeds, each fetch of a rowset of \<open>n\<close> rows returns one of the codes of a fetch, and no data
  exactly from the rowset on that begins behind the last row. Behind \<open>k\<close> fetches the rows left are the
  ones from row \<open>n * k\<close> on.\<close>

theorem direct_execution_delivers:
  assumes "SQLExecDirect W h text len D = Some (rc, D1)" and "h \<noteq> 0"
    and "dv_stmts D h = Some s" and "dv_conns D (so_conn s) = Some c" and "cfg = cn_config (co_conn c)"
    and "lead_chain (ev_query (wd_query W cfg)) (first_request (wd_query W cfg) (SqlWcharToString (wd_wide W) text len False)) rows"
    and "n = nat (rowArraySize (so_stmt s))" and "0 < n"
    and "fetch_session W h D1 rcs D2"
  shows "rc = SQL_SUCCESS
    \<and> (\<forall>i<length rcs. fetch_code (rcs ! i) \<and> (rcs ! i = SQL_NO_DATA \<longleftrightarrow> length rows \<le> i * n))
    \<and> (n * length rcs < length rows \<longrightarrow>
         (\<exists>s' q. dv_stmts D2 h = Some s' \<and> currentQuery (so_stmt s') = Some (Data_Query q)
           \<and> remaining (ev_query (wd_query W cfg)) q (drop (n * length rcs) rows)))"
proof -
  from direct_execution [OF assms(1-4)] assms(5-7)
  have "rc = SQL_SUCCESS" and f: "fetching W h cfg n (map Data_Row rows) D1" by simp_all
  from session_delivers [OF assms(9,2,8) f]
  have codes: "\<forall>i<length rcs. fetch_code (rcs ! i) \<and> (rcs ! i = SQL_NO_DATA \<longleftrightarrow> length rows \<le> i * n)"
    and left: "fetching W h cfg n (drop (n * length rcs) (map Data_Row rows)) D2" by simp_all
  have "\<exists>s' q. dv_stmts D2 h = Some s' \<and> currentQuery (so_stmt s') = Some (Data_Query q)
      \<and> remaining (ev_query (wd_query W cfg)) q (drop (n * length rcs) rows)" if "n * length rcs < length rows"
    using left that data_rows_only [of _ _ "drop (n * length rcs) rows"] by (fastforce simp: fetching_def drop_map)
  with codes \<open>rc = SQL_SUCCESS\<close> show ?thesis by blast
qed

section \<open>An example\<close>

definition example_world :: "unit world" where
  "example_world =
     \<lparr>wd_query = (\<lambda>_. \<lparr>ev_query = (\<lambda>_. Page \<lparr>pg_rows = [[], []], pg_token = [], pg_queryId = ''id'', pg_columns = []\<rparr>),
        ev_cancel = (\<lambda>_. None), ev_maxRows = None,
        ev_readMeta = (\<lambda>_. ColumnMeta True [] [] ''n'' Scalar_VARCHAR NULLABLE)\<rparr>),
      wd_conv = example_conv, wd_junk = (\<lambda>_. 0), wd_asSchema = True, wd_version = ''1'', wd_logPath = ''/'',
      wd_services = \<lparr>se_saml = (\<lambda>_ _. (\<lparr>AWSAccessKeyId = [], AWSSecretKey = [], SessionToken = []\<rparr>, [])),
        se_profile = (\<lambda>_. \<lparr>AWSAccessKeyId = [], AWSSecretKey = [], SessionToken = []\<rparr>), se_expired = (\<lambda>_. False),
        se_default = \<lparr>cc_region = [], cc_connectTimeoutMs = 1000, cc_requestTimeoutMs = 3000, cc_maxConnections = 25,
          cc_userAgent = [], cc_retries = None, cc_proxyHost = [], cc_proxyPort = 0, cc_proxyHttps = False,
          cc_proxyUserName = [], cc_proxyPassword = [], cc_proxySSLCertPath = [], cc_proxySSLCertType = [],
          cc_proxySSLKeyPath = [], cc_proxySSLKeyType = [], cc_proxySSLKeyPassword = []\<rparr>,
         se_try = (\<lambda>_ _ _. None), se_env = (\<lambda>_. []), se_agent = []\<rparr>,
      wd_platform = \<lparr>valid_dir = (\<lambda>_. True), sizeof_string = 32\<rparr>, wd_profile = (\<lambda>_ _ d. d), wd_int = 0,
      wd_head = zero_header, wd_flag = False, wd_stack = 1000\<rparr>"

text \<open>A connected driver with a statement.\<close>

definition example_conn_obj :: conn_obj where
  "example_conn_obj = \<lparr>co_env = 4, co_conn = (NewConnection 2 (DefaultConfiguration ''/'') [] [])\<lparr>queryClient := True\<rparr>\<rparr>"

definition example_stmt_obj :: "unit stmt_obj" where
  "example_stmt_obj = \<lparr>so_conn = 2,
     so_stmt = fst (NewStatement 3 10 20 30 40 zero_header (\<lambda>_. NewDescriptor zero_header))\<rparr>"

definition example_driver :: "unit driver" where
  "example_driver =
     \<lparr>dv_envs = [4 \<mapsto> NewEnvironment], dv_conns = [2 \<mapsto> example_conn_obj], dv_stmts = [3 \<mapsto> example_stmt_obj],
      dv_descs = (\<lambda>_. NewDescriptor zero_header), dv_live = {10, 20, 30, 40},
      dv_log = \<lparr>lg_level = LOG_OFF, lg_path = []\<rparr>, dv_mem = (\<lambda>_. 0), dv_refs = 1, dv_sdk = True\<rparr>"

text \<open>With no column bound and no worker a fetch returns.\<close>

definition unbound_at :: "nat \<Rightarrow> 'ci driver \<Rightarrow> bool" where
  "unbound_at h D \<longleftrightarrow>
     (\<exists>s c x q cur. open_stmt h D = Some (s, c, x) \<and> currentQuery (so_stmt s) = Some (Data_Query q)
        \<and> dq_cursor q = Some cur \<and> \<not> hasAsyncFetch q \<and> columnBindings (so_stmt s) = Map.empty
        \<and> rowArraySize (so_stmt s) = 1)"

lemma unbound_columns: "fst b = Map.empty \<Longrightarrow> read_columns rd meta c i n b d = Some (True, b, d)"
  by (induction n arbitrary: i) simp_all

lemma unbound_row:
  assumes "fst b = Map.empty" and "dq_cursor q = Some cur" and "\<not> hasAsyncFetch q"
  shows "\<exists>r q' d' cur'. FetchNextRow svc rd b q d = Some (r, b, q', d') \<and> dq_cursor q' = Some cur' \<and> \<not> hasAsyncFetch q'"
  using assms by (cases "Increment cur") (auto simp: FetchNextRow_def unbound_columns Let_def)

lemma unbound_fetch:
  assumes "unbound_at h D" and "h \<noteq> 0"
  shows "\<exists>rc D'. SQLFetch W h D = Some (rc, D') \<and> unbound_at h D'"
proof -
  obtain s c x q cur where o: "open_stmt h D = Some (s, c, x)" and q: "currentQuery (so_stmt s) = Some (Data_Query q)"
    "dq_cursor q = Some cur" "\<not> hasAsyncFetch q" "columnBindings (so_stmt s) = Map.empty" "rowArraySize (so_stmt s) = 1"
    using assms(1) by (auto simp: unbound_at_def)
  note o' = open_stmt_parts [OF o]
  let ?E = "query_surroundings W (co_conn c) SQL_OV_ODBC3"
  let ?st = "cx_stmt (ctx_upd ResetStorage x)"
  have st: "currentQuery ?st = Some (Data_Query q)" "columnBindings ?st = Map.empty" "rowArraySize ?st = 1"
    using q o'(3) by (simp_all add: ctx_upd_def)
  have row: "\<exists>r q' d' cur'. Any_FetchNextRow ?E (Map.empty, m) (Data_Query q) d = Some (r, (Map.empty, m), Data_Query q', d')
      \<and> dq_cursor q' = Some cur' \<and> \<not> hasAsyncFetch q'" for m d
    using unbound_row [of "(Map.empty, m)" q cur "ev_query (ct_query ?E)" "ct_reader ?E" d] q(2,3)
    by (auto simp: Any_FetchNextRow_def as_fetched_def data_class_def data_query_class_def)
  have "\<exists>r st m q' cur'. InternalFetchRow (any_query_class (queryClient (co_conn c)) ?E) ?st (cx_mem x) = Some (r, st, m)
      \<and> currentQuery st = Some (Data_Query q') \<and> dq_cursor q' = Some cur' \<and> \<not> hasAsyncFetch q'
      \<and> columnBindings st = Map.empty \<and> rowArraySize st = 1"
    using row [of "store_count (rowsFetched ?st) 0 (cx_mem x)" "st_diag ?st"] st
    by (auto simp: InternalFetchRow_def fetch_into_def Let_def o_def)
  then obtain r st m q' cur' where
    "InternalFetchRow (any_query_class (queryClient (co_conn c)) ?E) ?st (cx_mem x) = Some (r, st, m)"
    "currentQuery st = Some (Data_Query q')" "dq_cursor q' = Some cur'" "\<not> hasAsyncFetch q'"
    "columnBindings st = Map.empty" "rowArraySize st = 1" by blast
  with assms(2) o o' show ?thesis
    by (auto simp: SQLFetch_def stmt_call_def stmt_run_def on_handle_def stmt_protocol_def in_memory_def
        query_class_of_def ctx_upd_def Let_def unbound_at_def open_stmt_def put_stmt_def)
qed

lemma unbound_session:
  assumes "unbound_at h D" and "h \<noteq> 0"
  shows "\<exists>rcs D'. length rcs = n \<and> fetch_session W h D rcs D'"
  using assms(1)
proof (induction n arbitrary: D)
  case 0
  then show ?case by (auto intro: session_end)
next
  case (Suc n)
  obtain rc D1 where "SQLFetch W h D = Some (rc, D1)" "unbound_at h D1"
    using unbound_fetch [OF Suc.prems assms(2)] by blast
  with Suc.IH [of D1] obtain rcs D' where "length rcs = n" "fetch_session W h D (rc # rcs) D'"
    using session_fetch by metis
  then show ?case by (metis length_Cons)
qed

lemma example_service:
  "ev_query (wd_query example_world cfg) rq = Page \<lparr>pg_rows = [[], []], pg_token = [], pg_queryId = ''id'', pg_columns = []\<rparr>"
  by (simp add: example_world_def)

lemma example_pages: "lead_chain (ev_query (wd_query example_world cfg)) rq [[], []]"
proof -
  have "chain (ev_query (wd_query example_world cfg)) rq [[], []]"
    using last_page [of "\<lparr>pg_rows = [[], []], pg_token = [], pg_queryId = ''id'', pg_columns = [] :: unit list\<rparr>"
        "ev_query (wd_query example_world cfg)" rq]
    by (simp add: chain_iff example_service)
  then show ?thesis by (rule lead_here)
qed

lemma example_objects [simp]:
  "dv_stmts example_driver 3 = Some example_stmt_obj" "dv_conns example_driver 2 = Some example_conn_obj"
  "dv_envs example_driver 4 = Some NewEnvironment" "so_conn example_stmt_obj = 2" "co_env example_conn_obj = 4"
  "queryClient (co_conn example_conn_obj)" "rowArraySize (so_stmt example_stmt_obj) = 1"
  "columnBindings (so_stmt example_stmt_obj) = Map.empty" "currentQuery (so_stmt example_stmt_obj) = None"
  by (simp_all add: example_driver_def example_stmt_obj_def example_conn_obj_def NewStatement_def)

lemma example_execution:
  "\<exists>rc D. SQLExecDirect example_world 3 None 0 example_driver = Some (rc, D) \<and> unbound_at 3 D"
proof -
  let ?E = "query_surroundings example_world (co_conn example_conn_obj) SQL_OV_ODBC3"
  have "\<exists>q cur. Execute (ct_query ?E) (DataQuery sql) d = Some (AI_SUCCESS, q, d) \<and> dq_cursor q = Some cur
      \<and> \<not> hasAsyncFetch q" for sql d
    by (simp add: Execute_def MakeRequestExecute_def DataQuery_def Let_def request_loop.simps query_surroundings_def
        example_world_def MakeRequestFetch_def ReadColumnMetadataVector_def)
  then obtain q cur where q: "Execute (ct_query ?E) (DataQuery (SqlWcharToString (wd_wide example_world) None 0 False))
      (st_diag (cx_stmt (ctx_upd ResetStorage \<lparr>cx_stmt = so_stmt example_stmt_obj, cx_descs = dv_descs example_driver,
        cx_conn = co_conn example_conn_obj, cx_env = NewEnvironment, cx_log = dv_log example_driver, cx_mem = dv_mem example_driver\<rparr>))) =
      Some (AI_SUCCESS, q, st_diag (cx_stmt (ctx_upd ResetStorage \<lparr>cx_stmt = so_stmt example_stmt_obj, cx_descs = dv_descs example_driver,
        cx_conn = co_conn example_conn_obj, cx_env = NewEnvironment, cx_log = dv_log example_driver, cx_mem = dv_mem example_driver\<rparr>)))"
    "dq_cursor q = Some cur" "\<not> hasAsyncFetch q" by blast
  then show ?thesis
    by (auto simp: SQLExecDirect_def stmt_call_def stmt_run_def on_handle_def stmt_protocol_def in_stmt_def open_stmt_def
        query_class_of_def ctx_upd_def Let_def InternalExecuteSqlQuery_def InternalPrepareSqlQuery_def replace_query_def
        InternalExecutePrepared_def execute_current_def Any_Execute_def as_query_def data_class_def data_query_class_def
        unbound_at_def put_stmt_def)
qed

theorem direct_execution_delivers_witness:
  "\<exists>D1 rcs D2. SQLExecDirect example_world 3 None 0 example_driver = Some (SQL_SUCCESS, D1)
     \<and> fetch_session example_world 3 D1 rcs D2 \<and> length rcs = 4
     \<and> rcs ! 1 \<noteq> SQL_NO_DATA \<and> rcs ! 2 = SQL_NO_DATA \<and> rcs ! 3 = SQL_NO_DATA"
proof -
  obtain rc D1 rcs D2 where e: "SQLExecDirect example_world 3 None 0 example_driver = Some (rc, D1)"
    and f: "fetch_session example_world 3 D1 rcs D2" "length rcs = 4"
    using example_execution unbound_session [of 3 _ 4 example_world] by force
  have c: "dv_conns example_driver (so_conn example_stmt_obj) = Some example_conn_obj" by simp
  have n: "1 = nat (rowArraySize (so_stmt example_stmt_obj))" by simp
  from direct_execution_delivers [OF e _ example_objects(1) c refl example_pages n _ f(1)] f(2)
  have "rc = SQL_SUCCESS" "\<forall>i<4. rcs ! i = SQL_NO_DATA \<longleftrightarrow> 2 \<le> i"
    by (simp_all add: numeral_2_eq_2)
  then show ?thesis using e f by (intro exI [of _ D1] exI [of _ rcs] exI [of _ D2]) simp
qed

end
