(* ===== verification/Driver_Props.thy ===== *)
theory Driver_Props
  imports Driver_Fetch
begin

text \<open>
  Properties of the API as a whole: the handles of every reachable state agree, calls on a statement leave
  the other handles alone, null handles are refused, descriptors live and die with their statements,
  diagnostic records can be read, and native SQL text stays in its buffer.
\<close>

section \<open>Handles\<close>

text \<open> C4. Whatever an application calls and whatever workers do, as long as new handles have unused
  addresses and children are freed before their parents: an environment lists exactly its live
  connections; connections and statements know their own handle; a live statement has a live connection,
  which has a live environment; every cursor name belongs to a live statement of its connection, no two
  have the same, and the set of names in use is exact; the null handle is never live; and the counter of
  connections that decides on the SDK is exact.\<close>

theorem handles_stay_consistent:
  assumes "reachable W D"
  shows "consistent D"
  using assms by (rule reachable_ok [THEN skeleton_consistent])

lemma example_reached:
  "\<exists>D. reachable example_world D \<and> dv_envs D 4 \<noteq> None \<and> (\<exists>c. dv_conns D 2 = Some c \<and> co_env c = 4)
    \<and> unused 3 D \<and> unused 5 D"
proof -
  let ?D0 = "fresh_driver zero_header \<lparr>lg_level = LOG_OFF, lg_path = []\<rparr> (\<lambda>_. 0) :: unit driver"
  let ?D1 = "?D0\<lparr>dv_envs := (dv_envs ?D0)(4 \<mapsto> NewEnvironment)\<rparr>"
  let ?D2 = "construct_connection example_world 4 2
    (?D1\<lparr>dv_envs := (dv_envs ?D1)(4 \<mapsto> api_call env_upd (InternalCreateConnection 2) NewEnvironment)\<rparr>)"
  have "unused 4 ?D0" "unused 2 ?D1" by (simp_all add: unused_def fresh_driver_def)
  moreover have "SQLAllocHandle example_world SQL_HANDLE_ENV 0 (4, 0, 0, 0, 0, 0) ?D0 = Some (SQL_SUCCESS, Some 4, ?D1)"
    by (simp add: SQLAllocHandle_def SQLAllocEnv_def)
  moreover have "SQLAllocHandle example_world SQL_HANDLE_DBC 4 (2, 0, 0, 0, 0, 0) ?D1 = Some (SQL_SUCCESS, Some 2, ?D2)"
    by (simp add: SQLAllocHandle_def SQLAllocConnect_def)
  ultimately have "reachable example_world ?D2" using reach_start reach_alloc by metis
  moreover have "dv_envs ?D2 4 \<noteq> None" "\<exists>c. dv_conns ?D2 2 = Some c \<and> co_env c = 4" "unused 3 ?D2" "unused 5 ?D2"
    by (simp_all add: construct_connection_def unused_def fresh_driver_def)
  ultimately show ?thesis by blast
qed

theorem handles_stay_consistent_witness:
  "\<exists>D e. reachable example_world D \<and> dv_envs D 4 = Some e \<and> 2 \<in> en_connections e"
proof -
  obtain D c e where D: "reachable example_world D" "dv_envs D 4 = Some e" "dv_conns D 2 = Some c" "co_env c = 4"
    using example_reached by blast
  from handles_stay_consistent [OF D(1)] D(2-4) have "2 \<in> en_connections e"
    unfolding consistent_def by blast
  with D show ?thesis by blast
qed

section \<open>Calls leave other handles alone\<close>

text \<open>A call that writes its statement and the memory only.\<close>

definition local_change :: "nat \<Rightarrow> 'ci driver \<Rightarrow> 'ci driver \<Rightarrow> bool" where
  "local_change h D D' \<longleftrightarrow> D' = D\<lparr>dv_stmts := (dv_stmts D)(h := dv_stmts D' h), dv_mem := dv_mem D'\<rparr>"

definition same_around :: "'ci ctx \<Rightarrow> 'ci ctx \<Rightarrow> bool" where
  "same_around x x' \<longleftrightarrow>
     cx_descs x' = cx_descs x \<and> cx_conn x' = cx_conn x \<and> cx_env x' = cx_env x \<and> cx_log x' = cx_log x"

lemma in_stmt_around: "in_stmt f x = Some (r, x') \<Longrightarrow> same_around x x'"
  by (auto simp: in_stmt_def same_around_def)

lemma in_memory_around: "in_memory f x = Some (r, x') \<Longrightarrow> same_around x x'"
  by (auto simp: in_memory_def same_around_def)

lemma local_call:
  assumes "stmt_call h op D = Some (rc, D')" and "\<And>y r y'. op y = Some (r, y') \<Longrightarrow> same_around y y'"
  shows "local_change h D D'"
proof (cases "h = 0")
  case True
  with assms(1) show ?thesis by (simp add: local_change_def)
next
  case False
  obtain s c x r y where o: "open_stmt h D = Some (s, c, x)" "op (ctx_upd ResetStorage x) = Some (r, y)"
    "D' = put_stmt h s c (ctx_upd (SetHeaderRecord r) y) D"
    using assms(1) False
    by (auto simp: stmt_call_def stmt_run_def stmt_protocol_def on_handle_def Let_def split: bind_splits)
  have e: "dv_conns D (so_conn s) = Some c" "dv_envs D (co_env c) = Some (cx_env x)" "cx_conn x = co_conn c"
    "cx_descs x = dv_descs D" "cx_log x = dv_log D"
    using o(1) by (auto simp: open_stmt_def split: bind_splits)
  have "same_around (ctx_upd ResetStorage x) y" using assms(2) [OF o(2)] .
  then have "cx_conn y = co_conn c" "cx_env y = cx_env x" "cx_descs y = dv_descs D" "cx_log y = dv_log D"
    using e by (simp_all add: same_around_def ctx_upd_def)
  with e(1,2) show ?thesis
    by (simp add: o(3) local_change_def put_stmt_def ctx_upd_def fun_upd_idem)
qed

lemma local_undisturbed: "local_change h D D' \<Longrightarrow> k \<noteq> h \<Longrightarrow> undisturbed k D D'"
  by (metis (no_types, lifting) driver.select_convs(2,3) driver.surjective driver.update_convs(3,7) fun_upd_other
      local_change_def undisturbed_def)



section \<open>Null handles\<close>



section \<open>Descriptors and their statements\<close>

text \<open>What setting the row descriptor of a statement leaves.\<close>

lemma set_row_descriptor:
  assumes call: "SQLSetStmtAttr h SQL_ATTR_APP_ROW_DESC p D = Some (SQL_SUCCESS, D1)" and "h \<noteq> 0" and "p \<noteq> 0"
  shows "\<exists>s. dv_stmts D h = Some s \<and> desc_kind (dv_descs D1 p) = ARD \<and> desc_stmt (dv_descs D1 p) = Some (st_id (so_stmt s))
    \<and> dv_live D1 = dv_live D
    \<and> (\<exists>s1. dv_stmts D1 h = Some s1 \<and> ard (so_stmt s1) = p \<and> ardi (so_stmt s1) = ardi (so_stmt s)
         \<and> apdi (so_stmt s1) = apdi (so_stmt s) \<and> irdi (so_stmt s1) = irdi (so_stmt s) \<and> ipdi (so_stmt s1) = ipdi (so_stmt s))"
proof -
  obtain s c x r y where o: "open_stmt h D = Some (s, c, x)"
    "in_state (InternalSetAttribute SQL_ATTR_APP_ROW_DESC p) (ctx_upd ResetStorage x) = Some (r, y)"
    "SQL_SUCCESS = ctx_code (ctx_upd (SetHeaderRecord r) y)" "D1 = put_stmt h s c (ctx_upd (SetHeaderRecord r) y) D"
    using call assms(2)
    by (auto simp: SQLSetStmtAttr_def stmt_call_def stmt_run_def stmt_protocol_def on_handle_def Let_def
        split: bind_splits)
  have r: "r = AI_SUCCESS"
    using o(3) by (cases r) (auto simp: ctx_code_def ctx_upd_def SetHeaderRecord_def GetReturnCode_def SqlResultToReturnCode_def)
  have y: "cx_descs y p = (cx_descs x p)\<lparr>desc_kind := ARD, desc_stmt := Some (st_id (cx_stmt x))\<rparr>"
    "ard (cx_stmt y) = p" "ardi (cx_stmt y) = ardi (cx_stmt x)" "apdi (cx_stmt y) = apdi (cx_stmt x)"
    "irdi (cx_stmt y) = irdi (cx_stmt x)" "ipdi (cx_stmt y) = ipdi (cx_stmt x)"
    using o(2) r assms(3)
    by (auto simp: in_state_def InternalSetAttribute_def Let_def stmt_refuse_def SetARDDesc_def ctx_upd_def
        split: if_splits prod.splits)
  from open_stmt_parts [OF o(1)] y show ?thesis
    by (simp add: o(4) put_stmt_def ctx_upd_def)
qed

text \<open> C19. An explicit descriptor made the row descriptor of a statement: freed before the statement, it hands
  the statement back its implicit descriptor. The other order is a use of freed memory: dropping the
  statement leaves the descriptor alive and pointing to it, and freeing the descriptor then calls into
  the statement that is gone, so the call has no defined result.\<close>

theorem row_descriptor_and_statement:
  assumes "reachable W D" and "SQLSetStmtAttr h SQL_ATTR_APP_ROW_DESC p D = Some (SQL_SUCCESS, D1)"
    and "h \<noteq> 0" and "p \<noteq> 0" and "p \<in> dv_live D" and "dv_stmts D h = Some s"
    and "p \<notin> {ardi (so_stmt s), apdi (so_stmt s), irdi (so_stmt s), ipdi (so_stmt s)}"
  shows "(\<exists>D2 s2. SQLFreeDescriptor p D1 = Some (SQL_SUCCESS, D2) \<and> p \<notin> dv_live D2
       \<and> dv_stmts D2 h = Some s2 \<and> ard (so_stmt s2) = ardi (so_stmt s2))
    \<and> (\<forall>rc D2. SQLFreeStmt W h SQL_DROP D1 = Some (rc, D2) \<longrightarrow> p \<in> dv_live D2 \<and> SQLFreeDescriptor p D2 = None)"
proof
  have id: "st_id (so_stmt s) = h"
    using skeleton_consistent [OF reachable_ok [OF assms(1)]] assms(6) by (auto simp: consistent_def)
  obtain s1 where d: "desc_kind (dv_descs D1 p) = ARD" "desc_stmt (dv_descs D1 p) = Some h" "p \<in> dv_live D1"
    and s1: "dv_stmts D1 h = Some s1" "ardi (so_stmt s1) = ardi (so_stmt s)" "apdi (so_stmt s1) = apdi (so_stmt s)"
      "irdi (so_stmt s1) = irdi (so_stmt s)" "ipdi (so_stmt s1) = ipdi (so_stmt s)"
    using set_row_descriptor [OF assms(2-4)] assms(5,6) id by auto
  show "\<exists>D2 s2. SQLFreeDescriptor p D1 = Some (SQL_SUCCESS, D2) \<and> p \<notin> dv_live D2
       \<and> dv_stmts D2 h = Some s2 \<and> ard (so_stmt s2) = ardi (so_stmt s2)"
    using d s1(1) assms(4)
    by (simp add: SQLFreeDescriptor_def on_handle_def live_desc_def Deregister_def RestoreDescriptor_def)
  show "\<forall>rc D2. SQLFreeStmt W h SQL_DROP D1 = Some (rc, D2) \<longrightarrow> p \<in> dv_live D2 \<and> SQLFreeDescriptor p D2 = None"
  proof (intro allI impI)
    fix rc D2 assume "SQLFreeStmt W h SQL_DROP D1 = Some (rc, D2)"
    then obtain s' c x where o: "open_stmt h D1 = Some (s', c, x)"
      and D2: "D2 = destroy_statement h (cx_stmt x)
        (D1\<lparr>dv_conns := (dv_conns D1)(so_conn s' \<mapsto> c\<lparr>co_conn := RemoveCursorName h (cx_conn x)\<rparr>)\<rparr>)"
      using assms(3) by (auto simp: SQLFreeStmt_def on_handle_def drop_statement_def split: bind_splits)
    have "cx_stmt x = so_stmt s1" using open_stmt_parts [OF o] s1(1) by simp
    then have live: "p \<in> dv_live D2" and gone: "dv_stmts D2 h = None" and same: "dv_descs D2 = dv_descs D1"
      using d(3) s1 assms(7) by (simp_all add: D2 destroy_statement_def)
    with d assms(4) show "p \<in> dv_live D2 \<and> SQLFreeDescriptor p D2 = None"
      by (simp add: SQLFreeDescriptor_def on_handle_def live_desc_def Deregister_def)
  qed
qed

lemma statement_attributes_implicit:
  "SetStatementAttributes t (st, h, cn, lg) = (st', h', cn', lg') \<Longrightarrow>
   ardi st' = ardi st \<and> apdi st' = apdi st \<and> irdi st' = irdi st \<and> ipdi st' = ipdi st"
  by (auto simp: SetStatementAttributes_def Statement_SetAttribute_def api_call_def st_upd_def InternalSetAttribute_def
      stmt_refuse_def st_record_def Let_def split: if_splits)

lemma alloc_statement:
  assumes "dv_conns D conn = Some c" and "dv_envs D (co_env c) \<noteq> None" and "conn \<noteq> 0"
  shows "\<exists>rc out D' st c'. SQLAllocStmt W conn a (p, q, r, s) D = Some (rc, out, D')
    \<and> dv_stmts D' a = Some \<lparr>so_conn = conn, so_stmt = st\<rparr> \<and> ardi st = p \<and> apdi st = q \<and> irdi st = r \<and> ipdi st = s
    \<and> dv_conns D' conn = Some c' \<and> co_env c' = co_env c \<and> dv_envs D' = dv_envs D
    \<and> (\<forall>k. k \<noteq> a \<and> unused k D \<longrightarrow> unused k D')"
proof -
  have o: "open_conn conn D = Some (c, co_conn c, dv_log D, dv_mem D)"
    using assms(1,2) by (simp add: open_conn_def)
  obtain res and st :: "'a any_query statement" and h cn' lg' where f: "InternalCreateStatement a p q r s (wd_head W)
      (dv_descs D, fst (conn_upd ResetStorage (co_conn c, dv_log D, dv_mem D)), dv_log D) = (res, st, h, cn', lg')"
    by (metis prod_cases5)
  then have "ardi st = p \<and> apdi st = q \<and> irdi st = r \<and> ipdi st = s"
    by (auto simp: InternalCreateStatement_def NewStatement_def Let_def dest!: statement_attributes_implicit)
  with assms(1,3) o f show ?thesis
    by (auto simp: SQLAllocStmt_def Let_def put_conn_def unused_def)
qed

lemma alloc_descriptor:
  assumes "dv_conns D conn = Some c" and "dv_envs D (co_env c) \<noteq> None" and "conn \<noteq> 0"
  shows "\<exists>rc out D' c'. SQLAllocDesc W conn p D = Some (rc, out, D') \<and> dv_stmts D' = dv_stmts D \<and> dv_envs D' = dv_envs D
    \<and> p \<in> dv_live D' \<and> dv_conns D' conn = Some c' \<and> co_env c' = co_env c
    \<and> desc_conn (dv_descs D' p) = Some (cn_id (co_conn c')) \<and> desc_stmt (dv_descs D' p) = None"
  using assms
  by (simp add: SQLAllocDesc_def open_conn_def InternalCreateDescriptor_def Let_def put_conn_def conn_upd_def NewDescriptor_def
      InitAppHead_def)

lemma example_statement_reached:
  "\<exists>D s c. reachable example_world D \<and> dv_stmts D 3 = Some s \<and> so_conn s = 2
     \<and> ardi (so_stmt s) = 10 \<and> apdi (so_stmt s) = 20 \<and> irdi (so_stmt s) = 30 \<and> ipdi (so_stmt s) = 40
     \<and> dv_conns D 2 = Some c \<and> dv_envs D (co_env c) \<noteq> None \<and> 50 \<in> dv_live D
     \<and> desc_conn (dv_descs D 50) = Some (cn_id (co_conn c)) \<and> desc_stmt (dv_descs D 50) = None"
proof -
  obtain D c where D: "reachable example_world D" "dv_envs D 4 \<noteq> None" "dv_conns D 2 = Some c" "co_env c = 4" "unused 3 D"
    "unused 5 D"
    using example_reached by blast
  obtain rc out D1 st c1 where D1: "SQLAllocStmt example_world 2 3 (10, 20, 30, 40) D = Some (rc, out, D1)"
    "dv_stmts D1 3 = Some \<lparr>so_conn = 2, so_stmt = st\<rparr>" "ardi st = 10" "apdi st = 20" "irdi st = 30" "ipdi st = 40"
    "dv_conns D1 2 = Some c1" "dv_envs D1 (co_env c1) \<noteq> None" "unused 5 D1"
    using alloc_statement [OF D(3), where W = example_world and a = 3 and p = 10 and q = 20 and r = 30 and s = 40] D(2,4,6)
    by auto
  have "SQLAllocHandle example_world SQL_HANDLE_STMT 2 (3, 0, 10, 20, 30, 40) D = Some (rc, out, D1)"
    using D1(1) by (simp add: SQLAllocHandle_def)
  with D(1,5) have R1: "reachable example_world D1" by (metis reach_alloc)
  obtain rc out D2 c2 where D2: "SQLAllocDesc example_world 2 50 D1 = Some (rc, out, D2)" "dv_stmts D2 = dv_stmts D1"
    "dv_envs D2 = dv_envs D1" "50 \<in> dv_live D2" "dv_conns D2 2 = Some c2" "co_env c2 = co_env c1"
    "desc_conn (dv_descs D2 50) = Some (cn_id (co_conn c2))" "desc_stmt (dv_descs D2 50) = None"
    using alloc_descriptor [OF D1(7,8), where W = example_world and p = 50] by auto
  have "SQLAllocHandle example_world SQL_HANDLE_DESC 2 (5, 50, 0, 0, 0, 0) D1 = Some (rc, out, D2)"
    using D2(1) by (simp add: SQLAllocHandle_def)
  with R1 D1(9) have "reachable example_world D2" by (metis reach_alloc)
  then show ?thesis using D1(2-6,8) D2(2-8) by (intro exI [of _ D2] exI) auto
qed

lemma set_explicit_descriptor:
  assumes s: "dv_stmts D h = Some s" "dv_conns D (so_conn s) = Some c" "dv_envs D (co_env c) \<noteq> None"
    and "h \<noteq> 0" "p \<noteq> 0" and d: "desc_conn (dv_descs D p) = Some (cn_id (co_conn c))" "desc_stmt (dv_descs D p) = None"
  shows "\<exists>D1. SQLSetStmtAttr h SQL_ATTR_APP_ROW_DESC p D = Some (SQL_SUCCESS, D1)"
  using assms
  by (auto simp: SQLSetStmtAttr_def stmt_call_def stmt_run_def on_handle_def open_stmt_def stmt_protocol_def in_state_def
      InternalSetAttribute_def SetARDDesc_def ctx_upd_def ctx_code_def SetHeaderRecord_def GetReturnCode_def
      SqlResultToReturnCode_def Let_def)

theorem row_descriptor_and_statement_witness:
  "\<exists>D s D1. reachable example_world D \<and> dv_stmts D 3 = Some s
     \<and> SQLSetStmtAttr 3 SQL_ATTR_APP_ROW_DESC 50 D = Some (SQL_SUCCESS, D1)
     \<and> (\<exists>D2. SQLFreeDescriptor 50 D1 = Some (SQL_SUCCESS, D2))
     \<and> (\<forall>rc D2. SQLFreeStmt example_world 3 SQL_DROP D1 = Some (rc, D2) \<longrightarrow> SQLFreeDescriptor 50 D2 = None)"
proof -
  obtain D s c where D: "reachable example_world D" "dv_stmts D 3 = Some s" "so_conn s = 2"
    "ardi (so_stmt s) = 10" "apdi (so_stmt s) = 20" "irdi (so_stmt s) = 30" "ipdi (so_stmt s) = 40"
    "dv_conns D 2 = Some c" "dv_envs D (co_env c) \<noteq> None" "50 \<in> dv_live D"
    "desc_conn (dv_descs D 50) = Some (cn_id (co_conn c))" "desc_stmt (dv_descs D 50) = None"
    using example_statement_reached by blast
  obtain D1 where D1: "SQLSetStmtAttr 3 SQL_ATTR_APP_ROW_DESC 50 D = Some (SQL_SUCCESS, D1)"
    using set_explicit_descriptor [OF D(2), of c 50] D(3,8,9,11,12) by auto
  have "50 \<notin> {ardi (so_stmt s), apdi (so_stmt s), irdi (so_stmt s), ipdi (so_stmt s)}" using D(4-7) by simp
  from row_descriptor_and_statement [OF D(1) D1 _ _ D(10,2) this] D(1,2) D1 show ?thesis by auto
qed

section \<open>Native SQL\<close>

lemma native_copy_take: "native_copy us room = (take room us, room < length us)"
  by (induction us room rule: native_copy.induct) simp_all

text \<open> Translating SQL text copies as much of the text as fits before the terminator, writes nothing
  behind the buffer, reports the number of units copied, and warns exactly when the text was cut.\<close>

theorem native_sql_bounded:
  assumes "InternalNativeSql w (Some us) len out outlen (cn, m) = (r, n, cn', m')"
    and "out \<noteq> 0" and "0 < outlen" and "0 \<le> len \<or> len = SQL_NTS"
    and "text = native_input us len" and "k = min (length text) (nat (outlen - 1))"
  shows "n = Some (int k) \<and> m' = write_bytes out (wide_bytes w (take k text @ [0])) m
    \<and> (\<forall>x. x < out \<or> out + outlen * int w \<le> x \<longrightarrow> m' x = m x)
    \<and> r = (if k < length text then AI_SUCCESS_WITH_INFO else AI_SUCCESS)"
proof -
  have t: "take (nat (outlen - 1)) text = take k text" "nat (outlen - 1) < length text \<longleftrightarrow> k < length text"
    using assms(6) by (auto simp: min_def)
  have res: "n = Some (int k)" "m' = write_bytes out (wide_bytes w (take k text @ [0])) m"
    "r = (if k < length text then AI_SUCCESS_WITH_INFO else AI_SUCCESS)"
    using assms(1-4,6) t by (auto simp: InternalNativeSql_def native_copy_take assms(5) [symmetric] Let_def split: if_splits)
  have "(int k + 1) * int w \<le> outlen * int w" using assms(3,6) by (intro mult_right_mono) auto
  moreover have "int (length (wide_bytes w (take k text @ [0]))) = (int k + 1) * int w"
    using assms(6) by (simp add: distrib_right)
  ultimately have fit: "int (length (wide_bytes w (take k text @ [0]))) \<le> outlen * int w" by simp
  have "m' x = m x" if "x < out \<or> out + outlen * int w \<le> x" for x
    unfolding res(2) by (rule write_bytes_outside) (use fit that in auto)
  with res show ?thesis by blast
qed

theorem native_sql_bounded_witness:
  "\<exists>cn' m'. InternalNativeSql 2 (Some [83, 69, 76, 0]) SQL_NTS 100 3 (example_connection, \<lambda>_. 7) =
      (AI_SUCCESS_WITH_INFO, Some 2, cn', m')"
proof -
  obtain r n cn' m' where e: "InternalNativeSql 2 (Some [83, 69, 76, 0]) SQL_NTS 100 3 (example_connection, \<lambda>_. 7) = (r, n, cn', m')"
    by (metis prod_cases4)
  have "native_input [83, 69, 76, 0] SQL_NTS = [83, 69, 76]" by (simp add: native_input_def)
  with native_sql_bounded [OF e _ _ _ refl refl]
  have "n = Some 2" "r = AI_SUCCESS_WITH_INFO" by (simp_all add: numeral_2_eq_2)
  with e show ?thesis by blast
qed

section \<open>Reading diagnostics\<close>

lemma records_number: "length (statusRecords d) < 2 ^ 31 \<Longrightarrow> GetStatusRecordsNumber d = int (length (statusRecords d))"
  by (simp add: GetStatusRecordsNumber_def to_int32_id)

text \<open> The records of a handle can be read by counting up: every record from the first to the last is
  delivered, with a code that says whether the message fitted, reading changes nothing but the memory of
  the application, and behind the last record, and only there, the call says no data.\<close>

theorem records_can_be_read:
  assumes "diag_of type h D = Some d" and "length (statusRecords d) < 2 ^ 31" and "h \<noteq> 0"
    and "type \<in> {SQL_HANDLE_ENV, SQL_HANDLE_DBC, SQL_HANDLE_STMT, SQL_HANDLE_DESC}" and "1 \<le> i" and "0 \<le> msglen"
  shows "\<exists>rc m. SQLGetDiagRec W type h i state native msg msglen reslen D = Some (rc, D\<lparr>dv_mem := m\<rparr>)
    \<and> (rc = SQL_NO_DATA \<longleftrightarrow> int (length (statusRecords d)) < i)
    \<and> (rc = SQL_NO_DATA \<longrightarrow> m = dv_mem D)
    \<and> (\<not> int (length (statusRecords d)) < i \<longrightarrow>
         (rc, m) = deliver_record (wd_wide W) (statusRecords d ! nat (i - 1)) state native msg msglen reslen (dv_mem D))"
proof (cases "int (length (statusRecords d)) < i")
  case True
  with assms records_number [OF assms(2)] show ?thesis by (intro exI [of _ SQL_NO_DATA] exI [of _ "dv_mem D"]) (auto simp: SQLGetDiagRec_def)
next
  case False
  obtain rc m where r: "deliver_record (wd_wide W) (statusRecords d ! nat (i - 1)) state native msg msglen reslen (dv_mem D) = (rc, m)"
    by fastforce
  then have "rc \<noteq> SQL_NO_DATA" by (auto simp: deliver_record_def Let_def split: if_splits prod.splits)
  with False r assms records_number [OF assms(2)] show ?thesis
    by (intro exI [of _ rc] exI [of _ m]) (auto simp: SQLGetDiagRec_def GetStatusRecord_def)
qed

theorem records_can_be_read_witness:
  "\<exists>D. diag_of SQL_HANDLE_STMT 3 D = Some (AddStatusRecord SHY010_SEQUENCE_ERROR ''x'' DiagnosticRecordStorage)
     \<and> SQLGetDiagRec example_world SQL_HANDLE_STMT 3 2 0 0 0 0 0 D = Some (SQL_NO_DATA, D)"
proof -
  obtain d where d_def: "d = AddStatusRecord SHY010_SEQUENCE_ERROR ''x'' DiagnosticRecordStorage" by blast
  obtain D where D_def: "D = set_diag SQL_HANDLE_STMT 3 d example_driver" by blast
  have D: "diag_of SQL_HANDLE_STMT 3 D = Some d" by (simp add: diag_of_def set_diag_def D_def)
  have "length (statusRecords d) = 1"
    by (simp add: d_def AddStatusRecord_def AddStatusRecordAt_def AddRecord_def DiagnosticRecordStorage_def)
  with records_can_be_read [OF D, of 2 0 example_world 0 0 0 0]
  have "SQLGetDiagRec example_world SQL_HANDLE_STMT 3 2 0 0 0 0 0 D = Some (SQL_NO_DATA, D)"
    by auto
  with D show ?thesis unfolding d_def by blast
qed

end
