(* ===== verification/Sdk_Lifecycle.thy ===== *)
theory Sdk_Lifecycle
  imports Odbc_Prelude
begin

text \<open>
  The SDK of the service behind all connections (\<^verbatim>\<open>src/connection.cpp\<close>): the constructor of a connection
  initialises it unless a flag says it is, the destructor of the last connection shuts it down. The flag is
  read outside the lock and the destructor takes no lock, so the constructors and destructors of several
  threads are interleaved by their accesses to the shared variables.
\<close>

section \<open>The steps\<close>

text \<open>Where a thread is with its connection: before reading the flag, before taking the lock, in the lock,
  before setting the flag, before counting itself, with a live connection, after the count has gone to zero, after
  the shut-down, and done.\<close>

datatype conn_phase = Unborn | Locking | Locked | Initialised | Counting | Alive | Last | Shut | Gone

record sdk =
  sdk_up :: bool
  awsSDKReady :: bool
  refCount :: int
  sdk_lock :: bool
  phases :: "conn_phase list"

definition fresh_sdk :: "nat \<Rightarrow> sdk" where
  "fresh_sdk n = \<lparr>sdk_up = False, awsSDKReady = False, refCount = 0, sdk_lock = False, phases = replicate n Unborn\<rparr>"

definition goes :: "nat \<Rightarrow> conn_phase \<Rightarrow> sdk \<Rightarrow> sdk" where
  "goes i p s = s\<lparr>phases := (phases s)[i := p]\<rparr>"

definition sdk_step :: "nat \<Rightarrow> sdk \<Rightarrow> sdk option" where
  "sdk_step i s =
     (if length (phases s) \<le> i then None
      else case phases s ! i of
        Unborn \<Rightarrow> Some (goes i (if awsSDKReady s then Counting else Locking) s)
      | Locking \<Rightarrow> if sdk_lock s then None else Some (goes i Locked (s\<lparr>sdk_lock := True\<rparr>))
      | Locked \<Rightarrow>
          if awsSDKReady s then Some (goes i Counting (s\<lparr>sdk_lock := False\<rparr>))
          else Some (goes i Initialised (s\<lparr>sdk_up := True\<rparr>))
      | Initialised \<Rightarrow> Some (goes i Counting (s\<lparr>awsSDKReady := True, sdk_lock := False\<rparr>))
      | Counting \<Rightarrow> Some (goes i Alive (s\<lparr>refCount := refCount s + 1\<rparr>))
      | Alive \<Rightarrow> Some (goes i (if refCount s - 1 = 0 then Last else Gone) (s\<lparr>refCount := refCount s - 1\<rparr>))
      | Last \<Rightarrow> Some (goes i Shut (s\<lparr>sdk_up := False\<rparr>))
      | Shut \<Rightarrow> Some (goes i Gone (s\<lparr>awsSDKReady := False\<rparr>))
      | Gone \<Rightarrow> None)"

fun sdk_run :: "nat list \<Rightarrow> sdk \<Rightarrow> sdk option" where
  "sdk_run [] s = Some s"
| "sdk_run (i # is) s = Option.bind (sdk_step i s) (sdk_run is)"

section \<open>Runs whose destructors run alone\<close>

text \<open>A thread may step unless another one is destroying its connection, and may begin to destroy its own
  only while no other is creating one.\<close>

definition alone :: "nat \<Rightarrow> sdk \<Rightarrow> bool" where
  "alone i s \<longleftrightarrow>
     (\<forall>j<length (phases s). j \<noteq> i \<longrightarrow> phases s ! j \<notin> {Last, Shut}
        \<and> (phases s ! i = Alive \<longrightarrow> phases s ! j \<in> {Unborn, Alive, Gone}))"

inductive serial_run :: "nat \<Rightarrow> sdk \<Rightarrow> bool" for n :: nat where
  serial_start: "serial_run n (fresh_sdk n)"
| serial_step: "serial_run n s \<Longrightarrow> alone i s \<Longrightarrow> sdk_step i s = Some s' \<Longrightarrow> serial_run n s'"

definition count_alive :: "sdk \<Rightarrow> nat" where
  "count_alive s = length (filter (\<lambda>p. p = Alive) (phases s))"

text \<open>The invariant: the counter is exact; who holds or is about to count a connection finds the SDK up; the flag
  is right except while the last destructor is between its two assignments, when everyone else is idle.\<close>

definition phase_ok :: "bool \<Rightarrow> bool \<Rightarrow> conn_phase \<Rightarrow> bool" where
  "phase_ok up ready p \<longleftrightarrow>
     (p \<in> {Counting, Alive} \<longrightarrow> up \<and> ready) \<and> (p = Initialised \<longrightarrow> up) \<and> (p \<in> {Unborn, Locking, Locked} \<longrightarrow> ready \<longrightarrow> up)"

definition sdk_ok :: "sdk \<Rightarrow> bool" where
  "sdk_ok s \<longleftrightarrow>
     refCount s = int (count_alive s)
   \<and> (if \<exists>p\<in>set (phases s). p \<in> {Last, Shut}
      then \<exists>i<length (phases s). phases s ! i \<in> {Last, Shut} \<and> (\<forall>j<length (phases s). j \<noteq> i \<longrightarrow> phases s ! j \<in> {Unborn, Gone})
      else (\<forall>p\<in>set (phases s). phase_ok (sdk_up s) (awsSDKReady s) p) \<and> (awsSDKReady s \<longrightarrow> sdk_up s))"

lemma filter_update:
  "i < length xs \<Longrightarrow> length (filter P (xs[i := x])) + (if P (xs ! i) then 1 else 0) = length (filter P xs) + (if P x then 1 else 0)"
proof (induction xs arbitrary: i)
  case (Cons a xs)
  then show ?case by (cases i) auto
qed simp

lemma count_goes:
  assumes "i < length (phases s)"
  shows "int (count_alive (goes i p s)) = int (count_alive s) - (if phases s ! i = Alive then 1 else 0) + (if p = Alive then 1 else 0)"
  using filter_update [OF assms, of "\<lambda>p. p = Alive" p] by (auto simp: count_alive_def goes_def split: if_splits)

lemma alive_counted:
  assumes "j < length (phases s)" and "phases s ! j = Alive" and "i < length (phases s)" and "phases s ! i = Alive" and "i \<noteq> j"
  shows "2 \<le> count_alive s"
proof -
  have "length (filter (\<lambda>p. p = Alive) ((phases s)[i := Gone])) + 1 = count_alive s"
    using filter_update [OF assms(3), of "\<lambda>p. p = Alive" Gone] assms(4) by (simp add: count_alive_def)
  moreover have "Alive \<in> set ((phases s)[i := Gone])"
    using assms(1,2,5) by (metis length_list_update nth_list_update_neq nth_mem)
  then have "filter (\<lambda>p. p = Alive) ((phases s)[i := Gone]) \<noteq> []" by (simp add: filter_empty_conv)
  then have "0 < length (filter (\<lambda>p. p = Alive) ((phases s)[i := Gone]))" by blast
  ultimately show ?thesis by linarith
qed

lemma goes_simps [simp]:
  "sdk_up (goes i p s) = sdk_up s" "awsSDKReady (goes i p s) = awsSDKReady s" "refCount (goes i p s) = refCount s"
  "phases (goes i p s) = (phases s)[i := p]"
  by (simp_all add: goes_def)

lemma count_same [simp]:
  "count_alive (s\<lparr>sdk_up := a\<rparr>) = count_alive s" "count_alive (s\<lparr>awsSDKReady := a\<rparr>) = count_alive s"
  "count_alive (s\<lparr>refCount := r\<rparr>) = count_alive s" "count_alive (s\<lparr>sdk_lock := a\<rparr>) = count_alive s"
  by (simp_all add: count_alive_def)

text \<open>A state without a destructor at work.\<close>

definition calm :: "sdk \<Rightarrow> bool" where
  "calm s \<longleftrightarrow> refCount s = int (count_alive s) \<and> (\<forall>p\<in>set (phases s). p \<notin> {Last, Shut} \<and> phase_ok (sdk_up s) (awsSDKReady s) p)
     \<and> (awsSDKReady s \<longrightarrow> sdk_up s)"

definition closing_down :: "nat \<Rightarrow> sdk \<Rightarrow> bool" where
  "closing_down i s \<longleftrightarrow> refCount s = int (count_alive s) \<and> i < length (phases s) \<and> phases s ! i \<in> {Last, Shut}
     \<and> (\<forall>j<length (phases s). j \<noteq> i \<longrightarrow> phases s ! j \<in> {Unborn, Gone})"

lemma sdk_ok_cases: "sdk_ok s \<longleftrightarrow> calm s \<or> (\<exists>i. closing_down i s)"
  unfolding sdk_ok_def calm_def closing_down_def by (auto simp: in_set_conv_nth)

lemma in_update: "p \<in> set (xs[i := x]) \<Longrightarrow> p = x \<or> p \<in> set xs"
  using set_update_subset_insert by fastforce

lemma calm_goes:
  assumes "calm s" and "i < length (phases s)" and "phases t = (phases s)[i := x]" and "x \<notin> {Last, Shut}"
    and "phase_ok (sdk_up t) (awsSDKReady t) x" and "awsSDKReady t \<longrightarrow> sdk_up t"
    and "\<And>p. phase_ok (sdk_up s) (awsSDKReady s) p \<Longrightarrow> phase_ok (sdk_up t) (awsSDKReady t) p"
    and "refCount t = refCount s - (if phases s ! i = Alive then 1 else 0) + (if x = Alive then 1 else 0)"
  shows "calm t"
proof -
  have "count_alive t = count_alive (goes i x s)" using assms(3) by (simp add: count_alive_def)
  then have "int (count_alive t) = refCount t" using count_goes [OF assms(2), of x] assms(1,8) by (simp add: calm_def)
  moreover have "p \<notin> {Last, Shut} \<and> phase_ok (sdk_up t) (awsSDKReady t) p" if "p \<in> set (phases t)" for p
    using in_update [OF that [unfolded assms(3)]] assms(1,4,5,7) by (auto simp: calm_def)
  ultimately show ?thesis using assms(6) unfolding calm_def by simp
qed

lemma calm_step:
  assumes "calm s" and "alone i s" and step: "sdk_step i s = Some s'"
  shows "calm s' \<or> closing_down i s'"
proof -
  have i: "i < length (phases s)" using step by (simp add: sdk_step_def split: if_splits)
  have own: "phases s ! i \<notin> {Last, Shut}" "phase_ok (sdk_up s) (awsSDKReady s) (phases s ! i)"
    and count: "refCount s = int (count_alive s)" and ready: "awsSDKReady s \<longrightarrow> sdk_up s"
    using assms(1) i by (auto simp: calm_def)
  note go = calm_goes [OF assms(1) i, of s']
  show ?thesis
  proof (cases "phases s ! i")
    case Unborn
    with step i own ready show ?thesis
      by (intro disjI1 go [where x = "if awsSDKReady s then Counting else Locking"])
        (auto simp: sdk_step_def phase_ok_def)
  next
    case Locking
    with step i own ready show ?thesis
      by (intro disjI1 go [where x = Locked]) (auto simp: sdk_step_def phase_ok_def split: if_splits)
  next
    case Locked
    with step i own ready show ?thesis
      by (intro disjI1 go [where x = "if awsSDKReady s then Counting else Initialised"])
        (auto simp: sdk_step_def phase_ok_def split: if_splits)
  next
    case Initialised
    with step i own ready show ?thesis
      by (intro disjI1 go [where x = Counting]) (auto simp: sdk_step_def phase_ok_def split: if_splits)
  next
    case Counting
    with step i own ready show ?thesis
      by (intro disjI1 go [where x = Alive]) (auto simp: sdk_step_def phase_ok_def split: if_splits)
  next
    case Alive
    show ?thesis
    proof (cases "refCount s - 1 = 0")
      case True
      have s': "phases s' = (phases s)[i := Last]" "refCount s' = refCount s - 1"
        using step i Alive True by (auto simp: sdk_step_def)
      have "count_alive s' = count_alive (goes i Last s)" by (simp add: count_alive_def s')
      then have "refCount s' = int (count_alive s')" using count_goes [OF i, of Last] Alive count s'(2) by simp
      moreover have "phases s ! j \<in> {Unborn, Gone}" if "j < length (phases s)" "j \<noteq> i" for j
        using assms(2) that Alive alive_counted [OF that(1) _ i Alive] count True by (auto simp: alone_def)
      ultimately show ?thesis using i by (simp add: closing_down_def s'(1))
    next
      case False
      with step i own ready Alive show ?thesis
        by (intro disjI1 go [where x = Gone]) (auto simp: sdk_step_def phase_ok_def)
    qed
  qed (use own step i in \<open>auto simp: sdk_step_def\<close>)
qed

lemma closing_step:
  assumes "closing_down k s" and "alone i s" and step: "sdk_step i s = Some s'"
  shows "calm s' \<or> closing_down i s'"
proof -
  have i: "i < length (phases s)" using step by (simp add: sdk_step_def split: if_splits)
  have k: "i = k" using assms(1,2) i by (auto simp: closing_down_def alone_def)
  have others: "\<forall>j<length (phases s). j \<noteq> i \<longrightarrow> phases s ! j \<in> {Unborn, Gone}" and count: "refCount s = int (count_alive s)"
    using assms(1) k by (auto simp: closing_down_def)
  have keep: "refCount s' = int (count_alive s')" if "phases s' = (phases s)[i := p]" "p \<noteq> Alive" "refCount s' = refCount s"
    "phases s ! i \<noteq> Alive" for p
    using count_goes [OF i, of p] that count by (simp add: count_alive_def)
  consider "phases s ! i = Last" | "phases s ! i = Shut" using assms(1) k by (auto simp: closing_down_def)
  then show ?thesis
  proof cases
    case 1
    then have s': "s' = goes i Shut (s\<lparr>sdk_up := False\<rparr>)" using step i by (simp add: sdk_step_def)
    then show ?thesis using keep [of Shut] 1 i others by (simp add: closing_down_def)
  next
    case 2
    then have s': "s' = goes i Gone (s\<lparr>awsSDKReady := False\<rparr>)" using step i by (simp add: sdk_step_def)
    have "p \<in> {Unborn, Gone}" if "p \<in> set (phases s')" for p
      using that others i by (auto simp: s' in_set_conv_nth nth_list_update split: if_splits)
    then show ?thesis using keep [of Gone] 2 by (auto simp: calm_def phase_ok_def s')
  qed
qed

lemma serial_ok: "serial_run n s \<Longrightarrow> sdk_ok s"
proof (induction rule: serial_run.induct)
  case serial_start
  then show ?case by (auto simp: sdk_ok_cases calm_def fresh_sdk_def count_alive_def phase_ok_def)
next
  case (serial_step s i s')
  then show ?case unfolding sdk_ok_cases using calm_step closing_step by blast
qed

section \<open>Properties\<close>

lemma alive_finds_sdk:
  assumes "serial_run n s" and "i < length (phases s)" and "phases s ! i = Alive"
  shows "sdk_up s \<and> awsSDKReady s"
  using serial_ok [OF assms(1)] assms(2,3)
  by (auto simp: sdk_ok_cases calm_def closing_down_def phase_ok_def all_set_conv_all_nth)

lemma count_exact: "serial_run n s \<Longrightarrow> refCount s = int (count_alive s)"
  using serial_ok by (auto simp: sdk_ok_def)

text \<open> C20. As long as a connection is destroyed only while no other is being created or destroyed, every live
  connection finds the SDK initialised and the counter is exact. Without that condition it fails: the
  destructor of the last connection has counted down, another thread's constructor then still finds the
  flag set and skips the initialisation, the destructor shuts the SDK down, and the new connection is alive without it.\<close>

theorem sdk_lifecycle:
  "(\<forall>n s i. serial_run n s \<and> i < length (phases s) \<and> phases s ! i = Alive \<longrightarrow>
      sdk_up s \<and> awsSDKReady s \<and> refCount s = int (count_alive s))
   \<and> (\<exists>s. sdk_run [0, 0, 0, 0, 0, 0, 1, 0, 1] (fresh_sdk 2) = Some s \<and> phases s ! 1 = Alive \<and> refCount s = 1 \<and> \<not> sdk_up s)"
proof (intro conjI allI impI)
  show "\<exists>s. sdk_run [0, 0, 0, 0, 0, 0, 1, 0, 1] (fresh_sdk 2) = Some s \<and> phases s ! 1 = Alive \<and> refCount s = 1 \<and> \<not> sdk_up s"
    by (simp add: fresh_sdk_def sdk_step_def goes_def eval_nat_numeral)
qed (use alive_finds_sdk count_exact in blast)+

lemma serial_single:
  "\<exists>s. serial_run 1 s \<and> phases s = [Alive]"
proof -
  have step: "serial_run 1 s \<Longrightarrow> phases s = [p] \<Longrightarrow> sdk_step 0 s = Some s' \<Longrightarrow> serial_run 1 s'" for s s' p
    by (rule serial_step [of 1 s 0 s']) (auto simp: alone_def)
  let ?s = "\<lambda>u r c l p. \<lparr>sdk_up = u, awsSDKReady = r, refCount = c, sdk_lock = l, phases = [p]\<rparr>"
  have "serial_run 1 (?s False False 0 False Unborn)" using serial_start [of 1] by (simp add: fresh_sdk_def)
  from step [OF this] have "serial_run 1 (?s False False 0 False Locking)" by (simp add: sdk_step_def goes_def)
  from step [OF this] have "serial_run 1 (?s False False 0 True Locked)" by (simp add: sdk_step_def goes_def)
  from step [OF this] have "serial_run 1 (?s True False 0 True Initialised)" by (simp add: sdk_step_def goes_def)
  from step [OF this] have "serial_run 1 (?s True True 0 False Counting)" by (simp add: sdk_step_def goes_def)
  from step [OF this] have "serial_run 1 (?s True True 1 False Alive)" by (simp add: sdk_step_def goes_def)
  then show ?thesis by (intro exI [of _ "?s True True 1 False Alive"]) simp
qed

theorem sdk_lifecycle_witness: "\<exists>s. serial_run 1 s \<and> phases s = [Alive] \<and> sdk_up s \<and> refCount s = 1"
proof -
  obtain s where s: "serial_run 1 s" "phases s = [Alive]" using serial_single by blast
  then have "0 < length (phases s)" "phases s ! 0 = Alive" by simp_all
  with sdk_lifecycle [THEN conjunct1, THEN spec, THEN spec, THEN spec, of 1 s 0] s show ?thesis
    by (auto simp: count_alive_def)
qed

section \<open>The log level of the SDK\<close>

datatype aws_log_level = Aws_Off | Aws_Fatal | Aws_Error | Aws_Warn | Aws_Info | Aws_Debug | Aws_Trace

definition GetAWSLogLevelFromString :: "string \<Rightarrow> aws_log_level" where
  "GetAWSLogLevelFromString s =
     (let u = ToUpper s in
      if u = ''OFF'' then Aws_Off else if u = ''FATAL'' then Aws_Fatal else if u = ''ERROR'' then Aws_Error
      else if u = ''WARN'' then Aws_Warn else if u = ''INFO'' then Aws_Info else if u = ''DEBUG'' then Aws_Debug
      else if u = ''TRACE'' then Aws_Trace else Aws_Warn)"

end
