(* ===== verification/Magnitude.thy ===== *)
theory Magnitude
  imports Bits
begin

text \<open>
  Magnitudes of big integers (\<^verbatim>\<open>src/ignite/common/src/common/big_integer.cpp\<close>): arrays of 32-bit words, the
  least significant first, with the loops that add, multiply, compare and shift them. A loop over an
  index is a recursion over the list; the 64-bit intermediate values are 64-bit words. \<open>mval\<close> is the
  number a magnitude stands for, and each operation is proved to compute with these numbers.
\<close>

type_synonym magnitude = "32 word list"

unbundle bit_operations_syntax

abbreviation radix :: nat where "radix \<equiv> 4294967296"

section \<open>Operations\<close>

text \<open>The loop of \<^verbatim>\<open>Normalize\<close>: zero words at the upper end are dropped.\<close>

definition strip_zeros :: "magnitude \<Rightarrow> magnitude" where
  "strip_zeros m = rev (dropWhile (\<lambda>x. x = 0) (rev m))"

text \<open>The loop of \<^verbatim>\<open>Compare\<close>, from the most significant word down; both lists are reversed.\<close>

fun compare_words :: "magnitude \<Rightarrow> magnitude \<Rightarrow> int" where
  "compare_words (x # xs) (y # ys) =
     (if x = y then compare_words xs ys else if y < x then 1 else - 1)"
| "compare_words _ _ = 0"

definition compare_mags :: "magnitude \<Rightarrow> magnitude \<Rightarrow> int" where
  "compare_mags a b =
     (if length a \<noteq> length b then (if length b < length a then 1 else - 1)
      else compare_words (rev a) (rev b))"

text \<open>\<^verbatim>\<open>Add\<close> of two arrays: the words of the second are added to the first and the carry is returned.\<close>

fun add_words :: "magnitude \<Rightarrow> magnitude \<Rightarrow> 32 word \<Rightarrow> magnitude \<times> 32 word" where
  "add_words (r # rs) (a # as) carry =
     (let sum = ucast r + ucast a + ucast carry :: 64 word;
          (rs', c) = add_words rs as (ucast (drop_bit 32 sum))
      in (ucast sum # rs', c))"
| "add_words rs _ carry = (rs, carry)"

text \<open>\<^verbatim>\<open>Add\<close> of a single word: the loop stops when there is no carry left.\<close>

fun add_carry :: "magnitude \<Rightarrow> 32 word \<Rightarrow> magnitude \<times> 32 word" where
  "add_carry [] carry = ([], carry)"
| "add_carry (r # rs) carry =
     (if carry = 0 then (r # rs, 0)
      else
        let sum = ucast r + ucast carry :: 64 word;
            (rs', c) = add_carry rs (ucast (drop_bit 32 sum))
        in (ucast sum # rs', c))"

text \<open>\<^verbatim>\<open>BigInteger::Add\<close> of an array to the magnitude of the number: the shorter is padded, and a last
  carry is pushed on the result.\<close>

definition add_mags :: "magnitude \<Rightarrow> magnitude \<Rightarrow> magnitude" where
  "add_mags m a =
     (let m' = m @ replicate (length a - length m) 0;
          (lo, c) = add_words m' a 0
      in if c = 0 then lo
         else
           let (hi, c') = add_carry (drop (length a) lo) c
           in take (length a) lo @ hi @ (if c' = 0 then [] else [c']))"

text \<open>The inner loop of \<^verbatim>\<open>Multiply\<close>: the row of one word of the second factor, added to the result from the
  position of that word; the carry is stored above the row.\<close>

fun mul_row :: "magnitude \<Rightarrow> 32 word \<Rightarrow> magnitude \<Rightarrow> 32 word \<Rightarrow> magnitude" where
  "mul_row [] y (r # rs) carry = carry # rs"
| "mul_row (a # as) y (r # rs) carry =
     (let product = ucast a * ucast y + ucast r + ucast carry :: 64 word
      in ucast product # mul_row as y rs (ucast (drop_bit 32 product)))"
| "mul_row _ _ [] _ = []"

fun mul_rows :: "magnitude \<Rightarrow> magnitude \<Rightarrow> magnitude \<Rightarrow> magnitude" where
  "mul_rows a [] res = res"
| "mul_rows a (y # ys) res =
     (case mul_row a y res 0 of [] \<Rightarrow> [] | r # rs \<Rightarrow> r # mul_rows a ys rs)"

definition mul_mags :: "magnitude \<Rightarrow> magnitude \<Rightarrow> magnitude" where
  "mul_mags a b = mul_rows a b (replicate (length a + length b) 0)"

text \<open>\<^verbatim>\<open>ShiftLeft\<close> and \<^verbatim>\<open>ShiftRight\<close> by less than a word.\<close>

fun shl_words :: "nat \<Rightarrow> 32 word \<Rightarrow> magnitude \<Rightarrow> magnitude" where
  "shl_words n below [] = []"
| "shl_words n below (x # xs) = ((push_bit n x) OR (drop_bit (32 - n) below)) # shl_words n x xs"

definition ShiftLeft :: "magnitude \<Rightarrow> nat \<Rightarrow> magnitude" where
  "ShiftLeft xs n =
     (if n = 0 then xs else case xs of [] \<Rightarrow> [] | x # xs' \<Rightarrow> push_bit n x # shl_words n x xs')"

fun shr_words :: "nat \<Rightarrow> magnitude \<Rightarrow> magnitude" where
  "shr_words n [] = []"
| "shr_words n [x] = [drop_bit n x]"
| "shr_words n (x # y # ys) = ((drop_bit n x) OR (push_bit (32 - n) y)) # shr_words n (y # ys)"

definition ShiftRight :: "magnitude \<Rightarrow> nat \<Rightarrow> magnitude" where
  "ShiftRight xs n = (if n = 0 then xs else shr_words n xs)"

text \<open>\<^verbatim>\<open>MultiplyAndSubstruct\<close>: the difference is computed modulo \<open>2 ^ 64\<close> and read as a signed number, so that the
  shift that extracts the borrow is arithmetic.\<close>

fun mul_sub :: "magnitude \<Rightarrow> magnitude \<Rightarrow> 32 word \<Rightarrow> 64 word \<Rightarrow> magnitude \<times> 64 word" where
  "mul_sub (q # qs) (a # as) x carry =
     (let product = ucast a * ucast x :: 64 word;
          difference = ucast q - carry - (product AND 0xFFFFFFFF);
          carry' = drop_bit 32 product - signed_drop_bit 32 difference;
          (qs', c) = mul_sub qs as x carry'
      in (ucast difference # qs', c))"
| "mul_sub qs _ x carry = (qs, carry)"

definition MultiplyAndSubstruct :: "magnitude \<Rightarrow> magnitude \<Rightarrow> 32 word \<Rightarrow> magnitude \<times> 32 word" where
  "MultiplyAndSubstruct q a x = (let (q', c) = mul_sub q a x 0 in (q', ucast c))"

section \<open>The number a magnitude stands for\<close>

fun mval :: "magnitude \<Rightarrow> nat" where
  "mval [] = 0"
| "mval (x # xs) = unat x + radix * mval xs"

definition normal :: "magnitude \<Rightarrow> bool" where
  "normal m \<longleftrightarrow> m = [] \<or> last m \<noteq> 0"

lemma mval_append: "mval (xs @ ys) = mval xs + radix ^ length xs * mval ys"
  by (induction xs) (simp_all add: algebra_simps)

lemma mval_zeros [simp]: "mval (replicate n 0) = 0"
  by (induction n) simp_all

lemma mval_lt: "mval xs < radix ^ length xs"
proof (induction xs)
  case (Cons x xs)
  then have "radix * Suc (mval xs) \<le> radix * radix ^ length xs" by (intro mult_le_mono2) simp
  then show ?case using unat_lt_word [of x] by simp
qed simp

lemma mval_take_drop: "mval xs = mval (take n xs) + radix ^ min n (length xs) * mval (drop n xs)"
  by (metis append_take_drop_id length_take min.commute mval_append)

lemma mval_snoc: "mval (xs @ [x]) = mval xs + radix ^ length xs * unat x"
  by (simp add: mval_append)

lemma mval_0_iff: "mval xs = 0 \<longleftrightarrow> (\<forall>x \<in> set xs. x = 0)"
  by (induction xs) (auto simp: unat_eq_0)

lemma mval_inj: "length xs = length ys \<Longrightarrow> mval xs = mval ys \<Longrightarrow> xs = ys"
proof (induction xs ys rule: list_induct2)
  case (Cons x xs y ys)
  have "(unat x + radix * mval xs) mod radix = (unat y + radix * mval ys) mod radix" using Cons.prems by simp
  then have "unat x = unat y" using unat_lt_word [of x] unat_lt_word [of y] by simp
  then show ?case using Cons by (simp add: word_unat_eq_iff)
qed simp

text \<open>The most significant word decides how large the number is.\<close>

lemma normal_lower:
  assumes "normal m" and "m \<noteq> []"
  shows "radix ^ (length m - 1) \<le> mval m"
proof -
  have m: "m = butlast m @ [last m]" using assms(2) by simp
  have "0 < unat (last m)" using assms by (simp add: normal_def unat_gt_0)
  then have "radix ^ (length m - 1) * 1 \<le> radix ^ (length m - 1) * unat (last m)"
    by (intro mult_le_mono2) simp
  also have "\<dots> \<le> mval m" by (subst (3) m) (simp add: mval_snoc)
  finally show ?thesis by simp
qed

lemma normal_length_mono:
  assumes "normal a" and "mval a \<le> mval b"
  shows "length a \<le> length b"
proof (rule ccontr)
  assume c: "\<not> length a \<le> length b"
  then have "radix ^ length b \<le> radix ^ (length a - 1)" by (intro power_increasing) simp_all
  also have "\<dots> \<le> mval a" using c assms(1) by (intro normal_lower) auto
  finally show False using assms(2) mval_lt [of b] by simp
qed

lemma normal_inj: "normal a \<Longrightarrow> normal b \<Longrightarrow> mval a = mval b \<Longrightarrow> a = b"
  by (metis le_antisym mval_inj normal_length_mono order_refl)

lemma normal_0_iff: "normal m \<Longrightarrow> mval m = 0 \<longleftrightarrow> m = []"
  using normal_inj [of m "[]"] by (auto simp: normal_def)

lemma strip_zeros_snoc: "strip_zeros (xs @ [x]) = (if x = 0 then strip_zeros xs else xs @ [x])"
  by (simp add: strip_zeros_def)

lemma strip_zeros: "normal (strip_zeros m) \<and> mval (strip_zeros m) = mval m"
  by (induction m rule: rev_induct) (auto simp: strip_zeros_snoc mval_snoc, simp_all add: normal_def strip_zeros_def)

lemma strip_zeros_normal: "normal m \<Longrightarrow> strip_zeros m = m"
  using normal_inj strip_zeros by blast

section \<open>Carries of 64 bits\<close>

text \<open>A 64-bit value below \<open>2 ^ 64\<close> is split into the word that is stored and the carry.\<close>

lemma unat_ucast64: "unat (ucast (x :: 32 word) :: 64 word) = unat x"
  by (simp add: unsigned_ucast_eq take_bit_eq_mod) (use unat_lt_word [of x] in simp)

lemma halves:
  fixes p :: "64 word"
  shows "unat (ucast p :: 32 word) = unat p mod radix"
    and "unat (ucast (drop_bit 32 p) :: 32 word) = unat p div radix"
    and "unat p mod radix + radix * (unat p div radix) = unat p"
proof -
  show "unat (ucast p :: 32 word) = unat p mod radix" by (simp add: unat_ucast32)
  have "unat p < 2 ^ 64" using unsigned_less [of p, where ?'a = nat] by simp
  moreover have "unat (drop_bit 32 p) = unat p div 2 ^ 32"
    by (simp only: unat_drop_bit_eq drop_bit_eq_div [of 32 "unat p"])
  ultimately show "unat (ucast (drop_bit 32 p) :: 32 word) = unat p div radix"
    by (simp add: unat_ucast32 less_mult_imp_div_less)
qed simp

lemma unat_sum64:
  fixes x y c :: "32 word"
  shows "unat (ucast x + ucast y + ucast c :: 64 word) = unat x + unat y + unat c"
proof -
  have "(ucast x + ucast y + ucast c :: 64 word) = word_of_nat (unat x + unat y + unat c)" by simp
  then show ?thesis
    using unat_lt_word [of x] unat_lt_word [of y] unat_lt_word [of c]
    by (simp only: unat_of_nat) simp
qed

lemma unat_product64:
  fixes a y r c :: "32 word"
  shows "unat (ucast a * ucast y + ucast r + ucast c :: 64 word) = unat a * unat y + unat r + unat c"
proof -
  have e: "(ucast a * ucast y + ucast r + ucast c :: 64 word) = word_of_nat (unat a * unat y + unat r + unat c)"
    by simp
  have "unat a \<le> radix - 1" "unat y \<le> radix - 1" "unat r \<le> radix - 1" "unat c \<le> radix - 1"
    using unat_lt_word [of a] unat_lt_word [of y] unat_lt_word [of r] unat_lt_word [of c] by simp_all
  moreover from this(1,2) have "unat a * unat y \<le> (radix - 1) * (radix - 1)" by (rule mult_le_mono)
  ultimately have "unat a * unat y + unat r + unat c < 2 ^ 64" by simp
  then show ?thesis unfolding e by (simp only: unat_of_nat) simp
qed

section \<open>Adding and multiplying\<close>

text \<open>One step of a loop with a carry: the low half is stored, the high half goes on.\<close>

lemma carry_step:
  fixes p :: "64 word" and m t :: nat
  assumes "m = t + unat (ucast (drop_bit 32 p) :: 32 word)"
  shows "unat (ucast p :: 32 word) + radix * m = unat p + radix * t"
  using halves [of p] assms by (simp add: algebra_simps)

lemma add_words_spec:
  assumes "add_words r a c = (s, c')" and "length a \<le> length r"
  shows "length s = length r \<and> drop (length a) s = drop (length a) r
    \<and> mval s + radix ^ length a * unat c' = mval r + mval a + unat c"
  using assms
proof (induction r a c arbitrary: s c' rule: add_words.induct)
  case (1 r rs a as c)
  let ?p = "ucast r + ucast a + ucast c :: 64 word"
  obtain t where t: "add_words rs as (ucast (drop_bit 32 ?p)) = (t, c')" and s: "s = ucast ?p # t"
    using "1.prems"(1) by (auto simp: Let_def split: prod.splits)
  have IH: "length t = length rs" "drop (length as) t = drop (length as) rs"
    "mval t + radix ^ length as * unat c' = mval rs + mval as + unat (ucast (drop_bit 32 ?p) :: 32 word)"
    using "1.IH" [OF refl t] "1.prems"(2) by auto
  show ?case using carry_step [OF IH(3), unfolded unat_sum64] IH(1,2) by (simp add: s algebra_simps)
qed auto

lemma add_carry_spec:
  assumes "add_carry r c = (s, c')"
  shows "length s = length r \<and> mval s + radix ^ length r * unat c' = mval r + unat c"
  using assms
proof (induction r c arbitrary: s c' rule: add_carry.induct)
  case (2 r rs c)
  let ?p = "ucast r + ucast c :: 64 word"
  have p: "unat ?p = unat r + unat c" using unat_sum64 [of r c 0] by simp
  show ?case
  proof (cases "c = 0")
    case False
    obtain t where t: "add_carry rs (ucast (drop_bit 32 ?p)) = (t, c')" and s: "s = ucast ?p # t"
      using 2(2) False by (auto simp: Let_def split: prod.splits)
    have IH: "length t = length rs"
      "mval t + radix ^ length rs * unat c' = mval rs + unat (ucast (drop_bit 32 ?p) :: 32 word)"
      using "2.IH" [OF False refl t] by auto
    show ?thesis using carry_step [OF IH(2), unfolded p] IH(1) by (simp add: s algebra_simps)
  qed (use 2(2) in simp)
qed simp

lemma add_mags_value: "mval (add_mags m a) = mval m + mval a"
proof -
  define m' where "m' = m @ replicate (length a - length m) 0"
  have m': "length a \<le> length m'" "mval m' = mval m" by (simp_all add: m'_def mval_append)
  obtain lo c where w: "add_words m' a 0 = (lo, c)" by fastforce
  have lo: "length lo = length m'" "mval lo + radix ^ length a * unat c = mval m' + mval a"
    using add_words_spec [OF w m'(1)] by simp_all
  obtain hi c' where h: "add_carry (drop (length a) lo) c = (hi, c')" by fastforce
  have hi: "length hi = length lo - length a"
    "mval hi + radix ^ length hi * unat c' = mval (drop (length a) lo) + unat c"
    using add_carry_spec [OF h] by simp_all
  have lo': "mval lo = mval (take (length a) lo) + radix ^ length a * mval (drop (length a) lo)"
    using mval_take_drop [of lo "length a"] lo(1) m'(1) by (simp add: min_def)
  show ?thesis
  proof (cases "c = 0")
    case True
    then show ?thesis using lo m'(2) by (simp add: add_mags_def w m'_def [symmetric])
  next
    case False
    have "mval (hi @ (if c' = 0 then [] else [c'])) = mval (drop (length a) lo) + unat c"
      using hi by (cases "c' = 0") (simp_all add: mval_append)
    then have "mval (take (length a) lo @ hi @ (if c' = 0 then [] else [c']))
        = mval (take (length a) lo) + radix ^ length a * (mval (drop (length a) lo) + unat c)"
      using lo(1) m'(1) by (simp add: mval_append min_def del: if_split)
    with lo lo' m'(2) False show ?thesis by (simp add: add_mags_def w m'_def [symmetric] h algebra_simps)
  qed
qed

text \<open>A row of the product: the word above the row must still be zero.\<close>

lemma mul_row_spec:
  assumes "length a < length r" and "r ! length a = 0"
  shows "length (mul_row a y r c) = length r
    \<and> drop (Suc (length a)) (mul_row a y r c) = drop (Suc (length a)) r
    \<and> mval (mul_row a y r c) = mval r + mval a * unat y + unat c"
  using assms
proof (induction a y r c rule: mul_row.induct)
  case (2 a as y r rs c)
  define p where "p = (ucast a * ucast y + ucast r + ucast c :: 64 word)"
  define t where "t = mul_row as y rs (ucast (drop_bit 32 p))"
  have e: "mul_row (a # as) y (r # rs) c = ucast p # t" by (simp add: p_def t_def Let_def)
  have IH: "length t = length rs" "drop (Suc (length as)) t = drop (Suc (length as)) rs"
    "mval t = mval rs + mval as * unat y + unat (ucast (drop_bit 32 p) :: 32 word)"
    using "2.IH" [OF p_def] "2.prems" by (auto simp: t_def)
  have "unat p = unat a * unat y + unat r + unat c" by (simp only: p_def unat_product64)
  with carry_step [OF IH(3)] show ?case using IH(1,2) unfolding e by (simp add: algebra_simps)
qed auto

lemma mul_rows_spec:
  assumes "length r = length a + length b" and "drop (length a) r = replicate (length b) 0"
  shows "length (mul_rows a b r) = length r \<and> mval (mul_rows a b r) = mval r + mval a * mval b"
  using assms
proof (induction b arbitrary: r)
  case (Cons y ys)
  have z: "r ! length a = 0" using Cons.prems
    by (metis Cons_nth_drop_Suc add_less_cancel_left add.right_neutral length_Cons list.inject replicate_Suc zero_less_Suc)
  have row: "length (mul_row a y r 0) = length r"
    "drop (Suc (length a)) (mul_row a y r 0) = drop (Suc (length a)) r"
    "mval (mul_row a y r 0) = mval r + mval a * unat y"
    using mul_row_spec [of a r y 0] Cons.prems(1) z by simp_all
  obtain r0 rs where e: "mul_row a y r 0 = r0 # rs" using row(1) Cons.prems(1) by (cases "mul_row a y r 0") auto
  have "drop (length a) rs = drop 1 (drop (length a) r)" using row(2) e by simp
  then have d: "drop (length a) rs = replicate (length ys) 0" using Cons.prems(2) by simp
  from Cons.IH [OF _ d] row(1) e Cons.prems(1)
  have "length (mul_rows a ys rs) = length rs \<and> mval (mul_rows a ys rs) = mval rs + mval a * mval ys" by simp
  with row(1,3) e show ?case by (simp add: algebra_simps)
qed simp

lemma mul_mags_value: "mval (mul_mags a b) = mval a * mval b"
  using mul_rows_spec [of "replicate (length a + length b) 0" a b] by (simp add: mul_mags_def)

section \<open>Comparing\<close>

lemma sgn_diff: "x < y \<Longrightarrow> sgn (int x - int y) = - 1" "y < x \<Longrightarrow> sgn (int x - int y) = 1"
  by simp_all

lemma compare_words_rev:
  "length a = length b \<Longrightarrow> compare_words (rev a) (rev b) = sgn (int (mval a) - int (mval b))"
proof (induction a arbitrary: b rule: rev_induct)
  case (snoc x xs)
  obtain ys y where b: "b = ys @ [y]" "length xs = length ys" using snoc.prems by (cases b rule: rev_cases) auto
  show ?case
  proof (cases "x = y")
    case True
    then show ?thesis using snoc.IH [OF b(2)] b by (simp add: mval_snoc)
  next
    case False
    have *: "mval us + radix ^ length us * unat u < mval vs + radix ^ length us * unat v"
      if "u < v" for u v :: "32 word" and us vs :: magnitude
    proof -
      have "mval us + radix ^ length us * unat u < radix ^ length us * Suc (unat u)" using mval_lt [of us] by simp
      also have "\<dots> \<le> radix ^ length us * unat v" using that by (intro mult_le_mono2) (simp add: word_less_nat_alt)
      finally show ?thesis by simp
    qed
    show ?thesis
    proof (cases "y < x")
      case True
      with * [of y x ys xs] b(2) have "mval b < mval (xs @ [x])" by (simp add: b mval_snoc)
      with True False show ?thesis by (simp add: sgn_diff b(1))
    next
      case gt: False
      with False have "x < y" by simp
      with * [of x y xs ys] b(2) have "mval (xs @ [x]) < mval b" by (simp add: b mval_snoc)
      with gt False show ?thesis by (simp add: sgn_diff b(1))
    qed
  qed
qed simp

lemma compare_mags_spec:
  assumes "normal a" and "normal b"
  shows "compare_mags a b = sgn (int (mval a) - int (mval b))"
proof (cases "length a = length b")
  case True
  then show ?thesis by (simp add: compare_mags_def compare_words_rev)
next
  case False
  have "mval b < mval a" if "length b < length a"
    using normal_length_mono [OF assms(1), of b] that by linarith
  moreover have "mval a < mval b" if "length a < length b"
    using normal_length_mono [OF assms(2), of a] that by linarith
  ultimately show ?thesis using False
    by (cases "length b < length a") (simp_all add: compare_mags_def sgn_diff)
qed

section \<open>Shifting\<close>

lemma unat_push_bit32: "unat (push_bit n (x :: 32 word)) = unat x * 2 ^ n mod radix"
  by (simp only: unsigned_push_bit_eq push_bit_eq_mult [of n "unat x"] take_bit_eq_mod len32) simp

lemma unat_drop_bit32: "unat (drop_bit n (x :: 32 word)) = unat x div 2 ^ n"
  by (simp only: unat_drop_bit_eq drop_bit_eq_div [of n "unat x"])

lemma radix_split: "n \<le> 32 \<Longrightarrow> 2 ^ n * 2 ^ (32 - n) = radix"
  by (subst power_add [symmetric]) simp

lemma scaled_word:
  assumes "n \<le> 32"
  shows "unat (x :: 32 word) * 2 ^ n mod radix = 2 ^ n * (unat x mod 2 ^ (32 - n))"
proof -
  have p: "2 ^ n * 2 ^ (32 - n) = radix" by (rule radix_split [OF assms])
  show ?thesis unfolding p [symmetric] by (subst mult_mod_right) (simp add: mult.commute)
qed

text \<open>The two parts that a shifted word is put together from do not overlap.\<close>

lemma unat_joined:
  fixes x y :: "32 word"
  assumes "n \<le> 32"
  shows "unat (push_bit n x OR drop_bit (32 - n) y) = unat x * 2 ^ n mod radix + unat y div 2 ^ (32 - n)"
proof -
  have d: "push_bit n x AND drop_bit (32 - n) y = 0"
    by (rule bit_eqI) (use assms in \<open>auto simp: bit_simps dest: bit_imp_le_length\<close>)
  have p: "(2::nat) ^ (32 - n) * 2 ^ n = 2 ^ 32" using assms by (simp flip: power_add)
  have "unat x * 2 ^ n mod radix = 2 ^ n * (unat x mod 2 ^ (32 - n))" by (rule scaled_word [OF assms])
  moreover have "unat x mod 2 ^ (32 - n) + 1 \<le> 2 ^ (32 - n)" by (simp add: Suc_le_eq)
  then have "2 ^ n * (unat x mod 2 ^ (32 - n) + 1) \<le> 2 ^ n * 2 ^ (32 - n)" by (rule mult_le_mono2)
  ultimately have h: "unat x * 2 ^ n mod radix + 2 ^ n \<le> radix"
    unfolding radix_split [OF assms] by (simp add: algebra_simps)
  have "unat y < 2 ^ n * 2 ^ (32 - n)" using unat_lt_word [of y] p by (simp add: mult.commute)
  then have l: "unat y div 2 ^ (32 - n) < 2 ^ n" by (simp add: less_mult_imp_div_less)
  have "unat (push_bit n x + drop_bit (32 - n) y) = unat (push_bit n x) + unat (drop_bit (32 - n) y)"
    using h l by (intro unat_add_lem [THEN iffD1]) (simp add: unat_push_bit32 unat_drop_bit32)
  then show ?thesis by (simp add: disjunctive_add_eq_or [OF d] unat_push_bit32 unat_drop_bit32)
qed

lemma shifted_word:
  assumes "n \<le> 32"
  shows "unat x * 2 ^ n mod radix + radix * (unat (x :: 32 word) div 2 ^ (32 - n)) = unat x * 2 ^ n"
proof -
  have "unat x * 2 ^ n div (2 ^ n * 2 ^ (32 - n)) = unat x div 2 ^ (32 - n)" by (subst div_mult2_eq) simp
  then have "unat x * 2 ^ n div radix = unat x div 2 ^ (32 - n)" by (simp only: radix_split [OF assms])
  then show ?thesis by (metis mod_mult_div_eq)
qed

lemma shl_words_spec:
  assumes "n \<le> 32"
  shows "length (shl_words n b xs) = length xs
    \<and> mval (shl_words n b xs) + radix ^ length xs * (unat (last (b # xs)) div 2 ^ (32 - n))
      = mval xs * 2 ^ n + unat b div 2 ^ (32 - n)"
proof (induction xs arbitrary: b)
  case (Cons x xs)
  define t where "t = unat (last (x # xs)) div 2 ^ (32 - n)"
  have IH: "length (shl_words n x xs) = length xs"
    "mval (shl_words n x xs) + radix ^ length xs * t = mval xs * 2 ^ n + unat x div 2 ^ (32 - n)"
    using Cons.IH [of x] unfolding t_def by blast+
  have "radix * (mval (shl_words n x xs) + radix ^ length xs * t) = radix * (mval xs * 2 ^ n) + radix * (unat x div 2 ^ (32 - n))"
    unfolding IH(2) by (rule distrib_left)
  moreover have l: "last (b # x # xs) = last (x # xs)" by simp
  ultimately show ?case
    using IH(1) shifted_word [OF assms, of x] unfolding l t_def [symmetric]
    by (simp add: unat_joined [OF assms] algebra_simps)
qed simp

lemma ShiftLeft_spec:
  assumes "n < 32"
  shows "length (ShiftLeft xs n) = length xs
    \<and> (xs \<noteq> [] \<longrightarrow> mval (ShiftLeft xs n) + radix ^ length xs * (unat (last xs) div 2 ^ (32 - n)) = mval xs * 2 ^ n)"
proof (cases xs)
  case (Cons x xs')
  show ?thesis
  proof (cases "n = 0")
    case True
    then show ?thesis using unat_lt_word [of "last xs"] by (simp add: ShiftLeft_def)
  next
    case False
    have "ShiftLeft xs n = shl_words n 0 xs" using False Cons by (simp add: ShiftLeft_def)
    then show ?thesis using shl_words_spec [of n 0 xs] assms Cons by simp
  qed
qed (simp add: ShiftLeft_def)

lemma ShiftRight_spec:
  assumes "n < 32"
  shows "length (ShiftRight xs n) = length xs \<and> mval (ShiftRight xs n) = mval xs div 2 ^ n"
proof (cases "n = 0")
  case False
  have "length (shr_words n xs) = length xs \<and> mval (shr_words n xs) = mval xs div 2 ^ n"
    using assms
  proof (induction n xs rule: shr_words.induct)
    case (2 n x)
    then show ?case by (simp add: unat_drop_bit32)
  next
    case (3 n x y ys)
    define M where "M = mval (y # ys)"
    have p: "(2::nat) ^ n * 2 ^ (32 - n) = radix" using "3.prems" by (intro radix_split) simp
    have w: "unat (drop_bit n x OR push_bit (32 - n) y) = 2 ^ (32 - n) * (unat y mod 2 ^ n) + unat x div 2 ^ n"
      using unat_joined [of "32 - n" y x] "3.prems" scaled_word [of "32 - n" y] by (simp add: or.commute)
    have m: "M mod 2 ^ n = unat y mod 2 ^ n"
      unfolding M_def mval.simps p [symmetric] by (metis mod_mult_self2 mult.assoc)
    have "(unat x + radix * M) div 2 ^ n = unat x div 2 ^ n + 2 ^ (32 - n) * M"
      unfolding p [symmetric] by (simp add: mult.assoc)
    moreover have "2 ^ (32 - n) * M = 2 ^ (32 - n) * (2 ^ n * (M div 2 ^ n) + unat y mod 2 ^ n)"
      using m by (metis mult_div_mod_eq)
    moreover have "\<dots> = radix * (M div 2 ^ n) + 2 ^ (32 - n) * (unat y mod 2 ^ n)"
      unfolding p [symmetric] by (simp add: distrib_left mult.left_commute)
    ultimately have "(unat x + radix * M) div 2 ^ n
        = 2 ^ (32 - n) * (unat y mod 2 ^ n) + unat x div 2 ^ n + radix * (M div 2 ^ n)"
      by simp
    with "3.IH" "3.prems" w show ?case by (simp add: M_def)
  qed simp
  with False show ?thesis by (simp add: ShiftRight_def)
qed (simp add: ShiftRight_def)

section \<open>Multiplying and subtracting\<close>

text \<open>One step of the loop, for a borrow of at most a word: the difference fits into a signed 64-bit
  number, so the arithmetic shift divides it rounding down.\<close>

lemma product_halves:
  fixes a x :: "32 word"
  defines "p \<equiv> (ucast a * ucast x :: 64 word)"
  shows "p AND 0xFFFFFFFF = word_of_nat (unat a * unat x mod radix)"
    and "drop_bit 32 p = word_of_nat (unat a * unat x div radix)"
proof -
  have p: "unat p = unat a * unat x" using unat_product64 [of a x 0 0] by (simp add: p_def)
  have m: "(0xFFFFFFFF :: 64 word) = mask 32" by (simp add: mask_eq_exp_minus_1)
  have "unat (p AND 0xFFFFFFFF) = unat p mod radix"
    unfolding m by (simp only: take_bit_eq_mask [symmetric] unsigned_take_bit_eq) (simp add: take_bit_eq_mod)
  then show "p AND 0xFFFFFFFF = word_of_nat (unat a * unat x mod radix)" by (metis p of_nat_unat unsigned_word_eqI ucast_id)
  have "unat (drop_bit 32 p) = unat p div 2 ^ 32" by (simp only: unat_drop_bit_eq drop_bit_eq_div [of 32 "unat p"])
  then show "drop_bit 32 p = word_of_nat (unat a * unat x div radix)" by (simp flip: p) (metis of_nat_unat ucast_id)
qed

lemma mul_sub_step:
  fixes q a x :: "32 word" and c :: "64 word"
  defines "d \<equiv> ucast q - c - ((ucast a * ucast x) AND 0xFFFFFFFF)"
  defines "c' \<equiv> drop_bit 32 (ucast a * ucast x) - signed_drop_bit 32 d"
  assumes "unat c < radix"
  shows "unat c' < radix
    \<and> int (unat (ucast d :: 32 word)) - int radix * int (unat c') = int (unat q) - int (unat a) * int (unat x) - int (unat c)"
proof -
  define P Q C where "P = unat a * unat x" and "Q = unat q" and "C = unat c"
  define D where "D = int Q - int C - int (P mod radix)"
  define H where "H = int (P div radix) - D div int radix"
  have "unat a \<le> radix - 1" "unat x \<le> radix - 1" using unat_lt_word [of a] unat_lt_word [of x] by simp_all
  then have P: "P \<le> (radix - 1) * (radix - 1)" unfolding P_def by (rule mult_le_mono)
  have "Q < radix" "C < radix" using unat_lt_word [of q] assms(3) by (simp_all add: Q_def C_def)
  then have QC: "int Q < int radix" "int C < int radix" "int (P mod radix) < int radix"
    by simp_all
  have D: "- (2 ^ 63) \<le> D" "D < 2 ^ 63" using QC by (simp_all add: D_def)
  have d: "d = word_of_int D" by (simp add: d_def D_def product_halves P_def Q_def C_def)
  then have sd: "sint d = D" using D by (simp add: sint_sbintrunc' signed_take_bit_int_eq_self)
  have ud: "(ucast d :: 32 word) = word_of_int D"
    unfolding d by (rule bit_word_eqI) (auto simp: bit_simps)
  have "signed_drop_bit 32 d = word_of_int (sint (signed_drop_bit 32 d))" by simp
  also have "sint (signed_drop_bit 32 d) = D div int radix"
    by (simp only: sint_signed_drop_bit_eq sd drop_bit_eq_div) simp
  finally have c': "c' = word_of_int H" by (simp add: c'_def product_halves P_def H_def)
  have "int P = int radix * int (P div radix) + int (P mod radix)" by (metis mult_div_mod_eq of_nat_add of_nat_mult)
  moreover have "D = int radix * (D div int radix) + D mod int radix" by simp
  ultimately have e: "D mod int radix - int radix * H = int Q - int P - int C"
    unfolding H_def by (simp only: D_def right_diff_distrib)
  have "D \<le> int radix - 1" using QC by (simp add: D_def)
  then have "D div int radix \<le> (int radix - 1) div int radix" by (intro zdiv_mono1) simp_all
  then have H0: "0 \<le> H" by (simp add: H_def)
  have "D mod int radix < int radix" by simp
  moreover have "int P \<le> int ((radix - 1) * (radix - 1))" using P by (rule of_nat_mono)
  ultimately have "int radix * H < int radix * int radix" using e QC(2) by simp
  then have H1: "H < int radix" by simp
  have h: "int (unat c') = H" using H0 H1 by (simp add: c' unsigned_of_int take_bit_int_eq_self)
  moreover have "int (unat (ucast d :: 32 word)) = D mod int radix"
    by (simp add: ud unsigned_of_int take_bit_eq_mod)
  moreover have "unat c' < radix" using h H1 by linarith
  ultimately show ?thesis using e by (simp only: P_def Q_def C_def of_nat_mult)
qed

lemma mul_sub_spec:
  assumes "mul_sub q a x c = (q', c')" and "length a \<le> length q" and "unat c < radix"
  shows "length q' = length q \<and> drop (length a) q' = drop (length a) q \<and> unat c' < radix
    \<and> int (mval q') - int radix ^ length a * int (unat c') = int (mval q) - int (mval a) * int (unat x) - int (unat c)"
  using assms
proof (induction q a x c arbitrary: q' c' rule: mul_sub.induct)
  case (1 q qs a as x c)
  define d where "d = ucast q - c - ((ucast a * ucast x) AND 0xFFFFFFFF)"
  define e where "e = drop_bit 32 (ucast a * ucast x) - signed_drop_bit 32 d"
  have step: "unat e < radix"
    "int (unat (ucast d :: 32 word)) - int radix * int (unat e) = int (unat q) - int (unat a) * int (unat x) - int (unat c)"
    using mul_sub_step [of c a x q] "1.prems"(3) unfolding d_def e_def by blast+
  obtain t where t: "mul_sub qs as x e = (t, c')" and q': "q' = ucast d # t"
    using "1.prems"(1) by (auto simp: Let_def d_def e_def split: prod.splits)
  have IH: "length t = length qs" "drop (length as) t = drop (length as) qs" "unat c' < radix"
    "int (mval t) - int radix ^ length as * int (unat c') = int (mval qs) - int (mval as) * int (unat x) - int (unat e)"
    using "1.IH" [OF refl d_def e_def t] "1.prems"(2) step(1) by auto
  have "int radix * (int (mval t) - int radix ^ length as * int (unat c'))
      = int radix * (int (mval qs) - int (mval as) * int (unat x) - int (unat e))" by (simp only: IH(4))
  with step(2) IH(1-3) show ?case by (simp add: q' algebra_simps)
qed auto

lemma MultiplyAndSubstruct_spec:
  assumes "MultiplyAndSubstruct q a x = (q', c)" and "length a \<le> length q"
  shows "length q' = length q \<and> drop (length a) q' = drop (length a) q
    \<and> int (mval q') - int radix ^ length a * int (unat c) = int (mval q) - int (mval a) * int (unat x)"
proof -
  obtain c' where m: "mul_sub q a x 0 = (q', c')" and c: "c = ucast c'"
    using assms(1) by (auto simp: MultiplyAndSubstruct_def split: prod.splits)
  note s = mul_sub_spec [OF m assms(2), simplified]
  from s have "unat c = unat c'" by (simp add: c unat_ucast32)
  with s show ?thesis by simp
qed

end
