(* ===== verification/Big_Integer.thy ===== *)
theory Big_Integer
  imports Magnitude
begin

text \<open>
  Integers of arbitrary size (\<^verbatim>\<open>BigInteger\<close> of \<^verbatim>\<open>src/ignite/common/src/common/big_integer.cpp\<close>): a sign and a
  magnitude. This theory holds everything but division and text: construction from machine integers
  and from bytes, bit length and number of decimal digits, multiplication, powers, addition of a machine
  word, comparison and conversion back. The bytes are unsigned here; the code masks its signed
  ones with \<open>0xFF\<close> wherever it reads one.
\<close>

unbundle bit_operations_syntax

section \<open>The numbers\<close>

record big_integer =
  bi_sign :: int
  bi_mag :: magnitude

definition BigZero :: big_integer where
  "BigZero = \<lparr>bi_sign = 1, bi_mag = []\<rparr>"

definition BigFromMag :: "magnitude \<Rightarrow> int \<Rightarrow> big_integer" where
  "BigFromMag m s = \<lparr>bi_sign = s, bi_mag = m\<rparr>"

definition AssignUint64 :: "64 word \<Rightarrow> big_integer" where
  "AssignUint64 val =
     (if val = 0 then \<lparr>bi_sign = 1, bi_mag = []\<rparr>
      else
        let highWord = ucast (drop_bit 32 val) :: 32 word
        in \<lparr>bi_sign = 1, bi_mag = (if highWord = 0 then [ucast val] else [ucast val, highWord])\<rparr>)"

text \<open>The negation wraps around for the least 64-bit number.\<close>

definition AssignInt64 :: "64 word \<Rightarrow> big_integer" where
  "AssignInt64 val = (if val <s 0 then (AssignUint64 (- val))\<lparr>bi_sign := - 1\<rparr> else AssignUint64 val)"

definition word_of_bytes :: "8 word \<Rightarrow> 8 word \<Rightarrow> 8 word \<Rightarrow> 8 word \<Rightarrow> 32 word" where
  "word_of_bytes b0 b1 b2 b3 =
     (ucast b0 OR push_bit 8 (ucast b1)) OR push_bit 16 (ucast b2) OR push_bit 24 (ucast b3)"

text \<open>Four bytes make a word; the last word takes what remains, from one to four bytes.\<close>

fun words_of_bytes :: "8 word list \<Rightarrow> magnitude" where
  "words_of_bytes (b0 # b1 # b2 # b3 # bs) =
     word_of_bytes b0 b1 b2 b3 # words_of_bytes bs"
| "words_of_bytes [b0, b1, b2] = [word_of_bytes b0 b1 b2 0]"
| "words_of_bytes [b0, b1] = [word_of_bytes b0 b1 0 0]"
| "words_of_bytes [b0] = [word_of_bytes b0 0 0 0]"
| "words_of_bytes [] = []"

definition BigFromBytes :: "8 word list \<Rightarrow> int \<Rightarrow> bool \<Rightarrow> big_integer" where
  "BigFromBytes val sign bigEndian =
     (let bytes = (if bigEndian then rev (dropWhile (\<lambda>b. b = 0) val)
                   else rev (dropWhile (\<lambda>b. b = 0) (rev val)))
      in if bytes = [] then AssignInt64 0
         else \<lparr>bi_sign = sign, bi_mag = words_of_bytes bytes\<rparr>)"

section \<open>Operations\<close>

definition BigNormalize :: "big_integer \<Rightarrow> big_integer" where
  "BigNormalize b = b\<lparr>bi_mag := strip_zeros (bi_mag b)\<rparr>"

definition BigSwap :: "big_integer \<times> big_integer \<Rightarrow> big_integer \<times> big_integer" where
  "BigSwap = (\<lambda>(a, b). (b, a))"

definition IsNegative :: "big_integer \<Rightarrow> bool" where
  "IsNegative b \<longleftrightarrow> bi_sign b < 0"

definition IsZero :: "big_integer \<Rightarrow> bool" where
  "IsZero b \<longleftrightarrow> bi_mag b = []"

definition IsPositive :: "big_integer \<Rightarrow> bool" where
  "IsPositive b \<longleftrightarrow> 0 < bi_sign b \<and> \<not> IsZero b"

definition Negate :: "big_integer \<Rightarrow> big_integer" where
  "Negate b = (if IsZero b then b else b\<lparr>bi_sign := - bi_sign b\<rparr>)"

definition GetBitLength :: "big_integer \<Rightarrow> nat" where
  "GetBitLength b =
     (if bi_mag b = [] then 0
      else
        let res = BitLengthU32 (last (bi_mag b))
        in if 1 < length (bi_mag b) then res + (length (bi_mag b) - 1) * 32 else res)"

text \<open>The bytes of a word from the most significant down.\<close>

definition word_bytes :: "nat \<Rightarrow> 32 word \<Rightarrow> 8 word list" where
  "word_bytes k w = map (\<lambda>i. ucast (drop_bit (8 * i) w)) (rev [0..<k])"

definition MagnitudeToBytes :: "big_integer \<Rightarrow> 8 word list" where
  "MagnitudeToBytes b =
     (let bytesNum = (GetBitLength b + 7) div 8;
          m = bi_mag b
      in if bytesNum = 0 then [0]
         else word_bytes (bytesNum - 4 * (length m - 1)) (last m)
           @ concat (map (word_bytes 4) (rev (butlast m))))"

definition Multiply :: "big_integer \<Rightarrow> big_integer \<Rightarrow> big_integer" where
  "Multiply a b =
     BigNormalize \<lparr>bi_sign = bi_sign a * bi_sign b, bi_mag = mul_mags (bi_mag a) (bi_mag b)\<rparr>"

text \<open>The loop of \<^verbatim>\<open>Pow\<close>: the exponent is halved, the base squared while there are bits left.\<close>

fun pow_loop :: "nat \<Rightarrow> big_integer \<Rightarrow> big_integer \<Rightarrow> big_integer" where
  "pow_loop mutExp multiplicant this =
     (if mutExp = 0 then this
      else
        let this' = (if odd mutExp then Multiply this multiplicant else this);
            mutExp' = mutExp div 2;
            multiplicant' = (if mutExp' \<noteq> 0 then Multiply multiplicant multiplicant else multiplicant)
        in pow_loop mutExp' multiplicant' this')"

declare pow_loop.simps [simp del]

definition Pow :: "big_integer \<Rightarrow> int \<Rightarrow> big_integer" where
  "Pow b exp =
     (if exp < 0 then AssignInt64 0
      else if GetBitLength b = 0 then b
      else if GetBitLength b = 1 then
        (if c_mod exp 2 = 0 \<and> bi_sign b < 0 then b\<lparr>bi_sign := - bi_sign b\<rparr> else b)
      else pow_loop (nat exp) b (AssignInt64 1))"

definition GetPowerOfTen :: "int \<Rightarrow> big_integer" where
  "GetPowerOfTen pow =
     (if pow < int UINT64_MAX_PRECISION then AssignUint64 (word_of_nat (TenPowerU64 (nat pow)))
      else Pow (AssignInt64 10) pow)"

definition AddUint64 :: "big_integer \<Rightarrow> 64 word \<Rightarrow> big_integer" where
  "AddUint64 b x =
     (if x = 0 then b
      else if IsZero b then AssignUint64 x
      else
        let lo = ucast x :: 32 word; hi = ucast (drop_bit 32 x) :: 32 word
        in b\<lparr>bi_mag := add_mags (bi_mag b) (if hi \<noteq> 0 then [lo, hi] else [lo])\<rparr>)"

definition Compare :: "big_integer \<Rightarrow> big_integer \<Rightarrow> bool \<Rightarrow> int" where
  "Compare a b ignoreSign =
     (if \<not> ignoreSign \<and> bi_sign a \<noteq> bi_sign b then (if bi_sign b < bi_sign a then 1 else - 1)
      else
        let mgt = (if ignoreSign then 1 else bi_sign a)
        in compare_mags (bi_mag a) (bi_mag b) * mgt)"

definition BigEq :: "big_integer \<Rightarrow> big_integer \<Rightarrow> bool" where
  "BigEq a b \<longleftrightarrow> Compare a b False = 0"

definition BigNeq :: "big_integer \<Rightarrow> big_integer \<Rightarrow> bool" where
  "BigNeq a b \<longleftrightarrow> Compare a b False \<noteq> 0"

definition BigLess :: "big_integer \<Rightarrow> big_integer \<Rightarrow> bool" where
  "BigLess a b \<longleftrightarrow> Compare a b False < 0"

definition BigLessEq :: "big_integer \<Rightarrow> big_integer \<Rightarrow> bool" where
  "BigLessEq a b \<longleftrightarrow> Compare a b False \<le> 0"

definition BigGreater :: "big_integer \<Rightarrow> big_integer \<Rightarrow> bool" where
  "BigGreater a b \<longleftrightarrow> Compare a b False > 0"

definition BigGreaterEq :: "big_integer \<Rightarrow> big_integer \<Rightarrow> bool" where
  "BigGreaterEq a b \<longleftrightarrow> Compare a b False \<ge> 0"

text \<open>The number of decimal digits, from an estimate of the logarithm.\<close>

definition GetPrecision :: "big_integer \<Rightarrow> int" where
  "GetPrecision b =
     (if bi_mag b = [] then 1
      else
        let r = int ((GetBitLength b + 1) * 646456993 div 2 ^ 31)
        in if Compare b (GetPowerOfTen r) True < 0 then r else r + 1)"

text \<open>A word of the number in two's complement, each word negated by itself.\<close>

definition GetMagInt :: "big_integer \<Rightarrow> nat \<Rightarrow> 32 word" where
  "GetMagInt b n =
     (if length (bi_mag b) \<le> n then (if 0 < bi_sign b then 0 else - 1)
      else word_of_int (bi_sign b) * bi_mag b ! n)"

definition ToInt64 :: "big_integer \<Rightarrow> 64 word" where
  "ToInt64 b = (push_bit 32 (ucast (GetMagInt b 1))) OR (ucast (GetMagInt b 0))"

section \<open>The integer a number stands for\<close>

definition bi_val :: "big_integer \<Rightarrow> int" where
  "bi_val b = bi_sign b * int (mval (bi_mag b))"

text \<open>The canonical form: no leading zeros, and a zero is positive.\<close>

definition bi_ok :: "big_integer \<Rightarrow> bool" where
  "bi_ok b \<longleftrightarrow> normal (bi_mag b) \<and> (bi_sign b = 1 \<or> bi_sign b = - 1 \<and> bi_mag b \<noteq> [])"

lemma bi_ok_sign: "bi_ok b \<Longrightarrow> bi_sign b = 1 \<or> bi_sign b = - 1"
  by (auto simp: bi_ok_def)

lemma bi_ok_normal: "bi_ok b \<Longrightarrow> normal (bi_mag b)"
  by (simp add: bi_ok_def)

lemma abs_bi_val: "bi_ok b \<Longrightarrow> \<bar>bi_val b\<bar> = int (mval (bi_mag b))"
  by (auto simp: bi_ok_def bi_val_def)

lemma bi_val_inj:
  assumes "bi_ok a" and "bi_ok b" and "bi_val a = bi_val b"
  shows "a = b"
proof -
  have "mval (bi_mag a) = mval (bi_mag b)"
    using assms abs_bi_val by (metis of_nat_eq_iff)
  then have m: "bi_mag a = bi_mag b" using assms bi_ok_normal normal_inj by blast
  have "bi_sign a = bi_sign b"
  proof (cases "bi_mag b = []")
    case False
    then have "mval (bi_mag b) \<noteq> 0" using assms(2) bi_ok_normal normal_0_iff by blast
    then show ?thesis using assms(3) m by (simp add: bi_val_def)
  qed (use assms m in \<open>auto simp: bi_ok_def\<close>)
  with m show ?thesis by simp
qed

lemma AssignUint64_spec:
  "bi_ok (AssignUint64 x) \<and> bi_val (AssignUint64 x) = int (unat x)"
proof (cases "x = 0")
  case False
  let ?h = "ucast (drop_bit 32 x) :: 32 word"
  have u: "unat (ucast x :: 32 word) + radix * unat ?h = unat x"
    using halves [of x] by simp
  show ?thesis
  proof (cases "?h = 0")
    case True
    then have "unat (ucast x :: 32 word) = unat x" using u by simp
    with False have "unat (ucast x :: 32 word) \<noteq> 0" by (simp add: unat_eq_0)
    then have "(ucast x :: 32 word) \<noteq> 0" by auto
    with \<open>unat (ucast x :: 32 word) = unat x\<close> True False show ?thesis
      by (simp add: AssignUint64_def bi_ok_def bi_val_def normal_def del: of_nat_unat)
  next
    case h: False
    then show ?thesis using u False
      by (simp add: AssignUint64_def bi_ok_def bi_val_def normal_def del: of_nat_unat) 
  qed
qed (simp add: AssignUint64_def bi_ok_def bi_val_def normal_def)

section \<open>Arithmetic\<close>

lemma AssignInt64_spec: "bi_ok (AssignInt64 x) \<and> bi_val (AssignInt64 x) = sint x"
proof (cases "x <s 0")
  case True
  then have s: "sint x < 0" by (simp add: word_sless_alt)
  have "uint (- x) = - sint x"
  proof -
    have r: "- (2 ^ 63) \<le> sint x" using sint_ge [of x] by simp
    have "uint (word_of_int (- sint x) :: 64 word) = - sint x"
      using s r by (subst uint_word_of_int) (simp add: zmod_trivial_iff)
    then show ?thesis by simp
  qed
  moreover from this s have "- x \<noteq> 0" by auto
  moreover from this have "bi_mag (AssignUint64 (- x)) \<noteq> []" by (auto simp: AssignUint64_def Let_def)
  ultimately show ?thesis
    using AssignUint64_spec [of "- x"] True by (auto simp: AssignInt64_def bi_ok_def bi_val_def AssignUint64_def Let_def)
next
  case False
  then have "0 \<le> sint x" by (simp add: word_sless_alt)
  then have "uint (word_of_int (sint x) :: 64 word) = sint x"
    using sint_lt [of x] by (subst uint_word_of_int) (simp add: zmod_trivial_iff)
  then have "sint x = uint x" by simp
  then show ?thesis using AssignUint64_spec [of x] False by (simp add: AssignInt64_def)
qed

lemma Multiply_spec:
  assumes "bi_ok a" and "bi_ok b"
  shows "normal (bi_mag (Multiply a b)) \<and> mval (bi_mag (Multiply a b)) = mval (bi_mag a) * mval (bi_mag b)
    \<and> bi_sign (Multiply a b) = bi_sign a * bi_sign b \<and> bi_val (Multiply a b) = bi_val a * bi_val b
    \<and> (bi_val a * bi_val b \<noteq> 0 \<longrightarrow> bi_ok (Multiply a b))"
proof -
  have m: "normal (bi_mag (Multiply a b))" "mval (bi_mag (Multiply a b)) = mval (bi_mag a) * mval (bi_mag b)"
    and s: "bi_sign (Multiply a b) = bi_sign a * bi_sign b"
    using strip_zeros [of "mul_mags (bi_mag a) (bi_mag b)"]
    by (simp_all add: Multiply_def BigNormalize_def mul_mags_value)
  have "bi_ok (Multiply a b)" if "bi_val a * bi_val b \<noteq> 0"
  proof -
    have "mval (bi_mag (Multiply a b)) \<noteq> 0" using that m(2) by (auto simp: bi_val_def)
    then have "bi_mag (Multiply a b) \<noteq> []" by auto
    then show ?thesis using m(1) s bi_ok_sign [OF assms(1)] bi_ok_sign [OF assms(2)] by (auto simp: bi_ok_def)
  qed
  with m s show ?thesis by (simp add: bi_val_def)
qed

text \<open>The bit length is the position of the highest bit.\<close>

lemma BitLengthU32_bounds:
  assumes "w \<noteq> 0"
  shows "0 < BitLengthU32 w \<and> BitLengthU32 w \<le> 32
    \<and> 2 ^ (BitLengthU32 w - 1) \<le> unat w \<and> unat w < 2 ^ BitLengthU32 w"
proof -
  have "NumberOfLeadingZerosU32 w \<le> 31 \<and> 2 ^ (31 - NumberOfLeadingZerosU32 w) \<le> unat w
      \<and> unat w < 2 ^ Suc (31 - NumberOfLeadingZerosU32 w)"
    using NumberOfLeadingZerosU32_spec [OF assms] assms
    by (intro bit_length_bounds) (simp_all add: unat_gt_0)
  moreover from this have "32 - NumberOfLeadingZerosU32 w = Suc (31 - NumberOfLeadingZerosU32 w)" by arith
  ultimately show ?thesis by (simp add: BitLengthU32_def)
qed

lemma radix_power: "radix ^ n = 2 ^ (32 * n)"
  by (simp add: power_mult)

lemma GetBitLength_spec:
  assumes "normal (bi_mag b)" and "bi_mag b \<noteq> []"
  shows "0 < GetBitLength b \<and> 2 ^ (GetBitLength b - 1) \<le> mval (bi_mag b) \<and> mval (bi_mag b) < 2 ^ GetBitLength b"
proof -
  define m w k where "m = butlast (bi_mag b)" and "w = last (bi_mag b)" and "k = length m"
  have e: "bi_mag b = m @ [w]" using assms(2) by (simp add: m_def w_def)
  have B: "0 < BitLengthU32 w" "2 ^ (BitLengthU32 w - 1) \<le> unat w" "unat w < 2 ^ BitLengthU32 w"
    using assms BitLengthU32_bounds [of w] by (simp_all add: normal_def w_def)
  have L: "GetBitLength b = BitLengthU32 w + 32 * k" by (simp add: GetBitLength_def e k_def Let_def)
  have v: "mval (bi_mag b) = mval m + 2 ^ (32 * k) * unat w" by (simp add: e mval_snoc k_def radix_power)
  have "2 ^ (GetBitLength b - 1) = 2 ^ (32 * k) * (2::nat) ^ (BitLengthU32 w - 1)"
    using B(1) by (simp add: L flip: power_add)
  also have "\<dots> \<le> 2 ^ (32 * k) * unat w" using B(2) by (rule mult_le_mono2)
  finally have lo: "2 ^ (GetBitLength b - 1) \<le> mval (bi_mag b)" using v by simp
  have "mval m < 2 ^ (32 * k)" using mval_lt [of m] by (simp add: k_def radix_power)
  then have "mval (bi_mag b) < 2 ^ (32 * k) * (unat w + 1)" using v by simp
  also have "\<dots> \<le> 2 ^ (32 * k) * 2 ^ BitLengthU32 w" using B(3) by (intro mult_le_mono2) simp
  also have "\<dots> = 2 ^ GetBitLength b" by (simp add: L flip: power_add)
  finally show ?thesis using lo L B(1) by simp
qed

lemma GetBitLength_0: "normal (bi_mag b) \<Longrightarrow> GetBitLength b = 0 \<longleftrightarrow> bi_mag b = []"
  using GetBitLength_spec [of b] by (cases "bi_mag b = []") (auto simp: GetBitLength_def)

lemma GetBitLength_1:
  assumes "normal (bi_mag b)"
  shows "GetBitLength b = 1 \<longleftrightarrow> mval (bi_mag b) = 1"
proof (cases "bi_mag b = []")
  case False
  note B = GetBitLength_spec [OF assms False]
  show ?thesis
  proof
    assume "mval (bi_mag b) = 1"
    with B have "(2::nat) ^ (GetBitLength b - 1) \<le> 2 ^ 0" by simp
    then have "GetBitLength b - 1 \<le> 0" by (subst (asm) power_increasing_iff) simp_all
    with B show "GetBitLength b = 1" by simp
  qed (use B in simp)
qed (simp add: GetBitLength_def)

lemma pow_loop_spec:
  "bi_ok m \<Longrightarrow> bi_ok t \<Longrightarrow> bi_val m \<noteq> 0 \<Longrightarrow> bi_val t \<noteq> 0 \<Longrightarrow>
   bi_ok (pow_loop e m t) \<and> bi_val (pow_loop e m t) = bi_val t * bi_val m ^ e"
proof (induction e m t rule: pow_loop.induct)
  case (1 e m t)
  show ?case
  proof (cases "e = 0")
    case True
    then show ?thesis using "1.prems" by (subst (1 2) pow_loop.simps) simp
  next
    case False
    define t' where "t' = (if odd e then Multiply t m else t)"
    define m' where "m' = (if e div 2 \<noteq> 0 then Multiply m m else m)"
    have e: "pow_loop e m t = pow_loop (e div 2) m' t'"
      using False by (subst pow_loop.simps) (simp add: t'_def m'_def)
    have t': "bi_ok t'" "bi_val t' = (if odd e then bi_val t * bi_val m else bi_val t)"
      using Multiply_spec [of t m] "1.prems" by (auto simp: t'_def)
    have m': "bi_ok m'" "bi_val m' = (if e div 2 \<noteq> 0 then bi_val m * bi_val m else bi_val m)"
      using Multiply_spec [of m m] "1.prems" by (auto simp: m'_def)
    have IH: "bi_ok (pow_loop (e div 2) m' t') \<and> bi_val (pow_loop (e div 2) m' t') = bi_val t' * bi_val m' ^ (e div 2)"
      using False "1.prems" t' m' by (intro "1.IH") (simp_all add: t'_def m'_def split: if_splits)
    have p: "bi_val m' ^ (e div 2) = bi_val m ^ (2 * (e div 2))"
      using m'(2) by (cases "e div 2 = 0") (simp_all add: power_mult power2_eq_square)
    have "bi_val t' * bi_val m' ^ (e div 2) = bi_val t * bi_val m ^ e"
    proof (cases "odd e")
      case True
      then have "e = Suc (2 * (e div 2))" using odd_two_times_div_two_succ [of e] by simp
      then have "bi_val m ^ e = bi_val m * bi_val m ^ (2 * (e div 2))" by (metis power_Suc)
      with True p t'(2) show ?thesis by simp
    next
      case False
      with p t'(2) show ?thesis by simp
    qed
    with IH e show ?thesis by simp
  qed
qed

lemma Pow_spec:
  assumes "bi_ok b" and "0 \<le> e"
  shows "bi_ok (Pow b e) \<and> bi_val (Pow b e) = (if bi_val b = 0 then 0 else bi_val b ^ nat e)"
proof -
  note n = bi_ok_normal [OF assms(1)]
  have z: "bi_val b = 0 \<longleftrightarrow> GetBitLength b = 0"
    using GetBitLength_0 [OF n] normal_0_iff [OF n] bi_ok_sign [OF assms(1)] by (auto simp: bi_val_def)
  consider "GetBitLength b = 0" | "GetBitLength b = 1" | "GetBitLength b \<noteq> 0" "GetBitLength b \<noteq> 1" by blast
  then show ?thesis
  proof cases
    case 1
    then show ?thesis using assms z by (simp add: Pow_def)
  next
    case 2
    then have "mval (bi_mag b) = 1" using GetBitLength_1 [OF n] by simp
    then have v: "bi_val b = bi_sign b" "bi_mag b \<noteq> []" by (auto simp: bi_val_def)
    have "c_mod e 2 = 0 \<longleftrightarrow> even (nat e)" using assms(2) by (simp add: c_mod_nonneg even_nat_iff flip: even_iff_mod_2_eq_zero)
    then show ?thesis
      using 2 assms z v bi_ok_sign [OF assms(1)] \<open>mval (bi_mag b) = 1\<close>
      by (auto simp: Pow_def bi_val_def bi_ok_def)
  next
    case 3
    have one: "bi_ok (AssignInt64 1)" "bi_val (AssignInt64 1) = 1" using AssignInt64_spec [of 1] by simp_all
    show ?thesis
      using pow_loop_spec [OF assms(1) one(1), of "nat e"] 3 assms z one(2) by (simp add: Pow_def)
  qed
qed

lemma TenPowerU64_values:
  assumes "n < 20"
  shows "TenPowerU64 n = 10 ^ n"
proof -
  have "list_all (\<lambda>n. TenPowerU64 n = 10 ^ n) (0 # 1 # [2..<20])"
    by (simp add: upt_rec_numeral TenPowerU64_def)
  moreover have "n \<in> set (0 # 1 # [2..<20])"
    unfolding list.set set_upt insert_iff atLeastLessThan_iff using assms by arith
  ultimately show ?thesis unfolding list_all_iff by blast
qed

lemma GetPowerOfTen_spec:
  assumes "0 \<le> n"
  shows "bi_ok (GetPowerOfTen n) \<and> bi_val (GetPowerOfTen n) = 10 ^ nat n"
proof (cases "n < 20")
  case True
  define k where "k = nat n"
  have k: "k < 20" using True assms by (simp add: k_def)
  then have t: "TenPowerU64 k = 10 ^ k" by (rule TenPowerU64_values)
  have "(10::nat) ^ k \<le> 10 ^ 19" using k by (intro power_increasing) simp_all
  then have "unat (word_of_nat (10 ^ k) :: 64 word) = 10 ^ k" by (simp only: unat_of_nat) simp
  moreover have "GetPowerOfTen n = AssignUint64 (word_of_nat (10 ^ k))"
    using True assms by (simp add: GetPowerOfTen_def UINT64_MAX_PRECISION_def k_def [symmetric] t)
  ultimately show ?thesis
    using AssignUint64_spec [of "word_of_nat (10 ^ k)"] by (simp add: k_def del: of_nat_unat)
next
  case False
  have "bi_ok (AssignInt64 10)" "bi_val (AssignInt64 10) = 10" using AssignInt64_spec [of 10] by simp_all
  then show ?thesis using Pow_spec [of "AssignInt64 10" n] False assms
    by (simp add: GetPowerOfTen_def UINT64_MAX_PRECISION_def)
qed

text \<open>The addition works on the magnitude: it is the sum for numbers that are not negative.\<close>

lemma normal_iff: "m \<noteq> [] \<Longrightarrow> normal m \<longleftrightarrow> radix ^ (length m - 1) \<le> mval m"
proof -
  assume m: "m \<noteq> []"
  have "last m \<noteq> 0" if "radix ^ (length m - 1) \<le> mval m"
  proof
    assume "last m = 0"
    then have "mval m = mval (butlast m)" using m
      by (metis append_butlast_last_id mult_zero_right mval_snoc add.right_neutral unsigned_0)
    with that mval_lt [of "butlast m"] show False by simp
  qed
  with normal_lower [of m] m show ?thesis by (auto simp: normal_def)
qed

lemma normal_add_mags:
  assumes "normal m" and "normal a" and "m \<noteq> []"
  shows "normal (add_mags m a) \<and> add_mags m a \<noteq> []"
proof -
  define L where "L = max (length m) (length a)"
  have L: "0 < L" "radix ^ (L - 1) \<le> mval m + mval a"
    using normal_lower [OF assms(1,3)] normal_lower [OF assms(2)] assms(3)
    by (cases "a = []"; auto simp: L_def max_def intro: trans_le_add1 trans_le_add2)+
  define m' where "m' = m @ replicate (length a - length m) 0"
  have m': "length m' = L" by (simp add: m'_def L_def)
  obtain lo c where w: "add_words m' a 0 = (lo, c)" by fastforce
  have lo: "length lo = L" using add_words_spec [OF w] m' by (simp add: L_def)
  obtain hi c' where h: "add_carry (drop (length a) lo) c = (hi, c')" by fastforce
  have hi: "length hi = L - length a" using add_carry_spec [OF h] lo by simp
  have la: "length a \<le> L" by (simp add: L_def)
  have "length (add_mags m a) = L \<or> (add_mags m a \<noteq> [] \<and> last (add_mags m a) \<noteq> 0)"
    using lo hi la by (cases "c = 0"; cases "c' = 0") (simp_all add: add_mags_def w m'_def [symmetric] h)
  then show ?thesis
  proof
    assume l: "length (add_mags m a) = L"
    with L(1) have ne: "add_mags m a \<noteq> []" by auto
    then show ?thesis using normal_iff [OF ne] L(2) l by (simp add: add_mags_value)
  qed (simp add: normal_def)
qed

lemma AddUint64_spec:
  assumes "bi_ok b" and "0 \<le> bi_val b"
  shows "bi_ok (AddUint64 b x) \<and> bi_val (AddUint64 b x) = bi_val b + int (unat x)"
proof -
  define lo hi where "lo = (ucast x :: 32 word)" and "hi = (ucast (drop_bit 32 x) :: 32 word)"
  have u: "unat lo + radix * unat hi = unat x" using halves [of x] by (simp add: lo_def hi_def)
  have a: "AddUint64 b x = b\<lparr>bi_mag := add_mags (bi_mag b) (if hi \<noteq> 0 then [lo, hi] else [lo])\<rparr>"
    if "x \<noteq> 0" "\<not> IsZero b" using that by (simp add: AddUint64_def lo_def hi_def)
  consider "x = 0" | "x \<noteq> 0" "IsZero b" | "x \<noteq> 0" "\<not> IsZero b" by blast
  then show ?thesis
  proof cases
    case 2
    then show ?thesis using AssignUint64_spec [of x]
      by (simp add: AddUint64_def IsZero_def bi_val_def)
  next
    case 3
    define w where "w = (if hi \<noteq> 0 then [lo, hi] else [lo])"
    have v: "mval w = unat x" using u by (cases "hi = 0") (simp_all add: w_def)
    have "lo \<noteq> 0" if "hi = 0" using that u 3(1) by (auto simp: unat_eq_0)
    then have "normal w" by (auto simp: w_def normal_def)
    then have nz: "normal (add_mags (bi_mag b) w)" "add_mags (bi_mag b) w \<noteq> []"
      using normal_add_mags [of "bi_mag b" w] bi_ok_normal [OF assms(1)] 3(2) by (simp_all add: IsZero_def)
    have "bi_sign b = 1"
    proof (rule ccontr)
      assume "bi_sign b \<noteq> 1"
      then have "bi_sign b = - 1" using bi_ok_sign [OF assms(1)] by blast
      then have "mval (bi_mag b) = 0" using assms(2) by (simp add: bi_val_def)
      then show False using 3(2) normal_0_iff [OF bi_ok_normal [OF assms(1)]] by (simp add: IsZero_def)
    qed
    then show ?thesis using nz a [OF 3, folded w_def] v
      by (simp add: bi_ok_def bi_val_def add_mags_value del: of_nat_unat)
  qed (use assms in \<open>simp add: AddUint64_def\<close>)
qed

text \<open>The comparison orders canonical numbers as the integers they stand for.\<close>

lemma Compare_spec:
  assumes "bi_ok a" and "bi_ok b"
  shows "Compare a b False = sgn (bi_val a - bi_val b)"
    and "Compare a b True = sgn (\<bar>bi_val a\<bar> - \<bar>bi_val b\<bar>)"
proof -
  note c = compare_mags_spec [OF bi_ok_normal [OF assms(1)] bi_ok_normal [OF assms(2)]]
  show "Compare a b True = sgn (\<bar>bi_val a\<bar> - \<bar>bi_val b\<bar>)"
    using c by (simp add: Compare_def abs_bi_val assms)
  show "Compare a b False = sgn (bi_val a - bi_val b)"
  proof (cases "bi_sign a = bi_sign b")
    case True
    then have "bi_val a - bi_val b = bi_sign b * (int (mval (bi_mag a)) - int (mval (bi_mag b)))"
      by (simp add: bi_val_def right_diff_distrib)
    then show ?thesis using True c bi_ok_sign [OF assms(2)] by (auto simp: Compare_def sgn_mult)
  next
    case False
    have z: "0 < mval (bi_mag x)" if "bi_ok x" "bi_sign x = - 1" for x
      using that normal_0_iff [of "bi_mag x"] by (auto simp: bi_ok_def)
    from False show ?thesis
      using bi_ok_sign [OF assms(1)] bi_ok_sign [OF assms(2)] z [OF assms(1)] z [OF assms(2)]
      by (auto simp: Compare_def bi_val_def sgn_if)
  qed
qed

lemma comparison_operators:
  assumes "bi_ok a" and "bi_ok b"
  shows "BigEq a b \<longleftrightarrow> bi_val a = bi_val b" "BigNeq a b \<longleftrightarrow> bi_val a \<noteq> bi_val b"
    "BigLess a b \<longleftrightarrow> bi_val a < bi_val b" "BigLessEq a b \<longleftrightarrow> bi_val a \<le> bi_val b"
    "BigGreater a b \<longleftrightarrow> bi_val b < bi_val a" "BigGreaterEq a b \<longleftrightarrow> bi_val b \<le> bi_val a"
  by (simp_all add: BigEq_def BigNeq_def BigLess_def BigLessEq_def BigGreater_def BigGreaterEq_def
      Compare_spec [OF assms] sgn_if)

section \<open>Decimal digits\<close>

text \<open>Two fractions close to the logarithm, one on each side: \<open>643 / 2136\<close> is below it and \<open>146 / 485\<close> above.\<close>

lemma power_ratio:
  fixes A B :: nat
  assumes "A ^ u \<le> B ^ v" and "k * v \<le> j * u" and "0 < u" and "0 < B"
  shows "A ^ k \<le> B ^ j"
proof -
  have "(A ^ k) ^ u = (A ^ u) ^ k" by (simp add: mult.commute flip: power_mult)
  also have "\<dots> \<le> (B ^ v) ^ k" using assms(1) by (rule power_mono) simp
  also have "\<dots> = B ^ (k * v)" by (simp add: mult.commute flip: power_mult)
  also have "\<dots> \<le> B ^ (j * u)" using assms(2,4) by (intro power_increasing) simp_all
  finally have "(A ^ k) ^ u \<le> (B ^ j) ^ u" by (simp add: power_mult)
  then show ?thesis using assms(3) by (simp add: power_mono_iff)
qed

lemma ten_below_two: "k * 2136 \<le> j * 643 \<Longrightarrow> (10::nat) ^ k \<le> 2 ^ j"
  by (rule power_ratio [of 10 643 2 2136]) simp_all

lemma two_below_ten: "j * 146 \<le> k * 485 \<Longrightarrow> (2::nat) ^ j \<le> 10 ^ k"
  by (rule power_ratio [of 2 485 10 146]) simp_all

lemma precision_estimate:
  fixes bl :: nat
  assumes "bl \<le> 300000" and "0 < bl"
  defines "r \<equiv> (bl + 1) * 646456993 div 2 ^ 31"
  shows "10 ^ (r - 1) \<le> (2::nat) ^ (bl - 1) \<and> (2::nat) ^ bl \<le> 10 ^ (r + 1)"
proof -
  have "r * 2147483648 \<le> (bl + 1) * 646456993" "(bl + 1) * 646456993 < (r + 1) * 2147483648"
    unfolding r_def by (simp_all add: div_times_less_eq_dividend dividend_less_div_times)
  with assms(1,2) have "(r - 1) * 2136 \<le> (bl - 1) * 643" "bl * 146 \<le> (r + 1) * 485" by simp_all
  then show ?thesis using ten_below_two two_below_ten by blast
qed

lemma GetPrecision_digits:
  assumes "bi_ok b" and "GetBitLength b \<le> 300000"
  shows "GetPrecision b = int (length (nat_digits (mval (bi_mag b))))"
proof (cases "bi_mag b = []")
  case True
  then show ?thesis by (simp add: GetPrecision_def) (subst nat_digits.simps, simp)
next
  case False
  define bl m where "bl = GetBitLength b" and "m = mval (bi_mag b)"
  define r where "r = (bl + 1) * 646456993 div 2 ^ 31"
  have B: "0 < bl" "2 ^ (bl - 1) \<le> m" "m < 2 ^ bl"
    using GetBitLength_spec [OF bi_ok_normal [OF assms(1)] False] by (simp_all add: bl_def m_def)
  with precision_estimate [of bl, folded r_def] assms(2)
  have R: "10 ^ (r - 1) \<le> m" "m < 10 ^ (r + 1)" by (auto simp: bl_def)
  have "Compare b (GetPowerOfTen (int r)) True = sgn (int m - 10 ^ r)"
    using Compare_spec(2) [OF assms(1), of "GetPowerOfTen (int r)"] GetPowerOfTen_spec [of "int r"] abs_bi_val [OF assms(1)]
    by (simp add: m_def)
  then have c: "Compare b (GetPowerOfTen (int r)) True < 0 \<longleftrightarrow> m < 10 ^ r"
    by (simp add: sgn_if) 
  have g: "GetPrecision b = (if m < 10 ^ r then int r else int r + 1)"
    using False c unfolding GetPrecision_def bl_def [symmetric] r_def [symmetric] Let_def by simp
  have m: "0 < m" using B(2) by (metis gr0I le_zero_eq power_not_zero zero_neq_numeral)
  show ?thesis
  proof (cases "m < 10 ^ r")
    case True
    then have "0 < r" using m by (cases r) simp_all
    then have "r = length (nat_digits m)" using digits_unique [of m r] R(1) True m by blast
    then show ?thesis using g True by (simp add: m_def)
  next
    case False
    then have "r + 1 = length (nat_digits m)" using digits_unique [of m "r + 1"] R(2) m by simp
    then show ?thesis using g False by (simp add: m_def)
  qed
qed

section \<open>Bytes\<close>

fun bytes_val :: "8 word list \<Rightarrow> nat" where
  "bytes_val [] = 0"
| "bytes_val (b # bs) = unat b + 256 * bytes_val bs"

lemma unat_byte: "unat (b :: 8 word) < 256"
  using unsigned_less [of b, where ?'a = nat] by simp

lemma unat_word_of_bytes:
  "unat (word_of_bytes b0 b1 b2 b3) = unat b0 + 256 * unat b1 + 65536 * unat b2 + 16777216 * unat b3"
proof -
  have "word_of_bytes b0 b1 b2 b3
      = ucast b0 + push_bit 8 (ucast b1) + (push_bit 16 (ucast b2) + push_bit 24 (ucast b3))"
  proof -
    let ?w = "ucast :: 8 word \<Rightarrow> 32 word"
    have "?w b0 AND push_bit 8 (?w b1) = 0" "push_bit 16 (?w b2) AND push_bit 24 (?w b3) = 0"
      "(?w b0 OR push_bit 8 (?w b1)) AND (push_bit 16 (?w b2) OR push_bit 24 (?w b3)) = 0"
      by (auto simp: bit_eq_iff bit_simps dest!: bit_imp_le_length)
    then show ?thesis by (simp add: word_of_bytes_def disjunctive_add_eq_or)
  qed
  also have "\<dots> = word_of_nat (unat b0 + 256 * unat b1 + 65536 * unat b2 + 16777216 * unat b3)"
    by (simp add: push_bit_eq_mult)
  finally show ?thesis
    using unat_byte [of b0] unat_byte [of b1] unat_byte [of b2] unat_byte [of b3] by (simp only: unat_of_nat) simp
qed

lemma words_of_bytes_value: "mval (words_of_bytes bs) = bytes_val bs"
  by (induction bs rule: words_of_bytes.induct) (simp_all add: unat_word_of_bytes)

lemma words_of_bytes_normal:
  "bs \<noteq> [] \<Longrightarrow> last bs \<noteq> 0 \<Longrightarrow> words_of_bytes bs \<noteq> [] \<and> last (words_of_bytes bs) \<noteq> 0"
proof (induction bs rule: words_of_bytes.induct)
  case (1 b0 b1 b2 b3 bs)
  show ?case
  proof (cases "bs = []")
    case True
    then have "unat (word_of_bytes b0 b1 b2 b3) \<noteq> 0" using 1(3) by (simp add: unat_word_of_bytes unat_eq_0)
    with True show ?thesis by auto
  qed (use 1 in auto)
qed (auto simp: unat_word_of_bytes simp flip: unat_eq_0)

lemma bytes_val_append: "bytes_val (xs @ ys) = bytes_val xs + 256 ^ length xs * bytes_val ys"
  by (induction xs) (simp_all add: algebra_simps)

lemma bytes_val_strip: "bytes_val (rev (dropWhile (\<lambda>b. b = 0) bs)) = bytes_val (rev bs)"
  by (induction bs) (simp_all add: bytes_val_append)

lemma last_rev_dropWhile: "rev (dropWhile P bs) \<noteq> [] \<Longrightarrow> \<not> P (last (rev (dropWhile P bs)))"
  by (simp add: last_rev hd_dropWhile)

lemma BigFromBytes_spec:
  assumes "s = 1 \<or> s = - 1"
  defines "le \<equiv> (\<lambda>bigEndian val. if bigEndian then rev val else val)"
  shows "bi_ok (BigFromBytes val s be) \<and> bi_val (BigFromBytes val s be) = s * int (bytes_val (le be val))"
proof -
  define bytes where "bytes = rev (dropWhile (\<lambda>b. b = 0) (if be then val else rev val))"
  have v: "bytes_val bytes = bytes_val (le be val)" by (simp add: bytes_def bytes_val_strip le_def)
  have b: "BigFromBytes val s be
      = (if bytes = [] then AssignInt64 0 else \<lparr>bi_sign = s, bi_mag = words_of_bytes bytes\<rparr>)"
    by (simp add: BigFromBytes_def bytes_def Let_def)
  show ?thesis
  proof (cases "bytes = []")
    case True
    then have "bytes_val (le be val) = 0" using v by simp
    then show ?thesis using True b AssignInt64_spec [of 0] by simp
  next
    case False
    then have "last bytes \<noteq> 0" unfolding bytes_def by (rule last_rev_dropWhile)
    then show ?thesis using False b v words_of_bytes_normal [OF False] assms(1)
      by (auto simp: bi_ok_def bi_val_def normal_def words_of_bytes_value)
  qed
qed

lemma length_word_bytes [simp]: "length (word_bytes k w) = k"
  by (simp add: word_bytes_def)

lemma word_bytes_value: "k \<le> 4 \<Longrightarrow> bytes_val (rev (word_bytes k w)) = unat w mod 256 ^ k"
proof (induction k)
  case (Suc k)
  have "rev (word_bytes (Suc k) w) = rev (word_bytes k w) @ [ucast (drop_bit (8 * k) w)]"
    by (simp add: word_bytes_def rev_map)
  moreover have "unat (ucast (drop_bit (8 * k) w) :: 8 word) = unat w div 256 ^ k mod 256"
    by (simp add: unsigned_ucast_eq take_bit_eq_mod unat_drop_bit32 power_mult)
  ultimately have "bytes_val (rev (word_bytes (Suc k) w)) = unat w mod 256 ^ k + 256 ^ k * (unat w div 256 ^ k mod 256)"
    using Suc by (simp add: bytes_val_append)
  also have "\<dots> = unat w mod (256 ^ k * 256)" by (metis add.commute mod_mult2_eq)
  finally show ?case by (simp add: mult.commute)
qed (simp add: word_bytes_def)

lemma all_word_bytes_value:
  "bytes_val (concat (map (\<lambda>w. rev (word_bytes 4 w)) m)) = mval m \<and> length (concat (map (\<lambda>w. rev (word_bytes 4 w)) m)) = 4 * length m"
proof (induction m)
  case (Cons w m)
  have "unat w mod 256 ^ 4 = unat w" using unat_lt_word [of w] by simp
  then show ?case using Cons by (simp add: bytes_val_append word_bytes_value)
qed simp

lemma rev_concat_words: "rev (concat (map (word_bytes 4) (rev m))) = concat (map (\<lambda>w. rev (word_bytes 4 w)) m)"
  by (simp add: rev_concat rev_map comp_def)

lemma MagnitudeToBytes_value:
  assumes "bi_ok b"
  shows "bytes_val (rev (MagnitudeToBytes b)) = mval (bi_mag b)"
proof (cases "bi_mag b = []")
  case True
  then show ?thesis by (simp add: MagnitudeToBytes_def GetBitLength_def)
next
  case False
  define m w where "m = butlast (bi_mag b)" and "w = last (bi_mag b)"
  have e: "bi_mag b = m @ [w]" using False by (simp add: m_def w_def)
  have B: "0 < BitLengthU32 w" "BitLengthU32 w \<le> 32" "unat w < 2 ^ BitLengthU32 w"
    using BitLengthU32_bounds [of w] bi_ok_normal [OF assms] False by (simp_all add: normal_def w_def)
  have L: "GetBitLength b = BitLengthU32 w + 32 * length m" by (simp add: GetBitLength_def e Let_def)
  define k where "k = (BitLengthU32 w + 7) div 8"
  have n: "(GetBitLength b + 7) div 8 = k + 4 * length m" unfolding L k_def by simp
  have k: "0 < k" "k \<le> 4" "BitLengthU32 w \<le> 8 * k" using B(1,2) by (auto simp: k_def)
  have "(2::nat) ^ BitLengthU32 w \<le> 2 ^ (8 * k)" using k(3) by (intro power_increasing) simp_all
  also have "\<dots> = 256 ^ k" by (simp add: power_mult)
  finally have w: "unat w mod 256 ^ k = unat w" using B(3) by simp
  have "MagnitudeToBytes b = word_bytes k w @ concat (map (word_bytes 4) (rev m))"
    using k(1) by (simp add: MagnitudeToBytes_def n e Let_def)
  then have "rev (MagnitudeToBytes b) = concat (map (\<lambda>w. rev (word_bytes 4 w)) m) @ rev (word_bytes k w)"
    by (simp add: rev_concat_words)
  then show ?thesis
    using all_word_bytes_value [of m] word_bytes_value [OF k(2), of w] w
    by (simp add: bytes_val_append e mval_snoc power_mult)
qed

lemma bytes_round_trip:
  assumes "bi_ok b"
  shows "BigFromBytes (MagnitudeToBytes b) (bi_sign b) True = b"
    and "BigFromBytes (rev (MagnitudeToBytes b)) (bi_sign b) False = b"
  using BigFromBytes_spec [of "bi_sign b" "MagnitudeToBytes b" True]
    BigFromBytes_spec [of "bi_sign b" "rev (MagnitudeToBytes b)" False]
    bi_ok_sign [OF assms] MagnitudeToBytes_value [OF assms]
  by (auto intro!: bi_val_inj assms simp: bi_val_def)

section \<open>Conversion to a machine integer\<close>

lemma ToInt64_words:
  "ToInt64 b = 4294967296 * ucast (GetMagInt b 1) + ucast (GetMagInt b 0)"
proof -
  have "push_bit 32 (ucast (GetMagInt b 1)) AND (ucast (GetMagInt b 0) :: 64 word) = 0"
    by (auto simp: bit_eq_iff bit_simps dest!: bit_imp_le_length)
  then show ?thesis by (simp add: ToInt64_def push_bit_eq_mult mult.commute flip: disjunctive_add_eq_or)
qed

lemma word_of_mval: "(word_of_nat (mval (x # y # zs)) :: 64 word) = ucast x + 4294967296 * ucast y"
proof -
  have z: "(18446744073709551616 :: 64 word) = 0" by simp
  have "mval (x # y # zs) = unat x + 4294967296 * unat y + 18446744073709551616 * mval zs"
    by (simp add: algebra_simps)
  then show ?thesis by (simp only: of_nat_add of_nat_mult of_nat_unat of_nat_numeral z) simp
qed

lemma ucast_neg:
  assumes "x \<noteq> 0"
  shows "(ucast (- (x :: 32 word)) :: 64 word) = 4294967296 - ucast x"
proof -
  have b: "0 < uint x" "uint x < 4294967296" using assms uint_lt2p [of x] uint_ge_0 [of x] by (simp_all add: order.not_eq_order_implies_strict flip: uint_0_iff)
  have "uint (- x) = (4294967296 - uint x) mod 4294967296" by (simp add: uint_word_ariths)
  also have "\<dots> = 4294967296 - uint x" using b by (intro mod_pos_pos_trivial) simp_all
  finally have "word_of_int (uint (- x)) = (word_of_int (4294967296 - uint x) :: 64 word)" by simp
  then show ?thesis by simp
qed

lemma radix_squared: "(18446744073709551616 :: 64 word) = 0"
  by simp

lemma high_neg: "4294967296 * ucast (- (y :: 32 word)) = - (4294967296 * ucast y :: 64 word)"
proof (cases "y = 0")
  case False
  have "4294967296 * ucast (- y) = (18446744073709551616 :: 64 word) - 4294967296 * ucast y"
    unfolding ucast_neg [OF False] by (simp add: right_diff_distrib)
  then show ?thesis unfolding radix_squared by simp
qed simp

text \<open>The conversion is right for every number that is not negative, and for the negative ones that
  have a single word or a lowest word of zeros; for the others the borrow is missing.\<close>

lemma ToInt64_spec:
  assumes "bi_ok b"
  shows "ToInt64 b = word_of_int (bi_val b)
    + (if bi_sign b = - 1 \<and> 1 < length (bi_mag b) \<and> hd (bi_mag b) \<noteq> 0 then 4294967296 else 0)"
proof -
  consider "bi_mag b = []" | x where "bi_mag b = [x]" | x y zs where "bi_mag b = x # y # zs"
    by (metis list.exhaust)
  then show ?thesis
  proof cases
    case 1
    then show ?thesis using assms by (simp add: ToInt64_words GetMagInt_def bi_val_def bi_ok_def)
  next
    case (2 x)
    have "x \<noteq> 0" using assms 2 by (simp add: bi_ok_def normal_def)
    moreover have "4294967296 * ucast (- 1 :: 32 word) + 4294967296 = (0 :: 64 word)"
      by (simp only: high_neg) simp
    ultimately show ?thesis using 2 bi_ok_sign [OF assms]
      by (auto simp: ToInt64_words GetMagInt_def bi_val_def ucast_neg)
  next
    case (3 x y zs)
    show ?thesis
    proof (cases "bi_sign b = 1")
      case True
      then show ?thesis using 3 word_of_mval [of x y zs]
        by (simp add: ToInt64_words GetMagInt_def bi_val_def del: mval.simps)
    next
      case False
      then have s: "bi_sign b = - 1" using bi_ok_sign [OF assms] by blast
      have "word_of_int (bi_val b) = - (word_of_nat (mval (x # y # zs)) :: 64 word)"
        using 3 s by (simp add: bi_val_def del: mval.simps)
      then have v: "word_of_int (bi_val b) = - (ucast x + 4294967296 * ucast y :: 64 word)"
        by (simp only: word_of_mval)
      have g: "GetMagInt b 0 = - x" "GetMagInt b 1 = - y" using 3 s by (simp_all add: GetMagInt_def)
      show ?thesis unfolding ToInt64_words g v high_neg using 3 s
        by (cases "x = 0") (simp_all add: ucast_neg)
    qed
  qed
qed

end
