(* ===== verification/Big_Division.thy ===== *)
theory Big_Division
  imports Big_Integer
begin

text \<open>
  Division of big integers (\<^verbatim>\<open>BigInteger::Divide\<close> of \<^verbatim>\<open>src/ignite/common/src/common/big_integer.cpp\<close>): the special
  cases, the division of two machine integers, and Knuth's algorithm D for the rest. Results are
  delivered into objects other than the divisor. The quotient digit is estimated from two words
  and corrected with a third; the loop that corrects it is proved to end with a digit that is at
  least the right one, and the right one for a divisor of two words. The step that repairs a
  digit that is too large never runs, because the difference it tests is computed in 32 unsigned bits.
\<close>

unbundle bit_operations_syntax

section \<open>The code\<close>

text \<open>A division by zero is an exception. The other two are undefined behaviour of the code: a read before the
  beginning of an array, and a shift by 32 bits.\<close>

datatype divide_error = DivisionByZero | BadAccess | BadShift

definition MakeU64 :: "32 word \<Rightarrow> 32 word \<Rightarrow> 64 word" where
  "MakeU64 higher lower = push_bit 32 (ucast higher) OR ucast lower"

abbreviation UINT32_MAX :: "64 word" where "UINT32_MAX \<equiv> 0xFFFFFFFF"

text \<open>The loop that corrects the estimate: \<open>v1\<close> and \<open>v2\<close> are the two upper words of the divisor, the second is
  missing when the divisor has a single word.\<close>

function qhat_adjust :: "32 word \<Rightarrow> 32 word option \<Rightarrow> 32 word \<Rightarrow> 64 word \<Rightarrow> 64 word \<Rightarrow> 64 word option" where
  "qhat_adjust v1 v2 u2 qhat rhat =
     (if UINT32_MAX < qhat \<or> v2 \<noteq> None \<and> 0x100000000 * rhat + ucast u2 < qhat * ucast (the v2) then
        (let qhat' = qhat - 1; rhat' = rhat + ucast v1
         in if UINT32_MAX < rhat' then Some qhat' else qhat_adjust v1 v2 u2 qhat' rhat')
      else if v2 = None then None else Some qhat)"
  by pat_completeness auto

termination
proof (relation "measure (\<lambda>(v1, v2, u2, qhat, rhat). unat qhat)", goal_cases)
  case (2 v1 v2 u2 qhat rhat qhat' rhat')
  then have "qhat \<noteq> 0" by auto
  then show ?case using 2 by (simp add: unat_minus_one unat_gt_0)
qed simp

declare qhat_adjust.simps [simp del]

text \<open>One digit of the quotient, at position \<open>i\<close> of the dividend.\<close>

definition divide_step :: "magnitude \<Rightarrow> nat \<Rightarrow> magnitude \<Rightarrow> (32 word \<times> magnitude) option" where
  "divide_step nv i nu =
     (let vlen = length nv;
          v1 = nv ! (vlen - 1);
          base = MakeU64 (nu ! (i + vlen)) (nu ! (i + vlen - 1));
          v2 = (if vlen < 2 then None else Some (nv ! (vlen - 2)));
          u2 = (if vlen < 2 then 0 else nu ! (i + vlen - 2))
      in case qhat_adjust v1 v2 u2 (base div ucast v1) (base mod ucast v1) of
           None \<Rightarrow> None
         | Some qhat \<Rightarrow>
             let qhat32 = ucast qhat :: 32 word;
                 (tail, carry) = MultiplyAndSubstruct (drop i nu) nv qhat32;
                 difference = ucast (tail ! vlen - carry) :: 64 word;
                 tail = tail [vlen := ucast difference]
             in if difference <s 0 then Some (qhat32 - 1, take i nu @ fst (add_words tail nv 0))
                else Some (qhat32, take i nu @ tail))"

text \<open>The main loop, from the highest position down; \<open>q\<close> collects the digits.\<close>

fun divide_loop :: "magnitude \<Rightarrow> nat \<Rightarrow> magnitude \<Rightarrow> magnitude \<Rightarrow> (magnitude \<times> magnitude) option" where
  "divide_loop nv 0 nu q = Some (q, nu)"
| "divide_loop nv (Suc i) nu q =
     (case divide_step nv i nu of None \<Rightarrow> None | Some (d, nu') \<Rightarrow> divide_loop nv i nu' (d # q))"

definition normalized_dividend :: "magnitude \<Rightarrow> nat \<Rightarrow> magnitude" where
  "normalized_dividend u shift =
     (if shift \<le> NumberOfLeadingZerosU32 (last u) then ShiftLeft u shift @ [0]
      else ShiftLeft u shift @ [drop_bit (32 - shift) (last u), 0])"

definition KnuthDivide :: "magnitude \<Rightarrow> magnitude \<Rightarrow> int \<Rightarrow> divide_error + big_integer \<times> big_integer" where
  "KnuthDivide u v resSign =
     (let shift = NumberOfLeadingZerosU32 (last v)
      in if 32 \<le> shift then Inl BadShift
         else
           case divide_loop (ShiftLeft v shift) (length u - length v + 1) (normalized_dividend u shift) [] of
             None \<Rightarrow> Inl BadAccess
           | Some (q, nu) \<Rightarrow>
               Inr (BigNormalize \<lparr>bi_sign = resSign, bi_mag = q\<rparr>,
                    BigNormalize \<lparr>bi_sign = resSign, bi_mag = ShiftRight (take (length v) nu) shift\<rparr>))"

definition word_of_mag :: "magnitude \<Rightarrow> 64 word" where
  "word_of_mag m = (if length m = 2 then ucast (m ! 0) OR push_bit 32 (ucast (m ! 1)) else ucast (m ! 0))"

definition Divide :: "big_integer \<Rightarrow> big_integer \<Rightarrow> divide_error + big_integer \<times> big_integer" where
  "Divide a divisor =
     (if bi_mag divisor = [] then Inl DivisionByZero
      else
        let compRes = Compare a divisor True;
            resSign = bi_sign a * bi_sign divisor
        in if compRes = 0 then Inr (AssignInt64 (word_of_int resSign), AssignInt64 0)
           else if compRes = - 1 then Inr (AssignInt64 0, a)
           else if GetBitLength divisor = 1 then Inr (a\<lparr>bi_sign := resSign\<rparr>, AssignInt64 0)
           else if length (bi_mag a) \<le> 2 then
             let u = word_of_mag (bi_mag a); v = word_of_mag (bi_mag divisor)
             in Inr (AssignInt64 (word_of_int resSign * (u div v)), AssignInt64 (word_of_int resSign * (u mod v)))
           else KnuthDivide (bi_mag a) (bi_mag divisor) resSign)"

text \<open>The overload without a remainder.\<close>

definition DivideQuotient :: "big_integer \<Rightarrow> big_integer \<Rightarrow> divide_error + big_integer" where
  "DivideQuotient a divisor = map_sum id fst (Divide a divisor)"

section \<open>The estimate of a digit\<close>

lemma unat_MakeU64: "unat (MakeU64 h l) = radix * unat h + unat l"
proof -
  have "push_bit 32 (ucast h) AND (ucast l :: 64 word) = 0"
    by (auto simp: bit_eq_iff bit_simps dest!: bit_imp_le_length)
  then have e: "MakeU64 h l = word_of_nat (radix * unat h + unat l)"
    by (simp add: MakeU64_def push_bit_eq_mult mult.commute flip: disjunctive_add_eq_or)
  have "radix * unat h + unat l < 2 ^ 64" using unat_lt_word [of h] unat_lt_word [of l] by simp
  then show ?thesis unfolding e by (simp only: unat_of_nat) simp
qed

lemma qhat_adjust_total: "qhat_adjust v1 (Some v2) u2 q r \<noteq> None"
  by (induction v1 "Some v2" u2 q r rule: qhat_adjust.induct) (subst qhat_adjust.simps, auto simp: Let_def)

text \<open>No intermediate value of the loop overflows.\<close>

lemma unat_small_product:
  fixes x :: "64 word" and y :: "32 word"
  assumes "unat x < radix"
  shows "unat (x * ucast y) = unat x * unat y"
proof -
  have "unat x \<le> radix - 1" "unat y \<le> radix - 1" using assms unat_lt_word [of y] by simp_all
  then have "unat x * unat y \<le> (radix - 1) * (radix - 1)" by (rule mult_le_mono)
  then have "unat x * unat (ucast y :: 64 word) < 2 ^ LENGTH(64)" by (simp add: unat_ucast64)
  then show ?thesis by (simp add: unat_mult_lem [THEN iffD1] unat_ucast64)
qed

lemma unat_scaled_sum:
  fixes r :: "64 word" and u :: "32 word"
  assumes "unat r < radix"
  shows "unat (0x100000000 * r + ucast u) = radix * unat r + unat u"
proof -
  have e: "0x100000000 * r + ucast u = word_of_nat (radix * unat r + unat u)" by simp
  show ?thesis unfolding e using assms unat_lt_word [of u] by (simp only: unat_of_nat) simp
qed

lemma unat_sum_small:
  fixes r :: "64 word" and v :: "32 word"
  assumes "unat r < radix"
  shows "unat (r + ucast v) = unat r + unat v"
proof -
  have e: "r + ucast v = word_of_nat (unat r + unat v)" by simp
  show ?thesis unfolding e using assms unat_lt_word [of v] by (simp only: unat_of_nat) simp
qed

text \<open>The corrected estimate: \<open>X\<close> is the three words of the dividend, \<open>Y\<close> the two words of the divisor, and \<open>Q\<close>
  a digit that is not too large for them. The estimate ends at or above \<open>Q\<close>, and not too large for
  these words either.\<close>

lemma qhat_adjust_spec:
  fixes v1 v2 u2 :: "32 word" and base Q :: nat
  defines "Y \<equiv> radix * unat v1 + unat v2"
  defines "X \<equiv> radix * base + unat u2"
  assumes "Q * Y \<le> X" and "Q < radix" and "base < radix * unat v1 + radix"
    and "unat q * unat v1 + unat r = base" and "unat r < radix" and "Q \<le> unat q"
  shows "\<exists>q'. qhat_adjust v1 (Some v2) u2 q r = Some q' \<and> Q \<le> unat q' \<and> unat q' < radix \<and> unat q' * Y \<le> X"
  using assms(6-8)
proof (induction "unat q" arbitrary: q r rule: less_induct)
  case less
  let ?big = "UINT32_MAX < q"
  have big: "?big \<longleftrightarrow> radix \<le> unat q" by (simp add: word_less_nat_alt) arith
  have qY: "unat q * Y + radix * unat r = unat q * unat v2 + radix * base"
    using less.prems(1) by (simp add: Y_def algebra_simps)
  show ?case
  proof (cases "?big \<or> 0x100000000 * r + ucast u2 < q * ucast v2")
    case False
    then have q: "unat q < radix" using big by simp
    with False less.prems(2) have "unat q * unat v2 \<le> radix * unat r + unat u2"
      by (simp add: word_less_nat_alt unat_scaled_sum unat_small_product not_less)
    then have "unat q * Y \<le> X" using qY by (simp add: X_def)
    with False q less.prems(3) show ?thesis by (subst qhat_adjust.simps) simp
  next
    case True
    have gt: "Q < unat q"
    proof (cases ?big)
      case True
      then show ?thesis using big assms(4) by simp
    next
      case False
      then have q: "unat q < radix" using big by simp
      with True False less.prems(2) have "radix * unat r + unat u2 < unat q * unat v2"
        by (simp add: word_less_nat_alt unat_scaled_sum unat_small_product)
      then have "X < unat q * Y" using qY by (simp add: X_def)
      with assms(3) have "Q * Y < unat q * Y" by linarith
      then show ?thesis by (simp add: mult_less_cancel2)
    qed
    then have "q \<noteq> 0" by auto
    then have q1: "unat (q - 1) = unat q - 1" by (simp add: unat_minus_one)
    have r1: "unat (r + ucast v1) = unat r + unat v1" using less.prems(2) by (rule unat_sum_small)
    have b: "(unat q - 1) * unat v1 + (unat r + unat v1) = base"
      using less.prems(1) gt by (cases "unat q") simp_all
    show ?thesis
    proof (cases "UINT32_MAX < r + ucast v1")
      case brk: True
      then have rb: "radix \<le> unat r + unat v1" using r1 by (simp add: word_less_nat_alt)
      have qs: "unat q - 1 < radix"
      proof (rule ccontr)
        assume "\<not> unat q - 1 < radix"
        then have "radix * unat v1 \<le> (unat q - 1) * unat v1" by (intro mult_le_mono1) simp
        with b rb assms(5) show False by linarith
      qed
      have "(unat q - 1) * unat v2 \<le> radix * radix" using qs unat_lt_word [of v2] by (intro mult_le_mono) simp_all
      also have "\<dots> \<le> radix * (unat r + unat v1)" using rb by (rule mult_le_mono2)
      finally have "(unat q - 1) * Y \<le> radix * ((unat q - 1) * unat v1 + (unat r + unat v1))"
        by (simp add: Y_def algebra_simps)
      then have "(unat q - 1) * Y \<le> X" unfolding b by (simp add: X_def)
      with True brk q1 qs gt show ?thesis by (subst qhat_adjust.simps) (simp add: Let_def)
    next
      case go: False
      then have "unat (r + ucast v1) < radix" by (simp add: word_less_nat_alt)
      then have "\<exists>q'. qhat_adjust v1 (Some v2) u2 (q - 1) (r + ucast v1) = Some q' \<and> Q \<le> unat q'
          \<and> unat q' < radix \<and> unat q' * Y \<le> X"
        using gt q1 r1 b by (intro less.hyps) simp_all
      with True go show ?thesis by (subst qhat_adjust.simps) (simp add: Let_def)
    qed
  qed
qed

section \<open>One digit\<close>

lemma mval_update: "k < length s \<Longrightarrow> mval (s [k := x]) + radix ^ k * unat (s ! k) = mval s + radix ^ k * unat x"
proof (induction s arbitrary: k)
  case (Cons w s)
  show ?case
  proof (cases k)
    case (Suc j)
    with Cons have "mval (s [j := x]) + radix ^ j * unat (s ! j) = mval s + radix ^ j * unat x" by simp
    then have "radix * (mval (s [j := x]) + radix ^ j * unat (s ! j)) = radix * (mval s + radix ^ j * unat x)" by simp
    then show ?thesis by (simp add: Suc algebra_simps)
  qed simp
qed simp

lemma mval_upper: "n \<le> length s \<Longrightarrow> mval s = mval (take n s) + radix ^ n * mval (drop n s)"
  using mval_take_drop [of s n] by (simp add: min_def)

lemma top_two:
  assumes "2 \<le> length v"
  shows "mval v = mval (take (length v - 2) v)
    + radix ^ (length v - 2) * (radix * unat (v ! (length v - 1)) + unat (v ! (length v - 2)))"
proof -
  let ?n = "length v"
  have "drop (?n - 2) v = [v ! (?n - 2), v ! (?n - 1)]"
    using assms by (simp add: Cons_nth_drop_Suc [symmetric] Suc_diff_Suc numeral_2_eq_2)
  then show ?thesis using mval_upper [of "?n - 2" v] by (simp add: algebra_simps)
qed

lemma top_three:
  assumes "2 \<le> n" and "n < length s" and "mval (drop (Suc n) s) = 0"
  shows "mval s = mval (take (n - 2) s)
    + radix ^ (n - 2) * (radix * (radix * unat (s ! n) + unat (s ! (n - 1))) + unat (s ! (n - 2)))"
proof -
  have "drop (n - 2) s = s ! (n - 2) # s ! (n - 1) # s ! n # drop (Suc n) s"
    using assms(1,2) by (simp add: Cons_nth_drop_Suc [symmetric] Suc_diff_Suc numeral_2_eq_2)
  then have "mval (drop (n - 2) s) = radix * (radix * unat (s ! n) + unat (s ! (n - 1))) + unat (s ! (n - 2))"
    using assms(3) by simp
  then show ?thesis using mval_upper [of "n - 2" s] assms(2) by simp
qed

text \<open>The test for a digit that is too large is a comparison of a zero-extended word with zero: the step that
  would repair the digit is never taken.\<close>

lemma zero_extended_not_negative: "\<not> (ucast (x :: 32 word) :: 64 word) <s 0"
proof -
  have "uint (ucast x :: 64 word) = uint x" by (metis unat_ucast64 uint_nat)
  moreover have "- (2 ^ 63) \<le> uint x" by (rule order_trans [OF _ uint_ge_0]) simp
  moreover have "uint x < 2 ^ 63" using uint_lt2p [of x] by simp
  ultimately have "sint (ucast x :: 64 word) = uint x" by (simp add: sint_uint signed_take_bit_int_eq_self)
  then show ?thesis using uint_ge_0 [of x] by (simp add: word_sless_alt)
qed

lemma ucast_back: "ucast (ucast (x :: 32 word) :: 64 word) = x"
  by (rule bit_word_eqI) (auto simp: bit_simps)

lemma divide_step_simp:
  "divide_step nv i nu =
     map_option (\<lambda>qhat.
       let (tail, carry) = MultiplyAndSubstruct (drop i nu) nv (ucast qhat)
       in (ucast qhat, take i nu @ tail [length nv := tail ! length nv - carry]))
     (let base = MakeU64 (nu ! (i + length nv)) (nu ! (i + length nv - 1));
          v1 = nv ! (length nv - 1)
      in qhat_adjust v1 (if length nv < 2 then None else Some (nv ! (length nv - 2)))
           (if length nv < 2 then 0 else nu ! (i + length nv - 2)) (base div ucast v1) (base mod ucast v1))"
  by (simp add: divide_step_def Let_def zero_extended_not_negative ucast_back split: option.splits prod.splits)

text \<open>The estimate, for a dividend that is less than the divisor once the lowest word is taken off.\<close>

lemma estimate_spec:
  fixes s nv :: magnitude
  defines "n \<equiv> length nv" and "Q \<equiv> mval s div mval nv"
  assumes "2 \<le> n" and "last nv \<noteq> 0" and "n < length s" and "mval s < radix * mval nv"
  defines "base \<equiv> MakeU64 (s ! n) (s ! (n - 1))" and "v1 \<equiv> nv ! (n - 1)"
  shows "mval (drop (Suc n) s) = 0
    \<and> (\<exists>q. qhat_adjust v1 (Some (nv ! (n - 2))) (s ! (n - 2)) (base div ucast v1) (base mod ucast v1) = Some q
        \<and> Q \<le> unat q \<and> unat q < radix \<and> (n = 2 \<longrightarrow> unat q * mval nv \<le> mval s))"
proof -
  define V W L v2 u2 b where "V = mval nv" and "W = mval s" and "L = radix ^ (n - 2)"
    and "v2 = nv ! (n - 2)" and "u2 = s ! (n - 2)" and "b = radix * unat (s ! n) + unat (s ! (n - 1))"
  define X Y where "X = radix * b + unat u2" and "Y = radix * unat v1 + unat v2"
  have "nv \<noteq> []" using assms(3) by (auto simp: n_def)
  then have v1: "0 < unat v1" using assms(4) by (simp add: v1_def n_def last_conv_nth unat_gt_0)
  have W: "W < radix * V" using assms(6) by (simp add: W_def V_def)
  have "V < radix ^ n" using mval_lt [of nv] by (simp add: V_def n_def)
  then have "radix * V < radix ^ Suc n" by simp
  moreover have "radix ^ Suc n * mval (drop (Suc n) s) \<le> W"
    using mval_upper [of "Suc n" s] assms(5) by (simp add: W_def)
  ultimately have "radix ^ Suc n * mval (drop (Suc n) s) < radix ^ Suc n * 1" using W by linarith
  then have up: "mval (drop (Suc n) s) = 0" by (simp only: mult_less_cancel1) simp
  define w0 v0 where "w0 = mval (take (n - 2) s)" and "v0 = mval (take (n - 2) nv)"
  have w: "W = w0 + L * X" "w0 < L"
    using top_three [OF assms(3,5) up] mval_lt [of "take (n - 2) s"] assms(5)
    by (simp_all add: W_def w0_def L_def X_def b_def u2_def min.absorb2)
  have v: "V = v0 + L * Y" "v0 < L"
    using top_two [of nv] mval_lt [of "take (n - 2) nv"] assms(3)
    by (simp_all add: V_def v0_def L_def Y_def v1_def v2_def n_def min.absorb2)
  have "0 < V" using v v1 by (auto simp: Y_def)
  then have Q: "Q < radix" "Q * V \<le> W" using W
    by (simp_all add: Q_def W_def V_def div_less_iff_less_mult)
  have "L * (Q * Y) \<le> Q * V" using v(1) by (simp add: algebra_simps)
  also have "\<dots> < L * (X + 1)" using Q(2) w by (simp add: algebra_simps)
  finally have QY: "Q * Y \<le> X" by (simp only: mult_less_cancel1) simp
  have "L * X < radix * V" using w(1) W by simp
  also have "\<dots> \<le> radix * (L * (Y + 1))" using v by (intro mult_le_mono2) simp
  finally have "L * X < L * (radix * (Y + 1))" by (simp add: algebra_simps)
  then have "X < radix * (Y + 1)" by (simp only: mult_less_cancel1)
  then have b: "b < radix * unat v1 + radix" using unat_lt_word [of v2] by (simp add: X_def Y_def)
  have B: "unat base = b" by (simp add: base_def unat_MakeU64 b_def)
  have q0: "unat (base div ucast v1) = b div unat v1" "unat (base mod ucast v1) = b mod unat v1"
    by (simp_all add: unat_div_distrib unat_mod_distrib B unat_ucast64)
  have "radix * (Q * unat v1) \<le> Q * Y" by (simp add: Y_def algebra_simps)
  also have "\<dots> \<le> radix * b + unat u2" using QY by (simp add: X_def)
  also have "\<dots> < radix * (b + 1)" using unat_lt_word [of u2] by simp
  finally have "radix * (Q * unat v1) < radix * (b + 1)" .
  then have "Q * unat v1 \<le> b" by (simp only: mult_less_cancel1) simp
  then have Qq: "Q \<le> b div unat v1" using v1 by (simp add: less_eq_div_iff_mult_less_eq)
  have "b mod unat v1 < radix" using v1 unat_lt_word [of v1] by (meson less_trans mod_less_divisor)
  with qhat_adjust_spec [of Q v1 v2 b u2 "base div ucast v1" "base mod ucast v1"] QY Q(1) b Qq
  obtain q where q: "qhat_adjust v1 (Some v2) u2 (base div ucast v1) (base mod ucast v1) = Some q"
    "Q \<le> unat q" "unat q < radix" "unat q * Y \<le> X"
    by (auto simp: q0 X_def Y_def)
  have "unat q * V \<le> W" if "n = 2" using that q(4) v w by (simp add: L_def)
  with q up show ?thesis by (auto simp: v2_def u2_def W_def V_def)
qed

text \<open>The digit found is at least the right one; when it is not larger, the dividend is left with the remainder.\<close>

lemma divide_step_spec:
  assumes "2 \<le> length nv" and "last nv \<noteq> 0" and "i + length nv < length nu"
    and "mval (drop i nu) < radix * mval nv"
  shows "\<exists>d nu'. divide_step nv i nu = Some (d, nu') \<and> length nu' = length nu \<and> take i nu' = take i nu
    \<and> mval (drop i nu) div mval nv \<le> unat d
    \<and> (length nv = 2 \<longrightarrow> unat d * mval nv \<le> mval (drop i nu))
    \<and> (unat d * mval nv \<le> mval (drop i nu) \<longrightarrow>
         unat d = mval (drop i nu) div mval nv \<and> mval (drop i nu') = mval (drop i nu) mod mval nv)"
proof -
  define n s V W where "n = length nv" and "s = drop i nu" and "V = mval nv" and "W = mval s"
  define Q where "Q = W div V"
  have n: "2 \<le> n" "n < length s" "W < radix * V" using assms by (auto simp: n_def s_def W_def V_def)
  have nth: "nu ! (i + n) = s ! n" "nu ! (i + n - 1) = s ! (n - 1)" "nu ! (i + n - 2) = s ! (n - 2)"
    using n assms(3) by (simp_all add: s_def)
  obtain q where up: "mval (drop (Suc n) s) = 0"
    and q: "qhat_adjust (nv ! (n - 1)) (Some (nv ! (n - 2))) (s ! (n - 2))
        (MakeU64 (s ! n) (s ! (n - 1)) div ucast (nv ! (n - 1))) (MakeU64 (s ! n) (s ! (n - 1)) mod ucast (nv ! (n - 1))) = Some q"
      "Q \<le> unat q" "unat q < radix" "n = 2 \<longrightarrow> unat q * V \<le> W"
    using estimate_spec [of nv s] n assms(2) unfolding n_def V_def W_def Q_def by blast
  define d where "d = (ucast q :: 32 word)"
  have d: "unat d = unat q" using q(3) by (simp add: d_def unat_ucast32)
  obtain seg c where m: "MultiplyAndSubstruct s nv d = (seg, c)" by fastforce
  have M: "length seg = length s" "drop n seg = drop n s"
    "int (mval seg) - int radix ^ n * int (unat c) = int W - int V * int (unat d)"
    using MultiplyAndSubstruct_spec [OF m] n by (simp_all add: n_def V_def W_def)
  define t where "t = seg [n := seg ! n - c]"
  have step: "divide_step nv i nu = Some (d, take i nu @ t)"
    using q(1) n(1) by (simp add: divide_step_simp Let_def nth [simplified] n_def [symmetric] s_def [symmetric] d_def [symmetric] m t_def)
  have "unat d = Q \<and> mval t = W mod V" if le: "unat d * V \<le> W"
  proof -
    have "0 < V" using n(3) by (cases V) auto
    then have "unat d \<le> Q" using le by (simp add: Q_def less_eq_div_iff_mult_less_eq)
    then have dQ: "unat d = Q" using q(2) d by simp
    have r: "int (mval seg) = int (W mod V) + int radix ^ n * int (unat c)"
    proof -
      have "int W = int V * int (unat d) + int (W mod V)"
        unfolding dQ Q_def by (metis mult_div_mod_eq of_nat_add of_nat_mult)
      with M(3) show ?thesis by linarith
    qed
    then have seg: "mval seg = W mod V + radix ^ n * unat c" by (metis of_nat_add of_nat_eq_iff of_nat_mult of_nat_power)
    have "mval seg = mval (take n seg) + radix ^ n * unat (s ! n)"
      using mval_upper [of n seg] M(1,2) n(2) up by (simp add: Cons_nth_drop_Suc [symmetric])
    moreover have "mval (take n seg) < radix ^ n" using mval_lt [of "take n seg"] M(1) n(2) by (simp add: min_def)
    ultimately have "radix ^ n * unat c < radix ^ n * (unat (s ! n) + 1)" using seg by (simp add: algebra_simps)
    then have c: "unat c \<le> unat (s ! n)" by (simp only: mult_less_cancel1) simp
    have sn: "seg ! n = s ! n" using M(1,2) n(2) by (metis Cons_nth_drop_Suc list.inject)
    have "unat (s ! n - c) = unat (s ! n) - unat c" using c by (simp add: unat_sub word_le_nat_alt)
    then have "mval t + radix ^ n * unat (s ! n) = mval seg + radix ^ n * (unat (s ! n) - unat c)"
      using mval_update [of n seg "seg ! n - c"] M(1) n(2) by (simp add: t_def sn)
    with seg c have "mval t = W mod V" by (simp add: diff_mult_distrib2)
    with dQ show ?thesis ..
  qed
  moreover have "length (take i nu @ t) = length nu" "take i (take i nu @ t) = take i nu" "drop i (take i nu @ t) = t"
    using M(1) assms(3) by (simp_all add: t_def s_def min_def)
  ultimately show ?thesis using step q(2,4) d
    by (intro exI [of _ d] exI [of _ "take i nu @ t"]) (auto simp: n_def V_def W_def s_def Q_def)
qed

section \<open>All digits\<close>

text \<open>A run in which some digit came out too large for what was left of the dividend.\<close>

fun overshoots :: "magnitude \<Rightarrow> nat \<Rightarrow> magnitude \<Rightarrow> bool" where
  "overshoots nv 0 nu \<longleftrightarrow> False"
| "overshoots nv (Suc i) nu \<longleftrightarrow>
     (case divide_step nv i nu of None \<Rightarrow> False
      | Some (d, nu') \<Rightarrow> mval (drop i nu) < unat d * mval nv \<or> overshoots nv i nu')"

lemma divide_loop_total: "2 \<le> length nv \<Longrightarrow> divide_loop nv k nu q \<noteq> None"
proof (induction k arbitrary: nu q)
  case (Suc i)
  then have "divide_step nv i nu \<noteq> None" by (simp add: divide_step_simp Let_def qhat_adjust_total)
  with Suc show ?case by auto
qed simp

lemma lowest_word_off:
  assumes "i < length nu" and "mval (drop (Suc i) nu) < V"
  shows "mval (drop i nu) < radix * V"
proof -
  have "radix * Suc (mval (drop (Suc i) nu)) \<le> radix * V" using assms(2) by (intro mult_le_mono2) simp
  then show ?thesis using unat_lt_word [of "nu ! i"] assms(1) by (simp add: Cons_nth_drop_Suc [symmetric])
qed

lemma divide_loop_spec:
  assumes "2 \<le> length nv" and "last nv \<noteq> 0" and "k + length nv \<le> length nu"
    and "mval (drop k nu) < mval nv" and "length nv = 2 \<or> \<not> overshoots nv k nu"
  shows "\<exists>q nu'. divide_loop nv k nu acc = Some (q @ acc, nu') \<and> length q = k \<and> length nu' = length nu
    \<and> mval nu = mval nv * mval q + mval nu' \<and> mval nu' < mval nv"
  using assms
proof (induction k arbitrary: nu acc)
  case (Suc i)
  have i: "i < length nu" "i + length nv < length nu" using Suc.prems(3) by simp_all
  have W: "mval (drop i nu) < radix * mval nv" using lowest_word_off [OF i(1) Suc.prems(4)] .
  obtain d nu1 where s: "divide_step nv i nu = Some (d, nu1)" "length nu1 = length nu" "take i nu1 = take i nu"
    and d: "length nv = 2 \<longrightarrow> unat d * mval nv \<le> mval (drop i nu)"
      "unat d * mval nv \<le> mval (drop i nu) \<longrightarrow>
         unat d = mval (drop i nu) div mval nv \<and> mval (drop i nu1) = mval (drop i nu) mod mval nv"
    using divide_step_spec [OF Suc.prems(1,2) i(2) W] by blast
  have "unat d * mval nv \<le> mval (drop i nu)" and o: "length nv = 2 \<or> \<not> overshoots nv i nu1"
    using Suc.prems(5) d(1) s(1) by (auto simp: not_less)
  then have D: "unat d = mval (drop i nu) div mval nv" "mval (drop i nu1) = mval (drop i nu) mod mval nv"
    using d(2) by blast+
  have "mval (drop i nu1) < mval nv" unfolding D(2) using Suc.prems(4) by (intro mod_less_divisor) linarith
  from Suc.IH [OF Suc.prems(1,2) _ this o] s(2) Suc.prems(3)
  obtain q nu' where IH: "divide_loop nv i nu1 (d # acc) = Some (q @ d # acc, nu')" "length q = i"
    "length nu' = length nu1" "mval nu1 = mval nv * mval q + mval nu'" "mval nu' < mval nv"
    by (metis Suc_leD add_Suc)
  have "mval nu = mval (take i nu) + radix ^ i * mval (drop i nu)" using mval_upper [of i nu] i(1) by simp
  also have "mval (drop i nu) = mval nv * unat d + mval (drop i nu1)" unfolding D by simp
  finally have "mval nu = mval nu1 + radix ^ i * (mval nv * unat d)"
    using mval_upper [of i nu1] i(1) s(2,3) by (simp add: algebra_simps)
  then have "mval nu = mval nv * mval (q @ [d]) + mval nu'"
    using IH(2,4) by (simp add: mval_append algebra_simps)
  with IH s show ?case by (intro exI [of _ "q @ [d]"] exI [of _ nu']) simp
qed simp

section \<open>Normalisation\<close>

text \<open>The divisor is shifted until its highest bit is set; nothing is shifted out.\<close>

lemma nlz_bounds:
  assumes "w \<noteq> 0"
  shows "NumberOfLeadingZerosU32 w < 32
    \<and> (n \<le> NumberOfLeadingZerosU32 w \<longrightarrow> unat w div 2 ^ (32 - n) = 0)
    \<and> 2 ^ 31 \<le> unat w * 2 ^ NumberOfLeadingZerosU32 w"
proof -
  define N where "N = NumberOfLeadingZerosU32 w"
  note B = NumberOfLeadingZerosU32_spec [OF assms, folded N_def]
  have N: "N < 32"
    using bit_length_bounds [of 31 "unat w" N] B assms by (simp add: unat_gt_0)
  have "unat w div 2 ^ (32 - n) = 0" if "n \<le> N"
  proof -
    have "unat w * 2 ^ n \<le> unat w * 2 ^ N" using that by (intro mult_le_mono2 power_increasing) simp_all
    also have "\<dots> < 2 ^ 32" using B by blast
    also have "(2::nat) ^ 32 = 2 ^ (32 - n) * 2 ^ n" using that N by (simp flip: power_add)
    finally have "unat w < 2 ^ (32 - n)" by (simp only: mult_less_cancel2)
    then show ?thesis by simp
  qed
  with N B show ?thesis unfolding N_def by blast
qed

lemma normalized_divisor:
  assumes "normal v" and "v \<noteq> []"
  defines "s \<equiv> NumberOfLeadingZerosU32 (last v)"
  shows "s < 32" and "length (ShiftLeft v s) = length v" and "mval (ShiftLeft v s) = mval v * 2 ^ s"
    and "last (ShiftLeft v s) \<noteq> 0" and "2 ^ 31 * radix ^ (length v - 1) \<le> mval (ShiftLeft v s)"
proof -
  have w: "last v \<noteq> 0" using assms(1,2) by (simp add: normal_def)
  note B = nlz_bounds [OF w, of s, folded s_def]
  then show s: "s < 32" by blast
  show l: "length (ShiftLeft v s) = length v" using ShiftLeft_spec [OF s] by blast
  show m: "mval (ShiftLeft v s) = mval v * 2 ^ s" using ShiftLeft_spec [OF s, of v] B assms(2) by simp
  have "mval v = mval (butlast v @ [last v])" using assms(2) by simp
  also have "\<dots> = mval (butlast v) + radix ^ (length v - 1) * unat (last v)" unfolding mval_snoc by simp
  finally have f: "radix ^ (length v - 1) * unat (last v) \<le> mval v" by simp
  have "radix ^ (length v - 1) * 2 ^ 31 \<le> radix ^ (length v - 1) * (unat (last v) * 2 ^ s)"
    using B by (intro mult_le_mono2) blast
  also have "\<dots> = radix ^ (length v - 1) * unat (last v) * 2 ^ s" by (rule mult.assoc [symmetric])
  also have "\<dots> \<le> mval v * 2 ^ s" using f by (rule mult_le_mono1)
  finally show lo: "2 ^ 31 * radix ^ (length v - 1) \<le> mval (ShiftLeft v s)"
    unfolding m by (simp only: mult.commute)
  have ne: "ShiftLeft v s \<noteq> []" using l assms(2) by auto
  have "radix ^ (length (ShiftLeft v s) - 1) \<le> mval (ShiftLeft v s)" using lo l by simp
  then have "normal (ShiftLeft v s)" using normal_iff [OF ne] by blast
  with ne show "last (ShiftLeft v s) \<noteq> 0" by (simp add: normal_def)
qed

lemma normalized_dividend_spec:
  assumes "normal u" and "u \<noteq> []" and "s < 32"
  shows "length u < length (normalized_dividend u s) \<and> mval (normalized_dividend u s) = mval u * 2 ^ s"
proof -
  have w: "last u \<noteq> 0" using assms(1,2) by (simp add: normal_def)
  note L = ShiftLeft_spec [OF assms(3), of u]
  show ?thesis
  proof (cases "s \<le> NumberOfLeadingZerosU32 (last u)")
    case True
    then have "unat (last u) div 2 ^ (32 - s) = 0" using nlz_bounds [OF w, of s] by blast
    then show ?thesis using L assms(2) True by (simp add: normalized_dividend_def mval_append)
  next
    case False
    then show ?thesis using L assms(2)
      by (simp add: normalized_dividend_def mval_append unat_drop_bit32)
  qed
qed

lemma knuth_start:
  assumes "normal u" and "u \<noteq> []" and "normal v" and "v \<noteq> []" and "length v \<le> length u"
  defines "s \<equiv> NumberOfLeadingZerosU32 (last v)"
  shows "mval (drop (length u - length v + 1) (normalized_dividend u s)) < mval (ShiftLeft v s)"
proof -
  define nv nu k where "nv = ShiftLeft v s" and "nu = normalized_dividend u s" and "k = length u - length v + 1"
  note N = normalized_divisor [OF assms(3,4), folded s_def, folded nv_def]
  have nu: "length u < length nu" "mval nu = mval u * 2 ^ s"
    using normalized_dividend_spec [OF assms(1,2) N(1)] by (simp_all add: nu_def)
  have v: "0 < length v" using assms(4) by simp
  have "radix ^ k * mval (drop k nu) \<le> mval nu"
    using mval_upper [of k nu] nu(1) assms(5) v by (simp add: k_def)
  also have "\<dots> < radix ^ length u * 2 ^ 31"
  proof -
    have "mval u * 2 ^ s < radix ^ length u * 2 ^ s" using mval_lt [of u] by simp
    also have "\<dots> \<le> radix ^ length u * 2 ^ 31" using N(1) by (intro mult_le_mono2 power_increasing) simp_all
    finally show ?thesis by (simp add: nu(2))
  qed
  also have "length u = k + (length v - 1)" using assms(5) v unfolding k_def by arith
  also have "radix ^ \<dots> = radix ^ k * radix ^ (length v - 1)" by (rule power_add)
  also have "\<dots> * 2 ^ 31 \<le> radix ^ k * mval nv" using N(5) by (simp add: mult_ac)
  finally show ?thesis by (simp only: mult_less_cancel1 nv_def nu_def k_def)
qed

text \<open>The digits of the quotient and the remainder of two magnitudes, when no digit comes out too large; with
  two words in the divisor none does.\<close>

lemma KnuthDivide_spec:
  assumes "normal u" and "normal v" and "2 \<le> length v" and "mval v \<le> mval u"
  defines "s \<equiv> NumberOfLeadingZerosU32 (last v)"
  assumes "length v = 2 \<or> \<not> overshoots (ShiftLeft v s) (length u - length v + 1) (normalized_dividend u s)"
  shows "\<exists>q r. KnuthDivide u v sg = Inr (q, r) \<and> bi_sign q = sg \<and> bi_sign r = sg
    \<and> normal (bi_mag q) \<and> normal (bi_mag r)
    \<and> mval (bi_mag q) = mval u div mval v \<and> mval (bi_mag r) = mval u mod mval v"
proof -
  define nv nu k where "nv = ShiftLeft v s" and "nu = normalized_dividend u s" and "k = length u - length v + 1"
  have v: "v \<noteq> []" using assms(3) by auto
  note N = normalized_divisor [OF assms(2) v, folded s_def, folded nv_def]
  have len: "length v \<le> length u" using normal_length_mono [OF assms(2,4)] .
  then have u: "u \<noteq> []" using v by auto
  have nu: "length u < length nu" "mval nu = mval u * 2 ^ s"
    using normalized_dividend_spec [OF assms(1) u N(1)] by (simp_all add: nu_def)
  have top: "mval (drop k nu) < mval nv"
    using knuth_start [OF assms(1) u assms(2) v len, folded s_def] by (simp only: nv_def nu_def k_def)
  have "2 \<le> length nv" "k + length nv \<le> length nu" using N(2) assms(3) nu(1) len by (simp_all add: k_def)
  from divide_loop_spec [OF this(1) N(4) this(2) top, of "[]"] assms(6) N(2)
  obtain q nu' where q: "divide_loop nv k nu [] = Some (q, nu')" "length q = k" "length nu' = length nu"
    "mval nu = mval nv * mval q + mval nu'" "mval nu' < mval nv"
    by (auto simp: nv_def nu_def k_def)
  have r: "mval nu' = (mval u mod mval v) * 2 ^ s"
  proof -
    have "mval nu' = mval nu mod mval nv" using q(4,5) by (metis mod_less mod_mult_self4)
    then show ?thesis by (simp add: nu(2) N(3) mult_mod_left)
  qed
  have quot: "mval q = mval u div mval v"
  proof -
    have "mval q = mval nu div mval nv" using q(4,5) by (metis add.commute div_less div_mult_self2 add_0_left gr_implies_not0)
    then show ?thesis by (simp add: nu(2) N(3))
  qed
  have t: "mval (take (length v) nu') = mval nu'"
  proof -
    have "radix ^ length v * mval (drop (length v) nu') \<le> mval nu'"
      using mval_upper [of "length v" nu'] q(3) nu(1) len by simp
    also have "\<dots> < radix ^ length v * 1" using q(5) mval_lt [of nv] N(2) by simp
    finally have "mval (drop (length v) nu') = 0" by (simp only: mult_less_cancel1) simp
    then show ?thesis using mval_upper [of "length v" nu'] q(3) nu(1) len by simp
  qed
  have "KnuthDivide u v sg = Inr (BigNormalize \<lparr>bi_sign = sg, bi_mag = q\<rparr>,
      BigNormalize \<lparr>bi_sign = sg, bi_mag = ShiftRight (take (length v) nu') s\<rparr>)"
    using N(1) q(1)
    unfolding KnuthDivide_def Let_def s_def [symmetric] nv_def [symmetric] nu_def [symmetric] k_def [symmetric]
    by simp
  moreover have "mval (ShiftRight (take (length v) nu') s) = mval u mod mval v"
    using ShiftRight_spec [OF N(1)] t r by simp
  ultimately show ?thesis using quot by (simp add: BigNormalize_def strip_zeros)
qed

section \<open>Division\<close>

lemma word_of_mag_value:
  assumes "m \<noteq> []" and "length m \<le> 2"
  shows "unat (word_of_mag m) = mval m"
proof -
  consider x where "m = [x]" | x y where "m = [x, y]" using assms by (cases m rule: remdups_adj.cases) auto
  then show ?thesis
  proof cases
    case (2 x y)
    then show ?thesis using unat_MakeU64 [of y x] by (simp add: word_of_mag_def MakeU64_def or.commute)
  qed (simp add: word_of_mag_def unat_ucast64)
qed

lemma AssignInt64_signed:
  assumes "s = 1 \<or> s = - 1" and "unat w < 2 ^ 63"
  shows "bi_ok (AssignInt64 (word_of_int s * w)) \<and> bi_val (AssignInt64 (word_of_int s * w)) = s * int (unat w)"
proof -
  have e: "word_of_int s * w = word_of_int (s * int (unat w))" by simp
  have b: "int (unat w) < 2 ^ 63" using assms(2) by (metis of_nat_less_iff of_nat_numeral of_nat_power)
  have "sint (word_of_int s * w) = signed_take_bit 63 (s * int (unat w))"
    unfolding e sint_sbintrunc' by (simp del: of_nat_unat)
  also have "\<dots> = s * int (unat w)"
    using assms(1) b by (intro signed_take_bit_int_eq_self) (auto simp del: of_nat_unat)
  finally show ?thesis using AssignInt64_spec [of "word_of_int s * w"] by simp
qed

text \<open>The divisions for which no digit is estimated too large: the special cases, every divisor of two words, and
  the runs of the general algorithm without such a digit.\<close>

definition divides_exactly :: "big_integer \<Rightarrow> big_integer \<Rightarrow> bool" where
  "divides_exactly a d \<longleftrightarrow>
     \<bar>bi_val a\<bar> \<le> \<bar>bi_val d\<bar> \<or> \<bar>bi_val d\<bar> = 1 \<or> length (bi_mag a) \<le> 2 \<or> length (bi_mag d) = 2
     \<or> 2 < length (bi_mag d)
       \<and> (let s = NumberOfLeadingZerosU32 (last (bi_mag d))
          in \<not> overshoots (ShiftLeft (bi_mag d) s) (length (bi_mag a) - length (bi_mag d) + 1)
                (normalized_dividend (bi_mag a) s))"

lemma c_div_signs:
  assumes "sa = 1 \<or> sa = - 1" and "sb = 1 \<or> sb = - 1"
  shows "c_div (sa * int m) (sb * int n) = sa * sb * int (m div n)"
  using assms by (auto simp: c_div_def sgn_if zdiv_int)

text \<open>What a division delivers. The quotient is the one of C, rounded towards zero. The remainder has the
  right size; its sign is the one of the quotient, unless the dividend is smaller than the divisor
  and is the remainder itself.\<close>

definition divides_into :: "big_integer \<Rightarrow> big_integer \<Rightarrow> big_integer \<Rightarrow> big_integer \<Rightarrow> bool" where
  "divides_into a d q r \<longleftrightarrow>
     bi_ok q \<and> bi_val q = c_div (bi_val a) (bi_val d)
     \<and> normal (bi_mag r) \<and> (bi_sign r = 1 \<or> bi_sign r = - 1)
     \<and> (bi_sign a = 1 \<and> bi_sign d = 1 \<longrightarrow> bi_sign r = 1)
     \<and> mval (bi_mag r) = mval (bi_mag a) mod mval (bi_mag d)
     \<and> bi_val r = (if \<bar>bi_val a\<bar> < \<bar>bi_val d\<bar> then bi_val a
                   else bi_sign a * bi_sign d * int (mval (bi_mag a) mod mval (bi_mag d)))"

lemma c_div_bi:
  assumes "bi_ok a" and "bi_ok d"
  shows "c_div (bi_val a) (bi_val d) = bi_sign a * bi_sign d * int (mval (bi_mag a) div mval (bi_mag d))"
  unfolding bi_val_def using bi_ok_sign [OF assms(1)] bi_ok_sign [OF assms(2)] by (rule c_div_signs)

lemma sign_product:
  "bi_ok a \<Longrightarrow> bi_ok d \<Longrightarrow> bi_sign a * bi_sign d = 1 \<or> bi_sign a * bi_sign d = - 1"
  using bi_ok_sign [of a] bi_ok_sign [of d] by auto

lemma zero_number:
  "bi_ok (AssignInt64 0)" "bi_mag (AssignInt64 0) = []" "bi_sign (AssignInt64 0) = 1" "bi_val (AssignInt64 0) = 0"
  by (simp_all add: AssignInt64_def AssignUint64_def bi_ok_def normal_def bi_val_def)

lemma exact_divides_into:
  assumes "bi_ok a" and "bi_ok d" and "mval (bi_mag d) \<le> mval (bi_mag a)" and "mval (bi_mag a) mod mval (bi_mag d) = 0"
    and "bi_ok q" and "bi_val q = bi_sign a * bi_sign d * int (mval (bi_mag a) div mval (bi_mag d))"
  shows "divides_into a d q (AssignInt64 0)"
  using assms by (simp add: divides_into_def c_div_bi zero_number normal_def abs_bi_val)

lemma machine_divides_into:
  assumes "bi_ok a" and "bi_ok d" and "unat u = mval (bi_mag a)" and "unat v = mval (bi_mag d)"
    and "1 < mval (bi_mag d)" and "mval (bi_mag d) < mval (bi_mag a)"
  defines "s \<equiv> word_of_int (bi_sign a * bi_sign d) :: 64 word"
  shows "divides_into a d (AssignInt64 (s * (u div v))) (AssignInt64 (s * (u mod v)))"
proof -
  define m n where "m = mval (bi_mag a)" and "n = mval (bi_mag d)"
  have u: "unat (u div v) = m div n" "unat (u mod v) = m mod n"
    using assms(3,4) by (simp_all add: unat_div_distrib unat_mod_distrib m_def n_def)
  have m: "m < 2 ^ 64" using unsigned_less [of u, where ?'a = nat] assms(3) by (simp add: m_def)
  have "m div n \<le> m div 2" using assms(5) by (intro div_le_mono2) (simp_all add: n_def)
  with m have q: "m div n < 2 ^ 63" by simp
  have "0 < m div n" using assms(5,6) by (simp add: m_def n_def div_greater_zero_iff)
  then have "n * 1 \<le> n * (m div n)" by (intro mult_le_mono2) simp
  moreover have "n * (m div n) + m mod n = m" by simp
  ultimately have "n + m mod n \<le> m" by linarith
  moreover have "m mod n < n" using assms(5) by (simp add: n_def)
  ultimately have r: "m mod n < 2 ^ 63" using m by simp
  note Q = AssignInt64_signed [OF sign_product [OF assms(1,2)], of "u div v", unfolded u, OF q, folded s_def]
    and R = AssignInt64_signed [OF sign_product [OF assms(1,2)], of "u mod v", unfolded u, OF r, folded s_def]
  have "mval (bi_mag (AssignInt64 (s * (u mod v)))) = m mod n"
    using R abs_bi_val [of "AssignInt64 (s * (u mod v))"] sign_product [OF assms(1,2)] by auto
  moreover have "bi_sign (AssignInt64 (s * (u mod v))) = 1" if "bi_sign a * bi_sign d = 1"
    using R that by (auto simp: bi_ok_def bi_val_def mult_less_0_iff dest!: normal_0_iff)
  ultimately show ?thesis using Q R assms(6) bi_ok_sign bi_ok_normal
    by (simp add: divides_into_def c_div_bi assms(1,2) abs_bi_val m_def [symmetric] n_def [symmetric] not_less)
qed

lemma Divide_spec:
  assumes "bi_ok a" and "bi_ok d" and "bi_val d \<noteq> 0" and "divides_exactly a d"
  shows "\<exists>q r. Divide a d = Inr (q, r) \<and> divides_into a d q r"
proof -
  define m n where "m = mval (bi_mag a)" and "n = mval (bi_mag d)"
  have A: "\<bar>bi_val a\<bar> = int m" "\<bar>bi_val d\<bar> = int n" using assms(1,2) by (simp_all add: abs_bi_val m_def n_def)
  have n: "0 < n" "bi_mag d \<noteq> []" using assms(3) by (auto simp: n_def bi_val_def intro!: gr0I)
  have C: "Compare a d True = sgn (int m - int n)" using Compare_spec(2) [OF assms(1,2)] A by simp
  consider "m = n" | "m < n" | "n < m" "GetBitLength d = 1" | "n < m" "GetBitLength d \<noteq> 1" "length (bi_mag a) \<le> 2"
    | "n < m" "GetBitLength d \<noteq> 1" "2 < length (bi_mag a)" by linarith
  then show ?thesis
  proof cases
    case 1
    define q where "q = AssignInt64 (word_of_int (bi_sign a * bi_sign d) * 1)"
    have "Divide a d = Inr (q, AssignInt64 0)" using 1 n C by (simp add: Divide_def Let_def q_def)
    moreover have "divides_into a d q (AssignInt64 0)"
      using 1 n AssignInt64_signed [OF sign_product [OF assms(1,2)], of 1]
      by (intro exact_divides_into assms) (simp_all add: q_def m_def n_def)
    ultimately show ?thesis by blast
  next
    case 2
    then have "Divide a d = Inr (AssignInt64 0, a)"
      using n C sgn_diff(1) [OF 2] by (simp add: Divide_def Let_def)
    moreover have "divides_into a d (AssignInt64 0) a"
      using 2 assms(1) bi_ok_sign [OF assms(1)] bi_ok_normal [OF assms(1)]
      by (simp add: divides_into_def c_div_bi assms(1,2) zero_number A m_def n_def)
    ultimately show ?thesis by blast
  next
    case 3
    define q where "q = a\<lparr>bi_sign := bi_sign a * bi_sign d\<rparr>"
    have n1: "n = 1" using 3 GetBitLength_1 [OF bi_ok_normal [OF assms(2)]] by (simp add: n_def)
    have "Divide a d = Inr (q, AssignInt64 0)"
      using n C sgn_diff(2) [OF 3(1)] 3 by (simp add: Divide_def Let_def q_def)
    moreover have "bi_mag a \<noteq> []" using 3(1) by (auto simp: m_def)
    then have "bi_ok q" "bi_val q = bi_sign a * bi_sign d * int m"
      using sign_product [OF assms(1,2)] bi_ok_normal [OF assms(1)] by (auto simp: q_def bi_ok_def bi_val_def m_def)
    then have "divides_into a d q (AssignInt64 0)"
      using n1 3 by (intro exact_divides_into assms) (simp_all add: m_def n_def)
    ultimately show ?thesis by blast
  next
    case 4
    have am: "bi_mag a \<noteq> []" using 4(1) by (auto simp: m_def)
    have "length (bi_mag d) \<le> 2"
      using normal_length_mono [OF bi_ok_normal [OF assms(2)], of "bi_mag a"] 4 by (simp add: m_def n_def)
    then have u: "unat (word_of_mag (bi_mag a)) = m" "unat (word_of_mag (bi_mag d)) = n"
      using word_of_mag_value am n(2) 4(3) by (simp_all add: m_def n_def)
    have n2: "1 < n" using GetBitLength_1 [OF bi_ok_normal [OF assms(2)]] 4(2) n(1) by (simp add: n_def)
    from machine_divides_into [OF assms(1,2) u(1) [unfolded m_def] u(2) [unfolded n_def]] n2 4(1)
    show ?thesis using n C sgn_diff(2) [OF 4(1)] 4 by (simp add: Divide_def Let_def m_def n_def)
  next
    case 5
    define sg where "sg = bi_sign a * bi_sign d"
    have n1: "n \<noteq> 1" using 5(2) GetBitLength_1 [OF bi_ok_normal [OF assms(2)]] by (simp add: n_def)
    have D: "Divide a d = KnuthDivide (bi_mag a) (bi_mag d) sg"
      using n C sgn_diff(2) [OF 5(1)] 5 by (simp add: Divide_def Let_def sg_def)
    have e: "2 \<le> length (bi_mag d)" "mval (bi_mag d) \<le> mval (bi_mag a)"
      and o: "length (bi_mag d) = 2 \<or> \<not> overshoots (ShiftLeft (bi_mag d) (NumberOfLeadingZerosU32 (last (bi_mag d))))
          (length (bi_mag a) - length (bi_mag d) + 1)
          (normalized_dividend (bi_mag a) (NumberOfLeadingZerosU32 (last (bi_mag d))))"
      using assms(4) 5 n1 A by (auto simp: divides_exactly_def Let_def m_def n_def)
    obtain q r where K: "KnuthDivide (bi_mag a) (bi_mag d) sg = Inr (q, r)" "bi_sign q = sg" "bi_sign r = sg"
      "normal (bi_mag q)" "normal (bi_mag r)" "mval (bi_mag q) = m div n" "mval (bi_mag r) = m mod n"
      using KnuthDivide_spec [OF bi_ok_normal [OF assms(1)] bi_ok_normal [OF assms(2)] e o, of sg]
      unfolding m_def n_def by blast
    have "0 < m div n" using 5(1) n(1) by (simp add: div_greater_zero_iff)
    then have "bi_mag q \<noteq> []" using K(6) by auto
    moreover have "sg = 1 \<or> sg = - 1" unfolding sg_def by (rule sign_product [OF assms(1,2)])
    ultimately have "bi_ok q" "bi_val q = sg * int (m div n)" "bi_val r = sg * int (m mod n)"
      "bi_sign r = 1 \<or> bi_sign r = - 1" "bi_sign a = 1 \<and> bi_sign d = 1 \<longrightarrow> bi_sign r = 1"
      using K(2-) by (auto simp: sg_def bi_ok_def bi_val_def)
    then have "divides_into a d q r"
      using K(5,7) 5(1) by (simp add: divides_into_def c_div_bi assms(1,2) A sg_def m_def n_def)
    then show ?thesis using D K(1) by simp
  qed
qed

section \<open>When a division fails\<close>

text \<open>A divisor of one word and a dividend of more than two: the correction of the first digit reads the
  word before the first of the divisor.\<close>

lemma KnuthDivide_single_word:
  assumes "normal u" and "u \<noteq> []" and "normal v" and "length v = 1"
  shows "KnuthDivide u v sg = Inl BadAccess"
proof -
  define s where "s = NumberOfLeadingZerosU32 (last v)"
  define nv nu where "nv = ShiftLeft v s" and "nu = normalized_dividend u s"
  have v: "v \<noteq> []" "length v \<le> length u" using assms(2,4) by (auto simp: Suc_le_eq)
  note N = normalized_divisor [OF assms(3) v(1), folded s_def, folded nv_def]
  have nu: "length u < length nu" using normalized_dividend_spec [OF assms(1,2) N(1)] by (simp add: nu_def)
  have start: "mval (drop (length u) nu) < mval nv"
    using knuth_start [OF assms(1,2,3) v, folded s_def, folded nv_def nu_def] assms(2,4) by simp
  obtain v1 where nv: "nv = [v1]" using N(2) assms(4) by (metis length_0_conv length_Suc_conv One_nat_def)
  define k where "k = length u - 1"
  have k: "length u = Suc k" using assms(2) by (simp add: k_def)
  define b where "b = MakeU64 (nu ! Suc k) (nu ! k)"
  have "unat (nu ! Suc k) < unat v1" using start nu by (simp add: nv k Cons_nth_drop_Suc [symmetric])
  then have "radix * Suc (unat (nu ! Suc k)) \<le> radix * unat v1" by (intro mult_le_mono2) simp
  then have "unat b < radix * unat v1" using unat_lt_word [of "nu ! k"] by (simp add: b_def unat_MakeU64)
  then have "unat b div unat v1 < radix" by (simp add: less_mult_imp_div_less)
  then have "\<not> UINT32_MAX < b div ucast v1"
    by (simp add: word_less_nat_alt unat_div_distrib unat_ucast64)
  then have "divide_step nv k nu = None"
    by (simp add: divide_step_simp nv b_def [symmetric] Let_def) (subst qhat_adjust.simps, simp)
  then have "divide_loop nv (length u - length v + 1) nu [] = None" using assms(4) by (simp add: k)
  then show ?thesis using N(1)
    unfolding KnuthDivide_def Let_def s_def [symmetric] nv_def [symmetric] nu_def [symmetric] by simp
qed

lemma KnuthDivide_returns:
  assumes "normal v" and "2 \<le> length v"
  shows "\<exists>r. KnuthDivide u v sg = Inr r"
proof -
  have v: "v \<noteq> []" using assms(2) by auto
  note N = normalized_divisor [OF assms(1) v]
  have "2 \<le> length (ShiftLeft v (NumberOfLeadingZerosU32 (last v)))" using N(2) assms(2) by simp
  from divide_loop_total [OF this] obtain q nu where
    "divide_loop (ShiftLeft v (NumberOfLeadingZerosU32 (last v))) (length u - length v + 1)
       (normalized_dividend u (NumberOfLeadingZerosU32 (last v))) [] = Some (q, nu)"
    by (metis option.exhaust surj_pair)
  then show ?thesis using N(1) unfolding KnuthDivide_def Let_def by simp
qed

text \<open>The failures of a division.\<close>

lemma Divide_outcomes:
  assumes "bi_ok a" and "bi_ok d"
  shows "Divide a d =
    (if bi_val d = 0 then Inl DivisionByZero
     else if length (bi_mag d) = 1 \<and> \<bar>bi_val d\<bar> \<noteq> 1 \<and> 2 < length (bi_mag a) then Inl BadAccess
     else Inr (projr (Divide a d)))"
proof -
  have z: "bi_val d = 0 \<longleftrightarrow> bi_mag d = []"
    using normal_0_iff [OF bi_ok_normal [OF assms(2)]] bi_ok_sign [OF assms(2)] by (auto simp: bi_val_def)
  show ?thesis
  proof (cases "bi_val d = 0")
    case True
    then show ?thesis using z by (simp add: Divide_def)
  next
    case nz: False
    consider "length (bi_mag d) = 1" "\<bar>bi_val d\<bar> \<noteq> 1" "2 < length (bi_mag a)"
      | "divides_exactly a d" "\<not> (length (bi_mag d) = 1 \<and> \<bar>bi_val d\<bar> \<noteq> 1 \<and> 2 < length (bi_mag a))"
      | "\<bar>bi_val d\<bar> < \<bar>bi_val a\<bar>" "\<bar>bi_val d\<bar> \<noteq> 1" "2 < length (bi_mag d)" "2 < length (bi_mag a)"
      using z nz normal_length_mono [OF bi_ok_normal [OF assms(2)], of "bi_mag a"]
      unfolding divides_exactly_def by (metis One_nat_def Suc_1 Suc_lessI length_0_conv length_greater_0_conv linorder_not_le)
    then show ?thesis
    proof cases
      case 1
      then have "length (bi_mag d) < length (bi_mag a)" by simp
      then have lt: "mval (bi_mag d) < mval (bi_mag a)"
        using normal_length_mono [OF bi_ok_normal [OF assms(1)], of "bi_mag d"] by linarith
      have "Compare a d True = 1" using Compare_spec(2) [OF assms] lt by (simp add: abs_bi_val assms)
      moreover have "GetBitLength d \<noteq> 1"
        using GetBitLength_1 [OF bi_ok_normal [OF assms(2)]] 1(2) by (simp add: abs_bi_val assms)
      moreover have "KnuthDivide (bi_mag a) (bi_mag d) (bi_sign a * bi_sign d) = Inl BadAccess"
        using 1 by (intro KnuthDivide_single_word bi_ok_normal assms) auto
      ultimately show ?thesis using 1 nz z by (simp add: Divide_def Let_def)
    next
      case 2
      then show ?thesis using Divide_spec [OF assms nz 2(1)] nz by auto
    next
      case 3
      then have "Compare a d True = 1" using Compare_spec(2) [OF assms] by (simp add: sgn_if)
      moreover have "GetBitLength d \<noteq> 1"
        using GetBitLength_1 [OF bi_ok_normal [OF assms(2)]] 3(2) by (simp add: abs_bi_val assms)
      ultimately show ?thesis
        using 3 nz z KnuthDivide_returns [OF bi_ok_normal [OF assms(2)], of "bi_mag a" "bi_sign a * bi_sign d"]
        by (auto simp: Divide_def Let_def)
    qed
  qed
qed

end
