(* ===== verification/Big_Text.thy ===== *)
theory Big_Text
  imports Big_Division
begin

text \<open>
  Text of big integers (the stream operators of \<^verbatim>\<open>ignite/common/include/common/big_integer.h\<close>). Writing divides by
  the largest power of ten that fits into 64 bits and writes the remainders as chunks of 19 digits;
  reading collects digits in 64 bits and multiplies whenever they are full. A stream is the text
  that is written to it or left to read, without a field width set by the caller. Both operators are
  proved to be the decimal notation, and inverse to each other.
\<close>

section \<open>Writing\<close>

definition maxUintTenPower :: big_integer where
  "maxUintTenPower = AssignUint64 10000000000000000000"

definition positive_sign :: "big_integer \<Rightarrow> big_integer" where
  "positive_sign b = (if bi_sign b < 0 then b\<lparr>bi_sign := - bi_sign b\<rparr> else b)"

text \<open>The loop that takes chunks off; the last chunk comes first in the list. The result is \<open>None\<close> if a
  division fails or the loop does not end.\<close>

partial_function (option) print_chunks :: "big_integer \<Rightarrow> 64 word list \<Rightarrow> 64 word list option" where
  "print_chunks left vals =
     (if IsZero left then Some vals
      else
        case Divide left maxUintTenPower of
          Inl e \<Rightarrow> None
        | Inr lr \<Rightarrow> print_chunks (fst lr) (ToInt64 (snd lr) # vals))"

definition padded :: "nat \<Rightarrow> nat \<Rightarrow> string" where
  "padded width n = replicate (width - length (nat_digits n)) (CHR ''0'') @ nat_digits n"

fun chunk_text :: "64 word list \<Rightarrow> string" where
  "chunk_text [] = []"
| "chunk_text (v # vs) = nat_digits (unat v) @ concat (map (\<lambda>v. padded 19 (unat v)) vs)"

definition PrintBig :: "big_integer \<Rightarrow> string option" where
  "PrintBig val =
     (if IsZero val then Some ''0''
      else
        case Divide val maxUintTenPower of
          Inl e \<Rightarrow> None
        | Inr (left, res) \<Rightarrow>
            (case print_chunks (positive_sign left) [ToInt64 (positive_sign res)] of
               None \<Rightarrow> None
             | Some vals \<Rightarrow> Some ((if bi_sign val < 0 then ''-'' else []) @ chunk_text vals)))"

section \<open>Reading\<close>

text \<open>The digits of the text: the number so far, the part not yet added to it and the count of its digits.\<close>

fun read_digits :: "string \<Rightarrow> big_integer \<Rightarrow> 64 word \<Rightarrow> nat \<Rightarrow> big_integer \<times> 64 word \<times> nat \<times> string" where
  "read_digits [] val part partDigits = (val, part, partDigits, [])"
| "read_digits (c # cs) val part partDigits =
     (if isdigit c then
        let part = part * 10 + word_of_int (digit_val c);
            partDigits = partDigits + 1
        in if 1000000000000000000 \<le> part
           then read_digits cs (AddUint64 (Multiply val (GetPowerOfTen (int partDigits))) part) 0 0
           else read_digits cs val part partDigits
      else (val, part, partDigits, c # cs))"

definition add_part :: "big_integer \<Rightarrow> 64 word \<Rightarrow> nat \<Rightarrow> big_integer" where
  "add_part val part partDigits =
     (if partDigits \<noteq> 0 then AddUint64 (Multiply val (GetPowerOfTen (int partDigits))) part else val)"

text \<open>The sign in front of the digits.\<close>

definition read_sign :: "string \<Rightarrow> int \<times> string" where
  "read_sign s =
     (case s of [] \<Rightarrow> (1, [])
      | c # cs \<Rightarrow> if c = CHR ''-'' then (- 1, cs) else if c = CHR ''+'' then (1, cs) else (1, s))"

text \<open>The stream operator: spaces are skipped; the result is zero when nothing is left.\<close>

definition ReadBig :: "string \<Rightarrow> big_integer \<times> string" where
  "ReadBig s =
     (let s = dropWhile isspace s
      in if s = [] then (AssignInt64 0, [])
         else
           let (sign, s) = read_sign s;
               (val, part, partDigits, rest) = read_digits s (AssignInt64 0) 0 0;
               val = add_part val part partDigits
           in (if sign < 0 then Negate val else val, rest))"

definition BigAssignString :: "string \<Rightarrow> big_integer" where
  "BigAssignString s = fst (ReadBig s)"

section \<open>Chunks of digits\<close>

text \<open>The lower \<open>k\<close> digits of a number.\<close>

fun low_digits :: "nat \<Rightarrow> nat \<Rightarrow> string" where
  "low_digits 0 r = []"
| "low_digits (Suc k) r = low_digits k (r div 10) @ [char_of (48 + r mod 10)]"

lemma char_0: "char_of (48::nat) = CHR ''0''"
  by code_simp

lemma low_digits_0: "low_digits k 0 = replicate k (CHR ''0'')"
  by (induction k) (simp_all add: replicate_append_same char_0)

lemma nat_digits_split: "0 < n \<Longrightarrow> r < 10 ^ k \<Longrightarrow> nat_digits (n * 10 ^ k + r) = nat_digits n @ low_digits k r"
proof (induction k arbitrary: r)
  case (Suc k)
  let ?N = "n * 10 ^ Suc k + r"
  have "(1::nat) * 10 ^ 1 \<le> n * 10 ^ Suc k"
    using Suc.prems(1) by (intro mult_le_mono power_increasing) (simp_all add: Suc_le_eq)
  then have "10 \<le> n * 10 ^ Suc k" by (simp only: mult_1 power_one_right)
  then have "10 \<le> ?N" by (rule trans_le_add1)
  moreover have "?N div 10 = n * 10 ^ k + r div 10" "?N mod 10 = r mod 10"
    using div_mult_self2 [of 10 r "n * 10 ^ k"] mod_mult_self2 [of r 10 "n * 10 ^ k"]
    by (simp_all add: algebra_simps)
  moreover have "r div 10 < 10 ^ k" using Suc.prems(2) by (simp add: div_less_iff_less_mult mult.commute)
  ultimately show ?case using Suc.IH [OF Suc.prems(1), of "r div 10"] by (subst nat_digits.simps) simp
qed simp

lemma padded_low_digits: "0 < k \<Longrightarrow> r < 10 ^ k \<Longrightarrow> padded k r = low_digits k r"
proof (induction k arbitrary: r)
  case (Suc k)
  show ?case
  proof (cases "r < 10")
    case True
    then have "nat_digits r = [char_of (48 + r)]" by (subst nat_digits.simps) simp
    then show ?thesis using True by (simp add: padded_def low_digits_0)
  next
    case False
    then have k: "0 < k" using Suc.prems(2) by (cases k) simp_all
    have "nat_digits r = nat_digits (r div 10) @ [char_of (48 + r mod 10)]"
      using False by (subst nat_digits.simps) simp
    then have "padded (Suc k) r = padded k (r div 10) @ [char_of (48 + r mod 10)]" by (simp add: padded_def)
    moreover have "r div 10 < 10 ^ k" using Suc.prems(2) by (simp add: div_less_iff_less_mult mult.commute)
    ultimately show ?thesis using Suc.IH [OF k] by simp
  qed
qed simp

abbreviation chunk :: nat where "chunk \<equiv> 10000000000000000000"

lemma nat_digits_chunk: "0 < n \<Longrightarrow> r < chunk \<Longrightarrow> nat_digits (n * chunk + r) = nat_digits n @ padded 19 r"
  using nat_digits_split [of n r 19] padded_low_digits [of 19 r] by simp

section \<open>Writing is the decimal notation\<close>

lemma maxUintTenPower: "bi_ok maxUintTenPower" "bi_val maxUintTenPower = int chunk"
    "bi_sign maxUintTenPower = 1" "length (bi_mag maxUintTenPower) = 2" "mval (bi_mag maxUintTenPower) = chunk"
proof -
  show "bi_ok maxUintTenPower" "bi_val maxUintTenPower = int chunk"
    using AssignUint64_spec [of 10000000000000000000] by (simp_all add: maxUintTenPower_def)
  show "bi_sign maxUintTenPower = 1" "length (bi_mag maxUintTenPower) = 2"
    "mval (bi_mag maxUintTenPower) = chunk"
    by (simp_all add: maxUintTenPower_def AssignUint64_def)
qed

text \<open>A division by the power of ten, for any sign of the dividend: the quotient and the remainder made positive.\<close>

lemma chunk_division:
  assumes "bi_ok b"
  shows "\<exists>q r. Divide b maxUintTenPower = Inr (q, r)
    \<and> bi_ok (positive_sign q) \<and> bi_sign (positive_sign q) = 1 \<and> mval (bi_mag (positive_sign q)) = mval (bi_mag b) div chunk
    \<and> unat (ToInt64 (positive_sign r)) = mval (bi_mag b) mod chunk
    \<and> (bi_sign b = 1 \<longrightarrow> positive_sign q = q \<and> positive_sign r = r)"
proof -
  have "divides_exactly b maxUintTenPower" by (simp add: divides_exactly_def maxUintTenPower)
  with Divide_spec [OF assms maxUintTenPower(1)] obtain q r
    where D: "Divide b maxUintTenPower = Inr (q, r)" "divides_into b maxUintTenPower q r"
    by (auto simp: maxUintTenPower)
  then have q: "bi_ok q" "bi_val q = bi_sign b * int (mval (bi_mag b) div chunk)"
    using c_div_bi [OF assms maxUintTenPower(1)] by (simp_all add: divides_into_def maxUintTenPower)
  have r: "normal (bi_mag r)" "bi_sign r = 1 \<or> bi_sign r = - 1" "mval (bi_mag r) = mval (bi_mag b) mod chunk"
    using D(2) by (simp_all add: divides_into_def maxUintTenPower)
  have "\<bar>bi_val q\<bar> = int (mval (bi_mag b) div chunk)" using q(2) bi_ok_sign [OF assms] by auto
  then have mq: "mval (bi_mag q) = mval (bi_mag b) div chunk" by (simp only: abs_bi_val [OF q(1)] of_nat_eq_iff)
  have pq: "bi_ok (positive_sign q)" "bi_sign (positive_sign q) = 1" "bi_mag (positive_sign q) = bi_mag q"
    using q(1) by (auto simp: positive_sign_def bi_ok_def)
  have pr: "bi_ok (positive_sign r)" "bi_sign (positive_sign r) = 1" "bi_mag (positive_sign r) = bi_mag r"
    using r by (auto simp: positive_sign_def bi_ok_def)
  have "mval (bi_mag r) < chunk" using r(3) by simp
  then have t: "unat (ToInt64 (positive_sign r)) = mval (bi_mag r)"
    using ToInt64_spec [OF pr(1)] pr(2,3) by (simp add: bi_val_def unat_of_nat)
  have "positive_sign q = q \<and> positive_sign r = r" if "bi_sign b = 1"
  proof -
    have "0 \<le> bi_val q" using q(2) that by simp
    then have "bi_sign q = 1 \<or> mval (bi_mag q) = 0" using bi_ok_sign [OF q(1)] by (auto simp: bi_val_def)
    then have sq: "bi_sign q = 1" using q(1) normal_0_iff [OF bi_ok_normal [OF q(1)]] by (auto simp: bi_ok_def)
    have "bi_sign r = 1"
      using D(2) that by (simp add: divides_into_def maxUintTenPower)
    with sq show ?thesis by (simp add: positive_sign_def)
  qed
  with D(1) pq t mq r(3) show ?thesis by auto
qed

lemma print_chunks_spec:
  "bi_ok left \<Longrightarrow> bi_sign left = 1 \<Longrightarrow> unat c < chunk \<Longrightarrow>
   \<exists>vals. print_chunks left (c # acc) = Some vals
     \<and> chunk_text vals = nat_digits (mval (bi_mag left) * chunk + unat c) @ concat (map (\<lambda>v. padded 19 (unat v)) acc)"
proof (induction "mval (bi_mag left)" arbitrary: left c acc rule: less_induct)
  case less
  define m where "m = mval (bi_mag left)"
  show ?case
  proof (cases "IsZero left")
    case True
    then show ?thesis by (subst print_chunks.simps) (simp add: IsZero_def)
  next
    case False
    then have m: "0 < m" using normal_0_iff [OF bi_ok_normal [OF less.prems(1)]] by (simp add: IsZero_def m_def)
    obtain q r where D: "Divide left maxUintTenPower = Inr (q, r)" and q: "bi_ok q" "bi_sign q = 1"
      "mval (bi_mag q) = m div chunk" "unat (ToInt64 r) = m mod chunk"
      using chunk_division [OF less.prems(1)] less.prems(2) by (auto simp: m_def)
    have step: "print_chunks left (c # acc) = print_chunks q (ToInt64 r # c # acc)"
      using False D by (subst print_chunks.simps) simp
    have lt: "mval (bi_mag q) < mval (bi_mag left)" using m by (simp add: q(3) m_def [symmetric])
    have rc: "unat (ToInt64 r) < chunk" unfolding q(4) by simp
    from less.hyps [OF lt q(1,2) rc, of "c # acc"] obtain vals
      where V: "print_chunks q (ToInt64 r # c # acc) = Some vals"
        "chunk_text vals = nat_digits (m div chunk * chunk + m mod chunk) @ padded 19 (unat c) @ concat (map (\<lambda>v. padded 19 (unat v)) acc)"
      by (auto simp: q(3,4))
    have "nat_digits (m * chunk + unat c) = nat_digits m @ padded 19 (unat c)"
      using m less.prems(3) by (rule nat_digits_chunk)
    with V step show ?thesis by (simp add: m_def [symmetric])
  qed
qed

lemma PrintBig_spec:
  assumes "bi_ok b"
  shows "PrintBig b = Some (int_str (bi_val b))"
proof (cases "IsZero b")
  case True
  have "nat_digits 0 = ''0''" by (subst nat_digits.simps) (simp add: char_0)
  with True show ?thesis by (simp add: PrintBig_def IsZero_def bi_val_def int_str_def)
next
  case False
  define m where "m = mval (bi_mag b)"
  have m: "0 < m" using False normal_0_iff [OF bi_ok_normal [OF assms]] by (simp add: IsZero_def m_def)
  obtain q r where D: "Divide b maxUintTenPower = Inr (q, r)" and q: "bi_ok (positive_sign q)"
    "bi_sign (positive_sign q) = 1" "mval (bi_mag (positive_sign q)) = m div chunk"
    "unat (ToInt64 (positive_sign r)) = m mod chunk"
    using chunk_division [OF assms] by (auto simp: m_def)
  have "unat (ToInt64 (positive_sign r)) < chunk" unfolding q(4) by simp
  from print_chunks_spec [OF q(1,2) this, of "[]"] obtain vals
    where "print_chunks (positive_sign q) [ToInt64 (positive_sign r)] = Some vals" "chunk_text vals = nat_digits m"
    by (auto simp: q(3,4))
  then show ?thesis using False D m bi_ok_sign [OF assms]
    by (auto simp: PrintBig_def int_str_def bi_val_def m_def)
qed

section \<open>Reading is the decimal notation\<close>

text \<open>The number that the digits read so far add up to with the number already stored.\<close>

definition read_total :: "big_integer \<Rightarrow> 64 word \<Rightarrow> nat \<Rightarrow> int" where
  "read_total val part n = bi_val val * 10 ^ n + int (unat part)"

lemma Multiply_positive:
  assumes "bi_ok a" and "bi_ok b" and "bi_sign a = 1" and "bi_sign b = 1"
  shows "bi_ok (Multiply a b) \<and> bi_sign (Multiply a b) = 1 \<and> bi_val (Multiply a b) = bi_val a * bi_val b"
  using Multiply_spec [OF assms(1,2)] assms(3,4) by (simp add: bi_ok_def)

lemma sign_of_nonneg: "bi_ok b \<Longrightarrow> 0 \<le> bi_val b \<Longrightarrow> bi_sign b = 1"
  using normal_0_iff [of "bi_mag b"] by (auto simp: bi_ok_def bi_val_def)

lemma flush_part:
  assumes "bi_ok val" and "0 \<le> bi_val val"
  shows "bi_ok (AddUint64 (Multiply val (GetPowerOfTen (int n))) part)
    \<and> bi_val (AddUint64 (Multiply val (GetPowerOfTen (int n))) part) = read_total val part n"
proof -
  have P: "bi_ok (GetPowerOfTen (int n))" "bi_val (GetPowerOfTen (int n)) = 10 ^ n"
    using GetPowerOfTen_spec [of "int n"] by simp_all
  then have "bi_sign (GetPowerOfTen (int n)) = 1" by (intro sign_of_nonneg) simp_all
  then have M: "bi_ok (Multiply val (GetPowerOfTen (int n)))" "bi_val (Multiply val (GetPowerOfTen (int n))) = bi_val val * 10 ^ n"
    using Multiply_positive [OF assms(1) P(1)] sign_of_nonneg [OF assms] P(2) by simp_all
  show ?thesis using AddUint64_spec [OF M(1), of part] M(2) assms(2) by (simp add: read_total_def)
qed

lemma add_part_spec:
  assumes "bi_ok val" and "0 \<le> bi_val val" and "n = 0 \<longrightarrow> part = 0"
  shows "bi_ok (add_part val part n) \<and> bi_val (add_part val part n) = read_total val part n"
  using flush_part [OF assms(1,2), of n part] assms by (simp add: add_part_def read_total_def)

lemma digit_bounds: "isdigit c \<Longrightarrow> 0 \<le> digit_val c \<and> digit_val c \<le> 9"
  by (auto simp: isdigit_def digit_val_def)

lemma unat_digit_step:
  assumes "isdigit c" and "unat part < 1000000000000000000"
  shows "int (unat (part * 10 + word_of_int (digit_val c) :: 64 word)) = int (unat part) * 10 + digit_val c"
proof -
  define d where "d = nat (digit_val c)"
  have d: "digit_val c = int d" "d \<le> 9" using digit_bounds [OF assms(1)] unfolding d_def by arith+
  have e: "part * 10 + word_of_int (digit_val c) = word_of_nat (unat part * 10 + d)" by (simp add: d(1))
  have "unat part * 10 + d < 2 ^ LENGTH(64)" using assms(2) d(2) by simp
  then have "unat (word_of_nat (unat part * 10 + d) :: 64 word) = unat part * 10 + d" by (simp only: unat_of_nat mod_less)
  then show ?thesis unfolding e by (simp add: d(1) del: of_nat_unat)
qed

lemma read_digits_spec:
  "bi_ok val \<Longrightarrow> 0 \<le> bi_val val \<Longrightarrow> unat part < 1000000000000000000 \<Longrightarrow> n = 0 \<longrightarrow> part = 0 \<Longrightarrow>
   AllDigits ds \<Longrightarrow> rest = [] \<or> \<not> isdigit (hd rest) \<Longrightarrow>
   \<exists>val' part' n'. read_digits (ds @ rest) val part n = (val', part', n', rest)
     \<and> bi_ok val' \<and> 0 \<le> bi_val val' \<and> (n' = 0 \<longrightarrow> part' = 0)
     \<and> read_total val' part' n' = foldl (\<lambda>a c. 10 * a + digit_val c) (read_total val part n) ds"
proof (induction ds arbitrary: val part n)
  case Nil
  then show ?case by (cases rest) auto
next
  case (Cons c cs)
  define p where "p = part * 10 + word_of_int (digit_val c)"
  have c: "isdigit c" "AllDigits cs" using Cons.prems(5) by (simp_all add: AllDigits_iff)
  have p: "int (unat p) = int (unat part) * 10 + digit_val c"
    unfolding p_def using c(1) Cons.prems(3) by (rule unat_digit_step)
  have t: "read_total val p (Suc n) = 10 * read_total val part n + digit_val c"
    using p by (simp add: read_total_def algebra_simps del: of_nat_unat)
  show ?case
  proof (cases "1000000000000000000 \<le> p")
    case True
    define v where "v = AddUint64 (Multiply val (GetPowerOfTen (int (Suc n)))) p"
    have v: "bi_ok v" "bi_val v = read_total val p (Suc n)"
      using flush_part [OF Cons.prems(1,2), of "Suc n" p] by (simp_all only: v_def)
    have "0 \<le> bi_val v" using Cons.prems(2) by (simp add: v(2) read_total_def)
    moreover have "read_total v 0 0 = 10 * read_total val part n + digit_val c" 
      unfolding t [symmetric] v(2) [symmetric] by (simp add: read_total_def)
    moreover have "read_digits ((c # cs) @ rest) val part n = read_digits (cs @ rest) v 0 0"
      using c(1) True by (simp add: p_def v_def Let_def)
    ultimately show ?thesis using Cons.IH [OF v(1) _ _ _ c(2) Cons.prems(6), of 0 0] by simp
  next
    case False
    then have "unat p < 1000000000000000000" by (simp add: word_le_nat_alt)
    moreover have "read_digits ((c # cs) @ rest) val part n = read_digits (cs @ rest) val p (Suc n)"
      using c(1) False by (simp add: p_def Let_def)
    ultimately show ?thesis using Cons.IH [OF Cons.prems(1,2) _ _ c(2) Cons.prems(6), of p "Suc n"] t by simp
  qed
qed

text \<open>A number with an optional sign, after any spaces, is read up to the first character that is not a digit.\<close>

definition sign_text :: "string \<Rightarrow> int \<Rightarrow> bool" where
  "sign_text sg s \<longleftrightarrow> (sg = [] \<or> sg = ''+'') \<and> s = 1 \<or> sg = ''-'' \<and> s = - 1"

lemma digit_not_sign: "isdigit c \<Longrightarrow> c \<noteq> CHR ''-'' \<and> c \<noteq> CHR ''+'' \<and> \<not> isspace c"
  by (auto simp: isdigit_def isspace_def char_code_def)

lemma read_sign_digits:
  assumes "sign_text sg s" and "AllDigits ds" and "ds \<noteq> []"
  shows "read_sign (sg @ ds @ rest) = (s, ds @ rest)"
proof -
  obtain c cs where "ds = c # cs" using assms(3) by (cases ds) auto
  then show ?thesis using assms digit_not_sign [of c] by (auto simp: sign_text_def read_sign_def AllDigits_iff)
qed

lemma skip_spaces:
  assumes "list_all isspace sp" and "sign_text sg s" and "AllDigits ds" and "ds \<noteq> []"
  shows "dropWhile isspace (sp @ sg @ ds @ rest) = sg @ ds @ rest"
proof -
  obtain c cs where "ds = c # cs" using assms(4) by (cases ds) auto
  then have "dropWhile isspace (sg @ ds @ rest) = sg @ ds @ rest"
    using assms(2,3) digit_not_sign [of c] by (auto simp: sign_text_def AllDigits_iff isspace_def char_code_def)
  then show ?thesis using assms(1) by (simp add: dropWhile_append list_all_iff)
qed

lemma ReadBig_spec:
  assumes "list_all isspace sp" and "sign_text sg s" and "AllDigits ds" and "ds \<noteq> []"
    and "rest = [] \<or> \<not> isdigit (hd rest)"
  shows "\<exists>b. ReadBig (sp @ sg @ ds @ rest) = (b, rest) \<and> bi_ok b \<and> bi_val b = s * dec_val ds"
proof -
  have z: "bi_ok (AssignInt64 0)" "0 \<le> bi_val (AssignInt64 0)" using zero_number by simp_all
  obtain val part n where R: "read_digits (ds @ rest) (AssignInt64 0) 0 0 = (val, part, n, rest)"
    "bi_ok val" "0 \<le> bi_val val" "n = 0 \<longrightarrow> part = 0" "read_total val part n = dec_val ds"
    using read_digits_spec [OF z _ _ assms(3,5), of 0 0] by (auto simp: read_total_def zero_number dec_val_def)
  define b where "b = add_part val part n"
  have b: "bi_ok b" "bi_val b = dec_val ds" using add_part_spec [OF R(2-4)] R(5) by (simp_all add: b_def)
  then have "bi_sign b = 1" using dec_val_nonneg [OF assms(3)] by (intro sign_of_nonneg) simp_all
  with b have "bi_ok (Negate b)" "bi_val (Negate b) = - dec_val ds"
    by (auto simp: Negate_def IsZero_def bi_ok_def bi_val_def)
  moreover have "ReadBig (sp @ sg @ ds @ rest) = (if s < 0 then Negate b else b, rest)"
    using skip_spaces [OF assms(1-4)] read_sign_digits [OF assms(2-4)] R(1) assms(4)
    by (simp add: ReadBig_def b_def Let_def)
  ultimately show ?thesis using b assms(2) by (auto simp: sign_text_def)
qed

text \<open>The text of a number is its decimal notation, and reading it gives the number back.\<close>

lemma BigAssignString_int_str: "bi_ok (BigAssignString (int_str v)) \<and> bi_val (BigAssignString (int_str v)) = v"
proof (cases "v < 0")
  case True
  then show ?thesis
    using ReadBig_spec [of "[]" "''-''" "- 1" "nat_digits (nat (- v))" "[]"] nat_digits_AllDigits [of "nat (- v)"]
    by (auto simp: BigAssignString_def int_str_def sign_text_def dec_val_nat_digits)
next
  case False
  then show ?thesis
    using ReadBig_spec [of "[]" "[]" 1 "nat_digits (nat v)" "[]"] nat_digits_AllDigits [of "nat v"]
    by (auto simp: BigAssignString_def int_str_def sign_text_def dec_val_nat_digits)
qed

end
