(* ===== verification/Decimal.thy ===== *)
theory Decimal
  imports Big_Text Complex_Main
begin

text \<open>
  Decimal numbers (\<^verbatim>\<open>src/ignite/common/src/common/decimal.cpp\<close> and its header): a big integer and a scale, the
  number of digits after the point. The operations are rescaling, comparison, conversion and the two
  stream operators. A decimal is proved to stand for the same number after it is written and read
  back, and the comparison to be the one of the numbers. The conversion to and from binary floating
  point goes through text of the C++ library and is not modelled.
\<close>

section \<open>The numbers\<close>

record decimal =
  dec_scale :: int
  dec_mag :: big_integer

definition DecimalZero :: decimal where
  "DecimalZero = \<lparr>dec_scale = 0, dec_mag = AssignInt64 0\<rparr>"

definition DecimalFromInt64 :: "64 word \<Rightarrow> int \<Rightarrow> decimal" where
  "DecimalFromInt64 val scale = \<lparr>dec_scale = scale, dec_mag = AssignInt64 val\<rparr>"

definition DecimalFromBig :: "big_integer \<Rightarrow> int \<Rightarrow> decimal" where
  "DecimalFromBig val scale = \<lparr>dec_scale = scale, dec_mag = val\<rparr>"

text \<open>The mask clears the sign bit of the scale.\<close>

definition DecimalFromBytes :: "8 word list \<Rightarrow> int \<Rightarrow> int \<Rightarrow> bool \<Rightarrow> decimal" where
  "DecimalFromBytes bytes scale sign bigEndian =
     \<lparr>dec_scale = scale mod 2 ^ 31, dec_mag = BigFromBytes bytes sign bigEndian\<rparr>"

definition DecimalAssignInt64 :: "64 word \<Rightarrow> decimal" where
  "DecimalAssignInt64 val = \<lparr>dec_scale = 0, dec_mag = AssignInt64 val\<rparr>"

definition DecimalAssignUint64 :: "64 word \<Rightarrow> decimal" where
  "DecimalAssignUint64 val = \<lparr>dec_scale = 0, dec_mag = AssignUint64 val\<rparr>"

definition DecimalSwap :: "decimal \<times> decimal \<Rightarrow> decimal \<times> decimal" where
  "DecimalSwap = (\<lambda>(a, b). (b, a))"

definition DecimalGetPrecision :: "decimal \<Rightarrow> int" where
  "DecimalGetPrecision d = GetPrecision (dec_mag d)"

definition DecimalGetMagnitudeLength :: "decimal \<Rightarrow> nat" where
  "DecimalGetMagnitudeLength d = length (bi_mag (dec_mag d))"

definition DecimalIsNegative :: "decimal \<Rightarrow> bool" where
  "DecimalIsNegative d = IsNegative (dec_mag d)"

definition DecimalIsZero :: "decimal \<Rightarrow> bool" where
  "DecimalIsZero d = IsZero (dec_mag d)"

definition DecimalIsPositive :: "decimal \<Rightarrow> bool" where
  "DecimalIsPositive d = IsPositive (dec_mag d)"

section \<open>Rescaling and comparison\<close>

text \<open>\<open>res\<close> is the number the result is written over: it is left alone when the scale is already the new one.\<close>

definition SetScale :: "decimal \<Rightarrow> int \<Rightarrow> decimal \<Rightarrow> divide_error + decimal" where
  "SetScale d newScale res =
     (if dec_scale d = newScale then Inr res
      else
        let diff = to_int32 (dec_scale d - newScale)
        in if 0 < diff
           then map_sum id (\<lambda>m. \<lparr>dec_scale = newScale, dec_mag = m\<rparr>) (DivideQuotient (dec_mag d) (GetPowerOfTen diff))
           else Inr \<lparr>dec_scale = newScale, dec_mag = Multiply (dec_mag d) (GetPowerOfTen (- diff))\<rparr>)"

definition DecimalToInt64 :: "decimal \<Rightarrow> divide_error + 64 word" where
  "DecimalToInt64 d =
     (if dec_scale d = 0 then Inr (ToInt64 (dec_mag d))
      else map_sum id (\<lambda>z. ToInt64 (dec_mag z)) (SetScale d 0 DecimalZero))"

definition DecimalCompare :: "decimal \<Rightarrow> decimal \<Rightarrow> divide_error + int" where
  "DecimalCompare a b =
     (if DecimalIsZero a \<and> DecimalIsZero b then Inr 0
      else if dec_scale a = dec_scale b then Inr (Compare (dec_mag a) (dec_mag b) False)
      else if dec_scale b < dec_scale a then
        map_sum id (\<lambda>z. Compare (dec_mag a) (dec_mag z) False) (SetScale b (dec_scale a) DecimalZero)
      else
        map_sum id (\<lambda>z. Compare (dec_mag z) (dec_mag b) False) (SetScale a (dec_scale b) DecimalZero))"

definition DecimalTest :: "(int \<Rightarrow> bool) \<Rightarrow> decimal \<Rightarrow> decimal \<Rightarrow> divide_error + bool" where
  "DecimalTest P a b = map_sum id P (DecimalCompare a b)"

definition DecimalEq :: "decimal \<Rightarrow> decimal \<Rightarrow> divide_error + bool" where
  "DecimalEq = DecimalTest (\<lambda>c. c = 0)"

definition DecimalNeq :: "decimal \<Rightarrow> decimal \<Rightarrow> divide_error + bool" where
  "DecimalNeq = DecimalTest (\<lambda>c. c \<noteq> 0)"

definition DecimalLess :: "decimal \<Rightarrow> decimal \<Rightarrow> divide_error + bool" where
  "DecimalLess = DecimalTest (\<lambda>c. c < 0)"

definition DecimalLessEq :: "decimal \<Rightarrow> decimal \<Rightarrow> divide_error + bool" where
  "DecimalLessEq = DecimalTest (\<lambda>c. c \<le> 0)"

definition DecimalGreater :: "decimal \<Rightarrow> decimal \<Rightarrow> divide_error + bool" where
  "DecimalGreater = DecimalTest (\<lambda>c. 0 < c)"

definition DecimalGreaterEq :: "decimal \<Rightarrow> decimal \<Rightarrow> divide_error + bool" where
  "DecimalGreaterEq = DecimalTest (\<lambda>c. 0 \<le> c)"

section \<open>Text\<close>

text \<open>The digits of the magnitude with a point \<open>dotPos\<close> digits from the left; zeros at the end of the fraction are
  left out, and zeros are put in front of a fraction that is shorter than the scale.\<close>

definition place_point :: "string \<Rightarrow> int \<Rightarrow> string" where
  "place_point digits scale =
     (let used = length (rev (dropWhile (\<lambda>c. c = CHR ''0'') (rev digits)));
          dotPos = int (length digits) - scale
      in if dotPos \<le> 0 then ''0.'' @ replicate (nat (- dotPos)) (CHR ''0'') @ take used digits
         else
           let afterDot = int used - dotPos
           in take (nat dotPos) digits
              @ (if 0 < afterDot then ''.'' @ take (nat afterDot) (drop (nat dotPos) digits) else []))"

definition PrintDecimal :: "decimal \<Rightarrow> string option" where
  "PrintDecimal val =
     (if bi_mag (dec_mag val) = [] then Some ''0''
      else
        map_option (\<lambda>magStr.
          if dec_scale val \<le> 0 then magStr @ replicate (nat (- dec_scale val)) (CHR ''0'')
          else case magStr of
            CHR ''-'' # digits \<Rightarrow> ''-'' @ place_point digits (dec_scale val)
          | digits \<Rightarrow> place_point digits (dec_scale val))
        (PrintBig (dec_mag val)))"

text \<open>The digits of the text, with at most one point among them; the scale is negative until the point.\<close>

fun read_decimal :: "string \<Rightarrow> big_integer \<Rightarrow> 64 word \<Rightarrow> nat \<Rightarrow> int \<Rightarrow> big_integer \<times> 64 word \<times> nat \<times> int \<times> string" where
  "read_decimal [] mag part partDigits scale = (mag, part, partDigits, scale, [])"
| "read_decimal (c # cs) mag part partDigits scale =
     (if isdigit c \<or> c = CHR ''.'' \<and> scale < 0 then
        let (part, partDigits, scale) =
              (if isdigit c then (part * 10 + word_of_int (digit_val c), partDigits + 1, scale)
               else (part, partDigits, 0));
            scale' = (if 0 \<le> scale then scale + 1 else scale)
        in if 1000000000000000000 \<le> part
           then read_decimal cs (AddUint64 (Multiply mag (GetPowerOfTen (int partDigits))) part) 0 0 scale'
           else read_decimal cs mag part partDigits scale'
      else (mag, part, partDigits, scale, c # cs))"

text \<open>Extraction of an \<^verbatim>\<open>int32_t\<close>: a number out of range is replaced by the nearest bound, and none by zero.\<close>

definition read_int32 :: "string \<Rightarrow> int" where
  "read_int32 s =
     (let (sign, s) = read_sign (dropWhile isspace s);
          v = sign * dec_val (takeWhile isdigit s)
      in max (- (2 ^ 31)) (min (2 ^ 31 - 1) v))"

definition ReadDecimal :: "string \<Rightarrow> decimal" where
  "ReadDecimal s =
     (let s = dropWhile isspace s
      in if s = [] then DecimalAssignInt64 0
         else
           let (sign, s) = read_sign s;
               (mag, part, partDigits, scale, rest) = read_decimal s (AssignInt64 0) 0 0 (- 1);
               mag = add_part mag part partDigits;
               scale = (if scale < 0 then 0 else scale - 1);
               scale = (if rest \<noteq> [] \<and> (hd rest = CHR ''e'' \<or> hd rest = CHR ''E'')
                        then to_int32 (scale - read_int32 (tl rest)) else scale)
           in \<lparr>dec_scale = scale, dec_mag = (if sign < 0 then Negate mag else mag)\<rparr>)"

definition DecimalAssignString :: "string \<Rightarrow> decimal" where
  "DecimalAssignString s = ReadDecimal s"

section \<open>The rational a decimal stands for\<close>

definition scale_factor :: "int \<Rightarrow> rat" where
  "scale_factor s = (if 0 \<le> s then 1 / 10 ^ nat s else 10 ^ nat (- s))"

definition dec_value :: "decimal \<Rightarrow> rat" where
  "dec_value d = of_int (bi_val (dec_mag d)) * scale_factor (dec_scale d)"

definition dec_ok :: "decimal \<Rightarrow> bool" where
  "dec_ok d \<longleftrightarrow> bi_ok (dec_mag d) \<and> - (2 ^ 30) \<le> dec_scale d \<and> dec_scale d < 2 ^ 30"

lemma scale_factor_diff: "0 \<le> k \<Longrightarrow> scale_factor s = 10 ^ nat k * scale_factor (s + k)"
proof -
  assume k: "0 \<le> k"
  consider "0 \<le> s" | "s < 0" "0 \<le> s + k" | "s + k < 0" by linarith
  then show ?thesis
  proof cases
    case 1
    then show ?thesis using k by (simp add: scale_factor_def nat_add_distrib power_add)
  next
    case 2
    then have "nat k = nat (- s) + nat (s + k)" by simp
    then show ?thesis using 2 by (simp add: scale_factor_def power_add)
  next
    case 3
    then have "nat (- s) = nat k + nat (- s - k)" using k by simp
    then show ?thesis using 3 k by (simp add: scale_factor_def power_add)
  qed
qed

lemma scale_factor_pos: "0 < scale_factor s"
  by (simp add: scale_factor_def)

lemma power_of_ten_pos: "0 \<le> n \<Longrightarrow> bi_ok (GetPowerOfTen n) \<and> bi_sign (GetPowerOfTen n) = 1"
  using GetPowerOfTen_spec [of n] by (auto intro: sign_of_nonneg)

lemma Multiply_power_of_ten:
  assumes "bi_ok m" and "0 \<le> n"
  shows "bi_ok (Multiply m (GetPowerOfTen n)) \<and> bi_val (Multiply m (GetPowerOfTen n)) = bi_val m * 10 ^ nat n"
proof -
  note P = power_of_ten_pos [OF assms(2)] and V = GetPowerOfTen_spec [OF assms(2)]
  show ?thesis
  proof (cases "bi_val m = 0")
    case True
    then have "bi_sign m = 1" using assms(1) by (intro sign_of_nonneg) simp_all
    then show ?thesis using Multiply_positive [OF assms(1), of "GetPowerOfTen n"] P V by simp
  qed (use Multiply_spec [OF assms(1), of "GetPowerOfTen n"] P V in simp)
qed

text \<open>Rescaling to more digits after the point is exact.\<close>

lemma SetScale_up:
  assumes "dec_ok d" and "dec_scale d < s" and "s < 2 ^ 30"
  shows "\<exists>d'. SetScale d s res = Inr d' \<and> bi_ok (dec_mag d') \<and> dec_scale d' = s \<and> dec_value d' = dec_value d"
proof -
  have "to_int32 (dec_scale d - s) = dec_scale d - s" using assms by (intro to_int32_id) (simp_all add: dec_ok_def)
  then have e: "SetScale d s res = Inr \<lparr>dec_scale = s, dec_mag = Multiply (dec_mag d) (GetPowerOfTen (s - dec_scale d))\<rparr>"
    using assms(2) by (simp add: SetScale_def)
  have "dec_value d = of_int (bi_val (dec_mag d)) * 10 ^ nat (s - dec_scale d) * scale_factor s"
    using scale_factor_diff [of "s - dec_scale d" "dec_scale d"] assms(2) by (simp add: dec_value_def)
  with e show ?thesis
    using Multiply_power_of_ten [of "dec_mag d" "s - dec_scale d"] assms(1,2) by (auto simp: dec_value_def dec_ok_def)
qed

lemma sgn_of_int_diff:
  fixes f :: rat
  assumes "0 < f"
  shows "of_int (sgn (x - y)) = sgn (of_int x * f - of_int y * f)"
proof -
  have "of_int x * f - of_int y * f = of_int (x - y) * f" by (simp add: left_diff_distrib)
  moreover have "sgn (of_int (x - y) * f) = sgn (of_int (x - y) :: rat) * sgn f" by (rule sgn_mult)
  moreover have "sgn f = 1" using assms by simp
  moreover have "sgn (of_int k :: rat) = of_int (sgn k)" for k by (simp add: sgn_if)
  ultimately show ?thesis by (simp only: mult_1_right)
qed

lemma DecimalCompare_spec:
  assumes "dec_ok a" and "dec_ok b"
  shows "\<exists>c. DecimalCompare a b = Inr c \<and> of_int c = sgn (dec_value a - dec_value b)"
proof -
  have ok: "bi_ok (dec_mag a)" "bi_ok (dec_mag b)" using assms by (simp_all add: dec_ok_def)
  have cmp: "of_int (Compare (dec_mag u) (dec_mag v) False) = sgn (dec_value u - dec_value v)"
    if "bi_ok (dec_mag u)" "bi_ok (dec_mag v)" "dec_scale u = dec_scale v" for u v
    using that scale_factor_pos [of "dec_scale v"] by (simp add: Compare_spec sgn_of_int_diff dec_value_def)
  consider "DecimalIsZero a \<and> DecimalIsZero b" | "\<not> (DecimalIsZero a \<and> DecimalIsZero b)" "dec_scale a = dec_scale b"
    | "\<not> (DecimalIsZero a \<and> DecimalIsZero b)" "dec_scale b < dec_scale a"
    | "\<not> (DecimalIsZero a \<and> DecimalIsZero b)" "dec_scale a < dec_scale b" by linarith
  then show ?thesis
  proof cases
    case 1
    then show ?thesis by (simp add: DecimalCompare_def DecimalIsZero_def IsZero_def dec_value_def bi_val_def)
  next
    case 2
    then show ?thesis using 2 cmp [OF ok] by (auto simp: DecimalCompare_def)
  next
    case 3
    then obtain z where "SetScale b (dec_scale a) DecimalZero = Inr z" "bi_ok (dec_mag z)"
      "dec_scale z = dec_scale a" "dec_value z = dec_value b"
      using SetScale_up [OF assms(2)] assms(1) by (force simp: dec_ok_def)
    then show ?thesis using 3 cmp [OF ok(1), of z] by (auto simp: DecimalCompare_def)
  next
    case 4
    then obtain z where "SetScale a (dec_scale b) DecimalZero = Inr z" "bi_ok (dec_mag z)"
      "dec_scale z = dec_scale b" "dec_value z = dec_value a"
      using SetScale_up [OF assms(1)] assms(2) by (force simp: dec_ok_def)
    then show ?thesis using 4 cmp [OF _ ok(2), of z] by (auto simp: DecimalCompare_def)
  qed
qed

section \<open>Reading back what was written\<close>

lemma read_decimal_spec:
  "bi_ok mag \<Longrightarrow> 0 \<le> bi_val mag \<Longrightarrow> unat part < 1000000000000000000 \<Longrightarrow> n = 0 \<longrightarrow> part = 0 \<Longrightarrow>
   AllDigits ds \<Longrightarrow>
   \<exists>mag' part' n'. read_decimal (ds @ rest) mag part n scale
       = read_decimal rest mag' part' n' (if 0 \<le> scale then scale + int (length ds) else scale)
     \<and> bi_ok mag' \<and> 0 \<le> bi_val mag' \<and> unat part' < 1000000000000000000 \<and> (n' = 0 \<longrightarrow> part' = 0)
     \<and> read_total mag' part' n' = foldl (\<lambda>a c. 10 * a + digit_val c) (read_total mag part n) ds"
proof (induction ds arbitrary: mag part n scale)
  case Nil
  then show ?case by fastforce
next
  case (Cons c cs)
  define p where "p = part * 10 + word_of_int (digit_val c)"
  define sc where "sc = (if 0 \<le> scale then scale + 1 else scale)"
  have sc: "(if 0 \<le> sc then sc + int (length cs) else sc) = (if 0 \<le> scale then scale + int (length (c # cs)) else scale)"
    by (simp add: sc_def)
  have c: "isdigit c" "AllDigits cs" using Cons.prems(5) by (simp_all add: AllDigits_iff)
  have p: "int (unat p) = int (unat part) * 10 + digit_val c"
    unfolding p_def using c(1) Cons.prems(3) by (rule unat_digit_step)
  have t: "read_total mag p (Suc n) = 10 * read_total mag part n + digit_val c"
    using p by (simp add: read_total_def algebra_simps del: of_nat_unat)
  show ?case
  proof (cases "1000000000000000000 \<le> p")
    case True
    define v where "v = AddUint64 (Multiply mag (GetPowerOfTen (int (Suc n)))) p"
    have v: "bi_ok v" "bi_val v = read_total mag p (Suc n)"
      using flush_part [OF Cons.prems(1,2), of "Suc n" p] by (simp_all only: v_def)
    have "0 \<le> bi_val v" using Cons.prems(2) by (simp add: v(2) read_total_def)
    moreover have "read_total v 0 0 = 10 * read_total mag part n + digit_val c"
      unfolding t [symmetric] v(2) [symmetric] by (simp add: read_total_def)
    moreover have "read_decimal ((c # cs) @ rest) mag part n scale = read_decimal (cs @ rest) v 0 0 sc"
      using c(1) True by (simp add: p_def v_def sc_def Let_def)
    ultimately show ?thesis using Cons.IH [OF v(1) _ _ _ c(2), of 0 0 sc] unfolding sc by simp
  next
    case False
    then have "unat p < 1000000000000000000" by (simp add: word_le_nat_alt)
    moreover have "read_decimal ((c # cs) @ rest) mag part n scale = read_decimal (cs @ rest) mag p (Suc n) sc"
      using c(1) False by (simp add: p_def sc_def Let_def)
    ultimately show ?thesis using Cons.IH [OF Cons.prems(1,2) _ _ c(2), of p "Suc n" sc] t unfolding sc by simp
  qed
qed

lemma dec_val_append_foldl: "foldl (\<lambda>a c. 10 * a + digit_val c) (dec_val s) t = dec_val (s @ t)"
  by (simp add: dec_val_def)

text \<open>A text of digits, alone or with a point and more digits.\<close>

lemma ReadDecimal_digits:
  assumes "sign_text sg s" and "AllDigits ds" and "ds \<noteq> []" and "AllDigits fs"
    and "t = ds \<and> fs = [] \<or> t = ds @ ''.'' @ fs"
  shows "\<exists>m. ReadDecimal (sg @ t) = \<lparr>dec_scale = int (length fs), dec_mag = m\<rparr>
    \<and> bi_ok m \<and> bi_val m = s * dec_val (ds @ fs)"
proof -
  have z: "bi_ok (AssignInt64 0)" "0 \<le> bi_val (AssignInt64 0)" using zero_number by simp_all
  define after where "after = drop (length ds) t"
  have t: "t = ds @ after" and a: "after = [] \<and> fs = [] \<or> after = ''.'' @ fs" using assms(5) by (auto simp: after_def)
  obtain m1 p1 n1 where R: "read_decimal t (AssignInt64 0) 0 0 (- 1) = read_decimal after m1 p1 n1 (- 1)"
    "bi_ok m1" "0 \<le> bi_val m1" "unat p1 < 1000000000000000000" "n1 = 0 \<longrightarrow> p1 = 0"
    "read_total m1 p1 n1 = dec_val ds"
    using read_decimal_spec [OF z _ _ assms(2), where part = 0 and n = 0 and scale = "- 1" and rest = after] unfolding t
    by (auto simp: read_total_def zero_number dec_val_def)
  obtain m2 p2 n2 sc where R2: "read_decimal after m1 p1 n1 (- 1) = (m2, p2, n2, sc, [])"
    "bi_ok m2" "0 \<le> bi_val m2" "n2 = 0 \<longrightarrow> p2 = 0" "read_total m2 p2 n2 = dec_val (ds @ fs)"
    "(if sc < 0 then 0 else sc - 1) = int (length fs)"
  proof (cases "after = []")
    case True
    then show ?thesis using a R that [of m1 p1 n1 "- 1"] by simp
  next
    case False
    then have e: "after = CHR ''.'' # fs" using a by simp
    have "\<not> isdigit CHR ''.''" by (simp add: isdigit_def char_code_def)
    moreover have "\<not> 1000000000000000000 \<le> p1" using R(4) by (simp add: word_le_nat_alt)
    ultimately have s: "read_decimal after m1 p1 n1 (- 1) = read_decimal (fs @ []) m1 p1 n1 1" by (simp add: e)
    show ?thesis using read_decimal_spec [OF R(2-5) assms(4), where scale = 1 and rest = "[]"] that
      unfolding s R(6) dec_val_append_foldl by auto
  qed
  define b where "b = add_part m2 p2 n2"
  have b: "bi_ok b" "bi_val b = dec_val (ds @ fs)" using add_part_spec [OF R2(2-4)] R2(5) by (simp_all add: b_def)
  have "0 \<le> dec_val (ds @ fs)" using assms(2,4) by (intro dec_val_nonneg) (auto simp: AllDigits_iff)
  then have "bi_sign b = 1" using b by (intro sign_of_nonneg) simp_all
  with b have nb: "bi_ok (Negate b)" "bi_val (Negate b) = - dec_val (ds @ fs)"
    by (auto simp: Negate_def IsZero_def bi_ok_def bi_val_def)
  have sp: "dropWhile isspace (sg @ t) = sg @ t" "sg @ t \<noteq> []" "read_sign (sg @ t) = (s, t)"
    using skip_spaces [of "[]" sg s ds after] read_sign_digits [of sg s ds after] assms(1-3) by (simp_all add: t)
  have "ReadDecimal (sg @ t) = \<lparr>dec_scale = int (length fs), dec_mag = (if s < 0 then Negate b else b)\<rparr>"
    unfolding ReadDecimal_def Let_def sp using sp(2) R(1) R2(1) R2(6) by (auto simp: sp(3) b_def [symmetric])
  then show ?thesis using nb b assms(1) by (auto simp: sign_text_def)
qed

lemma dec_val_zeros_back: "dec_val (s @ replicate k (CHR ''0'')) = dec_val s * 10 ^ k"
proof (induction k)
  case (Suc k)
  have "s @ replicate (Suc k) (CHR ''0'') = (s @ replicate k (CHR ''0'')) @ [CHR ''0'']"
    by (simp add: replicate_append_same)
  then show ?case using Suc by (simp only: dec_val_snoc) (simp add: digit_val_def char_code_def)
qed simp

lemma dec_val_zeros_front: "dec_val (replicate k (CHR ''0'') @ s) = dec_val s"
  by (induction k) (simp_all add: dec_val_def digit_val_def char_code_def)

text \<open>The digits that are not zeros at the end.\<close>

definition used_digits :: "string \<Rightarrow> nat" where
  "used_digits ds = length (rev (dropWhile (\<lambda>c. c = CHR ''0'') (rev ds)))"

lemma used_digits_split:
  assumes "used_digits ds \<le> j" and "j \<le> length ds"
  shows "dec_val ds = dec_val (take j ds) * 10 ^ (length ds - j)"
proof -
  have "ds = rev (dropWhile (\<lambda>c. c = CHR ''0'') (rev ds)) @ rev (takeWhile (\<lambda>c. c = CHR ''0'') (rev ds))"
    by (metis rev_append rev_rev_ident takeWhile_dropWhile_id)
  moreover have "\<forall>c \<in> set (rev (takeWhile (\<lambda>c. c = CHR ''0'') (rev ds))). c = CHR ''0''"
    by (auto dest: set_takeWhileD)
  ultimately have "\<forall>c \<in> set (drop (used_digits ds) ds). c = CHR ''0''"
    unfolding used_digits_def by (metis append_eq_conv_conj)
  moreover have "set (drop j ds) \<subseteq> set (drop (used_digits ds) ds)" using assms(1) by (rule set_drop_subset_set_drop)
  ultimately have "drop j ds = replicate (length ds - j) (CHR ''0'')"
    by (metis length_drop replicate_length_same subset_code(1))
  then have "ds = take j ds @ replicate (length ds - j) (CHR ''0'')" by (metis append_take_drop_id)
  then show ?thesis by (metis dec_val_zeros_back)
qed

lemma used_digits_le: "used_digits ds \<le> length ds"
  using length_dropWhile_le [of "\<lambda>c. c = CHR ''0''" "rev ds"] by (simp add: used_digits_def)

lemma place_point_spec:
  assumes "AllDigits ds" and "0 < scale"
  shows "\<exists>is fs. (place_point ds scale = is \<and> fs = [] \<or> place_point ds scale = is @ ''.'' @ fs)
    \<and> is \<noteq> [] \<and> AllDigits is \<and> AllDigits fs
    \<and> of_int (dec_val (is @ fs)) * scale_factor (int (length fs)) = of_int (dec_val ds) * scale_factor scale"
proof -
  define L n dotPos where "L = used_digits ds" and "n = length ds" and "dotPos = int n - scale"
  have L: "L \<le> n" using used_digits_le by (simp add: L_def n_def)
  have all: "\<forall>c \<in> set ds. isdigit c" using assms(1) by (simp add: AllDigits_iff)
  have zero: "isdigit CHR ''0''" by (simp add: isdigit_def char_code_def)
  have val: "of_int (dec_val (take j ds)) * scale_factor (scale - int (n - j)) = of_int (dec_val ds) * scale_factor scale"
    if "L \<le> j" "j \<le> n" for j
    using used_digits_split [of ds j] scale_factor_diff [of "int (n - j)" "scale - int (n - j)"] that
    by (simp add: L_def n_def)
  have sub: "set (take i xs) \<subseteq> set xs" "set (drop i xs) \<subseteq> set xs" for i and xs :: string
    by (rule set_take_subset, rule set_drop_subset)
  have P: "place_point ds scale = (if dotPos \<le> 0 then ''0.'' @ replicate (nat (- dotPos)) (CHR ''0'') @ take L ds
      else take (nat dotPos) ds
        @ (if 0 < int L - dotPos then ''.'' @ take (nat (int L - dotPos)) (drop (nat dotPos) ds) else []))"
    by (simp add: place_point_def L_def used_digits_def dotPos_def n_def Let_def)
  consider "dotPos \<le> 0" | "0 < dotPos" "int L \<le> dotPos" | "0 < dotPos" "dotPos < int L" by linarith
  then show ?thesis
  proof cases
    case 1
    define fs where "fs = replicate (nat (- dotPos)) (CHR ''0'') @ take L ds"
    have "AllDigits fs" using all zero sub(1) [of L ds] by (auto simp: fs_def AllDigits_iff)
    moreover have "dec_val (''0'' @ fs) = dec_val (take L ds)"
      using dec_val_zeros_front [of "Suc (nat (- dotPos))" "take L ds"] by (simp add: fs_def)
    moreover have "int (length fs) = scale - int (n - L)" using 1 L by (simp add: fs_def dotPos_def n_def)
    ultimately show ?thesis using 1 val [of L] L zero
      by (intro exI [of _ "''0''"] exI [of _ fs]) (auto simp: P fs_def AllDigits_iff)
  next
    case 2
    define j where "j = nat dotPos"
    have j: "L \<le> j" "j \<le> n" "scale - int (n - j) = 0" "0 < j" using 2 assms(2) by (auto simp: j_def dotPos_def)
    have "take j ds \<noteq> []" using j(2,4) by (auto simp: n_def)
    moreover have "place_point ds scale = take j ds" using 2 by (simp add: P j_def)
    moreover have "of_int (dec_val (take j ds)) * scale_factor 0 = of_int (dec_val ds) * scale_factor scale"
      using val [OF j(1,2)] unfolding j(3) .
    moreover have "AllDigits (take j ds)" using all sub(1) [of j ds] by (auto simp: AllDigits_iff)
    ultimately show ?thesis
      by (intro exI [of _ "take j ds"] exI [of _ "[]"]) (simp add: AllDigits_iff)
  next
    case 3
    define j where "j = nat dotPos"
    have j: "j < L" "0 < j" "int (L - j) = scale - int (n - L)" using 3 L by (auto simp: j_def dotPos_def)
    have nj: "nat (int L - dotPos) = L - j" using 3 by (simp add: j_def nat_diff_distrib)
    have t: "take j ds @ take (L - j) (drop j ds) = take L ds"
      using j(1) by (metis add_diff_inverse_nat less_imp_not_less take_add)
    have ne: "take j ds \<noteq> []" using j L by (auto simp: n_def)
    have l: "length (take (L - j) (drop j ds)) = L - j" using j(1) L by (simp add: n_def)
    have "place_point ds scale = take j ds @ ''.'' @ take (L - j) (drop j ds)"
      using 3 by (simp add: P nj j_def [symmetric])
    moreover have "of_int (dec_val (take L ds)) * scale_factor (int (L - j)) = of_int (dec_val ds) * scale_factor scale"
      using val [of L] L unfolding j(3) by simp
    moreover have "AllDigits (take j ds)" "AllDigits (take (L - j) (drop j ds))"
      using all sub by (auto simp: AllDigits_iff dest!: subsetD [OF sub(1)] subsetD [OF sub(2)])
    ultimately show ?thesis using ne
      by (intro exI [of _ "take j ds"] exI [of _ "take (L - j) (drop j ds)"]) (simp add: t l del: length_take length_drop)
  qed
qed

text \<open>The sign and the digits of a number that is not zero.\<close>

definition sign_of :: "int \<Rightarrow> string" where
  "sign_of v = (if v < 0 then ''-'' else [])"

lemma int_str_split: "int_str v = sign_of v @ nat_digits (nat \<bar>v\<bar>)"
  by (simp add: int_str_def sign_of_def)

lemma sign_of_text: "v \<noteq> 0 \<Longrightarrow> sign_text (sign_of v) (sgn v)"
  by (auto simp: sign_text_def sign_of_def sgn_if)

lemma nat_digits_hd: "nat_digits n = c # cs \<Longrightarrow> isdigit c"
  using nat_digits_AllDigits [of n] by (simp add: AllDigits_iff)

lemma PrintDecimal_split:
  assumes "bi_ok (dec_mag d)" and "bi_val (dec_mag d) \<noteq> 0"
  defines "v \<equiv> bi_val (dec_mag d)"
  shows "PrintDecimal d = Some (sign_of v @
    (if dec_scale d \<le> 0 then nat_digits (nat \<bar>v\<bar>) @ replicate (nat (- dec_scale d)) (CHR ''0'')
     else place_point (nat_digits (nat \<bar>v\<bar>)) (dec_scale d)))"
proof -
  have "bi_mag (dec_mag d) \<noteq> []" using assms(2) by (auto simp: bi_val_def)
  then have P: "PrintDecimal d = Some (if dec_scale d \<le> 0 then int_str v @ replicate (nat (- dec_scale d)) (CHR ''0'')
      else case int_str v of CHR ''-'' # digits \<Rightarrow> ''-'' @ place_point digits (dec_scale d)
           | digits \<Rightarrow> place_point digits (dec_scale d))"
    using PrintBig_spec [OF assms(1)] by (simp add: PrintDecimal_def v_def)
  obtain c cs where c: "nat_digits (nat \<bar>v\<bar>) = c # cs" by (meson list.exhaust nat_digits_ne)
  then have "c \<noteq> CHR ''-''" using nat_digits_hd digit_not_sign by blast
  then have "(case int_str v of CHR ''-'' # digits \<Rightarrow> ''-'' @ place_point digits (dec_scale d)
           | digits \<Rightarrow> place_point digits (dec_scale d)) = sign_of v @ place_point (nat_digits (nat \<bar>v\<bar>)) (dec_scale d)"
    using c unfolding int_str_split by (cases "v < 0") (auto simp: sign_of_def split: char.splits bool.splits)
  with P show ?thesis by (simp add: int_str_split)
qed

lemma decimal_round_trip:
  assumes "bi_ok (dec_mag d)"
  shows "\<exists>s. PrintDecimal d = Some s \<and> bi_ok (dec_mag (ReadDecimal s)) \<and> dec_value (ReadDecimal s) = dec_value d"
proof (cases "bi_val (dec_mag d) = 0")
  case True
  then have "bi_mag (dec_mag d) = []"
    using normal_0_iff [OF bi_ok_normal [OF assms]] bi_ok_sign [OF assms] by (auto simp: bi_val_def)
  moreover have "AllDigits ''0''" by (simp add: AllDigits_iff isdigit_def char_code_def)
  then obtain m where "ReadDecimal ''0'' = \<lparr>dec_scale = 0, dec_mag = m\<rparr>" "bi_ok m" "bi_val m = dec_val ''0''"
    using ReadDecimal_digits [of "[]" 1 "''0''" "[]" "''0''"] by (auto simp: sign_text_def AllDigits_iff)
  ultimately show ?thesis using True
    by (simp add: PrintDecimal_def dec_value_def dec_val_def digit_val_def char_code_def)
next
  case False
  define v where "v = bi_val (dec_mag d)"
  define ds where "ds = nat_digits (nat \<bar>v\<bar>)"
  have ds: "AllDigits ds" "ds \<noteq> []" "dec_val ds = \<bar>v\<bar>"
    by (simp_all add: ds_def nat_digits_AllDigits dec_val_nat_digits)
  note P = PrintDecimal_split [OF assms False, folded v_def, folded ds_def]
  have v: "v = sgn v * \<bar>v\<bar>" by (simp add: mult_sgn_abs)
  have s: "sign_text (sign_of v) (sgn v)" using False by (intro sign_of_text) (simp add: v_def)
  show ?thesis
  proof (cases "dec_scale d \<le> 0")
    case True
    define k where "k = nat (- dec_scale d)"
    have "AllDigits (ds @ replicate k (CHR ''0''))"
      using ds(1) by (auto simp: AllDigits_iff isdigit_def char_code_def)
    then obtain m where m: "ReadDecimal (sign_of v @ ds @ replicate k (CHR ''0'')) = \<lparr>dec_scale = 0, dec_mag = m\<rparr>"
      "bi_ok m" "bi_val m = sgn v * (\<bar>v\<bar> * 10 ^ k)"
      using ReadDecimal_digits [OF s, of "ds @ replicate k (CHR ''0'')" "[]"] ds by (auto simp: AllDigits_iff dec_val_zeros_back)
    have "bi_val m = v * 10 ^ k" unfolding m(3) using v by (metis mult.assoc)
    moreover have "scale_factor (dec_scale d) = 10 ^ k" "scale_factor 0 = 1"
      using True by (auto simp: scale_factor_def k_def)
    ultimately show ?thesis using m(1,2) P True by (simp add: dec_value_def k_def [symmetric] v_def [symmetric])
  next
    case sc: False
    then obtain ip fs where f: "place_point ds (dec_scale d) = ip \<and> fs = [] \<or> place_point ds (dec_scale d) = ip @ ''.'' @ fs"
      "ip \<noteq> []" "AllDigits ip" "AllDigits fs"
      "of_int (dec_val (ip @ fs)) * scale_factor (int (length fs)) = of_int (dec_val ds) * scale_factor (dec_scale d)"
      using place_point_spec [OF ds(1), of "dec_scale d"] by auto
    obtain m where m: "ReadDecimal (sign_of v @ place_point ds (dec_scale d)) = \<lparr>dec_scale = int (length fs), dec_mag = m\<rparr>"
      "bi_ok m" "bi_val m = sgn v * dec_val (ip @ fs)"
      using ReadDecimal_digits [OF s f(3,2,4,1)] by blast
    have "of_int (bi_val m) * scale_factor (int (length fs)) = of_int (sgn v) * (of_int \<bar>v\<bar> * scale_factor (dec_scale d))"
      using f(5) ds(3) by (simp add: m(3))
    also have "\<dots> = of_int (sgn v * \<bar>v\<bar>) * scale_factor (dec_scale d)" by (simp only: of_int_mult mult.assoc)
    finally have "of_int (bi_val m) * scale_factor (int (length fs)) = of_int v * scale_factor (dec_scale d)"
      unfolding v [symmetric] .
    with m P sc show ?thesis by (simp add: dec_value_def v_def [symmetric])
  qed
qed

section \<open>Conversion to a machine integer\<close>

text \<open>A fraction is cut off where the division is exact; a magnitude of more than two words with a scale of one to
  nine makes the division read before an array.\<close>

lemma DecimalToInt64_spec:
  assumes "dec_ok d" and "0 < dec_scale d" and "divides_exactly (dec_mag d) (GetPowerOfTen (dec_scale d))"
  shows "\<exists>m. DecimalToInt64 d = Inr (ToInt64 m) \<and> bi_ok m \<and> bi_val m = c_div (bi_val (dec_mag d)) (10 ^ nat (dec_scale d))"
proof -
  have P: "bi_ok (GetPowerOfTen (dec_scale d))" "bi_val (GetPowerOfTen (dec_scale d)) = 10 ^ nat (dec_scale d)"
    using GetPowerOfTen_spec [of "dec_scale d"] assms(2) by simp_all
  have "to_int32 (dec_scale d) = dec_scale d" using assms(1) by (intro to_int32_id) (simp_all add: dec_ok_def)
  moreover obtain q r where "Divide (dec_mag d) (GetPowerOfTen (dec_scale d)) = Inr (q, r)"
    "divides_into (dec_mag d) (GetPowerOfTen (dec_scale d)) q r"
    using Divide_spec [of "dec_mag d" "GetPowerOfTen (dec_scale d)"] assms P by (auto simp: dec_ok_def)
  ultimately show ?thesis using assms(2) P(2)
    by (intro exI [of _ q]) (simp add: DecimalToInt64_def SetScale_def DivideQuotient_def divides_into_def)
qed

lemma small_power_word:
  assumes "0 < s" and "s < 10"
  shows "length (bi_mag (GetPowerOfTen s)) = 1" "\<bar>bi_val (GetPowerOfTen s)\<bar> \<noteq> 1" "bi_val (GetPowerOfTen s) \<noteq> 0"
proof -
  note P = GetPowerOfTen_spec [of s]
  have "(10::int) ^ 1 \<le> 10 ^ nat s" "(10::int) ^ nat s \<le> 10 ^ 9"
    using assms by (intro power_increasing; simp)+
  with P assms have v: "10 \<le> bi_val (GetPowerOfTen s)" "bi_val (GetPowerOfTen s) \<le> 10 ^ 9" by auto
  then show "\<bar>bi_val (GetPowerOfTen s)\<bar> \<noteq> 1" "bi_val (GetPowerOfTen s) \<noteq> 0" by auto
  have m: "int (mval (bi_mag (GetPowerOfTen s))) = bi_val (GetPowerOfTen s)" using abs_bi_val [of "GetPowerOfTen s"] P v assms by auto
  have "length (bi_mag (GetPowerOfTen s)) \<le> length [1000000000 :: 32 word]"
  proof (rule normal_length_mono)
    show "normal (bi_mag (GetPowerOfTen s))" using P assms(1) by (intro bi_ok_normal) simp
    have "int (mval (bi_mag (GetPowerOfTen s))) \<le> int 1000000000" using m v(2) by simp
    then have "mval (bi_mag (GetPowerOfTen s)) \<le> 1000000000" by (simp only: of_nat_le_iff)
    then show "mval (bi_mag (GetPowerOfTen s)) \<le> mval [1000000000 :: 32 word]" by simp
  qed
  moreover have "bi_mag (GetPowerOfTen s) \<noteq> []" using m v by auto
  ultimately show "length (bi_mag (GetPowerOfTen s)) = 1" by (simp add: le_Suc_eq)
qed

lemma DecimalToInt64_fails:
  assumes "dec_ok d" and "0 < dec_scale d" and "dec_scale d < 10" and "2 < length (bi_mag (dec_mag d))"
  shows "DecimalToInt64 d = Inl BadAccess"
proof -
  have "to_int32 (dec_scale d) = dec_scale d" using assms(1) by (intro to_int32_id) (simp_all add: dec_ok_def)
  moreover have "Divide (dec_mag d) (GetPowerOfTen (dec_scale d)) = Inl BadAccess"
    using Divide_outcomes [of "dec_mag d" "GetPowerOfTen (dec_scale d)"] GetPowerOfTen_spec [of "dec_scale d"]
      small_power_word [OF assms(2,3)] assms by (simp add: dec_ok_def)
  ultimately show ?thesis using assms(2) by (simp add: DecimalToInt64_def SetScale_def DivideQuotient_def)
qed

end
