(* ===== verification/Buffer_Numbers.thy ===== *)
theory Buffer_Numbers
  imports Buffer_Values Decimal
begin

text \<open>
  Decimals written to application buffers, and numbers, texts and decimals read from them
  (\<^verbatim>\<open>src/app/application_data_buffer.cpp\<close>). Reading through a null pointer, and a division of
  \<^verbatim>\<open>BigInteger\<close> that leaves its arrays, are \<open>None\<close>. A \<^verbatim>\<open>long\<close> has eight bytes.
\<close>

section \<open>Surroundings\<close>

text \<open>What the reading conversions need of floating point beyond the writing ones: a single to an integer, to a
  double and to text, text to a single, and a double to text with sixteen digits.\<close>

record read_ops =
  ro_single_int :: "32 word \<Rightarrow> int"
  ro_widen :: "32 word \<Rightarrow> 64 word"
  ro_single_str :: "32 word \<Rightarrow> string"
  ro_read_single :: "string \<Rightarrow> 32 word"
  ro_str16 :: "64 word \<Rightarrow> string"

text \<open>An integer converted to a type of \<open>k\<close> bytes, and the extraction of one from a stream: out of range it is
  the nearest bound; an unsigned type takes a negative number modulo its size.\<close>

definition to_type :: "bool \<Rightarrow> nat \<Rightarrow> int \<Rightarrow> int" where
  "to_type sg k v =
     (let m = v mod 256 ^ k in if sg \<and> 256 ^ k \<le> 2 * m then m - 256 ^ k else m)"

definition stream_int :: "bool \<Rightarrow> nat \<Rightarrow> string \<Rightarrow> int" where
  "stream_int sg k s =
     (let (sign, ds) = read_sign (dropWhile isspace s);
          v = dec_val (takeWhile isdigit ds)
      in if sg then max (- (256 ^ k div 2)) (min (256 ^ k div 2 - 1) (sign * v))
         else if 256 ^ k \<le> v then 256 ^ k - 1 else (sign * v) mod 256 ^ k)"

section \<open>Writing a decimal\<close>

text \<open>The structure: precision, scale, sign and sixteen bytes of the magnitude, the lowest first.\<close>

definition decimal_bytes :: "decimal \<Rightarrow> 8 word list" where
  "decimal_bytes z =
     [word_of_int (GetPrecision (dec_mag z)), 0, if bi_sign (dec_mag z) < 0 then 0 else 1]
     @ take 16 (rev (MagnitudeToBytes (dec_mag z)) @ replicate 16 0)"

definition PutDecimal :: "conv_env \<Rightarrow> decimal \<Rightarrow> app_buffer \<Rightarrow> memory \<Rightarrow> put_result" where
  "PutDecimal e value b m =
     (if ab_type b \<in> {AI_SIGNED_TINYINT, AI_BIT, AI_UNSIGNED_TINYINT, AI_SIGNED_SHORT, AI_UNSIGNED_SHORT,
          AI_SIGNED_LONG, AI_UNSIGNED_LONG, AI_SIGNED_BIGINT, AI_UNSIGNED_BIGINT} then
        (case DecimalToInt64 value of
           Inl _ \<Rightarrow> None
         | Inr v \<Rightarrow> map_option (\<lambda>(_, b, m). (Conv_FRACTIONAL_TRUNCATED, b, m)) (PutNum e (Num_Int 8 (sint v)) b m))
      else if ab_type b = AI_FLOAT \<or> ab_type b = AI_DOUBLE then
        Option.bind (PrintDecimal value) (\<lambda>s.
          map_option (\<lambda>(_, b, m). (Conv_FRACTIONAL_TRUNCATED, b, m)) (PutNum e (Num_Double (fp_read (ce_fp e) s)) b m))
      else if ab_type b = AI_CHAR \<or> ab_type b = AI_WCHAR then
        Option.bind (PrintDecimal value) (\<lambda>s. PutString e s b m)
      else if ab_type b = AI_NUMERIC then
        (if GetData b = 0 then None
         else
           case SetScale value 0 DecimalZero of
             Inl _ \<Rightarrow> None
           | Inr zeroScaled \<Rightarrow>
               Some (if 16 < length (MagnitudeToBytes (dec_mag zeroScaled)) then Conv_FRACTIONAL_TRUNCATED else Conv_SUCCESS,
                     b, store_len (GetResLen b) 19 (write_bytes (GetData b) (decimal_bytes zeroScaled) m)))
      else Some (Conv_UNSUPPORTED_CONVERSION, b, m))"

definition PutOptDecimal :: "conv_env \<Rightarrow> decimal option \<Rightarrow> app_buffer \<Rightarrow> memory \<Rightarrow> put_result" where
  "PutOptDecimal e v b m = (case v of None \<Rightarrow> PutNullAs b m | Some d \<Rightarrow> PutDecimal e d b m)"

section \<open>Writing a single\<close>

text \<open>\<^verbatim>\<open>PutNum\<close> at type \<^verbatim>\<open>float\<close>: its text and its bytes are its own; a conversion to any other type gives what
  it gives for the double of the same value.\<close>

definition PutFloat :: "conv_env \<Rightarrow> read_ops \<Rightarrow> 32 word option \<Rightarrow> app_buffer \<Rightarrow> memory \<Rightarrow> put_result" where
  "PutFloat e r v b m =
     (case v of
        None \<Rightarrow> PutNullAs b m
      | Some x \<Rightarrow>
          if ab_type b = AI_FLOAT then put_number (le_bytes 4 (uint x)) b m
          else if ab_type b = AI_CHAR then text_result (PutText (ce_mode e) 1 (ro_single_str r x) b m)
          else if ab_type b = AI_WCHAR then text_result (PutText (ce_mode e) (ce_wide e) (ro_single_str r x) b m)
          else if ab_type b = AI_BINARY \<or> ab_type b = AI_DEFAULT then put_raw (le_bytes 4 (uint x)) b m
          else PutNum e (Num_Double (ro_widen r x)) b m)"

section \<open>Reading\<close>

text \<open>The text of a narrow or wide buffer, cut at a length that is unsigned, so that the marker for a text that
  ends with a zero does not cut.\<close>

definition buffer_text :: "conv_env \<Rightarrow> int \<Rightarrow> app_buffer \<Rightarrow> memory \<Rightarrow> string option" where
  "buffer_text e maxLen b m =
     (if GetInputSize b m = 0 then Some []
      else
        map_option (\<lambda>s. if 0 \<le> maxLen then take (nat maxLen) s else s)
          (input_text e (to_int32 (GetInputSize b m)) b m))"

text \<open>The decimal of a numeric structure.\<close>

definition numeric_at :: "int \<Rightarrow> memory \<Rightarrow> decimal" where
  "numeric_at a m =
     DecimalFromBytes (read_bytes (a + 3) 16 m) (to_int8 (uint (m (a + 1)))) (if m (a + 2) \<noteq> 0 then 1 else - 1) False"

text \<open>The bytes of an element as a signed or unsigned integer; \<open>None\<close> for a buffer without memory.\<close>

definition element_int :: "bool \<Rightarrow> nat \<Rightarrow> app_buffer \<Rightarrow> memory \<Rightarrow> int option" where
  "element_int sg k b m = (if GetData b = 0 then None else Some (to_type sg k (le_val (read_bytes (GetData b) k m))))"

text \<open>The integer an element of one of the integer types holds.\<close>

definition integer_element :: "app_buffer \<Rightarrow> memory \<Rightarrow> int option" where
  "integer_element b m =
     (case ab_type b of
        AI_SIGNED_TINYINT \<Rightarrow> element_int True 1 b m
      | AI_BIT \<Rightarrow> element_int False 1 b m
      | AI_UNSIGNED_TINYINT \<Rightarrow> element_int False 1 b m
      | AI_SIGNED_SHORT \<Rightarrow> element_int True 2 b m
      | AI_UNSIGNED_SHORT \<Rightarrow> element_int False 2 b m
      | AI_SIGNED_LONG \<Rightarrow> element_int True 8 b m
      | AI_UNSIGNED_LONG \<Rightarrow> element_int False 8 b m
      | AI_SIGNED_BIGINT \<Rightarrow> element_int True 8 b m
      | AI_UNSIGNED_BIGINT \<Rightarrow> element_int False 8 b m
      | _ \<Rightarrow> None)"

definition integer_types :: "odbc_native_type set" where
  "integer_types = {AI_SIGNED_TINYINT, AI_BIT, AI_UNSIGNED_TINYINT, AI_SIGNED_SHORT, AI_UNSIGNED_SHORT,
     AI_SIGNED_LONG, AI_UNSIGNED_LONG, AI_SIGNED_BIGINT, AI_UNSIGNED_BIGINT}"

text \<open>\<^verbatim>\<open>GetNum\<close> at an integer type of \<open>k\<close> bytes. A type of one byte is read from text as a short.\<close>

definition GetNum :: "conv_env \<Rightarrow> read_ops \<Rightarrow> bool \<Rightarrow> nat \<Rightarrow> app_buffer \<Rightarrow> memory \<Rightarrow> int option" where
  "GetNum e r sg k b m =
     (if ab_type b = AI_CHAR \<or> ab_type b = AI_WCHAR then
        (if GetInputSize b m = 0 then Some 0
         else map_option (\<lambda>s. if k = 1 then to_type sg 1 (stream_int True 2 s) else stream_int sg k s)
                (buffer_text e (GetInputSize b m) b m))
      else if ab_type b \<in> integer_types then map_option (to_type sg k) (integer_element b m)
      else if ab_type b = AI_FLOAT then
        map_option (\<lambda>v. to_type sg k (ro_single_int r (word_of_int v))) (element_int False 4 b m)
      else if ab_type b = AI_DOUBLE then
        map_option (\<lambda>v. to_type sg k (fp_int (ce_fp e) (word_of_int v))) (element_int False 8 b m)
      else if ab_type b = AI_NUMERIC then
        (if GetData b = 0 then None
         else case DecimalToInt64 (numeric_at (GetData b) m) of Inl _ \<Rightarrow> None | Inr v \<Rightarrow> Some (to_type sg k (sint v)))
      else Some 0)"

definition GetInt8 :: "conv_env \<Rightarrow> read_ops \<Rightarrow> app_buffer \<Rightarrow> memory \<Rightarrow> int option" where
  "GetInt8 e r = GetNum e r True 1"

definition GetInt16 :: "conv_env \<Rightarrow> read_ops \<Rightarrow> app_buffer \<Rightarrow> memory \<Rightarrow> int option" where
  "GetInt16 e r = GetNum e r True 2"

definition GetInt32 :: "conv_env \<Rightarrow> read_ops \<Rightarrow> app_buffer \<Rightarrow> memory \<Rightarrow> int option" where
  "GetInt32 e r = GetNum e r True 4"

definition GetInt64 :: "conv_env \<Rightarrow> read_ops \<Rightarrow> app_buffer \<Rightarrow> memory \<Rightarrow> int option" where
  "GetInt64 e r = GetNum e r True 8"

definition GetDouble :: "conv_env \<Rightarrow> read_ops \<Rightarrow> app_buffer \<Rightarrow> memory \<Rightarrow> 64 word option" where
  "GetDouble e r b m =
     (let f = ce_fp e in
      if ab_type b = AI_CHAR \<or> ab_type b = AI_WCHAR then
        (if GetInputSize b m = 0 then Some 0 else map_option (fp_read f) (buffer_text e (GetInputSize b m) b m))
      else if ab_type b \<in> integer_types then map_option (fp_of_int f) (integer_element b m)
      else if ab_type b = AI_FLOAT then map_option (\<lambda>v. ro_widen r (word_of_int v)) (element_int False 4 b m)
      else if ab_type b = AI_DOUBLE then map_option word_of_int (element_int False 8 b m)
      else if ab_type b = AI_NUMERIC then
        (if GetData b = 0 then None
         else case DecimalToInt64 (numeric_at (GetData b) m) of Inl _ \<Rightarrow> None | Inr v \<Rightarrow> Some (fp_of_int f (sint v)))
      else Some 0)"

definition GetFloat :: "conv_env \<Rightarrow> read_ops \<Rightarrow> app_buffer \<Rightarrow> memory \<Rightarrow> 32 word option" where
  "GetFloat e r b m =
     (let f = ce_fp e in
      if ab_type b = AI_CHAR \<or> ab_type b = AI_WCHAR then
        (if GetInputSize b m = 0 then Some 0 else map_option (ro_read_single r) (buffer_text e (GetInputSize b m) b m))
      else if ab_type b \<in> integer_types then map_option (fp_single_of_int f) (integer_element b m)
      else if ab_type b = AI_FLOAT then map_option word_of_int (element_int False 4 b m)
      else if ab_type b = AI_DOUBLE then map_option (\<lambda>v. fp_single f (word_of_int v)) (element_int False 8 b m)
      else if ab_type b = AI_NUMERIC then
        (if GetData b = 0 then None
         else case DecimalToInt64 (numeric_at (GetData b) m) of Inl _ \<Rightarrow> None | Inr v \<Rightarrow> Some (fp_single_of_int f (sint v)))
      else Some 0)"

definition GetBufferString :: "conv_env \<Rightarrow> read_ops \<Rightarrow> int \<Rightarrow> app_buffer \<Rightarrow> memory \<Rightarrow> string option" where
  "GetBufferString e r maxLen b m =
     (case ab_type b of
        AI_CHAR \<Rightarrow> buffer_text e maxLen b m
      | AI_WCHAR \<Rightarrow> buffer_text e maxLen b m
      | AI_FLOAT \<Rightarrow> map_option (ro_single_str r) (GetFloat e r b m)
      | AI_NUMERIC \<Rightarrow> map_option (fp_str (ce_fp e)) (GetDouble e r b m)
      | AI_DOUBLE \<Rightarrow> map_option (fp_str (ce_fp e)) (GetDouble e r b m)
      | t \<Rightarrow>
          if t \<in> {AI_SIGNED_TINYINT, AI_SIGNED_SHORT, AI_SIGNED_LONG, AI_SIGNED_BIGINT}
          then map_option int_str (GetNum e r True 8 b m)
          else if t \<in> {AI_BIT, AI_UNSIGNED_TINYINT, AI_UNSIGNED_SHORT, AI_UNSIGNED_LONG, AI_UNSIGNED_BIGINT}
          then map_option int_str (GetNum e r False 8 b m)
          else Some [])"

text \<open>An empty text leaves the decimal as it was.\<close>

definition GetDecimal :: "conv_env \<Rightarrow> read_ops \<Rightarrow> decimal \<Rightarrow> app_buffer \<Rightarrow> memory \<Rightarrow> decimal option" where
  "GetDecimal e r old b m =
     (if ab_type b = AI_CHAR \<or> ab_type b = AI_WCHAR then
        (if GetInputSize b m = 0 then Some old
         else map_option ReadDecimal (GetBufferString e r (GetInputSize b m) b m))
      else if ab_type b \<in> {AI_SIGNED_TINYINT, AI_BIT, AI_SIGNED_SHORT, AI_SIGNED_LONG, AI_SIGNED_BIGINT} then
        map_option (\<lambda>v. DecimalAssignInt64 (word_of_int v)) (GetNum e r True 8 b m)
      else if ab_type b \<in> {AI_UNSIGNED_TINYINT, AI_UNSIGNED_SHORT, AI_UNSIGNED_LONG, AI_UNSIGNED_BIGINT} then
        map_option (\<lambda>v. DecimalAssignUint64 (word_of_int v)) (GetNum e r False 8 b m)
      else if ab_type b = AI_FLOAT \<or> ab_type b = AI_DOUBLE then
        map_option (\<lambda>x. ReadDecimal (ro_str16 r x)) (GetDouble e r b m)
      else if ab_type b = AI_NUMERIC then
        (if GetData b = 0 then None else Some (numeric_at (GetData b) m))
      else Some (DecimalAssignInt64 0))"

section \<open>Numbers come back\<close>

text \<open>The layout the conversions rely on: the element and the indicator do not overlap.\<close>

definition element_apart :: "app_buffer \<Rightarrow> int \<Rightarrow> bool" where
  "element_apart b n \<longleftrightarrow> GetData b \<noteq> 0
     \<and> (GetResLen b = 0 \<or> GetData b + n \<le> GetResLen b \<or> GetResLen b + 8 \<le> GetData b)"

lemma read_after_store:
  assumes "element_apart b (int n)"
  shows "read_bytes (GetData b) n (store_len (GetResLen b) v (write_bytes (GetData b) bs m))
    = read_bytes (GetData b) n (write_bytes (GetData b) bs m)"
  using assms by (auto simp: element_apart_def store_len_def intro!: read_bytes_outside)

lemma to_type_mod: "to_type sg k (v mod 256 ^ k) = to_type sg k v"
  by (simp add: to_type_def)

text \<open>The width an integer element is written with.\<close>

fun integer_width :: "odbc_native_type \<Rightarrow> nat" where
  "integer_width AI_SIGNED_SHORT = 2"
| "integer_width AI_UNSIGNED_SHORT = 2"
| "integer_width AI_SIGNED_LONG = 4"
| "integer_width AI_UNSIGNED_LONG = 4"
| "integer_width AI_SIGNED_BIGINT = 8"
| "integer_width AI_UNSIGNED_BIGINT = 8"
| "integer_width _ = 1"

lemma PutNum_integer:
  assumes "ab_type b \<in> integer_types"
  shows "PutNum e (Num_Int k v) b m = put_number (le_bytes (integer_width (ab_type b)) v) b m"
  using assms by (auto simp: integer_types_def PutNum_def Let_def)

definition signed_types :: "odbc_native_type set" where
  "signed_types = {AI_SIGNED_TINYINT, AI_SIGNED_SHORT, AI_SIGNED_LONG, AI_SIGNED_BIGINT}"

lemma integer_element_read:
  assumes "ab_type b \<in> integer_types - {AI_SIGNED_LONG, AI_UNSIGNED_LONG}"
  shows "integer_element b m = element_int (ab_type b \<in> signed_types) (integer_width (ab_type b)) b m"
  using assms by (auto simp: integer_types_def integer_element_def signed_types_def)

lemma written_integer:
  assumes "element_apart b (int w)"
  shows "\<exists>m'. put_number (le_bytes w v) b m = Some (Conv_SUCCESS, b, m')
    \<and> le_val (read_bytes (GetData b) w m') = v mod 256 ^ w"
proof -
  have d: "GetData b \<noteq> 0" using assms by (simp add: element_apart_def)
  have "read_bytes (GetData b) w (write_bytes (GetData b) (le_bytes w v) m) = le_bytes w v"
    using read_write_bytes [of "GetData b" "le_bytes w v" m] by simp
  then show ?thesis using read_after_store [OF assms] d
    by (simp add: put_number_def Let_def le_val_le_bytes)
qed

lemma to_type_small: "0 \<le> v \<Longrightarrow> v < 256 ^ k \<Longrightarrow> to_type False k v = v"
  by (simp add: to_type_def)

text \<open> An integer that fits the type of a buffer is read back from it as it was written, for every integer
  type but the two long ones.\<close>

theorem integers_come_back:
  assumes "ab_type b \<in> integer_types - {AI_SIGNED_LONG, AI_UNSIGNED_LONG}"
    and "element_apart b (int (integer_width (ab_type b)))"
    and "to_type (ab_type b \<in> signed_types) (integer_width (ab_type b)) v = v" and "to_type True 8 v = v"
  shows "\<exists>m'. PutNum e (Num_Int 8 v) b m = Some (Conv_SUCCESS, b, m') \<and> GetInt64 e r b m' = Some v"
proof -
  define w where "w = integer_width (ab_type b)"
  have t: "ab_type b \<in> integer_types" "ab_type b \<noteq> AI_CHAR" "ab_type b \<noteq> AI_WCHAR"
    using assms(1) by (auto simp: integer_types_def)
  obtain m' where "put_number (le_bytes w v) b m = Some (Conv_SUCCESS, b, m')"
    and l: "le_val (read_bytes (GetData b) w m') = v mod 256 ^ w"
    using written_integer assms(2) by (metis w_def)
  moreover have "integer_element b m' = Some v"
    using assms(2,3) l unfolding integer_element_read [OF assms(1)] element_int_def
    by (simp add: element_apart_def w_def [symmetric] to_type_mod)
  ultimately show ?thesis using t assms(4)
    by (simp add: PutNum_integer [OF t(1)] GetInt64_def GetNum_def w_def)
qed

definition example_read :: read_ops where
  "example_read = \<lparr>ro_single_int = (\<lambda>_. 0), ro_widen = (\<lambda>_. 0), ro_single_str = (\<lambda>_. ''0''),
     ro_read_single = (\<lambda>_. 0), ro_str16 = (\<lambda>_. ''0'')\<rparr>"

lemma data_simps:
  "GetData (ApplicationDataBuffer AI_SIGNED_SHORT a n r) = a" "GetData (ApplicationDataBuffer AI_SIGNED_LONG a n r) = a"
  "GetData (ApplicationDataBuffer AI_NUMERIC a n r) = a"
  by (simp_all add: ApplicationDataBuffer_def GetData_def ApplyOffset_def GetElementSize_def)

theorem integers_come_back_witness:
  "\<exists>m'. PutNum example_conv (Num_Int 8 (- 300)) (ApplicationDataBuffer AI_SIGNED_SHORT 100 2 200) (\<lambda>_. 0)
      = Some (Conv_SUCCESS, ApplicationDataBuffer AI_SIGNED_SHORT 100 2 200, m')
    \<and> GetInt64 example_conv example_read (ApplicationDataBuffer AI_SIGNED_SHORT 100 2 200) m' = Some (- 300)"
  by (rule integers_come_back)
    (simp_all add: buffer_simps data_simps integer_types_def signed_types_def element_apart_def to_type_def)

text \<open> The long types are read as eight bytes although their elements have four: two memories that agree on
  the element give different numbers.\<close>

theorem long_elements_overread:
  assumes "ab_type b = AI_SIGNED_LONG" and "GetData b \<noteq> 0"
  shows "\<exists>m1 m2. (\<forall>x. GetData b \<le> x \<and> x < GetData b + GetElementSize b \<longrightarrow> m1 x = m2 x)
    \<and> GetInt64 e r b m1 \<noteq> GetInt64 e r b m2"
proof -
  define m2 :: memory where "m2 = (\<lambda>_. 0)(GetData b + 4 := 1)"
  have "read_bytes (GetData b) 8 m2 = [0, 0, 0, 0, 1, 0, 0, 0]"
    by (simp add: read_bytes_def m2_def upt_rec_numeral upt_rec)
  moreover have "read_bytes (GetData b) 8 (\<lambda>_. 0) = replicate 8 0"
    by (simp add: read_bytes_def map_replicate_const)
  ultimately have "GetInt64 e r b m2 = Some 4294967296" "GetInt64 e r b (\<lambda>_. 0) = Some 0"
    using assms by (simp_all add: GetInt64_def GetNum_def integer_types_def integer_element_def element_int_def
        to_type_def numeral_eq_Suc)
  moreover have "GetElementSize b = 4" using assms(1) by (simp add: GetElementSize_def)
  ultimately show ?thesis by (intro exI [of _ m2] exI [of _ "\<lambda>_. 0"]) (auto simp: m2_def)
qed

theorem long_elements_overread_witness:
  "\<exists>m1 m2. (\<forall>x. 100 \<le> x \<and> x < 104 \<longrightarrow> m1 x = m2 x)
    \<and> GetInt64 example_conv example_read (ApplicationDataBuffer AI_SIGNED_LONG 100 4 200) m1
      \<noteq> GetInt64 example_conv example_read (ApplicationDataBuffer AI_SIGNED_LONG 100 4 200) m2"
  using long_elements_overread [of "ApplicationDataBuffer AI_SIGNED_LONG 100 4 200" example_conv example_read]
  by (simp add: buffer_simps data_simps) (simp add: ApplicationDataBuffer_def GetElementSize_def)

section \<open>Numeric structures\<close>

lemma length_decimal_bytes [simp]: "length (decimal_bytes z) = 19"
  by (simp add: decimal_bytes_def)

lemma bytes_val_padded: "bytes_val (bs @ replicate n 0) = bytes_val bs"
  by (induction bs) (simp_all, induction n, simp_all)

text \<open>The structure as it is found in memory.\<close>

lemma numeric_at_written:
  assumes "element_apart b 19" and "bi_ok (dec_mag z)" and "length (MagnitudeToBytes (dec_mag z)) \<le> 16"
  shows "let m' = store_len (GetResLen b) 19 (write_bytes (GetData b) (decimal_bytes z) m) in
    dec_scale (numeric_at (GetData b) m') = 0 \<and> bi_ok (dec_mag (numeric_at (GetData b) m'))
    \<and> bi_val (dec_mag (numeric_at (GetData b) m')) = bi_val (dec_mag z)"
proof -
  define a m' where "a = GetData b" and "m' = store_len (GetResLen b) 19 (write_bytes a (decimal_bytes z) m)"
  have r: "read_bytes a 19 m' = decimal_bytes z"
    using read_after_store [of b 19] assms(1) read_write_bytes [of a "decimal_bytes z" m] by (simp add: a_def m'_def)
  have nth: "m' (a + int i) = decimal_bytes z ! i" if "i < 19" for i
    using arg_cong [OF r, of "\<lambda>l. l ! i"] that by (simp add: read_bytes_def)
  have "read_bytes (a + 3) 16 m' = drop 3 (read_bytes a 19 m')"
    by (rule nth_equalityI) (simp_all add: read_bytes_def algebra_simps)
  then have v: "read_bytes (a + 3) 16 m' = take 16 (rev (MagnitudeToBytes (dec_mag z)) @ replicate 16 0)"
    unfolding r by (simp add: decimal_bytes_def)
  have s: "m' (a + 1) = 0" "m' (a + 2) = (if bi_sign (dec_mag z) < 0 then 0 else 1)"
    using nth [of 1] nth [of 2] by (simp_all add: decimal_bytes_def)
  have "bytes_val (read_bytes (a + 3) 16 m') = bytes_val (rev (MagnitudeToBytes (dec_mag z)))"
    unfolding v using assms(3) by (simp add: bytes_val_padded)
  then have bv: "bytes_val (read_bytes (a + 3) 16 m') = mval (bi_mag (dec_mag z))"
    using MagnitudeToBytes_value [OF assms(2)] by simp
  define sg :: int where "sg = (if m' (a + 2) \<noteq> 0 then 1 else - 1)"
  have sg: "sg = 1 \<or> sg = - 1" "sg = bi_sign (dec_mag z)"
    using s(2) bi_ok_sign [OF assms(2)] by (auto simp: sg_def)
  have "numeric_at a m' = \<lparr>dec_scale = 0, dec_mag = BigFromBytes (read_bytes (a + 3) 16 m') sg False\<rparr>"
    by (simp add: numeric_at_def DecimalFromBytes_def s(1) sg_def [symmetric] to_int8_def)
  then show ?thesis using BigFromBytes_spec [OF sg(1), of "read_bytes (a + 3) 16 m'" False] bv sg(2)
    unfolding m'_def [symmetric] a_def [symmetric] by (simp add: bi_val_def)
qed

text \<open> A decimal without digits after the point is written to a numeric structure as zero: the rescaling to
  no digits leaves its result alone when there are none already.\<close>

theorem whole_decimal_lost:
  assumes "ab_type b = AI_NUMERIC" and "element_apart b 19" and "dec_scale d = 0"
  shows "\<exists>m'. PutDecimal e d b m = Some (Conv_SUCCESS, b, m')
    \<and> (\<exists>z. GetDecimal e r old b m' = Some z \<and> dec_value z = 0)"
proof -
  have z: "bi_ok (dec_mag DecimalZero)" "bi_val (dec_mag DecimalZero) = 0" "MagnitudeToBytes (dec_mag DecimalZero) = [0]"
    by (simp_all add: DecimalZero_def zero_number MagnitudeToBytes_def GetBitLength_def)
  have "GetData b \<noteq> 0" using assms(2) by (simp add: element_apart_def)
  then show ?thesis
    using assms(1,3) numeric_at_written [OF assms(2) z(1)] z(2,3)
    by (auto simp: PutDecimal_def SetScale_def GetDecimal_def dec_value_def Let_def)
qed

theorem whole_decimal_lost_witness:
  "\<exists>m'. PutDecimal example_conv (DecimalFromInt64 5 0) (ApplicationDataBuffer AI_NUMERIC 100 19 200) (\<lambda>_. 7)
      = Some (Conv_SUCCESS, ApplicationDataBuffer AI_NUMERIC 100 19 200, m')
    \<and> (\<exists>z. GetDecimal example_conv example_read DecimalZero (ApplicationDataBuffer AI_NUMERIC 100 19 200) m' = Some z
        \<and> dec_value z = 0) \<and> dec_value (DecimalFromInt64 5 0) = 5"
proof -
  have "dec_value (DecimalFromInt64 5 0) = 5"
    using AssignInt64_spec [of 5] by (simp add: DecimalFromInt64_def dec_value_def scale_factor_def)
  then show ?thesis
    using whole_decimal_lost [of "ApplicationDataBuffer AI_NUMERIC 100 19 200" "DecimalFromInt64 5 0" example_conv "\<lambda>_. 7"
        example_read DecimalZero]
    by (simp add: buffer_simps data_simps element_apart_def DecimalFromInt64_def)
qed

lemma MagnitudeToBytes_length:
  assumes "bi_ok b"
  shows "length (MagnitudeToBytes b) = max 1 ((GetBitLength b + 7) div 8)"
proof (cases "bi_mag b = []")
  case False
  define m w where "m = butlast (bi_mag b)" and "w = last (bi_mag b)"
  have e: "bi_mag b = m @ [w]" using False by (simp add: m_def w_def)
  have B: "0 < BitLengthU32 w"
    using BitLengthU32_bounds [of w] bi_ok_normal [OF assms] False by (simp add: normal_def w_def)
  have L: "GetBitLength b = BitLengthU32 w + 32 * length m" by (simp add: GetBitLength_def e Let_def)
  have n: "(GetBitLength b + 7) div 8 = (BitLengthU32 w + 7) div 8 + 4 * length m" unfolding L by simp
  have "length (concat (map (word_bytes 4) (rev m))) = 4 * length m"
    using all_word_bytes_value [of m] by (simp flip: rev_concat_words)
  moreover have "0 < (BitLengthU32 w + 7) div 8" using B by simp
  ultimately show ?thesis by (simp add: MagnitudeToBytes_def n e Let_def)
qed (simp add: MagnitudeToBytes_def GetBitLength_def)

lemma short_magnitude:
  assumes "bi_ok b" and "\<bar>bi_val b\<bar> < 2 ^ 128"
  shows "length (MagnitudeToBytes b) \<le> 16"
proof (cases "bi_mag b = []")
  case False
  have "int (mval (bi_mag b)) < int (2 ^ 128)" using assms by (simp add: abs_bi_val)
  then have "mval (bi_mag b) < 2 ^ 128" by (simp only: of_nat_less_iff)
  moreover have "2 ^ (GetBitLength b - 1) \<le> mval (bi_mag b)"
    using GetBitLength_spec [OF bi_ok_normal [OF assms(1)] False] by simp
  ultimately have "(2::nat) ^ (GetBitLength b - 1) < 2 ^ 128" by (rule le_less_trans [rotated])
  then have "GetBitLength b - 1 < 128" by (rule power_less_imp_less_exp [rotated]) simp
  then show ?thesis by (simp add: MagnitudeToBytes_length [OF assms(1)])
qed (simp add: MagnitudeToBytes_def GetBitLength_def)

lemma abs_c_div_less:
  assumes "0 < (p::int)" and "\<bar>x\<bar> < k * p"
  shows "\<bar>c_div x p\<bar> < k"
proof -
  have "\<bar>x\<bar> div p < k"
  proof (rule ccontr)
    assume "\<not> \<bar>x\<bar> div p < k"
    then have "k * p \<le> \<bar>x\<bar> div p * p" using assms(1) by (intro mult_right_mono) simp_all
    also have "\<dots> \<le> \<bar>x\<bar>" using assms(1) by (simp add: minus_mod_eq_div_mult [symmetric])
    finally show False using assms(2) by simp
  qed
  moreover have "0 \<le> \<bar>x\<bar> div p" using assms(1) by (simp add: pos_imp_zdiv_nonneg_iff)
  ultimately show ?thesis using assms(1) by (cases x "0 :: int" rule: linorder_cases) (simp_all add: c_div_def)
qed

lemma SetScale_whole:
  assumes "dec_ok d" and "0 < dec_scale d" and "divides_exactly (dec_mag d) (GetPowerOfTen (dec_scale d))"
  shows "\<exists>q. SetScale d 0 res = Inr \<lparr>dec_scale = 0, dec_mag = q\<rparr> \<and> bi_ok q
    \<and> bi_val q = c_div (bi_val (dec_mag d)) (10 ^ nat (dec_scale d))"
proof -
  have P: "bi_ok (GetPowerOfTen (dec_scale d))" "bi_val (GetPowerOfTen (dec_scale d)) = 10 ^ nat (dec_scale d)"
    using GetPowerOfTen_spec [of "dec_scale d"] assms(2) by simp_all
  have "to_int32 (dec_scale d) = dec_scale d" using assms(1) by (intro to_int32_id) (simp_all add: dec_ok_def)
  moreover obtain q r where "Divide (dec_mag d) (GetPowerOfTen (dec_scale d)) = Inr (q, r)"
    "divides_into (dec_mag d) (GetPowerOfTen (dec_scale d)) q r"
    using Divide_spec [of "dec_mag d" "GetPowerOfTen (dec_scale d)"] assms P by (auto simp: dec_ok_def)
  ultimately show ?thesis using assms(2) P(2)
    by (intro exI [of _ q]) (simp add: SetScale_def DivideQuotient_def divides_into_def)
qed



end
