(* ===== verification/Number_Props.thy ===== *)
theory Number_Props
  imports Buffer_Numbers
begin

text \<open>
  The properties of big integers and decimals, stated over numbers: arithmetic, comparison and
  text are exact; division is exact where the estimate of a quotient digit needs no repair, and
  its failures and the wrong answers are characterised.
\<close>

section \<open>Big integers\<close>

text \<open> Multiplication is exact, also where both operands have many words; a power is exact for a base that
  is not zero, and adding a machine number to one that is not negative is exact.\<close>

theorem big_arithmetic_exact:
  assumes "bi_ok a" and "bi_ok b"
  shows "bi_val (Multiply a b) = bi_val a * bi_val b
    \<and> (0 \<le> e \<and> bi_val a \<noteq> 0 \<longrightarrow> bi_val (Pow a e) = bi_val a ^ nat e)
    \<and> (0 \<le> bi_val a \<longrightarrow> bi_val (AddUint64 a x) = bi_val a + int (unat x))"
  using Multiply_spec [OF assms] Pow_spec [OF assms(1), of e] AddUint64_spec [OF assms(1), of x] by simp

theorem big_arithmetic_exact_witness:
  "bi_val (Multiply (GetPowerOfTen 30) (GetPowerOfTen 12)) = 10 ^ 42
    \<and> bi_val (Pow (GetPowerOfTen 30) 3) = 10 ^ 90
    \<and> bi_val (AddUint64 (GetPowerOfTen 30) 7) = 10 ^ 30 + 7"
  using big_arithmetic_exact [of "GetPowerOfTen 30" "GetPowerOfTen 12" 3 7]
    GetPowerOfTen_spec [of 30] GetPowerOfTen_spec [of 12]
  by (simp flip: power_add power_mult)

text \<open> C36. A number printed and read again is the same object: words, sign and all. So is one whose magnitude is
  written as bytes, in either order.\<close>

theorem big_round_trips:
  assumes "bi_ok b"
  shows "map_option BigAssignString (PrintBig b) = Some b
    \<and> BigFromBytes (MagnitudeToBytes b) (bi_sign b) True = b
    \<and> BigFromBytes (rev (MagnitudeToBytes b)) (bi_sign b) False = b"
proof -
  have "BigAssignString (int_str (bi_val b)) = b"
    using BigAssignString_int_str [of "bi_val b"] assms by (auto intro: bi_val_inj)
  then show ?thesis using PrintBig_spec [OF assms] bytes_round_trip [OF assms] by simp
qed

theorem big_round_trips_witness:
  "map_option BigAssignString (PrintBig (GetPowerOfTen 40)) = Some (GetPowerOfTen 40)
    \<and> BigFromBytes (MagnitudeToBytes (GetPowerOfTen 40)) (bi_sign (GetPowerOfTen 40)) True = GetPowerOfTen 40"
  using big_round_trips [of "GetPowerOfTen 40"] GetPowerOfTen_spec [of 40] by simp

section \<open>Division\<close>

text \<open> C15. A division by a number of two words, or of a number of at most two words, is the one of C: the quotient
  is rounded towards zero, and the remainder has the size that belongs to it.\<close>

theorem division_rounds_to_zero:
  assumes "bi_ok a" and "bi_ok d" and "bi_val d \<noteq> 0" and "length (bi_mag d) = 2 \<or> length (bi_mag a) \<le> 2"
  shows "\<exists>q r. Divide a d = Inr (q, r) \<and> bi_ok q \<and> bi_val q = c_div (bi_val a) (bi_val d)
    \<and> \<bar>bi_val a\<bar> = \<bar>bi_val d\<bar> * \<bar>bi_val q\<bar> + \<bar>bi_val r\<bar> \<and> \<bar>bi_val r\<bar> < \<bar>bi_val d\<bar>"
proof -
  define m n where "m = mval (bi_mag a)" and "n = mval (bi_mag d)"
  have "divides_exactly a d" using assms(4) by (auto simp: divides_exactly_def)
  from Divide_spec [OF assms(1-3) this] obtain q r where D: "Divide a d = Inr (q, r)" "divides_into a d q r" by blast
  have n: "0 < n" using assms(3) by (auto simp: n_def bi_val_def intro!: gr0I)
  have r: "\<bar>bi_val r\<bar> = int (m mod n)" using D(2)
    by (auto simp: divides_into_def bi_val_def abs_mult m_def n_def)
  define s where "s = bi_sign a * bi_sign d"
  have "bi_val q = s * int (m div n)" using D(2) by (simp add: divides_into_def c_div_bi [OF assms(1,2)] s_def m_def n_def)
  then have "\<bar>bi_val q\<bar> = int (m div n)" using sign_product [OF assms(1,2)] by (auto simp: s_def [symmetric])
  moreover have "int m = int n * int (m div n) + int (m mod n)"
    by (metis mult_div_mod_eq of_nat_add of_nat_mult)
  moreover have "int (m mod n) < int n" using n by simp
  ultimately have "\<bar>bi_val a\<bar> = \<bar>bi_val d\<bar> * \<bar>bi_val q\<bar> + \<bar>bi_val r\<bar> \<and> \<bar>bi_val r\<bar> < \<bar>bi_val d\<bar>"
    unfolding r abs_bi_val [OF assms(1)] abs_bi_val [OF assms(2)] by (simp add: m_def n_def)
  with D show ?thesis by (intro exI [of _ q] exI [of _ r]) (simp add: divides_into_def)
qed

definition forty_digits :: big_integer where
  "forty_digits = BigAssignString ''-1234567890123456789012345678901234567890''"

lemma forty_digits: "bi_ok forty_digits \<and> bi_val forty_digits = - 1234567890123456789012345678901234567890"
  unfolding forty_digits_def using ReadBig_spec [of "[]" "''-''" "- 1" "''1234567890123456789012345678901234567890''" "[]"]
  by (auto simp: BigAssignString_def sign_text_def AllDigits_iff isdigit_def char_code_def dec_val_def digit_val_def)

lemma forty_digits_long: "2 < length (bi_mag forty_digits)"
proof (rule ccontr)
  assume "\<not> 2 < length (bi_mag forty_digits)"
  then have "radix ^ length (bi_mag forty_digits) \<le> radix ^ 2" by (intro power_increasing) simp_all
  with mval_lt [of "bi_mag forty_digits"] have "mval (bi_mag forty_digits) < radix ^ 2" by linarith
  then show False using abs_bi_val [of forty_digits] forty_digits by simp
qed

theorem division_rounds_to_zero_witness:
  "\<exists>q r. Divide forty_digits maxUintTenPower = Inr (q, r)
    \<and> bi_val q = - 123456789012345678901 \<and> \<bar>bi_val r\<bar> = 2345678901234567890"
proof -
  have "length (bi_mag maxUintTenPower) = 2" by (simp add: maxUintTenPower_def AssignUint64_def)
  with division_rounds_to_zero [of forty_digits maxUintTenPower] forty_digits maxUintTenPower
  show ?thesis by (auto simp: c_div_def)
qed

text \<open> C31. How a division can fail: the exception for a zero divisor is raised exactly for zero, and exactly for a
  divisor of one word other than one, with a dividend of more than two words, the code reads the
  word before the first one of the divisor. In all other cases it delivers two numbers.\<close>

theorem division_outcomes:
  assumes "bi_ok a" and "bi_ok d"
  shows "(Divide a d = Inl DivisionByZero \<longleftrightarrow> bi_val d = 0)
    \<and> (Divide a d = Inl BadAccess \<longleftrightarrow> length (bi_mag d) = 1 \<and> \<bar>bi_val d\<bar> \<noteq> 1 \<and> 2 < length (bi_mag a))
    \<and> Divide a d \<noteq> Inl BadShift"
proof -
  have "bi_val d \<noteq> 0" if "length (bi_mag d) = 1"
    using that normal_0_iff [OF bi_ok_normal [OF assms(2)]] bi_ok_sign [OF assms(2)] by (auto simp: bi_val_def)
  with Divide_outcomes [OF assms] show ?thesis by (metis Inl_Inr_False divide_error.distinct old.sum.inject(1))
qed

theorem division_outcomes_witness:
  "Divide forty_digits (AssignInt64 0) = Inl DivisionByZero \<and> Divide forty_digits (GetPowerOfTen 1) = Inl BadAccess"
  using division_outcomes [of forty_digits "AssignInt64 0"] division_outcomes [of forty_digits "GetPowerOfTen 1"]
    forty_digits forty_digits_long zero_number small_power_word [of 1] GetPowerOfTen_spec [of 1] by simp

definition repair_dividend :: big_integer where
  "repair_dividend = \<lparr>bi_sign = 1, bi_mag = [3, 0, 0x80000000]\<rparr>"

definition repair_divisor :: big_integer where
  "repair_divisor = \<lparr>bi_sign = 1, bi_mag = [1, 0, 0x20000000]\<rparr>"

lemma repair_numbers:
  "bi_ok repair_dividend \<and> bi_val repair_dividend = 3 + 2 ^ 95 \<and> bi_ok repair_divisor \<and> bi_val repair_divisor = 1 + 2 ^ 93"
  by (simp add: repair_dividend_def repair_divisor_def bi_ok_def normal_def bi_val_def)

lemma repair_division:
  "Divide repair_dividend repair_divisor
     = Inr (\<lparr>bi_sign = 1, bi_mag = [4]\<rparr>, \<lparr>bi_sign = 1, bi_mag = [4294967295, 4294967295, 1073741823]\<rparr>)"
  by code_simp

text \<open> The step that repairs a quotient digit which is too large never runs, so a division by three words can be
  wrong: here the quotient is one too large, and what is left is larger than the divisor.\<close>

theorem digit_repair_never_runs:
  "bi_ok repair_dividend \<and> bi_ok repair_divisor \<and> c_div (bi_val repair_dividend) (bi_val repair_divisor) = 3
    \<and> (\<exists>q r. Divide repair_dividend repair_divisor = Inr (q, r) \<and> bi_val q = 4 \<and> bi_val repair_divisor < bi_val r)"
  using repair_numbers repair_division by (simp add: c_div_def bi_val_def)

section \<open>Decimals\<close>

text \<open> C14. A decimal printed and read again has its value, whatever its digits and its scale.\<close>

theorem decimal_text_round_trip:
  assumes "bi_ok (dec_mag d)"
  shows "\<exists>s. PrintDecimal d = Some s \<and> dec_value (ReadDecimal s) = dec_value d \<and> bi_ok (dec_mag (ReadDecimal s))"
  using decimal_round_trip [OF assms] by blast

theorem decimal_text_round_trip_witness:
  "\<exists>s. PrintDecimal \<lparr>dec_scale = 7, dec_mag = forty_digits\<rparr> = Some s
    \<and> dec_value (ReadDecimal s) = - 1234567890123456789012345678901234567890 / 10000000"
  using decimal_text_round_trip [of "\<lparr>dec_scale = 7, dec_mag = forty_digits\<rparr>"] forty_digits
  by (auto simp: dec_value_def scale_factor_def)

text \<open> C16. Decimals of different scales are compared as the rationals they stand for: the comparison never fails,
  and the six operators are the six orderings.\<close>

theorem decimals_are_ordered:
  assumes "dec_ok a" and "dec_ok b"
  shows "DecimalEq a b = Inr (dec_value a = dec_value b) \<and> DecimalNeq a b = Inr (dec_value a \<noteq> dec_value b)
    \<and> DecimalLess a b = Inr (dec_value a < dec_value b) \<and> DecimalLessEq a b = Inr (dec_value a \<le> dec_value b)
    \<and> DecimalGreater a b = Inr (dec_value b < dec_value a) \<and> DecimalGreaterEq a b = Inr (dec_value b \<le> dec_value a)"
proof -
  obtain c where c: "DecimalCompare a b = Inr c" "of_int c = sgn (dec_value a - dec_value b)"
    using DecimalCompare_spec [OF assms] by blast
  consider "dec_value a < dec_value b" "c = - 1" | "dec_value a = dec_value b" "c = 0" | "dec_value b < dec_value a" "c = 1"
    using c(2) by (cases "dec_value a" "dec_value b" rule: linorder_cases) (simp_all add: sgn_if of_int_eq_1_iff)
  then show ?thesis using c(1)
    by cases (simp_all add: DecimalEq_def DecimalNeq_def DecimalLess_def DecimalLessEq_def DecimalGreater_def
        DecimalGreaterEq_def DecimalTest_def)
qed

theorem decimals_are_ordered_witness:
  "DecimalEq (DecimalFromInt64 1500 3) (DecimalFromInt64 15 1) = Inr True
    \<and> DecimalLess (DecimalFromInt64 (- 2) 0) (DecimalFromInt64 (- 1999) 3) = Inr True"
proof -
  have v: "dec_ok (DecimalFromInt64 1500 3)" "dec_ok (DecimalFromInt64 15 1)" "dec_ok (DecimalFromInt64 (- 2) 0)"
    "dec_ok (DecimalFromInt64 (- 1999) 3)" "dec_value (DecimalFromInt64 1500 3) = 3 / 2" "dec_value (DecimalFromInt64 15 1) = 3 / 2"
    "dec_value (DecimalFromInt64 (- 2) 0) = - 2" "dec_value (DecimalFromInt64 (- 1999) 3) = - 1999 / 1000"
    using AssignInt64_spec [of 1500] AssignInt64_spec [of 15] AssignInt64_spec [of "- 2"] AssignInt64_spec [of "- 1999"]
    by (simp_all add: DecimalFromInt64_def dec_ok_def dec_value_def scale_factor_def)
  show ?thesis using decimals_are_ordered [OF v(1,2)] decimals_are_ordered [OF v(3,4)] v(5-8) by simp
qed

lemma two_words:
  assumes "normal m"
  shows "(1 < length m \<and> hd m \<noteq> 0) \<longleftrightarrow> (radix \<le> mval m \<and> \<not> radix dvd mval m)"
proof (cases m)
  case (Cons w ws)
  have d: "radix dvd unat w + radix * mval ws \<longleftrightarrow> w = 0"
    using unat_lt_word [of w] by (auto simp: dvd_add_left_iff unat_eq_0 dest: nat_dvd_not_less)
  show ?thesis
  proof (cases "ws = []")
    case False
    have "normal ws" using assms False by (simp add: normal_def Cons)
    then have "mval ws \<noteq> 0" using normal_0_iff False by blast
    then have "radix * 1 \<le> radix * mval ws" by (intro mult_le_mono2) simp
    with d False show ?thesis by (simp add: Cons)
  next
    case True
    then show ?thesis using Cons unat_lt_word [of w] by simp
  qed
qed simp

lemma ToInt64_borrow:
  assumes "bi_ok b" and "\<bar>bi_val b\<bar> < 2 ^ 63"
  shows "sint (ToInt64 b) = bi_val b + (if bi_val b \<le> - (2 ^ 32) \<and> \<not> 2 ^ 32 dvd bi_val b then 2 ^ 32 else 0)"
proof -
  define v m K where "v = bi_val b" and "m = mval (bi_mag b)" and "K = (4294967296 :: int)"
  have K: "0 < K" "int radix = K" by (simp_all add: K_def)
  have "radix \<le> m \<longleftrightarrow> K \<le> int m" "radix dvd m \<longleftrightarrow> K dvd int m"
    by (simp_all only: K(2) [symmetric] of_nat_le_iff int_dvd_int_iff)
  then have t: "1 < length (bi_mag b) \<and> hd (bi_mag b) \<noteq> 0 \<longleftrightarrow> K \<le> int m \<and> \<not> K dvd int m"
    using two_words [OF bi_ok_normal [OF assms(1)]] by (simp add: m_def)
  have "bi_sign b = - 1 \<and> 1 < length (bi_mag b) \<and> hd (bi_mag b) \<noteq> 0 \<longleftrightarrow> v \<le> - K \<and> \<not> K dvd v"
  proof (cases "bi_sign b = 1")
    case True
    then have "v = int m" by (simp add: v_def m_def bi_val_def)
    with True K(1) show ?thesis by auto
  next
    case False
    then have "bi_sign b = - 1" using bi_ok_sign [OF assms(1)] by blast
    moreover from this have "v = - int m" by (simp add: v_def m_def bi_val_def)
    ultimately show ?thesis using t by simp
  qed
  then have T: "ToInt64 b = word_of_int (v + (if v \<le> - (2 ^ 32) \<and> \<not> 2 ^ 32 dvd v then 2 ^ 32 else 0))"
    using ToInt64_spec [OF assms(1)] by (simp add: v_def K_def)
  have S: "sint (word_of_int x :: 64 word) = x" if "- (2 ^ 63) \<le> x" "x < 2 ^ 63" for x
    using that by (simp add: sint_sbintrunc' signed_take_bit_int_eq_self)
  show ?thesis unfolding v_def [symmetric] T by (rule S) (use assms(2) in \<open>auto simp: v_def\<close>)
qed

text \<open> C37. A decimal of at most two words is turned into an integer by cutting its fraction off, except that a
  result of minus two to the 32 or below comes out too large by two to the 32 unless it is a multiple of it. A
  decimal of more than two words with one to nine digits after the point makes the division read
  outside of the divisor.\<close>

theorem decimal_to_integer:
  assumes "dec_ok d" and "0 < dec_scale d"
  defines "q \<equiv> c_div (bi_val (dec_mag d)) (10 ^ nat (dec_scale d))"
  shows "(length (bi_mag (dec_mag d)) \<le> 2 \<longrightarrow>
      map_sum id sint (DecimalToInt64 d) = Inr (q + (if q \<le> - (2 ^ 32) \<and> \<not> 2 ^ 32 dvd q then 2 ^ 32 else 0)))
    \<and> (dec_scale d < 10 \<and> 2 < length (bi_mag (dec_mag d)) \<longrightarrow> DecimalToInt64 d = Inl BadAccess)"
proof (intro conjI impI)
  assume l: "length (bi_mag (dec_mag d)) \<le> 2"
  have ok: "bi_ok (dec_mag d)" using assms(1) by (simp add: dec_ok_def)
  have "divides_exactly (dec_mag d) (GetPowerOfTen (dec_scale d))" using l by (simp add: divides_exactly_def)
  from DecimalToInt64_spec [OF assms(1,2) this] obtain m where
    m: "DecimalToInt64 d = Inr (ToInt64 m)" "bi_ok m" "bi_val m = q" unfolding q_def by blast
  have "mval (bi_mag (dec_mag d)) < radix ^ 2"
    using mval_lt [of "bi_mag (dec_mag d)"] power_increasing [OF l, of radix] by linarith
  then have "int (mval (bi_mag (dec_mag d))) < int (radix ^ 2)" by (simp only: of_nat_less_iff)
  then have "\<bar>bi_val (dec_mag d)\<bar> < 2 ^ 63 * 10 ^ 1" by (simp add: abs_bi_val [OF ok])
  also have "\<dots> \<le> 2 ^ 63 * 10 ^ nat (dec_scale d)" using assms(2) by (intro mult_left_mono power_increasing) simp_all
  finally have "\<bar>q\<bar> < 2 ^ 63" unfolding q_def by (intro abs_c_div_less) simp_all
  then show "map_sum id sint (DecimalToInt64 d) = Inr (q + (if q \<le> - (2 ^ 32) \<and> \<not> 2 ^ 32 dvd q then 2 ^ 32 else 0))"
    using ToInt64_borrow [OF m(2)] m by simp
qed (use DecimalToInt64_fails [OF assms(1,2)] in blast)

theorem decimal_to_integer_witness:
  "map_sum id sint (DecimalToInt64 (DecimalFromInt64 (- 1999) 3)) = Inr (- 1)
    \<and> map_sum id sint (DecimalToInt64 (DecimalFromInt64 (- 50000000000) 1)) = Inr (- 705032704)
    \<and> DecimalToInt64 \<lparr>dec_scale = 7, dec_mag = forty_digits\<rparr> = Inl BadAccess"
proof -
  have l: "length (bi_mag (AssignInt64 x)) \<le> 2" for x by (simp add: AssignInt64_def AssignUint64_def Let_def)
  have v: "dec_ok (DecimalFromInt64 (- 1999) 3)" "dec_ok (DecimalFromInt64 (- 50000000000) 1)"
    "dec_ok \<lparr>dec_scale = 7, dec_mag = forty_digits\<rparr>"
    "bi_val (dec_mag (DecimalFromInt64 (- 1999) 3)) = - 1999"
    "bi_val (dec_mag (DecimalFromInt64 (- 50000000000) 1)) = - 50000000000"
    using AssignInt64_spec [of "- 1999"] AssignInt64_spec [of "- 50000000000"] forty_digits
    by (simp_all add: DecimalFromInt64_def dec_ok_def)
  show ?thesis
    using decimal_to_integer [OF v(1)] decimal_to_integer [OF v(2)] decimal_to_integer [OF v(3)] v(4,5) l forty_digits_long
    by (simp add: DecimalFromInt64_def c_div_def)
qed

end
