(* ===== verification/Authentication.thy ===== *)
theory Authentication
  imports Connection
begin

text \<open>
  The credential providers (\<^verbatim>\<open>src/authentication/okta.cpp\<close>, \<^verbatim>\<open>aad.cpp\<close>, \<^verbatim>\<open>saml.cpp\<close>): the exchange with an identity
  provider that ends in a SAML assertion, which the token service trades for credentials. The network, the
  token service and the coders of the service's SDK are arguments. The interface of a provider is the
  locale \<open>saml_provider\<close>; at the end the providers are joined to the connection that asks them.
\<close>

section \<open>What the providers talk to\<close>

datatype http_method = HTTP_GET | HTTP_POST

record http_request =
  rq_uri :: string
  rq_method :: http_method
  rq_accept :: "string option"
  rq_contentType :: "string option"
  rq_contentLength :: "string option"
  rq_query :: "(string \<times> string) list"
  rq_body :: string

record http_response =
  rs_code :: int
  rs_clientError :: "string option"
  rs_body :: string

record saml_request =
  sr_roleArn :: string
  sr_assertion :: string
  sr_principalArn :: string

text \<open>The answers of the HTTP client and of the token service; reading a JSON object, as an error text or the
  texts of its keys, and writing one; the encoding of URLs; the URL variant of Base64.\<close>

record identity_services =
  id_http :: "http_request \<Rightarrow> http_response"
  id_sts :: "saml_request \<Rightarrow> aws_error + credentials"
  id_json :: "string \<Rightarrow> string + (string \<Rightarrow> string option)"
  id_write :: "(string \<times> string) list \<Rightarrow> string"
  id_urlencode :: "string \<Rightarrow> string"
  id_encode :: "string \<Rightarrow> string"
  id_decode :: "string \<Rightarrow> string"

definition client_error :: "string \<Rightarrow> http_response \<Rightarrow> string" where
  "client_error pre r = (case rs_clientError r of None \<Rightarrow> [] | Some e \<Rightarrow> pre @ [quote] @ e @ [quote] @ ''.'')"

section \<open>Okta\<close>

definition CreateSessionTokenReq :: "identity_services \<Rightarrow> configuration \<Rightarrow> http_request" where
  "CreateSessionTokenReq w cfg =
     (let body = id_write w [(''username'', GetDSNUserName cfg), (''password'', GetDSNPassword cfg)]
      in \<lparr>rq_uri = ''https://'' @ GetValue (cf_idPHost cfg) @ ''/api/v1/authn'', rq_method = HTTP_POST,
          rq_accept = Some ''application/json'', rq_contentType = Some ''application/json'',
          rq_contentLength = Some (int_str (int (length body))), rq_query = [], rq_body = body\<rparr>)"

text \<open>The session token, empty when there is none, and the error text.\<close>

definition GetSessionToken :: "identity_services \<Rightarrow> configuration \<Rightarrow> string \<Rightarrow> string \<times> string" where
  "GetSessionToken w cfg errInfo =
     (let response = id_http w (CreateSessionTokenReq w cfg) in
      if rs_code response \<noteq> 200 then
        ([], ''Failed to get Okta session token.'' @ client_error '' Error info: '' response)
      else case id_json w (rs_body response) of
        Inl e \<Rightarrow> ([], ''Error parsing response body. '' @ e)
      | Inr view \<Rightarrow>
          (case view ''sessionToken'' of
             Some t \<Rightarrow> (t, errInfo)
           | None \<Rightarrow> ([], ''No session token in the Okta response body'')))"

text \<open>\<^verbatim>\<open>StringToInt\<close> with base 16: space, a sign and a prefix are skipped; a text without digits gives 0.\<close>

definition isxdigit :: "char \<Rightarrow> bool" where
  "isxdigit c \<longleftrightarrow> isdigit c \<or> 97 \<le> char_code c \<and> char_code c \<le> 102 \<or> 65 \<le> char_code c \<and> char_code c \<le> 70"

definition xdigit_val :: "char \<Rightarrow> int" where
  "xdigit_val c =
     (if isdigit c then int (char_code c) - 48
      else if 97 \<le> char_code c then int (char_code c) - 87 else int (char_code c) - 55)"

definition StringToInt16 :: "string \<Rightarrow> int" where
  "StringToInt16 s0 =
     (let s1 = dropWhile isspace s0;
          neg = (s1 \<noteq> [] \<and> hd s1 = CHR ''-'');
          s2 = (if s1 \<noteq> [] \<and> (hd s1 = CHR ''-'' \<or> hd s1 = CHR ''+'') then tl s1 else s1);
          s3 = (if 3 \<le> length s2 \<and> s2 ! 0 = CHR ''0'' \<and> (s2 ! 1 = CHR ''x'' \<or> s2 ! 1 = CHR ''X'') \<and> isxdigit (s2 ! 2)
                then drop 2 s2 else s2);
          ds = takeWhile isxdigit s3;
          v = foldl (\<lambda>a c. 16 * a + xdigit_val c) 0 ds;
          v = (if neg then - v else v)
      in if ds = [] \<or> v < - (2 ^ 31) \<or> 2 ^ 31 \<le> v then 0 else v)"

text \<open>The loop of \<^verbatim>\<open>DecodeNumericCharacters\<close> over the rest of the text. Behind the three characters that open a
  reference the character at offset five is read: it exists, is the terminator of the text, or lies
  behind it, which is undefined.\<close>

fun decode_references :: "string \<Rightarrow> string option" where
  "decode_references [] = Some []"
| "decode_references (c # cs) =
     (if take 3 (c # cs) = ''&#x'' then
        if length (c # cs) < 5 then None
        else if 5 < length (c # cs) \<and> (c # cs) ! 5 = CHR '';'' then
          map_option (Cons (char_of (nat (StringToInt16 (take 2 (drop 3 (c # cs))) mod 256))))
            (decode_references (drop 5 cs))
        else map_option (Cons c) (decode_references cs)
      else map_option (Cons c) (decode_references cs))"

declare decode_references.simps(2) [simp del]

definition SINGLE_NUM_CHAR_REF_LENGTH :: nat where "SINGLE_NUM_CHAR_REF_LENGTH = 6"

definition DecodeNumericCharacters :: "string \<Rightarrow> string option" where
  "DecodeNumericCharacters htmlString =
     (if length htmlString < SINGLE_NUM_CHAR_REF_LENGTH then Some htmlString else decode_references htmlString)"

text \<open>The search for the pattern: the text before the group, the shortest group of characters that do not end a
  line, and the text behind it; the leftmost match counts.\<close>

definition saml_before :: string where
  "saml_before = ''<input name='' @ dquote @ ''SAMLResponse'' @ dquote @ '' type='' @ dquote @ ''hidden'' @ dquote
     @ '' value='' @ dquote"

definition saml_after :: string where "saml_after = dquote @ ''/>''"

fun match_group :: "string \<Rightarrow> string option" where
  "match_group s =
     (if take 3 s = saml_after then Some []
      else case s of
        [] \<Rightarrow> None
      | c # cs \<Rightarrow> if c = CHR 0x0A \<or> c = CHR 0x0D then None else map_option (Cons c) (match_group cs))"

declare match_group.simps [simp del]

fun search_response :: "string \<Rightarrow> string option" where
  "search_response s =
     (case (if take (length saml_before) s = saml_before then match_group (drop (length saml_before) s) else None) of
        Some g \<Rightarrow> Some g
      | None \<Rightarrow> (case s of [] \<Rightarrow> None | c # cs \<Rightarrow> search_response cs))"

declare search_response.simps [simp del]

definition saml_page_request :: "configuration \<Rightarrow> string \<Rightarrow> http_request" where
  "saml_page_request cfg sessionToken =
     \<lparr>rq_uri = ''https://'' @ GetValue (cf_idPHost cfg) @ ''/app/amazon_aws/'' @ GetValue (cf_oktaAppId cfg) @ ''/sso/saml'',
      rq_method = HTTP_GET, rq_accept = None, rq_contentType = None, rq_contentLength = None,
      rq_query = [(''onetimetoken'', sessionToken)], rq_body = []\<rparr>"

definition OktaAssertion :: "identity_services \<Rightarrow> configuration \<Rightarrow> string \<Rightarrow> (string \<times> string) option" where
  "OktaAssertion w cfg errInfo =
     (let (sessionToken, errInfo) = GetSessionToken w cfg errInfo in
      if sessionToken = [] then Some ([], errInfo)
      else
        let response = id_http w (saml_page_request cfg sessionToken) in
        if rs_code response \<noteq> 200 then
          Some ([], ''Failed to get SAML asseration.'' @ client_error '' Client error: '' response)
        else case search_response (rs_body response) of
          Some g \<Rightarrow> map_option (\<lambda>a. (a, errInfo)) (DecodeNumericCharacters g)
        | None \<Rightarrow> Some ([], ''Could not extract SAMLResponse from the Okta response body''))"

section \<open>Azure AD\<close>

definition COLON :: string where "COLON = ''%3A''"

definition token_request :: "identity_services \<Rightarrow> configuration \<Rightarrow> http_request" where
  "token_request w cfg =
     (let enc = id_urlencode w;
          body = ''grant_type=password&requested_token_type=urn'' @ COLON @ ''ietf'' @ COLON @ ''params'' @ COLON
            @ ''oauth'' @ COLON @ ''token-type'' @ COLON @ ''saml2&username='' @ enc (GetDSNUserName cfg)
            @ ''&password='' @ enc (GetDSNPassword cfg) @ ''&client_secret='' @ enc (GetValue (cf_aadClientSecret cfg))
            @ ''&client_id='' @ enc (GetValue (cf_aadAppId cfg)) @ ''&resource='' @ enc (GetValue (cf_aadAppId cfg))
      in \<lparr>rq_uri = ''https://login.microsoftonline.com/'' @ GetValue (cf_aadTenant cfg) @ ''/oauth2/token'',
          rq_method = HTTP_POST, rq_accept = Some ''application/json'',
          rq_contentType = Some ''application/x-www-form-urlencoded'',
          rq_contentLength = Some (int_str (int (length body))), rq_query = [], rq_body = body\<rparr>)"

definition GetAccessToken :: "identity_services \<Rightarrow> configuration \<Rightarrow> string \<Rightarrow> string \<times> string" where
  "GetAccessToken w cfg errInfo =
     (let res = id_http w (token_request w cfg) in
      if rs_code res \<noteq> 200 then
        ([], ''Request to Azure Active Directory for access token failed.'' @ client_error '' Client error: '' res)
      else case id_json w (rs_body res) of
        Inl e \<Rightarrow> ([], ''Error parsing response body: '' @ e)
      | Inr view \<Rightarrow>
          (case view ''access_token'' of
             Some t \<Rightarrow> (t, errInfo)
           | None \<Rightarrow> ([], ''Unable to extract the access token from the Azure AD response body.'')))"

definition pad_token :: "string \<Rightarrow> string" where
  "pad_token accessToken =
     (let m = length accessToken mod 4
      in accessToken @ (if m = 1 then ''==='' else if m = 2 then ''=='' else if m = 3 then ''='' else []))"

definition saml_response :: "string \<Rightarrow> string" where
  "saml_response decoded =
     ''<samlp:Response xmlns:samlp='' @ dquote @ ''urn:oasis:names:tc:SAML:2.0:protocol'' @ dquote
     @ ''><samlp:Status><samlp:StatusCode Value='' @ dquote @ ''urn:oasis:names:tc:SAML:2.0:status:Success'' @ dquote
     @ ''/></samlp:Status>'' @ decoded @ ''</samlp:Response>''"

definition AADAssertion :: "identity_services \<Rightarrow> configuration \<Rightarrow> string \<Rightarrow> string \<times> string" where
  "AADAssertion w cfg errInfo =
     (let (accessToken, errInfo) = GetAccessToken w cfg errInfo in
      if accessToken = [] then ([], errInfo)
      else (id_encode w (saml_response (id_decode w (pad_token accessToken))), errInfo))"

section \<open>Credentials\<close>

definition FetchCredentialsWithSAMLAssertion ::
  "identity_services \<Rightarrow> saml_request \<Rightarrow> credentials \<Rightarrow> string \<Rightarrow> bool \<times> credentials \<times> string" where
  "FetchCredentialsWithSAMLAssertion w samlRequest awsCredentials errInfo =
     (case id_sts w samlRequest of
        Inr c \<Rightarrow> (True, c, errInfo)
      | Inl e \<Rightarrow> (False, awsCredentials,
          ''Failed to fetch credentials, ERROR: '' @ GetExceptionName e @ '': '' @ GetMessage e))"

text \<open>The two names are passed as C strings, which end at a zero.\<close>

definition role_request :: "configuration \<Rightarrow> string \<Rightarrow> saml_request" where
  "role_request cfg assertion =
     \<lparr>sr_roleArn = takeWhile (\<lambda>c. c \<noteq> NUL) (GetValue (cf_roleArn cfg)), sr_assertion = assertion,
      sr_principalArn = takeWhile (\<lambda>c. c \<noteq> NUL) (GetValue (cf_idPArn cfg))\<rparr>"

text \<open>\<open>GetSAMLAssertion\<close> is the virtual function of the provider.\<close>

definition GetAWSCredentials ::
  "(string \<Rightarrow> (string \<times> string) option) \<Rightarrow> identity_services \<Rightarrow> configuration \<Rightarrow> credentials \<Rightarrow> string
    \<Rightarrow> (bool \<times> credentials \<times> string) option" where
  "GetAWSCredentials GetSAMLAssertion w cfg credentials errInfo =
     map_option (\<lambda>(a, errInfo).
       if a = [] then (False, credentials, errInfo)
       else FetchCredentialsWithSAMLAssertion w (role_request cfg a) credentials errInfo)
     (GetSAMLAssertion errInfo)"

definition assertion_of :: "auth_type \<Rightarrow> identity_services \<Rightarrow> configuration \<Rightarrow> string \<Rightarrow> (string \<times> string) option" where
  "assertion_of t w cfg = (if t = OKTA then OktaAssertion w cfg else (\<lambda>e. Some (AADAssertion w cfg e)))"

definition empty_credentials :: credentials where
  "empty_credentials = \<lparr>AWSAccessKeyId = [], AWSSecretKey = [], SessionToken = []\<rparr>"

text \<open>What a connection asks its provider for.\<close>

definition provider_answer :: "identity_services \<Rightarrow> auth_type \<Rightarrow> configuration \<Rightarrow> (credentials \<times> string) option" where
  "provider_answer w t cfg = map_option snd (GetAWSCredentials (assertion_of t w cfg) w cfg empty_credentials [])"

section \<open>Character references\<close>

text \<open>How a page writes a character as a reference, and a text with the characters that need one.\<close>

definition hexdigit :: "nat \<Rightarrow> char" where
  "hexdigit n = char_of (if n < 10 then 48 + n else 87 + n)"

definition html_ref :: "char \<Rightarrow> string" where
  "html_ref c = ''&#x'' @ [hexdigit (char_code c div 16), hexdigit (char_code c mod 16)] @ '';''"

definition html_escape :: "(char \<Rightarrow> bool) \<Rightarrow> string \<Rightarrow> string" where
  "html_escape keep s = concat (map (\<lambda>c. if keep c \<and> c \<noteq> CHR ''&'' then [c] else html_ref c) s)"

lemma hexdigits:
  assumes "n < 16"
  shows "isxdigit (hexdigit n)" and "xdigit_val (hexdigit n) = int n" and "\<not> isspace (hexdigit n)"
    and "hexdigit n \<noteq> CHR ''-''" and "hexdigit n \<noteq> CHR ''+''"
proof -
  have c: "char_code (hexdigit n) = (if n < 10 then 48 + n else 87 + n)"
    using assms by (simp add: hexdigit_def char_code_def)
  show "isxdigit (hexdigit n)" "xdigit_val (hexdigit n) = int n" "\<not> isspace (hexdigit n)"
    using assms by (simp_all add: isxdigit_def xdigit_val_def isdigit_def isspace_def c)
  have "char_code (CHR ''-'') = 45" "char_code (CHR ''+'') = 43" by (simp_all add: char_code_def)
  moreover have "char_code (hexdigit n) \<noteq> 45" "char_code (hexdigit n) \<noteq> 43" using c by simp_all
  ultimately show "hexdigit n \<noteq> CHR ''-''" "hexdigit n \<noteq> CHR ''+''" by auto
qed

lemma hex_pair:
  assumes "a < 16" and "b < 16"
  shows "StringToInt16 [hexdigit a, hexdigit b] = 16 * int a + int b"
  using hexdigits [OF assms(1)] hexdigits [OF assms(2)] assms by (simp add: StringToInt16_def Let_def)

lemma reference_decoded:
  "char_of (nat (StringToInt16 [hexdigit (char_code c div 16), hexdigit (char_code c mod 16)] mod 256)) = c"
proof -
  have n: "char_code c < 256" by (rule char_code_lt)
  then have "StringToInt16 [hexdigit (char_code c div 16), hexdigit (char_code c mod 16)]
      = 16 * int (char_code c div 16) + int (char_code c mod 16)"
    by (intro hex_pair) simp_all
  also have "\<dots> = int (char_code c)" by (metis mult_div_mod_eq of_nat_add of_nat_mult of_nat_numeral)
  finally have "StringToInt16 [hexdigit (char_code c div 16), hexdigit (char_code c mod 16)] = int (char_code c)" .
  moreover have "char_of (char_code c) = c" by (simp add: char_code_def)
  ultimately show ?thesis using n by simp
qed

lemma decode_escaped: "decode_references (html_escape keep s) = Some s"
proof (induction s)
  case (Cons c s)
  show ?case
  proof (cases "keep c \<and> c \<noteq> CHR ''&''")
    case True
    then have "html_escape keep (c # s) = c # html_escape keep s" by (simp add: html_escape_def)
    then show ?thesis using Cons True by (simp add: decode_references.simps)
  next
    case False
    then have e: "html_escape keep (c # s) = html_ref c @ html_escape keep s" by (auto simp: html_escape_def)
    show ?thesis unfolding e html_ref_def using Cons reference_decoded [of c] by (simp add: decode_references.simps)
  qed
qed (simp add: html_escape_def)

lemma escaped_short:
  assumes "length (html_escape keep s) < 6"
  shows "html_escape keep s = s"
  using assms
proof (induction s)
  case (Cons c s)
  then show ?case by (auto simp: html_escape_def html_ref_def split: if_splits)
qed (simp add: html_escape_def)

lemma DecodeNumericCharacters_escaped: "DecodeNumericCharacters (html_escape keep s) = Some s"
  using decode_escaped [of keep s] escaped_short [of keep s]
  by (simp add: DecodeNumericCharacters_def SINGLE_NUM_CHAR_REF_LENGTH_def)

text \<open>A reference that is opened at the end of the text, with at most one character behind it.\<close>

definition open_reference :: "string \<Rightarrow> bool" where
  "open_reference s \<longleftrightarrow> (\<exists>p x. s = p @ ''&#x'' @ x \<and> length x \<le> 1)"

lemma open_reference_Cons:
  "open_reference (c # cs) \<longleftrightarrow> open_reference cs \<or> (\<exists>x. c # cs = ''&#x'' @ x \<and> length x \<le> 1)"
proof
  assume "open_reference (c # cs)"
  then obtain p x where px: "c # cs = p @ ''&#x'' @ x" "length x \<le> 1" unfolding open_reference_def by blast
  show "open_reference cs \<or> (\<exists>x. c # cs = ''&#x'' @ x \<and> length x \<le> 1)"
  proof (cases p)
    case Nil
    with px show ?thesis by simp
  next
    case (Cons d p')
    with px have "cs = p' @ ''&#x'' @ x" by simp
    with px(2) show ?thesis unfolding open_reference_def by blast
  qed
next
  assume "open_reference cs \<or> (\<exists>x. c # cs = ''&#x'' @ x \<and> length x \<le> 1)"
  then show "open_reference (c # cs)"
  proof
    assume "open_reference cs"
    then obtain p x where "cs = p @ ''&#x'' @ x" "length x \<le> 1" unfolding open_reference_def by blast
    then have "c # cs = (c # p) @ ''&#x'' @ x \<and> length x \<le> 1" by simp
    then show ?thesis unfolding open_reference_def by blast
  next
    assume "\<exists>x. c # cs = ''&#x'' @ x \<and> length x \<le> 1"
    then obtain x where "c # cs = [] @ ''&#x'' @ x \<and> length x \<le> 1" by auto
    then show ?thesis unfolding open_reference_def by blast
  qed
qed

lemma open_reference_tail:
  assumes "5 < length (c # cs)" and "take 3 (c # cs) = ''&#x''" and "(c # cs) ! 5 = CHR '';''"
  shows "open_reference (c # cs) \<longleftrightarrow> open_reference (drop 5 cs)"
proof -
  have "\<exists>x1 x2 a b x5 t. cs = x1 # x2 # a # b # x5 # t"
    using assms(1) by (auto simp: Suc_le_length_iff numeral_eq_Suc less_eq_Suc_le)
  then obtain x1 x2 a b x5 t where cs: "cs = x1 # x2 # a # b # x5 # t" by blast
  with assms(2,3) have "c # cs = ''&#x'' @ [a, b, CHR '';''] @ t" by (simp add: numeral_eq_Suc)
  then have "c = CHR ''&''" "cs = ''#x'' @ [a, b, CHR '';''] @ t" by simp_all
  then show ?thesis by (auto simp: open_reference_Cons)
qed

lemma decode_references_None: "decode_references s = None \<longleftrightarrow> open_reference s"
proof (induction s rule: decode_references.induct)
  case 1
  then show ?case by (simp add: open_reference_def)
next
  case (2 c cs)
  show ?case
  proof (cases "take 3 (c # cs) = ''&#x''")
    case False
    then have "\<not> (\<exists>x. c # cs = ''&#x'' @ x \<and> length x \<le> 1)" by auto
    moreover have "decode_references (c # cs) = map_option (Cons c) (decode_references cs)" unfolding decode_references.simps using False by (simp only: if_False)
    ultimately show ?thesis using 2(3) [OF False] by (simp only: open_reference_Cons option.map_disc_iff) blast
  next
    case ref: True
    show ?thesis
    proof (cases "length (c # cs) < 5")
      case True
      have "c # cs = ''&#x'' @ drop 3 (c # cs)" using ref by (metis append_take_drop_id)
      moreover have "length (drop 3 (c # cs)) \<le> 1" using True by simp
      ultimately have "open_reference (c # cs)" unfolding open_reference_def by (metis append_Nil)
      with ref True show ?thesis by (simp only: decode_references.simps if_True simp_thms)
    next
      case long: False
      show ?thesis
      proof (cases "5 < length (c # cs) \<and> (c # cs) ! 5 = CHR '';''")
        case True
        then have "open_reference (c # cs) \<longleftrightarrow> open_reference (drop 5 cs)" using open_reference_tail [OF _ ref] by blast
        then show ?thesis using 2(1) [OF ref long True] ref long True
          by (simp only: decode_references.simps if_True if_False simp_thms option.map_disc_iff)
      next
        case False
        have "\<not> (\<exists>x. c # cs = ''&#x'' @ x \<and> length x \<le> 1)" using long by auto
        moreover have "decode_references (c # cs) = map_option (Cons c) (decode_references cs)" unfolding decode_references.simps
          using ref long False by (simp only: if_True if_False simp_thms)
        ultimately show ?thesis using 2(2) [OF ref long False] by (simp only: open_reference_Cons option.map_disc_iff) blast
      qed
    qed
  qed
qed

section \<open>The search in the page\<close>

text \<open>A character that can stand in the value of an attribute and is not the end of a line.\<close>

definition value_char :: "char \<Rightarrow> bool" where
  "value_char c \<longleftrightarrow> char_code c \<noteq> 34 \<and> char_code c \<noteq> 10 \<and> char_code c \<noteq> 13"

lemma value_char: "value_char c \<Longrightarrow> c \<noteq> char_of (34 :: nat) \<and> c \<noteq> CHR 0x0A \<and> c \<noteq> CHR 0x0D"
  by (auto simp: value_char_def char_code_def)

lemma match_group_spec:
  "list_all value_char g \<Longrightarrow> match_group (g @ saml_after @ post) = Some g"
proof (induction g)
  case Nil
  show ?case by (subst match_group.simps) (simp add: saml_after_def dquote_def)
next
  case (Cons c g)
  then have "take 3 (c # g @ saml_after @ post) \<noteq> saml_after"
    using value_char [of c] by (auto simp: saml_after_def dquote_def)
  with Cons show ?case using value_char [of c] by (subst match_group.simps) (simp del: take_Suc_Cons)
qed

lemma search_response_skips:
  "(\<And>i. i < length pre \<Longrightarrow> take (length saml_before) (drop i (pre @ rest)) \<noteq> saml_before) \<Longrightarrow>
   search_response (pre @ rest) = search_response rest"
proof (induction pre)
  case (Cons c pre)
  have "take (length saml_before) (drop i (pre @ rest)) \<noteq> saml_before" if "i < length pre" for i
    using Cons.prems [of "Suc i"] that by simp
  with Cons.IH have "search_response (pre @ rest) = search_response rest" by blast
  moreover have "take (length saml_before) (c # pre @ rest) \<noteq> saml_before" using Cons.prems [of 0] by simp
  ultimately show ?case by (subst search_response.simps) simp
qed simp

lemma search_response_found:
  assumes "\<And>i. i < length pre \<Longrightarrow>
      take (length saml_before) (drop i (pre @ saml_before @ g @ saml_after @ post)) \<noteq> saml_before"
    and "list_all value_char g"
  shows "search_response (pre @ saml_before @ g @ saml_after @ post) = Some g"
proof -
  have "search_response (saml_before @ g @ saml_after @ post) = Some g"
    by (subst search_response.simps) (simp add: match_group_spec [OF assms(2)])
  with search_response_skips [OF assms(1)] show ?thesis by simp
qed

lemma value_char_escaped:
  assumes "\<And>c. keep c \<Longrightarrow> value_char c"
  shows "list_all value_char (html_escape keep s)"
proof -
  have h: "value_char (hexdigit n)" if "n < 16" for n
  proof -
    have "char_code (hexdigit n) = (if n < 10 then 48 + n else 87 + n)"
      using that by (simp add: hexdigit_def char_code_def)
    then show ?thesis using that by (auto simp: value_char_def split: if_splits)
  qed
  have "list_all value_char (html_ref c)" for c
    using char_code_lt [of c] h [of "char_code c div 16"] h [of "char_code c mod 16"]
    by (simp add: html_ref_def less_mult_imp_div_less) (simp add: value_char_def char_code_def)
  then show ?thesis using assms by (induction s) (simp_all add: html_escape_def)
qed

section \<open>Providers\<close>

text \<open>The contract of the virtual function: with an assertion the error text is left alone.\<close>

locale saml_provider =
  fixes GetSAMLAssertion :: "string \<Rightarrow> (string \<times> string) option"
  assumes assertion_keeps_error: "GetSAMLAssertion e = Some (a, e') \<Longrightarrow> a \<noteq> [] \<Longrightarrow> e' = e"
begin

lemma credentials_outcome:
  assumes "GetAWSCredentials GetSAMLAssertion w cfg cr e = Some (ok, cr', e')"
  shows "ok \<longleftrightarrow> (\<exists>a. GetSAMLAssertion e = Some (a, e) \<and> a \<noteq> [] \<and> id_sts w (role_request cfg a) = Inr cr' \<and> e' = e)"
    and "ok \<or> cr' = cr"
proof -
  obtain a e1 where g: "GetSAMLAssertion e = Some (a, e1)"
    using assms by (cases "GetSAMLAssertion e") (auto simp: GetAWSCredentials_def)
  have "e1 = e" if "a \<noteq> []" using assertion_keeps_error [OF g that] .
  with g assms show "ok \<longleftrightarrow> (\<exists>a. GetSAMLAssertion e = Some (a, e) \<and> a \<noteq> [] \<and> id_sts w (role_request cfg a) = Inr cr' \<and> e' = e)"
    and "ok \<or> cr' = cr"
    by (auto simp: GetAWSCredentials_def FetchCredentialsWithSAMLAssertion_def split: if_splits sum.splits)
qed

end

interpretation okta: saml_provider "OktaAssertion w cfg" for w cfg
  by unfold_locales
    (auto simp: OktaAssertion_def GetSessionToken_def Let_def split: prod.splits if_splits option.splits sum.splits)

interpretation aad: saml_provider "\<lambda>e. Some (AADAssertion w cfg e)" for w cfg
  by unfold_locales
    (auto simp: AADAssertion_def GetAccessToken_def Let_def split: prod.splits if_splits option.splits sum.splits)

lemma provider_answer_credentials:
  assumes "provider_answer w t cfg = Some (c, info)" and "c \<noteq> empty_credentials"
  shows "\<exists>a. assertion_of t w cfg [] = Some (a, []) \<and> a \<noteq> [] \<and> id_sts w (role_request cfg a) = Inr c"
proof -
  obtain ok where ok: "GetAWSCredentials (assertion_of t w cfg) w cfg empty_credentials [] = Some (ok, c, info)"
    using assms(1) by (auto simp: provider_answer_def)
  show ?thesis
  proof (cases "t = OKTA")
    case True
    with ok okta.credentials_outcome [of w cfg w cfg empty_credentials "[]"] assms(2) show ?thesis
      by (auto simp: assertion_of_def)
  next
    case False
    with ok aad.credentials_outcome [of w cfg w cfg empty_credentials "[]"] assms(2) show ?thesis
      by (auto simp: assertion_of_def)
  qed
qed

section \<open>Properties\<close>

text \<open>An example: a page that escapes every letter, a token service that knows one assertion.\<close>

definition example_page :: string where
  "example_page = ''<form>'' @ saml_before @ html_escape (\<lambda>_. False) ''PHNhbWw+'' @ saml_after @ ''</form>''"

definition example_idp :: identity_services where
  "example_idp =
     \<lparr>id_http = (\<lambda>r. \<lparr>rs_code = 200, rs_clientError = None,
        rs_body = (if rq_method r = HTTP_GET then example_page else ''t'')\<rparr>),
      id_sts = (\<lambda>r. if sr_assertion r = ''PHNhbWw+''
        then Inr \<lparr>AWSAccessKeyId = ''k'', AWSSecretKey = ''s'', SessionToken = ''t''\<rparr>
        else Inl \<lparr>GetExceptionName = ''n'', GetMessage = ''m''\<rparr>),
      id_json = (\<lambda>b. Inr (\<lambda>_. Some b)), id_write = (\<lambda>_. []), id_urlencode = (\<lambda>s. s), id_encode = (\<lambda>s. s),
      id_decode = (\<lambda>s. s)\<rparr>"

definition example_login :: configuration where
  "example_login =
     SetAuthType OKTA (SetIdPHost ''idp'' (SetIdPUserName ''u'' (SetIdPPassword ''p'' (SetIdPArn ''a''
       (SetRoleArn ''r'' (SetOktaAppId ''x'' (DefaultConfiguration [])))))))"

lemma saml_before_ends: "take (length saml_before) (drop i (''<form>'' @ saml_before @ rest)) \<noteq> saml_before"
  if "i < 6"
proof -
  from that consider "i = 0" | "i = 1" | "i = 2" | "i = 3" | "i = 4" | "i = 5" by linarith
  then show ?thesis by cases (simp_all add: saml_before_def)
qed

lemma page_delivers_assertion:
  assumes "rs_code (id_http w (CreateSessionTokenReq w cfg)) = 200"
    and "id_json w (rs_body (id_http w (CreateSessionTokenReq w cfg))) = Inr view"
    and "view ''sessionToken'' = Some t" and "t \<noteq> []"
    and "rs_code (id_http w (saml_page_request cfg t)) = 200"
    and "rs_body (id_http w (saml_page_request cfg t)) = pre @ saml_before @ html_escape keep a @ saml_after @ post"
    and "\<And>i. i < length pre \<Longrightarrow>
      take (length saml_before) (drop i (rs_body (id_http w (saml_page_request cfg t)))) \<noteq> saml_before"
    and "\<And>c. keep c \<Longrightarrow> value_char c"
  shows "OktaAssertion w cfg e = Some (a, e)"
proof -
  have "GetSessionToken w cfg e = (t, e)" using assms(1-3) by (simp add: GetSessionToken_def Let_def)
  moreover have "search_response (rs_body (id_http w (saml_page_request cfg t))) = Some (html_escape keep a)"
    using search_response_found [of pre "html_escape keep a" post] assms(7) value_char_escaped [of keep a] assms(8)
    unfolding assms(6) by blast
  ultimately show ?thesis using assms(4,5) by (simp add: OktaAssertion_def DecodeNumericCharacters_escaped)
qed

lemma example_body:
  "rs_body (id_http example_idp (saml_page_request example_login ''t''))
     = ''<form>'' @ saml_before @ html_escape (\<lambda>_. False) ''PHNhbWw+'' @ saml_after @ ''</form>''"
  by (simp add: example_idp_def saml_page_request_def example_page_def)

lemma example_first:
  "i < length ''<form>'' \<Longrightarrow>
   take (length saml_before) (drop i (rs_body (id_http example_idp (saml_page_request example_login ''t'')))) \<noteq> saml_before"
  unfolding example_body by (rule saml_before_ends) simp

lemma example_okta: "OktaAssertion example_idp example_login [] = Some (''PHNhbWw+'', [])"
proof -
  show ?thesis
    by (rule page_delivers_assertion [OF _ _ _ _ _ example_body, where view = "\<lambda>_. Some ''t''"])
      (use example_first in \<open>simp_all add: example_idp_def CreateSessionTokenReq_def saml_page_request_def\<close>)
qed

text \<open> C13. The assertion that an Okta page carries in its escaped form arrives unescaped, whatever else stands on the
  page: the page escapes at least ampersands, quotes and the ends of lines, and the field is the first of its
  kind.\<close>

theorem okta_assertion_delivered:
  assumes "rs_code (id_http w (CreateSessionTokenReq w cfg)) = 200"
    and "id_json w (rs_body (id_http w (CreateSessionTokenReq w cfg))) = Inr view"
    and "view ''sessionToken'' = Some t" and "t \<noteq> []"
    and "rs_code (id_http w (saml_page_request cfg t)) = 200"
    and "rs_body (id_http w (saml_page_request cfg t)) = pre @ saml_before @ html_escape keep a @ saml_after @ post"
    and "\<And>i. i < length pre \<Longrightarrow>
      take (length saml_before) (drop i (rs_body (id_http w (saml_page_request cfg t)))) \<noteq> saml_before"
    and "\<And>c. keep c \<Longrightarrow> value_char c"
  shows "OktaAssertion w cfg e = Some (a, e)"
  using assms by (rule page_delivers_assertion)

theorem okta_assertion_delivered_witness: "OktaAssertion example_idp example_login [] = Some (''PHNhbWw+'', [])"
proof -
  show ?thesis
    by (rule okta_assertion_delivered [OF _ _ _ _ _ example_body, where view = "\<lambda>_. Some ''t''"])
      (use example_first in \<open>simp_all add: example_idp_def CreateSessionTokenReq_def saml_page_request_def\<close>)
qed

text \<open> The decoding of character references reads behind the end of a text exactly when it has at least six
  characters and a reference is opened at its end, with at most one character behind it.\<close>

theorem open_reference_overreads:
  "DecodeNumericCharacters s = None \<longleftrightarrow> 6 \<le> length s \<and> (\<exists>p x. s = p @ ''&#x'' @ x \<and> length x \<le> 1)"
  using decode_references_None [of s]
  by (simp add: DecodeNumericCharacters_def SINGLE_NUM_CHAR_REF_LENGTH_def open_reference_def not_less [symmetric])

text \<open> The assertion sent for an Azure AD token is the decoded token in the envelope of a successful response,
  and the token is decoded at a length that is a multiple of four.\<close>

theorem aad_assertion_form:
  assumes "AADAssertion w cfg e = (a, e')" and "a \<noteq> []" and "\<And>x. id_decode w (id_encode w x) = x"
  shows "\<exists>t. fst (GetAccessToken w cfg e) = t \<and> t \<noteq> [] \<and> e' = e
    \<and> id_decode w a = saml_response (id_decode w (pad_token t)) \<and> 4 dvd length (pad_token t)
    \<and> take (length t) (pad_token t) = t"
proof -
  have "4 dvd length (pad_token t)" for t :: string
    unfolding pad_token_def Let_def by simp presburger
  moreover have "take (length t) (pad_token t) = t" for t by (simp add: pad_token_def Let_def)
  moreover have "snd (GetAccessToken w cfg e) = e" if "fst (GetAccessToken w cfg e) \<noteq> []"
    using that by (auto simp: GetAccessToken_def Let_def split: if_splits option.splits sum.splits)
  ultimately show ?thesis using assms by (auto simp: AADAssertion_def split: prod.splits if_splits)
qed

theorem aad_assertion_form_witness:
  "id_decode example_idp (fst (AADAssertion example_idp example_login [])) = saml_response ''t===''"
proof -
  have "AADAssertion example_idp example_login [] = (saml_response ''t==='', [])"
    by (simp add: AADAssertion_def GetAccessToken_def example_idp_def token_request_def Let_def pad_token_def)
  moreover have "fst (GetAccessToken example_idp example_login []) = ''t''"
    by (simp add: GetAccessToken_def example_idp_def token_request_def Let_def)
  ultimately show ?thesis
    using aad_assertion_form [of example_idp example_login "[]" "saml_response ''t===''" "[]"]
    by (auto simp: example_idp_def pad_token_def saml_response_def)
qed

text \<open> C12. No connection through an identity provider without an assertion that the token service accepts: when
  establishing succeeds, the provider returned an assertion, the token service traded it for credentials, and
  with exactly these the service answered.\<close>

theorem connection_needs_assertion:
  assumes "GetValue (cf_authType cfg) = OKTA \<or> GetValue (cf_authType cfg) = AAD"
    and "provider_answer w (GetValue (cf_authType cfg)) cfg = Some (se_saml se (GetValue (cf_authType cfg)) cfg)"
    and "se_expired se empty_credentials"
    and "fst (EstablishWith se cfg cn) \<in> {AI_SUCCESS, AI_SUCCESS_WITH_INFO}"
  shows "\<exists>a c. assertion_of (GetValue (cf_authType cfg)) w cfg [] = Some (a, []) \<and> a \<noteq> []
    \<and> id_sts w (role_request cfg a) = Inr c
    \<and> se_try se c (client_configuration se cfg) (GetValue (cf_endpoint cfg)) = None"
proof -
  define c where "c = fst (get_credentials se cfg)"
  have "reachable_service se cfg"
    using assms(4) TryRestoreConnection_outcome(1) [of se cfg "cn\<lparr>cn_config := cfg\<rparr>"]
    by (auto simp: EstablishWith_def Let_def split: if_splits option.splits prod.splits)
  then have c: "\<not> se_expired se c" "se_try se c (client_configuration se cfg) (GetValue (cf_endpoint cfg)) = None"
    by (simp_all add: reachable_service_def c_def)
  have "get_credentials se cfg = se_saml se (GetValue (cf_authType cfg)) cfg"
    using assms(1) by (auto simp: get_credentials_def)
  then have "provider_answer w (GetValue (cf_authType cfg)) cfg = Some (c, snd (get_credentials se cfg))"
    using assms(2) by (simp add: c_def)
  moreover have "c \<noteq> empty_credentials" using c(1) assms(3) by auto
  ultimately show ?thesis using provider_answer_credentials c(2) by blast
qed

definition example_services :: services where
  "example_services =
     \<lparr>se_saml = (\<lambda>t cfg. the (provider_answer example_idp t cfg)), se_profile = (\<lambda>_. empty_credentials),
      se_expired = (\<lambda>c. AWSAccessKeyId c = []), se_default = undefined,
      se_try = (\<lambda>_ _ _. None), se_env = (\<lambda>_. []), se_agent = []\<rparr>"

theorem connection_needs_assertion_witness:
  "\<exists>a c. assertion_of OKTA example_idp example_login [] = Some (a, []) \<and> a \<noteq> []
    \<and> id_sts example_idp (role_request example_login a) = Inr c"
proof -
  have t: "GetValue (cf_authType example_login) = OKTA"
    by (simp add: example_login_def conf_simps)
  have p: "provider_answer example_idp OKTA example_login
      = Some (\<lparr>AWSAccessKeyId = ''k'', AWSSecretKey = ''s'', SessionToken = ''t''\<rparr>, [])"
    using example_okta by (simp add: provider_answer_def GetAWSCredentials_def assertion_of_def FetchCredentialsWithSAMLAssertion_def
        role_request_def example_idp_def)
  have "Validate example_login = None"
    by (simp add: Validate_def example_login_def conf_simps GetDSNUserName_def GetDSNPassword_def DefaultConfiguration_def)
  moreover have "TryRestoreConnection example_services example_login cn
      = (None, UpdateConnectionRuntimeInfo (cn\<lparr>samlCredProvider := True, queryClient := True\<rparr>))" for cn
    using t p by (simp add: TryRestoreConnection_def get_credentials_def example_services_def)
  ultimately have "fst (EstablishWith example_services example_login (NewConnection 0 (DefaultConfiguration []) [] []))
      \<in> {AI_SUCCESS, AI_SUCCESS_WITH_INFO}"
    by (simp add: EstablishWith_def NewConnection_def Let_def)
  with connection_needs_assertion [of example_login example_idp example_services] t p show ?thesis
    by (auto simp: example_services_def empty_credentials_def)
qed

end
