(* ===== verification/Log_Writer.thy ===== *)
theory Log_Writer
  imports Configuration "HOL-Library.Sublist"
begin

text \<open>
  The logger (\<^verbatim>\<open>src/log.cpp\<close>, \<^verbatim>\<open>include/timestream/odbc/log.h\<close>): the file it opens at the first message, the
  stream that may stand in for it, and the change of the directory while it runs. The other components
  know a logger only by its level and its path (record \<open>logger\<close>); that the logger of this theory implements
  that record is proved here, as is where its lines go.
\<close>

section \<open>The object\<close>

text \<open>A stream is the file of the logger or one that the caller brings. The state holds the logger and the lines
  written so far, by path and by foreign stream.\<close>

datatype log_stream = FileStream | OtherStream nat

record logging =
  lo_open :: "string option"
  lo_stream :: "log_stream option"
  lo_path :: string
  lo_level :: log_level
  lo_fileName :: string
  lo_filePath :: string
  lo_files :: "string \<Rightarrow> string list"
  lo_others :: "nat \<Rightarrow> string list"

text \<open>The platform: the variable for the home directory and the entry of the user, which paths are directories,
  and which files can be opened.\<close>

record log_platform =
  lp_home :: string
  lp_pwdir :: "string option"
  lp_isdir :: "string \<Rightarrow> bool"
  lp_opens :: "string \<Rightarrow> bool"

definition GetDefaultLogPath :: "log_platform \<Rightarrow> string" where
  "GetDefaultLogPath p =
     (let defPath = lp_home p;
          defPath = (if defPath = [] then (case lp_pwdir p of Some d \<Rightarrow> d | None \<Rightarrow> []) else defPath)
      in if defPath = [] then ''.'' else defPath)"

definition NewLogger :: "log_platform \<Rightarrow> logging" where
  "NewLogger p =
     \<lparr>lo_open = None, lo_stream = None, lo_path = GetDefaultLogPath p, lo_level = WARNING_LEVEL,
      lo_fileName = [], lo_filePath = [], lo_files = (\<lambda>_. []), lo_others = (\<lambda>_. [])\<rparr>"

definition CreateFileName :: "string \<Rightarrow> string" where
  "CreateFileName dateTime = ''timestream_odbc_'' @ dateTime @ ''.log''"

definition GetBaseFileName :: "string \<Rightarrow> string" where
  "GetBaseFileName s = (if CHR ''/'' \<in> set s then rev (takeWhile (\<lambda>c. c \<noteq> CHR ''/'') (rev s)) else [])"

definition SetLogStream :: "log_stream option \<Rightarrow> logging \<Rightarrow> logging" where
  "SetLogStream st s = s\<lparr>lo_stream := st\<rparr>"

definition LoggerSetLevel :: "log_level \<Rightarrow> logging \<Rightarrow> logging" where
  "LoggerSetLevel l s = s\<lparr>lo_level := l\<rparr>"

definition IsFileStreamOpen :: "logging \<Rightarrow> bool" where
  "IsFileStreamOpen s \<longleftrightarrow> lo_open s \<noteq> None"

definition IsEnabled :: "logging \<Rightarrow> bool" where
  "IsEnabled s \<longleftrightarrow> lo_stream s \<noteq> None \<and> (lo_stream s \<noteq> Some FileStream \<or> IsFileStreamOpen s)"

text \<open>The file is named once, by the day of its first line.\<close>

definition EnableLog :: "log_platform \<Rightarrow> string \<Rightarrow> logging \<Rightarrow> bool \<times> logging" where
  "EnableLog p day s0 =
     (let s1 = (if lo_stream s0 = None then SetLogStream (Some FileStream) s0 else s0);
          s2 = (if \<not> IsEnabled s1 \<and> lo_level s1 \<noteq> LOG_OFF \<and> lo_stream s1 = Some FileStream then
                  let s = (if lo_fileName s1 = [] then
                             s1\<lparr>lo_fileName := CreateFileName day, lo_filePath := lo_path s1 @ ''/'' @ CreateFileName day\<rparr>
                           else s1)
                  in s\<lparr>lo_open := (if lp_opens p (lo_filePath s) then Some (lo_filePath s) else None)\<rparr>
                else s1)
      in (IsEnabled s2, s2))"

definition WriteMessage :: "string \<Rightarrow> logging \<Rightarrow> logging" where
  "WriteMessage msg s =
     (if IsEnabled s then
        (case lo_stream s of
           Some (OtherStream n) \<Rightarrow> s\<lparr>lo_others := (lo_others s)(n := lo_others s n @ [msg])\<rparr>
         | _ \<Rightarrow> let f = the (lo_open s) in s\<lparr>lo_files := (lo_files s)(f := lo_files s f @ [msg])\<rparr>)
      else s)"

fun log_rank :: "log_level \<Rightarrow> nat" where
  "log_rank LOG_OFF = 0"
| "log_rank ERROR_LEVEL = 1"
| "log_rank WARNING_LEVEL = 2"
| "log_rank INFO_LEVEL = 3"
| "log_rank DEBUG_LEVEL = 4"
| "log_rank LogLevel_UNKNOWN = 5"

fun msg_prefix :: "log_level \<Rightarrow> string" where
  "msg_prefix DEBUG_LEVEL = ''DEBUG MSG: ''"
| "msg_prefix INFO_LEVEL = ''INFO MSG: ''"
| "msg_prefix WARNING_LEVEL = ''WARNING MSG: ''"
| "msg_prefix ERROR_LEVEL = ''ERROR MSG: ''"
| "msg_prefix _ = []"

text \<open>The macro that writes a line, with a stream to write it to instead of the current one. The moment of a line
  is the day, the head with the thread and the time, and the place in the source.\<close>

record moment =
  mo_day :: string
  mo_head :: string
  mo_place :: string

definition log_line :: "moment \<Rightarrow> log_level \<Rightarrow> string \<Rightarrow> string" where
  "log_line t l param = mo_head t @ msg_prefix l @ '' '' @ mo_place t @ param"

definition WRITE_MSG_TO_STREAM ::
  "log_platform \<Rightarrow> moment \<Rightarrow> string \<Rightarrow> log_level \<Rightarrow> nat option \<Rightarrow> logging \<Rightarrow> logging" where
  "WRITE_MSG_TO_STREAM p t param logLevel logStream s0 =
     (if log_rank logLevel \<le> log_rank (lo_level s0) then
        let (ok, s) = (if IsEnabled s0 then (True, s0) else EnableLog p (mo_day t) s0)
        in if ok then
             (case logStream of
                None \<Rightarrow> WriteMessage (log_line t logLevel param) s
              | Some n \<Rightarrow> SetLogStream (lo_stream s)
                  (WriteMessage (log_line t logLevel param) (SetLogStream (Some (OtherStream n)) s)))
           else s
      else s0)"

definition write_log :: "log_platform \<Rightarrow> moment \<Rightarrow> log_level \<Rightarrow> string \<Rightarrow> logging \<Rightarrow> logging" where
  "write_log p t l param = WRITE_MSG_TO_STREAM p t param l None"

definition LoggerSetPath :: "log_platform \<Rightarrow> moment \<Rightarrow> string \<Rightarrow> logging \<Rightarrow> logging" where
  "LoggerSetPath p t path s =
     (if lo_path s = path then
        write_log p t DEBUG_LEVEL (''WARNING: SetLogPath is called with the existing path string. ''
          @ ''SetLogPath should only be called once in normal circumstances aside from testing.'') s
      else if \<not> lp_isdir p path then s
      else
        let oldLogFilePath = lo_filePath s;
            s1 = s\<lparr>lo_path := path\<rparr>;
            s2 = (if IsEnabled s1 \<and> lo_level s1 \<noteq> LOG_OFF then
                    write_log p t INFO_LEVEL
                      (''Previously logged information is stored in log file '' @ oldLogFilePath)
                      ((write_log p t INFO_LEVEL (''Reset log path: Log path is changed to '' @ path
                          @ ''. Log file is in format timestream_odbc_YYYYMMDD.log'') s1)
                       \<lparr>lo_open := None, lo_fileName := []\<rparr>)
                  else s1)
        in SetLogStream (Some FileStream) s2)"

section \<open>Uses of a logger\<close>

datatype log_use =
  Use_Level log_level
| Use_Path moment string
| Use_Stream "log_stream option"
| Use_Write moment log_level string "nat option"

fun use_logger :: "log_platform \<Rightarrow> log_use \<Rightarrow> logging \<Rightarrow> logging" where
  "use_logger p (Use_Level l) s = LoggerSetLevel l s"
| "use_logger p (Use_Path t path) s = LoggerSetPath p t path s"
| "use_logger p (Use_Stream st) s = SetLogStream st s"
| "use_logger p (Use_Write t l param st) s = WRITE_MSG_TO_STREAM p t param l st s"

inductive used :: "log_platform \<Rightarrow> logging \<Rightarrow> bool" for p where
  new: "used p (NewLogger p)"
| use: "used p s \<Longrightarrow> used p (use_logger p u s)"

section \<open>Frames\<close>

named_theorems log_simps \<open>what the operations of a logger leave alone\<close>

lemma stream_frame [log_simps]:
  "lo_open (SetLogStream st s) = lo_open s" "lo_stream (SetLogStream st s) = st" "lo_path (SetLogStream st s) = lo_path s"
  "lo_level (SetLogStream st s) = lo_level s" "lo_fileName (SetLogStream st s) = lo_fileName s"
  "lo_filePath (SetLogStream st s) = lo_filePath s" "lo_files (SetLogStream st s) = lo_files s"
  "lo_others (SetLogStream st s) = lo_others s"
  by (simp_all add: SetLogStream_def)

lemma message_frame [log_simps]:
  "lo_open (WriteMessage msg s) = lo_open s" "lo_stream (WriteMessage msg s) = lo_stream s"
  "lo_path (WriteMessage msg s) = lo_path s" "lo_level (WriteMessage msg s) = lo_level s"
  "lo_fileName (WriteMessage msg s) = lo_fileName s" "lo_filePath (WriteMessage msg s) = lo_filePath s"
  by (simp_all add: WriteMessage_def Let_def split: option.splits log_stream.splits)

lemma enable_frame [log_simps]:
  "lo_path (snd (EnableLog p d s)) = lo_path s" "lo_level (snd (EnableLog p d s)) = lo_level s"
  "lo_files (snd (EnableLog p d s)) = lo_files s" "lo_others (snd (EnableLog p d s)) = lo_others s"
  by (simp_all add: EnableLog_def Let_def log_simps)

text \<open>The logger a line is written with.\<close>

definition ready :: "log_platform \<Rightarrow> moment \<Rightarrow> logging \<Rightarrow> logging" where
  "ready p t s = (if IsEnabled s then s else snd (EnableLog p (mo_day t) s))"

lemma write_unfold:
  "WRITE_MSG_TO_STREAM p t param l st s =
     (if log_rank l \<le> log_rank (lo_level s) then
        if IsEnabled (ready p t s) then
          (case st of
             None \<Rightarrow> WriteMessage (log_line t l param) (ready p t s)
           | Some n \<Rightarrow> SetLogStream (lo_stream (ready p t s))
               (WriteMessage (log_line t l param) (SetLogStream (Some (OtherStream n)) (ready p t s))))
        else ready p t s
      else s)"
proof -
  have "fst (EnableLog p d s) = IsEnabled (snd (EnableLog p d s))" for d by (simp add: EnableLog_def Let_def)
  then show ?thesis by (cases st) (simp_all add: WRITE_MSG_TO_STREAM_def ready_def case_prod_beta)
qed

lemma ready_frame [log_simps]:
  "lo_path (ready p t s) = lo_path s" "lo_level (ready p t s) = lo_level s"
  "lo_files (ready p t s) = lo_files s" "lo_others (ready p t s) = lo_others s"
  by (simp_all add: ready_def log_simps)

lemma write_frame [log_simps]:
  "lo_path (WRITE_MSG_TO_STREAM p t param l st s) = lo_path s"
  "lo_level (WRITE_MSG_TO_STREAM p t param l st s) = lo_level s"
  by (simp_all add: write_unfold log_simps split: option.splits)

section \<open>The record the other components use\<close>

definition logger_of :: "logging \<Rightarrow> logger" where
  "logger_of s = \<lparr>lg_level = lo_level s, lg_path = lo_path s\<rparr>"

text \<open> C22. The logger implements the record of its level and its path by which the configuration knows it: setting
  the path and the level are the operations on the record, and writing lines does not change it.\<close>

theorem logger_refines_record:
  "logger_of (LoggerSetPath p t path s) = snd (SetLogPath (lp_isdir p) path (c, logger_of s))
   \<and> snd (SetLogLevel l (c, logger_of s)) = (if l = LogLevel_UNKNOWN then logger_of s else logger_of (LoggerSetLevel l s))
   \<and> logger_of (WRITE_MSG_TO_STREAM p t param l st s) = logger_of s
   \<and> logger_of (SetLogStream out s) = logger_of s"
proof -
  have "lo_level (LoggerSetPath p t path s) = lo_level s \<and>
      lo_path (LoggerSetPath p t path s) = (if lp_isdir p path then path else lo_path s)"
    by (simp add: LoggerSetPath_def Let_def write_log_def log_simps)
  then show ?thesis by (simp add: logger_of_def SetLogPath_def SetLogLevel_def LoggerSetLevel_def log_simps)
qed

section \<open>Where the lines go\<close>

lemma message_grows:
  "prefix (lo_files s f) (lo_files (WriteMessage msg s) f) \<and> prefix (lo_others s n) (lo_others (WriteMessage msg s) n)"
  by (simp add: WriteMessage_def Let_def split: option.splits log_stream.splits)

lemma write_grows:
  "prefix (lo_files s f) (lo_files (WRITE_MSG_TO_STREAM p t param l st s) f)
    \<and> prefix (lo_others s n) (lo_others (WRITE_MSG_TO_STREAM p t param l st s) n)"
proof -
  have "prefix (lo_files s f) (lo_files (WriteMessage m s') f) \<and> prefix (lo_others s n) (lo_others (WriteMessage m s') n)"
    if "lo_files s' = lo_files s" "lo_others s' = lo_others s" for s' m
    using message_grows [of s' f m n] that by simp
  from this [of "ready p t s"] this [of "SetLogStream st' (ready p t s)" for st'] show ?thesis
    by (auto simp: write_unfold log_simps split: option.splits)
qed

lemma use_grows:
  "prefix (lo_files s f) (lo_files (use_logger p u s) f) \<and> prefix (lo_others s n) (lo_others (use_logger p u s) n)"
proof (cases u)
  case (Use_Path t path)
  define w1 where "w1 = (\<lambda>m s. WRITE_MSG_TO_STREAM p t m INFO_LEVEL None s)"
  have g: "prefix (lo_files s f) (lo_files (w1 m2 ((w1 m1 s')\<lparr>lo_open := None, lo_fileName := []\<rparr>)) f)
      \<and> prefix (lo_others s n) (lo_others (w1 m2 ((w1 m1 s')\<lparr>lo_open := None, lo_fileName := []\<rparr>)) n)"
    if "lo_files s' = lo_files s" "lo_others s' = lo_others s" for s' m1 m2
    using write_grows [of s' f p t m1 INFO_LEVEL None n]
      write_grows [of "(w1 m1 s')\<lparr>lo_open := None, lo_fileName := []\<rparr>" f p t m2 INFO_LEVEL None n] that
    by (auto simp: w1_def intro: prefix_order.order_trans)
  show ?thesis
    using g [of "s\<lparr>lo_path := path\<rparr>"] write_grows [of s f p t _ DEBUG_LEVEL None n]
    by (simp add: Use_Path LoggerSetPath_def Let_def write_log_def log_simps w1_def)
next
  case (Use_Write t l param st)
  then show ?thesis using write_grows by simp
qed (simp_all add: LoggerSetLevel_def log_simps)

text \<open> Nothing that is done with a logger removes or changes a line that was written: every file and every
  stream only grows.\<close>

theorem written_lines_stay:
  "prefix (lo_files s f) (lo_files (fold (use_logger p) us s) f)
    \<and> prefix (lo_others s n) (lo_others (fold (use_logger p) us s) n)"
proof (induction us arbitrary: s)
  case (Cons u us)
  show ?case using Cons [of "use_logger p u s"] use_grows [of s f p u n] by (auto intro: prefix_order.order_trans)
qed simp

text \<open>The file an open logger has is the one it named.\<close>

definition log_ok :: "logging \<Rightarrow> bool" where
  "log_ok s \<longleftrightarrow> (\<forall>f. lo_open s = Some f \<longrightarrow> f = lo_filePath s \<and> lo_fileName s \<noteq> [])"

lemma enable_ok: "log_ok s \<Longrightarrow> log_ok (snd (EnableLog p d s))"
  by (auto simp: log_ok_def EnableLog_def Let_def IsEnabled_def IsFileStreamOpen_def CreateFileName_def log_simps)

lemma write_ok: "log_ok s \<Longrightarrow> log_ok (WRITE_MSG_TO_STREAM p t param l st s)"
  using enable_ok [of s p "mo_day t"]
  by (auto simp: write_unfold ready_def log_ok_def log_simps split: option.splits)

lemma used_ok: "used p s \<Longrightarrow> log_ok s"
proof (induction rule: used.induct)
  case new
  show ?case by (simp add: log_ok_def NewLogger_def)
next
  case (use s u)
  show ?case
  proof (cases u)
    case (Use_Path t path)
    have "log_ok (s\<lparr>lo_path := path\<rparr>)" using use.IH by (simp add: log_ok_def)
    moreover have "log_ok (s'\<lparr>lo_open := None, lo_fileName := []\<rparr>)" for s' :: logging by (simp add: log_ok_def)
    moreover have "log_ok (SetLogStream st s') \<longleftrightarrow> log_ok s'" for st s' by (simp add: log_ok_def log_simps)
    ultimately show ?thesis using use.IH
      by (auto simp: Use_Path LoggerSetPath_def Let_def write_log_def intro!: write_ok)
  next
    case (Use_Write t l param st)
    then show ?thesis using use.IH write_ok by simp
  qed (use use.IH in \<open>auto simp: log_ok_def LoggerSetLevel_def log_simps\<close>)
qed

text \<open>The file the next line goes to.\<close>

definition log_target :: "string \<Rightarrow> logging \<Rightarrow> string" where
  "log_target day s =
     (case lo_open s of
        Some f \<Rightarrow> f
      | None \<Rightarrow> if lo_fileName s = [] then lo_path s @ ''/'' @ CreateFileName day else lo_filePath s)"

definition to_file :: "logging \<Rightarrow> bool" where
  "to_file s \<longleftrightarrow> lo_stream s = None \<or> lo_stream s = Some FileStream"

lemma ready_to_file:
  assumes "to_file s" and "lo_level s \<noteq> LOG_OFF" and "lp_opens p (log_target (mo_day t) s)"
  shows "IsEnabled (ready p t s)" and "lo_stream (ready p t s) = Some FileStream"
    and "lo_open (ready p t s) = Some (log_target (mo_day t) s)"
  using assms
  by (auto simp: to_file_def ready_def EnableLog_def IsEnabled_def IsFileStreamOpen_def log_target_def Let_def
      CreateFileName_def log_simps split: option.splits)

lemma write_log_line:
  assumes "to_file s" and "l \<noteq> LOG_OFF" and "log_rank l \<le> log_rank (lo_level s)"
    and "lp_opens p (log_target (mo_day t) s)"
  defines "f \<equiv> log_target (mo_day t) s"
  shows "lo_files (write_log p t l param s) = (lo_files s)(f := lo_files s f @ [log_line t l param])"
    and "lo_others (write_log p t l param s) = lo_others s" and "lo_open (write_log p t l param s) = Some f"
    and "lo_stream (write_log p t l param s) = Some FileStream"
proof -
  have "lo_level s \<noteq> LOG_OFF" using assms(2,3) by (cases l) auto
  note R = ready_to_file [OF assms(1) this assms(4)]
  show "lo_files (write_log p t l param s) = (lo_files s)(f := lo_files s f @ [log_line t l param])"
    and "lo_others (write_log p t l param s) = lo_others s" and "lo_open (write_log p t l param s) = Some f"
    and "lo_stream (write_log p t l param s) = Some FileStream"
    using R assms(3) by (simp_all add: write_log_def write_unfold WriteMessage_def f_def Let_def log_simps)
qed

text \<open> A line of a level that is switched on is appended once, to the file of the logger and to nothing else; a
  line of a level that is not is not written, and nothing is opened for it.\<close>

theorem line_goes_to_the_file:
  assumes "to_file s" and "l \<noteq> LOG_OFF" and "lp_opens p (log_target (mo_day t) s)"
  shows "if log_rank l \<le> log_rank (lo_level s)
    then lo_files (write_log p t l param s) (log_target (mo_day t) s)
           = lo_files s (log_target (mo_day t) s) @ [log_line t l param]
      \<and> (\<forall>g. g = log_target (mo_day t) s \<or> lo_files (write_log p t l param s) g = lo_files s g)
      \<and> lo_others (write_log p t l param s) = lo_others s
    else write_log p t l param s = s"
  using write_log_line [OF assms(1,2) _ assms(3), of param]
  by (simp add: write_log_def write_unfold)

definition example_platform :: log_platform where
  "example_platform = \<lparr>lp_home = ''/h'', lp_pwdir = None, lp_isdir = (\<lambda>d. d = ''/l''), lp_opens = (\<lambda>_. True)\<rparr>"

definition example_moment :: moment where
  "example_moment = \<lparr>mo_day = ''20240131'', mo_head = ''T '', mo_place = ''a.cpp:1 f: ''\<rparr>"

theorem line_goes_to_the_file_witness:
  "lo_files (write_log example_platform example_moment ERROR_LEVEL ''x'' (NewLogger example_platform))
      ''/h/timestream_odbc_20240131.log'' = [''T ERROR MSG:  a.cpp:1 f: x'']
    \<and> write_log example_platform example_moment DEBUG_LEVEL ''x'' (NewLogger example_platform) = NewLogger example_platform"
proof -
  have t: "log_target (mo_day example_moment) (NewLogger example_platform) = ''/h/timestream_odbc_20240131.log''"
    by (simp add: log_target_def NewLogger_def GetDefaultLogPath_def example_platform_def example_moment_def CreateFileName_def)
  have n: "to_file (NewLogger example_platform)" "lo_level (NewLogger example_platform) = WARNING_LEVEL"
    "lo_files (NewLogger example_platform) = (\<lambda>_. [])" "lp_opens example_platform f" for f
    by (simp_all add: to_file_def NewLogger_def example_platform_def)
  have l: "log_line example_moment ERROR_LEVEL ''x'' = ''T ERROR MSG:  a.cpp:1 f: x''"
    by (simp add: log_line_def example_moment_def)
  show ?thesis
    using line_goes_to_the_file [of "NewLogger example_platform" ERROR_LEVEL example_platform example_moment "''x''"]
      line_goes_to_the_file [of "NewLogger example_platform" DEBUG_LEVEL example_platform example_moment "''x''"] t n l
    by simp
qed

text \<open>What a change of the path leaves behind.\<close>

lemma LoggerSetPath_target:
  fixes t :: moment
  assumes "used p s" and "to_file s" and "lp_isdir p path" and "path \<noteq> lo_path s" and "\<And>f. lp_opens p f"
  defines "s' \<equiv> LoggerSetPath p t path s"
  shows "to_file s'" and "lo_path s' = path" and "lo_level s' = lo_level s"
    and "log_target day s' =
      (if lo_fileName s = [] \<or> IsEnabled s \<and> lo_level s \<noteq> LOG_OFF
       then path @ ''/'' @ CreateFileName (if IsEnabled s \<and> 3 \<le> log_rank (lo_level s) then mo_day t else day)
       else log_target day s)"
proof -
  show "to_file s'" "lo_path s' = path" "lo_level s' = lo_level s"
    using assms(3,4) by (simp_all add: s'_def LoggerSetPath_def to_file_def Let_def write_log_def log_simps)
  have ok: "log_ok s" using used_ok assms(1) by blast
  consider "\<not> (IsEnabled s \<and> lo_level s \<noteq> LOG_OFF)" | "IsEnabled s" "lo_level s \<noteq> LOG_OFF" by blast
  then show "log_target day s' =
      (if lo_fileName s = [] \<or> IsEnabled s \<and> lo_level s \<noteq> LOG_OFF
       then path @ ''/'' @ CreateFileName (if IsEnabled s \<and> 3 \<le> log_rank (lo_level s) then mo_day t else day)
       else log_target day s)"
  proof cases
    case 1
    have "\<not> IsEnabled (s\<lparr>lo_path := path\<rparr>) \<or> lo_level (s\<lparr>lo_path := path\<rparr>) = LOG_OFF"
      using 1 by (auto simp: IsEnabled_def IsFileStreamOpen_def)
    then have "s' = SetLogStream (Some FileStream) (s\<lparr>lo_path := path\<rparr>)"
      using assms(3,4) by (auto simp: s'_def LoggerSetPath_def Let_def)
    with 1 ok show ?thesis
      by (auto simp: log_target_def log_ok_def log_simps split: option.splits)
  next
    case 2
    define s1 where "s1 = s\<lparr>lo_path := path\<rparr>"
    define a where "a = write_log p t INFO_LEVEL (''Reset log path: Log path is changed to '' @ path
                          @ ''. Log file is in format timestream_odbc_YYYYMMDD.log'') s1"
    define b where "b = a\<lparr>lo_open := None, lo_fileName := []\<rparr>"
    have e: "IsEnabled s1" using 2 by (simp add: s1_def IsEnabled_def IsFileStreamOpen_def)
    have s': "s' = SetLogStream (Some FileStream)
        (write_log p t INFO_LEVEL (''Previously logged information is stored in log file '' @ lo_filePath s) b)"
      using assms(3,4) 2 e by (simp add: s'_def LoggerSetPath_def Let_def a_def b_def s1_def)
    have b: "lo_path b = path" "lo_level b = lo_level s" "lo_open b = None" "lo_fileName b = []"
      by (simp_all add: b_def a_def s1_def write_log_def log_simps)
    have f: "to_file b" using assms(2) e
      by (auto simp: b_def a_def s1_def to_file_def write_log_def write_unfold ready_def IsEnabled_def IsFileStreamOpen_def log_simps
          split: option.splits log_stream.splits)
    have t: "log_target d b = path @ ''/'' @ CreateFileName d" for d by (simp add: log_target_def b)
    show ?thesis
    proof (cases "3 \<le> log_rank (lo_level s)")
      case True
      then have "lo_open (write_log p t INFO_LEVEL m b) = Some (log_target (mo_day t) b)" for m
        using write_log_line(3) [OF f, of INFO_LEVEL p t m] assms(5) b(2) by simp
      then show ?thesis using 2 True t by (simp add: s' log_target_def log_simps)
    next
      case False
      then have "write_log p t INFO_LEVEL m b = b" for m by (simp add: write_log_def write_unfold b)
      then show ?thesis using 2 False by (simp add: s' log_target_def b log_simps)
    qed
  qed
qed

text \<open> C21. After a change of the path the next line goes to a file under the new path if the logger was writing or
  had not named a file yet; if it had an open file but was switched off, the lines that follow go to the
  file under the old path, although the logger reports the new one.\<close>

theorem path_change:
  assumes "used p s" and "to_file s" and "lp_isdir p path" and "path \<noteq> lo_path s" and "\<And>f. lp_opens p f"
    and "l \<noteq> LOG_OFF" and "log_rank l \<le> log_rank k"
  shows "\<exists>day f. f = (if lo_fileName s = [] \<or> IsEnabled s \<and> lo_level s \<noteq> LOG_OFF
        then path @ ''/'' @ CreateFileName day else log_target (mo_day t') s)
    \<and> last (lo_files (write_log p t' l param (LoggerSetLevel k (LoggerSetPath p t path s))) f) = log_line t' l param
    \<and> lo_path (LoggerSetPath p t path s) = path"
proof -
  define s' where "s' = LoggerSetLevel k (LoggerSetPath p t path s)"
  note T = LoggerSetPath_target [OF assms(1-5), where t = t]
  have t: "log_target d s' = log_target d (LoggerSetPath p t path s)" for d
    by (simp add: s'_def log_target_def LoggerSetLevel_def split: option.splits)
  have "to_file s'" "log_rank l \<le> log_rank (lo_level s')"
    using T(1) assms(7) by (simp_all add: s'_def LoggerSetLevel_def to_file_def)
  from write_log_line(1) [OF this(1) assms(6) this(2) assms(5), of t' param]
  have "last (lo_files (write_log p t' l param s') (log_target (mo_day t') s')) = log_line t' l param" by simp
  with T(2) show ?thesis unfolding s'_def [symmetric] t T(4)
    by (cases "lo_fileName s = [] \<or> IsEnabled s \<and> lo_level s \<noteq> LOG_OFF") (auto intro: exI)
qed

text \<open>A logger that wrote a line and was switched off.\<close>

definition off_logger :: logging where
  "off_logger = LoggerSetLevel LOG_OFF
     (write_log example_platform example_moment ERROR_LEVEL ''x'' (NewLogger example_platform))"

theorem path_change_witness:
  "last (lo_files (write_log example_platform example_moment ERROR_LEVEL ''y''
      (LoggerSetLevel DEBUG_LEVEL (LoggerSetPath example_platform example_moment ''/l'' off_logger)))
      ''/h/timestream_odbc_20240131.log'') = ''T ERROR MSG:  a.cpp:1 f: y''"
proof -
  have u: "used example_platform off_logger"
    using used.use [OF used.use [OF used.new [of example_platform], of "Use_Write example_moment ERROR_LEVEL ''x'' None"],
        of "Use_Level LOG_OFF"]
    by (simp add: off_logger_def write_log_def)
  have o: "lo_open off_logger = Some ''/h/timestream_odbc_20240131.log''" "to_file off_logger"
    "lo_path off_logger = ''/h''" "lo_level off_logger = LOG_OFF" "lo_fileName off_logger \<noteq> []"
    by (simp_all add: off_logger_def write_log_def write_unfold ready_def EnableLog_def Let_def NewLogger_def WriteMessage_def
        LoggerSetLevel_def IsEnabled_def IsFileStreamOpen_def SetLogStream_def GetDefaultLogPath_def CreateFileName_def
        example_platform_def example_moment_def to_file_def)
  have p: "lp_isdir example_platform ''/l''" "lp_opens example_platform f" for f by (simp_all add: example_platform_def)
  have l: "log_line example_moment ERROR_LEVEL ''y'' = ''T ERROR MSG:  a.cpp:1 f: y''"
    by (simp add: log_line_def example_moment_def)
  have "log_target (mo_day example_moment) off_logger = ''/h/timestream_odbc_20240131.log''"
    using o(1) by (simp add: log_target_def)
  then show ?thesis
    using path_change [OF u o(2) p(1) _ p(2), of ERROR_LEVEL DEBUG_LEVEL example_moment "''y''" example_moment] o(3-5) l
    by auto
qed

end
