(* ===== verification/Info_Names.thy ===== *)
theory Info_Names
  imports Connection_Info
begin

text \<open>
  The names of the information types for the log (\<^verbatim>\<open>InfoTypeToString\<close> of \<^verbatim>\<open>src/config/connection_info.cpp\<close>), in the order
  of the source, and that exactly the types with an answer have one, and one type without an answer.
\<close>

abbreviation (input) SQL_DTC_TRANSITION_COST :: int where "SQL_DTC_TRANSITION_COST \<equiv> 1750"

definition info_names_1 :: "(int \<times> string) list" where
  "info_names_1 =
     [(SQL_ACCESSIBLE_PROCEDURES, ''SQL_ACCESSIBLE_PROCEDURES''), (SQL_ACCESSIBLE_TABLES, ''SQL_ACCESSIBLE_TABLES''),
      (SQL_ACTIVE_ENVIRONMENTS, ''SQL_ACTIVE_ENVIRONMENTS''), (SQL_DRIVER_NAME, ''SQL_DRIVER_NAME''),
      (SQL_DBMS_NAME, ''SQL_DBMS_NAME''), (SQL_DRIVER_ODBC_VER, ''SQL_DRIVER_ODBC_VER''),
      (SQL_DBMS_VER, ''SQL_DBMS_VER''), (SQL_DRIVER_VER, ''SQL_DRIVER_VER''),
      (SQL_COLUMN_ALIAS, ''SQL_COLUMN_ALIAS''), (SQL_IDENTIFIER_QUOTE_CHAR, ''SQL_IDENTIFIER_QUOTE_CHAR''),
      (SQL_CATALOG_NAME_SEPARATOR, ''SQL_CATALOG_NAME_SEPARATOR''),
      (SQL_SPECIAL_CHARACTERS, ''SQL_SPECIAL_CHARACTERS''), (SQL_CATALOG_TERM, ''SQL_CATALOG_TERM''),
      (SQL_TABLE_TERM, ''SQL_TABLE_TERM''), (SQL_SCHEMA_TERM, ''SQL_SCHEMA_TERM''),
      (SQL_NEED_LONG_DATA_LEN, ''SQL_NEED_LONG_DATA_LEN''), (SQL_ASYNC_DBC_FUNCTIONS, ''SQL_ASYNC_DBC_FUNCTIONS''),
      (SQL_ASYNC_NOTIFICATION, ''SQL_ASYNC_NOTIFICATION''), (SQL_GETDATA_EXTENSIONS, ''SQL_GETDATA_EXTENSIONS''),
      (SQL_ODBC_INTERFACE_CONFORMANCE, ''SQL_ODBC_INTERFACE_CONFORMANCE''),
      (SQL_SQL_CONFORMANCE, ''SQL_SQL_CONFORMANCE''), (SQL_CATALOG_USAGE, ''SQL_CATALOG_USAGE''),
      (SQL_SCHEMA_USAGE, ''SQL_SCHEMA_USAGE''), (SQL_MAX_IDENTIFIER_LEN, ''SQL_MAX_IDENTIFIER_LEN''),
      (SQL_AGGREGATE_FUNCTIONS, ''SQL_AGGREGATE_FUNCTIONS''), (SQL_NUMERIC_FUNCTIONS, ''SQL_NUMERIC_FUNCTIONS''),
      (SQL_STRING_FUNCTIONS, ''SQL_STRING_FUNCTIONS''), (SQL_TIMEDATE_FUNCTIONS, ''SQL_TIMEDATE_FUNCTIONS''),
      (SQL_TIMEDATE_ADD_INTERVALS, ''SQL_TIMEDATE_ADD_INTERVALS''),
      (SQL_TIMEDATE_DIFF_INTERVALS, ''SQL_TIMEDATE_DIFF_INTERVALS''),
      (SQL_DATETIME_LITERALS, ''SQL_DATETIME_LITERALS''), (SQL_SYSTEM_FUNCTIONS, ''SQL_SYSTEM_FUNCTIONS''),
      (SQL_CONVERT_FUNCTIONS, ''SQL_CONVERT_FUNCTIONS''), (SQL_OJ_CAPABILITIES, ''SQL_OJ_CAPABILITIES''),
      (SQL_POS_OPERATIONS, ''SQL_POS_OPERATIONS''),
      (SQL_MAX_CONCURRENT_ACTIVITIES, ''SQL_MAX_CONCURRENT_ACTIVITIES''), (SQL_TXN_CAPABLE, ''SQL_TXN_CAPABLE''),
      (SQL_QUOTED_IDENTIFIER_CASE, ''SQL_QUOTED_IDENTIFIER_CASE''),
      (SQL_SQL92_NUMERIC_VALUE_FUNCTIONS, ''SQL_SQL92_NUMERIC_VALUE_FUNCTIONS''),
      (SQL_SQL92_STRING_FUNCTIONS, ''SQL_SQL92_STRING_FUNCTIONS''),
      (SQL_SQL92_DATETIME_FUNCTIONS, ''SQL_SQL92_DATETIME_FUNCTIONS''),
      (SQL_SQL92_PREDICATES, ''SQL_SQL92_PREDICATES''),
      (SQL_SQL92_RELATIONAL_JOIN_OPERATORS, ''SQL_SQL92_RELATIONAL_JOIN_OPERATORS''),
      (SQL_SQL92_VALUE_EXPRESSIONS, ''SQL_SQL92_VALUE_EXPRESSIONS''),
      (SQL_STATIC_CURSOR_ATTRIBUTES1, ''SQL_STATIC_CURSOR_ATTRIBUTES1'')]"

definition info_names_2 :: "(int \<times> string) list" where
  "info_names_2 =
     [(SQL_STATIC_CURSOR_ATTRIBUTES2, ''SQL_STATIC_CURSOR_ATTRIBUTES2''),
      (SQL_CONVERT_BIGINT, ''SQL_CONVERT_BIGINT''), (SQL_CONVERT_BINARY, ''SQL_CONVERT_BINARY''),
      (SQL_CONVERT_BIT, ''SQL_CONVERT_BIT''), (SQL_CONVERT_CHAR, ''SQL_CONVERT_CHAR''),
      (SQL_CONVERT_DATE, ''SQL_CONVERT_DATE''), (SQL_CONVERT_DECIMAL, ''SQL_CONVERT_DECIMAL''),
      (SQL_CONVERT_DOUBLE, ''SQL_CONVERT_DOUBLE''), (SQL_CONVERT_FLOAT, ''SQL_CONVERT_FLOAT''),
      (SQL_CONVERT_INTEGER, ''SQL_CONVERT_INTEGER''), (SQL_CONVERT_LONGVARCHAR, ''SQL_CONVERT_LONGVARCHAR''),
      (SQL_CONVERT_NUMERIC, ''SQL_CONVERT_NUMERIC''), (SQL_CONVERT_REAL, ''SQL_CONVERT_REAL''),
      (SQL_CONVERT_SMALLINT, ''SQL_CONVERT_SMALLINT''), (SQL_CONVERT_TIME, ''SQL_CONVERT_TIME''),
      (SQL_CONVERT_TIMESTAMP, ''SQL_CONVERT_TIMESTAMP''), (SQL_CONVERT_TINYINT, ''SQL_CONVERT_TINYINT''),
      (SQL_CONVERT_VARBINARY, ''SQL_CONVERT_VARBINARY''), (SQL_CONVERT_VARCHAR, ''SQL_CONVERT_VARCHAR''),
      (SQL_CONVERT_LONGVARBINARY, ''SQL_CONVERT_LONGVARBINARY''), (SQL_CONVERT_WCHAR, ''SQL_CONVERT_WCHAR''),
      (SQL_CONVERT_INTERVAL_DAY_TIME, ''SQL_CONVERT_INTERVAL_DAY_TIME''),
      (SQL_CONVERT_INTERVAL_YEAR_MONTH, ''SQL_CONVERT_INTERVAL_YEAR_MONTH''),
      (SQL_CONVERT_WLONGVARCHAR, ''SQL_CONVERT_WLONGVARCHAR''), (SQL_CONVERT_WVARCHAR, ''SQL_CONVERT_WVARCHAR''),
      (SQL_CONVERT_GUID, ''SQL_CONVERT_GUID''), (SQL_SCROLL_OPTIONS, ''SQL_SCROLL_OPTIONS''),
      (SQL_PARAM_ARRAY_ROW_COUNTS, ''SQL_PARAM_ARRAY_ROW_COUNTS''),
      (SQL_PARAM_ARRAY_SELECTS, ''SQL_PARAM_ARRAY_SELECTS''), (SQL_ALTER_DOMAIN, ''SQL_ALTER_DOMAIN''),
      (SQL_ASYNC_MODE, ''SQL_ASYNC_MODE''), (SQL_BATCH_ROW_COUNT, ''SQL_BATCH_ROW_COUNT''),
      (SQL_BATCH_SUPPORT, ''SQL_BATCH_SUPPORT''), (SQL_BOOKMARK_PERSISTENCE, ''SQL_BOOKMARK_PERSISTENCE''),
      (SQL_CATALOG_LOCATION, ''SQL_CATALOG_LOCATION''), (SQL_CATALOG_NAME, ''SQL_CATALOG_NAME''),
      (SQL_COLLATION_SEQ, ''SQL_COLLATION_SEQ''), (SQL_CONCAT_NULL_BEHAVIOR, ''SQL_CONCAT_NULL_BEHAVIOR''),
      (SQL_CORRELATION_NAME, ''SQL_CORRELATION_NAME''), (SQL_CREATE_ASSERTION, ''SQL_CREATE_ASSERTION''),
      (SQL_CREATE_CHARACTER_SET, ''SQL_CREATE_CHARACTER_SET''), (SQL_CREATE_COLLATION, ''SQL_CREATE_COLLATION''),
      (SQL_CREATE_DOMAIN, ''SQL_CREATE_DOMAIN''), (SQL_CREATE_SCHEMA, ''SQL_CREATE_SCHEMA''),
      (SQL_CREATE_TABLE, ''SQL_CREATE_TABLE'')]"

definition info_names_3 :: "(int \<times> string) list" where
  "info_names_3 =
     [(SQL_CREATE_TRANSLATION, ''SQL_CREATE_TRANSLATION''), (SQL_CREATE_VIEW, ''SQL_CREATE_VIEW''),
      (SQL_CURSOR_COMMIT_BEHAVIOR, ''SQL_CURSOR_COMMIT_BEHAVIOR''),
      (SQL_CURSOR_ROLLBACK_BEHAVIOR, ''SQL_CURSOR_ROLLBACK_BEHAVIOR''),
      (SQL_CURSOR_SENSITIVITY, ''SQL_CURSOR_SENSITIVITY''), (SQL_DATA_SOURCE_NAME, ''SQL_DATA_SOURCE_NAME''),
      (SQL_DATA_SOURCE_READ_ONLY, ''SQL_DATA_SOURCE_READ_ONLY''), (SQL_DATABASE_NAME, ''SQL_DATABASE_NAME''),
      (SQL_DDL_INDEX, ''SQL_DDL_INDEX''), (SQL_DEFAULT_TXN_ISOLATION, ''SQL_DEFAULT_TXN_ISOLATION''),
      (SQL_DESCRIBE_PARAMETER, ''SQL_DESCRIBE_PARAMETER''), (SQL_DROP_ASSERTION, ''SQL_DROP_ASSERTION''),
      (SQL_DROP_CHARACTER_SET, ''SQL_DROP_CHARACTER_SET''), (SQL_DROP_COLLATION, ''SQL_DROP_COLLATION''),
      (SQL_DROP_DOMAIN, ''SQL_DROP_DOMAIN''), (SQL_DROP_SCHEMA, ''SQL_DROP_SCHEMA''),
      (SQL_DROP_TABLE, ''SQL_DROP_TABLE''), (SQL_DROP_TRANSLATION, ''SQL_DROP_TRANSLATION''),
      (SQL_DROP_VIEW, ''SQL_DROP_VIEW''), (SQL_DYNAMIC_CURSOR_ATTRIBUTES1, ''SQL_DYNAMIC_CURSOR_ATTRIBUTES1''),
      (SQL_DYNAMIC_CURSOR_ATTRIBUTES2, ''SQL_DYNAMIC_CURSOR_ATTRIBUTES2''),
      (SQL_EXPRESSIONS_IN_ORDERBY, ''SQL_EXPRESSIONS_IN_ORDERBY''), (SQL_FILE_USAGE, ''SQL_FILE_USAGE''),
      (SQL_FORWARD_ONLY_CURSOR_ATTRIBUTES1, ''SQL_FORWARD_ONLY_CURSOR_ATTRIBUTES1''),
      (SQL_FORWARD_ONLY_CURSOR_ATTRIBUTES2, ''SQL_FORWARD_ONLY_CURSOR_ATTRIBUTES2''),
      (SQL_GROUP_BY, ''SQL_GROUP_BY''), (SQL_IDENTIFIER_CASE, ''SQL_IDENTIFIER_CASE''),
      (SQL_INDEX_KEYWORDS, ''SQL_INDEX_KEYWORDS''), (SQL_INFO_SCHEMA_VIEWS, ''SQL_INFO_SCHEMA_VIEWS''),
      (SQL_INSERT_STATEMENT, ''SQL_INSERT_STATEMENT''), (SQL_INTEGRITY, ''SQL_INTEGRITY''),
      (SQL_KEYSET_CURSOR_ATTRIBUTES1, ''SQL_KEYSET_CURSOR_ATTRIBUTES1''),
      (SQL_KEYSET_CURSOR_ATTRIBUTES2, ''SQL_KEYSET_CURSOR_ATTRIBUTES2''), (SQL_KEYWORDS, ''SQL_KEYWORDS''),
      (SQL_LIKE_ESCAPE_CLAUSE, ''SQL_LIKE_ESCAPE_CLAUSE''),
      (SQL_MAX_ASYNC_CONCURRENT_STATEMENTS, ''SQL_MAX_ASYNC_CONCURRENT_STATEMENTS''),
      (SQL_MAX_BINARY_LITERAL_LEN, ''SQL_MAX_BINARY_LITERAL_LEN''),
      (SQL_MAX_CATALOG_NAME_LEN, ''SQL_MAX_CATALOG_NAME_LEN''),
      (SQL_MAX_CHAR_LITERAL_LEN, ''SQL_MAX_CHAR_LITERAL_LEN''),
      (SQL_MAX_COLUMN_NAME_LEN, ''SQL_MAX_COLUMN_NAME_LEN''),
      (SQL_MAX_COLUMNS_IN_GROUP_BY, ''SQL_MAX_COLUMNS_IN_GROUP_BY''),
      (SQL_MAX_COLUMNS_IN_INDEX, ''SQL_MAX_COLUMNS_IN_INDEX''),
      (SQL_MAX_COLUMNS_IN_ORDER_BY, ''SQL_MAX_COLUMNS_IN_ORDER_BY''),
      (SQL_MAX_COLUMNS_IN_SELECT, ''SQL_MAX_COLUMNS_IN_SELECT''),
      (SQL_MAX_COLUMNS_IN_TABLE, ''SQL_MAX_COLUMNS_IN_TABLE'')]"

definition info_names_4 :: "(int \<times> string) list" where
  "info_names_4 =
     [(SQL_MAX_CURSOR_NAME_LEN, ''SQL_MAX_CURSOR_NAME_LEN''),
      (SQL_MAX_DRIVER_CONNECTIONS, ''SQL_MAX_DRIVER_CONNECTIONS''), (SQL_MAX_INDEX_SIZE, ''SQL_MAX_INDEX_SIZE''),
      (SQL_MAX_PROCEDURE_NAME_LEN, ''SQL_MAX_PROCEDURE_NAME_LEN''), (SQL_MAX_ROW_SIZE, ''SQL_MAX_ROW_SIZE''),
      (SQL_MAX_ROW_SIZE_INCLUDES_LONG, ''SQL_MAX_ROW_SIZE_INCLUDES_LONG''),
      (SQL_MAX_SCHEMA_NAME_LEN, ''SQL_MAX_SCHEMA_NAME_LEN''), (SQL_MAX_STATEMENT_LEN, ''SQL_MAX_STATEMENT_LEN''),
      (SQL_MAX_TABLE_NAME_LEN, ''SQL_MAX_TABLE_NAME_LEN''), (SQL_MAX_TABLES_IN_SELECT, ''SQL_MAX_TABLES_IN_SELECT''),
      (SQL_MAX_USER_NAME_LEN, ''SQL_MAX_USER_NAME_LEN''), (SQL_MULT_RESULT_SETS, ''SQL_MULT_RESULT_SETS''),
      (SQL_MULTIPLE_ACTIVE_TXN, ''SQL_MULTIPLE_ACTIVE_TXN''),
      (SQL_NON_NULLABLE_COLUMNS, ''SQL_NON_NULLABLE_COLUMNS''), (SQL_NULL_COLLATION, ''SQL_NULL_COLLATION''),
      (SQL_ORDER_BY_COLUMNS_IN_SELECT, ''SQL_ORDER_BY_COLUMNS_IN_SELECT''),
      (SQL_PROCEDURE_TERM, ''SQL_PROCEDURE_TERM''), (SQL_PROCEDURES, ''SQL_PROCEDURES''),
      (SQL_ROW_UPDATES, ''SQL_ROW_UPDATES''), (SQL_SEARCH_PATTERN_ESCAPE, ''SQL_SEARCH_PATTERN_ESCAPE''),
      (SQL_SERVER_NAME, ''SQL_SERVER_NAME''),
      (SQL_SQL92_FOREIGN_KEY_DELETE_RULE, ''SQL_SQL92_FOREIGN_KEY_DELETE_RULE''),
      (SQL_SQL92_FOREIGN_KEY_UPDATE_RULE, ''SQL_SQL92_FOREIGN_KEY_UPDATE_RULE''),
      (SQL_SQL92_GRANT, ''SQL_SQL92_GRANT''), (SQL_SQL92_REVOKE, ''SQL_SQL92_REVOKE''),
      (SQL_SQL92_ROW_VALUE_CONSTRUCTOR, ''SQL_SQL92_ROW_VALUE_CONSTRUCTOR''),
      (SQL_STANDARD_CLI_CONFORMANCE, ''SQL_STANDARD_CLI_CONFORMANCE''), (SQL_SUBQUERIES, ''SQL_SUBQUERIES''),
      (SQL_TXN_ISOLATION_OPTION, ''SQL_TXN_ISOLATION_OPTION''), (SQL_UNION, ''SQL_UNION''),
      (SQL_USER_NAME, ''SQL_USER_NAME''), (SQL_ALTER_TABLE, ''SQL_ALTER_TABLE''),
      (SQL_FETCH_DIRECTION, ''SQL_FETCH_DIRECTION''), (SQL_LOCK_TYPES, ''SQL_LOCK_TYPES''),
      (SQL_ODBC_API_CONFORMANCE, ''SQL_ODBC_API_CONFORMANCE''),
      (SQL_ODBC_SQL_CONFORMANCE, ''SQL_ODBC_SQL_CONFORMANCE''),
      (SQL_POSITIONED_STATEMENTS, ''SQL_POSITIONED_STATEMENTS''),
      (SQL_SCROLL_CONCURRENCY, ''SQL_SCROLL_CONCURRENCY''), (SQL_STATIC_SENSITIVITY, ''SQL_STATIC_SENSITIVITY''),
      (SQL_DTC_TRANSITION_COST, ''SQL_DTC_TRANSITION_COST''), (SQL_DM_VER, ''SQL_DM_VER''),
      (SQL_XOPEN_CLI_YEAR, ''SQL_XOPEN_CLI_YEAR'')]"

definition info_names :: "(int \<times> string) list" where
  "info_names = info_names_1 @ info_names_2 @ info_names_3 @ info_names_4"

definition InfoTypeToString :: "int \<Rightarrow> string" where
  "InfoTypeToString type = (case map_of info_names type of Some s \<Rightarrow> s | None \<Rightarrow> ''<< UNKNOWN TYPE >>'')"

lemmas name_defs = info_names_def info_names_1_def info_names_2_def info_names_3_def info_names_4_def

lemma names_known: "list_all (\<lambda>(k, s). s \<noteq> ''<< UNKNOWN TYPE >>'') info_names"
  unfolding name_defs by simp

lemma names_distinct: "distinct (map fst info_names)"
  unfolding name_defs by simp

lemma answered_named:
  "list_all (\<lambda>k. k \<in> set (map fst info_names))
     (map fst (text_entries asSchema version) @ map fst (int_entries asSchema) @ map fst short_entries)"
  unfolding name_defs entry_defs by simp

lemma named_keys:
  "set (map fst info_names) = insert SQL_DTC_TRANSITION_COST
     (set (map fst (text_entries asSchema version) @ map fst (int_entries asSchema) @ map fst short_entries))"
    (is "?N = insert ?d ?A")
proof (rule sym, rule card_subset_eq)
  have "?d \<in> ?N" unfolding name_defs by simp
  then show "insert ?d ?A \<subseteq> ?N" using answered_named [of asSchema version] by (auto simp: list_all_iff)
  have "?d \<notin> ?A" unfolding entry_defs by simp
  moreover have "card ?A = 176"
    unfolding distinct_card [OF info_keys_distinct [of asSchema version]] unfolding entry_defs by simp
  moreover have "card ?N = 177" unfolding distinct_card [OF names_distinct] unfolding name_defs by simp
  ultimately show "card (insert ?d ?A) = card ?N" by simp
qed simp

text \<open> A type has a name for the log exactly when the connection has an answer for it, except for the cost of a
  distributed transaction, which has a name and no answer.\<close>

theorem names_and_answers:
  "InfoTypeToString k \<noteq> ''<< UNKNOWN TYPE >>'' \<longleftrightarrow>
     k = SQL_DTC_TRANSITION_COST \<or> strParams (ConnectionInfo asSchema version) k \<noteq> None
     \<or> intParams (ConnectionInfo asSchema version) k \<noteq> None \<or> shortParams (ConnectionInfo asSchema version) k \<noteq> None"
proof -
  have "InfoTypeToString k \<noteq> ''<< UNKNOWN TYPE >>'' \<longleftrightarrow> k \<in> set (map fst info_names)"
  proof (cases "map_of info_names k")
    case None
    then have "k \<notin> set (map fst info_names)" by (simp add: map_of_eq_None_iff)
    with None show ?thesis by (simp add: InfoTypeToString_def)
  next
    case (Some s)
    then have "(k, s) \<in> set info_names" by (rule map_of_SomeD)
    then show ?thesis using Some names_known by (force simp: InfoTypeToString_def list_all_iff)
  qed
  moreover have "strParams (ConnectionInfo asSchema version) k \<noteq> None \<longleftrightarrow> k \<in> set (map fst (text_entries asSchema version))"
    by (simp only: info_fields(1) map_of_eq_None_iff set_map not_not)
  moreover have "intParams (ConnectionInfo asSchema version) k \<noteq> None \<longleftrightarrow> k \<in> set (map fst (int_entries asSchema))"
    using info_fields(2) [of asSchema version k] map_of_eq_None_iff [of "int_entries asSchema" k]
    by (metis option.map_disc_iff set_map)
  moreover have "shortParams (ConnectionInfo asSchema version) k \<noteq> None \<longleftrightarrow> k \<in> set (map fst short_entries)"
    using info_fields(3) [of asSchema version k] map_of_eq_None_iff [of short_entries k]
    by (metis option.map_disc_iff set_map)
  ultimately show ?thesis using named_keys [of asSchema version] by auto
qed

end
