(* ===== verification/Utilities.thy ===== *)
theory Utilities
  imports Authentication Bits Date_Time
begin

text \<open>
  The remaining helpers of \<^verbatim>\<open>utils.h\<close>, \<^verbatim>\<open>utils.cpp\<close>, \<^verbatim>\<open>utility.cpp\<close> and \<^verbatim>\<open>bits.cpp\<close>: trailing zeros and other bit
  tricks, the encoding of URLs, the translation of search patterns to regular expressions, dumps, and points
  in time given in local time, for which the conversion of the machine is an argument.
\<close>

unbundle bit_operations_syntax

section \<open>Bits\<close>

text \<open>One step of the search for the trailing zeros: shift left as long as something is left.\<close>

definition ntz_step :: "nat \<Rightarrow> nat \<times> 32 word \<Rightarrow> nat \<times> 32 word" where
  "ntz_step k = (\<lambda>(n, i). let y = push_bit k i in if y \<noteq> 0 then (n - k, y) else (n, i))"

definition NumberOfTrailingZerosI32 :: "32 word \<Rightarrow> nat" where
  "NumberOfTrailingZerosI32 i =
     (if i = 0 then 32
      else let (n, x) = ntz_step 2 (ntz_step 4 (ntz_step 8 (ntz_step 16 (31, i))))
           in n - unat (drop_bit 31 (push_bit 1 x)))"

definition BitCountI32 :: "32 word \<Rightarrow> 32 word" where
  "BitCountI32 i =
     (let ui = i - (drop_bit 1 i AND 0x55555555);
          ui = (ui AND 0x33333333) + (drop_bit 2 ui AND 0x33333333);
          ui = (ui + drop_bit 4 ui) AND 0x0F0F0F0F;
          ui = ui + drop_bit 8 ui;
          ui = ui + drop_bit 16 ui
      in ui AND 0x3F)"

definition Signum64 :: "64 word \<Rightarrow> 32 word" where
  "Signum64 i = ucast (drop_bit 63 (- i) OR signed_drop_bit 63 i)"

definition MakeI64 :: "32 word \<Rightarrow> 32 word \<Rightarrow> int" where
  "MakeI64 higher lower = sint (push_bit 32 (ucast higher) OR ucast lower :: 64 word)"

text \<open>For a shift from 1 to 31.\<close>

definition MakeU32 :: "32 word \<Rightarrow> 32 word \<Rightarrow> nat \<Rightarrow> 32 word" where
  "MakeU32 x y n = push_bit n x OR drop_bit (32 - n) y"

definition MakeI32 :: "32 word \<Rightarrow> 32 word \<Rightarrow> nat \<Rightarrow> int" where
  "MakeI32 x y n = sint (MakeU32 x y n)"

text \<open>On the little-endian machines the driver is built for.\<close>

definition ToBigEndian :: "32 word \<Rightarrow> 32 word" where
  "ToBigEndian value =
     push_bit 24 (value AND 0xFF) OR push_bit 16 (drop_bit 8 value AND 0xFF)
       OR push_bit 8 (drop_bit 16 value AND 0xFF) OR (drop_bit 24 value AND 0xFF)"

section \<open>Text\<close>

definition unreserved :: "char \<Rightarrow> bool" where
  "unreserved c \<longleftrightarrow>
     isalnum c \<or> c \<in> set ''-_~.*!()''"

text \<open>A number in upper case hexadecimal digits, without leading zeros.\<close>

definition Hexdigit :: "nat \<Rightarrow> char" where
  "Hexdigit n = char_of (if n < 10 then 48 + n else 55 + n)"

definition hex_byte :: "nat \<Rightarrow> string" where
  "hex_byte n = (if n < 16 then [Hexdigit n] else [Hexdigit (n div 16), Hexdigit (n mod 16)])"

definition EncodeURIComponent :: "string \<Rightarrow> string" where
  "EncodeURIComponent s = concat (map (\<lambda>c. if unreserved c then [c] else CHR ''%'' # hex_byte (char_code c)) s)"

definition SpaceToUnderscore :: "string \<Rightarrow> string" where
  "SpaceToUnderscore s = map (\<lambda>c. if c = CHR '' '' then CHR ''_'' else c) s"

definition StringEndsWith :: "string \<Rightarrow> string \<Rightarrow> bool" where
  "StringEndsWith str ending \<longleftrightarrow> length ending < length str \<and> drop (length str - length ending) str = ending"

text \<open>The copy of a C string, which ends before the first zero.\<close>

definition CopyChars :: "string option \<Rightarrow> string option" where
  "CopyChars val = map_option (takeWhile (\<lambda>c. c \<noteq> NUL)) val"

definition GetDynamicLibraryName :: "string \<Rightarrow> string" where
  "GetDynamicLibraryName name = name @ ''.so''"

definition CheckEnvVarSetToTrue :: "(string \<Rightarrow> string) \<Rightarrow> string \<Rightarrow> bool" where
  "CheckEnvVarSetToTrue env envVar \<longleftrightarrow> ToUpper (env envVar) = ''TRUE''"

definition HexDump :: "8 word list \<Rightarrow> string" where
  "HexDump bytes = concat (map (\<lambda>(cnt, p).
     (if cnt mod 16 = 0 then [newline] else []) @ [hexdigit (unat p div 16), hexdigit (unat p mod 16)] @ '' '')
     (enumerate 0 bytes))"

section \<open>Search patterns\<close>

definition UpdateRegexExpression :: "nat \<Rightarrow> nat \<Rightarrow> string \<Rightarrow> string \<Rightarrow> string \<Rightarrow> nat \<times> string" where
  "UpdateRegexExpression index start pattern str converted =
     (index + 1, converted @ (if start < index then take (index - start) (drop start pattern) else []) @ str)"

abbreviation backslash :: char where "backslash \<equiv> CHR 0x5C"

text \<open>The loop from \<open>index\<close> on; the text from \<open>start\<close> on has not been copied yet.\<close>

fun convert_loop :: "string \<Rightarrow> string \<Rightarrow> nat \<Rightarrow> nat \<Rightarrow> bool \<Rightarrow> string \<Rightarrow> nat \<times> string" where
  "convert_loop pattern [] index start escapeFound converted = (start, converted)"
| "convert_loop pattern (currChar # rest) index start escapeFound converted =
     (if currChar = backslash then
        if escapeFound then
          let (s, cv) = UpdateRegexExpression (index - 1) start pattern (''['' @ [backslash] @ '']'') converted
          in convert_loop pattern rest (index + 1) (s + 1) False cv
        else convert_loop pattern rest (index + 1) start True converted
      else if escapeFound then
        let (s, cv) = UpdateRegexExpression (index - 1) start pattern (''['' @ [currChar] @ '']'') converted
        in convert_loop pattern rest (index + 1) (s + 1) False cv
      else if currChar = CHR ''_'' then
        let (s, cv) = UpdateRegexExpression index start pattern ''.'' converted
        in convert_loop pattern rest (index + 1) s False cv
      else if currChar = CHR ''%'' then
        let (s, cv) = UpdateRegexExpression index start pattern ''.*'' converted
        in convert_loop pattern rest (index + 1) s False cv
      else convert_loop pattern rest (index + 1) start False converted)"

definition ConvertPatternToRegex :: "string \<Rightarrow> string" where
  "ConvertPatternToRegex pattern =
     (if pattern = [] \<or> Trim pattern = [] then []
      else let (start, converted) = convert_loop pattern pattern 0 0 False [] in converted @ drop start pattern)"

section \<open>Local time\<close>

text \<open>\<open>mktime\<close> is the conversion of local time by the machine.\<close>

definition MakeDateLocal :: "(tm \<Rightarrow> int) \<Rightarrow> int \<Rightarrow> int \<Rightarrow> int \<Rightarrow> int \<Rightarrow> int \<Rightarrow> int \<Rightarrow> date" where
  "MakeDateLocal mktime year month day hour minute sec = CTimeToDate (mktime (make_tm year month day hour minute sec))"

definition MakeTimeLocal :: "(tm \<Rightarrow> int) \<Rightarrow> int \<Rightarrow> int \<Rightarrow> int \<Rightarrow> int \<Rightarrow> time" where
  "MakeTimeLocal mktime hour minute sec ns = CTimeToTime (mktime (make_tm 1970 1 1 hour minute sec)) ns"

definition MakeTimestampLocal :: "(tm \<Rightarrow> int) \<Rightarrow> int \<Rightarrow> int \<Rightarrow> int \<Rightarrow> int \<Rightarrow> int \<Rightarrow> int \<Rightarrow> int \<Rightarrow> timestamp" where
  "MakeTimestampLocal mktime year month day hour minute sec ns =
     CTimeToTimestamp (mktime (make_tm year month day hour minute sec)) ns"

section \<open>What they compute\<close>

text \<open>The state of the search: the number shifted, with no bits below \<open>s\<close>.\<close>

definition ntz_inv :: "32 word \<Rightarrow> nat \<Rightarrow> nat \<times> 32 word \<Rightarrow> bool" where
  "ntz_inv i s st \<longleftrightarrow> fst st \<le> 31 \<and> snd st = push_bit (31 - fst st) i \<and> snd st \<noteq> 0 \<and> (\<forall>j < s. \<not> bit (snd st) j)"

lemma ntz_step_inv:
  assumes "ntz_inv i s st" and "k \<le> fst st" and "s + k + k = 32"
  shows "ntz_inv i (s + k) (ntz_step k st) \<and> fst st - k \<le> fst (ntz_step k st)"
proof -
  obtain n x where st: "st = (n, x)" by fastforce
  show ?thesis
  proof (cases "push_bit k x = 0")
    case False
    have e: "ntz_step k st = (n - k, push_bit k x)"
      using False by (simp add: ntz_step_def st)
    have shifted: "push_bit k x = push_bit (31 - (n - k)) i"
      using assms(1,2) by (simp add: ntz_inv_def st add.commute)
    have low: "\<not> bit (push_bit k x) j" if j: "j < s + k" for j
    proof -
      have "\<not> bit x (j - k)" if "k \<le> j"
        using assms(1) that j by (auto simp: ntz_inv_def st)
      then show ?thesis by (auto simp: bit_push_bit_iff)
    qed
    have "n \<le> 31" using assms(1) by (simp add: ntz_inv_def st)
    then show ?thesis unfolding e unfolding ntz_inv_def fst_conv snd_conv st
      by (intro conjI allI impI shifted False low) auto
  next
    case True
    have "\<not> bit x j" if "j < s + k" for j
    proof -
      have "\<not> bit (push_bit k x) (j + k)" using True by simp
      with that assms(3) show ?thesis by (simp add: bit_push_bit_iff)
    qed
    moreover have "ntz_step k st = st" using True by (simp add: ntz_step_def st)
    ultimately show ?thesis using assms(1) by (simp only: ntz_inv_def st snd_conv fst_conv) auto
  qed
qed

lemma ntz_search:
  assumes "i \<noteq> 0"
  shows "\<exists>n x. ntz_step 2 (ntz_step 4 (ntz_step 8 (ntz_step 16 (31, i)))) = (n, x) \<and> ntz_inv i 30 (n, x) \<and> 1 \<le> n"
proof -
  have "ntz_inv i 0 (31, i)" using assms by (simp add: ntz_inv_def)
  from ntz_step_inv [OF this, of 16] have 1: "ntz_inv i 16 (ntz_step 16 (31, i))" "15 \<le> fst (ntz_step 16 (31, i))"
    by simp_all
  from ntz_step_inv [OF 1(1), of 8] 1(2) have 2: "ntz_inv i 24 (ntz_step 8 (ntz_step 16 (31, i)))"
    "7 \<le> fst (ntz_step 8 (ntz_step 16 (31, i)))" by auto
  from ntz_step_inv [OF 2(1), of 4] 2(2) have 3: "ntz_inv i 28 (ntz_step 4 (ntz_step 8 (ntz_step 16 (31, i))))"
    "3 \<le> fst (ntz_step 4 (ntz_step 8 (ntz_step 16 (31, i))))" by auto
  from ntz_step_inv [OF 3(1), of 2] 3(2) show ?thesis
    by (cases "ntz_step 2 (ntz_step 4 (ntz_step 8 (ntz_step 16 (31, i))))") auto
qed

text \<open> The count of trailing zeros of a number other than zero is the position of its lowest bit.\<close>

theorem trailing_zeros:
  assumes "i \<noteq> 0"
  shows "bit i (NumberOfTrailingZerosI32 i) \<and> (\<forall>j < NumberOfTrailingZerosI32 i. \<not> bit i j)"
proof -
  obtain n x where S: "ntz_step 2 (ntz_step 4 (ntz_step 8 (ntz_step 16 (31, i)))) = (n, x)" and I: "ntz_inv i 30 (n, x)"
    and n: "1 \<le> n" using ntz_search [OF assms] by blast
  have x: "n \<le> 31" "x = push_bit (31 - n) i" "x \<noteq> 0" "\<And>j. j < 30 \<Longrightarrow> \<not> bit x j"
    using I by (auto simp: ntz_inv_def)
  have b: "bit x (j + (31 - n)) \<longleftrightarrow> bit i j" if "j \<le> n" for j
    using that x(1) unfolding x(2) by (auto simp: bit_push_bit_iff)
  have low: "\<not> bit i j" if "j + (31 - n) < 30" for j
    using b [of j] x(4) [OF that] that x(1) by simp
  have r: "NumberOfTrailingZerosI32 i = (if bit x 30 then n - 1 else n)"
  proof -
    have "unat (drop_bit 31 (push_bit 1 x)) = (if bit x 30 then 1 else 0)"
    proof -
      have "drop_bit 31 (push_bit 1 x) = (if bit x 30 then 1 else 0)"
      proof (rule bit_word_eqI)
        fix j assume "j < LENGTH(32)"
        have "bit (drop_bit 31 (push_bit 1 x)) j \<longleftrightarrow> j = 0 \<and> bit x 30"
          unfolding bit_drop_bit_eq o_def bit_push_bit_iff
          using bit_imp_le_length [of x "31 + j - 1"] by (cases j) auto
        then show "bit (drop_bit 31 (push_bit 1 x)) j \<longleftrightarrow> bit (if bit x 30 then 1 else 0 :: 32 word) j"
          by (simp add: bit_1_iff)
      qed
      then show ?thesis by simp
    qed
    then show ?thesis using assms S by (simp add: NumberOfTrailingZerosI32_def)
  qed
  show ?thesis
  proof (cases "bit x 30")
    case True
    then show ?thesis using r b [of "n - 1"] low n x(1) by auto
  next
    case False
    have "bit x 31"
    proof (rule ccontr)
      assume "\<not> bit x 31"
      then have "\<not> bit x j" for j
        using x(4) [of j] False bit_imp_le_length [of x j] by (cases "j < 30 \<or> j = 30 \<or> j = 31") auto
      then have "x = 0" by (intro bit_word_eqI) simp
      with x(3) show False by simp
    qed
    moreover have "\<not> bit i j" if "j < n" for j
      using that low [of j] b [of j] False x(1) by (cases "j = n - 1") auto
    ultimately show ?thesis using r False b [of n] x(1) by simp
  qed
qed

theorem trailing_zeros_witness: "NumberOfTrailingZerosI32 40 = 3 \<and> bit (40 :: 32 word) 3"
proof -
  have "NumberOfTrailingZerosI32 40 = 3" by code_simp
  with trailing_zeros [of 40] show ?thesis by simp
qed

text \<open>The sign of a number of 64 bits: the sign bit copied to all bits, and the sign bit of the negation.\<close>

lemma signed_drop_bit_63: "signed_drop_bit 63 (i :: 64 word) = (if bit i 63 then - 1 else 0)"
proof (rule bit_word_eqI)
  fix j assume "j < LENGTH(64)"
  then show "bit (signed_drop_bit 63 i) j \<longleftrightarrow> bit (if bit i 63 then - 1 else 0 :: 64 word) j"
    by (cases "j = 0") (simp_all add: bit_signed_drop_bit_iff)
qed

lemma drop_bit_63: "drop_bit 63 (i :: 64 word) = (if bit i 63 then 1 else 0)"
proof (rule bit_word_eqI)
  fix j assume "j < LENGTH(64)"
  have "bit (drop_bit 63 i) j \<longleftrightarrow> j = 0 \<and> bit i 63"
    unfolding bit_drop_bit_eq o_def using bit_imp_le_length [of i "63 + j"] by (cases "j = 0") auto
  then show "bit (drop_bit 63 i) j \<longleftrightarrow> bit (if bit i 63 then 1 else 0 :: 64 word) j"
    by (simp add: bit_1_iff)
qed

lemma bit_63_sint: "bit (i :: 64 word) 63 \<longleftrightarrow> sint i < 0"
  by (simp add: bit_last_iff [of i, simplified, symmetric])

lemma sint_uminus_neg:
  assumes "0 < sint (i :: 64 word)"
  shows "sint (- i) < 0"
proof -
  have "- (2 ^ 63) \<le> - sint i" "- sint i < 2 ^ 63" using assms sint_greater_eq [of i] sint_less [of i] by auto
  then have "signed_take_bit 63 (- sint i) = - sint i" by (intro signed_take_bit_int_eq_self) auto
  then show ?thesis using assms by (simp add: sint_word_minus)
qed

text \<open> The sign function gives the sign of every number, the smallest one included.\<close>

theorem Signum64_sgn: "sint (Signum64 i) = sgn (sint i)"
proof -
  consider "sint i < 0" | "i = 0" | "0 < sint i" using linorder_less_linear [of "sint i" 0] signed_eq_0_iff [of i] by blast
  then show ?thesis
  proof cases
    case 1
    have "(ucast (- 1 :: 64 word) :: 32 word) = - 1" by code_simp
    with 1 show ?thesis by (simp add: Signum64_def signed_drop_bit_63 bit_63_sint)
  next
    case 3
    then show ?thesis using sint_uminus_neg [OF 3]
      by (simp add: Signum64_def signed_drop_bit_63 drop_bit_63 bit_63_sint)
  qed (simp add: Signum64_def)
qed

lemma ToBigEndian_bit:
  assumes "j < 32"
  shows "bit (ToBigEndian v) j = bit v (if j < 8 then j + 24 else if j < 16 then j + 8 else if j < 24 then j - 8 else j - 24)"
proof -
  have m: "(0xFF :: 32 word) = mask 8" by (simp add: mask_eq_exp_minus_1)
  show ?thesis using assms
    by (auto simp: ToBigEndian_def m bit_push_bit_iff bit_drop_bit_eq bit_mask_iff bit_or_iff bit_and_iff add.commute)
qed

text \<open> Reversing the order of the bytes twice gives the number back.\<close>

theorem ToBigEndian_involution: "ToBigEndian (ToBigEndian v) = v"
proof (rule bit_word_eqI)
  fix j assume "j < LENGTH(32)"
  then obtain q k where j: "j = k + 8 * q" "k < 8" "q < 4"
    using that [of "j mod 8" "j div 8"] by simp
  then consider "q = 0" | "q = 1" | "q = 2" | "q = 3" by fastforce
  then show "bit (ToBigEndian (ToBigEndian v)) j \<longleftrightarrow> bit v j"
    by cases (use j in \<open>simp_all add: ToBigEndian_bit add.commute\<close>)
qed

text \<open> A text ends with another only if something stands before it: no text ends with itself, although it has
  itself as its ending.\<close>

theorem StringEndsWith_iff: "StringEndsWith s e \<longleftrightarrow> (\<exists>p. p \<noteq> [] \<and> s = p @ e)"
proof
  assume "StringEndsWith s e"
  then have l: "length e < length s" and d: "drop (length s - length e) s = e" by (simp_all add: StringEndsWith_def)
  have "s = take (length s - length e) s @ e" using append_take_drop_id [of "length s - length e" s] d by simp
  moreover have "take (length s - length e) s \<noteq> []" using l by auto
  ultimately show "\<exists>p. p \<noteq> [] \<and> s = p @ e" by blast
qed (auto simp: StringEndsWith_def)

lemma StringEndsWith_self: "\<not> StringEndsWith s s"
  by (simp add: StringEndsWith_def)

section \<open>Patterns and URLs\<close>

text \<open>The regular expression of a pattern: an escaped character stands for itself, in brackets, an underscore for any
  character and a percent sign for any text.\<close>

fun regex_of :: "string \<Rightarrow> string" where
  "regex_of [] = []"
| "regex_of (c # r) =
     (if c = backslash then
        (case r of [] \<Rightarrow> [backslash] | d # r' \<Rightarrow> CHR ''['' # d # CHR '']'' # regex_of r')
      else (if c = CHR ''_'' then ''.'' else if c = CHR ''%'' then ''.*'' else [c]) @ regex_of r)"

lemma UpdateRegexExpression_at:
  "start \<le> length pre \<Longrightarrow>
   UpdateRegexExpression (length pre) start (pre @ rest) str cv = (length pre + 1, cv @ drop start pre @ str)"
  by (auto simp: UpdateRegexExpression_def)

lemma convert_loop_regex:
  "(start \<le> length pre \<longrightarrow>
      (case convert_loop (pre @ rest) rest (length pre) start False cv of (s, c) \<Rightarrow> c @ drop s (pre @ rest))
        = cv @ drop start pre @ regex_of rest) \<and>
   (start \<le> length pre \<longrightarrow>
      (case convert_loop (pre @ backslash # rest) rest (length pre + 1) start True cv of
         (s, c) \<Rightarrow> c @ drop s (pre @ backslash # rest))
        = cv @ drop start pre @ regex_of (backslash # rest))"
proof (induction rest arbitrary: pre start cv)
  case Nil
  then show ?case by simp
next
  case (Cons d r)
  note here = UpdateRegexExpression_at [of start pre]
  note plain = Cons.IH [of _ "pre @ [d]", THEN conjunct1, rule_format]
  note escaped = Cons.IH [of _ "pre", THEN conjunct2, rule_format]
  note pair = Cons.IH [of _ "pre @ [backslash, d]", THEN conjunct1, rule_format]
  show ?case
    using here plain [of start cv] plain [of "length pre + 1"] escaped [of start cv] pair [of "length pre + 2"]
    by (auto simp: Let_def)
qed

text \<open> The conversion of a search pattern, whose loop copies the text between wildcards late, is the translation
  of its characters one after the other; a blank pattern becomes the empty expression.\<close>

theorem ConvertPatternToRegex_translates:
  "ConvertPatternToRegex p = (if Trim p = [] then [] else regex_of p)"
  using convert_loop_regex [of 0 "[]" p "[]"]
  by (auto simp: ConvertPatternToRegex_def Let_def split: prod.splits)

text \<open>Characters that are special in regular expressions are not protected, and inside of brackets an escaped backslash
  protects the closing bracket.\<close>

lemma ConvertPatternToRegex_special:
  "ConvertPatternToRegex ''a.b'' = ''a.b''"
  "ConvertPatternToRegex [backslash, backslash] = ''['' @ [backslash] @ '']''"
  by code_simp+

text \<open>The decoding of the standard, where two digits follow every percent sign.\<close>

fun DecodeURIComponent :: "string \<Rightarrow> string" where
  "DecodeURIComponent [] = []"
| "DecodeURIComponent (c # r) =
     (if c = CHR ''%'' then
        (case r of a # b # r' \<Rightarrow> char_of (nat (16 * xdigit_val a + xdigit_val b)) # DecodeURIComponent r' | _ \<Rightarrow> [c])
      else c # DecodeURIComponent r)"

lemma Hexdigit_val: "n < 16 \<Longrightarrow> xdigit_val (Hexdigit n) = int n"
  by (simp add: Hexdigit_def xdigit_val_def isdigit_def isupper_def islower_def char_code_def)

lemma percent_reserved: "\<not> unreserved CHR ''%''"
  by code_simp

text \<open> A text without control characters below 16 comes back when the URL it was encoded for is decoded.\<close>

theorem EncodeURIComponent_decode:
  assumes "\<forall>c \<in> set s. 16 \<le> char_code c"
  shows "DecodeURIComponent (EncodeURIComponent s) = s"
  using assms
proof (induction s)
  case (Cons c s)
  have e: "EncodeURIComponent (c # s) =
      (if unreserved c then [c] else CHR ''%'' # hex_byte (char_code c)) @ EncodeURIComponent s"
    by (simp add: EncodeURIComponent_def)
  have n: "char_code c < 256" by (rule char_code_lt)
  then have "char_of (nat (16 * int (char_code c div 16) + int (char_code c mod 16))) = c"
    by (simp add: char_code_def nat_add_distrib nat_mult_distrib)
  then show ?case using Cons n percent_reserved
    by (auto simp: e hex_byte_def Hexdigit_val)
qed (simp add: EncodeURIComponent_def)

theorem EncodeURIComponent_decode_witness: "DecodeURIComponent (EncodeURIComponent ''a b&100%'') = ''a b&100%''"
proof -
  have "\<forall>c \<in> set ''a b&100%''. 16 \<le> char_code c" by code_simp
  from EncodeURIComponent_decode [OF this] show ?thesis .
qed

text \<open>A control character below 16 gets one digit, so different texts have the same encoding.\<close>

lemma EncodeURIComponent_collision: "EncodeURIComponent [CHR 0x01, CHR ''2''] = EncodeURIComponent [CHR 0x12]"
  by code_simp

section \<open>Local time and GMT\<close>

text \<open> On a machine whose local time is \<open>off\<close> seconds ahead of GMT, every local point in time is the one of GMT
  shifted back by the offset: the date and the timestamp exactly, the time within the days its 32 bits can count.\<close>

theorem local_is_shifted_gmt:
  assumes "\<And>x. mktime x = timegm x - off"
  shows "MakeDateLocal mktime y mo d h mi s = CTimeToDate (Date_GetSeconds (MakeDateGmt y mo d h mi s) - off)
    \<and> MakeTimestampLocal mktime y mo d h mi s ns
        = CTimeToTimestamp (ts_seconds (MakeTimestampGmt y mo d h mi s ns) - off) ns
    \<and> MakeTimeLocal mktime h mi s ns = CTimeToTime (h * 3600 + mi * 60 + s - off) ns"
proof -
  have "timegm (make_tm 1970 1 1 h mi s) = h * 3600 + mi * 60 + s"
    by (simp add: timegm_def make_tm_def year_start_def epoch_days_def algebra_simps)
  then show ?thesis
    by (simp add: MakeDateLocal_def MakeTimestampLocal_def MakeTimeLocal_def MakeDateGmt_def MakeTimestampGmt_def
        CTmToDate_def CTmToTimestamp_def CTimeToDate_def CTimeToTimestamp_def Date_GetSeconds_def c_div_exact assms)
qed

theorem local_is_shifted_gmt_witness:
  "MakeTimeLocal (\<lambda>x. timegm x - 3600) 1 0 0 5 = CTimeToTime 0 5"
  using local_is_shifted_gmt [of "\<lambda>x. timegm x - 3600" 3600 2024 1 1 1 0 0 5] by simp

end
