(* ===== verification/Popcount.thy ===== *)
theory Popcount
  imports Utilities
begin

text \<open>
  The count of set bits in \<^verbatim>\<open>bits.cpp\<close>: numbers as lists of fields of equal width, the masked and shifted sums
  of the code as sums of neighbouring fields, and the result as the number of positions whose bit is set.
\<close>

unbundle bit_operations_syntax

section \<open>The number of bits\<close>

text \<open>A number as a list of fields of \<open>w\<close> bits, the lowest first.\<close>

primrec fields :: "nat \<Rightarrow> nat list \<Rightarrow> nat" where
  "fields w [] = 0"
| "fields w (x # xs) = x + 2 ^ w * fields w xs"

text \<open>The fields at even positions, at odd positions, the sums of both, and the sums of neighbours.\<close>

fun firsts :: "nat list \<Rightarrow> nat list" where
  "firsts (a # b # r) = a # firsts r" | "firsts [a] = [a]" | "firsts [] = []"

fun seconds :: "nat list \<Rightarrow> nat list" where
  "seconds (a # b # r) = b # seconds r" | "seconds _ = []"

fun pair_sums :: "nat list \<Rightarrow> nat list" where
  "pair_sums (a # b # r) = (a + b) # pair_sums r" | "pair_sums [a] = [a]" | "pair_sums [] = []"

fun neighbours :: "nat list \<Rightarrow> nat list" where
  "neighbours (a # b # r) = (a + b) # neighbours (b # r)" | "neighbours [a] = [a]" | "neighbours [] = []"

lemma length_pair_sums [simp]: "length (pair_sums xs) = (length xs + 1) div 2"
  by (induction xs rule: pair_sums.induct) simp_all

lemma length_neighbours [simp]: "length (neighbours xs) = length xs"
  by (induction xs rule: neighbours.induct) simp_all

lemma sum_pair_sums: "sum_list (pair_sums xs) = sum_list xs"
  by (induction xs rule: pair_sums.induct) simp_all

lemma pair_sums_bound: "\<forall>x \<in> set xs. x \<le> k \<Longrightarrow> \<forall>x \<in> set (pair_sums xs). x \<le> 2 * k"
  by (induction xs rule: pair_sums.induct) auto

lemma neighbours_bound: "\<forall>x \<in> set xs. x \<le> k \<Longrightarrow> \<forall>x \<in> set (neighbours xs). x \<le> 2 * k"
  by (induction xs rule: neighbours.induct) auto

lemma firsts_neighbours: "firsts (neighbours xs) = pair_sums xs"
proof (induction xs rule: pair_sums.induct)
  case (1 a b r)
  then show ?case by (cases r) simp_all
qed simp_all

lemma exp_double: "(2 :: nat) ^ (2 * w) = 2 ^ w * 2 ^ w"
  by (simp add: mult_2 power_add)

lemma fields_split: "fields w xs = fields (2 * w) (firsts xs) + 2 ^ w * fields (2 * w) (seconds xs)"
  by (induction xs rule: firsts.induct) (simp_all add: distrib_left mult.assoc exp_double)

lemma fields_pair_sums: "fields v (pair_sums xs) = fields v (firsts xs) + fields v (seconds xs)"
  by (induction xs rule: pair_sums.induct) (simp_all add: algebra_simps)

lemma fields_lt:
  assumes "\<forall>x \<in> set xs. x < 2 ^ w"
  shows "fields w xs < 2 ^ (w * length xs)"
  using assms
proof (induction xs)
  case (Cons a xs)
  then have "fields w xs + 1 \<le> 2 ^ (w * length xs)" and a: "a < 2 ^ w" by simp_all
  then have "2 ^ w * (fields w xs + 1) \<le> 2 ^ w * 2 ^ (w * length xs)" by (intro mult_le_mono2)
  with a show ?case by (simp add: power_add algebra_simps)
qed simp

lemma fields_drop: "a < 2 ^ w \<Longrightarrow> drop_bit w (fields w (a # xs)) = fields w xs"
  by (simp add: drop_bit_eq_div)

lemma fields_neighbours:
  assumes "\<forall>x \<in> set xs. x < 2 ^ w"
  shows "fields w xs + drop_bit w (fields w xs) = fields w (neighbours xs)"
  using assms
proof (induction xs rule: neighbours.induct)
  case (1 a b r)
  then have n: "fields w (b # r) + fields w r = fields w (neighbours (b # r))" by (simp add: fields_drop del: fields.simps)
  have "fields w (a # b # r) + fields w (b # r) = a + b + 2 ^ w * (fields w (b # r) + fields w r)"
    by (simp add: distrib_left)
  then show ?case using 1(2) by (simp add: fields_drop n del: fields.simps) simp
qed (simp_all add: drop_bit_eq_div)

text \<open>The mask that keeps every other field.\<close>

primrec every_other :: "nat \<Rightarrow> nat \<Rightarrow> nat" where
  "every_other w 0 = 0"
| "every_other w (Suc n) = mask w + 2 ^ (2 * w) * every_other w n"

lemma and_every_other: "n AND every_other w (Suc m) = take_bit w n + 2 ^ (2 * w) * (drop_bit (2 * w) n AND every_other w m)"
proof -
  have d: "a + 2 ^ (2 * w) * b = a OR push_bit (2 * w) b" if a: "take_bit w a = a" for a b :: nat
  proof -
    have "take_bit w a AND push_bit (2 * w) b = 0"
      by (rule bit_eqI) (auto simp: bit_simps)
    then show ?thesis unfolding a by (simp add: disjunctive_add_eq_or push_bit_eq_mult mult.commute)
  qed
  have "take_bit w (mask w) = (mask w :: nat)" by (rule bit_eqI) (auto simp: bit_simps)
  from d [OF this] d [of "take_bit w n"] show ?thesis
    by (simp add: bit_eq_iff bit_simps) fastforce
qed

text \<open>Masked with every other field kept, a number is the list of its fields at even positions; shifted by one field
  first, of those at odd positions.\<close>

lemma and_firsts:
  assumes "\<forall>x \<in> set xs. x < 2 ^ w" and "length xs = 2 * m"
  shows "fields w xs AND every_other w m = fields (2 * w) (firsts xs)"
  using assms
proof (induction xs arbitrary: m rule: firsts.induct)
  case (1 a b r)
  then obtain m' where m: "m = Suc m'" "length r = 2 * m'" by (cases m) auto
  have "take_bit w (fields w (a # b # r)) = a" using 1(2) by (simp add: take_bit_eq_mod)
  moreover have "drop_bit (2 * w) (fields w (a # b # r)) = fields w r"
    using 1(2) fields_drop [of a w "b # r"] fields_drop [of b w r]
    by (simp add: mult_2 flip: drop_bit_drop_bit del: fields.simps)
  ultimately have "fields w (a # b # r) AND every_other w m = a + 2 ^ (2 * w) * (fields w r AND every_other w m')"
    unfolding m and_every_other by simp
  then show ?case using 1 m by (simp del: every_other.simps)
qed simp_all

lemma and_seconds:
  assumes "\<forall>x \<in> set xs. x < 2 ^ w" and "length xs = 2 * m"
  shows "drop_bit w (fields w xs) AND every_other w m = fields (2 * w) (seconds xs)"
  using assms
proof (induction xs arbitrary: m rule: seconds.induct)
  case (1 a b r)
  then obtain m' where m: "m = Suc m'" "length r = 2 * m'" by (cases m) auto
  have "drop_bit w (fields w (a # b # r)) = fields w (b # r)" using 1(2) fields_drop [of a w "b # r"] by simp
  moreover have "take_bit w (fields w (b # r)) = b" using 1(2) by (simp add: take_bit_eq_mod)
  moreover have "drop_bit (2 * w) (fields w (b # r)) = drop_bit w (fields w r)"
    using 1(2) fields_drop [of b w r] by (simp add: mult_2 flip: drop_bit_drop_bit del: fields.simps)
  ultimately have "drop_bit w (fields w (a # b # r)) AND every_other w m
      = b + 2 ^ (2 * w) * (drop_bit w (fields w r) AND every_other w m')"
    unfolding m and_every_other by simp
  then show ?case using 1 m by (simp del: every_other.simps)
qed simp_all

text \<open>The steps of the count on a list of fields.\<close>

lemma count_step:
  assumes "\<forall>x \<in> set xs. x < 2 ^ w" and "length xs = 2 * m"
  shows "(fields w xs AND every_other w m) + (drop_bit w (fields w xs) AND every_other w m) = fields (2 * w) (pair_sums xs)"
  using and_firsts [OF assms] and_seconds [OF assms] by (simp add: fields_pair_sums)

lemma count_first_step:
  assumes "\<forall>x \<in> set xs. x < 2 ^ 1" and "length xs = 2 * m"
  shows "drop_bit 1 (fields 1 xs) AND every_other 1 m \<le> fields 1 xs"
    and "fields 1 xs - (drop_bit 1 (fields 1 xs) AND every_other 1 m) = fields 2 (pair_sums xs)"
  using fields_split [of 1 xs] and_seconds [OF assms] by (simp_all add: fields_pair_sums)

lemma count_masked_step:
  assumes "\<forall>x \<in> set xs. 2 * x < 2 ^ w" and "length xs = 2 * m"
  shows "(fields w xs + drop_bit w (fields w xs)) AND every_other w m = fields (2 * w) (pair_sums xs)"
proof -
  have "\<forall>x \<in> set xs. x \<le> (2 ^ w - 1) div 2" using assms(1) by auto
  from neighbours_bound [OF this] have "\<forall>x \<in> set (neighbours xs). x \<le> 2 ^ w - 1" by fastforce
  then have "\<forall>x \<in> set (neighbours xs). x < 2 ^ w" by (metis Suc_diff_1 le_imp_less_Suc zero_less_numeral zero_less_power)
  from and_firsts [OF this, of m] assms show ?thesis
    by (subst fields_neighbours) (auto simp: firsts_neighbours)
qed

lemma count_last_step:
  assumes "length xs = 4" and "sum_list xs \<le> 32"
  shows "(let u = fields 8 xs; u = u + drop_bit 8 u; u = u + drop_bit 16 u in u AND 0x3F) = sum_list xs"
    and "(let u = fields 8 xs; u = u + drop_bit 8 u; u = u + drop_bit 16 u in u) < 2 ^ 32"
proof -
  obtain a b c d where xs: "xs = [a, b, c, d]"
    using assms(1) by (auto simp: length_Suc_conv eval_nat_numeral)
  have s: "a + b + c + d \<le> 32" using assms(2) xs by simp
  have "\<forall>x \<in> set xs. x < 2 ^ 8" using s xs by auto
  from fields_neighbours [OF this] have n: "fields 8 xs + drop_bit 8 (fields 8 xs) = fields 8 [a + b, b + c, c + d, d]"
    using xs by simp
  have d: "drop_bit 16 (fields 8 [a + b, b + c, c + d, d]) = fields 8 [c + d, d]"
    using s fields_drop [of "a + b" 8 "[b + c, c + d, d]"] fields_drop [of "b + c" 8 "[c + d, d]"]
    using drop_bit_drop_bit [of 8 8 "fields 8 [a + b, b + c, c + d, d]"] by (simp del: fields.simps)
  have e: "(let u = fields 8 xs; u = u + drop_bit 8 u; u = u + drop_bit 16 u in u)
      = a + b + c + d + 64 * (4 * fields 8 [b + c + d, c + d, d])"
    unfolding Let_def n d by simp
  have "(n AND 0x3F) = n mod 64" for n :: nat
    using take_bit_eq_mask [of 6 n] by (simp add: mask_eq_exp_minus_1 take_bit_eq_mod)
  then show "(let u = fields 8 xs; u = u + drop_bit 8 u; u = u + drop_bit 16 u in u AND 0x3F) = sum_list xs"
    unfolding Let_def by (simp only: e [unfolded Let_def] mod_mult_self2) (use s xs in simp)
  show "(let u = fields 8 xs; u = u + drop_bit 8 u; u = u + drop_bit 16 u in u) < 2 ^ 32"
    unfolding e using s by simp
qed

section \<open>The words\<close>

lemma fields_bits: "fields 1 (map of_bool bs) = horner_sum of_bool 2 bs"
  by (induction bs) simp_all

lemma word_fields: "unat (x :: 32 word) = fields 1 (map (\<lambda>j. of_bool (bit x j)) [0..<32])"
proof -
  have "map (\<lambda>j. of_bool (bit x j) :: nat) [0..<32] = map of_bool (map (bit (unat x)) [0..<32])"
    by (simp add: bit_unsigned_iff)
  then have "fields 1 (map (\<lambda>j. of_bool (bit x j)) [0..<32]) = take_bit 32 (unat x)"
    by (simp only: fields_bits horner_sum_bit_eq_take_bit)
  moreover have "unat x < 2 ^ 32" using unsigned_less [of x, where ?'a = nat] by simp
  ultimately show ?thesis by (simp add: take_bit_nat_eq_self)
qed

lemma sum_of_bools: "sum_list (map (\<lambda>j. of_bool (P j) :: nat) js) = length (filter P js)"
  by (induction js) simp_all

lemma every_other_numeral:
  "every_other w (numeral n) = mask w + 2 ^ (2 * w) * every_other w (pred_numeral n)"
  by (simp add: numeral_eq_Suc)

lemma masks:
  "unat (0x55555555 :: 32 word) = every_other 1 16" "unat (0x33333333 :: 32 word) = every_other 2 8"
  "unat (0x0F0F0F0F :: 32 word) = every_other 4 4"
  by (simp_all add: every_other_numeral mask_eq_exp_minus_1)

lemma unat_plus: "unat x + unat y < 2 ^ 32 \<Longrightarrow> unat (x + y :: 32 word) = unat x + unat y"
  by (simp add: unat_word_ariths)

lemmas unat_bits = unsigned_and_eq unat_drop_bit_eq

text \<open> The count of the bits that are set, computed by adding neighbouring fields in parallel, is the number of
  positions whose bit is set.\<close>

theorem BitCountI32_counts: "unat (BitCountI32 x) = length (filter (bit x) [0..<32])"
proof -
  define b where "b = map (\<lambda>j. of_bool (bit x j) :: nat) [0..<32]"
  define c d e where "c = pair_sums b" and "d = pair_sums c" and "e = pair_sums d"
  define u1 u2 u3 where "u1 = x - (drop_bit 1 x AND 0x55555555)"
    and "u2 = (u1 AND 0x33333333) + (drop_bit 2 u1 AND 0x33333333)" and "u3 = (u2 + drop_bit 4 u2) AND 0x0F0F0F0F"
  have len: "length b = 2 * 16" "length c = 2 * 8" "length d = 2 * 4" "length e = 4"
    by (simp_all add: b_def c_def d_def e_def)
  have b1: "\<forall>k \<in> set b. k \<le> 1" by (simp add: b_def)
  note c1 = pair_sums_bound [OF b1, folded c_def]
  note d1 = pair_sums_bound [OF c1, folded d_def]
  have b2: "\<forall>k \<in> set b. k < 2 ^ 1" using b1 by auto
  have c2: "\<forall>k \<in> set c. k < 2 ^ 2" using c1 by auto
  have d2: "\<forall>k \<in> set d. 2 * k < 2 ^ 4" using d1 by auto
  have d3: "\<forall>k \<in> set d. k < 2 ^ 4" using d1 by auto
  have X: "unat x = fields 1 b" unfolding b_def by (rule word_fields)
  have "unat (drop_bit 1 x AND 0x55555555) = drop_bit 1 (unat x) AND every_other 1 16"
    by (simp only: unat_bits masks)
  then have U1: "unat u1 = fields 2 c"
    using count_first_step [OF b2 len(1)] unfolding u1_def c_def X by (simp add: unat_sub word_le_nat_alt X)
  have s2: "(unat u1 AND every_other 2 8) + (drop_bit 2 (unat u1) AND every_other 2 8) = fields 4 d"
    using count_step [OF c2 len(2)] by (simp add: U1 d_def)
  have "fields 4 d < 2 ^ 32" using fields_lt [OF d3] len(3) by simp
  then have U2: "unat u2 = fields 4 d"
    using s2 unfolding u2_def by (subst unat_plus) (simp_all only: unat_bits masks)
  have "fields 4 d + drop_bit 4 (fields 4 d) < 2 ^ 32"
  proof -
    have "\<forall>k \<in> set (neighbours d). k < 2 ^ 4" using neighbours_bound [OF d1] by auto
    from fields_lt [OF this] len(3) show ?thesis by (simp add: fields_neighbours [OF d3])
  qed
  then have U3: "unat u3 = fields 8 e"
    using count_masked_step [OF d2 len(3)] unfolding u3_def e_def
    by (simp only: unat_bits masks) (simp add: unat_plus unat_bits U2)
  have sum: "sum_list e = length (filter (bit x) [0..<32])"
    by (simp add: e_def d_def c_def sum_pair_sums b_def sum_of_bools)
  also have le: "length (filter (bit x) [0..<32]) \<le> 32" using length_filter_le [of "bit x" "[0..<32]"] by simp
  finally have "sum_list e \<le> 32" .
  note last = count_last_step [OF len(4) this]
  define v where "v = u3 + drop_bit 8 u3"
  have l2: "fields 8 e + drop_bit 8 (fields 8 e) + drop_bit 16 (fields 8 e + drop_bit 8 (fields 8 e)) < 2 ^ 32"
    using last(2) by (simp add: Let_def)
  then have V: "unat v = fields 8 e + drop_bit 8 (fields 8 e)"
    unfolding v_def by (subst unat_plus) (simp_all add: unat_bits U3)
  have "unat (v + drop_bit 16 v) = unat v + drop_bit 16 (unat v)"
    using l2 by (subst unat_plus) (simp_all add: unat_bits V)
  then have "unat ((v + drop_bit 16 v) AND 0x3F) = sum_list e"
    using last(1) by (simp add: unat_bits V Let_def)
  moreover have "BitCountI32 x = (v + drop_bit 16 v) AND 0x3F"
    by (simp only: BitCountI32_def Let_def v_def u1_def u2_def u3_def)
  ultimately show ?thesis using sum by simp
qed

end
