(* ===== verification/Spec2Isabelle.thy ===== *)
theory Spec2Isabelle
  imports Conn_Properties Dsn_Config Data_Query_Paging Descriptor App_Buffer Statement_Props Timestream_Column Column_Props
    Connection_Info Driver_Props Sdk_Lifecycle Number_Props Authentication
    Log_Writer Info_Names Popcount
begin

text \<open>
  \<^bold>\<open>The Amazon Timestream ODBC driver.\<close> An application drives the driver through the functions of the ODBC
  interface (\<^verbatim>\<open>src/entry_points.cpp\<close>, \<^verbatim>\<open>src/odbc.cpp\<close>). Behind the handles are environments, connections,
  statements and descriptors, each with its diagnostic records. A connection is configured by a connection
  string, a data source name, or both, and holds a client of the Timestream service. A statement holds one
  query object, which executes on the service or answers a catalog function, and copies the values of rows
  into buffers of the application. File names below are under \<^verbatim>\<open>src/odbc/\<close>; theories are named in brackets.

  \<^bold>\<open>Foundations.\<close>
  \<^item> [Odbc_Prelude] C character classes, conversions to integer types, truncating division, the string
    helpers of \<^verbatim>\<open>utils.h\<close> and \<^verbatim>\<open>utility.cpp\<close>; [Odbc_Constants] the constants of the ODBC interface.
  \<^item> [Common_Types] \<^verbatim>\<open>common_types.h\<close>: results, states and fields with their conversions; [Diagnostics]
    \<^verbatim>\<open>diagnostic/*.cpp\<close>: records, their storage, the protocol of an API call (\<open>api_call\<close> is
    \<^verbatim>\<open>IGNITE_ODBC_API_CALL\<close>). The interface \<open>diagnosable\<close> states what the protocol gives every kind of handle.
  \<^item> [Bits] leading zeros, decimal digits and capacities on 32 and 64 bit words; [Date_Time] dates, times,
    timestamps and intervals with the calendar of \<^verbatim>\<open>gmtime\<close> and \<^verbatim>\<open>timegm\<close>.
  \<^item> [Utilities] the helpers without a caller in the driver: trailing zeros, signs and byte order, the encoding of
    URLs, the translation of search patterns to regular expressions and points in local time, where
    \<^verbatim>\<open>mktime\<close> is a parameter; [Popcount] the parallel count of set bits equals the number of set positions.

  \<^bold>\<open>Configuration.\<close>
  \<^item> [Configuration] the 27 members, their defaults and rendering; [Conn_String] the parser, which cuts a
    string from the right; [Conn_Round_Trip], [Conn_Render], [Conn_Properties] the round trip through rendering
    and parsing, by the interface \<open>slot\<close> for what one keyword writes, interpreted once per keyword.
  \<^item> [Dsn_Config] \<^verbatim>\<open>dsn_config.cpp\<close>: reading and registering data sources; the installer library is a parameter.
  \<^item> [Connection_Info] (with [Info_Constants]) the answers of \<^verbatim>\<open>SQLGetInfo\<close>; [Function_Table] those of
    \<^verbatim>\<open>SQLGetFunctions\<close> and the entry points that always refuse; [Info_Names] the names of information types.
  \<^item> [Log_Writer] \<^verbatim>\<open>log.cpp\<close>, \<^verbatim>\<open>log.h\<close>: where the lines of the log go, and that the logger implements the record of level
    and path (\<open>logger\<close>) by which the configuration knows it.

  \<^bold>\<open>Values and buffers.\<close>
  \<^item> [App_Buffer], [Text_Buffer], [Wide_Strings], [Buffer_Values] \<^verbatim>\<open>app/application_data_buffer.cpp\<close> and the
    copying of text: the memory of the application is a function from addresses to bytes, a buffer has an
    address, a length and an indicator. Proved: what is written, where, and that repeated reads
    reassemble a value.
  \<^item> [Magnitude], [Big_Integer], [Big_Division], [Big_Text] \<^verbatim>\<open>ignite/common/src/common/big_integer.cpp\<close>: numbers of any
    length as lists of 32-bit words, with the arithmetic of the source on 64-bit words and the number they stand for
    (\<open>mval\<close>, \<open>bi_val\<close>); [Decimal] \<^verbatim>\<open>decimal.cpp\<close>: a big integer with a scale, standing for a rational (\<open>dec_value\<close>);
    [Buffer_Numbers] decimals written to buffers, and the reading of numbers; [Number_Props] their properties.
    Division is Knuth's algorithm D. Its step that repairs a digit never runs, so it is exact under a condition
    on the digits (\<open>divides_exactly\<close>), which holds for divisors of two words and dividends of at most two.
  \<^item> [Type_Traits], [Column_Meta], [Descriptor] types, the metadata of columns and descriptor records.
  \<^item> [Timestream_Column] \<^verbatim>\<open>timestream_column.cpp\<close>: the texts of the service as typed values.

  \<^bold>\<open>Queries.\<close>
  \<^item> [Data_Query] \<^verbatim>\<open>query/data_query.cpp\<close>: execution, the worker that fetches the next page, its queue and lock;
    [Data_Query_Paging] the transition system of fetches and worker steps with its invariant \<open>remaining\<close>: the
    rows to come are those behind the cursor followed by those the worker will bring.
  \<^item> [Catalog_Queries] the interface of a query, as a record of its virtual functions, the locale \<open>row_source\<close>
    for what a statement relies on when it fetches, and the catalog queries that need no service.
  \<^item> [Table_Metadata], [Table_Props] and [Column_Metadata], [Column_Props] the catalogs of tables and columns, which
    send statements to the service and read the answers through local buffers.

  \<^bold>\<open>Handles.\<close>
  \<^item> [Connection] \<^verbatim>\<open>connection.cpp\<close>, \<^verbatim>\<open>environment.cpp\<close>: connecting, releasing, attributes, cursor names;
    [Sdk_Lifecycle] the start and stop of the service's SDK by constructors and destructors in several threads.
  \<^item> [Authentication] \<^verbatim>\<open>authentication/*.cpp\<close>: the Okta and Azure AD providers, joined to the connection that asks them;
    the locale \<open>saml_provider\<close> is the contract of their virtual function.
  \<^item> [Statement], [Statement_Query], [Statement_Props] \<^verbatim>\<open>statement.cpp\<close>: bindings, attributes, the life of the
    current query, the loop over a rowset. \<open>rowset_source\<close> extends \<open>row_source\<close> by that loop and is interpreted for
    data queries, type queries and, in [Driver_Fetch], for queries of every class.
  \<^item> [Driver_State] the state behind the API (\<open>driver\<close>) and the three shapes of a call, on an environment, a
    connection or a statement; [Driver_Api] one definition per function of \<^verbatim>\<open>odbc.cpp\<close>.
  \<^item> [Driver_Handles] no function changes what hangs the handles together, except the few that are meant to;
    [Driver_Runs] the runs of an application (\<open>reachable\<close>) and their invariant; [Driver_Fetch] from the execution of a
    query to the end of its rows; [Driver_Props] the properties of the API as a whole.

  \<^bold>\<open>How the source is read.\<close> Records stand for objects, with the members' names where they are free; a pointer
  to an object of the driver is the address of the object or the object itself where nothing is shared. A
  result \<open>None\<close> is an operation that has no result: a dereferenced null or freed pointer, an exception that
  reaches the application, or waiting for ever. Integers are mathematical, with conversions to the width of
  the source's type written out where a value may leave it (\<open>to_int16\<close>, \<open>to_int32\<close>), and words in [Bits] and the
  big integers.
  Text is a list of characters, one per byte, UTF-8 where the driver uses it, and a list of units where the
  interface has wide characters; the size of a wide character (two or four bytes) is a parameter.

  \<^bold>\<open>Bounds.\<close> Loops that may run for ever are partial functions with values in \<open>option\<close>: \<open>request_loop\<close> follows empty
  pages, \<open>cstr\<close> and \<open>cwstr\<close> look for a terminator, \<open>fetch_names\<close>, \<open>fetch_columns\<close> and \<open>describe_tables\<close> read until the
  query ends. Their results are shown to exist where the service's pages are reached by finitely many tokens
  (\<open>chain\<close>, \<open>lead_chain\<close>). The other loops are structural: \<open>fetch_rows\<close> counts the rows of a rowset, \<open>read_columns\<close> the
  columns, \<open>join_all\<close> the workers, \<open>divide_loop\<close> the digits of a quotient; \<open>qhat_adjust\<close> ends because the digit it corrects
  falls. \<open>print_chunks\<close>, which divides until nothing is left, is a partial function that is shown to return. In the catalogs a worker runs to its end before the next fetch
  (\<open>run_worker_now\<close>); that any other schedule delivers the same rows is the theorem on paging.

  \<^bold>\<open>Parameters.\<close> The service (\<open>service\<close>: the outcome of each request), the HTTP client, the token service and the coders
  of the service's SDK (\<open>identity_services\<close>), the files behind
  data sources, the environment variables, the conversion of narrow text by the locale, floating point
  operations and uninitialised members are arguments of the definitions or fields of \<open>world\<close>.

  \<^bold>\<open>Not modelled.\<close> The dialogs and the other code for Windows (\<^verbatim>\<open>os/timestream/win\<close>), the entry points that only
  forward, the network behind the identity providers, wrappers around the threads, the arrays and the calls of the
  platform (\<^verbatim>\<open>concurrent*\<close>, \<^verbatim>\<open>dynamic_size_array.h\<close>, \<^verbatim>\<open>platform_utils.cpp\<close>), and the programs under \<^verbatim>\<open>performance\<close>. A call on a handle whose parent has been freed counts as
  undefined, and a catalog query is assumed to need the client at every execution.
\<close>

end
